(* ===== verification/Prelude.thy ===== *)
theory Prelude
  imports Main "HOL-Library.Word" "HOL-Library.Sublist"
begin

text \<open>
  Shared vocabulary of the development: Go results as sums, the open universe of Go errors,
  Go strings as byte strings with the functions of the packages \<open>strings\<close>, \<open>unicode\<close> and
  \<open>unicode/utf8\<close> the program calls, and generic lemmas on lists, sums and machine words.

  A Go string is its UTF-8 byte sequence: \<^typ>\<open>string\<close> is a list of 8-bit characters, so
  \<^const>\<open>length\<close> is Go's \<open>len\<close>. An instant is the number of nanoseconds since Go's zero
  time, so \<open>Time.IsZero\<close> is the test against 0 and \<open>Before\<close> is \<open><\<close>.
\<close>

section \<open>Collections and type names\<close>

named_theorems result_simps \<open>rewrite rules of the result combinators\<close>
named_theorems trim_simps \<open>white-space trimming of strings\<close>

type_synonym u64 = "64 word"
type_synonym u32 = "32 word"
type_synonym instant = int

section \<open>Errors and results\<close>

text \<open>
  \<open>ValidationError\<close> is the struct of \<open>internal/domain/validation.go\<close>. Sentinel errors are
  compared by identity in Go (\<open>errors.Is\<close>): \<open>Err\<close> carries the qualified name of the variable,
  so two sentinels are equal exactly when they are the same variable, and an error value that
  comes from outside the program is some other \<open>Err\<close>. \<open>InvalidTransition\<close> is the error struct
  of the state machines, with the wire names of the two states. \<open>Panic\<close> is a run-time panic.
\<close>

record validation_error =
  ve_Field :: string
  ve_Rule :: string
  ve_Message :: string

datatype go_error =
    ValidationErr validation_error
  | ValidationErrs "validation_error list"
  | InvalidTransition string string
  | Err string
  | Panic string

type_synonym 'a result = "go_error + 'a"

definition NewValidationError :: "string \<Rightarrow> string \<Rightarrow> string \<Rightarrow> validation_error" where
  "NewValidationError field rule message =
     \<lparr>ve_Field = field, ve_Rule = rule, ve_Message = message\<rparr>"

abbreviation validation :: "string \<Rightarrow> string \<Rightarrow> string \<Rightarrow> go_error" where
  "validation field rule message \<equiv> ValidationErr (NewValidationError field rule message)"

text \<open>\<open>if err != nil { return err }\<close> followed by the rest of the function.\<close>

definition rbind :: "'a result \<Rightarrow> ('a \<Rightarrow> 'b result) \<Rightarrow> 'b result" where
  "rbind m f = (case m of Inl e \<Rightarrow> Inl e | Inr x \<Rightarrow> f x)"

text \<open>\<open>if guard { return err }\<close> followed by the rest of the function.\<close>

definition reject_if :: "bool \<Rightarrow> go_error \<Rightarrow> 'a result \<Rightarrow> 'a result" where
  "reject_if b e k = (if b then Inl e else k)"

text \<open>\<open>if guard { errs = append(errs, e) }\<close>.\<close>

definition add_if :: "bool \<Rightarrow> validation_error \<Rightarrow> validation_error list" where
  "add_if b e = (if b then [e] else [])"

definition is_ok :: "'a result \<Rightarrow> bool" where
  "is_ok r = (case r of Inl _ \<Rightarrow> False | Inr _ \<Rightarrow> True)"

lemma rbind_Inl [simp, result_simps]: "rbind (Inl e) f = Inl e"
  by (simp add: rbind_def)

lemma rbind_Inr [simp, result_simps]: "rbind (Inr x) f = f x"
  by (simp add: rbind_def)

lemma rbind_eq_Inr [result_simps]: "rbind m f = Inr y \<longleftrightarrow> (\<exists>x. m = Inr x \<and> f x = Inr y)"
  by (cases m) auto

lemma rbind_eq_Inl:
  "rbind m f = Inl e \<longleftrightarrow> m = Inl e \<or> (\<exists>x. m = Inr x \<and> f x = Inl e)"
  by (cases m) auto

lemma reject_if_eq_Inr [result_simps]: "reject_if b e k = Inr y \<longleftrightarrow> \<not> b \<and> k = Inr y"
  by (simp add: reject_if_def)

lemma reject_if_eq_Inl: "reject_if b e k = Inl e' \<longleftrightarrow> (if b then e = e' else k = Inl e')"
  by (simp add: reject_if_def)

lemma reject_if_False [simp]: "reject_if False e k = k"
  by (simp add: reject_if_def)

lemma reject_if_True [simp]: "reject_if True e k = Inl e"
  by (simp add: reject_if_def)

lemma is_ok_simps [simp]: "is_ok (Inr x)" "\<not> is_ok (Inl e)"
  by (simp_all add: is_ok_def)

lemma add_if_Nil [simp]: "add_if b e = [] \<longleftrightarrow> \<not> b"
  by (simp add: add_if_def)

lemma add_if_simps [simp]: "add_if True e = [e]" "add_if False e = []"
  by (simp_all add: add_if_def)

lemma set_add_if [simp]: "set (add_if b e) = (if b then {e} else {})"
  by (simp add: add_if_def)

section \<open>Prefixes and white space\<close>

definition HasPrefix :: "string \<Rightarrow> string \<Rightarrow> bool" where
  "HasPrefix s p \<longleftrightarrow> take (length p) s = p"

definition HasSuffix :: "string \<Rightarrow> string \<Rightarrow> bool" where
  "HasSuffix s p \<longleftrightarrow> HasPrefix (rev s) (rev p)"

definition TrimPrefix :: "string \<Rightarrow> string \<Rightarrow> string" where
  "TrimPrefix s p = (if HasPrefix s p then drop (length p) s else s)"

lemma HasPrefix_iff: "HasPrefix s p \<longleftrightarrow> prefix p s"
  by (auto simp: HasPrefix_def prefix_def) (metis append_take_drop_id)

lemma HasPrefix_Nil [simp]: "HasPrefix s []"
  by (simp add: HasPrefix_def)

lemma HasPrefix_append [simp]: "HasPrefix (p @ s) p"
  by (simp add: HasPrefix_def)

lemma TrimPrefix_append [simp]: "TrimPrefix (p @ s) p = s"
  by (simp add: TrimPrefix_def)

lemma HasPrefix_trans_prefix: "HasPrefix s p \<Longrightarrow> prefix s t \<Longrightarrow> HasPrefix t p"
  by (auto simp: HasPrefix_iff)

text \<open>Drop any of the given non-empty byte sequences from the front, as often as possible.\<close>

function strip_any :: "string list \<Rightarrow> string \<Rightarrow> string" where
  "strip_any ws s =
     (case find (\<lambda>w. w \<noteq> [] \<and> HasPrefix s w) ws of
        None \<Rightarrow> s
      | Some w \<Rightarrow> strip_any ws (drop (length w) s))"
  by pat_completeness auto
termination
  by (relation "measure (\<lambda>(ws, s). length s)")
    (auto simp: find_Some_iff HasPrefix_iff prefix_def)

declare strip_any.simps [simp del]

definition no_prefix_in :: "string list \<Rightarrow> string \<Rightarrow> bool" where
  "no_prefix_in ws s \<longleftrightarrow> (\<forall>w \<in> set ws. w \<noteq> [] \<longrightarrow> \<not> HasPrefix s w)"

lemma find_none_no_prefix:
  "find (\<lambda>w. w \<noteq> [] \<and> HasPrefix s w) ws = None \<longleftrightarrow> no_prefix_in ws s"
  by (auto simp: find_None_iff no_prefix_in_def)

lemma strip_any_no_prefix: "no_prefix_in ws (strip_any ws s)"
proof (induction ws s rule: strip_any.induct)
  case (1 ws s)
  show ?case
  proof (cases "find (\<lambda>w. w \<noteq> [] \<and> HasPrefix s w) ws")
    case None
    then have "no_prefix_in ws s"
      by (simp only: find_none_no_prefix)
    with None show ?thesis
      by (simp add: strip_any.simps [of ws s])
  next
    case (Some w)
    then have "no_prefix_in ws (strip_any ws (drop (length w) s))"
      by (rule "1.IH")
    with Some show ?thesis
      by (subst strip_any.simps) simp
  qed
qed

lemma strip_any_id:
  assumes "no_prefix_in ws s"
  shows "strip_any ws s = s"
proof -
  have "find (\<lambda>w. w \<noteq> [] \<and> HasPrefix s w) ws = None"
    using assms by (simp only: find_none_no_prefix)
  then show ?thesis
    by (simp add: strip_any.simps [of ws s])
qed

lemma strip_any_suffix: "suffix (strip_any ws s) s"
proof (induction ws s rule: strip_any.induct)
  case (1 ws s)
  show ?case
  proof (cases "find (\<lambda>w. w \<noteq> [] \<and> HasPrefix s w) ws")
    case None
    then show ?thesis
      by (subst strip_any.simps) simp
  next
    case (Some w)
    then have "suffix (strip_any ws (drop (length w) s)) (drop (length w) s)"
      by (rule "1.IH")
    then have "suffix (strip_any ws (drop (length w) s)) s"
      by (rule suffix_order.trans) (rule suffix_drop)
    with Some show ?thesis
      by (subst strip_any.simps) simp
  qed
qed

lemma no_prefix_in_prefix: "no_prefix_in ws t \<Longrightarrow> prefix s t \<Longrightarrow> no_prefix_in ws s"
  by (auto simp: no_prefix_in_def dest: HasPrefix_trans_prefix)

text \<open>
  The UTF-8 encodings of the runes \<open>unicode.IsSpace\<close> accepts: U+0009 to U+000D, U+0020, U+0085,
  U+00A0, U+1680, U+2000 to U+200A, U+2028, U+2029, U+202F, U+205F and U+3000.
\<close>

definition space_runes :: "string list" where
  "space_runes =
    [[CHR 0x20], [CHR 0x09], [CHR 0x0A], [CHR 0x0B], [CHR 0x0C], [CHR 0x0D],
     [CHR 0xC2, CHR 0x85], [CHR 0xC2, CHR 0xA0], [CHR 0xE1, CHR 0x9A, CHR 0x80],
     [CHR 0xE2, CHR 0x80, CHR 0x80], [CHR 0xE2, CHR 0x80, CHR 0x81],
     [CHR 0xE2, CHR 0x80, CHR 0x82], [CHR 0xE2, CHR 0x80, CHR 0x83],
     [CHR 0xE2, CHR 0x80, CHR 0x84], [CHR 0xE2, CHR 0x80, CHR 0x85],
     [CHR 0xE2, CHR 0x80, CHR 0x86], [CHR 0xE2, CHR 0x80, CHR 0x87],
     [CHR 0xE2, CHR 0x80, CHR 0x88], [CHR 0xE2, CHR 0x80, CHR 0x89],
     [CHR 0xE2, CHR 0x80, CHR 0x8A], [CHR 0xE2, CHR 0x80, CHR 0xA8],
     [CHR 0xE2, CHR 0x80, CHR 0xA9], [CHR 0xE2, CHR 0x80, CHR 0xAF],
     [CHR 0xE2, CHR 0x81, CHR 0x9F], [CHR 0xE3, CHR 0x80, CHR 0x80]]"

definition TrimSpace :: "string \<Rightarrow> string" where
  "TrimSpace s = rev (strip_any (map rev space_runes) (rev (strip_any space_runes s)))"

lemma TrimSpace_idem [simp, trim_simps]: "TrimSpace (TrimSpace s) = TrimSpace s"
proof -
  let ?l = "strip_any space_runes s"
  let ?r = "strip_any (map rev space_runes) (rev ?l)"
  have "prefix (rev ?r) ?l"
    using strip_any_suffix [of "map rev space_runes" "rev ?l"] by (simp add: suffix_to_prefix)
  then have "no_prefix_in space_runes (rev ?r)"
    by (rule no_prefix_in_prefix [OF strip_any_no_prefix])
  then have "strip_any space_runes (rev ?r) = rev ?r"
    by (rule strip_any_id)
  moreover have "strip_any (map rev space_runes) ?r = ?r"
    by (rule strip_any_id) (rule strip_any_no_prefix)
  ultimately show ?thesis
    by (simp add: TrimSpace_def)
qed

lemma TrimSpace_Nil [simp, trim_simps]: "TrimSpace [] = []"
  using strip_any_suffix [of space_runes "[]"] strip_any_suffix [of "map rev space_runes" "[]"]
  by (simp add: TrimSpace_def)

text \<open>A string that begins and ends with a printable ASCII character is already trimmed.\<close>

definition ascii_graph :: "char \<Rightarrow> bool" where
  "ascii_graph c \<longleftrightarrow> 0x20 < (of_char c :: nat) \<and> (of_char c :: nat) < 0x7F"

definition plain_ends :: "string \<Rightarrow> bool" where
  "plain_ends s \<longleftrightarrow> s = [] \<or> (ascii_graph (hd s) \<and> ascii_graph (last s))"

lemma space_runes_no_graph:
  "\<forall>w \<in> set space_runes. w \<noteq> [] \<and> \<not> ascii_graph (hd w) \<and> \<not> ascii_graph (last w)"
  by (simp add: space_runes_def ascii_graph_def)

lemma no_prefix_in_graph:
  assumes "\<forall>w \<in> set ws. w \<noteq> [] \<longrightarrow> \<not> ascii_graph (hd w)" and "s = [] \<or> ascii_graph (hd s)"
  shows "no_prefix_in ws s"
  using assms by (auto simp: no_prefix_in_def HasPrefix_iff prefix_def)

lemma TrimSpace_plain [trim_simps]: "plain_ends s \<Longrightarrow> TrimSpace s = s"
proof -
  assume p: "plain_ends s"
  have "strip_any space_runes s = s"
    using p space_runes_no_graph
    by (intro strip_any_id no_prefix_in_graph) (auto simp: plain_ends_def)
  moreover have "strip_any (map rev space_runes) (rev s) = rev s"
    using p space_runes_no_graph
    by (intro strip_any_id no_prefix_in_graph) (auto simp: plain_ends_def hd_rev)
  ultimately show ?thesis
    by (simp add: TrimSpace_def)
qed

section \<open>Control characters\<close>

text \<open>
  \<open>strings.IndexFunc(s, unicode.IsControl) >= 0\<close>: some rune of \<open>s\<close> is U+0000 to U+001F or
  U+007F to U+009F. A byte below 0x80 is always a rune of its own, and the byte 0xC2 always starts
  a rune, so the runes U+0080 to U+009F are exactly the pairs 0xC2, 0x80 to 0x9F.
\<close>

definition control_byte :: "char \<Rightarrow> bool" where
  "control_byte c \<longleftrightarrow> (of_char c :: nat) < 0x20 \<or> (of_char c :: nat) = 0x7F"

fun has_control :: "string \<Rightarrow> bool" where
  "has_control [] = False"
| "has_control [c] = control_byte c"
| "has_control (c # d # s) =
     (control_byte c
      \<or> (of_char c = (0xC2 :: nat) \<and> 0x80 \<le> (of_char d :: nat) \<and> (of_char d :: nat) \<le> 0x9F)
      \<or> has_control (d # s))"

end
