(* ===== verification/Digests.thy ===== *)
theory Digests
  imports Prelude
begin

text \<open>
  The parts of Go's standard library that compute digests: \<open>crypto/sha256.Sum256\<close> (FIPS 180-4),
  \<open>crypto/hmac\<close> over it (FIPS 198-1), \<open>encoding/hex.EncodeToString\<close> and
  \<open>encoding/base64.StdEncoding.EncodeToString\<close>, all on byte strings. Every digest the program
  stores is the lowercase hexadecimal text of such a sum, and the lemmas at the end show that this
  text always has the shape the program's digest parser accepts.
\<close>

unbundle bit_operations_syntax

section \<open>SHA-256\<close>

definition sha_K :: "u32 list" where
  "sha_K =
    [0x428A2F98, 0x71374491, 0xB5C0FBCF, 0xE9B5DBA5, 0x3956C25B, 0x59F111F1,
     0x923F82A4, 0xAB1C5ED5, 0xD807AA98, 0x12835B01, 0x243185BE, 0x550C7DC3,
     0x72BE5D74, 0x80DEB1FE, 0x9BDC06A7, 0xC19BF174, 0xE49B69C1, 0xEFBE4786,
     0x0FC19DC6, 0x240CA1CC, 0x2DE92C6F, 0x4A7484AA, 0x5CB0A9DC, 0x76F988DA,
     0x983E5152, 0xA831C66D, 0xB00327C8, 0xBF597FC7, 0xC6E00BF3, 0xD5A79147,
     0x06CA6351, 0x14292967, 0x27B70A85, 0x2E1B2138, 0x4D2C6DFC, 0x53380D13,
     0x650A7354, 0x766A0ABB, 0x81C2C92E, 0x92722C85, 0xA2BFE8A1, 0xA81A664B,
     0xC24B8B70, 0xC76C51A3, 0xD192E819, 0xD6990624, 0xF40E3585, 0x106AA070,
     0x19A4C116, 0x1E376C08, 0x2748774C, 0x34B0BCB5, 0x391C0CB3, 0x4ED8AA4A,
     0x5B9CCA4F, 0x682E6FF3, 0x748F82EE, 0x78A5636F, 0x84C87814, 0x8CC70208,
     0x90BEFFFA, 0xA4506CEB, 0xBEF9A3F7, 0xC67178F2]"

definition sha_H0 :: "u32 list" where
  "sha_H0 =
    [0x6A09E667, 0xBB67AE85, 0x3C6EF372, 0xA54FF53A, 0x510E527F, 0x9B05688C,
     0x1F83D9AB, 0x5BE0CD19]"

definition sha_ch :: "u32 \<Rightarrow> u32 \<Rightarrow> u32 \<Rightarrow> u32" where
  "sha_ch x y z = (x AND y) XOR (NOT x AND z)"

definition sha_maj :: "u32 \<Rightarrow> u32 \<Rightarrow> u32 \<Rightarrow> u32" where
  "sha_maj x y z = (x AND y) XOR (x AND z) XOR (y AND z)"

definition sha_big0 :: "u32 \<Rightarrow> u32" where
  "sha_big0 x = word_rotr 2 x XOR word_rotr 13 x XOR word_rotr 22 x"

definition sha_big1 :: "u32 \<Rightarrow> u32" where
  "sha_big1 x = word_rotr 6 x XOR word_rotr 11 x XOR word_rotr 25 x"

definition sha_small0 :: "u32 \<Rightarrow> u32" where
  "sha_small0 x = word_rotr 7 x XOR word_rotr 18 x XOR drop_bit 3 x"

definition sha_small1 :: "u32 \<Rightarrow> u32" where
  "sha_small1 x = word_rotr 17 x XOR word_rotr 19 x XOR drop_bit 10 x"

text \<open>Big-endian bytes of an integer and the big-endian 32-bit word of four bytes.\<close>

definition be_bytes :: "nat \<Rightarrow> int \<Rightarrow> string" where
  "be_bytes k n = map (\<lambda>i. char_of (n div 256 ^ (k - 1 - i))) [0..<k]"

definition be_word :: "string \<Rightarrow> u32" where
  "be_word bs = of_int (foldl (\<lambda>n c. 256 * n + of_char c) 0 bs)"

definition sha_pad :: "string \<Rightarrow> string" where
  "sha_pad m =
     m @ [CHR 0x80] @ replicate (nat ((55 - int (length m)) mod 64)) (CHR 0x00)
       @ be_bytes 8 (8 * int (length m))"

text \<open>The message schedule, newest word first: word t is built from words t-2, t-7, t-15, t-16.\<close>

fun sha_expand :: "nat \<Rightarrow> u32 list \<Rightarrow> u32 list" where
  "sha_expand 0 ws = ws"
| "sha_expand (Suc n) ws =
     sha_expand n ((sha_small1 (ws ! 1) + ws ! 6 + sha_small0 (ws ! 14) + ws ! 15) # ws)"

definition sha_words :: "string \<Rightarrow> u32 list" where
  "sha_words block = map (\<lambda>i. be_word (take 4 (drop (4 * i) block))) [0..<16]"

definition sha_schedule :: "string \<Rightarrow> u32 list" where
  "sha_schedule block = rev (sha_expand 48 (rev (sha_words block)))"

fun sha_round :: "u32 list \<Rightarrow> u32 \<times> u32 \<Rightarrow> u32 list" where
  "sha_round [a, b, c, d, e, f, g, h] (k, w) =
     (let t1 = h + sha_big1 e + sha_ch e f g + k + w;
          t2 = sha_big0 a + sha_maj a b c
      in [t1 + t2, a, b, c, d + t1, e, f, g])"
| "sha_round st _ = st"

definition sha_block :: "u32 list \<Rightarrow> string \<Rightarrow> u32 list" where
  "sha_block hs block =
     map2 (+) hs (foldl sha_round hs (zip sha_K (sha_schedule block)))"

definition sha_blocks :: "string \<Rightarrow> string list" where
  "sha_blocks m = map (\<lambda>i. take 64 (drop (64 * i) m)) [0..<length m div 64]"

definition Sum256 :: "string \<Rightarrow> string" where
  "Sum256 m = concat (map (\<lambda>w. be_bytes 4 (uint w)) (foldl sha_block sha_H0 (sha_blocks (sha_pad m))))"

section \<open>Hexadecimal and base64 text\<close>

definition hex_digit :: "nat \<Rightarrow> char" where
  "hex_digit n = ''0123456789abcdef'' ! (n mod 16)"

definition hex_encode :: "string \<Rightarrow> string" where
  "hex_encode bs = concat (map (\<lambda>c. [hex_digit (of_char c div 16), hex_digit (of_char c mod 16)]) bs)"

definition b64_digit :: "nat \<Rightarrow> char" where
  "b64_digit n =
     ''ABCDEFGHIJKLMNOPQRSTUVWXYZabcdefghijklmnopqrstuvwxyz0123456789+/'' ! (n mod 64)"

fun base64_std :: "string \<Rightarrow> string" where
  "base64_std (a # b # c # s) =
     (let n = of_char a * 65536 + of_char b * 256 + of_char c :: nat
      in b64_digit (n div 262144) # b64_digit (n div 4096) # b64_digit (n div 64) # b64_digit n
         # base64_std s)"
| "base64_std [a, b] =
     (let n = of_char a * 65536 + of_char b * 256 :: nat
      in [b64_digit (n div 262144), b64_digit (n div 4096), b64_digit (n div 64), CHR ''=''])"
| "base64_std [a] =
     (let n = of_char a * 65536 :: nat
      in [b64_digit (n div 262144), b64_digit (n div 4096), CHR ''='', CHR ''=''])"
| "base64_std [] = []"

section \<open>HMAC-SHA256\<close>

definition xor_byte :: "nat \<Rightarrow> char \<Rightarrow> char" where
  "xor_byte k c = char_of (or k (of_char c) - and k (of_char c) :: nat)"

definition hmac_key :: "string \<Rightarrow> string" where
  "hmac_key secret =
     (let k = (if 64 < length secret then Sum256 secret else secret)
      in k @ replicate (64 - length k) (CHR 0x00))"

definition hmac_sha256 :: "string \<Rightarrow> string \<Rightarrow> string" where
  "hmac_sha256 secret message =
     (let k = hmac_key secret
      in Sum256 (map (xor_byte 0x5C) k @ Sum256 (map (xor_byte 0x36) k @ message)))"

section \<open>Shape of the digests\<close>

definition lower_hex :: "char \<Rightarrow> bool" where
  "lower_hex c \<longleftrightarrow> c \<in> set ''0123456789abcdef''"

lemma length_sha_round [simp]: "length (sha_round st kw) = length st"
  by (cases "(st, kw)" rule: sha_round.cases) (auto simp: Let_def)

lemma length_foldl_sha_round: "length (foldl sha_round st kws) = length st"
  by (induction kws arbitrary: st) auto

lemma length_sha_block: "length (sha_block hs block) = length hs"
  by (simp add: sha_block_def length_foldl_sha_round)

lemma length_foldl_sha_block: "length (foldl sha_block hs bs) = length hs"
  by (induction bs arbitrary: hs) (auto simp: length_sha_block)

lemma length_be_bytes [simp]: "length (be_bytes k n) = k"
  by (simp add: be_bytes_def)

lemma length_Sum256 [simp]: "length (Sum256 m) = 32"
proof -
  let ?ws = "foldl sha_block sha_H0 (sha_blocks (sha_pad m))"
  have "length ?ws = 8"
    by (simp add: length_foldl_sha_block sha_H0_def)
  moreover have "length (concat (map (\<lambda>w. be_bytes 4 (uint w)) ?ws)) = 4 * length ?ws"
    by (simp add: length_concat comp_def sum_list_triv)
  ultimately show ?thesis
    by (simp add: Sum256_def)
qed

lemma hex_digit_lower: "lower_hex (hex_digit n)"
proof -
  have "n mod 16 < length ''0123456789abcdef''" by simp
  then show ?thesis
    unfolding lower_hex_def hex_digit_def by (rule nth_mem)
qed

lemma length_hex_encode [simp]: "length (hex_encode bs) = 2 * length bs"
  by (simp add: hex_encode_def length_concat comp_def sum_list_triv)

lemma hex_encode_lower: "list_all lower_hex (hex_encode bs)"
  by (auto simp: hex_encode_def list_all_iff hex_digit_lower)

lemma sha_pad_length: "64 dvd length (sha_pad m)"
proof -
  define l where "l = int (length m)"
  define k where "k = (55 - l) mod 64"
  have "(l + 9 + k) mod 64 = (l + 9 + (55 - l)) mod 64"
    unfolding k_def by (rule mod_add_right_eq)
  then have "64 dvd l + 9 + k"
    by (simp add: dvd_eq_mod_eq_0)
  moreover have "int (length (sha_pad m)) = l + 9 + k"
    by (simp add: sha_pad_def k_def l_def)
  ultimately have "int 64 dvd int (length (sha_pad m))"
    by simp
  then show ?thesis
    by (simp only: int_dvd_int_iff)
qed

end
