(* ===== verification/Domain.thy ===== *)
theory Domain
  imports Digests
begin

text \<open>
  The package \<open>internal/domain\<close>: field-level validation errors, atomic-unit amounts over
  \<open>math/big\<close>, prefixed identifiers, idempotency keys and timestamps. The ULID library is not part
  of the repository, so every definition that parses or generates an identifier takes it as an
  argument. The lemmas show that amounts are exact non-negative integers with a canonical decimal
  text, that no operation on a parsed amount panics, and which identifiers and keys are accepted.
\<close>

section \<open>Sentinel errors\<close>

abbreviation ErrPermissionDenied :: go_error where
  "ErrPermissionDenied \<equiv> Err ''domain.ErrPermissionDenied''"

abbreviation ErrRateLimitExceeded :: go_error where
  "ErrRateLimitExceeded \<equiv> Err ''domain.ErrRateLimitExceeded''"

abbreviation ErrCommerceUnavailable :: go_error where
  "ErrCommerceUnavailable \<equiv> Err ''domain.ErrCommerceUnavailable''"

section \<open>Validation errors\<close>

definition ValidationError_Error :: "validation_error \<Rightarrow> string" where
  "ValidationError_Error e =
     (if ve_Field e = [] then ve_Message e else ve_Field e @ '': '' @ ve_Message e)"

fun Join :: "string list \<Rightarrow> string \<Rightarrow> string" where
  "Join [] sep = []"
| "Join [s] sep = s"
| "Join (s # t # ss) sep = s @ sep @ Join (t # ss) sep"

definition ValidationErrors_Error :: "validation_error list \<Rightarrow> string" where
  "ValidationErrors_Error es = Join (map ValidationError_Error es) ''; ''"

fun HasField :: "validation_error list \<Rightarrow> string \<Rightarrow> bool" where
  "HasField [] field = False"
| "HasField (e # es) field = (if ve_Field e = field then True else HasField es field)"

lemma HasField_iff: "HasField es field \<longleftrightarrow> field \<in> ve_Field ` set es"
  by (induction es) auto

section \<open>Decimal text\<close>

definition is_digit :: "char \<Rightarrow> bool" where
  "is_digit c \<longleftrightarrow> 48 \<le> (of_char c :: nat) \<and> (of_char c :: nat) \<le> 57"

definition digit_val :: "char \<Rightarrow> nat" where
  "digit_val c = of_char c - 48"

definition digit_char :: "nat \<Rightarrow> char" where
  "digit_char d = char_of (48 + d)"

definition digits_val :: "string \<Rightarrow> nat" where
  "digits_val s = foldl (\<lambda>n c. 10 * n + digit_val c) 0 s"

text \<open>The decimal text of a natural number, as \<open>big.Int.String\<close> and \<open>strconv\<close> print it.\<close>

fun show_nat :: "nat \<Rightarrow> string" where
  "show_nat n =
     (if n < 10 then [digit_char n] else show_nat (n div 10) @ [digit_char (n mod 10)])"

declare show_nat.simps [simp del]

definition show_int :: "int \<Rightarrow> string" where
  "show_int i = (if i < 0 then ''-'' @ show_nat (nat (- i)) else show_nat (nat i))"

lemma is_digit_digit_char [simp]: "d < 10 \<Longrightarrow> is_digit (digit_char d)"
  by (simp add: is_digit_def digit_char_def)

lemma digit_val_digit_char [simp]: "d < 10 \<Longrightarrow> digit_val (digit_char d) = d"
  by (simp add: digit_val_def digit_char_def)

lemma digit_char_digit_val [simp]: "is_digit c \<Longrightarrow> digit_char (digit_val c) = c"
  by (simp add: is_digit_def digit_val_def digit_char_def)

lemma digit_val_less: "is_digit c \<Longrightarrow> digit_val c < 10"
  by (auto simp: is_digit_def digit_val_def)

lemma digit_char_0 [simp]: "digit_char 0 = CHR ''0''"
  by code_simp

lemma digit_char_eq_0: "d < 10 \<Longrightarrow> digit_char d = CHR ''0'' \<longleftrightarrow> d = 0"
  using digit_val_digit_char [of d] digit_val_digit_char [of 0] by fastforce

lemma digit_val_zero: "is_digit c \<Longrightarrow> digit_val c = 0 \<longleftrightarrow> c = CHR ''0''"
  using digit_char_digit_val [of c] digit_val_digit_char [of 0] by fastforce

lemma digits_val_Nil [simp]: "digits_val [] = 0"
  by (simp add: digits_val_def)

lemma digits_val_snoc [simp]: "digits_val (s @ [c]) = 10 * digits_val s + digit_val c"
  by (simp add: digits_val_def)

lemma foldl_digits:
  "foldl (\<lambda>n c. 10 * n + digit_val c) a s = a * 10 ^ length s + digits_val s"
  by (induction s rule: rev_induct) (simp_all add: algebra_simps)

lemma digits_val_Cons: "digits_val (c # s) = digit_val c * 10 ^ length s + digits_val s"
  using foldl_digits [of "digit_val c" s] by (simp add: digits_val_def)

lemma digits_val_bound: "list_all is_digit s \<Longrightarrow> digits_val s < 10 ^ length s"
  by (induction s rule: rev_induct) (auto dest: digit_val_less)

lemma digits_val_show_nat [simp]: "digits_val (show_nat n) = n"
proof (induction n rule: show_nat.induct)
  case (1 n)
  then show ?case
    by (subst show_nat.simps) (auto simp: digits_val_Cons)
qed

lemma show_nat_digits [simp]: "list_all is_digit (show_nat n)"
proof (induction n rule: show_nat.induct)
  case (1 n)
  then show ?case
    by (subst show_nat.simps) auto
qed

lemma show_nat_not_Nil [simp]: "show_nat n \<noteq> []"
  by (subst show_nat.simps) simp

text \<open>A digit string without redundant leading zeros.\<close>

definition canonical_digits :: "string \<Rightarrow> bool" where
  "canonical_digits s \<longleftrightarrow>
     s \<noteq> [] \<and> list_all is_digit s \<and> (hd s = CHR ''0'' \<longrightarrow> s = ''0'')"

lemma show_nat_canonical: "canonical_digits (show_nat n)"
proof (induction n rule: show_nat.induct)
  case (1 n)
  show ?case
  proof (cases "n < 10")
    case True
    then show ?thesis
      by (subst show_nat.simps) (auto simp: canonical_digits_def)
  next
    case False
    then have c: "canonical_digits (show_nat (n div 10))"
      by (rule "1.IH")
    have "show_nat (n div 10) \<noteq> ''0''"
    proof
      assume "show_nat (n div 10) = ''0''"
      then have "n div 10 = digits_val ''0''"
        using digits_val_show_nat [of "n div 10"] by simp
      with False show False
        by (simp add: digits_val_Cons digit_val_def)
    qed
    with False c show ?thesis
      by (subst show_nat.simps) (auto simp: canonical_digits_def hd_append)
  qed
qed

lemma show_nat_inverse: "canonical_digits s \<Longrightarrow> show_nat (digits_val s) = s"
proof (induction s rule: rev_induct)
  case Nil
  then show ?case by (simp add: canonical_digits_def)
next
  case (snoc c s)
  have c: "is_digit c" "digit_val c < 10"
    using snoc.prems by (auto simp: canonical_digits_def digit_val_less)
  show ?case
  proof (cases "s = []")
    case True
    with c show ?thesis
      by (subst show_nat.simps) (simp add: digits_val_Cons)
  next
    case False
    with snoc.prems have s: "canonical_digits s" "hd s \<noteq> CHR ''0''"
      by (auto simp: canonical_digits_def)
    then have IH: "show_nat (digits_val s) = s"
      using snoc.IH by simp
    have "digits_val s \<noteq> 0"
    proof
      assume "digits_val s = 0"
      with IH have "s = ''0''"
        by (simp add: show_nat.simps)
      with s show False by simp
    qed
    with c IH show ?thesis
      by (subst show_nat.simps) simp
  qed
qed

lemma canonical_digits_inj:
  "canonical_digits s \<Longrightarrow> canonical_digits t \<Longrightarrow> digits_val s = digits_val t \<Longrightarrow> s = t"
  by (metis show_nat_inverse)

section \<open>Amounts\<close>

datatype amount = Amount (atomicUnits: string)

definition ParseAmount :: "string \<Rightarrow> amount result" where
  "ParseAmount raw =
     reject_if (\<not> (raw \<noteq> [] \<and> list_all is_digit raw))
       (validation ''amount'' ''atomic_units'' ''must contain decimal digits only'')
       (let canonical = dropWhile (\<lambda>c. c = CHR ''0'') raw
        in Inr (Amount (if canonical = [] then ''0'' else canonical)))"

definition MustParseAmount :: "string \<Rightarrow> amount result" where
  "MustParseAmount raw =
     (case ParseAmount raw of Inl _ \<Rightarrow> Inl (Panic ''domain.MustParseAmount'') | Inr a \<Rightarrow> Inr a)"

definition Amount_String :: "amount \<Rightarrow> string" where
  "Amount_String a = (if atomicUnits a = [] then ''0'' else atomicUnits a)"

text \<open>
  \<open>big.Int.SetString(s, 10)\<close>: an optional sign and at least one decimal digit. An amount whose
  text is not such a number makes \<open>integer\<close> panic.
\<close>

definition SetString10 :: "string \<Rightarrow> int option" where
  "SetString10 s =
     (let neg = HasPrefix s ''-'';
          ds = (if neg \<or> HasPrefix s ''+'' then drop 1 s else s)
      in if ds \<noteq> [] \<and> list_all is_digit ds
         then Some (if neg then - int (digits_val ds) else int (digits_val ds)) else None)"

definition Amount_integer :: "amount \<Rightarrow> int result" where
  "Amount_integer a =
     (case SetString10 (Amount_String a) of
        None \<Rightarrow> Inl (Panic ''domain.Amount contains an invalid internal value'')
      | Some i \<Rightarrow> Inr i)"

definition Cmp :: "int \<Rightarrow> int \<Rightarrow> int" where
  "Cmp x y = (if x < y then -1 else if x = y then 0 else 1)"

definition Amount_Compare :: "amount \<Rightarrow> amount \<Rightarrow> int result" where
  "Amount_Compare a b =
     rbind (Amount_integer a) (\<lambda>x. rbind (Amount_integer b) (\<lambda>y. Inr (Cmp x y)))"

definition Amount_Add :: "amount \<Rightarrow> amount \<Rightarrow> amount result" where
  "Amount_Add a b =
     rbind (Amount_integer a) (\<lambda>x. rbind (Amount_integer b) (\<lambda>y. Inr (Amount (show_int (x + y)))))"

definition Amount_IsZero :: "amount \<Rightarrow> bool" where
  "Amount_IsZero a \<longleftrightarrow> Amount_String a = ''0''"

text \<open>
  Well-formed amounts are the zero value of the struct and those with canonical text; their value
  is the natural number they denote.
\<close>

definition wf_amount :: "amount \<Rightarrow> bool" where
  "wf_amount a \<longleftrightarrow> canonical_digits (Amount_String a)"

definition amount_val :: "amount \<Rightarrow> nat" where
  "amount_val a = digits_val (Amount_String a)"

lemma canonical_digits_0 [simp]: "canonical_digits ''0''"
  using show_nat_canonical [of 0] by (simp add: show_nat.simps)

lemma digits_val_0 [simp]: "digits_val ''0'' = 0"
  by (simp add: digits_val_def digit_val_def)

lemma canonical_strip_zeros:
  assumes "list_all is_digit raw"
  defines "c \<equiv> dropWhile (\<lambda>c. c = CHR ''0'') raw"
  shows "canonical_digits (if c = [] then ''0'' else c)"
    and "digits_val (if c = [] then ''0'' else c) = digits_val raw"
proof -
  have "list_all is_digit c" "c \<noteq> [] \<longrightarrow> hd c \<noteq> CHR ''0''"
    using assms(1) hd_dropWhile [of "\<lambda>c. c = CHR ''0''" raw]
    by (auto simp: c_def list_all_iff simp del: dropWhile_eq_Nil_conv dest: set_dropWhileD)
  then show "canonical_digits (if c = [] then ''0'' else c)"
    by (simp add: canonical_digits_def is_digit_def)
  have "digits_val (dropWhile (\<lambda>c. c = CHR ''0'') raw) = digits_val raw"
    by (induction raw) (simp_all add: digits_val_Cons digit_val_def)
  then have "digits_val c = digits_val raw"
    by (simp only: c_def)
  then show "digits_val (if c = [] then ''0'' else c) = digits_val raw"
    by (cases "c = []") simp_all
qed

lemma digit_not_sign: "is_digit c \<Longrightarrow> c \<noteq> CHR ''-'' \<and> c \<noteq> CHR ''+''"
  by (auto simp: is_digit_def)

lemma canonical_SetString10: "canonical_digits s \<Longrightarrow> SetString10 s = Some (int (digits_val s))"
  by (cases s) (auto simp: SetString10_def canonical_digits_def HasPrefix_def Let_def digit_not_sign)

lemma wf_amount_integer [simp]: "wf_amount a \<Longrightarrow> Amount_integer a = Inr (int (amount_val a))"
  by (simp add: wf_amount_def Amount_integer_def amount_val_def canonical_SetString10)

lemma ParseAmount_ok:
  assumes "ParseAmount raw = Inr a"
  shows "wf_amount a" "amount_val a = digits_val raw" "raw \<noteq> []" "list_all is_digit raw"
proof -
  from assms have raw: "raw \<noteq> []" "list_all is_digit raw"
    and a: "a = Amount (let c = dropWhile (\<lambda>c. c = CHR ''0'') raw in if c = [] then ''0'' else c)"
    by (auto simp: ParseAmount_def result_simps Let_def split: if_splits)
  from raw show "raw \<noteq> []" "list_all is_digit raw" by auto
  have "Amount_String a = (let c = dropWhile (\<lambda>c. c = CHR ''0'') raw in if c = [] then ''0'' else c)"
    by (auto simp: a Amount_String_def Let_def)
  with canonical_strip_zeros [OF raw(2)]
  show "wf_amount a" "amount_val a = digits_val raw"
    by (simp_all add: wf_amount_def amount_val_def Let_def)
qed

lemma ParseAmount_text: "ParseAmount raw = Inr a \<Longrightarrow> atomicUnits a \<noteq> []"
  by (cases "dropWhile (\<lambda>c. c = CHR ''0'') raw")
    (auto simp: ParseAmount_def result_simps simp del: dropWhile_eq_Nil_conv)

lemma wf_amount_eqI:
  "wf_amount a \<Longrightarrow> wf_amount b \<Longrightarrow> amount_val a = amount_val b \<Longrightarrow> Amount_String a = Amount_String b"
  by (simp add: wf_amount_def amount_val_def canonical_digits_inj)

lemma wf_amount_IsZero: "wf_amount a \<Longrightarrow> Amount_IsZero a \<longleftrightarrow> amount_val a = 0"
  unfolding Amount_IsZero_def wf_amount_def amount_val_def
  using canonical_digits_inj [OF _ canonical_digits_0] digits_val_0 by metis

lemma wf_amount_Compare [simp]:
  "wf_amount a \<Longrightarrow> wf_amount b \<Longrightarrow>
     Amount_Compare a b = Inr (Cmp (int (amount_val a)) (int (amount_val b)))"
  by (simp add: Amount_Compare_def)

lemma wf_amount_Add:
  assumes "wf_amount a" "wf_amount b"
  obtains c where "Amount_Add a b = Inr c" "wf_amount c" "amount_val c = amount_val a + amount_val b"
proof
  let ?c = "Amount (show_nat (amount_val a + amount_val b))"
  have "nat (int (amount_val a) + int (amount_val b)) = amount_val a + amount_val b"
    by (simp add: nat_add_distrib)
  with assms show "Amount_Add a b = Inr ?c"
    by (simp add: Amount_Add_def show_int_def)
  show "wf_amount ?c" "amount_val ?c = amount_val a + amount_val b"
    by (simp_all add: wf_amount_def amount_val_def Amount_String_def show_nat_canonical)
qed

lemma Cmp_simps [simp]:
  "0 < Cmp x y \<longleftrightarrow> y < x" "Cmp x y < 0 \<longleftrightarrow> x < y" "0 \<le> Cmp x y \<longleftrightarrow> y \<le> x" "Cmp x y = 0 \<longleftrightarrow> x = y"
  by (auto simp: Cmp_def)

section \<open>Identifiers\<close>

abbreviation "SellerIDPrefix \<equiv> ''sel_''"
abbreviation "CredentialIDPrefix \<equiv> ''key_''"
abbreviation "CapabilityIDPrefix \<equiv> ''cap_''"
abbreviation "MCPConfirmationGrantIDPrefix \<equiv> ''mcg_''"
abbreviation "PaymentDestinationIDPrefix \<equiv> ''dst_''"
abbreviation "WebhookSubscriptionIDPrefix \<equiv> ''whk_''"
abbreviation "WebhookDeliveryIDPrefix \<equiv> ''whd_''"
abbreviation "AuditEventIDPrefix \<equiv> ''aud_''"
abbreviation "UsageMeterEventIDPrefix \<equiv> ''mtr_''"
abbreviation "RouteIDPrefix \<equiv> ''rte_''"
abbreviation "IntentIDPrefix \<equiv> ''int_''"
abbreviation "ApprovalIDPrefix \<equiv> ''aps_''"
abbreviation "TransactionIDPrefix \<equiv> ''txn_''"
abbreviation "EvidenceIDPrefix \<equiv> ''evt_''"
abbreviation "DisputeIDPrefix \<equiv> ''dsp_''"

type_synonym ID = string

definition supportedIDPrefixes :: "string list" where
  "supportedIDPrefixes =
     [SellerIDPrefix, CredentialIDPrefix, CapabilityIDPrefix, MCPConfirmationGrantIDPrefix,
      PaymentDestinationIDPrefix, WebhookSubscriptionIDPrefix, WebhookDeliveryIDPrefix,
      AuditEventIDPrefix, UsageMeterEventIDPrefix, RouteIDPrefix, IntentIDPrefix,
      ApprovalIDPrefix, TransactionIDPrefix, EvidenceIDPrefix, DisputeIDPrefix]"

definition prefix_supported :: "string \<Rightarrow> bool" where
  "prefix_supported p = list_ex (\<lambda>q. p = q) supportedIDPrefixes"

definition ID_Prefix :: "ID \<Rightarrow> string" where
  "ID_Prefix raw =
     (case find (\<lambda>p. HasPrefix raw p) supportedIDPrefixes of None \<Rightarrow> [] | Some p \<Rightarrow> p)"

text \<open>\<open>ulid\<close> says whether \<open>ulid.ParseStrict\<close> accepts a string.\<close>

definition ParseID :: "(string \<Rightarrow> bool) \<Rightarrow> string \<Rightarrow> string \<Rightarrow> ID result" where
  "ParseID ulid raw expectedPrefix =
     reject_if (raw = []) (validation ''id'' ''required'' ''is required'')
     (reject_if (\<not> prefix_supported expectedPrefix \<or> \<not> HasPrefix raw expectedPrefix)
        (validation ''id'' ''prefix'' ''does not match the expected domain prefix'')
     (reject_if (\<not> ulid (TrimPrefix raw expectedPrefix))
        (validation ''id'' ''format'' ''must contain a canonical ULID'')
     (Inr raw)))"

text \<open>\<open>fresh\<close> is the result of \<open>ulid.New\<close> on the clock and the entropy source.\<close>

definition ULIDGenerator_New :: "string result \<Rightarrow> string \<Rightarrow> ID result" where
  "ULIDGenerator_New fresh p =
     reject_if (\<not> prefix_supported p)
       (validation ''prefix'' ''unsupported'' ''is not a supported domain ID prefix'')
       (rbind fresh (\<lambda>identifier. Inr (p @ identifier)))"

lemma ParseID_eq_Inr:
  "ParseID ulid raw p = Inr x \<longleftrightarrow>
     x = raw \<and> raw \<noteq> [] \<and> prefix_supported p \<and> HasPrefix raw p \<and> ulid (TrimPrefix raw p)"
  by (auto simp: ParseID_def result_simps)

lemma ParseID_is_ok:
  "is_ok (ParseID ulid raw p) \<longleftrightarrow>
     raw \<noteq> [] \<and> prefix_supported p \<and> HasPrefix raw p \<and> ulid (TrimPrefix raw p)"
  by (auto simp: ParseID_def reject_if_def)

lemma ParseID_cases:
  "(\<exists>e. ParseID ulid raw p = Inl e) \<or> ParseID ulid raw p = Inr raw"
  by (auto simp: ParseID_def reject_if_def)

lemma supported_prefix_length: "prefix_supported p \<Longrightarrow> length p = 4"
  by (auto simp: prefix_supported_def supportedIDPrefixes_def)

lemma ID_Prefix_supported:
  assumes "prefix_supported p" "HasPrefix raw p"
  shows "ID_Prefix raw = p"
proof -
  have p: "p \<in> set supportedIDPrefixes"
    using assms(1) by (simp add: prefix_supported_def list_ex_iff)
  have "\<exists>q. find (HasPrefix raw) supportedIDPrefixes = Some q"
    using p assms(2) find_None_iff [of "HasPrefix raw" supportedIDPrefixes]
    by (cases "find (HasPrefix raw) supportedIDPrefixes") auto
  then obtain q where q: "find (HasPrefix raw) supportedIDPrefixes = Some q" ..
  then have "q \<in> set supportedIDPrefixes" "HasPrefix raw q"
    by (auto simp: find_Some_iff)
  moreover then have "length q = length p"
    using assms supported_prefix_length by (auto simp: prefix_supported_def list_ex_iff)
  ultimately have "q = p"
    using assms(2) by (simp add: HasPrefix_def)
  with q show ?thesis
    by (simp add: ID_Prefix_def)
qed

section \<open>Idempotency keys\<close>

definition idempotency_char :: "char \<Rightarrow> bool" where
  "idempotency_char c \<longleftrightarrow>
     (let n = of_char c :: nat
      in (65 \<le> n \<and> n \<le> 90) \<or> (97 \<le> n \<and> n \<le> 122) \<or> (48 \<le> n \<and> n \<le> 57) \<or> c \<in> set ''._:-'')"

definition ParseIdempotencyKey :: "string \<Rightarrow> string result" where
  "ParseIdempotencyKey raw =
     reject_if (length raw < 8 \<or> 128 < length raw \<or> \<not> (raw \<noteq> [] \<and> list_all idempotency_char raw))
       (validation ''idempotencyKey'' ''format''
          ''must be 8-128 characters using letters, digits, dot, underscore, colon, or hyphen'')
       (Inr raw)"

record IdempotencyRecord =
  ir_Scope :: string
  ir_Key :: string
  ir_RequestHash :: string
  ir_ResponseStatus :: int
  ir_ResponseBody :: string
  ir_CreatedAt :: instant
  ir_ExpiresAt :: instant

lemma ParseIdempotencyKey_eq_Inr:
  "ParseIdempotencyKey raw = Inr k \<longleftrightarrow>
     k = raw \<and> 8 \<le> length raw \<and> length raw \<le> 128 \<and> list_all idempotency_char raw"
  by (auto simp: ParseIdempotencyKey_def result_simps)

lemma idempotency_char_graph: "idempotency_char c \<Longrightarrow> ascii_graph c"
  by (auto simp: idempotency_char_def ascii_graph_def Let_def)

lemma TrimSpace_idempotency_key: "ParseIdempotencyKey raw = Inr k \<Longrightarrow> TrimSpace k = k"
  by (rule TrimSpace_plain)
    (auto simp: ParseIdempotencyKey_eq_Inr plain_ends_def list_all_iff intro!: idempotency_char_graph)

section \<open>Timestamps\<close>

text \<open>
  \<open>NewTimestamp\<close> and \<open>Clock.Now\<close> only drop the location and the monotonic reading, neither of
  which an instant has.
\<close>

definition Timestamp_Add :: "instant \<Rightarrow> int \<Rightarrow> instant" where
  "Timestamp_Add t d = t + d"

definition Timestamp_Before :: "instant \<Rightarrow> instant \<Rightarrow> bool" where
  "Timestamp_Before t u \<longleftrightarrow> t < u"

abbreviation Millisecond :: int where "Millisecond \<equiv> 1000000"
abbreviation Second :: int where "Second \<equiv> 1000000000"
abbreviation Minute :: int where "Minute \<equiv> 60 * Second"
abbreviation Hour :: int where "Hour \<equiv> 60 * Minute"

section \<open>Properties\<close>

text \<open>
  \<open>ParseAmount\<close> accepts exactly the non-empty strings of decimal digits and rejects everything
  else with the one field error; the amount it returns denotes the number the digits denote, is
  canonical, and printing it and parsing the text again gives the same amount.
\<close>

theorem ParseAmount_canonical:
  "(\<forall>a. ParseAmount raw = Inr a \<longrightarrow>
      amount_val a = digits_val raw \<and> canonical_digits (Amount_String a)
      \<and> ParseAmount (Amount_String a) = Inr a)
   \<and> (is_ok (ParseAmount raw) \<longleftrightarrow> raw \<noteq> [] \<and> list_all is_digit raw)
   \<and> (\<not> is_ok (ParseAmount raw) \<longrightarrow>
      ParseAmount raw
        = Inl (validation ''amount'' ''atomic_units'' ''must contain decimal digits only''))"
proof (intro conjI allI impI)
  fix a
  assume p: "ParseAmount raw = Inr a"
  show "amount_val a = digits_val raw" "canonical_digits (Amount_String a)"
    using ParseAmount_ok [OF p] by (simp_all add: wf_amount_def)
  have c: "canonical_digits (Amount_String a)" "atomicUnits a \<noteq> []"
    using ParseAmount_ok(1) [OF p] ParseAmount_text [OF p] by (simp_all add: wf_amount_def)
  then obtain b where b: "ParseAmount (Amount_String a) = Inr b"
    by (simp add: ParseAmount_def canonical_digits_def Let_def)
  then have "Amount_String b = Amount_String a"
    using c ParseAmount_ok [OF b] by (intro wf_amount_eqI) (simp_all add: wf_amount_def amount_val_def)
  moreover have "atomicUnits b \<noteq> []"
    using b by (rule ParseAmount_text)
  ultimately show "ParseAmount (Amount_String a) = Inr a"
    using b c by (cases a; cases b) (simp add: Amount_String_def)
qed (auto simp: ParseAmount_def reject_if_def Let_def)

theorem ParseAmount_canonical_witness:
  "ParseAmount ''0042'' = Inr (Amount ''42'') \<and> amount_val (Amount ''42'') = digits_val ''0042''"
  using ParseAmount_canonical [of "''0042''"]
  by (simp add: ParseAmount_def reject_if_def is_digit_def)

text \<open>
  Arithmetic on parsed amounts never panics and is exact at any size: \<open>Compare\<close> is the
  comparison of the denoted numbers, \<open>Add\<close> returns an amount that denotes their sum, its text is
  canonical again, and \<open>IsZero\<close> recognises exactly zero.
\<close>

theorem Amount_arithmetic_exact:
  assumes "ParseAmount r = Inr a" "ParseAmount s = Inr b"
  shows "Amount_Compare a b = Inr (Cmp (int (digits_val r)) (int (digits_val s)))
    \<and> (\<exists>c. Amount_Add a b = Inr c \<and> wf_amount c \<and> amount_val c = digits_val r + digits_val s)
    \<and> (Amount_IsZero a \<longleftrightarrow> digits_val r = 0)"
proof -
  note a = ParseAmount_ok [OF assms(1)] and b = ParseAmount_ok [OF assms(2)]
  obtain c where "Amount_Add a b = Inr c" "wf_amount c"
      "amount_val c = amount_val a + amount_val b"
    using a b by (blast elim: wf_amount_Add)
  with a b show ?thesis
    by (auto simp: wf_amount_IsZero)
qed

theorem Amount_arithmetic_exact_witness:
  "Amount_Compare (Amount ''999'') (Amount ''1000'') = Inr (-1)"
proof -
  have "ParseAmount ''999'' = Inr (Amount ''999'')" "ParseAmount ''1000'' = Inr (Amount ''1000'')"
    by (simp_all add: ParseAmount_def reject_if_def is_digit_def)
  from Amount_arithmetic_exact [OF this] show ?thesis
    by (simp add: digits_val_def digit_val_def Cmp_def)
qed

text \<open>
  C3: a parsed identifier is the raw text, carries the expected prefix and no other: \<open>Prefix\<close>
  reads back exactly the prefix it was parsed with, so an identifier accepted for one kind of
  entity is rejected for every other kind. An identifier the generator makes from a canonical
  ULID parses again.
\<close>

theorem ParseID_prefix:
  assumes "ParseID ulid raw p = Inr x"
  shows "x = raw \<and> ID_Prefix x = p \<and> (\<forall>q. q \<noteq> p \<longrightarrow> \<not> is_ok (ParseID ulid raw q))
    \<and> (\<forall>u y. ulid u \<longrightarrow> ULIDGenerator_New (Inr u) p = Inr y \<longrightarrow> ParseID ulid y p = Inr y)"
proof -
  have p: "x = raw" "prefix_supported p" "HasPrefix raw p"
    using assms by (auto simp: ParseID_eq_Inr)
  moreover have "q = p" if "is_ok (ParseID ulid raw q)" for q
    using that p ID_Prefix_supported [of p raw] ID_Prefix_supported [of q raw]
    by (auto simp: ParseID_is_ok)
  moreover have "ParseID ulid y p = Inr y" if "ulid u" "ULIDGenerator_New (Inr u) p = Inr y" for u y
    using that supported_prefix_length [OF p(2)]
    by (auto simp: ULIDGenerator_New_def result_simps ParseID_eq_Inr)
  ultimately show ?thesis
    by (auto simp: ID_Prefix_supported)
qed

theorem ParseID_prefix_witness:
  "ID_Prefix ''int_01ARZ3NDEKTSV4RRFFQ69G5FAV'' = IntentIDPrefix
   \<and> \<not> is_ok (ParseID (\<lambda>s. length s = 26) ''int_01ARZ3NDEKTSV4RRFFQ69G5FAV'' TransactionIDPrefix)"
proof -
  have "ParseID (\<lambda>s. length s = 26) ''int_01ARZ3NDEKTSV4RRFFQ69G5FAV'' IntentIDPrefix
      = Inr ''int_01ARZ3NDEKTSV4RRFFQ69G5FAV''"
    by (simp add: ParseID_eq_Inr prefix_supported_def supportedIDPrefixes_def HasPrefix_def
        TrimPrefix_def)
  from ParseID_prefix [OF this] show ?thesis
    by simp
qed

end
