(* ===== verification/Policy.thy ===== *)
theory Policy
  imports Domain
begin

text \<open>
  The package \<open>internal/policy\<close>: the deterministic approval-threshold rule. A purchase at or above
  the seller's threshold needs the buyer's approval; the rule never panics on parsed amounts.
\<close>

datatype ApprovalRequirement = ApprovalNotRequired | ApprovalRequired

datatype ApprovalReason =
  ApprovalReasonNoThreshold | ApprovalReasonBelowThreshold | ApprovalReasonThresholdReached

record ApprovalDecision =
  ad_Requirement :: ApprovalRequirement
  ad_Reason :: ApprovalReason
  ad_PolicyVersion :: string
  ad_Amount :: amount
  ad_Threshold :: "amount option"

abbreviation "ApprovalThresholdPolicyVersion \<equiv> ''approval-threshold-v1''"

definition Decision_RequiresApproval :: "ApprovalDecision \<Rightarrow> bool" where
  "Decision_RequiresApproval d \<longleftrightarrow> ad_Requirement d = ApprovalRequired"

definition evaluateApprovalThreshold :: "amount \<Rightarrow> amount option \<Rightarrow> ApprovalDecision result" where
  "evaluateApprovalThreshold a threshold =
     reject_if (Amount_IsZero a) (validation ''amount'' ''positive'' ''must be greater than zero'')
     (let decision = \<lparr>ad_Requirement = ApprovalNotRequired, ad_Reason = ApprovalReasonNoThreshold,
                      ad_PolicyVersion = ApprovalThresholdPolicyVersion, ad_Amount = a,
                      ad_Threshold = None\<rparr>
      in case threshold of
           None \<Rightarrow> Inr decision
         | Some t \<Rightarrow>
             rbind (Amount_Compare a t) (\<lambda>c.
               if c \<ge> 0
               then Inr (decision\<lparr>ad_Threshold := Some t, ad_Requirement := ApprovalRequired,
                                 ad_Reason := ApprovalReasonThresholdReached\<rparr>)
               else Inr (decision\<lparr>ad_Threshold := Some t,
                                 ad_Reason := ApprovalReasonBelowThreshold\<rparr>)))"

text \<open>
  On well-formed amounts the threshold rule never panics; it rejects exactly the zero amount,
  and the decision it returns requires approval exactly when there is a threshold and the amount
  reaches it (inclusively). The reason names the same case, and amount and threshold are recorded
  unchanged.
\<close>

theorem evaluateApprovalThreshold_inclusive:
  assumes "wf_amount a" "\<And>t. threshold = Some t \<Longrightarrow> wf_amount t"
  shows "if amount_val a = 0
    then evaluateApprovalThreshold a threshold
      = Inl (validation ''amount'' ''positive'' ''must be greater than zero'')
    else \<exists>d. evaluateApprovalThreshold a threshold = Inr d
      \<and> (Decision_RequiresApproval d \<longleftrightarrow> (\<exists>t. threshold = Some t \<and> amount_val t \<le> amount_val a))
      \<and> (ad_Reason d = ApprovalReasonNoThreshold \<longleftrightarrow> threshold = None)
      \<and> (ad_Reason d = ApprovalReasonThresholdReached \<longleftrightarrow> Decision_RequiresApproval d)
      \<and> ad_Amount d = a \<and> ad_Threshold d = threshold"
  using assms
  by (cases threshold) (auto simp: evaluateApprovalThreshold_def wf_amount_IsZero Let_def
      Decision_RequiresApproval_def)

theorem evaluateApprovalThreshold_inclusive_witness:
  "\<exists>d. evaluateApprovalThreshold (Amount ''50'') (Some (Amount ''50'')) = Inr d
     \<and> Decision_RequiresApproval d"
proof -
  have wf: "wf_amount (Amount ''50'')"
    by (simp add: wf_amount_def Amount_String_def canonical_digits_def is_digit_def)
  have "amount_val (Amount ''50'') = 50"
    by (simp add: amount_val_def Amount_String_def digits_val_def digit_val_def)
  with evaluateApprovalThreshold_inclusive
    [of "Amount ''50''" "Some (Amount ''50'')"] wf show ?thesis
    by auto
qed

end
