(* ===== verification/Encoding.thy ===== *)
theory Encoding
  imports Domain
begin

text \<open>
  The wire encodings of Go's standard library the program hashes or signs: \<open>encoding/json.Marshal\<close>
  of the values it marshals and \<open>time.Time.Format(time.RFC3339Nano)\<close> of a UTC instant. The JSON
  canonicalisation of RFC 8785 comes from a third-party package and is an argument of every
  definition that uses it.
\<close>

section \<open>JSON\<close>

text \<open>\<open>JInt\<close> is a Go integer, \<open>JNumber\<close> a \<open>json.Number\<close>, the literal of a number read from JSON.\<close>

datatype json =
    JNull
  | JBool bool
  | JInt int
  | JNumber string
  | JString string
  | JArray "json list"
  | JObject "(string \<times> json) list"

text \<open>
  The length of the well-formed UTF-8 sequence a string starts with, or 0: no overlong forms, no
  surrogates, nothing above U+10FFFF.
\<close>

definition byte_in :: "char \<Rightarrow> nat \<Rightarrow> nat \<Rightarrow> bool" where
  "byte_in c lo hi \<longleftrightarrow> lo \<le> of_char c \<and> of_char c \<le> hi"

definition utf8_continuation :: "nat \<Rightarrow> (nat \<times> nat) list option" where
  "utf8_continuation n =
     (if n < 0x80 then Some []
      else if 0xC2 \<le> n \<and> n \<le> 0xDF then Some [(0x80, 0xBF)]
      else if 0xE0 \<le> n \<and> n \<le> 0xEF then
        Some [(if n = 0xE0 then 0xA0 else 0x80, if n = 0xED then 0x9F else 0xBF), (0x80, 0xBF)]
      else if 0xF0 \<le> n \<and> n \<le> 0xF4 then
        Some [(if n = 0xF0 then 0x90 else 0x80, if n = 0xF4 then 0x8F else 0xBF),
              (0x80, 0xBF), (0x80, 0xBF)]
      else None)"

fun bytes_match :: "(nat \<times> nat) list \<Rightarrow> string \<Rightarrow> bool" where
  "bytes_match [] s = True"
| "bytes_match ((lo, hi) # rs) [] = False"
| "bytes_match ((lo, hi) # rs) (c # s) = (byte_in c lo hi \<and> bytes_match rs s)"

fun utf8_len :: "string \<Rightarrow> nat" where
  "utf8_len [] = 0"
| "utf8_len (a # s) =
     (case utf8_continuation (of_char a) of
        None \<Rightarrow> 0
      | Some rs \<Rightarrow> if bytes_match rs s then Suc (length rs) else 0)"

text \<open>One ASCII byte inside a JSON string, with the HTML-safe escaping of \<open>json.Marshal\<close>.\<close>

definition json_ascii :: "char \<Rightarrow> string" where
  "json_ascii c =
     (if c = CHR 0x22 then [CHR 0x5C, CHR 0x22]
      else if c = CHR 0x5C then [CHR 0x5C, CHR 0x5C]
      else if c = CHR 0x08 then CHR 0x5C # ''b''
      else if c = CHR 0x0C then CHR 0x5C # ''f''
      else if c = CHR 0x0A then CHR 0x5C # ''n''
      else if c = CHR 0x0D then CHR 0x5C # ''r''
      else if c = CHR 0x09 then CHR 0x5C # ''t''
      else if (of_char c :: nat) < 0x20 \<or> c \<in> set ''<>&'' then CHR 0x5C # ''u00'' @ hex_encode [c]
      else [c])"

text \<open>An ill-formed byte becomes U+FFFD; U+2028 and U+2029 are escaped.\<close>

function json_chars :: "string \<Rightarrow> string" where
  "json_chars [] = []"
| "json_chars (a # s) =
     (let k = utf8_len (a # s)
      in if k = 0 then CHR 0x5C # ''ufffd'' @ json_chars s
         else if k = 1 then json_ascii a @ json_chars s
         else if take 3 (a # s) = [CHR 0xE2, CHR 0x80, CHR 0xA8]
           then CHR 0x5C # ''u2028'' @ json_chars (drop (k - 1) s)
         else if take 3 (a # s) = [CHR 0xE2, CHR 0x80, CHR 0xA9]
           then CHR 0x5C # ''u2029'' @ json_chars (drop (k - 1) s)
         else take k (a # s) @ json_chars (drop (k - 1) s))"
  by pat_completeness auto
termination
  by (relation "measure length") auto

definition json_quote :: "string \<Rightarrow> string" where
  "json_quote s = [CHR 0x22] @ json_chars s @ [CHR 0x22]"

fun json_encode :: "json \<Rightarrow> string" where
  "json_encode JNull = ''null''"
| "json_encode (JBool b) = (if b then ''true'' else ''false'')"
| "json_encode (JInt i) = show_int i"
| "json_encode (JNumber s) = s"
| "json_encode (JString s) = json_quote s"
| "json_encode (JArray vs) = ''['' @ Join (map json_encode vs) '','' @ '']''"
| "json_encode (JObject fs) =
     ''{'' @ Join (map (\<lambda>(k, v). json_quote k @ '':'' @ json_encode v) fs) '','' @ ''}''"

text \<open>A struct field with the tag option \<open>omitempty\<close>.\<close>

definition omit_empty :: "string \<Rightarrow> string \<Rightarrow> (string \<times> json) list" where
  "omit_empty k s = (if s = [] then [] else [(k, JString s)])"

section \<open>RFC 3339\<close>

text \<open>Year, month and day of the proleptic Gregorian calendar from days since 1 January 1.\<close>

definition leap_year :: "int \<Rightarrow> bool" where
  "leap_year y \<longleftrightarrow> y mod 4 = 0 \<and> (y mod 100 \<noteq> 0 \<or> y mod 400 = 0)"

fun month_day :: "int list \<Rightarrow> int \<Rightarrow> int \<Rightarrow> int \<times> int" where
  "month_day [] m d = (m, d + 1)"
| "month_day (k # ks) m d = (if d < k then (m, d + 1) else month_day ks (m + 1) (d - k))"

definition civil_date :: "int \<Rightarrow> int \<times> int \<times> int" where
  "civil_date days =
     (let d1 = days mod 146097;
          c = min 3 (d1 div 36524); d2 = d1 - 36524 * c;
          q = d2 div 1461; d3 = d2 - 1461 * q;
          y = min 3 (d3 div 365); yday = d3 - 365 * y;
          year = 400 * (days div 146097) + 100 * c + 4 * q + y + 1
      in (year, month_day [31, if leap_year year then 29 else 28, 31, 30, 31, 30, 31, 31, 30, 31, 30, 31]
            1 yday))"

definition pad_digits :: "nat \<Rightarrow> int \<Rightarrow> string" where
  "pad_digits w i =
     (let s = show_nat (nat \<bar>i\<bar>)
      in (if i < 0 then ''-'' else []) @ replicate (w - length s) (CHR ''0'') @ s)"

definition fraction :: "int \<Rightarrow> string" where
  "fraction nanos =
     (if nanos = 0 then []
      else ''.'' @ rev (dropWhile (\<lambda>c. c = CHR ''0'') (rev (pad_digits 9 nanos))))"

definition FormatRFC3339Nano :: "instant \<Rightarrow> string" where
  "FormatRFC3339Nano t =
     (let secs = t div Second; days = secs div 86400; sod = secs mod 86400;
          (y, mo, d) = civil_date days
      in pad_digits 4 y @ ''-'' @ pad_digits 2 mo @ ''-'' @ pad_digits 2 d @ ''T''
         @ pad_digits 2 (sod div 3600) @ '':'' @ pad_digits 2 (sod div 60 mod 60) @ '':''
         @ pad_digits 2 (sod mod 60) @ fraction (t mod Second) @ ''Z'')"

section \<open>Digests of canonical values\<close>

definition hashBytes :: "string \<Rightarrow> string" where
  "hashBytes bytes = hex_encode (Sum256 bytes)"

text \<open>
  \<open>jcs\<close> stands for \<open>jcs.Transform\<close>. The standard encoder never fails on the values the program
  hashes.
\<close>

definition hashCanonicalValue :: "(string \<Rightarrow> string result) \<Rightarrow> string \<Rightarrow> json \<Rightarrow> string result" where
  "hashCanonicalValue jcs domainSeparator v =
     rbind (jcs (json_encode v))
       (\<lambda>canonical. Inr (hashBytes (domainSeparator @ [CHR 0x00] @ canonical)))"

definition sha256_digest :: "string \<Rightarrow> bool" where
  "sha256_digest s \<longleftrightarrow> length s = 64 \<and> list_all lower_hex s"

lemma hashBytes_digest [simp]: "sha256_digest (hashBytes bs)"
  by (simp add: sha256_digest_def hashBytes_def hex_encode_lower)

lemma hashCanonicalValue_digest: "hashCanonicalValue jcs sep v = Inr h \<Longrightarrow> sha256_digest h"
  by (auto simp: hashCanonicalValue_def result_simps)

lemma sha256_digest_not_Nil: "sha256_digest s \<Longrightarrow> s \<noteq> []"
  by (auto simp: sha256_digest_def)

end
