(* ===== verification/Intents.thy ===== *)
theory Intents
  imports Encoding
begin

text \<open>
  The package \<open>internal/intents\<close> without its service: SHA-256 digests, the purchase intent with its
  frozen execution-relevant fields, the validation and hashing that create it, the lifecycle
  operations \<open>Cancel\<close>, \<open>Expire\<close> and \<open>Claim\<close>, and the persistence snapshot with \<open>Restore\<close>. The lemmas
  give one invariant of every intent the package can build and show that the lifecycle operations
  and a round trip through storage keep it.
\<close>

section \<open>Digests\<close>

type_synonym SHA256Digest = string

definition ParseSHA256Digest :: "string \<Rightarrow> SHA256Digest result" where
  "ParseSHA256Digest raw =
     reject_if (\<not> sha256_digest raw)
       (validation ''sha256'' ''format'' ''must contain 64 lowercase hexadecimal characters'')
       (Inr raw)"

lemma ParseSHA256Digest_is_ok [simp]: "is_ok (ParseSHA256Digest raw) \<longleftrightarrow> sha256_digest raw"
  by (simp add: ParseSHA256Digest_def reject_if_def)

text \<open>
  \<open>parseMediaType\<close> is the media type \<open>mime.ParseMediaType\<close> finds, \<open>jcs\<close> is \<open>jcs.Transform\<close>.
\<close>

definition hashRequestBody ::
  "(string \<Rightarrow> string result) \<Rightarrow> (string \<Rightarrow> string result) \<Rightarrow> string \<Rightarrow> string \<Rightarrow> SHA256Digest result" where
  "hashRequestBody parseMediaType jcs requestBody mediaType =
     (if mediaType = [] then Inr (hashBytes requestBody)
      else case parseMediaType mediaType of
        Inl _ \<Rightarrow> Inl (validation ''requestContentType'' ''format'' ''must be a valid media type'')
      | Inr parsed \<Rightarrow>
          if parsed = ''application/json'' \<or> HasSuffix parsed ''+json''
          then (case jcs requestBody of
                  Inl _ \<Rightarrow> Inl (validation ''requestBody'' ''json''
                             ''must contain valid canonicalizable JSON'')
                | Inr canonicalBody \<Rightarrow> Inr (hashBytes canonicalBody))
          else Inr (hashBytes requestBody))"

section \<open>Data\<close>

datatype RequestMethod = RequestMethodGet | RequestMethodPost | RequestMethodOther string

datatype PurchaseChannel =
  PurchaseChannelUnset | PurchaseChannelAgent | PurchaseChannelBrowser | PurchaseChannelOther string

datatype PurchaseIntentStatus =
    PurchaseIntentStatusReady
  | PurchaseIntentStatusCancelled
  | PurchaseIntentStatusExpired
  | PurchaseIntentStatusExecuted
  | PurchaseIntentStatusApprovalPending
  | PurchaseIntentStatusOther string

datatype CancellationReason =
  CancellationReasonUnset | CancellationReasonBuyerRequested | CancellationReasonOther string

datatype PriceCalculation = PriceCalculationFixedSingleProduct

fun RequestMethod_wire :: "RequestMethod \<Rightarrow> string" where
  "RequestMethod_wire RequestMethodGet = ''GET''"
| "RequestMethod_wire RequestMethodPost = ''POST''"
| "RequestMethod_wire (RequestMethodOther s) = s"

fun PurchaseChannel_wire :: "PurchaseChannel \<Rightarrow> string" where
  "PurchaseChannel_wire PurchaseChannelUnset = []"
| "PurchaseChannel_wire PurchaseChannelAgent = ''agent''"
| "PurchaseChannel_wire PurchaseChannelBrowser = ''browser''"
| "PurchaseChannel_wire (PurchaseChannelOther s) = s"

fun PurchaseIntentStatus_wire :: "PurchaseIntentStatus \<Rightarrow> string" where
  "PurchaseIntentStatus_wire PurchaseIntentStatusReady = ''ready''"
| "PurchaseIntentStatus_wire PurchaseIntentStatusCancelled = ''cancelled''"
| "PurchaseIntentStatus_wire PurchaseIntentStatusExpired = ''expired''"
| "PurchaseIntentStatus_wire PurchaseIntentStatusExecuted = ''executed''"
| "PurchaseIntentStatus_wire PurchaseIntentStatusApprovalPending = ''approval_pending''"
| "PurchaseIntentStatus_wire (PurchaseIntentStatusOther s) = s"

abbreviation ErrIntentAccess :: go_error where
  "ErrIntentAccess \<equiv> Err ''intents.ErrIntentAccess''"

abbreviation ErrIntentExpired :: go_error where
  "ErrIntentExpired \<equiv> Err ''intents.ErrIntentExpired''"

abbreviation ErrIntentStateConflict :: go_error where
  "ErrIntentStateConflict \<equiv> Err ''intents.ErrIntentStateConflict''"

definition InvalidLifecycleTransition ::
  "PurchaseIntentStatus \<Rightarrow> PurchaseIntentStatus \<Rightarrow> go_error" where
  "InvalidLifecycleTransition from to =
     InvalidTransition (PurchaseIntentStatus_wire from) (PurchaseIntentStatus_wire to)"

record ExactPriceBreakdown =
  pb_Calculation :: PriceCalculation
  pb_Quantity :: int
  pb_UnitAmount :: amount
  pb_Subtotal :: amount
  pb_Adjustments :: amount
  pb_Total :: amount
  pb_Asset :: string
  pb_Network :: string

record PurchaseIntentParams =
  ip_IntentID :: ID
  ip_SellerID :: ID
  ip_RouteID :: ID
  ip_BuyerID :: string
  ip_PurchaseSessionID :: string
  ip_PurchaseChannel :: PurchaseChannel
  ip_ProductDisplayName :: string
  ip_ProductSlug :: string
  ip_PaymentDestinationID :: ID
  ip_PayTo :: string
  ip_RequestMethod :: RequestMethod
  ip_RequestPath :: string
  ip_RequestBodyHash :: SHA256Digest
  ip_Amount :: amount
  ip_Asset :: string
  ip_Network :: string
  ip_MaximumAmount :: amount
  ip_RequiresApproval :: bool
  ip_CreatedAt :: instant
  ip_ExpiresAt :: instant

record PurchaseIntent =
  pi_intentID :: ID
  pi_sellerID :: ID
  pi_routeID :: ID
  pi_buyerID :: string
  pi_purchaseSessionID :: string
  pi_purchaseChannel :: PurchaseChannel
  pi_productDisplayName :: string
  pi_productSlug :: string
  pi_paymentDestinationID :: ID
  pi_payTo :: string
  pi_requestMethod :: RequestMethod
  pi_requestPath :: string
  pi_requestBodyHash :: SHA256Digest
  pi_amount :: amount
  pi_asset :: string
  pi_network :: string
  pi_maximumAmount :: amount
  pi_requiresApproval :: bool
  pi_intentHash :: SHA256Digest
  pi_status :: PurchaseIntentStatus
  pi_cancelledAt :: "instant option"
  pi_cancellationReason :: CancellationReason
  pi_createdAt :: instant
  pi_expiresAt :: instant
  pi_version :: u64

section \<open>Creation\<close>

definition normalizePurchaseIdentity :: "PurchaseIntentParams \<Rightarrow> PurchaseIntentParams" where
  "normalizePurchaseIdentity params =
     (let p = params\<lparr>ip_BuyerID := TrimSpace (ip_BuyerID params),
                    ip_PurchaseSessionID := TrimSpace (ip_PurchaseSessionID params)\<rparr>
      in if ip_PurchaseChannel p \<noteq> PurchaseChannelUnset then p
         else if HasPrefix (ip_BuyerID p) ''browser:''
         then p\<lparr>ip_PurchaseChannel := PurchaseChannelBrowser,
                ip_PurchaseSessionID :=
                  (if ip_PurchaseSessionID p = [] then TrimPrefix (ip_BuyerID p) ''browser:''
                   else ip_PurchaseSessionID p)\<rparr>
         else p\<lparr>ip_PurchaseChannel := PurchaseChannelAgent\<rparr>)"

definition alnum :: "char \<Rightarrow> bool" where
  "alnum c \<longleftrightarrow> byte_in c 48 57 \<or> byte_in c 65 90 \<or> byte_in c 97 122"

definition requestPathPattern :: "string \<Rightarrow> bool" where
  "requestPathPattern s \<longleftrightarrow>
     HasPrefix s ''/'' \<and> drop 1 s \<noteq> [] \<and> list_all (\<lambda>c. alnum c \<or> c \<in> set ''/_-'') (drop 1 s)"

definition purchaseSessionPattern :: "string \<Rightarrow> bool" where
  "purchaseSessionPattern s \<longleftrightarrow> HasPrefix s ''bps_'' \<and> drop 4 s \<noteq> [] \<and> list_all alnum (drop 4 s)"

text \<open>
  Every failed check appends one error, in the order of the source. The only step that can stop the
  function is the comparison of the two amounts, which panics on a malformed amount.
\<close>

definition validatePurchaseIntentParams ::
  "(string \<Rightarrow> bool) \<Rightarrow> PurchaseIntentParams \<Rightarrow> validation_error list result" where
  "validatePurchaseIntentParams ulid p =
     rbind (Amount_Compare (ip_Amount p) (ip_MaximumAmount p)) (\<lambda>cmp.
     (let buyerID = TrimSpace (ip_BuyerID p);
          session = TrimSpace (ip_PurchaseSessionID p);
          asset = TrimSpace (ip_Asset p);
          network = TrimSpace (ip_Network p)
      in Inr
       (add_if (\<not> is_ok (ParseID ulid (ip_IntentID p) IntentIDPrefix))
          (NewValidationError ''intentId'' ''format'' ''must be a purchase-intent identifier'')
        @ add_if (\<not> is_ok (ParseID ulid (ip_SellerID p) SellerIDPrefix))
          (NewValidationError ''sellerId'' ''format'' ''must be a seller identifier'')
        @ add_if (\<not> is_ok (ParseID ulid (ip_RouteID p) RouteIDPrefix))
          (NewValidationError ''routeId'' ''format'' ''must be a route identifier'')
        @ add_if (TrimSpace (ip_ProductDisplayName p) = [])
          (NewValidationError ''productDisplayName'' ''required'' ''is required'')
        @ add_if (TrimSpace (ip_ProductSlug p) = [])
          (NewValidationError ''productSlug'' ''required'' ''is required'')
        @ add_if (ip_PaymentDestinationID p \<noteq> []
                  \<and> \<not> is_ok (ParseID ulid (ip_PaymentDestinationID p) PaymentDestinationIDPrefix))
          (NewValidationError ''paymentDestinationId'' ''format''
             ''must be a payment-destination identifier'')
        @ add_if (TrimSpace (ip_PayTo p) = [])
          (NewValidationError ''payTo'' ''required'' ''is required'')
        @ add_if (buyerID = [] \<or> 160 < length buyerID)
          (NewValidationError ''buyerId'' ''length'' ''must contain 1-160 characters'')
        @ (case ip_PurchaseChannel p of
             PurchaseChannelAgent \<Rightarrow>
               add_if (session \<noteq> [])
                 (NewValidationError ''purchaseSessionId'' ''forbidden''
                    ''must be empty for agent purchases'')
           | PurchaseChannelBrowser \<Rightarrow>
               add_if (\<not> purchaseSessionPattern session \<or> buyerID \<noteq> ''browser:'' @ session)
                 (NewValidationError ''purchaseSessionId'' ''binding''
                    ''must identify the owning browser purchase session'')
           | _ \<Rightarrow> [NewValidationError ''purchaseChannel'' ''supported'' ''must be agent or browser''])
        @ add_if (ip_RequestMethod p \<noteq> RequestMethodGet \<and> ip_RequestMethod p \<noteq> RequestMethodPost)
          (NewValidationError ''requestMethod'' ''supported'' ''must be GET or POST'')
        @ add_if (\<not> requestPathPattern (ip_RequestPath p))
          (NewValidationError ''requestPath'' ''format'' ''must be a literal absolute route path'')
        @ add_if (\<not> sha256_digest (ip_RequestBodyHash p))
          (NewValidationError ''requestBodyHash'' ''format'' ''must be a SHA-256 digest'')
        @ add_if (Amount_IsZero (ip_Amount p))
          (NewValidationError ''amount'' ''positive'' ''must be greater than zero'')
        @ add_if (cmp > 0)
          (NewValidationError ''maximumAmount'' ''limit''
             ''must be greater than or equal to the seller's exact price'')
        @ add_if (asset = [] \<or> 160 < length asset)
          (NewValidationError ''asset'' ''length'' ''must contain 1-160 characters'')
        @ add_if (network = [] \<or> 80 < length network)
          (NewValidationError ''network'' ''length'' ''must contain 1-80 characters'')
        @ add_if (ip_CreatedAt p = 0)
          (NewValidationError ''createdAt'' ''required'' ''is required'')
        @ add_if (ip_ExpiresAt p = 0 \<or> \<not> ip_CreatedAt p < ip_ExpiresAt p)
          (NewValidationError ''expiresAt'' ''chronology'' ''must occur after creation''))))"

text \<open>The JSON object \<open>intentHashPayload\<close> marshals to, for already trimmed values.\<close>

definition intentHashPayload :: "PurchaseIntentParams \<Rightarrow> json" where
  "intentHashPayload p = JObject
     ([(''schemaVersion'', JString ''1''),
       (''intentId'', JString (ip_IntentID p)),
       (''sellerId'', JString (ip_SellerID p)),
       (''routeId'', JString (ip_RouteID p)),
       (''buyerId'', JString (TrimSpace (ip_BuyerID p)))]
      @ omit_empty ''purchaseSessionId'' (TrimSpace (ip_PurchaseSessionID p)) @
      [(''purchaseChannel'', JString (PurchaseChannel_wire (ip_PurchaseChannel p))),
       (''productDisplayName'', JString (TrimSpace (ip_ProductDisplayName p))),
       (''productSlug'', JString (TrimSpace (ip_ProductSlug p))),
       (''paymentDestinationId'', JString (ip_PaymentDestinationID p)),
       (''payTo'', JString (TrimSpace (ip_PayTo p))),
       (''requestMethod'', JString (RequestMethod_wire (ip_RequestMethod p))),
       (''requestPath'', JString (ip_RequestPath p)),
       (''requestBodyHash'', JString (ip_RequestBodyHash p)),
       (''amount'', JString (Amount_String (ip_Amount p))),
       (''asset'', JString (TrimSpace (ip_Asset p))),
       (''network'', JString (TrimSpace (ip_Network p))),
       (''maximumAmount'', JString (Amount_String (ip_MaximumAmount p))),
       (''requiresApproval'', JBool (ip_RequiresApproval p)),
       (''createdAt'', JString (FormatRFC3339Nano (ip_CreatedAt p))),
       (''expiresAt'', JString (FormatRFC3339Nano (ip_ExpiresAt p)))])"

abbreviation "intentHashDomain \<equiv> ''agentpay.intent.v1''"

text \<open>The composite literal \<open>createPurchaseIntent\<close> returns.\<close>

definition purchase_intent :: "PurchaseIntentParams \<Rightarrow> SHA256Digest \<Rightarrow> PurchaseIntent" where
  "purchase_intent params intentHash =
     \<lparr>pi_intentID = ip_IntentID params,
      pi_sellerID = ip_SellerID params,
      pi_routeID = ip_RouteID params,
      pi_buyerID = TrimSpace (ip_BuyerID params),
      pi_purchaseSessionID = TrimSpace (ip_PurchaseSessionID params),
      pi_purchaseChannel = ip_PurchaseChannel params,
      pi_productDisplayName = TrimSpace (ip_ProductDisplayName params),
      pi_productSlug = TrimSpace (ip_ProductSlug params),
      pi_paymentDestinationID = ip_PaymentDestinationID params,
      pi_payTo = TrimSpace (ip_PayTo params),
      pi_requestMethod = ip_RequestMethod params,
      pi_requestPath = ip_RequestPath params,
      pi_requestBodyHash = ip_RequestBodyHash params,
      pi_amount = ip_Amount params,
      pi_asset = TrimSpace (ip_Asset params),
      pi_network = TrimSpace (ip_Network params),
      pi_maximumAmount = ip_MaximumAmount params,
      pi_requiresApproval = ip_RequiresApproval params,
      pi_intentHash = intentHash,
      pi_status = (if ip_RequiresApproval params then PurchaseIntentStatusApprovalPending
                   else PurchaseIntentStatusReady),
      pi_cancelledAt = None,
      pi_cancellationReason = CancellationReasonUnset,
      pi_createdAt = ip_CreatedAt params,
      pi_expiresAt = ip_ExpiresAt params,
      pi_version = 1\<rparr>"

definition createPurchaseIntent ::
  "(string \<Rightarrow> bool) \<Rightarrow> (string \<Rightarrow> string result) \<Rightarrow> PurchaseIntentParams \<Rightarrow> PurchaseIntent result" where
  "createPurchaseIntent ulid jcs params0 =
     (let params = normalizePurchaseIdentity params0
      in rbind (validatePurchaseIntentParams ulid params) (\<lambda>validationErrors.
         reject_if (validationErrors \<noteq> []) (ValidationErrs validationErrors)
        (rbind (hashCanonicalValue jcs intentHashDomain (intentHashPayload params)) (\<lambda>intentHash.
         Inr (purchase_intent params intentHash)))))"

definition NewPurchaseIntent ::
  "(string \<Rightarrow> bool) \<Rightarrow> (string \<Rightarrow> string result) \<Rightarrow> PurchaseIntentParams \<Rightarrow> PurchaseIntent result" where
  "NewPurchaseIntent ulid jcs params = createPurchaseIntent ulid jcs params"

definition PriceBreakdown :: "PurchaseIntent \<Rightarrow> ExactPriceBreakdown result" where
  "PriceBreakdown i =
     rbind (MustParseAmount ''0'') (\<lambda>zero.
     Inr \<lparr>pb_Calculation = PriceCalculationFixedSingleProduct, pb_Quantity = 1,
          pb_UnitAmount = pi_amount i, pb_Subtotal = pi_amount i, pb_Adjustments = zero,
          pb_Total = pi_amount i, pb_Asset = pi_asset i, pb_Network = pi_network i\<rparr>)"

section \<open>Lifecycle\<close>

text \<open>
  The methods of the pointer receiver return the updated intent. None of them writes a field before
  its last check, so an error leaves the intent as it was.
\<close>

definition Intent_Cancel :: "PurchaseIntent \<Rightarrow> instant \<Rightarrow> PurchaseIntent result" where
  "Intent_Cancel i at =
     (if pi_status i = PurchaseIntentStatusCancelled then Inr i
      else
        reject_if (pi_status i \<noteq> PurchaseIntentStatusReady)
          (InvalidLifecycleTransition (pi_status i) PurchaseIntentStatusCancelled)
       (reject_if (\<not> at < pi_expiresAt i) ErrIntentExpired
       (reject_if (at < pi_createdAt i)
          (validation ''cancelledAt'' ''chronology'' ''must not precede intent creation'')
       (Inr (i\<lparr>pi_status := PurchaseIntentStatusCancelled, pi_cancelledAt := Some at,
               pi_cancellationReason := CancellationReasonBuyerRequested,
               pi_version := pi_version i + 1\<rparr>)))))"

definition Intent_Expire :: "PurchaseIntent \<Rightarrow> instant \<Rightarrow> PurchaseIntent result" where
  "Intent_Expire i at =
     (if pi_status i = PurchaseIntentStatusExpired then Inr i
      else
        reject_if (pi_status i \<noteq> PurchaseIntentStatusReady \<or> at < pi_expiresAt i)
          (InvalidLifecycleTransition (pi_status i) PurchaseIntentStatusExpired)
       (Inr (i\<lparr>pi_status := PurchaseIntentStatusExpired, pi_version := pi_version i + 1\<rparr>)))"

definition Intent_Claim :: "PurchaseIntent \<Rightarrow> instant \<Rightarrow> PurchaseIntent result" where
  "Intent_Claim i at =
     (if pi_status i = PurchaseIntentStatusExecuted then Inr i
      else
        reject_if (pi_status i \<noteq> PurchaseIntentStatusReady)
          (InvalidLifecycleTransition (pi_status i) PurchaseIntentStatusExecuted)
       (reject_if (\<not> at < pi_expiresAt i) ErrIntentExpired
       (reject_if (at < pi_createdAt i)
          (validation ''executedAt'' ''chronology'' ''must not precede intent creation'')
       (Inr (i\<lparr>pi_status := PurchaseIntentStatusExecuted, pi_version := pi_version i + 1\<rparr>)))))"

section \<open>Persistence\<close>

record IntentSnapshot =
  is_IntentID :: ID
  is_SellerID :: ID
  is_RouteID :: ID
  is_BuyerID :: string
  is_PurchaseSessionID :: string
  is_PurchaseChannel :: PurchaseChannel
  is_ProductDisplayName :: string
  is_ProductSlug :: string
  is_PaymentDestinationID :: ID
  is_PayTo :: string
  is_RequestMethod :: RequestMethod
  is_RequestPath :: string
  is_RequestBodyHash :: SHA256Digest
  is_Amount :: amount
  is_Asset :: string
  is_Network :: string
  is_MaximumAmount :: amount
  is_RequiresApproval :: bool
  is_IntentHash :: SHA256Digest
  is_Status :: PurchaseIntentStatus
  is_CancelledAt :: "instant option"
  is_CancellationReason :: CancellationReason
  is_CreatedAt :: instant
  is_ExpiresAt :: instant
  is_Version :: u64

definition Intent_Snapshot :: "PurchaseIntent \<Rightarrow> IntentSnapshot" where
  "Intent_Snapshot i =
     \<lparr>is_IntentID = pi_intentID i, is_SellerID = pi_sellerID i, is_RouteID = pi_routeID i,
      is_BuyerID = pi_buyerID i, is_PurchaseSessionID = pi_purchaseSessionID i,
      is_PurchaseChannel = pi_purchaseChannel i, is_ProductDisplayName = pi_productDisplayName i,
      is_ProductSlug = pi_productSlug i, is_PaymentDestinationID = pi_paymentDestinationID i,
      is_PayTo = pi_payTo i, is_RequestMethod = pi_requestMethod i,
      is_RequestPath = pi_requestPath i, is_RequestBodyHash = pi_requestBodyHash i,
      is_Amount = pi_amount i, is_Asset = pi_asset i, is_Network = pi_network i,
      is_MaximumAmount = pi_maximumAmount i, is_RequiresApproval = pi_requiresApproval i,
      is_IntentHash = pi_intentHash i, is_Status = pi_status i,
      is_CancelledAt = pi_cancelledAt i, is_CancellationReason = pi_cancellationReason i,
      is_CreatedAt = pi_createdAt i, is_ExpiresAt = pi_expiresAt i, is_Version = pi_version i\<rparr>"

definition restoreLifecycle :: "PurchaseIntent \<Rightarrow> IntentSnapshot \<Rightarrow> u64 \<Rightarrow> PurchaseIntent result" where
  "restoreLifecycle i snapshot version =
     (case is_Status snapshot of
        PurchaseIntentStatusCancelled \<Rightarrow>
          reject_if (is_CancelledAt snapshot = None
              \<or> is_CancellationReason snapshot \<noteq> CancellationReasonBuyerRequested \<or> version < 2)
            (validation ''status'' ''persistence'' ''stored cancellation metadata is inconsistent'')
            (Inr (i\<lparr>pi_status := is_Status snapshot, pi_cancelledAt := is_CancelledAt snapshot,
                    pi_cancellationReason := is_CancellationReason snapshot,
                    pi_version := version\<rparr>))
      | PurchaseIntentStatusOther _ \<Rightarrow>
          Inl (validation ''status'' ''persistence'' ''stored intent status is invalid'')
      | status \<Rightarrow>
          if status = PurchaseIntentStatusReady \<or> status = PurchaseIntentStatusApprovalPending
          then reject_if (pi_status i \<noteq> is_Status snapshot \<or> is_CancelledAt snapshot \<noteq> None
                  \<or> is_CancellationReason snapshot \<noteq> CancellationReasonUnset \<or> version \<noteq> 1)
                (validation ''status'' ''persistence'' ''stored intent lifecycle is inconsistent'')
                (Inr (i\<lparr>pi_version := version\<rparr>))
          else reject_if (is_CancelledAt snapshot \<noteq> None
                  \<or> is_CancellationReason snapshot \<noteq> CancellationReasonUnset \<or> version < 2)
                (validation ''status'' ''persistence'' ''stored intent lifecycle is inconsistent'')
                (Inr (i\<lparr>pi_status := is_Status snapshot, pi_version := version\<rparr>)))"

definition snapshot_params :: "IntentSnapshot \<Rightarrow> PurchaseIntentParams" where
  "snapshot_params s =
     \<lparr>ip_IntentID = is_IntentID s, ip_SellerID = is_SellerID s, ip_RouteID = is_RouteID s,
      ip_BuyerID = is_BuyerID s, ip_PurchaseSessionID = is_PurchaseSessionID s,
      ip_PurchaseChannel = is_PurchaseChannel s, ip_ProductDisplayName = is_ProductDisplayName s,
      ip_ProductSlug = is_ProductSlug s, ip_PaymentDestinationID = is_PaymentDestinationID s,
      ip_PayTo = is_PayTo s, ip_RequestMethod = is_RequestMethod s,
      ip_RequestPath = is_RequestPath s, ip_RequestBodyHash = is_RequestBodyHash s,
      ip_Amount = is_Amount s, ip_Asset = is_Asset s, ip_Network = is_Network s,
      ip_MaximumAmount = is_MaximumAmount s, ip_RequiresApproval = is_RequiresApproval s,
      ip_CreatedAt = is_CreatedAt s, ip_ExpiresAt = is_ExpiresAt s\<rparr>"

definition Intent_Restore ::
  "(string \<Rightarrow> bool) \<Rightarrow> (string \<Rightarrow> string result) \<Rightarrow> IntentSnapshot \<Rightarrow> PurchaseIntent result" where
  "Intent_Restore ulid jcs snapshot =
     rbind (NewPurchaseIntent ulid jcs (snapshot_params snapshot)) (\<lambda>restored.
     reject_if (pi_intentHash restored \<noteq> is_IntentHash snapshot)
       (validation ''intentHash'' ''persistence'' ''stored intent snapshot is inconsistent'')
     (let version = (if is_Version snapshot = 0 then 1 else is_Version snapshot)
      in restoreLifecycle restored snapshot version))"

section \<open>The invariant of purchase intents\<close>

text \<open>The execution-relevant fields, which nothing may change after creation.\<close>

definition frozen :: "PurchaseIntent \<Rightarrow> PurchaseIntentParams" where
  "frozen i = snapshot_params (Intent_Snapshot i)"

definition trimmed :: "PurchaseIntentParams \<Rightarrow> PurchaseIntentParams" where
  "trimmed p =
     p\<lparr>ip_BuyerID := TrimSpace (ip_BuyerID p),
       ip_PurchaseSessionID := TrimSpace (ip_PurchaseSessionID p),
       ip_ProductDisplayName := TrimSpace (ip_ProductDisplayName p),
       ip_ProductSlug := TrimSpace (ip_ProductSlug p), ip_PayTo := TrimSpace (ip_PayTo p),
       ip_Asset := TrimSpace (ip_Asset p), ip_Network := TrimSpace (ip_Network p)\<rparr>"

definition lifecycle_ok :: "PurchaseIntent \<Rightarrow> bool" where
  "lifecycle_ok i =
     (case pi_status i of
        PurchaseIntentStatusReady \<Rightarrow>
          \<not> pi_requiresApproval i \<and> pi_cancelledAt i = None
          \<and> pi_cancellationReason i = CancellationReasonUnset \<and> pi_version i = 1
      | PurchaseIntentStatusApprovalPending \<Rightarrow>
          pi_requiresApproval i \<and> pi_cancelledAt i = None
          \<and> pi_cancellationReason i = CancellationReasonUnset \<and> pi_version i = 1
      | PurchaseIntentStatusCancelled \<Rightarrow>
          pi_cancelledAt i \<noteq> None \<and> pi_cancellationReason i = CancellationReasonBuyerRequested
          \<and> 2 \<le> pi_version i
      | PurchaseIntentStatusOther _ \<Rightarrow> False
      | _ \<Rightarrow>
          pi_cancelledAt i = None \<and> pi_cancellationReason i = CancellationReasonUnset
          \<and> 2 \<le> pi_version i)"

definition wf_intent :: "(string \<Rightarrow> bool) \<Rightarrow> (string \<Rightarrow> string result) \<Rightarrow> PurchaseIntent \<Rightarrow> bool" where
  "wf_intent ulid jcs i \<longleftrightarrow>
     trimmed (frozen i) = frozen i
     \<and> validatePurchaseIntentParams ulid (frozen i) = Inr []
     \<and> hashCanonicalValue jcs intentHashDomain (intentHashPayload (frozen i)) = Inr (pi_intentHash i)
     \<and> lifecycle_ok i"

lemma validate_trimmed [simp]:
  "validatePurchaseIntentParams ulid (trimmed p) = validatePurchaseIntentParams ulid p"
  by (simp add: validatePurchaseIntentParams_def trimmed_def)

lemma payload_trimmed [simp]: "intentHashPayload (trimmed p) = intentHashPayload p"
  by (simp add: intentHashPayload_def trimmed_def)

lemma trimmed_idem [simp]: "trimmed (trimmed p) = trimmed p"
  by (simp add: trimmed_def)

lemma frozen_purchase_intent [simp]: "frozen (purchase_intent p h) = trimmed p"
  by (cases p) (simp add: frozen_def snapshot_params_def Intent_Snapshot_def purchase_intent_def
      trimmed_def)

lemma purchase_intent_simps [simp]:
  "pi_intentHash (purchase_intent p h) = h"
  "pi_version (purchase_intent p h) = 1"
  "pi_requiresApproval (purchase_intent p h) = ip_RequiresApproval p"
  "pi_cancelledAt (purchase_intent p h) = None"
  "pi_cancellationReason (purchase_intent p h) = CancellationReasonUnset"
  "pi_status (purchase_intent p h) =
     (if ip_RequiresApproval p then PurchaseIntentStatusApprovalPending
      else PurchaseIntentStatusReady)"
  by (simp_all add: purchase_intent_def)

lemma createPurchaseIntent_eq_Inr:
  "createPurchaseIntent ulid jcs p = Inr i \<longleftrightarrow>
     (let q = normalizePurchaseIdentity p
      in validatePurchaseIntentParams ulid q = Inr []
         \<and> (\<exists>h. hashCanonicalValue jcs intentHashDomain (intentHashPayload q) = Inr h
                \<and> i = purchase_intent q h))"
  by (auto simp: createPurchaseIntent_def Let_def result_simps)

lemma wf_purchase_intent:
  assumes "validatePurchaseIntentParams ulid q = Inr []"
    and "hashCanonicalValue jcs intentHashDomain (intentHashPayload q) = Inr h"
  shows "wf_intent ulid jcs (purchase_intent q h)"
  using assms by (simp add: wf_intent_def lifecycle_ok_def)

lemma createPurchaseIntent_wf: "createPurchaseIntent ulid jcs p = Inr i \<Longrightarrow> wf_intent ulid jcs i"
  by (auto simp: createPurchaseIntent_eq_Inr Let_def intro: wf_purchase_intent)

text \<open>What an empty list of validation errors means, field by field.\<close>

lemma validate_ok:
  assumes "validatePurchaseIntentParams ulid p = Inr []" "wf_amount (ip_Amount p)"
    "wf_amount (ip_MaximumAmount p)"
  shows "0 < amount_val (ip_Amount p)" "amount_val (ip_Amount p) \<le> amount_val (ip_MaximumAmount p)"
    "ip_CreatedAt p < ip_ExpiresAt p" "TrimSpace (ip_PayTo p) \<noteq> []"
    "ip_PurchaseChannel p = PurchaseChannelAgent \<or> ip_PurchaseChannel p = PurchaseChannelBrowser"
    "sha256_digest (ip_RequestBodyHash p)" "requestPathPattern (ip_RequestPath p)"
    "ip_RequestMethod p = RequestMethodGet \<or> ip_RequestMethod p = RequestMethodPost"
    "ip_PurchaseChannel p = PurchaseChannelBrowser \<Longrightarrow>
       TrimSpace (ip_BuyerID p) = ''browser:'' @ TrimSpace (ip_PurchaseSessionID p)"
  using assms
  by (auto simp: validatePurchaseIntentParams_def Let_def wf_amount_IsZero
      split: PurchaseChannel.splits)

lemma validate_channel:
  "validatePurchaseIntentParams ulid p = Inr [] \<Longrightarrow> ip_PurchaseChannel p \<noteq> PurchaseChannelUnset"
  by (auto simp: validatePurchaseIntentParams_def Let_def result_simps)

lemma normalize_frozen:
  assumes "wf_intent ulid jcs i"
  shows "normalizePurchaseIdentity (frozen i) = frozen i"
proof -
  have "ip_PurchaseChannel (frozen i) \<noteq> PurchaseChannelUnset"
    using assms validate_channel [of ulid "frozen i"] by (simp add: wf_intent_def)
  moreover have "TrimSpace (ip_BuyerID (frozen i)) = ip_BuyerID (frozen i)"
      "TrimSpace (ip_PurchaseSessionID (frozen i)) = ip_PurchaseSessionID (frozen i)"
    using assms by (auto simp: wf_intent_def trimmed_def dest: arg_cong [where f = ip_BuyerID]
        arg_cong [where f = ip_PurchaseSessionID])
  ultimately show ?thesis
    by (simp add: normalizePurchaseIdentity_def)
qed

lemma restore_base:
  assumes "wf_intent ulid jcs i"
  shows "NewPurchaseIntent ulid jcs (frozen i) = Inr (purchase_intent (frozen i) (pi_intentHash i))"
  using assms normalize_frozen [OF assms]
  by (simp add: NewPurchaseIntent_def createPurchaseIntent_eq_Inr Let_def wf_intent_def)

text \<open>An intent is determined by its frozen fields, its hash and its lifecycle fields.\<close>

lemma purchase_intent_frozen:
  assumes "trimmed (frozen i) = frozen i"
  shows "(purchase_intent (frozen i) (pi_intentHash i))
      \<lparr>pi_status := pi_status i, pi_cancelledAt := pi_cancelledAt i,
       pi_cancellationReason := pi_cancellationReason i, pi_version := pi_version i\<rparr> = i"
  using assms
  by (cases i) (simp add: purchase_intent_def frozen_def snapshot_params_def Intent_Snapshot_def
      trimmed_def)

lemma Intent_eqI:
  assumes "frozen i = frozen j" "pi_intentHash i = pi_intentHash j" "pi_status i = pi_status j"
    "pi_cancelledAt i = pi_cancelledAt j" "pi_cancellationReason i = pi_cancellationReason j"
    "pi_version i = pi_version j"
  shows "i = j"
  using assms by (cases i; cases j) (simp add: frozen_def snapshot_params_def Intent_Snapshot_def)

lemma Intent_eq_iff:
  "i = j \<longleftrightarrow> frozen i = frozen j \<and> pi_intentHash i = pi_intentHash j \<and> pi_status i = pi_status j
     \<and> pi_cancelledAt i = pi_cancelledAt j \<and> pi_cancellationReason i = pi_cancellationReason j
     \<and> pi_version i = pi_version j"
  by (blast intro: Intent_eqI)

lemma frozen_lifecycle_update [simp]:
  "frozen (i\<lparr>pi_status := s\<rparr>) = frozen i"
  "frozen (i\<lparr>pi_version := v\<rparr>) = frozen i"
  "frozen (i\<lparr>pi_cancelledAt := c\<rparr>) = frozen i"
  "frozen (i\<lparr>pi_cancellationReason := r\<rparr>) = frozen i"
  by (simp_all add: frozen_def snapshot_params_def Intent_Snapshot_def)

lemma snapshot_params_Snapshot [simp]: "snapshot_params (Intent_Snapshot i) = frozen i"
  by (simp add: frozen_def)

lemma Snapshot_simps [simp]:
  "is_IntentHash (Intent_Snapshot i) = pi_intentHash i"
  "is_Status (Intent_Snapshot i) = pi_status i"
  "is_CancelledAt (Intent_Snapshot i) = pi_cancelledAt i"
  "is_CancellationReason (Intent_Snapshot i) = pi_cancellationReason i"
  "is_Version (Intent_Snapshot i) = pi_version i"
  by (simp_all add: Intent_Snapshot_def)

lemma Intent_Cancel_eq_Inr:
  "Intent_Cancel i at = Inr j \<longleftrightarrow>
     pi_status i = PurchaseIntentStatusCancelled \<and> j = i
     \<or> pi_status i = PurchaseIntentStatusReady \<and> pi_createdAt i \<le> at \<and> at < pi_expiresAt i
       \<and> j = i\<lparr>pi_status := PurchaseIntentStatusCancelled, pi_cancelledAt := Some at,
               pi_cancellationReason := CancellationReasonBuyerRequested,
               pi_version := pi_version i + 1\<rparr>"
  by (auto simp: Intent_Cancel_def result_simps)

lemma Intent_Expire_eq_Inr:
  "Intent_Expire i at = Inr j \<longleftrightarrow>
     pi_status i = PurchaseIntentStatusExpired \<and> j = i
     \<or> pi_status i = PurchaseIntentStatusReady \<and> pi_expiresAt i \<le> at
       \<and> j = i\<lparr>pi_status := PurchaseIntentStatusExpired, pi_version := pi_version i + 1\<rparr>"
  by (auto simp: Intent_Expire_def result_simps)

lemma Intent_Claim_eq_Inr:
  "Intent_Claim i at = Inr j \<longleftrightarrow>
     pi_status i = PurchaseIntentStatusExecuted \<and> j = i
     \<or> pi_status i = PurchaseIntentStatusReady \<and> pi_createdAt i \<le> at \<and> at < pi_expiresAt i
       \<and> j = i\<lparr>pi_status := PurchaseIntentStatusExecuted, pi_version := pi_version i + 1\<rparr>"
  by (auto simp: Intent_Claim_def result_simps)

lemmas intent_op_simps = Intent_Cancel_eq_Inr Intent_Expire_eq_Inr Intent_Claim_eq_Inr

lemma intent_op_wf:
  assumes "wf_intent ulid jcs i"
    and "Intent_Cancel i at = Inr j \<or> Intent_Expire i at = Inr j \<or> Intent_Claim i at = Inr j"
  shows "wf_intent ulid jcs j" "frozen j = frozen i" "pi_intentHash j = pi_intentHash i"
  using assms by (auto simp: intent_op_simps wf_intent_def lifecycle_ok_def)

lemma restore_snapshot:
  assumes "wf_intent ulid jcs i"
  shows "Intent_Restore ulid jcs (Intent_Snapshot i) = Inr i"
proof -
  let ?b = "purchase_intent (frozen i) (pi_intentHash i)"
  have t: "trimmed (frozen i) = frozen i" and l: "lifecycle_ok i"
    using assms by (simp_all add: wf_intent_def)
  have ra: "ip_RequiresApproval (frozen i) = pi_requiresApproval i"
    by (simp add: frozen_def snapshot_params_def Intent_Snapshot_def)
  have v: "pi_version i \<noteq> 0"
    using l by (auto simp: lifecycle_ok_def split: PurchaseIntentStatus.splits)
  have "restoreLifecycle ?b (Intent_Snapshot i) (pi_version i) = Inr i"
    using l ra
    by (cases "pi_status i") (simp_all add: restoreLifecycle_def lifecycle_ok_def reject_if_def
        not_less Intent_eq_iff t)
  with v show ?thesis
    by (simp add: Intent_Restore_def restore_base [OF assms] Let_def)
qed

section \<open>Properties\<close>

text \<open>
  Creating an intent from parsed amounts never panics: it fails with the complete list of field
  errors or with the canonicaliser's error, or returns an intent that satisfies the invariant, whose
  price is positive and within the buyer's ceiling, that expires after it was created, that names a
  payee, and whose hash is the digest of its own frozen fields. It is ready unless approval was
  demanded. A browser intent belongs to the session its buyer names.
\<close>

theorem createPurchaseIntent_valid:
  assumes "wf_amount (ip_Amount p)" "wf_amount (ip_MaximumAmount p)"
  shows "case createPurchaseIntent ulid jcs p of
      Inl e \<Rightarrow> (\<exists>es. e = ValidationErrs es \<and> es \<noteq> [])
        \<or> jcs (json_encode (intentHashPayload (normalizePurchaseIdentity p))) = Inl e
    | Inr i \<Rightarrow> wf_intent ulid jcs i
        \<and> 0 < amount_val (pi_amount i) \<and> amount_val (pi_amount i) \<le> amount_val (pi_maximumAmount i)
        \<and> pi_createdAt i < pi_expiresAt i \<and> pi_payTo i \<noteq> []
        \<and> (pi_purchaseChannel i = PurchaseChannelBrowser \<longrightarrow>
             pi_buyerID i = ''browser:'' @ pi_purchaseSessionID i)
        \<and> pi_status i = (if ip_RequiresApproval p then PurchaseIntentStatusApprovalPending
                         else PurchaseIntentStatusReady)
        \<and> pi_version i = 1"
proof -
  define q where "q = normalizePurchaseIdentity p"
  have am: "ip_Amount q = ip_Amount p" "ip_MaximumAmount q = ip_MaximumAmount p"
      "ip_RequiresApproval q = ip_RequiresApproval p"
    by (simp_all add: q_def normalizePurchaseIdentity_def Let_def)
  then obtain es where es: "validatePurchaseIntentParams ulid q = Inr es"
    using assms by (simp add: validatePurchaseIntentParams_def Let_def)
  show ?thesis
  proof (cases "createPurchaseIntent ulid jcs p")
    case (Inl e)
    then show ?thesis
      using es by (auto simp: createPurchaseIntent_def q_def [symmetric] Let_def reject_if_def
          hashCanonicalValue_def rbind_eq_Inl split: if_splits)
  next
    case (Inr i)
    then obtain h where v: "validatePurchaseIntentParams ulid q = Inr []" and i: "i = purchase_intent q h"
      by (auto simp: createPurchaseIntent_eq_Inr q_def [symmetric] Let_def)
    note ok = validate_ok [OF v, unfolded am, OF assms]
    show ?thesis
      using Inr ok createPurchaseIntent_wf [OF Inr] am by (simp add: i purchase_intent_def)
  qed
qed

text \<open>A concrete purchase and concrete readings of the external functions.\<close>

definition sample_ulid :: "string \<Rightarrow> bool" where
  "sample_ulid s \<longleftrightarrow> length s = 26"

definition sample_params :: PurchaseIntentParams where
  "sample_params =
     \<lparr>ip_IntentID = ''int_01ARZ3NDEKTSV4RRFFQ69G5FAV'',
      ip_SellerID = ''sel_01ARZ3NDEKTSV4RRFFQ69G5FAV'',
      ip_RouteID = ''rte_01ARZ3NDEKTSV4RRFFQ69G5FAV'',
      ip_BuyerID = '' agent-7 '', ip_PurchaseSessionID = [],
      ip_PurchaseChannel = PurchaseChannelUnset, ip_ProductDisplayName = ''Weather'',
      ip_ProductSlug = ''weather'', ip_PaymentDestinationID = [], ip_PayTo = ''0xabc'',
      ip_RequestMethod = RequestMethodPost, ip_RequestPath = ''/v1/weather'',
      ip_RequestBodyHash = replicate 64 (CHR ''a''), ip_Amount = Amount ''35'',
      ip_Asset = ''USDC'', ip_Network = ''eip155:84532'', ip_MaximumAmount = Amount ''50'',
      ip_RequiresApproval = False, ip_CreatedAt = 1000, ip_ExpiresAt = 2000\<rparr>"

lemma sample_params_valid:
  "validatePurchaseIntentParams sample_ulid (normalizePurchaseIdentity sample_params) = Inr []"
  by code_simp

lemma sample_params_amounts:
  "wf_amount (ip_Amount sample_params)" "wf_amount (ip_MaximumAmount sample_params)"
  by code_simp+

definition sample_intent :: PurchaseIntent where
  "sample_intent =
     (let q = normalizePurchaseIdentity sample_params
      in purchase_intent q
          (hashBytes (intentHashDomain @ [CHR 0x00] @ json_encode (intentHashPayload q))))"

lemma sample_intent_created: "createPurchaseIntent sample_ulid Inr sample_params = Inr sample_intent"
  by (simp add: createPurchaseIntent_eq_Inr sample_params_valid sample_intent_def Let_def
      hashCanonicalValue_def)

lemma sample_intent_wf: "wf_intent sample_ulid Inr sample_intent"
  by (rule createPurchaseIntent_wf) (rule sample_intent_created)

lemma sample_intent_simps [simp]:
  "pi_status sample_intent = PurchaseIntentStatusReady" "pi_createdAt sample_intent = 1000"
  "pi_expiresAt sample_intent = 2000" "pi_version sample_intent = 1"
  by (simp_all add: sample_intent_def purchase_intent_def sample_params_def
      normalizePurchaseIdentity_def Let_def)

theorem createPurchaseIntent_valid_witness:
  "wf_intent sample_ulid Inr sample_intent
   \<and> amount_val (pi_amount sample_intent) \<le> amount_val (pi_maximumAmount sample_intent)"
  using createPurchaseIntent_valid [OF sample_params_amounts, where ulid = sample_ulid and jcs = Inr]
  by (simp add: sample_intent_created)

text \<open>
  C38: the lifecycle of an intent. A successful \<open>Cancel\<close>, \<open>Expire\<close> or \<open>Claim\<close> keeps the invariant,
  leaves every frozen field and the hash unchanged, and either does nothing (the intent was already
  in the requested state) or takes a ready intent to that state and adds one to its version; an
  intent is claimed or cancelled only before it expires and expired only afterwards. From a
  terminal state no operation reaches another state, so an executed intent is never cancelled and a
  cancelled or expired one never executes.
\<close>

theorem intent_lifecycle:
  assumes "wf_intent ulid jcs i"
    and "(op, target) \<in> {(Intent_Cancel, PurchaseIntentStatusCancelled),
                         (Intent_Expire, PurchaseIntentStatusExpired),
                         (Intent_Claim, PurchaseIntentStatusExecuted)}"
    and "op i at = Inr j"
  shows "wf_intent ulid jcs j \<and> frozen j = frozen i \<and> pi_intentHash j = pi_intentHash i
    \<and> pi_status j = target
    \<and> (j = i \<or> pi_status i = PurchaseIntentStatusReady \<and> pi_version j = pi_version i + 1
         \<and> (target = PurchaseIntentStatusExpired \<longleftrightarrow> pi_expiresAt i \<le> at))
    \<and> (\<forall>op' \<in> {Intent_Cancel, Intent_Expire, Intent_Claim}. \<forall>at' k. op' j at' = Inr k \<longrightarrow> k = j)"
proof -
  have op: "Intent_Cancel i at = Inr j \<or> Intent_Expire i at = Inr j \<or> Intent_Claim i at = Inr j"
    using assms(2,3) by auto
  have "pi_status j = target"
      "j = i \<or> pi_status i = PurchaseIntentStatusReady \<and> pi_version j = pi_version i + 1
         \<and> (target = PurchaseIntentStatusExpired \<longleftrightarrow> pi_expiresAt i \<le> at)"
    using assms(2,3) by (auto simp: intent_op_simps)
  moreover have "k = j" if "op' \<in> {Intent_Cancel, Intent_Expire, Intent_Claim}" "op' j at' = Inr k"
    for op' at' k
    using that \<open>pi_status j = target\<close> assms(2) by (auto simp: intent_op_simps)
  ultimately show ?thesis
    using intent_op_wf [OF assms(1) op] by blast
qed

theorem intent_lifecycle_witness:
  "\<exists>j. Intent_Claim sample_intent 1500 = Inr j \<and> pi_status j = PurchaseIntentStatusExecuted
     \<and> wf_intent sample_ulid Inr j"
proof -
  obtain j where j: "Intent_Claim sample_intent 1500 = Inr j"
    by (simp add: Intent_Claim_def)
  from intent_lifecycle [where op = Intent_Claim and target = PurchaseIntentStatusExecuted,
      OF sample_intent_wf _ j] j show ?thesis
    by simp
qed

text \<open>
  Storage round trip. Restoring the snapshot of any well-formed intent gives back the very same
  intent, whatever its lifecycle state.
\<close>

theorem Intent_Restore_Snapshot:
  "wf_intent ulid jcs i \<Longrightarrow> Intent_Restore ulid jcs (Intent_Snapshot i) = Inr i"
  by (rule restore_snapshot)

theorem Intent_Restore_Snapshot_witness:
  "Intent_Restore sample_ulid Inr (Intent_Snapshot sample_intent) = Inr sample_intent"
  by (rule Intent_Restore_Snapshot) (rule sample_intent_wf)

text \<open>
  Storage is not trusted. Whatever snapshot is read back, if it is accepted then the restored
  intent satisfies the invariant, has the status and the hash the snapshot claims, and that hash is
  the SHA-256 digest, under the intent domain separator, of the canonical JSON of the restored
  fields. Changing any stored field so that its canonical JSON changes therefore needs a hash
  collision.
\<close>

theorem Intent_Restore_sound:
  assumes "Intent_Restore ulid jcs s = Inr i"
  shows "wf_intent ulid jcs i \<and> pi_status i = is_Status s \<and> pi_intentHash i = is_IntentHash s
    \<and> frozen i = trimmed (normalizePurchaseIdentity (snapshot_params s))
    \<and> (\<exists>canonical. jcs (json_encode (intentHashPayload (frozen i))) = Inr canonical
         \<and> is_IntentHash s = hashBytes (intentHashDomain @ [CHR 0x00] @ canonical))"
proof -
  let ?q = "normalizePurchaseIdentity (snapshot_params s)"
  obtain h where q: "validatePurchaseIntentParams ulid ?q = Inr []"
      "hashCanonicalValue jcs intentHashDomain (intentHashPayload ?q) = Inr h"
    and h: "h = is_IntentHash s"
    and r: "restoreLifecycle (purchase_intent ?q h) s
              (if is_Version s = 0 then 1 else is_Version s) = Inr i"
    using assms
    by (auto simp: Intent_Restore_def NewPurchaseIntent_def createPurchaseIntent_eq_Inr Let_def
        result_simps)
  have f: "frozen i = trimmed ?q" "pi_intentHash i = h" "pi_status i = is_Status s" "lifecycle_ok i"
    using r by (auto simp: restoreLifecycle_def result_simps lifecycle_ok_def not_less
        purchase_intent_def frozen_def trimmed_def snapshot_params_def Intent_Snapshot_def
        split: PurchaseIntentStatus.splits if_splits)
  with q h show ?thesis
    by (auto simp: wf_intent_def hashCanonicalValue_def result_simps)
qed

theorem Intent_Restore_sound_witness:
  "\<exists>canonical. is_IntentHash (Intent_Snapshot sample_intent)
     = hashBytes (intentHashDomain @ [CHR 0x00] @ canonical)"
proof -
  have "Intent_Restore sample_ulid Inr (Intent_Snapshot sample_intent) = Inr sample_intent"
    by (rule restore_snapshot) (rule sample_intent_wf)
  from Intent_Restore_sound [OF this] show ?thesis
    by blast
qed

end
