(* ===== verification/Transactions.thy ===== *)
theory Transactions
  imports Intents
begin

text \<open>
  The package \<open>internal/transactions\<close> (\<open>models.go\<close> and the state machine of \<open>service.go\<close>): the
  transaction record, its creation, every guarded state change of payment, forwarding, delivery and
  dispute, and the projections sellers and buyers see. One invariant covers all states; every
  operation keeps it, and the safety properties follow from it.
\<close>

section \<open>Data\<close>

datatype TransactionStatus =
    StatusProposed
  | StatusApprovalPending
  | StatusApproved
  | StatusPaymentRequired
  | StatusPaymentVerified
  | StatusForwarded
  | StatusFulfilled
  | StatusFailed
  | StatusDisputed
  | StatusRefundRecommended
  | StatusResolved
  | StatusOther string

fun TransactionStatus_wire :: "TransactionStatus \<Rightarrow> string" where
  "TransactionStatus_wire StatusProposed = ''PROPOSED''"
| "TransactionStatus_wire StatusApprovalPending = ''APPROVAL_PENDING''"
| "TransactionStatus_wire StatusApproved = ''APPROVED''"
| "TransactionStatus_wire StatusPaymentRequired = ''PAYMENT_REQUIRED''"
| "TransactionStatus_wire StatusPaymentVerified = ''PAYMENT_VERIFIED''"
| "TransactionStatus_wire StatusForwarded = ''FORWARDED''"
| "TransactionStatus_wire StatusFulfilled = ''FULFILLED''"
| "TransactionStatus_wire StatusFailed = ''FAILED''"
| "TransactionStatus_wire StatusDisputed = ''DISPUTED''"
| "TransactionStatus_wire StatusRefundRecommended = ''REFUND_RECOMMENDED''"
| "TransactionStatus_wire StatusResolved = ''RESOLVED''"
| "TransactionStatus_wire (StatusOther s) = s"

datatype PaymentFinality =
    PaymentFinalityUnset
  | PaymentFinalityConfirmed
  | PaymentFinalityFinalized
  | PaymentFinalityFailed
  | PaymentFinalityOther string

datatype PaymentRail = PaymentRailUnset | PaymentRailX402 | PaymentRailOther string

datatype ActivityMode = ActivityModeUnset | ActivityModeTest | ActivityModeLive | ActivityModeOther string

datatype ReconciliationStage =
    ReconciliationStageNone
  | ReconciliationStageChallenged
  | ReconciliationStageVerified
  | ReconciliationStageFinalized
  | ReconciliationStageFulfilled
  | ReconciliationStageFailed
  | ReconciliationStageDisputed

datatype CommerceState =
    CommerceStateAwaitingPayment
  | CommerceStatePaymentProcessing
  | CommerceStatePaid
  | CommerceStateFulfilling
  | CommerceStateFulfilled
  | CommerceStateFailed
  | CommerceStateDisputed
  | CommerceStateRefundRecommended
  | CommerceStateResolved
  | CommerceStateAbandoned

datatype PaymentState =
  PaymentStatePending | PaymentStateConfirmed | PaymentStateFinalized | PaymentStateFailed
  | PaymentStateExpired

datatype FulfillmentState =
  FulfillmentStateNotStarted | FulfillmentStateInProgress | FulfillmentStateSucceeded
  | FulfillmentStateFailed

datatype RefundState =
  RefundStateNotRequested | RefundStateDisputed | RefundStateRecommended | RefundStateSellerReported

datatype RecoveryAction =
    RecoveryActionRetrySameRequest
  | RecoveryActionRetrySamePayment
  | RecoveryActionAwaitReconciliation
  | RecoveryActionCreateNewIntent
  | RecoveryActionOpenDispute
  | RecoveryActionAwaitResolution
  | RecoveryActionRecordExternalRefund
  | RecoveryActionRequestSellerReview
  | RecoveryActionNone

datatype RecoveryState =
    RecoveryStateNone
  | RecoveryStateRetryAvailable
  | RecoveryStateRetryInProgress
  | RecoveryStateSellerReview
  | RecoveryStateDisputeAvailable
  | RecoveryStateDisputeOpen
  | RecoveryStateRefundRecommended
  | RecoveryStateRefundReported
  | RecoveryStateResolved

datatype SellerOutcome =
    SellerOutcomeAwaitingPayment
  | SellerOutcomeAbandoned
  | SellerOutcomePaymentRejected
  | SellerOutcomePaymentProcessing
  | SellerOutcomeFulfilling
  | SellerOutcomeFulfilled
  | SellerOutcomeFulfillmentFailed
  | SellerOutcomeDisputed
  | SellerOutcomeRefundRecommended
  | SellerOutcomeResolved

record TransactionParams =
  tp_TransactionID :: ID
  tp_IntentID :: ID
  tp_SellerID :: ID
  tp_RouteID :: ID
  tp_BuyerID :: string
  tp_PurchaseSessionID :: string
  tp_ProductDisplayName :: string
  tp_ProductSlug :: string
  tp_PaymentDestinationID :: ID
  tp_PurchaseChannel :: PurchaseChannel
  tp_PaymentRail :: PaymentRail
  tp_ActivityMode :: ActivityMode
  tp_CheckoutExpiresAt :: instant
  tp_Amount :: amount
  tp_Asset :: string
  tp_Network :: string
  tp_CreatedAt :: instant

record ResponseSummary =
  rs_ContentType :: string
  rs_ContentLength :: int

record Transaction =
  tx_transactionID :: ID
  tx_intentID :: ID
  tx_sellerID :: ID
  tx_routeID :: ID
  tx_buyerID :: string
  tx_purchaseSessionID :: string
  tx_productDisplayName :: string
  tx_productSlug :: string
  tx_paymentDestinationID :: ID
  tx_purchaseChannel :: PurchaseChannel
  tx_paymentRail :: PaymentRail
  tx_activityMode :: ActivityMode
  tx_checkoutExpiresAt :: instant
  tx_amount :: amount
  tx_asset :: string
  tx_network :: string
  tx_status :: TransactionStatus
  tx_paymentIdentifier :: string
  tx_paymentProofHash :: SHA256Digest
  tx_paymentReference :: string
  tx_paymentFinality :: PaymentFinality
  tx_reconciledAt :: "instant option"
  tx_upstreamStatus :: "int option"
  tx_responseHash :: "SHA256Digest option"
  tx_responseSummary :: "ResponseSummary option"
  tx_failureCode :: string
  tx_recoveryRequestBodyHash :: SHA256Digest
  tx_fulfillmentAttempts :: u32
  tx_retrySafe :: bool
  tx_createdAt :: instant
  tx_updatedAt :: instant
  tx_version :: u64

record CommerceLifecycleProjection =
  cl_ExternalReference :: string
  cl_CommerceState :: CommerceState
  cl_PaymentState :: PaymentState
  cl_FulfillmentState :: FulfillmentState
  cl_RefundState :: RefundState
  cl_RecoveryAction :: RecoveryAction
  cl_RecoveryState :: RecoveryState

record Reconciliation =
  rc_Stage :: ReconciliationStage
  rc_Amount :: amount
  rc_Asset :: string
  rc_Network :: string
  rc_PaymentReference :: string
  rc_ReconciledAt :: "instant option"

text \<open>
  \<open>intents.PurchaseChannel\<close> and \<open>transactions.PurchaseChannel\<close> are two Go string types with the same
  values; one datatype stands for both.
\<close>

definition InvalidTransitionError :: "TransactionStatus \<Rightarrow> TransactionStatus \<Rightarrow> go_error" where
  "InvalidTransitionError from to =
     InvalidTransition (TransactionStatus_wire from) (TransactionStatus_wire to)"

section \<open>Creation\<close>

definition validateTransactionParams ::
  "(string \<Rightarrow> bool) \<Rightarrow> TransactionParams \<Rightarrow> validation_error list" where
  "validateTransactionParams ulid p =
     (let validateID = (\<lambda>identifier pre field.
            add_if (\<not> is_ok (ParseID ulid identifier pre))
              (NewValidationError field ''format'' ''has an invalid domain identifier''));
          commerceSnapshotFields =
            (if TrimSpace (tp_ProductDisplayName p) \<noteq> [] then 1 else 0)
            + (if TrimSpace (tp_ProductSlug p) \<noteq> [] then 1 else 0)
            + (if tp_PaymentDestinationID p \<noteq> [] then 1 else 0 :: int)
      in validateID (tp_TransactionID p) TransactionIDPrefix ''transactionId''
       @ validateID (tp_IntentID p) IntentIDPrefix ''intentId''
       @ validateID (tp_SellerID p) SellerIDPrefix ''sellerId''
       @ validateID (tp_RouteID p) RouteIDPrefix ''routeId''
       @ add_if (TrimSpace (tp_BuyerID p) = [])
           (NewValidationError ''buyerId'' ''required'' ''is required'')
       @ add_if (tp_PurchaseChannel p \<notin> {PurchaseChannelUnset, PurchaseChannelAgent, PurchaseChannelBrowser})
           (NewValidationError ''purchaseChannel'' ''supported'' ''must use a supported purchase channel'')
       @ add_if (tp_PaymentRail p \<notin> {PaymentRailUnset, PaymentRailX402})
           (NewValidationError ''paymentRail'' ''supported'' ''must use x402'')
       @ add_if (tp_ActivityMode p \<notin> {ActivityModeUnset, ActivityModeTest, ActivityModeLive})
           (NewValidationError ''activityMode'' ''supported'' ''must be test or live'')
       @ add_if (tp_CheckoutExpiresAt p \<noteq> 0 \<and> \<not> tp_CreatedAt p < tp_CheckoutExpiresAt p)
           (NewValidationError ''checkoutExpiresAt'' ''chronology'' ''must occur after creation'')
       @ add_if (tp_PurchaseChannel p = PurchaseChannelBrowser \<and> TrimSpace (tp_PurchaseSessionID p) = [])
           (NewValidationError ''purchaseSessionId'' ''required'' ''is required for browser purchases'')
       @ add_if (commerceSnapshotFields \<noteq> 0 \<and> commerceSnapshotFields \<noteq> 3)
           (NewValidationError ''commerceSnapshot'' ''complete''
              ''product and payment destination snapshots must be supplied together'')
       @ add_if (tp_PaymentDestinationID p \<noteq> []
                 \<and> ID_Prefix (tp_PaymentDestinationID p) \<noteq> PaymentDestinationIDPrefix)
           (NewValidationError ''paymentDestinationId'' ''format''
              ''must be a payment destination identifier'')
       @ add_if (Amount_IsZero (tp_Amount p))
           (NewValidationError ''amount'' ''positive'' ''must be greater than zero'')
       @ add_if (TrimSpace (tp_Asset p) = [])
           (NewValidationError ''asset'' ''required'' ''is required'')
       @ add_if (TrimSpace (tp_Network p) = [])
           (NewValidationError ''network'' ''required'' ''is required'')
       @ add_if (tp_CreatedAt p = 0)
           (NewValidationError ''createdAt'' ''required'' ''is required''))"

abbreviation defaultCheckoutLifetime :: int where "defaultCheckoutLifetime \<equiv> 5 * Minute"

definition NewTransaction :: "(string \<Rightarrow> bool) \<Rightarrow> TransactionParams \<Rightarrow> Transaction result" where
  "NewTransaction ulid p =
     (let validationErrors = validateTransactionParams ulid p
      in reject_if (validationErrors \<noteq> []) (ValidationErrs validationErrors)
        (Inr \<lparr>tx_transactionID = tp_TransactionID p,
              tx_intentID = tp_IntentID p,
              tx_sellerID = tp_SellerID p,
              tx_routeID = tp_RouteID p,
              tx_buyerID = TrimSpace (tp_BuyerID p),
              tx_purchaseSessionID = TrimSpace (tp_PurchaseSessionID p),
              tx_productDisplayName = TrimSpace (tp_ProductDisplayName p),
              tx_productSlug = TrimSpace (tp_ProductSlug p),
              tx_paymentDestinationID = tp_PaymentDestinationID p,
              tx_purchaseChannel = (if tp_PurchaseChannel p = PurchaseChannelUnset
                                    then PurchaseChannelAgent else tp_PurchaseChannel p),
              tx_paymentRail = (if tp_PaymentRail p = PaymentRailUnset
                                then PaymentRailX402 else tp_PaymentRail p),
              tx_activityMode = (if tp_ActivityMode p = ActivityModeUnset
                                 then ActivityModeTest else tp_ActivityMode p),
              tx_checkoutExpiresAt = (if tp_CheckoutExpiresAt p = 0
                                      then Timestamp_Add (tp_CreatedAt p) defaultCheckoutLifetime
                                      else tp_CheckoutExpiresAt p),
              tx_amount = tp_Amount p,
              tx_asset = TrimSpace (tp_Asset p),
              tx_network = TrimSpace (tp_Network p),
              tx_status = StatusProposed,
              tx_paymentIdentifier = [],
              tx_paymentProofHash = [],
              tx_paymentReference = [],
              tx_paymentFinality = PaymentFinalityUnset,
              tx_reconciledAt = None,
              tx_upstreamStatus = None,
              tx_responseHash = None,
              tx_responseSummary = None,
              tx_failureCode = [],
              tx_recoveryRequestBodyHash = [],
              tx_fulfillmentAttempts = 0,
              tx_retrySafe = False,
              tx_createdAt = tp_CreatedAt p,
              tx_updatedAt = tp_CreatedAt p,
              tx_version = 1\<rparr>))"

section \<open>State changes\<close>

fun allowedTransition :: "TransactionStatus \<Rightarrow> TransactionStatus \<Rightarrow> bool" where
  "allowedTransition StatusProposed n \<longleftrightarrow> n = StatusApprovalPending \<or> n = StatusPaymentRequired"
| "allowedTransition StatusApprovalPending n \<longleftrightarrow> n = StatusApproved"
| "allowedTransition StatusApproved n \<longleftrightarrow> n = StatusPaymentRequired"
| "allowedTransition StatusPaymentRequired n \<longleftrightarrow> n = StatusPaymentVerified"
| "allowedTransition StatusPaymentVerified n \<longleftrightarrow> n = StatusForwarded \<or> n = StatusFailed"
| "allowedTransition StatusForwarded n \<longleftrightarrow> n = StatusFulfilled \<or> n = StatusFailed"
| "allowedTransition StatusFulfilled n \<longleftrightarrow> n = StatusDisputed"
| "allowedTransition StatusFailed n \<longleftrightarrow> n = StatusDisputed"
| "allowedTransition StatusDisputed n \<longleftrightarrow> n = StatusRefundRecommended \<or> n = StatusResolved"
| "allowedTransition StatusRefundRecommended n \<longleftrightarrow> n = StatusResolved"
| "allowedTransition _ n \<longleftrightarrow> False"

text \<open>
  The pointer-receiver methods return the updated transaction. Each makes all its checks before it
  writes the first field, so an error leaves the transaction unchanged.
\<close>

definition validateMutationTime :: "Transaction \<Rightarrow> instant \<Rightarrow> unit result" where
  "validateMutationTime t at =
     reject_if (Timestamp_Before at (tx_updatedAt t))
       (validation ''updatedAt'' ''chronology'' ''cannot occur before the previous update'') (Inr ())"

definition transition :: "Transaction \<Rightarrow> TransactionStatus \<Rightarrow> instant \<Rightarrow> Transaction result" where
  "transition t next at =
     rbind (validateMutationTime t at) (\<lambda>_.
     reject_if (\<not> allowedTransition (tx_status t) next) (InvalidTransitionError (tx_status t) next)
     (Inr (t\<lparr>tx_status := next, tx_updatedAt := at, tx_version := tx_version t + 1\<rparr>)))"

definition RequireApproval :: "Transaction \<Rightarrow> instant \<Rightarrow> Transaction result" where
  "RequireApproval t at = transition t StatusApprovalPending at"

definition MarkApproved :: "Transaction \<Rightarrow> instant \<Rightarrow> Transaction result" where
  "MarkApproved t at = transition t StatusApproved at"

definition RequirePayment :: "Transaction \<Rightarrow> instant \<Rightarrow> Transaction result" where
  "RequirePayment t at = transition t StatusPaymentRequired at"

definition VerifyPayment ::
  "Transaction \<Rightarrow> string \<Rightarrow> SHA256Digest \<Rightarrow> instant \<Rightarrow> Transaction result" where
  "VerifyPayment t paymentIdentifier proofHash at =
     reject_if (TrimSpace paymentIdentifier = [])
       (validation ''paymentIdentifier'' ''required'' ''is required'')
     (reject_if (\<not> is_ok (ParseSHA256Digest proofHash))
       (validation ''paymentProofHash'' ''format'' ''must be a SHA-256 digest'')
     (rbind (transition t StatusPaymentVerified at) (\<lambda>t'.
       Inr (t'\<lparr>tx_paymentIdentifier := TrimSpace paymentIdentifier,
               tx_paymentProofHash := proofHash,
               tx_paymentFinality := PaymentFinalityConfirmed,
               tx_reconciledAt := Some at\<rparr>))))"

definition validatePaymentReference :: "string \<Rightarrow> bool \<Rightarrow> unit result" where
  "validatePaymentReference paymentReference required =
     (let trimmed = TrimSpace paymentReference
      in reject_if (required \<and> trimmed = [])
           (validation ''paymentReference'' ''required'' ''is required'')
        (reject_if (512 < length trimmed)
           (validation ''paymentReference'' ''length'' ''exceeds the maximum length'')
        (reject_if (has_control trimmed)
           (validation ''paymentReference'' ''format'' ''must not contain control characters'')
        (Inr ()))))"

definition FinalizePayment ::
  "Transaction \<Rightarrow> string \<Rightarrow> string \<Rightarrow> instant \<Rightarrow> Transaction result" where
  "FinalizePayment t paymentIdentifier paymentReference at =
     reject_if (TrimSpace paymentIdentifier \<noteq> tx_paymentIdentifier t)
       (validation ''paymentIdentifier'' ''match'' ''must match the verified payment identifier'')
     (rbind (validatePaymentReference paymentReference True) (\<lambda>_.
     reject_if (tx_status t \<noteq> StatusPaymentVerified \<or> tx_paymentFinality t \<noteq> PaymentFinalityConfirmed)
       (InvalidTransitionError (tx_status t) StatusPaymentVerified)
     (rbind (validateMutationTime t at) (\<lambda>_.
     Inr (t\<lparr>tx_paymentReference := TrimSpace paymentReference,
            tx_paymentFinality := PaymentFinalityFinalized,
            tx_reconciledAt := Some at,
            tx_updatedAt := at,
            tx_version := tx_version t + 1\<rparr>)))))"

definition FailPayment :: "Transaction \<Rightarrow> string \<Rightarrow> string \<Rightarrow> instant \<Rightarrow> Transaction result" where
  "FailPayment t failureCode paymentReference at =
     reject_if (TrimSpace failureCode = []) (validation ''failureCode'' ''required'' ''is required'')
     (rbind (validatePaymentReference paymentReference False) (\<lambda>_.
     reject_if (tx_status t \<noteq> StatusPaymentVerified \<or> tx_paymentFinality t \<noteq> PaymentFinalityConfirmed)
       (InvalidTransitionError (tx_status t) StatusFailed)
     (rbind (transition t StatusFailed at) (\<lambda>t'.
     Inr (t'\<lparr>tx_failureCode := TrimSpace failureCode,
             tx_paymentReference := TrimSpace paymentReference,
             tx_paymentFinality := PaymentFinalityFailed,
             tx_reconciledAt := Some at\<rparr>)))))"

definition RequirePaymentReview ::
  "Transaction \<Rightarrow> string \<Rightarrow> string \<Rightarrow> instant \<Rightarrow> Transaction result" where
  "RequirePaymentReview t reviewCode paymentReference at =
     reject_if (TrimSpace reviewCode = []) (validation ''reviewCode'' ''required'' ''is required'')
     (rbind (validatePaymentReference paymentReference True) (\<lambda>_.
     reject_if (tx_status t \<noteq> StatusPaymentVerified \<or> tx_paymentFinality t \<noteq> PaymentFinalityConfirmed)
       (InvalidTransitionError (tx_status t) StatusPaymentVerified)
     (rbind (validateMutationTime t at) (\<lambda>_.
     Inr (t\<lparr>tx_failureCode := TrimSpace reviewCode,
            tx_paymentReference := TrimSpace paymentReference,
            tx_reconciledAt := Some at,
            tx_updatedAt := at,
            tx_version := tx_version t + 1\<rparr>)))))"

definition MarkForwarded :: "Transaction \<Rightarrow> instant \<Rightarrow> Transaction result" where
  "MarkForwarded t at =
     reject_if (tx_status t \<noteq> StatusPaymentVerified \<or> tx_paymentFinality t \<noteq> PaymentFinalityFinalized)
       (InvalidTransitionError (tx_status t) StatusForwarded)
     (rbind (transition t StatusForwarded at) (\<lambda>t'.
     Inr (t'\<lparr>tx_fulfillmentAttempts := tx_fulfillmentAttempts t' + 1\<rparr>)))"

definition MarkFulfilled ::
  "Transaction \<Rightarrow> int \<Rightarrow> SHA256Digest \<Rightarrow> ResponseSummary \<Rightarrow> instant \<Rightarrow> Transaction result" where
  "MarkFulfilled t status responseHash summary at =
     reject_if (status < 200 \<or> 299 < status)
       (validation ''upstreamStatus'' ''success'' ''must be a successful HTTP status'')
     (reject_if (\<not> is_ok (ParseSHA256Digest responseHash))
       (validation ''responseHash'' ''format'' ''must be a SHA-256 digest'')
     (reject_if (rs_ContentLength summary < 0)
       (validation ''responseSummary.contentLength'' ''non_negative'' ''must not be negative'')
     (rbind (transition t StatusFulfilled at) (\<lambda>t'.
     Inr (t'\<lparr>tx_upstreamStatus := Some status,
             tx_responseHash := Some responseHash,
             tx_responseSummary := Some summary\<rparr>)))))"

definition retry_safe_failure :: "string \<Rightarrow> int option \<Rightarrow> bool" where
  "retry_safe_failure failureCode status =
     (case status of
        Some st \<Rightarrow> st = 400 \<or> st = 422
      | None \<Rightarrow> failureCode = ''execution_authorization_unavailable''
                \<or> failureCode = ''forwarding_evidence_unavailable'')"

definition MarkFailedWithRecovery ::
  "Transaction \<Rightarrow> string \<Rightarrow> int option \<Rightarrow> SHA256Digest option \<Rightarrow> bool \<Rightarrow> instant \<Rightarrow> Transaction result" where
  "MarkFailedWithRecovery t failureCode status responseHash retrySafe at =
     reject_if (TrimSpace failureCode = []) (validation ''failureCode'' ''required'' ''is required'')
     (reject_if (case responseHash of None \<Rightarrow> False | Some h \<Rightarrow> \<not> is_ok (ParseSHA256Digest h))
       (validation ''responseHash'' ''format'' ''must be a SHA-256 digest'')
     (rbind (transition t StatusFailed at) (\<lambda>t'.
     Inr (t'\<lparr>tx_failureCode := TrimSpace failureCode,
             tx_retrySafe := retrySafe \<and> tx_paymentFinality t' = PaymentFinalityFinalized
               \<and> tx_fulfillmentAttempts t' = 1 \<and> retry_safe_failure (TrimSpace failureCode) status,
             tx_upstreamStatus := (case status of None \<Rightarrow> tx_upstreamStatus t' | Some st \<Rightarrow> Some st),
             tx_responseHash := (case responseHash of None \<Rightarrow> tx_responseHash t' | Some h \<Rightarrow> Some h)\<rparr>))))"

definition MarkFailed ::
  "Transaction \<Rightarrow> string \<Rightarrow> int option \<Rightarrow> SHA256Digest option \<Rightarrow> instant \<Rightarrow> Transaction result" where
  "MarkFailed t failureCode status responseHash at =
     MarkFailedWithRecovery t failureCode status responseHash False at"

definition CanRetryFulfillment :: "Transaction \<Rightarrow> bool" where
  "CanRetryFulfillment t \<longleftrightarrow>
     tx_status t = StatusFailed \<and> tx_paymentFinality t = PaymentFinalityFinalized
     \<and> tx_retrySafe t \<and> tx_fulfillmentAttempts t = 1"

definition PrepareFulfillmentRetry ::
  "Transaction \<Rightarrow> SHA256Digest \<Rightarrow> instant \<Rightarrow> Transaction result" where
  "PrepareFulfillmentRetry t requestBodyHash at =
     reject_if (\<not> is_ok (ParseSHA256Digest requestBodyHash))
       (validation ''requestBodyHash'' ''format'' ''must be a SHA-256 digest'')
     (reject_if (\<not> CanRetryFulfillment t)
       (InvalidTransitionError (tx_status t) StatusPaymentVerified)
     (rbind (validateMutationTime t at) (\<lambda>_.
     Inr (t\<lparr>tx_status := StatusPaymentVerified,
            tx_recoveryRequestBodyHash := requestBodyHash,
            tx_retrySafe := False,
            tx_failureCode := [],
            tx_upstreamStatus := None,
            tx_responseHash := None,
            tx_responseSummary := None,
            tx_updatedAt := at,
            tx_version := tx_version t + 1\<rparr>))))"

definition OpenDispute :: "Transaction \<Rightarrow> instant \<Rightarrow> Transaction result" where
  "OpenDispute t at = transition t StatusDisputed at"

definition RecommendRefund :: "Transaction \<Rightarrow> instant \<Rightarrow> Transaction result" where
  "RecommendRefund t at = transition t StatusRefundRecommended at"

definition Resolve :: "Transaction \<Rightarrow> instant \<Rightarrow> Transaction result" where
  "Resolve t at = transition t StatusResolved at"

section \<open>Projections\<close>

definition Reconciliation_of :: "Transaction \<Rightarrow> Reconciliation" where
  "Reconciliation_of t =
     \<lparr>rc_Stage =
        (case tx_status t of
           StatusPaymentRequired \<Rightarrow> ReconciliationStageChallenged
         | StatusPaymentVerified \<Rightarrow>
             (if tx_paymentFinality t = PaymentFinalityFinalized then ReconciliationStageFinalized
              else ReconciliationStageVerified)
         | StatusForwarded \<Rightarrow>
             (if tx_paymentFinality t = PaymentFinalityFinalized then ReconciliationStageFinalized
              else ReconciliationStageVerified)
         | StatusFulfilled \<Rightarrow> ReconciliationStageFulfilled
         | StatusFailed \<Rightarrow> ReconciliationStageFailed
         | StatusDisputed \<Rightarrow> ReconciliationStageDisputed
         | StatusRefundRecommended \<Rightarrow> ReconciliationStageDisputed
         | StatusResolved \<Rightarrow> ReconciliationStageDisputed
         | _ \<Rightarrow> ReconciliationStageNone),
      rc_Amount = tx_amount t, rc_Asset = tx_asset t, rc_Network = tx_network t,
      rc_PaymentReference = tx_paymentReference t, rc_ReconciledAt = tx_reconciledAt t\<rparr>"

text \<open>The assignments before, during and after the switch on the status, in source order.\<close>

definition lifecycle_payment :: "Transaction \<Rightarrow> CommerceLifecycleProjection \<Rightarrow> CommerceLifecycleProjection" where
  "lifecycle_payment t p =
     (case tx_paymentFinality t of
        PaymentFinalityConfirmed \<Rightarrow>
          p\<lparr>cl_CommerceState := CommerceStatePaymentProcessing,
            cl_PaymentState := PaymentStateConfirmed,
            cl_RecoveryAction := RecoveryActionAwaitReconciliation\<rparr>
      | PaymentFinalityFinalized \<Rightarrow>
          p\<lparr>cl_CommerceState := CommerceStatePaid,
            cl_PaymentState := PaymentStateFinalized,
            cl_RecoveryState := (if tx_recoveryRequestBodyHash t \<noteq> [] then RecoveryStateRetryInProgress
                                 else cl_RecoveryState p)\<rparr>
      | PaymentFinalityFailed \<Rightarrow>
          p\<lparr>cl_CommerceState := CommerceStateFailed,
            cl_PaymentState := PaymentStateFailed,
            cl_RecoveryAction := RecoveryActionCreateNewIntent\<rparr>
      | _ \<Rightarrow> p)"

definition lifecycle_delivery :: "Transaction \<Rightarrow> CommerceLifecycleProjection \<Rightarrow> CommerceLifecycleProjection" where
  "lifecycle_delivery t p =
     (if tx_failureCode t \<noteq> [] \<and> tx_status t \<noteq> StatusPaymentVerified
      then p\<lparr>cl_FulfillmentState := FulfillmentStateFailed\<rparr>
      else case tx_upstreamStatus t of
             None \<Rightarrow> p
           | Some st \<Rightarrow> if 200 \<le> st \<and> st \<le> 299
                        then p\<lparr>cl_FulfillmentState := FulfillmentStateSucceeded\<rparr> else p)"

definition lifecycle_failed_recovery :: "Transaction \<Rightarrow> CommerceLifecycleProjection \<Rightarrow> CommerceLifecycleProjection" where
  "lifecycle_failed_recovery t p =
     (if tx_paymentFinality t \<noteq> PaymentFinalityFinalized then p
      else if CanRetryFulfillment t
      then p\<lparr>cl_RecoveryState := RecoveryStateRetryAvailable,
             cl_RecoveryAction := RecoveryActionRetrySamePayment\<rparr>
      else if tx_failureCode t = ''upstream_timeout'' \<or> tx_failureCode t = ''upstream_unavailable''
      then p\<lparr>cl_RecoveryState := RecoveryStateSellerReview,
             cl_RecoveryAction := RecoveryActionRequestSellerReview\<rparr>
      else p\<lparr>cl_RecoveryState := RecoveryStateDisputeAvailable,
             cl_RecoveryAction := RecoveryActionOpenDispute\<rparr>)"

definition lifecycle_status :: "Transaction \<Rightarrow> CommerceLifecycleProjection \<Rightarrow> CommerceLifecycleProjection" where
  "lifecycle_status t p =
     (case tx_status t of
        StatusForwarded \<Rightarrow>
          p\<lparr>cl_CommerceState := CommerceStateFulfilling,
            cl_FulfillmentState := FulfillmentStateInProgress,
            cl_RecoveryState := (if tx_fulfillmentAttempts t > 1 then RecoveryStateRetryInProgress
                                 else cl_RecoveryState p)\<rparr>
      | StatusFulfilled \<Rightarrow>
          p\<lparr>cl_CommerceState := CommerceStateFulfilled,
            cl_FulfillmentState := FulfillmentStateSucceeded,
            cl_RecoveryAction := RecoveryActionNone,
            cl_RecoveryState := (if tx_fulfillmentAttempts t > 1 then RecoveryStateResolved
                                 else cl_RecoveryState p)\<rparr>
      | StatusFailed \<Rightarrow>
          lifecycle_failed_recovery t
            (p\<lparr>cl_CommerceState := CommerceStateFailed,
               cl_FulfillmentState := FulfillmentStateFailed\<rparr>)
      | StatusDisputed \<Rightarrow>
          p\<lparr>cl_CommerceState := CommerceStateDisputed,
            cl_RefundState := RefundStateDisputed,
            cl_RecoveryAction := RecoveryActionAwaitResolution,
            cl_RecoveryState := RecoveryStateDisputeOpen\<rparr>
      | StatusRefundRecommended \<Rightarrow>
          p\<lparr>cl_CommerceState := CommerceStateRefundRecommended,
            cl_RefundState := RefundStateRecommended,
            cl_RecoveryAction := RecoveryActionRecordExternalRefund,
            cl_RecoveryState := RecoveryStateRefundRecommended\<rparr>
      | StatusResolved \<Rightarrow>
          p\<lparr>cl_CommerceState := CommerceStateResolved,
            cl_RefundState := RefundStateDisputed,
            cl_RecoveryAction := RecoveryActionNone,
            cl_RecoveryState := RecoveryStateResolved\<rparr>
      | _ \<Rightarrow> p)"

definition CommerceLifecycleAt :: "Transaction \<Rightarrow> instant \<Rightarrow> bool \<Rightarrow> CommerceLifecycleProjection" where
  "CommerceLifecycleAt t at sellerReportedRefund =
     (let p = \<lparr>cl_ExternalReference = tx_transactionID t,
               cl_CommerceState = CommerceStateAwaitingPayment,
               cl_PaymentState = PaymentStatePending,
               cl_FulfillmentState = FulfillmentStateNotStarted,
               cl_RefundState = RefundStateNotRequested,
               cl_RecoveryAction = RecoveryActionRetrySameRequest,
               cl_RecoveryState = RecoveryStateNone\<rparr>
      in if tx_status t = StatusPaymentRequired \<and> tx_paymentFinality t = PaymentFinalityUnset
            \<and> \<not> at < tx_checkoutExpiresAt t
         then p\<lparr>cl_CommerceState := CommerceStateAbandoned, cl_PaymentState := PaymentStateExpired,
                cl_RecoveryAction := RecoveryActionCreateNewIntent\<rparr>
         else
           (let q = lifecycle_status t (lifecycle_delivery t (lifecycle_payment t p))
            in if sellerReportedRefund
               then q\<lparr>cl_RefundState := RefundStateSellerReported,
                      cl_RecoveryAction := RecoveryActionNone,
                      cl_RecoveryState := RecoveryStateRefundReported\<rparr>
               else q))"

definition CommerceLifecycle :: "Transaction \<Rightarrow> bool \<Rightarrow> CommerceLifecycleProjection" where
  "CommerceLifecycle t sellerReportedRefund =
     CommerceLifecycleAt t (tx_updatedAt t) sellerReportedRefund"

definition SellerOutcomeAt :: "Transaction \<Rightarrow> instant \<Rightarrow> SellerOutcome" where
  "SellerOutcomeAt t at =
     (let p = CommerceLifecycleAt t at False
      in case cl_CommerceState p of
           CommerceStateAbandoned \<Rightarrow> SellerOutcomeAbandoned
         | CommerceStatePaymentProcessing \<Rightarrow> SellerOutcomePaymentProcessing
         | CommerceStatePaid \<Rightarrow> SellerOutcomePaymentProcessing
         | CommerceStateFulfilling \<Rightarrow> SellerOutcomeFulfilling
         | CommerceStateFulfilled \<Rightarrow> SellerOutcomeFulfilled
         | CommerceStateDisputed \<Rightarrow> SellerOutcomeDisputed
         | CommerceStateRefundRecommended \<Rightarrow> SellerOutcomeRefundRecommended
         | CommerceStateResolved \<Rightarrow> SellerOutcomeResolved
         | CommerceStateFailed \<Rightarrow>
             if cl_PaymentState p = PaymentStateFailed then SellerOutcomePaymentRejected
             else SellerOutcomeFulfillmentFailed
         | CommerceStateAwaitingPayment \<Rightarrow> SellerOutcomeAwaitingPayment)"

section \<open>Operations as labels\<close>

text \<open>One label per public state change, so that runs are sequences of labels.\<close>

datatype tx_op =
    OpRequireApproval instant
  | OpMarkApproved instant
  | OpRequirePayment instant
  | OpVerifyPayment string SHA256Digest instant
  | OpFinalizePayment string string instant
  | OpFailPayment string string instant
  | OpRequirePaymentReview string string instant
  | OpMarkForwarded instant
  | OpMarkFulfilled int SHA256Digest ResponseSummary instant
  | OpMarkFailedWithRecovery string "int option" "SHA256Digest option" bool instant
  | OpPrepareFulfillmentRetry SHA256Digest instant
  | OpOpenDispute instant
  | OpRecommendRefund instant
  | OpResolve instant

fun apply_op :: "tx_op \<Rightarrow> Transaction \<Rightarrow> Transaction result" where
  "apply_op (OpRequireApproval at) t = RequireApproval t at"
| "apply_op (OpMarkApproved at) t = MarkApproved t at"
| "apply_op (OpRequirePayment at) t = RequirePayment t at"
| "apply_op (OpVerifyPayment i h at) t = VerifyPayment t i h at"
| "apply_op (OpFinalizePayment i r at) t = FinalizePayment t i r at"
| "apply_op (OpFailPayment c r at) t = FailPayment t c r at"
| "apply_op (OpRequirePaymentReview c r at) t = RequirePaymentReview t c r at"
| "apply_op (OpMarkForwarded at) t = MarkForwarded t at"
| "apply_op (OpMarkFulfilled st h s at) t = MarkFulfilled t st h s at"
| "apply_op (OpMarkFailedWithRecovery c st h b at) t = MarkFailedWithRecovery t c st h b at"
| "apply_op (OpPrepareFulfillmentRetry h at) t = PrepareFulfillmentRetry t h at"
| "apply_op (OpOpenDispute at) t = OpenDispute t at"
| "apply_op (OpRecommendRefund at) t = RecommendRefund t at"
| "apply_op (OpResolve at) t = Resolve t at"

lemma transition_eq_Inr:
  "transition t next at = Inr t' \<longleftrightarrow>
     tx_updatedAt t \<le> at \<and> allowedTransition (tx_status t) next
     \<and> t' = t\<lparr>tx_status := next, tx_updatedAt := at, tx_version := tx_version t + 1\<rparr>"
  by (auto simp: transition_def validateMutationTime_def Timestamp_Before_def result_simps)

lemma validateMutationTime_eq_Inr: "validateMutationTime t at = Inr u \<longleftrightarrow> tx_updatedAt t \<le> at"
  by (auto simp: validateMutationTime_def Timestamp_Before_def result_simps)

definition payment_reference_ok :: "string \<Rightarrow> bool" where
  "payment_reference_ok r \<longleftrightarrow> TrimSpace r = r \<and> length r \<le> 512 \<and> \<not> has_control r"

lemma validatePaymentReference_eq_Inr:
  "validatePaymentReference r required = Inr u \<longleftrightarrow>
     payment_reference_ok (TrimSpace r) \<and> (required \<longrightarrow> TrimSpace r \<noteq> [])"
  by (auto simp: validatePaymentReference_def payment_reference_ok_def Let_def result_simps)

lemma allowed_to [simp]:
  "allowedTransition s StatusApprovalPending \<longleftrightarrow> s = StatusProposed"
  "allowedTransition s StatusApproved \<longleftrightarrow> s = StatusApprovalPending"
  "allowedTransition s StatusPaymentRequired \<longleftrightarrow> s = StatusProposed \<or> s = StatusApproved"
  "allowedTransition s StatusPaymentVerified \<longleftrightarrow> s = StatusPaymentRequired"
  "allowedTransition s StatusForwarded \<longleftrightarrow> s = StatusPaymentVerified"
  "allowedTransition s StatusFulfilled \<longleftrightarrow> s = StatusForwarded"
  "allowedTransition s StatusFailed \<longleftrightarrow> s = StatusPaymentVerified \<or> s = StatusForwarded"
  "allowedTransition s StatusDisputed \<longleftrightarrow> s = StatusFulfilled \<or> s = StatusFailed"
  "allowedTransition s StatusRefundRecommended \<longleftrightarrow> s = StatusDisputed"
  "allowedTransition s StatusResolved \<longleftrightarrow> s = StatusDisputed \<or> s = StatusRefundRecommended"
  by (cases s; simp)+

lemmas tx_op_defs =
  RequireApproval_def MarkApproved_def RequirePayment_def VerifyPayment_def FinalizePayment_def
  FailPayment_def RequirePaymentReview_def MarkForwarded_def MarkFulfilled_def
  MarkFailedWithRecovery_def PrepareFulfillmentRetry_def OpenDispute_def RecommendRefund_def
  Resolve_def

lemmas tx_op_simps = tx_op_defs result_simps transition_eq_Inr validateMutationTime_eq_Inr
  validatePaymentReference_eq_Inr

section \<open>The invariant of transactions\<close>

text \<open>The identity and the price of a transaction, as the parameters that would create it again.\<close>

definition tx_terms :: "Transaction \<Rightarrow> TransactionParams" where
  "tx_terms t =
     \<lparr>tp_TransactionID = tx_transactionID t, tp_IntentID = tx_intentID t,
      tp_SellerID = tx_sellerID t, tp_RouteID = tx_routeID t, tp_BuyerID = tx_buyerID t,
      tp_PurchaseSessionID = tx_purchaseSessionID t,
      tp_ProductDisplayName = tx_productDisplayName t, tp_ProductSlug = tx_productSlug t,
      tp_PaymentDestinationID = tx_paymentDestinationID t,
      tp_PurchaseChannel = tx_purchaseChannel t, tp_PaymentRail = tx_paymentRail t,
      tp_ActivityMode = tx_activityMode t, tp_CheckoutExpiresAt = tx_checkoutExpiresAt t,
      tp_Amount = tx_amount t, tp_Asset = tx_asset t, tp_Network = tx_network t,
      tp_CreatedAt = tx_createdAt t\<rparr>"

definition no_delivery :: "Transaction \<Rightarrow> bool" where
  "no_delivery t \<longleftrightarrow>
     tx_upstreamStatus t = None \<and> tx_responseHash t = None \<and> tx_responseSummary t = None"

definition unpaid :: "Transaction \<Rightarrow> bool" where
  "unpaid t \<longleftrightarrow>
     tx_paymentIdentifier t = [] \<and> tx_paymentProofHash t = [] \<and> tx_paymentReference t = []
     \<and> tx_paymentFinality t = PaymentFinalityUnset \<and> tx_reconciledAt t = None
     \<and> tx_failureCode t = [] \<and> tx_recoveryRequestBodyHash t = []
     \<and> tx_fulfillmentAttempts t = 0 \<and> \<not> tx_retrySafe t \<and> no_delivery t"

definition paid :: "Transaction \<Rightarrow> bool" where
  "paid t \<longleftrightarrow>
     tx_paymentIdentifier t \<noteq> [] \<and> TrimSpace (tx_paymentIdentifier t) = tx_paymentIdentifier t
     \<and> sha256_digest (tx_paymentProofHash t) \<and> tx_reconciledAt t \<noteq> None
     \<and> (tx_paymentFinality t = PaymentFinalityFinalized \<longrightarrow>
          payment_reference_ok (tx_paymentReference t) \<and> tx_paymentReference t \<noteq> [])"

definition delivered :: "Transaction \<Rightarrow> bool" where
  "delivered t \<longleftrightarrow>
     tx_paymentFinality t = PaymentFinalityFinalized \<and> tx_fulfillmentAttempts t \<in> {1, 2}
     \<and> (\<exists>st h s. tx_upstreamStatus t = Some st \<and> 200 \<le> st \<and> st \<le> 299
          \<and> tx_responseHash t = Some h \<and> sha256_digest h
          \<and> tx_responseSummary t = Some s \<and> 0 \<le> rs_ContentLength s)"

definition undelivered :: "Transaction \<Rightarrow> bool" where
  "undelivered t \<longleftrightarrow>
     tx_failureCode t \<noteq> [] \<and> tx_responseSummary t = None
     \<and> (tx_paymentFinality t = PaymentFinalityFinalized \<and> tx_fulfillmentAttempts t \<in> {0, 1, 2}
        \<or> tx_paymentFinality t \<in> {PaymentFinalityConfirmed, PaymentFinalityFailed}
          \<and> tx_fulfillmentAttempts t = 0 \<and> \<not> tx_retrySafe t)"

definition status_inv :: "Transaction \<Rightarrow> bool" where
  "status_inv t =
     (case tx_status t of
        StatusPaymentVerified \<Rightarrow>
          paid t \<and> no_delivery t \<and> \<not> tx_retrySafe t
          \<and> tx_paymentFinality t \<in> {PaymentFinalityConfirmed, PaymentFinalityFinalized}
          \<and> (tx_fulfillmentAttempts t = 0 \<and> tx_recoveryRequestBodyHash t = []
             \<or> tx_fulfillmentAttempts t = 1 \<and> tx_paymentFinality t = PaymentFinalityFinalized
               \<and> sha256_digest (tx_recoveryRequestBodyHash t))
      | StatusForwarded \<Rightarrow>
          paid t \<and> no_delivery t \<and> \<not> tx_retrySafe t
          \<and> tx_paymentFinality t = PaymentFinalityFinalized
          \<and> (tx_fulfillmentAttempts t = 1 \<and> tx_recoveryRequestBodyHash t = []
             \<or> tx_fulfillmentAttempts t = 2 \<and> sha256_digest (tx_recoveryRequestBodyHash t))
      | StatusFulfilled \<Rightarrow> paid t \<and> delivered t \<and> \<not> tx_retrySafe t
      | StatusFailed \<Rightarrow>
          paid t \<and> undelivered t \<and> (tx_retrySafe t \<longrightarrow> tx_fulfillmentAttempts t = 1)
      | StatusDisputed \<Rightarrow> paid t \<and> (delivered t \<or> undelivered t)
      | StatusRefundRecommended \<Rightarrow> paid t \<and> (delivered t \<or> undelivered t)
      | StatusResolved \<Rightarrow> paid t \<and> (delivered t \<or> undelivered t)
      | StatusOther _ \<Rightarrow> False
      | _ \<Rightarrow> unpaid t)"

definition recovery_ok :: "Transaction \<Rightarrow> bool" where
  "recovery_ok t \<longleftrightarrow>
     tx_recoveryRequestBodyHash t = [] \<or> sha256_digest (tx_recoveryRequestBodyHash t)"

definition wf_tx :: "(string \<Rightarrow> bool) \<Rightarrow> Transaction \<Rightarrow> bool" where
  "wf_tx ulid t \<longleftrightarrow>
     validateTransactionParams ulid (tx_terms t) = []
     \<and> 0 < tx_createdAt t \<and> tx_createdAt t < tx_checkoutExpiresAt t
     \<and> tx_purchaseChannel t \<noteq> PurchaseChannelUnset
     \<and> tx_paymentRail t \<noteq> PaymentRailUnset \<and> tx_activityMode t \<noteq> ActivityModeUnset
     \<and> tx_createdAt t \<le> tx_updatedAt t \<and> recovery_ok t \<and> status_inv t"

lemmas tx_inv_defs =
  no_delivery_def unpaid_def paid_def delivered_def undelivered_def status_inv_def recovery_ok_def

text \<open>Every operation keeps the terms, adds one to the version and moves the update time forward.\<close>

lemma apply_op_frame:
  assumes "apply_op op t = Inr t'"
  shows "tx_terms t' = tx_terms t" "tx_version t' = tx_version t + 1"
    "tx_updatedAt t \<le> tx_updatedAt t'"
  using assms by (cases op; auto simp: tx_op_simps tx_terms_def)+

lemma apply_op_terms:
  assumes "apply_op op t = Inr t'"
  shows "tx_checkoutExpiresAt t' = tx_checkoutExpiresAt t"
    "tx_purchaseChannel t' = tx_purchaseChannel t" "tx_paymentRail t' = tx_paymentRail t"
    "tx_activityMode t' = tx_activityMode t" "tx_createdAt t' = tx_createdAt t"
  using apply_op_frame(1) [OF assms] by (simp_all add: tx_terms_def)

lemma apply_op_recovery: "apply_op op t = Inr t' \<Longrightarrow> recovery_ok t \<Longrightarrow> recovery_ok t'"
  by (cases op) (auto simp: tx_op_simps recovery_ok_def)

lemma apply_op_status_inv_payment:
  assumes "apply_op op t = Inr t'" "status_inv t"
    and "op = OpRequireApproval at \<or> op = OpMarkApproved at \<or> op = OpRequirePayment at
      \<or> op = OpVerifyPayment i h at \<or> op = OpFinalizePayment i r at
      \<or> op = OpFailPayment c r at \<or> op = OpRequirePaymentReview c r at"
  shows "status_inv t'"
  using assms by (auto simp: tx_op_simps tx_inv_defs)

lemma apply_op_status_inv_delivery:
  assumes "apply_op op t = Inr t'" "status_inv t"
    and "op = OpMarkForwarded at \<or> op = OpMarkFulfilled st h s at
      \<or> op = OpPrepareFulfillmentRetry h at"
  shows "status_inv t'"
  using assms by (auto simp: tx_op_simps tx_inv_defs CanRetryFulfillment_def)

lemma apply_op_status_inv_failed:
  assumes "MarkFailedWithRecovery t c st h b at = Inr t'" "status_inv t"
  shows "status_inv t'"
  using assms by (auto simp: tx_op_simps tx_inv_defs split: option.splits)

lemma apply_op_status_inv_dispute:
  assumes "apply_op op t = Inr t'" "status_inv t"
    and "op = OpOpenDispute at \<or> op = OpRecommendRefund at \<or> op = OpResolve at"
  shows "status_inv t'"
  using assms by (auto simp: tx_op_simps tx_inv_defs)

lemma apply_op_status_inv:
  assumes "apply_op op t = Inr t'" "status_inv t"
  shows "status_inv t'"
proof (cases op)
  case (OpMarkFailedWithRecovery c st h b at)
  with assms show ?thesis
    by (auto intro: apply_op_status_inv_failed)
qed (use assms in \<open>blast intro: apply_op_status_inv_payment apply_op_status_inv_delivery
      apply_op_status_inv_dispute\<close>)+

lemma apply_op_wf: "apply_op op t = Inr t' \<Longrightarrow> wf_tx ulid t \<Longrightarrow> wf_tx ulid t'"
  using apply_op_frame [of op t t'] apply_op_terms [of op t t'] apply_op_recovery [of op t t']
    apply_op_status_inv [of op t t']
  by (auto simp: wf_tx_def)

lemma NewTransaction_eq_Inr:
  "NewTransaction ulid p = Inr t \<Longrightarrow> validateTransactionParams ulid p = []"
  by (auto simp: NewTransaction_def Let_def result_simps)

lemma validate_defaults:
  assumes "validateTransactionParams ulid p = []"
    and c: "tp_CreatedAt p < e"
  shows "validateTransactionParams ulid
     \<lparr>tp_TransactionID = tp_TransactionID p, tp_IntentID = tp_IntentID p,
      tp_SellerID = tp_SellerID p, tp_RouteID = tp_RouteID p,
      tp_BuyerID = TrimSpace (tp_BuyerID p),
      tp_PurchaseSessionID = TrimSpace (tp_PurchaseSessionID p),
      tp_ProductDisplayName = TrimSpace (tp_ProductDisplayName p),
      tp_ProductSlug = TrimSpace (tp_ProductSlug p),
      tp_PaymentDestinationID = tp_PaymentDestinationID p,
      tp_PurchaseChannel = (if tp_PurchaseChannel p = PurchaseChannelUnset
                            then PurchaseChannelAgent else tp_PurchaseChannel p),
      tp_PaymentRail = (if tp_PaymentRail p = PaymentRailUnset
                        then PaymentRailX402 else tp_PaymentRail p),
      tp_ActivityMode = (if tp_ActivityMode p = ActivityModeUnset
                         then ActivityModeTest else tp_ActivityMode p),
      tp_CheckoutExpiresAt = e, tp_Amount = tp_Amount p, tp_Asset = TrimSpace (tp_Asset p),
      tp_Network = TrimSpace (tp_Network p), tp_CreatedAt = tp_CreatedAt p\<rparr> = []"
  using assms(1)
  by (cases "tp_PurchaseChannel p = PurchaseChannelUnset";
      cases "tp_PaymentRail p = PaymentRailUnset"; cases "tp_ActivityMode p = ActivityModeUnset")
    (simp_all add: validateTransactionParams_def Let_def c)

lemma NewTransaction_wf:
  assumes "NewTransaction ulid p = Inr t" "0 < tp_CreatedAt p"
  shows "wf_tx ulid t" "unpaid t" "tx_status t = StatusProposed" "tx_version t = 1"
    "tx_updatedAt t = tx_createdAt t"
proof -
  have v: "validateTransactionParams ulid p = []"
    using assms(1) by (rule NewTransaction_eq_Inr)
  have t: "tx_status t = StatusProposed" "unpaid t" "tx_version t = 1" "tx_updatedAt t = tx_createdAt t"
      "tx_createdAt t = tp_CreatedAt p" "recovery_ok t"
      "tx_purchaseChannel t \<noteq> PurchaseChannelUnset" "tx_paymentRail t \<noteq> PaymentRailUnset"
      "tx_activityMode t \<noteq> ActivityModeUnset"
    using assms(1) by (auto simp: NewTransaction_def Let_def result_simps tx_inv_defs
        split: if_split_asm)
  have c: "tx_createdAt t < tx_checkoutExpiresAt t"
    using assms v by (auto simp: NewTransaction_def Let_def result_simps Timestamp_Add_def
        validateTransactionParams_def)
  have "validateTransactionParams ulid (tx_terms t) = []"
    using assms(1) validate_defaults [OF v c [unfolded t(5)]]
    by (auto simp: NewTransaction_def tx_terms_def Let_def result_simps split del: if_split)
  then show "wf_tx ulid t"
    using t c assms(2) by (simp add: wf_tx_def status_inv_def)
  show "unpaid t" "tx_status t = StatusProposed" "tx_version t = 1" "tx_updatedAt t = tx_createdAt t"
    using t by auto
qed

section \<open>Runs\<close>

fun run_ops :: "tx_op list \<Rightarrow> Transaction \<Rightarrow> Transaction result" where
  "run_ops [] t = Inr t"
| "run_ops (op # ops) t = rbind (apply_op op t) (run_ops ops)"

lemma run_ops_append: "run_ops (xs @ ys) t = rbind (run_ops xs t) (run_ops ys)"
  by (induction xs arbitrary: t) (auto simp: rbind_def split: sum.splits)

lemma run_ops_snoc_eq_Inr:
  "run_ops (ops @ [op]) t = Inr t' \<longleftrightarrow> (\<exists>u. run_ops ops t = Inr u \<and> apply_op op u = Inr t')"
  by (simp add: run_ops_append result_simps)

lemma run_ops_split:
  "run_ops (xs @ op # ys) t = Inr t' \<longleftrightarrow>
     (\<exists>u v. run_ops xs t = Inr u \<and> apply_op op u = Inr v \<and> run_ops ys v = Inr t')"
  by (auto simp: run_ops_append result_simps)

lemma run_ops_wf:
  assumes "run_ops ops t0 = Inr t" "wf_tx ulid t0"
  shows "wf_tx ulid t" "tx_terms t = tx_terms t0"
    "tx_version t = tx_version t0 + of_nat (length ops)" "tx_updatedAt t0 \<le> tx_updatedAt t"
proof -
  have "wf_tx ulid t \<and> tx_terms t = tx_terms t0
      \<and> tx_version t = tx_version t0 + of_nat (length ops) \<and> tx_updatedAt t0 \<le> tx_updatedAt t"
    using assms
  proof (induction ops arbitrary: t rule: rev_induct)
    case (snoc op ops)
    then obtain u where "run_ops ops t0 = Inr u" "apply_op op u = Inr t"
      by (auto simp: run_ops_snoc_eq_Inr)
    with snoc show ?case
      using apply_op_frame [of op u t] apply_op_wf [of op u t ulid] by fastforce
  qed simp
  then show "wf_tx ulid t" "tx_terms t = tx_terms t0"
      "tx_version t = tx_version t0 + of_nat (length ops)" "tx_updatedAt t0 \<le> tx_updatedAt t"
    by auto
qed

text \<open>The payment history behind the finality of an unpaid transaction's later states.\<close>

lemma payment_history:
  assumes "run_ops ops t0 = Inr t" "unpaid t0"
  shows "tx_paymentFinality t \<noteq> PaymentFinalityUnset \<longrightarrow>
      (\<exists>i h at. OpVerifyPayment i h at \<in> set ops \<and> TrimSpace i = tx_paymentIdentifier t)"
    and "tx_paymentFinality t = PaymentFinalityFinalized \<longrightarrow>
      (\<exists>i r at. OpFinalizePayment i r at \<in> set ops \<and> TrimSpace i = tx_paymentIdentifier t
         \<and> TrimSpace r = tx_paymentReference t)"
proof -
  have "(tx_paymentFinality t \<noteq> PaymentFinalityUnset \<longrightarrow>
      (\<exists>i h at. OpVerifyPayment i h at \<in> set ops \<and> TrimSpace i = tx_paymentIdentifier t))
    \<and> (tx_paymentFinality t = PaymentFinalityFinalized \<longrightarrow>
      (\<exists>i r at. OpFinalizePayment i r at \<in> set ops \<and> TrimSpace i = tx_paymentIdentifier t
         \<and> TrimSpace r = tx_paymentReference t))"
    using assms
  proof (induction ops arbitrary: t rule: rev_induct)
    case Nil
    then show ?case by (auto simp: unpaid_def)
  next
    case (snoc op ops)
    then obtain u where u: "run_ops ops t0 = Inr u" "apply_op op u = Inr t"
      by (auto simp: run_ops_snoc_eq_Inr)
    note IH = snoc.IH [OF u(1) snoc.prems(2)]
    show ?case
      using u(2) IH by (cases op) (auto simp: tx_op_simps; metis)+
  qed
  then show "tx_paymentFinality t \<noteq> PaymentFinalityUnset \<longrightarrow>
      (\<exists>i h at. OpVerifyPayment i h at \<in> set ops \<and> TrimSpace i = tx_paymentIdentifier t)"
    and "tx_paymentFinality t = PaymentFinalityFinalized \<longrightarrow>
      (\<exists>i r at. OpFinalizePayment i r at \<in> set ops \<and> TrimSpace i = tx_paymentIdentifier t
         \<and> TrimSpace r = tx_paymentReference t)"
    by auto
qed

fun is_forward :: "tx_op \<Rightarrow> bool" where
  "is_forward (OpMarkForwarded _) = True"
| "is_forward _ = False"

definition forwards :: "tx_op list \<Rightarrow> nat" where
  "forwards ops = length (filter is_forward ops)"

lemma apply_op_attempts:
  "apply_op op t = Inr t' \<Longrightarrow>
     tx_fulfillmentAttempts t' = tx_fulfillmentAttempts t + (if is_forward op then 1 else 0)"
  by (cases op) (auto simp: tx_op_simps)

lemma forward_guard:
  assumes "apply_op op t = Inr t'" "is_forward op" "wf_tx ulid t"
  shows "tx_fulfillmentAttempts t \<in> {0, 1}" "tx_status t = StatusPaymentVerified"
    "tx_paymentFinality t = PaymentFinalityFinalized"
  using assms by (cases op; auto simp: tx_op_simps wf_tx_def status_inv_def)+

lemma small_of_nat_u32: "n \<le> 2 \<Longrightarrow> (of_nat n :: u32) \<in> {0, 1} \<Longrightarrow> n \<le> 1"
  by (cases "n = 2") auto

lemma forwards_bound:
  assumes "run_ops ops t0 = Inr t" "wf_tx ulid t0" "tx_fulfillmentAttempts t0 = 0"
  shows "tx_fulfillmentAttempts t = of_nat (forwards ops)" "forwards ops \<le> 2"
proof -
  have "tx_fulfillmentAttempts t = of_nat (forwards ops) \<and> forwards ops \<le> 2"
    using assms
  proof (induction ops arbitrary: t rule: rev_induct)
    case (snoc op ops)
    then obtain u where u: "run_ops ops t0 = Inr u" "apply_op op u = Inr t"
      by (auto simp: run_ops_snoc_eq_Inr)
    then have IH: "tx_fulfillmentAttempts u = of_nat (forwards ops)" "forwards ops \<le> 2"
      using snoc by auto
    show ?case
    proof (cases "is_forward op")
      case True
      have "tx_fulfillmentAttempts u \<in> {0, 1}"
        using forward_guard(1) [OF u(2) True] run_ops_wf(1) [OF u(1)] assms(2) by blast
      then have "forwards ops \<le> 1"
        using IH small_of_nat_u32 by simp
      with True IH apply_op_attempts [OF u(2)] show ?thesis
        by (simp add: forwards_def)
    next
      case False
      with IH apply_op_attempts [OF u(2)] show ?thesis
        by (simp add: forwards_def)
    qed
  qed (simp add: forwards_def)
  then show "tx_fulfillmentAttempts t = of_nat (forwards ops)" "forwards ops \<le> 2"
    by auto
qed

text \<open>
  A retry is prepared from a forwarded state only through a failure its recorder declared safe to
  repeat, with one of the failure classes in which the seller did no work.
\<close>

fun safe_failure :: "tx_op \<Rightarrow> bool" where
  "safe_failure (OpMarkFailedWithRecovery c st h retrySafe at) =
     (retrySafe \<and> retry_safe_failure (TrimSpace c) st)"
| "safe_failure _ = False"

fun prepares_retry :: "tx_op \<Rightarrow> bool" where
  "prepares_retry (OpPrepareFulfillmentRetry _ _) = True"
| "prepares_retry _ = False"

definition before_forward :: "TransactionStatus \<Rightarrow> bool" where
  "before_forward s \<longleftrightarrow>
     s \<in> {StatusProposed, StatusApprovalPending, StatusApproved, StatusPaymentRequired,
          StatusPaymentVerified}"

lemma retry_history:
  assumes "run_ops ops u = Inr v" "\<not> before_forward (tx_status u)" "\<not> tx_retrySafe u"
  shows "(tx_retrySafe v \<longrightarrow> list_ex safe_failure ops)
    \<and> (before_forward (tx_status v) \<longrightarrow> list_ex safe_failure ops \<and> list_ex prepares_retry ops)"
  using assms
proof (induction ops arbitrary: v rule: rev_induct)
  case (snoc op ops)
  then obtain w where w: "run_ops ops u = Inr w" "apply_op op w = Inr v"
    by (auto simp: run_ops_snoc_eq_Inr)
  note IH = snoc.IH [OF w(1) snoc.prems(2,3)]
  show ?case
    using w(2) IH
    by (cases op) (auto simp: tx_op_simps before_forward_def CanRetryFulfillment_def)
qed simp

text \<open>The two safety facts about forwarding, for any well-formed unpaid start.\<close>

lemma settlement_before_forward:
  assumes "wf_tx ulid t0" "unpaid t0"
    and "run_ops (xs @ OpMarkForwarded at # ys) t0 = Inr t"
  shows "\<exists>i h a j r b. OpVerifyPayment i h a \<in> set xs \<and> OpFinalizePayment j r b \<in> set xs
    \<and> TrimSpace i = TrimSpace j \<and> TrimSpace i \<noteq> [] \<and> TrimSpace r \<noteq> []"
proof -
  obtain u v where u: "run_ops xs t0 = Inr u" "apply_op (OpMarkForwarded at) u = Inr v"
    using assms(3) by (auto simp: run_ops_split)
  have wf: "wf_tx ulid u"
    using run_ops_wf(1) [OF u(1) assms(1)] .
  note g = forward_guard [OF u(2) _ wf, simplified]
  then have "tx_paymentIdentifier u \<noteq> []" "tx_paymentReference u \<noteq> []"
    using wf by (auto simp: wf_tx_def status_inv_def paid_def)
  with payment_history [OF u(1) assms(2)] g show ?thesis
    by (metis PaymentFinality.distinct(3))
qed

lemma retry_between_forwards:
  assumes "wf_tx ulid t0"
    and "run_ops (xs @ OpMarkForwarded a # ys @ OpMarkForwarded b # zs) t0 = Inr t"
  shows "list_ex safe_failure ys \<and> list_ex prepares_retry ys"
proof -
  obtain u v w x where r: "run_ops xs t0 = Inr u" "apply_op (OpMarkForwarded a) u = Inr v"
      "run_ops ys v = Inr w" "apply_op (OpMarkForwarded b) w = Inr x"
    using assms(2) by (auto simp: run_ops_split)
  have "wf_tx ulid v"
    using run_ops_wf(1) [OF r(1) assms(1)] apply_op_wf [OF r(2)] by blast
  moreover have "tx_status v = StatusForwarded" "tx_status w = StatusPaymentVerified"
    using r(2,4) by (auto simp: tx_op_simps)
  ultimately have "\<not> before_forward (tx_status v)" "\<not> tx_retrySafe v" "before_forward (tx_status w)"
    by (auto simp: before_forward_def wf_tx_def status_inv_def)
  with retry_history [OF r(3)] show ?thesis
    by auto
qed

section \<open>A concrete run\<close>

definition sample_tx_params :: TransactionParams where
  "sample_tx_params =
     \<lparr>tp_TransactionID = ''txn_01ARZ3NDEKTSV4RRFFQ69G5FAV'',
      tp_IntentID = ''int_01ARZ3NDEKTSV4RRFFQ69G5FAV'',
      tp_SellerID = ''sel_01ARZ3NDEKTSV4RRFFQ69G5FAV'',
      tp_RouteID = ''rte_01ARZ3NDEKTSV4RRFFQ69G5FAV'',
      tp_BuyerID = ''agent-7'', tp_PurchaseSessionID = [], tp_ProductDisplayName = [],
      tp_ProductSlug = [], tp_PaymentDestinationID = [],
      tp_PurchaseChannel = PurchaseChannelUnset, tp_PaymentRail = PaymentRailUnset,
      tp_ActivityMode = ActivityModeUnset, tp_CheckoutExpiresAt = 0, tp_Amount = Amount ''35'',
      tp_Asset = ''USDC'', tp_Network = ''eip155:84532'', tp_CreatedAt = 1000\<rparr>"

definition sample_digest :: SHA256Digest where
  "sample_digest = replicate 64 (CHR ''a'')"

definition sample_forward :: "tx_op list" where
  "sample_forward =
     [OpRequirePayment 1001, OpVerifyPayment ''pay-1'' sample_digest 1002,
      OpFinalizePayment ''pay-1'' ''0xsettled'' 1003]"

definition sample_retry :: "tx_op list" where
  "sample_retry =
     [OpMarkFailedWithRecovery ''upstream_rejected'' (Some 422) None True 1005,
      OpPrepareFulfillmentRetry sample_digest 1006]"

definition sample_ops :: "tx_op list" where
  "sample_ops =
     sample_forward @ OpMarkForwarded 1004 # sample_retry @ OpMarkForwarded 1007
       # [OpMarkFulfilled 200 sample_digest \<lparr>rs_ContentType = [], rs_ContentLength = 2\<rparr> 1008]"

definition sample_tx :: Transaction where
  "sample_tx = (case NewTransaction sample_ulid sample_tx_params of Inr t \<Rightarrow> t)"

definition sample_tx_done :: Transaction where
  "sample_tx_done = (case run_ops sample_ops sample_tx of Inr t \<Rightarrow> t)"

lemma sample_tx_created: "NewTransaction sample_ulid sample_tx_params = Inr sample_tx"
proof -
  have "is_ok (NewTransaction sample_ulid sample_tx_params)"
    by code_simp
  then show ?thesis
    by (auto simp: sample_tx_def is_ok_def split: sum.splits)
qed

lemma sample_run: "run_ops sample_ops sample_tx = Inr sample_tx_done"
proof -
  have "is_ok (run_ops sample_ops sample_tx)"
    by code_simp
  then show ?thesis
    by (auto simp: sample_tx_done_def is_ok_def split: sum.splits)
qed

lemma sample_tx_time: "0 < tp_CreatedAt sample_tx_params"
  by (simp add: sample_tx_params_def)

section \<open>Properties\<close>

text \<open>
  C34: every run of the transaction API from a freshly created transaction, whatever operations with
  whatever arguments it consists of, ends in a transaction that satisfies the invariant; identity,
  price and product terms are those of creation, the version counts the operations, and the update
  time never moves backward.
\<close>

theorem transaction_invariant:
  assumes "NewTransaction ulid p = Inr t0" "0 < tp_CreatedAt p" "run_ops ops t0 = Inr t"
  shows "wf_tx ulid t \<and> tx_terms t = tx_terms t0 \<and> tx_version t = of_nat (Suc (length ops))
    \<and> tx_createdAt t0 \<le> tx_updatedAt t"
  using run_ops_wf [OF assms(3) NewTransaction_wf(1) [OF assms(1,2)]]
    NewTransaction_wf(4,5) [OF assms(1,2)]
  by (simp add: add.commute)

theorem transaction_invariant_witness:
  "wf_tx sample_ulid sample_tx_done \<and> tx_version sample_tx_done = of_nat (Suc (length sample_ops))"
  using transaction_invariant [OF sample_tx_created sample_tx_time sample_run] by blast

text \<open>
  C3: no seller is invoked for an unsettled payment. Whenever a run contains \<open>MarkForwarded\<close>, a
  \<open>VerifyPayment\<close> and a \<open>FinalizePayment\<close> for the same payment identifier came before it, with a
  non-empty settlement reference.
\<close>

theorem forwarded_only_after_settlement:
  assumes "NewTransaction ulid p = Inr t0" "0 < tp_CreatedAt p"
    and "run_ops (xs @ OpMarkForwarded at # ys) t0 = Inr t"
  shows "\<exists>i h a j r b. OpVerifyPayment i h a \<in> set xs \<and> OpFinalizePayment j r b \<in> set xs
    \<and> TrimSpace i = TrimSpace j \<and> TrimSpace i \<noteq> [] \<and> TrimSpace r \<noteq> []"
  using settlement_before_forward [OF _ _ assms(3)] NewTransaction_wf [OF assms(1,2)] by blast

theorem forwarded_only_after_settlement_witness:
  "\<exists>j r b. OpFinalizePayment j r b \<in> set sample_forward \<and> TrimSpace r \<noteq> []"
  using forwarded_only_after_settlement
    [OF sample_tx_created sample_tx_time sample_run [unfolded sample_ops_def]]
  by blast

text \<open>
  C4: at most two seller invocations per payment, and the second only after a safe failure: a run
  contains at most two \<open>MarkForwarded\<close>, the attempt counter of the transaction is exactly their
  number, and between two of them lie a failure that was recorded as safe to retry and an explicit
  \<open>PrepareFulfillmentRetry\<close>.
\<close>

theorem forwarding_at_most_twice:
  assumes "NewTransaction ulid p = Inr t0" "0 < tp_CreatedAt p" "run_ops ops t0 = Inr t"
  shows "forwards ops \<le> 2 \<and> unat (tx_fulfillmentAttempts t) = forwards ops
    \<and> (\<forall>xs a ys b zs. ops = xs @ OpMarkForwarded a # ys @ OpMarkForwarded b # zs \<longrightarrow>
         list_ex safe_failure ys \<and> list_ex prepares_retry ys)"
proof (intro conjI allI impI)
  have t0: "wf_tx ulid t0" "tx_fulfillmentAttempts t0 = 0"
    using NewTransaction_wf [OF assms(1,2)] by (auto simp: unpaid_def)
  show "forwards ops \<le> 2"
    using forwards_bound [OF assms(3) t0] by simp
  then show "unat (tx_fulfillmentAttempts t) = forwards ops"
    using forwards_bound [OF assms(3) t0] by (simp add: unat_of_nat)
  fix xs a ys b zs
  assume "ops = xs @ OpMarkForwarded a # ys @ OpMarkForwarded b # zs"
  with assms(3) show "list_ex safe_failure ys" "list_ex prepares_retry ys"
    using retry_between_forwards [OF t0(1)] by auto
qed

theorem forwarding_at_most_twice_witness:
  "unat (tx_fulfillmentAttempts sample_tx_done) = 2 \<and> list_ex safe_failure sample_retry"
proof -
  have "forwards sample_ops = 2"
    by (simp add: sample_ops_def sample_forward_def sample_retry_def forwards_def)
  with forwarding_at_most_twice [OF sample_tx_created sample_tx_time sample_run] sample_ops_def
  show ?thesis
    by metis
qed

text \<open>
  What buyers and sellers are told agrees with the state of a well-formed transaction. It is
  shown as abandoned exactly when it still awaits payment and the checkout window is over; as
  finally paid exactly when settlement was finalised; as fulfilled exactly in the fulfilled state;
  a payment rejection is reported only for a rejected payment, and the repeat of the same payment is
  offered exactly when \<open>PrepareFulfillmentRetry\<close> would be accepted.
\<close>

theorem lifecycle_projection:
  assumes "wf_tx ulid t"
  shows "let p = CommerceLifecycleAt t at False in
       (cl_CommerceState p = CommerceStateAbandoned \<longleftrightarrow>
            tx_status t = StatusPaymentRequired \<and> tx_checkoutExpiresAt t \<le> at)
    \<and> (cl_PaymentState p = PaymentStateFinalized \<longleftrightarrow> tx_paymentFinality t = PaymentFinalityFinalized)
    \<and> (SellerOutcomeAt t at = SellerOutcomeFulfilled \<longleftrightarrow> tx_status t = StatusFulfilled)
    \<and> (SellerOutcomeAt t at = SellerOutcomePaymentRejected \<longleftrightarrow>
         tx_status t = StatusFailed \<and> tx_paymentFinality t = PaymentFinalityFailed)
    \<and> (cl_RecoveryAction p = RecoveryActionRetrySamePayment \<longleftrightarrow> CanRetryFulfillment t)
    \<and> (cl_RecoveryAction p = RecoveryActionRetrySamePayment \<longleftrightarrow>
         (\<forall>h a. sha256_digest h \<longrightarrow> tx_updatedAt t \<le> a \<longrightarrow> is_ok (PrepareFulfillmentRetry t h a)))"
proof -
  have retry: "CanRetryFulfillment t \<longleftrightarrow>
      (\<forall>h a. sha256_digest h \<longrightarrow> tx_updatedAt t \<le> a \<longrightarrow> is_ok (PrepareFulfillmentRetry t h a))"
  proof
    assume *: "\<forall>h a. sha256_digest h \<longrightarrow> tx_updatedAt t \<le> a \<longrightarrow> is_ok (PrepareFulfillmentRetry t h a)"
    have "is_ok (PrepareFulfillmentRetry t (hashBytes []) (tx_updatedAt t))"
      using * by simp
    then show "CanRetryFulfillment t"
      by (simp add: PrepareFulfillmentRetry_def reject_if_def split: if_splits)
  qed (simp add: PrepareFulfillmentRetry_def validateMutationTime_def Timestamp_Before_def)
  have inv: "status_inv t"
    using assms by (simp add: wf_tx_def)
  show ?thesis
    unfolding retry [symmetric] Let_def
    using inv
    by (cases "tx_status t"; cases "tx_paymentFinality t")
      (auto simp: SellerOutcomeAt_def CommerceLifecycleAt_def lifecycle_payment_def
        lifecycle_delivery_def lifecycle_status_def lifecycle_failed_recovery_def Let_def
        CanRetryFulfillment_def status_inv_def unpaid_def delivered_def undelivered_def
        split: option.splits)
qed

theorem lifecycle_projection_witness:
  "SellerOutcomeAt sample_tx_done 5000 = SellerOutcomeFulfilled
   \<and> cl_PaymentState (CommerceLifecycleAt sample_tx_done 5000 False) = PaymentStateFinalized"
proof -
  have "wf_tx sample_ulid sample_tx_done"
    using run_ops_wf(1) [OF sample_run] NewTransaction_wf(1) [OF sample_tx_created sample_tx_time]
    by blast
  moreover have "tx_status sample_tx_done = StatusFulfilled"
      "tx_paymentFinality sample_tx_done = PaymentFinalityFinalized"
    by code_simp+
  ultimately show ?thesis
    using lifecycle_projection [of sample_ulid sample_tx_done 5000] by (simp add: Let_def)
qed

end
