(* ===== verification/TransactionStore.thy ===== *)
theory TransactionStore
  imports Transactions
begin

text \<open>
  The rest of \<open>internal/transactions\<close> that is pure: the persistence snapshot and \<open>Restore\<close>
  (\<open>persistence.go\<close>), the seller query filter (\<open>query.go\<close>), the public response (\<open>service.go\<close>) and
  the fields of a purchase receipt (\<open>receipt_service.go\<close>).
\<close>

section \<open>Persistence\<close>

record TransactionSnapshot =
  ts_TransactionID :: ID
  ts_IntentID :: ID
  ts_SellerID :: ID
  ts_RouteID :: ID
  ts_BuyerID :: string
  ts_PurchaseSessionID :: string
  ts_ProductDisplayName :: string
  ts_ProductSlug :: string
  ts_PaymentDestinationID :: ID
  ts_PurchaseChannel :: PurchaseChannel
  ts_PaymentRail :: PaymentRail
  ts_ActivityMode :: ActivityMode
  ts_CheckoutExpiresAt :: instant
  ts_Amount :: amount
  ts_Asset :: string
  ts_Network :: string
  ts_Status :: TransactionStatus
  ts_PaymentIdentifier :: string
  ts_PaymentProofHash :: SHA256Digest
  ts_PaymentReference :: string
  ts_PaymentFinality :: PaymentFinality
  ts_ReconciledAt :: "instant option"
  ts_UpstreamStatus :: "int option"
  ts_ResponseHash :: "SHA256Digest option"
  ts_ResponseSummary :: "ResponseSummary option"
  ts_FailureCode :: string
  ts_RecoveryRequestBodyHash :: SHA256Digest
  ts_FulfillmentAttempts :: u32
  ts_RetrySafe :: bool
  ts_CreatedAt :: instant
  ts_UpdatedAt :: instant
  ts_Version :: u64

definition Transaction_Snapshot :: "Transaction \<Rightarrow> TransactionSnapshot" where
  "Transaction_Snapshot t =
     \<lparr>ts_TransactionID = tx_transactionID t, ts_IntentID = tx_intentID t,
      ts_SellerID = tx_sellerID t, ts_RouteID = tx_routeID t, ts_BuyerID = tx_buyerID t,
      ts_PurchaseSessionID = tx_purchaseSessionID t,
      ts_ProductDisplayName = tx_productDisplayName t, ts_ProductSlug = tx_productSlug t,
      ts_PaymentDestinationID = tx_paymentDestinationID t,
      ts_PurchaseChannel = tx_purchaseChannel t, ts_PaymentRail = tx_paymentRail t,
      ts_ActivityMode = tx_activityMode t, ts_CheckoutExpiresAt = tx_checkoutExpiresAt t,
      ts_Amount = tx_amount t, ts_Asset = tx_asset t, ts_Network = tx_network t,
      ts_Status = tx_status t, ts_PaymentIdentifier = tx_paymentIdentifier t,
      ts_PaymentProofHash = tx_paymentProofHash t, ts_PaymentReference = tx_paymentReference t,
      ts_PaymentFinality = tx_paymentFinality t, ts_ReconciledAt = tx_reconciledAt t,
      ts_UpstreamStatus = tx_upstreamStatus t, ts_ResponseHash = tx_responseHash t,
      ts_ResponseSummary = tx_responseSummary t, ts_FailureCode = tx_failureCode t,
      ts_RecoveryRequestBodyHash = tx_recoveryRequestBodyHash t,
      ts_FulfillmentAttempts = tx_fulfillmentAttempts t, ts_RetrySafe = tx_retrySafe t,
      ts_CreatedAt = tx_createdAt t, ts_UpdatedAt = tx_updatedAt t, ts_Version = tx_version t\<rparr>"

fun validPaymentFinality :: "PaymentFinality \<Rightarrow> bool" where
  "validPaymentFinality PaymentFinalityConfirmed = True"
| "validPaymentFinality PaymentFinalityFinalized = True"
| "validPaymentFinality PaymentFinalityFailed = True"
| "validPaymentFinality _ = False"

fun validStoredStatus :: "TransactionStatus \<Rightarrow> bool" where
  "validStoredStatus (StatusOther _) = False"
| "validStoredStatus _ = True"

definition restored_attempts :: "TransactionSnapshot \<Rightarrow> u32" where
  "restored_attempts s =
     (if ts_FulfillmentAttempts s = 0
         \<and> ts_Status s \<in> {StatusForwarded, StatusFulfilled, StatusFailed, StatusDisputed,
                         StatusRefundRecommended, StatusResolved}
      then 1 else ts_FulfillmentAttempts s)"

definition Transaction_Restore ::
  "(string \<Rightarrow> bool) \<Rightarrow> TransactionSnapshot \<Rightarrow> Transaction result" where
  "Transaction_Restore ulid s =
     reject_if (\<not> is_ok (ParseID ulid (ts_TransactionID s) TransactionIDPrefix))
       (validation ''transactionId'' ''format'' ''stored transaction ID is invalid'')
     (reject_if (ts_Version s = 0 \<or> ts_CreatedAt s = 0 \<or> ts_UpdatedAt s = 0
                 \<or> \<not> validStoredStatus (ts_Status s))
       (validation ''status'' ''persistence'' ''stored transaction metadata is invalid'')
     (let defaulted = (ts_PaymentFinality s = PaymentFinalityUnset \<and> ts_PaymentIdentifier s \<noteq> []);
          paymentFinality = (if defaulted then PaymentFinalityConfirmed else ts_PaymentFinality s);
          reconciledAt = (if defaulted \<and> ts_ReconciledAt s = None then Some (ts_UpdatedAt s)
                          else ts_ReconciledAt s)
      in reject_if (paymentFinality \<noteq> PaymentFinalityUnset \<and> \<not> validPaymentFinality paymentFinality)
       (validation ''paymentFinality'' ''persistence'' ''stored payment finality is invalid'')
     (reject_if (ts_RecoveryRequestBodyHash s \<noteq> []
                 \<and> \<not> is_ok (ParseSHA256Digest (ts_RecoveryRequestBodyHash s)))
       (validation ''recoveryRequestBodyHash'' ''persistence''
          ''stored recovery request hash is invalid'')
     (reject_if (2 < ts_FulfillmentAttempts s)
       (validation ''fulfillmentAttempts'' ''persistence''
          ''stored fulfillment attempts exceed the V1 limit'')
     (let purchaseChannel = (if ts_PurchaseChannel s = PurchaseChannelUnset
                             then PurchaseChannelAgent else ts_PurchaseChannel s);
          paymentRail = (if ts_PaymentRail s = PaymentRailUnset
                         then PaymentRailX402 else ts_PaymentRail s);
          activityMode = (if ts_ActivityMode s = ActivityModeUnset
                          then ActivityModeTest else ts_ActivityMode s)
      in reject_if (activityMode \<noteq> ActivityModeTest \<and> activityMode \<noteq> ActivityModeLive)
       (validation ''activityMode'' ''persistence'' ''stored activity mode is invalid'')
     (let checkoutExpiresAt = (if ts_CheckoutExpiresAt s = 0
                               then Timestamp_Add (ts_CreatedAt s) defaultCheckoutLifetime
                               else ts_CheckoutExpiresAt s)
      in reject_if (\<not> ts_CreatedAt s < checkoutExpiresAt)
       (validation ''checkoutExpiresAt'' ''persistence'' ''stored checkout expiry is invalid'')
     (Inr \<lparr>tx_transactionID = ts_TransactionID s, tx_intentID = ts_IntentID s,
           tx_sellerID = ts_SellerID s, tx_routeID = ts_RouteID s, tx_buyerID = ts_BuyerID s,
           tx_purchaseSessionID = ts_PurchaseSessionID s,
           tx_productDisplayName = ts_ProductDisplayName s, tx_productSlug = ts_ProductSlug s,
           tx_paymentDestinationID = ts_PaymentDestinationID s,
           tx_purchaseChannel = purchaseChannel, tx_paymentRail = paymentRail,
           tx_activityMode = activityMode, tx_checkoutExpiresAt = checkoutExpiresAt,
           tx_amount = ts_Amount s, tx_asset = ts_Asset s, tx_network = ts_Network s,
           tx_status = ts_Status s, tx_paymentIdentifier = ts_PaymentIdentifier s,
           tx_paymentProofHash = ts_PaymentProofHash s,
           tx_paymentReference = ts_PaymentReference s,
           tx_paymentFinality = paymentFinality, tx_reconciledAt = reconciledAt,
           tx_upstreamStatus = ts_UpstreamStatus s, tx_responseHash = ts_ResponseHash s,
           tx_responseSummary = ts_ResponseSummary s, tx_failureCode = ts_FailureCode s,
           tx_recoveryRequestBodyHash = ts_RecoveryRequestBodyHash s,
           tx_fulfillmentAttempts = restored_attempts s, tx_retrySafe = ts_RetrySafe s,
           tx_createdAt = ts_CreatedAt s, tx_updatedAt = ts_UpdatedAt s,
           tx_version = ts_Version s\<rparr>)))))))"

lemma wf_tx_attempts: "wf_tx ulid t \<Longrightarrow> tx_fulfillmentAttempts t \<in> {0, 1, 2}"
  by (auto simp: wf_tx_def tx_inv_defs split: TransactionStatus.splits)

lemma wf_tx_finality:
  "wf_tx ulid t \<Longrightarrow> tx_paymentFinality t = PaymentFinalityUnset \<or> validPaymentFinality (tx_paymentFinality t)"
  by (auto simp: wf_tx_def tx_inv_defs split: TransactionStatus.splits)

lemma wf_tx_unset: "wf_tx ulid t \<Longrightarrow> tx_paymentFinality t = PaymentFinalityUnset \<Longrightarrow> tx_paymentIdentifier t = []"
  by (auto simp: wf_tx_def tx_inv_defs split: TransactionStatus.splits)

lemma wf_tx_terms:
  assumes "wf_tx ulid t"
  shows "is_ok (ParseID ulid (tx_transactionID t) TransactionIDPrefix)"
    "tx_activityMode t = ActivityModeTest \<or> tx_activityMode t = ActivityModeLive"
    "tx_createdAt t \<noteq> 0" "tx_updatedAt t \<noteq> 0" "tx_checkoutExpiresAt t \<noteq> 0"
    "validStoredStatus (tx_status t)"
  using assms
  by (auto simp: wf_tx_def validateTransactionParams_def tx_terms_def Let_def status_inv_def
      split: TransactionStatus.splits)

lemma Restore_Snapshot_attempts:
  assumes "wf_tx ulid t" "tx_version t \<noteq> 0"
  shows "Transaction_Restore ulid (Transaction_Snapshot t)
      = Inr (t\<lparr>tx_fulfillmentAttempts := restored_attempts (Transaction_Snapshot t)\<rparr>)"
proof -
  have att: "\<not> 2 < tx_fulfillmentAttempts t"
    using wf_tx_attempts [OF assms(1)] by auto
  have rec: "tx_recoveryRequestBodyHash t = [] \<or> sha256_digest (tx_recoveryRequestBodyHash t)"
    and ch: "tx_purchaseChannel t \<noteq> PurchaseChannelUnset" "tx_paymentRail t \<noteq> PaymentRailUnset"
      "tx_activityMode t \<noteq> ActivityModeUnset" "tx_createdAt t < tx_checkoutExpiresAt t"
    using assms(1) by (auto simp: wf_tx_def recovery_ok_def)
  show ?thesis
    using wf_tx_terms [OF assms(1)] wf_tx_finality [OF assms(1)] wf_tx_unset [OF assms(1)] att rec ch
      assms(2)
    by (cases t) (auto simp: Transaction_Restore_def Transaction_Snapshot_def reject_if_def Let_def)
qed

section \<open>Seller queries\<close>

record SellerTransactionQuery =
  sq_SellerID :: ID
  sq_From :: "instant option"
  sq_To :: "instant option"
  sq_RouteID :: "ID option"
  sq_Status :: "TransactionStatus option"
  sq_ActivityMode :: ActivityMode
  sq_Outcome :: "SellerOutcome option"
  sq_Asset :: string
  sq_Network :: string
  sq_AsOf :: instant
  sq_Limit :: int
  sq_Cursor :: string

text \<open>The empty status and the empty outcome, which filter nothing, are \<^term>\<open>None\<close>.\<close>

definition Matches :: "SellerTransactionQuery \<Rightarrow> Transaction \<Rightarrow> bool" where
  "Matches q t =
     (if tx_sellerID t \<noteq> sq_SellerID q then False
      else if (case sq_From q of None \<Rightarrow> False | Some from \<Rightarrow> tx_createdAt t < from) then False
      else if (case sq_To q of None \<Rightarrow> False | Some to \<Rightarrow> \<not> tx_createdAt t < to) then False
      else if (case sq_RouteID q of None \<Rightarrow> False | Some r \<Rightarrow> tx_routeID t \<noteq> r) then False
      else if (case sq_Status q of None \<Rightarrow> False | Some st \<Rightarrow> tx_status t \<noteq> st) then False
      else if sq_ActivityMode q \<noteq> ActivityModeUnset \<and> tx_activityMode t \<noteq> sq_ActivityMode q then False
      else if (case sq_Outcome q of None \<Rightarrow> False | Some oc \<Rightarrow> SellerOutcomeAt t (sq_AsOf q) \<noteq> oc)
        then False
      else if sq_Asset q \<noteq> [] \<and> tx_asset t \<noteq> sq_Asset q then False
      else if sq_Network q \<noteq> [] \<and> tx_network t \<noteq> sq_Network q then False
      else True)"

section \<open>Public response\<close>

record TransactionResponse =
  tr_TransactionID :: ID
  tr_IntentID :: ID
  tr_SellerID :: ID
  tr_RouteID :: ID
  tr_BuyerID :: string
  tr_PurchaseSessionID :: string
  tr_ProductDisplayName :: string
  tr_ProductSlug :: string
  tr_PaymentDestinationID :: ID
  tr_PurchaseChannel :: PurchaseChannel
  tr_PaymentRail :: PaymentRail
  tr_ActivityMode :: ActivityMode
  tr_CheckoutExpiresAt :: instant
  tr_SellerOutcome :: SellerOutcome
  tr_Status :: TransactionStatus
  tr_Amount :: amount
  tr_Asset :: string
  tr_Network :: string
  tr_PriceBreakdown :: ExactPriceBreakdown
  tr_CommerceLifecycle :: CommerceLifecycleProjection
  tr_PaymentFinality :: PaymentFinality
  tr_PaymentReference :: string
  tr_ReconciledAt :: "instant option"
  tr_Reconciliation :: "Reconciliation option"
  tr_UpstreamStatus :: "int option"
  tr_ResponseHash :: "SHA256Digest option"
  tr_FailureCode :: string
  tr_FulfillmentAttempts :: u32
  tr_CreatedAt :: instant
  tr_UpdatedAt :: instant

definition Transaction_PriceBreakdown :: "Transaction \<Rightarrow> ExactPriceBreakdown result" where
  "Transaction_PriceBreakdown t =
     rbind (MustParseAmount ''0'') (\<lambda>zero.
     Inr \<lparr>pb_Calculation = PriceCalculationFixedSingleProduct, pb_Quantity = 1,
          pb_UnitAmount = tx_amount t, pb_Subtotal = tx_amount t, pb_Adjustments = zero,
          pb_Total = tx_amount t, pb_Asset = tx_asset t, pb_Network = tx_network t\<rparr>)"

definition transactionResponse :: "Transaction \<Rightarrow> instant \<Rightarrow> TransactionResponse result" where
  "transactionResponse t at =
     (let reconciliation = Reconciliation_of t;
          sellerOutcome = SellerOutcomeAt t at;
          publicReconciliation =
            (if rc_Stage reconciliation \<noteq> ReconciliationStageNone
                \<and> sellerOutcome \<noteq> SellerOutcomeAbandoned
             then Some reconciliation else None)
      in rbind (Transaction_PriceBreakdown t) (\<lambda>breakdown.
         Inr \<lparr>tr_TransactionID = tx_transactionID t, tr_IntentID = tx_intentID t,
              tr_SellerID = tx_sellerID t, tr_RouteID = tx_routeID t, tr_BuyerID = tx_buyerID t,
              tr_PurchaseSessionID = tx_purchaseSessionID t,
              tr_ProductDisplayName = tx_productDisplayName t, tr_ProductSlug = tx_productSlug t,
              tr_PaymentDestinationID = tx_paymentDestinationID t,
              tr_PurchaseChannel = tx_purchaseChannel t, tr_PaymentRail = tx_paymentRail t,
              tr_ActivityMode = tx_activityMode t,
              tr_CheckoutExpiresAt = tx_checkoutExpiresAt t, tr_SellerOutcome = sellerOutcome,
              tr_Status = tx_status t, tr_Amount = tx_amount t, tr_Asset = tx_asset t,
              tr_Network = tx_network t, tr_PriceBreakdown = breakdown,
              tr_CommerceLifecycle = CommerceLifecycleAt t at False,
              tr_PaymentFinality = tx_paymentFinality t,
              tr_PaymentReference = tx_paymentReference t,
              tr_ReconciledAt = tx_reconciledAt t, tr_Reconciliation = publicReconciliation,
              tr_UpstreamStatus = tx_upstreamStatus t, tr_ResponseHash = tx_responseHash t,
              tr_FailureCode = tx_failureCode t,
              tr_FulfillmentAttempts = tx_fulfillmentAttempts t,
              tr_CreatedAt = tx_createdAt t, tr_UpdatedAt = tx_updatedAt t\<rparr>))"

section \<open>Properties\<close>

text \<open>
  Storage round trip of a well-formed transaction (with a version that has not wrapped to 0).
  \<open>Restore\<close> accepts its snapshot and returns the same transaction in every field but one: in a state
  reached after forwarding an attempt counter of 0 is read back as 1. For every transaction that was
  forwarded, or is not yet past payment verification, the round trip is the identity.
\<close>

theorem Transaction_Restore_Snapshot:
  assumes "wf_tx ulid t" "tx_version t \<noteq> 0"
  shows "Transaction_Restore ulid (Transaction_Snapshot t)
      = Inr (t\<lparr>tx_fulfillmentAttempts := restored_attempts (Transaction_Snapshot t)\<rparr>)
    \<and> (tx_fulfillmentAttempts t \<noteq> 0 \<or> before_forward (tx_status t) \<longrightarrow>
         Transaction_Restore ulid (Transaction_Snapshot t) = Inr t)"
  unfolding Restore_Snapshot_attempts [OF assms]
  by (auto simp: restored_attempts_def Transaction_Snapshot_def before_forward_def)

theorem Transaction_Restore_Snapshot_witness:
  "Transaction_Restore sample_ulid (Transaction_Snapshot sample_tx_done) = Inr sample_tx_done"
proof -
  have "wf_tx sample_ulid sample_tx_done"
    using run_ops_wf(1) [OF sample_run] NewTransaction_wf(1) [OF sample_tx_created sample_tx_time]
    by blast
  moreover have "tx_version sample_tx_done \<noteq> 0" "tx_fulfillmentAttempts sample_tx_done \<noteq> 0"
    by code_simp+
  ultimately show ?thesis
    using Transaction_Restore_Snapshot by blast
qed

text \<open>
  A rejected payment is stored as one delivery attempt. A transaction that failed because its
  payment was rejected has never been forwarded and its counter is 0, yet the transaction that is
  read back from its snapshot reports one fulfilment attempt.
\<close>

theorem rejected_payment_restored_with_attempt:
  assumes "wf_tx ulid t" "tx_version t \<noteq> 0" "tx_status t = StatusFailed"
    and "tx_paymentFinality t = PaymentFinalityFailed"
  shows "tx_fulfillmentAttempts t = 0
    \<and> (\<exists>t'. Transaction_Restore ulid (Transaction_Snapshot t) = Inr t'
         \<and> tx_fulfillmentAttempts t' = 1 \<and> t' \<noteq> t)"
proof -
  have z: "tx_fulfillmentAttempts t = 0"
    using assms by (auto simp: wf_tx_def status_inv_def undelivered_def)
  then have "restored_attempts (Transaction_Snapshot t) = 1"
    using assms(3) by (simp add: restored_attempts_def Transaction_Snapshot_def)
  with z Restore_Snapshot_attempts [OF assms(1,2)] show ?thesis
    by (auto dest: arg_cong [where f = tx_fulfillmentAttempts])
qed

definition sample_rejected :: Transaction where
  "sample_rejected =
     (case run_ops [OpRequirePayment 1001, OpVerifyPayment ''pay-1'' sample_digest 1002,
                    OpFailPayment ''settlement_rejected'' [] 1003] sample_tx of Inr t \<Rightarrow> t)"

theorem rejected_payment_restored_with_attempt_witness:
  "\<exists>t'. Transaction_Restore sample_ulid (Transaction_Snapshot sample_rejected) = Inr t'
     \<and> tx_fulfillmentAttempts t' = 1"
proof -
  let ?ops = "[OpRequirePayment 1001, OpVerifyPayment ''pay-1'' sample_digest 1002,
               OpFailPayment ''settlement_rejected'' [] 1003]"
  have "is_ok (run_ops ?ops sample_tx)"
    by code_simp
  then have "run_ops ?ops sample_tx = Inr sample_rejected"
    by (auto simp: sample_rejected_def is_ok_def split: sum.splits)
  then have "wf_tx sample_ulid sample_rejected"
    using run_ops_wf(1) NewTransaction_wf(1) [OF sample_tx_created sample_tx_time] by blast
  moreover have "tx_version sample_rejected \<noteq> 0" "tx_status sample_rejected = StatusFailed"
      "tx_paymentFinality sample_rejected = PaymentFinalityFailed"
    by code_simp+
  ultimately show ?thesis
    using rejected_payment_restored_with_attempt by blast
qed

end
