(* ===== verification/Repositories.thy ===== *)
theory Repositories
  imports TransactionStore
begin

text \<open>
  The in-memory repositories of \<open>internal/persistence/memory\<close> for purchase intents, transactions and
  idempotency records. Every method runs under the repository's mutex, so each is one atomic
  function on the repository's state; a method that fails leaves the state as it was and returns
  only its error.

  \<open>versioned_store\<close> states what clients rely on: optimistic concurrency control by version. Both
  repositories are shown to provide it. The second half is the system of concurrent clients of the
  transaction repository: whatever they interleave, every stored transaction is the result of one
  sequence of API operations, so the properties of single runs hold under concurrency.
\<close>

abbreviation ErrNotFound :: go_error where
  "ErrNotFound \<equiv> Err ''persistence.ErrNotFound''"

abbreviation ErrAlreadyExists :: go_error where
  "ErrAlreadyExists \<equiv> Err ''persistence.ErrAlreadyExists''"

abbreviation ErrConditionFailed :: go_error where
  "ErrConditionFailed \<equiv> Err ''persistence.ErrConditionFailed''"

abbreviation ErrPaymentIdentifierConflict :: go_error where
  "ErrPaymentIdentifierConflict \<equiv> Err ''persistence.ErrPaymentIdentifierConflict''"

section \<open>Optimistic concurrency control as an interface\<close>

locale versioned_store =
  fixes key :: "'a \<Rightarrow> ID"
    and ver :: "'a \<Rightarrow> u64"
    and lookup :: "'r \<Rightarrow> ID \<Rightarrow> 'a option"
    and get :: "'r \<Rightarrow> ID \<Rightarrow> 'a result"
    and create :: "'r \<Rightarrow> 'a \<Rightarrow> 'r result"
    and update :: "'r \<Rightarrow> 'a \<Rightarrow> u64 \<Rightarrow> 'r result"
  assumes get_lookup:
      "get r k = (case lookup r k of None \<Rightarrow> Inl ErrNotFound | Some x \<Rightarrow> Inr x)"
    and create_lookup:
      "create r x = Inr r' \<Longrightarrow> lookup r (key x) = None \<and> lookup r' = (lookup r)(key x \<mapsto> x)"
    and update_lookup:
      "update r x v = Inr r' \<Longrightarrow>
         lookup r' = (lookup r)(key x \<mapsto> x) \<and> ver x = v + 1
         \<and> (\<exists>y. lookup r (key x) = Some y \<and> ver y = v)"
begin

lemma get_after_create: "create r x = Inr r' \<Longrightarrow> get r' (key x) = Inr x"
  by (auto simp: get_lookup dest: create_lookup)

lemma get_after_update: "update r x v = Inr r' \<Longrightarrow> get r' (key x) = Inr x"
  by (auto simp: get_lookup dest: update_lookup)

lemma get_other:
  "create r x = Inr r' \<or> update r x v = Inr r' \<Longrightarrow> k \<noteq> key x \<Longrightarrow> get r' k = get r k"
  by (auto simp: get_lookup dest: create_lookup update_lookup)

lemma create_twice_fails: "get r (key x) = Inr y \<Longrightarrow> \<exists>e. create r x = Inl e"
  by (cases "create r x") (auto simp: get_lookup dest: create_lookup)

text \<open>Of two writers that read the same version, the second fails.\<close>

lemma no_lost_update:
  assumes "update r x v = Inr r'" "key y = key x"
  shows "\<exists>e. update r' y v = Inl e"
proof (cases "update r' y v")
  case (Inr r'')
  with assms have "ver x = v" "ver x = v + 1"
    by (auto dest!: update_lookup)
  then show ?thesis by simp
qed simp

lemma update_needs_current:
  assumes "update r x v = Inr r'"
  obtains y where "get r (key x) = Inr y" "ver y = v" "ver x = ver y + 1"
  using update_lookup [OF assms] by (auto simp: get_lookup)

end

section \<open>Purchase intents\<close>

record PurchaseIntentRepository =
  pir_intents :: "ID \<rightharpoonup> PurchaseIntent"

definition IntentRepo_Create ::
  "PurchaseIntentRepository \<Rightarrow> PurchaseIntent \<Rightarrow> PurchaseIntentRepository result" where
  "IntentRepo_Create r i =
     reject_if (pir_intents r (pi_intentID i) \<noteq> None) ErrAlreadyExists
       (Inr (r\<lparr>pir_intents := (pir_intents r)(pi_intentID i \<mapsto> i)\<rparr>))"

definition IntentRepo_Get :: "PurchaseIntentRepository \<Rightarrow> ID \<Rightarrow> PurchaseIntent result" where
  "IntentRepo_Get r k =
     (case pir_intents r k of None \<Rightarrow> Inl ErrNotFound | Some i \<Rightarrow> Inr i)"

definition IntentRepo_Update ::
  "PurchaseIntentRepository \<Rightarrow> PurchaseIntent \<Rightarrow> u64 \<Rightarrow> PurchaseIntentRepository result" where
  "IntentRepo_Update r i expectedVersion =
     (case pir_intents r (pi_intentID i) of
        None \<Rightarrow> Inl ErrNotFound
      | Some stored \<Rightarrow>
          reject_if (pi_version stored \<noteq> expectedVersion \<or> pi_version i \<noteq> expectedVersion + 1)
            ErrConditionFailed
            (Inr (r\<lparr>pir_intents := (pir_intents r)(pi_intentID i \<mapsto> i)\<rparr>)))"

interpretation intent_store: versioned_store pi_intentID pi_version pir_intents
  IntentRepo_Get IntentRepo_Create IntentRepo_Update
  by unfold_locales
    (auto simp: IntentRepo_Get_def IntentRepo_Create_def IntentRepo_Update_def result_simps
      split: option.splits)

section \<open>Transactions\<close>

record TransactionRepository =
  tr_transactions :: "ID \<rightharpoonup> Transaction"
  tr_paymentIdentifiers :: "string \<rightharpoonup> ID"

definition NewTransactionRepository :: TransactionRepository where
  "NewTransactionRepository =
     \<lparr>tr_transactions = Map.empty, tr_paymentIdentifiers = Map.empty\<rparr>"

definition TxRepo_Create ::
  "TransactionRepository \<Rightarrow> Transaction \<Rightarrow> TransactionRepository result" where
  "TxRepo_Create r t =
     reject_if (tr_transactions r (tx_transactionID t) \<noteq> None) ErrAlreadyExists
     (let pid = tx_paymentIdentifier t
      in reject_if (pid \<noteq> [] \<and> tr_paymentIdentifiers r pid \<noteq> None) ErrPaymentIdentifierConflict
        (Inr (r\<lparr>tr_paymentIdentifiers :=
                  (if pid \<noteq> [] then (tr_paymentIdentifiers r)(pid \<mapsto> tx_transactionID t)
                   else tr_paymentIdentifiers r),
                tr_transactions := (tr_transactions r)(tx_transactionID t \<mapsto> t)\<rparr>)))"

definition TxRepo_Get :: "TransactionRepository \<Rightarrow> ID \<Rightarrow> Transaction result" where
  "TxRepo_Get r k = (case tr_transactions r k of None \<Rightarrow> Inl ErrNotFound | Some t \<Rightarrow> Inr t)"

definition TxRepo_Update ::
  "TransactionRepository \<Rightarrow> Transaction \<Rightarrow> u64 \<Rightarrow> TransactionRepository result" where
  "TxRepo_Update r t expectedVersion =
     (case tr_transactions r (tx_transactionID t) of
        None \<Rightarrow> Inl ErrNotFound
      | Some stored \<Rightarrow>
          reject_if (tx_version stored \<noteq> expectedVersion \<or> tx_version t \<noteq> expectedVersion + 1)
            ErrConditionFailed
         (let pid = tx_paymentIdentifier t;
              fresh = (pid \<noteq> [] \<and> pid \<noteq> tx_paymentIdentifier stored)
          in reject_if (fresh \<and> tr_paymentIdentifiers r pid \<noteq> None) ErrPaymentIdentifierConflict
            (Inr (r\<lparr>tr_paymentIdentifiers :=
                      (if fresh then (tr_paymentIdentifiers r)(pid \<mapsto> tx_transactionID t)
                       else tr_paymentIdentifiers r),
                    tr_transactions := (tr_transactions r)(tx_transactionID t \<mapsto> t)\<rparr>))))"

text \<open>The result is the transaction, whether it was claimed, and the repository afterwards.\<close>

definition ClaimForwarding ::
  "TransactionRepository \<Rightarrow> ID \<Rightarrow> u64 \<Rightarrow> instant \<Rightarrow> (Transaction \<times> bool \<times> TransactionRepository) result" where
  "ClaimForwarding r k expectedVersion at =
     (case tr_transactions r k of
        None \<Rightarrow> Inl ErrNotFound
      | Some t \<Rightarrow>
          if tx_version t \<noteq> expectedVersion \<or> tx_status t \<noteq> StatusPaymentVerified
             \<or> tx_paymentFinality t \<noteq> PaymentFinalityFinalized
          then Inr (t, False, r)
          else rbind (MarkForwarded t at) (\<lambda>t'.
                 Inr (t', True, r\<lparr>tr_transactions := (tr_transactions r)(k \<mapsto> t')\<rparr>)))"

interpretation tx_store: versioned_store tx_transactionID tx_version tr_transactions
  TxRepo_Get TxRepo_Create TxRepo_Update
  by unfold_locales
    (auto simp: TxRepo_Get_def TxRepo_Create_def TxRepo_Update_def result_simps Let_def
      split: option.splits)

section \<open>Idempotency records\<close>

record IdempotencyStore =
  is_records :: "string \<rightharpoonup> IdempotencyRecord"

definition idempotencyMapKey :: "string \<Rightarrow> string \<Rightarrow> string" where
  "idempotencyMapKey scope key = scope @ [CHR 0x00] @ key"

definition Idempotency_Load :: "IdempotencyStore \<Rightarrow> string \<Rightarrow> string \<Rightarrow> IdempotencyRecord option" where
  "Idempotency_Load s scope key = is_records s (idempotencyMapKey scope key)"

definition SaveIfAbsent :: "IdempotencyStore \<Rightarrow> IdempotencyRecord \<Rightarrow> bool \<times> IdempotencyStore" where
  "SaveIfAbsent s rec =
     (let key = idempotencyMapKey (ir_Scope rec) (ir_Key rec)
      in if is_records s key \<noteq> None then (False, s)
         else (True, s\<lparr>is_records := (is_records s)(key \<mapsto> rec)\<rparr>))"

lemma last_separator_inj:
  "xs @ z # ys = us @ z # vs \<Longrightarrow> z \<notin> set ys \<Longrightarrow> z \<notin> set vs \<Longrightarrow> xs = us \<and> ys = vs"
  by (auto simp: append_eq_append_conv2 Cons_eq_append_conv append_eq_Cons_conv)

lemma idempotency_key_no_nul: "list_all idempotency_char k \<Longrightarrow> CHR 0x00 \<notin> set k"
  by (auto simp: list_all_iff idempotency_char_def)

lemma idempotencyMapKey_inj:
  assumes "idempotencyMapKey sc k = idempotencyMapKey sc' k'"
    and "ParseIdempotencyKey k = Inr k" "ParseIdempotencyKey k' = Inr k'"
  shows "sc = sc' \<and> k = k'"
  using assms last_separator_inj [of sc "CHR 0x00" k sc' k']
  by (auto simp: idempotencyMapKey_def ParseIdempotencyKey_eq_Inr dest: idempotency_key_no_nul)

section \<open>Concurrent clients of the transaction repository\<close>

text \<open>
  The clients create transactions, after any operations on the new value (a checkout stores it as awaiting
  payment, approved before where approval was needed), read them at any time, apply one operation of the
  transaction API to any value some client has read before, and try to write the result with any expected
  version; or they claim a transaction for forwarding. \<open>S\<close> collects every value clients have obtained. \<open>H\<close>
  is a history that no code reads: for every stored transaction, the new value and the operations behind
  the stored one, those before its creation included, oldest first.
\<close>

type_synonym tx_history = "ID \<rightharpoonup> Transaction \<times> tx_op list"

inductive clients ::
  "(string \<Rightarrow> bool) \<Rightarrow> TransactionRepository \<Rightarrow> Transaction set \<Rightarrow> tx_history \<Rightarrow> bool"
  for ulid :: "string \<Rightarrow> bool" where
  init: "clients ulid NewTransactionRepository {} Map.empty"
| create: "\<lbrakk>clients ulid R S H; NewTransaction ulid p = Inr t0; 0 < tp_CreatedAt p; run_ops ops t0 = Inr t;
     TxRepo_Create R t = Inr R'\<rbrakk>
    \<Longrightarrow> clients ulid R' (insert t S) (H(tx_transactionID t \<mapsto> (t0, ops)))"
| read: "\<lbrakk>clients ulid R S H; TxRepo_Get R k = Inr t\<rbrakk> \<Longrightarrow> clients ulid R (insert t S) H"
| store: "\<lbrakk>clients ulid R S H; u \<in> S; apply_op op u = Inr u'; TxRepo_Update R u' v = Inr R';
     H (tx_transactionID u') = Some (t0, ops)\<rbrakk>
    \<Longrightarrow> clients ulid R' (insert u' S) (H(tx_transactionID u' \<mapsto> (t0, ops @ [op])))"
| claim: "\<lbrakk>clients ulid R S H; ClaimForwarding R k v at = Inr (t', True, R');
     H k = Some (t0, ops)\<rbrakk>
    \<Longrightarrow> clients ulid R' (insert t' S) (H(k \<mapsto> (t0, ops @ [OpMarkForwarded at])))"

text \<open>
  A version is a 64-bit counter. The histories considered are shorter than its period, so equal
  versions of one transaction are equal states.
\<close>

definition short_histories :: "tx_history \<Rightarrow> bool" where
  "short_histories H \<longleftrightarrow> (\<forall>k t0 ops. H k = Some (t0, ops) \<longrightarrow> length ops < 2 ^ 64 - 1)"

definition origin_ok :: "(string \<Rightarrow> bool) \<Rightarrow> ID \<Rightarrow> Transaction \<Rightarrow> bool" where
  "origin_ok ulid k t0 \<longleftrightarrow>
     wf_tx ulid t0 \<and> unpaid t0 \<and> tx_status t0 = StatusProposed \<and> tx_version t0 = 1
     \<and> tx_transactionID t0 = k"

text \<open>Every stored value is the end of its history, every value ever read a point on it.\<close>

definition linearised ::
  "(string \<Rightarrow> bool) \<Rightarrow> TransactionRepository \<Rightarrow> Transaction set \<Rightarrow> tx_history \<Rightarrow> bool" where
  "linearised ulid R S H \<longleftrightarrow>
     (\<forall>k. tr_transactions R k = None \<longleftrightarrow> H k = None)
     \<and> (\<forall>k t0 ops. H k = Some (t0, ops) \<longrightarrow>
          origin_ok ulid k t0 \<and> (\<exists>t. tr_transactions R k = Some t \<and> run_ops ops t0 = Inr t))
     \<and> (\<forall>u \<in> S. \<exists>t0 ops n. H (tx_transactionID u) = Some (t0, ops) \<and> n \<le> length ops
          \<and> run_ops (take n ops) t0 = Inr u)"

lemma run_ops_id: "run_ops ops t0 = Inr t \<Longrightarrow> wf_tx ulid t0 \<Longrightarrow> tx_transactionID t = tx_transactionID t0"
  using run_ops_wf(2) [of ops t0 t ulid] by (simp add: tx_terms_def)

lemma apply_op_id: "apply_op op t = Inr t' \<Longrightarrow> tx_transactionID t' = tx_transactionID t"
  using apply_op_frame(1) [of op t t'] by (simp add: tx_terms_def)

lemma version_injective:
  assumes "(of_nat (Suc m) :: u64) = of_nat (Suc n)" "m < 2 ^ 64 - 1" "n < 2 ^ 64 - 1"
  shows "m = n"
proof -
  have "unat (of_nat (Suc m) :: u64) = Suc m" "unat (of_nat (Suc n) :: u64) = Suc n"
    using assms(2,3) by (simp_all add: unat_of_nat take_bit_nat_eq_self del: of_nat_Suc)
  with assms(1) show ?thesis by simp
qed

lemma linearised_stored:
  assumes "linearised ulid R S H" "H k = Some (t0, ops)" "tr_transactions R k = Some t"
  shows "run_ops ops t0 = Inr t" "origin_ok ulid k t0"
  using assms by (auto simp: linearised_def) (metis option.inject)

lemma linearised_dom: "linearised ulid R S H \<Longrightarrow> tr_transactions R k = None \<longleftrightarrow> H k = None"
  by (simp add: linearised_def)

lemma linearised_seen:
  assumes "linearised ulid R S H" "u \<in> S"
  obtains t0 ops n where "H (tx_transactionID u) = Some (t0, ops)" "n \<le> length ops"
    "run_ops (take n ops) t0 = Inr u"
  using assms unfolding linearised_def by blast

text \<open>A value some client holds with the stored version is the stored value.\<close>

lemma current_version_current:
  assumes "linearised ulid R S H" "short_histories H" "u \<in> S"
    and "tr_transactions R (tx_transactionID u) = Some t" "tx_version u = tx_version t"
  shows "u = t"
proof -
  obtain t0 ops n where u: "H (tx_transactionID u) = Some (t0, ops)" "n \<le> length ops"
      "run_ops (take n ops) t0 = Inr u"
    using linearised_seen [OF assms(1,3)] .
  with assms(1,4) have t: "run_ops ops t0 = Inr t" "origin_ok ulid (tx_transactionID u) t0"
    by (auto dest: linearised_stored)
  have wf: "wf_tx ulid t0" "tx_version t0 = 1"
    using t(2) by (auto simp: origin_ok_def)
  have "tx_version u = of_nat (Suc n)" "tx_version t = of_nat (Suc (length ops))"
    using run_ops_wf(3) [OF u(3) wf(1)] run_ops_wf(3) [OF t(1) wf(1)] u(2) wf(2) by auto
  moreover have "length ops < 2 ^ 64 - 1"
    using assms(2) u(1) by (auto simp: short_histories_def)
  ultimately have "n = length ops"
    using assms(5) u(2) by (intro version_injective) auto
  with u(3) t(1) show ?thesis by simp
qed

lemma linearised_extend:
  assumes lin: "linearised ulid R S H" and H: "H k = Some (t0, ops)"
    and t: "tr_transactions R k = Some t" "apply_op op t = Inr t'"
    and R': "tr_transactions R' = (tr_transactions R)(k \<mapsto> t')"
  shows "linearised ulid R' (insert t' S) (H(k \<mapsto> (t0, ops @ [op])))"
proof -
  have run: "run_ops ops t0 = Inr t" "origin_ok ulid k t0"
    using linearised_stored [OF lin H t(1)] by auto
  then have run': "run_ops (ops @ [op]) t0 = Inr t'"
    using t(2) by (auto simp: run_ops_snoc_eq_Inr)
  have id: "tx_transactionID t' = k"
    using run_ops_id [OF run'] run(2) by (auto simp: origin_ok_def)
  have old: "\<exists>t0' ops' n. (H(k \<mapsto> (t0, ops @ [op]))) (tx_transactionID u) = Some (t0', ops')
      \<and> n \<le> length ops' \<and> run_ops (take n ops') t0' = Inr u" if uS: "u \<in> S" for u
  proof -
    obtain t1 ops1 n where u: "H (tx_transactionID u) = Some (t1, ops1)" "n \<le> length ops1"
        "run_ops (take n ops1) t1 = Inr u"
      using linearised_seen [OF lin uS] .
    show ?thesis
    proof (cases "tx_transactionID u = k")
      case True
      with u H have "take n (ops @ [op]) = take n ops1" "t1 = t0" "n \<le> length (ops @ [op])"
        by auto
      with u True show ?thesis
        by (intro exI [of _ t0] exI [of _ "ops @ [op]"] exI [of _ n]) auto
    next
      case False
      with u show ?thesis by auto
    qed
  qed
  have new: "\<exists>n \<le> length (ops @ [op]). run_ops (take n (ops @ [op])) t0 = Inr t'"
    using run' by (intro exI [of _ "length (ops @ [op])"]) simp
  have dom: "\<forall>k'. tr_transactions R' k' = None \<longleftrightarrow> (H(k \<mapsto> (t0, ops @ [op]))) k' = None"
    using lin by (simp add: linearised_def R')
  have val: "\<forall>k' t1 ops1. (H(k \<mapsto> (t0, ops @ [op]))) k' = Some (t1, ops1) \<longrightarrow>
      origin_ok ulid k' t1 \<and> (\<exists>t. tr_transactions R' k' = Some t \<and> run_ops ops1 t1 = Inr t)"
    using lin run(2) run' by (auto simp: linearised_def R')
  show ?thesis
    unfolding linearised_def using dom val old new id by auto
qed

lemma linearised_create:
  assumes lin: "linearised ulid R S H" and new: "tr_transactions R (tx_transactionID t) = None"
    and t0: "origin_ok ulid (tx_transactionID t) t0" "run_ops ops t0 = Inr t"
    and R': "tr_transactions R' = (tr_transactions R)(tx_transactionID t \<mapsto> t)"
  shows "linearised ulid R' (insert t S) (H(tx_transactionID t \<mapsto> (t0, ops)))"
proof -
  have none: "H (tx_transactionID t) = None"
    using lin new by (auto simp: linearised_def)
  have "\<exists>n \<le> length ops. run_ops (take n ops) t0 = Inr t"
    using t0(2) by (intro exI [of _ "length ops"]) simp
  then show ?thesis
    using lin t0 none by (auto simp: linearised_def R')
qed

lemma linearised_read:
  assumes "linearised ulid R S H" "tr_transactions R k = Some t"
  shows "linearised ulid R (insert t S) H"
proof -
  obtain t0 ops where H: "H k = Some (t0, ops)"
    using assms linearised_dom [OF assms(1), of k] by (cases "H k") auto
  note r = linearised_stored [OF assms(1) H assms(2)]
  then have "tx_transactionID t = k"
    using run_ops_id [OF r(1)] by (auto simp: origin_ok_def)
  with assms(1) H r(1) show ?thesis
    by (auto simp: linearised_def intro!: exI [of _ "length ops"])
qed

lemma short_histories_shrink:
  assumes "short_histories (H(k \<mapsto> (t0, ops @ ys)))" "H k = Some (t0, ops)"
  shows "short_histories H"
  unfolding short_histories_def
proof (intro allI impI)
  fix k' t1 ops1
  assume H: "H k' = Some (t1, ops1)"
  show "length ops1 < 2 ^ 64 - 1"
  proof (cases "k' = k")
    case True
    with H assms have "length (ops1 @ ys) < 2 ^ 64 - 1"
      unfolding short_histories_def by (metis fun_upd_same option.inject prod.inject)
    then show ?thesis by simp
  next
    case False
    with H have "(H(k \<mapsto> (t0, ops @ ys))) k' = Some (t1, ops1)"
      by simp
    with assms(1) show ?thesis
      unfolding short_histories_def by blast
  qed
qed

lemma NewTransaction_origin:
  assumes "NewTransaction ulid p = Inr t0" "0 < tp_CreatedAt p" "run_ops ops t0 = Inr t"
  shows "origin_ok ulid (tx_transactionID t) t0"
  using NewTransaction_wf [of ulid p t0] run_ops_id [OF assms(3), of ulid] assms by (auto simp: origin_ok_def)

lemma ClaimForwarding_claimed:
  assumes "ClaimForwarding R k v at = Inr (t', True, R')"
  obtains t where "tr_transactions R k = Some t" "tx_version t = v"
    "apply_op (OpMarkForwarded at) t = Inr t'"
    "tr_transactions R' = (tr_transactions R)(k \<mapsto> t')"
    "tr_paymentIdentifiers R' = tr_paymentIdentifiers R"
  using assms by (auto simp: ClaimForwarding_def result_simps split: option.splits if_splits)

lemma clients_dom: "clients ulid R S H \<Longrightarrow> tr_transactions R k = None \<longleftrightarrow> H k = None"
  by (induction rule: clients.induct)
    (auto simp: NewTransactionRepository_def elim!: ClaimForwarding_claimed
      dest!: tx_store.create_lookup tx_store.update_lookup)

lemma clients_linearised:
  assumes "clients ulid R S H" "short_histories H"
  shows "linearised ulid R S H"
  using assms
proof (induction rule: clients.induct)
  case init
  then show ?case
    by (simp add: linearised_def NewTransactionRepository_def)
next
  case (create R S H p t0 ops t R')
  have R': "tr_transactions R (tx_transactionID t) = None"
      "tr_transactions R' = (tr_transactions R)(tx_transactionID t \<mapsto> t)"
    using tx_store.create_lookup [OF create.hyps(5)] by auto
  have none: "H (tx_transactionID t) = None"
    using clients_dom [OF create.hyps(1)] R'(1) by simp
  have "short_histories H"
    unfolding short_histories_def
  proof (intro allI impI)
    fix k t1 ops1
    assume "H k = Some (t1, ops1)"
    with none have "(H(tx_transactionID t \<mapsto> (t0, ops))) k = Some (t1, ops1)"
      by auto
    with create.prems show "length ops1 < 2 ^ 64 - 1"
      unfolding short_histories_def by blast
  qed
  with create R' show ?case
    by (intro linearised_create NewTransaction_origin [OF create.hyps(2,3,4)]) auto
next
  case (read R S H k t)
  then show ?case
    by (auto simp: TxRepo_Get_def split: option.splits intro: linearised_read)
next
  case (store R S H u op u' v R' t0 ops)
  have lin: "linearised ulid R S H" and short: "short_histories H"
    using short_histories_shrink [OF store.prems store.hyps(5)] store.IH by auto
  obtain t where t: "tr_transactions R (tx_transactionID u') = Some t" "tx_version t = v"
      "tx_version u' = v + 1"
      and R': "tr_transactions R' = (tr_transactions R)(tx_transactionID u' \<mapsto> u')"
    using tx_store.update_lookup [OF store.hyps(4)] by auto
  have "tx_version u = tx_version t"
    using apply_op_frame(2) [OF store.hyps(3)] t by simp
  then have "u = t"
    using current_version_current [OF lin short store.hyps(2)] t(1) apply_op_id [OF store.hyps(3)]
    by simp
  with store.hyps(3) show ?case
    by (intro linearised_extend [OF lin store.hyps(5) t(1) _ R']) simp
next
  case (claim R S H k v at t' R' t0 ops)
  have lin: "linearised ulid R S H"
    using short_histories_shrink [OF claim.prems claim.hyps(3)] claim.IH by auto
  obtain t where "tr_transactions R k = Some t" "apply_op (OpMarkForwarded at) t = Inr t'"
      "tr_transactions R' = (tr_transactions R)(k \<mapsto> t')"
    using ClaimForwarding_claimed [OF claim.hyps(2)] by blast
  then show ?case
    by (rule linearised_extend [OF lin claim.hyps(3)])
qed

text \<open>The index of payment identifiers covers every stored transaction, whatever clients write.\<close>

definition identifiers_indexed :: "TransactionRepository \<Rightarrow> bool" where
  "identifiers_indexed R \<longleftrightarrow>
     (\<forall>k t. tr_transactions R k = Some t \<longrightarrow> tx_paymentIdentifier t \<noteq> [] \<longrightarrow>
        tr_paymentIdentifiers R (tx_paymentIdentifier t) = Some k)"

lemma identifiers_indexed_create:
  "identifiers_indexed R \<Longrightarrow> TxRepo_Create R t = Inr R' \<Longrightarrow> identifiers_indexed R'"
  by (auto simp: identifiers_indexed_def TxRepo_Create_def Let_def result_simps
      split: if_split_asm) (metis option.distinct(1))

lemma identifiers_indexed_update:
  "identifiers_indexed R \<Longrightarrow> TxRepo_Update R t v = Inr R' \<Longrightarrow> identifiers_indexed R'"
  by (auto simp: identifiers_indexed_def TxRepo_Update_def Let_def result_simps
      split: option.splits if_split_asm) (metis option.distinct(1))

lemma identifiers_indexed_claim:
  assumes "identifiers_indexed R" "ClaimForwarding R k v at = Inr (t', c, R')"
  shows "identifiers_indexed R'"
  using assms
  by (auto simp: identifiers_indexed_def ClaimForwarding_def result_simps MarkForwarded_def
      transition_eq_Inr split: option.splits if_splits)

lemma clients_identifiers: "clients ulid R S H \<Longrightarrow> identifiers_indexed R"
proof (induction rule: clients.induct)
  case init
  show ?case by (simp add: identifiers_indexed_def NewTransactionRepository_def)
qed (blast intro: identifiers_indexed_create identifiers_indexed_update identifiers_indexed_claim)+

section \<open>Properties\<close>

text \<open>
  C7: at-most-once forwarding under concurrency. However many clients create transactions (as a checkout
  does, after any operations on the new value), read, change, store and claim them in whatever order (fewer
  than 2^64 - 1 operations on one transaction), a stored transaction is well-formed and is the result of the recorded sequence of
  operations; the sequence contains as many \<open>MarkForwarded\<close> as the attempt counter says, at most two,
  every one of them after the settlement of the payment, and a second one only after a failure
  recorded as safe to retry and an explicit preparation of the retry.
\<close>

theorem concurrent_forwarding:
  assumes "clients ulid R S H" "short_histories H" "TxRepo_Get R k = Inr t"
  shows "wf_tx ulid t \<and> tx_transactionID t = k \<and> (\<exists>t0 ops. H k = Some (t0, ops) \<and> run_ops ops t0 = Inr t
    \<and> unat (tx_fulfillmentAttempts t) = forwards ops \<and> forwards ops \<le> 2
    \<and> (\<forall>xs a ys. ops = xs @ OpMarkForwarded a # ys \<longrightarrow>
         (\<exists>i r b. OpFinalizePayment i r b \<in> set xs))
    \<and> (\<forall>xs a ys b zs. ops = xs @ OpMarkForwarded a # ys @ OpMarkForwarded b # zs \<longrightarrow>
         list_ex safe_failure ys \<and> list_ex prepares_retry ys))"
proof -
  have t: "tr_transactions R k = Some t"
    using assms(3) by (simp add: TxRepo_Get_def split: option.splits)
  note lin = clients_linearised [OF assms(1,2)]
  obtain t0 ops where H: "H k = Some (t0, ops)"
    using t linearised_dom [OF lin, of k] by (cases "H k") auto
  have run: "run_ops ops t0 = Inr t"
    and t0: "wf_tx ulid t0" "unpaid t0" "tx_transactionID t0 = k" "tx_fulfillmentAttempts t0 = 0"
    using linearised_stored [OF lin H t] by (auto simp: origin_ok_def unpaid_def)
  have "wf_tx ulid t" "tx_transactionID t = k"
    using run_ops_wf(1) [OF run t0(1)] run_ops_id [OF run t0(1)] t0(3) by auto
  moreover have "unat (tx_fulfillmentAttempts t) = forwards ops" "forwards ops \<le> 2"
    using forwards_bound [OF run t0(1,4)] by (simp_all add: unat_of_nat)
  ultimately show ?thesis
    using H run settlement_before_forward [OF t0(1,2)] retry_between_forwards [OF t0(1)] by blast
qed

text \<open>A concrete interleaving: create, pay, settle, claim.\<close>

definition sample_repository :: TransactionRepository where
  "sample_repository =
     \<lparr>tr_transactions = [tx_transactionID sample_tx \<mapsto> sample_tx],
      tr_paymentIdentifiers = Map.empty\<rparr>"

lemma sample_tx_fields:
  "tx_transactionID sample_tx = ''txn_01ARZ3NDEKTSV4RRFFQ69G5FAV''" "tx_paymentIdentifier sample_tx = []"
  by code_simp+

lemma clients_store_current:
  assumes "clients ulid R S H" "u \<in> S" "apply_op op u = Inr u'"
    and "tr_transactions R (tx_transactionID u) = Some u" "H (tx_transactionID u) = Some (t0, ops)"
    and "tx_paymentIdentifier u' = tx_paymentIdentifier u
      \<or> tr_paymentIdentifiers R (tx_paymentIdentifier u') = None"
  obtains R' where
    "clients ulid R' (insert u' S) (H(tx_transactionID u \<mapsto> (t0, ops @ [op])))"
    "tr_transactions R' = (tr_transactions R)(tx_transactionID u \<mapsto> u')"
proof -
  have id: "tx_transactionID u' = tx_transactionID u" "tx_version u' = tx_version u + 1"
    using apply_op_id [OF assms(3)] apply_op_frame(2) [OF assms(3)] by auto
  then obtain R' where R': "TxRepo_Update R u' (tx_version u) = Inr R'"
    using assms(4,6) by (auto simp: TxRepo_Update_def reject_if_def Let_def)
  moreover have "tr_transactions R' = (tr_transactions R)(tx_transactionID u \<mapsto> u')"
    using tx_store.update_lookup [OF R'] id by simp
  ultimately show thesis
    using that clients.store [OF assms(1-3) R', unfolded id(1), OF assms(5)] by blast
qed

text \<open>
  The checkout stores its transaction as awaiting payment, at version 2. It then pays, finalizes the payment
  and claims the transaction.
\<close>

lemma sample_payment:
  obtains t1 t2 t3 where "apply_op (OpRequirePayment 1001) sample_tx = Inr t1"
    "apply_op (OpVerifyPayment ''pay-1'' sample_digest 1002) t1 = Inr t2"
    "apply_op (OpFinalizePayment ''pay-1'' ''0xsettled'' 1003) t2 = Inr t3"
proof -
  have "is_ok (run_ops sample_forward sample_tx)"
    by code_simp
  then show thesis
    using that by (cases "run_ops sample_forward sample_tx")
      (auto simp: sample_forward_def rbind_eq_Inr)
qed

lemma sample_clients:
  assumes "apply_op (OpRequirePayment 1001) sample_tx = Inr t1"
  obtains R where
    "clients sample_ulid R {t1} [tx_transactionID sample_tx \<mapsto> (sample_tx, [OpRequirePayment 1001])]"
    "tr_transactions R = [tx_transactionID sample_tx \<mapsto> t1]" "tr_paymentIdentifiers R = Map.empty"
proof -
  let ?R = "\<lparr>tr_transactions = [tx_transactionID sample_tx \<mapsto> t1], tr_paymentIdentifiers = Map.empty\<rparr>"
  have pid: "tx_paymentIdentifier t1 = []" and id: "tx_transactionID t1 = tx_transactionID sample_tx"
    using assms sample_tx_fields(2) apply_op_id [OF assms] by (auto simp: tx_op_simps)
  have run: "run_ops [OpRequirePayment 1001] sample_tx = Inr t1"
    using assms by (simp add: rbind_def)
  have "TxRepo_Create NewTransactionRepository t1 = Inr ?R"
    by (simp add: TxRepo_Create_def NewTransactionRepository_def pid id reject_if_def)
  from clients.create [OF clients.init sample_tx_created sample_tx_time run this] show thesis
    by (intro that [of ?R]) (simp_all add: id)
qed

lemma sample_paid_stored:
  assumes "apply_op (OpRequirePayment 1001) sample_tx = Inr t1"
    and "apply_op (OpVerifyPayment ''pay-1'' sample_digest 1002) t1 = Inr t2"
  obtains R where "clients sample_ulid R {t2, t1} [tx_transactionID sample_tx \<mapsto>
      (sample_tx, [OpRequirePayment 1001, OpVerifyPayment ''pay-1'' sample_digest 1002])]"
    "tr_transactions R = [tx_transactionID sample_tx \<mapsto> t2]" "tx_paymentIdentifier t2 = ''pay-1''"
proof -
  have "tx_paymentIdentifier t2 = TrimSpace ''pay-1''"
    using assms(2) by (auto simp: tx_op_simps)
  then have pid: "tx_paymentIdentifier t2 = ''pay-1''"
    by (simp add: TrimSpace_plain plain_ends_def ascii_graph_def)
  obtain R1 where R1:
      "clients sample_ulid R1 {t1} [tx_transactionID sample_tx \<mapsto> (sample_tx, [OpRequirePayment 1001])]"
      "tr_transactions R1 = [tx_transactionID sample_tx \<mapsto> t1]" "tr_paymentIdentifiers R1 = Map.empty"
    by (rule sample_clients [OF assms(1)])
  obtain R where "clients sample_ulid R {t2, t1} [tx_transactionID sample_tx \<mapsto>
      (sample_tx, [OpRequirePayment 1001, OpVerifyPayment ''pay-1'' sample_digest 1002])]"
      "tr_transactions R = [tx_transactionID sample_tx \<mapsto> t2]"
    by (rule clients_store_current [OF R1(1) _ assms(2)])
      (auto simp: R1 apply_op_id [OF assms(1)])
  with pid show thesis
    using that by blast
qed

theorem concurrent_forwarding_witness:
  "\<exists>R S H t. clients sample_ulid R S H \<and> TxRepo_Get R (tx_transactionID sample_tx) = Inr t
     \<and> H (tx_transactionID sample_tx) = Some (sample_tx, sample_forward @ [OpMarkForwarded 1004])
     \<and> unat (tx_fulfillmentAttempts t) = 1 \<and> wf_tx sample_ulid t"
proof -
  let ?k = "tx_transactionID sample_tx" and ?h = "sample_forward @ [OpMarkForwarded 1004]"
  obtain t1 t2 t3 where t: "apply_op (OpRequirePayment 1001) sample_tx = Inr t1"
      "apply_op (OpVerifyPayment ''pay-1'' sample_digest 1002) t1 = Inr t2"
      "apply_op (OpFinalizePayment ''pay-1'' ''0xsettled'' 1003) t2 = Inr t3"
    by (rule sample_payment)
  obtain R2 where R2: "clients sample_ulid R2 {t2, t1} [?k \<mapsto>
        (sample_tx, [OpRequirePayment 1001, OpVerifyPayment ''pay-1'' sample_digest 1002])]"
      "tr_transactions R2 = [?k \<mapsto> t2]"
    by (rule sample_paid_stored [OF t(1,2)])
  have id: "tx_transactionID t2 = ?k" "tx_transactionID t3 = ?k"
    using apply_op_id [OF t(1)] apply_op_id [OF t(2)] apply_op_id [OF t(3)] by simp_all
  obtain R3 where R3: "clients sample_ulid R3 {t3, t2, t1} [?k \<mapsto> (sample_tx, sample_forward)]"
      "tr_transactions R3 = [?k \<mapsto> t3]"
  proof (rule clients_store_current [OF R2(1) _ t(3)])
    show "tx_paymentIdentifier t3 = tx_paymentIdentifier t2
        \<or> tr_paymentIdentifiers R2 (tx_paymentIdentifier t3) = None"
      using t(3) by (auto simp: tx_op_simps)
  qed (use R2 id in \<open>auto simp: sample_forward_def\<close>)
  obtain u where u: "apply_op (OpMarkForwarded 1004) t3 = Inr u"
    using sample_run t by (auto simp: sample_ops_def sample_forward_def rbind_eq_Inr)
  have "tx_status t3 = StatusPaymentVerified" "tx_paymentFinality t3 = PaymentFinalityFinalized"
    using t(3) u by (auto simp: tx_op_simps)
  then have "ClaimForwarding R3 ?k (tx_version t3) 1004
      = Inr (u, True, R3\<lparr>tr_transactions := [?k \<mapsto> u]\<rparr>)"
    using u R3(2) by (simp add: ClaimForwarding_def rbind_def)
  from clients.claim [OF R3(1) this, of sample_tx sample_forward]
  have R: "clients sample_ulid (R3\<lparr>tr_transactions := [?k \<mapsto> u]\<rparr>) {u, t3, t2, t1} [?k \<mapsto> (sample_tx, ?h)]"
    by simp
  have short: "short_histories [?k \<mapsto> (sample_tx, ?h)]"
    by (simp add: short_histories_def sample_forward_def)
  have got: "TxRepo_Get (R3\<lparr>tr_transactions := [?k \<mapsto> u]\<rparr>) ?k = Inr u"
    by (simp add: TxRepo_Get_def)
  have "forwards ?h = 1"
    by code_simp
  with concurrent_forwarding [OF R short got] have "unat (tx_fulfillmentAttempts u) = 1 \<and> wf_tx sample_ulid u"
    by auto
  with R got show ?thesis
    by (intro exI [of _ "R3\<lparr>tr_transactions := [?k \<mapsto> u]\<rparr>"] exI [of _ "{u, t3, t2, t1}"]
        exI [of _ "[?k \<mapsto> (sample_tx, ?h)]"] exI [of _ u] conjI) simp_all
qed

text \<open>
  A payment pays once. No two transactions that clients ever manage to store carry the same
  payment identifier, whatever they try to write.
\<close>

theorem payment_identifier_unique:
  assumes "clients ulid R S H" "TxRepo_Get R k1 = Inr t1" "TxRepo_Get R k2 = Inr t2"
    and "tx_paymentIdentifier t1 \<noteq> []" "tx_paymentIdentifier t1 = tx_paymentIdentifier t2"
  shows "k1 = k2 \<and> t1 = t2"
proof -
  have s: "tr_transactions R k1 = Some t1" "tr_transactions R k2 = Some t2"
    using assms(2,3) by (auto simp: TxRepo_Get_def split: option.splits)
  then have "Some k1 = Some k2"
    using clients_identifiers [OF assms(1)] assms(4,5) unfolding identifiers_indexed_def by metis
  with s show ?thesis
    by simp
qed

theorem payment_identifier_unique_witness:
  "\<exists>R S H t. clients sample_ulid R S H \<and> TxRepo_Get R (tx_transactionID sample_tx) = Inr t
     \<and> tx_paymentIdentifier t = ''pay-1''
     \<and> (\<nexists>k u. k \<noteq> tx_transactionID sample_tx \<and> TxRepo_Get R k = Inr u
           \<and> tx_paymentIdentifier u = ''pay-1'')"
proof -
  obtain t1 t2 where t: "apply_op (OpRequirePayment 1001) sample_tx = Inr t1"
      "apply_op (OpVerifyPayment ''pay-1'' sample_digest 1002) t1 = Inr t2"
    by (rule sample_payment)
  obtain R S H t where c: "clients sample_ulid R S H"
      "TxRepo_Get R (tx_transactionID sample_tx) = Inr t" "tx_paymentIdentifier t = ''pay-1''"
    using sample_paid_stored [OF t] by (metis TxRepo_Get_def fun_upd_same option.simps(5))
  have "\<nexists>k u. k \<noteq> tx_transactionID sample_tx \<and> TxRepo_Get R k = Inr u
      \<and> tx_paymentIdentifier u = ''pay-1''"
    using payment_identifier_unique [OF c(1) c(2)] c(3) by (metis list.distinct(1))
  with c show ?thesis
    by blast
qed

text \<open>
  No lost update, for intents and for transactions. After one writer has stored its value over a
  version, every other writer that prepared a value for the same record and the same version is
  refused with \<open>ErrConditionFailed\<close>, and a read returns the first writer's value.
\<close>

theorem no_lost_updates:
  "(\<forall>r r' i j v. IntentRepo_Update r i v = Inr r' \<and> pi_intentID j = pi_intentID i \<longrightarrow>
      IntentRepo_Update r' j v = Inl ErrConditionFailed \<and> IntentRepo_Get r' (pi_intentID i) = Inr i)
   \<and> (\<forall>r r' t u v. TxRepo_Update r t v = Inr r' \<and> tx_transactionID u = tx_transactionID t \<longrightarrow>
      TxRepo_Update r' u v = Inl ErrConditionFailed \<and> TxRepo_Get r' (tx_transactionID t) = Inr t)"
proof (intro conjI allI impI; elim conjE)
  fix r r' v and i j :: PurchaseIntent
  assume u: "IntentRepo_Update r i v = Inr r'" "pi_intentID j = pi_intentID i"
  show "IntentRepo_Get r' (pi_intentID i) = Inr i"
    by (rule intent_store.get_after_update [OF u(1)])
  have "pi_version i = v + 1" "pir_intents r' (pi_intentID i) = Some i"
    using intent_store.update_lookup [OF u(1)] by auto
  with u(2) show "IntentRepo_Update r' j v = Inl ErrConditionFailed"
    by (simp add: IntentRepo_Update_def reject_if_def)
next
  fix r r' v and t u :: Transaction
  assume s: "TxRepo_Update r t v = Inr r'" "tx_transactionID u = tx_transactionID t"
  show "TxRepo_Get r' (tx_transactionID t) = Inr t"
    by (rule tx_store.get_after_update [OF s(1)])
  have "tx_version t = v + 1" "tr_transactions r' (tx_transactionID t) = Some t"
    using tx_store.update_lookup [OF s(1)] by auto
  with s(2) show "TxRepo_Update r' u v = Inl ErrConditionFailed"
    by (simp add: TxRepo_Update_def reject_if_def)
qed

theorem no_lost_updates_witness:
  "\<exists>r' t u. apply_op (OpRequirePayment 1001) sample_tx = Inr t
     \<and> apply_op (OpRequirePayment 1002) sample_tx = Inr u
     \<and> TxRepo_Update sample_repository t (tx_version sample_tx) = Inr r'
     \<and> TxRepo_Update r' u (tx_version sample_tx) = Inl ErrConditionFailed
     \<and> TxRepo_Get r' (tx_transactionID t) = Inr t"
proof -
  have ok: "is_ok (apply_op (OpRequirePayment 1001) sample_tx)"
      "is_ok (apply_op (OpRequirePayment 1002) sample_tx)"
    by code_simp+
  then obtain t u where t: "apply_op (OpRequirePayment 1001) sample_tx = Inr t"
      and u: "apply_op (OpRequirePayment 1002) sample_tx = Inr u"
    unfolding is_ok_def by (auto split: sum.splits simp del: apply_op.simps)
  have id: "tx_transactionID t = tx_transactionID sample_tx"
      "tx_transactionID u = tx_transactionID sample_tx" "tx_version t = tx_version sample_tx + 1"
    using apply_op_id [OF t] apply_op_id [OF u] apply_op_frame(2) [OF t] by auto
  then obtain r' where r': "TxRepo_Update sample_repository t (tx_version sample_tx) = Inr r'"
    by (simp add: TxRepo_Update_def reject_if_def Let_def sample_repository_def)
  have "TxRepo_Update r' u (tx_version sample_tx) = Inl ErrConditionFailed"
      "TxRepo_Get r' (tx_transactionID t) = Inr t"
    using no_lost_updates [THEN conjunct2, rule_format, OF conjI, OF r'] id by simp_all
  with t u r' show ?thesis
    by blast
qed

fun save_all :: "IdempotencyRecord list \<Rightarrow> IdempotencyStore \<Rightarrow> IdempotencyStore" where
  "save_all [] s = s"
| "save_all (rec # recs) s = save_all recs (snd (SaveIfAbsent s rec))"

lemma SaveIfAbsent_keeps:
  "is_records s k = Some rec \<Longrightarrow> is_records (snd (SaveIfAbsent s r)) k = Some rec"
  by (auto simp: SaveIfAbsent_def Let_def)

lemma save_all_keeps:
  "is_records s k = Some rec \<Longrightarrow> is_records (save_all recs s) k = Some rec"
  by (induction recs arbitrary: s) (auto intro: SaveIfAbsent_keeps)

text \<open>
  Replay protection. Saving a record succeeds exactly when none is stored for its scope and key;
  a later load of that scope and key returns the first record that was saved, whatever was saved
  since, and records of other scopes or keys (of validated form) never interfere.
\<close>

theorem idempotency_first_wins:
  assumes "ParseIdempotencyKey (ir_Key rec) = Inr (ir_Key rec)"
  shows "(fst (SaveIfAbsent s rec) \<longleftrightarrow> Idempotency_Load s (ir_Scope rec) (ir_Key rec) = None)
    \<and> Idempotency_Load (save_all recs (snd (SaveIfAbsent s rec))) (ir_Scope rec) (ir_Key rec)
        = Some (case Idempotency_Load s (ir_Scope rec) (ir_Key rec) of None \<Rightarrow> rec | Some old \<Rightarrow> old)
    \<and> (\<forall>sc k. ParseIdempotencyKey k = Inr k \<longrightarrow> (sc, k) \<noteq> (ir_Scope rec, ir_Key rec) \<longrightarrow>
         Idempotency_Load (snd (SaveIfAbsent s rec)) sc k = Idempotency_Load s sc k)"
proof (intro conjI allI impI)
  show "fst (SaveIfAbsent s rec) \<longleftrightarrow> Idempotency_Load s (ir_Scope rec) (ir_Key rec) = None"
    by (auto simp: SaveIfAbsent_def Idempotency_Load_def Let_def)
  show "Idempotency_Load (save_all recs (snd (SaveIfAbsent s rec))) (ir_Scope rec) (ir_Key rec)
      = Some (case Idempotency_Load s (ir_Scope rec) (ir_Key rec) of None \<Rightarrow> rec | Some old \<Rightarrow> old)"
    unfolding Idempotency_Load_def
    by (rule save_all_keeps) (auto simp: SaveIfAbsent_def Let_def split: option.splits)
  fix sc k
  assume k: "ParseIdempotencyKey k = Inr k" "(sc, k) \<noteq> (ir_Scope rec, ir_Key rec)"
  then have "idempotencyMapKey sc k \<noteq> idempotencyMapKey (ir_Scope rec) (ir_Key rec)"
    using idempotencyMapKey_inj assms by blast
  then show "Idempotency_Load (snd (SaveIfAbsent s rec)) sc k = Idempotency_Load s sc k"
    by (simp add: SaveIfAbsent_def Idempotency_Load_def Let_def)
qed

theorem idempotency_first_wins_witness:
  "fst (SaveIfAbsent \<lparr>is_records = Map.empty\<rparr>
     \<lparr>ir_Scope = ''intents'', ir_Key = ''key-00001'', ir_RequestHash = [], ir_ResponseStatus = 201,
      ir_ResponseBody = [], ir_CreatedAt = 1, ir_ExpiresAt = 2\<rparr>)"
  using idempotency_first_wins
    [of "\<lparr>ir_Scope = ''intents'', ir_Key = ''key-00001'', ir_RequestHash = [],
          ir_ResponseStatus = 201, ir_ResponseBody = [], ir_CreatedAt = 1, ir_ExpiresAt = 2\<rparr>"
        "\<lparr>is_records = Map.empty\<rparr>"]
  by (simp add: Idempotency_Load_def ParseIdempotencyKey_eq_Inr idempotency_char_def)

end
