(* ===== verification/Evidence.thy ===== *)
theory Evidence
  imports Repositories
begin

text \<open>
  The package \<open>internal/evidence\<close> and its in-memory repository: signed, hash-linked, append-only
  event chains per transaction, the recorder that extends them and the verifier that checks them,
  with the local HMAC signer. The signing service is an interface (a locale); the local signer is
  shown to provide it. The lemmas show that every extension of a valid chain is valid, that the
  recorder never forks a chain, and that a head hash pins the whole history up to a hash collision.
\<close>

section \<open>Data\<close>

datatype EventType =
    EventIntentCreated
  | EventApprovalRequested
  | EventApprovalDecided
  | EventApprovalResolved
  | EventPaymentChallenged
  | EventPaymentVerified
  | EventProxyForwarded
  | EventDeliverySucceeded
  | EventDeliveryFailed
  | EventDisputeOpened
  | EventDisputeClassified
  | EventDisputeResolved
  | EventOther string

fun EventType_wire :: "EventType \<Rightarrow> string" where
  "EventType_wire EventIntentCreated = ''intent.created''"
| "EventType_wire EventApprovalRequested = ''approval.requested''"
| "EventType_wire EventApprovalDecided = ''approval.decided''"
| "EventType_wire EventApprovalResolved = ''approval.resolved''"
| "EventType_wire EventPaymentChallenged = ''payment.challenged''"
| "EventType_wire EventPaymentVerified = ''payment.verified''"
| "EventType_wire EventProxyForwarded = ''proxy.forwarded''"
| "EventType_wire EventDeliverySucceeded = ''delivery.succeeded''"
| "EventType_wire EventDeliveryFailed = ''delivery.failed''"
| "EventType_wire EventDisputeOpened = ''dispute.opened''"
| "EventType_wire EventDisputeClassified = ''dispute.classified''"
| "EventType_wire EventDisputeResolved = ''dispute.resolved''"
| "EventType_wire (EventOther s) = s"

fun validEventType :: "EventType \<Rightarrow> bool" where
  "validEventType (EventOther _) = False"
| "validEventType _ = True"

datatype ActorType = ActorSystem | ActorSeller | ActorBuyer | ActorApprover | ActorOther string

fun ActorType_wire :: "ActorType \<Rightarrow> string" where
  "ActorType_wire ActorSystem = ''system''"
| "ActorType_wire ActorSeller = ''seller''"
| "ActorType_wire ActorBuyer = ''buyer''"
| "ActorType_wire ActorApprover = ''approver''"
| "ActorType_wire (ActorOther s) = s"

fun validActorType :: "ActorType \<Rightarrow> bool" where
  "validActorType (ActorOther _) = False"
| "validActorType _ = True"

text \<open>
  A payload is a Go map from strings to JSON values, in the key order in which it is marshalled;
  \<^term>\<open>None\<close> is the nil map.
\<close>

type_synonym payload = "(string \<times> json) list"

record Signature =
  sg_KeyID :: string
  sg_Value :: string

record signer =
  s_Sign :: "string \<Rightarrow> Signature result"
  s_Verify :: "string \<Rightarrow> string \<Rightarrow> string \<Rightarrow> bool result"

record EventParams =
  ep_EventID :: ID
  ep_TransactionID :: ID
  ep_Sequence :: u64
  ep_EventType :: EventType
  ep_ActorType :: ActorType
  ep_ActorID :: string
  ep_Payload :: "payload option"
  ep_CreatedAt :: instant

record Event =
  ev_EventID :: ID
  ev_TransactionID :: ID
  ev_Sequence :: u64
  ev_EventType :: EventType
  ev_ActorType :: ActorType
  ev_ActorID :: string
  ev_Payload :: "payload option"
  ev_PreviousEventHash :: "SHA256Digest option"
  ev_EventHash :: SHA256Digest
  ev_KMSKeyID :: string
  ev_KMSSignature :: string
  ev_CreatedAt :: instant

abbreviation ErrChainInvalid :: go_error where
  "ErrChainInvalid \<equiv> Err ''evidence.ErrChainInvalid''"

abbreviation ErrEvidenceConflict :: go_error where
  "ErrEvidenceConflict \<equiv> Err ''evidence.ErrEvidenceConflict''"

section \<open>Hashing\<close>

definition hashPayload :: "Event \<Rightarrow> json" where
  "hashPayload e = JObject
     ([(''schemaVersion'', JString ''1''),
       (''eventId'', JString (ev_EventID e)),
       (''transactionId'', JString (ev_TransactionID e)),
       (''sequence'', JInt (uint (ev_Sequence e))),
       (''eventType'', JString (EventType_wire (ev_EventType e))),
       (''actorType'', JString (ActorType_wire (ev_ActorType e)))]
      @ omit_empty ''actorId'' (ev_ActorID e) @
      [(''payload'', case ev_Payload e of None \<Rightarrow> JNull | Some p \<Rightarrow> JObject p),
       (''previousEventHash'', case ev_PreviousEventHash e of None \<Rightarrow> JNull | Some h \<Rightarrow> JString h),
       (''createdAt'', JString (FormatRFC3339Nano (ev_CreatedAt e)))])"

abbreviation "evidenceHashDomain \<equiv> ''agentpay.evidence.v1''"

text \<open>The hexadecimal digest and the raw bytes that are signed.\<close>

definition calculateHash ::
  "(string \<Rightarrow> string result) \<Rightarrow> Event \<Rightarrow> (SHA256Digest \<times> string) result" where
  "calculateHash jcs e =
     (case jcs (json_encode (hashPayload e)) of
        Inl _ \<Rightarrow> Inl (validation ''payload'' ''canonical'' ''must contain canonicalizable JSON values'')
      | Inr canonical \<Rightarrow>
          (let sum = Sum256 (evidenceHashDomain @ [CHR 0x00] @ canonical)
           in rbind (ParseSHA256Digest (hex_encode sum)) (\<lambda>digest. Inr (digest, sum))))"

section \<open>Appending\<close>

definition validateEventParams ::
  "(string \<Rightarrow> bool) \<Rightarrow> EventParams \<Rightarrow> Event option \<Rightarrow> signer option \<Rightarrow> unit result" where
  "validateEventParams ulid p previous sig =
     (let es =
        add_if (\<not> is_ok (ParseID ulid (ep_EventID p) EvidenceIDPrefix))
          (NewValidationError ''eventId'' ''format'' ''must be an evidence-event identifier'')
        @ add_if (\<not> is_ok (ParseID ulid (ep_TransactionID p) TransactionIDPrefix))
          (NewValidationError ''transactionId'' ''format'' ''must be a transaction identifier'')
        @ add_if (\<not> validEventType (ep_EventType p))
          (NewValidationError ''eventType'' ''supported'' ''must use the documented event vocabulary'')
        @ add_if (\<not> validActorType (ep_ActorType p))
          (NewValidationError ''actorType'' ''supported'' ''must be system, seller, buyer, or approver'')
        @ add_if (ep_Payload p = None)
          (NewValidationError ''payload'' ''required'' ''is required'')
        @ add_if (ep_CreatedAt p = 0)
          (NewValidationError ''createdAt'' ''required'' ''is required'')
        @ add_if (sig = None)
          (NewValidationError ''signer'' ''required'' ''is required'')
        @ (case previous of
             None \<Rightarrow>
               add_if (ep_Sequence p \<noteq> 1)
                 (NewValidationError ''sequence'' ''start'' ''first event sequence must be one'')
           | Some prev \<Rightarrow>
               add_if (ep_TransactionID p \<noteq> ev_TransactionID prev)
                 (NewValidationError ''transactionId'' ''chain'' ''must match the previous event'')
               @ add_if (ep_Sequence p \<noteq> ev_Sequence prev + 1)
                 (NewValidationError ''sequence'' ''contiguous''
                    ''must increment the previous sequence by one'')
               @ add_if (Timestamp_Before (ep_CreatedAt p) (ev_CreatedAt prev))
                 (NewValidationError ''createdAt'' ''chronology''
                    ''cannot occur before the previous event''))
      in reject_if (es \<noteq> []) (ValidationErrs es) (Inr ()))"

text \<open>
  \<open>clone\<close> is the copy \<open>clonePayload\<close> makes by marshalling and unmarshalling JSON.
\<close>

definition newUnsignedEvent :: "(payload \<Rightarrow> payload) \<Rightarrow> EventParams \<Rightarrow> Event option \<Rightarrow> Event" where
  "newUnsignedEvent clone p previous =
     \<lparr>ev_EventID = ep_EventID p, ev_TransactionID = ep_TransactionID p,
      ev_Sequence = ep_Sequence p, ev_EventType = ep_EventType p,
      ev_ActorType = ep_ActorType p, ev_ActorID = TrimSpace (ep_ActorID p),
      ev_Payload = map_option clone (ep_Payload p),
      ev_PreviousEventHash = map_option ev_EventHash previous,
      ev_EventHash = [], ev_KMSKeyID = [], ev_KMSSignature = [], ev_CreatedAt = ep_CreatedAt p\<rparr>"

definition Append ::
  "(string \<Rightarrow> bool) \<Rightarrow> (string \<Rightarrow> string result) \<Rightarrow> (payload \<Rightarrow> payload) \<Rightarrow>
   EventParams \<Rightarrow> Event option \<Rightarrow> signer option \<Rightarrow> Event result" where
  "Append ulid jcs clone p previous sig =
     rbind (validateEventParams ulid p previous sig) (\<lambda>_.
     (let event = newUnsignedEvent clone p previous
      in rbind (calculateHash jcs event) (\<lambda>(digest, digestBytes).
         rbind (case sig of None \<Rightarrow> Inl (Panic ''nil signer'') | Some s \<Rightarrow> s_Sign s digestBytes)
           (\<lambda>signature.
         reject_if (sg_KeyID signature = [] \<or> sg_Value signature = [])
           (validation ''signature'' ''required'' ''signer must return a key identifier and signature'')
         (Inr (event\<lparr>ev_EventHash := digest, ev_KMSKeyID := sg_KeyID signature,
                     ev_KMSSignature := sg_Value signature\<rparr>))))))"

section \<open>Verifying\<close>

definition validateStoredEvent :: "Event \<Rightarrow> nat \<Rightarrow> Event list \<Rightarrow> unit result" where
  "validateStoredEvent e index events =
     reject_if (ev_Sequence e \<noteq> of_nat (index + 1) \<or> TrimSpace (ev_KMSKeyID e) = []
                \<or> TrimSpace (ev_KMSSignature e) = []) ErrChainInvalid
     (if index = 0
      then reject_if (ev_PreviousEventHash e \<noteq> None) ErrChainInvalid (Inr ())
      else
        (let previous = events ! (index - 1)
         in reject_if (ev_TransactionID e \<noteq> ev_TransactionID previous
              \<or> ev_PreviousEventHash e = None
              \<or> ev_PreviousEventHash e \<noteq> Some (ev_EventHash previous)
              \<or> Timestamp_Before (ev_CreatedAt e) (ev_CreatedAt previous)) ErrChainInvalid (Inr ())))"

text \<open>
  One iteration of the loop. The errors the source wraps with \<open>%w\<close> are the sentinel itself under
  \<open>errors.Is\<close>; an error of the verifier is returned as it is.
\<close>

definition verify_event ::
  "(string \<Rightarrow> string result) \<Rightarrow> signer \<Rightarrow> Event list \<Rightarrow> nat \<Rightarrow> unit result" where
  "verify_event jcs verifier events index =
     (let e = events ! index
      in if \<not> is_ok (validateStoredEvent e index events) then Inl ErrChainInvalid
         else case calculateHash jcs e of
                Inl _ \<Rightarrow> Inl ErrChainInvalid
              | Inr (digest, digestBytes) \<Rightarrow>
                  reject_if (digest \<noteq> ev_EventHash e) ErrChainInvalid
                  (rbind (s_Verify verifier (ev_KMSKeyID e) digestBytes (ev_KMSSignature e)) (\<lambda>valid.
                   reject_if (\<not> valid) ErrChainInvalid (Inr ()))))"

fun for_each :: "('a \<Rightarrow> unit result) \<Rightarrow> 'a list \<Rightarrow> unit result" where
  "for_each f [] = Inr ()"
| "for_each f (x # xs) = rbind (f x) (\<lambda>_. for_each f xs)"

definition VerifyChain ::
  "(string \<Rightarrow> string result) \<Rightarrow> Event list \<Rightarrow> signer option \<Rightarrow> unit result" where
  "VerifyChain jcs events verifier =
     (case verifier of
        None \<Rightarrow> Inl ErrChainInvalid
      | Some v \<Rightarrow>
          reject_if (events = []) ErrChainInvalid
            (for_each (verify_event jcs v events) [0..<length events]))"

lemma for_each_eq_Inr: "for_each f xs = Inr u \<longleftrightarrow> (\<forall>x \<in> set xs. is_ok (f x))"
proof (induction xs)
  case (Cons x xs)
  then show ?case
    by (cases "f x") auto
qed simp

text \<open>When one iteration succeeds.\<close>

lemma calculateHash_eq_Inr:
  "calculateHash jcs e = Inr (d, b) \<longleftrightarrow>
     (\<exists>c. jcs (json_encode (hashPayload e)) = Inr c
        \<and> b = Sum256 (evidenceHashDomain @ [CHR 0x00] @ c) \<and> d = hex_encode b)"
  using hashBytes_digest
  by (auto simp: calculateHash_def result_simps ParseSHA256Digest_def Let_def hashBytes_def
      split: sum.splits)

definition stored_ok :: "Event \<Rightarrow> nat \<Rightarrow> Event option \<Rightarrow> bool" where
  "stored_ok e index previous \<longleftrightarrow>
     ev_Sequence e = of_nat (index + 1) \<and> TrimSpace (ev_KMSKeyID e) \<noteq> []
     \<and> TrimSpace (ev_KMSSignature e) \<noteq> []
     \<and> (case previous of
          None \<Rightarrow> ev_PreviousEventHash e = None
        | Some p \<Rightarrow> ev_TransactionID e = ev_TransactionID p
            \<and> ev_PreviousEventHash e = Some (ev_EventHash p) \<and> ev_CreatedAt p \<le> ev_CreatedAt e)"

lemma validateStoredEvent_is_ok:
  "is_ok (validateStoredEvent e index events) \<longleftrightarrow>
     stored_ok e index (if index = 0 then None else Some (events ! (index - 1)))"
  by (auto simp: validateStoredEvent_def stored_ok_def reject_if_def Let_def Timestamp_Before_def)

definition sealed :: "(string \<Rightarrow> string result) \<Rightarrow> signer \<Rightarrow> Event \<Rightarrow> bool" where
  "sealed jcs v e \<longleftrightarrow>
     (\<exists>b. calculateHash jcs e = Inr (ev_EventHash e, b)
        \<and> s_Verify v (ev_KMSKeyID e) b (ev_KMSSignature e) = Inr True)"

lemma seal_check:
  "is_ok (case calculateHash jcs e of
       Inl _ \<Rightarrow> Inl ErrChainInvalid
     | Inr (digest, digestBytes) \<Rightarrow>
         reject_if (digest \<noteq> ev_EventHash e) ErrChainInvalid
         (rbind (s_Verify v (ev_KMSKeyID e) digestBytes (ev_KMSSignature e)) (\<lambda>valid.
          reject_if (\<not> valid) ErrChainInvalid (Inr ())))) \<longleftrightarrow> sealed jcs v e"
proof (cases "calculateHash jcs e")
  case (Inr db)
  obtain d b where db: "db = (d, b)" by (cases db)
  show ?thesis
    by (cases "s_Verify v (ev_KMSKeyID e) b (ev_KMSSignature e)")
      (auto simp: Inr db sealed_def reject_if_def)
qed (simp add: sealed_def)

lemma verify_event_is_ok:
  "is_ok (verify_event jcs v events index) \<longleftrightarrow>
     stored_ok (events ! index) index (if index = 0 then None else Some (events ! (index - 1)))
     \<and> sealed jcs v (events ! index)"
  unfolding verify_event_def Let_def
  by (simp only: validateStoredEvent_is_ok [symmetric] seal_check [symmetric] is_ok_simps
      split: if_splits) blast

text \<open>The chain from its first event on, as a recursive predicate.\<close>

definition previous_of :: "Event list \<Rightarrow> nat \<Rightarrow> Event option" where
  "previous_of events index = (if index = 0 then None else Some (events ! (index - 1)))"

lemma VerifyChain_eq_Inr:
  "VerifyChain jcs events verifier = Inr u \<longleftrightarrow>
     (\<exists>v. verifier = Some v \<and> events \<noteq> []
        \<and> (\<forall>i < length events. stored_ok (events ! i) i (previous_of events i)
             \<and> sealed jcs v (events ! i)))"
  by (auto simp: VerifyChain_def result_simps for_each_eq_Inr verify_event_is_ok previous_of_def
      split: option.splits)

lemma VerifyChain_snoc:
  assumes "events = [] \<or> VerifyChain jcs events (Some v) = Inr ()"
    and "stored_ok e (length events) (if events = [] then None else Some (last events))"
    and "sealed jcs v e"
  shows "VerifyChain jcs (events @ [e]) (Some v) = Inr ()"
proof -
  have prev: "previous_of (events @ [e]) i = previous_of events i" if "i \<le> length events" for i
    using that by (auto simp: previous_of_def nth_append)
  have last: "previous_of events (length events) = (if events = [] then None else Some (last events))"
    by (auto simp: previous_of_def last_conv_nth)
  have "stored_ok ((events @ [e]) ! i) i (previous_of (events @ [e]) i)
      \<and> sealed jcs v ((events @ [e]) ! i)" if "i < length (events @ [e])" for i
  proof (cases "i = length events")
    case True
    with assms(2,3) last prev [of i] show ?thesis by simp
  next
    case False
    with that have i: "i < length events" by simp
    with assms(1) show ?thesis
      using prev [of i] by (auto simp: VerifyChain_eq_Inr nth_append)
  qed
  then show ?thesis
    by (simp add: VerifyChain_eq_Inr)
qed

section \<open>Signers\<close>

text \<open>
  What the chain relies on: the signer verifies its own signatures, and never signs with a key
  identifier or a value that is present but blank.
\<close>

locale evidence_signer =
  fixes s :: signer
  assumes verify_sign: "s_Sign s d = Inr g \<Longrightarrow> s_Verify s (sg_KeyID g) d (sg_Value g) = Inr True"
    and sign_visible: "s_Sign s d = Inr g \<Longrightarrow>
      (sg_KeyID g \<noteq> [] \<longrightarrow> TrimSpace (sg_KeyID g) \<noteq> []) \<and> (sg_Value g \<noteq> [] \<longrightarrow> TrimSpace (sg_Value g) \<noteq> [])"
begin

lemma Append_sealed:
  assumes "Append ulid jcs clone p previous (Some s) = Inr e"
  shows "sealed jcs s e" "TrimSpace (ev_KMSKeyID e) \<noteq> []" "TrimSpace (ev_KMSSignature e) \<noteq> []"
proof -
  let ?u = "newUnsignedEvent clone p previous"
  obtain d b g where h: "calculateHash jcs ?u = Inr (d, b)" and g: "s_Sign s b = Inr g"
      "sg_KeyID g \<noteq> []" "sg_Value g \<noteq> []"
    and e: "e = ?u\<lparr>ev_EventHash := d, ev_KMSKeyID := sg_KeyID g, ev_KMSSignature := sg_Value g\<rparr>"
    using assms by (auto simp: Append_def result_simps Let_def)
  have "hashPayload e = hashPayload ?u"
    by (simp add: e hashPayload_def)
  then have "calculateHash jcs e = Inr (d, b)"
    using h by (simp add: calculateHash_def)
  with verify_sign [OF g(1)] show "sealed jcs s e"
    by (simp add: sealed_def e)
  show "TrimSpace (ev_KMSKeyID e) \<noteq> []" "TrimSpace (ev_KMSSignature e) \<noteq> []"
    using sign_visible [OF g(1)] g(2,3) by (simp_all add: e)
qed

text \<open>Appending to a valid chain, or starting one, gives a valid chain.\<close>

lemma Append_VerifyChain:
  assumes "events = [] \<or> VerifyChain jcs events (Some s) = Inr ()"
    and "Append ulid jcs clone p (if events = [] then None else Some (last events)) (Some s) = Inr e"
  shows "VerifyChain jcs (events @ [e]) (Some s) = Inr ()"
proof (rule VerifyChain_snoc [OF assms(1)])
  let ?prev = "if events = [] then None else Some (last events)"
  show "sealed jcs s e"
    using Append_sealed [OF assms(2)] by simp
  have p: "is_ok (validateEventParams ulid p ?prev (Some s))"
    and f: "ev_TransactionID e = ep_TransactionID p" "ev_Sequence e = ep_Sequence p"
      "ev_CreatedAt e = ep_CreatedAt p" "ev_PreviousEventHash e = map_option ev_EventHash ?prev"
    using assms(2) by (auto simp: Append_def result_simps Let_def newUnsignedEvent_def)
  have seq: "ev_Sequence (last events) = of_nat (length events)" if ne: "events \<noteq> []"
  proof -
    obtain k where k: "length events = Suc k"
      using ne by (cases events) auto
    then have "ev_Sequence (events ! k) = of_nat (k + 1)"
      using assms(1) ne by (auto simp: VerifyChain_eq_Inr stored_ok_def)
    with ne k show ?thesis
      by (simp add: last_conv_nth)
  qed
  show "stored_ok e (length events) ?prev"
    using p f seq Append_sealed(2,3) [OF assms(2)]
    by (cases "events = []")
      (auto simp: stored_ok_def validateEventParams_def Let_def reject_if_def Timestamp_Before_def
        is_ok_def split: if_splits)
qed

end

section \<open>The local signer\<close>

record LocalHMACSigner =
  lh_keyID :: string
  lh_secret :: string

definition NewLocalHMACSigner :: "string \<Rightarrow> string \<Rightarrow> LocalHMACSigner result" where
  "NewLocalHMACSigner keyID secret =
     (let trimmedKeyID = TrimSpace keyID
      in reject_if (trimmedKeyID = []) (validation ''evidenceKeyId'' ''required'' ''is required'')
        (reject_if (length secret < 32)
           (validation ''evidenceSigningSecret'' ''length'' ''must contain at least 32 bytes'')
        (Inr \<lparr>lh_keyID = trimmedKeyID, lh_secret = secret\<rparr>)))"

definition LocalHMAC_Sign :: "LocalHMACSigner \<Rightarrow> string \<Rightarrow> Signature result" where
  "LocalHMAC_Sign s digest =
     Inr \<lparr>sg_KeyID = lh_keyID s, sg_Value = base64_std (hmac_sha256 (lh_secret s) digest)\<rparr>"

definition LocalHMAC_Verify :: "LocalHMACSigner \<Rightarrow> string \<Rightarrow> string \<Rightarrow> string \<Rightarrow> bool result" where
  "LocalHMAC_Verify s keyID digest signature =
     (if keyID \<noteq> lh_keyID s then Inr False
      else rbind (LocalHMAC_Sign s digest) (\<lambda>expected. Inr (sg_Value expected = signature)))"

definition local_signer :: "LocalHMACSigner \<Rightarrow> signer" where
  "local_signer s = \<lparr>s_Sign = LocalHMAC_Sign s, s_Verify = LocalHMAC_Verify s\<rparr>"

lemma b64_digit_graph: "ascii_graph (b64_digit n)"
proof -
  let ?t = "''ABCDEFGHIJKLMNOPQRSTUVWXYZabcdefghijklmnopqrstuvwxyz0123456789+/''"
  have "n mod 64 < length ?t"
    by simp
  then have "?t ! (n mod 64) \<in> set ?t"
    by (rule nth_mem)
  moreover have "list_all ascii_graph ?t"
    by code_simp
  ultimately show ?thesis
    unfolding b64_digit_def by (auto simp only: list_all_iff)
qed

lemma base64_graph: "list_all ascii_graph (base64_std s)"
proof -
  have "ascii_graph (CHR ''='')"
    by (simp add: ascii_graph_def)
  then show ?thesis
    by (induction s rule: base64_std.induct) (simp_all add: b64_digit_graph Let_def)
qed

lemma base64_visible: "s \<noteq> [] \<Longrightarrow> TrimSpace (base64_std s) \<noteq> []"
proof -
  assume "s \<noteq> []"
  then have "base64_std s \<noteq> []"
    by (cases s rule: base64_std.cases) (simp_all add: Let_def)
  moreover have "plain_ends (base64_std s)"
    using base64_graph [of s] by (auto simp: plain_ends_def list_all_iff)
  ultimately show ?thesis
    by (simp add: TrimSpace_plain)
qed

interpretation local_hmac: evidence_signer "local_signer \<lparr>lh_keyID = TrimSpace keyID, lh_secret = secret\<rparr>"
  for keyID secret
proof
  fix d g
  assume g: "s_Sign (local_signer \<lparr>lh_keyID = TrimSpace keyID, lh_secret = secret\<rparr>) d = Inr g"
  then show "s_Verify (local_signer \<lparr>lh_keyID = TrimSpace keyID, lh_secret = secret\<rparr>)
      (sg_KeyID g) d (sg_Value g) = Inr True"
    by (auto simp: local_signer_def LocalHMAC_Sign_def LocalHMAC_Verify_def)
  have "hmac_sha256 secret d \<noteq> []"
    by (simp add: hmac_sha256_def Let_def flip: length_greater_0_conv)
  then show "(sg_KeyID g \<noteq> [] \<longrightarrow> TrimSpace (sg_KeyID g) \<noteq> [])
      \<and> (sg_Value g \<noteq> [] \<longrightarrow> TrimSpace (sg_Value g) \<noteq> [])"
    using g by (auto simp: local_signer_def LocalHMAC_Sign_def base64_visible)
qed

section \<open>The repository\<close>

record EvidenceRepository =
  er_events :: "ID \<Rightarrow> Event list"

definition NewEvidenceRepository :: EvidenceRepository where
  "NewEvidenceRepository = \<lparr>er_events = (\<lambda>_. [])\<rparr>"

definition EvidenceRepo_Append :: "EvidenceRepository \<Rightarrow> Event \<Rightarrow> EvidenceRepository result" where
  "EvidenceRepo_Append r e =
     (let chain = er_events r (ev_TransactionID e)
      in reject_if (ev_Sequence e \<noteq> of_nat (length chain + 1)) ErrConditionFailed
        (reject_if (if chain = [] then ev_PreviousEventHash e \<noteq> None
                    else ev_PreviousEventHash e = None
                         \<or> ev_PreviousEventHash e \<noteq> Some (ev_EventHash (last chain)))
           ErrConditionFailed
        (Inr (r\<lparr>er_events := (er_events r)(ev_TransactionID e := chain @ [e])\<rparr>))))"

definition ListByTransaction :: "EvidenceRepository \<Rightarrow> ID \<Rightarrow> Event list result" where
  "ListByTransaction r k = Inr (er_events r k)"

section \<open>The recorder\<close>

text \<open>
  What the recorder is built with; \<open>eventID\<close> and \<open>now\<close> are the results of the identifier generator
  and the clock during the call. \<open>appendToChain\<close> takes the events its caller has read, which other
  writers may have extended since.
\<close>

record recorder =
  rd_ulid :: "string \<Rightarrow> bool"
  rd_jcs :: "string \<Rightarrow> string result"
  rd_clone :: "payload \<Rightarrow> payload"
  rd_signer :: "signer option"

definition recorder_appendToChain ::
  "recorder \<Rightarrow> EvidenceRepository \<Rightarrow> ID result \<Rightarrow> instant \<Rightarrow> ID \<Rightarrow> EventType \<Rightarrow> payload \<Rightarrow>
   Event list \<Rightarrow> EvidenceRepository result" where
  "recorder_appendToChain rd r eventID now transactionID eventType pay events =
     (let previous = (if events = [] then None else Some (last events))
      in rbind eventID (\<lambda>i.
         rbind (Append (rd_ulid rd) (rd_jcs rd) (rd_clone rd)
           \<lparr>ep_EventID = i, ep_TransactionID = transactionID,
            ep_Sequence = of_nat (length events + 1), ep_EventType = eventType,
            ep_ActorType = ActorSystem, ep_ActorID = [], ep_Payload = Some pay,
            ep_CreatedAt = now\<rparr> previous (rd_signer rd)) (\<lambda>event.
         EvidenceRepo_Append r event)))"

definition recorder_append ::
  "recorder \<Rightarrow> EvidenceRepository \<Rightarrow> ID result \<Rightarrow> instant \<Rightarrow> ID \<Rightarrow> EventType \<Rightarrow> payload \<Rightarrow>
   EvidenceRepository result" where
  "recorder_append rd r eventID now transactionID eventType pay =
     rbind (ListByTransaction r transactionID) (\<lambda>events.
       recorder_appendToChain rd r eventID now transactionID eventType pay events)"

text \<open>The first recorded event of the type decides: the same facts again are a success.\<close>

definition appendOnce ::
  "recorder \<Rightarrow> EvidenceRepository \<Rightarrow> ID result \<Rightarrow> instant \<Rightarrow> ID \<Rightarrow> EventType \<Rightarrow> payload \<Rightarrow>
   EvidenceRepository result" where
  "appendOnce rd r eventID now transactionID eventType pay =
     rbind (ListByTransaction r transactionID) (\<lambda>events.
       case find (\<lambda>e. ev_EventType e = eventType) events of
         Some e \<Rightarrow> if ev_Payload e = Some pay then Inr r else Inl ErrEvidenceConflict
       | None \<Rightarrow> recorder_appendToChain rd r eventID now transactionID eventType pay events)"

record PaymentChallengeFacts =
  pc_Amount :: string
  pc_Asset :: string
  pc_Network :: string

definition RecordPaymentChallenge ::
  "recorder \<Rightarrow> EvidenceRepository \<Rightarrow> ID result \<Rightarrow> instant \<Rightarrow> ID \<Rightarrow> PaymentChallengeFacts \<Rightarrow>
   EvidenceRepository result" where
  "RecordPaymentChallenge rd r eventID now transactionID facts =
     appendOnce rd r eventID now transactionID EventPaymentChallenged
       [(''amount'', JString (pc_Amount facts)), (''asset'', JString (pc_Asset facts)),
        (''network'', JString (pc_Network facts))]"

record PaymentVerificationFacts =
  pv_PaymentIdentifier :: string
  pv_PaymentProofHash :: SHA256Digest

definition RecordPaymentVerification ::
  "recorder \<Rightarrow> EvidenceRepository \<Rightarrow> ID result \<Rightarrow> instant \<Rightarrow> ID \<Rightarrow> PaymentVerificationFacts \<Rightarrow>
   EvidenceRepository result" where
  "RecordPaymentVerification rd r eventID now transactionID facts =
     appendOnce rd r eventID now transactionID EventPaymentVerified
       [(''paymentIdentifier'', JString (pv_PaymentIdentifier facts)),
        (''paymentProofHash'', JString (pv_PaymentProofHash facts))]"

record ProxyForwardingFacts =
  pf_SellerID :: string
  pf_RouteID :: string
  pf_Method :: string
  pf_Path :: string

definition RecordProxyForwarding ::
  "recorder \<Rightarrow> EvidenceRepository \<Rightarrow> ID result \<Rightarrow> instant \<Rightarrow> ID \<Rightarrow> ProxyForwardingFacts \<Rightarrow>
   EvidenceRepository result" where
  "RecordProxyForwarding rd r eventID now transactionID facts =
     recorder_append rd r eventID now transactionID EventProxyForwarded
       [(''method'', JString (pf_Method facts)), (''path'', JString (pf_Path facts)),
        (''routeId'', JString (pf_RouteID facts)), (''sellerId'', JString (pf_SellerID facts))]"

record DeliveryFacts =
  df_Succeeded :: bool
  df_StatusCode :: int
  df_ResponseHash :: SHA256Digest
  df_ContentType :: string
  df_ContentLength :: int
  df_FailureCode :: string

definition RecordDelivery ::
  "recorder \<Rightarrow> EvidenceRepository \<Rightarrow> ID result \<Rightarrow> instant \<Rightarrow> ID \<Rightarrow> DeliveryFacts \<Rightarrow>
   EvidenceRepository result" where
  "RecordDelivery rd r eventID now transactionID facts =
     recorder_append rd r eventID now transactionID
       (if df_Succeeded facts then EventDeliverySucceeded else EventDeliveryFailed)
       ([(''contentLength'', JInt (df_ContentLength facts)),
         (''contentType'', JString (df_ContentType facts))]
        @ omit_empty ''failureCode'' (df_FailureCode facts) @
        [(''responseHash'', JString (df_ResponseHash facts)),
         (''statusCode'', JInt (df_StatusCode facts))])"

text \<open>A recorder whose signer meets the contract.\<close>

definition recorder_ok :: "recorder \<Rightarrow> bool" where
  "recorder_ok rd \<longleftrightarrow> (\<exists>s. rd_signer rd = Some s \<and> evidence_signer s)"

definition chain_valid :: "recorder \<Rightarrow> Event list \<Rightarrow> bool" where
  "chain_valid rd events \<longleftrightarrow> events = [] \<or> VerifyChain (rd_jcs rd) events (rd_signer rd) = Inr ()"

lemma prefix_same_length: "prefix xs ys \<Longrightarrow> length xs = length ys \<Longrightarrow> xs = ys"
  by (auto simp: prefix_def)

lemma appendToChain_ok:
  assumes "recorder_appendToChain rd r eventID now k et pay events = Inr r'"
    and "prefix events (er_events r k)" "length (er_events r k) < 2 ^ 64 - 1"
  obtains e where "events = er_events r k"
    "er_events r' = (er_events r)(k := er_events r k @ [e])"
    "ev_EventType e = et" "ev_TransactionID e = k" "ev_Payload e = Some (rd_clone rd pay)"
    "Append (rd_ulid rd) (rd_jcs rd) (rd_clone rd)
       \<lparr>ep_EventID = ev_EventID e, ep_TransactionID = k,
        ep_Sequence = of_nat (length events + 1), ep_EventType = et,
        ep_ActorType = ActorSystem, ep_ActorID = [], ep_Payload = Some pay, ep_CreatedAt = now\<rparr>
       (if events = [] then None else Some (last events)) (rd_signer rd) = Inr e"
proof -
  obtain i e where a: "Append (rd_ulid rd) (rd_jcs rd) (rd_clone rd)
       \<lparr>ep_EventID = i, ep_TransactionID = k,
        ep_Sequence = of_nat (length events + 1), ep_EventType = et,
        ep_ActorType = ActorSystem, ep_ActorID = [], ep_Payload = Some pay, ep_CreatedAt = now\<rparr>
       (if events = [] then None else Some (last events)) (rd_signer rd) = Inr e"
      and r: "EvidenceRepo_Append r e = Inr r'"
    using assms(1) unfolding recorder_appendToChain_def Let_def rbind_eq_Inr by blast
  have f: "ev_EventID e = i" "ev_TransactionID e = k" "ev_EventType e = et"
      "ev_Payload e = Some (rd_clone rd pay)" "ev_Sequence e = of_nat (Suc (length events))"
    using a by (auto simp: Append_def result_simps Let_def newUnsignedEvent_def)
  have "(of_nat (Suc (length events)) :: u64) = of_nat (Suc (length (er_events r k)))"
    using r f by (auto simp: EvidenceRepo_Append_def Let_def result_simps)
  moreover have "length events \<le> length (er_events r k)"
    using assms(2) by (rule prefix_length_le)
  ultimately have "length events = length (er_events r k)"
    using assms(3) by (intro version_injective) auto
  then have "events = er_events r k"
    using assms(2) by (rule prefix_same_length [rotated])
  moreover have "er_events r' = (er_events r)(k := er_events r k @ [e])"
    using r f by (auto simp: EvidenceRepo_Append_def Let_def result_simps)
  ultimately show thesis
    using that a f by blast
qed

lemma appendToChain_valid:
  assumes "recorder_ok rd" "chain_valid rd (er_events r k)"
    and "recorder_appendToChain rd r eventID now k et pay events = Inr r'"
    and "prefix events (er_events r k)" "length (er_events r k) < 2 ^ 64 - 1"
  shows "chain_valid rd (er_events r' k)"
proof -
  obtain s where s: "rd_signer rd = Some s" "evidence_signer s"
    using assms(1) by (auto simp: recorder_ok_def)
  obtain e where e: "events = er_events r k" "er_events r' = (er_events r)(k := er_events r k @ [e])"
    and a: "Append (rd_ulid rd) (rd_jcs rd) (rd_clone rd)
       \<lparr>ep_EventID = ev_EventID e, ep_TransactionID = k,
        ep_Sequence = of_nat (length events + 1), ep_EventType = et,
        ep_ActorType = ActorSystem, ep_ActorID = [], ep_Payload = Some pay, ep_CreatedAt = now\<rparr>
       (if events = [] then None else Some (last events)) (rd_signer rd) = Inr e"
    using appendToChain_ok [OF assms(3-5)] by metis
  have "VerifyChain (rd_jcs rd) (events @ [e]) (Some s) = Inr ()"
    using assms(2) e(1) a
    by (intro evidence_signer.Append_VerifyChain [OF s(2)]) (auto simp: chain_valid_def s(1))
  with e s(1) show ?thesis
    by (simp add: chain_valid_def)
qed

section \<open>Hashes pin the history\<close>

lemma hex_digit_inj: "hex_digit m = hex_digit n \<Longrightarrow> m mod 16 = n mod 16"
proof -
  let ?t = "''0123456789abcdef''"
  assume "hex_digit m = hex_digit n"
  moreover have "distinct ?t"
    by code_simp
  moreover have "m mod 16 < length ?t" "n mod 16 < length ?t"
    by simp_all
  ultimately show ?thesis
    unfolding hex_digit_def using nth_eq_iff_index_eq [of ?t "m mod 16" "n mod 16"] by blast
qed

lemma hex_byte_inj:
  assumes "hex_digit (of_char c div 16) = hex_digit (of_char d div 16)"
    and "hex_digit (of_char c mod 16) = hex_digit (of_char d mod 16)"
  shows "c = d"
proof -
  have less: "(of_char c :: nat) div 16 < 16" "(of_char d :: nat) div 16 < 16"
    using nat_of_char_less_256 [of c] nat_of_char_less_256 [of d]
    by (auto intro!: less_mult_imp_div_less simp del: nat_of_char_less_256)
  have "(of_char c :: nat) div 16 = of_char d div 16"
    using hex_digit_inj [OF assms(1)] less by simp
  moreover have "(of_char c :: nat) mod 16 = of_char d mod 16"
    using hex_digit_inj [OF assms(2)] by simp
  ultimately have "(of_char c :: nat) = of_char d"
    by (metis div_mult_mod_eq)
  then show ?thesis
    by simp
qed

lemma hex_encode_inj: "hex_encode xs = hex_encode ys \<Longrightarrow> xs = ys"
proof (induction xs arbitrary: ys)
  case Nil
  then show ?case
    by (cases ys) (simp_all add: hex_encode_def)
next
  case (Cons x xs)
  then show ?case
    by (cases ys) (auto simp: hex_encode_def intro: hex_byte_inj)
qed

text \<open>The byte strings whose SHA-256 sums are the event hashes of a chain.\<close>

definition hash_inputs :: "(string \<Rightarrow> string result) \<Rightarrow> Event list \<Rightarrow> string set" where
  "hash_inputs jcs events =
     {evidenceHashDomain @ [CHR 0x00] @ c | e c.
        e \<in> set events \<and> jcs (json_encode (hashPayload e)) = Inr c}"

lemma sealed_hash:
  assumes "sealed jcs v e"
  obtains c where "jcs (json_encode (hashPayload e)) = Inr c"
    "ev_EventHash e = hex_encode (Sum256 (evidenceHashDomain @ [CHR 0x00] @ c))"
  using assms by (auto simp: sealed_def calculateHash_eq_Inr)

lemma same_hash_same_canonical:
  assumes "sealed jcs v e" "sealed jcs v' e'" "ev_EventHash e = ev_EventHash e'"
    and "e \<in> set es" "e' \<in> set es'" "inj_on Sum256 (hash_inputs jcs es \<union> hash_inputs jcs es')"
  shows "jcs (json_encode (hashPayload e)) = jcs (json_encode (hashPayload e'))"
proof -
  obtain c where c: "jcs (json_encode (hashPayload e)) = Inr c"
      "ev_EventHash e = hex_encode (Sum256 (evidenceHashDomain @ [CHR 0x00] @ c))"
    using sealed_hash [OF assms(1)] .
  obtain c' where c': "jcs (json_encode (hashPayload e')) = Inr c'"
      "ev_EventHash e' = hex_encode (Sum256 (evidenceHashDomain @ [CHR 0x00] @ c'))"
    using sealed_hash [OF assms(2)] .
  have "Sum256 (evidenceHashDomain @ [CHR 0x00] @ c) = Sum256 (evidenceHashDomain @ [CHR 0x00] @ c')"
    using hex_encode_inj assms(3) c(2) c'(2) by metis
  moreover have "evidenceHashDomain @ [CHR 0x00] @ c \<in> hash_inputs jcs es \<union> hash_inputs jcs es'"
      "evidenceHashDomain @ [CHR 0x00] @ c' \<in> hash_inputs jcs es \<union> hash_inputs jcs es'"
    using assms(4,5) c(1) c'(1) by (auto simp: hash_inputs_def)
  ultimately have "evidenceHashDomain @ [CHR 0x00] @ c = evidenceHashDomain @ [CHR 0x00] @ c'"
    by (rule inj_onD [OF assms(6)])
  then have "c = c'"
    by simp
  with c c' show ?thesis by simp
qed

section \<open>Properties\<close>

text \<open>
  C15: the recorder only ever extends a valid chain by one valid event. It works on the events it has
  read, a prefix of what is stored by now. If another writer has appended in between, recording
  fails and nothing changes; if it succeeds, the chain of this transaction has exactly one more
  event, of the requested type, passes the full verification, and no other chain is touched.
\<close>

theorem recorder_extends_chain:
  assumes "recorder_ok rd" "chain_valid rd (er_events r k)" "prefix events (er_events r k)"
    and "length (er_events r k) < 2 ^ 64 - 1"
    and "recorder_appendToChain rd r eventID now k et pay events = Inr r'"
  shows "events = er_events r k
    \<and> VerifyChain (rd_jcs rd) (er_events r' k) (rd_signer rd) = Inr ()
    \<and> (\<exists>e. er_events r' = (er_events r)(k := er_events r k @ [e]) \<and> ev_EventType e = et
         \<and> ev_Payload e = Some (rd_clone rd pay))"
proof -
  obtain e where e: "events = er_events r k" "er_events r' = (er_events r)(k := er_events r k @ [e])"
      "ev_EventType e = et" "ev_Payload e = Some (rd_clone rd pay)"
    using appendToChain_ok [OF assms(5,3,4)] by metis
  have "chain_valid rd (er_events r' k)"
    using appendToChain_valid [OF assms(1,2,5,3,4)] .
  then have "VerifyChain (rd_jcs rd) (er_events r' k) (rd_signer rd) = Inr ()"
    using e(2) by (simp add: chain_valid_def)
  with e show ?thesis
    by blast
qed

definition sample_recorder :: recorder where
  "sample_recorder =
     \<lparr>rd_ulid = sample_ulid, rd_jcs = Inr, rd_clone = (\<lambda>p. p),
      rd_signer = Some (local_signer \<lparr>lh_keyID = TrimSpace ''local-key'',
        lh_secret = replicate 32 (CHR ''k'')\<rparr>)\<rparr>"

lemma sample_recorder_ok: "recorder_ok sample_recorder"
  by (auto simp: recorder_ok_def sample_recorder_def intro: local_hmac.evidence_signer_axioms)

definition sample_event_params :: EventParams where
  "sample_event_params =
     \<lparr>ep_EventID = ''evt_01ARZ3NDEKTSV4RRFFQ69G5FAV'',
      ep_TransactionID = ''txn_01ARZ3NDEKTSV4RRFFQ69G5FAV'', ep_Sequence = 1,
      ep_EventType = EventPaymentChallenged, ep_ActorType = ActorSystem, ep_ActorID = [],
      ep_Payload = Some [], ep_CreatedAt = 1000\<rparr>"

lemma local_Append_ok:
  assumes "\<And>t. \<exists>c. jcs t = Inr c"
    and "is_ok (validateEventParams ulid p previous (Some s))" "TrimSpace keyID \<noteq> []"
    and "s = local_signer \<lparr>lh_keyID = TrimSpace keyID, lh_secret = secret\<rparr>"
  shows "\<exists>e. Append ulid jcs clone p previous (Some s) = Inr e"
proof -
  have "base64_std (hmac_sha256 secret b) \<noteq> []" for b
  proof -
    have "hmac_sha256 secret b \<noteq> []"
      by (simp add: hmac_sha256_def Let_def flip: length_greater_0_conv)
    then show ?thesis
      using base64_visible by fastforce
  qed
  moreover obtain c where "jcs (json_encode (hashPayload (newUnsignedEvent clone p previous))) = Inr c"
    using assms(1) by blast
  ultimately show ?thesis
    using assms(2-4) hashBytes_digest
    by (cases "validateEventParams ulid p previous (Some s)")
      (auto simp: Append_def calculateHash_def Let_def ParseSHA256Digest_def hashBytes_def
        local_signer_def LocalHMAC_Sign_def reject_if_def)
qed

lemma sample_recording:
  obtains r' where "recorder_appendToChain sample_recorder NewEvidenceRepository
    (Inr ''evt_01ARZ3NDEKTSV4RRFFQ69G5FAV'') 1000 ''txn_01ARZ3NDEKTSV4RRFFQ69G5FAV''
    EventPaymentChallenged [] [] = Inr r'"
proof -
  let ?s = "local_signer \<lparr>lh_keyID = TrimSpace ''local-key'', lh_secret = replicate 32 (CHR ''k'')\<rparr>"
  have "TrimSpace ''local-key'' \<noteq> []"
    by (simp add: TrimSpace_plain plain_ends_def ascii_graph_def)
  moreover have "is_ok (validateEventParams sample_ulid sample_event_params None (Some ?s))"
    by (simp add: validateEventParams_def sample_event_params_def ParseID_is_ok sample_ulid_def
        prefix_supported_def supportedIDPrefixes_def HasPrefix_def TrimPrefix_def Let_def)
  ultimately obtain e where
      e: "Append sample_ulid Inr (\<lambda>p. p) sample_event_params None (Some ?s) = Inr e"
    using local_Append_ok by blast
  then have "ev_Sequence e = 1" "ev_PreviousEventHash e = None"
    by (auto simp: Append_def result_simps Let_def newUnsignedEvent_def sample_event_params_def)
  with e show thesis
    by (intro that [of "NewEvidenceRepository
        \<lparr>er_events := (er_events NewEvidenceRepository)(ev_TransactionID e := [e])\<rparr>"])
      (simp add: recorder_appendToChain_def sample_recorder_def sample_event_params_def
        EvidenceRepo_Append_def NewEvidenceRepository_def reject_if_def Let_def)
qed

theorem recorder_extends_chain_witness:
  "\<exists>r' :: EvidenceRepository.
     VerifyChain (rd_jcs sample_recorder) (er_events r' ''txn_01ARZ3NDEKTSV4RRFFQ69G5FAV'')
       (rd_signer sample_recorder) = Inr ()"
proof -
  obtain r' where r: "recorder_appendToChain sample_recorder NewEvidenceRepository
      (Inr ''evt_01ARZ3NDEKTSV4RRFFQ69G5FAV'') 1000 ''txn_01ARZ3NDEKTSV4RRFFQ69G5FAV''
      EventPaymentChallenged [] [] = Inr r'"
    by (rule sample_recording)
  have "VerifyChain (rd_jcs sample_recorder) (er_events r' ''txn_01ARZ3NDEKTSV4RRFFQ69G5FAV'')
      (rd_signer sample_recorder) = Inr ()"
    using recorder_extends_chain [OF sample_recorder_ok _ _ _ r]
    by (simp add: NewEvidenceRepository_def chain_valid_def)
  then show ?thesis
    by blast
qed

text \<open>
  Walking back from two equal head hashes meets equal events, and the first event of the one chain exactly
  with the first event of the other: it is the one without a previous hash.
\<close>

lemma walk_back:
  assumes chains: "VerifyChain jcs es (Some v) = Inr ()" "VerifyChain jcs es' (Some v') = Inr ()"
    and heads: "ev_EventHash (last es) = ev_EventHash (last es')"
    and inj: "inj_on Sum256 (hash_inputs jcs es \<union> hash_inputs jcs es')"
    and prev: "\<forall>e \<in> set es. \<forall>e' \<in> set es'.
      jcs (json_encode (hashPayload e)) = jcs (json_encode (hashPayload e')) \<longrightarrow>
      ev_PreviousEventHash e = ev_PreviousEventHash e'"
    and j: "j < length es" "j < length es'"
  shows "ev_EventHash (es ! (length es - Suc j)) = ev_EventHash (es' ! (length es' - Suc j))"
    and "jcs (json_encode (hashPayload (es ! (length es - Suc j))))
      = jcs (json_encode (hashPayload (es' ! (length es' - Suc j))))"
    and "length es = Suc j \<longleftrightarrow> length es' = Suc j"
proof -
  have ok: "stored_ok (es ! i) i (previous_of es i)" "sealed jcs v (es ! i)" if "i < length es" for i
    using chains(1) that by (auto simp: VerifyChain_eq_Inr)
  have ok': "stored_ok (es' ! i) i (previous_of es' i)" "sealed jcs v' (es' ! i)" if "i < length es'" for i
    using chains(2) that by (auto simp: VerifyChain_eq_Inr)
  have same: "jcs (json_encode (hashPayload (es ! i))) = jcs (json_encode (hashPayload (es' ! i')))"
    if "i < length es" "i' < length es'" "ev_EventHash (es ! i) = ev_EventHash (es' ! i')" for i i'
    using same_hash_same_canonical [OF ok(2) ok'(2) that(3) _ _ inj] that by simp
  have previous: "ev_PreviousEventHash (es ! i) = ev_PreviousEventHash (es' ! i')"
    if "i < length es" "i' < length es'" "ev_EventHash (es ! i) = ev_EventHash (es' ! i')" for i i'
    using same [OF that] that prev by simp
  show hash: "ev_EventHash (es ! (length es - Suc j)) = ev_EventHash (es' ! (length es' - Suc j))"
    using j
  proof (induction j)
    case 0
    with heads show ?case
      by (simp add: last_conv_nth)
  next
    case (Suc j)
    let ?i = "length es - Suc j" and ?i' = "length es' - Suc j"
    have i: "?i < length es" "0 < ?i" "?i - 1 = length es - Suc (Suc j)"
      and i': "?i' < length es'" "0 < ?i'" "?i' - 1 = length es' - Suc (Suc j)"
      using Suc.prems by auto
    have "ev_PreviousEventHash (es ! ?i) = ev_PreviousEventHash (es' ! ?i')"
      using previous [OF i(1) i'(1) Suc.IH] Suc.prems by simp
    with ok(1) [OF i(1)] i(2) ok'(1) [OF i'(1)] i'(2) show ?case
      by (simp add: stored_ok_def previous_of_def i(3) i'(3))
  qed
  have b: "length es - Suc j < length es" "length es' - Suc j < length es'"
    using j by auto
  show "jcs (json_encode (hashPayload (es ! (length es - Suc j))))
      = jcs (json_encode (hashPayload (es' ! (length es' - Suc j))))"
    by (rule same [OF b hash])
  have first: "ev_PreviousEventHash (es ! i) = None \<longleftrightarrow> i = 0" if "i < length es" for i
    using ok(1) [OF that] by (cases "i = 0") (simp_all add: stored_ok_def previous_of_def)
  have first': "ev_PreviousEventHash (es' ! i) = None \<longleftrightarrow> i = 0" if "i < length es'" for i
    using ok'(1) [OF that] by (cases "i = 0") (simp_all add: stored_ok_def previous_of_def)
  have "length es - Suc j = 0 \<longleftrightarrow> length es' - Suc j = 0"
    using previous [OF b hash] first [OF b(1)] first' [OF b(2)] by simp
  then show "length es = Suc j \<longleftrightarrow> length es' = Suc j"
    using j by auto
qed

text \<open>
  C16: a head hash pins the whole history. Take two chains that verify (under whatever keys) and end in the
  same event hash. If SHA-256 has no collision among the bytes the two chains hash, and canonical bytes
  determine the previous-hash field they encode (RFC 8785 canonicalisation keeps the value), then the chains
  are equally long and all their events, from the first to the last, have the same canonical bytes: no
  earlier event can be altered, dropped, inserted or replaced.
\<close>

theorem head_hash_pins_history:
  assumes "VerifyChain jcs es (Some v) = Inr ()" "VerifyChain jcs es' (Some v') = Inr ()"
    and "ev_EventHash (last es) = ev_EventHash (last es')"
    and "inj_on Sum256 (hash_inputs jcs es \<union> hash_inputs jcs es')"
    and "\<forall>e \<in> set es. \<forall>e' \<in> set es'.
      jcs (json_encode (hashPayload e)) = jcs (json_encode (hashPayload e')) \<longrightarrow>
      ev_PreviousEventHash e = ev_PreviousEventHash e'"
  shows "length es = length es'
    \<and> map (\<lambda>e. jcs (json_encode (hashPayload e))) es = map (\<lambda>e. jcs (json_encode (hashPayload e))) es'"
proof -
  note walk = walk_back [OF assms]
  have "es \<noteq> []" "es' \<noteq> []"
    using assms(1,2) by (auto simp: VerifyChain_eq_Inr)
  then have j: "min (length es) (length es') - 1 < length es" "min (length es) (length es') - 1 < length es'"
      "Suc (min (length es) (length es') - 1) = min (length es) (length es')"
    by (cases es; cases es'; auto simp: min_def)+
  have len: "length es = length es'"
    using walk(3) [OF j(1,2)] unfolding j(3) by (simp add: min_def split: if_split_asm)
  have "jcs (json_encode (hashPayload (es ! i))) = jcs (json_encode (hashPayload (es' ! i)))"
    if "i < length es" for i
    using walk(2) [of "length es - Suc i"] that len by simp
  with len show ?thesis
    by (simp add: list_eq_iff_nth_eq)
qed

text \<open>
  The same two events sealed with two different keys. The canonicaliser of the sample keeps one character of
  the text: the one by which the identifiers of the two events differ.
\<close>

definition sample_signer :: "string \<Rightarrow> signer" where
  "sample_signer keyID =
     local_signer \<lparr>lh_keyID = TrimSpace keyID, lh_secret = replicate 32 (CHR ''k'')\<rparr>"

definition sample_jcs :: "string \<Rightarrow> string result" where
  "sample_jcs t = Inr [t ! 36]"

definition sample_second_params :: EventParams where
  "sample_second_params = sample_event_params\<lparr>ep_EventID := ''evt_11ARZ3NDEKTSV4RRFFQ69G5FAV'', ep_Sequence := 2\<rparr>"

lemma event_text:
  "\<exists>r. json_encode (hashPayload e)
     = ''{'' @ json_quote ''schemaVersion'' @ '':'' @ json_quote ''1'' @ '','' @ json_quote ''eventId'' @ '':''
       @ json_quote (ev_EventID e) @ r"
  by (simp add: hashPayload_def)

lemma sample_quotes:
  "json_quote ''schemaVersion'' = [CHR 0x22] @ ''schemaVersion'' @ [CHR 0x22]"
  "json_quote ''1'' = [CHR 0x22] @ ''1'' @ [CHR 0x22]"
  "json_quote ''eventId'' = [CHR 0x22] @ ''eventId'' @ [CHR 0x22]"
  "json_quote ''evt_01ARZ3NDEKTSV4RRFFQ69G5FAV'' = [CHR 0x22] @ ''evt_01ARZ3NDEKTSV4RRFFQ69G5FAV'' @ [CHR 0x22]"
  "json_quote ''evt_11ARZ3NDEKTSV4RRFFQ69G5FAV'' = [CHR 0x22] @ ''evt_11ARZ3NDEKTSV4RRFFQ69G5FAV'' @ [CHR 0x22]"
  by code_simp+

lemma sample_canonical:
  "ev_EventID e = ''evt_01ARZ3NDEKTSV4RRFFQ69G5FAV'' \<Longrightarrow> sample_jcs (json_encode (hashPayload e)) = Inr ''0''"
  "ev_EventID e = ''evt_11ARZ3NDEKTSV4RRFFQ69G5FAV'' \<Longrightarrow> sample_jcs (json_encode (hashPayload e)) = Inr ''1''"
  using event_text [of e] by (auto simp: sample_jcs_def sample_quotes)

lemma sample_hash1: "hd (Sum256 (evidenceHashDomain @ [CHR 0x00] @ ''0'')) = CHR 0x97"
  by code_simp

lemma sample_hash2: "hd (Sum256 (evidenceHashDomain @ [CHR 0x00] @ ''1'')) = CHR 0x01"
  by code_simp

lemma sample_hash_distinct:
  "Sum256 (evidenceHashDomain @ [CHR 0x00] @ ''0'') \<noteq> Sum256 (evidenceHashDomain @ [CHR 0x00] @ ''1'')"
proof
  assume "Sum256 (evidenceHashDomain @ [CHR 0x00] @ ''0'') = Sum256 (evidenceHashDomain @ [CHR 0x00] @ ''1'')"
  then have "CHR 0x97 = CHR 0x01"
    using sample_hash1 sample_hash2 by metis
  then show False
    by simp
qed

lemma inj_on_pair: "f x \<noteq> f y \<Longrightarrow> inj_on f {x, y}"
  by (auto simp: inj_on_def)

lemma sample_Append:
  assumes "is_ok (validateEventParams sample_ulid p previous (Some (sample_signer keyID)))" "TrimSpace keyID \<noteq> []"
  obtains e where "Append sample_ulid sample_jcs (\<lambda>x. x) p previous (Some (sample_signer keyID)) = Inr e"
    "ev_EventID e = ep_EventID p" "ev_TransactionID e = ep_TransactionID p" "ev_Sequence e = ep_Sequence p"
    "ev_CreatedAt e = ep_CreatedAt p" "ev_PreviousEventHash e = map_option ev_EventHash previous"
proof -
  obtain e where "Append sample_ulid sample_jcs (\<lambda>x. x) p previous (Some (sample_signer keyID)) = Inr e"
    using local_Append_ok [OF _ assms sample_signer_def, of sample_jcs "\<lambda>x. x"]
    by (auto simp: sample_jcs_def)
  moreover from this have "ev_EventID e = ep_EventID p" "ev_TransactionID e = ep_TransactionID p"
      "ev_Sequence e = ep_Sequence p" "ev_CreatedAt e = ep_CreatedAt p"
      "ev_PreviousEventHash e = map_option ev_EventHash previous"
    by (auto simp: Append_def result_simps Let_def newUnsignedEvent_def)
  ultimately show thesis
    using that by blast
qed

lemma sample_chain:
  assumes "TrimSpace keyID \<noteq> []"
  obtains e1 e2 where "VerifyChain sample_jcs [e1, e2] (Some (sample_signer keyID)) = Inr ()"
    "ev_EventID e1 = ''evt_01ARZ3NDEKTSV4RRFFQ69G5FAV''" "ev_EventID e2 = ''evt_11ARZ3NDEKTSV4RRFFQ69G5FAV''"
proof -
  note valid = validateEventParams_def sample_event_params_def sample_second_params_def ParseID_is_ok sample_ulid_def
    prefix_supported_def supportedIDPrefixes_def HasPrefix_def TrimPrefix_def Let_def
  have "is_ok (validateEventParams sample_ulid sample_event_params None (Some (sample_signer keyID)))"
    by (simp add: valid)
  then obtain e1 where e1: "Append sample_ulid sample_jcs (\<lambda>x. x) sample_event_params None
        (Some (sample_signer keyID)) = Inr e1"
      "ev_EventID e1 = ep_EventID sample_event_params" "ev_TransactionID e1 = ep_TransactionID sample_event_params"
      "ev_Sequence e1 = ep_Sequence sample_event_params" "ev_CreatedAt e1 = ep_CreatedAt sample_event_params"
    using sample_Append [OF _ assms] by blast
  have "is_ok (validateEventParams sample_ulid sample_second_params (Some e1) (Some (sample_signer keyID)))"
    using e1(2-5) by (simp add: valid Timestamp_Before_def)
  then obtain e2 where e2: "Append sample_ulid sample_jcs (\<lambda>x. x) sample_second_params (Some e1)
        (Some (sample_signer keyID)) = Inr e2" "ev_EventID e2 = ep_EventID sample_second_params"
    using sample_Append [OF _ assms] by blast
  have one: "VerifyChain sample_jcs [e1] (Some (sample_signer keyID)) = Inr ()"
    using local_hmac.Append_VerifyChain [where events = "[]" and e = e1 and jcs = sample_jcs
        and ulid = sample_ulid and clone = "\<lambda>x. x" and p = sample_event_params] e1(1)
    by (simp add: sample_signer_def)
  have "VerifyChain sample_jcs [e1, e2] (Some (sample_signer keyID)) = Inr ()"
    using local_hmac.Append_VerifyChain [where events = "[e1]" and e = e2 and jcs = sample_jcs
        and ulid = sample_ulid and clone = "\<lambda>x. x" and p = sample_second_params] one e2(1)
    by (simp add: sample_signer_def)
  with e1(2) e2(2) show thesis
    using that by (simp add: sample_event_params_def sample_second_params_def)
qed

lemma sample_event_hash:
  assumes "sealed sample_jcs w e" "sample_jcs (json_encode (hashPayload e)) = Inr c"
  shows "ev_EventHash e = hex_encode (Sum256 (evidenceHashDomain @ [CHR 0x00] @ c))"
  using assms by (auto simp: sealed_def calculateHash_eq_Inr)

theorem head_hash_pins_history_witness:
  "\<exists>es es'. VerifyChain sample_jcs es (Some (sample_signer ''key-a'')) = Inr ()
     \<and> VerifyChain sample_jcs es' (Some (sample_signer ''key-b'')) = Inr ()
     \<and> length es = 2 \<and> length es' = 2
     \<and> map (\<lambda>e. sample_jcs (json_encode (hashPayload e))) es
       = map (\<lambda>e. sample_jcs (json_encode (hashPayload e))) es'"
proof -
  have k: "TrimSpace ''key-a'' \<noteq> []" "TrimSpace ''key-b'' \<noteq> []"
    by (simp_all add: TrimSpace_plain plain_ends_def ascii_graph_def)
  obtain e1 e2 where e: "VerifyChain sample_jcs [e1, e2] (Some (sample_signer ''key-a'')) = Inr ()"
      "ev_EventID e1 = ''evt_01ARZ3NDEKTSV4RRFFQ69G5FAV''" "ev_EventID e2 = ''evt_11ARZ3NDEKTSV4RRFFQ69G5FAV''"
    by (rule sample_chain [OF k(1)])
  obtain f1 f2 where f: "VerifyChain sample_jcs [f1, f2] (Some (sample_signer ''key-b'')) = Inr ()"
      "ev_EventID f1 = ''evt_01ARZ3NDEKTSV4RRFFQ69G5FAV''" "ev_EventID f2 = ''evt_11ARZ3NDEKTSV4RRFFQ69G5FAV''"
    by (rule sample_chain [OF k(2)])
  note c = sample_canonical(1) [OF e(2)] sample_canonical(2) [OF e(3)]
    sample_canonical(1) [OF f(2)] sample_canonical(2) [OF f(3)]
  have sealed: "sealed sample_jcs (sample_signer ''key-a'') e1" "sealed sample_jcs (sample_signer ''key-a'') e2"
      "sealed sample_jcs (sample_signer ''key-b'') f1" "sealed sample_jcs (sample_signer ''key-b'') f2"
    using e(1) f(1) by (auto simp: VerifyChain_eq_Inr All_less_Suc)
  note hash = sample_event_hash [OF sealed(1) c(1)] sample_event_hash [OF sealed(2) c(2)]
    sample_event_hash [OF sealed(3) c(3)] sample_event_hash [OF sealed(4) c(4)]
  have prev: "ev_PreviousEventHash e1 = None" "ev_PreviousEventHash f1 = None"
      "ev_PreviousEventHash e2 = Some (ev_EventHash e1)" "ev_PreviousEventHash f2 = Some (ev_EventHash f1)"
    using e(1) f(1) by (auto simp: VerifyChain_eq_Inr stored_ok_def previous_of_def All_less_Suc)
  have "inj_on Sum256 {evidenceHashDomain @ [CHR 0x00] @ ''0'', evidenceHashDomain @ [CHR 0x00] @ ''1''}"
    using sample_hash_distinct by (rule inj_on_pair)
  moreover have "hash_inputs sample_jcs [e1, e2] \<union> hash_inputs sample_jcs [f1, f2]
      \<subseteq> {evidenceHashDomain @ [CHR 0x00] @ ''0'', evidenceHashDomain @ [CHR 0x00] @ ''1''}"
    using c unfolding hash_inputs_def by auto
  ultimately have inj: "inj_on Sum256 (hash_inputs sample_jcs [e1, e2] \<union> hash_inputs sample_jcs [f1, f2])"
    by (rule inj_on_subset)
  have "length [e1, e2] = length [f1, f2]
    \<and> map (\<lambda>e. sample_jcs (json_encode (hashPayload e))) [e1, e2]
      = map (\<lambda>e. sample_jcs (json_encode (hashPayload e))) [f1, f2]"
    by (rule head_hash_pins_history [OF e(1) f(1) _ inj]) (use c hash prev in simp_all)
  with e(1) f(1) show ?thesis
    by (intro exI [of _ "[e1, e2]"] exI [of _ "[f1, f2]"]) simp
qed

text \<open>
  Payment facts are recorded once. After a challenge or verification event has been recorded for
  a transaction, recording the same facts again succeeds without changing anything, and recording
  different facts fails with \<open>ErrEvidenceConflict\<close>. The payload copy keeps the strings it is given.
\<close>

theorem appendOnce_idempotent:
  assumes "appendOnce rd r i now k et pay = Inr r'" "rd_clone rd pay = pay"
  shows "appendOnce rd r' i' now' k et pay' = (if pay' = pay then Inr r' else Inl ErrEvidenceConflict)"
proof (cases "find (\<lambda>e. ev_EventType e = et) (er_events r k)")
  case None
  then obtain e where "er_events r' k = er_events r k @ [e]" "ev_EventType e = et"
      "ev_Payload e = Some pay"
    using assms
    by (auto simp: appendOnce_def ListByTransaction_def recorder_appendToChain_def result_simps
        Append_def newUnsignedEvent_def EvidenceRepo_Append_def Let_def)
  moreover have "find P (xs @ ys) = (case find P xs of None \<Rightarrow> find P ys | Some x \<Rightarrow> Some x)" for P :: "Event \<Rightarrow> bool" and xs ys
    by (induction xs) auto
  ultimately show ?thesis
    using None by (auto simp: appendOnce_def ListByTransaction_def)
next
  case (Some e)
  then show ?thesis
    using assms by (auto simp: appendOnce_def ListByTransaction_def split: if_splits)
qed

theorem appendOnce_idempotent_witness:
  "\<exists>r' :: EvidenceRepository. appendOnce sample_recorder r' (Inl ErrNotFound) 2000
     ''txn_01ARZ3NDEKTSV4RRFFQ69G5FAV'' EventPaymentChallenged [] = Inr r'"
proof -
  obtain r' where r: "recorder_appendToChain sample_recorder NewEvidenceRepository
      (Inr ''evt_01ARZ3NDEKTSV4RRFFQ69G5FAV'') 1000 ''txn_01ARZ3NDEKTSV4RRFFQ69G5FAV''
      EventPaymentChallenged [] [] = Inr r'"
    by (rule sample_recording)
  then have "appendOnce sample_recorder NewEvidenceRepository
      (Inr ''evt_01ARZ3NDEKTSV4RRFFQ69G5FAV'') 1000 ''txn_01ARZ3NDEKTSV4RRFFQ69G5FAV''
      EventPaymentChallenged [] = Inr r'"
    by (simp add: appendOnce_def ListByTransaction_def NewEvidenceRepository_def)
  from appendOnce_idempotent [OF this, of "Inl ErrNotFound" 2000 "[]"] show ?thesis
    by (auto simp: sample_recorder_def)
qed

end
