(* ===== verification/Decoding.thy ===== *)
theory Decoding
  imports Encoding
begin

text \<open>
  The decoders of Go's standard library the program relies on: \<open>time.Parse(time.RFC3339Nano, _)\<close>
  behind \<open>ParseTimestamp\<close> (\<open>internal/domain/timestamp.go\<close>), and \<open>encoding/json\<close> on a byte string.
  Each is shown to invert its encoder of the theory \<open>Encoding\<close>.
\<close>

section \<open>Parsing RFC 3339 timestamps\<close>

fun days_in_month :: "int \<Rightarrow> int \<Rightarrow> int" where
  "days_in_month m y =
     (if m = 2 then (if leap_year y then 29 else 28) else if m \<in> {4, 6, 9, 11} then 30 else 31)"

text \<open>Days from 1 January of year 1 to a date of the proleptic Gregorian calendar.\<close>

definition days_before_year :: "int \<Rightarrow> int" where
  "days_before_year y = 365 * (y - 1) + (y - 1) div 4 - (y - 1) div 100 + (y - 1) div 400"

definition days_before_month :: "int \<Rightarrow> int \<Rightarrow> int" where
  "days_before_month m y =
     sum_list (map (\<lambda>k. days_in_month k y) [1..m - 1])"

definition days_from_civil :: "int \<Rightarrow> int \<Rightarrow> int \<Rightarrow> int" where
  "days_from_civil y m d = days_before_year y + days_before_month m y + (d - 1)"

text \<open>\<open>getnum\<close>: two digits, or one when the layout element is not zero-padded.\<close>

fun getnum :: "bool \<Rightarrow> string \<Rightarrow> (int \<times> string) option" where
  "getnum fixed (a # s) =
     (if \<not> is_digit a then None
      else case s of
             b # r \<Rightarrow> if is_digit b then Some (int (digits_val [a, b]), r)
                     else if fixed then None else Some (int (digit_val a), s)
           | [] \<Rightarrow> if fixed then None else Some (int (digit_val a), s))"
| "getnum fixed [] = None"

fun expect :: "char \<Rightarrow> string \<Rightarrow> string option" where
  "expect c (a # s) = (if a = c then Some s else None)"
| "expect c [] = None"

definition parse_year :: "string \<Rightarrow> (int \<times> string) option" where
  "parse_year s =
     (if 4 \<le> length s \<and> list_all is_digit (take 4 s)
      then Some (int (digits_val (take 4 s)), drop 4 s) else None)"

text \<open>An optional fraction: any number of digits, of which nine count.\<close>

definition parse_fraction :: "string \<Rightarrow> int \<times> string" where
  "parse_fraction s =
     (case s of
        c # r \<Rightarrow>
          (if (c = CHR ''.'' \<or> c = CHR '','') \<and> takeWhile is_digit r \<noteq> []
           then let ds = take 9 (takeWhile is_digit r)
                in (int (digits_val ds) * 10 ^ (9 - length ds), dropWhile is_digit r)
           else (0, s))
      | [] \<Rightarrow> (0, s))"

text \<open>The zone: \<open>Z\<close> or a signed offset, in seconds east of UTC.\<close>

definition parse_zone :: "string \<Rightarrow> (int \<times> string) option" where
  "parse_zone s =
     (case s of
        [] \<Rightarrow> None
      | c # r \<Rightarrow>
          if c = CHR ''Z'' then Some (0, r)
          else if length s < 6 \<or> s ! 3 \<noteq> CHR '':'' then None
          else case (getnum True (take 2 (drop 1 s)), getnum True (take 2 (drop 4 s))) of
                 (Some (hr, _), Some (mm, _)) \<Rightarrow>
                   if 24 < hr \<or> 60 < mm then None
                   else if c = CHR ''+'' then Some (60 * (60 * hr + mm), drop 6 s)
                   else if c = CHR ''-'' then Some (- (60 * (60 * hr + mm)), drop 6 s)
                   else None
               | _ \<Rightarrow> None)"

definition parse_date :: "string \<Rightarrow> (int \<times> string) option" where
  "parse_date s0 =
     Option.bind (parse_year s0) (\<lambda>(y, s1). Option.bind (expect (CHR ''-'') s1) (\<lambda>s2.
     Option.bind (getnum True s2) (\<lambda>(mo, s3). Option.bind (expect (CHR ''-'') s3) (\<lambda>s4.
     Option.bind (getnum True s4) (\<lambda>(d, s5).
       if mo < 1 \<or> 12 < mo \<or> d < 1 \<or> days_in_month mo y < d then None
       else Some (days_from_civil y mo d, s5))))))"

definition parse_clock :: "string \<Rightarrow> (int \<times> string) option" where
  "parse_clock s0 =
     Option.bind (getnum False s0) (\<lambda>(h, s1). Option.bind (expect (CHR '':'') s1) (\<lambda>s2.
     Option.bind (getnum True s2) (\<lambda>(mi, s3). Option.bind (expect (CHR '':'') s3) (\<lambda>s4.
     Option.bind (getnum True s4) (\<lambda>(sec, s5).
       if 24 \<le> h \<or> 60 \<le> mi \<or> 60 \<le> sec then None
       else Some (60 * (60 * h + mi) + sec, s5))))))"

definition parse_rfc3339 :: "string \<Rightarrow> instant option" where
  "parse_rfc3339 s0 =
     Option.bind (parse_date s0) (\<lambda>(days, s1). Option.bind (expect (CHR ''T'') s1) (\<lambda>s2.
     Option.bind (parse_clock s2) (\<lambda>(sod, s3). let (nanos, s4) = parse_fraction s3 in
     Option.bind (parse_zone s4) (\<lambda>(offset, s5).
       if s5 \<noteq> [] then None
       else Some ((86400 * days + sod - offset) * Second + nanos)))))"

definition ParseTimestamp :: "string \<Rightarrow> instant result" where
  "ParseTimestamp raw =
     (case parse_rfc3339 raw of
        None \<Rightarrow> Inl (validation ''timestamp'' ''rfc3339'' ''must be a valid RFC 3339 timestamp'')
      | Some t \<Rightarrow> Inr t)"

text \<open>The first instant of the year 10000, beyond which years no longer have four digits.\<close>

abbreviation year_10000 :: instant where "year_10000 \<equiv> 3652059 * 86400 * Second"

lemma civil_year:
  assumes "0 \<le> yday" "yday < 365 \<or> yday = 365 \<and> leap_year year"
  shows "case month_day [31, if leap_year year then 29 else 28, 31, 30, 31, 30, 31, 31, 30, 31, 30, 31] 1 yday
     of (m, d) \<Rightarrow> 1 \<le> m \<and> m \<le> 12 \<and> 1 \<le> d \<and> d \<le> days_in_month m year
        \<and> days_before_month m year + (d - 1) = yday"
  using assms by (auto simp: days_before_month_def upto_rec1)

lemma div_block: "0 \<le> r \<Longrightarrow> r < b \<Longrightarrow> (b * n + r) div b = n" for r b n :: int
  by simp

lemma leap_cycle:
  fixes n c q :: int
  assumes "0 \<le> c" "c \<le> 3" "0 \<le> q" "q \<le> 24" "q = 24 \<longrightarrow> c = 3"
  shows "leap_year (400 * n + 100 * c + 4 * q + 4)"
proof -
  let ?y = "400 * n + 100 * c + 4 * q + 4"
  have "?y = 4 * (100 * n + 25 * c + q + 1)"
    by simp
  then have "?y mod 4 = 0"
    by (metis mod_mult_self1_is_0)
  moreover have "?y = (4 * q + 4) + 100 * (4 * n + c)"
    by simp
  then have "?y mod 100 = (4 * q + 4) mod 100"
    by (metis mod_mult_self2)
  moreover have "(4 * q + 4) mod 100 = 4 * q + 4" if "q < 24"
    using that assms by simp
  moreover have "?y mod 400 = 0" if "q = 24" "c = 3"
  proof -
    have "?y = 400 * (n + 1)"
      using that by simp
    then show ?thesis
      by (metis mod_mult_self1_is_0)
  qed
  ultimately show ?thesis
    using assms unfolding leap_year_def by (cases "q < 24") auto
qed

lemma days_before_cycle:
  fixes n c q y :: int
  assumes "0 \<le> c" "c \<le> 3" "0 \<le> q" "q \<le> 24" "0 \<le> y" "y \<le> 3"
  shows "days_before_year (400 * n + 100 * c + 4 * q + y + 1)
           = 146097 * n + 36524 * c + 1461 * q + 365 * y"
proof -
  have "(400 * n + 100 * c + 4 * q + y) div 4 = 100 * n + 25 * c + q"
    using div_block [of y 4 "100 * n + 25 * c + q"] assms by (simp add: algebra_simps)
  moreover have "(400 * n + 100 * c + 4 * q + y) div 100 = 4 * n + c"
    using div_block [of "4 * q + y" 100 "4 * n + c"] assms by (simp add: algebra_simps)
  moreover have "(400 * n + 100 * c + 4 * q + y) div 400 = n"
    using div_block [of "100 * c + 4 * q + y" 400 n] assms by (simp add: algebra_simps)
  ultimately show ?thesis
    unfolding days_before_year_def by simp
qed

lemma capped:
  fixes d b :: int
  assumes "0 < b" "0 \<le> d"
  shows "0 \<le> min 3 (d div b) \<and> min 3 (d div b) \<le> 3 \<and> 0 \<le> d - b * min 3 (d div b)
     \<and> (d - b * min 3 (d div b) < b \<or> min 3 (d div b) = 3 \<and> 3 * b \<le> d)"
proof -
  have k: "b * (d div b) \<le> d" "d < b * (d div b) + b" "0 \<le> d div b"
    using assms by (simp_all add: pos_imp_zdiv_nonneg_iff)
      (smt (verit) div_mult_mod_eq mult.commute pos_mod_sign pos_mod_bound)+
  show ?thesis
  proof (cases "d div b \<le> 3")
    case True
    with k show ?thesis by simp
  next
    case False
    then have "b * 3 \<le> b * (d div b)"
      using assms by (intro mult_left_mono) auto
    then have "b * 3 \<le> d"
      using k(1) by (rule order_trans)
    with False show ?thesis by simp
  qed
qed

text \<open>A day count splits into cycles of 400, 100, 4 and 1 years.\<close>

lemma cycles:
  fixes days :: int
  obtains n c q y yday where "days = 146097 * n + 36524 * c + 1461 * q + 365 * y + yday"
    "0 \<le> c" "c \<le> 3" "0 \<le> q" "q \<le> 24" "0 \<le> y" "y \<le> 3" "0 \<le> yday"
    "yday < 365 \<or> yday = 365 \<and> y = 3 \<and> (q = 24 \<longrightarrow> c = 3)"
    "civil_date days = (let year = 400 * n + 100 * c + 4 * q + y + 1 in
       (year, month_day [31, if leap_year year then 29 else 28, 31, 30, 31, 30, 31, 31, 30, 31, 30, 31]
            1 yday))"
proof -
  define n d1 where "n = days div 146097" and "d1 = days mod 146097"
  have d1: "0 \<le> d1" "d1 < 146097" "days = 146097 * n + d1"
    by (simp_all add: n_def d1_def)
  define c where "c = min 3 (d1 div 36524)"
  define d2 where "d2 = d1 - 36524 * c"
  have c: "0 \<le> c" "c \<le> 3" "0 \<le> d2" "d2 < 36524 \<or> d2 = 36524 \<and> c = 3"
    using d1 capped [of 36524 d1] by (auto simp: c_def d2_def)
  define q where "q = d2 div 1461"
  define d3 where "d3 = d2 - 1461 * q"
  have d3: "d3 = d2 mod 1461" and d2: "d2 = 1461 * q + d3"
    by (simp_all add: d3_def q_def minus_mult_div_eq_mod)
  have "0 \<le> d3" "d3 < 1461"
    unfolding d3 by simp_all
  moreover have "0 \<le> q"
    using c(3) by (simp add: q_def pos_imp_zdiv_nonneg_iff)
  ultimately have q: "0 \<le> q" "q \<le> 24" "0 \<le> d3" "d3 < 1461" "q = 24 \<longrightarrow> d3 < 1460 \<or> c = 3"
    using c d2 by auto
  define y where "y = min 3 (d3 div 365)"
  define yday where "yday = d3 - 365 * y"
  have y: "0 \<le> y" "y \<le> 3" "0 \<le> yday" "yday < 365 \<or> yday = 365 \<and> y = 3 \<and> d3 = 1460"
    using q capped [of 365 d3] by (auto simp: y_def yday_def)
  show thesis
  proof (rule that [of n c q y yday])
    show "days = 146097 * n + 36524 * c + 1461 * q + 365 * y + yday"
      using d1 by (simp add: yday_def d3_def d2_def)
    show "yday < 365 \<or> yday = 365 \<and> y = 3 \<and> (q = 24 \<longrightarrow> c = 3)"
      using y q by auto
    show "civil_date days = (let year = 400 * n + 100 * c + 4 * q + y + 1 in
       (year, month_day [31, if leap_year year then 29 else 28, 31, 30, 31, 30, 31, 31, 30, 31, 30, 31]
            1 yday))"
      unfolding civil_date_def Let_def n_def yday_def y_def d3_def q_def d2_def c_def d1_def
      by (rule refl)
  qed (use c q y in auto)
qed

lemma civil_date_days:
  assumes "civil_date days = (y, m, d)"
  shows "1 \<le> m \<and> m \<le> 12 \<and> 1 \<le> d \<and> d \<le> days_in_month m y \<and> days_from_civil y m d = days"
proof -
  obtain n c q k yday where *: "days = 146097 * n + 36524 * c + 1461 * q + 365 * k + yday"
    "0 \<le> c" "c \<le> 3" "0 \<le> q" "q \<le> 24" "0 \<le> k" "k \<le> 3" "0 \<le> yday"
    "yday < 365 \<or> yday = 365 \<and> k = 3 \<and> (q = 24 \<longrightarrow> c = 3)"
    "civil_date days = (let year = 400 * n + 100 * c + 4 * q + k + 1 in
       (year, month_day [31, if leap_year year then 29 else 28, 31, 30, 31, 30, 31, 31, 30, 31, 30, 31]
            1 yday))"
    by (rule cycles [of days]) blast
  have y: "y = 400 * n + 100 * c + 4 * q + k + 1"
      "month_day [31, if leap_year y then 29 else 28, 31, 30, 31, 30, 31, 31, 30, 31, 30, 31] 1 yday
         = (m, d)"
    using trans [OF sym [OF assms] *(10)] unfolding Let_def prod.inject by metis+
  have "yday < 365 \<or> yday = 365 \<and> leap_year y"
    using *(9) leap_cycle [of c q n] *(2-5) y(1) by (auto simp: add.commute)
  from civil_year [OF *(8) this] y(2) show ?thesis
    using *(1-7) y(1) days_before_cycle [of c q k n] by (simp add: days_from_civil_def)
qed

subsection \<open>Reading back formatted fields\<close>

lemma show_nat_length: "n < 10 ^ w \<Longrightarrow> 0 < w \<Longrightarrow> length (show_nat n) \<le> w"
proof (induction w arbitrary: n)
  case (Suc w)
  show ?case
  proof (cases "n < 10")
    case False
    then have "0 < w"
      using Suc.prems by (cases w) auto
    moreover have "n div 10 < 10 ^ w"
      using Suc.prems by (simp add: less_mult_imp_div_less mult.commute)
    ultimately have "length (show_nat (n div 10)) \<le> w"
      using Suc.IH by simp
    with False show ?thesis
      by (subst show_nat.simps) simp
  qed (subst show_nat.simps, simp)
qed simp

lemma digits_val_append: "digits_val (s @ t) = digits_val s * 10 ^ length t + digits_val t"
  using foldl_digits [of "digits_val s" t] by (simp add: digits_val_def)

lemma digits_val_zeros [simp]: "digits_val (replicate k (CHR ''0'')) = 0"
  by (induction k) (auto simp: digits_val_Cons digit_val_def)

lemma pad_digits_read:
  assumes "0 \<le> i" "i < 10 ^ w" "0 < w"
  shows "length (pad_digits w i) = w \<and> list_all is_digit (pad_digits w i)
     \<and> digits_val (pad_digits w i) = nat i"
proof -
  have "nat i < 10 ^ w"
    using assms by (simp add: nat_less_iff)
  then have "length (show_nat (nat i)) \<le> w"
    using show_nat_length assms(3) by blast
  moreover have "list_all is_digit (replicate k (CHR ''0''))" for k
    by (induction k) (simp_all add: is_digit_def)
  ultimately show ?thesis
    using assms(1) by (simp add: pad_digits_def Let_def digits_val_append)
qed

lemma getnum_pad: "0 \<le> i \<Longrightarrow> i < 100 \<Longrightarrow> getnum fixed (pad_digits 2 i @ r) = Some (i, r)"
  using pad_digits_read [of i 2] by (auto simp: numeral_2_eq_2 length_Suc_conv)

lemma parse_year_pad: "0 \<le> y \<Longrightarrow> y < 10000 \<Longrightarrow> parse_year (pad_digits 4 y @ r) = Some (y, r)"
  using pad_digits_read [of y 4] by (simp add: parse_year_def)

lemma strip_trailing_zeros:
  obtains k where "s = rev (dropWhile (\<lambda>c. c = CHR ''0'') (rev s)) @ replicate k (CHR ''0'')"
proof -
  let ?z = "\<lambda>c. c = CHR ''0''"
  have "takeWhile ?z t = replicate (length (takeWhile ?z t)) (CHR ''0'')" for t :: string
    by (induction t) auto
  then obtain k where "takeWhile ?z (rev s) = replicate k (CHR ''0'')"
    by blast
  then have "rev s = replicate k (CHR ''0'') @ dropWhile ?z (rev s)"
    by (metis takeWhile_dropWhile_id)
  then have "s = rev (dropWhile ?z (rev s)) @ rev (replicate k (CHR ''0''))"
    by (metis rev_append rev_rev_ident)
  then show thesis
    using that by simp
qed

lemma digit_run:
  assumes "list_all is_digit ds"
  shows "takeWhile is_digit (ds @ r) = ds @ takeWhile is_digit r"
    "dropWhile is_digit (ds @ r) = dropWhile is_digit r"
  using assms by (induction ds) simp_all

lemma parse_fraction_fraction:
  assumes "0 \<le> n" "n < Second"
  shows "parse_fraction (fraction n @ ''Z'') = (n, ''Z'')"
proof (cases "n = 0")
  case True
  then show ?thesis
    by (simp add: fraction_def parse_fraction_def)
next
  case False
  let ?p = "pad_digits 9 n" and ?ds = "rev (dropWhile (\<lambda>c. c = CHR ''0'') (rev (pad_digits 9 n)))"
  have p: "length ?p = 9" "list_all is_digit ?p" "digits_val ?p = nat n"
    using pad_digits_read [of n 9] assms by auto
  obtain k where k: "?p = ?ds @ replicate k (CHR ''0'')"
    by (rule strip_trailing_zeros)
  have len: "length ?ds + k = 9"
    using arg_cong [OF k, of length] p(1) by simp
  have dig: "list_all is_digit ?ds"
    using p(2) by (subst (asm) k) simp
  have val: "nat n = digits_val ?ds * 10 ^ k"
    using p(3) by (subst (asm) k) (simp add: digits_val_append)
  with False assms have "?ds \<noteq> []"
    by (intro notI) simp
  moreover have "takeWhile is_digit (?ds @ ''Z'') = ?ds" "dropWhile is_digit (?ds @ ''Z'') = ''Z''"
    using digit_run [OF dig] by (simp_all add: is_digit_def)
  moreover have "int (digits_val ?ds) * 10 ^ k = n"
    using val assms(1) by (metis of_nat_mult of_nat_numeral of_nat_power int_nat_eq)
  moreover have "9 - length ?ds = k" "take 9 ?ds = ?ds"
    using len by auto
  ultimately show ?thesis
    using False by (simp add: fraction_def parse_fraction_def Let_def)
qed

lemma civil_date_year:
  assumes "civil_date days = (y, m, d)" "0 \<le> days" "days < 3652059"
  shows "1 \<le> y \<and> y \<le> 9999"
proof -
  obtain n c q k yday where *: "days = 146097 * n + 36524 * c + 1461 * q + 365 * k + yday"
    "0 \<le> c" "c \<le> 3" "0 \<le> q" "q \<le> 24" "0 \<le> k" "k \<le> 3" "0 \<le> yday"
    "yday < 365 \<or> yday = 365 \<and> k = 3 \<and> (q = 24 \<longrightarrow> c = 3)"
    "civil_date days = (let year = 400 * n + 100 * c + 4 * q + k + 1 in
       (year, month_day [31, if leap_year year then 29 else 28, 31, 30, 31, 30, 31, 31, 30, 31, 30, 31]
            1 yday))"
    by (rule cycles [of days]) blast
  have "y = 400 * n + 100 * c + 4 * q + k + 1"
    using trans [OF sym [OF assms(1)] *(10)] unfolding Let_def prod.inject by metis
  moreover have "yday \<le> 365"
    using *(9) by auto
  then have "0 \<le> n" "n \<le> 24"
    using *(1-8) assms(2,3) by linarith+
  moreover have "400 * n + 100 * c + 4 * q + k \<noteq> 9999"
  proof
    assume y: "400 * n + 100 * c + 4 * q + k = 9999"
    then have "n = 24" "c = 3" "q = 24" "k = 3"
      using *(2-7) \<open>n \<le> 24\<close> by linarith+
    with *(1,8) assms(3) show False by simp
  qed
  ultimately show ?thesis
    using *(2-7) by simp
qed

lemma parse_date_format:
  assumes "civil_date days = (y, m, d)" "0 \<le> days" "days < 3652059"
  shows "parse_date (pad_digits 4 y @ CHR ''-'' # pad_digits 2 m @ CHR ''-'' # pad_digits 2 d @ r)
           = Some (days, r)"
proof -
  have "days_in_month m y \<le> 31"
    by simp
  then show ?thesis
    using civil_date_days [OF assms(1)] civil_date_year [OF assms]
    by (simp add: parse_date_def parse_year_pad getnum_pad del: days_in_month.simps)
qed

lemma parse_clock_fields:
  assumes "0 \<le> h" "h < 24" "0 \<le> mi" "mi < 60" "0 \<le> sec" "sec < 60"
  shows "parse_clock (pad_digits 2 h @ CHR '':'' # pad_digits 2 mi @ CHR '':'' # pad_digits 2 sec @ r)
           = Some (60 * (60 * h + mi) + sec, r)"
  using assms by (simp add: parse_clock_def getnum_pad)

lemma parse_clock_format:
  assumes "0 \<le> sod" "sod < 86400"
  shows "parse_clock (pad_digits 2 (sod div 3600) @ CHR '':'' # pad_digits 2 (sod div 60 mod 60)
           @ CHR '':'' # pad_digits 2 (sod mod 60) @ r) = Some (sod, r)"
proof -
  have "0 \<le> sod div 3600" "sod div 3600 < 24"
    using assms by auto
  then have "parse_clock (pad_digits 2 (sod div 3600) @ CHR '':'' # pad_digits 2 (sod div 60 mod 60)
      @ CHR '':'' # pad_digits 2 (sod mod 60) @ r)
        = Some (60 * (60 * (sod div 3600) + sod div 60 mod 60) + sod mod 60, r)"
    by (intro parse_clock_fields) simp_all
  moreover have h: "sod div 3600 = sod div 60 div 60"
    using zdiv_zmult2_eq [of 60 sod 60] by simp
  have "60 * (60 * (sod div 3600) + sod div 60 mod 60) + sod mod 60 = sod"
    unfolding h by (simp only: mult_div_mod_eq)
  ultimately show ?thesis
    by (simp only:)
qed

lemma ParseTimestamp_Format:
  assumes "0 \<le> t" "t < year_10000"
  shows "ParseTimestamp (FormatRFC3339Nano t) = Inr t"
proof -
  let ?secs = "t div Second" and ?nanos = "t mod Second"
  let ?days = "?secs div 86400" and ?sod = "?secs mod 86400"
  obtain y m d where date: "civil_date ?days = (y, m, d)"
    by (cases "civil_date ?days")
  have days: "0 \<le> ?days" "?days < 3652059"
    using assms by (simp_all add: pos_imp_zdiv_nonneg_iff)
  have "FormatRFC3339Nano t =
      pad_digits 4 y @ CHR ''-'' # pad_digits 2 m @ CHR ''-'' # pad_digits 2 d @ CHR ''T''
        # (pad_digits 2 (?sod div 3600) @ CHR '':'' # pad_digits 2 (?sod div 60 mod 60)
           @ CHR '':'' # pad_digits 2 (?sod mod 60) @ fraction ?nanos @ ''Z'')"
    by (simp add: FormatRFC3339Nano_def Let_def date)
  moreover have "parse_fraction (fraction ?nanos @ ''Z'') = (?nanos, ''Z'')"
    by (rule parse_fraction_fraction) simp_all
  moreover have "parse_zone ''Z'' = Some (0, [])"
    by (simp add: parse_zone_def)
  moreover have "(86400 * ?days + ?sod) * Second + ?nanos = t"
    by (simp add: mult_div_mod_eq) 
  ultimately show ?thesis
    by (simp add: ParseTimestamp_def parse_rfc3339_def parse_date_format [OF date days]
        parse_clock_format)
qed

section \<open>JSON documents\<close>

text \<open>
  \<open>json.Unmarshal\<close> into \<open>any\<close> and \<open>json.Decoder\<close> with \<open>UseNumber\<close>: the value read is a
  \<^typ>\<open>json\<close> with its numbers as literals and the members of an object in source order, repeated
  names included. The scanner of the library is a push-down automaton; so is \<open>json_run\<close>, which
  consumes one token per step. Containers may nest 10000 deep.
\<close>

definition json_space :: "char \<Rightarrow> bool" where
  "json_space c \<longleftrightarrow> c \<in> {CHR 0x20, CHR 0x09, CHR 0x0A, CHR 0x0D}"

subsection \<open>Strings\<close>

definition hex_val :: "char \<Rightarrow> nat option" where
  "hex_val c =
     (if is_digit c then Some (digit_val c)
      else if byte_in c 97 102 then Some (of_char c - 87)
      else if byte_in c 65 70 then Some (of_char c - 55)
      else None)"

fun getu4 :: "string \<Rightarrow> nat option" where
  "getu4 (a # b # c # d # s) =
     (case (hex_val a, hex_val b, hex_val c, hex_val d) of
        (Some w, Some x, Some y, Some z) \<Rightarrow> Some (4096 * w + 256 * x + 16 * y + z)
      | _ \<Rightarrow> None)"
| "getu4 s = None"

definition utf8_encode :: "nat \<Rightarrow> string" where
  "utf8_encode n =
     (if n < 0x80 then [char_of n]
      else if n < 0x800 then [char_of (0xC0 + n div 64), char_of (0x80 + n mod 64)]
      else if n < 0x10000 then
        [char_of (0xE0 + n div 4096), char_of (0x80 + n div 64 mod 64), char_of (0x80 + n mod 64)]
      else [char_of (0xF0 + n div 262144), char_of (0x80 + n div 4096 mod 64),
            char_of (0x80 + n div 64 mod 64), char_of (0x80 + n mod 64)])"

abbreviation replacement_rune :: string where
  "replacement_rune \<equiv> [CHR 0xEF, CHR 0xBF, CHR 0xBD]"

fun unescape :: "char \<Rightarrow> char option" where
  "unescape c =
     (if c \<in> {CHR 0x22, CHR 0x5C, CHR 0x2F} then Some c
      else if c = CHR ''b'' then Some (CHR 0x08) else if c = CHR ''f'' then Some (CHR 0x0C)
      else if c = CHR ''n'' then Some (CHR 0x0A) else if c = CHR ''r'' then Some (CHR 0x0D)
      else if c = CHR ''t'' then Some (CHR 0x09) else None)"

text \<open>An escape \<open>\u\<close>: the decoded bytes and the number of bytes consumed after the \<open>u\<close>.\<close>

definition unescape_unicode :: "string \<Rightarrow> (string \<times> nat) option" where
  "unescape_unicode r =
     map_option (\<lambda>u.
       if u < 0xD800 \<or> 0xE000 \<le> u then (utf8_encode u, 4)
       else case (if take 2 (drop 4 r) = [CHR 0x5C, CHR ''u''] then getu4 (drop 6 r) else None) of
              Some v \<Rightarrow>
                if u < 0xDC00 \<and> 0xDC00 \<le> v \<and> v < 0xE000
                then (utf8_encode (0x10000 + 1024 * (u - 0xD800) + (v - 0xDC00)), 10)
                else (replacement_rune, 4)
            | None \<Rightarrow> (replacement_rune, 4))
       (getu4 r)"

text \<open>The rest of a string literal after its opening quote: its value and what follows it.\<close>

abbreviation prepend :: "string \<Rightarrow> (string \<times> string) option \<Rightarrow> (string \<times> string) option" where
  "prepend p \<equiv> map_option (\<lambda>(v, r). (p @ v, r))"

function scan_string :: "string \<Rightarrow> (string \<times> string) option" where
  "scan_string [] = None"
| "scan_string (c # s) =
     (if c = CHR 0x22 then Some ([], s)
      else if c = CHR 0x5C then
        (case s of
           [] \<Rightarrow> None
         | e # r \<Rightarrow>
             if e = CHR ''u'' then
               (case unescape_unicode r of
                  None \<Rightarrow> None
                | Some (p, k) \<Rightarrow> prepend p (scan_string (drop k r)))
             else (case unescape e of
                     None \<Rightarrow> None
                   | Some x \<Rightarrow> prepend [x] (scan_string r)))
      else if (of_char c :: nat) < 0x20 then None
      else if utf8_len (c # s) = 0 then prepend replacement_rune (scan_string s)
      else prepend (take (utf8_len (c # s)) (c # s))
             (scan_string (drop (utf8_len (c # s) - 1) s)))"
  by pat_completeness auto
termination
  by (relation "measure length") auto

declare scan_string.simps(2) [simp del]

lemma scan_string_step:
  assumes "scan_string (c # s) = Some (v, r)"
  shows "r = s \<or> (\<exists>p k w. scan_string (drop k s) = Some (w, r) \<and> v = p @ w)"
proof -
  have drop: ?thesis if "prepend p (scan_string (drop k s)) = Some (v, r)" for p k
    using that by (auto simp: map_option_case split: option.split_asm)
  consider "c = CHR 0x22" | e q where "c \<noteq> CHR 0x22" "c = CHR 0x5C" "s = e # q"
    | "c \<noteq> CHR 0x22" "c \<noteq> CHR 0x5C"
    using assms by (cases s; cases "c = CHR 0x5C") (auto simp: scan_string.simps)
  then show ?thesis
  proof cases
    case 1
    with assms show ?thesis by (simp add: scan_string.simps)
  next
    case 2
    show ?thesis
    proof (cases "e = CHR ''u''")
      case True
      with assms 2 obtain p k where "prepend p (scan_string (drop (Suc k) s)) = Some (v, r)"
        by (auto simp: scan_string.simps split: option.split_asm)
      then show ?thesis by (rule drop)
    next
      case False
      with assms 2 obtain x where "prepend [x] (scan_string (drop 1 s)) = Some (v, r)"
        by (auto simp: scan_string.simps simp del: unescape.simps split: option.split_asm)
      then show ?thesis by (rule drop)
    qed
  next
    case 3
    with assms have "prepend replacement_rune (scan_string (drop 0 s)) = Some (v, r)
        \<or> prepend (take (utf8_len (c # s)) (c # s)) (scan_string (drop (utf8_len (c # s) - 1) s))
            = Some (v, r)"
      by (simp only: scan_string.simps drop_0 split: if_split_asm) simp_all
    then show ?thesis
      using drop by blast
  qed
qed

lemma scan_string_shorter: "scan_string s = Some (v, r) \<Longrightarrow> length r < length s"
proof (induction s arbitrary: v rule: length_induct)
  case (1 s)
  then show ?case
  proof (cases s)
    case (Cons c s')
    with "1.prems" consider "r = s'" | k w where "scan_string (drop k s') = Some (w, r)"
      using scan_string_step by blast
    then show ?thesis
    proof cases
      case 2
      then have "length r < length (drop k s')"
        using "1.IH" [rule_format, of "drop k s'" w] Cons by simp
      with Cons show ?thesis by simp
    qed (simp add: Cons)
  qed (use "1.prems" in simp)
qed

subsection \<open>Numbers and tokens\<close>

definition scan_int :: "string \<Rightarrow> (string \<times> string) option" where
  "scan_int s =
     (case s of
        [] \<Rightarrow> None
      | c # r \<Rightarrow> if c = CHR ''0'' then Some ([c], r)
                else if is_digit c then Some (takeWhile is_digit s, dropWhile is_digit s)
                else None)"

definition scan_digits :: "string \<Rightarrow> string \<Rightarrow> (string \<times> string) option" where
  "scan_digits lead s =
     (if takeWhile is_digit s = [] then None
      else Some (lead @ takeWhile is_digit s, dropWhile is_digit s))"

definition scan_frac :: "string \<Rightarrow> (string \<times> string) option" where
  "scan_frac s =
     (case s of c # r \<Rightarrow> if c = CHR ''.'' then scan_digits [c] r else Some ([], s) | [] \<Rightarrow> Some ([], s))"

definition scan_exp :: "string \<Rightarrow> (string \<times> string) option" where
  "scan_exp s =
     (case s of
        e # r \<Rightarrow>
          if e = CHR ''e'' \<or> e = CHR ''E'' then
            (case r of
               g # q \<Rightarrow> if g = CHR ''+'' \<or> g = CHR ''-'' then scan_digits [e, g] q else scan_digits [e] r
             | [] \<Rightarrow> None)
          else Some ([], s)
      | [] \<Rightarrow> Some ([], s))"

definition split_sign :: "string \<Rightarrow> string \<times> string" where
  "split_sign s = (if take 1 s = ''-'' then (''-'', drop 1 s) else ([], s))"

definition scan_number :: "string \<Rightarrow> (string \<times> string) option" where
  "scan_number s =
     (let (sign, s1) = split_sign s in
      Option.bind (scan_int s1) (\<lambda>(i, s2). Option.bind (scan_frac s2) (\<lambda>(f, s3).
      Option.bind (scan_exp s3) (\<lambda>(e, s4). Some (sign @ i @ f @ e, s4)))))"

datatype json_token =
    LBrace | RBrace | LBracket | RBracket | Colon | Comma
  | TString string | TNumber string | TTrue | TFalse | TNull

definition punctuation :: "char \<Rightarrow> json_token option" where
  "punctuation =
     map_of [(CHR ''{'', LBrace), (CHR ''}'', RBrace), (CHR ''['', LBracket), (CHR '']'', RBracket),
             (CHR '':'', Colon), (CHR '','', Comma)]"

definition literal_token :: "string \<Rightarrow> (json_token \<times> string) option" where
  "literal_token s =
     (if HasPrefix s ''true'' then Some (TTrue, drop 4 s)
      else if HasPrefix s ''false'' then Some (TFalse, drop 5 s)
      else if HasPrefix s ''null'' then Some (TNull, drop 4 s)
      else None)"

definition next_token :: "string \<Rightarrow> (json_token \<times> string) option" where
  "next_token s0 =
     (case dropWhile json_space s0 of
        [] \<Rightarrow> None
      | c # s \<Rightarrow>
          (case punctuation c of
             Some t \<Rightarrow> Some (t, s)
           | None \<Rightarrow>
               if c = CHR 0x22 then map_option (\<lambda>(v, r). (TString v, r)) (scan_string s)
               else if c = CHR ''-'' \<or> is_digit c then
                 map_option (\<lambda>(v, r). (TNumber v, r)) (scan_number (c # s))
               else literal_token (c # s)))"

lemma span_shorter: "length (dropWhile P s) \<le> length s"
  by (induction s) auto

lemma scan_number_shorter: "scan_number s = Some (v, r) \<Longrightarrow> length r < length s"
proof -
  have int: "scan_int t = Some (w, q) \<Longrightarrow> length q < length t" for t w q
    by (cases t) (auto simp: scan_int_def less_Suc_eq_le span_shorter split: if_split_asm)
  have digits: "scan_digits l t = Some (w, q) \<Longrightarrow> length q \<le> length t" for l t w q
    by (auto simp: scan_digits_def span_shorter split: if_split_asm)
  have frac: "scan_frac t = Some (w, q) \<Longrightarrow> length q \<le> length t" for t w q
    by (cases t) (auto simp: scan_frac_def dest!: digits split: if_split_asm)
  have exp: "scan_exp t = Some (w, q) \<Longrightarrow> length q \<le> length t" for t w q
    by (auto simp: scan_exp_def dest!: digits split: if_split_asm list.split_asm)
  have parts: "length r < length s"
    if "length s1 \<le> length s" "scan_int s1 = Some (i, s2)" "scan_frac s2 = Some (f, s3)"
      "scan_exp s3 = Some (e, r)" for s1 i s2 f s3 e
    using that(1) int [OF that(2)] frac [OF that(3)] exp [OF that(4)] by linarith
  assume "scan_number s = Some (v, r)"
  then show ?thesis
    using parts [of "drop 1 s"] parts [of s]
    by (auto simp: scan_number_def split_sign_def bind_eq_Some_conv split: if_split_asm)
qed

lemma next_token_shorter: "next_token s = Some (t, r) \<Longrightarrow> length r < length s"
proof -
  assume n: "next_token s = Some (t, r)"
  then obtain c q where q: "dropWhile json_space s = c # q"
    by (auto simp: next_token_def split: list.split_asm)
  then have "length q < length s"
    using span_shorter [of json_space s] by simp
  moreover have "length r \<le> length q" if "scan_string q = Some (v, r)" for v
    using scan_string_shorter [OF that] by simp
  moreover have "length r \<le> length q" if "scan_number (c # q) = Some (v, r)" for v
    using scan_number_shorter [OF that] by simp
  moreover have "length r \<le> length q" if "literal_token (c # q) = Some (t, r)"
    using that by (auto simp: literal_token_def split: if_split_asm)
  moreover have "r = q \<or> literal_token (c # q) = Some (t, r) \<or> (\<exists>v. scan_string q = Some (v, r))
      \<or> (\<exists>v. scan_number (c # q) = Some (v, r))"
    using n q by (auto simp: next_token_def split: option.split_asm if_split_asm)
  ultimately have "length r \<le> length q"
    by (elim disjE exE) (blast | simp)+
  with \<open>length q < length s\<close> show ?thesis
    by simp
qed

subsection \<open>Values\<close>

text \<open>An open container: an array, an object, or an object with the name of its next member.\<close>

datatype json_frame =
    InArray "json list"
  | InObject "(string \<times> json) list"
  | InMember "(string \<times> json) list" string

datatype json_mode =
    NeedValue | FirstItem | FirstMember | NeedMember | NeedColon | Complete json

definition open_frame :: "json_frame \<Rightarrow> json_mode \<Rightarrow> json_frame list \<Rightarrow> (json_frame list \<times> json_mode) option" where
  "open_frame fr m stk = (if length stk < 10000 then Some (fr # stk, m) else None)"

fun start_value :: "json_frame list \<Rightarrow> json_token \<Rightarrow> (json_frame list \<times> json_mode) option" where
  "start_value stk LBrace = open_frame (InObject []) FirstMember stk"
| "start_value stk LBracket = open_frame (InArray []) FirstItem stk"
| "start_value stk (TString s) = Some (stk, Complete (JString s))"
| "start_value stk (TNumber s) = Some (stk, Complete (JNumber s))"
| "start_value stk TTrue = Some (stk, Complete (JBool True))"
| "start_value stk TFalse = Some (stk, Complete (JBool False))"
| "start_value stk TNull = Some (stk, Complete JNull)"
| "start_value stk _ = None"

fun json_step :: "json_frame list \<Rightarrow> json_mode \<Rightarrow> json_token \<Rightarrow> (json_frame list \<times> json_mode) option" where
  "json_step stk NeedValue t = start_value stk t"
| "json_step (InArray vs # stk) FirstItem RBracket = Some (stk, Complete (JArray vs))"
| "json_step stk FirstItem t = start_value stk t"
| "json_step (InObject fs # stk) FirstMember RBrace = Some (stk, Complete (JObject fs))"
| "json_step (InObject fs # stk) FirstMember (TString k) = Some (InMember fs k # stk, NeedColon)"
| "json_step (InObject fs # stk) NeedMember (TString k) = Some (InMember fs k # stk, NeedColon)"
| "json_step stk NeedColon Colon = Some (stk, NeedValue)"
| "json_step (InArray vs # stk) (Complete v) Comma = Some (InArray (vs @ [v]) # stk, NeedValue)"
| "json_step (InArray vs # stk) (Complete v) RBracket = Some (stk, Complete (JArray (vs @ [v])))"
| "json_step (InMember fs k # stk) (Complete v) Comma = Some (InObject (fs @ [(k, v)]) # stk, NeedMember)"
| "json_step (InMember fs k # stk) (Complete v) RBrace = Some (stk, Complete (JObject (fs @ [(k, v)])))"
| "json_step _ _ _ = None"

function json_run :: "json_frame list \<Rightarrow> json_mode \<Rightarrow> string \<Rightarrow> (json \<times> string) option" where
  "json_run stk m s =
     (case (stk, m) of
        ([], Complete v) \<Rightarrow> Some (v, s)
      | _ \<Rightarrow>
          (case next_token s of
             None \<Rightarrow> None
           | Some (t, r) \<Rightarrow>
               (case json_step stk m t of
                  None \<Rightarrow> None
                | Some (stk', m') \<Rightarrow> json_run stk' m' r)))"
  by pat_completeness auto
termination
  by (relation "measure (\<lambda>(stk, m, s). length s)") (auto dest: next_token_shorter)

declare json_run.simps [simp del]

text \<open>\<open>Decoder.Decode\<close> reads one value and leaves the rest; \<open>Unmarshal\<close> wants nothing but space after it.\<close>

definition json_decode_first :: "string \<Rightarrow> (json \<times> string) option" where
  "json_decode_first s = json_run [] NeedValue s"

definition json_unmarshal :: "string \<Rightarrow> json option" where
  "json_unmarshal s =
     (case json_decode_first s of
        Some (v, r) \<Rightarrow> if list_all json_space r then Some v else None
      | None \<Rightarrow> None)"

subsection \<open>Decoding an encoded value\<close>

function valid_utf8 :: "string \<Rightarrow> bool" where
  "valid_utf8 [] = True"
| "valid_utf8 (a # s) =
     (utf8_len (a # s) \<noteq> 0 \<and> valid_utf8 (drop (utf8_len (a # s) - 1) s))"
  by pat_completeness auto
termination
  by (relation "measure length") auto

declare valid_utf8.simps(2) [simp del] json_chars.simps(2) [simp del] utf8_len.simps(2) [simp del]

lemma utf8_continuation_ascii: "utf8_continuation n = Some [] \<longleftrightarrow> n < 0x80"
  by (simp add: utf8_continuation_def)

lemma utf8_len_1: "utf8_len (a # s) = Suc 0 \<longleftrightarrow> (of_char a :: nat) < 0x80"
  using utf8_continuation_ascii [of "of_char a"] by (auto simp: utf8_len.simps split: option.split)

lemma bytes_match_take:
  "bytes_match rs s \<Longrightarrow> length rs \<le> length s \<and> bytes_match rs (take (length rs) s @ r)"
  by (induction rs s rule: bytes_match.induct) auto

lemma utf8_len_take:
  assumes "utf8_len (a # s) = Suc k"
  shows "k \<le> length s \<and> utf8_len (a # take k s @ r) = Suc k"
  using assms bytes_match_take [where r = r]
  by (auto simp: utf8_len.simps split: option.split_asm if_split_asm)

lemma hex_val_hex_digit [simp]: "d < 16 \<Longrightarrow> hex_val (hex_digit d) = Some d"
proof -
  have "\<forall>d \<in> set [0..<16]. hex_val (hex_digit d) = Some d"
    by code_simp
  then show "d < 16 \<Longrightarrow> hex_val (hex_digit d) = Some d"
    by simp
qed

lemma unescape_00: "(of_char c :: nat) < 0x80 \<Longrightarrow> unescape_unicode (''00'' @ hex_encode [c] @ t) = Some ([c], 4)"
proof -
  assume c: "(of_char c :: nat) < 0x80"
  have "hex_val (CHR ''0'') = Some 0"
    by code_simp
  then have "getu4 (''00'' @ hex_encode [c] @ t) = Some (of_char c)"
    using c by (simp add: hex_encode_def)
  then show ?thesis
    using c by (simp add: unescape_unicode_def utf8_encode_def)
qed

lemma json_ascii_scan:
  assumes "(of_char c :: nat) < 0x80"
  shows "scan_string (json_ascii c @ t) = prepend [c] (scan_string t)"
proof -
  consider "c \<in> {CHR 0x22, CHR 0x5C, CHR 0x08, CHR 0x0C, CHR 0x0A, CHR 0x0D, CHR 0x09}"
    | "json_ascii c = CHR 0x5C # ''u00'' @ hex_encode [c]"
    | "json_ascii c = [c]" "c \<noteq> CHR 0x22" "c \<noteq> CHR 0x5C" "\<not> (of_char c :: nat) < 0x20"
    unfolding json_ascii_def
    by (cases "c \<in> {CHR 0x22, CHR 0x5C, CHR 0x08, CHR 0x0C, CHR 0x0A, CHR 0x0D, CHR 0x09}";
        cases "(of_char c :: nat) < 0x20 \<or> c \<in> set ''<>&''") simp_all
  then show ?thesis
  proof cases
    case 1
    have "unescape (CHR 0x22) = Some (CHR 0x22)" "unescape (CHR 0x5C) = Some (CHR 0x5C)"
        "unescape (CHR ''b'') = Some (CHR 0x08)" "unescape (CHR ''f'') = Some (CHR 0x0C)"
        "unescape (CHR ''n'') = Some (CHR 0x0A)" "unescape (CHR ''r'') = Some (CHR 0x0D)"
        "unescape (CHR ''t'') = Some (CHR 0x09)"
      by code_simp+
    with 1 show ?thesis
      by (elim insertE emptyE)
        (simp_all add: json_ascii_def scan_string.simps del: unescape.simps)
  next
    case 2
    have "hex_encode [c] = [hex_digit (of_char c div 16), hex_digit (of_char c mod 16)]"
      by (simp add: hex_encode_def)
    with 2 unescape_00 [OF assms, of t] show ?thesis
      by (simp add: scan_string.simps)
  next
    case 3
    have "utf8_len (c # t) = 1"
      using assms by (simp add: utf8_len_1)
    with 3 show ?thesis
      by (simp add: scan_string.simps)
  qed
qed

lemma unescape_basic:
  "getu4 r = Some u \<Longrightarrow> u < 0xD800 \<Longrightarrow> unescape_unicode r = Some (utf8_encode u, 4)"
  by (simp add: unescape_unicode_def)

lemma unescape_2028:
  "unescape_unicode (''2028'' @ t) = Some ([CHR 0xE2, CHR 0x80, CHR 0xA8], 4)"
  "unescape_unicode (''2029'' @ t) = Some ([CHR 0xE2, CHR 0x80, CHR 0xA9], 4)"
proof -
  have hex: "hex_val (CHR ''2'') = Some 2" "hex_val (CHR ''0'') = Some 0"
      "hex_val (CHR ''8'') = Some 8" "hex_val (CHR ''9'') = Some 9"
    by code_simp+
  have enc: "utf8_encode 8232 = [CHR 0xE2, CHR 0x80, CHR 0xA8]"
      "utf8_encode 8233 = [CHR 0xE2, CHR 0x80, CHR 0xA9]"
    by (simp_all add: utf8_encode_def char_of_def bit_0)
  have "getu4 (''2028'' @ t) = Some 8232" "getu4 (''2029'' @ t) = Some 8233"
    by (simp_all add: hex)
  from this [THEN unescape_basic] show
      "unescape_unicode (''2028'' @ t) = Some ([CHR 0xE2, CHR 0x80, CHR 0xA8], 4)"
      "unescape_unicode (''2029'' @ t) = Some ([CHR 0xE2, CHR 0x80, CHR 0xA9], 4)"
    by (simp_all only: enc)
qed

lemma take_3_Cons:
  "take 3 (a # s) = [x, y, z] \<Longrightarrow> a = x \<and> s = y # z # drop 2 s"
  by (cases s; cases "tl s") auto

lemma line_separator_len:
  "z \<in> {CHR 0xA8, CHR 0xA9} \<Longrightarrow> utf8_len (CHR 0xE2 # CHR 0x80 # z # u) = 3"
  by (auto simp: utf8_len.simps utf8_continuation_def byte_in_def)

lemma scan_wide:
  assumes "utf8_len (a # s) = Suc k" "k \<noteq> 0"
  shows "scan_string (a # take k s @ t) = prepend (a # take k s) (scan_string t)"
proof -
  have "\<not> (of_char a :: nat) < 0x80"
    using assms utf8_len_1 [of a s] by simp
  moreover have "(of_char (CHR 0x22) :: nat) < 0x80" "(of_char (CHR 0x5C) :: nat) < 0x80"
    by simp_all
  ultimately have "a \<noteq> CHR 0x22" "a \<noteq> CHR 0x5C" "\<not> (of_char a :: nat) < 0x20"
    by auto
  then show ?thesis
    using utf8_len_take [OF assms(1), of t] by (simp add: scan_string.simps min_def)
qed

lemma scan_json_chars:
  "valid_utf8 s \<Longrightarrow> scan_string (json_chars s @ CHR 0x22 # r) = Some (s, r)"
proof (induction s rule: length_induct)
  case (1 s)
  show ?case
  proof (cases s)
    case Nil
    then show ?thesis by (simp add: scan_string.simps)
  next
    case (Cons a s')
    with "1.prems" obtain k where k: "utf8_len (a # s') = Suc k" "valid_utf8 (drop k s')"
      by (cases "utf8_len (a # s')") (auto simp: valid_utf8.simps)
    then have IH: "scan_string (json_chars (drop k s') @ CHR 0x22 # r) = Some (drop k s', r)"
      using "1.IH" Cons by simp
    show ?thesis
    proof (cases "k = 0")
      case True
      then have "(of_char a :: nat) < 0x80"
        using k utf8_len_1 by simp
      from json_ascii_scan [OF this] True k IH Cons show ?thesis
        by (simp add: json_chars.simps)
    next
      case False
      have split: "json_chars s = p @ json_chars (drop k s') \<and> (\<forall>t. scan_string (p @ t) = prepend (a # take k s') (scan_string t)) \<Longrightarrow> ?thesis" for p
        using IH Cons by simp
      show ?thesis
      proof (cases "take 3 s = [CHR 0xE2, CHR 0x80, CHR 0xA8] \<or> take 3 s = [CHR 0xE2, CHR 0x80, CHR 0xA9]")
        case True
        then obtain z where z: "take 3 (a # s') = [CHR 0xE2, CHR 0x80, z]" "z \<in> {CHR 0xA8, CHR 0xA9}"
          using Cons by auto
        then have *: "a = CHR 0xE2" "s' = CHR 0x80 # z # drop 2 s'"
          using take_3_Cons [OF z(1)] by simp_all
        then have "utf8_len (a # s') = 3"
          using line_separator_len [OF z(2), of "drop 2 s'"] by simp
        then have k2: "k = 2"
          using k(1) by simp
        have take: "take k s' = [CHR 0x80, z]"
          unfolding k2 by (subst *(2)) simp
        show ?thesis
        proof (cases "z = CHR 0xA8")
          case True
          then have "json_chars (a # s') = CHR 0x5C # ''u2028'' @ json_chars (drop k s')"
            using z(1) k(1) k2 by (simp add: json_chars.simps)
          then show ?thesis
            using unescape_2028(1) True take * Cons
            by (intro split [of "CHR 0x5C # ''u2028''"]) (simp add: scan_string.simps)
        next
          case False
          then have "json_chars (a # s') = CHR 0x5C # ''u2029'' @ json_chars (drop k s')"
            using z k(1) k2 by (simp add: json_chars.simps)
          then show ?thesis
            using unescape_2028(2) False z(2) take * Cons
            by (intro split [of "CHR 0x5C # ''u2029''"]) (simp add: scan_string.simps)
        qed
      next
        case False
        then show ?thesis
          using Cons k \<open>k \<noteq> 0\<close> scan_wide [OF k(1)]
          by (intro split [of "a # take k s'"]) (simp add: json_chars.simps)
      qed
    qed
  qed
qed

text \<open>The documents whose encoding is read back: well-formed text, literals that are numbers.\<close>

definition number_literal :: "string \<Rightarrow> bool" where
  "number_literal s \<longleftrightarrow> scan_number s = Some (s, [])"

fun json_wf :: "json \<Rightarrow> bool" where
  "json_wf (JString s) = valid_utf8 s"
| "json_wf (JNumber s) = number_literal s"
| "json_wf (JArray vs) = list_all json_wf vs"
| "json_wf (JObject fs) = list_all (\<lambda>(k, v). valid_utf8 k \<and> json_wf v) fs"
| "json_wf _ = True"

fun json_depth :: "json \<Rightarrow> nat" where
  "json_depth (JArray vs) = Suc (foldr (\<lambda>v n. max (json_depth v) n) vs 0)"
| "json_depth (JObject fs) = Suc (foldr (\<lambda>(k, v) n. max (json_depth v) n) fs 0)"
| "json_depth _ = 0"

fun read_back :: "json \<Rightarrow> json" where
  "read_back (JInt i) = JNumber (show_int i)"
| "read_back (JArray vs) = JArray (map read_back vs)"
| "read_back (JObject fs) = JObject (map (\<lambda>(k, v). (k, read_back v)) fs)"
| "read_back v = v"

text \<open>What may follow a number inside a document.\<close>

definition number_end :: "string \<Rightarrow> bool" where
  "number_end r \<longleftrightarrow> (\<forall>c q. r = c # q \<longrightarrow> \<not> is_digit c \<and> c \<notin> set ''.eE'')"

lemma number_end_simps [simp]:
  "number_end []" "number_end (CHR '','' # q)" "number_end (CHR '']'' # q)" "number_end (CHR ''}'' # q)"
  by (simp_all add: number_end_def is_digit_def)

lemma digits_end:
  assumes "number_end r"
  shows "takeWhile is_digit (s @ r) = takeWhile is_digit s"
    "dropWhile is_digit (s @ r) = dropWhile is_digit s @ r"
proof -
  have "takeWhile is_digit r = []" "dropWhile is_digit r = r"
    using assms by (cases r; simp add: number_end_def)+
  then show "takeWhile is_digit (s @ r) = takeWhile is_digit s"
      "dropWhile is_digit (s @ r) = dropWhile is_digit s @ r"
    by (induction s) auto
qed

lemma scan_digits_extend:
  "scan_digits l s = Some (v, q) \<Longrightarrow> number_end r \<Longrightarrow> scan_digits l (s @ r) = Some (v, q @ r)"
  by (auto simp: scan_digits_def digits_end split: if_split_asm)

lemma scan_int_extend:
  "scan_int s = Some (v, q) \<Longrightarrow> number_end r \<Longrightarrow> scan_int (s @ r) = Some (v, q @ r)"
  using digits_end [of r "tl s"] by (cases s) (auto simp: scan_int_def split: if_split_asm)

lemma scan_frac_extend:
  "scan_frac s = Some (v, q) \<Longrightarrow> number_end r \<Longrightarrow> scan_frac (s @ r) = Some (v, q @ r)"
  by (cases s; cases r)
    (auto simp: scan_frac_def number_end_def dest: scan_digits_extend [where r = r] split: if_split_asm)

lemma scan_exp_extend:
  assumes "scan_exp s = Some (v, q)" "number_end r"
  shows "scan_exp (s @ r) = Some (v, q @ r)"
proof (cases s)
  case Nil
  with assms show ?thesis
    by (cases r) (auto simp: scan_exp_def number_end_def)
next
  case (Cons e t)
  with assms show ?thesis
    using scan_digits_extend [OF _ assms(2), of _ t] scan_digits_extend [OF _ assms(2), of _ "tl t"]
    by (cases t) (auto simp: scan_exp_def split: if_split_asm)
qed

lemma split_sign_append:
  "s \<noteq> [] \<Longrightarrow> split_sign (s @ r) = (fst (split_sign s), snd (split_sign s) @ r)"
  by (cases s) (simp_all add: split_sign_def)

lemma scan_number_extend:
  assumes "scan_number s = Some (v, q)" "number_end r"
  shows "scan_number (s @ r) = Some (v, q @ r)"
proof -
  obtain i s2 f s3 e where "scan_int (snd (split_sign s)) = Some (i, s2)" "scan_frac s2 = Some (f, s3)"
      "scan_exp s3 = Some (e, q)" "v = fst (split_sign s) @ i @ f @ e"
    using assms(1) by (auto simp: scan_number_def bind_eq_Some_conv case_prod_beta)
  moreover have "s \<noteq> []"
    using assms(1) by (auto simp: scan_number_def scan_int_def split_sign_def)
  ultimately show ?thesis
    using assms(2)
    by (simp add: scan_number_def split_sign_append scan_int_extend scan_frac_extend scan_exp_extend)
qed

lemma scan_int_canonical: "canonical_digits s \<Longrightarrow> scan_int s = Some (s, [])"
proof (cases s)
  case (Cons c t)
  assume "canonical_digits s"
  with Cons show ?thesis
    using digit_run [of s "[]"] by (auto simp: scan_int_def canonical_digits_def)
qed (simp add: canonical_digits_def)

lemma number_literal_show_int: "number_literal (show_int i)"
proof -
  have "canonical_digits (show_nat n)" "take 1 (show_nat n) \<noteq> ''-''" for n
    using show_nat_canonical [of n]
    by (cases "show_nat n"; auto simp: canonical_digits_def is_digit_def)+
  then show ?thesis
    using scan_int_canonical
    by (simp add: number_literal_def scan_number_def split_sign_def show_int_def scan_frac_def
        scan_exp_def)
qed

lemma punctuation_chars: "punctuation c \<noteq> None \<longleftrightarrow> c \<in> set ''{}[]:,''"
  by (simp add: punctuation_def)

text \<open>The first byte of a token settles its kind.\<close>

lemma first_bytes:
  "c \<in> set ''{}[]:,'' \<Longrightarrow> \<not> json_space c"
  "is_digit c \<Longrightarrow> \<not> json_space c \<and> punctuation c = None \<and> c \<noteq> CHR 0x22"
  "c \<in> set ''-tfn'' \<Longrightarrow> \<not> json_space c \<and> punctuation c = None \<and> c \<noteq> CHR 0x22 \<and> \<not> is_digit c"
proof -
  have "list_all (\<lambda>c. \<not> json_space c) ''{}[]:,''"
    by code_simp
  then show "c \<in> set ''{}[]:,'' \<Longrightarrow> \<not> json_space c"
    unfolding list_all_iff by blast
  have "list_all (\<lambda>c. \<not> is_digit c) (''{}[]:,'' @ [CHR 0x20, CHR 0x09, CHR 0x0A, CHR 0x0D, CHR 0x22])"
    by code_simp
  then have *: "\<not> is_digit c" if "c \<in> set ''{}[]:,'' \<or> json_space c \<or> c = CHR 0x22"
    using that unfolding list_all_iff json_space_def set_append by auto
  then show "is_digit c \<Longrightarrow> \<not> json_space c \<and> punctuation c = None \<and> c \<noteq> CHR 0x22"
    using punctuation_chars by blast
  have "list_all (\<lambda>c. \<not> json_space c \<and> punctuation c = None \<and> c \<noteq> CHR 0x22 \<and> \<not> is_digit c) ''-tfn''"
    by code_simp
  then show "c \<in> set ''-tfn'' \<Longrightarrow>
      \<not> json_space c \<and> punctuation c = None \<and> c \<noteq> CHR 0x22 \<and> \<not> is_digit c"
    unfolding list_all_iff by blast
qed

lemma next_token_punctuation: "punctuation c = Some t \<Longrightarrow> next_token (c # s) = Some (t, s)"
  using first_bytes(1) punctuation_chars [of c] by (simp add: next_token_def)

lemma punctuation_simps [simp]:
  "punctuation (CHR ''{'') = Some LBrace" "punctuation (CHR ''}'') = Some RBrace"
  "punctuation (CHR ''['') = Some LBracket" "punctuation (CHR '']'') = Some RBracket"
  "punctuation (CHR '':'') = Some Colon" "punctuation (CHR '','') = Some Comma"
  by (simp_all add: punctuation_def)

lemma next_token_quote:
  "valid_utf8 s \<Longrightarrow> next_token (json_quote s @ r) = Some (TString s, r)"
  by (simp add: next_token_def json_quote_def scan_json_chars json_space_def punctuation_def)

lemma number_literal_head: "number_literal (c # t) \<Longrightarrow> c = CHR ''-'' \<or> is_digit c"
proof (rule ccontr)
  assume n: "number_literal (c # t)" and c: "\<not> (c = CHR ''-'' \<or> is_digit c)"
  have "is_digit (CHR ''0'')"
    by code_simp
  with c have "c \<noteq> CHR ''0''"
    by blast
  with c have "scan_number (c # t) = None"
    by (simp add: scan_number_def split_sign_def scan_int_def)
  with n show False
    by (simp add: number_literal_def)
qed

lemma next_token_number:
  assumes "number_literal s" "number_end r"
  shows "next_token (s @ r) = Some (TNumber s, r)"
proof (cases s)
  case Nil
  with assms(1) show ?thesis
    by (simp add: number_literal_def scan_number_def split_sign_def scan_int_def)
next
  case (Cons c t)
  have n: "scan_number (s @ r) = Some (s, r)"
    using scan_number_extend [of s s "[]" r] assms by (simp add: number_literal_def)
  have "c = CHR ''-'' \<or> is_digit c"
    using number_literal_head assms(1) Cons by simp
  with n Cons first_bytes(2) [of c] first_bytes(3) [of c] show ?thesis
    by (auto simp: next_token_def)
qed

lemma next_token_literal:
  "next_token (''true'' @ r) = Some (TTrue, r)" "next_token (''false'' @ r) = Some (TFalse, r)"
  "next_token (''null'' @ r) = Some (TNull, r)"
proof -
  have "next_token (c # s) = literal_token (c # s)" if "c \<in> set ''tfn''" for c s
    using first_bytes(3) [of c] that by (auto simp: next_token_def)
  moreover have "literal_token (''true'' @ r) = Some (TTrue, r)"
      "literal_token (''false'' @ r) = Some (TFalse, r)" "literal_token (''null'' @ r) = Some (TNull, r)"
    by (simp_all add: literal_token_def HasPrefix_def)
  ultimately show "next_token (''true'' @ r) = Some (TTrue, r)"
      "next_token (''false'' @ r) = Some (TFalse, r)" "next_token (''null'' @ r) = Some (TNull, r)"
    by simp_all
qed

lemma json_run_step:
  "next_token s = Some (t, r) \<Longrightarrow> json_step stk m t = Some (stk', m') \<Longrightarrow>
     stk \<noteq> [] \<or> (\<forall>v. m \<noteq> Complete v) \<Longrightarrow> json_run stk m s = json_run stk' m' r"
  by (subst json_run.simps) (auto split: list.split json_mode.split)

text \<open>Where a value may start, and what its first token does there.\<close>

definition value_start :: "json_frame list \<Rightarrow> json_mode \<Rightarrow> bool" where
  "value_start stk m \<longleftrightarrow> m = NeedValue \<or> m = FirstItem"

lemma step_value_start:
  "value_start stk m \<Longrightarrow> t \<noteq> RBracket \<Longrightarrow> json_step stk m t = start_value stk t"
  by (cases "(stk, m, t)" rule: json_step.cases) (auto simp: value_start_def)

lemma run_value_start:
  assumes "next_token s = Some (t, r)" "value_start stk m" "start_value stk t = Some (stk', m')"
  shows "json_run stk m s = json_run stk' m' r"
proof -
  have "t \<noteq> RBracket"
    using assms(3) by auto
  with assms show ?thesis
    by (intro json_run_step) (auto simp: step_value_start, auto simp: value_start_def)
qed

lemma Join_Cons: "Join (x # xs) sep = x @ concat (map (\<lambda>y. sep @ y) xs)"
  by (induction xs arbitrary: x) simp_all

definition reads_back :: "json \<Rightarrow> bool" where
  "reads_back v \<longleftrightarrow>
     (\<forall>stk m r. json_wf v \<longrightarrow> json_depth v + length stk \<le> 10000 \<longrightarrow> value_start stk m \<longrightarrow> number_end r \<longrightarrow>
        json_run stk m (json_encode v @ r) = json_run stk (Complete (read_back v)) r)"

definition fits :: "json_frame list \<Rightarrow> json list \<Rightarrow> bool" where
  "fits stk vs \<longleftrightarrow> (\<forall>v \<in> set vs. reads_back v \<and> json_wf v \<and> json_depth v + Suc (length stk) \<le> 10000)"

lemma fits_Cons [simp]:
  "fits stk (v # vs) \<longleftrightarrow>
     reads_back v \<and> json_wf v \<and> json_depth v + Suc (length stk) \<le> 10000 \<and> fits stk vs"
  by (auto simp: fits_def)

lemma reads_backD:
  "reads_back v \<Longrightarrow> json_wf v \<Longrightarrow> json_depth v + length stk \<le> 10000 \<Longrightarrow> value_start stk m \<Longrightarrow>
     number_end r \<Longrightarrow> json_run stk m (json_encode v @ r) = json_run stk (Complete (read_back v)) r"
  by (simp add: reads_back_def)

lemma run_items:
  "fits stk vs \<Longrightarrow>
     json_run (InArray acc # stk) (Complete w)
       (concat (map (\<lambda>v. CHR '','' # json_encode v) vs) @ CHR '']'' # r)
     = json_run stk (Complete (JArray (acc @ w # map read_back vs))) r"
proof (induction vs arbitrary: acc w)
  case Nil
  show ?case
    by (simp add: json_run_step [OF next_token_punctuation])
next
  case (Cons v vs)
  let ?rest = "concat (map (\<lambda>v. CHR '','' # json_encode v) vs) @ CHR '']'' # r"
  have "number_end ?rest"
    by (cases vs) simp_all
  moreover have "value_start (InArray (acc @ [w]) # stk) NeedValue"
    by (simp add: value_start_def)
  ultimately have "json_run (InArray (acc @ [w]) # stk) NeedValue (json_encode v @ ?rest)
      = json_run (InArray (acc @ [w]) # stk) (Complete (read_back v)) ?rest"
    using Cons.prems by (intro reads_backD) auto
  moreover have "json_run (InArray acc # stk) (Complete w) (CHR '','' # json_encode v @ ?rest)
      = json_run (InArray (acc @ [w]) # stk) NeedValue (json_encode v @ ?rest)"
    by (simp add: json_run_step [OF next_token_punctuation])
  ultimately show ?case
    using Cons by simp
qed

lemma run_members:
  "fits stk (map snd fs) \<Longrightarrow> \<forall>(k, v) \<in> set fs. valid_utf8 k \<Longrightarrow>
     json_run (InMember acc k0 # stk) (Complete w)
       (concat (map (\<lambda>(k, v). CHR '','' # json_quote k @ CHR '':'' # json_encode v) fs) @ CHR ''}'' # r)
     = json_run stk (Complete (JObject (acc @ (k0, w) # map (\<lambda>(k, v). (k, read_back v)) fs))) r"
proof (induction fs arbitrary: acc k0 w)
  case Nil
  show ?case
    by (simp add: json_run_step [OF next_token_punctuation])
next
  case (Cons f fs)
  obtain k v where f: "f = (k, v)"
    by (cases f)
  let ?acc = "acc @ [(k0, w)]"
  let ?rest = "concat (map (\<lambda>(k, v). CHR '','' # json_quote k @ CHR '':'' # json_encode v) fs) @ CHR ''}'' # r"
  have "number_end ?rest"
    by (cases fs) auto
  moreover have "value_start (InMember ?acc k # stk) NeedValue"
    by (simp add: value_start_def)
  ultimately have "json_run (InMember ?acc k # stk) NeedValue (json_encode v @ ?rest)
      = json_run (InMember ?acc k # stk) (Complete (read_back v)) ?rest"
    using Cons.prems f by (intro reads_backD) auto
  moreover have "json_run (InMember acc k0 # stk) (Complete w)
        (CHR '','' # json_quote k @ CHR '':'' # json_encode v @ ?rest)
      = json_run (InMember ?acc k # stk) NeedValue (json_encode v @ ?rest)"
    using Cons.prems(2) f
    by (simp add: json_run_step [OF next_token_punctuation] json_run_step [OF next_token_quote])
  ultimately show ?case
    using Cons f by simp
qed

lemma depth_fits:
  "json_depth (JArray vs) + length stk \<le> 10000 \<Longrightarrow> list_all json_wf vs \<Longrightarrow> \<forall>v \<in> set vs. reads_back v
     \<Longrightarrow> fits stk vs"
  by (induction vs) (auto simp: fits_def)

lemma depth_fits_members:
  "json_depth (JObject fs) = json_depth (JArray (map snd fs))"
  by (induction fs) auto

lemma run_array:
  assumes "fits stk vs" "value_start stk m" "length stk < 10000"
  shows "json_run stk m (CHR ''['' # Join (map json_encode vs) '','' @ CHR '']'' # r)
           = json_run stk (Complete (JArray (map read_back vs))) r"
proof -
  have "json_run stk m (CHR ''['' # s) = json_run (InArray [] # stk) FirstItem s" for s
    by (rule run_value_start [OF next_token_punctuation]) (use assms in \<open>auto simp: open_frame_def\<close>)
  moreover have "json_run (InArray [] # stk) FirstItem (Join (map json_encode vs) '','' @ CHR '']'' # r)
      = json_run stk (Complete (JArray (map read_back vs))) r"
  proof (cases vs)
    case Nil
    then show ?thesis
      by (simp add: json_run_step [OF next_token_punctuation])
  next
    case (Cons v us)
    let ?rest = "concat (map (\<lambda>v. CHR '','' # json_encode v) us) @ CHR '']'' # r"
    have "number_end ?rest"
      by (cases us) simp_all
    then have "json_run (InArray [] # stk) FirstItem (json_encode v @ ?rest)
        = json_run (InArray [] # stk) (Complete (read_back v)) ?rest"
      using assms(1) Cons by (intro reads_backD) (auto simp: value_start_def)
    then show ?thesis
      using run_items [of stk us "[]" "read_back v" r] assms(1) Cons
      by (simp add: Join_Cons comp_def)
  qed
  ultimately show ?thesis
    by simp
qed

lemma run_object:
  assumes "fits stk (map snd fs)" "\<forall>(k, v) \<in> set fs. valid_utf8 k" "value_start stk m" "length stk < 10000"
  shows "json_run stk m (CHR ''{'' # Join (map (\<lambda>(k, v). json_quote k @ '':'' @ json_encode v) fs) '',''
             @ CHR ''}'' # r)
           = json_run stk (Complete (JObject (map (\<lambda>(k, v). (k, read_back v)) fs))) r"
proof -
  have "json_run stk m (CHR ''{'' # s) = json_run (InObject [] # stk) FirstMember s" for s
    by (rule run_value_start [OF next_token_punctuation]) (use assms in \<open>auto simp: open_frame_def\<close>)
  moreover have "json_run (InObject [] # stk) FirstMember
        (Join (map (\<lambda>(k, v). json_quote k @ '':'' @ json_encode v) fs) '','' @ CHR ''}'' # r)
      = json_run stk (Complete (JObject (map (\<lambda>(k, v). (k, read_back v)) fs))) r"
  proof (cases fs)
    case Nil
    then show ?thesis
      by (simp add: json_run_step [OF next_token_punctuation])
  next
    case (Cons f us)
    obtain k v where f: "f = (k, v)"
      by (cases f)
    let ?rest = "concat (map (\<lambda>(k, v). CHR '','' # json_quote k @ CHR '':'' # json_encode v) us) @ CHR ''}'' # r"
    have "number_end ?rest"
      by (cases us) auto
    then have "json_run (InMember [] k # stk) NeedValue (json_encode v @ ?rest)
        = json_run (InMember [] k # stk) (Complete (read_back v)) ?rest"
      using assms(1) Cons f by (intro reads_backD) (auto simp: value_start_def)
    moreover have "json_run (InObject [] # stk) FirstMember (json_quote k @ CHR '':'' # json_encode v @ ?rest)
        = json_run (InMember [] k # stk) NeedValue (json_encode v @ ?rest)"
      using assms(2) Cons f
      by (simp add: json_run_step [OF next_token_punctuation] json_run_step [OF next_token_quote])
    ultimately show ?thesis
      using run_members [of stk us "[]" k "read_back v" r] assms(1,2) Cons f
      by (simp add: Join_Cons comp_def split_def)
  qed
  ultimately show ?thesis
    by simp
qed

lemma json_reads_back: "reads_back v"
proof (induction v)
  case JNull
  show ?case
    unfolding reads_back_def by (auto intro!: run_value_start simp: next_token_literal [simplified])
next
  case (JBool b)
  show ?case
    unfolding reads_back_def by (auto intro!: run_value_start simp: next_token_literal [simplified])
next
  case (JInt i)
  show ?case
    unfolding reads_back_def
    by (auto intro!: run_value_start simp: next_token_number [OF number_literal_show_int])
next
  case (JNumber s)
  show ?case
    unfolding reads_back_def by (auto intro!: run_value_start simp: next_token_number)
next
  case (JString s)
  show ?case
    unfolding reads_back_def by (auto intro!: run_value_start simp: next_token_quote)
next
  case (JArray vs)
  show ?case
    unfolding reads_back_def
  proof (intro allI impI)
    fix stk m r
    assume *: "json_wf (JArray vs)" "json_depth (JArray vs) + length stk \<le> 10000" "value_start stk m"
    then have "fits stk vs" "length stk < 10000"
      using depth_fits [of vs stk] JArray by auto
    then show "json_run stk m (json_encode (JArray vs) @ r)
        = json_run stk (Complete (read_back (JArray vs))) r"
      using run_array *(3) by simp
  qed
next
  case (JObject fs)
  show ?case
    unfolding reads_back_def
  proof (intro allI impI)
    fix stk m r
    assume *: "json_wf (JObject fs)" "json_depth (JObject fs) + length stk \<le> 10000" "value_start stk m"
    have "list_all json_wf (map snd fs)" "\<forall>(k, v) \<in> set fs. valid_utf8 k"
      using *(1) by (auto simp: list_all_iff)
    moreover have "\<forall>v \<in> set (map snd fs). reads_back v"
      using JObject by (auto simp: snds.simps)
    ultimately have "fits stk (map snd fs)" "\<forall>(k, v) \<in> set fs. valid_utf8 k" "length stk < 10000"
      using depth_fits [of "map snd fs" stk] *(2) unfolding depth_fits_members by auto
    then show "json_run stk m (json_encode (JObject fs) @ r)
        = json_run stk (Complete (read_back (JObject fs))) r"
      using run_object *(3) by simp
  qed
qed

lemma json_decode_encode:
  assumes "json_wf v" "json_depth v \<le> 10000" "number_end r"
  shows "json_decode_first (json_encode v @ r) = Some (read_back v, r)"
proof -
  have "json_run [] NeedValue (json_encode v @ r) = json_run [] (Complete (read_back v)) r"
    by (rule reads_backD [OF json_reads_back]) (use assms in \<open>auto simp: value_start_def\<close>)
  then show ?thesis
    by (simp add: json_decode_first_def json_run.simps [of "[]" "Complete w" for w])
qed

lemma json_unmarshal_encode:
  "json_wf v \<Longrightarrow> json_depth v \<le> 10000 \<Longrightarrow> json_unmarshal (json_encode v) = Some (read_back v)"
  using json_decode_encode [of v "[]"] by (simp add: json_unmarshal_def)

text \<open>
  Timestamps survive their text. An instant between the years 1 and 9999 is parsed back exactly,
  to the nanosecond, from the RFC 3339 form that \<open>Timestamp.String\<close> prints, and so two instants with the
  same text are the same instant: a hash over the text is a hash over the instant.
\<close>

theorem timestamp_roundtrip:
  assumes "0 \<le> t" "t < year_10000" "0 \<le> u" "u < year_10000"
  shows "ParseTimestamp (FormatRFC3339Nano t) = Inr t
    \<and> (FormatRFC3339Nano t = FormatRFC3339Nano u \<longleftrightarrow> t = u)"
  using ParseTimestamp_Format [OF assms(1,2)] ParseTimestamp_Format [OF assms(3,4)]
  by (metis sum.inject(2))

theorem timestamp_roundtrip_witness:
  "ParseTimestamp (FormatRFC3339Nano 63900000000500000000) = Inr 63900000000500000000
   \<and> FormatRFC3339Nano 63900000000500000000 \<noteq> FormatRFC3339Nano 63900000000000000000"
  using timestamp_roundtrip [of 63900000000500000000 63900000000000000000] by simp

end
