(* ===== verification/Base64Url.thy ===== *)
theory Base64Url
  imports Decoding
begin

text \<open>
  Unpadded URL-safe base64 (\<open>base64.RawURLEncoding\<close>) with the decoder of Go's library, which
  skips line breaks and ignores the unused bits of the last symbol, and the splitting of a string
  at a separator byte (\<open>strings.Split\<close>). The encoder is inverted by the decoder; the decoder is
  not injective.
\<close>

section \<open>Symbols\<close>

definition url_alphabet :: string where
  "url_alphabet = ''ABCDEFGHIJKLMNOPQRSTUVWXYZabcdefghijklmnopqrstuvwxyz0123456789-_''"

definition url_digit :: "nat \<Rightarrow> char" where
  "url_digit n = url_alphabet ! (n mod 64)"

definition url_val :: "char \<Rightarrow> nat option" where
  "url_val = map_of (zip url_alphabet [0..<64])"

text \<open>Three bytes as one number, and four symbol values as one number.\<close>

definition quantum :: "char \<Rightarrow> char \<Rightarrow> char \<Rightarrow> nat" where
  "quantum a b c = of_char a * 65536 + of_char b * 256 + of_char c"

definition sextets :: "nat \<Rightarrow> nat \<Rightarrow> nat \<Rightarrow> nat \<Rightarrow> nat" where
  "sextets w x y z = w * 262144 + x * 4096 + y * 64 + z"

fun base64_url :: "string \<Rightarrow> string" where
  "base64_url (a # b # c # s) =
     (let n = quantum a b c
      in url_digit (n div 262144) # url_digit (n div 4096) # url_digit (n div 64) # url_digit n
         # base64_url s)"
| "base64_url [a, b] =
     (let n = quantum a b (CHR 0x00)
      in [url_digit (n div 262144), url_digit (n div 4096), url_digit (n div 64)])"
| "base64_url [a] =
     (let n = quantum a (CHR 0x00) (CHR 0x00) in [url_digit (n div 262144), url_digit (n div 4096)])"
| "base64_url [] = []"

text \<open>The decoder on the values of the symbols; a single left-over symbol is an error.\<close>

fun quanta :: "nat list \<Rightarrow> string option" where
  "quanta (w # x # y # z # s) =
     (let n = sextets w x y z
      in map_option (\<lambda>r. char_of (n div 65536) # char_of (n div 256 mod 256) # char_of (n mod 256) # r)
           (quanta s))"
| "quanta [w, x, y] =
     (let n = sextets w x y 0 in Some [char_of (n div 65536), char_of (n div 256 mod 256)])"
| "quanta [w, x] = (let n = sextets w x 0 0 in Some [char_of (n div 65536)])"
| "quanta [w] = None"
| "quanta [] = Some []"

definition base64_url_decode :: "string \<Rightarrow> string option" where
  "base64_url_decode s =
     (let symbols = filter (\<lambda>c. c \<noteq> CHR 0x0A \<and> c \<noteq> CHR 0x0D) s
      in if list_all (\<lambda>c. url_val c \<noteq> None) symbols
         then quanta (map (\<lambda>c. the (url_val c)) symbols) else None)"

lemma url_alphabet_facts:
  "length url_alphabet = 64" "distinct url_alphabet"
  "list_all (\<lambda>c. ascii_graph c \<and> c \<noteq> CHR ''.'') url_alphabet"
  by (simp_all add: url_alphabet_def ascii_graph_def)

lemma url_digit_facts:
  "url_val (url_digit n) = Some (n mod 64)" "ascii_graph (url_digit n)" "url_digit n \<noteq> CHR ''.''"
proof -
  have i: "n mod 64 < length url_alphabet"
    by (simp add: url_alphabet_facts)
  show "url_val (url_digit n) = Some (n mod 64)"
    using map_of_zip_nth [of url_alphabet "[0..<64]" "n mod 64"] url_alphabet_facts(1,2)
    by (simp add: url_val_def url_digit_def)
  show "ascii_graph (url_digit n)" "url_digit n \<noteq> CHR ''.''"
    using url_alphabet_facts(3) nth_mem [OF i] by (auto simp: url_digit_def list_all_iff)
qed

lemma base64_url_symbols:
  "c \<in> set (base64_url s) \<Longrightarrow> \<exists>n. c = url_digit n"
  by (induction s rule: base64_url.induct) (auto simp: Let_def)

lemma byte_parts:
  fixes a b c :: nat
  assumes "a < 256" "b < 256" "c < 256"
  shows "(a * 65536 + b * 256 + c) div 65536 = a" "(a * 65536 + b * 256 + c) div 256 mod 256 = b"
    "(a * 65536 + b * 256 + c) mod 256 = c"
proof -
  have n: "a * 65536 + b * 256 + c = c + 256 * (b + 256 * a)"
    by simp
  have "(c + 256 * (b + 256 * a)) div 256 = b + 256 * a" "(b + 256 * a) div 256 = a"
    using assms(2,3) by simp_all
  moreover have "(c + 256 * (b + 256 * a)) mod 256 = c mod 256" "(b + 256 * a) mod 256 = b mod 256"
    by (rule mod_mult_self2)+
  ultimately show "(a * 65536 + b * 256 + c) div 65536 = a" "(a * 65536 + b * 256 + c) div 256 mod 256 = b"
      "(a * 65536 + b * 256 + c) mod 256 = c"
    unfolding n using div_mult2_eq [of "c + 256 * (b + 256 * a)" 256 256] assms(2,3) by simp_all
qed

lemma quantum_bytes [simp]:
  "char_of (quantum a b c div 65536) = a" "char_of (quantum a b c div 256 mod 256) = b"
  "char_of (quantum a b c mod 256) = c" "char_of (quantum a b c div 256) = b" "char_of (quantum a b c) = c"
proof -
  have n: "quantum a b c div 65536 = of_char a" "quantum a b c div 256 mod 256 = of_char b"
      "quantum a b c mod 256 = of_char c"
    using byte_parts [of "of_char a" "of_char b" "of_char c"] by (simp_all add: quantum_def)
  have m: "char_of (k mod 256) = char_of k" for k :: nat
    by simp
  show "char_of (quantum a b c div 65536) = a" "char_of (quantum a b c div 256 mod 256) = b"
      "char_of (quantum a b c mod 256) = c" "char_of (quantum a b c div 256) = b" "char_of (quantum a b c) = c"
    unfolding n m [of "quantum a b c div 256", symmetric] m [of "quantum a b c", symmetric] by simp_all
qed

lemma quantum_bound: "quantum a b c < 16777216"
  using nat_of_char_less_256 [of a] nat_of_char_less_256 [of b] nat_of_char_less_256 [of c]
  unfolding quantum_def by linarith

lemma sextets_split:
  "n < 16777216 \<Longrightarrow>
     sextets (n div 262144 mod 64) (n div 4096 mod 64) (n div 64 mod 64) (n mod 64) = n"
proof -
  assume "n < 16777216"
  then have "n div 262144 mod 64 = n div 262144"
    by simp
  moreover have "n div 4096 = 64 * (n div 262144) + n div 4096 mod 64"
      "n div 64 = 64 * (n div 4096) + n div 64 mod 64" "n = 64 * (n div 64) + n mod 64"
    using div_mult2_eq [of n 4096 64] div_mult2_eq [of n 64 64] by simp_all
  ultimately show ?thesis
    unfolding sextets_def by linarith
qed

lemma quantum_zeros: "quantum a b (CHR 0x00) mod 64 = 0" "quantum a (CHR 0x00) (CHR 0x00) div 64 mod 64 = 0"
proof -
  have "quantum a b (CHR 0x00) = 64 * (1024 * of_char a + 4 * of_char b)"
      "quantum a (CHR 0x00) (CHR 0x00) = 64 * (64 * (16 * of_char a))"
    by (simp_all add: quantum_def)
  then show "quantum a b (CHR 0x00) mod 64 = 0" "quantum a (CHR 0x00) (CHR 0x00) div 64 mod 64 = 0"
    by (metis mod_mult_self1_is_0, metis mod_mult_self1_is_0 nonzero_mult_div_cancel_left zero_neq_numeral)
qed

lemma quanta_base64_url: "quanta (map (\<lambda>c. the (url_val c)) (base64_url s)) = Some s"
proof (induction s rule: base64_url.induct)
  case (2 a b)
  then show ?case
    using sextets_split [OF quantum_bound, of a b "CHR 0x00"]
    by (simp add: Let_def url_digit_facts quantum_zeros)
next
  case (3 a)
  then show ?case
    using sextets_split [OF quantum_bound, of a "CHR 0x00" "CHR 0x00"]
    by (simp add: Let_def url_digit_facts quantum_zeros)
qed (simp_all add: Let_def url_digit_facts sextets_split [OF quantum_bound])

lemma base64_url_decode_encode: "base64_url_decode (base64_url s) = Some s"
proof -
  have "\<not> ascii_graph (CHR 0x0A)" "\<not> ascii_graph (CHR 0x0D)"
    by (simp_all add: ascii_graph_def)
  then have "list_all (\<lambda>c. c \<noteq> CHR 0x0A \<and> c \<noteq> CHR 0x0D \<and> url_val c \<noteq> None) (base64_url s)"
    using url_digit_facts(1,2) unfolding list_all_iff by (metis base64_url_symbols option.distinct(1))
  then show ?thesis
    by (simp add: base64_url_decode_def Let_def quanta_base64_url list_all_iff filter_True)
qed

section \<open>Splitting at a byte\<close>

fun split_on :: "char \<Rightarrow> string \<Rightarrow> string list" where
  "split_on sep [] = [[]]"
| "split_on sep (c # s) =
     (if c = sep then [] # split_on sep s
      else (case split_on sep s of [] \<Rightarrow> [[c]] | w # ws \<Rightarrow> (c # w) # ws))"

lemma split_on_none: "sep \<notin> set s \<Longrightarrow> split_on sep s = [s]"
  by (induction s) auto

lemma split_on_append: "sep \<notin> set s \<Longrightarrow> split_on sep (s @ sep # t) = s # split_on sep t"
  by (induction s) auto

lemma split_on_Join: "split_on sep s = ws \<Longrightarrow> s = Join ws [sep]"
proof (induction s arbitrary: ws)
  case (Cons c s)
  then show ?case
    by (cases "split_on sep s") (auto split: if_split_asm simp: neq_Nil_conv Join_Cons)
qed simp

lemma base64_url_no_dot: "CHR ''.'' \<notin> set (base64_url s)"
  using base64_url_symbols url_digit_facts(3) by metis

end
