(* ===== verification/Text.thy ===== *)
theory Text
  imports Decoding
begin

text \<open>
  Further functions of Go's packages \<open>strings\<close>, \<open>unicode/utf8\<close> and \<open>encoding/json\<close> on byte strings
  that the catalog, its product contracts and the storefront use.
\<close>

section \<open>Strings\<close>

definition TrimSuffix :: "string \<Rightarrow> string \<Rightarrow> string" where
  "TrimSuffix s p = (if HasSuffix s p then take (length s - length p) s else s)"

text \<open>\<open>utf8.RuneCountInString\<close>: an ill-formed byte counts as one rune.\<close>

function RuneCount :: "string \<Rightarrow> nat" where
  "RuneCount s = (if s = [] then 0 else Suc (RuneCount (drop (max 1 (utf8_len s)) s)))"
  by pat_completeness auto
termination
  by (relation "measure length") auto

declare RuneCount.simps [simp del]

lemma RuneCount_Nil [simp]: "RuneCount [] = 0"
  by (simp add: RuneCount.simps)

lemma RuneCount_le: "RuneCount s \<le> length s"
proof (induction s rule: RuneCount.induct)
  case (1 s)
  show ?case
  proof (cases s)
    case (Cons c r)
    with 1 have "RuneCount (drop (max 1 (utf8_len s)) s) \<le> length (drop (max 1 (utf8_len s)) s)"
      by simp
    also have "\<dots> \<le> length (drop 1 s)"
      unfolding length_drop by (intro diff_le_mono2) simp
    finally show ?thesis
      using Cons by (subst RuneCount.simps) simp
  qed simp
qed

text \<open>The length of the white-space rune a string starts with, or 0.\<close>

definition space_len :: "string \<Rightarrow> nat" where
  "space_len s = (case find (HasPrefix s) space_runes of None \<Rightarrow> 0 | Some w \<Rightarrow> length w)"

text \<open>
  \<open>strings.Fields\<close>: the maximal runs of runes that are not white space. A white-space rune starts
  with a byte that is never inside another rune, so the scan may go byte by byte.
\<close>

function split_spaces :: "string \<Rightarrow> string \<Rightarrow> string list" where
  "split_spaces acc [] = [acc]"
| "split_spaces acc (c # s) =
     (if space_len (c # s) = 0 then split_spaces (acc @ [c]) s
      else acc # split_spaces [] (drop (space_len (c # s) - 1) s))"
  by pat_completeness auto
termination
  by (relation "measure (\<lambda>(acc, s). length s)") auto

definition Fields :: "string \<Rightarrow> string list" where
  "Fields s = filter (\<lambda>w. w \<noteq> []) (split_spaces [] s)"

lemma Fields_Nil [simp]: "Fields [] = []"
  by (simp add: Fields_def)

lemma Fields_nonempty: "w \<in> set (Fields s) \<Longrightarrow> w \<noteq> []"
  by (simp add: Fields_def)

text \<open>
  \<open>strings.ToLower\<close> where only its ASCII letters matter: besides A to Z only U+0130 and U+212A have
  an ASCII lower case. The bytes of the other runes are left as they are; like their lower case they
  are not ASCII.
\<close>

fun lower_text :: "string \<Rightarrow> string" where
  "lower_text [] = []"
| "lower_text (a # s) =
     (if HasPrefix (a # s) [CHR 0xC4, CHR 0xB0] then CHR ''i'' # lower_text (drop 1 s)
      else if HasPrefix (a # s) [CHR 0xE2, CHR 0x84, CHR 0xAA] then CHR ''k'' # lower_text (drop 2 s)
      else (if byte_in a 65 90 then char_of (of_char a + 32 :: nat) else a) # lower_text s)"

text \<open>
  Case folding as \<open>strings.EqualFold\<close> and \<open>encoding/json\<close> compare a text with ASCII letters: of the
  non-ASCII runes only U+017F and U+212A fold to ASCII letters.
\<close>

fun fold_name :: "string \<Rightarrow> string" where
  "fold_name [] = []"
| "fold_name (a # s) =
     (if HasPrefix (a # s) [CHR 0xC5, CHR 0xBF] then CHR ''s'' # fold_name (drop 1 s)
      else if HasPrefix (a # s) [CHR 0xE2, CHR 0x84, CHR 0xAA] then CHR ''k'' # fold_name (drop 2 s)
      else (if byte_in a 65 90 then char_of (of_char a + 32 :: nat) else a) # fold_name s)"

section \<open>Embedding encoded JSON\<close>

text \<open>
  \<open>json.Marshal\<close> of a value whose \<open>MarshalJSON\<close> returns \<open>raw\<close>: the text must be one JSON value; it is
  compacted, and \<open><\<close>, \<open>>\<close>, \<open>&\<close>, U+2028 and U+2029 are escaped. \<open>in_text\<close> says whether the scan is
  inside a string literal.
\<close>

fun compact_json :: "bool \<Rightarrow> string \<Rightarrow> string" where
  "compact_json in_text [] = []"
| "compact_json in_text (c # s) =
     (if c \<in> set ''<>&'' then CHR 0x5C # ''u00'' @ hex_encode [c] @ compact_json in_text s
      else if HasPrefix (c # s) [CHR 0xE2, CHR 0x80, CHR 0xA8]
        then CHR 0x5C # ''u2028'' @ compact_json in_text (drop 2 s)
      else if HasPrefix (c # s) [CHR 0xE2, CHR 0x80, CHR 0xA9]
        then CHR 0x5C # ''u2029'' @ compact_json in_text (drop 2 s)
      else if in_text \<and> c = CHR 0x5C then
        (case s of [] \<Rightarrow> [c] | d # r \<Rightarrow> c # d # compact_json in_text r)
      else if c = CHR 0x22 then c # compact_json (\<not> in_text) s
      else if \<not> in_text \<and> json_space c then compact_json in_text s
      else c # compact_json in_text s)"

abbreviation JRaw :: "string \<Rightarrow> json" where
  "JRaw text \<equiv> JNumber text"

definition marshal_raw :: "string \<Rightarrow> json result" where
  "marshal_raw raw =
     (case json_unmarshal raw of
        None \<Rightarrow> Inl (Err ''json.MarshalerError'')
      | Some _ \<Rightarrow> Inr (JRaw (compact_json False raw)))"

end
