(* ===== verification/ApprovalToken.thy ===== *)
theory ApprovalToken
  imports Base64Url Intents Text
begin

text \<open>
  \<open>internal/approvals/token.go\<close>: the signed approval tokens. A token is a JSON document of claims
  and its HMAC-SHA256 tag, both in unpadded URL-safe base64 and joined by a dot.
\<close>

abbreviation ErrApprovalTokenInvalid :: go_error where
  "ErrApprovalTokenInvalid \<equiv> Err ''approvals.ErrApprovalTokenInvalid''"

abbreviation ErrApprovalTokenExpired :: go_error where
  "ErrApprovalTokenExpired \<equiv> Err ''approvals.ErrApprovalTokenExpired''"

section \<open>Random invitation tokens\<close>

text \<open>\<open>random\<close> is what \<open>io.ReadFull\<close> delivers for 32 bytes.\<close>

definition NewToken :: "string result \<Rightarrow> string result" where
  "NewToken random = rbind random (\<lambda>randomBytes. Inr (base64_url randomBytes))"

definition hashToken :: "string \<Rightarrow> string" where
  "hashToken token = hex_encode (Sum256 token)"

section \<open>Claims\<close>

record ApprovalTokenClaims =
  ac_Version :: string
  ac_SessionID :: ID
  ac_IntentID :: ID
  ac_IntentHash :: SHA256Digest
  ac_ExpiresAt :: instant

definition claims_json :: "ApprovalTokenClaims \<Rightarrow> json" where
  "claims_json c =
     JObject [(''version'', JString (ac_Version c)), (''sessionId'', JString (ac_SessionID c)),
       (''intentId'', JString (ac_IntentID c)), (''intentHash'', JString (ac_IntentHash c)),
       (''expiresAt'', JString (FormatRFC3339Nano (ac_ExpiresAt c)))]"

text \<open>
  \<open>json.Unmarshal\<close> into the struct: members are matched to fields up to case folding (of the
  non-ASCII runes only U+017F and U+212A fold to ASCII letters), unknown members are skipped, a later
  member overwrites an earlier one, \<open>null\<close> leaves a plain string field alone, and a value of
  another type is an error. The hash and the timestamp decode through their own \<open>UnmarshalJSON\<close>,
  for which \<open>null\<close> is the empty string.
\<close>

fun json_text :: "string \<Rightarrow> json \<Rightarrow> string option" where
  "json_text old (JString s) = Some s"
| "json_text old JNull = Some old"
| "json_text old _ = None"

definition Digest_UnmarshalJSON :: "json \<Rightarrow> SHA256Digest option" where
  "Digest_UnmarshalJSON v =
     Option.bind (json_text [] v)
       (\<lambda>raw. case ParseSHA256Digest raw of Inl _ \<Rightarrow> None | Inr d \<Rightarrow> Some d)"

definition Timestamp_UnmarshalJSON :: "json \<Rightarrow> instant option" where
  "Timestamp_UnmarshalJSON v =
     Option.bind (json_text [] v)
       (\<lambda>raw. case ParseTimestamp raw of Inl _ \<Rightarrow> None | Inr t \<Rightarrow> Some t)"

definition claims_member :: "string \<times> json \<Rightarrow> ApprovalTokenClaims \<Rightarrow> ApprovalTokenClaims option" where
  "claims_member m c =
     (let k = fold_name (fst m); v = snd m
      in if k = ''version'' then map_option (\<lambda>s. c\<lparr>ac_Version := s\<rparr>) (json_text (ac_Version c) v)
         else if k = ''sessionid'' then map_option (\<lambda>s. c\<lparr>ac_SessionID := s\<rparr>) (json_text (ac_SessionID c) v)
         else if k = ''intentid'' then map_option (\<lambda>s. c\<lparr>ac_IntentID := s\<rparr>) (json_text (ac_IntentID c) v)
         else if k = ''intenthash'' then
           map_option (\<lambda>d. c\<lparr>ac_IntentHash := d\<rparr>) (Digest_UnmarshalJSON v)
         else if k = ''expiresat'' then
           map_option (\<lambda>t. c\<lparr>ac_ExpiresAt := t\<rparr>) (Timestamp_UnmarshalJSON v)
         else Some c)"

fun claims_members :: "(string \<times> json) list \<Rightarrow> ApprovalTokenClaims \<Rightarrow> ApprovalTokenClaims option" where
  "claims_members [] c = Some c"
| "claims_members (m # ms) c = Option.bind (claims_member m c) (claims_members ms)"

definition no_claims :: ApprovalTokenClaims where
  "no_claims = \<lparr>ac_Version = [], ac_SessionID = [], ac_IntentID = [], ac_IntentHash = [], ac_ExpiresAt = 0\<rparr>"

definition unmarshal_claims :: "string \<Rightarrow> ApprovalTokenClaims option" where
  "unmarshal_claims payload =
     Option.bind (json_unmarshal payload) (\<lambda>v.
       case v of JObject ms \<Rightarrow> claims_members ms no_claims | JNull \<Rightarrow> Some no_claims | _ \<Rightarrow> None)"

section \<open>Signer\<close>

record ApprovalTokenSigner =
  ts_secret :: string

abbreviation "minimumApprovalSecretBytes \<equiv> 32 :: nat"

abbreviation "approvalTokenVersion \<equiv> ''1''"

definition NewApprovalTokenSigner :: "string \<Rightarrow> ApprovalTokenSigner result" where
  "NewApprovalTokenSigner secret =
     reject_if (length secret < minimumApprovalSecretBytes)
       (validation ''approvalTokenSecret'' ''length'' ''must contain at least 32 bytes'')
       (Inr \<lparr>ts_secret = secret\<rparr>)"

definition token_sign :: "ApprovalTokenSigner \<Rightarrow> string \<Rightarrow> string" where
  "token_sign s payload = hmac_sha256 (ts_secret s) payload"

definition Issue ::
  "ApprovalTokenSigner \<Rightarrow> ID \<Rightarrow> ID \<Rightarrow> SHA256Digest \<Rightarrow> instant \<Rightarrow> string \<times> string" where
  "Issue s sessionID intentID intentHash expiresAt =
     (let claims = \<lparr>ac_Version = approvalTokenVersion, ac_SessionID = sessionID, ac_IntentID = intentID,
                    ac_IntentHash = intentHash, ac_ExpiresAt = expiresAt\<rparr>;
          payloadSegment = base64_url (json_encode (claims_json claims));
          signatureSegment = base64_url (token_sign s payloadSegment);
          token = payloadSegment @ ''.'' @ signatureSegment
      in (token, hashToken token))"

definition verifyClaims :: "ApprovalTokenSigner \<Rightarrow> string \<Rightarrow> instant \<Rightarrow> ApprovalTokenClaims result" where
  "verifyClaims s token now =
     (case split_on (CHR ''.'') token of
        [payloadSegment, signatureSegment] \<Rightarrow>
          reject_if (base64_url_decode signatureSegment \<noteq> Some (token_sign s payloadSegment))
            ErrApprovalTokenInvalid
          (case base64_url_decode payloadSegment of
             None \<Rightarrow> Inl ErrApprovalTokenInvalid
           | Some payload \<Rightarrow>
               (case unmarshal_claims payload of
                  None \<Rightarrow> Inl ErrApprovalTokenInvalid
                | Some claims \<Rightarrow>
                    reject_if (ac_Version claims \<noteq> approvalTokenVersion) ErrApprovalTokenInvalid
                    (reject_if (\<not> now < ac_ExpiresAt claims) ErrApprovalTokenExpired (Inr claims))))
      | _ \<Rightarrow> Inl ErrApprovalTokenInvalid)"

definition Token_Verify ::
  "ApprovalTokenSigner \<Rightarrow> string \<Rightarrow> ID \<Rightarrow> ID \<Rightarrow> SHA256Digest \<Rightarrow> instant \<Rightarrow> ApprovalTokenClaims result" where
  "Token_Verify s token expectedSessionID expectedIntentID expectedIntentHash now =
     rbind (verifyClaims s token now) (\<lambda>claims.
       reject_if (ac_SessionID claims \<noteq> expectedSessionID \<or> ac_IntentID claims \<noteq> expectedIntentID
                  \<or> ac_IntentHash claims \<noteq> expectedIntentHash) ErrApprovalTokenInvalid
         (Inr claims))"

definition VerifyForIntent ::
  "ApprovalTokenSigner \<Rightarrow> string \<Rightarrow> ID \<Rightarrow> SHA256Digest \<Rightarrow> instant \<Rightarrow> ApprovalTokenClaims result" where
  "VerifyForIntent s token expectedIntentID expectedIntentHash now =
     rbind (verifyClaims s token now) (\<lambda>claims.
       reject_if (ac_IntentID claims \<noteq> expectedIntentID \<or> ac_IntentHash claims \<noteq> expectedIntentHash)
         ErrApprovalTokenInvalid (Inr claims))"

section \<open>Issued tokens verify\<close>

lemma claims_fold:
  "fold_name ''version'' = ''version''" "fold_name ''sessionId'' = ''sessionid''"
  "fold_name ''intentId'' = ''intentid''" "fold_name ''intentHash'' = ''intenthash''"
  "fold_name ''expiresAt'' = ''expiresat''"
  by code_simp+

declare fold_name.simps [simp del]

lemma claims_member_simps:
  "claims_member (''version'', JString s) c = Some (c\<lparr>ac_Version := s\<rparr>)"
  "claims_member (''sessionId'', JString s) c = Some (c\<lparr>ac_SessionID := s\<rparr>)"
  "claims_member (''intentId'', JString s) c = Some (c\<lparr>ac_IntentID := s\<rparr>)"
  "claims_member (''intentHash'', v) c = map_option (\<lambda>d. c\<lparr>ac_IntentHash := d\<rparr>) (Digest_UnmarshalJSON v)"
  "claims_member (''expiresAt'', v) c = map_option (\<lambda>t. c\<lparr>ac_ExpiresAt := t\<rparr>) (Timestamp_UnmarshalJSON v)"
  by (simp_all add: claims_member_def claims_fold Let_def)

lemma valid_utf8_ascii: "list_all (\<lambda>c. (of_char c :: nat) < 0x80) s \<Longrightarrow> valid_utf8 s"
proof (induction s)
  case (Cons a s)
  then have "utf8_len (a # s) = Suc 0"
    by (simp only: utf8_len_1 list.pred_inject)
  with Cons show ?case
    by (simp add: valid_utf8.simps del: utf8_len.simps)
qed simp

lemma lower_hex_ascii: "list_all lower_hex s \<Longrightarrow> list_all (\<lambda>c. (of_char c :: nat) < 0x80) s"
proof -
  have "list_all (\<lambda>c. (of_char c :: nat) < 0x80) ''0123456789abcdef''"
    by code_simp
  then show "list_all lower_hex s \<Longrightarrow> list_all (\<lambda>c. (of_char c :: nat) < 0x80) s"
    unfolding list_all_iff lower_hex_def by blast
qed

lemma format_ascii: "list_all (\<lambda>c. (of_char c :: nat) < 0x80) (FormatRFC3339Nano t)"
proof -
  have digits: "list_all (\<lambda>c. (of_char c :: nat) < 0x80) s" if "list_all is_digit s" for s
    using that by (auto simp: list_all_iff is_digit_def)
  have zeros: "list_all (\<lambda>c. (of_char c :: nat) < 0x80) (replicate k (CHR ''0''))" for k
    by (induction k) simp_all
  have pad: "list_all (\<lambda>c. (of_char c :: nat) < 0x80) (pad_digits w i)" for w i
    using digits [OF show_nat_digits] zeros by (simp add: pad_digits_def Let_def)
  have "list_all (\<lambda>c. (of_char c :: nat) < 0x80) (fraction n)" for n
    using pad [of 9 n] unfolding fraction_def list_all_iff
    by (auto dest!: set_dropWhileD)
  with pad show ?thesis
    by (simp add: FormatRFC3339Nano_def Let_def split: prod.split)
qed

definition plain_text :: "string \<Rightarrow> bool" where
  "plain_text s \<longleftrightarrow> list_all (\<lambda>c. (of_char c :: nat) < 0x80) s"

definition issuable :: "ID \<Rightarrow> ID \<Rightarrow> SHA256Digest \<Rightarrow> instant \<Rightarrow> bool" where
  "issuable sessionID intentID intentHash expiresAt \<longleftrightarrow>
     plain_text sessionID \<and> plain_text intentID \<and> sha256_digest intentHash
     \<and> 0 \<le> expiresAt \<and> expiresAt < year_10000"

lemma unmarshal_claims_json:
  assumes "issuable s i h t" "plain_text v1"
  shows "unmarshal_claims (json_encode (claims_json
           \<lparr>ac_Version = v1, ac_SessionID = s, ac_IntentID = i, ac_IntentHash = h, ac_ExpiresAt = t\<rparr>))
       = Some \<lparr>ac_Version = v1, ac_SessionID = s, ac_IntentID = i, ac_IntentHash = h, ac_ExpiresAt = t\<rparr>"
proof -
  let ?c = "\<lparr>ac_Version = v1, ac_SessionID = s, ac_IntentID = i, ac_IntentHash = h, ac_ExpiresAt = t\<rparr>"
  have v: "valid_utf8 v1" "valid_utf8 s" "valid_utf8 i" "valid_utf8 h" "valid_utf8 (FormatRFC3339Nano t)"
    using assms format_ascii valid_utf8_ascii lower_hex_ascii
    by (auto simp: issuable_def plain_text_def sha256_digest_def)
  have "list_all valid_utf8 [''version'', ''sessionId'', ''intentId'', ''intentHash'', ''expiresAt'']"
    by (simp add: valid_utf8_ascii)
  then have "json_wf (claims_json ?c)"
    using v by (simp add: claims_json_def)
  then have "json_unmarshal (json_encode (claims_json ?c)) = Some (claims_json ?c)"
    by (subst json_unmarshal_encode) (simp_all add: claims_json_def)
  moreover have "ParseTimestamp (FormatRFC3339Nano t) = Inr t" "ParseSHA256Digest h = Inr h"
    using assms ParseTimestamp_Format by (simp_all add: issuable_def ParseSHA256Digest_def)
  ultimately show ?thesis
    by (simp add: unmarshal_claims_def) (simp add: claims_json_def claims_member_simps no_claims_def
        Digest_UnmarshalJSON_def Timestamp_UnmarshalJSON_def)
qed

lemma verifyClaims_Issue:
  assumes "issuable s i h t"
  shows "verifyClaims sg (fst (Issue sg s i h t)) now =
     (if now < t then Inr \<lparr>ac_Version = ''1'', ac_SessionID = s, ac_IntentID = i, ac_IntentHash = h,
                          ac_ExpiresAt = t\<rparr>
      else Inl ErrApprovalTokenExpired)"
proof -
  let ?p = "base64_url (json_encode (claims_json
      \<lparr>ac_Version = ''1'', ac_SessionID = s, ac_IntentID = i, ac_IntentHash = h, ac_ExpiresAt = t\<rparr>))"
  have "split_on (CHR ''.'') (fst (Issue sg s i h t)) = [?p, base64_url (token_sign sg ?p)]"
    by (simp add: Issue_def Let_def split_on_append split_on_none base64_url_no_dot)
  then show ?thesis
    using unmarshal_claims_json [OF assms, of "''1''"]
    by (simp add: verifyClaims_def base64_url_decode_encode plain_text_def reject_if_def)
qed

lemma split_on_no_sep: "w \<in> set (split_on sep s) \<Longrightarrow> sep \<notin> set w"
proof (induction s arbitrary: w)
  case (Cons c s)
  show ?case
  proof (cases "c = sep")
    case True
    with Cons show ?thesis by auto
  next
    case False
    show ?thesis
    proof (cases "split_on sep s")
      case (Cons u us)
      then have "sep \<notin> set u" "w \<in> set us \<Longrightarrow> sep \<notin> set w"
        using Cons.IH [of u] Cons.IH [of w] by simp_all
      then show ?thesis
        using Cons.prems Cons False by auto
    qed (use Cons.prems False in simp)
  qed
qed simp

text \<open>What an accepted token carries.\<close>

lemma verifyClaims_signed:
  assumes "verifyClaims sg token now = Inr claims"
  obtains p sig payload where "token = p @ ''.'' @ sig" "CHR ''.'' \<notin> set p"
    "base64_url_decode sig = Some (hmac_sha256 (ts_secret sg) p)" "base64_url_decode p = Some payload"
    "unmarshal_claims payload = Some claims" "ac_Version claims = ''1''" "now < ac_ExpiresAt claims"
proof -
  obtain p sig where split: "split_on (CHR ''.'') token = [p, sig]"
    using assms by (auto simp: verifyClaims_def split: list.split_asm)
  with assms obtain payload where "base64_url_decode p = Some payload"
      "unmarshal_claims payload = Some claims"
      "base64_url_decode sig = Some (hmac_sha256 (ts_secret sg) p)" "ac_Version claims = ''1''"
      "now < ac_ExpiresAt claims"
    by (simp add: verifyClaims_def token_sign_def result_simps split: option.split_asm)
  moreover have "token = p @ ''.'' @ sig"
    using split_on_Join [OF split] by simp
  moreover have "CHR ''.'' \<notin> set p"
    by (rule split_on_no_sep [of p _ token]) (simp add: split)
  ultimately show thesis
    using that by blast
qed

end
