(* ===== verification/Approvals.thy ===== *)
theory Approvals
  imports ApprovalToken Repositories
begin

text \<open>
  The package \<open>internal/approvals\<close>: the approval session that binds two human decisions to one
  intent hash (\<open>service.go\<close>, \<open>models.go\<close>), its persistence (\<open>persistence.go\<close> and the in-memory
  repository) and the service. \<open>equalFold\<close> stands for \<open>strings.EqualFold\<close>, whose Unicode tables are
  data of the library; \<open>tokens\<close> is the token generator, a function from the number of the call to its
  result.
\<close>

section \<open>Data\<close>

abbreviation "requiredApprovalsForHackathon \<equiv> 2 :: int"
abbreviation "maximumApproverLabelLength \<equiv> 80 :: nat"

abbreviation "ErrInvitationInvalid \<equiv> Err ''approvals.ErrInvitationInvalid''"
abbreviation "ErrInvitationUsed \<equiv> Err ''approvals.ErrInvitationUsed''"
abbreviation "ErrSessionExpired \<equiv> Err ''approvals.ErrSessionExpired''"
abbreviation "ErrSessionResolved \<equiv> Err ''approvals.ErrSessionResolved''"
abbreviation "ErrApprovalNotRequired \<equiv> Err ''approvals.ErrApprovalNotRequired''"
abbreviation "ErrDuplicateInvitation \<equiv> Err ''token generator produced a duplicate invitation''"

datatype SessionStatus =
    SessionStatusPending | SessionStatusApproved | SessionStatusVetoed | SessionStatusExpired
  | SessionStatusOther string

datatype Decision = DecisionApprove | DecisionVeto | DecisionOther string

record SessionParams =
  sp_SessionID :: ID
  sp_IntentID :: ID
  sp_IntentHash :: SHA256Digest
  sp_ApproverLabels :: "string list"
  sp_CreatedAt :: instant
  sp_ExpiresAt :: instant

record InvitationGrant =
  gr_Label :: string
  gr_Token :: string
  gr_ExpiresAt :: instant

record Invitation =
  iv_Label :: string
  iv_TokenHash :: string
  iv_Decision :: "Decision option"
  iv_DecidedAt :: "instant option"

record DecisionResult =
  dr_Status :: SessionStatus
  dr_ApprovalToken :: string

record Session =
  as_sessionID :: ID
  as_intentID :: ID
  as_intentHash :: SHA256Digest
  as_requiredApprovals :: int
  as_invitations :: "Invitation list"
  as_invitationByHash :: "string \<rightharpoonup> nat"
  as_status :: SessionStatus
  as_approvalTokenHash :: string
  as_createdAt :: instant
  as_updatedAt :: instant
  as_expiresAt :: instant
  as_version :: u64

section \<open>Creating a session\<close>

definition validateSessionParams ::
  "(string \<Rightarrow> bool) \<Rightarrow> (string \<Rightarrow> string \<Rightarrow> bool) \<Rightarrow> SessionParams \<Rightarrow> (nat \<Rightarrow> string result) option
     \<Rightarrow> validation_error list" where
  "validateSessionParams ulid equalFold p tokens =
     add_if (\<not> is_ok (ParseID ulid (sp_SessionID p) ApprovalIDPrefix))
       (NewValidationError ''sessionId'' ''format'' ''must be an approval-session identifier'')
     @ add_if (\<not> is_ok (ParseID ulid (sp_IntentID p) IntentIDPrefix))
         (NewValidationError ''intentId'' ''format'' ''must be a purchase-intent identifier'')
     @ add_if (\<not> is_ok (ParseSHA256Digest (sp_IntentHash p)))
         (NewValidationError ''intentHash'' ''format'' ''must be a SHA-256 digest'')
     @ (case sp_ApproverLabels p of
          [label1, label2] \<Rightarrow>
            (let firstLabel = TrimSpace label1; secondLabel = TrimSpace label2
             in if firstLabel = [] \<or> secondLabel = [] \<or> maximumApproverLabelLength < length firstLabel
                   \<or> maximumApproverLabelLength < length secondLabel
                then [NewValidationError ''approvers'' ''length''
                        ''each approver label must contain 1-80 characters'']
                else add_if (equalFold firstLabel secondLabel)
                       (NewValidationError ''approvers'' ''unique'' ''approver labels must be unique''))
        | _ \<Rightarrow> [NewValidationError ''approvers'' ''count'' ''must contain exactly two approvers''])
     @ add_if (sp_CreatedAt p = 0) (NewValidationError ''createdAt'' ''required'' ''is required'')
     @ add_if (sp_ExpiresAt p = 0 \<or> \<not> sp_CreatedAt p < sp_ExpiresAt p)
         (NewValidationError ''expiresAt'' ''chronology'' ''must occur after creation'')
     @ add_if (tokens = None) (NewValidationError ''tokenGenerator'' ''required'' ''is required'')"

text \<open>The loop over the labels; \<open>n\<close> counts the calls of the generator.\<close>

fun add_invitations ::
  "(nat \<Rightarrow> string result) \<Rightarrow> instant \<Rightarrow> nat \<Rightarrow> string list \<Rightarrow> Session \<times> InvitationGrant list
     \<Rightarrow> (Session \<times> InvitationGrant list) result" where
  "add_invitations gen expiresAt n [] acc = Inr acc"
| "add_invitations gen expiresAt n (label # labels) (s, grants) =
     rbind (gen n) (\<lambda>token.
       let tokenHash = hashToken token in
       reject_if (as_invitationByHash s tokenHash \<noteq> None) ErrDuplicateInvitation
       (add_invitations gen expiresAt (Suc n) labels
         (s\<lparr>as_invitationByHash := (as_invitationByHash s)(tokenHash \<mapsto> length (as_invitations s)),
            as_invitations := as_invitations s @
              [\<lparr>iv_Label = TrimSpace label, iv_TokenHash = tokenHash, iv_Decision = None,
                iv_DecidedAt = None\<rparr>]\<rparr>,
          grants @ [\<lparr>gr_Label = TrimSpace label, gr_Token = token, gr_ExpiresAt = expiresAt\<rparr>])))"

definition NewSession ::
  "(string \<Rightarrow> bool) \<Rightarrow> (string \<Rightarrow> string \<Rightarrow> bool) \<Rightarrow> SessionParams \<Rightarrow> (nat \<Rightarrow> string result) option
     \<Rightarrow> (Session \<times> InvitationGrant list) result" where
  "NewSession ulid equalFold p tokens =
     (let errs = validateSessionParams ulid equalFold p tokens in
      if errs \<noteq> [] then Inl (ValidationErrs errs)
      else case tokens of
        None \<Rightarrow> Inl (Panic ''nil token generator'')
      | Some gen \<Rightarrow>
          add_invitations gen (sp_ExpiresAt p) 0 (sp_ApproverLabels p)
            (\<lparr>as_sessionID = sp_SessionID p, as_intentID = sp_IntentID p,
              as_intentHash = sp_IntentHash p, as_requiredApprovals = requiredApprovalsForHackathon,
              as_invitations = [], as_invitationByHash = Map.empty,
              as_status = SessionStatusPending, as_approvalTokenHash = [],
              as_createdAt = sp_CreatedAt p, as_updatedAt = sp_CreatedAt p,
              as_expiresAt = sp_ExpiresAt p, as_version = 1\<rparr>, []))"

section \<open>Deciding and expiring\<close>

definition approvalCount :: "Session \<Rightarrow> int" where
  "approvalCount s =
     int (length (filter (\<lambda>iv. iv_Decision iv = Some DecisionApprove) (as_invitations s)))"

definition Session_Expire :: "Session \<Rightarrow> instant \<Rightarrow> Session \<times> bool" where
  "Session_Expire s now =
     (if as_status s \<noteq> SessionStatusPending \<or> now < as_expiresAt s then (s, False)
      else (s\<lparr>as_status := SessionStatusExpired, as_updatedAt := now,
              as_version := as_version s + 1\<rparr>, True))"

definition record_decision :: "Session \<Rightarrow> nat \<Rightarrow> Decision \<Rightarrow> instant \<Rightarrow> Session" where
  "record_decision s i decision decidedAt =
     s\<lparr>as_invitations :=
          (as_invitations s)[i := (as_invitations s ! i)\<lparr>iv_Decision := Some decision,
                                                       iv_DecidedAt := Some decidedAt\<rparr>],
       as_updatedAt := decidedAt, as_version := as_version s + 1\<rparr>"

text \<open>The method changes its receiver, also on some of the error paths.\<close>

definition Session_Decide ::
  "Session \<Rightarrow> string \<Rightarrow> Decision \<Rightarrow> instant \<Rightarrow> ApprovalTokenSigner option
     \<Rightarrow> Session \<times> DecisionResult result" where
  "Session_Decide s rawInvitationToken decision decidedAt signer =
     (if as_status s \<noteq> SessionStatusPending then (s, Inl ErrSessionResolved)
      else let (s1, expired) = Session_Expire s decidedAt in
      if expired then (s1, Inl ErrSessionExpired)
      else if decision \<noteq> DecisionApprove \<and> decision \<noteq> DecisionVeto
      then (s1, Inl (validation ''decision'' ''supported'' ''must be approve or veto''))
      else case signer of
        None \<Rightarrow> (s1, Inl (validation ''approvalTokenSigner'' ''required'' ''is required''))
      | Some sg \<Rightarrow>
        (case as_invitationByHash s1 (hashToken rawInvitationToken) of
           None \<Rightarrow> (s1, Inl ErrInvitationInvalid)
         | Some i \<Rightarrow>
           if length (as_invitations s1) \<le> i then (s1, Inl (Panic ''index out of range''))
           else if iv_Decision (as_invitations s1 ! i) \<noteq> None then (s1, Inl ErrInvitationUsed)
           else let s2 = record_decision s1 i decision decidedAt in
           if decision = DecisionVeto
           then let s3 = s2\<lparr>as_status := SessionStatusVetoed\<rparr>
                in (s3, Inr \<lparr>dr_Status = as_status s3, dr_ApprovalToken = []\<rparr>)
           else if approvalCount s2 < as_requiredApprovals s2
           then (s2, Inr \<lparr>dr_Status = as_status s2, dr_ApprovalToken = []\<rparr>)
           else let (token, tokenHash) =
                      Issue sg (as_sessionID s2) (as_intentID s2) (as_intentHash s2) (as_expiresAt s2);
                    s3 = s2\<lparr>as_status := SessionStatusApproved, as_approvalTokenHash := tokenHash\<rparr>
                in (s3, Inr \<lparr>dr_Status = as_status s3, dr_ApprovalToken = token\<rparr>)))"

definition MatchesApprovalToken :: "Session \<Rightarrow> string \<Rightarrow> bool" where
  "MatchesApprovalToken s token \<longleftrightarrow>
     as_approvalTokenHash s \<noteq> [] \<and> hashToken token = as_approvalTokenHash s"

section \<open>Persistence\<close>

record SessionSnapshot =
  ss_SessionID :: ID
  ss_IntentID :: ID
  ss_IntentHash :: SHA256Digest
  ss_RequiredApprovals :: int
  ss_Invitations :: "Invitation list"
  ss_Status :: SessionStatus
  ss_ApprovalTokenHash :: string
  ss_CreatedAt :: instant
  ss_UpdatedAt :: instant
  ss_ExpiresAt :: instant
  ss_Version :: u64

definition Session_Snapshot :: "Session \<Rightarrow> SessionSnapshot" where
  "Session_Snapshot s =
     \<lparr>ss_SessionID = as_sessionID s, ss_IntentID = as_intentID s, ss_IntentHash = as_intentHash s,
      ss_RequiredApprovals = as_requiredApprovals s, ss_Invitations = as_invitations s,
      ss_Status = as_status s, ss_ApprovalTokenHash = as_approvalTokenHash s,
      ss_CreatedAt = as_createdAt s, ss_UpdatedAt = as_updatedAt s, ss_ExpiresAt = as_expiresAt s,
      ss_Version = as_version s\<rparr>"

text \<open>The index from token hashes to positions, rebuilt by inserting the invitations in order.\<close>

fun index_invitations :: "nat \<Rightarrow> Invitation list \<Rightarrow> (string \<rightharpoonup> nat) \<Rightarrow> string \<rightharpoonup> nat" where
  "index_invitations n [] m = m"
| "index_invitations n (iv # ivs) m = index_invitations (Suc n) ivs (m(iv_TokenHash iv \<mapsto> n))"

definition Session_Restore :: "(string \<Rightarrow> bool) \<Rightarrow> SessionSnapshot \<Rightarrow> Session result" where
  "Session_Restore ulid x =
     (let errs =
        add_if (\<not> is_ok (ParseID ulid (ss_SessionID x) ApprovalIDPrefix))
          (NewValidationError ''sessionId'' ''format'' ''stored session ID is invalid'')
        @ add_if (\<not> is_ok (ParseID ulid (ss_IntentID x) IntentIDPrefix))
          (NewValidationError ''intentId'' ''format'' ''stored intent ID is invalid'')
        @ add_if (\<not> is_ok (ParseSHA256Digest (ss_IntentHash x)))
          (NewValidationError ''intentHash'' ''format'' ''stored intent hash is invalid'')
        @ add_if (ss_RequiredApprovals x \<noteq> requiredApprovalsForHackathon
                  \<or> int (length (ss_Invitations x)) \<noteq> requiredApprovalsForHackathon)
          (NewValidationError ''invitations'' ''count'' ''stored session must contain exactly two invitations'')
        @ add_if (ss_Version x = 0 \<or> ss_CreatedAt x = 0 \<or> ss_UpdatedAt x = 0 \<or> ss_ExpiresAt x = 0)
          (NewValidationError ''version'' ''persistence'' ''stored session metadata is invalid'')
      in if errs \<noteq> [] then Inl (ValidationErrs errs)
         else Inr \<lparr>as_sessionID = ss_SessionID x, as_intentID = ss_IntentID x,
                   as_intentHash = ss_IntentHash x, as_requiredApprovals = ss_RequiredApprovals x,
                   as_invitations = ss_Invitations x,
                   as_invitationByHash = index_invitations 0 (ss_Invitations x) Map.empty,
                   as_status = ss_Status x, as_approvalTokenHash = ss_ApprovalTokenHash x,
                   as_createdAt = ss_CreatedAt x, as_updatedAt = ss_UpdatedAt x,
                   as_expiresAt = ss_ExpiresAt x, as_version = ss_Version x\<rparr>)"

record ApprovalRepository =
  ar_sessions :: "ID \<rightharpoonup> Session"

definition ApprovalRepo_Create :: "ApprovalRepository \<Rightarrow> Session \<Rightarrow> ApprovalRepository result" where
  "ApprovalRepo_Create r s =
     reject_if (ar_sessions r (as_sessionID s) \<noteq> None) ErrAlreadyExists
       (Inr (r\<lparr>ar_sessions := (ar_sessions r)(as_sessionID s \<mapsto> s)\<rparr>))"

definition ApprovalRepo_Get :: "ApprovalRepository \<Rightarrow> ID \<Rightarrow> Session result" where
  "ApprovalRepo_Get r k = (case ar_sessions r k of None \<Rightarrow> Inl ErrNotFound | Some s \<Rightarrow> Inr s)"

definition ApprovalRepo_Update :: "ApprovalRepository \<Rightarrow> Session \<Rightarrow> u64 \<Rightarrow> ApprovalRepository result" where
  "ApprovalRepo_Update r s expectedVersion =
     (case ar_sessions r (as_sessionID s) of
        None \<Rightarrow> Inl ErrNotFound
      | Some stored \<Rightarrow>
          reject_if (as_version stored \<noteq> expectedVersion \<or> as_version s \<noteq> expectedVersion + 1)
            ErrConditionFailed
            (Inr (r\<lparr>ar_sessions := (ar_sessions r)(as_sessionID s \<mapsto> s)\<rparr>)))"

interpretation session_store: versioned_store as_sessionID as_version ar_sessions
  ApprovalRepo_Get ApprovalRepo_Create ApprovalRepo_Update
  by unfold_locales
    (auto simp: ApprovalRepo_Get_def ApprovalRepo_Create_def ApprovalRepo_Update_def result_simps
      split: option.splits)

section \<open>The service\<close>

record DecisionView =
  dv_Label :: string
  dv_Decision :: Decision
  dv_DecidedAt :: instant

record InvitationLink =
  il_Label :: string
  il_URL :: string

record SessionResponse =
  sr_SessionID :: ID
  sr_IntentID :: ID
  sr_IntentHash :: SHA256Digest
  sr_RequiredApprovals :: int
  sr_Decisions :: "DecisionView list"
  sr_Status :: SessionStatus
  sr_ExpiresAt :: instant
  sr_CreatedAt :: instant
  sr_UpdatedAt :: instant
  sr_Version :: u64
  sr_Invitations :: "InvitationLink list"
  sr_ApprovalToken :: string

datatype ApprovalEventType =
  EventTypeSessionSnapshot | EventTypeApproverJoined | EventTypeApprovalDecided | EventTypeSessionResolved

text \<open>The event publisher is optional; \<open>av_events\<close> collects what was published.\<close>

record approval_service =
  av_repository :: ApprovalRepository
  av_intents :: PurchaseIntentRepository
  av_signer :: "ApprovalTokenSigner option"
  av_publicBaseURL :: string
  av_publisher :: bool
  av_events :: "(ApprovalEventType \<times> SessionResponse) list"

definition hex_upper :: "nat \<Rightarrow> char" where
  "hex_upper n = ''0123456789ABCDEF'' ! (n mod 16)"

definition QueryEscape :: "string \<Rightarrow> string" where
  "QueryEscape s =
     concat (map (\<lambda>c.
       if byte_in c 97 122 \<or> byte_in c 65 90 \<or> byte_in c 48 57 \<or> c \<in> set ''-_.~'' then [c]
       else if c = CHR 0x20 then ''+''
       else [CHR ''%'', hex_upper (of_char c div 16), hex_upper (of_char c mod 16)]) s)"

definition session_response ::
  "approval_service \<Rightarrow> Session \<Rightarrow> InvitationGrant list \<Rightarrow> string \<Rightarrow> SessionResponse" where
  "session_response sv s grants approvalToken =
     \<lparr>sr_SessionID = as_sessionID s, sr_IntentID = as_intentID s, sr_IntentHash = as_intentHash s,
      sr_RequiredApprovals = as_requiredApprovals s,
      sr_Decisions = concat (map (\<lambda>iv. case (iv_Decision iv, iv_DecidedAt iv) of
          (Some d, Some at) \<Rightarrow> [\<lparr>dv_Label = iv_Label iv, dv_Decision = d, dv_DecidedAt = at\<rparr>]
        | _ \<Rightarrow> []) (as_invitations s)),
      sr_Status = as_status s, sr_ExpiresAt = as_expiresAt s, sr_CreatedAt = as_createdAt s,
      sr_UpdatedAt = as_updatedAt s, sr_Version = as_version s,
      sr_Invitations = map (\<lambda>g. \<lparr>il_Label = gr_Label g,
          il_URL = av_publicBaseURL sv @ ''/approve/'' @ as_sessionID s @ ''?token=''
                   @ QueryEscape (gr_Token g)\<rparr>) grants,
      sr_ApprovalToken = approvalToken\<rparr>"

definition publishEvent ::
  "ApprovalEventType \<Rightarrow> SessionResponse \<Rightarrow> approval_service \<Rightarrow> approval_service" where
  "publishEvent e r sv = (if av_publisher sv then sv\<lparr>av_events := av_events sv @ [(e, r)]\<rparr> else sv)"

text \<open>
  \<open>sessionID\<close> is the result of the identifier generator, \<open>now\<close> the reading of the clock and \<open>tokens\<close> what the
  token generator draws during this call; the next call draws anew.
\<close>

definition Approvals_Create ::
  "(string \<Rightarrow> bool) \<Rightarrow> (string \<Rightarrow> string \<Rightarrow> bool) \<Rightarrow> approval_service \<Rightarrow> ID result \<Rightarrow> instant
     \<Rightarrow> (nat \<Rightarrow> string result) option \<Rightarrow> ID \<Rightarrow> string list \<Rightarrow> (approval_service \<times> SessionResponse) result" where
  "Approvals_Create ulid equalFold sv sessionID now tokens intentID approvers =
     rbind (IntentRepo_Get (av_intents sv) intentID) (\<lambda>purchaseIntent.
     reject_if (\<not> pi_requiresApproval purchaseIntent) ErrApprovalNotRequired
     (rbind sessionID (\<lambda>sid.
      rbind (NewSession ulid equalFold
              \<lparr>sp_SessionID = sid, sp_IntentID = pi_intentID purchaseIntent,
               sp_IntentHash = pi_intentHash purchaseIntent, sp_ApproverLabels = approvers,
               sp_CreatedAt = now, sp_ExpiresAt = pi_expiresAt purchaseIntent\<rparr> tokens) (\<lambda>(s, grants).
      rbind (ApprovalRepo_Create (av_repository sv) s) (\<lambda>r'.
        Inr (sv\<lparr>av_repository := r'\<rparr>, session_response sv s grants []))))))"

definition Approvals_Get ::
  "approval_service \<Rightarrow> instant \<Rightarrow> ID \<Rightarrow> (approval_service \<times> SessionResponse) result" where
  "Approvals_Get sv now sessionID =
     rbind (ApprovalRepo_Get (av_repository sv) sessionID) (\<lambda>s.
       let (s', expired) = Session_Expire s now in
       if expired then
         rbind (ApprovalRepo_Update (av_repository sv) s' (as_version s)) (\<lambda>r'.
           let response = session_response sv s' [] []
           in Inr (publishEvent EventTypeSessionResolved response (sv\<lparr>av_repository := r'\<rparr>), response))
       else Inr (sv, session_response sv s' [] []))"

definition Approvals_Decide ::
  "approval_service \<Rightarrow> instant \<Rightarrow> ID \<Rightarrow> string \<Rightarrow> Decision \<Rightarrow> (approval_service \<times> SessionResponse) result" where
  "Approvals_Decide sv now sessionID rawInvitationToken decision =
     rbind (ApprovalRepo_Get (av_repository sv) sessionID) (\<lambda>s.
       case Session_Decide s rawInvitationToken decision now (av_signer sv) of
         (s', Inl e) \<Rightarrow> Inl e
       | (s', Inr outcome) \<Rightarrow>
           rbind (ApprovalRepo_Update (av_repository sv) s' (as_version s)) (\<lambda>r'.
             let response = session_response sv s' [] (dr_ApprovalToken outcome);
                 sv1 = publishEvent EventTypeApprovalDecided response (sv\<lparr>av_repository := r'\<rparr>);
                 sv2 = (if sr_Status response \<noteq> SessionStatusPending
                        then publishEvent EventTypeSessionResolved response sv1 else sv1)
             in Inr (sv2, response)))"

definition AuthorizeInvitation :: "approval_service \<Rightarrow> instant \<Rightarrow> ID \<Rightarrow> string \<Rightarrow> unit result" where
  "AuthorizeInvitation sv now sessionID rawInvitationToken =
     rbind (ApprovalRepo_Get (av_repository sv) sessionID) (\<lambda>s.
       let (s', expired) = Session_Expire s now in
       reject_if expired ErrSessionExpired
       (reject_if (as_invitationByHash s' (hashToken rawInvitationToken) = None) ErrInvitationInvalid
         (Inr ())))"

section \<open>The session invariant\<close>

definition decided :: "Session \<Rightarrow> Invitation list" where
  "decided s = filter (\<lambda>iv. iv_Decision iv \<noteq> None) (as_invitations s)"

definition wf_invitation :: "Invitation \<Rightarrow> bool" where
  "wf_invitation iv \<longleftrightarrow>
     iv_Decision iv \<in> {None, Some DecisionApprove, Some DecisionVeto}
     \<and> (iv_DecidedAt iv = None \<longleftrightarrow> iv_Decision iv = None)"

text \<open>An approved session has its two approvals; only a pending or an expired one may lack a verdict.\<close>

fun verdict_ok :: "SessionStatus \<Rightarrow> Decision option \<Rightarrow> Decision option \<Rightarrow> string \<Rightarrow> bool" where
  "verdict_ok SessionStatusApproved d1 d2 h \<longleftrightarrow>
     d1 = Some DecisionApprove \<and> d2 = Some DecisionApprove \<and> sha256_digest h"
| "verdict_ok SessionStatusVetoed d1 d2 h \<longleftrightarrow> ((d1 = Some DecisionVeto) \<noteq> (d2 = Some DecisionVeto)) \<and> h = []"
| "verdict_ok (SessionStatusOther _) d1 d2 h \<longleftrightarrow> False"
| "verdict_ok _ d1 d2 h \<longleftrightarrow>
     d1 \<noteq> Some DecisionVeto \<and> d2 \<noteq> Some DecisionVeto \<and> (d1 = None \<or> d2 = None) \<and> h = []"

definition wf_session :: "(string \<Rightarrow> string \<Rightarrow> bool) \<Rightarrow> Session \<Rightarrow> bool" where
  "wf_session equalFold s \<longleftrightarrow>
     as_requiredApprovals s = 2
     \<and> (\<exists>v1 v2. as_invitations s = [v1, v2] \<and> wf_invitation v1 \<and> wf_invitation v2
          \<and> iv_TokenHash v1 \<noteq> iv_TokenHash v2 \<and> \<not> equalFold (iv_Label v1) (iv_Label v2)
          \<and> as_invitationByHash s = [iv_TokenHash v1 \<mapsto> 0, iv_TokenHash v2 \<mapsto> 1]
          \<and> verdict_ok (as_status s) (iv_Decision v1) (iv_Decision v2) (as_approvalTokenHash s))
     \<and> as_version s = 1 + of_nat (length (decided s))
                      + (if as_status s = SessionStatusExpired then 1 else 0)
     \<and> as_createdAt s < as_expiresAt s"

lemma NewSession_wf:
  assumes "NewSession ulid equalFold p tokens = Inr (s, grants)"
  shows "wf_session equalFold s \<and> as_status s = SessionStatusPending \<and> decided s = []
    \<and> as_intentID s = sp_IntentID p \<and> as_intentHash s = sp_IntentHash p
    \<and> map (hashToken \<circ> gr_Token) grants = map iv_TokenHash (as_invitations s)
    \<and> map gr_Label grants = map iv_Label (as_invitations s)"
proof -
  obtain gen where t: "tokens = Some gen" and v: "validateSessionParams ulid equalFold p tokens = []"
    using assms by (auto simp: NewSession_def Let_def split: if_split_asm option.split_asm)
  then obtain l1 l2 where l: "sp_ApproverLabels p = [l1, l2]" "\<not> equalFold (TrimSpace l1) (TrimSpace l2)"
      "sp_CreatedAt p < sp_ExpiresAt p"
    by (auto simp: validateSessionParams_def Let_def split: list.split_asm if_split_asm)
  with assms t v obtain t1 t2 where "gen 0 = Inr t1" "gen (Suc 0) = Inr t2" "hashToken t1 \<noteq> hashToken t2"
    by (auto simp: NewSession_def Let_def result_simps split: if_split_asm)
  with assms t v l show ?thesis
    by (auto simp: NewSession_def Let_def result_simps wf_session_def wf_invitation_def decided_def
        fun_eq_iff)
qed

lemma Session_Expire_wf:
  assumes "wf_session equalFold s"
  shows "wf_session equalFold (fst (Session_Expire s now))"
  using assms by (auto simp: Session_Expire_def wf_session_def decided_def)

text \<open>What a decision does: on an error the session is as before, except that it may have expired.\<close>

lemma Session_Decide_error:
  "Session_Decide s tok d at sg = (s', Inl e) \<Longrightarrow>
     s' = s \<or> e = ErrSessionExpired \<and> s' = fst (Session_Expire s at)"
  by (auto simp: Session_Decide_def Session_Expire_def Let_def
      split: if_split_asm option.split_asm prod.split_asm)

lemma Session_Decide_error_status:
  "Session_Decide s tok d at sg = (s', Inl e) \<Longrightarrow> as_status s' = SessionStatusApproved \<Longrightarrow>
     as_status s = SessionStatusApproved"
  using Session_Decide_error [of s tok d at sg s' e] by (auto simp: Session_Expire_def split: if_split_asm)

lemma Session_Decide_ok:
  assumes "Session_Decide s tok d at sg = (s', Inr r)"
  obtains g i where "as_status s = SessionStatusPending" "at < as_expiresAt s" "sg = Some g"
    "d = DecisionApprove \<or> d = DecisionVeto" "as_invitationByHash s (hashToken tok) = Some i"
    "i < length (as_invitations s)" "iv_Decision (as_invitations s ! i) = None"
    "s' = (let s2 = record_decision s i d at in
             if d = DecisionVeto then s2\<lparr>as_status := SessionStatusVetoed\<rparr>
             else if approvalCount s2 < as_requiredApprovals s2 then s2
             else s2\<lparr>as_status := SessionStatusApproved, as_approvalTokenHash :=
                 snd (Issue g (as_sessionID s) (as_intentID s) (as_intentHash s) (as_expiresAt s))\<rparr>)"
    "r = \<lparr>dr_Status = as_status s', dr_ApprovalToken =
            (if as_status s' = SessionStatusApproved
             then fst (Issue g (as_sessionID s) (as_intentID s) (as_intentHash s) (as_expiresAt s))
             else [])\<rparr>"
  using assms
  by (auto simp: Session_Decide_def Session_Expire_def Let_def record_decision_def not_le not_less
      split: if_split_asm option.split_asm prod.split_asm)

lemma Issue_hash: "snd (Issue g a b c t) = hashToken (fst (Issue g a b c t))"
  by (simp add: Issue_def Let_def)

lemma hashToken_digest: "sha256_digest (hashToken t)"
  unfolding hashToken_def using hashBytes_digest [of t] by (simp add: hashBytes_def)

lemma Session_Decide_wf:
  assumes wf: "wf_session equalFold s" and d: "Session_Decide s tok d at sg = (s', Inr r)"
  shows "wf_session equalFold s'"
proof -
  obtain g i where *: "as_status s = SessionStatusPending" "at < as_expiresAt s" "sg = Some g"
    "d = DecisionApprove \<or> d = DecisionVeto" "as_invitationByHash s (hashToken tok) = Some i"
    "i < length (as_invitations s)" "iv_Decision (as_invitations s ! i) = None"
    "s' = (let s2 = record_decision s i d at in
             if d = DecisionVeto then s2\<lparr>as_status := SessionStatusVetoed\<rparr>
             else if approvalCount s2 < as_requiredApprovals s2 then s2
             else s2\<lparr>as_status := SessionStatusApproved, as_approvalTokenHash :=
                 snd (Issue g (as_sessionID s) (as_intentID s) (as_intentHash s) (as_expiresAt s))\<rparr>)"
    using d by (rule Session_Decide_ok)
  obtain v1 v2 where v: "as_invitations s = [v1, v2]"
    using wf by (auto simp: wf_session_def)
  from *(6) v consider "i = 0" | "i = 1"
    by fastforce
  then show ?thesis
    using wf * v
    by cases (auto simp: wf_session_def wf_invitation_def decided_def record_decision_def
        approvalCount_def Let_def Issue_hash hashToken_digest)
qed

section \<open>Runs of a session\<close>

datatype session_op =
    OpDecide string Decision instant "ApprovalTokenSigner option"
  | OpExpireSession instant

fun session_step :: "Session \<Rightarrow> session_op \<Rightarrow> Session" where
  "session_step s (OpDecide tok d at sg) = fst (Session_Decide s tok d at sg)"
| "session_step s (OpExpireSession now) = fst (Session_Expire s now)"

text \<open>An invitation decides as someone who held its token asked for, before the deadline.\<close>

definition decision_traced :: "session_op list \<Rightarrow> instant \<Rightarrow> Invitation \<Rightarrow> bool" where
  "decision_traced ops deadline iv \<longleftrightarrow>
     (\<forall>d. iv_Decision iv = Some d \<longrightarrow>
        (\<exists>tok at sg. OpDecide tok d at sg \<in> set ops \<and> hashToken tok = iv_TokenHash iv \<and> at < deadline))"

definition same_binding :: "Session \<Rightarrow> Session \<Rightarrow> bool" where
  "same_binding s0 s \<longleftrightarrow>
     as_sessionID s = as_sessionID s0 \<and> as_intentID s = as_intentID s0
     \<and> as_intentHash s = as_intentHash s0 \<and> as_expiresAt s = as_expiresAt s0
     \<and> map iv_Label (as_invitations s) = map iv_Label (as_invitations s0)
     \<and> map iv_TokenHash (as_invitations s) = map iv_TokenHash (as_invitations s0)"

lemma session_step_wf: "wf_session equalFold s \<Longrightarrow> wf_session equalFold (session_step s op)"
proof (cases op)
  case (OpDecide tok d at sg)
  assume wf: "wf_session equalFold s"
  obtain s' r where d: "Session_Decide s tok d at sg = (s', r)"
    by (cases "Session_Decide s tok d at sg")
  show ?thesis
  proof (cases r)
    case (Inl e)
    then show ?thesis
      using Session_Decide_error [of s tok d at sg s' e] d Session_Expire_wf [OF wf] wf OpDecide by auto
  qed (use Session_Decide_wf [OF wf] d OpDecide in auto)
qed (simp add: Session_Expire_wf)

lemma map_update_same: "f y = f (xs ! i) \<Longrightarrow> map f (xs[i := y]) = map f xs"
  by (metis list_update_id map_update)

lemma session_step_binding: "same_binding s (session_step s op)"
proof (cases op)
  case (OpDecide tok d at sg)
  obtain s' r where d: "Session_Decide s tok d at sg = (s', r)"
    by (cases "Session_Decide s tok d at sg")
  show ?thesis
  proof (cases r)
    case (Inl e)
    then show ?thesis
      using Session_Decide_error [of s tok d at sg s' e] d OpDecide
      by (auto simp: same_binding_def Session_Expire_def)
  next
    case (Inr x)
    with d show ?thesis
      using OpDecide
      by (auto elim!: Session_Decide_ok simp: same_binding_def record_decision_def Let_def map_update_same)
  qed
qed (auto simp: same_binding_def Session_Expire_def)


lemma decision_traced_mono: "decision_traced ops t iv \<Longrightarrow> set ops \<subseteq> set ops' \<Longrightarrow> decision_traced ops' t iv"
  unfolding decision_traced_def by blast

lemma session_step_traced:
  assumes wf: "wf_session equalFold s"
    and tr: "\<forall>iv \<in> set (as_invitations s). decision_traced ops (as_expiresAt s) iv"
  shows "\<forall>iv \<in> set (as_invitations (session_step s op)).
           decision_traced (ops @ [op]) (as_expiresAt s) iv"
proof -
  have keep: "\<forall>iv \<in> set (as_invitations s). decision_traced (ops @ [op]) (as_expiresAt s) iv"
    using tr decision_traced_mono [of ops _ _ "ops @ [op]"] by auto
  show ?thesis
  proof (cases op)
    case (OpDecide tok d at sg)
    obtain s' r where d: "Session_Decide s tok d at sg = (s', r)"
      by (cases "Session_Decide s tok d at sg")
    show ?thesis
    proof (cases r)
      case (Inl e)
      then have "as_invitations s' = as_invitations s"
        using Session_Decide_error [of s tok d at sg s' e] d by (auto simp: Session_Expire_def)
      with keep d OpDecide show ?thesis by simp
    next
      case (Inr x)
      with d obtain i where i: "at < as_expiresAt s" "as_invitationByHash s (hashToken tok) = Some i"
        "as_invitations s' = as_invitations (record_decision s i d at)"
        by (auto elim!: Session_Decide_ok simp: Let_def)
      moreover have "iv_TokenHash (as_invitations s ! i) = hashToken tok"
        using wf i(2) by (auto simp: wf_session_def split: if_split_asm)
      ultimately have "decision_traced (ops @ [op]) (as_expiresAt s)
          ((as_invitations s ! i)\<lparr>iv_Decision := Some d, iv_DecidedAt := Some at\<rparr>)"
        using OpDecide by (auto simp: decision_traced_def)
      with keep i(3) d OpDecide show ?thesis
        by (auto simp: record_decision_def dest!: set_update_subset_insert [THEN subsetD])
    qed
  qed (use keep in \<open>auto simp: Session_Expire_def\<close>)
qed

lemma session_run:
  assumes "wf_session equalFold s0" "decided s0 = []"
  shows "wf_session equalFold (foldl session_step s0 ops) \<and> same_binding s0 (foldl session_step s0 ops)
    \<and> (\<forall>iv \<in> set (as_invitations (foldl session_step s0 ops)). decision_traced ops (as_expiresAt s0) iv)"
proof (induction ops rule: rev_induct)
  case Nil
  then show ?case
    using assms by (auto simp: same_binding_def decision_traced_def decided_def filter_empty_conv)
next
  case (snoc op ops)
  let ?s = "foldl session_step s0 ops"
  have "as_expiresAt ?s = as_expiresAt s0"
    using snoc by (simp add: same_binding_def)
  with snoc show ?case
    using session_step_wf [of equalFold ?s op] session_step_traced [of equalFold ?s ops op]
      session_step_binding [of ?s op]
    by (simp add: same_binding_def)
qed

text \<open>A concrete session, its two tokens and the signer of the examples.\<close>

definition sample_session_params :: SessionParams where
  "sample_session_params =
     \<lparr>sp_SessionID = ''aps_01ARZ3NDEKTSV4RRFFQ69G5FAV'', sp_IntentID = ''int_01ARZ3NDEKTSV4RRFFQ69G5FAV'',
      sp_IntentHash = replicate 64 (CHR ''a''), sp_ApproverLabels = ['' Ada'', ''Grace ''],
      sp_CreatedAt = 1000, sp_ExpiresAt = 2000\<rparr>"

definition sample_tokens :: "nat \<Rightarrow> string result" where
  "sample_tokens n = Inr (if n = 0 then ''first'' else ''second'')"

definition sample_token_signer :: ApprovalTokenSigner where
  "sample_token_signer = \<lparr>ts_secret = replicate 32 (CHR ''k'')\<rparr>"

definition sample_fold :: "string \<Rightarrow> string \<Rightarrow> bool" where
  "sample_fold s t \<longleftrightarrow> s = t"

lemma sample_token_hash1: "hd (Sum256 ''first'') = CHR 0xA7"
  by code_simp

lemma sample_token_hash2: "hd (Sum256 ''second'') = CHR 0x16"
  by code_simp

lemma hd_hex_encode: "bs \<noteq> [] \<Longrightarrow> hd (hex_encode bs) = hex_digit (of_char (hd bs) div 16)"
  by (cases bs) (simp_all add: hex_encode_def)

lemma sample_token_hashes: "hashToken ''first'' \<noteq> hashToken ''second''"
proof
  assume "hashToken ''first'' = hashToken ''second''"
  moreover have "Sum256 m \<noteq> []" for m
    using length_Sum256 [of m] by (cases "Sum256 m") simp_all
  ultimately have "hex_digit (of_char (hd (Sum256 ''first'')) div 16) = hex_digit (of_char (hd (Sum256 ''second'')) div 16)"
    by (metis hashToken_def hd_hex_encode)
  then show False
    by (simp add: sample_token_hash1 sample_token_hash2 hex_digit_def)
qed

definition sample_session :: Session where
  "sample_session =
     \<lparr>as_sessionID = ''aps_01ARZ3NDEKTSV4RRFFQ69G5FAV'', as_intentID = ''int_01ARZ3NDEKTSV4RRFFQ69G5FAV'',
      as_intentHash = replicate 64 (CHR ''a''), as_requiredApprovals = 2,
      as_invitations =
        [\<lparr>iv_Label = ''Ada'', iv_TokenHash = hashToken ''first'', iv_Decision = None, iv_DecidedAt = None\<rparr>,
         \<lparr>iv_Label = ''Grace'', iv_TokenHash = hashToken ''second'', iv_Decision = None, iv_DecidedAt = None\<rparr>],
      as_invitationByHash = [hashToken ''first'' \<mapsto> 0, hashToken ''second'' \<mapsto> 1],
      as_status = SessionStatusPending, as_approvalTokenHash = [], as_createdAt = 1000,
      as_updatedAt = 1000, as_expiresAt = 2000, as_version = 1\<rparr>"

definition sample_grants :: "InvitationGrant list" where
  "sample_grants =
     [\<lparr>gr_Label = ''Ada'', gr_Token = ''first'', gr_ExpiresAt = 2000\<rparr>,
      \<lparr>gr_Label = ''Grace'', gr_Token = ''second'', gr_ExpiresAt = 2000\<rparr>]"

lemma sample_session_valid:
  "validateSessionParams sample_ulid sample_fold sample_session_params (Some sample_tokens) = []"
  by code_simp

lemma sample_labels: "TrimSpace '' Ada'' = ''Ada''" "TrimSpace ''Grace '' = ''Grace''"
  by code_simp+

lemma sample_session_created:
  "NewSession sample_ulid sample_fold sample_session_params (Some sample_tokens)
     = Inr (sample_session, sample_grants)"
  using sample_token_hashes
  by (simp add: NewSession_def sample_session_valid Let_def)
    (simp add: sample_session_params_def sample_tokens_def sample_labels sample_session_def
      sample_grants_def Let_def)

abbreviation sample_decisions :: "session_op list" where
  "sample_decisions \<equiv>
     [OpDecide ''second'' DecisionApprove 1500 (Some sample_token_signer),
      OpDecide ''first'' DecisionApprove 1600 (Some sample_token_signer)]"

lemma sample_session_approved:
  "as_status (foldl session_step sample_session sample_decisions) = SessionStatusApproved"
  using sample_token_hashes
  by (simp add: Session_Decide_def Session_Expire_def sample_session_def record_decision_def
      approvalCount_def Let_def split: prod.split)



section \<open>Tokens of approved sessions\<close>

text \<open>
  C39: the token an approving decision returns is the credential of that session: it is returned
  exactly when the session becomes approved, the session recognises it, and until the deadline it
  verifies for the session's intent and hash - and for no other - naming the session; afterwards it is
  expired.
\<close>

theorem approval_token_roundtrip:
  assumes "Session_Decide s tok d at (Some sg) = (s', Inr r)" "as_status s' = SessionStatusApproved"
    and "issuable (as_sessionID s) (as_intentID s) (as_intentHash s) (as_expiresAt s)"
  shows "MatchesApprovalToken s' (dr_ApprovalToken r)
    \<and> VerifyForIntent sg (dr_ApprovalToken r) i h now =
        (if as_expiresAt s \<le> now then Inl ErrApprovalTokenExpired
         else if i = as_intentID s \<and> h = as_intentHash s
         then Inr \<lparr>ac_Version = ''1'', ac_SessionID = as_sessionID s', ac_IntentID = i,
                   ac_IntentHash = h, ac_ExpiresAt = as_expiresAt s'\<rparr>
         else Inl ErrApprovalTokenInvalid)"
proof -
  let ?i = "Issue sg (as_sessionID s) (as_intentID s) (as_intentHash s) (as_expiresAt s)"
  have *: "dr_ApprovalToken r = fst ?i" "as_approvalTokenHash s' = snd ?i"
      "as_sessionID s' = as_sessionID s" "as_expiresAt s' = as_expiresAt s"
    using assms(1,2) by (auto elim!: Session_Decide_ok simp: record_decision_def Let_def split: if_split_asm)
  have "snd ?i \<noteq> []"
    unfolding Issue_hash using hashToken_digest sha256_digest_not_Nil by blast
  then show ?thesis
    using verifyClaims_Issue [OF assms(3), of sg now]
    by (auto simp: * MatchesApprovalToken_def Issue_hash VerifyForIntent_def reject_if_def)
qed

lemma sample_session_fields:
  "as_sessionID sample_session = ''aps_01ARZ3NDEKTSV4RRFFQ69G5FAV''"
  "as_intentID sample_session = ''int_01ARZ3NDEKTSV4RRFFQ69G5FAV''"
  "as_intentHash sample_session = replicate 64 (CHR ''a'')" "as_expiresAt sample_session = 2000"
  by (simp_all add: sample_session_def)

lemma sample_issuable:
  "issuable (as_sessionID sample_session) (as_intentID sample_session) (as_intentHash sample_session)
     (as_expiresAt sample_session)"
  unfolding sample_session_fields by code_simp

theorem approval_token_roundtrip_witness:
  "\<exists>token. VerifyForIntent sample_token_signer token ''int_01ARZ3NDEKTSV4RRFFQ69G5FAV''
       (replicate 64 (CHR ''a'')) 1999
     = Inr \<lparr>ac_Version = ''1'', ac_SessionID = ''aps_01ARZ3NDEKTSV4RRFFQ69G5FAV'',
            ac_IntentID = ''int_01ARZ3NDEKTSV4RRFFQ69G5FAV'',
            ac_IntentHash = replicate 64 (CHR ''a''), ac_ExpiresAt = 2000\<rparr>"
proof -
  let ?s1 = "session_step sample_session (sample_decisions ! 0)"
  obtain s' r where d: "Session_Decide ?s1 ''first'' DecisionApprove 1600 (Some sample_token_signer) = (s', r)"
    by (cases "Session_Decide ?s1 ''first'' DecisionApprove 1600 (Some sample_token_signer)")
  then have st: "as_status s' = SessionStatusApproved"
    using sample_session_approved by simp
  have b: "same_binding sample_session ?s1"
    by (rule session_step_binding)
  then have iss: "issuable (as_sessionID ?s1) (as_intentID ?s1) (as_intentHash ?s1) (as_expiresAt ?s1)"
    using sample_issuable by (simp add: same_binding_def)
  have "as_status ?s1 \<noteq> SessionStatusApproved"
    using sample_token_hashes
    by (simp add: Session_Decide_def Session_Expire_def sample_session_def record_decision_def
        approvalCount_def Let_def split: prod.split)
  with d st obtain r' where r: "r = Inr r'"
    using Session_Decide_error_status by (cases r) blast+
  have "same_binding ?s1 s'"
    using session_step_binding [of ?s1 "sample_decisions ! 1"] d by simp
  with b approval_token_roundtrip [OF d [unfolded r] st iss, of "as_intentID ?s1" "as_intentHash ?s1" 1999]
  show ?thesis
    by (auto simp: same_binding_def sample_session_def)
qed

section \<open>Storage\<close>

lemma index_two:
  "index_invitations 0 [v1, v2] Map.empty = [iv_TokenHash v1 \<mapsto> 0, iv_TokenHash v2 \<mapsto> 1]"
  by simp

text \<open>
  Restoring the snapshot of a session gives the session back, with its index of invitations
  rebuilt, whatever its state.
\<close>

theorem Session_Restore_Snapshot:
  assumes "wf_session equalFold s"
    and "is_ok (ParseID ulid (as_sessionID s) ApprovalIDPrefix)" "is_ok (ParseID ulid (as_intentID s) IntentIDPrefix)"
    and "sha256_digest (as_intentHash s)" "as_createdAt s \<noteq> 0" "as_updatedAt s \<noteq> 0" "as_expiresAt s \<noteq> 0"
  shows "Session_Restore ulid (Session_Snapshot s) = Inr s"
proof -
  obtain v1 v2 where v: "as_invitations s = [v1, v2]"
      "as_invitationByHash s = [iv_TokenHash v1 \<mapsto> 0, iv_TokenHash v2 \<mapsto> 1]" "as_requiredApprovals s = 2"
    using assms(1) by (auto simp: wf_session_def)
  have "length (decided s) \<le> 2"
    using length_filter_le [of "\<lambda>iv. iv_Decision iv \<noteq> None" "as_invitations s"] v(1)
    by (simp add: decided_def)
  then have "as_version s \<in> {1, 2, 3, 4}"
    using assms(1) by (auto simp: wf_session_def le_Suc_eq numeral_2_eq_2)
  then have "as_version s \<noteq> 0"
    by auto
  with assms(2-7) v show ?thesis
    by (simp add: Session_Restore_def Session_Snapshot_def)
qed

theorem Session_Restore_Snapshot_witness:
  "Session_Restore sample_ulid (Session_Snapshot sample_session) = Inr sample_session"
proof -
  have "wf_session sample_fold sample_session"
    using NewSession_wf [OF sample_session_created] by blast
  moreover have "is_ok (ParseID sample_ulid (as_sessionID sample_session) ApprovalIDPrefix)"
      "is_ok (ParseID sample_ulid (as_intentID sample_session) IntentIDPrefix)"
      "sha256_digest (as_intentHash sample_session)"
    unfolding sample_session_fields by code_simp+
  ultimately show ?thesis
    by (rule Session_Restore_Snapshot) (simp_all add: sample_session_def)
qed

section \<open>Sessions behind the service\<close>

datatype approval_call =
    CallCreate "ID result" instant "(nat \<Rightarrow> string result) option" ID "string list"
  | CallGet instant ID
  | CallDecide instant ID string Decision
  | IntentsChange PurchaseIntentRepository

text \<open>
  A call that fails leaves the service as it was. Between the calls the checkout creates and advances purchase
  intents: \<open>IntentsChange\<close> replaces the intents the service reads by any others.
\<close>

definition after_call :: "approval_service \<Rightarrow> (approval_service \<times> SessionResponse) result \<Rightarrow> approval_service" where
  "after_call sv r = (case r of Inl _ \<Rightarrow> sv | Inr (sv', _) \<Rightarrow> sv')"

fun approval_step ::
  "(string \<Rightarrow> bool) \<Rightarrow> (string \<Rightarrow> string \<Rightarrow> bool) \<Rightarrow> approval_service \<Rightarrow> approval_call \<Rightarrow> approval_service" where
  "approval_step ulid equalFold sv (CallCreate sid now tokens intentID labels) =
     after_call sv (Approvals_Create ulid equalFold sv sid now tokens intentID labels)"
| "approval_step ulid equalFold sv (CallGet now k) = after_call sv (Approvals_Get sv now k)"
| "approval_step ulid equalFold sv (CallDecide now k tok d) = after_call sv (Approvals_Decide sv now k tok d)"
| "approval_step ulid equalFold sv (IntentsChange intents) = sv\<lparr>av_intents := intents\<rparr>"

abbreviation approval_run ::
  "(string \<Rightarrow> bool) \<Rightarrow> (string \<Rightarrow> string \<Rightarrow> bool) \<Rightarrow> approval_service \<Rightarrow> approval_call list \<Rightarrow> approval_service" where
  "approval_run ulid equalFold \<equiv> foldl (approval_step ulid equalFold)"

text \<open>The parameters of the session that \<open>Create\<close> asks for.\<close>

definition session_params_of :: "ID \<Rightarrow> PurchaseIntent \<Rightarrow> string list \<Rightarrow> instant \<Rightarrow> SessionParams" where
  "session_params_of sid i labels now =
     \<lparr>sp_SessionID = sid, sp_IntentID = pi_intentID i, sp_IntentHash = pi_intentHash i,
      sp_ApproverLabels = labels, sp_CreatedAt = now, sp_ExpiresAt = pi_expiresAt i\<rparr>"

text \<open>
  The call \<open>CallCreate\<close> of a run, after the calls \<open>before\<close>, created the session \<open>s0\<close> with the grants it
  returned: for the intent that was stored then, and with the tokens drawn then.
\<close>

definition created_by ::
  "(string \<Rightarrow> bool) \<Rightarrow> (string \<Rightarrow> string \<Rightarrow> bool) \<Rightarrow> approval_service \<Rightarrow> approval_call list \<Rightarrow> approval_call
     \<Rightarrow> PurchaseIntent \<Rightarrow> Session \<Rightarrow> InvitationGrant list \<Rightarrow> bool" where
  "created_by ulid equalFold sv0 before c i s0 grants \<longleftrightarrow>
     (\<exists>sid now tokens intentID labels. c = CallCreate (Inr sid) now tokens intentID labels
        \<and> IntentRepo_Get (av_intents (approval_run ulid equalFold sv0 before)) intentID = Inr i
        \<and> pi_requiresApproval i
        \<and> NewSession ulid equalFold (session_params_of sid i labels now) tokens = Inr (s0, grants))"

text \<open>A stored session was created by a call and has since run through operations of later calls.\<close>

definition genuine ::
  "(string \<Rightarrow> bool) \<Rightarrow> (string \<Rightarrow> string \<Rightarrow> bool) \<Rightarrow> approval_service \<Rightarrow> approval_call list \<Rightarrow> ID \<Rightarrow> Session \<Rightarrow> bool" where
  "genuine ulid equalFold sv0 calls k s \<longleftrightarrow>
     as_sessionID s = k
     \<and> (\<exists>before c after i s0 grants ops. calls = before @ c # after
          \<and> created_by ulid equalFold sv0 before c i s0 grants \<and> s = foldl session_step s0 ops
          \<and> (\<forall>tok d at sg. OpDecide tok d at sg \<in> set ops \<longrightarrow> CallDecide at k tok d \<in> set after))"

lemma genuine_more:
  assumes "genuine ulid eqf sv0 calls k s"
  shows "genuine ulid eqf sv0 (calls @ calls') k s"
proof -
  obtain before c after i s0 grants ops where *: "calls = before @ c # after" "as_sessionID s = k"
      "created_by ulid eqf sv0 before c i s0 grants" "s = foldl session_step s0 ops"
      "\<forall>tok d at sg. OpDecide tok d at sg \<in> set ops \<longrightarrow> CallDecide at k tok d \<in> set after"
    using assms unfolding genuine_def by blast
  have "calls @ calls' = before @ c # (after @ calls')"
    using *(1) by simp
  moreover have "\<forall>tok d at sg. OpDecide tok d at sg \<in> set ops \<longrightarrow> CallDecide at k tok d \<in> set (after @ calls')"
    using *(5) by simp
  ultimately show ?thesis
    using *(2-4) unfolding genuine_def by blast
qed

lemma genuine_step:
  assumes "genuine ulid eqf sv0 calls k s" "\<forall>tok d at sg. op = OpDecide tok d at sg \<longrightarrow> c = CallDecide at k tok d"
  shows "genuine ulid eqf sv0 (calls @ [c]) k (session_step s op)"
proof -
  obtain before c0 after i s0 grants ops where *: "calls = before @ c0 # after" "as_sessionID s = k"
      "created_by ulid eqf sv0 before c0 i s0 grants" "s = foldl session_step s0 ops"
      "\<forall>tok d at sg. OpDecide tok d at sg \<in> set ops \<longrightarrow> CallDecide at k tok d \<in> set after"
    using assms(1) unfolding genuine_def by blast
  have "session_step s op = foldl session_step s0 (ops @ [op])"
    using *(4) by simp
  moreover have "calls @ [c] = before @ c0 # (after @ [c])"
    using *(1) by simp
  moreover have "\<forall>tok d at sg. OpDecide tok d at sg \<in> set (ops @ [op]) \<longrightarrow> CallDecide at k tok d \<in> set (after @ [c])"
    using *(5) assms(2) by auto
  moreover have "as_sessionID (session_step s op) = k"
    using session_step_binding [of s op] *(2) by (simp add: same_binding_def)
  ultimately show ?thesis
    using *(3) unfolding genuine_def by blast
qed

lemma add_invitations_id:
  "add_invitations gen t n ls (s, g) = Inr (s', g') \<Longrightarrow>
     as_sessionID s' = as_sessionID s \<and> as_expiresAt s' = as_expiresAt s"
  by (induction ls arbitrary: n s g) (auto simp: result_simps Let_def)

lemma NewSession_id:
  "NewSession ulid eqf p tokens = Inr (s, g) \<Longrightarrow> as_sessionID s = sp_SessionID p \<and> as_expiresAt s = sp_ExpiresAt p"
  by (auto simp: NewSession_def Let_def dest: add_invitations_id split: if_split_asm option.split_asm)

text \<open>A call stores a new session, a step of a stored one, or nothing.\<close>

lemma publishEvent_repository [simp]: "av_repository (publishEvent e r sv) = av_repository sv"
  "av_intents (publishEvent e r sv) = av_intents sv"
  by (simp_all add: publishEvent_def)

lemma Approvals_Get_stores:
  assumes "Approvals_Get sv now k = Inr (sv', r)"
  shows "av_repository sv' = av_repository sv \<or>
    (\<exists>s. ApprovalRepo_Get (av_repository sv) k = Inr s \<and>
       ApprovalRepo_Update (av_repository sv) (session_step s (OpExpireSession now)) (as_version s)
         = Inr (av_repository sv'))"
proof -
  obtain s where s: "ApprovalRepo_Get (av_repository sv) k = Inr s"
    using assms by (auto simp: Approvals_Get_def result_simps)
  then show ?thesis
    using assms
    by (cases "Session_Expire s now") (auto simp: Approvals_Get_def result_simps Let_def split: if_split_asm)
qed

lemma Approvals_Decide_stores:
  assumes "Approvals_Decide sv now k tok d = Inr (sv', r)"
  shows "\<exists>s. ApprovalRepo_Get (av_repository sv) k = Inr s \<and>
       ApprovalRepo_Update (av_repository sv) (session_step s (OpDecide tok d now (av_signer sv))) (as_version s)
         = Inr (av_repository sv')"
proof -
  obtain s where s: "ApprovalRepo_Get (av_repository sv) k = Inr s"
    using assms by (auto simp: Approvals_Decide_def result_simps)
  obtain s' x where d: "Session_Decide s tok d now (av_signer sv) = (s', x)"
    by (cases "Session_Decide s tok d now (av_signer sv)")
  then show ?thesis
    using assms s by (cases x) (auto simp: Approvals_Decide_def result_simps Let_def)
qed

lemma Approvals_Create_stores:
  assumes "Approvals_Create ulid eqf (approval_run ulid eqf sv0 calls) sid now tokens intentID labels
    = Inr (sv', r)"
  shows "\<exists>s. genuine ulid eqf sv0 (calls @ [CallCreate sid now tokens intentID labels]) (as_sessionID s) s
    \<and> ApprovalRepo_Create (av_repository (approval_run ulid eqf sv0 calls)) s = Inr (av_repository sv')"
proof -
  let ?sv = "approval_run ulid eqf sv0 calls"
  obtain i sid' s g where i: "IntentRepo_Get (av_intents ?sv) intentID = Inr i" "pi_requiresApproval i"
      "sid = Inr sid'"
      and n: "NewSession ulid eqf (session_params_of sid' i labels now) tokens = Inr (s, g)"
      and c: "ApprovalRepo_Create (av_repository ?sv) s = Inr (av_repository sv')"
    using assms by (auto simp: Approvals_Create_def result_simps session_params_of_def)
  have "created_by ulid eqf sv0 calls (CallCreate sid now tokens intentID labels) i s g"
    using i n unfolding created_by_def by blast
  then have "genuine ulid eqf sv0 (calls @ [CallCreate sid now tokens intentID labels]) (as_sessionID s) s"
    unfolding genuine_def
    by (intro conjI refl exI [of _ calls] exI [of _ "CallCreate sid now tokens intentID labels"]
        exI [of _ "[]"] exI [of _ i] exI [of _ s] exI [of _ g]) simp_all
  with c show ?thesis
    by blast
qed

definition all_genuine ::
  "(string \<Rightarrow> bool) \<Rightarrow> (string \<Rightarrow> string \<Rightarrow> bool) \<Rightarrow> approval_service \<Rightarrow> approval_call list
     \<Rightarrow> ApprovalRepository \<Rightarrow> bool" where
  "all_genuine ulid equalFold sv0 calls R \<longleftrightarrow>
     (\<forall>k s. ar_sessions R k = Some s \<longrightarrow> genuine ulid equalFold sv0 calls k s)"

lemma all_genuine_more: "all_genuine ulid eqf sv0 calls R \<Longrightarrow> all_genuine ulid eqf sv0 (calls @ calls') R"
  using genuine_more by (auto simp: all_genuine_def)

lemma all_genuine_create:
  assumes "all_genuine ulid eqf sv0 calls R" "genuine ulid eqf sv0 calls (as_sessionID s) s"
    and "ApprovalRepo_Create R s = Inr R'"
  shows "all_genuine ulid eqf sv0 calls R'"
  using assms session_store.create_lookup [OF assms(3)] by (auto simp: all_genuine_def)

text \<open>Storing the step of the stored session of an identifier keeps every session genuine.\<close>

lemma all_genuine_update:
  assumes ag: "all_genuine ulid eqf sv0 calls R" and s: "ApprovalRepo_Get R k = Inr s"
    and u: "ApprovalRepo_Update R (session_step s op) v = Inr R'"
    and c: "\<forall>tok d at sg. op = OpDecide tok d at sg \<longrightarrow> c = CallDecide at k tok d"
  shows "all_genuine ulid eqf sv0 (calls @ [c]) R'"
  unfolding all_genuine_def
proof (intro allI impI)
  fix k' s'
  assume s': "ar_sessions R' k' = Some s'"
  have "ar_sessions R k = Some s"
    using s by (auto simp: ApprovalRepo_Get_def split: option.split_asm)
  with ag have g: "genuine ulid eqf sv0 calls k s"
    by (simp add: all_genuine_def)
  then have "as_sessionID (session_step s op) = k"
    using session_step_binding [of s op] by (simp add: genuine_def same_binding_def)
  then have "ar_sessions R' = (ar_sessions R)(k \<mapsto> session_step s op)"
    using session_store.update_lookup [OF u] by simp
  with s' ag genuine_more [of ulid eqf sv0 calls k' s' "[c]"] genuine_step [OF g c]
  show "genuine ulid eqf sv0 (calls @ [c]) k' s'"
    by (auto simp: all_genuine_def split: if_split_asm)
qed

lemma approval_step_genuine:
  assumes ag: "all_genuine ulid eqf sv0 calls (av_repository (approval_run ulid eqf sv0 calls))"
  shows "all_genuine ulid eqf sv0 (calls @ [c]) (av_repository (approval_run ulid eqf sv0 (calls @ [c])))"
proof -
  let ?sv = "approval_run ulid eqf sv0 calls"
  note same = all_genuine_more [OF ag, of "[c]"]
  show ?thesis
  proof (cases c)
    case (CallCreate sid now tokens intentID labels)
    show ?thesis
    proof (cases "Approvals_Create ulid eqf ?sv sid now tokens intentID labels")
      case (Inl e)
      with CallCreate same show ?thesis by (simp add: after_call_def)
    next
      case (Inr x)
      then obtain s where "genuine ulid eqf sv0 (calls @ [c]) (as_sessionID s) s"
          "ApprovalRepo_Create (av_repository ?sv) s = Inr (av_repository (fst x))"
        using Approvals_Create_stores [of ulid eqf sv0 calls sid now tokens intentID labels "fst x" "snd x"]
          CallCreate by auto
      from all_genuine_create [OF same this] Inr CallCreate show ?thesis
        by (cases x) (simp add: after_call_def)
    qed
  next
    case (CallGet now k)
    show ?thesis
    proof (cases "Approvals_Get ?sv now k")
      case (Inl e)
      with CallGet same show ?thesis by (simp add: after_call_def)
    next
      case (Inr x)
      then have st: "approval_run ulid eqf sv0 (calls @ [c]) = fst x"
        using CallGet by (simp add: after_call_def split: prod.split)
      show ?thesis
        using Approvals_Get_stores [of ?sv now k "fst x" "snd x"] Inr same
          all_genuine_update [OF ag, of k _ "OpExpireSession now"]
        unfolding st by auto
    qed
  next
    case (CallDecide now k tok d)
    show ?thesis
    proof (cases "Approvals_Decide ?sv now k tok d")
      case (Inl e)
      with CallDecide same show ?thesis by (simp add: after_call_def)
    next
      case (Inr x)
      then have st: "approval_run ulid eqf sv0 (calls @ [c]) = fst x"
        using CallDecide by (simp add: after_call_def split: prod.split)
      show ?thesis
        using Approvals_Decide_stores [of ?sv now k tok d "fst x" "snd x"] Inr CallDecide
          all_genuine_update [OF ag, of k _ "OpDecide tok d now (av_signer ?sv)"]
        unfolding st by auto
    qed
  next
    case (IntentsChange intents)
    with same show ?thesis by simp
  qed
qed

lemma run_calls_genuine:
  assumes "ar_sessions (av_repository sv0) = Map.empty"
  shows "all_genuine ulid eqf sv0 calls (av_repository (approval_run ulid eqf sv0 calls))"
proof (induction calls rule: rev_induct)
  case Nil
  then show ?case
    using assms by (simp add: all_genuine_def)
next
  case (snoc c calls)
  then show ?case
    by (rule approval_step_genuine)
qed

definition sample_approval_intent :: PurchaseIntent where
  "sample_approval_intent = sample_intent\<lparr>pi_requiresApproval := True,
     pi_intentHash := replicate 64 (CHR ''a'')\<rparr>"

definition sample_approval_service :: approval_service where
  "sample_approval_service =
     \<lparr>av_repository = \<lparr>ar_sessions = Map.empty\<rparr>,
      av_intents = \<lparr>pir_intents = [''int_01ARZ3NDEKTSV4RRFFQ69G5FAV'' \<mapsto> sample_approval_intent]\<rparr>,
      av_signer = Some sample_token_signer,
      av_publicBaseURL = ''https://agentpay.example'', av_publisher = True, av_events = []\<rparr>"

definition sample_calls :: "approval_call list" where
  "sample_calls =
     [CallCreate (Inr ''aps_01ARZ3NDEKTSV4RRFFQ69G5FAV'') 1000 (Some sample_tokens)
        ''int_01ARZ3NDEKTSV4RRFFQ69G5FAV'' ['' Ada'', ''Grace ''],
      CallDecide 1500 ''aps_01ARZ3NDEKTSV4RRFFQ69G5FAV'' ''second'' DecisionApprove,
      CallDecide 1600 ''aps_01ARZ3NDEKTSV4RRFFQ69G5FAV'' ''first'' DecisionApprove]"

lemma sample_approval_intent_fields:
  "pi_intentID sample_approval_intent = ''int_01ARZ3NDEKTSV4RRFFQ69G5FAV''"
  "pi_intentHash sample_approval_intent = replicate 64 (CHR ''a'')"
  "pi_requiresApproval sample_approval_intent" "pi_expiresAt sample_approval_intent = 2000"
  by (simp_all add: sample_approval_intent_def sample_intent_def purchase_intent_def sample_params_def
      normalizePurchaseIdentity_def Let_def)

lemma sample_create:
  "approval_step sample_ulid sample_fold sample_approval_service (sample_calls ! 0)
     = sample_approval_service\<lparr>av_repository :=
         \<lparr>ar_sessions = [''aps_01ARZ3NDEKTSV4RRFFQ69G5FAV'' \<mapsto> sample_session]\<rparr>\<rparr>"
  using sample_session_created
  by (simp add: sample_calls_def Approvals_Create_def sample_approval_service_def IntentRepo_Get_def
      sample_approval_intent_fields sample_session_params_def ApprovalRepo_Create_def after_call_def
      sample_session_fields)

text \<open>A decision on the only stored session, made by the service.\<close>

lemma decide_stored:
  assumes "ar_sessions (av_repository sv) k = Some s" "as_sessionID s = k"
    and "Session_Decide s tok d now (av_signer sv) = (s', Inr r)"
  shows "ar_sessions (av_repository (approval_step ulid eqf sv (CallDecide now k tok d)))
           = (ar_sessions (av_repository sv))(k \<mapsto> s')
    \<and> av_signer (approval_step ulid eqf sv (CallDecide now k tok d)) = av_signer sv"
proof -
  have "as_version s' = as_version s + 1"
    using assms(3) by (auto elim!: Session_Decide_ok simp: record_decision_def Let_def)
  moreover have "as_sessionID s' = k"
    using session_step_binding [of s "OpDecide tok d now (av_signer sv)"] assms by (simp add: same_binding_def)
  ultimately show ?thesis
    using assms
    by (simp add: Approvals_Decide_def ApprovalRepo_Get_def ApprovalRepo_Update_def after_call_def Let_def
        publishEvent_def)
qed

lemma sample_decided:
  obtains s1 r1 s2 r2 where
    "Session_Decide sample_session ''second'' DecisionApprove 1500 (Some sample_token_signer) = (s1, Inr r1)"
    "Session_Decide s1 ''first'' DecisionApprove 1600 (Some sample_token_signer) = (s2, Inr r2)"
    "as_status s2 = SessionStatusApproved"
proof -
  let ?s1 = "session_step sample_session (sample_decisions ! 0)"
  obtain s1 x1 where d1: "Session_Decide sample_session ''second'' DecisionApprove 1500
      (Some sample_token_signer) = (s1, x1)"
    by (cases "Session_Decide sample_session ''second'' DecisionApprove 1500 (Some sample_token_signer)")
  obtain s2 x2 where d2: "Session_Decide s1 ''first'' DecisionApprove 1600
      (Some sample_token_signer) = (s2, x2)"
    by (cases "Session_Decide s1 ''first'' DecisionApprove 1600 (Some sample_token_signer)")
  have st: "as_status s2 = SessionStatusApproved"
    using sample_session_approved d1 d2 by simp
  have p: "as_status s1 = SessionStatusPending \<and> (\<exists>r. x1 = Inr r)"
    using d1 sample_token_hashes
    by (auto simp: Session_Decide_def Session_Expire_def sample_session_def record_decision_def
        approvalCount_def Let_def split: prod.split)
  moreover have "\<exists>r. x2 = Inr r"
    using d2 st p Session_Decide_error_status by (cases x2) fastforce+
  ultimately show thesis
    using that d1 d2 st by blast
qed

text \<open>The two tokens of a new session, as drawn.\<close>

lemma NewSession_tokens:
  assumes "NewSession ulid eqf p tokens = Inr (s, grants)"
  obtains gen t1 t2 where "tokens = Some gen" "gen 0 = Inr t1" "gen 1 = Inr t2"
    "map gr_Token grants = [t1, t2]" "map iv_TokenHash (as_invitations s) = [hashToken t1, hashToken t2]"
proof -
  obtain gen where t: "tokens = Some gen" and v: "validateSessionParams ulid eqf p tokens = []"
    using assms by (auto simp: NewSession_def Let_def split: if_split_asm option.split_asm)
  then obtain l1 l2 where l: "sp_ApproverLabels p = [l1, l2]"
    by (auto simp: validateSessionParams_def Let_def split: list.split_asm if_split_asm)
  with assms t v obtain t1 t2 where "gen 0 = Inr t1" "gen (Suc 0) = Inr t2"
    by (auto simp: NewSession_def Let_def result_simps split: if_split_asm)
  with assms t v l that show thesis
    by (auto simp: NewSession_def Let_def result_simps split: if_split_asm)
qed

lemma same_binding_hashes:
  "same_binding s s' \<Longrightarrow> map iv_TokenHash (as_invitations s') = map iv_TokenHash (as_invitations s)"
  by (simp add: same_binding_def)

text \<open>
  C10: what the service stores as approved was approved. Take any calls of a service that started without
  sessions, with the purchase intents changing in any way between them. A session stored as approved was
  created by one of the calls, with two different tokens drawn in that call, for a purchase intent that was
  stored at that moment and requires approval; it carries the intent's identifier, hash and deadline, and
  for each of the two tokens a later call approved this session with it before the intent expires.
\<close>

theorem approved_sessions_were_approved:
  assumes "ar_sessions (av_repository sv0) = Map.empty"
    and "ar_sessions (av_repository (foldl (approval_step ulid equalFold) sv0 calls)) k = Some s"
    and "as_status s = SessionStatusApproved"
  shows "\<exists>before sid now gen intentID labels after i t1 t2.
    calls = before @ CallCreate (Inr sid) now (Some gen) intentID labels # after
    \<and> IntentRepo_Get (av_intents (foldl (approval_step ulid equalFold) sv0 before)) intentID = Inr i
    \<and> pi_requiresApproval i \<and> as_sessionID s = sid \<and> k = sid \<and> as_intentID s = pi_intentID i
    \<and> as_intentHash s = pi_intentHash i \<and> as_expiresAt s = pi_expiresAt i
    \<and> gen 0 = Inr t1 \<and> gen 1 = Inr t2 \<and> hashToken t1 \<noteq> hashToken t2
    \<and> map iv_TokenHash (as_invitations s) = [hashToken t1, hashToken t2]
    \<and> (\<forall>t \<in> {t1, t2}. \<exists>tok at. CallDecide at k tok DecisionApprove \<in> set after
         \<and> hashToken tok = hashToken t \<and> at < pi_expiresAt i)"
proof -
  have "genuine ulid equalFold sv0 calls k s"
    using run_calls_genuine [OF assms(1)] assms(2) by (auto simp: all_genuine_def)
  then obtain before c after i s0 grants ops where *: "calls = before @ c # after"
      "created_by ulid equalFold sv0 before c i s0 grants" "s = foldl session_step s0 ops"
      "\<forall>tok d at sg. OpDecide tok d at sg \<in> set ops \<longrightarrow> CallDecide at k tok d \<in> set after" "as_sessionID s = k"
    unfolding genuine_def by blast
  obtain sid now tokens intentID labels where c: "c = CallCreate (Inr sid) now tokens intentID labels"
      "IntentRepo_Get (av_intents (approval_run ulid equalFold sv0 before)) intentID = Inr i"
      "pi_requiresApproval i"
      "NewSession ulid equalFold (session_params_of sid i labels now) tokens = Inr (s0, grants)"
    using *(2) unfolding created_by_def by blast
  obtain gen t1 t2 where t: "tokens = Some gen" "gen 0 = Inr t1" "gen 1 = Inr t2"
      "map iv_TokenHash (as_invitations s0) = [hashToken t1, hashToken t2]"
    by (rule NewSession_tokens [OF c(4)])
  have s0: "wf_session equalFold s0" "decided s0 = []" "as_intentID s0 = pi_intentID i"
      "as_intentHash s0 = pi_intentHash i" "as_expiresAt s0 = pi_expiresAt i" "as_sessionID s0 = sid"
    using NewSession_wf [OF c(4)] NewSession_id [OF c(4)] by (auto simp: session_params_of_def)
  from session_run [OF s0(1,2), of ops] have run: "wf_session equalFold s" "same_binding s0 s"
      "\<forall>iv \<in> set (as_invitations s). decision_traced ops (as_expiresAt s0) iv"
    unfolding *(3) by auto
  have hashes: "map iv_TokenHash (as_invitations s) = [hashToken t1, hashToken t2]"
    using same_binding_hashes [OF run(2)] t(4) by simp
  have binding: "as_intentID s = pi_intentID i" "as_intentHash s = pi_intentHash i" "as_sessionID s = sid"
      "as_expiresAt s = pi_expiresAt i"
    using run(2) s0(3-6) by (simp_all add: same_binding_def)
  obtain v1 v2 where v: "as_invitations s = [v1, v2]" "iv_TokenHash v1 \<noteq> iv_TokenHash v2"
      "iv_Decision v1 = Some DecisionApprove" "iv_Decision v2 = Some DecisionApprove"
    using run(1) assms(3) by (auto simp: wf_session_def)
  have "\<exists>tok at sg. OpDecide tok DecisionApprove at sg \<in> set ops \<and> hashToken tok = iv_TokenHash v1
        \<and> at < pi_expiresAt i"
      "\<exists>tok at sg. OpDecide tok DecisionApprove at sg \<in> set ops \<and> hashToken tok = iv_TokenHash v2
        \<and> at < pi_expiresAt i"
    using run(3) v s0(5) unfolding decision_traced_def by simp_all
  moreover have "iv_TokenHash v1 = hashToken t1" "iv_TokenHash v2 = hashToken t2"
    using v(1) hashes by simp_all
  ultimately have approvals: "\<exists>tok at. CallDecide at k tok DecisionApprove \<in> set after
      \<and> hashToken tok = hashToken t \<and> at < pi_expiresAt i" if "t \<in> {t1, t2}" for t
    using that *(4) by (elim insertE emptyE) (simp, blast)+
  have "hashToken t1 \<noteq> hashToken t2"
    using v(1,2) hashes by simp
  with *(1,5) c t(1-3) hashes binding approvals show ?thesis
    by (intro exI [of _ before] exI [of _ sid] exI [of _ now] exI [of _ gen] exI [of _ intentID]
        exI [of _ labels] exI [of _ after] exI [of _ i] exI [of _ t1] exI [of _ t2] conjI) simp_all
qed

theorem approved_sessions_were_approved_witness:
  "\<exists>s t1 t2.
     ar_sessions (av_repository (foldl (approval_step sample_ulid sample_fold) sample_approval_service sample_calls))
       ''aps_01ARZ3NDEKTSV4RRFFQ69G5FAV'' = Some s
     \<and> as_status s = SessionStatusApproved
     \<and> map iv_TokenHash (as_invitations s) = [hashToken t1, hashToken t2] \<and> hashToken t1 \<noteq> hashToken t2"
proof -
  let ?k = "''aps_01ARZ3NDEKTSV4RRFFQ69G5FAV''"
  let ?sv1 = "approval_step sample_ulid sample_fold sample_approval_service (sample_calls ! 0)"
  let ?sv2 = "approval_step sample_ulid sample_fold ?sv1 (CallDecide 1500 ?k ''second'' DecisionApprove)"
  let ?sv3 = "approval_step sample_ulid sample_fold ?sv2 (CallDecide 1600 ?k ''first'' DecisionApprove)"
  obtain s1 r1 s2 r2 where d: "Session_Decide sample_session ''second'' DecisionApprove 1500
        (Some sample_token_signer) = (s1, Inr r1)"
      "Session_Decide s1 ''first'' DecisionApprove 1600 (Some sample_token_signer) = (s2, Inr r2)"
      "as_status s2 = SessionStatusApproved"
    by (rule sample_decided)
  have 1: "ar_sessions (av_repository ?sv1) ?k = Some sample_session"
      "av_signer ?sv1 = Some sample_token_signer"
    unfolding sample_create by (simp_all add: sample_approval_service_def)
  have 2: "ar_sessions (av_repository ?sv2) ?k = Some s1" "av_signer ?sv2 = Some sample_token_signer"
    using decide_stored [OF 1(1) sample_session_fields(1)] d(1) 1(2) by simp_all
  have "as_sessionID s1 = ?k"
    using session_step_binding [of sample_session "sample_decisions ! 0"] d(1)
    by (simp add: same_binding_def sample_session_fields)
  then have 3: "ar_sessions (av_repository ?sv3) ?k = Some s2"
    using decide_stored [OF 2(1)] d(2) 2(2) by simp
  have calls: "foldl (approval_step sample_ulid sample_fold) sample_approval_service sample_calls = ?sv3"
    by (simp add: sample_calls_def)
  have "ar_sessions (av_repository sample_approval_service) = Map.empty"
    by (simp add: sample_approval_service_def)
  from approved_sessions_were_approved [OF this 3 [folded calls] d(3)]
  have "\<exists>t1 t2. map iv_TokenHash (as_invitations s2) = [hashToken t1, hashToken t2]
      \<and> hashToken t1 \<noteq> hashToken t2"
    by (elim exE conjE) (intro exI conjI)
  then obtain t1 t2 where "map iv_TokenHash (as_invitations s2) = [hashToken t1, hashToken t2]"
      "hashToken t1 \<noteq> hashToken t2"
    by (elim exE conjE)
  with 3 d(3) show ?thesis
    unfolding calls by (intro exI conjI)
qed

end
