(* ===== verification/AuditLog.thy ===== *)
theory AuditLog
  imports ApprovalToken Repositories "HOL-Library.List_Lexorder" "HOL-Library.Char_ord"
begin

text \<open>
  The package \<open>internal/audit\<close>: the closed vocabulary of audit actions, the validation of an event,
  the appender the mutating packages write through, the page cursor, and the in-memory event
  repository of \<open>internal/persistence/memory/audit_events.go\<close> with its newest-first pages. The lemmas
  show that stored events read back unchanged and that following the cursors of a seller's history
  visits every event once.
\<close>

section \<open>Vocabulary\<close>

datatype AuditActorType =
    ActorTypeSellerUser | ActorTypeIntegrationCredential | ActorTypeAdministrator | ActorTypeAuditSystem
  | ActorTypeAuditOther string

datatype AuditAction =
    ActionCredentialCreated | ActionCredentialRevoked | ActionCredentialRotated
  | ActionCredentialExchangeSucceeded | ActionCredentialExchangeDenied | ActionEntitlementChanged
  | ActionMCPConfirmationIssued | ActionMCPConfirmationConsumed | ActionMCPConfirmationDenied
  | ActionPaymentDestinationCreated | ActionPaymentDestinationVerified
  | ActionPaymentDestinationDisabled | ActionPaymentDestinationRotated
  | ActionRouteDraftCreated | ActionRouteDraftUpdated | ActionRoutePriceChanged
  | ActionRoutePublished | ActionRoutePaused | ActionRouteArchived | ActionRouteEmergencyDisabled
  | ActionWebhookSubscriptionCreated | ActionWebhookSubscriptionUpdated
  | ActionWebhookSubscriptionDisabled | ActionSellerSuspended | ActionServiceIntegrationActivated
  | ActionServiceEndpointVerified | ActionIntegrationVerificationDone | ActionManualRefundRecorded
  | ActionOther string

datatype AuditTargetType =
    TargetTypeIntegrationCredential | TargetTypeMCPConfirmationGrant | TargetTypePaymentDestination
  | TargetTypePaidRoute | TargetTypeWebhookSubscription | TargetTypeSeller | TargetTypeDispute
  | TargetTypeOther string

datatype AuditOutcome = OutcomeSucceeded | OutcomeFailed | OutcomeDenied | OutcomeOther string

record AuditEventParams =
  ae_AuditEventID :: ID
  ae_SellerID :: ID
  ae_ActorType :: AuditActorType
  ae_ActorID :: string
  ae_Action :: AuditAction
  ae_TargetType :: AuditTargetType
  ae_TargetID :: string
  ae_Outcome :: AuditOutcome
  ae_RequestID :: string
  ae_ChangedFields :: "string list"
  ae_OccurredAt :: instant

text \<open>
  \<open>Event\<close>, \<open>EventSnapshot\<close> and \<open>EventView\<close> have the fields of \<open>EventParams\<close>; Go converts between the
  four structs field by field.
\<close>

type_synonym AuditEvent = AuditEventParams

record RecordRequest =
  rr_SellerID :: ID
  rr_ActorType :: AuditActorType
  rr_ActorID :: string
  rr_Action :: AuditAction
  rr_TargetType :: AuditTargetType
  rr_TargetID :: string
  rr_Outcome :: AuditOutcome
  rr_RequestID :: string
  rr_ChangedFields :: "string list"

abbreviation route_fields :: "string list" where
  "route_fields \<equiv>
     [''displayName'', ''productSlug'', ''method'', ''pathPattern'', ''description'', ''mimeType'',
      ''amount'', ''asset'', ''network'', ''payTo'', ''approvalThresholdAmount'',
      ''upstreamTimeoutSeconds'', ''lifecycleStatus'', ''enabled'']"

text \<open>The target type of an action and the fields it may report as changed.\<close>

fun actionDefinitions :: "AuditAction \<Rightarrow> (AuditTargetType \<times> string list) option" where
  "actionDefinitions ActionCredentialCreated =
     Some (TargetTypeIntegrationCredential, [''label'', ''scopes'', ''expiresAt''])"
| "actionDefinitions ActionCredentialRevoked = Some (TargetTypeIntegrationCredential, [''revokedAt''])"
| "actionDefinitions ActionCredentialRotated =
     Some (TargetTypeIntegrationCredential, [''revokedAt'', ''replacedByCredentialId''])"
| "actionDefinitions ActionCredentialExchangeSucceeded =
     Some (TargetTypeIntegrationCredential, [''lastUsedAt''])"
| "actionDefinitions ActionCredentialExchangeDenied =
     Some (TargetTypeIntegrationCredential, [''authorization''])"
| "actionDefinitions ActionEntitlementChanged =
     Some (TargetTypeSeller, [''status'', ''accessEndsAt'', ''entitlementEpoch'', ''sourceRevision'',
       ''credentialRotationRequired''])"
| "actionDefinitions ActionMCPConfirmationIssued =
     Some (TargetTypeMCPConfirmationGrant, [''credentialId'', ''tool'', ''targetType'', ''targetId'',
       ''argumentsSha256'', ''expectedResourceVersion'', ''expiresAt''])"
| "actionDefinitions ActionMCPConfirmationConsumed =
     Some (TargetTypeMCPConfirmationGrant, [''consumedAt'', ''consumedByIdempotencyKeyHash''])"
| "actionDefinitions ActionMCPConfirmationDenied =
     Some (TargetTypeMCPConfirmationGrant, [''authorization''])"
| "actionDefinitions ActionPaymentDestinationCreated =
     Some (TargetTypePaymentDestination, [''asset'', ''network'', ''address'', ''status''])"
| "actionDefinitions ActionPaymentDestinationVerified =
     Some (TargetTypePaymentDestination, [''status'', ''verifiedAt''])"
| "actionDefinitions ActionPaymentDestinationDisabled = Some (TargetTypePaymentDestination, [''status''])"
| "actionDefinitions ActionPaymentDestinationRotated = Some (TargetTypePaymentDestination, [''status''])"
| "actionDefinitions ActionRouteDraftCreated = Some (TargetTypePaidRoute, route_fields)"
| "actionDefinitions ActionRouteDraftUpdated =
     Some (TargetTypePaidRoute, [''displayName'', ''method'', ''pathPattern'', ''description'',
       ''mimeType'', ''inputSchema'', ''outputSchema'', ''amount'', ''upstreamTimeoutSeconds''])"
| "actionDefinitions ActionRoutePriceChanged = Some (TargetTypePaidRoute, [''amount''])"
| "actionDefinitions ActionRoutePublished = Some (TargetTypePaidRoute, route_fields)"
| "actionDefinitions ActionRoutePaused = Some (TargetTypePaidRoute, [''lifecycleStatus'', ''enabled''])"
| "actionDefinitions ActionRouteArchived = Some (TargetTypePaidRoute, [''lifecycleStatus'', ''enabled''])"
| "actionDefinitions ActionRouteEmergencyDisabled =
     Some (TargetTypePaidRoute, [''lifecycleStatus'', ''enabled''])"
| "actionDefinitions ActionWebhookSubscriptionCreated =
     Some (TargetTypeWebhookSubscription, [''endpointUrl'', ''eventTypes'', ''status''])"
| "actionDefinitions ActionWebhookSubscriptionUpdated =
     Some (TargetTypeWebhookSubscription, [''endpointUrl'', ''eventTypes'', ''status''])"
| "actionDefinitions ActionWebhookSubscriptionDisabled =
     Some (TargetTypeWebhookSubscription, [''status''])"
| "actionDefinitions ActionSellerSuspended = Some (TargetTypeSeller, [''status''])"
| "actionDefinitions ActionServiceIntegrationActivated = Some (TargetTypeSeller, [''status''])"
| "actionDefinitions ActionServiceEndpointVerified =
     Some (TargetTypeSeller, [''verifiedUpstreamBaseUrl'', ''verifiedSigningSecretRefHash'',
       ''serviceEndpointVerifiedAt''])"
| "actionDefinitions ActionIntegrationVerificationDone =
     Some (TargetTypePaidRoute, [''valid'', ''routeVersion'', ''checks''])"
| "actionDefinitions ActionManualRefundRecorded =
     Some (TargetTypeDispute, [''amount'', ''asset'', ''network'', ''reference''])"
| "actionDefinitions (ActionOther s) = None"

section \<open>Validation\<close>

definition validBoundedText :: "string \<Rightarrow> nat \<Rightarrow> bool" where
  "validBoundedText s maximumLength \<longleftrightarrow>
     TrimSpace s \<noteq> [] \<and> length (TrimSpace s) \<le> maximumLength \<and> \<not> has_control (TrimSpace s)"

definition validateActor ::
  "(string \<Rightarrow> bool) \<Rightarrow> AuditActorType \<Rightarrow> string \<Rightarrow> validation_error list" where
  "validateActor ulid actorType actorID =
     (case actorType of
        ActorTypeIntegrationCredential \<Rightarrow>
          add_if (\<not> is_ok (ParseID ulid actorID CredentialIDPrefix))
            (NewValidationError ''actorId'' ''format'' ''must identify an integration credential'')
      | ActorTypeAuditOther _ \<Rightarrow>
          [NewValidationError ''actorType'' ''supported'' ''must use a supported audit actor'']
      | _ \<Rightarrow> add_if (\<not> validBoundedText actorID 256)
            (NewValidationError ''actorId'' ''format'' ''must contain 1-256 printable characters''))"

fun changed_field_errors :: "string list \<Rightarrow> string list \<Rightarrow> string list \<Rightarrow> validation_error list" where
  "changed_field_errors allowlist seen [] = []"
| "changed_field_errors allowlist seen (f # fs) =
     (if f \<in> set seen then
        NewValidationError ''changedFields'' ''unique'' ''must not contain duplicate field names''
        # changed_field_errors allowlist seen fs
      else add_if (f \<notin> set allowlist)
             (NewValidationError ''changedFields'' ''allowlist''
                ''contains a field not allowed for the action'')
           @ changed_field_errors allowlist (f # seen) fs)"

definition validateAction ::
  "AuditAction \<Rightarrow> AuditTargetType \<Rightarrow> string list \<Rightarrow> validation_error list" where
  "validateAction action targetType changedFields =
     (case actionDefinitions action of
        None \<Rightarrow> [NewValidationError ''action'' ''supported'' ''must use a supported audit action'']
      | Some (target, allowlist) \<Rightarrow>
          add_if (targetType \<noteq> target)
            (NewValidationError ''targetType'' ''action'' ''does not match the audit action'')
          @ (if changedFields = [] \<or> 16 < length changedFields then
               [NewValidationError ''changedFields'' ''length'' ''must contain 1-16 field names'']
             else changed_field_errors allowlist [] changedFields))"

fun target_prefix :: "AuditTargetType \<Rightarrow> string option" where
  "target_prefix TargetTypeIntegrationCredential = Some CredentialIDPrefix"
| "target_prefix TargetTypeMCPConfirmationGrant = Some MCPConfirmationGrantIDPrefix"
| "target_prefix TargetTypePaymentDestination = Some PaymentDestinationIDPrefix"
| "target_prefix TargetTypePaidRoute = Some RouteIDPrefix"
| "target_prefix TargetTypeWebhookSubscription = Some WebhookSubscriptionIDPrefix"
| "target_prefix TargetTypeSeller = Some SellerIDPrefix"
| "target_prefix TargetTypeDispute = Some DisputeIDPrefix"
| "target_prefix (TargetTypeOther s) = None"

definition validateTargetID ::
  "(string \<Rightarrow> bool) \<Rightarrow> AuditTargetType \<Rightarrow> string \<Rightarrow> validation_error option" where
  "validateTargetID ulid targetType targetID =
     (case target_prefix targetType of
        None \<Rightarrow> Some (NewValidationError ''targetType'' ''supported'' ''must use a supported audit target'')
      | Some p \<Rightarrow>
          if is_ok (ParseID ulid targetID p) then None
          else Some (NewValidationError ''targetId'' ''format''
                 ''must match the declared audit target type''))"

definition validOutcome :: "AuditOutcome \<Rightarrow> bool" where
  "validOutcome outcome \<longleftrightarrow> (case outcome of OutcomeOther _ \<Rightarrow> False | _ \<Rightarrow> True)"

definition auditEventErrors :: "(string \<Rightarrow> bool) \<Rightarrow> AuditEventParams \<Rightarrow> validation_error list" where
  "auditEventErrors ulid p =
     add_if (ID_Prefix (ae_AuditEventID p) \<noteq> AuditEventIDPrefix)
       (NewValidationError ''auditEventId'' ''prefix'' ''must use the audit event prefix'')
     @ add_if (ID_Prefix (ae_SellerID p) \<noteq> SellerIDPrefix)
       (NewValidationError ''sellerId'' ''prefix'' ''must use the seller prefix'')
     @ validateActor ulid (ae_ActorType p) (ae_ActorID p)
     @ validateAction (ae_Action p) (ae_TargetType p) (ae_ChangedFields p)
     @ (case validateTargetID ulid (ae_TargetType p) (ae_TargetID p) of None \<Rightarrow> [] | Some e \<Rightarrow> [e])
     @ add_if (\<not> validOutcome (ae_Outcome p))
       (NewValidationError ''outcome'' ''supported'' ''must use a supported audit outcome'')
     @ add_if (\<not> validBoundedText (ae_RequestID p) 128)
       (NewValidationError ''requestId'' ''format'' ''must contain 1-128 printable characters'')
     @ add_if (ae_OccurredAt p = 0) (NewValidationError ''occurredAt'' ''required'' ''is required'')"

definition NewAuditEvent :: "(string \<Rightarrow> bool) \<Rightarrow> AuditEventParams \<Rightarrow> AuditEvent result" where
  "NewAuditEvent ulid p =
     (let validationErrors = auditEventErrors ulid p
      in reject_if (validationErrors \<noteq> []) (ValidationErrs validationErrors)
       (Inr (p\<lparr>ae_ActorID := TrimSpace (ae_ActorID p), ae_ChangedFields := sort (ae_ChangedFields p)\<rparr>)))"

definition RestoreAuditEvent :: "(string \<Rightarrow> bool) \<Rightarrow> AuditEventParams \<Rightarrow> AuditEvent result" where
  "RestoreAuditEvent ulid snapshot = NewAuditEvent ulid snapshot"

lemma changed_field_errors_Nil:
  "changed_field_errors allowlist seen fs = []
     \<longleftrightarrow> distinct fs \<and> set fs \<inter> set seen = {} \<and> set fs \<subseteq> set allowlist"
  by (induction allowlist seen fs rule: changed_field_errors.induct) auto

text \<open>What the ULID package documents: a ULID has 26 letters and digits.\<close>

definition ulid_text :: "(string \<Rightarrow> bool) \<Rightarrow> bool" where
  "ulid_text ulid \<longleftrightarrow> (\<forall>s. ulid s \<longrightarrow> length s = 26 \<and> list_all (\<lambda>c. byte_in c 48 57 \<or> byte_in c 65 90) s)"

lemma ParseID_trimmed:
  assumes "ulid_text ulid" "is_ok (ParseID ulid raw CredentialIDPrefix)"
  shows "TrimSpace raw = raw"
proof -
  obtain s where s: "raw = ''key_'' @ s" "ulid s"
    using assms(2)
    by (auto simp: ParseID_def reject_if_def HasPrefix_iff prefix_def TrimPrefix_def split: if_split_asm)
  then have "s \<noteq> []" "list_all (\<lambda>c. byte_in c 48 57 \<or> byte_in c 65 90) s"
    using assms(1) by (force simp: ulid_text_def)+
  then have "byte_in (last s) 48 57 \<or> byte_in (last s) 65 90"
    by (simp add: list_all_iff)
  then have "plain_ends raw"
    using s \<open>s \<noteq> []\<close> by (auto simp: plain_ends_def ascii_graph_def byte_in_def)
  then show ?thesis
    by (rule TrimSpace_plain)
qed

lemma auditEventErrors_stored:
  assumes "ulid_text ulid" "auditEventErrors ulid p = []"
  shows "auditEventErrors ulid (p\<lparr>ae_ActorID := TrimSpace (ae_ActorID p),
    ae_ChangedFields := sort (ae_ChangedFields p)\<rparr>) = []"
proof -
  have "sort (ae_ChangedFields p) = [] \<longleftrightarrow> ae_ChangedFields p = []"
    by (metis length_0_conv length_sort)
  then show ?thesis
    using assms ParseID_trimmed [OF assms(1)]
    by (auto simp: auditEventErrors_def validateActor_def validateAction_def changed_field_errors_Nil
        validBoundedText_def split: AuditActorType.splits option.splits if_splits)
qed

lemma RestoreAuditEvent_stored:
  assumes "ulid_text ulid" "NewAuditEvent ulid p = Inr e"
  shows "RestoreAuditEvent ulid e = Inr e"
proof -
  have e: "e = p\<lparr>ae_ActorID := TrimSpace (ae_ActorID p), ae_ChangedFields := sort (ae_ChangedFields p)\<rparr>"
    and "auditEventErrors ulid p = []"
    using assms(2) by (auto simp: NewAuditEvent_def reject_if_def Let_def split: if_split_asm)
  then show ?thesis
    using auditEventErrors_stored [OF assms(1)]
    by (simp add: RestoreAuditEvent_def NewAuditEvent_def Let_def sorted_sort_id [OF sorted_sort])
qed

section \<open>Appending\<close>

record AuditEventRepository =
  aer_events :: "(ID \<times> AuditEvent) list"

text \<open>The map of the source as an association list in the order of insertion.\<close>

definition AuditRepo_Create :: "AuditEventRepository \<Rightarrow> AuditEvent \<Rightarrow> AuditEventRepository result" where
  "AuditRepo_Create r e =
     reject_if (map_of (aer_events r) (ae_AuditEventID e) \<noteq> None) ErrAlreadyExists
       (Inr (r\<lparr>aer_events := aer_events r @ [(ae_AuditEventID e, e)]\<rparr>))"

text \<open>\<open>auditEventID\<close> is the result of the identifier generator, \<open>contextRequestID\<close> the context's value.\<close>

definition Audit_Record ::
  "(string \<Rightarrow> bool) \<Rightarrow> AuditEventRepository \<Rightarrow> ID result \<Rightarrow> instant \<Rightarrow> string \<Rightarrow> RecordRequest
     \<Rightarrow> AuditEventRepository result" where
  "Audit_Record ulid r auditEventID now contextRequestID q =
     (let requestID = (if rr_RequestID q = [] then contextRequestID else rr_RequestID q)
      in rbind auditEventID (\<lambda>eid.
         rbind (NewAuditEvent ulid
           \<lparr>ae_AuditEventID = eid, ae_SellerID = rr_SellerID q, ae_ActorType = rr_ActorType q,
            ae_ActorID = rr_ActorID q, ae_Action = rr_Action q, ae_TargetType = rr_TargetType q,
            ae_TargetID = rr_TargetID q, ae_Outcome = rr_Outcome q, ae_RequestID = requestID,
            ae_ChangedFields = rr_ChangedFields q, ae_OccurredAt = now\<rparr>)
         (AuditRepo_Create r)))"

section \<open>Cursors\<close>

record PageCursor =
  pc_SellerID :: ID
  pc_AuditEventID :: ID
  pc_OccurredAt :: instant

definition cursor_json :: "PageCursor \<Rightarrow> json" where
  "cursor_json c =
     JObject [(''sellerId'', JString (pc_SellerID c)), (''auditEventId'', JString (pc_AuditEventID c)),
              (''occurredAt'', JString (FormatRFC3339Nano (pc_OccurredAt c)))]"

definition EncodeCursor :: "AuditEvent \<Rightarrow> string" where
  "EncodeCursor e =
     base64_url (json_encode (cursor_json
       \<lparr>pc_SellerID = ae_SellerID e, pc_AuditEventID = ae_AuditEventID e, pc_OccurredAt = ae_OccurredAt e\<rparr>))"

text \<open>\<open>json.Unmarshal\<close> into the struct, as for every struct: names match up to case, unknown ones are skipped.\<close>

definition cursor_member :: "string \<times> json \<Rightarrow> PageCursor \<Rightarrow> PageCursor option" where
  "cursor_member m c =
     (let k = fold_name (fst m); v = snd m
      in if k = ''sellerid'' then map_option (\<lambda>s. c\<lparr>pc_SellerID := s\<rparr>) (json_text (pc_SellerID c) v)
         else if k = ''auditeventid'' then
           map_option (\<lambda>s. c\<lparr>pc_AuditEventID := s\<rparr>) (json_text (pc_AuditEventID c) v)
         else if k = ''occurredat'' then
           map_option (\<lambda>t. c\<lparr>pc_OccurredAt := t\<rparr>) (Timestamp_UnmarshalJSON v)
         else Some c)"

fun cursor_members :: "(string \<times> json) list \<Rightarrow> PageCursor \<Rightarrow> PageCursor option" where
  "cursor_members [] c = Some c"
| "cursor_members (m # ms) c = Option.bind (cursor_member m c) (cursor_members ms)"

definition unmarshal_cursor :: "string \<Rightarrow> PageCursor option" where
  "unmarshal_cursor payload =
     (let none = \<lparr>pc_SellerID = [], pc_AuditEventID = [], pc_OccurredAt = 0\<rparr>
      in Option.bind (json_unmarshal payload) (\<lambda>v.
        case v of JObject ms \<Rightarrow> cursor_members ms none | JNull \<Rightarrow> Some none | _ \<Rightarrow> None))"

abbreviation cursor_format_error :: "string \<Rightarrow> go_error" where
  "cursor_format_error message \<equiv> validation ''cursor'' ''format'' message"

definition DecodeCursor :: "string \<Rightarrow> ID \<Rightarrow> PageCursor result" where
  "DecodeCursor raw sellerID =
     (case Option.bind (base64_url_decode raw) unmarshal_cursor of
        None \<Rightarrow> Inl (cursor_format_error ''must be a valid audit cursor'')
      | Some c \<Rightarrow>
          reject_if (pc_SellerID c \<noteq> sellerID)
            (validation ''cursor'' ''scope'' ''does not belong to this seller'')
         (reject_if (ID_Prefix (pc_AuditEventID c) \<noteq> AuditEventIDPrefix \<or> pc_OccurredAt c = 0)
            (cursor_format_error ''must identify an audit event'')
         (Inr c)))"

section \<open>Pages\<close>

text \<open>The order of \<open>sort.Slice\<close>: newest first, later identifiers first within an instant.\<close>

definition newer :: "AuditEvent \<Rightarrow> AuditEvent \<Rightarrow> bool" where
  "newer a b \<longleftrightarrow>
     (if FormatRFC3339Nano (ae_OccurredAt a) = FormatRFC3339Nano (ae_OccurredAt b)
      then ae_AuditEventID b < ae_AuditEventID a
      else ae_OccurredAt b < ae_OccurredAt a)"

fun insert_newest :: "AuditEvent \<Rightarrow> AuditEvent list \<Rightarrow> AuditEvent list" where
  "insert_newest e [] = [e]"
| "insert_newest e (x # xs) = (if newer e x then e # x # xs else x # insert_newest e xs)"

definition newest_first :: "AuditEvent list \<Rightarrow> AuditEvent list" where
  "newest_first es = foldr insert_newest es []"

fun restore_all :: "(string \<Rightarrow> bool) \<Rightarrow> AuditEvent list \<Rightarrow> AuditEvent list result" where
  "restore_all ulid [] = Inr []"
| "restore_all ulid (s # ss) =
     rbind (RestoreAuditEvent ulid s) (\<lambda>e. rbind (restore_all ulid ss) (\<lambda>es. Inr (e # es)))"

fun position_of :: "PageCursor \<Rightarrow> AuditEvent list \<Rightarrow> nat option" where
  "position_of c [] = None"
| "position_of c (e # es) =
     (if ae_AuditEventID e = pc_AuditEventID c
         \<and> FormatRFC3339Nano (ae_OccurredAt e) = FormatRFC3339Nano (pc_OccurredAt c)
      then Some 0 else map_option Suc (position_of c es))"

definition auditPageStart :: "AuditEvent list \<Rightarrow> ID \<Rightarrow> string \<Rightarrow> nat result" where
  "auditPageStart events sellerID rawCursor =
     (if rawCursor = [] then Inr 0
      else rbind (DecodeCursor rawCursor sellerID) (\<lambda>c.
        case position_of c events of
          Some i \<Rightarrow> Inr (i + 1)
        | None \<Rightarrow> Inl (validation ''cursor'' ''scope'' ''does not identify an event in this seller history'')))"

definition ListBySeller ::
  "(string \<Rightarrow> bool) \<Rightarrow> AuditEventRepository \<Rightarrow> ID \<Rightarrow> nat \<Rightarrow> string
     \<Rightarrow> (AuditEvent list \<times> string option) result" where
  "ListBySeller ulid r sellerID limit rawCursor =
     rbind (restore_all ulid (filter (\<lambda>e. ae_SellerID e = sellerID) (map snd (aer_events r)))) (\<lambda>restored.
     (let events = newest_first restored
      in rbind (auditPageStart events sellerID rawCursor) (\<lambda>start.
         let stop = min (start + limit) (length events);
             page = take (stop - start) (drop start events)
         in Inr (page, if stop < length events \<and> page \<noteq> [] then Some (EncodeCursor (last page)) else None))))"

text \<open>\<open>Service.List\<close>; \<open>authorized\<close> is the answer of the seller authorizer.\<close>

definition Audit_List ::
  "(string \<Rightarrow> bool) \<Rightarrow> AuditEventRepository \<Rightarrow> unit result \<Rightarrow> ID \<Rightarrow> int \<Rightarrow> string
     \<Rightarrow> (AuditEvent list \<times> string option) result" where
  "Audit_List ulid r authorized sellerID requestedLimit rawCursor =
     rbind authorized (\<lambda>_.
     let limit = (if requestedLimit = 0 then 50 else requestedLimit)
     in reject_if (limit < 1 \<or> 100 < limit) (validation ''limit'' ''range'' ''must be between 1 and 100'')
       (ListBySeller ulid r sellerID (nat limit) rawCursor))"

section \<open>Following the cursors\<close>

lemma cursor_fold:
  "fold_name ''sellerId'' = ''sellerid''" "fold_name ''auditEventId'' = ''auditeventid''"
  "fold_name ''occurredAt'' = ''occurredat''"
  by code_simp+

text \<open>An event whose identifiers are ASCII and whose year has four digits.\<close>

definition datable :: "AuditEvent \<Rightarrow> bool" where
  "datable e \<longleftrightarrow> plain_text (ae_SellerID e) \<and> plain_text (ae_AuditEventID e)
     \<and> ID_Prefix (ae_AuditEventID e) = AuditEventIDPrefix \<and> 0 < ae_OccurredAt e \<and> ae_OccurredAt e < year_10000"

lemma DecodeCursor_EncodeCursor:
  assumes "datable e"
  shows "DecodeCursor (EncodeCursor e) (ae_SellerID e) =
    Inr \<lparr>pc_SellerID = ae_SellerID e, pc_AuditEventID = ae_AuditEventID e, pc_OccurredAt = ae_OccurredAt e\<rparr>"
proof -
  let ?c = "\<lparr>pc_SellerID = ae_SellerID e, pc_AuditEventID = ae_AuditEventID e, pc_OccurredAt = ae_OccurredAt e\<rparr>"
  have "list_all valid_utf8 [''sellerId'', ''auditEventId'', ''occurredAt'']"
    by (simp add: valid_utf8_ascii)
  then have "json_wf (cursor_json ?c)"
    using assms format_ascii valid_utf8_ascii by (simp add: cursor_json_def datable_def plain_text_def)
  then have "json_unmarshal (json_encode (cursor_json ?c)) = Some (cursor_json ?c)"
    by (subst json_unmarshal_encode) (simp_all add: cursor_json_def)
  moreover have "ParseTimestamp (FormatRFC3339Nano (ae_OccurredAt e)) = Inr (ae_OccurredAt e)"
    using assms ParseTimestamp_Format by (simp add: datable_def)
  ultimately have "unmarshal_cursor (json_encode (cursor_json ?c)) = Some ?c"
    by (simp add: unmarshal_cursor_def) (simp add: cursor_json_def cursor_member_def cursor_fold Let_def
        Timestamp_UnmarshalJSON_def)
  then show ?thesis
    using assms by (simp add: DecodeCursor_def EncodeCursor_def base64_url_decode_encode datable_def)
qed

lemma EncodeCursor_nonempty: "EncodeCursor e \<noteq> []"
proof
  assume "EncodeCursor e = []"
  then have "base64_url_decode [] = Some (json_encode (cursor_json
      \<lparr>pc_SellerID = ae_SellerID e, pc_AuditEventID = ae_AuditEventID e, pc_OccurredAt = ae_OccurredAt e\<rparr>))"
    by (metis EncodeCursor_def base64_url_decode_encode)
  moreover have "base64_url_decode [] = Some []"
    using base64_url_decode_encode [of "[]"] by simp
  ultimately show False
    by (simp add: cursor_json_def)
qed

lemma position_of_nth:
  assumes "distinct (map ae_AuditEventID es)" "i < length es"
    and "pc_AuditEventID c = ae_AuditEventID (es ! i)" "pc_OccurredAt c = ae_OccurredAt (es ! i)"
  shows "position_of c es = Some i"
  using assms
proof (induction es arbitrary: i)
  case (Cons e es)
  show ?case
  proof (cases i)
    case (Suc j)
    then have "ae_AuditEventID (es ! j) \<in> set (map ae_AuditEventID es)"
      using Cons.prems(2) by simp
    then have "ae_AuditEventID e \<noteq> pc_AuditEventID c"
      using Cons.prems(1,3) Suc by auto
    then show ?thesis
      using Cons.IH [of j] Cons.prems Suc by simp
  qed (use Cons.prems in simp)
qed simp

subsection \<open>The order of a history\<close>

lemma newer_iff:
  assumes "datable a" "datable b"
  shows "newer a b \<longleftrightarrow> ae_OccurredAt b < ae_OccurredAt a
    \<or> ae_OccurredAt a = ae_OccurredAt b \<and> ae_AuditEventID b < ae_AuditEventID a"
proof -
  have "FormatRFC3339Nano (ae_OccurredAt a) = FormatRFC3339Nano (ae_OccurredAt b)
      \<longleftrightarrow> ae_OccurredAt a = ae_OccurredAt b"
    using assms ParseTimestamp_Format [of "ae_OccurredAt a"] ParseTimestamp_Format [of "ae_OccurredAt b"]
    by (metis datable_def less_imp_le sum.inject(2))
  then show ?thesis
    by (auto simp: newer_def)
qed

lemma set_insert_newest [simp]: "set (insert_newest e es) = insert e (set es)"
  by (induction es) auto

lemma distinct_insert_newest [simp]:
  "distinct (map f (insert_newest e es)) \<longleftrightarrow> f e \<notin> f ` set es \<and> distinct (map f es)"
  by (induction es) auto

lemma length_insert_newest [simp]: "length (insert_newest e es) = Suc (length es)"
  by (induction es) auto

lemma newest_first_simps [simp]:
  "newest_first [] = []" "newest_first (e # es) = insert_newest e (newest_first es)"
  by (simp_all add: newest_first_def)

lemma set_newest_first [simp]: "set (newest_first es) = set es"
  by (induction es) auto

lemma distinct_newest_first [simp]: "distinct (map f (newest_first es)) \<longleftrightarrow> distinct (map f es)"
  by (induction es) auto

lemma sorted_insert_newest:
  assumes "sorted_wrt newer es" "\<forall>x \<in> insert e (set es). datable x" "ae_AuditEventID e \<notin> ae_AuditEventID ` set es"
  shows "sorted_wrt newer (insert_newest e es)"
  using assms
proof (induction es)
  case (Cons x es)
  have "newer e y" if "newer e x" "y \<in> set es" for y
    using that Cons.prems by (auto simp: newer_iff)
  moreover have "newer x e" if "\<not> newer e x"
    using that Cons.prems by (auto simp: newer_iff)
  ultimately show ?case
    using Cons by auto
qed simp

lemma sorted_newest_first:
  "\<forall>e \<in> set es. datable e \<Longrightarrow> distinct (map ae_AuditEventID es) \<Longrightarrow> sorted_wrt newer (newest_first es)"
  by (induction es) (auto intro!: sorted_insert_newest)

subsection \<open>Stored histories\<close>

text \<open>A repository as the appender fills it.\<close>

definition wf_audit :: "(string \<Rightarrow> bool) \<Rightarrow> AuditEventRepository \<Rightarrow> bool" where
  "wf_audit ulid r \<longleftrightarrow>
     distinct (map fst (aer_events r))
     \<and> (\<forall>(k, e) \<in> set (aer_events r). k = ae_AuditEventID e \<and> datable e \<and> RestoreAuditEvent ulid e = Inr e)"

definition seller_history :: "AuditEventRepository \<Rightarrow> ID \<Rightarrow> AuditEvent list" where
  "seller_history r sellerID =
     newest_first (filter (\<lambda>e. ae_SellerID e = sellerID) (map snd (aer_events r)))"

lemma restore_all_stored: "\<forall>e \<in> set es. RestoreAuditEvent ulid e = Inr e \<Longrightarrow> restore_all ulid es = Inr es"
  by (induction es) auto

lemma wf_audit_history:
  assumes "wf_audit ulid r"
  shows "restore_all ulid (filter (\<lambda>e. ae_SellerID e = s) (map snd (aer_events r)))
      = Inr (filter (\<lambda>e. ae_SellerID e = s) (map snd (aer_events r)))"
    and "\<forall>e \<in> set (seller_history r s). datable e \<and> ae_SellerID e = s"
    and "distinct (map ae_AuditEventID (seller_history r s))"
    and "sorted_wrt newer (seller_history r s)"
proof -
  let ?es = "filter (\<lambda>e. ae_SellerID e = s) (map snd (aer_events r))"
  have keys: "map ae_AuditEventID (map snd (aer_events r)) = map fst (aer_events r)"
    using assms unfolding wf_audit_def map_map comp_def by (intro map_cong refl) force
  have "distinct (map ae_AuditEventID (map snd (aer_events r)))"
    unfolding keys using assms by (simp add: wf_audit_def)
  then have "distinct (map ae_AuditEventID ?es)"
    by (rule distinct_map_filter)
  moreover have "\<forall>e \<in> set ?es. datable e \<and> ae_SellerID e = s \<and> RestoreAuditEvent ulid e = Inr e"
    using assms by (auto simp: wf_audit_def)
  ultimately show "restore_all ulid ?es = Inr ?es" "\<forall>e \<in> set (seller_history r s). datable e \<and> ae_SellerID e = s"
    "distinct (map ae_AuditEventID (seller_history r s))" "sorted_wrt newer (seller_history r s)"
    unfolding seller_history_def set_newest_first distinct_newest_first
    using restore_all_stored [of ?es ulid] sorted_newest_first [of ?es] by blast+
qed

text \<open>The cursor that stands for a position of the history.\<close>

definition cursor_at :: "AuditEvent list \<Rightarrow> nat \<Rightarrow> string" where
  "cursor_at es i = (if i = 0 then [] else EncodeCursor (es ! (i - 1)))"

lemma ListBySeller_at:
  assumes "wf_audit ulid r" "i \<le> length (seller_history r s)" "0 < limit"
  shows "ListBySeller ulid r s limit (cursor_at (seller_history r s) i) =
    Inr (take limit (drop i (seller_history r s)),
         if i + limit < length (seller_history r s) then Some (cursor_at (seller_history r s) (i + limit)) else None)"
proof -
  let ?h = "seller_history r s"
  note h = wf_audit_history [OF assms(1), of s]
  have start: "auditPageStart ?h s (cursor_at ?h i) = Inr i"
  proof (cases i)
    case (Suc j)
    then have "j < length ?h"
      using assms(2) by simp
    then have e: "datable (?h ! j)" "ae_SellerID (?h ! j) = s"
      using h(2) by auto
    show ?thesis
      using DecodeCursor_EncodeCursor [OF e(1)] e(2) Suc \<open>j < length ?h\<close> position_of_nth [OF h(3)]
      by (simp add: auditPageStart_def cursor_at_def EncodeCursor_nonempty)
  qed (simp add: auditPageStart_def cursor_at_def)
  have page: "take (min (i + limit) (length ?h) - i) (drop i ?h) = take limit (drop i ?h)"
    by (simp add: min_def)
  have next_page: "last (take limit (drop i ?h)) = ?h ! (i + limit - 1)" if "i + limit < length ?h"
    using that assms(3) by (subst last_conv_nth) (auto simp: min_def)
  show ?thesis
    using start page next_page assms(3) h(1)
    by (auto simp: ListBySeller_def seller_history_def [symmetric] Let_def cursor_at_def min_def)
qed

text \<open>A client that asks for pages until there is no cursor left, at most \<open>fuel\<close> times.\<close>

fun follow_cursors ::
  "(string \<Rightarrow> bool) \<Rightarrow> AuditEventRepository \<Rightarrow> ID \<Rightarrow> nat \<Rightarrow> nat \<Rightarrow> string \<Rightarrow> AuditEvent list list option" where
  "follow_cursors ulid r s limit 0 cursor = None"
| "follow_cursors ulid r s limit (Suc fuel) cursor =
     (case ListBySeller ulid r s limit cursor of
        Inl e \<Rightarrow> None
      | Inr (page, None) \<Rightarrow> Some [page]
      | Inr (page, Some c) \<Rightarrow> map_option ((#) page) (follow_cursors ulid r s limit fuel c))"

lemma follow_cursors_at:
  assumes "wf_audit ulid r" "i \<le> length (seller_history r s)" "0 < limit"
    "length (seller_history r s) < i + fuel * limit \<or> length (seller_history r s) = i \<and> 0 < fuel"
  shows "\<exists>pages. follow_cursors ulid r s limit fuel (cursor_at (seller_history r s) i) = Some pages
    \<and> concat pages = drop i (seller_history r s) \<and> (\<forall>p \<in> set (butlast pages). length p = limit)
    \<and> length (last pages) \<le> limit"
  using assms(2,4)
proof (induction fuel arbitrary: i)
  case (Suc fuel)
  let ?h = "seller_history r s"
  show ?case
  proof (cases "i + limit < length ?h")
    case True
    then obtain pages where "follow_cursors ulid r s limit fuel (cursor_at ?h (i + limit)) = Some pages"
        "concat pages = drop (i + limit) ?h" "\<forall>p \<in> set (butlast pages). length p = limit"
        "length (last pages) \<le> limit"
      using Suc.IH [of "i + limit"] Suc.prems by (auto simp: algebra_simps)
    moreover from this(2) True have "pages \<noteq> []"
      by auto
    moreover have "take limit (drop i ?h) @ drop (i + limit) ?h = drop i ?h"
      by (metis append_take_drop_id drop_drop add.commute)
    ultimately show ?thesis
      using ListBySeller_at [OF assms(1) Suc.prems(1) assms(3)] True by auto
  next
    case False
    then show ?thesis
      using ListBySeller_at [OF assms(1) Suc.prems(1) assms(3)] by simp
  qed
qed simp

text \<open>Every repository the appender can build, with a clock before the year 10000.\<close>

inductive audit_reachable :: "(string \<Rightarrow> bool) \<Rightarrow> AuditEventRepository \<Rightarrow> bool" for ulid where
  audit_start: "audit_reachable ulid \<lparr>aer_events = []\<rparr>"
| audit_record: "audit_reachable ulid r \<Longrightarrow> Audit_Record ulid r eid now rid q = Inr r'
    \<Longrightarrow> is_ok eid \<longrightarrow> plain_text (projr eid) \<Longrightarrow> plain_text (rr_SellerID q)
    \<Longrightarrow> 0 < now \<Longrightarrow> now < year_10000 \<Longrightarrow> audit_reachable ulid r'"

lemma audit_reachable_wf:
  assumes "ulid_text ulid" "audit_reachable ulid r"
  shows "wf_audit ulid r"
  using assms(2)
proof (induction rule: audit_reachable.induct)
  case (audit_record r eid now rid q r')
  obtain k e where e: "eid = Inr k" "NewAuditEvent ulid
      \<lparr>ae_AuditEventID = k, ae_SellerID = rr_SellerID q, ae_ActorType = rr_ActorType q,
       ae_ActorID = rr_ActorID q, ae_Action = rr_Action q, ae_TargetType = rr_TargetType q,
       ae_TargetID = rr_TargetID q, ae_Outcome = rr_Outcome q,
       ae_RequestID = (if rr_RequestID q = [] then rid else rr_RequestID q),
       ae_ChangedFields = rr_ChangedFields q, ae_OccurredAt = now\<rparr> = Inr e"
      "AuditRepo_Create r e = Inr r'"
    using audit_record.hyps(2) by (auto simp: Audit_Record_def result_simps)
  have "datable e" "ae_AuditEventID e = k"
    using e audit_record.hyps(3-6)
    by (auto simp: datable_def NewAuditEvent_def auditEventErrors_def result_simps Let_def)
  then show ?case
    using audit_record.IH e(3) RestoreAuditEvent_stored [OF assms(1) e(2)]
    by (auto simp: wf_audit_def AuditRepo_Create_def result_simps map_of_eq_None_iff)
qed (simp add: wf_audit_def)

definition sample_audit_ulid :: "string \<Rightarrow> bool" where
  "sample_audit_ulid s \<longleftrightarrow> length s = 26 \<and> list_all (\<lambda>c. byte_in c 48 57 \<or> byte_in c 65 90) s"

definition sample_record :: RecordRequest where
  "sample_record =
     \<lparr>rr_SellerID = ''sel_01ARZ3NDEKTSV4RRFFQ69G5FAV'', rr_ActorType = ActorTypeSellerUser,
      rr_ActorID = ''owner'', rr_Action = ActionRoutePaused, rr_TargetType = TargetTypePaidRoute,
      rr_TargetID = ''rte_01ARZ3NDEKTSV4RRFFQ69G5FAV'', rr_Outcome = OutcomeSucceeded,
      rr_RequestID = ''req'', rr_ChangedFields = [''lifecycleStatus'', ''enabled'']\<rparr>"

definition sample_audit_event :: "ID \<Rightarrow> instant \<Rightarrow> AuditEvent" where
  "sample_audit_event eid now =
     \<lparr>ae_AuditEventID = eid, ae_SellerID = ''sel_01ARZ3NDEKTSV4RRFFQ69G5FAV'',
      ae_ActorType = ActorTypeSellerUser, ae_ActorID = ''owner'', ae_Action = ActionRoutePaused,
      ae_TargetType = TargetTypePaidRoute, ae_TargetID = ''rte_01ARZ3NDEKTSV4RRFFQ69G5FAV'',
      ae_Outcome = OutcomeSucceeded, ae_RequestID = ''req'',
      ae_ChangedFields = [''enabled'', ''lifecycleStatus''], ae_OccurredAt = now\<rparr>"

definition sample_audit :: AuditEventRepository where
  "sample_audit = \<lparr>aer_events = [(''aud_1'', sample_audit_event ''aud_1'' 1000), (''aud_2'', sample_audit_event ''aud_2'' 2000)]\<rparr>"

lemma sample_audit_reachable: "audit_reachable sample_audit_ulid sample_audit"
proof -
  let ?r1 = "\<lparr>aer_events = [(''aud_1'', sample_audit_event ''aud_1'' 1000)]\<rparr>"
  have "Audit_Record sample_audit_ulid \<lparr>aer_events = []\<rparr> (Inr ''aud_1'') 1000 [] sample_record = Inr ?r1"
    by code_simp
  then have "audit_reachable sample_audit_ulid ?r1"
    by (rule audit_record [OF audit_start]) (simp_all add: plain_text_def sample_record_def)
  moreover have "Audit_Record sample_audit_ulid ?r1 (Inr ''aud_2'') 2000 [] sample_record = Inr sample_audit"
    by code_simp
  ultimately show ?thesis
    by (rule audit_record) (simp_all add: plain_text_def sample_record_def)
qed

text \<open>
  C33: the audit history is complete and in order. Whatever events were recorded, a client that asks
  for pages of any positive size and follows the cursors it is given reaches the last page; together
  the pages are the seller's whole history, each event once, newest first, every page but the last
  one full.
\<close>

theorem audit_pages_complete:
  assumes "ulid_text ulid" "audit_reachable ulid r" "0 < limit" "length (aer_events r) < fuel"
  shows "\<exists>pages. follow_cursors ulid r sellerID limit fuel [] = Some pages
    \<and> set (concat pages) = {e \<in> snd ` set (aer_events r). ae_SellerID e = sellerID}
    \<and> distinct (map ae_AuditEventID (concat pages)) \<and> sorted_wrt newer (concat pages)
    \<and> (\<forall>p \<in> set (butlast pages). length p = limit) \<and> length (last pages) \<le> limit"
proof -
  let ?h = "seller_history r sellerID"
  note wf = audit_reachable_wf [OF assms(1,2)]
  have "length (newest_first es) = length es" for es
    by (induction es) auto
  then have "length ?h \<le> length (aer_events r)"
    by (simp add: seller_history_def)
  also have "\<dots> < 0 + fuel * limit"
    using assms(3,4) by (cases limit) auto
  finally obtain pages where "follow_cursors ulid r sellerID limit fuel [] = Some pages"
      "concat pages = ?h" "\<forall>p \<in> set (butlast pages). length p = limit" "length (last pages) \<le> limit"
    using follow_cursors_at [OF wf _ assms(3), of 0 sellerID fuel] by (auto simp: cursor_at_def)
  moreover have "set ?h = {e \<in> snd ` set (aer_events r). ae_SellerID e = sellerID}"
    by (auto simp: seller_history_def)
  ultimately show ?thesis
    using wf_audit_history(3,4) [OF wf, of sellerID] by (intro exI [of _ pages]) simp
qed

theorem audit_pages_complete_witness:
  "\<exists>pages. follow_cursors sample_audit_ulid sample_audit ''sel_01ARZ3NDEKTSV4RRFFQ69G5FAV'' 1 3 [] = Some pages
   \<and> set (concat pages) = {sample_audit_event ''aud_1'' 1000, sample_audit_event ''aud_2'' 2000}
   \<and> sorted_wrt newer (concat pages)"
proof -
  have "ulid_text sample_audit_ulid"
    by (simp add: ulid_text_def sample_audit_ulid_def)
  then obtain pages where "follow_cursors sample_audit_ulid sample_audit ''sel_01ARZ3NDEKTSV4RRFFQ69G5FAV'' 1 3 [] = Some pages"
      "set (concat pages) = {e \<in> snd ` set (aer_events sample_audit). ae_SellerID e = ''sel_01ARZ3NDEKTSV4RRFFQ69G5FAV''}"
      "sorted_wrt newer (concat pages)"
    using audit_pages_complete [OF _ sample_audit_reachable, of 1 3 "''sel_01ARZ3NDEKTSV4RRFFQ69G5FAV''"]
    by (auto simp: sample_audit_def)
  moreover have "{e \<in> snd ` set (aer_events sample_audit). ae_SellerID e = ''sel_01ARZ3NDEKTSV4RRFFQ69G5FAV''}
      = {sample_audit_event ''aud_1'' 1000, sample_audit_event ''aud_2'' 2000}"
    by (auto simp: sample_audit_def sample_audit_event_def)
  ultimately show ?thesis
    by (intro exI [of _ pages]) simp
qed

end
