(* ===== verification/JsonSchema.thy ===== *)
theory JsonSchema
  imports Text Complex_Main "HOL-Library.AList" "HOL-Library.List_Lexorder" "HOL-Library.Char_ord"
begin

text \<open>
  The product contract of \<open>internal/catalog/product_contract.go\<close> and
  \<open>internal/catalog/input_validation.go\<close>: the closed JSON-schema subset a seller may publish and the
  validation of a buyer's request against it. The validation reports issues with paths and
  messages; it is shown to report none exactly when the document conforms to the schema in the usual
  meaning of its keywords.
\<close>

section \<open>Go values decoded from JSON\<close>

text \<open>
  An object decoded into \<open>map[string]any\<close> has one entry per name, the last one of the document. It
  is listed in the order of its names, in which \<open>json.Marshal\<close> prints it.
\<close>

definition go_map :: "(string \<times> 'a) list \<Rightarrow> (string \<times> 'a) list" where
  "go_map fs = sort_key fst (AList.clearjunk (rev fs))"

fun json_any :: "json \<Rightarrow> json" where
  "json_any (JArray vs) = JArray (map json_any vs)"
| "json_any (JObject fs) = JObject (go_map (map (\<lambda>(k, v). (k, json_any v)) fs))"
| "json_any v = v"

text \<open>The type assertion \<open>v.(map[string]any)\<close> with its result ignored: a nil map otherwise.\<close>

fun object_members :: "json option \<Rightarrow> (string \<times> json) list" where
  "object_members (Some (JObject fs)) = fs"
| "object_members _ = []"

fun text_of :: "json option \<Rightarrow> string" where
  "text_of (Some (JString s)) = s"
| "text_of _ = []"

lemma member_size: "map_of fs k = Some v \<Longrightarrow> size v < size (JObject fs)"
  by (drule map_of_SomeD, induction fs) auto

lemma entry_size: "(k, v) \<in> set fs \<Longrightarrow> size v < size (JObject fs)"
  by (induction fs) auto

lemma item_size: "v \<in> set vs \<Longrightarrow> size v < size (JArray vs)"
  by (induction vs) auto

lemma object_members_size: "size (JObject (object_members (Some v))) \<le> Suc (size v)"
  by (cases v) auto

section \<open>Numbers\<close>

text \<open>
  A JSON number literal: whether it is negative, its digits as an integer, the written exponent and
  the power of ten of the last digit.
\<close>

definition literal_parts :: "string \<Rightarrow> (bool \<times> nat \<times> int \<times> int) option" where
  "literal_parts s =
     (let (sign, s1) = split_sign s in
      Option.bind (scan_int s1) (\<lambda>(i, s2). Option.bind (scan_frac s2) (\<lambda>(f, s3).
      Option.bind (scan_exp s3) (\<lambda>(e, s4).
        let (minus, digits) = (if take 1 (drop 1 e) = ''-'' then (True, drop 2 e)
                               else if take 1 (drop 1 e) = ''+'' then (False, drop 2 e)
                               else (False, drop 1 e));
            written = (if minus then - int (digits_val digits) else int (digits_val digits))
        in if s4 \<noteq> [] then None
           else Some (sign \<noteq> [], digits_val (i @ drop 1 f), written, written - int (length (drop 1 f)))))))"

definition pow_rat :: "rat \<Rightarrow> int \<Rightarrow> rat" where
  "pow_rat b k = (if 0 \<le> k then b ^ nat k else 1 / b ^ nat (- k))"

text \<open>
  \<open>big.Rat.SetString\<close>: exact, but the exponent must fit 64 bits and, unless all digits are zero, the
  power of ten may not exceed a million.
\<close>

definition rat_of_literal :: "string \<Rightarrow> rat option" where
  "rat_of_literal s =
     Option.bind (literal_parts s) (\<lambda>(neg, mantissa, written, power).
       if written < - (2 ^ 63) \<or> 2 ^ 63 \<le> written then None
       else if mantissa = 0 then Some 0
       else if 1000000 < \<bar>power\<bar> then None
       else Some ((if neg then - 1 else 1) * of_nat mantissa * pow_rat 10 power))"

text \<open>
  The \<open>float64\<close> nearest to a non-negative number, halves to even, as an exact number; there is none
  beyond the largest one.
\<close>

fun bit_count :: "nat \<Rightarrow> nat" where
  "bit_count n = (if n = 0 then 0 else Suc (bit_count (n div 2)))"

declare bit_count.simps [simp del]

definition floor_log2 :: "rat \<Rightarrow> int" where
  "floor_log2 x =
     (let (a, b) = quotient_of x; k = int (bit_count (nat a)) - int (bit_count (nat b))
      in if pow_rat 2 k \<le> x then k else k - 1)"

definition round_half_even :: "rat \<Rightarrow> int" where
  "round_half_even x =
     (let f = \<lfloor>x\<rfloor>; d = x - of_int f
      in if d < 1 / 2 then f else if 1 / 2 < d then f + 1 else if even f then f else f + 1)"

definition float64 :: "rat \<Rightarrow> rat option" where
  "float64 x =
     (if x = 0 then Some 0
      else let q = max (floor_log2 x - 52) (- 1074);
               v = of_int (round_half_even (x / pow_rat 2 q)) * pow_rat 2 q
           in if v < 2 ^ 1024 then Some v else None)"

text \<open>
  The shortest decimal that rounds to a positive \<open>float64\<close>, the nearest one of that length, as
  \<open>strconv.FormatFloat\<close> with precision -1 finds it: its digits and the power of ten of the last one.
\<close>

definition floor_log10 :: "rat \<Rightarrow> int" where
  "floor_log10 x =
     (let k = (floor_log2 x * 30103) div 100000
      in if pow_rat 10 (k + 1) \<le> x then k + 1 else if pow_rat 10 k \<le> x then k else k - 1)"

definition decimals :: "rat \<Rightarrow> nat \<Rightarrow> (nat \<times> int) list" where
  "decimals v p =
     (let k = floor_log10 v - int p + 1; unit = pow_rat 10 k; lo = nat \<lfloor>v / unit\<rfloor>;
          near = filter (\<lambda>c. float64 (of_nat c * unit) = Some v) [lo, lo + 1]
      in map (\<lambda>c. (c, k))
           (case near of
              [a, b] \<Rightarrow> [if v - of_nat a * unit < of_nat b * unit - v then a
                        else if of_nat b * unit - v < v - of_nat a * unit then b
                        else if even a then a else b]
            | _ \<Rightarrow> near))"

fun strip_zeros :: "nat \<Rightarrow> int \<Rightarrow> nat \<times> int" where
  "strip_zeros c k = (if c = 0 \<or> c mod 10 \<noteq> 0 then (c, k) else strip_zeros (c div 10) (k + 1))"

declare strip_zeros.simps [simp del]

definition shortest_decimal :: "rat \<Rightarrow> nat \<times> int" where
  "shortest_decimal v =
     (case concat (map (decimals v) [1..<18]) of [] \<Rightarrow> (0, 0) | (c, k) # _ \<Rightarrow> strip_zeros c k)"

text \<open>The text \<open>json.Marshal\<close> gives a \<open>float64\<close>: exponents below 1e-6 and from 1e21 on.\<close>

definition float_text :: "rat \<Rightarrow> string" where
  "float_text v =
     (if v = 0 then ''0''
      else let (c, k) = shortest_decimal v; ds = show_nat c; n = int (length ds); e = n + k - 1
           in if e < - 6 \<or> 21 \<le> e then
                take 1 ds @ (if drop 1 ds = [] then [] else ''.'' @ drop 1 ds)
                @ ''e'' @ (if e < 0 then ''-'' else ''+'') @ show_nat (nat \<bar>e\<bar>)
              else if 0 \<le> k then ds @ replicate (nat k) (CHR ''0'')
              else if 0 < n + k then take (nat (n + k)) ds @ ''.'' @ drop (nat (n + k)) ds
              else ''0.'' @ replicate (nat (- (n + k))) (CHR ''0'') @ ds)"

text \<open>
  \<open>json.Unmarshal\<close> without \<open>UseNumber\<close>: every number becomes a \<open>float64\<close>, kept here as the literal
  \<open>json.Marshal\<close> prints for it. A number out of range is an error.
\<close>

definition float_literal :: "string \<Rightarrow> string option" where
  "float_literal s =
     Option.bind (literal_parts s) (\<lambda>(neg, mantissa, written, power).
       let sign = (if neg then ''-'' else []); order = int (length (show_nat mantissa)) + power
       in if mantissa = 0 \<or> order < - 400 then Some (sign @ ''0'')
          else if 400 < order then None
          else map_option (\<lambda>v. sign @ float_text v) (float64 (of_nat mantissa * pow_rat 10 power)))"

fun float_values :: "json \<Rightarrow> json option" where
  "float_values (JNumber s) = map_option JNumber (float_literal s)"
| "float_values (JArray vs) = map_option JArray (those (map float_values vs))"
| "float_values (JObject fs) =
     map_option JObject (those (map (\<lambda>(k, v). map_option (Pair k) (float_values v)) fs))"
| "float_values v = Some v"

definition unmarshal_any :: "string \<Rightarrow> json option" where
  "unmarshal_any s = map_option json_any (Option.bind (json_unmarshal s) float_values)"

section \<open>Closed schemas\<close>

type_synonym JSONSchema = string

abbreviation DefaultClosedObjectSchema :: JSONSchema where
  "DefaultClosedObjectSchema \<equiv>
     [CHR ''{'', CHR 0x22] @ ''additionalProperties'' @ [CHR 0x22] @ '':false,'' @ [CHR 0x22]
     @ ''properties'' @ [CHR 0x22] @ '':{},'' @ [CHR 0x22] @ ''type'' @ [CHR 0x22, CHR '':'', CHR 0x22]
     @ ''object'' @ [CHR 0x22, CHR ''}'']"

definition Schema_Canonical :: "JSONSchema \<Rightarrow> string" where
  "Schema_Canonical schema = (if schema = [] then DefaultClosedObjectSchema else schema)"

definition Schema_MarshalJSON :: "JSONSchema \<Rightarrow> json result" where
  "Schema_MarshalJSON schema = marshal_raw (Schema_Canonical schema)"

definition schema_error :: "string \<Rightarrow> string \<Rightarrow> go_error" where
  "schema_error rule message = validation ''schema'' rule message"

definition schema_keywords :: "string list" where
  "schema_keywords =
     [''type'', ''additionalProperties'', ''properties'', ''required'', ''description'', ''format'',
      ''enum'', ''const'', ''items'', ''minLength'', ''maxLength'', ''minimum'', ''maximum'',
      ''minItems'', ''maxItems'', ''pattern'', ''oneOf'', ''anyOf'', ''allOf'']"

text \<open>Go's \<open>error\<close> value alone, and the statements \<open>if err := f(); err != nil { return err }\<close>.\<close>

definition or_else :: "go_error option \<Rightarrow> go_error option \<Rightarrow> go_error option" where
  "or_else a b = (case a of None \<Rightarrow> b | Some e \<Rightarrow> Some e)"

fun first_error :: "go_error option list \<Rightarrow> go_error option" where
  "first_error [] = None"
| "first_error (e # es) = or_else e (first_error es)"

lemma or_else_None [simp]: "or_else a b = None \<longleftrightarrow> a = None \<and> b = None"
  by (simp add: or_else_def split: option.split)

lemma first_error_None [simp]: "first_error es = None \<longleftrightarrow> (\<forall>e \<in> set es. e = None)"
  by (induction es) auto

fun required_error :: "string list \<Rightarrow> string list \<Rightarrow> json list \<Rightarrow> go_error option" where
  "required_error properties seen [] = None"
| "required_error properties seen (JString name # items) =
     (if name \<notin> set properties then
        Some (schema_error ''required'' ''must reference a declared property'')
      else if name \<in> set seen then Some (schema_error ''required'' ''must not contain duplicates'')
      else required_error properties (name # seen) items)"
| "required_error properties seen (_ # items) =
     Some (schema_error ''required'' ''must contain property names'')"

text \<open>
  The recursive calls see the children of the node. Go visits the entries of a map in no particular
  order; which of several errors is returned depends on it, whether there is one does not.
\<close>

function validateClosedSchemaNode :: "(string \<times> json) list \<Rightarrow> bool \<Rightarrow> go_error option" where
  "validateClosedSchemaNode node isRoot =
     (let typeName = text_of (map_of node ''type'')
      in if \<exists>m \<in> set node. fst m \<notin> set schema_keywords then
           Some (schema_error ''keyword'' ''contains an unsupported schema keyword'')
         else if isRoot \<and> typeName \<noteq> ''object'' then
           Some (schema_error ''type'' ''root type must be object'')
         else or_else
           (if typeName = ''object'' \<or> map_of node ''properties'' \<notin> {None, Some JNull} then
              if map_of node ''additionalProperties'' \<noteq> Some (JBool False) then
                Some (schema_error ''closed'' ''object schemas must set additionalProperties to false'')
              else (case map_of node ''properties'' of
                      Some (JObject properties) \<Rightarrow> or_else
                        (first_error (map (\<lambda>v.
                           case v of JObject child \<Rightarrow> validateClosedSchemaNode child False
                           | _ \<Rightarrow> Some (schema_error ''property'' ''each property must contain a schema object''))
                           (map snd properties)))
                        (case map_of node ''required'' of
                           None \<Rightarrow> None
                         | Some (JArray items) \<Rightarrow> required_error (map fst properties) [] items
                         | Some _ \<Rightarrow> Some (schema_error ''required'' ''must be an array''))
                    | _ \<Rightarrow> Some (schema_error ''properties'' ''object schemas must define a properties map''))
            else None)
           (or_else
             (case map_of node ''items'' of
                None \<Rightarrow> None
              | Some (JObject child) \<Rightarrow> validateClosedSchemaNode child False
              | Some _ \<Rightarrow> Some (schema_error ''items'' ''must contain a schema object''))
             (first_error (map (\<lambda>keyword.
                case map_of node keyword of
                  None \<Rightarrow> None
                | Some (JArray items) \<Rightarrow>
                    if items = [] then Some (schema_error keyword ''must contain schema objects'')
                    else first_error (map (\<lambda>v.
                      case v of JObject child \<Rightarrow> validateClosedSchemaNode child False
                      | _ \<Rightarrow> Some (schema_error keyword ''must contain schema objects'')) items)
                | Some _ \<Rightarrow> Some (schema_error keyword ''must contain schema objects''))
                [''oneOf'', ''anyOf'', ''allOf'']))))"
  by pat_completeness auto
termination
  by (relation "measure (\<lambda>(node, isRoot). size (JObject node))")
    (auto dest!: member_size item_size entry_size)

definition NormalizeClosedJSONSchema :: "(string \<Rightarrow> string result) \<Rightarrow> string \<Rightarrow> JSONSchema result" where
  "NormalizeClosedJSONSchema jcs encoded =
     (if encoded = [] \<or> TrimSpace encoded = ''null'' then Inr DefaultClosedObjectSchema
      else if 16 * 1024 < length encoded then
        Inl (schema_error ''size'' ''must not exceed 16384 bytes'')
      else case json_decode_first encoded of
        None \<Rightarrow> Inl (schema_error ''json'' ''must be a JSON object'')
      | Some (value, rest) \<Rightarrow>
          if \<not> list_all json_space rest then
            Inl (schema_error ''json'' ''must contain exactly one JSON value'')
          else (case json_any value of
              JObject node \<Rightarrow>
                (case validateClosedSchemaNode node True of
                   Some e \<Rightarrow> Inl e
                 | None \<Rightarrow> jcs (json_encode (JObject node)))
            | _ \<Rightarrow> Inl (schema_error ''object'' ''must be a JSON object'')))"

section \<open>Validation of a request document\<close>

text \<open>
  The engines of \<open>regexp\<close>, \<open>net/mail\<close> and \<open>net/url\<close>: the matcher a pattern compiles to, the address
  of a mail address, and whether a request URI parses to an absolute one.
\<close>

record schema_engines =
  se_regexp :: "string \<Rightarrow> (string \<Rightarrow> bool) option"
  se_mailAddress :: "string \<Rightarrow> string option"
  se_absoluteURI :: "string \<Rightarrow> bool option"

record InputValidationIssue =
  vi_Field :: string
  vi_Rule :: string
  vi_Message :: string

definition joinValidationPath :: "string \<Rightarrow> string \<Rightarrow> string" where
  "joinValidationPath path name = (if path = [] then name else path @ ''.'' @ name)"

definition displayValidationPath :: "string \<Rightarrow> string" where
  "displayValidationPath path = (if path = [] then ''Request body'' else path)"

definition typeLabel :: "string \<Rightarrow> string" where
  "typeLabel typeName =
     (if typeName = ''object'' \<or> typeName = ''array'' then ''a JSON '' @ typeName else ''a '' @ typeName)"

definition jsonValuesEqual :: "json \<Rightarrow> json \<Rightarrow> bool" where
  "jsonValuesEqual left right \<longleftrightarrow> json_encode left = json_encode right"

definition matchesJSONType :: "string \<Rightarrow> json \<Rightarrow> bool" where
  "matchesJSONType typeName v =
     (if typeName = ''object'' then (case v of JObject _ \<Rightarrow> True | _ \<Rightarrow> False)
      else if typeName = ''array'' then (case v of JArray _ \<Rightarrow> True | _ \<Rightarrow> False)
      else if typeName = ''string'' then (case v of JString _ \<Rightarrow> True | _ \<Rightarrow> False)
      else if typeName = ''number'' then (case v of JNumber _ \<Rightarrow> True | _ \<Rightarrow> False)
      else if typeName = ''integer'' then
        (case v of JNumber s \<Rightarrow> list_all (\<lambda>c. c \<notin> set ''.eE'') s | _ \<Rightarrow> False)
      else if typeName = ''boolean'' then (case v of JBool _ \<Rightarrow> True | _ \<Rightarrow> False)
      else typeName = ''null'' \<and> v = JNull)"

definition matchesStringFormat :: "schema_engines \<Rightarrow> string \<Rightarrow> string \<Rightarrow> bool" where
  "matchesStringFormat eng format s =
     (if format = ''email'' then se_mailAddress eng s = Some s
      else if format = ''uri'' then se_absoluteURI eng s = Some True
      else if format = ''date-time'' then parse_rfc3339 s \<noteq> None
      else True)"

text \<open>
  \<open>int(number)\<close> of a \<open>float64\<close> truncates; out of the range of \<open>int\<close> it is the least \<open>int\<close>, as on amd64.
\<close>

definition float_value :: "string \<Rightarrow> rat" where
  "float_value s =
     (case rat_of_literal s of
        None \<Rightarrow> 0
      | Some x \<Rightarrow> (case float64 \<bar>x\<bar> of None \<Rightarrow> 0 | Some v \<Rightarrow> if x < 0 then - v else v))"

definition schemaInteger :: "json option \<Rightarrow> int option" where
  "schemaInteger v =
     (case v of
        Some (JNumber s) \<Rightarrow>
          (let x = float_value s; n = (if 0 \<le> x then \<lfloor>x\<rfloor> else - \<lfloor>- x\<rfloor>)
           in Some (if - (2 ^ 63) \<le> n \<and> n < 2 ^ 63 then n else - (2 ^ 63)))
      | _ \<Rightarrow> None)"

definition schemaNumber :: "json option \<Rightarrow> rat option" where
  "schemaNumber v = (case v of Some (JNumber s) \<Rightarrow> rat_of_literal s | _ \<Rightarrow> None)"

definition compareJSONNumber :: "string \<Rightarrow> rat \<Rightarrow> int" where
  "compareJSONNumber literal limit =
     (case rat_of_literal literal of
        None \<Rightarrow> 0
      | Some x \<Rightarrow> if x < limit then - 1 else if limit < x then 1 else 0)"

definition Rat_String :: "rat \<Rightarrow> string" where
  "Rat_String x = (let (a, b) = quotient_of x in show_int a @ ''/'' @ show_int b)"

definition issue :: "string \<Rightarrow> string \<Rightarrow> string \<Rightarrow> InputValidationIssue" where
  "issue field rule message = \<lparr>vi_Field = field, vi_Rule = rule, vi_Message = field @ message\<rparr>"

abbreviation issue_if :: "bool \<Rightarrow> InputValidationIssue \<Rightarrow> InputValidationIssue list" where
  "issue_if b i \<equiv> (if b then [i] else [])"

fun array_of :: "json option \<Rightarrow> json list option" where
  "array_of (Some (JArray vs)) = Some vs"
| "array_of _ = None"

definition constViolated :: "(string \<times> json) list \<Rightarrow> json \<Rightarrow> bool" where
  "constViolated schema v =
     (case map_of schema ''const'' of None \<Rightarrow> False | Some c \<Rightarrow> \<not> jsonValuesEqual v c)"

definition enumViolated :: "(string \<times> json) list \<Rightarrow> json \<Rightarrow> bool" where
  "enumViolated schema v =
     (case array_of (map_of schema ''enum'') of
        None \<Rightarrow> False
      | Some choices \<Rightarrow> \<not> list_ex (jsonValuesEqual v) choices)"

text \<open>The verdict of one composition keyword over the issues of its alternatives.\<close>

definition composition_issues ::
  "string \<Rightarrow> string \<Rightarrow> InputValidationIssue list list \<Rightarrow> InputValidationIssue list" where
  "composition_issues keyword field results =
     (let validCount = length (filter (\<lambda>r. r = []) results)
      in if keyword = ''allOf'' then concat results
         else if keyword = ''anyOf'' then
           issue_if (validCount = 0) (issue field keyword '' does not match an accepted option.'')
         else issue_if (validCount \<noteq> 1)
           (issue field keyword '' must match exactly one accepted option.''))"

definition required_issues ::
  "(string \<times> json) list \<Rightarrow> (string \<times> json) list \<Rightarrow> string \<Rightarrow> InputValidationIssue list" where
  "required_issues schema typed path =
     (case array_of (map_of schema ''required'') of
        None \<Rightarrow> []
      | Some required \<Rightarrow> concat (map (\<lambda>r. let name = text_of (Some r) in
          issue_if (map_of typed name = None)
            (issue (joinValidationPath path name) ''required'' '' is required.'')) required))"

definition unknown_issues ::
  "(string \<times> json) list \<Rightarrow> (string \<times> json) list \<Rightarrow> string \<Rightarrow> InputValidationIssue list" where
  "unknown_issues properties typed path =
     map (\<lambda>name. issue (joinValidationPath path name) ''unknown'' '' is not accepted by this product.'')
       (sort (filter (\<lambda>name. map_of properties name = None) (map fst typed)))"

definition length_issues ::
  "(string \<times> json) list \<Rightarrow> string \<Rightarrow> string \<Rightarrow> string \<Rightarrow> string \<Rightarrow> int \<Rightarrow> string \<Rightarrow> InputValidationIssue list" where
  "length_issues schema minimum maximum verb things n field =
     (case schemaInteger (map_of schema minimum) of
        None \<Rightarrow> []
      | Some m \<Rightarrow> issue_if (n < m) (issue field minimum ('' must '' @ verb @ '' at least '' @ show_int m @ '' '' @ things)))
     @ (case schemaInteger (map_of schema maximum) of
        None \<Rightarrow> []
      | Some m \<Rightarrow> issue_if (m < n) (issue field maximum ('' must '' @ verb @ '' at most '' @ show_int m @ '' '' @ things)))"

definition string_issues ::
  "schema_engines \<Rightarrow> (string \<times> json) list \<Rightarrow> string \<Rightarrow> string \<Rightarrow> InputValidationIssue list" where
  "string_issues eng schema s field =
     length_issues schema ''minLength'' ''maxLength'' ''be'' ''characters.'' (int (RuneCount s)) field
     @ (case map_of schema ''pattern'' of
          Some (JString pattern) \<Rightarrow>
            issue_if (case se_regexp eng pattern of None \<Rightarrow> True | Some matches \<Rightarrow> \<not> matches s)
              (issue field ''pattern'' '' has an invalid format.'')
        | _ \<Rightarrow> [])
     @ (case map_of schema ''format'' of
          Some (JString format) \<Rightarrow>
            issue_if (\<not> matchesStringFormat eng format s)
              (issue field ''format'' ('' must be a valid '' @ format @ ''.''))
        | _ \<Rightarrow> [])"

definition number_issues :: "(string \<times> json) list \<Rightarrow> string \<Rightarrow> string \<Rightarrow> InputValidationIssue list" where
  "number_issues schema literal field =
     (case schemaNumber (map_of schema ''minimum'') of
        None \<Rightarrow> []
      | Some m \<Rightarrow> issue_if (compareJSONNumber literal m < 0)
          (issue field ''minimum'' ('' must be at least '' @ Rat_String m @ ''.'')))
     @ (case schemaNumber (map_of schema ''maximum'') of
        None \<Rightarrow> []
      | Some m \<Rightarrow> issue_if (compareJSONNumber literal m > 0)
          (issue field ''maximum'' ('' must be at most '' @ Rat_String m @ ''.'')))"

abbreviation composition_keywords :: "string list" where
  "composition_keywords \<equiv> [''allOf'', ''anyOf'', ''oneOf'']"

lemma array_of_Some [simp]: "array_of w = Some vs \<longleftrightarrow> w = Some (JArray vs)"
  by (cases w rule: array_of.cases) auto

lemma object_members_lookup:
  assumes "(k, v) \<in> set (object_members (map_of schema p))"
  shows "size (JObject (object_members (Some v))) < size (JObject schema)"
proof -
  obtain fs where "map_of schema p = Some (JObject fs)" "(k, v) \<in> set fs"
    using assms by (cases "map_of schema p" rule: object_members.cases) auto
  then show ?thesis
    using member_size [of schema p] entry_size [of k v fs] object_members_size [of v] by fastforce
qed

lemma alternative_size:
  assumes "map_of schema keyword = Some (JArray alternatives)" "a \<in> set alternatives"
  shows "size (JObject (object_members (Some a))) < size (JObject schema)"
  using member_size [OF assms(1)] item_size [OF assms(2)] object_members_size [of a] by linarith

function validateJSONValue ::
  "schema_engines \<Rightarrow> (string \<times> json) list \<Rightarrow> json \<Rightarrow> string \<Rightarrow> InputValidationIssue list" where
  "validateJSONValue eng schema v path =
     (let field = displayValidationPath path; typeName = text_of (map_of schema ''type'') in
      if constViolated schema v then [issue field ''const'' '' must match the published value.'']
      else if enumViolated schema v then [issue field ''enum'' '' must be one of the published choices.'']
      else
        concat (map (\<lambda>keyword.
          case array_of (map_of schema keyword) of
            None \<Rightarrow> []
          | Some alternatives \<Rightarrow> composition_issues keyword field
              (map (\<lambda>a. validateJSONValue eng (object_members (Some a)) v path) alternatives))
          composition_keywords)
        @ (if typeName \<noteq> [] \<and> \<not> matchesJSONType typeName v then
             [issue field ''type'' ('' must be '' @ typeLabel typeName @ ''.'')]
           else case v of
             JObject typed \<Rightarrow>
               required_issues schema typed path
               @ unknown_issues (object_members (map_of schema ''properties'')) typed path
               @ concat (map (\<lambda>(name, sub).
                   case map_of typed name of
                     None \<Rightarrow> []
                   | Some w \<Rightarrow> validateJSONValue eng (object_members (Some sub)) w (joinValidationPath path name))
                   (object_members (map_of schema ''properties'')))
           | JArray typed \<Rightarrow>
               length_issues schema ''minItems'' ''maxItems'' ''contain'' ''items.'' (int (length typed)) field
               @ (case map_of schema ''items'' of
                    Some (JObject itemSchema) \<Rightarrow> concat (map (\<lambda>(index, item).
                      validateJSONValue eng itemSchema item (path @ ''['' @ show_nat index @ '']''))
                      (enumerate 0 typed))
                  | _ \<Rightarrow> [])
           | JString s \<Rightarrow> string_issues eng schema s field
           | JNumber literal \<Rightarrow> number_issues schema literal field
           | _ \<Rightarrow> []))"
  by pat_completeness auto
termination
  by (relation "measure (\<lambda>(eng, schema, v, path). size (JObject schema))")
    (auto simp del: json.size dest: alternative_size object_members_lookup member_size)

declare validateJSONValue.simps [simp del]

definition request_document :: "string \<Rightarrow> string \<Rightarrow> InputValidationIssue + string" where
  "request_document body contentType =
     (let trimmed = TrimSpace body
      in if trimmed = [] then Inr ''{}''
         else if lower_text (TrimSpace (takeWhile (\<lambda>c. c \<noteq> CHR '';'') contentType)) \<noteq> ''application/json''
         then Inl \<lparr>vi_Field = ''$'', vi_Rule = ''contentType'',
                   vi_Message = ''Request body must use application/json.''\<rparr>
         else Inr trimmed)"

definition schema_node :: "JSONSchema \<Rightarrow> (string \<times> json) list option" where
  "schema_node schema =
     (case unmarshal_any (Schema_Canonical schema) of
        Some (JObject node) \<Rightarrow> Some node
      | Some JNull \<Rightarrow> Some []
      | _ \<Rightarrow> None)"

definition ValidateJSONAgainstSchema ::
  "schema_engines \<Rightarrow> JSONSchema \<Rightarrow> string \<Rightarrow> string \<Rightarrow> InputValidationIssue list" where
  "ValidateJSONAgainstSchema eng schema body contentType =
     (case request_document body contentType of
        Inl i \<Rightarrow> [i]
      | Inr trimmed \<Rightarrow>
          (case json_decode_first trimmed of
             None \<Rightarrow> [\<lparr>vi_Field = ''$'', vi_Rule = ''json'', vi_Message = ''Request body must be valid JSON.''\<rparr>]
           | Some (document, rest) \<Rightarrow>
               (case schema_node schema of
                  None \<Rightarrow> [\<lparr>vi_Field = ''$'', vi_Rule = ''schema'',
                           vi_Message = ''Published input schema is invalid.''\<rparr>]
                | Some node \<Rightarrow> validateJSONValue eng node (json_any document) [])))"

section \<open>The meaning of the keywords\<close>

text \<open>Whether a document conforms to a schema, keyword by keyword, without paths or messages.\<close>

definition length_within :: "(string \<times> json) list \<Rightarrow> string \<Rightarrow> string \<Rightarrow> int \<Rightarrow> bool" where
  "length_within schema minimum maximum n \<longleftrightarrow>
     (case schemaInteger (map_of schema minimum) of None \<Rightarrow> True | Some m \<Rightarrow> m \<le> n)
     \<and> (case schemaInteger (map_of schema maximum) of None \<Rightarrow> True | Some m \<Rightarrow> n \<le> m)"

definition text_conforms :: "schema_engines \<Rightarrow> (string \<times> json) list \<Rightarrow> string \<Rightarrow> bool" where
  "text_conforms eng schema s \<longleftrightarrow>
     length_within schema ''minLength'' ''maxLength'' (int (RuneCount s))
     \<and> (case map_of schema ''pattern'' of
          Some (JString pattern) \<Rightarrow>
            (case se_regexp eng pattern of None \<Rightarrow> False | Some matches \<Rightarrow> matches s)
        | _ \<Rightarrow> True)
     \<and> (case map_of schema ''format'' of
          Some (JString format) \<Rightarrow> matchesStringFormat eng format s
        | _ \<Rightarrow> True)"

definition number_conforms :: "(string \<times> json) list \<Rightarrow> string \<Rightarrow> bool" where
  "number_conforms schema literal \<longleftrightarrow>
     (case (rat_of_literal literal, schemaNumber (map_of schema ''minimum'')) of
        (Some x, Some m) \<Rightarrow> m \<le> x | _ \<Rightarrow> True)
     \<and> (case (rat_of_literal literal, schemaNumber (map_of schema ''maximum'')) of
        (Some x, Some m) \<Rightarrow> x \<le> m | _ \<Rightarrow> True)"

function conforms :: "schema_engines \<Rightarrow> (string \<times> json) list \<Rightarrow> json \<Rightarrow> bool" where
  "conforms eng schema v \<longleftrightarrow>
     \<not> constViolated schema v \<and> \<not> enumViolated schema v
     \<and> (case array_of (map_of schema ''allOf'') of
          None \<Rightarrow> True
        | Some alternatives \<Rightarrow> list_all (\<lambda>a. conforms eng (object_members (Some a)) v) alternatives)
     \<and> (case array_of (map_of schema ''anyOf'') of
          None \<Rightarrow> True
        | Some alternatives \<Rightarrow> list_ex (\<lambda>a. conforms eng (object_members (Some a)) v) alternatives)
     \<and> (case array_of (map_of schema ''oneOf'') of
          None \<Rightarrow> True
        | Some alternatives \<Rightarrow>
            length (filter (\<lambda>a. conforms eng (object_members (Some a)) v) alternatives) = 1)
     \<and> (text_of (map_of schema ''type'') = [] \<or> matchesJSONType (text_of (map_of schema ''type'')) v)
     \<and> (case v of
          JObject typed \<Rightarrow>
            (case array_of (map_of schema ''required'') of
               None \<Rightarrow> True
             | Some required \<Rightarrow> list_all (\<lambda>r. text_of (Some r) \<in> set (map fst typed)) required)
            \<and> list_all (\<lambda>(name, w). name \<in> set (map fst (object_members (map_of schema ''properties'')))) typed
            \<and> list_all (\<lambda>(name, sub).
                case map_of typed name of
                  None \<Rightarrow> True
                | Some w \<Rightarrow> conforms eng (object_members (Some sub)) w)
                (object_members (map_of schema ''properties''))
        | JArray typed \<Rightarrow>
            length_within schema ''minItems'' ''maxItems'' (int (length typed))
            \<and> (case map_of schema ''items'' of
                 Some (JObject itemSchema) \<Rightarrow> list_all (conforms eng itemSchema) typed
               | _ \<Rightarrow> True)
        | JString s \<Rightarrow> text_conforms eng schema s
        | JNumber literal \<Rightarrow> number_conforms schema literal
        | _ \<Rightarrow> True)"
  by pat_completeness auto
termination
  by (relation "measure (\<lambda>(eng, schema, v). size (JObject schema))")
    (auto simp del: json.size dest: alternative_size object_members_lookup member_size)

declare conforms.simps [simp del]

subsection \<open>The validation finds no issue exactly in the conforming documents\<close>

lemma length_issues_Nil:
  "length_issues schema minimum maximum verb things n field = [] \<longleftrightarrow> length_within schema minimum maximum n"
  by (auto simp: length_issues_def length_within_def split: option.split)

lemma string_issues_Nil: "string_issues eng schema s field = [] \<longleftrightarrow> text_conforms eng schema s"
  by (auto simp: string_issues_def text_conforms_def length_issues_Nil split: option.split json.split)

lemma number_issues_Nil: "number_issues schema literal field = [] \<longleftrightarrow> number_conforms schema literal"
  by (auto simp: number_issues_def number_conforms_def compareJSONNumber_def split: option.split)

lemma required_issues_Nil:
  "required_issues schema typed path = [] \<longleftrightarrow>
     (case array_of (map_of schema ''required'') of
        None \<Rightarrow> True
      | Some required \<Rightarrow> list_all (\<lambda>r. text_of (Some r) \<in> set (map fst typed)) required)"
  by (auto simp: required_issues_def Let_def list_all_iff map_of_eq_None_iff split: option.split)

lemma unknown_issues_Nil:
  "unknown_issues properties typed path = [] \<longleftrightarrow>
     list_all (\<lambda>(name, w). name \<in> set (map fst properties)) typed"
proof -
  have "unknown_issues properties typed path = [] \<longleftrightarrow>
      set (filter (\<lambda>name. map_of properties name = None) (map fst typed)) = {}"
    unfolding unknown_issues_def map_is_Nil_conv by (metis set_empty set_sort)
  then show ?thesis
    by (force simp: list_all_iff map_of_eq_None_iff)
qed

lemma composition_issues_Nil:
  "composition_issues ''allOf'' field (map f vs) = [] \<longleftrightarrow> list_all (\<lambda>v. f v = []) vs"
  "composition_issues ''anyOf'' field (map f vs) = [] \<longleftrightarrow> list_ex (\<lambda>v. f v = []) vs"
  "composition_issues ''oneOf'' field (map f vs) = [] \<longleftrightarrow> length (filter (\<lambda>v. f v = []) vs) = 1"
  by (auto simp: composition_issues_def list_all_iff list_ex_iff filter_map comp_def filter_empty_conv)

lemma list_cong_on:
  assumes "\<forall>a \<in> set vs. P a = Q a"
  shows "list_all P vs = list_all Q vs" "list_ex P vs = list_ex Q vs"
    "length (filter P vs) = length (filter Q vs)"
  using assms by (auto simp: list_all_iff list_ex_iff cong: filter_cong)

lemma list_all_enumerate: "list_all P vs \<longleftrightarrow> (\<forall>p \<in> set (enumerate n vs). P (snd p))"
proof -
  have "list_all P vs \<longleftrightarrow> list_all P (map snd (enumerate n vs))"
    by simp
  then show ?thesis
    unfolding list_all_iff set_map by blast
qed

text \<open>The keywords of one composition, given that the alternatives are judged alike.\<close>

lemma compositions_Nil:
  assumes "\<forall>keyword \<in> set composition_keywords. \<forall>alternatives. map_of schema keyword = Some (JArray alternatives)
    \<longrightarrow> (\<forall>a \<in> set alternatives. f a = [] \<longleftrightarrow> C a)"
  shows "(case array_of (map_of schema ''allOf'') of None \<Rightarrow> []
         | Some vs \<Rightarrow> composition_issues ''allOf'' field (map f vs)) = []
      \<longleftrightarrow> (case array_of (map_of schema ''allOf'') of None \<Rightarrow> True | Some vs \<Rightarrow> list_all C vs)"
    "(case array_of (map_of schema ''anyOf'') of None \<Rightarrow> []
         | Some vs \<Rightarrow> composition_issues ''anyOf'' field (map f vs)) = []
      \<longleftrightarrow> (case array_of (map_of schema ''anyOf'') of None \<Rightarrow> True | Some vs \<Rightarrow> list_ex C vs)"
    "(case array_of (map_of schema ''oneOf'') of None \<Rightarrow> []
         | Some vs \<Rightarrow> composition_issues ''oneOf'' field (map f vs)) = []
      \<longleftrightarrow> (case array_of (map_of schema ''oneOf'') of None \<Rightarrow> True
            | Some vs \<Rightarrow> length (filter C vs) = 1)"
  using assms list_cong_on [of _ "\<lambda>a. f a = []" C]
  by (simp_all add: composition_issues_Nil split: option.split)

lemma validateJSONValue_conforms:
  "validateJSONValue eng schema v path = [] \<longleftrightarrow> conforms eng schema v"
proof (induction eng schema v path rule: validateJSONValue.induct)
  case (1 eng schema v path)
  let ?field = "displayValidationPath path" and ?type = "text_of (map_of schema ''type'')"
  let ?properties = "object_members (map_of schema ''properties'')"
  show ?case
  proof (cases "constViolated schema v \<or> enumViolated schema v")
    case True
    then show ?thesis
      by (auto simp: validateJSONValue.simps [of eng schema v path] conforms.simps [of eng schema v] Let_def)
  next
    case False
    have alternatives: "\<forall>keyword \<in> set composition_keywords. \<forall>alternatives.
        map_of schema keyword = Some (JArray alternatives) \<longrightarrow> (\<forall>a \<in> set alternatives.
          validateJSONValue eng (object_members (Some a)) v path = []
            \<longleftrightarrow> conforms eng (object_members (Some a)) v)"
      using "1.IH"(1) [OF refl refl] False by simp
    note compositions = compositions_Nil [OF alternatives]
    have items: "validateJSONValue eng itemSchema item p = [] \<longleftrightarrow> conforms eng itemSchema item"
      if "?type = [] \<or> matchesJSONType ?type v" "v = JArray typed" "map_of schema ''items'' = Some (JObject itemSchema)"
        "(index, item) \<in> set (enumerate 0 typed)" "p = path @ ''['' @ show_nat index @ '']''"
      for itemSchema item p typed index
      using "1.IH"(2) [OF refl refl _ _ _ that(2) that(3) refl that(4) refl] False that(1,5) by auto
    have members: "validateJSONValue eng (object_members (Some sub)) w (joinValidationPath path name) = []
        \<longleftrightarrow> conforms eng (object_members (Some sub)) w"
      if "?type = [] \<or> matchesJSONType ?type v" "v = JObject typed" "(name, sub) \<in> set ?properties"
        "map_of typed name = Some w" for typed name sub w
      using "1.IH"(3) [OF refl refl _ _ _ that(2) that(3) refl that(4)] False that(1) by auto
    show ?thesis
    proof (cases "?type = [] \<or> matchesJSONType ?type v")
      case wrong: False
      then show ?thesis
        by (simp add: validateJSONValue.simps [of eng schema v path] conforms.simps [of eng schema v] Let_def)
    next
      case typed: True
      show ?thesis
      proof (cases v)
        case (JObject ms)
        have "concat (map (\<lambda>(name, sub). case map_of ms name of None \<Rightarrow> []
              | Some w \<Rightarrow> validateJSONValue eng (object_members (Some sub)) w (joinValidationPath path name))
              ?properties) = []
            \<longleftrightarrow> list_all (\<lambda>(name, sub). case map_of ms name of None \<Rightarrow> True
              | Some w \<Rightarrow> conforms eng (object_members (Some sub)) w) ?properties"
          using members [OF typed JObject] by (fastforce simp: list_all_iff split: option.split)
        with JObject False typed show ?thesis
          unfolding validateJSONValue.simps [of eng schema v path] conforms.simps [of eng schema v]
          by (elim disjE) (simp_all add: Let_def compositions required_issues_Nil unknown_issues_Nil)
      next
        case (JArray vs)
        have "concat (map (\<lambda>(index, item). validateJSONValue eng itemSchema item
                (path @ ''['' @ show_nat index @ '']'')) (enumerate 0 vs)) = []
            \<longleftrightarrow> list_all (conforms eng itemSchema) vs"
          if "map_of schema ''items'' = Some (JObject itemSchema)" for itemSchema
          using items [OF typed JArray that] by (fastforce simp: list_all_enumerate [of _ vs 0])
        with JArray False typed show ?thesis
          unfolding validateJSONValue.simps [of eng schema v path] conforms.simps [of eng schema v]
          by (elim disjE) (simp_all add: Let_def compositions length_issues_Nil split: option.split json.split)
      qed (use False typed in \<open>(unfold validateJSONValue.simps [of eng schema v path]
          conforms.simps [of eng schema v]; elim disjE; simp add: Let_def compositions string_issues_Nil
          number_issues_Nil)+\<close>)
    qed
  qed
qed

text \<open>
  C37: the validation of a buyer's request means what the published schema says. No issue is reported
  exactly when the body is a JSON document of the JSON media type (an empty body is the empty
  object) that conforms to the schema: constants and choices, every composition, the type, required
  and declared members at every level, bounds, patterns and formats.
\<close>

theorem ValidateJSONAgainstSchema_conforms:
  "ValidateJSONAgainstSchema eng schema body contentType = [] \<longleftrightarrow>
     (\<exists>trimmed document rest node. request_document body contentType = Inr trimmed
        \<and> json_decode_first trimmed = Some (document, rest) \<and> schema_node schema = Some node
        \<and> conforms eng node (json_any document))"
  by (auto simp: ValidateJSONAgainstSchema_def validateJSONValue_conforms split: sum.split option.split)

text \<open>
  The bounds of a number. Up to a power of ten of a million the published minimum and maximum are
  compared exactly, as rationals; a longer exponent makes the comparison fail, and then no bound is
  applied at all, so such a number passes whatever maximum the seller published.
\<close>

theorem number_bounds:
  assumes "literal_parts literal = Some (neg, mantissa, written, ten)" "mantissa \<noteq> 0"
    and "- (2 ^ 63) \<le> written" "written < 2 ^ 63"
    and "x = (if neg then - 1 else 1) * of_nat mantissa * pow_rat 10 ten"
  shows "(\<bar>ten\<bar> \<le> 1000000 \<longrightarrow>
            (number_issues schema literal field = [] \<longleftrightarrow>
              (\<forall>m. schemaNumber (map_of schema ''minimum'') = Some m \<longrightarrow> m \<le> x)
              \<and> (\<forall>m. schemaNumber (map_of schema ''maximum'') = Some m \<longrightarrow> x \<le> m)))
    \<and> (1000000 < \<bar>ten\<bar> \<longrightarrow> number_issues schema literal field = [])"
proof -
  have rat: "rat_of_literal literal = (if 1000000 < \<bar>ten\<bar> then None else Some x)"
    using assms by (simp add: rat_of_literal_def)
  show ?thesis
    unfolding number_issues_Nil number_conforms_def rat by (auto split: option.split)
qed

theorem number_bounds_witness:
  "number_issues [(''maximum'', JNumber ''10'')] ''1e1000001'' ''quantity'' = []
   \<and> number_issues [(''maximum'', JNumber ''10'')] ''10e0'' ''quantity'' = []"
proof -
  have parts: "literal_parts ''1e1000001'' = Some (False, 1, 1000001, 1000001)"
    "literal_parts ''10e0'' = Some (False, 10, 0, 0)"
    by (simp_all add: literal_parts_def split_sign_def scan_int_def scan_frac_def scan_exp_def
        scan_digits_def is_digit_def digits_val_def digit_val_def)
  have limits: "schemaNumber (map_of [(''maximum'', JNumber ''10'')] ''maximum'') = Some 10"
    "schemaNumber (map_of [(''maximum'', JNumber ''10'')] ''minimum'') = None"
    by (simp_all add: schemaNumber_def rat_of_literal_def pow_rat_def literal_parts_def split_sign_def
        scan_int_def scan_frac_def scan_exp_def is_digit_def digits_val_def digit_val_def)
  have "number_issues [(''maximum'', JNumber ''10'')] ''1e1000001'' ''quantity'' = []"
    using number_bounds [OF parts(1) _ _ _ refl] by simp
  moreover have "number_issues [(''maximum'', JNumber ''10'')] ''10e0'' ''quantity'' = []"
    using number_bounds [OF parts(2) _ _ _ refl, of "[(''maximum'', JNumber ''10'')]" "''quantity''"]
    unfolding limits by (simp add: pow_rat_def)
  ultimately show ?thesis
    by simp
qed

end
