(* ===== verification/Routes.thy ===== *)
theory Routes
  imports JsonSchema Intents
begin

text \<open>
  The aggregates of \<open>internal/catalog\<close>: sellers and the paid routes they publish, with their
  validation, normalisation and lifecycle operations (\<open>models.go\<close> and the second half of
  \<open>service.go\<close>). An operation of a pointer receiver returns the updated record.
\<close>

section \<open>Data\<close>

datatype SellerStatus =
  SellerStatusDraft | SellerStatusActive | SellerStatusSuspended | SellerStatusOther string

record SellerParams =
  sa_SellerID :: ID
  sa_OwnerSubject :: string
  sa_Slug :: string
  sa_Name :: string
  sa_UpstreamBaseURL :: string
  sa_CreatedAt :: instant

record Seller =
  se_SellerID :: ID
  se_OwnerSubject :: string
  se_Slug :: string
  se_Name :: string
  se_UpstreamBaseURL :: string
  se_SigningSecretRef :: string
  se_VerifiedUpstreamBaseURL :: string
  se_VerifiedSigningSecretRefHash :: string
  se_ServiceEndpointVerifiedAt :: "instant option"
  se_Status :: SellerStatus
  se_CreatedAt :: instant
  se_UpdatedAt :: instant
  se_Version :: u64

datatype RouteMethod = RouteMethodGet | RouteMethodPost | RouteMethodOther string

fun RouteMethod_wire :: "RouteMethod \<Rightarrow> string" where
  "RouteMethod_wire RouteMethodGet = ''GET''"
| "RouteMethod_wire RouteMethodPost = ''POST''"
| "RouteMethod_wire (RouteMethodOther s) = s"

text \<open>\<open>RouteLifecycleUnset\<close> is the empty string of records stored before the field existed.\<close>

datatype RouteLifecycleStatus =
    RouteLifecycleUnset
  | RouteLifecycleDraft
  | RouteLifecyclePublished
  | RouteLifecyclePaused
  | RouteLifecycleArchived
  | RouteLifecycleEmergencyDisabled
  | RouteLifecycleOther string

record PaidRouteParams =
  rp_RouteID :: ID
  rp_SellerID :: ID
  rp_DisplayName :: string
  rp_ProductSlug :: string
  rp_Method :: RouteMethod
  rp_PathPattern :: string
  rp_Description :: string
  rp_MIMEType :: string
  rp_InputSchema :: JSONSchema
  rp_OutputSchema :: JSONSchema
  rp_Amount :: amount
  rp_Asset :: string
  rp_Network :: string
  rp_PayTo :: string
  rp_ApprovalThresholdAmount :: "amount option"
  rp_UpstreamTimeoutSeconds :: int
  rp_CreatedAt :: instant

record PaidRoute =
  pr_RouteID :: ID
  pr_SellerID :: ID
  pr_DisplayName :: string
  pr_ProductSlug :: string
  pr_Method :: RouteMethod
  pr_PathPattern :: string
  pr_Description :: string
  pr_MIMEType :: string
  pr_InputSchema :: JSONSchema
  pr_OutputSchema :: JSONSchema
  pr_Amount :: amount
  pr_Asset :: string
  pr_Network :: string
  pr_PayTo :: string
  pr_ApprovalThresholdAmount :: "amount option"
  pr_UpstreamTimeoutSeconds :: int
  pr_LifecycleStatus :: RouteLifecycleStatus
  pr_Enabled :: bool
  pr_CreatedAt :: instant
  pr_UpdatedAt :: instant
  pr_Version :: u64

record SellerResponse =
  sl_SellerID :: ID
  sl_Name :: string
  sl_Slug :: string
  sl_UpstreamBaseURL :: string
  sl_Status :: SellerStatus
  sl_CreatedAt :: instant
  sl_UpdatedAt :: instant
  sl_Version :: u64
  sl_OwnerSubject :: string
  sl_SigningSecretRef :: string

record CreateSellerRequest =
  cs_Name :: string
  cs_Slug :: string
  cs_UpstreamBaseURL :: string

record CreateRouteRequest =
  cr_DisplayName :: string
  cr_ProductSlug :: string
  cr_Method :: RouteMethod
  cr_PathPattern :: string
  cr_Description :: string
  cr_MIMEType :: string
  cr_InputSchema :: JSONSchema
  cr_OutputSchema :: JSONSchema
  cr_Amount :: amount
  cr_Asset :: string
  cr_Network :: string
  cr_PayTo :: string
  cr_ApprovalThresholdAmount :: "amount option"
  cr_UpstreamTimeoutSeconds :: int
  cr_PublishImmediately :: "bool option"

record UpdateRouteDraftRequest =
  ud_DisplayName :: string
  ud_Method :: RouteMethod
  ud_PathPattern :: string
  ud_Description :: string
  ud_MIMEType :: string
  ud_InputSchema :: JSONSchema
  ud_OutputSchema :: JSONSchema
  ud_Amount :: amount
  ud_UpstreamTimeoutSeconds :: int
  ud_ExpectedVersion :: u64

record ConfigureStorefrontRequest =
  cf_Name :: string
  cf_UpstreamBaseURL :: string
  cf_ExpectedVersion :: u64

abbreviation ErrRoutePublished :: go_error where
  "ErrRoutePublished \<equiv> Err ''catalog.ErrRoutePublished''"

abbreviation ErrRouteValidation :: go_error where
  "ErrRouteValidation \<equiv> Err ''catalog.ErrRouteValidation''"

abbreviation ErrRouteContractStale :: go_error where
  "ErrRouteContractStale \<equiv> Err ''catalog.ErrRouteContractStale''"

abbreviation ErrRouteLifecycleTransition :: go_error where
  "ErrRouteLifecycleTransition \<equiv> Err ''catalog.ErrRouteLifecycleTransition''"

text \<open>\<open>error.Error\<close>; an error from outside the program is its text.\<close>

fun error_text :: "go_error \<Rightarrow> string" where
  "error_text (ValidationErr e) = ValidationError_Error e"
| "error_text (ValidationErrs es) = ValidationErrors_Error es"
| "error_text (InvalidTransition a b) = a @ b"
| "error_text (Err s) = s"
| "error_text (Panic s) = s"

text \<open>\<open>changedAt.Before(previous)\<close> and its error.\<close>

abbreviation chronology_error :: "string \<Rightarrow> string \<Rightarrow> go_error" where
  "chronology_error field message \<equiv> validation field ''chronology'' message"

abbreviation update_chronology_error :: go_error where
  "update_chronology_error \<equiv>
     chronology_error ''updatedAt'' ''cannot occur before the previous update''"

section \<open>Normalisation\<close>

definition normalizeProductDisplayName :: "string \<Rightarrow> string" where
  "normalizeProductDisplayName s = Join (Fields s) '' ''"

text \<open>
  The loop of \<open>normalizeProductSlug\<close> over the runes of its input: the text built so far, whether a
  separator is pending, and the rest. Outside ASCII only white space is accepted.
\<close>

definition add_slug_char :: "string \<Rightarrow> bool \<Rightarrow> char \<Rightarrow> string" where
  "add_slug_char built separatorPending c =
     built @ (if separatorPending \<and> built \<noteq> [] then ''-'' else []) @ [c]"

function slug_loop :: "string \<Rightarrow> bool \<Rightarrow> string \<Rightarrow> string option" where
  "slug_loop built separatorPending [] = Some built"
| "slug_loop built separatorPending (c # s) =
     (if byte_in c 65 90 then
        slug_loop (add_slug_char built separatorPending (char_of (of_char c + 32 :: nat))) False s
      else if byte_in c 97 122 \<or> byte_in c 48 57 then
        slug_loop (add_slug_char built separatorPending c) False s
      else if c = CHR ''-'' \<or> c = CHR ''_'' then slug_loop built (built \<noteq> []) s
      else if 0 < space_len (c # s) then slug_loop built (built \<noteq> []) (drop (space_len (c # s) - 1) s)
      else None)"
  by pat_completeness auto
termination
  by (relation "measure (\<lambda>(b, p, s). length s)") auto

definition normalizeProductSlug :: "string \<Rightarrow> string \<times> bool" where
  "normalizeProductSlug s =
     (case slug_loop [] False (TrimSpace s) of None \<Rightarrow> ([], False) | Some slug \<Rightarrow> (slug, True))"

definition mustNormalizeProductSlug :: "string \<Rightarrow> string" where
  "mustNormalizeProductSlug s = fst (normalizeProductSlug s)"

definition normalizedSchema :: "JSONSchema \<Rightarrow> JSONSchema" where
  "normalizedSchema schema = (if schema = [] then DefaultClosedObjectSchema else schema)"

fun slug_base_loop :: "string \<Rightarrow> bool \<Rightarrow> string \<Rightarrow> string" where
  "slug_base_loop built separatorPending [] = built"
| "slug_base_loop built separatorPending (c # s) =
     (if byte_in c 97 122 \<or> byte_in c 48 57 then
        slug_base_loop (add_slug_char built separatorPending c) False s
      else slug_base_loop built (built \<noteq> []) s)"

definition legacySlugBase :: "string \<Rightarrow> string" where
  "legacySlugBase s = slug_base_loop [] False (lower_text s)"

definition legacyProductDisplayName :: "PaidRoute \<Rightarrow> string" where
  "legacyProductDisplayName r =
     (let displayName = normalizeProductDisplayName (pr_Description r)
      in if displayName \<noteq> [] then displayName
         else RouteMethod_wire (pr_Method r) @ '' '' @ pr_PathPattern r)"

definition trim_hyphens :: "string \<Rightarrow> string" where
  "trim_hyphens s =
     rev (dropWhile (\<lambda>c. c = CHR ''-'') (rev (dropWhile (\<lambda>c. c = CHR ''-'') s)))"

text \<open>Route identifiers are ASCII, so \<open>strings.ToLower\<close> of one is the lower case of its letters.\<close>

definition legacyProductSlug :: "PaidRoute \<Rightarrow> string" where
  "legacyProductSlug r =
     (let base = legacySlugBase (legacyProductDisplayName r);
          routeID = lower_text (pr_RouteID r);
          suffix = (if 9 < length routeID then drop (length routeID - 9) routeID else routeID);
          maximumBaseLength = 80 - length suffix - 1;
          cut = (if maximumBaseLength < length base then trim_hyphens (take maximumBaseLength base) else base)
      in (if length cut < 3 then ''product'' else cut) @ ''-'' @ suffix)"

section \<open>Validation\<close>

text \<open>
  What the packages \<open>net/url\<close>, \<open>net\<close>, \<open>mime\<close> and the two third-party packages supply: a parsed URL,
  whether a host is a loopback IP address, the media type of a header value, ULID parsing and JSON
  canonicalisation.
\<close>

record ParsedURL =
  ur_Scheme :: string
  ur_Host :: string
  ur_Hostname :: string
  ur_HasUser :: bool
  ur_RawQuery :: string
  ur_Fragment :: string

record catalog_library =
  cl_ulid :: "string \<Rightarrow> bool"
  cl_parseURL :: "string \<Rightarrow> ParsedURL option"
  cl_loopbackIP :: "string \<Rightarrow> bool"
  cl_parseMediaType :: "string \<Rightarrow> string result"
  cl_jcs :: "string \<Rightarrow> string result"

definition localDevelopmentHost :: "catalog_library \<Rightarrow> string \<Rightarrow> bool" where
  "localDevelopmentHost lib host \<longleftrightarrow> fold_name host = ''localhost'' \<or> cl_loopbackIP lib host"

definition validateUpstreamBaseURL :: "catalog_library \<Rightarrow> string \<Rightarrow> go_error option" where
  "validateUpstreamBaseURL lib rawURL =
     (case cl_parseURL lib rawURL of
        None \<Rightarrow> Some (validation ''upstreamBaseUrl'' ''url'' ''must be an absolute URL'')
      | Some u \<Rightarrow>
          if ur_Host u = [] then Some (validation ''upstreamBaseUrl'' ''url'' ''must be an absolute URL'')
          else if ur_HasUser u \<or> ur_RawQuery u \<noteq> [] \<or> ur_Fragment u \<noteq> [] then
            Some (validation ''upstreamBaseUrl'' ''url''
              ''must not contain credentials, query parameters, or fragments'')
          else if ur_Scheme u = ''https'' then None
          else if ur_Scheme u = ''http'' \<and> localDevelopmentHost lib (ur_Hostname u) then None
          else Some (validation ''upstreamBaseUrl'' ''scheme''
              ''must use HTTPS except for a local development host''))"

definition normalizeUpstreamBaseURL :: "string \<Rightarrow> string" where
  "normalizeUpstreamBaseURL rawURL = TrimSuffix rawURL ''/''"

definition sellerSlugPattern :: "string \<Rightarrow> bool" where
  "sellerSlugPattern s \<longleftrightarrow>
     3 \<le> length s \<and> length s \<le> 48 \<and> list_all (\<lambda>c. byte_in c 97 122 \<or> byte_in c 48 57 \<or> c = CHR ''-'') s"

definition routePathPattern :: "string \<Rightarrow> bool" where
  "routePathPattern s \<longleftrightarrow>
     HasPrefix s ''/'' \<and> drop 1 s \<noteq> [] \<and> list_all (\<lambda>c. alnum c \<or> c \<in> set ''/_-'') (drop 1 s)"

text \<open>A trimmed text is present and not too long.\<close>

definition bounded_text :: "nat \<Rightarrow> string \<Rightarrow> bool" where
  "bounded_text maximum s \<longleftrightarrow> TrimSpace s \<noteq> [] \<and> length (TrimSpace s) \<le> maximum"

definition validIdentityValue :: "string \<Rightarrow> bool" where
  "validIdentityValue ownerSubject \<longleftrightarrow>
     TrimSpace ownerSubject \<noteq> [] \<and> TrimSpace ownerSubject = ownerSubject \<and> length ownerSubject \<le> 256"

definition validateSellerParams :: "catalog_library \<Rightarrow> SellerParams \<Rightarrow> validation_error list" where
  "validateSellerParams lib p =
     add_if (\<not> is_ok (ParseID (cl_ulid lib) (sa_SellerID p) SellerIDPrefix))
       (NewValidationError ''sellerId'' ''format'' ''must be a seller identifier'')
     @ add_if (\<not> bounded_text 256 (sa_OwnerSubject p))
       (NewValidationError ''ownerSubject'' ''length'' ''must contain 1-256 characters'')
     @ add_if (\<not> bounded_text 120 (sa_Name p))
       (NewValidationError ''name'' ''length'' ''must contain 1-120 characters'')
     @ add_if (\<not> sellerSlugPattern (sa_Slug p))
       (NewValidationError ''slug'' ''format''
          ''must contain 3-48 lowercase letters, digits, or hyphens'')
     @ (case validateUpstreamBaseURL lib (sa_UpstreamBaseURL p) of
          None \<Rightarrow> []
        | Some e \<Rightarrow> [NewValidationError ''upstreamBaseUrl'' ''format'' (error_text e)])
     @ add_if (sa_CreatedAt p = 0) (NewValidationError ''createdAt'' ''required'' ''is required'')"

definition schema_check :: "catalog_library \<Rightarrow> string \<Rightarrow> JSONSchema \<Rightarrow> validation_error list" where
  "schema_check lib field schema =
     (case NormalizeClosedJSONSchema (cl_jcs lib) (Schema_Canonical schema) of
        Inl e \<Rightarrow> [NewValidationError field ''closed'' (error_text e)]
      | Inr _ \<Rightarrow> [])"

definition validatePaidRouteParams :: "catalog_library \<Rightarrow> PaidRouteParams \<Rightarrow> validation_error list" where
  "validatePaidRouteParams lib p =
     (let displayName = normalizeProductDisplayName (rp_DisplayName p);
          (productSlug, validProductSlug) = normalizeProductSlug (rp_ProductSlug p);
          mimeType = TrimSpace (rp_MIMEType p)
      in add_if (\<not> is_ok (ParseID (cl_ulid lib) (rp_RouteID p) RouteIDPrefix))
           (NewValidationError ''routeId'' ''format'' ''must be a route identifier'')
         @ add_if (\<not> is_ok (ParseID (cl_ulid lib) (rp_SellerID p) SellerIDPrefix))
           (NewValidationError ''sellerId'' ''format'' ''must be a seller identifier'')
         @ add_if (displayName = [] \<or> 120 < RuneCount displayName \<or> has_control displayName)
           (NewValidationError ''displayName'' ''format'' ''must contain 1-120 visible characters'')
         @ add_if (\<not> validProductSlug \<or> length productSlug < 3 \<or> 80 < length productSlug)
           (NewValidationError ''productSlug'' ''format''
              ''must normalize to 3-80 lowercase letters, digits, or single hyphens'')
         @ add_if (rp_Method p \<noteq> RouteMethodGet \<and> rp_Method p \<noteq> RouteMethodPost)
           (NewValidationError ''method'' ''supported'' ''must be GET or POST'')
         @ add_if (\<not> routePathPattern (rp_PathPattern p))
           (NewValidationError ''pathPattern'' ''format'' ''must be a literal absolute route path'')
         @ add_if (\<not> bounded_text 500 (rp_Description p))
           (NewValidationError ''description'' ''length'' ''must contain 1-500 characters'')
         @ (if \<not> bounded_text 120 mimeType then
              [NewValidationError ''mimeType'' ''length'' ''must contain 1-120 characters'']
            else add_if (\<not> is_ok (cl_parseMediaType lib mimeType))
              (NewValidationError ''mimeType'' ''format'' ''must be a valid media type''))
         @ add_if (Amount_IsZero (rp_Amount p))
           (NewValidationError ''amount'' ''positive'' ''must be greater than zero'')
         @ schema_check lib ''inputSchema'' (rp_InputSchema p)
         @ schema_check lib ''outputSchema'' (rp_OutputSchema p)
         @ add_if (\<not> bounded_text 160 (rp_Asset p))
           (NewValidationError ''asset'' ''length'' ''must contain 1-160 characters'')
         @ add_if (\<not> bounded_text 80 (rp_Network p))
           (NewValidationError ''network'' ''length'' ''must contain 1-80 characters'')
         @ add_if (\<not> bounded_text 160 (rp_PayTo p))
           (NewValidationError ''payTo'' ''length'' ''must contain 1-160 characters'')
         @ add_if (rp_UpstreamTimeoutSeconds p < 1 \<or> 25 < rp_UpstreamTimeoutSeconds p)
           (NewValidationError ''upstreamTimeoutSeconds'' ''range'' ''must be between 1 and 25 seconds'')
         @ add_if (rp_CreatedAt p = 0) (NewValidationError ''createdAt'' ''required'' ''is required''))"

section \<open>Sellers\<close>

definition NewSeller :: "catalog_library \<Rightarrow> SellerParams \<Rightarrow> Seller result" where
  "NewSeller lib p =
     (let validationErrors = validateSellerParams lib p
      in reject_if (validationErrors \<noteq> []) (ValidationErrs validationErrors)
       (Inr \<lparr>se_SellerID = sa_SellerID p, se_OwnerSubject = TrimSpace (sa_OwnerSubject p),
             se_Slug = sa_Slug p, se_Name = TrimSpace (sa_Name p),
             se_UpstreamBaseURL = normalizeUpstreamBaseURL (sa_UpstreamBaseURL p),
             se_SigningSecretRef = [], se_VerifiedUpstreamBaseURL = [],
             se_VerifiedSigningSecretRefHash = [], se_ServiceEndpointVerifiedAt = None,
             se_Status = SellerStatusDraft, se_CreatedAt = sa_CreatedAt p,
             se_UpdatedAt = sa_CreatedAt p, se_Version = 1\<rparr>))"

definition seller_params :: "Seller \<Rightarrow> string \<Rightarrow> string \<Rightarrow> SellerParams" where
  "seller_params s name upstreamBaseURL =
     \<lparr>sa_SellerID = se_SellerID s, sa_OwnerSubject = se_OwnerSubject s, sa_Slug = se_Slug s,
      sa_Name = name, sa_UpstreamBaseURL = upstreamBaseURL, sa_CreatedAt = se_CreatedAt s\<rparr>"

definition Seller_Configure ::
  "catalog_library \<Rightarrow> Seller \<Rightarrow> string \<Rightarrow> string \<Rightarrow> instant \<Rightarrow> Seller result" where
  "Seller_Configure lib s name upstreamBaseURL changedAt =
     (let validationErrors = validateSellerParams lib (seller_params s name upstreamBaseURL);
          normalizedOrigin = normalizeUpstreamBaseURL upstreamBaseURL
      in reject_if (validationErrors \<noteq> []) (ValidationErrs validationErrors)
        (reject_if (changedAt < se_UpdatedAt s) update_chronology_error
        (let s1 = s\<lparr>se_Name := TrimSpace name\<rparr>;
             s2 = (if se_UpstreamBaseURL s1 \<noteq> normalizedOrigin
                   then s1\<lparr>se_VerifiedUpstreamBaseURL := [], se_VerifiedSigningSecretRefHash := [],
                           se_ServiceEndpointVerifiedAt := None\<rparr>
                   else s1)
         in Inr (s2\<lparr>se_UpstreamBaseURL := normalizedOrigin, se_UpdatedAt := changedAt,
                   se_Version := se_Version s + 1\<rparr>))))"

definition ActivateForExecutionCapabilities :: "Seller \<Rightarrow> instant \<Rightarrow> Seller result" where
  "ActivateForExecutionCapabilities s changedAt =
     reject_if (se_Status s \<noteq> SellerStatusDraft)
       (validation ''status'' ''transition'' ''only a draft seller can be activated'')
    (reject_if (changedAt < se_UpdatedAt s) update_chronology_error
    (Inr (s\<lparr>se_SigningSecretRef := [], se_VerifiedSigningSecretRefHash := [],
            se_ServiceEndpointVerifiedAt := None, se_Status := SellerStatusActive,
            se_UpdatedAt := changedAt, se_Version := se_Version s + 1\<rparr>)))"

definition Seller_Activate :: "Seller \<Rightarrow> string \<Rightarrow> instant \<Rightarrow> Seller result" where
  "Seller_Activate s signingSecretRef changedAt =
     reject_if (\<not> bounded_text 512 signingSecretRef)
       (validation ''signingSecretRef'' ''required'' ''must reference a provisioned seller signing secret'')
    (reject_if (changedAt < se_UpdatedAt s) update_chronology_error
    (Inr (s\<lparr>se_SigningSecretRef := TrimSpace signingSecretRef, se_VerifiedSigningSecretRefHash := [],
            se_ServiceEndpointVerifiedAt := None, se_Status := SellerStatusActive,
            se_UpdatedAt := changedAt, se_Version := se_Version s + 1\<rparr>)))"

definition signingReferenceHash :: "string \<Rightarrow> string" where
  "signingReferenceHash reference =
     hashBytes (''agentpay.service-endpoint.v1'' @ [CHR 0x00] @ TrimSpace reference)"

definition VerifyServiceEndpoint :: "Seller \<Rightarrow> instant \<Rightarrow> Seller result" where
  "VerifyServiceEndpoint s verifiedAt =
     reject_if (se_Status s \<noteq> SellerStatusActive)
       (validation ''serviceEndpoint'' ''state'' ''seller must be active with request signing configured'')
    (reject_if (verifiedAt < se_UpdatedAt s)
       (chronology_error ''verifiedAt'' ''cannot occur before seller configuration'')
    (Inr (s\<lparr>se_VerifiedUpstreamBaseURL := se_UpstreamBaseURL s,
            se_VerifiedSigningSecretRefHash := signingReferenceHash (se_SigningSecretRef s),
            se_ServiceEndpointVerifiedAt := Some verifiedAt, se_UpdatedAt := verifiedAt,
            se_Version := se_Version s + 1\<rparr>)))"

definition HasCurrentServiceEndpointVerification :: "Seller \<Rightarrow> bool" where
  "HasCurrentServiceEndpointVerification s \<longleftrightarrow>
     se_ServiceEndpointVerifiedAt s \<noteq> None
     \<and> se_VerifiedUpstreamBaseURL s = se_UpstreamBaseURL s
     \<and> se_VerifiedSigningSecretRefHash s = signingReferenceHash (se_SigningSecretRef s)"

definition Seller_Suspend :: "Seller \<Rightarrow> instant \<Rightarrow> Seller result" where
  "Seller_Suspend s changedAt =
     reject_if (changedAt < se_UpdatedAt s) update_chronology_error
    (Inr (s\<lparr>se_Status := SellerStatusSuspended, se_UpdatedAt := changedAt, se_Version := se_Version s + 1\<rparr>))"

definition sellerResponse :: "Seller \<Rightarrow> SellerResponse" where
  "sellerResponse s =
     \<lparr>sl_SellerID = se_SellerID s, sl_Name = se_Name s, sl_Slug = se_Slug s,
      sl_UpstreamBaseURL = se_UpstreamBaseURL s, sl_Status = se_Status s,
      sl_CreatedAt = se_CreatedAt s, sl_UpdatedAt = se_UpdatedAt s, sl_Version = se_Version s,
      sl_OwnerSubject = [], sl_SigningSecretRef = []\<rparr>"

section \<open>Paid routes\<close>

definition effectiveLifecycleStatus :: "PaidRoute \<Rightarrow> RouteLifecycleStatus" where
  "effectiveLifecycleStatus r =
     (if pr_LifecycleStatus r \<noteq> RouteLifecycleUnset then pr_LifecycleStatus r
      else if pr_Enabled r then RouteLifecyclePublished else RouteLifecycleDraft)"

definition normalizeLifecycleStatus :: "PaidRoute \<Rightarrow> PaidRoute" where
  "normalizeLifecycleStatus r =
     r\<lparr>pr_LifecycleStatus := effectiveLifecycleStatus r,
       pr_Enabled := (effectiveLifecycleStatus r = RouteLifecyclePublished)\<rparr>"

definition normalizeLegacyFields :: "PaidRoute \<Rightarrow> PaidRoute" where
  "normalizeLegacyFields r =
     (let r1 = normalizeLifecycleStatus r;
          r2 = (if pr_DisplayName r1 = [] then r1\<lparr>pr_DisplayName := legacyProductDisplayName r1\<rparr> else r1)
      in if pr_ProductSlug r2 = [] then r2\<lparr>pr_ProductSlug := legacyProductSlug r2\<rparr> else r2)"

definition NormalizePaidRouteForRead :: "PaidRoute \<Rightarrow> PaidRoute" where
  "NormalizePaidRouteForRead r = normalizeLegacyFields r"

definition routeParams :: "PaidRoute \<Rightarrow> PaidRouteParams" where
  "routeParams r =
     \<lparr>rp_RouteID = pr_RouteID r, rp_SellerID = pr_SellerID r, rp_DisplayName = pr_DisplayName r,
      rp_ProductSlug = pr_ProductSlug r, rp_Method = pr_Method r, rp_PathPattern = pr_PathPattern r,
      rp_Description = pr_Description r, rp_MIMEType = pr_MIMEType r,
      rp_InputSchema = pr_InputSchema r, rp_OutputSchema = pr_OutputSchema r,
      rp_Amount = pr_Amount r, rp_Asset = pr_Asset r, rp_Network = pr_Network r,
      rp_PayTo = pr_PayTo r, rp_ApprovalThresholdAmount = pr_ApprovalThresholdAmount r,
      rp_UpstreamTimeoutSeconds = pr_UpstreamTimeoutSeconds r, rp_CreatedAt = pr_CreatedAt r\<rparr>"

definition newPaidRoute :: "catalog_library \<Rightarrow> PaidRouteParams \<Rightarrow> bool \<Rightarrow> PaidRoute result" where
  "newPaidRoute lib p enabled =
     (let validationErrors = validatePaidRouteParams lib p
      in reject_if (validationErrors \<noteq> []) (ValidationErrs validationErrors)
       (Inr \<lparr>pr_RouteID = rp_RouteID p, pr_SellerID = rp_SellerID p,
             pr_DisplayName = normalizeProductDisplayName (rp_DisplayName p),
             pr_ProductSlug = mustNormalizeProductSlug (rp_ProductSlug p),
             pr_Method = rp_Method p, pr_PathPattern = rp_PathPattern p,
             pr_Description = TrimSpace (rp_Description p), pr_MIMEType = TrimSpace (rp_MIMEType p),
             pr_InputSchema = normalizedSchema (rp_InputSchema p),
             pr_OutputSchema = normalizedSchema (rp_OutputSchema p),
             pr_Amount = rp_Amount p, pr_Asset = TrimSpace (rp_Asset p),
             pr_Network = TrimSpace (rp_Network p), pr_PayTo = TrimSpace (rp_PayTo p),
             pr_ApprovalThresholdAmount = rp_ApprovalThresholdAmount p,
             pr_UpstreamTimeoutSeconds = rp_UpstreamTimeoutSeconds p,
             pr_LifecycleStatus = (if enabled then RouteLifecyclePublished else RouteLifecycleDraft),
             pr_Enabled = enabled, pr_CreatedAt = rp_CreatedAt p, pr_UpdatedAt = rp_CreatedAt p,
             pr_Version = 1\<rparr>))"

definition NewPaidRoute :: "catalog_library \<Rightarrow> PaidRouteParams \<Rightarrow> PaidRoute result" where
  "NewPaidRoute lib p = newPaidRoute lib p True"

definition NewDraftPaidRoute :: "catalog_library \<Rightarrow> PaidRouteParams \<Rightarrow> PaidRoute result" where
  "NewDraftPaidRoute lib p = newPaidRoute lib p False"

definition transitionLifecycle :: "PaidRoute \<Rightarrow> RouteLifecycleStatus \<Rightarrow> instant \<Rightarrow> PaidRoute result" where
  "transitionLifecycle r status changedAt =
     reject_if (changedAt < pr_UpdatedAt r) update_chronology_error
    (Inr (r\<lparr>pr_LifecycleStatus := status, pr_Enabled := (status = RouteLifecyclePublished),
            pr_UpdatedAt := changedAt, pr_Version := pr_Version r + 1\<rparr>))"

definition ChangePrice :: "PaidRoute \<Rightarrow> amount \<Rightarrow> instant \<Rightarrow> PaidRoute result" where
  "ChangePrice r newAmount changedAt =
     reject_if (Amount_IsZero newAmount) (validation ''amount'' ''positive'' ''must be greater than zero'')
    (reject_if (changedAt < pr_UpdatedAt r) update_chronology_error
    (if pr_Amount r = newAmount then Inr r
     else let r1 = (if effectiveLifecycleStatus r = RouteLifecyclePublished
                    then r\<lparr>pr_LifecycleStatus := RouteLifecyclePaused, pr_Enabled := False\<rparr> else r)
          in Inr (r1\<lparr>pr_Amount := newAmount, pr_UpdatedAt := changedAt, pr_Version := pr_Version r + 1\<rparr>)))"

definition draft_candidate :: "PaidRoute \<Rightarrow> UpdateRouteDraftRequest \<Rightarrow> PaidRouteParams" where
  "draft_candidate r q =
     (routeParams r)\<lparr>rp_DisplayName := ud_DisplayName q, rp_Method := ud_Method q,
        rp_PathPattern := ud_PathPattern q, rp_Description := ud_Description q,
        rp_MIMEType := ud_MIMEType q, rp_InputSchema := ud_InputSchema q,
        rp_OutputSchema := ud_OutputSchema q, rp_Amount := ud_Amount q,
        rp_UpstreamTimeoutSeconds := ud_UpstreamTimeoutSeconds q\<rparr>"

definition UpdateDraft ::
  "catalog_library \<Rightarrow> PaidRoute \<Rightarrow> UpdateRouteDraftRequest \<Rightarrow> instant \<Rightarrow> PaidRoute result" where
  "UpdateDraft lib r q changedAt =
     reject_if (effectiveLifecycleStatus r = RouteLifecyclePublished) ErrRoutePublished
    (reject_if (effectiveLifecycleStatus r = RouteLifecycleArchived) ErrRouteLifecycleTransition
    (let validationErrors = validatePaidRouteParams lib (draft_candidate r q)
     in reject_if (validationErrors \<noteq> []) (ValidationErrs validationErrors)
       (reject_if (changedAt < pr_UpdatedAt r) update_chronology_error
       (Inr (r\<lparr>pr_DisplayName := normalizeProductDisplayName (ud_DisplayName q),
               pr_Method := ud_Method q, pr_PathPattern := ud_PathPattern q,
               pr_Description := TrimSpace (ud_Description q),
               pr_MIMEType := TrimSpace (ud_MIMEType q),
               pr_InputSchema := normalizedSchema (ud_InputSchema q),
               pr_OutputSchema := normalizedSchema (ud_OutputSchema q),
               pr_Amount := ud_Amount q, pr_UpstreamTimeoutSeconds := ud_UpstreamTimeoutSeconds q,
               pr_UpdatedAt := changedAt, pr_Version := pr_Version r + 1\<rparr>)))))"

definition resumable :: "RouteLifecycleStatus \<Rightarrow> bool" where
  "resumable status \<longleftrightarrow>
     status = RouteLifecycleDraft \<or> status = RouteLifecyclePaused \<or> status = RouteLifecycleEmergencyDisabled"

definition Publish :: "PaidRoute \<Rightarrow> instant \<Rightarrow> PaidRoute result" where
  "Publish r changedAt =
     reject_if (effectiveLifecycleStatus r = RouteLifecyclePublished) ErrRoutePublished
    (reject_if (\<not> resumable (effectiveLifecycleStatus r)) ErrRouteLifecycleTransition
      (transitionLifecycle r RouteLifecyclePublished changedAt))"

definition Pause :: "PaidRoute \<Rightarrow> instant \<Rightarrow> PaidRoute result" where
  "Pause r changedAt =
     reject_if (effectiveLifecycleStatus r \<noteq> RouteLifecyclePublished) ErrRouteLifecycleTransition
      (transitionLifecycle r RouteLifecyclePaused changedAt)"

definition Archive :: "PaidRoute \<Rightarrow> instant \<Rightarrow> PaidRoute result" where
  "Archive r changedAt =
     reject_if (\<not> resumable (effectiveLifecycleStatus r)) ErrRouteLifecycleTransition
      (transitionLifecycle r RouteLifecycleArchived changedAt)"

definition EmergencyDisable :: "PaidRoute \<Rightarrow> instant \<Rightarrow> PaidRoute result" where
  "EmergencyDisable r changedAt =
     reject_if (effectiveLifecycleStatus r \<noteq> RouteLifecyclePublished) ErrRouteLifecycleTransition
      (transitionLifecycle r RouteLifecycleEmergencyDisabled changedAt)"

text \<open>The JSON object \<open>PublishedContractHash\<close> marshals; the schemas are embedded as they are stored.\<close>

definition contract_payload :: "PaidRoute \<Rightarrow> json result" where
  "contract_payload r =
     rbind (Schema_MarshalJSON (pr_InputSchema r)) (\<lambda>inputSchema.
     rbind (Schema_MarshalJSON (pr_OutputSchema r)) (\<lambda>outputSchema.
     Inr (JObject
       [(''routeId'', JString (pr_RouteID r)), (''sellerId'', JString (pr_SellerID r)),
        (''displayName'', JString (pr_DisplayName r)), (''productSlug'', JString (pr_ProductSlug r)),
        (''method'', JString (RouteMethod_wire (pr_Method r))),
        (''pathPattern'', JString (pr_PathPattern r)), (''description'', JString (pr_Description r)),
        (''inputSchema'', inputSchema), (''outputSchema'', outputSchema),
        (''mimeType'', JString (pr_MIMEType r)), (''amount'', JString (Amount_String (pr_Amount r))),
        (''asset'', JString (pr_Asset r)), (''network'', JString (pr_Network r)),
        (''payTo'', JString (pr_PayTo r)),
        (''upstreamTimeoutSeconds'', JInt (pr_UpstreamTimeoutSeconds r)),
        (''version'', JInt (uint (pr_Version r)))])))"

abbreviation "publishedContractHashDomain \<equiv> ''agentpay.published-route-contract.v1''"

definition PublishedContractHash :: "(string \<Rightarrow> string result) \<Rightarrow> PaidRoute \<Rightarrow> string result" where
  "PublishedContractHash jcs r =
     rbind (contract_payload r) (\<lambda>payload.
     rbind (jcs (json_encode payload)) (\<lambda>canonical.
     Inr (hashBytes (publishedContractHashDomain @ [CHR 0x00] @ canonical))))"

section \<open>Normal forms\<close>

text \<open>Words without white space inside survive joining and splitting.\<close>

lemma space_len_0: "space_len s = 0 \<longleftrightarrow> (\<forall>w \<in> set space_runes. \<not> HasPrefix s w)"
proof -
  have "w \<in> set space_runes \<Longrightarrow> w \<noteq> []" for w
    using space_runes_no_graph by blast
  then show ?thesis
    by (auto simp: space_len_def find_None_iff find_Some_iff split: option.split)
qed

definition no_space_inside :: "string \<Rightarrow> bool" where
  "no_space_inside w \<longleftrightarrow> (\<forall>v. suffix v w \<longrightarrow> v \<noteq> [] \<longrightarrow> space_len v = 0)"

lemma no_space_inside_Nil [simp]: "no_space_inside []"
  by (simp add: no_space_inside_def)

lemma no_space_inside_Cons: "no_space_inside (c # w) \<longleftrightarrow> space_len (c # w) = 0 \<and> no_space_inside w"
  by (auto simp: no_space_inside_def suffix_Cons)

text \<open>Only the rune U+0020 contains the byte 0x20.\<close>

lemma space_runes_blank: "\<forall>w \<in> set space_runes. CHR 0x20 \<in> set w \<longrightarrow> w = [CHR 0x20]"
  by code_simp

lemma HasPrefix_before_blank:
  assumes "HasPrefix (c # u @ CHR 0x20 # t) w" "w \<in> set space_runes" "c \<noteq> CHR 0x20"
  shows "HasPrefix (c # u) w"
proof (cases "prefix w (c # u)")
  case False
  then obtain v where v: "w = (c # u) @ v" "prefix v (CHR 0x20 # t)"
    using assms(1) prefix_append [of w "c # u" "CHR 0x20 # t"] by (simp add: HasPrefix_iff) blast
  with False have "v \<noteq> []"
    by auto
  with v have "CHR 0x20 \<in> set w"
    by (cases v) auto
  then have "w = [CHR 0x20]"
    using space_runes_blank assms(2) by blast
  then show ?thesis
    using v assms(3) by simp
qed (simp add: HasPrefix_iff)

lemma space_len_before_blank:
  assumes "space_len (c # u) = 0"
  shows "space_len (c # u @ CHR 0x20 # t) = 0"
proof -
  have "[CHR 0x20] \<in> set space_runes"
    by (simp add: space_runes_def)
  then have "c \<noteq> CHR 0x20"
    using assms by (auto simp: space_len_0 HasPrefix_def)
  then show ?thesis
    using assms HasPrefix_before_blank unfolding space_len_0 by blast
qed

lemma space_len_blank: "space_len (CHR 0x20 # t) = 1"
  by (simp add: space_len_def space_runes_def HasPrefix_def)

lemma split_spaces_word:
  "no_space_inside w \<Longrightarrow> split_spaces acc w = [acc @ w]"
  "no_space_inside w \<Longrightarrow> split_spaces acc (w @ CHR 0x20 # t) = (acc @ w) # split_spaces [] t"
proof (induction w arbitrary: acc)
  case (Cons c w)
  {
    case 1
    with Cons.IH(1) show ?case
      by (simp add: no_space_inside_Cons)
  next
    case 2
    then have "space_len (c # w @ CHR 0x20 # t) = 0" "no_space_inside w"
      using space_len_before_blank by (auto simp: no_space_inside_Cons)
    with Cons.IH(2) show ?case
      by simp
  }
qed (simp_all add: space_len_blank)

lemma split_spaces_no_space_inside:
  "\<forall>v. suffix v acc \<longrightarrow> v \<noteq> [] \<longrightarrow> (\<forall>w \<in> set space_runes. \<not> HasPrefix (v @ s) w)
   \<Longrightarrow> w \<in> set (split_spaces acc s) \<Longrightarrow> no_space_inside w"
proof (induction acc s rule: split_spaces.induct)
  case (1 acc)
  then show ?case
    by (simp add: no_space_inside_def space_len_0)
next
  case (2 acc c s)
  have acc: "no_space_inside acc"
    unfolding no_space_inside_def space_len_0
  proof (intro allI impI ballI notI)
    fix v w assume "suffix v acc" "v \<noteq> []" "w \<in> set space_runes" "HasPrefix v w"
    moreover from this have "HasPrefix (v @ c # s) w"
      by (auto simp: HasPrefix_iff)
    ultimately show False
      using "2.prems"(1) by blast
  qed
  show ?case
  proof (cases "space_len (c # s) = 0")
    case True
    have "\<forall>v. suffix v (acc @ [c]) \<longrightarrow> v \<noteq> [] \<longrightarrow> (\<forall>w \<in> set space_runes. \<not> HasPrefix (v @ s) w)"
    proof (intro allI impI)
      fix v assume "suffix v (acc @ [c])" "v \<noteq> []"
      then obtain u where u: "v = u @ [c]" "suffix u acc"
        by (auto simp: suffix_append suffix_Cons)
      show "\<forall>w \<in> set space_runes. \<not> HasPrefix (v @ s) w"
      proof (cases "u = []")
        case True
        with u \<open>space_len (c # s) = 0\<close> show ?thesis
          by (simp add: space_len_0)
      next
        case False
        with u "2.prems"(1) show ?thesis
          by simp
      qed
    qed
    with "2.IH"(1) "2.prems"(2) True show ?thesis
      by simp
  next
    case False
    with "2.IH"(2) "2.prems"(2) acc show ?thesis
      by auto
  qed
qed

lemma Fields_Join:
  assumes "\<forall>w \<in> set ws. w \<noteq> [] \<and> no_space_inside w"
  shows "Fields (Join ws '' '') = ws"
  using assms
proof (induction ws rule: induct_list012)
  case (2 w)
  then show ?case
    by (simp add: Fields_def split_spaces_word)
next
  case (3 w v ws)
  then have "filter (\<lambda>w. w \<noteq> []) (split_spaces [] (Join (v # ws) '' '')) = v # ws"
    unfolding Fields_def by simp
  with 3 show ?case
    by (simp add: Fields_def split_spaces_word)
qed simp

lemma normalizeProductDisplayName_idem [simp]:
  "normalizeProductDisplayName (normalizeProductDisplayName s) = normalizeProductDisplayName s"
proof -
  have "\<forall>w \<in> set (Fields s). w \<noteq> [] \<and> no_space_inside w"
    using split_spaces_no_space_inside [of "[]" s] by (auto simp: Fields_def)
  then show ?thesis
    by (simp add: normalizeProductDisplayName_def Fields_Join)
qed

text \<open>A normalised slug: lower-case letters and digits with single hyphens between them.\<close>

definition slug_char :: "char \<Rightarrow> bool" where
  "slug_char c \<longleftrightarrow> byte_in c 97 122 \<or> byte_in c 48 57"

fun slug_rest :: "bool \<Rightarrow> string \<Rightarrow> bool" where
  "slug_rest afterHyphen [] = (\<not> afterHyphen)"
| "slug_rest afterHyphen (c # s) =
     (if c = CHR ''-'' then \<not> afterHyphen \<and> slug_rest True s else slug_char c \<and> slug_rest False s)"

definition slug_form :: "string \<Rightarrow> bool" where
  "slug_form s \<longleftrightarrow> slug_rest True s"

lemma slug_char_hyphen [simp]: "\<not> slug_char (CHR ''-'')"
  by (simp add: slug_char_def byte_in_def)

lemma slug_rest_append: "slug_rest p a \<Longrightarrow> slug_rest p (a @ b) = slug_rest False b"
  by (induction a arbitrary: p) (auto split: if_split_asm)

lemma add_slug_char_form:
  "slug_char c \<Longrightarrow> built = [] \<or> slug_form built \<Longrightarrow> slug_form (add_slug_char built p c)"
  by (auto simp: add_slug_char_def slug_form_def slug_rest_append)

lemma lower_slug_char: "byte_in c 65 90 \<Longrightarrow> slug_char (char_of (of_char c + 32 :: nat))"
  by (simp add: slug_char_def byte_in_def)

lemma slug_loop_form:
  "slug_loop built p s = Some t \<Longrightarrow> built = [] \<or> slug_form built \<Longrightarrow> t = [] \<or> slug_form t"
proof (induction built p s rule: slug_loop.induct)
  case (2 built p c s)
  then show ?case
    using add_slug_char_form [of c built p] add_slug_char_form [OF lower_slug_char, of c built p]
    by (simp add: slug_char_def split: if_split_asm)
qed simp

lemma slug_loop_id:
  "slug_rest p s \<Longrightarrow> built \<noteq> [] \<Longrightarrow> slug_loop built p s = Some (built @ (if p then ''-'' else []) @ s)"
proof (induction s arbitrary: built p)
  case (Cons c s)
  show ?case
  proof (cases "c = CHR ''-''")
    case True
    with Cons show ?thesis
      by (simp add: byte_in_def)
  next
    case False
    with Cons.prems have "slug_char c" "slug_rest False s"
      by simp_all
    moreover from this(1) have "\<not> byte_in c 65 90"
      by (auto simp: slug_char_def byte_in_def)
    ultimately show ?thesis
      using Cons.IH [of False "add_slug_char built p c"] Cons.prems(2)
      by (simp add: slug_char_def add_slug_char_def)
  qed
qed simp

lemma slug_form_fixed:
  assumes "slug_form s"
  shows "normalizeProductSlug s = (s, True)"
proof -
  obtain c r where s: "s = c # r" "slug_char c" "slug_rest False r"
    using assms by (cases s) (auto simp: slug_form_def split: if_split_asm)
  have graph: "ascii_graph c" if "slug_char c" for c
    using that by (auto simp: slug_char_def byte_in_def ascii_graph_def)
  have "slug_rest p u \<Longrightarrow> u \<noteq> [] \<Longrightarrow> slug_char (last u)" for p u
    by (induction u arbitrary: p) (auto split: if_split_asm)
  then have "plain_ends s"
    using assms graph s by (simp add: plain_ends_def slug_form_def)
  moreover have "\<not> byte_in c 65 90"
    using s(2) by (auto simp: slug_char_def byte_in_def)
  ultimately show ?thesis
    using s slug_loop_id [of False r "[c]"]
    by (simp add: normalizeProductSlug_def TrimSpace_plain slug_char_def add_slug_char_def)
qed

lemma normalizeProductSlug_idem:
  "normalizeProductSlug s = (t, True) \<Longrightarrow> t \<noteq> [] \<Longrightarrow> normalizeProductSlug t = (t, True)"
  using slug_loop_form [of "[]" False "TrimSpace s" t] slug_form_fixed
  by (auto simp: normalizeProductSlug_def split: option.split_asm)

section \<open>The invariant of paid routes\<close>

lemma bounded_text_trim [simp]: "bounded_text n (TrimSpace s) \<longleftrightarrow> bounded_text n s"
  by (simp add: bounded_text_def)

lemma Schema_Canonical_normalized [simp]: "Schema_Canonical (normalizedSchema schema) = Schema_Canonical schema"
  by (simp add: Schema_Canonical_def normalizedSchema_def)

text \<open>The parameters with every text in the normal form in which a route stores it.\<close>

definition normal_params :: "PaidRouteParams \<Rightarrow> PaidRouteParams" where
  "normal_params p =
     p\<lparr>rp_DisplayName := normalizeProductDisplayName (rp_DisplayName p),
       rp_ProductSlug := mustNormalizeProductSlug (rp_ProductSlug p),
       rp_Description := TrimSpace (rp_Description p), rp_MIMEType := TrimSpace (rp_MIMEType p),
       rp_InputSchema := normalizedSchema (rp_InputSchema p),
       rp_OutputSchema := normalizedSchema (rp_OutputSchema p), rp_Asset := TrimSpace (rp_Asset p),
       rp_Network := TrimSpace (rp_Network p), rp_PayTo := TrimSpace (rp_PayTo p)\<rparr>"

lemma normal_slug:
  assumes "normalizeProductSlug s = (t, True)" "3 \<le> length t"
  shows "normalizeProductSlug (mustNormalizeProductSlug s) = (t, True)"
  using assms normalizeProductSlug_idem [of s t] by (cases t) (auto simp: mustNormalizeProductSlug_def)

lemma validate_normal_params:
  assumes "validatePaidRouteParams lib p = []"
  shows "validatePaidRouteParams lib (normal_params p) = []"
proof -
  obtain slug where slug: "normalizeProductSlug (rp_ProductSlug p) = (slug, True)" "3 \<le> length slug"
    using assms by (cases "normalizeProductSlug (rp_ProductSlug p)")
      (auto simp: validatePaidRouteParams_def Let_def)
  show ?thesis
    using assms slug normal_slug [OF slug]
    by (simp add: validatePaidRouteParams_def normal_params_def Let_def schema_check_def)
qed

lemma normal_params_idem:
  assumes "validatePaidRouteParams lib p = []"
  shows "normal_params (normal_params p) = normal_params p"
proof -
  obtain slug where slug: "normalizeProductSlug (rp_ProductSlug p) = (slug, True)" "3 \<le> length slug"
    using assms by (cases "normalizeProductSlug (rp_ProductSlug p)")
      (auto simp: validatePaidRouteParams_def Let_def)
  have "normalizedSchema (normalizedSchema x) = normalizedSchema x" for x
    by (simp add: normalizedSchema_def)
  then show ?thesis
    using slug normal_slug [OF slug] by (simp add: normal_params_def mustNormalizeProductSlug_def)
qed

text \<open>
  A route is valid under the current rules, stores its texts in normal form, is enabled exactly when
  it is published, and was created no later than it was last changed.
\<close>

definition wf_route :: "catalog_library \<Rightarrow> PaidRoute \<Rightarrow> bool" where
  "wf_route lib r \<longleftrightarrow>
     validatePaidRouteParams lib (routeParams r) = [] \<and> normal_params (routeParams r) = routeParams r
     \<and> pr_LifecycleStatus r \<noteq> RouteLifecycleUnset
     \<and> (pr_Enabled r \<longleftrightarrow> pr_LifecycleStatus r = RouteLifecyclePublished)
     \<and> pr_CreatedAt r \<le> pr_UpdatedAt r"

lemma wf_route_status [simp]: "wf_route lib r \<Longrightarrow> effectiveLifecycleStatus r = pr_LifecycleStatus r"
  by (simp add: wf_route_def effectiveLifecycleStatus_def)

lemma wf_route_normalized: "wf_route lib r \<Longrightarrow> normalizeLifecycleStatus r = r"
  by (simp add: normalizeLifecycleStatus_def) (simp add: wf_route_def)

lemma newPaidRoute_eq:
  "newPaidRoute lib p enabled = Inr r \<Longrightarrow>
   validatePaidRouteParams lib p = [] \<and> routeParams r = normal_params p \<and> pr_Enabled r = enabled
   \<and> pr_LifecycleStatus r = (if enabled then RouteLifecyclePublished else RouteLifecycleDraft)
   \<and> pr_UpdatedAt r = pr_CreatedAt r \<and> pr_Version r = 1"
  by (auto simp: newPaidRoute_def Let_def result_simps routeParams_def normal_params_def)

lemma newPaidRoute_wf: "newPaidRoute lib p enabled = Inr r \<Longrightarrow> wf_route lib r"
  by (drule newPaidRoute_eq)
    (auto simp: wf_route_def validate_normal_params normal_params_idem)

lemma UpdateDraft_params:
  assumes "wf_route lib r" "UpdateDraft lib r q t = Inr r'"
  shows "routeParams r' = normal_params (draft_candidate r q)"
proof -
  have "normal_params (routeParams r) = routeParams r"
    using assms(1) by (simp add: wf_route_def)
  then show ?thesis
    using assms(2)
    by (auto simp: UpdateDraft_def Let_def result_simps routeParams_def normal_params_def draft_candidate_def)
qed

lemma UpdateDraft_wf:
  assumes "wf_route lib r" "UpdateDraft lib r q t = Inr r'"
  shows "wf_route lib r'"
proof -
  have "validatePaidRouteParams lib (draft_candidate r q) = []"
    using assms(2) by (auto simp: UpdateDraft_def Let_def result_simps)
  then show ?thesis
    using assms UpdateDraft_params [OF assms] validate_normal_params normal_params_idem
    by (auto simp: wf_route_def UpdateDraft_def Let_def result_simps)
qed

lemma routeParams_lifecycle [simp]:
  "routeParams (r\<lparr>pr_LifecycleStatus := st, pr_Enabled := b, pr_UpdatedAt := t, pr_Version := v\<rparr>) = routeParams r"
  by (simp add: routeParams_def)

lemma transitionLifecycle_wf:
  "wf_route lib r \<Longrightarrow> st \<noteq> RouteLifecycleUnset \<Longrightarrow> transitionLifecycle r st t = Inr r' \<Longrightarrow> wf_route lib r'"
  by (auto simp: transitionLifecycle_def result_simps wf_route_def)

lemma validate_amount:
  "validatePaidRouteParams lib p = [] \<Longrightarrow> \<not> Amount_IsZero a \<Longrightarrow> validatePaidRouteParams lib (p\<lparr>rp_Amount := a\<rparr>) = []"
  by (auto simp: validatePaidRouteParams_def Let_def split: prod.splits if_splits)

lemma ChangePrice_wf:
  assumes "wf_route lib r" "ChangePrice r a t = Inr r'"
  shows "wf_route lib r'"
proof (cases "pr_Amount r = a")
  case False
  have p: "routeParams r' = (routeParams r)\<lparr>rp_Amount := a\<rparr>" "\<not> Amount_IsZero a"
    using assms False by (auto simp: ChangePrice_def Let_def result_simps routeParams_def)
  moreover have "normal_params ((routeParams r)\<lparr>rp_Amount := a\<rparr>) = (normal_params (routeParams r))\<lparr>rp_Amount := a\<rparr>"
    by (simp add: normal_params_def)
  ultimately show ?thesis
    using assms False validate_amount [of lib "routeParams r" a]
    by (auto simp: wf_route_def ChangePrice_def Let_def result_simps effectiveLifecycleStatus_def
        split: if_split_asm)
qed (use assms in \<open>simp add: ChangePrice_def result_simps\<close>)

subsection \<open>The lifecycle as a transition system\<close>

inductive route_step :: "catalog_library \<Rightarrow> PaidRoute \<Rightarrow> PaidRoute \<Rightarrow> bool" for lib where
  step_price: "ChangePrice r a t = Inr r' \<Longrightarrow> route_step lib r r'"
| step_draft: "UpdateDraft lib r q t = Inr r' \<Longrightarrow> route_step lib r r'"
| step_publish: "Publish r t = Inr r' \<Longrightarrow> route_step lib r r'"
| step_pause: "Pause r t = Inr r' \<Longrightarrow> route_step lib r r'"
| step_archive: "Archive r t = Inr r' \<Longrightarrow> route_step lib r r'"
| step_emergency: "EmergencyDisable r t = Inr r' \<Longrightarrow> route_step lib r r'"

inductive_cases route_stepE: "route_step lib r r'"

lemma route_step_wf: "wf_route lib r \<Longrightarrow> route_step lib r r' \<Longrightarrow> wf_route lib r'"
  by (erule route_stepE)
    (auto intro: ChangePrice_wf UpdateDraft_wf transitionLifecycle_wf
      simp: Publish_def Pause_def Archive_def EmergencyDisable_def result_simps)

lemma route_step_identity:
  "route_step lib r r' \<Longrightarrow> pr_RouteID r' = pr_RouteID r \<and> pr_SellerID r' = pr_SellerID r
     \<and> pr_ProductSlug r' = pr_ProductSlug r \<and> pr_PayTo r' = pr_PayTo r \<and> pr_Asset r' = pr_Asset r
     \<and> pr_Network r' = pr_Network r \<and> pr_CreatedAt r' = pr_CreatedAt r \<and> pr_UpdatedAt r \<le> pr_UpdatedAt r'"
  by (erule route_stepE)
    (auto simp: ChangePrice_def UpdateDraft_def Publish_def Pause_def Archive_def EmergencyDisable_def
      transitionLifecycle_def Let_def result_simps split: if_split_asm)

lemma route_step_version:
  "route_step lib r r' \<Longrightarrow> r' = r \<or> pr_Version r' = pr_Version r + 1"
  by (erule route_stepE)
    (auto simp: ChangePrice_def UpdateDraft_def Publish_def Pause_def Archive_def EmergencyDisable_def
      transitionLifecycle_def Let_def result_simps split: if_split_asm)

text \<open>From which state each operation starts and in which it ends.\<close>

lemma UpdateDraft_status:
  "UpdateDraft lib r q t = Inr r' \<Longrightarrow> effectiveLifecycleStatus r \<noteq> RouteLifecyclePublished
     \<and> effectiveLifecycleStatus r \<noteq> RouteLifecycleArchived \<and> pr_LifecycleStatus r' = pr_LifecycleStatus r"
  by (cases "validatePaidRouteParams lib (draft_candidate r q) = []")
    (auto simp: UpdateDraft_def Let_def result_simps)

lemma transitionLifecycle_status:
  "transitionLifecycle r st t = Inr r' \<Longrightarrow> pr_LifecycleStatus r' = st \<and> (pr_Enabled r' \<longleftrightarrow> st = RouteLifecyclePublished)"
  by (auto simp: transitionLifecycle_def result_simps)

lemmas lifecycle_ops = Publish_def Pause_def Archive_def EmergencyDisable_def result_simps resumable_def

lemma route_step_published:
  assumes "wf_route lib r" "pr_LifecycleStatus r = RouteLifecyclePublished" "route_step lib r r'"
  shows "r' = r \<or> pr_LifecycleStatus r' \<in> {RouteLifecyclePaused, RouteLifecycleEmergencyDisabled}
    \<and> \<not> pr_Enabled r'"
proof -
  have st: "effectiveLifecycleStatus r = RouteLifecyclePublished"
    using assms(1,2) by simp
  from assms(3) show ?thesis
  proof cases
    case (step_price a t)
    with st show ?thesis
      by (cases "pr_Amount r = a") (auto simp: ChangePrice_def Let_def result_simps)
  next
    case (step_draft q t)
    with st show ?thesis
      using UpdateDraft_status by blast
  qed (use st in \<open>auto simp: lifecycle_ops dest: transitionLifecycle_status\<close>)
qed

lemma route_step_archived:
  assumes "wf_route lib r" "pr_LifecycleStatus r = RouteLifecycleArchived" "route_step lib r r'"
  shows "pr_LifecycleStatus r' = RouteLifecycleArchived"
proof -
  have st: "effectiveLifecycleStatus r = RouteLifecycleArchived"
    using assms(1,2) by simp
  from assms(3) show ?thesis
  proof cases
    case (step_price a t)
    with st assms(2) show ?thesis
      by (cases "pr_Amount r = a") (auto simp: ChangePrice_def Let_def result_simps)
  next
    case (step_draft q t)
    with st show ?thesis
      using UpdateDraft_status by blast
  qed (use st in \<open>auto simp: lifecycle_ops dest: transitionLifecycle_status\<close>)
qed

lemma route_run:
  assumes "(route_step lib)\<^sup>*\<^sup>* r0 r" "wf_route lib r0"
  shows "wf_route lib r \<and> pr_RouteID r = pr_RouteID r0 \<and> pr_SellerID r = pr_SellerID r0
    \<and> pr_ProductSlug r = pr_ProductSlug r0 \<and> pr_PayTo r = pr_PayTo r0"
  using assms by (induction rule: rtranclp_induct) (auto dest: route_step_wf route_step_identity)

definition sample_library :: catalog_library where
  "sample_library =
     \<lparr>cl_ulid = (\<lambda>s. length s = 26),
      cl_parseURL = (\<lambda>s. if HasPrefix s ''https://''
        then Some \<lparr>ur_Scheme = ''https'', ur_Host = drop 8 s, ur_Hostname = drop 8 s, ur_HasUser = False,
                   ur_RawQuery = [], ur_Fragment = []\<rparr>
        else None),
      cl_loopbackIP = (\<lambda>s. False), cl_parseMediaType = Inr, cl_jcs = Inr\<rparr>"

definition sample_route_params :: PaidRouteParams where
  "sample_route_params =
     \<lparr>rp_RouteID = ''rte_01ARZ3NDEKTSV4RRFFQ69G5FAV'', rp_SellerID = ''sel_01ARZ3NDEKTSV4RRFFQ69G5FAV'',
      rp_DisplayName = '' Market  report '', rp_ProductSlug = ''Market_Report'', rp_Method = RouteMethodGet,
      rp_PathPattern = ''/report'', rp_Description = ''A report'', rp_MIMEType = ''application/json'',
      rp_InputSchema = [], rp_OutputSchema = [], rp_Amount = Amount ''100'', rp_Asset = ''USDC'',
      rp_Network = ''eip155:84532'', rp_PayTo = ''0x123'', rp_ApprovalThresholdAmount = None,
      rp_UpstreamTimeoutSeconds = 20, rp_CreatedAt = 1000\<rparr>"

definition sample_route :: PaidRoute where
  "sample_route =
     \<lparr>pr_RouteID = ''rte_01ARZ3NDEKTSV4RRFFQ69G5FAV'', pr_SellerID = ''sel_01ARZ3NDEKTSV4RRFFQ69G5FAV'',
      pr_DisplayName = ''Market report'', pr_ProductSlug = ''market-report'', pr_Method = RouteMethodGet,
      pr_PathPattern = ''/report'', pr_Description = ''A report'', pr_MIMEType = ''application/json'',
      pr_InputSchema = DefaultClosedObjectSchema, pr_OutputSchema = DefaultClosedObjectSchema,
      pr_Amount = Amount ''100'', pr_Asset = ''USDC'', pr_Network = ''eip155:84532'', pr_PayTo = ''0x123'',
      pr_ApprovalThresholdAmount = None, pr_UpstreamTimeoutSeconds = 20,
      pr_LifecycleStatus = RouteLifecyclePublished, pr_Enabled = True, pr_CreatedAt = 1000,
      pr_UpdatedAt = 1000, pr_Version = 1\<rparr>"

lemma sample_route_facts:
  "is_ok (ParseID (cl_ulid sample_library) ''rte_01ARZ3NDEKTSV4RRFFQ69G5FAV'' RouteIDPrefix)"
  "is_ok (ParseID (cl_ulid sample_library) ''sel_01ARZ3NDEKTSV4RRFFQ69G5FAV'' SellerIDPrefix)"
  "normalizeProductDisplayName '' Market  report '' = ''Market report''"
  "normalizeProductSlug ''Market_Report'' = (''market-report'', True)"
  "RuneCount ''Market report'' = 13" "\<not> has_control ''Market report''" "routePathPattern ''/report''"
  "TrimSpace ''A report'' = ''A report''" "TrimSpace ''application/json'' = ''application/json''"
  "TrimSpace ''USDC'' = ''USDC''" "TrimSpace ''eip155:84532'' = ''eip155:84532''"
  "TrimSpace ''0x123'' = ''0x123''" "\<not> Amount_IsZero (Amount ''100'')"
  by code_simp+

lemma sample_schema_check: "schema_check sample_library f [] = []"
proof -
  have "is_ok (NormalizeClosedJSONSchema (cl_jcs sample_library) (Schema_Canonical []))"
    by code_simp
  then show ?thesis
    by (auto simp: schema_check_def split: sum.split)
qed

lemma sample_route_created: "newPaidRoute sample_library sample_route_params True = Inr sample_route"
  by (simp add: newPaidRoute_def validatePaidRouteParams_def sample_route_params_def sample_route_facts
      sample_schema_check bounded_text_def Let_def sample_route_def mustNormalizeProductSlug_def normalizedSchema_def)
    (simp add: sample_library_def control_byte_def)

text \<open>
  C36: the life of a paid route. After any operations of its seller a route still satisfies every
  publication rule, is enabled exactly when it is published, and keeps its seller, slug and payment
  address. While it is published nothing of its contract changes: an operation leaves it as it is or
  takes it out of sale. An archived route never comes back.
\<close>

theorem paid_route_lifecycle:
  assumes "newPaidRoute lib p enabled = Inr r0" "(route_step lib)\<^sup>*\<^sup>* r0 r" "route_step lib r r'"
  shows "validatePaidRouteParams lib (routeParams r') = []
    \<and> (pr_Enabled r' \<longleftrightarrow> pr_LifecycleStatus r' = RouteLifecyclePublished)
    \<and> pr_SellerID r' = rp_SellerID p \<and> pr_ProductSlug r' = pr_ProductSlug r0 \<and> pr_PayTo r' = pr_PayTo r0
    \<and> (r' = r \<or> pr_Version r' = pr_Version r + 1)
    \<and> (pr_LifecycleStatus r = RouteLifecyclePublished \<longrightarrow> r' = r \<or> \<not> pr_Enabled r')
    \<and> (pr_LifecycleStatus r = RouteLifecycleArchived \<longrightarrow> pr_LifecycleStatus r' = RouteLifecycleArchived)"
proof -
  have "pr_SellerID r0 = rp_SellerID p"
    using assms(1) by (auto simp: newPaidRoute_def Let_def result_simps)
  then show ?thesis
    using route_run [OF assms(2) newPaidRoute_wf [OF assms(1)]] assms(3)
      route_step_wf [of lib r r'] route_step_identity [OF assms(3)] route_step_version [OF assms(3)]
      route_step_published [of lib r r'] route_step_archived [of lib r r']
    by (auto simp: wf_route_def)
qed

theorem paid_route_lifecycle_witness:
  "\<exists>r'. ChangePrice sample_route (Amount ''200'') 2000 = Inr r' \<and> \<not> pr_Enabled r'
     \<and> pr_SellerID r' = ''sel_01ARZ3NDEKTSV4RRFFQ69G5FAV''"
proof -
  let ?r = "sample_route\<lparr>pr_LifecycleStatus := RouteLifecyclePaused, pr_Enabled := False,
      pr_Amount := Amount ''200'', pr_UpdatedAt := 2000, pr_Version := 2\<rparr>"
  have step: "ChangePrice sample_route (Amount ''200'') 2000 = Inr ?r"
    by code_simp
  then have "route_step sample_library sample_route ?r"
    by (rule step_price)
  from paid_route_lifecycle [OF sample_route_created rtranclp.rtrancl_refl this]
  show ?thesis
    using step by (simp add: sample_route_params_def sample_route_def)
qed

end
