(* ===== verification/Directory.thy ===== *)
theory Directory
  imports Routes
begin

text \<open>
  The public product directory: the projection of a published route and the search terms of
  \<open>internal/catalog/directory.go\<close>. The Unicode tables behind \<open>strings.ToLower\<close>, \<open>unicode.IsLetter\<close>
  and \<open>unicode.IsDigit\<close> are an argument.
\<close>

record unicode_tables =
  ut_toLower :: "string \<Rightarrow> string"
  ut_isLetterOrDigit :: "string \<Rightarrow> bool"

text \<open>The runes of a string; a byte that is not part of one is U+FFFD.\<close>

function runes :: "string \<Rightarrow> string list" where
  "runes s =
     (if s = [] then []
      else if utf8_len s = 0 then replacement_rune # runes (drop 1 s)
      else take (utf8_len s) s # runes (drop (utf8_len s) s))"
  by pat_completeness auto
termination
  by (relation "measure length") auto

declare runes.simps [simp del]

text \<open>The loop of \<open>directoryTermRuns\<close>: the term being read and the terms read so far.\<close>

fun term_runs :: "unicode_tables \<Rightarrow> string \<Rightarrow> string list \<Rightarrow> string list" where
  "term_runs ut current [] = (if current = [] then [] else [current])"
| "term_runs ut current (c # cs) =
     (if ut_isLetterOrDigit ut c then term_runs ut (current @ c) cs
      else (if current = [] then [] else [current]) @ term_runs ut [] cs)"

definition directoryTermRuns :: "unicode_tables \<Rightarrow> string \<Rightarrow> string list" where
  "directoryTermRuns ut raw = term_runs ut [] (runes (ut_toLower ut raw))"

abbreviation directory_term :: "string \<Rightarrow> bool" where
  "directory_term t \<equiv> 2 \<le> RuneCount t \<and> RuneCount t \<le> 32"

text \<open>The loop of \<open>publicDirectoryTerms\<close> over the runs, with the terms collected so far.\<close>

fun collect_terms :: "string list \<Rightarrow> string list \<Rightarrow> string list" where
  "collect_terms terms [] = terms"
| "collect_terms terms (t # ts) =
     (if \<not> directory_term t \<or> t \<in> set terms then collect_terms terms ts
      else if length terms + 1 = 16 then terms @ [t]
      else collect_terms (terms @ [t]) ts)"

definition publicDirectoryTerms :: "unicode_tables \<Rightarrow> string \<Rightarrow> string list" where
  "publicDirectoryTerms ut raw = collect_terms [] (directoryTermRuns ut raw)"

definition normalizeDirectorySort :: "unicode_tables \<Rightarrow> string \<Rightarrow> string" where
  "normalizeDirectorySort ut displayName =
     (let terms = publicDirectoryTerms ut displayName
      in if terms = [] then ''product'' else Join terms ''-'')"

fun query_terms :: "string list \<Rightarrow> string list \<Rightarrow> string list result" where
  "query_terms terms [] = Inr terms"
| "query_terms terms (t # ts) =
     (if \<not> directory_term t then
        Inl (validation ''q'' ''term_length'' ''search terms must contain 2 to 32 letters or digits'')
      else query_terms (if t \<in> set terms then terms else terms @ [t]) ts)"

definition NormalizePublicDirectoryQuery :: "unicode_tables \<Rightarrow> string \<Rightarrow> string list result" where
  "NormalizePublicDirectoryQuery ut raw =
     (if TrimSpace raw = [] then Inr []
      else let runs = directoryTermRuns ut raw
           in reject_if (runs = [] \<or> 4 < length runs)
                (validation ''q'' ''terms'' ''search must contain one to four terms'')
                (query_terms [] runs))"

record PublicDirectoryProjection =
  dp_SellerID :: ID
  dp_RouteID :: ID
  dp_DisplaySort :: string
  dp_SearchTerms :: "string list"
  dp_RouteVersion :: u64
  dp_UpdatedAt :: instant

definition Projection_SortKey :: "PublicDirectoryProjection \<Rightarrow> string" where
  "Projection_SortKey p =
     ''PRODUCT#'' @ dp_DisplaySort p @ ''#'' @ dp_SellerID p @ ''#'' @ dp_RouteID p"

definition NewPublicDirectoryProjection :: "unicode_tables \<Rightarrow> PaidRoute \<Rightarrow> PublicDirectoryProjection option" where
  "NewPublicDirectoryProjection ut route =
     (let r = normalizeLegacyFields route
      in if pr_LifecycleStatus r \<noteq> RouteLifecyclePublished \<or> \<not> pr_Enabled r then None
         else Some \<lparr>dp_SellerID = pr_SellerID r, dp_RouteID = pr_RouteID r,
                    dp_DisplaySort = normalizeDirectorySort ut (pr_DisplayName r),
                    dp_SearchTerms = publicDirectoryTerms ut (pr_DisplayName r @ '' '' @ pr_Description r),
                    dp_RouteVersion = pr_Version r, dp_UpdatedAt = pr_UpdatedAt r\<rparr>)"

lemma normalizeLegacyFields_simps [simp]:
  "pr_RouteID (normalizeLegacyFields r) = pr_RouteID r"
  "pr_SellerID (normalizeLegacyFields r) = pr_SellerID r"
  "pr_Version (normalizeLegacyFields r) = pr_Version r"
  "pr_UpdatedAt (normalizeLegacyFields r) = pr_UpdatedAt r"
  "pr_LifecycleStatus (normalizeLegacyFields r) = effectiveLifecycleStatus r"
  "pr_Enabled (normalizeLegacyFields r) \<longleftrightarrow> effectiveLifecycleStatus r = RouteLifecyclePublished"
  by (simp_all add: normalizeLegacyFields_def normalizeLifecycleStatus_def Let_def)

lemma projection_route:
  "NewPublicDirectoryProjection ut r = Some p \<Longrightarrow>
   dp_RouteID p = pr_RouteID r \<and> dp_SellerID p = pr_SellerID r \<and> dp_RouteVersion p = pr_Version r
   \<and> effectiveLifecycleStatus r = RouteLifecyclePublished"
  unfolding NewPublicDirectoryProjection_def Let_def by (simp split: if_split_asm) (clarify, simp)

lemma projection_published:
  "NewPublicDirectoryProjection ut r = None \<longleftrightarrow> effectiveLifecycleStatus r \<noteq> RouteLifecyclePublished"
  unfolding NewPublicDirectoryProjection_def Let_def by simp

text \<open>At most 16 terms, each once, each of 2 to 32 runes.\<close>

definition index_terms :: "string list \<Rightarrow> bool" where
  "index_terms ts \<longleftrightarrow> distinct ts \<and> list_all directory_term ts"

lemma index_terms_snoc: "index_terms ts \<Longrightarrow> directory_term t \<Longrightarrow> t \<notin> set ts \<Longrightarrow> index_terms (ts @ [t])"
  by (simp add: index_terms_def)

lemma collect_terms_bounded:
  "length terms < 16 \<Longrightarrow> index_terms terms \<Longrightarrow>
   length (collect_terms terms ts) \<le> 16 \<and> index_terms (collect_terms terms ts)"
proof (induction terms ts rule: collect_terms.induct)
  case (2 terms t ts)
  show ?case
  proof (cases "\<not> directory_term t \<or> t \<in> set terms")
    case True
    with 2 show ?thesis
      by simp
  next
    case False
    then have "index_terms (terms @ [t])"
      using "2.prems"(2) index_terms_snoc by blast
    with 2 False show ?thesis
      by (cases "length terms + 1 = 16") simp_all
  qed
qed simp

lemma publicDirectoryTerms_bounded:
  "length (publicDirectoryTerms ut raw) \<le> 16 \<and> index_terms (publicDirectoryTerms ut raw)"
  unfolding publicDirectoryTerms_def
  by (rule collect_terms_bounded) (simp_all add: index_terms_def)

end
