(* ===== verification/CatalogStore.thy ===== *)
theory CatalogStore
  imports Directory Repositories
begin

text \<open>
  The in-memory catalog repository of \<open>internal/persistence/memory/repositories.go\<close>: sellers with
  their two unique indexes, routes with the slug index of each seller, and the public directory it
  maintains. The lemmas show that the indexes and the directory always agree with the stored records.
\<close>

text \<open>
  The two directory maps are iterated, so they are association lists with distinct keys; the other
  maps are looked up only. A missing inner map reads as empty.
\<close>

record CatalogRepository =
  ca_sellers :: "ID \<rightharpoonup> Seller"
  ca_sellerBySlug :: "string \<rightharpoonup> ID"
  ca_sellerByOwnerSubject :: "string \<rightharpoonup> ID"
  ca_routes :: "ID \<rightharpoonup> PaidRoute"
  ca_routesBySeller :: "ID \<Rightarrow> ID list"
  ca_productSlugsBySeller :: "ID \<Rightarrow> string \<rightharpoonup> ID"
  ca_directoryProducts :: "(string \<times> PublicDirectoryProjection) list"
  ca_directoryTerms :: "(string \<times> (string \<times> PublicDirectoryProjection) list) list"

definition NewCatalogRepository :: CatalogRepository where
  "NewCatalogRepository =
     \<lparr>ca_sellers = Map.empty, ca_sellerBySlug = Map.empty, ca_sellerByOwnerSubject = Map.empty,
      ca_routes = Map.empty, ca_routesBySeller = (\<lambda>_. []), ca_productSlugsBySeller = (\<lambda>_. Map.empty),
      ca_directoryProducts = [], ca_directoryTerms = []\<rparr>"

section \<open>Sellers\<close>

definition Catalog_CreateSeller :: "CatalogRepository \<Rightarrow> Seller \<Rightarrow> CatalogRepository result" where
  "Catalog_CreateSeller r s =
     reject_if (ca_sellers r (se_SellerID s) \<noteq> None) ErrAlreadyExists
    (reject_if (ca_sellerBySlug r (se_Slug s) \<noteq> None) ErrAlreadyExists
    (reject_if (ca_sellerByOwnerSubject r (se_OwnerSubject s) \<noteq> None) ErrAlreadyExists
    (Inr (r\<lparr>ca_sellers := (ca_sellers r)(se_SellerID s \<mapsto> s),
            ca_sellerBySlug := (ca_sellerBySlug r)(se_Slug s \<mapsto> se_SellerID s),
            ca_sellerByOwnerSubject := (ca_sellerByOwnerSubject r)(se_OwnerSubject s \<mapsto> se_SellerID s)\<rparr>))))"

definition Catalog_GetSeller :: "CatalogRepository \<Rightarrow> ID \<Rightarrow> Seller result" where
  "Catalog_GetSeller r k = (case ca_sellers r k of None \<Rightarrow> Inl ErrNotFound | Some s \<Rightarrow> Inr s)"

text \<open>The record Go returns for an identifier that is not in the map.\<close>

definition zero_seller :: Seller where
  "zero_seller =
     \<lparr>se_SellerID = [], se_OwnerSubject = [], se_Slug = [], se_Name = [], se_UpstreamBaseURL = [],
      se_SigningSecretRef = [], se_VerifiedUpstreamBaseURL = [], se_VerifiedSigningSecretRefHash = [],
      se_ServiceEndpointVerifiedAt = None, se_Status = SellerStatusOther [], se_CreatedAt = 0,
      se_UpdatedAt = 0, se_Version = 0\<rparr>"

definition seller_at :: "CatalogRepository \<Rightarrow> ID \<Rightarrow> Seller" where
  "seller_at r k = (case ca_sellers r k of None \<Rightarrow> zero_seller | Some s \<Rightarrow> s)"

definition ResolveSellerByOwnerSubject :: "CatalogRepository \<Rightarrow> string \<Rightarrow> Seller result" where
  "ResolveSellerByOwnerSubject r ownerSubject =
     (case ca_sellerByOwnerSubject r ownerSubject of None \<Rightarrow> Inl ErrNotFound | Some k \<Rightarrow> Inr (seller_at r k))"

definition ResolveSellerBySlug :: "CatalogRepository \<Rightarrow> string \<Rightarrow> Seller result" where
  "ResolveSellerBySlug r slug =
     (case ca_sellerBySlug r slug of None \<Rightarrow> Inl ErrNotFound | Some k \<Rightarrow> Inr (seller_at r k))"

definition Catalog_UpdateSeller :: "CatalogRepository \<Rightarrow> Seller \<Rightarrow> u64 \<Rightarrow> CatalogRepository result" where
  "Catalog_UpdateSeller r s expectedVersion =
     (case ca_sellers r (se_SellerID s) of
        None \<Rightarrow> Inl ErrNotFound
      | Some stored \<Rightarrow>
          reject_if (se_Version stored \<noteq> expectedVersion \<or> se_Version s \<noteq> expectedVersion + 1
                     \<or> se_Slug stored \<noteq> se_Slug s) ErrConditionFailed
            (Inr (r\<lparr>ca_sellers := (ca_sellers r)(se_SellerID s \<mapsto> s)\<rparr>)))"

section \<open>The public directory\<close>

definition without_route :: "ID \<Rightarrow> (string \<times> PublicDirectoryProjection) list \<Rightarrow> (string \<times> PublicDirectoryProjection) list" where
  "without_route k ps = filter (\<lambda>(key, p). dp_RouteID p \<noteq> k) ps"

definition replaceDirectoryProjection :: "unicode_tables \<Rightarrow> PaidRoute \<Rightarrow> CatalogRepository \<Rightarrow> CatalogRepository" where
  "replaceDirectoryProjection ut route r =
     (let k = pr_RouteID route;
          products = without_route k (ca_directoryProducts r);
          terms = filter (\<lambda>(t, ps). ps \<noteq> []) (map (\<lambda>(t, ps). (t, without_route k ps)) (ca_directoryTerms r))
      in case NewPublicDirectoryProjection ut route of
           None \<Rightarrow> r\<lparr>ca_directoryProducts := products, ca_directoryTerms := terms\<rparr>
         | Some p \<Rightarrow>
             r\<lparr>ca_directoryProducts := AList.update (Projection_SortKey p) p products,
               ca_directoryTerms := foldl (\<lambda>ts t.
                 AList.update t (AList.update (Projection_SortKey p) p
                   (case map_of ts t of None \<Rightarrow> [] | Some ps \<Rightarrow> ps)) ts) terms (dp_SearchTerms p)\<rparr>)"

text \<open>A page of candidates after the given sort key.\<close>

record PublicDirectoryQuery =
  dq_SearchTerm :: string
  dq_After :: string
  dq_Limit :: int

definition ListPublicDirectoryCandidates ::
  "CatalogRepository \<Rightarrow> PublicDirectoryQuery \<Rightarrow> (string \<times> PublicDirectoryProjection) list \<times> bool" where
  "ListPublicDirectoryCandidates r q =
     (let limit = nat (if dq_Limit q \<le> 0 then 24 else dq_Limit q);
          projections = (if dq_SearchTerm q = [] then ca_directoryProducts r
                         else case map_of (ca_directoryTerms r) (dq_SearchTerm q) of None \<Rightarrow> [] | Some ps \<Rightarrow> ps);
          candidates = sort_key fst (filter (\<lambda>(key, p). dq_After q < key) projections)
      in (take limit candidates, length candidates \<le> limit))"

section \<open>Routes\<close>

definition Catalog_CreateRoute :: "unicode_tables \<Rightarrow> CatalogRepository \<Rightarrow> PaidRoute \<Rightarrow> CatalogRepository result" where
  "Catalog_CreateRoute ut r route =
     (let k = pr_RouteID route; sid = pr_SellerID route; slugs = ca_productSlugsBySeller r sid
      in reject_if (ca_routes r k \<noteq> None) ErrAlreadyExists
        (reject_if (ca_sellers r sid = None) ErrNotFound
        (reject_if (slugs (pr_ProductSlug route) \<noteq> None) ErrAlreadyExists
        (Inr (replaceDirectoryProjection ut route
          (r\<lparr>ca_routes := (ca_routes r)(k \<mapsto> route),
             ca_routesBySeller := (ca_routesBySeller r)(sid := ca_routesBySeller r sid @ [k]),
             ca_productSlugsBySeller :=
               (ca_productSlugsBySeller r)(sid := slugs(pr_ProductSlug route \<mapsto> k))\<rparr>))))))"

definition Catalog_GetRoute :: "CatalogRepository \<Rightarrow> ID \<Rightarrow> PaidRoute result" where
  "Catalog_GetRoute r k = (case ca_routes r k of None \<Rightarrow> Inl ErrNotFound | Some route \<Rightarrow> Inr route)"

definition Catalog_UpdateRoute ::
  "unicode_tables \<Rightarrow> CatalogRepository \<Rightarrow> PaidRoute \<Rightarrow> u64 \<Rightarrow> CatalogRepository result" where
  "Catalog_UpdateRoute ut r route expectedVersion =
     (case ca_routes r (pr_RouteID route) of
        None \<Rightarrow> Inl ErrNotFound
      | Some stored \<Rightarrow>
          (let sid = pr_SellerID route; slugs = ca_productSlugsBySeller r sid
           in reject_if (pr_Version stored \<noteq> expectedVersion \<or> pr_Version route \<noteq> expectedVersion + 1
                 \<or> pr_SellerID stored \<noteq> sid
                 \<or> pr_ProductSlug stored \<noteq> [] \<and> pr_ProductSlug stored \<noteq> pr_ProductSlug route) ErrConditionFailed
             (reject_if (slugs (pr_ProductSlug route) \<notin> {None, Some (pr_RouteID route)}) ErrConditionFailed
             (Inr (replaceDirectoryProjection ut route
               (r\<lparr>ca_productSlugsBySeller :=
                    (ca_productSlugsBySeller r)(sid := slugs(pr_ProductSlug route \<mapsto> pr_RouteID route)),
                  ca_routes := (ca_routes r)(pr_RouteID route \<mapsto> route)\<rparr>))))))"

definition zero_route :: PaidRoute where
  "zero_route =
     \<lparr>pr_RouteID = [], pr_SellerID = [], pr_DisplayName = [], pr_ProductSlug = [],
      pr_Method = RouteMethodOther [], pr_PathPattern = [], pr_Description = [], pr_MIMEType = [],
      pr_InputSchema = [], pr_OutputSchema = [], pr_Amount = Amount [], pr_Asset = [], pr_Network = [],
      pr_PayTo = [], pr_ApprovalThresholdAmount = None, pr_UpstreamTimeoutSeconds = 0,
      pr_LifecycleStatus = RouteLifecycleUnset, pr_Enabled = False, pr_CreatedAt = 0, pr_UpdatedAt = 0,
      pr_Version = 0\<rparr>"

definition ListRoutesBySeller :: "CatalogRepository \<Rightarrow> ID \<Rightarrow> PaidRoute list" where
  "ListRoutesBySeller r sellerID =
     map (\<lambda>k. case ca_routes r k of None \<Rightarrow> zero_route | Some route \<Rightarrow> route) (ca_routesBySeller r sellerID)"

definition GetPublicDirectoryRoute :: "CatalogRepository \<Rightarrow> ID \<Rightarrow> ID \<Rightarrow> PaidRoute result" where
  "GetPublicDirectoryRoute r sellerID routeID =
     (case ca_routes r routeID of
        None \<Rightarrow> Inl ErrNotFound
      | Some route \<Rightarrow> reject_if (pr_SellerID route \<noteq> sellerID) ErrNotFound (Inr route))"

end
