(* ===== verification/DirectoryIndex.thy ===== *)
theory DirectoryIndex
  imports CatalogStore
begin

text \<open>
  The public directory of the catalog repository: after any writes the two indexes hold exactly the
  projections of the published routes, so a page of candidates is the page of the specification
  \<open>directory_view\<close>.
\<close>

section \<open>Association lists\<close>

lemma AList_update_new: "k \<notin> fst ` set al \<Longrightarrow> AList.update k v al = al @ [(k, v)]"
  by (induction al) auto

definition entries :: "('a \<times> 'b list) list \<Rightarrow> 'a \<Rightarrow> 'b list" where
  "entries al t = (case map_of al t of None \<Rightarrow> [] | Some ps \<Rightarrow> ps)"

lemma entries_notin: "t \<notin> fst ` set al \<Longrightarrow> entries al t = []"
  by (simp add: entries_def map_of_eq_None_iff [THEN iffD2])

lemma entries_Cons: "entries ((u, ps) # al) t = (if t = u then ps else entries al t)"
  by (simp add: entries_def)

lemma entries_update:
  "entries (AList.update u ps al) t = (if t = u then ps else entries al t)"
  by (simp add: entries_def AList.update_conv')

lemma entries_pruned:
  assumes "distinct (map fst al)" "f [] = []"
  shows "entries (filter (\<lambda>(t, ps). ps \<noteq> []) (map (\<lambda>(t, ps). (t, f ps)) al)) t = f (entries al t)"
  using assms(1)
proof (induction al)
  case Nil
  then show ?case
    by (simp add: entries_def assms(2))
next
  case (Cons a al)
  obtain u ps where [simp]: "a = (u, ps)"
    by (cases a)
  have "u \<notin> fst ` set (filter (\<lambda>(t, ps). ps \<noteq> []) (map (\<lambda>(t, ps). (t, f ps)) al))"
    using Cons.prems by (force simp: image_iff)
  with Cons show ?case
    by (auto simp: entries_Cons entries_notin)
qed

lemma distinct_pruned:
  "distinct (map fst al) \<Longrightarrow>
   distinct (map fst (filter (\<lambda>(t, ps). ps \<noteq> []) (map (\<lambda>(t, ps). (t, f ps)) al)))"
  by (induction al) (auto simp: image_iff)

lemma entries_foldl_update:
  "distinct ts \<Longrightarrow>
   entries (foldl (\<lambda>al u. AList.update u (g (case map_of al u of None \<Rightarrow> [] | Some ps \<Rightarrow> ps)) al) al ts) t
     = (if t \<in> set ts then g (entries al t) else entries al t)"
proof (induction ts arbitrary: al)
  case (Cons u ts)
  then show ?case
    by (cases "t = u") (auto simp: entries_update entries_def AList.update_conv')
qed simp

lemma distinct_foldl_update:
  "distinct (map fst al) \<Longrightarrow> distinct (map fst (foldl (\<lambda>al u. AList.update u (h al u) al) al ts))"
  by (induction ts arbitrary: al) (simp_all add: distinct_update)

section \<open>Sort keys\<close>

lemma last_segment:
  assumes "x \<notin> set a" "x \<notin> set b" "u @ x # a = v @ x # b"
  shows "a = b"
proof -
  have "rev a @ x # rev u = rev b @ x # rev v"
    using arg_cong [OF assms(3), of rev] by simp
  then have "takeWhile (\<lambda>y. y \<noteq> x) (rev a @ x # rev u) = takeWhile (\<lambda>y. y \<noteq> x) (rev b @ x # rev v)"
    by simp
  moreover have "takeWhile (\<lambda>y. y \<noteq> x) (rev a @ x # rev u) = rev a"
    using assms(1) by (subst takeWhile_append2) auto
  moreover have "takeWhile (\<lambda>y. y \<noteq> x) (rev b @ x # rev v) = rev b"
    using assms(2) by (subst takeWhile_append2) auto
  ultimately show ?thesis
    by simp
qed

lemma SortKey_route:
  assumes "Projection_SortKey p = Projection_SortKey p'"
    "CHR ''#'' \<notin> set (dp_RouteID p)" "CHR ''#'' \<notin> set (dp_RouteID p')"
  shows "dp_RouteID p = dp_RouteID p'"
proof (rule last_segment [of "CHR ''#''"])
  show "(''PRODUCT#'' @ dp_DisplaySort p @ ''#'' @ dp_SellerID p) @ CHR ''#'' # dp_RouteID p
      = (''PRODUCT#'' @ dp_DisplaySort p' @ ''#'' @ dp_SellerID p') @ CHR ''#'' # dp_RouteID p'"
    using assms(1) by (simp add: Projection_SortKey_def)
qed (use assms in auto)

section \<open>The directory of the stored routes\<close>

text \<open>What the directory promises: one entry for every published route, and one under each of its terms.\<close>

definition published_entry :: "unicode_tables \<Rightarrow> CatalogRepository \<Rightarrow> string \<times> PublicDirectoryProjection \<Rightarrow> bool" where
  "published_entry ut r e \<longleftrightarrow>
     (\<exists>route \<in> ran (ca_routes r). NewPublicDirectoryProjection ut route = Some (snd e)
        \<and> fst e = Projection_SortKey (snd e))"

definition directory_view ::
  "unicode_tables \<Rightarrow> CatalogRepository \<Rightarrow> PublicDirectoryQuery \<Rightarrow> (string \<times> PublicDirectoryProjection) set" where
  "directory_view ut r q =
     {e. published_entry ut r e \<and> (dq_SearchTerm q = [] \<or> dq_SearchTerm q \<in> set (dp_SearchTerms (snd e)))
         \<and> dq_After q < fst e}"

definition wf_directory :: "unicode_tables \<Rightarrow> CatalogRepository \<Rightarrow> bool" where
  "wf_directory ut r \<longleftrightarrow>
     (\<forall>k route. ca_routes r k = Some route \<longrightarrow> pr_RouteID route = k \<and> CHR ''#'' \<notin> set k)
     \<and> distinct (map fst (ca_directoryProducts r))
     \<and> set (ca_directoryProducts r) = {e. published_entry ut r e}
     \<and> distinct (map fst (ca_directoryTerms r))
     \<and> (\<forall>t. distinct (map fst (entries (ca_directoryTerms r) t))
          \<and> set (entries (ca_directoryTerms r) t) = {e. published_entry ut r e \<and> t \<in> set (dp_SearchTerms (snd e))})"

lemma published_entryI:
  "ca_routes r k = Some route \<Longrightarrow> NewPublicDirectoryProjection ut route = Some (snd e) \<Longrightarrow>
   fst e = Projection_SortKey (snd e) \<Longrightarrow> published_entry ut r e"
  by (auto simp: published_entry_def ran_def)

lemma published_entryE:
  assumes "published_entry ut r e"
  obtains k route where "ca_routes r k = Some route" "NewPublicDirectoryProjection ut route = Some (snd e)"
    "fst e = Projection_SortKey (snd e)"
  using assms by (auto simp: published_entry_def ran_def)

lemma wf_directory_id:
  "wf_directory ut r \<Longrightarrow> ca_routes r k = Some route \<Longrightarrow> pr_RouteID route = k \<and> CHR ''#'' \<notin> set k"
  by (simp add: wf_directory_def)

text \<open>Every stored entry belongs to the route of its projection.\<close>

lemma published_entry_route:
  assumes "wf_directory ut r" "published_entry ut r e"
  shows "CHR ''#'' \<notin> set (dp_RouteID (snd e)) \<and> fst e = Projection_SortKey (snd e)
    \<and> (\<exists>route. ca_routes r (dp_RouteID (snd e)) = Some route \<and> NewPublicDirectoryProjection ut route = Some (snd e))"
proof -
  obtain k route where k: "ca_routes r k = Some route" "NewPublicDirectoryProjection ut route = Some (snd e)"
      "fst e = Projection_SortKey (snd e)"
    using assms(2) by (rule published_entryE)
  then have "dp_RouteID (snd e) = k \<and> CHR ''#'' \<notin> set k"
    using wf_directory_id [OF assms(1) k(1)] projection_route [OF k(2)] by simp
  with k show ?thesis
    by auto
qed

text \<open>What replacing one route does to the published entries.\<close>

lemma published_entry_upd:
  assumes "wf_directory ut r" "ca_routes r' = (ca_routes r)(pr_RouteID route \<mapsto> route)"
  shows "published_entry ut r' e \<longleftrightarrow>
    (published_entry ut r e \<and> dp_RouteID (snd e) \<noteq> pr_RouteID route
     \<or> NewPublicDirectoryProjection ut route = Some (snd e) \<and> fst e = Projection_SortKey (snd e))"
  (is "_ \<longleftrightarrow> ?rhs")
proof
  assume "published_entry ut r' e"
  then obtain k x where x: "ca_routes r' k = Some x" "NewPublicDirectoryProjection ut x = Some (snd e)"
      "fst e = Projection_SortKey (snd e)"
    by (rule published_entryE)
  show ?rhs
  proof (cases "k = pr_RouteID route")
    case True
    then show ?thesis
      using x assms(2) by simp
  next
    case False
    then have "ca_routes r k = Some x"
      using x(1) assms(2) by simp
    then show ?thesis
      using x False wf_directory_id [OF assms(1)] projection_route [OF x(2)] published_entryI
      by fastforce
  qed
next
  assume ?rhs
  then show "published_entry ut r' e"
  proof
    assume *: "published_entry ut r e \<and> dp_RouteID (snd e) \<noteq> pr_RouteID route"
    then show ?thesis
      using published_entry_route [OF assms(1), of e] by (auto simp: assms(2) intro: published_entryI)
  next
    assume "NewPublicDirectoryProjection ut route = Some (snd e) \<and> fst e = Projection_SortKey (snd e)"
    then show ?thesis
      by (intro published_entryI [of r' "pr_RouteID route" route]) (simp_all add: assms(2))
  qed
qed

lemma without_route_simps [simp]:
  "set (without_route k ps) = {e \<in> set ps. dp_RouteID (snd e) \<noteq> k}"
  "without_route k [] = []"
  "distinct (map fst ps) \<Longrightarrow> distinct (map fst (without_route k ps))"
  by (auto simp: without_route_def distinct_map_filter)

text \<open>Replacing the projection of a route keeps the directory in step with the routes.\<close>

lemma entry_list_upd:
  assumes "wf_directory ut r" "CHR ''#'' \<notin> set (pr_RouteID route)"
    "NewPublicDirectoryProjection ut route = Some p"
    "\<forall>e \<in> set es. published_entry ut r e" "distinct (map fst es)"
  shows "distinct (map fst (AList.update (Projection_SortKey p) p (without_route (pr_RouteID route) es)))
    \<and> set (AList.update (Projection_SortKey p) p (without_route (pr_RouteID route) es))
      = insert (Projection_SortKey p, p) {e \<in> set es. dp_RouteID (snd e) \<noteq> pr_RouteID route}"
proof -
  have p: "dp_RouteID p = pr_RouteID route"
    using projection_route [OF assms(3)] by simp
  have "Projection_SortKey p \<notin> fst ` set (without_route (pr_RouteID route) es)"
  proof
    assume "Projection_SortKey p \<in> fst ` set (without_route (pr_RouteID route) es)"
    then obtain e where e: "e \<in> set es" "dp_RouteID (snd e) \<noteq> pr_RouteID route" "Projection_SortKey p = fst e"
      by auto
    then have "Projection_SortKey p = Projection_SortKey (snd e)" "CHR ''#'' \<notin> set (dp_RouteID (snd e))"
      using published_entry_route [OF assms(1)] assms(4) by auto
    then have "dp_RouteID p = dp_RouteID (snd e)"
      using SortKey_route p assms(2) by metis
    with e p show False
      by simp
  qed
  then show ?thesis
    using assms(5) by (simp add: AList_update_new del: without_route_simps(1)) simp
qed

lemma replaceDirectoryProjection_fields [simp]:
  "ca_sellers (replaceDirectoryProjection ut route r) = ca_sellers r"
  "ca_routes (replaceDirectoryProjection ut route r) = ca_routes r"
  "ca_routesBySeller (replaceDirectoryProjection ut route r) = ca_routesBySeller r"
  "ca_productSlugsBySeller (replaceDirectoryProjection ut route r) = ca_productSlugsBySeller r"
  by (simp_all add: replaceDirectoryProjection_def Let_def split: option.split)

lemma replaceDirectoryProjection_products:
  "ca_directoryProducts (replaceDirectoryProjection ut route r) =
    (case NewPublicDirectoryProjection ut route of
       None \<Rightarrow> without_route (pr_RouteID route) (ca_directoryProducts r)
     | Some p \<Rightarrow> AList.update (Projection_SortKey p) p (without_route (pr_RouteID route) (ca_directoryProducts r)))"
  by (simp add: replaceDirectoryProjection_def Let_def split: option.split)

lemma replaceDirectoryProjection_terms:
  assumes "distinct (map fst (ca_directoryTerms r))"
  shows "distinct (map fst (ca_directoryTerms (replaceDirectoryProjection ut route r)))
    \<and> entries (ca_directoryTerms (replaceDirectoryProjection ut route r)) t =
      (case NewPublicDirectoryProjection ut route of
         None \<Rightarrow> without_route (pr_RouteID route) (entries (ca_directoryTerms r) t)
       | Some p \<Rightarrow>
           (if t \<in> set (dp_SearchTerms p)
            then AList.update (Projection_SortKey p) p (without_route (pr_RouteID route) (entries (ca_directoryTerms r) t))
            else without_route (pr_RouteID route) (entries (ca_directoryTerms r) t)))"
proof (cases "NewPublicDirectoryProjection ut route")
  case None
  then show ?thesis
    by (simp add: replaceDirectoryProjection_def Let_def distinct_pruned assms entries_pruned)
next
  case (Some p)
  then have "dp_SearchTerms p = publicDirectoryTerms ut
      (pr_DisplayName (normalizeLegacyFields route) @ '' '' @ pr_Description (normalizeLegacyFields route))"
    by (auto simp: NewPublicDirectoryProjection_def Let_def split: if_split_asm)
  then have "distinct (dp_SearchTerms p)"
    using publicDirectoryTerms_bounded by (simp add: index_terms_def)
  with Some show ?thesis
    by (simp add: replaceDirectoryProjection_def Let_def distinct_foldl_update distinct_pruned assms
        entries_foldl_update entries_pruned)
qed

lemma replaceDirectoryProjection_wf:
  assumes wf: "wf_directory ut r" and hash: "CHR ''#'' \<notin> set (pr_RouteID route)"
    and upd: "ca_routes r' = (ca_routes r)(pr_RouteID route \<mapsto> route)"
    "ca_directoryProducts r' = ca_directoryProducts r" "ca_directoryTerms r' = ca_directoryTerms r"
  shows "wf_directory ut (replaceDirectoryProjection ut route r')"
proof -
  let ?R = "replaceDirectoryProjection ut route r'"
  note new = published_entry_upd [OF wf, of ?R route]
  have products: "distinct (map fst (ca_directoryProducts ?R)) \<and> set (ca_directoryProducts ?R) = {e. published_entry ut ?R e}"
  proof (cases "NewPublicDirectoryProjection ut route")
    case None
    then show ?thesis
      using wf by (auto simp: replaceDirectoryProjection_products new upd wf_directory_def)
  next
    case (Some p)
    then show ?thesis
      using wf entry_list_upd [OF wf hash Some, of "ca_directoryProducts r"]
      by (auto simp: replaceDirectoryProjection_products new upd wf_directory_def)
  qed
  have terms: "distinct (map fst (entries (ca_directoryTerms ?R) t))
      \<and> set (entries (ca_directoryTerms ?R) t) = {e. published_entry ut ?R e \<and> t \<in> set (dp_SearchTerms (snd e))}" for t
  proof -
    have old: "distinct (map fst (entries (ca_directoryTerms r) t))"
        "set (entries (ca_directoryTerms r) t) = {e. published_entry ut r e \<and> t \<in> set (dp_SearchTerms (snd e))}"
        "distinct (map fst (ca_directoryTerms r'))"
      using wf upd by (auto simp: wf_directory_def)
    note eq = replaceDirectoryProjection_terms [OF old(3), THEN conjunct2, of ut route t, unfolded upd(3)]
    show ?thesis
    proof (cases "NewPublicDirectoryProjection ut route")
      case None
      then show ?thesis
        using old by (auto simp: eq new upd)
    next
      case (Some p)
      then show ?thesis
        using old entry_list_upd [OF wf hash Some, of "entries (ca_directoryTerms r) t"]
        by (cases "t \<in> set (dp_SearchTerms p)") (auto simp: eq new upd)
    qed
  qed
  have keys: "distinct (map fst (ca_directoryTerms ?R))"
    using replaceDirectoryProjection_terms [of r'] wf upd by (simp add: wf_directory_def)
  have ids: "\<forall>k x. ca_routes ?R k = Some x \<longrightarrow> pr_RouteID x = k \<and> CHR ''#'' \<notin> set k"
    using wf hash by (simp add: upd wf_directory_def)
  show ?thesis
    unfolding wf_directory_def using products terms keys ids by blast
qed

section \<open>Reachable repositories\<close>

text \<open>
  The writes of the repository. Route identifiers are a prefix and a ULID, without the separator \<open>#\<close>.
\<close>

inductive catalog_write :: "unicode_tables \<Rightarrow> CatalogRepository \<Rightarrow> CatalogRepository \<Rightarrow> bool" for ut where
  new_seller: "Catalog_CreateSeller r s = Inr r' \<Longrightarrow> catalog_write ut r r'"
| change_seller: "Catalog_UpdateSeller r s v = Inr r' \<Longrightarrow> catalog_write ut r r'"
| new_route: "CHR ''#'' \<notin> set (pr_RouteID route) \<Longrightarrow> Catalog_CreateRoute ut r route = Inr r' \<Longrightarrow> catalog_write ut r r'"
| change_route: "CHR ''#'' \<notin> set (pr_RouteID route) \<Longrightarrow> Catalog_UpdateRoute ut r route v = Inr r' \<Longrightarrow> catalog_write ut r r'"

lemma wf_directory_same:
  "ca_routes r' = ca_routes r \<Longrightarrow> ca_directoryProducts r' = ca_directoryProducts r \<Longrightarrow>
   ca_directoryTerms r' = ca_directoryTerms r \<Longrightarrow> wf_directory ut r' \<longleftrightarrow> wf_directory ut r"
  by (simp add: wf_directory_def published_entry_def)

lemma catalog_write_wf:
  assumes "catalog_write ut r r'" "wf_directory ut r"
  shows "wf_directory ut r'"
  using assms
proof cases
  case (new_seller s)
  then show ?thesis
    using assms(2) by (subst wf_directory_same [of _ r]) (auto simp: Catalog_CreateSeller_def result_simps)
next
  case (change_seller s v)
  then show ?thesis
    using assms(2)
    by (subst wf_directory_same [of _ r]) (auto simp: Catalog_UpdateSeller_def result_simps split: option.split_asm)
next
  case (new_route route)
  then show ?thesis
    by (auto simp: Catalog_CreateRoute_def Let_def result_simps
        intro!: replaceDirectoryProjection_wf [OF assms(2)])
next
  case (change_route route v)
  then show ?thesis
    by (auto simp: Catalog_UpdateRoute_def Let_def result_simps split: option.split_asm
        intro!: replaceDirectoryProjection_wf [OF assms(2)])
qed

lemma catalog_reachable_wf:
  "(catalog_write ut)\<^sup>*\<^sup>* NewCatalogRepository r \<Longrightarrow> wf_directory ut r"
proof (induction rule: rtranclp_induct)
  case base
  then show ?case
    by (simp add: wf_directory_def NewCatalogRepository_def published_entry_def entries_def)
qed (rule catalog_write_wf)

section \<open>Pages\<close>

lemma take_sorted_keys:
  fixes xs :: "('a :: linorder \<times> 'b) list" and n :: nat
  assumes "distinct (map fst xs)"
  defines "page \<equiv> take n (sort_key fst xs)"
  shows "sorted (map fst page) \<and> distinct (map fst page) \<and> set page \<subseteq> set xs
    \<and> length page = min n (card (set xs))
    \<and> (\<forall>e \<in> set xs - set page. \<forall>e' \<in> set page. fst e' < fst e)"
proof -
  let ?s = "sort_key fst xs"
  have d: "distinct (map fst ?s)"
    using assms(1) by (simp add: distinct_map)
  have sorted: "sorted (map fst (take n ?s) @ map fst (drop n ?s))"
    by (simp flip: map_append)
  have "distinct (map fst (take n ?s) @ map fst (drop n ?s))"
    using d by (simp flip: map_append)
  with sorted have less: "\<forall>e' \<in> set (take n ?s). \<forall>e \<in> set (drop n ?s). fst e' < fst e"
    unfolding sorted_append distinct_append by (auto simp: order_less_le)
  have "set xs = set (take n ?s) \<union> set (drop n ?s)"
    by (metis append_take_drop_id set_append set_sort)
  then have "\<forall>e \<in> set xs - set page. \<forall>e' \<in> set page. fst e' < fst e"
    using less unfolding page_def by blast
  moreover have "card (set xs) = length xs"
    using assms(1) by (simp add: distinct_map distinct_card)
  moreover have "sorted (map fst page)"
    using sorted unfolding page_def sorted_append by simp
  moreover have "distinct (map fst page)"
    using d unfolding page_def by (metis distinct_take take_map)
  moreover have "set page \<subseteq> set xs"
    unfolding page_def by (metis set_sort set_take_subset)
  ultimately show ?thesis
    by (simp add: page_def min.commute)
qed

lemma candidates_set:
  fixes q :: PublicDirectoryQuery
  assumes "wf_directory ut r"
  defines "ps \<equiv> (if dq_SearchTerm q = [] then ca_directoryProducts r
                 else entries (ca_directoryTerms r) (dq_SearchTerm q))"
  shows "distinct (map fst (filter (\<lambda>(key, p). dq_After q < key) ps))
    \<and> set (filter (\<lambda>(key, p). dq_After q < key) ps) = directory_view ut r q"
proof -
  have "distinct (map fst ps)"
    using assms by (simp add: wf_directory_def)
  then show ?thesis
    using assms by (auto simp: wf_directory_def directory_view_def distinct_map_filter)
qed

text \<open>A first example: one seller with one published route.\<close>

definition sample_tables :: unicode_tables where
  "sample_tables = \<lparr>ut_toLower = lower_text, ut_isLetterOrDigit = (\<lambda>c. c \<noteq> '' '')\<rparr>"

definition sample_seller :: Seller where
  "sample_seller = zero_seller\<lparr>se_SellerID := ''sel_01ARZ3NDEKTSV4RRFFQ69G5FAV'', se_OwnerSubject := ''owner-1'',
     se_Slug := ''reports'', se_Status := SellerStatusActive, se_Version := 1\<rparr>"

definition sample_catalog :: CatalogRepository where
  "sample_catalog = (case rbind (Catalog_CreateSeller NewCatalogRepository sample_seller)
     (\<lambda>r. Catalog_CreateRoute sample_tables r sample_route) of Inr r \<Rightarrow> r | Inl e \<Rightarrow> NewCatalogRepository)"

lemma sample_catalog_reachable: "(catalog_write sample_tables)\<^sup>*\<^sup>* NewCatalogRepository sample_catalog"
proof -
  obtain r r' where r: "Catalog_CreateSeller NewCatalogRepository sample_seller = Inr r"
      "Catalog_CreateRoute sample_tables r sample_route = Inr r'"
    by (simp add: Catalog_CreateSeller_def NewCatalogRepository_def Catalog_CreateRoute_def Let_def
        sample_seller_def sample_route_def)
  then have "sample_catalog = r'"
    by (simp add: sample_catalog_def)
  moreover have "CHR ''#'' \<notin> set (pr_RouteID sample_route)"
    by (simp add: sample_route_def)
  ultimately show ?thesis
    using r by (auto intro: converse_rtranclp_into_rtranclp new_seller new_route)
qed

text \<open>
  C18: the public directory. Whatever was written before, the candidates for a query are its page of
  the published routes: only routes that are published now and carry the search term, each once, in
  the order of their sort keys, as many as the limit allows, none skipped; and the page is reported as
  the last one exactly when nothing of the view is left out.
\<close>

theorem directory_lists_published:
  fixes q :: PublicDirectoryQuery
  assumes "(catalog_write ut)\<^sup>*\<^sup>* NewCatalogRepository r"
    "ListPublicDirectoryCandidates r q = (page, last_page)"
  defines "limit \<equiv> nat (if dq_Limit q \<le> 0 then 24 else dq_Limit q)"
  shows "finite (directory_view ut r q) \<and> set page \<subseteq> directory_view ut r q
    \<and> sorted (map fst page) \<and> distinct (map fst page)
    \<and> length page = min limit (card (directory_view ut r q))
    \<and> (\<forall>e \<in> directory_view ut r q - set page. \<forall>e' \<in> set page. fst e' < fst e)
    \<and> (last_page \<longleftrightarrow> card (directory_view ut r q) \<le> limit)"
proof -
  define ps where "ps = filter (\<lambda>(key, p). dq_After q < key)
    (if dq_SearchTerm q = [] then ca_directoryProducts r
     else entries (ca_directoryTerms r) (dq_SearchTerm q))"
  have ps: "distinct (map fst ps)" "set ps = directory_view ut r q"
    using candidates_set [OF catalog_reachable_wf [OF assms(1)], of q] unfolding ps_def by auto
  have "page = take limit (sort_key fst ps)" "last_page \<longleftrightarrow> length (sort_key fst ps) \<le> limit"
    using assms(2) unfolding ListPublicDirectoryCandidates_def Let_def ps_def limit_def entries_def by auto
  moreover have "length ps = card (set ps)"
    using ps(1) by (simp add: distinct_map distinct_card)
  ultimately show ?thesis
    using take_sorted_keys [OF ps(1), of limit] ps(2) by (metis List.finite_set length_sort)
qed

theorem directory_lists_published_witness:
  "\<exists>page last_page. ListPublicDirectoryCandidates sample_catalog \<lparr>dq_SearchTerm = ''report'', dq_After = [], dq_Limit = 5\<rparr>
       = (page, last_page)
     \<and> length page = min 5 (card (directory_view sample_tables sample_catalog
         \<lparr>dq_SearchTerm = ''report'', dq_After = [], dq_Limit = 5\<rparr>))"
proof -
  let ?q = "\<lparr>dq_SearchTerm = ''report'', dq_After = [], dq_Limit = 5\<rparr>"
  obtain page last_page where p: "ListPublicDirectoryCandidates sample_catalog ?q = (page, last_page)"
    by (cases "ListPublicDirectoryCandidates sample_catalog ?q")
  then show ?thesis
    using directory_lists_published [OF sample_catalog_reachable p] by simp
qed

end
