(* ===== verification/Actions.thy ===== *)
theory Actions
  imports Prelude
begin

text \<open>
  Go functions that change shared state and may fail: the state before to the result and the state
  after. An error returned half-way leaves the changes made so far, as in the source.
\<close>

type_synonym ('s, 'a) action = "'s \<Rightarrow> 'a result \<times> 's"

text \<open>\<open>x, err := m(); if err != nil { return err }\<close> followed by the rest.\<close>

definition abind :: "('s, 'a) action \<Rightarrow> ('a \<Rightarrow> ('s, 'b) action) \<Rightarrow> ('s, 'b) action" where
  "abind m f = (\<lambda>s. case m s of (Inl e, s') \<Rightarrow> (Inl e, s') | (Inr x, s') \<Rightarrow> f x s')"

text \<open>\<open>x, err := m(); if err != nil { ... }\<close>: the handler of the error, and the rest.\<close>

definition attempt :: "('s, 'a) action \<Rightarrow> (go_error \<Rightarrow> ('s, 'b) action) \<Rightarrow> ('a \<Rightarrow> ('s, 'b) action) \<Rightarrow> ('s, 'b) action" where
  "attempt m h f = (\<lambda>s. case m s of (Inl e, s') \<Rightarrow> h e s' | (Inr x, s') \<Rightarrow> f x s')"

text \<open>A computation that does not touch the state.\<close>

definition pure :: "'a result \<Rightarrow> ('s, 'a) action" where
  "pure r = (\<lambda>s. (r, s))"

definition guard :: "bool \<Rightarrow> go_error \<Rightarrow> ('s, 'a) action \<Rightarrow> ('s, 'a) action" where
  "guard b e k = (if b then pure (Inl e) else k)"

text \<open>A read, and an operation that yields the new value of one part of the state.\<close>

definition reading :: "('s \<Rightarrow> 'a result) \<Rightarrow> ('s, 'a) action" where
  "reading f = (\<lambda>s. (f s, s))"

definition writing :: "('s \<Rightarrow> 'c result) \<Rightarrow> ('c \<Rightarrow> 's \<Rightarrow> 's) \<Rightarrow> ('s, unit) action" where
  "writing f put = (\<lambda>s. case f s of Inl e \<Rightarrow> (Inl e, s) | Inr c \<Rightarrow> (Inr (), put c s))"

named_theorems action_simps \<open>running an action\<close>

lemma abind_run [action_simps]:
  "abind m f s = (case fst (m s) of Inl e \<Rightarrow> (Inl e, snd (m s)) | Inr x \<Rightarrow> f x (snd (m s)))"
  by (simp add: abind_def split: prod.split sum.split)

lemma pure_run [simp, action_simps]: "pure r s = (r, s)"
  by (simp add: pure_def)

lemma guard_run [action_simps]: "guard b e k s = (if b then (Inl e, s) else k s)"
  by (simp add: guard_def)

lemma reading_run [simp, action_simps]: "reading f s = (f s, s)"
  by (simp add: reading_def)

lemma writing_run [action_simps]:
  "writing f put s = (case f s of Inl e \<Rightarrow> (Inl e, s) | Inr c \<Rightarrow> (Inr (), put c s))"
  by (simp add: writing_def)

lemma abind_pure_Inr [simp]: "abind (pure (Inr x)) f = f x"
  by (simp add: abind_def pure_def)

lemma abind_pure_Inl [simp]: "abind (pure (Inl e)) f = pure (Inl e)"
  by (simp add: abind_def pure_def)

lemma attempt_run [action_simps]:
  "attempt m h f s = (case fst (m s) of Inl e \<Rightarrow> h e (snd (m s)) | Inr x \<Rightarrow> f x (snd (m s)))"
  by (simp add: attempt_def split: prod.split sum.split)

lemma attempt_pure [simp]: "attempt (pure (Inr x)) h f = f x" "attempt (pure (Inl e)) h f = h e"
  by (simp_all add: attempt_def pure_def)

text \<open>A successful run and the states between its steps.\<close>

lemma abind_ok:
  "abind m f s = (Inr y, t) \<longleftrightarrow> (\<exists>x u. m s = (Inr x, u) \<and> f x u = (Inr y, t))"
  by (auto simp: abind_def split: prod.split sum.split)

lemma reading_ok: "reading f s = (Inr y, t) \<longleftrightarrow> f s = Inr y \<and> t = s"
  by auto

lemma writing_ok: "writing f put s = (Inr y, t) \<longleftrightarrow> (\<exists>c. f s = Inr c \<and> t = put c s)"
  by (auto simp: writing_def split: sum.split)

lemma guard_ok: "guard b e k s = (Inr y, t) \<longleftrightarrow> \<not> b \<and> k s = (Inr y, t)"
  by (simp add: guard_def)

lemma pure_ok: "pure r s = (Inr y, t) \<longleftrightarrow> r = Inr y \<and> t = s"
  by auto

lemmas action_ok = abind_ok reading_ok writing_ok guard_ok pure_ok

text \<open>What every step keeps, the whole keeps, whether it succeeds or not.\<close>

definition keeps :: "('s \<Rightarrow> bool) \<Rightarrow> ('s, 'a) action \<Rightarrow> bool" where
  "keeps P m \<longleftrightarrow> (\<forall>s. P s \<longrightarrow> P (snd (m s)))"

lemma keeps_pure [intro]: "keeps P (pure r)"
  by (simp add: keeps_def)

lemma keeps_reading [intro]: "keeps P (reading f)"
  by (simp add: keeps_def)

lemma keeps_guard [intro]: "keeps P k \<Longrightarrow> keeps P (guard b e k)"
  by (simp add: keeps_def guard_def)

lemma keeps_abind [intro]:
  assumes "keeps P m" "\<And>x. keeps P (f x)"
  shows "keeps P (abind m f)"
  using assms by (auto simp: keeps_def abind_run split: sum.split)

lemma keeps_attempt [intro]:
  assumes "keeps P m" "\<And>e. keeps P (h e)" "\<And>x. keeps P (f x)"
  shows "keeps P (attempt m h f)"
  using assms by (auto simp: keeps_def attempt_run split: sum.split)

lemma keeps_writing:
  "(\<And>s c. P s \<Longrightarrow> f s = Inr c \<Longrightarrow> P (put c s)) \<Longrightarrow> keeps P (writing f put)"
  by (auto simp: keeps_def writing_def split: sum.split)

text \<open>A run that does not end in an unchanged state with an error got past every read and every guard.\<close>

lemma past_read:
  assumes "abind m f s = (res, s')" "snd (m s) = s" "\<not> (s' = s \<and> \<not> is_ok res)"
  obtains x where "m s = (Inr x, s)" "f x s = (res, s')"
  using assms by (cases "m s"; cases "fst (m s)") (auto simp: abind_def)

lemma past_guard:
  assumes "guard b e k s = (res, s')" "\<not> (s' = s \<and> \<not> is_ok res)"
  obtains "\<not> b" "k s = (res, s')"
  using assms by (auto simp: guard_def split: if_split_asm)

lemma past_pure:
  assumes "abind (pure r) f s = (res, s')" "\<not> (s' = s \<and> \<not> is_ok res)"
  obtains x where "r = Inr x" "f x s = (res, s')"
  using assms by (cases r) auto

lemmas past_steps = past_pure past_guard

end
