(* ===== verification/Catalog.thy ===== *)
theory Catalog
  imports CatalogStore AuditLog Actions
begin

text \<open>
  The catalog service of \<open>internal/catalog/service.go\<close> over the in-memory catalog repository and the
  audit appender, in the composition \<open>cmd/api/main.go\<close> builds. The plan quota, the publication
  authorizer and the publication refresher are optional collaborators outside the package.
\<close>

section \<open>Service\<close>

record catalog_config =
  cc_library :: catalog_library
  cc_tables :: unicode_tables
  cc_quota :: "(ID \<Rightarrow> nat \<Rightarrow> unit result) option"
  cc_authorizer :: "(ID \<Rightarrow> ID \<Rightarrow> unit result) option"
  cc_refresher :: "(ID \<Rightarrow> unit result) option"

text \<open>\<open>cs_refreshes\<close> collects the sellers whose public snapshot was asked to be rebuilt.\<close>

record catalog_state =
  cs_repository :: CatalogRepository
  cs_audit :: AuditEventRepository
  cs_refreshes :: "ID list"

text \<open>
  What one call reads from its surroundings: the clock (twice when a creation also publishes), the
  identifier generator, and the audit appender's identifier, clock and request identifier.
\<close>

record catalog_call =
  ct_now :: instant
  ct_later :: instant
  ct_id :: "ID result"
  ct_auditID :: "ID result"
  ct_auditNow :: instant
  ct_requestID :: string

type_synonym 'a catalog_action = "(catalog_state, 'a) action"

definition storing :: "(CatalogRepository \<Rightarrow> CatalogRepository result) \<Rightarrow> unit catalog_action" where
  "storing f = writing (\<lambda>s. f (cs_repository s)) (\<lambda>r s. s\<lparr>cs_repository := r\<rparr>)"

definition loading :: "(CatalogRepository \<Rightarrow> 'a result) \<Rightarrow> 'a catalog_action" where
  "loading f = reading (\<lambda>s. f (cs_repository s))"

definition recording :: "catalog_config \<Rightarrow> catalog_call \<Rightarrow> RecordRequest \<Rightarrow> unit catalog_action" where
  "recording cfg c q =
     writing (\<lambda>s. Audit_Record (cl_ulid (cc_library cfg)) (cs_audit s) (ct_auditID c) (ct_auditNow c) (ct_requestID c) q)
       (\<lambda>a s. s\<lparr>cs_audit := a\<rparr>)"

definition refreshPublishedCatalog :: "catalog_config \<Rightarrow> ID \<Rightarrow> unit catalog_action" where
  "refreshPublishedCatalog cfg sellerID =
     (case cc_refresher cfg of
        None \<Rightarrow> pure (Inr ())
      | Some refresh \<Rightarrow> (\<lambda>s. (refresh sellerID, s\<lparr>cs_refreshes := cs_refreshes s @ [sellerID]\<rparr>)))"

text \<open>The request every seller mutation of a route records.\<close>

definition route_record :: "ID \<Rightarrow> string \<Rightarrow> AuditAction \<Rightarrow> ID \<Rightarrow> string list \<Rightarrow> RecordRequest" where
  "route_record sellerID ownerSubject action routeID changed =
     \<lparr>rr_SellerID = sellerID, rr_ActorType = ActorTypeSellerUser, rr_ActorID = ownerSubject,
      rr_Action = action, rr_TargetType = TargetTypePaidRoute, rr_TargetID = routeID,
      rr_Outcome = OutcomeSucceeded, rr_RequestID = [], rr_ChangedFields = changed\<rparr>"

definition AuthorizeSeller :: "string \<Rightarrow> ID \<Rightarrow> unit catalog_action" where
  "AuthorizeSeller ownerSubject sellerID =
     abind (loading (\<lambda>r. Catalog_GetSeller r sellerID)) (\<lambda>seller.
     guard (se_OwnerSubject seller \<noteq> ownerSubject) ErrNotFound (pure (Inr ())))"

definition ownedRoute :: "ID \<Rightarrow> ID \<Rightarrow> PaidRoute catalog_action" where
  "ownedRoute sellerID routeID =
     abind (loading (\<lambda>r. Catalog_GetRoute r routeID)) (\<lambda>route.
     guard (pr_SellerID route \<noteq> sellerID) ErrNotFound (pure (Inr (normalizeLifecycleStatus route))))"

definition updating_route :: "catalog_config \<Rightarrow> PaidRoute \<Rightarrow> u64 \<Rightarrow> unit catalog_action" where
  "updating_route cfg route expectedVersion =
     storing (\<lambda>r. Catalog_UpdateRoute (cc_tables cfg) r route expectedVersion)"

section \<open>Sellers\<close>

definition GetCurrentSeller :: "string \<Rightarrow> SellerResponse catalog_action" where
  "GetCurrentSeller ownerSubject =
     guard (\<not> validIdentityValue ownerSubject) ErrNotFound
     (abind (loading (\<lambda>r. ResolveSellerByOwnerSubject r ownerSubject)) (\<lambda>seller.
      pure (Inr (sellerResponse seller))))"

definition CreateSeller ::
  "catalog_config \<Rightarrow> catalog_call \<Rightarrow> string \<Rightarrow> CreateSellerRequest \<Rightarrow> SellerResponse catalog_action" where
  "CreateSeller cfg c ownerSubject request =
     abind (pure (ct_id c)) (\<lambda>sellerID.
     abind (pure (NewSeller (cc_library cfg)
       \<lparr>sa_SellerID = sellerID, sa_OwnerSubject = ownerSubject, sa_Slug = cs_Slug request,
        sa_Name = cs_Name request, sa_UpstreamBaseURL = cs_UpstreamBaseURL request,
        sa_CreatedAt = ct_now c\<rparr>)) (\<lambda>seller.
     abind (storing (\<lambda>r. Catalog_CreateSeller r seller)) (\<lambda>_.
     pure (Inr (sellerResponse seller)))))"

definition ActivateSellerService ::
  "catalog_config \<Rightarrow> catalog_call \<Rightarrow> string \<Rightarrow> ID \<Rightarrow> u64 \<Rightarrow> SellerResponse catalog_action" where
  "ActivateSellerService cfg c ownerSubject sellerID expectedVersion =
     abind (loading (\<lambda>r. Catalog_GetSeller r sellerID)) (\<lambda>seller.
     guard (se_OwnerSubject seller \<noteq> ownerSubject) ErrNotFound
    (guard (expectedVersion \<noteq> se_Version seller) ErrConditionFailed
    (if se_Status seller = SellerStatusActive then pure (Inr (sellerResponse seller))
     else abind (pure (ActivateForExecutionCapabilities seller (ct_now c))) (\<lambda>activated.
          abind (storing (\<lambda>r. Catalog_UpdateSeller r activated expectedVersion)) (\<lambda>_.
          abind (recording cfg c
            \<lparr>rr_SellerID = sellerID, rr_ActorType = ActorTypeSellerUser, rr_ActorID = ownerSubject,
             rr_Action = ActionServiceIntegrationActivated, rr_TargetType = TargetTypeSeller,
             rr_TargetID = sellerID, rr_Outcome = OutcomeSucceeded, rr_RequestID = [],
             rr_ChangedFields = [''status'']\<rparr>) (\<lambda>_.
          pure (Inr (sellerResponse activated))))))))"

definition GetSellerForIntegration :: "ID \<Rightarrow> SellerResponse catalog_action" where
  "GetSellerForIntegration sellerID =
     abind (loading (\<lambda>r. Catalog_GetSeller r sellerID)) (\<lambda>seller. pure (Inr (sellerResponse seller)))"

definition ConfigureStorefrontForIntegration ::
  "catalog_config \<Rightarrow> catalog_call \<Rightarrow> ID \<Rightarrow> ConfigureStorefrontRequest \<Rightarrow> SellerResponse catalog_action" where
  "ConfigureStorefrontForIntegration cfg c sellerID request =
     abind (loading (\<lambda>r. Catalog_GetSeller r sellerID)) (\<lambda>seller.
     abind (pure (Seller_Configure (cc_library cfg) seller (cf_Name request) (cf_UpstreamBaseURL request) (ct_now c))) (\<lambda>configured.
     abind (storing (\<lambda>r. Catalog_UpdateSeller r configured (cf_ExpectedVersion request))) (\<lambda>_.
     pure (Inr (sellerResponse configured)))))"

section \<open>Publication\<close>

record RouteValidationCheck =
  vc_Name :: string
  vc_Passed :: bool
  vc_Message :: string

record RouteValidationResult =
  vr_SellerID :: ID
  vr_RouteID :: ID
  vr_Valid :: bool
  vr_Checks :: "RouteValidationCheck list"
  vr_Version :: u64
  vr_ContractHash :: string

definition validation_check :: "string \<Rightarrow> bool \<Rightarrow> string \<Rightarrow> RouteValidationCheck" where
  "validation_check name passed message = \<lparr>vc_Name = name, vc_Passed = passed, vc_Message = message\<rparr>"

definition ValidateRouteForIntegration ::
  "catalog_config \<Rightarrow> ID \<Rightarrow> ID \<Rightarrow> RouteValidationResult catalog_action" where
  "ValidateRouteForIntegration cfg sellerID routeID =
     abind (loading (\<lambda>r. Catalog_GetSeller r sellerID)) (\<lambda>seller.
     abind (ownedRoute sellerID routeID) (\<lambda>route.
     let checks =
       [validation_check ''seller_active'' (se_Status seller = SellerStatusActive) ''seller must be active'',
        validation_check ''execution_capability_configured'' (se_Status seller = SellerStatusActive)
          ''seller execution-capability verification must be configured'',
        validation_check ''route_configuration_valid''
          (validatePaidRouteParams (cc_library cfg) (routeParams route) = [])
          ''stored route must satisfy current validation'',
        validation_check ''route_not_archived'' (pr_LifecycleStatus route \<noteq> RouteLifecycleArchived)
          ''archived routes cannot be published'']
     in abind (pure (PublishedContractHash (cl_jcs (cc_library cfg)) route)) (\<lambda>contractHash.
        pure (Inr \<lparr>vr_SellerID = sellerID, vr_RouteID = routeID, vr_Valid = list_all vc_Passed checks,
                   vr_Checks = checks, vr_Version = pr_Version route, vr_ContractHash = contractHash\<rparr>))))"

definition publishedRouteCount :: "PaidRoute list \<Rightarrow> nat" where
  "publishedRouteCount routes =
     length (filter (\<lambda>r. pr_LifecycleStatus (normalizeLifecycleStatus r) = RouteLifecyclePublished) routes)"

definition PublishRouteForIntegration ::
  "catalog_config \<Rightarrow> instant \<Rightarrow> ID \<Rightarrow> ID \<Rightarrow> u64 \<Rightarrow> string \<Rightarrow> PaidRoute catalog_action" where
  "PublishRouteForIntegration cfg now sellerID routeID expectedVersion contractHash =
     abind (pure (case cc_authorizer cfg of None \<Rightarrow> Inr () | Some authorize \<Rightarrow> authorize sellerID routeID)) (\<lambda>_.
     abind (ownedRoute sellerID routeID) (\<lambda>route.
     guard (pr_LifecycleStatus route = RouteLifecyclePublished) ErrRoutePublished
    (guard (pr_LifecycleStatus route = RouteLifecycleArchived) ErrRouteLifecycleTransition
    (abind (ValidateRouteForIntegration cfg sellerID routeID) (\<lambda>v.
     guard (\<not> vr_Valid v) ErrRouteValidation
    (guard (contractHash = [] \<or> contractHash \<noteq> vr_ContractHash v) ErrRouteContractStale
    (abind (loading (\<lambda>r. Inr (ListRoutesBySeller r sellerID))) (\<lambda>routes.
     abind (pure (case cc_quota cfg of None \<Rightarrow> Inr ()
                  | Some allow \<Rightarrow> allow sellerID (publishedRouteCount routes))) (\<lambda>_.
     abind (pure (Publish route now)) (\<lambda>published.
     abind (updating_route cfg published expectedVersion) (\<lambda>_.
     abind (refreshPublishedCatalog cfg sellerID) (\<lambda>_.
     pure (Inr published)))))))))))))"

section \<open>Routes\<close>

definition route_request_params :: "CreateRouteRequest \<Rightarrow> ID \<Rightarrow> ID \<Rightarrow> instant \<Rightarrow> PaidRouteParams" where
  "route_request_params q routeID sellerID now =
     \<lparr>rp_RouteID = routeID, rp_SellerID = sellerID, rp_DisplayName = cr_DisplayName q,
      rp_ProductSlug = cr_ProductSlug q, rp_Method = cr_Method q, rp_PathPattern = cr_PathPattern q,
      rp_Description = cr_Description q, rp_MIMEType = cr_MIMEType q, rp_InputSchema = cr_InputSchema q,
      rp_OutputSchema = cr_OutputSchema q, rp_Amount = cr_Amount q, rp_Asset = cr_Asset q,
      rp_Network = cr_Network q, rp_PayTo = cr_PayTo q,
      rp_ApprovalThresholdAmount = cr_ApprovalThresholdAmount q,
      rp_UpstreamTimeoutSeconds = cr_UpstreamTimeoutSeconds q, rp_CreatedAt = now\<rparr>"

definition CreateRoute ::
  "catalog_config \<Rightarrow> catalog_call \<Rightarrow> string \<Rightarrow> ID \<Rightarrow> CreateRouteRequest \<Rightarrow> PaidRoute catalog_action" where
  "CreateRoute cfg c ownerSubject sellerID request =
     abind (loading (\<lambda>r. Catalog_GetSeller r sellerID)) (\<lambda>seller.
     guard (se_OwnerSubject seller \<noteq> ownerSubject)
       (validation ''sellerId'' ''owner'' ''seller is not owned by the caller'')
    (abind (pure (ct_id c)) (\<lambda>routeID.
     let publishRequested = (case cr_PublishImmediately request of None \<Rightarrow> True | Some b \<Rightarrow> b);
         direct = publishRequested \<and> cc_authorizer cfg = None
     in abind (pure (newPaidRoute (cc_library cfg) (route_request_params request routeID sellerID (ct_now c)) direct)) (\<lambda>created.
        abind (storing (\<lambda>r. Catalog_CreateRoute (cc_tables cfg) r created)) (\<lambda>_.
        abind (if publishRequested \<and> cc_authorizer cfg \<noteq> None
               then abind (pure (PublishedContractHash (cl_jcs (cc_library cfg)) created)) (\<lambda>contractHash.
                      PublishRouteForIntegration cfg (ct_later c) sellerID (pr_RouteID created) (pr_Version created) contractHash)
               else pure (Inr created)) (\<lambda>route.
        abind (recording cfg c (route_record sellerID ownerSubject
                 (if pr_LifecycleStatus created = RouteLifecyclePublished \<or> publishRequested \<and> cc_authorizer cfg \<noteq> None
                  then ActionRoutePublished else ActionRouteDraftCreated)
                 (pr_RouteID route) route_fields)) (\<lambda>_.
        abind (if pr_LifecycleStatus route = RouteLifecyclePublished \<and> cc_authorizer cfg = None
               then refreshPublishedCatalog cfg sellerID else pure (Inr ())) (\<lambda>_.
        pure (Inr route)))))))))"

definition CreateDraftRouteForIntegration ::
  "catalog_config \<Rightarrow> catalog_call \<Rightarrow> ID \<Rightarrow> CreateRouteRequest \<Rightarrow> PaidRoute catalog_action" where
  "CreateDraftRouteForIntegration cfg c sellerID request =
     abind (loading (\<lambda>r. Catalog_GetSeller r sellerID)) (\<lambda>_.
     abind (pure (ct_id c)) (\<lambda>routeID.
     abind (pure (NewDraftPaidRoute (cc_library cfg) (route_request_params request routeID sellerID (ct_now c)))) (\<lambda>route.
     abind (storing (\<lambda>r. Catalog_CreateRoute (cc_tables cfg) r route)) (\<lambda>_.
     pure (Inr route)))))"

definition priceChangeFields :: "bool \<Rightarrow> PaidRoute \<Rightarrow> string list" where
  "priceChangeFields wasPublished route =
     ''amount'' # (if wasPublished \<and> pr_LifecycleStatus route = RouteLifecyclePaused
                   then [''lifecycleStatus'', ''enabled''] else [])"

record UpdateRoutePriceRequest =
  up_Amount :: amount
  up_ExpectedVersion :: u64

definition UpdateRoutePrice ::
  "catalog_config \<Rightarrow> catalog_call \<Rightarrow> string \<Rightarrow> ID \<Rightarrow> ID \<Rightarrow> UpdateRoutePriceRequest \<Rightarrow> PaidRoute catalog_action" where
  "UpdateRoutePrice cfg c ownerSubject sellerID routeID request =
     abind (loading (\<lambda>r. Catalog_GetSeller r sellerID)) (\<lambda>seller.
     guard (se_OwnerSubject seller \<noteq> ownerSubject)
       (validation ''sellerId'' ''owner'' ''seller is not owned by the caller'')
    (abind (loading (\<lambda>r. Catalog_GetRoute r routeID)) (\<lambda>route.
     guard (pr_SellerID route \<noteq> sellerID)
       (validation ''routeId'' ''owner'' ''route does not belong to the seller'')
    (let wasPublished = (effectiveLifecycleStatus route = RouteLifecyclePublished)
     in abind (pure (ChangePrice route (up_Amount request) (ct_now c))) (\<lambda>changed.
        abind (updating_route cfg changed (up_ExpectedVersion request)) (\<lambda>_.
        abind (recording cfg c (route_record sellerID ownerSubject ActionRoutePriceChanged routeID
                 (priceChangeFields wasPublished changed))) (\<lambda>_.
        abind (refreshPublishedCatalog cfg sellerID) (\<lambda>_.
        pure (Inr changed)))))))))"

definition UpdateRoutePriceForIntegration ::
  "catalog_config \<Rightarrow> catalog_call \<Rightarrow> ID \<Rightarrow> ID \<Rightarrow> UpdateRoutePriceRequest \<Rightarrow> PaidRoute catalog_action" where
  "UpdateRoutePriceForIntegration cfg c sellerID routeID request =
     abind (ownedRoute sellerID routeID) (\<lambda>route.
     abind (pure (ChangePrice route (up_Amount request) (ct_now c))) (\<lambda>changed.
     abind (updating_route cfg changed (up_ExpectedVersion request)) (\<lambda>_.
     abind (refreshPublishedCatalog cfg sellerID) (\<lambda>_.
     pure (Inr changed)))))"

definition UpdateRouteDraft ::
  "catalog_config \<Rightarrow> catalog_call \<Rightarrow> string \<Rightarrow> ID \<Rightarrow> ID \<Rightarrow> UpdateRouteDraftRequest \<Rightarrow> PaidRoute catalog_action" where
  "UpdateRouteDraft cfg c ownerSubject sellerID routeID request =
     abind (AuthorizeSeller ownerSubject sellerID) (\<lambda>_.
     abind (ownedRoute sellerID routeID) (\<lambda>route.
     abind (pure (UpdateDraft (cc_library cfg) route request (ct_now c))) (\<lambda>changed.
     abind (updating_route cfg changed (ud_ExpectedVersion request)) (\<lambda>_.
     abind (recording cfg c (route_record sellerID ownerSubject ActionRouteDraftUpdated routeID
       [''displayName'', ''method'', ''pathPattern'', ''description'', ''mimeType'', ''inputSchema'',
        ''outputSchema'', ''amount'', ''upstreamTimeoutSeconds''])) (\<lambda>_.
     pure (Inr changed))))))"

definition ListSellerRoutes :: "string \<Rightarrow> ID \<Rightarrow> PaidRoute list catalog_action" where
  "ListSellerRoutes ownerSubject sellerID =
     abind (AuthorizeSeller ownerSubject sellerID) (\<lambda>_.
     abind (loading (\<lambda>r. Inr (ListRoutesBySeller r sellerID))) (\<lambda>routes.
     pure (Inr (map normalizeLegacyFields routes))))"

definition GetSellerRoute :: "string \<Rightarrow> ID \<Rightarrow> ID \<Rightarrow> PaidRoute catalog_action" where
  "GetSellerRoute ownerSubject sellerID routeID =
     abind (AuthorizeSeller ownerSubject sellerID) (\<lambda>_. ownedRoute sellerID routeID)"

definition ValidateSellerRoute ::
  "catalog_config \<Rightarrow> string \<Rightarrow> ID \<Rightarrow> ID \<Rightarrow> RouteValidationResult catalog_action" where
  "ValidateSellerRoute cfg ownerSubject sellerID routeID =
     abind (AuthorizeSeller ownerSubject sellerID) (\<lambda>_. ValidateRouteForIntegration cfg sellerID routeID)"

definition recordSellerRouteLifecycle ::
  "catalog_config \<Rightarrow> catalog_call \<Rightarrow> string \<Rightarrow> PaidRoute \<Rightarrow> AuditAction \<Rightarrow> unit catalog_action" where
  "recordSellerRouteLifecycle cfg c ownerSubject route action =
     recording cfg c (route_record (pr_SellerID route) ownerSubject action (pr_RouteID route)
       [''lifecycleStatus'', ''enabled''])"

definition PublishSellerRoute ::
  "catalog_config \<Rightarrow> catalog_call \<Rightarrow> string \<Rightarrow> ID \<Rightarrow> ID \<Rightarrow> u64 \<Rightarrow> string \<Rightarrow> PaidRoute catalog_action" where
  "PublishSellerRoute cfg c ownerSubject sellerID routeID expectedVersion contractHash =
     abind (AuthorizeSeller ownerSubject sellerID) (\<lambda>_.
     abind (PublishRouteForIntegration cfg (ct_now c) sellerID routeID expectedVersion contractHash) (\<lambda>route.
     abind (recordSellerRouteLifecycle cfg c ownerSubject route ActionRoutePublished) (\<lambda>_.
     abind (refreshPublishedCatalog cfg sellerID) (\<lambda>_.
     pure (Inr route)))))"

definition mutateSellerRouteLifecycle ::
  "catalog_config \<Rightarrow> catalog_call \<Rightarrow> string \<Rightarrow> ID \<Rightarrow> ID \<Rightarrow> u64 \<Rightarrow> AuditAction
     \<Rightarrow> (PaidRoute \<Rightarrow> instant \<Rightarrow> PaidRoute result) \<Rightarrow> PaidRoute catalog_action" where
  "mutateSellerRouteLifecycle cfg c ownerSubject sellerID routeID expectedVersion action change =
     abind (AuthorizeSeller ownerSubject sellerID) (\<lambda>_.
     abind (ownedRoute sellerID routeID) (\<lambda>route.
     abind (pure (change route (ct_now c))) (\<lambda>changed.
     abind (updating_route cfg changed expectedVersion) (\<lambda>_.
     abind (recordSellerRouteLifecycle cfg c ownerSubject changed action) (\<lambda>_.
     abind (refreshPublishedCatalog cfg sellerID) (\<lambda>_.
     pure (Inr changed)))))))"

definition PauseSellerRoute ::
  "catalog_config \<Rightarrow> catalog_call \<Rightarrow> string \<Rightarrow> ID \<Rightarrow> ID \<Rightarrow> u64 \<Rightarrow> PaidRoute catalog_action" where
  "PauseSellerRoute cfg c ownerSubject sellerID routeID expectedVersion =
     mutateSellerRouteLifecycle cfg c ownerSubject sellerID routeID expectedVersion ActionRoutePaused Pause"

definition ArchiveSellerRoute ::
  "catalog_config \<Rightarrow> catalog_call \<Rightarrow> string \<Rightarrow> ID \<Rightarrow> ID \<Rightarrow> u64 \<Rightarrow> PaidRoute catalog_action" where
  "ArchiveSellerRoute cfg c ownerSubject sellerID routeID expectedVersion =
     mutateSellerRouteLifecycle cfg c ownerSubject sellerID routeID expectedVersion ActionRouteArchived Archive"

definition EmergencyDisableSellerRoute ::
  "catalog_config \<Rightarrow> catalog_call \<Rightarrow> string \<Rightarrow> ID \<Rightarrow> ID \<Rightarrow> u64 \<Rightarrow> PaidRoute catalog_action" where
  "EmergencyDisableSellerRoute cfg c ownerSubject sellerID routeID expectedVersion =
     mutateSellerRouteLifecycle cfg c ownerSubject sellerID routeID expectedVersion
       ActionRouteEmergencyDisabled EmergencyDisable"

section \<open>Discovery documents\<close>

record StorefrontManifest =
  mf_SellerName :: string
  mf_SellerSlug :: string
  mf_Routes :: "PaidRoute list"

definition GetStorefrontManifest :: "string \<Rightarrow> StorefrontManifest catalog_action" where
  "GetStorefrontManifest slug =
     abind (loading (\<lambda>r. ResolveSellerBySlug r slug)) (\<lambda>seller.
     abind (loading (\<lambda>r. Inr (ListRoutesBySeller r (se_SellerID seller)))) (\<lambda>routes.
     pure (Inr \<lparr>mf_SellerName = se_Name seller, mf_SellerSlug = se_Slug seller,
                mf_Routes = filter pr_Enabled (map normalizeLegacyFields routes)\<rparr>)))"

text \<open>The source writes the two characters backslash and \<open>n\<close>, not a line break.\<close>

abbreviation written_newline :: string where
  "written_newline \<equiv> [CHR 0x5C, CHR ''n'']"

definition llms_route_line :: "PaidRoute \<Rightarrow> string" where
  "llms_route_line r =
     ''- '' @ RouteMethod_wire (pr_Method r) @ '' '' @ pr_PathPattern r @ '' '' @ [CHR 0xE2, CHR 0x80, CHR 0x94]
     @ '' '' @ pr_Description r @ '' ('' @ Amount_String (pr_Amount r) @ '' '' @ pr_Asset r @ '' on ''
     @ pr_Network r @ '')'' @ written_newline"

definition GetStorefrontLLMSText :: "string \<Rightarrow> string catalog_action" where
  "GetStorefrontLLMSText slug =
     abind (GetStorefrontManifest slug) (\<lambda>manifest.
     pure (Inr (''# '' @ mf_SellerName manifest @ written_newline @ written_newline @ ''Manifest: /store/''
       @ mf_SellerSlug manifest @ ''/manifest.json'' @ written_newline @ written_newline @ ''Routes:''
       @ written_newline @ concat (map llms_route_line (mf_Routes manifest)))))"

end
