(* ===== verification/Publication.thy ===== *)
theory Publication
  imports Catalog DirectoryIndex
begin

text \<open>
  What the catalog service guarantees around publication: a route goes on sale only as the contract
  that was validated, within the seller's plan; and what happens when the price of a published route
  is changed.
\<close>

section \<open>Publication\<close>

lemmas catalog_action_defs =
  loading_def storing_def updating_route_def ownedRoute_def ValidateRouteForIntegration_def Let_def

lemma Catalog_UpdateRoute_ok:
  assumes "Catalog_UpdateRoute ut r route v = Inr r'"
  shows "\<exists>stored. ca_routes r (pr_RouteID route) = Some stored \<and> pr_Version stored = v"
    "ca_routes r' = (ca_routes r)(pr_RouteID route \<mapsto> route)" "ca_sellers r' = ca_sellers r"
  using assms
  by (auto simp: Catalog_UpdateRoute_def Let_def result_simps replaceDirectoryProjection_def split: option.split_asm)

lemma ownedRoute_ok:
  "ownedRoute sellerID routeID s = (Inr route, s') \<longleftrightarrow>
    s' = s \<and> (\<exists>stored. ca_routes (cs_repository s) routeID = Some stored \<and> pr_SellerID stored = sellerID
              \<and> route = normalizeLifecycleStatus stored)"
  by (auto simp: ownedRoute_def loading_def action_ok Catalog_GetRoute_def split: option.splits)

lemma ValidateRouteForIntegration_valid:
  assumes "ValidateRouteForIntegration cfg sellerID routeID s = (Inr v, s')" "vr_Valid v"
  shows "s' = s \<and> (\<exists>seller stored. ca_sellers (cs_repository s) sellerID = Some seller
    \<and> se_Status seller = SellerStatusActive \<and> ca_routes (cs_repository s) routeID = Some stored
    \<and> validatePaidRouteParams (cc_library cfg) (routeParams (normalizeLifecycleStatus stored)) = []
    \<and> PublishedContractHash (cl_jcs (cc_library cfg)) (normalizeLifecycleStatus stored) = Inr (vr_ContractHash v))"
  using assms
  by (auto simp: ValidateRouteForIntegration_def Let_def loading_def action_ok ownedRoute_ok validation_check_def
      Catalog_GetSeller_def split: option.splits)

lemma refreshPublishedCatalog_repository [simp]:
  "cs_repository (snd (refreshPublishedCatalog cfg sellerID s)) = cs_repository s"
  "cs_audit (snd (refreshPublishedCatalog cfg sellerID s)) = cs_audit s"
  by (simp_all add: refreshPublishedCatalog_def split: option.split)

text \<open>The checks and preparations of a publication, which only read.\<close>

definition publication_ready ::
  "catalog_config \<Rightarrow> catalog_state \<Rightarrow> instant \<Rightarrow> ID \<Rightarrow> ID \<Rightarrow> string \<Rightarrow> PaidRoute \<Rightarrow> bool" where
  "publication_ready cfg s now sellerID routeID contractHash route \<longleftrightarrow>
     (\<exists>seller stored. ca_sellers (cs_repository s) sellerID = Some seller
        \<and> se_Status seller = SellerStatusActive
        \<and> ca_routes (cs_repository s) routeID = Some stored \<and> pr_SellerID stored = sellerID
        \<and> resumable (effectiveLifecycleStatus stored)
        \<and> validatePaidRouteParams (cc_library cfg) (routeParams (normalizeLifecycleStatus stored)) = []
        \<and> contractHash \<noteq> []
        \<and> PublishedContractHash (cl_jcs (cc_library cfg)) (normalizeLifecycleStatus stored) = Inr contractHash
        \<and> route = stored\<lparr>pr_LifecycleStatus := RouteLifecyclePublished, pr_Enabled := True,
                          pr_UpdatedAt := now, pr_Version := pr_Version stored + 1\<rparr>
        \<and> pr_UpdatedAt stored \<le> now)
     \<and> (\<forall>authorize. cc_authorizer cfg = Some authorize \<longrightarrow> authorize sellerID routeID = Inr ())
     \<and> (\<forall>allow. cc_quota cfg = Some allow \<longrightarrow>
          allow sellerID (publishedRouteCount (ListRoutesBySeller (cs_repository s) sellerID)) = Inr ())"

lemma Publish_ok:
  "Publish (normalizeLifecycleStatus stored) now = Inr route \<longleftrightarrow>
     resumable (effectiveLifecycleStatus stored) \<and> pr_UpdatedAt stored \<le> now
     \<and> route = stored\<lparr>pr_LifecycleStatus := RouteLifecyclePublished, pr_Enabled := True,
                       pr_UpdatedAt := now, pr_Version := pr_Version stored + 1\<rparr>"
  by (cases "pr_LifecycleStatus stored")
    (auto simp: Publish_def transitionLifecycle_def result_simps normalizeLifecycleStatus_def
      effectiveLifecycleStatus_def resumable_def)

lemma guarded_none: "(case x of None \<Rightarrow> Inr () | Some f \<Rightarrow> g f) = Inr () \<longleftrightarrow> (\<forall>f. x = Some f \<longrightarrow> g f = Inr ())"
  by (simp split: option.split)

lemma past_loading:
  assumes "abind (loading g) f s = (res, s')" "\<not> (s' = s \<and> \<not> is_ok res)"
  obtains x where "g (cs_repository s) = Inr x" "f x s = (res, s')"
  by (rule past_read [OF assms(1) _ assms(2)]) (auto simp: loading_def)

lemma read_only:
  "snd (ownedRoute sellerID routeID s) = s" "snd (ValidateRouteForIntegration cfg sellerID routeID s) = s"
  by (simp_all add: loading_def ownedRoute_def ValidateRouteForIntegration_def Let_def action_simps split: sum.split)

lemma past_owned:
  assumes "abind (ownedRoute sellerID routeID) f s = (res, s')" "\<not> (s' = s \<and> \<not> is_ok res)"
  obtains x where "ownedRoute sellerID routeID s = (Inr x, s)" "f x s = (res, s')"
  by (rule past_read [OF assms(1) read_only(1) assms(2)])

lemma past_validation:
  assumes "abind (ValidateRouteForIntegration cfg sellerID routeID) f s = (res, s')" "\<not> (s' = s \<and> \<not> is_ok res)"
  obtains x where "ValidateRouteForIntegration cfg sellerID routeID s = (Inr x, s)" "f x s = (res, s')"
  by (rule past_read [OF assms(1) read_only(2) assms(2)])

lemmas past = past_steps past_loading past_owned past_validation

text \<open>The three steps that end a publication.\<close>

lemma publication_tail:
  assumes "abind (updating_route cfg route v) (\<lambda>_. abind (refreshPublishedCatalog cfg sellerID) (\<lambda>_. pure (Inr route))) s
      = (res, s')" "\<not> (s' = s \<and> \<not> is_ok res)"
  shows "\<exists>r'. Catalog_UpdateRoute (cc_tables cfg) (cs_repository s) route v = Inr r'
    \<and> refreshPublishedCatalog cfg sellerID (s\<lparr>cs_repository := r'\<rparr>) = (rbind res (\<lambda>_. Inr ()), s')
    \<and> (is_ok res \<longrightarrow> res = Inr route)"
proof (cases "Catalog_UpdateRoute (cc_tables cfg) (cs_repository s) route v")
  case (Inl e)
  with assms show ?thesis
    by (auto simp: action_simps updating_route_def storing_def)
next
  case (Inr r')
  with assms(1) show ?thesis
    by (cases "refreshPublishedCatalog cfg sellerID (s\<lparr>cs_repository := r'\<rparr>)")
      (auto simp: action_simps updating_route_def storing_def split: sum.split_asm)
qed

text \<open>A publication either changes nothing, or stores the route it prepared.\<close>

lemma PublishRouteForIntegration_cases:
  assumes "PublishRouteForIntegration cfg now sellerID routeID v contractHash s = (res, s')"
    "\<not> (s' = s \<and> \<not> is_ok res)"
  shows "\<exists>route r'. publication_ready cfg s now sellerID routeID contractHash route
        \<and> Catalog_UpdateRoute (cc_tables cfg) (cs_repository s) route v = Inr r'
        \<and> refreshPublishedCatalog cfg sellerID (s\<lparr>cs_repository := r'\<rparr>) = (rbind res (\<lambda>_. Inr ()), s')
        \<and> (is_ok res \<longrightarrow> res = Inr route)"
  using assms(1) unfolding PublishRouteForIntegration_def
proof (elim past [OF _ assms(2)])
  fix u route check routes u' published
  assume authorized: "(case cc_authorizer cfg of None \<Rightarrow> Inr () | Some authorize \<Rightarrow> authorize sellerID routeID) = Inr u"
    and owned: "ownedRoute sellerID routeID s = (Inr route, s)"
    and checked: "ValidateRouteForIntegration cfg sellerID routeID s = (Inr check, s)" "\<not> \<not> vr_Valid check"
    and hash: "\<not> (contractHash = [] \<or> contractHash \<noteq> vr_ContractHash check)"
    and listed: "Inr (ListRoutesBySeller (cs_repository s) sellerID) = Inr routes"
    and quota: "(case cc_quota cfg of None \<Rightarrow> Inr () | Some allow \<Rightarrow> allow sellerID (publishedRouteCount routes)) = Inr u'"
    and published: "Publish route now = Inr published"
    and rest: "abind (updating_route cfg published v) (\<lambda>_. abind (refreshPublishedCatalog cfg sellerID) (\<lambda>_. pure (Inr published))) s
      = (res, s')"
  have "publication_ready cfg s now sellerID routeID contractHash published"
    using ValidateRouteForIntegration_valid [OF checked(1)] checked(2) authorized owned hash listed quota published
    by (auto simp: publication_ready_def ownedRoute_ok Publish_ok guarded_none split: option.split_asm)
  then show ?thesis
    using publication_tail [OF rest assms(2)] by blast
qed

section \<open>Prices\<close>

lemma price_audit_refused:
  assumes "rr_Action q = ActionRoutePriceChanged" "''lifecycleStatus'' \<in> set (rr_ChangedFields q)"
  shows "\<not> is_ok (Audit_Record ulid r eid now requestID q)"
proof -
  have "validateAction (rr_Action q) (rr_TargetType q) (rr_ChangedFields q) \<noteq> []"
    using assms by (auto simp: validateAction_def changed_field_errors_Nil)
  then show ?thesis
    by (cases eid) (simp_all add: Audit_Record_def Let_def NewAuditEvent_def auditEventErrors_def)
qed

lemma ChangePrice_paused:
  "ChangePrice stored amount now = Inr changed \<Longrightarrow> effectiveLifecycleStatus stored = RouteLifecyclePublished \<Longrightarrow>
   pr_Amount stored \<noteq> amount \<Longrightarrow>
   changed = stored\<lparr>pr_LifecycleStatus := RouteLifecyclePaused, pr_Enabled := False, pr_Amount := amount,
     pr_UpdatedAt := now, pr_Version := pr_Version stored + 1\<rparr>"
  by (simp add: ChangePrice_def Let_def result_simps)

section \<open>Examples\<close>

abbreviation sample_rid :: ID where "sample_rid \<equiv> ''rte_01ARZ3NDEKTSV4RRFFQ69G5FAV''"
abbreviation sample_sid :: ID where "sample_sid \<equiv> ''sel_01ARZ3NDEKTSV4RRFFQ69G5FAV''"

definition sample_config :: catalog_config where
  "sample_config = \<lparr>cc_library = sample_library, cc_tables = sample_tables, cc_quota = Some (\<lambda>k n. Inr ()),
     cc_authorizer = None, cc_refresher = None\<rparr>"

definition sample_call :: catalog_call where
  "sample_call = \<lparr>ct_now = 2000, ct_later = 2000, ct_id = Inr ''rte_1'', ct_auditID = Inr ''aud_1'',
     ct_auditNow = 2000, ct_requestID = ''req_1''\<rparr>"

definition sample_state :: "PaidRoute \<Rightarrow> catalog_state" where
  "sample_state route = \<lparr>cs_repository = NewCatalogRepository
       \<lparr>ca_sellers := [sample_sid \<mapsto> sample_seller], ca_routes := [sample_rid \<mapsto> route],
        ca_routesBySeller := (\<lambda>_. [sample_rid]),
        ca_productSlugsBySeller := (\<lambda>_. [''market-report'' \<mapsto> sample_rid])\<rparr>,
     cs_audit = \<lparr>aer_events = []\<rparr>, cs_refreshes = []\<rparr>"

definition sample_draft :: PaidRoute where
  "sample_draft = sample_route\<lparr>pr_LifecycleStatus := RouteLifecycleDraft, pr_Enabled := False\<rparr>"

lemma sample_draft_valid: "validatePaidRouteParams sample_library (routeParams sample_draft) = []"
proof -
  have "wf_route sample_library sample_route"
    by (rule newPaidRoute_wf [OF sample_route_created])
  then show ?thesis
    by (simp add: wf_route_def sample_draft_def routeParams_def)
qed

lemma sample_draft_simps [simp]:
  "pr_LifecycleStatus sample_draft = RouteLifecycleDraft" "pr_SellerID sample_draft = sample_sid"
  "pr_RouteID sample_draft = sample_rid" "pr_Version sample_draft = 1" "pr_UpdatedAt sample_draft = 1000"
  "pr_ProductSlug sample_draft = ''market-report''" "effectiveLifecycleStatus sample_draft = RouteLifecycleDraft"
  "normalizeLifecycleStatus sample_draft = sample_draft"
  by (simp_all add: normalizeLifecycleStatus_def effectiveLifecycleStatus_def sample_draft_def sample_route_def)

lemma sample_config_simps [simp]:
  "cc_library sample_config = sample_library" "cc_tables sample_config = sample_tables"
  "cc_quota sample_config = Some (\<lambda>k n. Inr ())" "cc_authorizer sample_config = None"
  "cc_refresher sample_config = None" "cl_jcs sample_library = Inr"
  by (simp_all add: sample_config_def sample_library_def)

lemma sample_state_simps [simp]:
  "ca_sellers (cs_repository (sample_state route)) = [sample_sid \<mapsto> sample_seller]"
  "ca_routes (cs_repository (sample_state route)) = [sample_rid \<mapsto> route]"
  "ca_productSlugsBySeller (cs_repository (sample_state route)) = (\<lambda>_. [''market-report'' \<mapsto> sample_rid])"
  "se_Status sample_seller = SellerStatusActive" "se_OwnerSubject sample_seller = ''owner-1''"
  by (simp_all add: sample_state_def sample_seller_def)

lemma sample_draft_hash:
  obtains h where "PublishedContractHash Inr sample_draft = Inr h" "h \<noteq> []"
proof -
  have "is_ok (Schema_MarshalJSON DefaultClosedObjectSchema)"
    by code_simp
  then obtain j where "Schema_MarshalJSON DefaultClosedObjectSchema = Inr j"
    by (auto simp: is_ok_def split: sum.split_asm)
  then have "\<exists>x. contract_payload sample_draft = Inr x"
    by (simp add: contract_payload_def sample_draft_def sample_route_def)
  then obtain x where "contract_payload sample_draft = Inr x" ..
  then have "PublishedContractHash Inr sample_draft
      = Inr (hashBytes (publishedContractHashDomain @ [CHR 0x00] @ json_encode x))" (is "_ = Inr ?h")
    by (simp add: PublishedContractHash_def)
  moreover have "?h \<noteq> []"
    using hashBytes_digest [of "publishedContractHashDomain @ [CHR 0x00] @ json_encode x"]
    by (auto simp: sha256_digest_def)
  ultimately show thesis
    by (rule that)
qed

text \<open>
  C17: publication. Putting a route on sale either changes nothing and fails, or stores exactly one
  change, the prepared route: the seller is active and owns it, it was off sale and not archived, it
  satisfies every rule as it is stored, the caller named the hash of this very contract and its
  version, and the publication authorizer and the plan's quota allowed it. Only a failing refresh of
  the public snapshot is reported after the change.
\<close>

theorem publication_is_authorized:
  assumes "PublishRouteForIntegration cfg now sellerID routeID v contractHash s = (res, s')"
  shows "s' = s \<and> \<not> is_ok res
    \<or> (\<exists>route. publication_ready cfg s now sellerID routeID contractHash route \<and> pr_Version route = v + 1
        \<and> ca_routes (cs_repository s') = (ca_routes (cs_repository s))(pr_RouteID route \<mapsto> route)
        \<and> ca_sellers (cs_repository s') = ca_sellers (cs_repository s) \<and> cs_audit s' = cs_audit s
        \<and> (case cc_refresher cfg of
             None \<Rightarrow> res = Inr route
           | Some refresh \<Rightarrow> res = rbind (refresh sellerID) (\<lambda>_. Inr route)))"
proof (cases "s' = s \<and> \<not> is_ok res")
  case False
  then obtain route r' where *: "publication_ready cfg s now sellerID routeID contractHash route"
      "Catalog_UpdateRoute (cc_tables cfg) (cs_repository s) route v = Inr r'"
      "refreshPublishedCatalog cfg sellerID (s\<lparr>cs_repository := r'\<rparr>) = (rbind res (\<lambda>_. Inr ()), s')"
      "is_ok res \<longrightarrow> res = Inr route"
    using PublishRouteForIntegration_cases [OF assms] by blast
  have "cs_repository s' = r'" "cs_audit s' = cs_audit s"
    using refreshPublishedCatalog_repository [of cfg sellerID "s\<lparr>cs_repository := r'\<rparr>"]
    by (simp_all add: *(3))
  moreover have "pr_Version route = v + 1"
    using *(2) by (auto simp: Catalog_UpdateRoute_def Let_def result_simps split: option.split_asm)
  moreover have "case cc_refresher cfg of None \<Rightarrow> res = Inr route
      | Some refresh \<Rightarrow> res = rbind (refresh sellerID) (\<lambda>_. Inr route)"
    using *(3,4) by (cases res) (auto simp: refreshPublishedCatalog_def split: option.split_asm)
  ultimately show ?thesis
    using *(1) Catalog_UpdateRoute_ok [OF *(2)] by auto
qed simp

theorem publication_is_authorized_witness:
  "\<exists>h route s'. PublishRouteForIntegration sample_config 2000 sample_sid sample_rid 1 h (sample_state sample_draft) = (Inr route, s')
     \<and> publication_ready sample_config (sample_state sample_draft) 2000 sample_sid sample_rid h route"
proof -
  obtain h where h: "PublishedContractHash Inr sample_draft = Inr h" "h \<noteq> []"
    by (rule sample_draft_hash)
  let ?s = "sample_state sample_draft"
  let ?published = "sample_draft\<lparr>pr_LifecycleStatus := RouteLifecyclePublished, pr_Enabled := True,
      pr_UpdatedAt := 2000, pr_Version := 2\<rparr>"
  obtain v where v: "ValidateRouteForIntegration sample_config sample_sid sample_rid ?s = (Inr v, ?s)"
      "vr_Valid v" "vr_ContractHash v = h"
    using h sample_draft_valid
    by (simp add: ValidateRouteForIntegration_def Let_def action_ok loading_def ownedRoute_ok Catalog_GetSeller_def
        validation_check_def)
  obtain r' where r': "Catalog_UpdateRoute sample_tables (cs_repository ?s) ?published 1 = Inr r'"
    by (simp add: Catalog_UpdateRoute_def Let_def)
  have "Publish sample_draft 2000 = Inr ?published"
    using Publish_ok [of sample_draft 2000 ?published] by (simp add: resumable_def)
  then have "PublishRouteForIntegration sample_config 2000 sample_sid sample_rid 1 h ?s
      = (Inr ?published, ?s\<lparr>cs_repository := r'\<rparr>)"
    using h v r'
    by (simp add: PublishRouteForIntegration_def action_ok loading_def ownedRoute_ok updating_route_def storing_def
        refreshPublishedCatalog_def)
  then show ?thesis
    using publication_is_authorized [of sample_config 2000 sample_sid sample_rid 1 h ?s "Inr ?published"] by auto
qed

text \<open>
  Changing the price of a published route over the seller's API. The new price is stored and the
  route taken out of sale, but the call reports an error: the audit event lists fields its action does
  not allow, so nothing is recorded and the public snapshot is not refreshed. A request with the price
  the route already has fails as a version conflict, whatever version it names.
\<close>

theorem price_change_reported_as_error:
  assumes "ca_sellers (cs_repository s) sellerID = Some seller" "se_OwnerSubject seller = owner"
    "ca_routes (cs_repository s) routeID = Some stored" "pr_RouteID stored = routeID"
    "pr_SellerID stored = sellerID" "ChangePrice stored (up_Amount q) (ct_now c) = Inr changed"
  shows "(pr_Amount stored \<noteq> up_Amount q \<and> effectiveLifecycleStatus stored = RouteLifecyclePublished
      \<and> Catalog_UpdateRoute (cc_tables cfg) (cs_repository s) changed (up_ExpectedVersion q) = Inr r'
      \<longrightarrow> (\<exists>e. UpdateRoutePrice cfg c owner sellerID routeID q s = (Inl e, s\<lparr>cs_repository := r'\<rparr>))
          \<and> (\<exists>route. ca_routes r' routeID = Some route \<and> pr_Amount route = up_Amount q
               \<and> pr_LifecycleStatus route = RouteLifecyclePaused))
    \<and> (pr_Amount stored = up_Amount q
      \<longrightarrow> UpdateRoutePrice cfg c owner sellerID routeID q s = (Inl ErrConditionFailed, s))"
proof (intro conjI impI, goal_cases)
  case 1
  note changed = ChangePrice_paused [OF assms(6)]
  from 1 have "''lifecycleStatus'' \<in> set (priceChangeFields True changed)"
    by (simp add: priceChangeFields_def changed)
  then have "\<not> is_ok (Audit_Record (cl_ulid (cc_library cfg)) (cs_audit s) (ct_auditID c) (ct_auditNow c) (ct_requestID c)
      (route_record sellerID owner ActionRoutePriceChanged routeID (priceChangeFields True changed)))"
    by (intro price_audit_refused) (simp_all add: route_record_def)
  with 1 assms show ?case
    by (auto simp: UpdateRoutePrice_def Let_def action_simps loading_def updating_route_def storing_def
        recording_def Catalog_GetSeller_def Catalog_GetRoute_def is_ok_def split: sum.split_asm)
next
  case 2
  note changed = ChangePrice_paused [OF assms(6)]
  from 2 have "pr_RouteID changed = routeID" "pr_Amount changed = up_Amount q"
      "pr_LifecycleStatus changed = RouteLifecyclePaused"
    by (simp_all add: changed assms(4))
  moreover from 2 have "ca_routes r' = (ca_routes (cs_repository s))(pr_RouteID changed \<mapsto> changed)"
    by (intro Catalog_UpdateRoute_ok(2)) blast
  ultimately show ?case
    by simp
next
  case 3
  then have "changed = stored"
    using assms(6) by (simp add: ChangePrice_def result_simps)
  moreover have "Catalog_UpdateRoute (cc_tables cfg) (cs_repository s) stored (up_ExpectedVersion q)
      = Inl ErrConditionFailed"
    using assms(3,4) by (auto simp: Catalog_UpdateRoute_def reject_if_def Let_def)
  ultimately show ?case
    using assms by (simp add: UpdateRoutePrice_def Let_def action_simps loading_def updating_route_def storing_def
        Catalog_GetSeller_def Catalog_GetRoute_def)
qed

theorem price_change_reported_as_error_witness:
  "\<exists>e r'. UpdateRoutePrice sample_config sample_call ''owner-1'' sample_sid sample_rid
      \<lparr>up_Amount = Amount ''200'', up_ExpectedVersion = 1\<rparr> (sample_state sample_route)
        = (Inl e, (sample_state sample_route)\<lparr>cs_repository := r'\<rparr>)
     \<and> map_option pr_Amount (ca_routes r' sample_rid) = Some (Amount ''200'')"
proof -
  let ?q = "\<lparr>up_Amount = Amount ''200'', up_ExpectedVersion = 1\<rparr>"
  let ?changed = "sample_route\<lparr>pr_LifecycleStatus := RouteLifecyclePaused, pr_Enabled := False,
      pr_Amount := Amount ''200'', pr_UpdatedAt := 2000, pr_Version := 2\<rparr>"
  have published: "effectiveLifecycleStatus sample_route = RouteLifecyclePublished"
    by (simp add: effectiveLifecycleStatus_def sample_route_def)
  have "\<not> Amount_IsZero (Amount ''200'')"
    by code_simp
  then have changed: "ChangePrice sample_route (up_Amount ?q) (ct_now sample_call) = Inr ?changed"
    by (simp add: ChangePrice_def Let_def sample_call_def published) (simp add: sample_route_def)
  obtain r' where r': "Catalog_UpdateRoute sample_tables (cs_repository (sample_state sample_route)) ?changed 1 = Inr r'"
    by (simp add: Catalog_UpdateRoute_def Let_def sample_route_def)
  show ?thesis
    using price_change_reported_as_error [of "sample_state sample_route" sample_sid sample_seller "''owner-1''" sample_rid
        sample_route ?q sample_call ?changed sample_config r'] changed r' published
    by (force simp: sample_route_def)
qed

end
