(* ===== verification/Secrets.thy ===== *)
theory Secrets
  imports Base64Url Decoding
begin

text \<open>
  Secrets kept as digests: hexadecimal text read back (\<open>hex.DecodeString\<close>), the digest of a secret and
  the comparisons of \<open>internal/browserpurchase/service.go\<close> (\<open>subtle.ConstantTimeCompare\<close> is equality of
  byte strings).
\<close>

fun hex_decode :: "string \<Rightarrow> string option" where
  "hex_decode [] = Some []"
| "hex_decode [c] = None"
| "hex_decode (c # d # s) =
     (case (hex_val c, hex_val d, hex_decode s) of
        (Some h, Some l, Some r) \<Rightarrow> Some (char_of (16 * h + l) # r)
      | _ \<Rightarrow> None)"

definition hashSecret :: "string \<Rightarrow> string" where
  "hashSecret raw = hex_encode (Sum256 raw)"

definition secretMatches :: "string \<Rightarrow> string \<Rightarrow> bool" where
  "secretMatches raw expectedHash \<longleftrightarrow>
     (case hex_decode expectedHash of
        None \<Rightarrow> False
      | Some expected \<Rightarrow> length expected = 32 \<and> expected = Sum256 raw)"

definition constantStringEqual :: "string \<Rightarrow> string \<Rightarrow> bool" where
  "constantStringEqual l r \<longleftrightarrow> length l = length r \<and> l \<noteq> [] \<and> l = r"

lemma hex_val_digit: "n < 16 \<Longrightarrow> hex_val (hex_digit n) = Some n"
proof -
  have "\<forall>n \<in> set [0..<16]. hex_val (hex_digit n) = Some n"
    by code_simp
  then show "n < 16 \<Longrightarrow> ?thesis"
    by simp
qed

lemma hex_decode_encode [simp]: "hex_decode (hex_encode s) = Some s"
proof (induction s)
  case (Cons c s)
  have "n < 256 \<Longrightarrow> n div 16 < 16" for n :: nat
    by arith
  then have "hex_val (hex_digit (of_char c div 16)) = Some (of_char c div 16)"
    "hex_val (hex_digit (of_char c mod 16)) = Some (of_char c mod 16)"
    by (auto intro!: hex_val_digit)
  with Cons show ?case
    by (simp add: hex_encode_def)
qed (simp add: hex_encode_def)

lemma hashSecret_matches [simp]: "secretMatches raw (hashSecret raw)"
  by (simp add: secretMatches_def hashSecret_def length_Sum256)

lemma secretMatches_hash: "secretMatches raw (hashSecret other) \<longleftrightarrow> Sum256 raw = Sum256 other"
  by (auto simp: secretMatches_def hashSecret_def length_Sum256)

lemma hashSecret_eq: "hashSecret raw = hashSecret other \<longleftrightarrow> Sum256 raw = Sum256 other"
  by (metis hashSecret_def hex_decode_encode option.inject)

lemma hashSecret_not_Nil [simp]: "hashSecret raw \<noteq> []"
  using hashBytes_digest [of raw] by (auto simp: hashSecret_def hashBytes_def dest: sha256_digest_not_Nil)

end
