(* ===== verification/Settlement.thy ===== *)
theory Settlement
  imports AuditLog Actions Secrets "HOL-Library.AList"
begin

text \<open>
  Payment destinations of sellers: \<open>internal/settlement/{models,service,ownership,ownership_verifier,persistence}.go\<close>
  and the repository of \<open>internal/persistence/memory/payment_destinations.go\<close>. The Ethereum library is a
  parameter. The lemmas show that, whatever the interleaving of callers, a seller has at most one active
  destination for an asset and network, and that it became active only by a proof of ownership.
\<close>

section \<open>Destinations\<close>

abbreviation ErrOwnershipChallengeExpired :: go_error where
  "ErrOwnershipChallengeExpired \<equiv> Err ''settlement.ErrOwnershipChallengeExpired''"
abbreviation ErrOwnershipChallengeMismatch :: go_error where
  "ErrOwnershipChallengeMismatch \<equiv> Err ''settlement.ErrOwnershipChallengeMismatch''"
abbreviation ErrOwnershipProofInvalid :: go_error where
  "ErrOwnershipProofInvalid \<equiv> Err ''settlement.ErrOwnershipProofInvalid''"
abbreviation ErrOwnershipStateInvalid :: go_error where
  "ErrOwnershipStateInvalid \<equiv> Err ''settlement.ErrOwnershipStateInvalid''"
abbreviation ErrRotationConfirmationRequired :: go_error where
  "ErrRotationConfirmationRequired \<equiv> Err ''settlement.ErrRotationConfirmationRequired''"
abbreviation ErrOwnershipNetworkUnsupported :: go_error where
  "ErrOwnershipNetworkUnsupported \<equiv> Err ''settlement.ErrOwnershipNetworkUnsupported''"

datatype PaymentDestinationStatus =
    DestinationPendingVerification
  | DestinationActive
  | DestinationDisabled
  | DestinationRotated
  | DestinationOther string

record PaymentDestinationParams =
  dq_DestinationID :: ID
  dq_SellerID :: ID
  dq_Asset :: string
  dq_Network :: string
  dq_Address :: string
  dq_CreatedAt :: instant

record PaymentDestination =
  pd_DestinationID :: ID
  pd_SellerID :: ID
  pd_Asset :: string
  pd_Network :: string
  pd_Address :: string
  pd_Status :: PaymentDestinationStatus
  pd_ChallengeHash :: string
  pd_ChallengeExpiresAt :: "instant option"
  pd_VerifiedAt :: "instant option"
  pd_CreatedAt :: instant
  pd_UpdatedAt :: instant
  pd_Version :: u64

definition validatePublicValue :: "string \<Rightarrow> string \<Rightarrow> nat \<Rightarrow> validation_error list" where
  "validatePublicValue fieldName v maximumLength =
     (if v = [] then [NewValidationError fieldName ''required'' ''is required'']
      else add_if (maximumLength < length v)
             (NewValidationError fieldName ''length'' ''exceeds the maximum length'')
           @ add_if (has_control v)
             (NewValidationError fieldName ''format'' ''must not contain control characters''))"

definition NewPaymentDestination :: "PaymentDestinationParams \<Rightarrow> PaymentDestination result" where
  "NewPaymentDestination p =
     (let asset = TrimSpace (dq_Asset p); network = TrimSpace (dq_Network p); address = TrimSpace (dq_Address p);
          validationErrors =
            add_if (ID_Prefix (dq_DestinationID p) \<noteq> PaymentDestinationIDPrefix)
              (NewValidationError ''destinationId'' ''prefix'' ''must use the payment-destination prefix'')
            @ add_if (ID_Prefix (dq_SellerID p) \<noteq> SellerIDPrefix)
              (NewValidationError ''sellerId'' ''prefix'' ''must use the seller prefix'')
            @ validatePublicValue ''asset'' asset 160
            @ validatePublicValue ''network'' network 80
            @ validatePublicValue ''address'' address 256
            @ add_if (dq_CreatedAt p = 0) (NewValidationError ''createdAt'' ''required'' ''is required'')
      in reject_if (validationErrors \<noteq> []) (ValidationErrs validationErrors)
        (Inr \<lparr>pd_DestinationID = dq_DestinationID p, pd_SellerID = dq_SellerID p, pd_Asset = asset,
              pd_Network = network, pd_Address = address, pd_Status = DestinationPendingVerification,
              pd_ChallengeHash = [], pd_ChallengeExpiresAt = None, pd_VerifiedAt = None,
              pd_CreatedAt = dq_CreatedAt p, pd_UpdatedAt = dq_CreatedAt p, pd_Version = 1\<rparr>))"

section \<open>Proofs of ownership\<close>

text \<open>\<open>random\<close> is what reading 32 bytes of entropy returns.\<close>

definition NewNonce :: "string result \<Rightarrow> string result" where
  "NewNonce random = rbind random (\<lambda>b. Inr (base64_url b))"

definition buildOwnershipChallenge :: "PaymentDestination \<Rightarrow> string \<Rightarrow> instant \<Rightarrow> string" where
  "buildOwnershipChallenge d nonce expiresAt =
     Join [''AgentPay payment destination ownership'', ''Version: 1'', ''Seller: '' @ pd_SellerID d,
           ''Destination: '' @ pd_DestinationID d, ''Asset: '' @ pd_Asset d, ''Network: '' @ pd_Network d,
           ''Address: '' @ pd_Address d, ''Nonce: '' @ nonce, ''Expires At: '' @ FormatRFC3339Nano expiresAt]
       [CHR 0x0A]"

definition ownershipChallengeHash :: "string \<Rightarrow> string" where
  "ownershipChallengeHash challenge = hex_encode (Sum256 challenge)"

definition ownershipChallengeMatches :: "string \<Rightarrow> string \<Rightarrow> bool" where
  "ownershipChallengeMatches challenge expectedHash \<longleftrightarrow>
     (case hex_decode expectedHash of
        None \<Rightarrow> False
      | Some expected \<Rightarrow> length expected = 32 \<and> expected = Sum256 challenge)"

record VerifyOwnershipRequest =
  vo_Challenge :: string
  vo_Signature :: string
  vo_ConfirmRotation :: bool

definition validateOwnershipProofInput :: "VerifyOwnershipRequest \<Rightarrow> unit result" where
  "validateOwnershipProofInput q =
     (let validationErrors =
        (if TrimSpace (vo_Challenge q) = [] then [NewValidationError ''challenge'' ''required'' ''is required'']
         else add_if (2048 < length (vo_Challenge q))
           (NewValidationError ''challenge'' ''length'' ''exceeds the maximum length''))
        @ (if TrimSpace (vo_Signature q) = [] then [NewValidationError ''signature'' ''required'' ''is required'']
           else add_if (4096 < length (vo_Signature q))
             (NewValidationError ''signature'' ''length'' ''exceeds the maximum length''))
      in reject_if (validationErrors \<noteq> []) (ValidationErrs validationErrors) (Inr ()))"

text \<open>
  What the Ethereum library supplies: hexadecimal addresses and data, and the signer recovered from a
  message and a 65-byte signature.
\<close>

record evm_library =
  ev_isHexAddress :: "string \<Rightarrow> bool"
  ev_address :: "string \<Rightarrow> string"
  ev_decode :: "string \<Rightarrow> string option"
  ev_recover :: "string \<Rightarrow> string \<Rightarrow> string option"

definition EVM_VerifyOwnership :: "evm_library \<Rightarrow> PaymentDestination \<Rightarrow> string \<Rightarrow> string \<Rightarrow> bool result" where
  "EVM_VerifyOwnership evm d challenge signature =
     reject_if (\<not> HasPrefix (pd_Network d) ''eip155:'') ErrOwnershipNetworkUnsupported
    (reject_if (\<not> ev_isHexAddress evm (pd_Address d)) ErrOwnershipProofInvalid
    (case ev_decode evm signature of
       None \<Rightarrow> Inl ErrOwnershipProofInvalid
     | Some b \<Rightarrow>
         reject_if (length b \<noteq> 65) ErrOwnershipProofInvalid
        (let v = (of_char (b ! 64) :: nat);
             normalized = (if 27 \<le> v then b[64 := char_of (v - 27)] else b)
         in case ev_recover evm challenge normalized of
              None \<Rightarrow> Inl ErrOwnershipProofInvalid
            | Some address \<Rightarrow> Inr (address = ev_address evm (pd_Address d)))))"

section \<open>Persistence\<close>

definition validPaymentDestinationStatus :: "PaymentDestinationStatus \<Rightarrow> bool" where
  "validPaymentDestinationStatus status \<longleftrightarrow> (case status of DestinationOther _ \<Rightarrow> False | _ \<Rightarrow> True)"

text \<open>The snapshot has the fields of the destination.\<close>

definition RestorePaymentDestination :: "PaymentDestination \<Rightarrow> PaymentDestination result" where
  "RestorePaymentDestination s =
     rbind (NewPaymentDestination
       \<lparr>dq_DestinationID = pd_DestinationID s, dq_SellerID = pd_SellerID s, dq_Asset = pd_Asset s,
        dq_Network = pd_Network s, dq_Address = pd_Address s, dq_CreatedAt = pd_CreatedAt s\<rparr>) (\<lambda>d.
     reject_if (\<not> validPaymentDestinationStatus (pd_Status s) \<or> pd_UpdatedAt s = 0 \<or> pd_Version s = 0)
       (Err ''invalid payment destination snapshot'')
    (reject_if (pd_ChallengeHash s \<noteq> []
                \<and> (case hex_decode (pd_ChallengeHash s) of
                     None \<Rightarrow> True
                   | Some digest \<Rightarrow> length digest \<noteq> 32 \<or> pd_ChallengeExpiresAt s = None))
       (Err ''invalid payment destination challenge snapshot'')
    (reject_if (pd_ChallengeHash s = [] \<and> pd_ChallengeExpiresAt s \<noteq> None)
       (Err ''invalid payment destination challenge expiry'')
    (Inr (d\<lparr>pd_Status := pd_Status s, pd_ChallengeHash := pd_ChallengeHash s,
            pd_ChallengeExpiresAt := pd_ChallengeExpiresAt s, pd_VerifiedAt := pd_VerifiedAt s,
            pd_UpdatedAt := pd_UpdatedAt s, pd_Version := pd_Version s\<rparr>)))))"

section \<open>The repository\<close>

text \<open>The map is iterated, so it is an association list with distinct keys.\<close>

type_synonym PaymentDestinationRepository = "(ID \<times> PaymentDestination) list"

definition Destination_Create ::
  "PaymentDestinationRepository \<Rightarrow> PaymentDestination \<Rightarrow> PaymentDestinationRepository result" where
  "Destination_Create r d =
     reject_if (map_of r (pd_DestinationID d) \<noteq> None) ErrAlreadyExists
       (Inr (AList.update (pd_DestinationID d) d r))"

definition Destination_Get :: "PaymentDestinationRepository \<Rightarrow> ID \<Rightarrow> ID \<Rightarrow> PaymentDestination result" where
  "Destination_Get r sellerID k =
     (case map_of r k of
        None \<Rightarrow> Inl ErrNotFound
      | Some d \<Rightarrow> reject_if (pd_SellerID d \<noteq> sellerID) ErrNotFound (Inr d))"

definition Destination_ListBySeller :: "PaymentDestinationRepository \<Rightarrow> ID \<Rightarrow> PaymentDestination list" where
  "Destination_ListBySeller r sellerID = filter (\<lambda>d. pd_SellerID d = sellerID) (map snd r)"

definition stored_version :: "PaymentDestinationRepository \<Rightarrow> PaymentDestination \<Rightarrow> u64 \<Rightarrow> bool" where
  "stored_version r d expectedVersion \<longleftrightarrow>
     (case map_of r (pd_DestinationID d) of
        None \<Rightarrow> False
      | Some s \<Rightarrow> pd_SellerID s = pd_SellerID d \<and> pd_Version s = expectedVersion)"

definition SaveChallenge ::
  "PaymentDestinationRepository \<Rightarrow> PaymentDestination \<Rightarrow> u64 \<Rightarrow> PaymentDestinationRepository result" where
  "SaveChallenge r d expectedVersion =
     reject_if (\<not> stored_version r d expectedVersion) ErrConditionFailed
       (Inr (AList.update (pd_DestinationID d) d r))"

definition same_pair :: "PaymentDestination \<Rightarrow> PaymentDestination \<Rightarrow> bool" where
  "same_pair d e \<longleftrightarrow> pd_SellerID e = pd_SellerID d \<and> pd_Asset e = pd_Asset d \<and> pd_Network e = pd_Network d"

definition activeDestination :: "PaymentDestinationRepository \<Rightarrow> PaymentDestination \<Rightarrow> PaymentDestination option" where
  "activeDestination r d =
     find (\<lambda>e. pd_DestinationID e \<noteq> pd_DestinationID d \<and> same_pair d e \<and> pd_Status e = DestinationActive) (map snd r)"

record PaymentDestinationActivation =
  da_Destination :: PaymentDestination
  da_ExpectedVersion :: u64
  da_RotatedDestination :: "PaymentDestination option"
  da_RotatedExpectedVersion :: u64

definition Activate ::
  "PaymentDestinationRepository \<Rightarrow> PaymentDestinationActivation \<Rightarrow> PaymentDestinationRepository result" where
  "Activate r a =
     (let d = da_Destination a; active = activeDestination r d
      in reject_if (\<not> stored_version r d (da_ExpectedVersion a)) ErrConditionFailed
        (reject_if (active \<noteq> None \<and> da_RotatedDestination a = None) ErrRotationConfirmationRequired
        (case da_RotatedDestination a of
           None \<Rightarrow> Inr (AList.update (pd_DestinationID d) d r)
         | Some rotated \<Rightarrow>
             (case active of
                None \<Rightarrow> Inl ErrConditionFailed
              | Some e \<Rightarrow>
                  reject_if (pd_DestinationID e \<noteq> pd_DestinationID rotated
                             \<or> pd_Version e \<noteq> da_RotatedExpectedVersion a) ErrConditionFailed
                    (Inr (AList.update (pd_DestinationID d) d (AList.update (pd_DestinationID e) rotated r)))))))"

section \<open>The service\<close>

record settlement_state =
  ds_destinations :: PaymentDestinationRepository
  ds_audit :: AuditEventRepository

text \<open>
  The collaborators of one call: the answer of the seller authorizer, identifier and nonce generators,
  the ownership verifier, the clock, and what the audit recorder reads for each of its events.
\<close>

record settlement_call =
  dc_ulid :: "string \<Rightarrow> bool"
  dc_authorized :: "unit result"
  dc_id :: "ID result"
  dc_nonce :: "string result"
  dc_verify :: "PaymentDestination \<Rightarrow> string \<Rightarrow> string \<Rightarrow> bool result"
  dc_now :: instant
  dc_event1 :: "ID result \<times> instant"
  dc_event2 :: "ID result \<times> instant"
  dc_requestID :: string

definition in_destinations ::
  "(PaymentDestinationRepository \<Rightarrow> PaymentDestinationRepository result) \<Rightarrow> (settlement_state, unit) action" where
  "in_destinations f = writing (\<lambda>s. f (ds_destinations s)) (\<lambda>r s. s\<lparr>ds_destinations := r\<rparr>)"

definition destination_record ::
  "settlement_call \<Rightarrow> ID result \<times> instant \<Rightarrow> ID \<Rightarrow> string \<Rightarrow> AuditAction \<Rightarrow> ID \<Rightarrow> string list \<Rightarrow> (settlement_state, unit) action" where
  "destination_record c event sellerID ownerSubject act k changed =
     writing (\<lambda>s. Audit_Record (dc_ulid c) (ds_audit s) (fst event) (snd event) (dc_requestID c)
       \<lparr>rr_SellerID = sellerID, rr_ActorType = ActorTypeSellerUser, rr_ActorID = ownerSubject, rr_Action = act,
        rr_TargetType = TargetTypePaymentDestination, rr_TargetID = k, rr_Outcome = OutcomeSucceeded,
        rr_RequestID = [], rr_ChangedFields = changed\<rparr>) (\<lambda>a s. s\<lparr>ds_audit := a\<rparr>)"

record CreatePaymentDestinationRequest =
  cp_Asset :: string
  cp_Network :: string
  cp_Address :: string

definition Settlement_Create ::
  "settlement_call \<Rightarrow> string \<Rightarrow> ID \<Rightarrow> CreatePaymentDestinationRequest \<Rightarrow> (settlement_state, PaymentDestination) action" where
  "Settlement_Create c ownerSubject sellerID q =
     abind (pure (dc_authorized c)) (\<lambda>_.
     abind (pure (dc_id c)) (\<lambda>k.
     abind (pure (NewPaymentDestination
       \<lparr>dq_DestinationID = k, dq_SellerID = sellerID, dq_Asset = cp_Asset q, dq_Network = cp_Network q,
        dq_Address = cp_Address q, dq_CreatedAt = dc_now c\<rparr>)) (\<lambda>d.
     abind (in_destinations (\<lambda>r. Destination_Create r d)) (\<lambda>_.
     abind (destination_record c (dc_event1 c) sellerID ownerSubject ActionPaymentDestinationCreated
       (pd_DestinationID d) [''asset'', ''network'', ''address'', ''status'']) (\<lambda>_.
     pure (Inr d))))))"

definition Settlement_Get ::
  "settlement_call \<Rightarrow> ID \<Rightarrow> ID \<Rightarrow> (settlement_state, PaymentDestination) action" where
  "Settlement_Get c sellerID k =
     abind (pure (dc_authorized c)) (\<lambda>_. reading (\<lambda>s. Destination_Get (ds_destinations s) sellerID k))"

text \<open>Newest first; equal instants by descending identifier.\<close>

definition destination_before :: "PaymentDestination \<Rightarrow> PaymentDestination \<Rightarrow> bool" where
  "destination_before d e \<longleftrightarrow>
     (if pd_CreatedAt d = pd_CreatedAt e then pd_DestinationID e < pd_DestinationID d
      else pd_CreatedAt e < pd_CreatedAt d)"

fun insert_destination :: "PaymentDestination \<Rightarrow> PaymentDestination list \<Rightarrow> PaymentDestination list" where
  "insert_destination d [] = [d]"
| "insert_destination d (e # es) = (if destination_before e d then e # insert_destination d es else d # e # es)"

definition Settlement_List :: "settlement_call \<Rightarrow> ID \<Rightarrow> (settlement_state, PaymentDestination list) action" where
  "Settlement_List c sellerID =
     abind (pure (dc_authorized c)) (\<lambda>_.
     reading (\<lambda>s. Inr (foldr insert_destination (Destination_ListBySeller (ds_destinations s) sellerID) [])))"

definition challenged :: "PaymentDestination \<Rightarrow> string \<Rightarrow> instant \<Rightarrow> PaymentDestination" where
  "challenged d challenge now =
     d\<lparr>pd_ChallengeHash := ownershipChallengeHash challenge, pd_ChallengeExpiresAt := Some (now + 10 * Minute),
       pd_UpdatedAt := now, pd_Version := pd_Version d + 1\<rparr>"

definition IssueOwnershipChallenge ::
  "settlement_call \<Rightarrow> ID \<Rightarrow> ID \<Rightarrow> (settlement_state, string \<times> instant) action" where
  "IssueOwnershipChallenge c sellerID k =
     abind (pure (dc_authorized c)) (\<lambda>_.
     abind (reading (\<lambda>s. Destination_Get (ds_destinations s) sellerID k)) (\<lambda>d.
     guard (pd_Status d \<noteq> DestinationPendingVerification) ErrOwnershipStateInvalid
    (abind (pure (dc_nonce c)) (\<lambda>nonce.
     let challenge = buildOwnershipChallenge d nonce (dc_now c + 10 * Minute)
     in abind (in_destinations (\<lambda>r. SaveChallenge r (challenged d challenge (dc_now c)) (pd_Version d))) (\<lambda>_.
        pure (Inr (challenge, dc_now c + 10 * Minute)))))))"

definition findActiveDestination :: "PaymentDestination list \<Rightarrow> PaymentDestination \<Rightarrow> PaymentDestination option" where
  "findActiveDestination ds d =
     find (\<lambda>e. pd_DestinationID e \<noteq> pd_DestinationID d \<and> pd_Asset e = pd_Asset d \<and> pd_Network e = pd_Network d
              \<and> pd_Status e = DestinationActive) ds"

definition activated :: "PaymentDestination \<Rightarrow> instant \<Rightarrow> PaymentDestination" where
  "activated d now =
     d\<lparr>pd_Status := DestinationActive, pd_ChallengeHash := [], pd_ChallengeExpiresAt := None,
       pd_VerifiedAt := Some now, pd_UpdatedAt := now, pd_Version := pd_Version d + 1\<rparr>"

definition rotated :: "PaymentDestination \<Rightarrow> instant \<Rightarrow> PaymentDestination" where
  "rotated e now = e\<lparr>pd_Status := DestinationRotated, pd_UpdatedAt := now, pd_Version := pd_Version e + 1\<rparr>"

definition activation :: "PaymentDestination \<Rightarrow> PaymentDestination option \<Rightarrow> instant \<Rightarrow> PaymentDestinationActivation" where
  "activation d active now =
     \<lparr>da_Destination = activated d now, da_ExpectedVersion = pd_Version d,
      da_RotatedDestination = map_option (\<lambda>e. rotated e now) active,
      da_RotatedExpectedVersion = (case active of None \<Rightarrow> 0 | Some e \<Rightarrow> pd_Version e)\<rparr>"

definition VerifyOwnership ::
  "settlement_call \<Rightarrow> string \<Rightarrow> ID \<Rightarrow> ID \<Rightarrow> VerifyOwnershipRequest \<Rightarrow> (settlement_state, PaymentDestination) action" where
  "VerifyOwnership c ownerSubject sellerID k q =
     abind (pure (validateOwnershipProofInput q)) (\<lambda>_.
     abind (pure (dc_authorized c)) (\<lambda>_.
     abind (reading (\<lambda>s. Destination_Get (ds_destinations s) sellerID k)) (\<lambda>d.
     guard (pd_Status d \<noteq> DestinationPendingVerification \<or> pd_ChallengeHash d = [] \<or> pd_ChallengeExpiresAt d = None)
       ErrOwnershipStateInvalid
    (guard (case pd_ChallengeExpiresAt d of None \<Rightarrow> False | Some expiresAt \<Rightarrow> expiresAt \<le> dc_now c)
       ErrOwnershipChallengeExpired
    (guard (\<not> ownershipChallengeMatches (vo_Challenge q) (pd_ChallengeHash d)) ErrOwnershipChallengeMismatch
    (abind (pure (dc_verify c d (vo_Challenge q) (vo_Signature q))) (\<lambda>valid.
     guard (\<not> valid) ErrOwnershipProofInvalid
    (abind (reading (\<lambda>s. Inr (findActiveDestination
        (Destination_ListBySeller (ds_destinations s) (pd_SellerID d)) d))) (\<lambda>active.
     guard (active \<noteq> None \<and> \<not> vo_ConfirmRotation q) ErrRotationConfirmationRequired
    (abind (in_destinations (\<lambda>r. Activate r (activation d active (dc_now c)))) (\<lambda>_.
     abind (destination_record c (dc_event1 c) sellerID ownerSubject ActionPaymentDestinationVerified
       (pd_DestinationID d) [''status'', ''verifiedAt'']) (\<lambda>_.
     abind (case active of
              None \<Rightarrow> pure (Inr ())
            | Some e \<Rightarrow> destination_record c (dc_event2 c) sellerID ownerSubject ActionPaymentDestinationRotated
                (pd_DestinationID e) [''status'']) (\<lambda>_.
     pure (Inr (activated d (dc_now c))))))))))))))))"

section \<open>One active destination\<close>

text \<open>
  The stored destination a proof is accepted for: pending, with an unexpired challenge whose digest is
  that of the challenge presented, for which the verifier accepts the signature.
\<close>

definition proof_accepted ::
  "settlement_call \<Rightarrow> VerifyOwnershipRequest \<Rightarrow> PaymentDestination \<Rightarrow> bool" where
  "proof_accepted c q d \<longleftrightarrow>
     pd_Status d = DestinationPendingVerification
     \<and> (case pd_ChallengeExpiresAt d of None \<Rightarrow> False | Some expiresAt \<Rightarrow> dc_now c < expiresAt)
     \<and> hex_decode (pd_ChallengeHash d) = Some (Sum256 (vo_Challenge q))
     \<and> dc_verify c d (vo_Challenge q) (vo_Signature q) = Inr True"

text \<open>
  The calls of the repository as the service prepares them, in any order and from any number of
  callers: each works on a destination \<open>u\<close> and an active destination it has read at some earlier time.
  Activation is prepared only after the deployment's verifier \<open>verify\<close> accepted the proof of a call.
\<close>

inductive settlement_step ::
  "(PaymentDestination \<Rightarrow> string \<Rightarrow> string \<Rightarrow> bool result) \<Rightarrow> PaymentDestinationRepository
     \<Rightarrow> PaymentDestinationRepository \<Rightarrow> bool"
  for verify :: "PaymentDestination \<Rightarrow> string \<Rightarrow> string \<Rightarrow> bool result" where
  create: "NewPaymentDestination p = Inr d \<Longrightarrow> Destination_Create r d = Inr r' \<Longrightarrow> settlement_step verify r r'"
| challenge: "pd_Status u = DestinationPendingVerification \<Longrightarrow>
    SaveChallenge r (challenged u text now) v = Inr r' \<Longrightarrow> settlement_step verify r r'"
| activate: "dc_verify c = verify \<Longrightarrow> proof_accepted c q u \<Longrightarrow>
    Activate r (activation u active (dc_now c)) = Inr r' \<Longrightarrow> settlement_step verify r r'"

definition single_active :: "(ID \<rightharpoonup> PaymentDestination) \<Rightarrow> bool" where
  "single_active m \<longleftrightarrow>
     (\<forall>k k' d d'. m k = Some d \<and> m k' = Some d' \<and> pd_Status d = DestinationActive
        \<and> pd_Status d' = DestinationActive \<and> same_pair d d' \<longrightarrow> k = k')"

definition wf_destination :: "ID \<Rightarrow> PaymentDestination \<Rightarrow> bool" where
  "wf_destination k d \<longleftrightarrow>
     pd_DestinationID d = k
     \<and> (pd_Status d = DestinationActive \<longrightarrow> pd_VerifiedAt d \<noteq> None \<and> pd_ChallengeHash d = [])"

definition wf_destinations :: "PaymentDestinationRepository \<Rightarrow> bool" where
  "wf_destinations r \<longleftrightarrow>
     distinct (map fst r) \<and> (\<forall>k d. map_of r k = Some d \<longrightarrow> wf_destination k d) \<and> single_active (map_of r)"

lemma same_pair_sym: "same_pair d e \<longleftrightarrow> same_pair e d"
  by (auto simp: same_pair_def)

lemma single_active_upd:
  assumes "single_active m"
    "pd_Status d = DestinationActive \<Longrightarrow>
      (\<And>k' e. k' \<noteq> k \<Longrightarrow> m k' = Some e \<Longrightarrow> pd_Status e = DestinationActive \<Longrightarrow> \<not> same_pair d e)"
  shows "single_active (m(k \<mapsto> d))"
  unfolding single_active_def
proof (intro allI impI)
  fix k1 k2 d1 d2
  assume *: "(m(k \<mapsto> d)) k1 = Some d1 \<and> (m(k \<mapsto> d)) k2 = Some d2 \<and> pd_Status d1 = DestinationActive
    \<and> pd_Status d2 = DestinationActive \<and> same_pair d1 d2"
  then show "k1 = k2"
    using assms(2) [of k1 d1] assms(2) [of k2 d2] assms(1)
    by (cases "k1 = k"; cases "k2 = k") (auto simp: single_active_def same_pair_sym)
qed

lemma wf_destinations_update:
  assumes "wf_destinations r" "wf_destination k d" "single_active ((map_of r)(k \<mapsto> d))"
  shows "wf_destinations (AList.update k d r)"
  using assms by (auto simp: wf_destinations_def AList.update_conv' distinct_update)

lemma wf_destinations_inactive:
  assumes "wf_destinations r" "pd_DestinationID d = k" "pd_Status d \<noteq> DestinationActive"
  shows "wf_destinations (AList.update k d r)"
  using assms
  by (intro wf_destinations_update single_active_upd) (auto simp: wf_destinations_def wf_destination_def)

lemma stored_in_list: "distinct (map fst r) \<Longrightarrow> (k, d) \<in> set r \<longleftrightarrow> map_of r k = Some d"
  by simp

lemma activeDestination_None:
  assumes "activeDestination r d = None" "map_of r k = Some e" "pd_DestinationID e \<noteq> pd_DestinationID d"
    "pd_Status e = DestinationActive"
  shows "\<not> same_pair d e"
proof -
  have "e \<in> set (map snd r)"
    using map_of_SomeD [OF assms(2)] by force
  then show ?thesis
    using assms(1,3,4) by (auto simp: activeDestination_def find_None_iff)
qed

lemma activeDestination_Some:
  assumes "wf_destinations r" "activeDestination r d = Some e"
  shows "map_of r (pd_DestinationID e) = Some e" "pd_Status e = DestinationActive" "same_pair d e"
    "pd_DestinationID e \<noteq> pd_DestinationID d"
proof -
  have e: "e \<in> set (map snd r)" "pd_Status e = DestinationActive \<and> same_pair d e \<and> pd_DestinationID e \<noteq> pd_DestinationID d"
    using assms(2) by (auto simp: activeDestination_def find_Some_iff)
  then obtain k where "map_of r k = Some e"
    using assms(1) by (auto simp: wf_destinations_def)
  then show "map_of r (pd_DestinationID e) = Some e"
    using assms(1) by (auto simp: wf_destinations_def wf_destination_def)
  show "pd_Status e = DestinationActive" "same_pair d e" "pd_DestinationID e \<noteq> pd_DestinationID d"
    using e(2) by auto
qed

lemma Activate_wf:
  assumes wf: "wf_destinations r" and run: "Activate r (activation u active now) = Inr r'"
  shows "wf_destinations r'"
proof -
  let ?d = "activated u now"
  have d: "wf_destination (pd_DestinationID ?d) ?d"
    by (simp add: wf_destination_def activated_def)
  have ids: "map_of r k = Some e \<Longrightarrow> pd_DestinationID e = k" for k e
    using wf by (auto simp: wf_destinations_def wf_destination_def)
  show ?thesis
  proof (cases active)
    case None
    then have none: "activeDestination r ?d = None" and r': "r' = AList.update (pd_DestinationID ?d) ?d r"
      using run by (auto simp: Activate_def Let_def result_simps activation_def)
    have "single_active ((map_of r)(pd_DestinationID ?d \<mapsto> ?d))"
      using wf activeDestination_None [OF none] ids
      by (intro single_active_upd) (auto simp: wf_destinations_def)
    then show ?thesis
      unfolding r' by (rule wf_destinations_update [OF wf d])
  next
    case (Some a)
    then obtain e where e: "activeDestination r ?d = Some e" "pd_DestinationID e = pd_DestinationID (rotated a now)"
      and r': "r' = AList.update (pd_DestinationID ?d) ?d (AList.update (pd_DestinationID e) (rotated a now) r)"
      using run by (auto simp: Activate_def Let_def result_simps activation_def split: option.split_asm)
    let ?r1 = "AList.update (pd_DestinationID e) (rotated a now) r"
    note found = activeDestination_Some [OF wf e(1)]
    have wf1: "wf_destinations ?r1"
      using e(2) by (intro wf_destinations_inactive [OF wf]) (simp_all add: rotated_def)
    have "\<not> same_pair ?d x" if x: "k \<noteq> pd_DestinationID ?d" "map_of ?r1 k = Some x" "pd_Status x = DestinationActive" for k x
    proof
      assume "same_pair ?d x"
      have "k \<noteq> pd_DestinationID e" "map_of r k = Some x"
        using x by (auto simp: AList.update_conv' rotated_def split: if_split_asm)
      moreover have "same_pair e x"
        using found(3) \<open>same_pair ?d x\<close> by (simp add: same_pair_def)
      ultimately have "k = pd_DestinationID e"
        using wf found(1,2) x(3) unfolding wf_destinations_def single_active_def by blast
      with \<open>k \<noteq> pd_DestinationID e\<close> show False ..
    qed
    then have "single_active ((map_of ?r1)(pd_DestinationID ?d \<mapsto> ?d))"
      using wf1 by (intro single_active_upd) (auto simp: wf_destinations_def)
    then show ?thesis
      unfolding r' by (rule wf_destinations_update [OF wf1 d])
  qed
qed

lemma settlement_step_wf:
  assumes "settlement_step verify r r'" "wf_destinations r"
  shows "wf_destinations r'"
  using assms(1)
proof cases
  case (create p d)
  then have "pd_Status d = DestinationPendingVerification" "r' = AList.update (pd_DestinationID d) d r"
    by (auto simp: NewPaymentDestination_def Let_def Destination_Create_def result_simps)
  then show ?thesis
    by (simp add: wf_destinations_inactive [OF assms(2)])
next
  case (challenge u "text" now v)
  then show ?thesis
    by (auto simp: SaveChallenge_def result_simps challenged_def intro: wf_destinations_inactive [OF assms(2)])
next
  case (activate c q u active)
  then show ?thesis
    using Activate_wf [OF assms(2)] by blast
qed

lemma settlement_reachable_wf: "(settlement_step verify)\<^sup>*\<^sup>* [] r \<Longrightarrow> wf_destinations r"
proof (induction rule: rtranclp_induct)
  case base
  show ?case by (simp add: wf_destinations_def single_active_def)
next
  case (step y z)
  then show ?case by (blast intro: settlement_step_wf)
qed

text \<open>Every active destination is the result of an accepted proof.\<close>

definition proven ::
  "(PaymentDestination \<Rightarrow> string \<Rightarrow> string \<Rightarrow> bool result) \<Rightarrow> PaymentDestinationRepository \<Rightarrow> bool" where
  "proven verify r \<longleftrightarrow>
     (\<forall>k d. map_of r k = Some d \<and> pd_Status d = DestinationActive \<longrightarrow>
        (\<exists>c q u. dc_verify c = verify \<and> proof_accepted c q u \<and> d = activated u (dc_now c)))"

lemma proven_update:
  assumes "proven verify r"
    and "pd_Status d = DestinationActive \<Longrightarrow>
      \<exists>c q u. dc_verify c = verify \<and> proof_accepted c q u \<and> d = activated u (dc_now c)"
  shows "proven verify (AList.update k d r)"
  using assms unfolding proven_def AList.update_conv' by (metis fun_upd_apply option.inject)

lemma settlement_step_proven:
  assumes "settlement_step verify r r'" "proven verify r"
  shows "proven verify r'"
  using assms(1)
proof cases
  case (create p d)
  then have "pd_Status d = DestinationPendingVerification" "r' = AList.update (pd_DestinationID d) d r"
    by (auto simp: NewPaymentDestination_def Let_def Destination_Create_def result_simps)
  then show ?thesis
    using proven_update [OF assms(2), of d] by simp
next
  case (challenge u "text" now v)
  then show ?thesis
    by (auto simp: SaveChallenge_def result_simps challenged_def intro: proven_update [OF assms(2)])
next
  case (activate c q u active)
  have new: "\<exists>c q u'. dc_verify c = verify \<and> proof_accepted c q u' \<and> activated u (dc_now c0) = activated u' (dc_now c)"
    if "c0 = c" for c0
    using that activate(1,2) by blast
  from activate(3) show ?thesis
    unfolding Activate_def Let_def activation_def
    by (auto simp: result_simps rotated_def split: option.split_asm intro!: proven_update assms(2) new)
qed

lemma settlement_reachable_proven: "(settlement_step verify)\<^sup>*\<^sup>* [] r \<Longrightarrow> proven verify r"
proof (induction rule: rtranclp_induct)
  case base
  show ?case by (simp add: proven_def)
next
  case (step y z)
  then show ?case by (blast intro: settlement_step_proven)
qed

text \<open>Every call of the service makes at most one such step.\<close>

lemma in_destinations_run:
  "in_destinations f s = (case f (ds_destinations s) of Inl e \<Rightarrow> (Inl e, s) | Inr r \<Rightarrow> (Inr (), s\<lparr>ds_destinations := r\<rparr>))"
  by (simp add: in_destinations_def writing_run)

lemma destination_record_keeps [simp]:
  "ds_destinations (snd (destination_record c event sellerID owner act k changed s)) = ds_destinations s"
  by (simp add: destination_record_def writing_run split: sum.split)

lemma Settlement_Create_step:
  "(settlement_step verify)\<^sup>=\<^sup>= (ds_destinations s) (ds_destinations (snd (Settlement_Create c owner sellerID q s)))"
  by (auto simp: Settlement_Create_def action_simps in_destinations_run split: sum.splits intro: create)

lemma IssueOwnershipChallenge_step:
  "(settlement_step verify)\<^sup>=\<^sup>= (ds_destinations s) (ds_destinations (snd (IssueOwnershipChallenge c sellerID k s)))"
  by (auto simp: IssueOwnershipChallenge_def Let_def action_simps in_destinations_run split: sum.splits intro: challenge)

section \<open>Ownership\<close>

definition other_active :: "PaymentDestinationRepository \<Rightarrow> PaymentDestination \<Rightarrow> PaymentDestination \<Rightarrow> bool" where
  "other_active r d e \<longleftrightarrow>
     map_of r (pd_DestinationID e) = Some e \<and> pd_DestinationID e \<noteq> pd_DestinationID d
     \<and> same_pair d e \<and> pd_Status e = DestinationActive"

lemma findActive_None:
  assumes "wf_destinations r" "findActiveDestination (Destination_ListBySeller r (pd_SellerID d)) d = None"
  shows "\<not> other_active r d e"
proof
  assume e: "other_active r d e"
  then have "e \<in> set (map snd r)"
    by (force simp: other_active_def dest!: map_of_SomeD)
  with e show False
    using assms(2)
    by (auto simp: findActiveDestination_def Destination_ListBySeller_def find_None_iff other_active_def same_pair_def)
qed

text \<open>
  A call that does not leave the destinations as they were, or succeeds, has accepted the proof and
  activated the destination; what fails after that is only the recording in the audit log.
\<close>

lemma past_destinations:
  assumes "abind (in_destinations f) g s = (res, s')" "\<not> (s' = s \<and> \<not> is_ok res)"
  obtains r where "f (ds_destinations s) = Inr r" "g () (s\<lparr>ds_destinations := r\<rparr>) = (res, s')"
  using assms by (cases "f (ds_destinations s)") (auto simp: abind_run in_destinations_run)

lemma past_reading:
  assumes "abind (reading f) g s = (res, s')" "\<not> (s' = s \<and> \<not> is_ok res)"
  obtains x where "f s = Inr x" "g x s = (res, s')"
  using assms by (cases "f s") (auto simp: abind_run)

lemma records_keep:
  assumes "abind (destination_record c ev sellerID owner act k changed) (\<lambda>_.
      abind (case active of None \<Rightarrow> pure (Inr ())
             | Some e \<Rightarrow> destination_record c ev' sellerID owner act' (f e) changed') (\<lambda>_. pure (Inr d))) s
    = (res, s')"
  shows "ds_destinations s' = ds_destinations s \<and> (res = Inr d \<or> (\<exists>e. res = Inl e))"
proof -
  let ?m = "destination_record c ev sellerID owner act k changed"
  have "ds_destinations (snd (?m s)) = ds_destinations s"
    by simp
  with assms show ?thesis
    by (cases active) (auto simp: abind_run split: sum.split_asm)
qed

lemma VerifyOwnership_accepted:
  assumes "VerifyOwnership c owner sellerID k q s = (res, s')" "\<not> (s' = s \<and> \<not> is_ok res)"
  obtains d active where "Destination_Get (ds_destinations s) sellerID k = Inr d" "proof_accepted c q d"
    "findActiveDestination (Destination_ListBySeller (ds_destinations s) (pd_SellerID d)) d = active"
    "active = None \<or> vo_ConfirmRotation q"
    "Activate (ds_destinations s) (activation d active (dc_now c)) = Inr (ds_destinations s')"
    "res = Inr (activated d (dc_now c)) \<or> (\<exists>e. res = Inl e)"
proof -
  note past = past_pure [OF _ assms(2)] past_reading [OF _ assms(2)] past_guard [OF _ assms(2)]
    past_destinations [OF _ assms(2)]
  from assms(1) show thesis
    unfolding VerifyOwnership_def
  proof (elim past, goal_cases)
    case (1 u u' d valid active r)
    then show thesis
      using records_keep [OF 1(12)]
      by (intro that [of d active]) (auto simp: proof_accepted_def ownershipChallengeMatches_def split: option.split_asm)
  qed
qed

lemma Activate_stored:
  assumes "Activate r (activation d active now) = Inr r'" "pd_DestinationID d = k"
  shows "map_of r' k = Some (activated d now)"
  using assms
  by (auto simp: Activate_def Let_def result_simps activation_def AList.update_conv' activated_def
      split: option.split_asm)

text \<open>What activation does to the other destinations.\<close>

lemma Activate_others:
  assumes wf: "wf_destinations r" and run: "Activate r (activation d active now) = Inr r'"
    and id: "pd_DestinationID d = k"
    and read: "findActiveDestination (Destination_ListBySeller r (pd_SellerID d)) d = active"
  shows "\<forall>k'. k' \<noteq> k \<longrightarrow> map_of r' k' = map_of r k'
    \<or> (\<exists>e. map_of r k' = Some e \<and> other_active r d e \<and> map_of r' k' = Some (rotated e now))"
proof (cases active)
  case None
  then show ?thesis
    using run id by (auto simp: Activate_def Let_def result_simps activation_def AList.update_conv' activated_def)
next
  case (Some a)
  then obtain e where e: "activeDestination r (activated d now) = Some e"
      "pd_DestinationID e = pd_DestinationID a" "pd_Version e = pd_Version a"
      "r' = AList.update k (activated d now) (AList.update (pd_DestinationID e) (rotated a now) r)"
    using run id by (auto simp: Activate_def Let_def result_simps activation_def activated_def rotated_def
        split: option.split_asm)
  note found = activeDestination_Some [OF wf e(1)]
  have "a \<in> set (Destination_ListBySeller r (pd_SellerID d))"
    using read [unfolded Some findActiveDestination_def find_Some_iff] by (metis nth_mem)
  then have "map_of r (pd_DestinationID a) = Some a"
    using wf unfolding Destination_ListBySeller_def by (auto simp: wf_destinations_def wf_destination_def)
  then have "a = e"
    using found(1) e(2) by simp
  moreover have "other_active r d e"
    using found by (simp add: other_active_def same_pair_def activated_def)
  ultimately show ?thesis
    using e found
    by (auto simp: AList.update_conv')
qed

text \<open>
  C12: a payment destination receives payments only after its owner proved it. Take any state the service can
  reach, whatever calls were made. Every destination stored as active is the result of a proof that the
  verifier accepted: for a pending destination, with the challenge issued for it, before the challenge
  expired. A call of \<open>VerifyOwnership\<close> leaves all destinations as they were and fails, or the proof it
  presents was accepted in this sense for the stored destination, and the caller confirmed the rotation if
  there was another active destination for the same seller, asset and network. Then, even if the call fails
  later, the destination is stored as active and verified now, is the only active one for its seller, asset
  and network, and every other stored destination is unchanged, or was the active one and is now rotated.
\<close>

theorem payment_destination_verified:
  assumes reach: "(settlement_step (dc_verify c))\<^sup>*\<^sup>* [] (ds_destinations s)"
    and run: "VerifyOwnership c owner sellerID k q s = (res, s')"
  shows "(settlement_step (dc_verify c))\<^sup>*\<^sup>* [] (ds_destinations s') \<and> wf_destinations (ds_destinations s')
    \<and> proven (dc_verify c) (ds_destinations s')
    \<and> (s' = s \<and> \<not> is_ok res
       \<or> (\<exists>d. map_of (ds_destinations s) k = Some d \<and> pd_SellerID d = sellerID \<and> proof_accepted c q d
           \<and> ((\<exists>e. other_active (ds_destinations s) d e) \<longrightarrow> vo_ConfirmRotation q)
           \<and> map_of (ds_destinations s') k = Some (activated d (dc_now c))
           \<and> (res = Inr (activated d (dc_now c)) \<or> (\<exists>e. res = Inl e))
           \<and> (\<nexists>e. other_active (ds_destinations s') (activated d (dc_now c)) e)
           \<and> (\<forall>k'. k' \<noteq> k \<longrightarrow> map_of (ds_destinations s') k' = map_of (ds_destinations s) k'
                \<or> (\<exists>e. map_of (ds_destinations s) k' = Some e \<and> other_active (ds_destinations s) d e
                     \<and> map_of (ds_destinations s') k' = Some (rotated e (dc_now c))))))"
proof (cases "s' = s \<and> \<not> is_ok res")
  case True
  then show ?thesis
    using reach settlement_reachable_wf [OF reach] settlement_reachable_proven [OF reach] by simp
next
  case False
  then obtain d active where d: "Destination_Get (ds_destinations s) sellerID k = Inr d" "proof_accepted c q d"
      "findActiveDestination (Destination_ListBySeller (ds_destinations s) (pd_SellerID d)) d = active"
      "active = None \<or> vo_ConfirmRotation q"
      "Activate (ds_destinations s) (activation d active (dc_now c)) = Inr (ds_destinations s')"
      "res = Inr (activated d (dc_now c)) \<or> (\<exists>e. res = Inl e)"
    using VerifyOwnership_accepted [OF run] by blast
  have "settlement_step (dc_verify c) (ds_destinations s) (ds_destinations s')"
    by (rule activate [OF refl d(2,5)])
  with reach have reach': "(settlement_step (dc_verify c))\<^sup>*\<^sup>* [] (ds_destinations s')"
    by (rule rtranclp.rtrancl_into_rtrancl)
  note wf = settlement_reachable_wf [OF reach] and wf' = settlement_reachable_wf [OF reach']
  have stored: "map_of (ds_destinations s) k = Some d" "pd_SellerID d = sellerID"
    using d(1) by (auto simp: Destination_Get_def result_simps split: option.split_asm)
  then have id: "pd_DestinationID d = k"
    using wf by (auto simp: wf_destinations_def wf_destination_def)
  note stored' = Activate_stored [OF d(5) id]
  have "\<not> other_active (ds_destinations s') (activated d (dc_now c)) e" for e
    using wf' stored' id
    by (fastforce simp: wf_destinations_def single_active_def other_active_def activated_def)
  moreover have "(\<exists>e. other_active (ds_destinations s) d e) \<longrightarrow> vo_ConfirmRotation q"
    using d(3,4) findActive_None [OF wf] by blast
  ultimately show ?thesis
    using reach' wf' settlement_reachable_proven [OF reach'] stored stored' d(2,6)
      Activate_others [OF wf d(5) id d(3)] by blast
qed

definition sample_destination :: PaymentDestination where
  "sample_destination =
     \<lparr>pd_DestinationID = ''dst_01ARZ3NDEKTSV4RRFFQ69G5FAV'', pd_SellerID = ''sel_01ARZ3NDEKTSV4RRFFQ69G5FAV'',
      pd_Asset = ''USDC'', pd_Network = ''eip155:84532'', pd_Address = ''0x123'',
      pd_Status = DestinationPendingVerification, pd_ChallengeHash = [], pd_ChallengeExpiresAt = None,
      pd_VerifiedAt = None, pd_CreatedAt = 1000, pd_UpdatedAt = 1000, pd_Version = 1\<rparr>"

definition sample_settlement :: settlement_state where
  "sample_settlement =
     \<lparr>ds_destinations = [(pd_DestinationID sample_destination, challenged sample_destination ''challenge'' 2000)],
      ds_audit = \<lparr>aer_events = []\<rparr>\<rparr>"

definition sample_settlement_call :: settlement_call where
  "sample_settlement_call =
     \<lparr>dc_ulid = sample_audit_ulid, dc_authorized = Inr (), dc_id = Inr ''dst_2'', dc_nonce = Inr ''nonce'',
      dc_verify = (\<lambda>_ _ signature. Inr (signature = ''signed'')), dc_now = 3000, dc_event1 = (Inr ''aud_1'', 3000),
      dc_event2 = (Inr ''aud_2'', 3000), dc_requestID = ''req''\<rparr>"

definition sample_ownership :: VerifyOwnershipRequest where
  "sample_ownership = \<lparr>vo_Challenge = ''challenge'', vo_Signature = ''signed'', vo_ConfirmRotation = False\<rparr>"

lemma sample_settlement_reachable: "(settlement_step verify)\<^sup>*\<^sup>* [] (ds_destinations sample_settlement)"
proof -
  let ?k = "pd_DestinationID sample_destination"
  have new: "NewPaymentDestination
      \<lparr>dq_DestinationID = ?k, dq_SellerID = pd_SellerID sample_destination, dq_Asset = ''USDC'',
       dq_Network = ''eip155:84532'', dq_Address = ''0x123'', dq_CreatedAt = 1000\<rparr> = Inr sample_destination"
    by code_simp
  have "settlement_step verify [] [(?k, sample_destination)]"
    by (rule create [OF new]) (simp add: Destination_Create_def)
  moreover have "settlement_step verify [(?k, sample_destination)] (ds_destinations sample_settlement)"
    by (rule challenge [of sample_destination _ "''challenge''" 2000 1])
      (simp_all add: sample_destination_def SaveChallenge_def stored_version_def challenged_def sample_settlement_def)
  ultimately show ?thesis
    by (meson rtranclp.rtrancl_into_rtrancl rtranclp.rtrancl_refl)
qed

lemma sample_ownership_verified:
  "\<exists>s'. VerifyOwnership sample_settlement_call ''owner'' (pd_SellerID sample_destination)
     (pd_DestinationID sample_destination) sample_ownership sample_settlement
   = (Inr (activated (challenged sample_destination ''challenge'' 2000) 3000), s')"
proof -
  have "validateOwnershipProofInput sample_ownership = Inr ()"
    by code_simp
  moreover have "is_ok (Audit_Record sample_audit_ulid \<lparr>aer_events = []\<rparr> (Inr ''aud_1'') 3000 ''req''
    \<lparr>rr_SellerID = pd_SellerID sample_destination, rr_ActorType = ActorTypeSellerUser, rr_ActorID = ''owner'',
     rr_Action = ActionPaymentDestinationVerified, rr_TargetType = TargetTypePaymentDestination,
     rr_TargetID = pd_DestinationID sample_destination, rr_Outcome = OutcomeSucceeded, rr_RequestID = [],
     rr_ChangedFields = [''status'', ''verifiedAt'']\<rparr>)"
    by code_simp
  then obtain r where "Audit_Record sample_audit_ulid \<lparr>aer_events = []\<rparr> (Inr ''aud_1'') 3000 ''req''
    \<lparr>rr_SellerID = pd_SellerID sample_destination, rr_ActorType = ActorTypeSellerUser, rr_ActorID = ''owner'',
     rr_Action = ActionPaymentDestinationVerified, rr_TargetType = TargetTypePaymentDestination,
     rr_TargetID = pd_DestinationID sample_destination, rr_Outcome = OutcomeSucceeded, rr_RequestID = [],
     rr_ChangedFields = [''status'', ''verifiedAt'']\<rparr> = Inr r"
    by (auto simp: is_ok_def split: sum.split_asm)
  moreover have "ownershipChallengeHash s \<noteq> []" for s
    by (metis hashSecret_def hashSecret_not_Nil ownershipChallengeHash_def)
  moreover have "ownershipChallengeMatches s (ownershipChallengeHash s)" for s
    by (simp add: ownershipChallengeMatches_def ownershipChallengeHash_def)
  ultimately show ?thesis
    by (simp add: VerifyOwnership_def Let_def action_simps in_destinations_run sample_settlement_call_def
        sample_settlement_def sample_ownership_def Destination_Get_def challenged_def sample_destination_def
        findActiveDestination_def Destination_ListBySeller_def Activate_def activation_def activated_def
        stored_version_def activeDestination_def destination_record_def)
qed

theorem payment_destination_verified_witness:
  "\<exists>s' :: settlement_state.
     (settlement_step (dc_verify sample_settlement_call))\<^sup>*\<^sup>* [] (ds_destinations s')
     \<and> map_of (ds_destinations s') (pd_DestinationID sample_destination)
       = Some (activated (challenged sample_destination ''challenge'' 2000) 3000)
     \<and> proof_accepted sample_settlement_call sample_ownership (challenged sample_destination ''challenge'' 2000)"
proof -
  let ?u = "challenged sample_destination ''challenge'' 2000"
  obtain s' where run: "VerifyOwnership sample_settlement_call ''owner'' (pd_SellerID sample_destination)
      (pd_DestinationID sample_destination) sample_ownership sample_settlement = (Inr (activated ?u 3000), s')"
    using sample_ownership_verified by blast
  have now: "dc_now sample_settlement_call = 3000"
      "map_of (ds_destinations sample_settlement) (pd_DestinationID sample_destination) = Some ?u"
    by (simp_all add: sample_settlement_call_def sample_settlement_def)
  show ?thesis
    using payment_destination_verified [OF sample_settlement_reachable run]
    unfolding now is_ok_def by (intro exI [of _ s']) auto
qed

end
