(* ===== verification/Billing.thy ===== *)
theory Billing
  imports Actions AuditLog
begin

text \<open>
  Seller entitlements: \<open>internal/billing/{models,service,persistence}.go\<close> and the repository of
  \<open>internal/persistence/memory/seller_plans.go\<close>. An entitlement is replaced by reconciliation only; the
  lemmas show that its version, source revision and epoch move together with what it grants.
\<close>

section \<open>Plans and entitlements\<close>

abbreviation "ErrPlanNotFound \<equiv> Err ''billing.ErrPlanNotFound''"
abbreviation "ErrSellerEntitlementNotFound \<equiv> Err ''billing.ErrSellerEntitlementNotFound''"
abbreviation "ErrSellerEntitlementConflict \<equiv> Err ''billing.ErrSellerEntitlementConflict''"

datatype PlanID = PlanStarter | PlanGrowth | PlanScale | PlanOther string

fun PlanID_wire :: "PlanID \<Rightarrow> string" where
  "PlanID_wire PlanStarter = ''starter''"
| "PlanID_wire PlanGrowth = ''growth''"
| "PlanID_wire PlanScale = ''scale''"
| "PlanID_wire (PlanOther s) = s"

definition PlanID_of :: "string \<Rightarrow> PlanID" where
  "PlanID_of s =
     (if s = ''starter'' then PlanStarter else if s = ''growth'' then PlanGrowth
      else if s = ''scale'' then PlanScale else PlanOther s)"

datatype EntitlementStatus =
    EntitlementStatusActive
  | EntitlementStatusGrace
  | EntitlementStatusSuspended
  | EntitlementStatusCancelled
  | EntitlementStatusClosed
  | EntitlementStatusOther string

fun EntitlementStatus_wire :: "EntitlementStatus \<Rightarrow> string" where
  "EntitlementStatus_wire EntitlementStatusActive = ''active''"
| "EntitlementStatus_wire EntitlementStatusGrace = ''grace''"
| "EntitlementStatus_wire EntitlementStatusSuspended = ''suspended''"
| "EntitlementStatus_wire EntitlementStatusCancelled = ''cancelled''"
| "EntitlementStatus_wire EntitlementStatusClosed = ''closed''"
| "EntitlementStatus_wire (EntitlementStatusOther s) = s"

datatype EntitlementSource =
    EntitlementSourceBillingProvider
  | EntitlementSourceOperator
  | EntitlementSourceLocal
  | EntitlementSourceOther string

fun EntitlementSource_wire :: "EntitlementSource \<Rightarrow> string" where
  "EntitlementSource_wire EntitlementSourceBillingProvider = ''billing_provider''"
| "EntitlementSource_wire EntitlementSourceOperator = ''operator''"
| "EntitlementSource_wire EntitlementSourceLocal = ''local''"
| "EntitlementSource_wire (EntitlementSourceOther s) = s"

datatype EntitlementProvider =
    EntitlementProviderStripe
  | EntitlementProviderOperator
  | EntitlementProviderLocal
  | EntitlementProviderOther string

fun EntitlementProvider_wire :: "EntitlementProvider \<Rightarrow> string" where
  "EntitlementProvider_wire EntitlementProviderStripe = ''stripe''"
| "EntitlementProvider_wire EntitlementProviderOperator = ''operator''"
| "EntitlementProvider_wire EntitlementProviderLocal = ''local''"
| "EntitlementProvider_wire (EntitlementProviderOther s) = s"

text \<open>\<open>ReasonOther []\<close> is the empty reason.\<close>

datatype EntitlementStatusReason =
    ReasonPaymentFailed
  | ReasonPaymentActionRequired
  | ReasonCancellationRequested
  | ReasonCancelled
  | ReasonAdministrative
  | ReasonFraudQuarantine
  | ReasonAccountClosed
  | ReasonProviderIncomplete
  | ReasonOther string

fun EntitlementStatusReason_wire :: "EntitlementStatusReason \<Rightarrow> string" where
  "EntitlementStatusReason_wire ReasonPaymentFailed = ''payment_failed''"
| "EntitlementStatusReason_wire ReasonPaymentActionRequired = ''payment_action_required''"
| "EntitlementStatusReason_wire ReasonCancellationRequested = ''cancellation_requested''"
| "EntitlementStatusReason_wire ReasonCancelled = ''cancelled''"
| "EntitlementStatusReason_wire ReasonAdministrative = ''administrative''"
| "EntitlementStatusReason_wire ReasonFraudQuarantine = ''fraud_quarantine''"
| "EntitlementStatusReason_wire ReasonAccountClosed = ''account_closed''"
| "EntitlementStatusReason_wire ReasonProviderIncomplete = ''provider_incomplete''"
| "EntitlementStatusReason_wire (ReasonOther s) = s"

datatype NetworkAccess = NetworkAccessEnabled | NetworkAccessBlocked

datatype DashboardAccess = DashboardAccessFull | DashboardAccessRecoveryReadOnly | DashboardAccessClosed

record PlanLimits =
  lm_APIRequestsPerMonth :: u64
  lm_MCPOperationsPerMonth :: u64
  lm_PublishedRoutes :: u64
  lm_WebhookSubscriptions :: u64
  lm_WebhookDeliveriesPerMonth :: u64
  lm_AnalyticsWindowDays :: u64
  lm_EvidenceRetentionDays :: u64

record PlanFeatures =
  ft_Approvals :: bool
  ft_Webhooks :: bool
  ft_AdvancedAnalytics :: bool
  ft_PrioritySupport :: bool

record PlanDefinition =
  pl_PlanID :: PlanID
  pl_PlanVersion :: u64
  pl_DisplayName :: string
  pl_Limits :: PlanLimits
  pl_Features :: PlanFeatures

abbreviation currentPlanVersion :: u64 where "currentPlanVersion \<equiv> 1"

fun planCatalogV1 :: "PlanID \<Rightarrow> PlanDefinition option" where
  "planCatalogV1 PlanStarter = Some
     \<lparr>pl_PlanID = PlanStarter, pl_PlanVersion = currentPlanVersion, pl_DisplayName = ''Starter'',
      pl_Limits = \<lparr>lm_APIRequestsPerMonth = 10000, lm_MCPOperationsPerMonth = 1000, lm_PublishedRoutes = 5,
        lm_WebhookSubscriptions = 1, lm_WebhookDeliveriesPerMonth = 1000, lm_AnalyticsWindowDays = 7,
        lm_EvidenceRetentionDays = 30\<rparr>,
      pl_Features = \<lparr>ft_Approvals = False, ft_Webhooks = True, ft_AdvancedAnalytics = False,
        ft_PrioritySupport = False\<rparr>\<rparr>"
| "planCatalogV1 PlanGrowth = Some
     \<lparr>pl_PlanID = PlanGrowth, pl_PlanVersion = currentPlanVersion, pl_DisplayName = ''Growth'',
      pl_Limits = \<lparr>lm_APIRequestsPerMonth = 100000, lm_MCPOperationsPerMonth = 10000, lm_PublishedRoutes = 50,
        lm_WebhookSubscriptions = 5, lm_WebhookDeliveriesPerMonth = 25000, lm_AnalyticsWindowDays = 90,
        lm_EvidenceRetentionDays = 180\<rparr>,
      pl_Features = \<lparr>ft_Approvals = True, ft_Webhooks = True, ft_AdvancedAnalytics = True,
        ft_PrioritySupport = False\<rparr>\<rparr>"
| "planCatalogV1 PlanScale = Some
     \<lparr>pl_PlanID = PlanScale, pl_PlanVersion = currentPlanVersion, pl_DisplayName = ''Scale'',
      pl_Limits = \<lparr>lm_APIRequestsPerMonth = 1000000, lm_MCPOperationsPerMonth = 100000, lm_PublishedRoutes = 500,
        lm_WebhookSubscriptions = 25, lm_WebhookDeliveriesPerMonth = 250000, lm_AnalyticsWindowDays = 365,
        lm_EvidenceRetentionDays = 3650\<rparr>,
      pl_Features = \<lparr>ft_Approvals = True, ft_Webhooks = True, ft_AdvancedAnalytics = True,
        ft_PrioritySupport = True\<rparr>\<rparr>"
| "planCatalogV1 (PlanOther _) = None"

text \<open>Starter, growth, scale: the order of the sort.\<close>

definition V1PlanCatalog :: "PlanDefinition list" where
  "V1PlanCatalog = map (\<lambda>p. the (planCatalogV1 p)) [PlanStarter, PlanGrowth, PlanScale]"

text \<open>
  The private struct, its parameters and its snapshot have the same fields; one record stands for the
  three, and \<open>Snapshot\<close> and the conversions of the source are the identity.
\<close>

record SellerEntitlement =
  en_SellerID :: ID
  en_PlanID :: PlanID
  en_PlanVersion :: u64
  en_Status :: EntitlementStatus
  en_BillingPeriodStart :: instant
  en_BillingPeriodEnd :: instant
  en_AccessEndsAt :: instant
  en_GraceEndsAt :: "instant option"
  en_CancelAtPeriodEnd :: bool
  en_EntitlementEpoch :: u64
  en_Source :: EntitlementSource
  en_SourceRevision :: string
  en_StatusReason :: EntitlementStatusReason
  en_Provider :: EntitlementProvider
  en_ProviderCustomerID :: string
  en_ProviderSubscriptionID :: string
  en_ProviderPriceID :: string
  en_LastProviderEventID :: string
  en_LastReconciledAt :: "instant option"
  en_CredentialRotationRequired :: bool
  en_AssignedAt :: instant
  en_UpdatedAt :: instant
  en_Version :: u64

record EntitlementCandidate =
  cd_SellerID :: ID
  cd_PlanID :: PlanID
  cd_PlanVersion :: u64
  cd_Status :: EntitlementStatus
  cd_BillingPeriodStart :: instant
  cd_BillingPeriodEnd :: instant
  cd_AccessEndsAt :: instant
  cd_CancelAtPeriodEnd :: bool
  cd_Source :: EntitlementSource
  cd_StatusReason :: EntitlementStatusReason
  cd_Provider :: EntitlementProvider
  cd_ProviderCustomerID :: string
  cd_ProviderSubscriptionID :: string
  cd_ProviderPriceID :: string
  cd_LastProviderEventID :: string

record EntitlementReconciliation =
  er_SellerID :: ID
  er_SourceRevision :: string
  er_Source :: EntitlementSource
  er_TriggeringEventIDs :: "string list"
  er_SnapshotHash :: string
  er_ReconciledAt :: instant
  er_AppliedVersion :: u64

record SellerEntitlementView =
  sv_Entitlement :: SellerEntitlement
  sv_StatusReason :: "EntitlementStatusReason option"
  sv_NetworkAccess :: NetworkAccess
  sv_DashboardAccess :: DashboardAccess

record SellerPlanResponse =
  sp_Assignment :: SellerEntitlementView
  sp_Plan :: PlanDefinition

abbreviation EntitlementGraceDuration :: int where "EntitlementGraceDuration \<equiv> 72 * Hour"

definition AllowsNetworkAccess :: "SellerEntitlement \<Rightarrow> instant \<Rightarrow> bool" where
  "AllowsNetworkAccess e now \<longleftrightarrow> en_Status e = EntitlementStatusActive \<and> Timestamp_Before now (en_AccessEndsAt e)"

section \<open>Validation\<close>

text \<open>\<open>strconv.ParseUint(s, 10, 64)\<close>.\<close>

definition ParseUint :: "string \<Rightarrow> u64 option" where
  "ParseUint s =
     (if s \<noteq> [] \<and> list_all is_digit s \<and> digits_val s < 2 ^ 64 then Some (of_nat (digits_val s)) else None)"

abbreviation sourceRevisionWidth :: nat where "sourceRevisionWidth \<equiv> 20"

definition validSourceRevision :: "string \<Rightarrow> bool" where
  "validSourceRevision revision \<longleftrightarrow>
     length revision = sourceRevisionWidth \<and> ParseUint revision \<noteq> None
     \<and> revision \<noteq> replicate sourceRevisionWidth (CHR ''0'')"

definition validEntitlementStatus :: "EntitlementStatus \<Rightarrow> bool" where
  "validEntitlementStatus s \<longleftrightarrow>
     s = EntitlementStatusActive \<or> s = EntitlementStatusGrace \<or> s = EntitlementStatusSuspended
     \<or> s = EntitlementStatusCancelled \<or> s = EntitlementStatusClosed"

definition validEntitlementSource :: "EntitlementSource \<Rightarrow> bool" where
  "validEntitlementSource s \<longleftrightarrow>
     s = EntitlementSourceBillingProvider \<or> s = EntitlementSourceOperator \<or> s = EntitlementSourceLocal"

definition validEntitlementProvider :: "EntitlementProvider \<Rightarrow> bool" where
  "validEntitlementProvider p \<longleftrightarrow>
     p = EntitlementProviderStripe \<or> p = EntitlementProviderOperator \<or> p = EntitlementProviderLocal"

text \<open>The plan exists in the given version.\<close>

definition supported_plan :: "PlanID \<Rightarrow> u64 \<Rightarrow> bool" where
  "supported_plan p v \<longleftrightarrow> (case planCatalogV1 p of None \<Rightarrow> False | Some d \<Rightarrow> pl_PlanVersion d = v)"

definition grace_error :: "SellerEntitlement \<Rightarrow> validation_error list" where
  "grace_error p =
     (if en_Status p = EntitlementStatusGrace
      then add_if (en_GraceEndsAt p \<noteq> Some (Timestamp_Add (en_AccessEndsAt p) EntitlementGraceDuration))
             (NewValidationError ''graceEndsAt'' ''exact'' ''must equal accessEndsAt plus 72 hours'')
      else add_if (en_GraceEndsAt p \<noteq> None)
             (NewValidationError ''graceEndsAt'' ''state'' ''is only allowed for grace status''))"

definition validateEntitlement :: "SellerEntitlement \<Rightarrow> validation_error list" where
  "validateEntitlement p =
     add_if (ID_Prefix (en_SellerID p) \<noteq> SellerIDPrefix)
       (NewValidationError ''sellerId'' ''prefix'' ''must use the seller prefix'')
     @ add_if (\<not> supported_plan (en_PlanID p) (en_PlanVersion p))
       (NewValidationError ''plan'' ''version'' ''must reference a supported plan version'')
     @ add_if (\<not> validEntitlementStatus (en_Status p))
       (NewValidationError ''status'' ''supported'' ''must use a supported entitlement status'')
     @ add_if (en_BillingPeriodStart p = 0 \<or> en_BillingPeriodEnd p = 0
               \<or> \<not> Timestamp_Before (en_BillingPeriodStart p) (en_BillingPeriodEnd p))
       (NewValidationError ''billingPeriod'' ''range'' ''must have ordered UTC boundaries'')
     @ add_if (en_AccessEndsAt p = 0) (NewValidationError ''accessEndsAt'' ''required'' ''is required'')
     @ grace_error p
     @ add_if (en_EntitlementEpoch p = 0)
       (NewValidationError ''entitlementEpoch'' ''minimum'' ''must be at least one'')
     @ add_if (\<not> validEntitlementSource (en_Source p))
       (NewValidationError ''source'' ''supported'' ''must use a supported entitlement source'')
     @ add_if (\<not> validSourceRevision (en_SourceRevision p))
       (NewValidationError ''sourceRevision'' ''sequence'' ''must be a zero-padded local sequence'')
     @ add_if (\<not> validEntitlementProvider (en_Provider p))
       (NewValidationError ''provider'' ''supported'' ''must use a supported entitlement provider'')
     @ add_if (en_Provider p = EntitlementProviderStripe
               \<and> (TrimSpace (en_ProviderCustomerID p) = [] \<or> TrimSpace (en_ProviderSubscriptionID p) = []
                  \<or> TrimSpace (en_ProviderPriceID p) = []))
       (NewValidationError ''providerIdentifiers'' ''required''
          ''Stripe projections require customer, subscription, and price identifiers'')
     @ add_if (en_AssignedAt p = 0 \<or> en_UpdatedAt p = 0 \<or> Timestamp_Before (en_UpdatedAt p) (en_AssignedAt p))
       (NewValidationError ''timestamps'' ''chronology'' ''assignment timestamps must be ordered'')
     @ add_if (en_Version p = 0) (NewValidationError ''version'' ''minimum'' ''must be at least one'')"

definition NewSellerEntitlement :: "SellerEntitlement \<Rightarrow> SellerEntitlement result" where
  "NewSellerEntitlement p =
     reject_if (validateEntitlement p \<noteq> []) (ValidationErrs (validateEntitlement p))
       (Inr (p\<lparr>en_ProviderCustomerID := TrimSpace (en_ProviderCustomerID p),
               en_ProviderSubscriptionID := TrimSpace (en_ProviderSubscriptionID p),
               en_ProviderPriceID := TrimSpace (en_ProviderPriceID p),
               en_LastProviderEventID := TrimSpace (en_LastProviderEventID p)\<rparr>))"

definition RestoreSellerEntitlement :: "SellerEntitlement \<Rightarrow> SellerEntitlement result" where
  "RestoreSellerEntitlement snapshot = NewSellerEntitlement snapshot"

section \<open>Reconciliation\<close>

definition candidateFromEntitlement :: "SellerEntitlement \<Rightarrow> EntitlementCandidate" where
  "candidateFromEntitlement e =
     \<lparr>cd_SellerID = en_SellerID e, cd_PlanID = en_PlanID e, cd_PlanVersion = en_PlanVersion e, cd_Status = en_Status e,
      cd_BillingPeriodStart = en_BillingPeriodStart e, cd_BillingPeriodEnd = en_BillingPeriodEnd e,
      cd_AccessEndsAt = en_AccessEndsAt e, cd_CancelAtPeriodEnd = en_CancelAtPeriodEnd e, cd_Source = en_Source e,
      cd_StatusReason = en_StatusReason e, cd_Provider = en_Provider e, cd_ProviderCustomerID = en_ProviderCustomerID e,
      cd_ProviderSubscriptionID = en_ProviderSubscriptionID e, cd_ProviderPriceID = en_ProviderPriceID e,
      cd_LastProviderEventID = en_LastProviderEventID e\<rparr>"

definition grace_over :: "EntitlementCandidate \<Rightarrow> instant \<Rightarrow> bool" where
  "grace_over c now \<longleftrightarrow> \<not> Timestamp_Before now (Timestamp_Add (cd_AccessEndsAt c) EntitlementGraceDuration)"

definition lapse :: "EntitlementCandidate \<Rightarrow> instant \<Rightarrow> EntitlementCandidate" where
  "lapse c now =
     (if cd_Status c = EntitlementStatusActive \<and> \<not> Timestamp_Before now (cd_AccessEndsAt c) then
        (if cd_CancelAtPeriodEnd c
         then c\<lparr>cd_Status := EntitlementStatusCancelled, cd_StatusReason := ReasonCancelled\<rparr>
         else if cd_StatusReason c = ReasonPaymentFailed \<or> cd_StatusReason c = ReasonPaymentActionRequired then
           (if \<not> grace_over c now then c\<lparr>cd_Status := EntitlementStatusGrace\<rparr>
            else c\<lparr>cd_Status := EntitlementStatusSuspended, cd_StatusReason := ReasonPaymentFailed\<rparr>)
         else c\<lparr>cd_Status := EntitlementStatusSuspended, cd_StatusReason := ReasonProviderIncomplete\<rparr>)
      else c)"

definition normalizeCandidateAtBoundary :: "EntitlementCandidate \<Rightarrow> instant \<Rightarrow> EntitlementCandidate" where
  "normalizeCandidateAtBoundary c now =
     (let c' = lapse c now
      in if cd_Status c' = EntitlementStatusGrace \<and> grace_over c' now
         then c'\<lparr>cd_Status := EntitlementStatusSuspended, cd_StatusReason := ReasonPaymentFailed\<rparr> else c')"

definition graceEndForCandidate :: "EntitlementCandidate \<Rightarrow> instant option" where
  "graceEndForCandidate c =
     (if cd_Status c \<noteq> EntitlementStatusGrace then None
      else Some (Timestamp_Add (cd_AccessEndsAt c) EntitlementGraceDuration))"

definition invalidatesCapabilities :: "SellerEntitlement \<Rightarrow> EntitlementCandidate \<Rightarrow> bool" where
  "invalidatesCapabilities current c \<longleftrightarrow>
     (if en_Status current \<noteq> cd_Status c
      then cd_Status c = EntitlementStatusGrace \<or> cd_Status c = EntitlementStatusSuspended
           \<or> cd_Status c = EntitlementStatusCancelled \<or> cd_Status c = EntitlementStatusClosed
           \<or> cd_Status c = EntitlementStatusActive
      else cd_Status c = EntitlementStatusSuspended \<and> cd_StatusReason c = ReasonFraudQuarantine
           \<and> en_StatusReason current \<noteq> ReasonFraudQuarantine)"

definition revision_text :: "u64 \<Rightarrow> string" where
  "revision_text n = pad_digits sourceRevisionWidth (uint n)"

definition nextSourceRevision :: "SellerEntitlement option \<Rightarrow> string result" where
  "nextSourceRevision current =
     (case current of
        None \<Rightarrow> Inr (revision_text 1)
      | Some e \<Rightarrow>
          (case ParseUint (en_SourceRevision e) of
             None \<Rightarrow> Inl (validation ''sourceRevision'' ''sequence'' ''stored source revision is invalid'')
           | Some parsed \<Rightarrow>
               reject_if (parsed = - 1)
                 (validation ''sourceRevision'' ''sequence'' ''stored source revision is invalid'')
                 (Inr (revision_text (parsed + 1)))))"

definition optional_time :: "instant option \<Rightarrow> json" where
  "optional_time m = (case m of None \<Rightarrow> JNull | Some i \<Rightarrow> JString (FormatRFC3339Nano i))"

definition snapshot_json :: "SellerEntitlement \<Rightarrow> json" where
  "snapshot_json e =
     JObject ([(''sellerId'', JString (en_SellerID e)), (''planId'', JString (PlanID_wire (en_PlanID e))),
       (''planVersion'', JInt (uint (en_PlanVersion e))), (''status'', JString (EntitlementStatus_wire (en_Status e))),
       (''billingPeriodStart'', JString (FormatRFC3339Nano (en_BillingPeriodStart e))),
       (''billingPeriodEnd'', JString (FormatRFC3339Nano (en_BillingPeriodEnd e))),
       (''accessEndsAt'', JString (FormatRFC3339Nano (en_AccessEndsAt e))),
       (''graceEndsAt'', optional_time (en_GraceEndsAt e)), (''cancelAtPeriodEnd'', JBool (en_CancelAtPeriodEnd e)),
       (''entitlementEpoch'', JInt (uint (en_EntitlementEpoch e))),
       (''source'', JString (EntitlementSource_wire (en_Source e))), (''sourceRevision'', JString (en_SourceRevision e))]
       @ omit_empty ''statusReason'' (EntitlementStatusReason_wire (en_StatusReason e))
       @ [(''provider'', JString (EntitlementProvider_wire (en_Provider e))),
       (''providerCustomerId'', JString (en_ProviderCustomerID e)),
       (''providerSubscriptionId'', JString (en_ProviderSubscriptionID e)),
       (''providerPriceId'', JString (en_ProviderPriceID e))]
       @ omit_empty ''lastProviderEventId'' (en_LastProviderEventID e)
       @ [(''lastReconciledAt'', optional_time (en_LastReconciledAt e)),
       (''credentialRotationRequired'', JBool (en_CredentialRotationRequired e)),
       (''assignedAt'', JString (FormatRFC3339Nano (en_AssignedAt e))),
       (''updatedAt'', JString (FormatRFC3339Nano (en_UpdatedAt e))), (''version'', JInt (uint (en_Version e)))])"

definition entitlementSnapshotHash :: "SellerEntitlement \<Rightarrow> string" where
  "entitlementSnapshotHash e = hex_encode (Sum256 (json_encode (snapshot_json e)))"

text \<open>What the provider or an operator may not override: a quarantine and a closed account.\<close>

definition effective_candidate ::
  "SellerEntitlement option \<Rightarrow> EntitlementCandidate \<Rightarrow> instant \<Rightarrow> EntitlementCandidate" where
  "effective_candidate current c0 now =
     (let c1 = normalizeCandidateAtBoundary c0 now; event = cd_LastProviderEventID c1
      in case current of
           None \<Rightarrow> c1
         | Some e \<Rightarrow>
             let c2 = (if en_StatusReason e = ReasonFraudQuarantine \<and> cd_Source c1 = EntitlementSourceBillingProvider
                       then (candidateFromEntitlement e)\<lparr>cd_LastProviderEventID := event\<rparr> else c1)
             in if en_Status e = EntitlementStatusClosed
                then (candidateFromEntitlement e)\<lparr>cd_LastProviderEventID := event,
                       cd_Source := EntitlementSourceOperator, cd_Provider := EntitlementProviderOperator,
                       cd_Status := EntitlementStatusClosed, cd_StatusReason := ReasonAccountClosed\<rparr>
                else c2)"

definition reconciled_params ::
  "SellerEntitlement option \<Rightarrow> EntitlementCandidate \<Rightarrow> string \<Rightarrow> instant \<Rightarrow> SellerEntitlement" where
  "reconciled_params current c revision now =
     \<lparr>en_SellerID = cd_SellerID c, en_PlanID = cd_PlanID c, en_PlanVersion = cd_PlanVersion c, en_Status = cd_Status c,
      en_BillingPeriodStart = cd_BillingPeriodStart c, en_BillingPeriodEnd = cd_BillingPeriodEnd c,
      en_AccessEndsAt = cd_AccessEndsAt c, en_GraceEndsAt = graceEndForCandidate c,
      en_CancelAtPeriodEnd = cd_CancelAtPeriodEnd c,
      en_EntitlementEpoch = (case current of None \<Rightarrow> 1
        | Some e \<Rightarrow> if invalidatesCapabilities e c then en_EntitlementEpoch e + 1 else en_EntitlementEpoch e),
      en_Source = cd_Source c, en_SourceRevision = revision, en_StatusReason = cd_StatusReason c,
      en_Provider = cd_Provider c, en_ProviderCustomerID = cd_ProviderCustomerID c,
      en_ProviderSubscriptionID = cd_ProviderSubscriptionID c, en_ProviderPriceID = cd_ProviderPriceID c,
      en_LastProviderEventID = cd_LastProviderEventID c, en_LastReconciledAt = Some now,
      en_CredentialRotationRequired = (case current of None \<Rightarrow> False
        | Some e \<Rightarrow> en_CredentialRotationRequired e
            \<or> en_Status e \<noteq> EntitlementStatusActive \<and> cd_Status c = EntitlementStatusActive),
      en_AssignedAt = (case current of None \<Rightarrow> now
        | Some e \<Rightarrow> if en_PlanID e \<noteq> cd_PlanID c \<or> en_PlanVersion e \<noteq> cd_PlanVersion c then now
                   else en_AssignedAt e),
      en_UpdatedAt = now, en_Version = (case current of None \<Rightarrow> 1 | Some e \<Rightarrow> en_Version e + 1)\<rparr>"

definition ReconcileSellerEntitlement ::
  "SellerEntitlement option \<Rightarrow> EntitlementCandidate \<Rightarrow> instant \<Rightarrow> (SellerEntitlement \<times> EntitlementReconciliation) result" where
  "ReconcileSellerEntitlement current candidate now =
     reject_if (now = 0) (validation ''reconciledAt'' ''required'' ''is required'')
       (let c = effective_candidate current candidate now
        in rbind (nextSourceRevision current) (\<lambda>revision.
           rbind (NewSellerEntitlement (reconciled_params current c revision now)) (\<lambda>e.
           Inr (e, \<lparr>er_SellerID = cd_SellerID c, er_SourceRevision = revision, er_Source = cd_Source c,
                    er_TriggeringEventIDs = (if cd_LastProviderEventID c \<noteq> [] then [cd_LastProviderEventID c] else []),
                    er_SnapshotHash = entitlementSnapshotHash e, er_ReconciledAt = now,
                    er_AppliedVersion = en_Version (reconciled_params current c revision now)\<rparr>))))"

definition sellerEntitlementView :: "SellerEntitlement \<Rightarrow> instant \<Rightarrow> SellerEntitlementView" where
  "sellerEntitlementView e now =
     \<lparr>sv_Entitlement = e,
      sv_StatusReason = (if EntitlementStatusReason_wire (en_StatusReason e) \<noteq> [] then Some (en_StatusReason e) else None),
      sv_NetworkAccess = (if AllowsNetworkAccess e now then NetworkAccessEnabled else NetworkAccessBlocked),
      sv_DashboardAccess =
        (if en_Status e = EntitlementStatusActive \<and> Timestamp_Before now (en_AccessEndsAt e) then DashboardAccessFull
         else if en_Status e = EntitlementStatusClosed then DashboardAccessClosed
         else DashboardAccessRecoveryReadOnly)\<rparr>"

definition sellerPlanResponse :: "SellerEntitlement \<Rightarrow> instant \<Rightarrow> SellerPlanResponse result" where
  "sellerPlanResponse e now =
     (case planCatalogV1 (en_PlanID e) of
        None \<Rightarrow> Inl ErrPlanNotFound
      | Some plan \<Rightarrow>
          reject_if (pl_PlanVersion plan \<noteq> en_PlanVersion e) ErrPlanNotFound
            (Inr \<lparr>sp_Assignment = sellerEntitlementView e now, sp_Plan = plan\<rparr>))"

section \<open>The repository\<close>

record SellerEntitlementRepository =
  sr_entitlements :: "ID \<rightharpoonup> SellerEntitlement"
  sr_reconciliations :: "ID \<Rightarrow> string \<rightharpoonup> EntitlementReconciliation"

definition NewSellerEntitlementRepository :: SellerEntitlementRepository where
  "NewSellerEntitlementRepository = \<lparr>sr_entitlements = Map.empty, sr_reconciliations = (\<lambda>_. Map.empty)\<rparr>"

definition Entitlement_Get :: "SellerEntitlementRepository \<Rightarrow> ID \<Rightarrow> SellerEntitlement result" where
  "Entitlement_Get r sellerID =
     (case sr_entitlements r sellerID of None \<Rightarrow> Inl ErrNotFound | Some s \<Rightarrow> RestoreSellerEntitlement s)"

definition Entitlement_Apply ::
  "SellerEntitlementRepository \<Rightarrow> SellerEntitlement \<Rightarrow> EntitlementReconciliation \<Rightarrow> u64 \<Rightarrow> SellerEntitlementRepository result" where
  "Entitlement_Apply r e rec expectedVersion =
     (let k = en_SellerID e; stored = sr_entitlements r k
      in reject_if ((case stored of None \<Rightarrow> expectedVersion \<noteq> 0 | Some s \<Rightarrow> en_Version s \<noteq> expectedVersion)
           \<or> en_Version e \<noteq> expectedVersion + 1 \<or> er_SellerID rec \<noteq> k
           \<or> er_SourceRevision rec \<noteq> en_SourceRevision e \<or> er_AppliedVersion rec \<noteq> en_Version e) ErrConditionFailed
        (reject_if (case stored of None \<Rightarrow> False | Some s \<Rightarrow> en_SourceRevision e \<le> en_SourceRevision s)
           ErrConditionFailed
        (reject_if (sr_reconciliations r k (er_SourceRevision rec) \<noteq> None) ErrConditionFailed
           (Inr (r\<lparr>sr_entitlements := (sr_entitlements r)(k \<mapsto> e),
                   sr_reconciliations := (sr_reconciliations r)
                     (k := (sr_reconciliations r k)(er_SourceRevision rec \<mapsto> rec))\<rparr>)))))"

section \<open>The service\<close>

record billing_state =
  bi_entitlements :: SellerEntitlementRepository
  bi_audit :: AuditEventRepository

record billing_call =
  bc_ulid :: "string \<Rightarrow> bool"
  bc_authorize :: "string \<Rightarrow> ID \<Rightarrow> unit result"
  bc_invalidate :: "ID \<Rightarrow> unit result"
  bc_now :: instant
  bc_event :: "ID result \<times> instant"
  bc_requestID :: string

definition missing_entitlement :: "go_error \<Rightarrow> bool" where
  "missing_entitlement e \<longleftrightarrow> e = ErrNotFound \<or> e = ErrSellerEntitlementNotFound"

definition ResolveSellerPlan :: "SellerEntitlementRepository \<Rightarrow> instant \<Rightarrow> ID \<Rightarrow> SellerPlanResponse result" where
  "ResolveSellerPlan r now sellerID =
     (case Entitlement_Get r sellerID of
        Inl e \<Rightarrow> Inl (if missing_entitlement e then ErrSellerEntitlementNotFound else e)
      | Inr e \<Rightarrow> sellerPlanResponse e now)"

definition GetSellerPlan :: "billing_call \<Rightarrow> SellerEntitlementRepository \<Rightarrow> string \<Rightarrow> ID \<Rightarrow> SellerPlanResponse result" where
  "GetSellerPlan c r ownerSubject sellerID =
     (case bc_authorize c ownerSubject sellerID of
        Inl _ \<Rightarrow> Inl ErrSellerEntitlementNotFound
      | Inr _ \<Rightarrow> ResolveSellerPlan r (bc_now c) sellerID)"

text \<open>The stored entitlement, if there is one.\<close>

definition current_entitlement :: "SellerEntitlementRepository \<Rightarrow> ID \<Rightarrow> SellerEntitlement option result" where
  "current_entitlement r sellerID =
     (case Entitlement_Get r sellerID of
        Inl e \<Rightarrow> reject_if (\<not> missing_entitlement e) e (Inr None)
      | Inr e \<Rightarrow> Inr (Some e))"

definition expected_version :: "SellerEntitlement option \<Rightarrow> u64" where
  "expected_version current = (case current of None \<Rightarrow> 0 | Some e \<Rightarrow> en_Version e)"

definition record_entitlement :: "billing_call \<Rightarrow> SellerEntitlement \<Rightarrow> (billing_state, unit) action" where
  "record_entitlement c e =
     writing (\<lambda>s. Audit_Record (bc_ulid c) (bi_audit s) (fst (bc_event c)) (snd (bc_event c)) (bc_requestID c)
       \<lparr>rr_SellerID = en_SellerID e, rr_ActorType = ActorTypeAuditSystem, rr_ActorID = ''billing-reconciliation'',
        rr_Action = ActionEntitlementChanged, rr_TargetType = TargetTypeSeller, rr_TargetID = en_SellerID e,
        rr_Outcome = OutcomeSucceeded, rr_RequestID = [],
        rr_ChangedFields = [''status'', ''accessEndsAt'', ''entitlementEpoch'', ''sourceRevision'',
          ''credentialRotationRequired'']\<rparr>) (\<lambda>a s. s\<lparr>bi_audit := a\<rparr>)"

definition ReconcileEntitlement ::
  "billing_call \<Rightarrow> EntitlementCandidate \<Rightarrow> (billing_state, SellerPlanResponse) action" where
  "ReconcileEntitlement c candidate =
     abind (reading (\<lambda>s. current_entitlement (bi_entitlements s) (cd_SellerID candidate))) (\<lambda>current.
     abind (pure (ReconcileSellerEntitlement current candidate (bc_now c))) (\<lambda>(e, rec).
     attempt (writing (\<lambda>s. Entitlement_Apply (bi_entitlements s) e rec (expected_version current))
         (\<lambda>r s. s\<lparr>bi_entitlements := r\<rparr>))
       (\<lambda>err. pure (Inl (if err = ErrConditionFailed then ErrSellerEntitlementConflict else err))) (\<lambda>_.
     abind (record_entitlement c e) (\<lambda>_.
     abind (pure (bc_invalidate c (en_SellerID e))) (\<lambda>_.
     pure (sellerPlanResponse e (bc_now c)))))))"

definition normalizePlanID :: "PlanID \<Rightarrow> PlanID" where
  "normalizePlanID p = PlanID_of (TrimSpace (PlanID_wire p))"

definition AssignPlan :: "billing_call \<Rightarrow> ID \<Rightarrow> PlanID \<Rightarrow> u64 \<Rightarrow> (billing_state, SellerPlanResponse) action" where
  "AssignPlan c sellerID planID expectedVersion =
     abind (reading (\<lambda>s. Entitlement_Get (bi_entitlements s) sellerID)) (\<lambda>current.
     guard (en_Version current \<noteq> expectedVersion) ErrSellerEntitlementConflict
    (guard (planCatalogV1 (normalizePlanID planID) = None) ErrPlanNotFound
    (ReconcileEntitlement c ((candidateFromEntitlement current)
       \<lparr>cd_PlanID := normalizePlanID planID, cd_PlanVersion := currentPlanVersion,
        cd_Source := EntitlementSourceLocal, cd_Provider := EntitlementProviderLocal\<rparr>))))"

section \<open>The history of an entitlement\<close>

text \<open>The source revision is the version, written with twenty digits.\<close>

lemma ParseUint_revision [simp]: "ParseUint (revision_text n) = Some n"
proof -
  have n: "0 \<le> uint n" "uint n < 2 ^ 64"
    using uint_lt2p [of n] by simp_all
  moreover have "(2 :: int) ^ 64 \<le> 10 ^ 20"
    by simp
  ultimately have "uint n < 10 ^ sourceRevisionWidth"
    by linarith
  note read = pad_digits_read [OF n(1) this, simplified]
  have "nat (uint n) < 2 ^ 64"
    using n(2) nat_mono_iff [of "2 ^ 64" "uint n"] by simp
  moreover have "revision_text n \<noteq> []"
    using read by (auto simp: revision_text_def)
  ultimately show ?thesis
    using read by (simp add: ParseUint_def revision_text_def)
qed

lemma revision_text_inj: "revision_text m = revision_text n \<longleftrightarrow> m = n"
  by (metis ParseUint_revision option.inject)

lemma NewSellerEntitlement_ok:
  "NewSellerEntitlement p = Inr e \<longleftrightarrow> validateEntitlement p = []
     \<and> e = p\<lparr>en_ProviderCustomerID := TrimSpace (en_ProviderCustomerID p),
            en_ProviderSubscriptionID := TrimSpace (en_ProviderSubscriptionID p),
            en_ProviderPriceID := TrimSpace (en_ProviderPriceID p),
            en_LastProviderEventID := TrimSpace (en_LastProviderEventID p)\<rparr>"
  by (auto simp: NewSellerEntitlement_def result_simps)

lemma NewSellerEntitlement_normal: "NewSellerEntitlement p = Inr e \<Longrightarrow> NewSellerEntitlement e = Inr e"
  by (auto simp: NewSellerEntitlement_ok validateEntitlement_def grace_error_def)

text \<open>
  What a stored entitlement satisfies. \<open>NewSellerEntitlement\<close> accepts it unchanged, so it passes every
  rule of the constructor; its version counts the reconciliations, and so does its source revision.
\<close>

definition wf_entitlement :: "ID \<Rightarrow> SellerEntitlement \<Rightarrow> bool" where
  "wf_entitlement k e \<longleftrightarrow>
     en_SellerID e = k \<and> NewSellerEntitlement e = Inr e \<and> en_SourceRevision e = revision_text (en_Version e)
     \<and> en_EntitlementEpoch e \<le> en_Version e"

text \<open>How one reconciliation may change an entitlement.\<close>

definition entitlement_next :: "SellerEntitlement \<Rightarrow> SellerEntitlement \<Rightarrow> bool" where
  "entitlement_next e e' \<longleftrightarrow>
     en_EntitlementEpoch e \<le> en_EntitlementEpoch e'
     \<and> (en_Status e' \<noteq> en_Status e \<longrightarrow> en_EntitlementEpoch e < en_EntitlementEpoch e')
     \<and> (en_Status e = EntitlementStatusClosed \<longrightarrow>
          en_Status e' = EntitlementStatusClosed \<and> en_StatusReason e' = ReasonAccountClosed)
     \<and> (en_StatusReason e = ReasonFraudQuarantine \<and> en_Source e' = EntitlementSourceBillingProvider \<longrightarrow>
          en_StatusReason e' = ReasonFraudQuarantine \<and> en_Status e' = en_Status e)
     \<and> (en_CredentialRotationRequired e
          \<or> en_Status e \<noteq> EntitlementStatusActive \<and> en_Status e' = EntitlementStatusActive
          \<longrightarrow> en_CredentialRotationRequired e')"

lemma effective_candidate_seller:
  assumes "\<And>e. current = Some e \<Longrightarrow> en_SellerID e = cd_SellerID c"
  shows "cd_SellerID (effective_candidate current c now) = cd_SellerID c"
  using assms
  by (auto simp: effective_candidate_def Let_def candidateFromEntitlement_def normalizeCandidateAtBoundary_def
      lapse_def split: option.split)

lemma effective_candidate_closed:
  assumes "en_Status e = EntitlementStatusClosed"
  shows "cd_Status (effective_candidate (Some e) c now) = EntitlementStatusClosed"
    "cd_StatusReason (effective_candidate (Some e) c now) = ReasonAccountClosed"
    "cd_Source (effective_candidate (Some e) c now) = EntitlementSourceOperator"
  using assms by (simp_all add: effective_candidate_def Let_def)

lemma normalizeCandidate_source [simp]: "cd_Source (normalizeCandidateAtBoundary c now) = cd_Source c"
  by (simp add: normalizeCandidateAtBoundary_def lapse_def Let_def)

lemma effective_candidate_quarantined:
  assumes "en_StatusReason e = ReasonFraudQuarantine" "en_Status e \<noteq> EntitlementStatusClosed"
    "cd_Source (effective_candidate (Some e) c now) = EntitlementSourceBillingProvider"
  shows "cd_Status (effective_candidate (Some e) c now) = en_Status e"
    "cd_StatusReason (effective_candidate (Some e) c now) = ReasonFraudQuarantine"
  using assms by (auto simp: effective_candidate_def Let_def candidateFromEntitlement_def split: if_split_asm)

lemma ReconcileSellerEntitlement_ok:
  assumes "ReconcileSellerEntitlement current c0 now = Inr (e, rec)"
  obtains c revision where "c = effective_candidate current c0 now" "nextSourceRevision current = Inr revision"
    "NewSellerEntitlement (reconciled_params current c revision now) = Inr e"
  using assms by (auto simp: ReconcileSellerEntitlement_def Let_def result_simps)

lemma validEntitlementStatus_invalidates:
  "validEntitlementStatus (cd_Status c) \<Longrightarrow> en_Status e \<noteq> cd_Status c \<Longrightarrow> invalidatesCapabilities e c"
  by (auto simp: validEntitlementStatus_def invalidatesCapabilities_def)

lemma u64_succ:
  fixes n :: u64
  assumes "n \<noteq> - 1"
  shows "unat (n + 1) = unat n + 1" "n < n + 1"
proof -
  have "1 + n \<noteq> 0"
    using assms by (metis add.commute eq_neg_iff_add_eq_0)
  then show "unat (n + 1) = unat n + 1"
    by (simp add: unatSuc add.commute)
  then show "n < n + 1"
    by (simp add: word_less_nat_alt)
qed

lemma reconcile_first:
  assumes "ReconcileSellerEntitlement None c0 now = Inr (e, rec)"
  shows "wf_entitlement (cd_SellerID c0) e" "en_Version e = 1"
proof -
  let ?c = "effective_candidate None c0 now"
  from assms obtain revision where rev: "nextSourceRevision None = Inr revision"
    and new: "NewSellerEntitlement (reconciled_params None ?c revision now) = Inr e"
    by (auto elim: ReconcileSellerEntitlement_ok)
  have "cd_SellerID ?c = cd_SellerID c0"
    by (rule effective_candidate_seller) simp
  with rev new show "wf_entitlement (cd_SellerID c0) e" "en_Version e = 1"
    using NewSellerEntitlement_normal [OF new]
    by (auto simp: wf_entitlement_def NewSellerEntitlement_ok reconciled_params_def nextSourceRevision_def)
qed

lemma reconcile_next:
  assumes wf: "wf_entitlement (cd_SellerID c0) e"
    and run: "ReconcileSellerEntitlement (Some e) c0 now = Inr (e', rec)"
  shows "wf_entitlement (cd_SellerID c0) e'" "entitlement_next e e'"
    "en_Version e \<noteq> - 1" "en_Version e' = en_Version e + 1"
proof -
  let ?c = "effective_candidate (Some e) c0 now"
  from run obtain revision where rev: "nextSourceRevision (Some e) = Inr revision"
    and new: "NewSellerEntitlement (reconciled_params (Some e) ?c revision now) = Inr e'"
    by (auto elim: ReconcileSellerEntitlement_ok)
  have seller: "cd_SellerID ?c = cd_SellerID c0"
    using wf by (intro effective_candidate_seller) (simp add: wf_entitlement_def)
  have v: "en_Version e \<noteq> - 1" "revision = revision_text (en_Version e + 1)"
    using rev wf by (auto simp: nextSourceRevision_def wf_entitlement_def result_simps)
  have epoch: "en_EntitlementEpoch e \<noteq> - 1"
    using wf v(1) order.antisym [OF word_n1_ge [of "en_Version e"]] by (auto simp: wf_entitlement_def)
  note succ = u64_succ [OF v(1)] u64_succ [OF epoch]
  have fields: "en_SellerID e' = cd_SellerID ?c" "en_SourceRevision e' = revision" "en_Version e' = en_Version e + 1"
    "en_Status e' = cd_Status ?c" "en_StatusReason e' = cd_StatusReason ?c" "en_Source e' = cd_Source ?c"
    "en_EntitlementEpoch e' = (if invalidatesCapabilities e ?c then en_EntitlementEpoch e + 1 else en_EntitlementEpoch e)"
    "en_CredentialRotationRequired e' \<longleftrightarrow> en_CredentialRotationRequired e
      \<or> en_Status e \<noteq> EntitlementStatusActive \<and> cd_Status ?c = EntitlementStatusActive"
    and valid: "validEntitlementStatus (cd_Status ?c)"
    using new by (auto simp: NewSellerEntitlement_ok reconciled_params_def validateEntitlement_def)
  have "en_EntitlementEpoch e \<le> en_Version e"
    using wf by (simp add: wf_entitlement_def)
  then have "en_EntitlementEpoch e' \<le> en_Version e'"
    using succ by (auto simp: fields word_le_nat_alt)
  then show "wf_entitlement (cd_SellerID c0) e'"
    using NewSellerEntitlement_normal [OF new] v(2) seller by (simp add: wf_entitlement_def fields)
  show "entitlement_next e e'"
    using effective_candidate_closed [of e c0 now] effective_candidate_quarantined [of e c0 now]
      validEntitlementStatus_invalidates [OF valid, of e] succ
    by (cases "en_Status e = EntitlementStatusClosed") (auto simp: entitlement_next_def fields)
  show "en_Version e \<noteq> - 1" "en_Version e' = en_Version e + 1"
    by (rule v(1), rule fields(3))
qed

text \<open>
  Any number of callers reconcile at the same time. Each works on an entitlement it has read at some
  point, so on any that was ever stored; \<open>h\<close> records these for every seller, oldest first.
\<close>

type_synonym entitlement_history = "ID \<Rightarrow> SellerEntitlement list"

inductive entitlement_step ::
  "SellerEntitlementRepository \<times> entitlement_history \<Rightarrow> SellerEntitlementRepository \<times> entitlement_history \<Rightarrow> bool" where
  reconcile: "k = cd_SellerID c \<Longrightarrow> set_option current \<subseteq> set (h k) \<Longrightarrow>
    ReconcileSellerEntitlement current c now = Inr (e, rec) \<Longrightarrow>
    Entitlement_Apply r e rec (expected_version current) = Inr r' \<Longrightarrow>
    entitlement_step (r, h) (r', h(k := h k @ [e]))"

definition wf_history :: "ID \<Rightarrow> SellerEntitlement list \<Rightarrow> bool" where
  "wf_history k es \<longleftrightarrow>
     (\<forall>i < length es. wf_entitlement k (es ! i) \<and> unat (en_Version (es ! i)) = i + 1)
     \<and> (\<forall>i. Suc i < length es \<longrightarrow> entitlement_next (es ! i) (es ! Suc i))"

definition stored_last :: "SellerEntitlementRepository \<Rightarrow> entitlement_history \<Rightarrow> bool" where
  "stored_last r h \<longleftrightarrow>
     (\<forall>k. sr_entitlements r k = (if h k = [] then None else Some (last (h k))) \<and> wf_history k (h k))"

lemma wf_history_snoc:
  assumes "wf_history k es" "wf_entitlement k e" "unat (en_Version e) = length es + 1"
    "es \<noteq> [] \<Longrightarrow> entitlement_next (last es) e"
  shows "wf_history k (es @ [e])"
proof -
  have "entitlement_next ((es @ [e]) ! i) ((es @ [e]) ! Suc i)" if "Suc i < length (es @ [e])" for i
  proof (cases "Suc i = length es")
    case True
    then have "es \<noteq> []"
      by auto
    then have "last es = es ! i"
      by (simp add: last_conv_nth flip: True)
    with \<open>es \<noteq> []\<close> True assms(4) show ?thesis
      by (simp add: nth_append)
  next
    case False
    with that assms(1) show ?thesis
      by (auto simp: wf_history_def nth_append)
  qed
  moreover have "wf_entitlement k ((es @ [e]) ! i) \<and> unat (en_Version ((es @ [e]) ! i)) = i + 1"
    if "i < length (es @ [e])" for i
    using that assms(1-3) by (cases "i = length es") (auto simp: wf_history_def nth_append)
  ultimately show ?thesis
    by (simp add: wf_history_def)
qed

lemma wf_history_last:
  assumes "wf_history k es" "e \<in> set es" "en_Version e = en_Version (last es)"
  shows "e = last es" "unat (en_Version e) = length es" "wf_entitlement k e"
proof -
  from assms(2) obtain i where i: "i < length es" "es ! i = e"
    by (auto simp: in_set_conv_nth)
  then have "es \<noteq> []"
    by auto
  then have "last es = es ! (length es - 1)" "length es - 1 < length es"
    by (simp_all add: last_conv_nth)
  with assms(1,3) i have "i + 1 = length es"
    by (metis (no_types, lifting) Suc_diff_1 Suc_eq_plus1 gr_zeroI less_zeroE wf_history_def)
  then have "last es = es ! i"
    using \<open>es \<noteq> []\<close> by (simp add: last_conv_nth flip: \<open>i + 1 = length es\<close>)
  with i \<open>i + 1 = length es\<close> assms(1) show "e = last es" "unat (en_Version e) = length es" "wf_entitlement k e"
    by (auto simp: wf_history_def)
qed

lemma Entitlement_Apply_ok:
  assumes "Entitlement_Apply r e rec v = Inr r'"
  shows "sr_entitlements r' = (sr_entitlements r)(en_SellerID e \<mapsto> e)"
    "sr_entitlements r (en_SellerID e) = None \<Longrightarrow> v = 0"
    "sr_entitlements r (en_SellerID e) = Some s \<Longrightarrow> en_Version s = v"
  using assms by (auto simp: Entitlement_Apply_def Let_def result_simps)

lemma entitlement_step_keeps:
  assumes "entitlement_step (r, h) (r', h')" "stored_last r h"
  shows "stored_last r' h'"
  using assms(1)
proof cases
  case (reconcile k c current now e rec)
  have stored: "sr_entitlements r k = (if h k = [] then None else Some (last (h k)))" and wf: "wf_history k (h k)"
    using assms(2) by (auto simp: stored_last_def)
  have new: "wf_entitlement k e \<and> wf_history k (h k @ [e])"
  proof (cases current)
    case None
    then have e: "wf_entitlement k e" "en_Version e = 1"
      using reconcile reconcile_first by auto
    have "h k = []"
    proof (rule ccontr)
      assume ne: "h k \<noteq> []"
      then have "en_Version (last (h k)) = 0"
        using Entitlement_Apply_ok(3) [OF reconcile(5)] None stored e by (simp add: expected_version_def wf_entitlement_def)
      moreover have "unat (en_Version (last (h k))) = length (h k)"
        by (rule wf_history_last(2) [OF wf last_in_set [OF ne] refl])
      ultimately show False
        using ne by simp
    qed
    with e show ?thesis
      by (auto intro!: wf_history_snoc [of _ "[]", simplified] simp: wf_history_def)
  next
    case (Some u)
    then have u: "u \<in> set (h k)" "h k \<noteq> []"
      using reconcile by auto
    then have "wf_entitlement (cd_SellerID c) u"
      using wf reconcile(2) by (auto simp: wf_history_def in_set_conv_nth)
    note step = reconcile_next [OF this, of now e rec]
    have e: "wf_entitlement k e" "entitlement_next u e" "en_Version u \<noteq> - 1" "en_Version e = en_Version u + 1"
      using step reconcile Some by auto
    then have "en_Version (last (h k)) = en_Version u"
      using Entitlement_Apply_ok(3) [OF reconcile(5)] Some stored u by (simp add: expected_version_def wf_entitlement_def)
    note u_last = wf_history_last [OF wf u(1) this [symmetric]]
    then show ?thesis
      using e by (auto intro!: wf_history_snoc [OF wf] simp: u64_succ)
  qed
  then have "sr_entitlements r' = (sr_entitlements r)(k \<mapsto> e)"
    using Entitlement_Apply_ok(1) [OF reconcile(5)] by (simp add: wf_entitlement_def)
  with new assms(2) show ?thesis
    by (auto simp: stored_last_def reconcile(1))
qed

lemma entitlement_reachable:
  "entitlement_step\<^sup>*\<^sup>* (NewSellerEntitlementRepository, \<lambda>_. []) (r, h) \<Longrightarrow> stored_last r h"
proof (induction rule: rtranclp_induct2)
  case refl
  show ?case by (simp add: stored_last_def NewSellerEntitlementRepository_def wf_history_def)
next
  case (step r h r' h')
  then show ?case by (blast intro: entitlement_step_keeps)
qed

text \<open>The service reads and reconciles in one such step.\<close>

lemma current_entitlement_stored:
  assumes "stored_last r h" "current_entitlement r k = Inr current"
  shows "set_option current \<subseteq> set (h k)"
proof (cases "h k = []")
  case True
  then show ?thesis
    using assms by (auto simp: stored_last_def current_entitlement_def Entitlement_Get_def result_simps
        missing_entitlement_def)
next
  case False
  then have "sr_entitlements r k = Some (last (h k))" "wf_history k (h k)"
    using assms(1) by (auto simp: stored_last_def)
  moreover then have "NewSellerEntitlement (last (h k)) = Inr (last (h k))"
    using wf_history_last(3) [of k "h k" "last (h k)"] False by (simp add: wf_entitlement_def)
  ultimately have "current = Some (last (h k))"
    using assms(2) by (simp add: current_entitlement_def Entitlement_Get_def RestoreSellerEntitlement_def)
  with False show ?thesis
    by simp
qed

lemma record_entitlement_keeps [simp]: "bi_entitlements (snd (record_entitlement c e s)) = bi_entitlements s"
  by (simp add: record_entitlement_def writing_run split: sum.split)

lemma ReconcileEntitlement_step:
  assumes "stored_last (bi_entitlements s) h"
  shows "\<exists>h'. entitlement_step\<^sup>=\<^sup>= (bi_entitlements s, h)
    (bi_entitlements (snd (ReconcileEntitlement c candidate s)), h')"
proof (cases "current_entitlement (bi_entitlements s) (cd_SellerID candidate)")
  case (Inl e)
  then show ?thesis
    by (auto simp: ReconcileEntitlement_def action_simps)
next
  case (Inr current)
  note read = current_entitlement_stored [OF assms Inr]
  show ?thesis
  proof (cases "ReconcileSellerEntitlement current candidate (bc_now c)")
    case (Inl e)
    then show ?thesis
      using Inr by (auto simp: ReconcileEntitlement_def action_simps)
  next
    case made: (Inr made)
    obtain e rec where made': "made = (e, rec)"
      by (cases made)
    show ?thesis
    proof (cases "Entitlement_Apply (bi_entitlements s) e rec (expected_version current)")
      case (Inl err)
      then show ?thesis
        using Inr made made' by (auto simp: ReconcileEntitlement_def action_simps)
    next
      case applied: (Inr r)
      then have "bi_entitlements (snd (ReconcileEntitlement c candidate s)) = r"
        using Inr made made' by (simp add: ReconcileEntitlement_def action_simps split: sum.split)
      with reconcile [where h = h, OF refl read made [unfolded made'] applied] show ?thesis
        by auto
    qed
  qed
qed

text \<open>
  C13: the record of a seller's entitlement never goes back. However many callers reconcile at once, the
  stored entitlement is the last of a history in which the versions count from one without wrapping, the
  source revision is the version, every entry satisfies the rules of the constructor, and each entry
  follows from the one before: its epoch does not decrease and grows whenever the status changes, so a
  capability issued before a change of status is recognised as old; a closed account stays closed; the
  billing provider does not lift a fraud quarantine; and becoming active again demands new credentials.
  Only an active, unexpired entitlement lets network traffic through.
\<close>

theorem entitlement_never_goes_back:
  assumes "entitlement_step\<^sup>*\<^sup>* (NewSellerEntitlementRepository, \<lambda>_. []) (r, h)" "sr_entitlements r k = Some e"
  shows "h k \<noteq> [] \<and> last (h k) = e \<and> unat (en_Version e) = length (h k)
    \<and> en_SourceRevision e = revision_text (en_Version e) \<and> validateEntitlement e = []
    \<and> (\<forall>i < length (h k). unat (en_Version (h k ! i)) = i + 1 \<and> validateEntitlement (h k ! i) = [])
    \<and> (\<forall>i. Suc i < length (h k) \<longrightarrow> entitlement_next (h k ! i) (h k ! Suc i))
    \<and> (AllowsNetworkAccess e now \<longrightarrow> en_Status e = EntitlementStatusActive \<and> now < en_AccessEndsAt e)"
proof -
  have "stored_last r h"
    by (rule entitlement_reachable [OF assms(1)])
  with assms(2) have wf: "wf_history k (h k)" and last: "h k \<noteq> []" "last (h k) = e"
    by (auto simp: stored_last_def split: if_split_asm)
  have valid: "validateEntitlement u = []" if "wf_entitlement k u" for u
    using that by (simp add: wf_entitlement_def NewSellerEntitlement_ok)
  have "last (h k) \<in> set (h k)"
    using last(1) by simp
  note e = wf_history_last [OF wf this refl]
  show ?thesis
    using wf last e valid
    by (auto simp: wf_history_def wf_entitlement_def AllowsNetworkAccess_def Timestamp_Before_def)
qed

definition sample_candidate :: "EntitlementStatus \<Rightarrow> EntitlementStatusReason \<Rightarrow> EntitlementCandidate" where
  "sample_candidate status reason =
     \<lparr>cd_SellerID = ''sel_01ARZ3NDEKTSV4RRFFQ69G5FAV'', cd_PlanID = PlanGrowth, cd_PlanVersion = 1,
      cd_Status = status, cd_BillingPeriodStart = 1000, cd_BillingPeriodEnd = 70000000000000000000, cd_AccessEndsAt = 70000000000000000000,
      cd_CancelAtPeriodEnd = False, cd_Source = EntitlementSourceLocal, cd_StatusReason = reason,
      cd_Provider = EntitlementProviderLocal, cd_ProviderCustomerID = [], cd_ProviderSubscriptionID = [],
      cd_ProviderPriceID = [], cd_LastProviderEventID = []\<rparr>"

definition sample_entitlement :: SellerEntitlement where
  "sample_entitlement =
     reconciled_params None (sample_candidate EntitlementStatusActive (ReasonOther [])) (revision_text 1) 2000"

lemma validSourceRevision_revision: "n \<noteq> 0 \<Longrightarrow> validSourceRevision (revision_text n)"
proof -
  assume "n \<noteq> 0"
  have n: "0 \<le> uint n" "uint n < 10 ^ sourceRevisionWidth"
    using uint_lt2p [of n] by simp_all
  have zeros: "ParseUint (replicate sourceRevisionWidth (CHR ''0'')) = Some 0"
    by (simp add: ParseUint_def is_digit_def list_all_iff)
  have "revision_text n \<noteq> replicate sourceRevisionWidth (CHR ''0'')"
  proof
    assume "revision_text n = replicate sourceRevisionWidth (CHR ''0'')"
    then have "Some n = Some 0"
      using zeros ParseUint_revision [of n] by metis
    with \<open>n \<noteq> 0\<close> show False by simp
  qed
  moreover have "length (revision_text n) = sourceRevisionWidth"
    using pad_digits_read [OF n] by (simp add: revision_text_def)
  ultimately show ?thesis
    by (simp add: validSourceRevision_def)
qed

lemma sample_valid: "NewSellerEntitlement sample_entitlement = Inr sample_entitlement"
proof -
  have "ID_Prefix ''sel_01ARZ3NDEKTSV4RRFFQ69G5FAV'' = SellerIDPrefix"
    by code_simp
  moreover note validSourceRevision_revision [of 1]
  ultimately show ?thesis
    by (simp add: NewSellerEntitlement_ok validateEntitlement_def sample_entitlement_def reconciled_params_def
        sample_candidate_def grace_error_def graceEndForCandidate_def supported_plan_def validEntitlementStatus_def
        validEntitlementSource_def validEntitlementProvider_def Timestamp_Before_def)
qed

lemma sample_reconciled:
  "\<exists>rec r. ReconcileSellerEntitlement None (sample_candidate EntitlementStatusActive (ReasonOther [])) 2000
       = Inr (sample_entitlement, rec)
     \<and> Entitlement_Apply NewSellerEntitlementRepository sample_entitlement rec 0 = Inr r
     \<and> sr_entitlements r ''sel_01ARZ3NDEKTSV4RRFFQ69G5FAV'' = Some sample_entitlement"
proof -
  let ?c = "sample_candidate EntitlementStatusActive (ReasonOther [])"
  have "effective_candidate None ?c 2000 = ?c"
    by (simp add: effective_candidate_def Let_def normalizeCandidateAtBoundary_def lapse_def sample_candidate_def
        Timestamp_Before_def)
  moreover note sample_valid
  ultimately obtain rec where "ReconcileSellerEntitlement None ?c 2000 = Inr (sample_entitlement, rec)"
    "er_SellerID rec = ''sel_01ARZ3NDEKTSV4RRFFQ69G5FAV''" "er_SourceRevision rec = revision_text 1"
    "er_AppliedVersion rec = 1"
    by (simp add: ReconcileSellerEntitlement_def Let_def nextSourceRevision_def sample_entitlement_def)
      (simp add: sample_candidate_def reconciled_params_def)
  moreover from this have "Entitlement_Apply NewSellerEntitlementRepository sample_entitlement rec 0
    = Inr \<lparr>sr_entitlements = [''sel_01ARZ3NDEKTSV4RRFFQ69G5FAV'' \<mapsto> sample_entitlement],
           sr_reconciliations = (\<lambda>_. Map.empty)(''sel_01ARZ3NDEKTSV4RRFFQ69G5FAV'' := [revision_text 1 \<mapsto> rec])\<rparr>"
    by (simp add: Entitlement_Apply_def Let_def NewSellerEntitlementRepository_def sample_entitlement_def
        reconciled_params_def sample_candidate_def)
  ultimately show ?thesis
    by (intro exI conjI) (assumption | simp)+
qed

theorem entitlement_never_goes_back_witness:
  "\<exists>r h. entitlement_step\<^sup>*\<^sup>* (NewSellerEntitlementRepository, \<lambda>_. []) (r, h)
     \<and> sr_entitlements r ''sel_01ARZ3NDEKTSV4RRFFQ69G5FAV'' = Some sample_entitlement
     \<and> h ''sel_01ARZ3NDEKTSV4RRFFQ69G5FAV'' = [sample_entitlement]
     \<and> en_Version (last (h ''sel_01ARZ3NDEKTSV4RRFFQ69G5FAV'')) = 1
     \<and> \<not> AllowsNetworkAccess sample_entitlement 70000000000000000000"
proof -
  let ?k = "''sel_01ARZ3NDEKTSV4RRFFQ69G5FAV''"
  obtain rec r where made: "ReconcileSellerEntitlement None (sample_candidate EntitlementStatusActive (ReasonOther [])) 2000
      = Inr (sample_entitlement, rec)"
    and applied: "Entitlement_Apply NewSellerEntitlementRepository sample_entitlement rec 0 = Inr r"
    and stored: "sr_entitlements r ?k = Some sample_entitlement"
    using sample_reconciled by blast
  let ?h = "(\<lambda>_. [])(?k := [sample_entitlement])"
  have "entitlement_step (NewSellerEntitlementRepository, \<lambda>_. []) (r, ?h)"
    using entitlement_step.reconcile [where h = "\<lambda>_. []" and k = ?k, OF _ _ made]
      applied by (simp add: sample_candidate_def expected_version_def)
  then have reach: "entitlement_step\<^sup>*\<^sup>* (NewSellerEntitlementRepository, \<lambda>_. []) (r, ?h)"
    by (rule r_into_rtranclp)
  have "en_AccessEndsAt sample_entitlement = 70000000000000000000" "en_Version sample_entitlement = 1"
    by (simp_all add: sample_entitlement_def reconciled_params_def sample_candidate_def)
  then show ?thesis
    using entitlement_never_goes_back [OF reach stored, of 70000000000000000000] reach stored
    by (intro exI [of _ r] exI [of _ ?h]) auto
qed

end
