(* ===== verification/BrowserPurchase.thy ===== *)
theory BrowserPurchase
  imports Actions Routes Secrets Repositories
begin

text \<open>
  Purchases from a browser: \<open>internal/browserpurchase/{models,service}.go\<close> and the repository of
  \<open>internal/persistence/memory/browser_purchase_sessions.go\<close>. A session lets one browser buy one product
  once; after the payment it is bound to the payer's wallet, by which a lost grant is recovered. The
  lemmas show what an accepted grant allows, and that no interleaving of callers lets a session pay for
  two transactions or a recovery challenge serve twice.
\<close>

section \<open>Errors, sessions and requests\<close>

text \<open>
  \<open>browserValidationError\<close> is a struct of its own, not the one of the domain package; its text is
  \<open>field: message\<close> and it unwraps to \<open>ErrValidation\<close>.
\<close>

definition browserValidationError :: "string \<Rightarrow> string \<Rightarrow> go_error" where
  "browserValidationError field message = Err (''browserpurchase.ErrValidation '' @ field @ '': '' @ message)"

abbreviation "ErrMaximumBelowQuote \<equiv> Err ''browserpurchase.ErrMaximumBelowQuote''"
abbreviation "ErrCreationConflict \<equiv> Err ''browserpurchase.ErrIdempotencyConflict''"
abbreviation "ErrInvalidGrant \<equiv> Err ''browserpurchase.ErrInvalidGrant''"
abbreviation "ErrGrantRevoked \<equiv> Err ''browserpurchase.ErrGrantRevoked''"
abbreviation "ErrCommerceExpired \<equiv> Err ''browserpurchase.ErrCommerceExpired''"
abbreviation "ErrAccessExpired \<equiv> Err ''browserpurchase.ErrAccessExpired''"
abbreviation "ErrCommerceConsumed \<equiv> Err ''browserpurchase.ErrCommerceConsumed''"
abbreviation "ErrBrowserBindingMismatch \<equiv> Err ''browserpurchase.ErrBindingMismatch''"
abbreviation "ErrCSRFInvalid \<equiv> Err ''browserpurchase.ErrCSRFInvalid''"
abbreviation "ErrWalletNotBound \<equiv> Err ''browserpurchase.ErrWalletNotBound''"
abbreviation "ErrWalletMismatch \<equiv> Err ''browserpurchase.ErrWalletMismatch''"
abbreviation "ErrChallengeExpired \<equiv> Err ''browserpurchase.ErrChallengeExpired''"
abbreviation "ErrChallengeConsumed \<equiv> Err ''browserpurchase.ErrChallengeConsumed''"
abbreviation "ErrRecoveryProofInvalid \<equiv> Err ''browserpurchase.ErrRecoveryProofInvalid''"

definition ParsePurchaseSessionID :: "(string \<Rightarrow> bool) \<Rightarrow> string \<Rightarrow> string result" where
  "ParsePurchaseSessionID ulid raw =
     reject_if (\<not> HasPrefix raw ''bps_'')
       (browserValidationError ''purchaseSessionId'' ''must use the bps_ prefix'')
    (reject_if (\<not> ulid (TrimPrefix raw ''bps_''))
       (browserValidationError ''purchaseSessionId'' ''must contain a canonical ULID'') (Inr raw))"

definition ParseRecoveryChallengeID :: "(string \<Rightarrow> bool) \<Rightarrow> string \<Rightarrow> string result" where
  "ParseRecoveryChallengeID ulid raw =
     reject_if (\<not> HasPrefix raw ''bpr_'')
       (browserValidationError ''challengeId'' ''must use the bpr_ prefix'')
    (reject_if (\<not> ulid (TrimPrefix raw ''bpr_''))
       (browserValidationError ''challengeId'' ''must contain a canonical ULID'') (Inr raw))"

datatype BrowserStatus =
    BrowserActive
  | BrowserCompleted
  | BrowserExpired
  | BrowserRevoked
  | BrowserStatusOther string

record BrowserPurchaseSession =
  bs_PurchaseSessionID :: string
  bs_SellerID :: ID
  bs_RouteID :: ID
  bs_ProductSlug :: string
  bs_RequestBodyHash :: string
  bs_MaximumAmount :: amount
  bs_BrowserGrantHash :: string
  bs_CSRFTokenHash :: string
  bs_WalletBindingHash :: "string option"
  bs_TransactionID :: "ID option"
  bs_Status :: BrowserStatus
  bs_CommerceExpiresAt :: instant
  bs_AccessExpiresAt :: instant
  bs_CreatedAt :: instant
  bs_UpdatedAt :: instant

record RecoveryChallengeRecord =
  rl_ChallengeID :: string
  rl_PurchaseSessionID :: string
  rl_ExpectedWalletBindingHash :: string
  rl_Network :: string
  rl_Address :: string
  rl_Nonce :: string
  rl_MessageHash :: string
  rl_ExpiresAt :: instant
  rl_UsedAt :: "instant option"

record browser_product =
  bp_SellerID :: ID
  bp_RouteID :: ID
  bp_ProductSlug :: string
  bp_Amount :: amount

record CreateBrowserSessionRequest =
  cb_RequestBodyHash :: string
  cb_MaximumAmount :: string

record RecoveryChallengeRequest =
  rh_Network :: string
  rh_Address :: string

record RecoverRequest =
  rx_ChallengeID :: string
  rx_Network :: string
  rx_Address :: string
  rx_Proof :: string

record Creation =
  cn_Session :: BrowserPurchaseSession
  cn_BrowserGrant :: string
  cn_CSRFToken :: string
  cn_Replay :: bool

record Recovery =
  ry_Session :: BrowserPurchaseSession
  ry_BrowserGrant :: string
  ry_CSRFToken :: string

datatype Authority =
    AuthorityCommerce
  | AuthorityRead
  | AuthorityRemediation
  | AuthorityOther string

record AuthorizationRequirement =
  ar_Authority :: Authority
  ar_SellerID :: ID
  ar_RouteID :: ID
  ar_ProductSlug :: string
  ar_RequestBodyHash :: string
  ar_MaximumAmount :: string
  ar_TransactionID :: ID

section \<open>The repository\<close>

record BrowserRepository =
  br_sessions :: "string \<rightharpoonup> BrowserPurchaseSession"
  br_grantIndex :: "string \<rightharpoonup> string"
  br_idempotency :: "string \<rightharpoonup> string \<times> string"
  br_challenges :: "string \<rightharpoonup> RecoveryChallengeRecord"

definition no_sessions :: BrowserRepository where
  "no_sessions = \<lparr>br_sessions = Map.empty, br_grantIndex = Map.empty, br_idempotency = Map.empty,
                 br_challenges = Map.empty\<rparr>"

definition browserPurchaseIdempotencyKey :: "string \<Rightarrow> string \<Rightarrow> string" where
  "browserPurchaseIdempotencyKey scope k = scope @ [CHR 0x00] @ k"

text \<open>The stored creation of a key: none, or its session.\<close>

definition stored_creation ::
  "BrowserRepository \<Rightarrow> string \<times> string \<Rightarrow> string \<Rightarrow> BrowserPurchaseSession result" where
  "stored_creation r rec requestHash =
     reject_if (fst rec \<noteq> requestHash) ErrCreationConflict
       (case br_sessions r (snd rec) of None \<Rightarrow> Inl ErrConditionFailed | Some s \<Rightarrow> Inr s)"

definition FindCreation ::
  "BrowserRepository \<Rightarrow> string \<Rightarrow> string \<Rightarrow> string \<Rightarrow> BrowserPurchaseSession option result" where
  "FindCreation r scope k requestHash =
     (case br_idempotency r (browserPurchaseIdempotencyKey scope k) of
        None \<Rightarrow> Inr None
      | Some rec \<Rightarrow> rbind (stored_creation r rec requestHash) (\<lambda>s. Inr (Some s)))"

text \<open>The stored session, whether it is a replay, and the repository after.\<close>

definition Session_Create ::
  "BrowserRepository \<Rightarrow> BrowserPurchaseSession \<Rightarrow> string \<Rightarrow> string \<Rightarrow> string
    \<Rightarrow> (BrowserPurchaseSession \<times> bool \<times> BrowserRepository) result" where
  "Session_Create r s scope k requestHash =
     (let indexKey = browserPurchaseIdempotencyKey scope k
      in case br_idempotency r indexKey of
           Some rec \<Rightarrow> rbind (stored_creation r rec requestHash) (\<lambda>stored. Inr (stored, True, r))
         | None \<Rightarrow>
             reject_if (br_sessions r (bs_PurchaseSessionID s) \<noteq> None) ErrAlreadyExists
            (reject_if (br_grantIndex r (bs_BrowserGrantHash s) \<noteq> None) ErrAlreadyExists
               (Inr (s, False,
                 r\<lparr>br_sessions := (br_sessions r)(bs_PurchaseSessionID s \<mapsto> s),
                   br_grantIndex := (br_grantIndex r)(bs_BrowserGrantHash s \<mapsto> bs_PurchaseSessionID s),
                   br_idempotency := (br_idempotency r)(indexKey \<mapsto> (requestHash, bs_PurchaseSessionID s))\<rparr>))))"

definition Session_Get :: "BrowserRepository \<Rightarrow> string \<Rightarrow> BrowserPurchaseSession result" where
  "Session_Get r k = (case br_sessions r k of None \<Rightarrow> Inl ErrNotFound | Some s \<Rightarrow> Inr s)"

definition GetByGrantHash :: "BrowserRepository \<Rightarrow> string \<Rightarrow> BrowserPurchaseSession result" where
  "GetByGrantHash r grantHash =
     (case br_grantIndex r grantHash of None \<Rightarrow> Inl ErrNotFound | Some k \<Rightarrow> Session_Get r k)"

definition Session_ClaimTransaction ::
  "BrowserRepository \<Rightarrow> string \<Rightarrow> ID \<Rightarrow> instant \<Rightarrow> (BrowserPurchaseSession \<times> BrowserRepository) result" where
  "Session_ClaimTransaction r k transactionID updatedAt =
     (case br_sessions r k of
        None \<Rightarrow> Inl ErrNotFound
      | Some s \<Rightarrow>
          reject_if (bs_Status s \<noteq> BrowserActive) ErrConditionFailed
            (case bs_TransactionID s of
               Some t \<Rightarrow> if t = transactionID then Inr (s, r) else Inl ErrConditionFailed
             | None \<Rightarrow>
                 let s' = s\<lparr>bs_TransactionID := Some transactionID, bs_UpdatedAt := updatedAt\<rparr>
                 in Inr (s', r\<lparr>br_sessions := (br_sessions r)(k \<mapsto> s')\<rparr>)))"

definition Session_Complete :: "BrowserRepository \<Rightarrow> BrowserPurchaseSession \<Rightarrow> BrowserRepository result" where
  "Session_Complete r s =
     (case br_sessions r (bs_PurchaseSessionID s) of
        None \<Rightarrow> Inl ErrNotFound
      | Some stored \<Rightarrow>
          reject_if (bs_Status stored \<noteq> BrowserActive
                     \<or> bs_TransactionID stored \<noteq> None
                       \<and> (bs_TransactionID s = None \<or> bs_TransactionID stored \<noteq> bs_TransactionID s)
                     \<or> bs_Status s \<noteq> BrowserCompleted \<or> bs_TransactionID s = None
                     \<or> bs_WalletBindingHash s = None) ErrConditionFailed
            (Inr (r\<lparr>br_sessions := (br_sessions r)(bs_PurchaseSessionID s \<mapsto> s)\<rparr>)))"

definition CreateChallenge :: "BrowserRepository \<Rightarrow> RecoveryChallengeRecord \<Rightarrow> BrowserRepository result" where
  "CreateChallenge r c =
     reject_if (br_sessions r (rl_PurchaseSessionID c) = None) ErrNotFound
    (reject_if (br_challenges r (rl_ChallengeID c) \<noteq> None) ErrAlreadyExists
       (Inr (r\<lparr>br_challenges := (br_challenges r)(rl_ChallengeID c \<mapsto> c)\<rparr>)))"

definition GetChallenge :: "BrowserRepository \<Rightarrow> string \<Rightarrow> string \<Rightarrow> RecoveryChallengeRecord result" where
  "GetChallenge r k challengeID =
     (case br_challenges r challengeID of
        None \<Rightarrow> Inl ErrNotFound
      | Some c \<Rightarrow> reject_if (rl_PurchaseSessionID c \<noteq> k) ErrNotFound (Inr c))"

definition Session_Recover ::
  "BrowserRepository \<Rightarrow> BrowserPurchaseSession \<Rightarrow> string \<Rightarrow> RecoveryChallengeRecord \<Rightarrow> BrowserRepository result" where
  "Session_Recover r s previousGrantHash c =
     (case (br_sessions r (bs_PurchaseSessionID s), br_challenges r (rl_ChallengeID c)) of
        (Some storedSession, Some storedChallenge) \<Rightarrow>
          reject_if (bs_BrowserGrantHash storedSession \<noteq> previousGrantHash
                     \<or> bs_Status storedSession \<noteq> BrowserCompleted
                     \<or> rl_PurchaseSessionID storedChallenge \<noteq> bs_PurchaseSessionID s
                     \<or> rl_UsedAt storedChallenge \<noteq> None \<or> rl_UsedAt c = None
                     \<or> rl_MessageHash storedChallenge \<noteq> rl_MessageHash c
                     \<or> rl_ExpectedWalletBindingHash storedChallenge \<noteq> rl_ExpectedWalletBindingHash c)
            ErrConditionFailed
         (reject_if (case br_grantIndex r (bs_BrowserGrantHash s) of
                       None \<Rightarrow> False
                     | Some existing \<Rightarrow> existing \<noteq> bs_PurchaseSessionID s) ErrConditionFailed
            (Inr (r\<lparr>br_grantIndex :=
                      ((br_grantIndex r)(previousGrantHash := None))(bs_BrowserGrantHash s \<mapsto> bs_PurchaseSessionID s),
                    br_sessions := (br_sessions r)(bs_PurchaseSessionID s \<mapsto> s),
                    br_challenges := (br_challenges r)(rl_ChallengeID c \<mapsto> c)\<rparr>)))
      | _ \<Rightarrow> Inl ErrNotFound)"

section \<open>Checks\<close>

abbreviation MaximumCommerceLifetime :: int where "MaximumCommerceLifetime \<equiv> 10 * Minute"
abbreviation RecoveryChallengeLifetime :: int where "RecoveryChallengeLifetime \<equiv> 5 * Minute"
abbreviation RemediationAccessLifetime :: int where "RemediationAccessLifetime \<equiv> 30 * (24 * Hour)"

text \<open>The request's body hash and its maximum amount. Amounts that parse compare without a panic.\<close>

definition validateCreateRequest :: "CreateBrowserSessionRequest \<Rightarrow> (string \<times> amount) result" where
  "validateCreateRequest q =
     reject_if (\<not> sha256_digest (cb_RequestBodyHash q))
       (browserValidationError ''requestBodyHash'' ''must be a lowercase SHA-256 digest'')
       (case ParseAmount (cb_MaximumAmount q) of
          Inl _ \<Rightarrow> Inl (browserValidationError ''maximumAmount'' ''must be canonical atomic units'')
        | Inr a \<Rightarrow> reject_if (Amount_String a \<noteq> cb_MaximumAmount q)
            (browserValidationError ''maximumAmount'' ''must be canonical atomic units'')
            (Inr (cb_RequestBodyHash q, a)))"

definition bound :: "string \<Rightarrow> string \<Rightarrow> bool" where
  "bound wanted actual \<longleftrightarrow> wanted = [] \<or> wanted = actual"

definition validateAuthorizationBinding ::
  "BrowserPurchaseSession \<Rightarrow> AuthorizationRequirement \<Rightarrow> unit result" where
  "validateAuthorizationBinding s q =
     reject_if (\<not> bound (ar_SellerID q) (bs_SellerID s)
                \<or> \<not> bound (ar_RouteID q) (bs_RouteID s)
                \<or> \<not> bound (ar_ProductSlug q) (bs_ProductSlug s)
                \<or> ar_RequestBodyHash q \<noteq> [] \<and> \<not> constantStringEqual (ar_RequestBodyHash q) (bs_RequestBodyHash s)
                \<or> ar_TransactionID q \<noteq> [] \<and> bs_TransactionID s \<noteq> Some (ar_TransactionID q))
       ErrBrowserBindingMismatch
       (if ar_MaximumAmount q = [] then Inr ()
        else case ParseAmount (ar_MaximumAmount q) of
          Inl _ \<Rightarrow> Inl ErrBrowserBindingMismatch
        | Inr a \<Rightarrow>
            reject_if (Amount_String a \<noteq> ar_MaximumAmount q) ErrBrowserBindingMismatch
              (rbind (Amount_Compare a (bs_MaximumAmount s)) (\<lambda>c.
               reject_if (c \<noteq> 0) ErrBrowserBindingMismatch (Inr ()))))"

text \<open>\<open>toLower\<close> is \<open>strings.ToLower\<close>, whose tables are not part of the program.\<close>

definition normalizeWallet :: "(string \<Rightarrow> string) \<Rightarrow> string \<Rightarrow> string \<Rightarrow> (string \<times> string) result" where
  "normalizeWallet toLower network address =
     (let n = TrimSpace network; a = TrimSpace address
      in reject_if (n = [] \<or> 80 < length n)
           (browserValidationError ''network'' ''must contain at most 80 characters'')
        (reject_if (a = [] \<or> 256 < length a)
           (browserValidationError ''address'' ''must contain at most 256 characters'')
           (Inr (n, if HasPrefix n ''eip155:'' then toLower a else a))))"

text \<open>The two slug patterns are the regular expression of \<^const>\<open>slug_form\<close> with bounds on the length.\<close>

definition validSellerSlug :: "string \<Rightarrow> bool" where
  "validSellerSlug slug \<longleftrightarrow> 3 \<le> length slug \<and> length slug \<le> 48 \<and> slug_form slug"

definition validProductSlug :: "string \<Rightarrow> bool" where
  "validProductSlug slug \<longleftrightarrow> 3 \<le> length slug \<and> length slug \<le> 80 \<and> slug_form slug"

definition hashCreationRequest :: "string \<Rightarrow> string \<Rightarrow> string \<Rightarrow> string \<Rightarrow> string" where
  "hashCreationRequest sellerSlug productSlug requestBodyHash maximumAmount =
     hex_encode (Sum256 (''agentpay.browser-purchase-create.v1'' @ [CHR 0x00] @ json_encode (JObject
       [(''sellerSlug'', JString sellerSlug), (''productSlug'', JString productSlug),
        (''requestBodyHash'', JString requestBodyHash), (''maximumAmount'', JString maximumAmount)])))"

definition walletBindingHash :: "string \<Rightarrow> string \<Rightarrow> string" where
  "walletBindingHash network address =
     hex_encode (Sum256 (''agentpay.browser-wallet.v1'' @ [CHR 0x00] @ network @ [CHR 0x00] @ address))"

definition recoveryMessage :: "string \<Rightarrow> string \<Rightarrow> string \<Rightarrow> string \<Rightarrow> string \<Rightarrow> instant \<Rightarrow> string" where
  "recoveryMessage sessionID challengeID network address nonce expiresAt =
     Join [''AgentPay browser purchase recovery'', ''Version: 1'', ''Purchase Session: '' @ sessionID,
           ''Challenge: '' @ challengeID, ''Network: '' @ network, ''Address: '' @ address,
           ''Nonce: '' @ nonce, ''Expires At: '' @ FormatRFC3339Nano expiresAt] [CHR 0x0A]"

section \<open>The service\<close>

text \<open>
  What one call meets: the generators' results, the product resolver and the wallet verifier (both may
  be missing), and the successive readings of the clock.
\<close>

record browser_call =
  bk_ulid :: "string \<Rightarrow> bool"
  bk_toLower :: "string \<Rightarrow> string"
  bk_products :: "(string \<Rightarrow> string \<Rightarrow> browser_product result) option"
  bk_verify :: "(string \<Rightarrow> string \<Rightarrow> string \<Rightarrow> string \<Rightarrow> bool result) option"
  bk_newID :: "string result"
  bk_token1 :: "string result"
  bk_token2 :: "string result"
  bk_now :: instant
  bk_now2 :: instant
  bk_now3 :: instant

definition creation_of ::
  "browser_call \<Rightarrow> browser_product \<Rightarrow> string \<Rightarrow> amount \<Rightarrow> string \<Rightarrow> string \<Rightarrow> string \<Rightarrow> BrowserPurchaseSession" where
  "creation_of c product requestHash maximumAmount k browserGrant csrfToken =
     (let expiresAt = Timestamp_Add (bk_now c) MaximumCommerceLifetime
      in \<lparr>bs_PurchaseSessionID = k, bs_SellerID = bp_SellerID product, bs_RouteID = bp_RouteID product,
          bs_ProductSlug = bp_ProductSlug product, bs_RequestBodyHash = requestHash,
          bs_MaximumAmount = maximumAmount, bs_BrowserGrantHash = hashSecret browserGrant,
          bs_CSRFTokenHash = hashSecret csrfToken, bs_WalletBindingHash = None, bs_TransactionID = None,
          bs_Status = BrowserActive, bs_CommerceExpiresAt = expiresAt, bs_AccessExpiresAt = expiresAt,
          bs_CreatedAt = bk_now c, bs_UpdatedAt = bk_now c\<rparr>)"

text \<open>A write that also yields a value.\<close>

definition storing_session ::
  "(BrowserRepository \<Rightarrow> ('a \<times> BrowserRepository) result) \<Rightarrow> (BrowserRepository, 'a) action" where
  "storing_session f = (\<lambda>r. case f r of Inl e \<Rightarrow> (Inl e, r) | Inr (x, r') \<Rightarrow> (Inr x, r'))"

definition condition_failed_as :: "go_error \<Rightarrow> go_error \<Rightarrow> go_error" where
  "condition_failed_as e' e = (if e = ErrConditionFailed then e' else e)"

definition Browser_Create ::
  "browser_call \<Rightarrow> string \<Rightarrow> string \<Rightarrow> string \<Rightarrow> CreateBrowserSessionRequest \<Rightarrow> (BrowserRepository, Creation) action" where
  "Browser_Create c sellerSlug productSlug rawIdempotencyKey q =
     (case bk_products c of
        None \<Rightarrow> pure (Inl (Err ''browser purchase dependencies are unavailable''))
      | Some resolve \<Rightarrow>
     guard (\<not> validSellerSlug sellerSlug)
       (browserValidationError ''sellerSlug'' ''must be 3-48 lowercase letters, digits, or single hyphens'')
    (guard (\<not> validProductSlug productSlug)
       (browserValidationError ''productSlug'' ''must be 3-80 lowercase letters, digits, or single hyphens'')
    (abind (pure (validateCreateRequest q)) (\<lambda>(requestHash, maximumAmount).
     guard (\<not> is_ok (ParseIdempotencyKey rawIdempotencyKey))
       (browserValidationError ''idempotencyKey'' ''must match the public idempotency-key contract'')
    (abind (pure (resolve sellerSlug productSlug)) (\<lambda>product.
     guard (bp_ProductSlug product \<noteq> productSlug \<or> bp_SellerID product = [] \<or> bp_RouteID product = [])
       ErrBrowserBindingMismatch
    (abind (pure (Amount_Compare maximumAmount (bp_Amount product))) (\<lambda>order.
     guard (order < 0) ErrMaximumBelowQuote
    (let creationRequestHash = hashCreationRequest sellerSlug productSlug requestHash (Amount_String maximumAmount);
         scope = sellerSlug @ ''/'' @ productSlug
     in abind (reading (\<lambda>r. FindCreation r scope rawIdempotencyKey creationRequestHash)) (\<lambda>found.
        case found of
          Some existing \<Rightarrow> pure (Inr \<lparr>cn_Session = existing, cn_BrowserGrant = [], cn_CSRFToken = [], cn_Replay = True\<rparr>)
        | None \<Rightarrow>
     abind (pure (rbind (bk_newID c) (ParsePurchaseSessionID (bk_ulid c)))) (\<lambda>k.
     abind (pure (bk_token1 c)) (\<lambda>browserGrant.
     abind (pure (bk_token2 c)) (\<lambda>csrfToken.
     abind (storing_session (\<lambda>r. rbind (Session_Create r
         (creation_of c product requestHash maximumAmount k browserGrant csrfToken)
         scope rawIdempotencyKey creationRequestHash) (\<lambda>(s, replay, r'). Inr ((s, replay), r')))) (\<lambda>(stored, replay).
     pure (Inr
       (if replay then \<lparr>cn_Session = stored, cn_BrowserGrant = [], cn_CSRFToken = [], cn_Replay = True\<rparr>
        else \<lparr>cn_Session = stored, cn_BrowserGrant = browserGrant, cn_CSRFToken = csrfToken, cn_Replay = False\<rparr>))))))))))))))))"

text \<open>The session of the grant; the buyer is \<open>browser:\<close> followed by the session's identifier.\<close>

definition Browser_Authorize ::
  "BrowserRepository \<Rightarrow> instant \<Rightarrow> string \<Rightarrow> AuthorizationRequirement \<Rightarrow> (BrowserPurchaseSession \<times> string) result" where
  "Browser_Authorize r now browserGrant q =
     reject_if (length browserGrant < 32 \<or> 256 < length browserGrant) ErrInvalidGrant
       (case GetByGrantHash r (hashSecret browserGrant) of
          Inl e \<Rightarrow> Inl (if e = ErrNotFound then ErrInvalidGrant else e)
        | Inr s \<Rightarrow>
            reject_if (\<not> secretMatches browserGrant (bs_BrowserGrantHash s)) ErrInvalidGrant
           (reject_if (bs_Status s = BrowserRevoked) ErrGrantRevoked
           (reject_if (bs_Status s = BrowserExpired) ErrAccessExpired
           (rbind (case ar_Authority q of
               AuthorityCommerce \<Rightarrow>
                 reject_if (bs_Status s \<noteq> BrowserActive) ErrCommerceConsumed
                (reject_if (\<not> now < bs_CommerceExpiresAt s) ErrCommerceExpired (Inr ()))
             | AuthorityRead \<Rightarrow> reject_if (\<not> now < bs_AccessExpiresAt s) ErrAccessExpired (Inr ())
             | AuthorityRemediation \<Rightarrow> reject_if (\<not> now < bs_AccessExpiresAt s) ErrAccessExpired (Inr ())
             | AuthorityOther _ \<Rightarrow> Inl (browserValidationError ''authority'' ''is unsupported'')) (\<lambda>_.
            rbind (validateAuthorizationBinding s q) (\<lambda>_.
            Inr (s, ''browser:'' @ bs_PurchaseSessionID s)))))))"

definition ValidateCSRF :: "BrowserPurchaseSession \<Rightarrow> string \<Rightarrow> unit result" where
  "ValidateCSRF s csrfToken =
     reject_if (length csrfToken < 32 \<or> 256 < length csrfToken \<or> \<not> secretMatches csrfToken (bs_CSRFTokenHash s))
       ErrCSRFInvalid (Inr ())"

definition parse_transaction :: "(string \<Rightarrow> bool) \<Rightarrow> ID \<Rightarrow> unit result" where
  "parse_transaction ulid transactionID =
     reject_if (\<not> is_ok (ParseID ulid transactionID TransactionIDPrefix))
       (browserValidationError ''transactionId'' ''must be a transaction ID'') (Inr ())"

definition Browser_ClaimTransaction ::
  "browser_call \<Rightarrow> string \<Rightarrow> ID \<Rightarrow> (BrowserRepository, BrowserPurchaseSession) action" where
  "Browser_ClaimTransaction c k transactionID =
     abind (pure (ParsePurchaseSessionID (bk_ulid c) k)) (\<lambda>_.
     abind (pure (parse_transaction (bk_ulid c) transactionID)) (\<lambda>_.
     abind (reading (\<lambda>r. Session_Get r k)) (\<lambda>s.
     guard (bs_Status s \<noteq> BrowserActive) ErrCommerceConsumed
    (guard (\<not> bk_now c < bs_CommerceExpiresAt s) ErrCommerceExpired
    (attempt (storing_session (\<lambda>r. Session_ClaimTransaction r k transactionID (bk_now2 c)))
       (\<lambda>e. pure (Inl (condition_failed_as ErrCommerceConsumed e))) (\<lambda>claimed. pure (Inr claimed)))))))"

definition completed_session ::
  "browser_call \<Rightarrow> BrowserPurchaseSession \<Rightarrow> string \<Rightarrow> ID \<Rightarrow> instant \<Rightarrow> BrowserPurchaseSession" where
  "completed_session c s walletHash transactionID terminalAt =
     s\<lparr>bs_WalletBindingHash := Some walletHash, bs_TransactionID := Some transactionID,
       bs_Status := BrowserCompleted,
       bs_AccessExpiresAt := Timestamp_Add terminalAt RemediationAccessLifetime, bs_UpdatedAt := bk_now3 c\<rparr>"

definition Browser_Complete ::
  "browser_call \<Rightarrow> string \<Rightarrow> string \<Rightarrow> string \<Rightarrow> ID \<Rightarrow> instant \<Rightarrow> (BrowserRepository, unit) action" where
  "Browser_Complete c k network address transactionID terminalAt =
     abind (pure (ParsePurchaseSessionID (bk_ulid c) k)) (\<lambda>_.
     abind (pure (parse_transaction (bk_ulid c) transactionID)) (\<lambda>_.
     abind (pure (normalizeWallet (bk_toLower c) network address)) (\<lambda>(n, a).
     abind (reading (\<lambda>r. Session_Get r k)) (\<lambda>s.
     let walletHash = walletBindingHash n a
     in if bs_Status s = BrowserCompleted
        then guard (\<not> (bs_TransactionID s = Some transactionID
                     \<and> (case bs_WalletBindingHash s of None \<Rightarrow> False | Some h \<Rightarrow> constantStringEqual h walletHash)))
               ErrCommerceConsumed (pure (Inr ()))
        else
     guard (bs_Status s \<noteq> BrowserActive \<or> bs_TransactionID s \<noteq> None \<and> bs_TransactionID s \<noteq> Some transactionID)
       ErrCommerceConsumed
    (guard (\<not> bk_now c < bs_CommerceExpiresAt s) ErrCommerceExpired
    (guard (terminalAt = 0 \<or> terminalAt < bs_CreatedAt s \<or> bk_now2 c < terminalAt)
       (browserValidationError ''terminalAt'' ''must be between session creation and the current time'')
    (attempt (writing (\<lambda>r. Session_Complete r (completed_session c s walletHash transactionID terminalAt)) (\<lambda>r _. r))
       (\<lambda>e. pure (Inl (condition_failed_as ErrCommerceConsumed e))) (\<lambda>_. pure (Inr ()))))))))) "

definition recovery_challenge ::
  "browser_call \<Rightarrow> BrowserPurchaseSession \<Rightarrow> string \<Rightarrow> string \<Rightarrow> string \<Rightarrow> string \<Rightarrow> string \<Rightarrow> string
    \<Rightarrow> RecoveryChallengeRecord \<times> string" where
  "recovery_challenge c s k challengeID network address nonce walletHash =
     (let limit = bk_now2 c + RecoveryChallengeLifetime;
          expiresAt = (if bs_AccessExpiresAt s < limit then bs_AccessExpiresAt s else limit);
          message = recoveryMessage k challengeID network address nonce expiresAt
      in (\<lparr>rl_ChallengeID = challengeID, rl_PurchaseSessionID = k, rl_ExpectedWalletBindingHash = walletHash,
           rl_Network = network, rl_Address = address, rl_Nonce = nonce, rl_MessageHash = hashSecret message,
           rl_ExpiresAt = expiresAt, rl_UsedAt = None\<rparr>, message))"

text \<open>The stored challenge and the message to sign.\<close>

definition CreateRecoveryChallenge ::
  "browser_call \<Rightarrow> string \<Rightarrow> RecoveryChallengeRequest \<Rightarrow> (BrowserRepository, RecoveryChallengeRecord \<times> string) action" where
  "CreateRecoveryChallenge c k q =
     abind (pure (ParsePurchaseSessionID (bk_ulid c) k)) (\<lambda>_.
     abind (pure (normalizeWallet (bk_toLower c) (rh_Network q) (rh_Address q))) (\<lambda>(network, address).
     abind (reading (\<lambda>r. Session_Get r k)) (\<lambda>s.
     case bs_WalletBindingHash s of
       None \<Rightarrow> pure (Inl ErrWalletNotBound)
     | Some walletHash \<Rightarrow>
     guard (bs_Status s \<noteq> BrowserCompleted \<or> bs_TransactionID s = None) ErrWalletNotBound
    (guard (\<not> bk_now c < bs_AccessExpiresAt s) ErrAccessExpired
    (guard (\<not> constantStringEqual (walletBindingHash network address) walletHash) ErrWalletMismatch
    (abind (pure (rbind (bk_newID c) (ParseRecoveryChallengeID (bk_ulid c)))) (\<lambda>challengeID.
     abind (pure (bk_token1 c)) (\<lambda>nonce.
     let (record, message) = recovery_challenge c s k challengeID network address nonce walletHash
     in abind (writing (\<lambda>r. CreateChallenge r record) (\<lambda>r _. r)) (\<lambda>_.
     pure (Inr (record, message)))))))))))"

definition recovered_session :: "browser_call \<Rightarrow> BrowserPurchaseSession \<Rightarrow> string \<Rightarrow> string \<Rightarrow> BrowserPurchaseSession" where
  "recovered_session c s browserGrant csrfToken =
     s\<lparr>bs_BrowserGrantHash := hashSecret browserGrant, bs_CSRFTokenHash := hashSecret csrfToken,
       bs_UpdatedAt := bk_now c\<rparr>"

definition Browser_Recover ::
  "browser_call \<Rightarrow> string \<Rightarrow> RecoverRequest \<Rightarrow> (BrowserRepository, Recovery) action" where
  "Browser_Recover c k q =
     (case bk_verify c of
        None \<Rightarrow> pure (Inl (Err ''wallet proof verifier is unavailable''))
      | Some verify \<Rightarrow>
     abind (pure (ParsePurchaseSessionID (bk_ulid c) k)) (\<lambda>_.
     abind (pure (ParseRecoveryChallengeID (bk_ulid c) (rx_ChallengeID q))) (\<lambda>challengeID.
     abind (pure (normalizeWallet (bk_toLower c) (rx_Network q) (rx_Address q))) (\<lambda>(network, address).
     guard (TrimSpace (rx_Proof q) = [] \<or> 4096 < length (rx_Proof q))
       (browserValidationError ''proof'' ''must contain at most 4096 characters'')
    (abind (reading (\<lambda>r. Session_Get r k)) (\<lambda>s.
     abind (reading (\<lambda>r. GetChallenge r k challengeID)) (\<lambda>ch.
     guard (rl_PurchaseSessionID ch \<noteq> k) ErrBrowserBindingMismatch
    (guard (rl_UsedAt ch \<noteq> None) ErrChallengeConsumed
    (guard (\<not> bk_now c < rl_ExpiresAt ch) ErrChallengeExpired
    (guard (\<not> bk_now c < bs_AccessExpiresAt s) ErrAccessExpired
    (guard (bs_Status s \<noteq> BrowserCompleted \<or> bs_WalletBindingHash s = None \<or> bs_TransactionID s = None)
       ErrWalletNotBound
    (let walletHash = walletBindingHash network address
     in guard (\<not> constantStringEqual walletHash (rl_ExpectedWalletBindingHash ch)
            \<or> \<not> (case bs_WalletBindingHash s of None \<Rightarrow> False | Some h \<Rightarrow> constantStringEqual walletHash h)
            \<or> rl_Network ch \<noteq> network \<or> rl_Address ch \<noteq> address) ErrWalletMismatch
    (let message = recoveryMessage k challengeID network address (rl_Nonce ch) (rl_ExpiresAt ch)
     in guard (\<not> secretMatches message (rl_MessageHash ch)) ErrBrowserBindingMismatch
    (abind (pure (verify network address message (rx_Proof q))) (\<lambda>verified.
     guard (\<not> verified) ErrRecoveryProofInvalid
    (abind (pure (bk_token1 c)) (\<lambda>browserGrant.
     abind (pure (bk_token2 c)) (\<lambda>csrfToken.
     let s' = recovered_session c s browserGrant csrfToken
     in attempt (writing (\<lambda>r. Session_Recover r s' (bs_BrowserGrantHash s)
              (ch\<lparr>rl_UsedAt := Some (bk_now c)\<rparr>)) (\<lambda>r _. r))
          (\<lambda>e. pure (Inl (condition_failed_as ErrChallengeConsumed e)))
          (\<lambda>_. pure (Inr \<lparr>ry_Session = s', ry_BrowserGrant = browserGrant, ry_CSRFToken = csrfToken\<rparr>))))))))))))))))))))"

section \<open>Interleaved callers\<close>

text \<open>
  The state: the repository and the sessions some caller has read from it so far. Every call reads a
  session and later writes what it made of that, possibly stale, copy.
\<close>

inductive browser_step ::
  "BrowserRepository \<times> BrowserPurchaseSession set \<Rightarrow> BrowserRepository \<times> BrowserPurchaseSession set \<Rightarrow> bool" where
  fetch: "br_sessions r k = Some s \<Longrightarrow> browser_step (r, seen) (r, insert s seen)"
| create: "Session_Create r (creation_of c product requestHash maximumAmount k g csrf) scope key h = Inr (s, replay, r')
    \<Longrightarrow> browser_step (r, seen) (r', seen)"
| claim: "Session_ClaimTransaction r k transactionID now = Inr (s, r') \<Longrightarrow> browser_step (r, seen) (r', seen)"
| finish: "u \<in> seen \<Longrightarrow> bs_Status u = BrowserActive
    \<Longrightarrow> Session_Complete r (completed_session c u walletHash transactionID terminalAt) = Inr r'
    \<Longrightarrow> browser_step (r, seen) (r', seen)"
| challenge: "rl_UsedAt ch = None \<Longrightarrow> CreateChallenge r ch = Inr r' \<Longrightarrow> browser_step (r, seen) (r', seen)"
| recover: "u \<in> seen \<Longrightarrow> bs_Status u = BrowserCompleted
    \<Longrightarrow> Session_Recover r (recovered_session c u g csrf) (bs_BrowserGrantHash u) ch = Inr r'
    \<Longrightarrow> browser_step (r, seen) (r', seen)"

text \<open>What a purchase is, and how a session may change: forward only.\<close>

definition same_purchase :: "BrowserPurchaseSession \<Rightarrow> BrowserPurchaseSession \<Rightarrow> bool" where
  "same_purchase s t \<longleftrightarrow>
     bs_PurchaseSessionID t = bs_PurchaseSessionID s \<and> bs_SellerID t = bs_SellerID s \<and> bs_RouteID t = bs_RouteID s
     \<and> bs_ProductSlug t = bs_ProductSlug s \<and> bs_RequestBodyHash t = bs_RequestBodyHash s
     \<and> bs_MaximumAmount t = bs_MaximumAmount s \<and> bs_CommerceExpiresAt t = bs_CommerceExpiresAt s
     \<and> bs_CreatedAt t = bs_CreatedAt s"

definition advances :: "BrowserPurchaseSession \<Rightarrow> BrowserPurchaseSession \<Rightarrow> bool" where
  "advances s t \<longleftrightarrow>
     same_purchase s t
     \<and> (bs_TransactionID s \<noteq> None \<longrightarrow> bs_TransactionID t = bs_TransactionID s)
     \<and> (bs_Status s = BrowserCompleted \<longrightarrow> bs_Status t = BrowserCompleted
          \<and> bs_TransactionID t = bs_TransactionID s \<and> bs_WalletBindingHash t = bs_WalletBindingHash s)
     \<and> (bs_Status t = BrowserActive \<longrightarrow> bs_Status s = BrowserActive \<and> bs_BrowserGrantHash t = bs_BrowserGrantHash s)"

lemma advances_refl: "advances s s"
  by (simp add: advances_def same_purchase_def)

lemma same_purchase_trans: "same_purchase s t \<Longrightarrow> same_purchase t u \<Longrightarrow> same_purchase s u"
  by (simp add: same_purchase_def)

lemma advances_trans:
  assumes "advances s t" "advances t u"
  shows "advances s u"
  unfolding advances_def
proof (intro conjI impI)
  show "same_purchase s u"
    using assms by (auto simp: advances_def intro: same_purchase_trans)
  show "bs_TransactionID u = bs_TransactionID s" if "bs_TransactionID s \<noteq> None"
    using that assms by (simp add: advances_def)
qed (use assms in \<open>simp_all add: advances_def\<close>)

lemma advances_claimed:
  "bs_TransactionID s = None \<Longrightarrow> bs_Status s = BrowserActive
    \<Longrightarrow> advances s (s\<lparr>bs_TransactionID := Some k, bs_UpdatedAt := now\<rparr>)"
  by (simp add: advances_def same_purchase_def)

text \<open>The grant index is exact, a completed session is bound, and what was read is in the past.\<close>

definition wf_session :: "string \<Rightarrow> BrowserPurchaseSession \<Rightarrow> bool" where
  "wf_session k s \<longleftrightarrow>
     bs_PurchaseSessionID s = k
     \<and> (bs_Status s = BrowserCompleted \<longrightarrow> bs_TransactionID s \<noteq> None \<and> bs_WalletBindingHash s \<noteq> None)"

definition exact_grants :: "(string \<rightharpoonup> BrowserPurchaseSession) \<Rightarrow> (string \<rightharpoonup> string) \<Rightarrow> bool" where
  "exact_grants sessions index \<longleftrightarrow>
     (\<forall>k s. sessions k = Some s \<longrightarrow> index (bs_BrowserGrantHash s) = Some k)
     \<and> (\<forall>h k. index h = Some k \<longrightarrow> (\<exists>s. sessions k = Some s \<and> bs_BrowserGrantHash s = h))"

definition wf_browser :: "BrowserRepository \<Rightarrow> bool" where
  "wf_browser r \<longleftrightarrow>
     (\<forall>k s. br_sessions r k = Some s \<longrightarrow> wf_session k s) \<and> exact_grants (br_sessions r) (br_grantIndex r)"

lemma exact_grants_session: "exact_grants sessions index \<Longrightarrow> sessions k = Some s \<Longrightarrow> index (bs_BrowserGrantHash s) = Some k"
  by (simp add: exact_grants_def)

lemma exact_grants_index:
  assumes "exact_grants sessions index" "index h = Some k"
  obtains s where "sessions k = Some s" "bs_BrowserGrantHash s = h"
  using assms unfolding exact_grants_def by blast

lemma exact_grants_upd:
  assumes "exact_grants sessions index" "sessions k = Some s"
    and free: "index (bs_BrowserGrantHash s') = None \<or> index (bs_BrowserGrantHash s') = Some k"
  shows "exact_grants (sessions(k \<mapsto> s')) ((index(bs_BrowserGrantHash s := None))(bs_BrowserGrantHash s' \<mapsto> k))"
  unfolding exact_grants_def
proof (intro conjI allI impI)
  fix j t
  assume t: "(sessions(k \<mapsto> s')) j = Some t"
  show "((index(bs_BrowserGrantHash s := None))(bs_BrowserGrantHash s' \<mapsto> k)) (bs_BrowserGrantHash t) = Some j"
  proof (cases "j = k")
    case False
    then have "index (bs_BrowserGrantHash t) = Some j"
      using t assms(1) by (simp add: exact_grants_def)
    moreover have "index (bs_BrowserGrantHash s) = Some k"
      using assms(1,2) by (simp add: exact_grants_def)
    ultimately have "bs_BrowserGrantHash t \<noteq> bs_BrowserGrantHash s" "bs_BrowserGrantHash t \<noteq> bs_BrowserGrantHash s'"
      using False free by auto
    then show ?thesis
      using \<open>index (bs_BrowserGrantHash t) = Some j\<close> by simp
  qed (use t in simp)
next
  fix h j
  assume h: "((index(bs_BrowserGrantHash s := None))(bs_BrowserGrantHash s' \<mapsto> k)) h = Some j"
  show "\<exists>t. (sessions(k \<mapsto> s')) j = Some t \<and> bs_BrowserGrantHash t = h"
  proof (cases "h = bs_BrowserGrantHash s'")
    case False
    then have "index h = Some j" "h \<noteq> bs_BrowserGrantHash s"
      using h by (auto split: if_split_asm)
    from exact_grants_index [OF assms(1) this(1)] obtain t where "sessions j = Some t" "bs_BrowserGrantHash t = h" .
    then show ?thesis
      using \<open>h \<noteq> bs_BrowserGrantHash s\<close> assms(2) by auto
  qed (use h in auto)
qed

lemma exact_grants_same:
  assumes "exact_grants sessions index" "sessions k = Some s" "bs_BrowserGrantHash s' = bs_BrowserGrantHash s"
  shows "exact_grants (sessions(k \<mapsto> s')) index"
proof -
  have "index (bs_BrowserGrantHash s) = Some k"
    using assms(1,2) by (simp add: exact_grants_def)
  then show ?thesis
    using exact_grants_upd [OF assms(1,2), of s'] assms(3) by (simp add: fun_upd_idem)
qed

lemma exact_grants_new:
  assumes "exact_grants sessions index" "sessions k = None" "index (bs_BrowserGrantHash s) = None"
  shows "exact_grants (sessions(k \<mapsto> s)) (index(bs_BrowserGrantHash s \<mapsto> k))"
  unfolding exact_grants_def
proof (intro conjI allI impI)
  fix j t
  assume "(sessions(k \<mapsto> s)) j = Some t"
  then show "(index(bs_BrowserGrantHash s \<mapsto> k)) (bs_BrowserGrantHash t) = Some j"
    using exact_grants_session [OF assms(1), of j t] assms(3) by (cases "j = k") auto
next
  fix h j
  assume h: "(index(bs_BrowserGrantHash s \<mapsto> k)) h = Some j"
  show "\<exists>t. (sessions(k \<mapsto> s)) j = Some t \<and> bs_BrowserGrantHash t = h"
  proof (cases "h = bs_BrowserGrantHash s")
    case False
    then have "index h = Some j"
      using h by simp
    from exact_grants_index [OF assms(1) this] obtain t where "sessions j = Some t" "bs_BrowserGrantHash t = h" .
    then show ?thesis
      using assms(2) by auto
  qed (use h in auto)
qed

definition past_of :: "BrowserRepository \<Rightarrow> BrowserPurchaseSession \<Rightarrow> bool" where
  "past_of r u \<longleftrightarrow> (\<exists>s. br_sessions r (bs_PurchaseSessionID u) = Some s \<and> advances u s)"

definition only_advances :: "BrowserRepository \<Rightarrow> BrowserRepository \<Rightarrow> bool" where
  "only_advances r r' \<longleftrightarrow>
     (\<forall>k s. br_sessions r k = Some s \<longrightarrow> (\<exists>s'. br_sessions r' k = Some s' \<and> advances s s'))
     \<and> (\<forall>k ch. br_challenges r k = Some ch \<and> rl_UsedAt ch \<noteq> None \<longrightarrow> br_challenges r' k = Some ch)"

lemma only_advances_refl: "only_advances r r"
  by (auto simp: only_advances_def intro: advances_refl)

lemma only_advances_trans: "only_advances r s \<Longrightarrow> only_advances s t \<Longrightarrow> only_advances r t"
  by (fastforce simp: only_advances_def intro: advances_trans)

lemma past_of_advances: "past_of r u \<Longrightarrow> only_advances r r' \<Longrightarrow> past_of r' u"
  by (fastforce simp: past_of_def only_advances_def intro: advances_trans)

text \<open>Replacing a stored session by one that keeps its grant, or by one with a fresh grant.\<close>

lemma wf_browser_update:
  assumes wf: "wf_browser r" and s: "br_sessions r k = Some s" and new: "wf_session k s'"
    and free: "\<And>k'. br_grantIndex r (bs_BrowserGrantHash s') = Some k' \<Longrightarrow> k' = k"
  shows "wf_browser (r\<lparr>br_grantIndex := ((br_grantIndex r)(bs_BrowserGrantHash s := None))(bs_BrowserGrantHash s' \<mapsto> k),
                     br_sessions := (br_sessions r)(k \<mapsto> s')\<rparr>)"
proof -
  have "br_grantIndex r (bs_BrowserGrantHash s') = None \<or> br_grantIndex r (bs_BrowserGrantHash s') = Some k"
    using free by (cases "br_grantIndex r (bs_BrowserGrantHash s')") auto
  then show ?thesis
    using wf new by (simp add: wf_browser_def exact_grants_upd s)
qed

lemma wf_browser_same_grant:
  assumes "wf_browser r" "br_sessions r k = Some s" "wf_session k s'" "bs_BrowserGrantHash s' = bs_BrowserGrantHash s"
  shows "wf_browser (r\<lparr>br_sessions := (br_sessions r)(k \<mapsto> s')\<rparr>)"
  using assms by (simp add: wf_browser_def exact_grants_same)

lemma wf_browser_challenges [simp]: "wf_browser (r\<lparr>br_challenges := cs\<rparr>) = wf_browser r"
  by (simp add: wf_browser_def)

lemma wf_browser_insert:
  assumes "wf_browser r" "br_sessions r k = None" "br_grantIndex r (bs_BrowserGrantHash s) = None" "wf_session k s"
  shows "wf_browser (r\<lparr>br_sessions := (br_sessions r)(k \<mapsto> s),
                     br_grantIndex := (br_grantIndex r)(bs_BrowserGrantHash s \<mapsto> k), br_idempotency := ks\<rparr>)"
  using assms by (simp add: wf_browser_def exact_grants_new)

lemma wf_browser_session: "wf_browser r \<Longrightarrow> br_sessions r k = Some s \<Longrightarrow> wf_session k s"
  by (simp add: wf_browser_def)

lemma Session_Create_run:
  assumes "Session_Create r s scope key h = Inr (t, replay, r')"
  shows "r' = r \<or> br_sessions r (bs_PurchaseSessionID s) = None \<and> br_grantIndex r (bs_BrowserGrantHash s) = None
    \<and> (\<exists>ks. r' = r\<lparr>br_sessions := (br_sessions r)(bs_PurchaseSessionID s \<mapsto> s),
              br_grantIndex := (br_grantIndex r)(bs_BrowserGrantHash s \<mapsto> bs_PurchaseSessionID s), br_idempotency := ks\<rparr>)"
  using assms
  by (cases "br_idempotency r (browserPurchaseIdempotencyKey scope key)")
    (auto simp: Session_Create_def Let_def result_simps)

lemma only_advances_update:
  assumes "br_sessions r k = Some s" "advances s s'"
    and "br_sessions r' = (br_sessions r)(k \<mapsto> s')"
    and "\<And>c ch. br_challenges r c = Some ch \<Longrightarrow> rl_UsedAt ch \<noteq> None \<Longrightarrow> br_challenges r' c = Some ch"
  shows "only_advances r r'"
  using assms by (auto simp: only_advances_def intro: advances_refl)

lemma completed_advances:
  assumes "advances u s" "bs_Status u = BrowserActive" "bs_Status s = BrowserActive"
    and "bs_TransactionID s \<noteq> None \<longrightarrow> bs_TransactionID s = Some t"
  shows "advances s (completed_session c u w t ends)"
    "bs_BrowserGrantHash (completed_session c u w t ends) = bs_BrowserGrantHash s"
  using assms by (auto simp: advances_def same_purchase_def completed_session_def)

lemma recovered_advances:
  assumes "advances u s" "bs_Status u = BrowserCompleted"
  shows "advances s (recovered_session c u g csrf)"
  using assms by (auto simp: advances_def same_purchase_def recovered_session_def)

lemma browser_step_ok:
  assumes "browser_step a b" "wf_browser (fst a)" "\<forall>u \<in> snd a. past_of (fst a) u"
  shows "wf_browser (fst b) \<and> (\<forall>u \<in> snd b. past_of (fst b) u) \<and> only_advances (fst a) (fst b)"
proof -
  have keep: ?thesis if "a = (r, seen)" "b = (r', seen)" "wf_browser r'" "only_advances r r'" for r r' seen
    using that assms(3) by (auto intro: past_of_advances)
  show ?thesis
    using assms(1)
  proof (cases rule: browser_step.cases)
    case (fetch r k s seen)
    then have "past_of r s"
      using assms(2) by (auto simp: past_of_def dest!: wf_browser_session intro: advances_refl simp: wf_session_def)
    then show ?thesis
      using fetch assms(2,3) by (simp add: only_advances_refl)
  next
    case (create r c product requestHash maximumAmount k g csrf scope key h s replay r' seen)
    let ?s = "creation_of c product requestHash maximumAmount k g csrf"
    have new: "wf_session k ?s" "bs_PurchaseSessionID ?s = k"
      by (simp_all add: creation_of_def Let_def wf_session_def)
    from Session_Create_run [OF create(3)] show ?thesis
    proof (elim disjE conjE exE)
      assume "r' = r"
      then show ?thesis
        using keep [OF create(1,2)] assms(2) create(1) by (simp add: only_advances_refl)
    next
      fix ks
      assume free: "br_sessions r (bs_PurchaseSessionID ?s) = None" "br_grantIndex r (bs_BrowserGrantHash ?s) = None"
        and r': "r' = r\<lparr>br_sessions := (br_sessions r)(bs_PurchaseSessionID ?s \<mapsto> ?s),
              br_grantIndex := (br_grantIndex r)(bs_BrowserGrantHash ?s \<mapsto> bs_PurchaseSessionID ?s), br_idempotency := ks\<rparr>"
      have "wf_browser r'"
        unfolding r' using assms(2) create(1) free new by (intro wf_browser_insert) simp_all
      moreover have "only_advances r r'"
        using free(1) by (auto simp: r' only_advances_def intro: advances_refl)
      ultimately show ?thesis
        by (rule keep [OF create(1,2)])
    qed
  next
    case (claim r k transactionID now s r' seen)
    from claim(3) consider "r' = r"
      | t where "br_sessions r k = Some t" "bs_Status t = BrowserActive" "bs_TransactionID t = None"
        "r' = r\<lparr>br_sessions := (br_sessions r)(k \<mapsto> t\<lparr>bs_TransactionID := Some transactionID, bs_UpdatedAt := now\<rparr>)\<rparr>"
      by (auto simp: Session_ClaimTransaction_def Let_def result_simps split: option.split_asm if_split_asm)
    then show ?thesis
    proof cases
      case 1
      then show ?thesis
        using keep [OF claim(1,2)] assms(2) claim(1) by (simp add: only_advances_refl)
    next
      case (2 t)
      have "wf_session k (t\<lparr>bs_TransactionID := Some transactionID, bs_UpdatedAt := now\<rparr>)"
        using wf_browser_session [OF assms(2), of k t] claim(1) 2(1) by (simp add: wf_session_def)
      then have "wf_browser r'"
        unfolding 2(4) using assms(2) claim(1) 2(1) by (intro wf_browser_same_grant) simp_all
      moreover have "only_advances r r'"
        by (rule only_advances_update [OF 2(1) advances_claimed [OF 2(3,2)]]) (simp_all add: 2(4))
      ultimately show ?thesis
        by (rule keep [OF claim(1,2)])
    qed
  next
    case (finish u seen r c walletHash transactionID terminalAt r')
    let ?u = "completed_session c u walletHash transactionID terminalAt" and ?k = "bs_PurchaseSessionID u"
    have u: "bs_PurchaseSessionID ?u = ?k" "bs_TransactionID ?u = Some transactionID" "wf_session ?k ?u"
      by (simp_all add: completed_session_def wf_session_def)
    from finish(5) obtain s where s: "br_sessions r ?k = Some s" "bs_Status s = BrowserActive"
      "bs_TransactionID s \<noteq> None \<longrightarrow> bs_TransactionID s = Some transactionID"
      and r': "r' = r\<lparr>br_sessions := (br_sessions r)(?k \<mapsto> ?u)\<rparr>"
      by (auto simp: Session_Complete_def u result_simps split: option.split_asm)
    have past: "advances u s"
      using finish(1,3) assms(3) s(1) by (auto simp: past_of_def)
    note completed = completed_advances [OF past finish(4) s(2,3), of c walletHash terminalAt]
    have "wf_browser r'"
      unfolding r' using assms(2) finish(1) s(1) u(3) completed(2) by (intro wf_browser_same_grant) simp_all
    moreover have "only_advances r r'"
      by (rule only_advances_update [OF s(1) completed(1)]) (simp_all add: r')
    ultimately show ?thesis
      by (rule keep [OF finish(1,2)])
  next
    case (challenge ch r r' seen)
    then have "wf_browser r'" "only_advances r r'"
      using assms(2) by (auto simp: CreateChallenge_def result_simps only_advances_def intro: advances_refl)
    then show ?thesis
      by (rule keep [OF challenge(1,2)])
  next
    case (recover u seen r c g csrf ch r')
    let ?u = "recovered_session c u g csrf" and ?k = "bs_PurchaseSessionID u"
    have u: "bs_PurchaseSessionID ?u = ?k"
      by (simp add: recovered_session_def)
    from recover(5) obtain s ch0 where s: "br_sessions r ?k = Some s" "bs_BrowserGrantHash s = bs_BrowserGrantHash u"
      "bs_Status s = BrowserCompleted"
      and free: "\<And>k'. br_grantIndex r (bs_BrowserGrantHash ?u) = Some k' \<Longrightarrow> k' = ?k"
      and ch: "br_challenges r (rl_ChallengeID ch) = Some ch0" "rl_UsedAt ch0 = None"
      and r': "r' = (r\<lparr>br_grantIndex := ((br_grantIndex r)(bs_BrowserGrantHash s := None))(bs_BrowserGrantHash ?u \<mapsto> ?k),
                     br_sessions := (br_sessions r)(?k \<mapsto> ?u)\<rparr>)\<lparr>br_challenges := (br_challenges r)(rl_ChallengeID ch \<mapsto> ch)\<rparr>"
      by (auto simp: Session_Recover_def u result_simps split: option.split_asm)
    have past: "advances u s"
      using recover(1,3) assms(3) s(1) by (auto simp: past_of_def)
    have "wf_session ?k s"
      using wf_browser_session [OF assms(2)] recover(1) s(1) by simp
    then have "wf_session ?k ?u"
      using past recover(4) by (simp add: advances_def wf_session_def recovered_session_def)
    then have "wf_browser r'"
      unfolding r' wf_browser_challenges using assms(2) recover(1) s(1) free by (intro wf_browser_update) simp_all
    moreover have "only_advances r r'"
      by (rule only_advances_update [OF s(1) recovered_advances [OF past recover(4)]])
        (use ch in \<open>auto simp: r'\<close>)
    ultimately show ?thesis
      by (rule keep [OF recover(1,2)])
  qed
qed

lemma browser_steps_ok:
  assumes "browser_step\<^sup>*\<^sup>* a b" "wf_browser (fst a)" "\<forall>u \<in> snd a. past_of (fst a) u"
  shows "wf_browser (fst b) \<and> (\<forall>u \<in> snd b. past_of (fst b) u) \<and> only_advances (fst a) (fst b)"
  using assms
proof (induction rule: rtranclp_induct)
  case base
  then show ?case by (simp add: only_advances_refl)
next
  case (step y z)
  then show ?case
    using browser_step_ok [OF step.hyps(2)] only_advances_trans [of "fst a" "fst y" "fst z"] by blast
qed

lemma browser_step_challenges:
  assumes "browser_step a b" "\<forall>k ch. br_challenges (fst a) k = Some ch \<longrightarrow> rl_ChallengeID ch = k"
  shows "\<forall>k ch. br_challenges (fst b) k = Some ch \<longrightarrow> rl_ChallengeID ch = k"
  using assms(1)
proof (cases rule: browser_step.cases)
  case (create r c product requestHash maximumAmount k g csrf scope key h s replay r' seen)
  from Session_Create_run [OF create(3)] have "br_challenges r' = br_challenges r"
    by auto
  then show ?thesis
    using create assms(2) by simp
next
  case (claim r k transactionID now s r' seen)
  then have "br_challenges r' = br_challenges r"
    by (auto simp: Session_ClaimTransaction_def Let_def result_simps split: option.split_asm if_split_asm)
  then show ?thesis
    using claim assms(2) by simp
qed (use assms(2) in \<open>auto simp: Session_Complete_def CreateChallenge_def Session_Recover_def result_simps
       split: option.split_asm\<close>)

lemma reachable_challenges:
  assumes "browser_step\<^sup>*\<^sup>* (no_sessions, {}) (r, seen)" "br_challenges r k = Some ch"
  shows "rl_ChallengeID ch = k"
proof -
  have "browser_step\<^sup>*\<^sup>* a b \<Longrightarrow> \<forall>k ch. br_challenges (fst a) k = Some ch \<longrightarrow> rl_ChallengeID ch = k
    \<Longrightarrow> \<forall>k ch. br_challenges (fst b) k = Some ch \<longrightarrow> rl_ChallengeID ch = k" for a b
    by (induction rule: rtranclp_induct) (blast dest: browser_step_challenges)+
  from this [OF assms(1)] assms(2) show ?thesis
    by (simp add: no_sessions_def)
qed

lemma browser_reachable:
  "browser_step\<^sup>*\<^sup>* (no_sessions, {}) (r, seen) \<Longrightarrow> wf_browser r \<and> (\<forall>u \<in> seen. past_of r u)"
  using browser_steps_ok [of "(no_sessions, {})" "(r, seen)"] by (simp add: wf_browser_def exact_grants_def no_sessions_def)

text \<open>Every call of the service is such steps: it reads a session, and writes at most once.\<close>

abbreviation browser_steps ::
  "BrowserRepository \<times> BrowserPurchaseSession set \<Rightarrow> BrowserRepository \<Rightarrow> bool" where
  "browser_steps a r' \<equiv> \<exists>seen'. browser_step\<^sup>*\<^sup>* a (r', seen')"

lemma browser_steps_refl: "browser_steps (r, seen) r"
  by blast

lemma browser_steps_one: "browser_step (r, seen) (r', seen') \<Longrightarrow> browser_steps (r, seen) r'"
  by blast

lemma browser_steps_fetch:
  assumes "Session_Get r k = Inr s" "browser_step (r, insert s seen) (r', seen')"
  shows "browser_steps (r, seen) r'"
proof -
  have "browser_step (r, seen) (r, insert s seen)"
    using assms(1) by (intro fetch [where k = k]) (simp add: Session_Get_def split: option.split_asm)
  then show ?thesis
    using assms(2) by (blast intro: converse_rtranclp_into_rtranclp)
qed

lemma changed_run: "m s = (res, s') \<Longrightarrow> s' \<noteq> s \<Longrightarrow> \<not> (s' = s \<and> \<not> is_ok res)"
  by simp

lemma attempt_writing_changed:
  assumes "attempt (writing f put) (\<lambda>e. pure (Inl (h e))) (\<lambda>x. pure (g x)) s = (res, s')" "s' \<noteq> s"
  obtains y where "f s = Inr y" "s' = put y s"
  using assms by (cases "f s") (auto simp: attempt_run writing_run)

lemma attempt_storing_changed:
  assumes "attempt (storing_session f) (\<lambda>e. pure (Inl (h e))) (\<lambda>x. pure (g x)) s = (res, s')" "s' \<noteq> s"
  obtains x where "f s = Inr (x, s')"
  using assms by (cases "f s") (auto simp: attempt_run storing_session_def)

lemma Browser_ClaimTransaction_steps:
  "browser_steps (r, seen) (snd (Browser_ClaimTransaction c k transactionID r))"
proof (cases "snd (Browser_ClaimTransaction c k transactionID r) = r")
  case False
  obtain res r' where run: "Browser_ClaimTransaction c k transactionID r = (res, r')"
    by (cases "Browser_ClaimTransaction c k transactionID r")
  with False have "r' \<noteq> r"
    by simp
  then obtain s where "Session_ClaimTransaction r k transactionID (bk_now2 c) = Inr (s, r')"
    using run unfolding Browser_ClaimTransaction_def
    by (auto simp: action_simps storing_session_def split: sum.split_asm if_split_asm)
  then show ?thesis
    using run by (auto intro: browser_steps_one claim)
qed (simp add: browser_steps_refl)

lemma Browser_Complete_steps:
  "browser_steps (r, seen) (snd (Browser_Complete c k network address transactionID terminalAt r))"
proof (cases "snd (Browser_Complete c k network address transactionID terminalAt r) = r")
  case False
  obtain res r' where run: "Browser_Complete c k network address transactionID terminalAt r = (res, r')"
    by (cases "Browser_Complete c k network address transactionID terminalAt r")
  with False have "r' \<noteq> r"
    by simp
  then obtain s walletHash where "Session_Get r k = Inr s" "bs_Status s = BrowserActive"
    "Session_Complete r (completed_session c s walletHash transactionID terminalAt) = Inr r'"
    using run unfolding Browser_Complete_def Let_def
    by (auto simp: action_simps split: sum.split_asm if_split_asm prod.split_asm)
  then show ?thesis
    using run by (auto intro: browser_steps_fetch finish)
qed (simp add: browser_steps_refl)

lemma recovery_challenge_unused:
  "recovery_challenge c s k i n a nonce w = (ch, msg) \<Longrightarrow> rl_UsedAt ch = None"
  by (auto simp: recovery_challenge_def Let_def)

lemma CreateRecoveryChallenge_steps:
  "browser_steps (r, seen) (snd (CreateRecoveryChallenge c k q r))"
proof (cases "snd (CreateRecoveryChallenge c k q r) = r")
  case False
  obtain res r' where run: "CreateRecoveryChallenge c k q r = (res, r')"
    by (cases "CreateRecoveryChallenge c k q r")
  with False have "r' \<noteq> r"
    by simp
  then obtain ch where "rl_UsedAt ch = None" "CreateChallenge r ch = Inr r'"
    using run unfolding CreateRecoveryChallenge_def Let_def
    by (auto simp: action_simps dest: recovery_challenge_unused
        split: sum.split_asm if_split_asm prod.split_asm option.split_asm)
  then show ?thesis
    using run by (auto intro: browser_steps_one challenge)
qed (simp add: browser_steps_refl)

text \<open>What a successful recovery has established, and what it writes.\<close>

lemma Browser_Recover_run:
  assumes "Browser_Recover c k q r = (res, r')" "\<not> (r' = r \<and> \<not> is_ok res)"
  shows "\<exists>verify network address s ch g csrf. bk_verify c = Some verify
    \<and> normalizeWallet (bk_toLower c) (rx_Network q) (rx_Address q) = Inr (network, address)
    \<and> Session_Get r k = Inr s \<and> bs_Status s = BrowserCompleted \<and> bs_TransactionID s \<noteq> None \<and> bk_now c < bs_AccessExpiresAt s
    \<and> bs_WalletBindingHash s = Some (walletBindingHash network address)
    \<and> GetChallenge r k (rx_ChallengeID q) = Inr ch \<and> rl_UsedAt ch = None \<and> bk_now c < rl_ExpiresAt ch
    \<and> secretMatches (recoveryMessage k (rx_ChallengeID q) network address (rl_Nonce ch) (rl_ExpiresAt ch)) (rl_MessageHash ch)
    \<and> verify network address (recoveryMessage k (rx_ChallengeID q) network address (rl_Nonce ch) (rl_ExpiresAt ch))
        (rx_Proof q) = Inr True
    \<and> bk_token1 c = Inr g \<and> bk_token2 c = Inr csrf
    \<and> Session_Recover r (recovered_session c s g csrf) (bs_BrowserGrantHash s) (ch\<lparr>rl_UsedAt := Some (bk_now c)\<rparr>) = Inr r'
    \<and> res = Inr \<lparr>ry_Session = recovered_session c s g csrf, ry_BrowserGrant = g, ry_CSRFToken = csrf\<rparr>"
  using assms unfolding Browser_Recover_def Let_def
  by (auto simp: action_simps constantStringEqual_def ParseRecoveryChallengeID_def result_simps
      split: sum.split_asm if_split_asm prod.split_asm option.split_asm)

lemma Browser_Recover_steps: "browser_steps (r, seen) (snd (Browser_Recover c k q r))"
proof (cases "snd (Browser_Recover c k q r) = r")
  case False
  obtain res r' where run: "Browser_Recover c k q r = (res, r')"
    by (cases "Browser_Recover c k q r")
  with False have "\<not> (r' = r \<and> \<not> is_ok res)"
    by simp
  from Browser_Recover_run [OF run this] show ?thesis
    using run by (auto intro: browser_steps_fetch recover)
qed (simp add: browser_steps_refl)

lemma Session_Create_step:
  assumes "storing_session (\<lambda>r. rbind (Session_Create r (creation_of c product h m k g csrf) scope key ch)
     (\<lambda>(s, replay, r'). Inr ((s, replay), r'))) r = (res, r')"
  shows "browser_steps (r, seen) r'"
  using assms
  by (auto simp: storing_session_def result_simps split: sum.split_asm intro: browser_steps_refl browser_steps_one create)

lemma Browser_Create_steps: "browser_steps (r, seen) (snd (Browser_Create c sellerSlug productSlug key q r))"
  unfolding Browser_Create_def Let_def
  by (auto simp: action_simps browser_steps_refl split: sum.split option.split prod.split
      intro: browser_steps_refl Session_Create_step surjective_pairing)

section \<open>Properties\<close>

text \<open>
  C8: whatever calls of the service interleave, with each caller writing what it made of a session it
  may have read long ago, a stored browser session keeps its purchase (seller, product, body digest,
  maximum amount, deadlines); once it is bound to a transaction it is bound to that one for ever; once
  completed it stays completed with the same payer wallet; exactly one grant digest finds it, the one it
  stores, so a replaced grant finds nothing; and a used recovery challenge stays used.
\<close>

theorem browser_session_buys_once:
  assumes "browser_step\<^sup>*\<^sup>* (no_sessions, {}) (r, seen)" "browser_step\<^sup>*\<^sup>* (r, seen) (r', seen')"
    and "br_sessions r k = Some s"
  shows "\<exists>s'. br_sessions r' k = Some s' \<and> same_purchase s s'
    \<and> (\<forall>t. bs_TransactionID s = Some t \<longrightarrow> bs_TransactionID s' = Some t)
    \<and> (bs_Status s = BrowserCompleted \<longrightarrow> bs_Status s' = BrowserCompleted
         \<and> bs_WalletBindingHash s' = bs_WalletBindingHash s \<and> bs_TransactionID s' \<noteq> None)
    \<and> (\<forall>h. br_grantIndex r' h = Some k \<longleftrightarrow> h = bs_BrowserGrantHash s')
    \<and> (\<forall>c ch. br_challenges r c = Some ch \<and> rl_UsedAt ch \<noteq> None \<longrightarrow> br_challenges r' c = Some ch)"
proof -
  note start = browser_reachable [OF assms(1)]
  have ok: "wf_browser r'" "only_advances r r'"
    using browser_steps_ok [OF assms(2)] start by simp_all
  then obtain s' where s': "br_sessions r' k = Some s'" "advances s s'"
    using assms(3) unfolding only_advances_def by blast
  have grants: "br_grantIndex r' h = Some k \<longleftrightarrow> h = bs_BrowserGrantHash s'" for h
  proof
    assume "br_grantIndex r' h = Some k"
    with ok(1) s'(1) show "h = bs_BrowserGrantHash s'"
      by (auto simp: wf_browser_def elim: exact_grants_index)
  next
    assume "h = bs_BrowserGrantHash s'"
    with ok(1) exact_grants_session [of "br_sessions r'" "br_grantIndex r'" k s'] s'(1) show "br_grantIndex r' h = Some k"
      by (simp add: wf_browser_def)
  qed
  have "bs_Status s = BrowserCompleted \<Longrightarrow> bs_TransactionID s \<noteq> None"
    using start assms(3) by (auto dest!: wf_browser_session simp: wf_session_def)
  then show ?thesis
    using s' grants ok(2) by (auto simp: advances_def only_advances_def)
qed

definition sample_browser_call :: browser_call where
  "sample_browser_call =
     \<lparr>bk_ulid = (\<lambda>_. True), bk_toLower = (\<lambda>s. s),
      bk_products = Some (\<lambda>_ slug. Inr \<lparr>bp_SellerID = ''sel_1'', bp_RouteID = ''rte_1'', bp_ProductSlug = slug,
        bp_Amount = Amount ''5''\<rparr>),
      bk_verify = Some (\<lambda>_ _ _ _. Inr True), bk_newID = Inr ''bps_1'', bk_token1 = Inr ''grant'', bk_token2 = Inr ''csrf'',
      bk_now = 5, bk_now2 = 6, bk_now3 = 7\<rparr>"

definition sample_browser_session :: BrowserPurchaseSession where
  "sample_browser_session =
     creation_of sample_browser_call
       \<lparr>bp_SellerID = ''sel_1'', bp_RouteID = ''rte_1'', bp_ProductSlug = ''report'', bp_Amount = Amount ''5''\<rparr>
       (hashSecret ''{}'') (Amount ''5'') ''bps_1'' ''grant'' ''csrf''"

definition sample_claimed_session :: BrowserPurchaseSession where
  "sample_claimed_session = sample_browser_session\<lparr>bs_TransactionID := Some ''txn_1'', bs_UpdatedAt := 6\<rparr>"

definition sample_browser_repository :: "BrowserPurchaseSession \<Rightarrow> BrowserRepository" where
  "sample_browser_repository s =
     no_sessions\<lparr>br_sessions := [''bps_1'' \<mapsto> s],
       br_grantIndex := [bs_BrowserGrantHash sample_browser_session \<mapsto> ''bps_1''],
       br_idempotency := [browserPurchaseIdempotencyKey ''s/report'' ''key-0001'' \<mapsto> (''h'', ''bps_1'')]\<rparr>"

lemma sample_browser_session_fields [simp]:
  "bs_PurchaseSessionID sample_browser_session = ''bps_1''" "bs_Status sample_browser_session = BrowserActive"
  "bs_TransactionID sample_browser_session = None"
  by (simp_all add: sample_browser_session_def creation_of_def Let_def)

lemma sample_browser_created:
  "browser_step (no_sessions, {}) (sample_browser_repository sample_browser_session, {})"
proof -
  have "Session_Create no_sessions sample_browser_session ''s/report'' ''key-0001'' ''h''
    = Inr (sample_browser_session, False, sample_browser_repository sample_browser_session)"
    by (simp add: Session_Create_def Let_def sample_browser_repository_def no_sessions_def)
  then show ?thesis
    unfolding sample_browser_session_def by (rule create)
qed

lemma sample_browser_claimed:
  "browser_step (sample_browser_repository sample_browser_session, {}) (sample_browser_repository sample_claimed_session, {})"
  by (rule claim [where k = "''bps_1''" and transactionID = "''txn_1''" and now = 6 and s = sample_claimed_session])
    (simp add: Session_ClaimTransaction_def Let_def sample_browser_repository_def sample_claimed_session_def)

lemma sample_browser_completed:
  "browser_step\<^sup>*\<^sup>* (sample_browser_repository sample_claimed_session, {})
     (sample_browser_repository (completed_session sample_browser_call sample_claimed_session w ''txn_1'' 6),
      {sample_claimed_session})"
proof -
  have "browser_step (sample_browser_repository sample_claimed_session, {})
    (sample_browser_repository sample_claimed_session, {sample_claimed_session})"
    by (rule fetch [where k = "''bps_1''"]) (simp add: sample_browser_repository_def)
  moreover have "browser_step (sample_browser_repository sample_claimed_session, {sample_claimed_session})
     (sample_browser_repository (completed_session sample_browser_call sample_claimed_session w ''txn_1'' 6),
      {sample_claimed_session})"
    by (rule finish [where u = sample_claimed_session and c = sample_browser_call and walletHash = w
          and transactionID = "''txn_1''" and terminalAt = 6])
      (simp_all add: Session_Complete_def completed_session_def sample_browser_repository_def sample_claimed_session_def)
  ultimately show ?thesis
    by (meson converse_rtranclp_into_rtranclp r_into_rtranclp)
qed

theorem browser_session_buys_once_witness:
  "\<exists>s'. br_sessions (sample_browser_repository
        (completed_session sample_browser_call sample_claimed_session ''w'' ''txn_1'' 6)) ''bps_1'' = Some s'
     \<and> bs_TransactionID s' = Some ''txn_1'' \<and> bs_RequestBodyHash s' = hashSecret ''{}''"
proof -
  have "browser_step\<^sup>*\<^sup>* (no_sessions, {}) (sample_browser_repository sample_claimed_session, {})"
    using sample_browser_created sample_browser_claimed by (meson converse_rtranclp_into_rtranclp r_into_rtranclp)
  moreover have "br_sessions (sample_browser_repository sample_claimed_session) ''bps_1'' = Some sample_claimed_session"
    by (simp add: sample_browser_repository_def)
  ultimately obtain s' where "br_sessions (sample_browser_repository
        (completed_session sample_browser_call sample_claimed_session ''w'' ''txn_1'' 6)) ''bps_1'' = Some s'"
    "same_purchase sample_claimed_session s'" "\<forall>t. bs_TransactionID sample_claimed_session = Some t \<longrightarrow> bs_TransactionID s' = Some t"
    using browser_session_buys_once [OF _ sample_browser_completed] by blast
  then show ?thesis
    by (auto simp: same_purchase_def sample_claimed_session_def sample_browser_session_def creation_of_def Let_def)
qed

text \<open>
  C9: a recovery that succeeds was signed by the wallet that paid: the verifier accepted the message of an
  unused, unexpired challenge of that session for the wallet the completed session is bound to, within the
  access period. Afterwards the session carries the new grant, the challenge is used, so the same call
  presented again is refused, and the grant it replaces is refused by \<open>Authorize\<close>. A recovery that fails
  changes nothing.
\<close>

theorem recovery_rotates_grant:
  assumes "browser_step\<^sup>*\<^sup>* (no_sessions, {}) (r, seen)" "Browser_Recover c k q r = (res, r')"
  shows "r' = r \<and> \<not> is_ok res
    \<or> (\<exists>verify network address s ch y. bk_verify c = Some verify
        \<and> br_sessions r k = Some s \<and> bs_Status s = BrowserCompleted \<and> bk_now c < bs_AccessExpiresAt s
        \<and> bs_WalletBindingHash s = Some (walletBindingHash network address)
        \<and> br_challenges r (rx_ChallengeID q) = Some ch \<and> rl_UsedAt ch = None \<and> bk_now c < rl_ExpiresAt ch
        \<and> verify network address
            (recoveryMessage k (rx_ChallengeID q) network address (rl_Nonce ch) (rl_ExpiresAt ch)) (rx_Proof q) = Inr True
        \<and> res = Inr y \<and> br_sessions r' k = Some (ry_Session y)
        \<and> bs_BrowserGrantHash (ry_Session y) = hashSecret (ry_BrowserGrant y)
        \<and> same_purchase s (ry_Session y)
        \<and> \<not> is_ok (fst (Browser_Recover c k q r'))
        \<and> (\<forall>old now w. hashSecret old = bs_BrowserGrantHash s \<and> bs_BrowserGrantHash s \<noteq> bs_BrowserGrantHash (ry_Session y)
             \<longrightarrow> Browser_Authorize r' now old w = Inl ErrInvalidGrant))"
proof (cases "r' = r \<and> \<not> is_ok res")
  case False
  from Browser_Recover_run [OF assms(2) False]
  obtain verify network address s ch g csrf where run: "bk_verify c = Some verify"
    "Session_Get r k = Inr s" "bs_Status s = BrowserCompleted" "bk_now c < bs_AccessExpiresAt s"
    "bs_WalletBindingHash s = Some (walletBindingHash network address)"
    "GetChallenge r k (rx_ChallengeID q) = Inr ch" "rl_UsedAt ch = None" "bk_now c < rl_ExpiresAt ch"
    "verify network address (recoveryMessage k (rx_ChallengeID q) network address (rl_Nonce ch) (rl_ExpiresAt ch))
       (rx_Proof q) = Inr True"
    and stored: "Session_Recover r (recovered_session c s g csrf) (bs_BrowserGrantHash s)
       (ch\<lparr>rl_UsedAt := Some (bk_now c)\<rparr>) = Inr r'"
    and res: "res = Inr \<lparr>ry_Session = recovered_session c s g csrf, ry_BrowserGrant = g, ry_CSRFToken = csrf\<rparr>"
    by blast
  let ?s = "recovered_session c s g csrf"
  have s: "br_sessions r k = Some s" and ch: "br_challenges r (rx_ChallengeID q) = Some ch"
    using run(2,6) by (auto simp: Session_Get_def GetChallenge_def result_simps split: option.split_asm)
  obtain seen' where after: "browser_step\<^sup>*\<^sup>* (no_sessions, {}) (r', seen')"
    using Browser_Recover_steps [of r seen c k q] assms by (metis rtranclp_trans snd_conv)
  have wf: "wf_browser r" "wf_browser r'"
    using browser_reachable [OF assms(1)] browser_reachable [OF after] by simp_all
  have id: "bs_PurchaseSessionID ?s = k" "rl_ChallengeID ch = rx_ChallengeID q"
    using wf_browser_session [OF wf(1) s] reachable_challenges [OF assms(1) ch]
    by (simp_all add: recovered_session_def wf_session_def)
  have r': "br_sessions r' = (br_sessions r)(k \<mapsto> ?s)"
    "br_challenges r' (rx_ChallengeID q) = Some (ch\<lparr>rl_UsedAt := Some (bk_now c)\<rparr>)"
    using stored by (auto simp: Session_Recover_def id s ch result_simps split: option.split_asm)
  have again: "\<not> is_ok (fst (Browser_Recover c k q r'))"
  proof
    assume *: "is_ok (fst (Browser_Recover c k q r'))"
    then show False
      using Browser_Recover_run [OF surjective_pairing [of "Browser_Recover c k q r'"]] r'(2)
      by (auto simp: GetChallenge_def result_simps)
  qed
  have revoked: "Browser_Authorize r' now old w = Inl ErrInvalidGrant"
    if "hashSecret old = bs_BrowserGrantHash s" "bs_BrowserGrantHash s \<noteq> bs_BrowserGrantHash ?s" for old now w
  proof -
    have "br_grantIndex r' (bs_BrowserGrantHash s) = None"
    proof (rule ccontr)
      assume "br_grantIndex r' (bs_BrowserGrantHash s) \<noteq> None"
      then obtain j t where t: "br_sessions r' j = Some t" "bs_BrowserGrantHash t = bs_BrowserGrantHash s"
        using wf(2) by (auto simp: wf_browser_def elim: exact_grants_index)
      then have "j \<noteq> k" "br_sessions r j = Some t"
        using that(2) by (auto simp: r' split: if_split_asm)
      then show False
        using wf(1) s t(2) exact_grants_session [of "br_sessions r" "br_grantIndex r"]
        unfolding wf_browser_def by (metis option.inject)
    qed
    then show ?thesis
      using that(1) by (simp add: Browser_Authorize_def GetByGrantHash_def reject_if_def)
  qed
  have new: "bs_BrowserGrantHash ?s = hashSecret g" "same_purchase s ?s"
    by (simp_all add: recovered_session_def same_purchase_def)
  show ?thesis
    by (rule disjI2, rule exI [where x = verify], rule exI [where x = network], rule exI [where x = address],
        rule exI [where x = s], rule exI [where x = ch])
      (use run s ch r'(1) res again revoked new in simp)
qed simp

definition sample_wallet :: string where
  "sample_wallet = walletBindingHash ''solana:1'' ''addr''"

definition sample_paid_session :: BrowserPurchaseSession where
  "sample_paid_session = completed_session sample_browser_call sample_claimed_session sample_wallet ''txn_1'' 6"

definition sample_challenge :: RecoveryChallengeRecord where
  "sample_challenge =
     \<lparr>rl_ChallengeID = ''bpr_1'', rl_PurchaseSessionID = ''bps_1'', rl_ExpectedWalletBindingHash = sample_wallet,
      rl_Network = ''solana:1'', rl_Address = ''addr'', rl_Nonce = ''n'',
      rl_MessageHash = hashSecret (recoveryMessage ''bps_1'' ''bpr_1'' ''solana:1'' ''addr'' ''n'' 10),
      rl_ExpiresAt = 10, rl_UsedAt = None\<rparr>"

definition sample_challenged :: BrowserRepository where
  "sample_challenged = (sample_browser_repository sample_paid_session)\<lparr>br_challenges := [''bpr_1'' \<mapsto> sample_challenge]\<rparr>"

definition sample_recover :: RecoverRequest where
  "sample_recover = \<lparr>rx_ChallengeID = ''bpr_1'', rx_Network = ''solana:1'', rx_Address = ''addr'', rx_Proof = ''proof''\<rparr>"

lemma sample_challenged_reachable:
  "browser_step\<^sup>*\<^sup>* (no_sessions, {}) (sample_challenged, {sample_claimed_session})"
proof -
  have "browser_step (sample_browser_repository sample_paid_session, {sample_claimed_session})
      (sample_challenged, {sample_claimed_session})"
    by (rule challenge [where ch = sample_challenge])
      (simp_all add: sample_challenge_def CreateChallenge_def sample_challenged_def sample_browser_repository_def no_sessions_def)
  then show ?thesis
    using sample_browser_created sample_browser_claimed sample_browser_completed [of sample_wallet]
    unfolding sample_paid_session_def
    by (meson converse_rtranclp_into_rtranclp rtranclp.rtrancl_into_rtrancl)
qed

lemma sample_recover_ok: "is_ok (fst (Browser_Recover sample_browser_call ''bps_1'' sample_recover sample_challenged))"
proof -
  have wallet: "sample_wallet \<noteq> []"
    using hashBytes_digest [of "''agentpay.browser-wallet.v1'' @ [CHR 0x00] @ ''solana:1'' @ [CHR 0x00] @ ''addr''"]
    by (auto simp: sample_wallet_def walletBindingHash_def hashBytes_def dest: sha256_digest_not_Nil)
  have trim: "TrimSpace ''solana:1'' = ''solana:1''" "TrimSpace ''addr'' = ''addr''" "TrimSpace ''proof'' = ''proof''"
    by (simp_all add: TrimSpace_plain plain_ends_def ascii_graph_def)
  have ids: "HasPrefix ''bps_1'' ''bps_''" "HasPrefix ''bpr_1'' ''bpr_''" "\<not> HasPrefix ''solana:1'' ''eip155:''"
    by code_simp+
  have session: "br_sessions sample_challenged ''bps_1'' = Some sample_paid_session"
    "br_challenges sample_challenged ''bpr_1'' = Some sample_challenge"
    by (simp_all add: sample_challenged_def sample_browser_repository_def)
  have stored: "is_ok (Session_Recover sample_challenged (recovered_session sample_browser_call sample_paid_session ''grant'' ''csrf'')
     (bs_BrowserGrantHash sample_paid_session) (sample_challenge\<lparr>rl_UsedAt := Some 5\<rparr>))"
    by (simp add: Session_Recover_def recovered_session_def sample_challenged_def sample_browser_repository_def
        sample_paid_session_def completed_session_def sample_claimed_session_def sample_browser_session_def creation_of_def
        sample_challenge_def reject_if_def Let_def)
  obtain r where store: "Session_Recover sample_challenged
      (recovered_session sample_browser_call sample_paid_session ''grant'' ''csrf'')
      (bs_BrowserGrantHash sample_paid_session) (sample_challenge\<lparr>rl_UsedAt := Some 5\<rparr>) = Inr r"
    using stored by (auto simp: is_ok_def split: sum.split_asm)
  have call: "bk_ulid sample_browser_call x" "bk_verify sample_browser_call = Some (\<lambda>_ _ _ _. Inr True)"
    "bk_token1 sample_browser_call = Inr ''grant''" "bk_token2 sample_browser_call = Inr ''csrf''" "bk_now sample_browser_call = 5"
    for x
    by (simp_all add: sample_browser_call_def)
  have paid: "bs_Status sample_paid_session = BrowserCompleted" "bs_WalletBindingHash sample_paid_session = Some sample_wallet"
    "bs_TransactionID sample_paid_session = Some ''txn_1''" "5 < bs_AccessExpiresAt sample_paid_session"
    by (simp_all add: sample_paid_session_def completed_session_def Timestamp_Add_def)
  have asked: "rl_UsedAt sample_challenge = None" "rl_PurchaseSessionID sample_challenge = ''bps_1''"
    "rl_ExpiresAt sample_challenge = 10" "rl_ExpectedWalletBindingHash sample_challenge = sample_wallet"
    "rl_Network sample_challenge = ''solana:1''" "rl_Address sample_challenge = ''addr''" "rl_Nonce sample_challenge = ''n''"
    "rl_MessageHash sample_challenge = hashSecret (recoveryMessage ''bps_1'' ''bpr_1'' ''solana:1'' ''addr'' ''n'' 10)"
    by (simp_all add: sample_challenge_def)
  show ?thesis
    by (simp add: Browser_Recover_def action_simps sample_recover_def call ParsePurchaseSessionID_def
        ParseRecoveryChallengeID_def ids normalizeWallet_def trim Session_Get_def GetChallenge_def session Let_def
        asked paid store sample_wallet_def [symmetric] constantStringEqual_def wallet)
qed

theorem recovery_rotates_grant_witness:
  "\<exists>r' y. Browser_Recover sample_browser_call ''bps_1'' sample_recover sample_challenged = (Inr y, r')
     \<and> br_sessions r' ''bps_1'' = Some (ry_Session y)
     \<and> \<not> is_ok (fst (Browser_Recover sample_browser_call ''bps_1'' sample_recover r'))"
proof -
  obtain res r' where run: "Browser_Recover sample_browser_call ''bps_1'' sample_recover sample_challenged = (res, r')"
    by (cases "Browser_Recover sample_browser_call ''bps_1'' sample_recover sample_challenged")
  then have "is_ok res"
    using sample_recover_ok by simp
  then show ?thesis
    using recovery_rotates_grant [OF sample_challenged_reachable run] run by blast
qed

end
