(* ===== verification/Payments.thy ===== *)
theory Payments
  imports ApprovalToken
begin

text \<open>
  Payment terms and payment adapters of \<open>internal/payments/{models,service,capabilities}.go\<close>: the exact
  requirements of a checkout, the local mock adapter, the x402 adapter with its facilitator, and the
  advertised capabilities. The x402 packages and \<open>jcs\<close> are parameters; what every adapter promises the
  checkout is the locale \<open>payment_adapter\<close>.
\<close>

section \<open>Base64 with padding\<close>

definition std_val :: "char \<Rightarrow> nat option" where
  "std_val = map_of (zip ''ABCDEFGHIJKLMNOPQRSTUVWXYZabcdefghijklmnopqrstuvwxyz0123456789+/'' [0..<64])"

text \<open>
  \<open>base64.StdEncoding.DecodeString\<close>: line breaks are skipped, the padding is complete and last, and the
  unused bits of the last symbol are ignored.
\<close>

definition base64_std_decode :: "string \<Rightarrow> string option" where
  "base64_std_decode s =
     (let symbols = filter (\<lambda>c. c \<noteq> CHR 0x0A \<and> c \<noteq> CHR 0x0D) s;
          body = takeWhile (\<lambda>c. c \<noteq> CHR ''='') symbols; padding = dropWhile (\<lambda>c. c \<noteq> CHR ''='') symbols
      in if list_all (\<lambda>c. std_val c \<noteq> None) body \<and> padding \<in> {[], ''='', ''==''}
            \<and> (length body + length padding) mod 4 = 0 \<and> length body mod 4 \<noteq> 1
         then quanta (map (\<lambda>c. the (std_val c)) body) else None)"

section \<open>Requirements\<close>

abbreviation "ExactScheme \<equiv> ''exact''"
abbreviation "BaseSepoliaNetwork \<equiv> ''eip155:84532''"
abbreviation "BaseSepoliaUSDCAsset \<equiv> ''0x036CbD53842c5426634e7929541eC2318f3dCF7e''"

abbreviation ErrPaymentRejected :: go_error where "ErrPaymentRejected \<equiv> Err ''payments.ErrPaymentRejected''"
abbreviation ErrPaymentAuthorizationExpired :: go_error where
  "ErrPaymentAuthorizationExpired \<equiv> Err ''payments.ErrPaymentAuthorizationExpired''"
abbreviation ErrPaymentSignatureInvalid :: go_error where
  "ErrPaymentSignatureInvalid \<equiv> Err ''payments.ErrPaymentSignatureInvalid''"
abbreviation ErrPaymentWalletMismatch :: go_error where
  "ErrPaymentWalletMismatch \<equiv> Err ''payments.ErrPaymentWalletMismatch''"
abbreviation ErrPaymentFacilitatorRejected :: go_error where
  "ErrPaymentFacilitatorRejected \<equiv> Err ''payments.ErrPaymentFacilitatorRejected''"
abbreviation ErrPaymentTimeout :: go_error where "ErrPaymentTimeout \<equiv> Err ''payments.ErrPaymentTimeout''"
abbreviation ErrPaymentUnavailable :: go_error where
  "ErrPaymentUnavailable \<equiv> Err ''payments.ErrPaymentUnavailable''"
abbreviation ErrPaymentReplay :: go_error where "ErrPaymentReplay \<equiv> Err ''payments.ErrPaymentReplay''"
abbreviation ErrPaymentCapabilityUnsupported :: go_error where
  "ErrPaymentCapabilityUnsupported \<equiv> Err ''payments.ErrPaymentCapabilityUnsupported''"

record Requirements =
  rq_Scheme :: string
  rq_Network :: string
  rq_Asset :: string
  rq_Amount :: amount
  rq_PayTo :: string
  rq_ResourceURL :: string
  rq_Description :: string
  rq_MIMEType :: string
  rq_MaxTimeoutSeconds :: int

record Challenge =
  ch_Requirements :: Requirements
  ch_Header :: string

record VerificationResult =
  vf_Valid :: bool
  vf_PaymentIdentifier :: string
  vf_PayerAddress :: string

record SettlementResult =
  st_Settled :: bool
  st_PaymentIdentifier :: string
  st_PaymentReference :: string
  st_ResponseHeader :: string
  st_PayerAddress :: string

definition validateRequirements :: "Requirements \<Rightarrow> unit result" where
  "validateRequirements r =
     reject_if (rq_Scheme r \<noteq> ExactScheme) (validation ''scheme'' ''exact'' ''must use exact payment'')
    (reject_if (rq_Network r = []) (validation ''network'' ''required'' ''is required'')
    (reject_if (rq_Asset r = []) (validation ''asset'' ''required'' ''is required'')
    (reject_if (Amount_IsZero (rq_Amount r)) (validation ''amount'' ''positive'' ''must be greater than zero'')
    (reject_if (rq_PayTo r = []) (validation ''payTo'' ''required'' ''is required'')
    (reject_if (TrimSpace (rq_ResourceURL r) = []) (validation ''resource'' ''required'' ''is required'')
    (reject_if (TrimSpace (rq_MIMEType r) = []) (validation ''mimeType'' ''required'' ''is required'')
    (reject_if (rq_MaxTimeoutSeconds r \<le> 0)
       (validation ''maxTimeoutSeconds'' ''positive'' ''must be greater than zero'') (Inr ()))))))))"

definition normalizeX402Requirements :: "Requirements \<Rightarrow> Requirements result" where
  "normalizeX402Requirements r =
     reject_if (rq_Network r \<noteq> BaseSepoliaNetwork)
       (validation ''network'' ''supported'' ''must use Base Sepolia testnet'')
    (reject_if (rq_Asset r \<noteq> ''USDC'' \<and> fold_name (rq_Asset r) \<noteq> fold_name BaseSepoliaUSDCAsset)
       (validation ''asset'' ''supported'' ''must use Base Sepolia USDC'')
    (Inr (r\<lparr>rq_Asset := BaseSepoliaUSDCAsset\<rparr>)))"

definition IsRetryable :: "go_error \<Rightarrow> bool" where
  "IsRetryable e \<longleftrightarrow> e = ErrPaymentTimeout \<or> e = ErrPaymentUnavailable"

section \<open>The contract of an adapter\<close>

text \<open>
  \<open>verify\<close> and \<open>settle\<close> are one adapter's answers during one checkout. The checkout relies on two facts:
  the identifier is that of the proof, whatever the facilitator answers, and nothing is accepted
  for terms that are not complete.
\<close>

locale payment_adapter =
  fixes verify :: "string \<Rightarrow> Requirements \<Rightarrow> VerificationResult result"
    and settle :: "string \<Rightarrow> Requirements \<Rightarrow> SettlementResult result"
    and proof_id :: "string \<Rightarrow> string"
  assumes verify_identifier: "verify p r = Inr v \<Longrightarrow> vf_PaymentIdentifier v = proof_id p \<and> vf_Valid v"
    and settle_identifier: "settle p r = Inr s \<Longrightarrow> st_PaymentIdentifier s = proof_id p \<and> st_Settled s"
    and verify_terms: "verify p r = Inr v \<Longrightarrow> is_ok (validateRequirements r)"
    and settle_terms: "settle p r = Inr s \<Longrightarrow> is_ok (validateRequirements r)"
begin

lemma settled_as_verified:
  "verify p r = Inr v \<Longrightarrow> settle p r' = Inr s \<Longrightarrow> st_PaymentIdentifier s = vf_PaymentIdentifier v"
  by (simp add: verify_identifier settle_identifier)

lemma settled_positive:
  "settle p r = Inr s \<Longrightarrow> \<not> Amount_IsZero (rq_Amount r) \<and> rq_PayTo r \<noteq> []"
  by (drule settle_terms) (auto simp: validateRequirements_def reject_if_def split: if_split_asm)

end

section \<open>The mock adapter\<close>

definition mockProofError :: "(string \<Rightarrow> bool) \<Rightarrow> string \<Rightarrow> unit result" where
  "mockProofError ulid proof =
     (if proof = ''mock-approved-proof'' then Inr ()
      else if proof = ''mock-timeout-proof'' then Inl ErrPaymentTimeout
      else if proof = ''mock-unavailable-proof'' then Inl ErrPaymentUnavailable
      else let intentID = TrimPrefix proof ''mock-approved-proof:''
           in if intentID \<noteq> proof \<and> is_ok (ParseID ulid intentID IntentIDPrefix) then Inr ()
              else Inl ErrPaymentRejected)"

definition mockPaymentIdentifier :: "string \<Rightarrow> string" where
  "mockPaymentIdentifier proof = ''mock_'' @ hex_encode (Sum256 proof)"

text \<open>\<open>cancelled\<close> is the error of the request context, if it has one.\<close>

definition Mock_CreateChallenge :: "go_error option \<Rightarrow> Requirements \<Rightarrow> Challenge result" where
  "Mock_CreateChallenge cancelled r =
     rbind (case cancelled of None \<Rightarrow> Inr () | Some e \<Rightarrow> Inl e) (\<lambda>_.
     rbind (validateRequirements r) (\<lambda>_.
     Inr \<lparr>ch_Requirements = r, ch_Header = base64_std (json_encode (JObject
       ([(''scheme'', JString (rq_Scheme r)), (''network'', JString (rq_Network r)),
         (''asset'', JString (rq_Asset r)), (''amount'', JString (Amount_String (rq_Amount r))),
         (''payTo'', JString (rq_PayTo r)), (''resource'', JString (rq_ResourceURL r))]
        @ omit_empty ''description'' (rq_Description r) @ omit_empty ''mimeType'' (rq_MIMEType r)
        @ [(''maxTimeoutSeconds'', JInt (rq_MaxTimeoutSeconds r))])))\<rparr>))"

definition Mock_Verify ::
  "(string \<Rightarrow> bool) \<Rightarrow> go_error option \<Rightarrow> string \<Rightarrow> Requirements \<Rightarrow> VerificationResult result" where
  "Mock_Verify ulid cancelled proof r =
     rbind (case cancelled of None \<Rightarrow> Inr () | Some e \<Rightarrow> Inl e) (\<lambda>_.
     rbind (validateRequirements r) (\<lambda>_.
     rbind (mockProofError ulid proof) (\<lambda>_.
     Inr \<lparr>vf_Valid = True, vf_PaymentIdentifier = mockPaymentIdentifier proof,
          vf_PayerAddress = ''0x2222222222222222222222222222222222222222''\<rparr>)))"

definition Mock_Settle ::
  "(string \<Rightarrow> bool) \<Rightarrow> go_error option \<Rightarrow> string \<Rightarrow> Requirements \<Rightarrow> SettlementResult result" where
  "Mock_Settle ulid cancelled proof r =
     rbind (Mock_Verify ulid cancelled proof r) (\<lambda>v.
     let reference = ''mock_settlement_'' @ TrimPrefix (vf_PaymentIdentifier v) ''mock_''
     in Inr \<lparr>st_Settled = True, st_PaymentIdentifier = vf_PaymentIdentifier v, st_PaymentReference = reference,
             st_ResponseHeader = base64_std (json_encode (JObject
               [(''success'', JBool True), (''paymentIdentifier'', JString (vf_PaymentIdentifier v)),
                (''paymentReference'', JString reference)])),
             st_PayerAddress = vf_PayerAddress v\<rparr>)"

interpretation mock: payment_adapter "Mock_Verify ulid cancelled" "Mock_Settle ulid cancelled" mockPaymentIdentifier
  by unfold_locales
    (auto simp: Mock_Verify_def Mock_Settle_def Let_def result_simps is_ok_def split: option.split_asm sum.split_asm)

section \<open>The x402 adapter\<close>

text \<open>
  A decoded payment payload, the answers of the facilitator, and its errors: a deadline, a
  \<open>VerifyError\<close> with its reason, or a \<open>SettleError\<close> with its reason and transaction.
\<close>

record AcceptedRequirements =
  ar_Scheme :: string
  ar_Network :: string
  ar_Asset :: string
  ar_Amount :: string
  ar_PayTo :: string
  ar_MaxTimeoutSeconds :: int

record ResourceInfo =
  ri_URL :: string
  ri_Description :: string
  ri_MimeType :: string

record PaymentPayload =
  pp_X402Version :: int
  pp_Accepted :: AcceptedRequirements
  pp_Resource :: "ResourceInfo option"

record VerifyResponse =
  xv_IsValid :: bool
  xv_Payer :: string

record SettleResponse =
  xs_Success :: bool
  xs_ErrorReason :: string
  xs_Payer :: string
  xs_Transaction :: string
  xs_Network :: string
  xs_Amount :: string
  xs_Encoded :: "string result"

record facilitator_error =
  fe_Deadline :: bool
  fe_Verify :: "string option"
  fe_Settle :: "(string \<times> string) option"

record x402_package =
  xp_jcs :: "string \<Rightarrow> string result"
  xp_toPayload :: "string \<Rightarrow> PaymentPayload option"
  xp_paymentRequired :: "Requirements \<Rightarrow> string result"
  xp_requirements :: "Requirements \<Rightarrow> string result"
  xp_expired :: string
  xp_signatureInvalid :: string
  xp_unsupported :: "string list"
  xp_settlementPending :: string

record facilitator =
  fc_verify :: "string \<Rightarrow> string \<Rightarrow> facilitator_error + VerifyResponse option"
  fc_settle :: "string \<Rightarrow> string \<Rightarrow> facilitator_error + SettleResponse option"

definition matchesPaymentCapability :: "AcceptedRequirements \<Rightarrow> Requirements \<Rightarrow> bool" where
  "matchesPaymentCapability a r \<longleftrightarrow>
     ar_Scheme a = rq_Scheme r \<and> ar_Network a = rq_Network r \<and> fold_name (ar_Asset a) = fold_name (rq_Asset r)"

definition matchesRequirements :: "AcceptedRequirements \<Rightarrow> Requirements \<Rightarrow> bool" where
  "matchesRequirements a r \<longleftrightarrow>
     ar_Scheme a = rq_Scheme r \<and> ar_Network a = rq_Network r \<and> ar_Asset a = rq_Asset r
     \<and> ar_Amount a = Amount_String (rq_Amount r) \<and> ar_PayTo a = rq_PayTo r
     \<and> ar_MaxTimeoutSeconds a = rq_MaxTimeoutSeconds r"

definition matchesResource :: "ResourceInfo option \<Rightarrow> Requirements \<Rightarrow> bool" where
  "matchesResource resource r \<longleftrightarrow>
     (case resource of
        None \<Rightarrow> False
      | Some i \<Rightarrow> ri_URL i = rq_ResourceURL r \<and> ri_Description i = rq_Description r
                \<and> ri_MimeType i = rq_MIMEType r)"

definition parsePaymentProof :: "x402_package \<Rightarrow> string \<Rightarrow> Requirements \<Rightarrow> (string \<times> string) result" where
  "parsePaymentProof xp proof r =
     reject_if (TrimSpace proof = []) ErrPaymentRejected
    (case base64_std_decode proof of
       None \<Rightarrow> Inl ErrPaymentRejected
     | Some payloadBytes \<Rightarrow>
         (case xp_toPayload xp payloadBytes of
            None \<Rightarrow> Inl ErrPaymentRejected
          | Some payload \<Rightarrow>
              reject_if (pp_X402Version payload \<noteq> 2) ErrPaymentRejected
             (reject_if (\<not> matchesPaymentCapability (pp_Accepted payload) r) ErrPaymentCapabilityUnsupported
             (reject_if (\<not> matchesRequirements (pp_Accepted payload) r) ErrPaymentRejected
             (reject_if (\<not> matchesResource (pp_Resource payload) r) ErrPaymentRejected
             (case xp_jcs xp payloadBytes of
                Inl _ \<Rightarrow> Inl ErrPaymentRejected
              | Inr canonical \<Rightarrow> Inr (payloadBytes, ''x402_'' @ hex_encode (Sum256 canonical))))))))"

definition classifyFacilitatorError :: "x402_package \<Rightarrow> bool \<Rightarrow> facilitator_error \<Rightarrow> go_error" where
  "classifyFacilitatorError xp parentCanceled e =
     (if parentCanceled then Err ''context.Canceled''
      else if fe_Deadline e then ErrPaymentTimeout
      else case fe_Verify e of
        Some reason \<Rightarrow>
          if reason = xp_expired xp then ErrPaymentAuthorizationExpired
          else if reason = xp_signatureInvalid xp then ErrPaymentSignatureInvalid
          else if reason \<in> set (xp_unsupported xp) then ErrPaymentCapabilityUnsupported
          else ErrPaymentFacilitatorRejected
      | None \<Rightarrow>
          (case fe_Settle e of
             Some (reason, transaction) \<Rightarrow>
               if reason = xp_settlementPending xp \<and> TrimSpace transaction \<noteq> [] then ErrPaymentUnavailable
               else ErrPaymentFacilitatorRejected
           | None \<Rightarrow> ErrPaymentUnavailable))"

definition X402_CreateChallenge :: "x402_package \<Rightarrow> go_error option \<Rightarrow> Requirements \<Rightarrow> Challenge result" where
  "X402_CreateChallenge xp cancelled r =
     rbind (case cancelled of None \<Rightarrow> Inr () | Some e \<Rightarrow> Inl e) (\<lambda>_.
     rbind (validateRequirements r) (\<lambda>_.
     rbind (normalizeX402Requirements r) (\<lambda>n.
     rbind (xp_paymentRequired xp n) (\<lambda>encoded.
     Inr \<lparr>ch_Requirements = n, ch_Header = base64_std encoded\<rparr>))))"

definition X402_Verify ::
  "x402_package \<Rightarrow> facilitator option \<Rightarrow> bool \<Rightarrow> string \<Rightarrow> Requirements \<Rightarrow> VerificationResult result" where
  "X402_Verify xp fac parentCanceled proof r =
     rbind (validateRequirements r) (\<lambda>_.
     rbind (normalizeX402Requirements r) (\<lambda>n.
     rbind (parsePaymentProof xp proof n) (\<lambda>(payload, identifier).
     case fac of
       None \<Rightarrow> Inl ErrPaymentUnavailable
     | Some f \<Rightarrow>
         rbind (xp_requirements xp n) (\<lambda>terms.
         case fc_verify f payload terms of
           Inl e \<Rightarrow> Inl (classifyFacilitatorError xp parentCanceled e)
         | Inr None \<Rightarrow> Inl ErrPaymentFacilitatorRejected
         | Inr (Some response) \<Rightarrow>
             reject_if (\<not> xv_IsValid response) ErrPaymentFacilitatorRejected
               (Inr \<lparr>vf_Valid = True, vf_PaymentIdentifier = identifier, vf_PayerAddress = xv_Payer response\<rparr>)))))"

definition X402_Settle ::
  "x402_package \<Rightarrow> facilitator option \<Rightarrow> bool \<Rightarrow> string \<Rightarrow> Requirements \<Rightarrow> SettlementResult result" where
  "X402_Settle xp fac parentCanceled proof r =
     rbind (validateRequirements r) (\<lambda>_.
     rbind (normalizeX402Requirements r) (\<lambda>n.
     rbind (parsePaymentProof xp proof n) (\<lambda>(payload, identifier).
     case fac of
       None \<Rightarrow> Inl ErrPaymentUnavailable
     | Some f \<Rightarrow>
         rbind (xp_requirements xp n) (\<lambda>terms.
         case fc_settle f payload terms of
           Inl e \<Rightarrow> Inl (classifyFacilitatorError xp parentCanceled e)
         | Inr None \<Rightarrow> Inl ErrPaymentRejected
         | Inr (Some response) \<Rightarrow>
             reject_if (\<not> xs_Success response \<and> xs_ErrorReason response = xp_settlementPending xp
                        \<and> TrimSpace (xs_Transaction response) \<noteq> []) ErrPaymentUnavailable
            (reject_if (\<not> xs_Success response \<or> xs_Transaction response = []
                        \<or> xs_Network response \<noteq> rq_Network n
                        \<or> xs_Amount response \<noteq> [] \<and> xs_Amount response \<noteq> Amount_String (rq_Amount n)) ErrPaymentRejected
            (rbind (xs_Encoded response) (\<lambda>encoded.
             Inr \<lparr>st_Settled = True, st_PaymentIdentifier = identifier,
                  st_PaymentReference = xs_Transaction response, st_ResponseHeader = base64_std encoded,
                  st_PayerAddress = xs_Payer response\<rparr>)))))))"

text \<open>The identifier of a proof does not depend on the terms it is presented for.\<close>

definition x402_identifier :: "x402_package \<Rightarrow> string \<Rightarrow> string" where
  "x402_identifier xp proof =
     (case base64_std_decode proof of
        None \<Rightarrow> []
      | Some payload \<Rightarrow> (case xp_jcs xp payload of Inl _ \<Rightarrow> [] | Inr c \<Rightarrow> ''x402_'' @ hex_encode (Sum256 c)))"

lemma sum_case_InrE:
  "(case r of Inl e \<Rightarrow> Inl (f e) | Inr x \<Rightarrow> g x) = Inr y \<Longrightarrow> (\<And>x. r = Inr x \<Longrightarrow> g x = Inr y \<Longrightarrow> P) \<Longrightarrow> P"
  by (cases r) simp_all

lemma parsePaymentProof_ok:
  assumes "parsePaymentProof xp proof r = Inr (payload, i)"
  shows "base64_std_decode proof = Some payload" "i = x402_identifier xp proof"
    "\<exists>p. xp_toPayload xp payload = Some p \<and> matchesRequirements (pp_Accepted p) r \<and> matchesResource (pp_Resource p) r"
  using assms
  by (auto simp: parsePaymentProof_def x402_identifier_def result_simps split: option.split_asm sum.split_asm)

lemma X402_Verify_ok:
  assumes "X402_Verify xp fac canceled proof r = Inr v"
  shows "is_ok (validateRequirements r)" "vf_PaymentIdentifier v = x402_identifier xp proof" "vf_Valid v"
proof -
  show "is_ok (validateRequirements r)"
    using assms by (auto simp: X402_Verify_def result_simps)
  show "vf_PaymentIdentifier v = x402_identifier xp proof" "vf_Valid v"
    using assms unfolding X402_Verify_def
    by (auto simp: result_simps parsePaymentProof_ok(2) elim!: sum_case_InrE split: option.split_asm)
qed

lemma X402_Settle_ok:
  assumes "X402_Settle xp fac canceled proof r = Inr s"
  shows "is_ok (validateRequirements r)" "st_PaymentIdentifier s = x402_identifier xp proof" "st_Settled s"
    "\<exists>n payload p. normalizeX402Requirements r = Inr n \<and> base64_std_decode proof = Some payload
      \<and> xp_toPayload xp payload = Some p \<and> matchesRequirements (pp_Accepted p) n \<and> matchesResource (pp_Resource p) n"
proof -
  show "is_ok (validateRequirements r)"
    using assms by (auto simp: X402_Settle_def result_simps)
  show "st_PaymentIdentifier s = x402_identifier xp proof" "st_Settled s"
    using assms unfolding X402_Settle_def
    by (auto simp: result_simps parsePaymentProof_ok(2) elim!: sum_case_InrE split: option.split_asm)
  obtain n payload i where "normalizeX402Requirements r = Inr n" "parsePaymentProof xp proof n = Inr (payload, i)"
    using assms by (auto simp: X402_Settle_def result_simps)
  then show "\<exists>n payload p. normalizeX402Requirements r = Inr n \<and> base64_std_decode proof = Some payload
      \<and> xp_toPayload xp payload = Some p \<and> matchesRequirements (pp_Accepted p) n \<and> matchesResource (pp_Resource p) n"
    by (blast dest: parsePaymentProof_ok(1,3))
qed

interpretation x402: payment_adapter "X402_Verify xp fac canceled" "X402_Settle xp fac canceled'" "x402_identifier xp"
  by unfold_locales (simp_all add: X402_Verify_ok X402_Settle_ok)

end
