(* ===== verification/Proxy.thy ===== *)
theory Proxy
  imports Payments Routes Evidence Repositories Actions
begin

text \<open>
  Forwarding of paid requests to sellers: \<open>internal/proxy/{models,service,execution_capability}.go\<close>. Request
  signing, the checks of the upstream target against its current addresses, the bounded exchange with
  the seller, and the execution service that claims a transaction before it calls the seller. The DNS
  resolver, the HTTP client, URL parsing and the signing key are parameters.
\<close>

section \<open>Errors and data\<close>

abbreviation ErrRouteNotAllowed :: go_error where "ErrRouteNotAllowed \<equiv> Err ''proxy.ErrRouteNotAllowed''"
abbreviation ErrForbiddenTarget :: go_error where "ErrForbiddenTarget \<equiv> Err ''proxy.ErrForbiddenTarget''"
abbreviation ErrRequestTooLarge :: go_error where "ErrRequestTooLarge \<equiv> Err ''proxy.ErrRequestTooLarge''"
abbreviation ErrResponseTooLarge :: go_error where "ErrResponseTooLarge \<equiv> Err ''proxy.ErrResponseTooLarge''"
abbreviation ErrResponseContentType :: go_error where
  "ErrResponseContentType \<equiv> Err ''proxy.ErrResponseContentType''"
abbreviation ErrUpstreamTimeout :: go_error where "ErrUpstreamTimeout \<equiv> Err ''proxy.ErrUpstreamTimeout''"
abbreviation ErrUpstreamUnavailable :: go_error where
  "ErrUpstreamUnavailable \<equiv> Err ''proxy.ErrUpstreamUnavailable''"
abbreviation ErrSigningUnavailable :: go_error where
  "ErrSigningUnavailable \<equiv> Err ''proxy.ErrSigningUnavailable''"
abbreviation ErrAlreadyForwarded :: go_error where "ErrAlreadyForwarded \<equiv> Err ''proxy.ErrAlreadyForwarded''"
abbreviation ErrExecutionCapabilityUnavailable :: go_error where
  "ErrExecutionCapabilityUnavailable \<equiv> Err ''proxy.ErrExecutionCapabilityUnavailable''"

record SignatureHeaders =
  sh_ExecutionCapability :: string
  sh_Signature :: string
  sh_Timestamp :: string
  sh_Transaction :: string

record ForwardRequest =
  fr_Seller :: Seller
  fr_Route :: PaidRoute
  fr_Method :: RouteMethod
  fr_Path :: string
  fr_Body :: string
  fr_ContentType :: string
  fr_Signature :: SignatureHeaders

record ForwardResponse =
  fp_StatusCode :: int
  fp_Body :: string
  fp_ContentType :: string
  fp_RetrySafe :: bool

record SigningInput =
  si_TransactionID :: ID
  si_SellerID :: ID
  si_RouteID :: ID
  si_Method :: RouteMethod
  si_Path :: string
  si_Body :: string
  si_PaymentFinality :: PaymentFinality

record ExecutionRequest =
  ex_Transaction :: Transaction
  ex_Seller :: Seller
  ex_Route :: PaidRoute
  ex_Method :: RouteMethod
  ex_Path :: string
  ex_Body :: string
  ex_ContentType :: string

section \<open>Signatures\<close>

definition signing_text :: "SigningInput \<Rightarrow> string \<Rightarrow> string" where
  "signing_text input timestamp =
     Join [''agentpay.seller-request.v1'', timestamp, RouteMethod_wire (si_Method input), si_Path input,
           hex_encode (Sum256 (si_Body input)), si_TransactionID input] [CHR 0x0A]"

definition calculateHMAC :: "string \<Rightarrow> SigningInput \<Rightarrow> string \<Rightarrow> string" where
  "calculateHMAC secret input timestamp = base64_std (hmac_sha256 secret (signing_text input timestamp))"

definition LocalSecret_GetSecret :: "string \<Rightarrow> string \<Rightarrow> string result" where
  "LocalSecret_GetSecret secret reference = reject_if (length secret < 32) ErrSigningUnavailable (Inr secret)"

text \<open>A signer without a secret provider or clock is \<open>None\<close>; \<open>now\<close> is the clock during the call.\<close>

definition HMAC_Sign ::
  "(string \<Rightarrow> string result) option \<Rightarrow> instant option \<Rightarrow> string \<Rightarrow> SigningInput \<Rightarrow> SignatureHeaders result" where
  "HMAC_Sign provider now reference input =
     (case (provider, now) of
        (Some secrets, Some t) \<Rightarrow>
          reject_if (TrimSpace reference = [] \<or> si_TransactionID input = []
                     \<or> RouteMethod_wire (si_Method input) = [] \<or> si_Path input = []) ErrSigningUnavailable
         (case secrets reference of
            Inl _ \<Rightarrow> Inl ErrSigningUnavailable
          | Inr secret \<Rightarrow>
              reject_if (length secret < 32) ErrSigningUnavailable
                (let timestamp = FormatRFC3339Nano t
                 in Inr \<lparr>sh_ExecutionCapability = [], sh_Signature = calculateHMAC secret input timestamp,
                         sh_Timestamp = timestamp, sh_Transaction = si_TransactionID input\<rparr>))
      | _ \<Rightarrow> Inl ErrSigningUnavailable)"

definition VerifyHMACSignature :: "string \<Rightarrow> SigningInput \<Rightarrow> SignatureHeaders \<Rightarrow> bool" where
  "VerifyHMACSignature secret input headers \<longleftrightarrow>
     \<not> (length secret < 32 \<or> sh_Timestamp headers = [] \<or> sh_Transaction headers \<noteq> si_TransactionID input)
     \<and> (case base64_std_decode (calculateHMAC secret input (sh_Timestamp headers)) of
          None \<Rightarrow> False
        | Some expected \<Rightarrow>
            (case base64_std_decode (sh_Signature headers) of
               None \<Rightarrow> False
             | Some supplied \<Rightarrow> supplied = expected))"

text \<open>
  The ES256 execution capability: \<open>es_sign\<close> and \<open>es_keyID\<close> are the signing key, \<open>es_random\<close> the 16 bytes
  read, \<open>es_upper\<close> is \<open>strings.ToUpper\<close>.
\<close>

record capability_signer =
  es_issuer :: string
  es_lifetime :: int
  es_keyID :: "string result"
  es_sign :: "string \<Rightarrow> string \<Rightarrow> string result"
  es_random :: "string result"
  es_upper :: "string \<Rightarrow> string"

definition NewES256ExecutionCapabilitySigner ::
  "capability_signer \<Rightarrow> bool \<Rightarrow> capability_signer result" where
  "NewES256ExecutionCapabilitySigner s hasKey =
     (let issuer = rev (dropWhile (\<lambda>c. c = CHR ''/'') (rev (TrimSpace (es_issuer s))))
      in reject_if (issuer = [] \<or> es_lifetime s < 30 * Second \<or> 60 * Second < es_lifetime s \<or> \<not> hasKey)
           ErrExecutionCapabilityUnavailable (Inr (s\<lparr>es_issuer := issuer\<rparr>)))"

definition unix_seconds :: "instant \<Rightarrow> int" where
  "unix_seconds t = t div Second - 62135596800"

definition capability_claims :: "capability_signer \<Rightarrow> instant \<Rightarrow> string \<Rightarrow> SigningInput \<Rightarrow> json" where
  "capability_claims s now random input =
     JObject [(''iss'', JString (es_issuer s)), (''aud'', JString (''urn:agentpay:seller:'' @ si_SellerID input)),
       (''sub'', JString (si_TransactionID input)), (''sellerId'', JString (si_SellerID input)),
       (''routeId'', JString (si_RouteID input)), (''transactionId'', JString (si_TransactionID input)),
       (''method'', JString (es_upper s (RouteMethod_wire (si_Method input)))), (''path'', JString (si_Path input)),
       (''bodySha256'', JString (hex_encode (Sum256 (si_Body input)))), (''paymentFinality'', JString ''finalized''),
       (''jti'', JString (''xec_'' @ base64_url random)), (''iat'', JInt (unix_seconds now)),
       (''exp'', JInt (unix_seconds (now + es_lifetime s)))]"

definition ES256_Sign ::
  "capability_signer \<Rightarrow> instant \<Rightarrow> string \<Rightarrow> SigningInput \<Rightarrow> SignatureHeaders result" where
  "ES256_Sign s now reference input =
     reject_if (si_PaymentFinality input \<noteq> PaymentFinalityFinalized \<or> TrimSpace (si_Path input) = [])
       ErrExecutionCapabilityUnavailable
    (case es_keyID s of
       Inl _ \<Rightarrow> Inl ErrExecutionCapabilityUnavailable
     | Inr keyID \<Rightarrow>
         reject_if (TrimSpace keyID = []) ErrExecutionCapabilityUnavailable
        (case es_random s of
           Inl _ \<Rightarrow> Inl ErrExecutionCapabilityUnavailable
         | Inr random \<Rightarrow>
             (let header = JObject [(''typ'', JString ''agentpay-execution+jwt''), (''alg'', JString ''ES256''),
                                    (''kid'', JString keyID)];
                  signingInput = base64_url (json_encode header) @ ''.''
                    @ base64_url (json_encode (capability_claims s now random input))
              in case es_sign s keyID signingInput of
                   Inl _ \<Rightarrow> Inl ErrExecutionCapabilityUnavailable
                 | Inr signature \<Rightarrow>
                     (let token = signingInput @ ''.'' @ base64_url signature
                      in reject_if (length signature \<noteq> 64 \<or> 16 * 1024 < length token) ErrExecutionCapabilityUnavailable
                        (Inr \<lparr>sh_ExecutionCapability = token, sh_Signature = [], sh_Timestamp = [],
                              sh_Transaction = si_TransactionID input\<rparr>)))))"

section \<open>Addresses\<close>

text \<open>\<open>net.IP\<close>: the bytes of an address, in its 4-byte or 16-byte form; \<open>[]\<close> is nil.\<close>

type_synonym ip = "nat list"

definition v4_prefix :: ip where
  "v4_prefix = replicate 10 0 @ [255, 255]"

definition To4 :: "ip \<Rightarrow> ip option" where
  "To4 a = (if length a = 4 then Some a
            else if length a = 16 \<and> take 12 a = v4_prefix then Some (drop 12 a) else None)"

definition IP_Equal :: "ip \<Rightarrow> ip \<Rightarrow> bool" where
  "IP_Equal a b \<longleftrightarrow>
     (if length a = length b then a = b
      else if length a = 4 \<and> length b = 16 then take 12 b = v4_prefix \<and> a = drop 12 b
      else if length a = 16 \<and> length b = 4 then take 12 a = v4_prefix \<and> drop 12 a = b else False)"

definition IsUnspecified :: "ip \<Rightarrow> bool" where
  "IsUnspecified a \<longleftrightarrow> IP_Equal a (v4_prefix @ [0, 0, 0, 0]) \<or> IP_Equal a (replicate 16 0)"

definition IsLoopback :: "ip \<Rightarrow> bool" where
  "IsLoopback a = (case To4 a of Some q \<Rightarrow> q ! 0 = 127 | None \<Rightarrow> IP_Equal a (replicate 15 0 @ [1]))"

definition IsPrivate :: "ip \<Rightarrow> bool" where
  "IsPrivate a =
     (case To4 a of
        Some q \<Rightarrow> q ! 0 = 10 \<or> q ! 0 = 172 \<and> 16 \<le> q ! 1 \<and> q ! 1 \<le> 31 \<or> q ! 0 = 192 \<and> q ! 1 = 168
      | None \<Rightarrow> length a = 16 \<and> (a ! 0 = 0xFC \<or> a ! 0 = 0xFD))"

definition IsMulticast :: "ip \<Rightarrow> bool" where
  "IsMulticast a =
     (case To4 a of Some q \<Rightarrow> 0xE0 \<le> q ! 0 \<and> q ! 0 \<le> 0xEF | None \<Rightarrow> length a = 16 \<and> a ! 0 = 0xFF)"

definition IsLinkLocalMulticast :: "ip \<Rightarrow> bool" where
  "IsLinkLocalMulticast a =
     (case To4 a of
        Some q \<Rightarrow> q ! 0 = 224 \<and> q ! 1 = 0 \<and> q ! 2 = 0
      | None \<Rightarrow> length a = 16 \<and> a ! 0 = 0xFF \<and> a ! 1 mod 16 = 2)"

definition IsLinkLocalUnicast :: "ip \<Rightarrow> bool" where
  "IsLinkLocalUnicast a =
     (case To4 a of
        Some q \<Rightarrow> q ! 0 = 169 \<and> q ! 1 = 254
      | None \<Rightarrow> length a = 16 \<and> a ! 0 = 0xFE \<and> 0x80 \<le> a ! 1 \<and> a ! 1 \<le> 0xBF)"

definition IsGlobalUnicast :: "ip \<Rightarrow> bool" where
  "IsGlobalUnicast a \<longleftrightarrow>
     (length a = 4 \<or> length a = 16) \<and> \<not> IP_Equal a (v4_prefix @ [255, 255, 255, 255]) \<and> \<not> IsUnspecified a
     \<and> \<not> IsLoopback a \<and> \<not> IsMulticast a \<and> \<not> IsLinkLocalUnicast a"

definition public_address :: "ip \<Rightarrow> bool" where
  "public_address a \<longleftrightarrow>
     \<not> (a = [] \<or> \<not> IsGlobalUnicast a \<or> IsPrivate a \<or> IsLoopback a \<or> IsLinkLocalUnicast a
        \<or> IsLinkLocalMulticast a \<or> IsMulticast a \<or> IsUnspecified a)"

definition addressesArePublic :: "ip list \<Rightarrow> bool" where
  "addressesArePublic as \<longleftrightarrow> as \<noteq> [] \<and> list_all public_address as"

definition addressesAreLoopback :: "ip list \<Rightarrow> bool" where
  "addressesAreLoopback as \<longleftrightarrow> as \<noteq> [] \<and> list_all (\<lambda>a. a \<noteq> [] \<and> IsLoopback a) as"

section \<open>The forwarder\<close>

text \<open>\<open>URL.Port\<close> of the host of a parsed URL: the digits after the last colon.\<close>

definition URL_Port :: "string \<Rightarrow> string" where
  "URL_Port host =
     (let port = rev (takeWhile (\<lambda>c. c \<noteq> CHR '':'') (rev host))
      in if CHR '':'' \<in> set host \<and> list_all (\<lambda>c. byte_in c 48 57) port then port else [])"

record localDevelopmentTarget =
  ld_hostname :: string
  ld_port :: string

definition port_or_80 :: "string \<Rightarrow> string" where
  "port_or_80 port = (if port = [] then ''80'' else port)"

definition parseLocalDevelopmentTarget :: "catalog_library \<Rightarrow> string \<Rightarrow> localDevelopmentTarget result" where
  "parseLocalDevelopmentTarget lib rawEndpoint =
     (case cl_parseURL lib (TrimSpace rawEndpoint) of
        None \<Rightarrow> Inl ErrForbiddenTarget
      | Some u \<Rightarrow>
          reject_if (ur_Scheme u \<noteq> ''http'' \<or> ur_Host u = [] \<or> ur_HasUser u \<or> ur_RawQuery u \<noteq> []
                     \<or> ur_Fragment u \<noteq> [] \<or> \<not> localDevelopmentHost lib (ur_Hostname u)) ErrForbiddenTarget
            (Inr \<lparr>ld_hostname = lower_text (ur_Hostname u), ld_port = port_or_80 (URL_Port (ur_Host u))\<rparr>))"

definition matchesAddress :: "localDevelopmentTarget option \<Rightarrow> string \<Rightarrow> string \<Rightarrow> bool" where
  "matchesAddress target host port \<longleftrightarrow>
     (case target of None \<Rightarrow> False | Some t \<Rightarrow> fold_name host = fold_name (ld_hostname t) \<and> port = ld_port t)"

definition matchesURL :: "localDevelopmentTarget option \<Rightarrow> ParsedURL \<Rightarrow> bool" where
  "matchesURL target u \<longleftrightarrow>
     ur_Scheme u = ''http'' \<and> matchesAddress target (ur_Hostname u) (port_or_80 (URL_Port (ur_Host u)))"

record UpstreamRequest =
  uq_Method :: string
  uq_Target :: ParsedURL
  uq_Path :: string
  uq_Body :: string
  uq_Headers :: "(string \<times> string) list"
  uq_Timeout :: int

text \<open>
  An answer of the seller: the body sent, and whether reading it breaks off after that. \<open>fw_do\<close> is
  the HTTP client: \<open>Inl\<close> of whether a deadline passed, or the answer. \<open>fw_newRequest\<close> says whether
  \<open>net/http\<close> accepts the request.
\<close>

record UpstreamResponse =
  up_StatusCode :: int
  up_ContentType :: string
  up_RetrySafeHeader :: string
  up_Body :: string
  up_ReadFails :: bool

record forwarder =
  fw_lookup :: "string \<Rightarrow> ip list result"
  fw_do :: "(UpstreamRequest \<Rightarrow> bool + UpstreamResponse option) option"
  fw_newRequest :: "UpstreamRequest \<Rightarrow> bool"
  fw_maxResponseBytes :: int
  fw_localTarget :: "localDevelopmentTarget option"

definition target_addresses_ok :: "bool \<Rightarrow> ip list result \<Rightarrow> bool" where
  "target_addresses_ok local addresses =
     (case addresses of
        Inl _ \<Rightarrow> False
      | Inr as \<Rightarrow> if local then addressesAreLoopback as else addressesArePublic as)"

definition authorizeTarget :: "catalog_library \<Rightarrow> forwarder \<Rightarrow> ForwardRequest \<Rightarrow> (ParsedURL \<times> string) result" where
  "authorizeTarget lib fw q =
     reject_if (se_Status (fr_Seller q) \<noteq> SellerStatusActive \<or> \<not> pr_Enabled (fr_Route q)
                \<or> se_SellerID (fr_Seller q) \<noteq> pr_SellerID (fr_Route q) \<or> fr_Method q \<noteq> pr_Method (fr_Route q)
                \<or> fr_Path q \<noteq> pr_PathPattern (fr_Route q)) ErrRouteNotAllowed
    (case cl_parseURL lib (se_UpstreamBaseURL (fr_Seller q)) of
       None \<Rightarrow> Inl ErrForbiddenTarget
     | Some u \<Rightarrow>
         reject_if (ur_Host u = [] \<or> ur_HasUser u \<or> ur_RawQuery u \<noteq> [] \<or> ur_Fragment u \<noteq> []) ErrForbiddenTarget
        (let local = matchesURL (fw_localTarget fw) u
         in reject_if (ur_Scheme u \<noteq> ''https'' \<and> \<not> local) ErrForbiddenTarget
           (reject_if (\<not> target_addresses_ok local (fw_lookup fw (ur_Hostname u))) ErrForbiddenTarget
             (Inr (u, pr_PathPattern (fr_Route q))))))"

text \<open>The address the dialer connects to; \<open>split_host\<close> is \<open>net.SplitHostPort\<close>.\<close>

definition DialContext ::
  "(string \<Rightarrow> (string \<times> string) option) \<Rightarrow> forwarder \<Rightarrow> string \<Rightarrow> (ip \<times> string) result" where
  "DialContext split_host fw address =
     (case split_host address of
        None \<Rightarrow> Inl ErrForbiddenTarget
      | Some (host, port) \<Rightarrow>
          (case fw_lookup fw host of
             Inl _ \<Rightarrow> Inl ErrForbiddenTarget
           | Inr as \<Rightarrow>
               reject_if (\<not> target_addresses_ok (matchesAddress (fw_localTarget fw) host port) (Inr as))
                 ErrForbiddenTarget (Inr (hd as, port))))"

definition contentTypeAllowed :: "catalog_library \<Rightarrow> string \<Rightarrow> string \<Rightarrow> bool" where
  "contentTypeAllowed lib actual expected =
     (case (cl_parseMediaType lib actual, cl_parseMediaType lib expected) of
        (Inr a, Inr b) \<Rightarrow> a = b
      | _ \<Rightarrow> False)"

definition signature_headers :: "SignatureHeaders \<Rightarrow> (string \<times> string) list" where
  "signature_headers s =
     (if sh_ExecutionCapability s \<noteq> [] then
        [(''X-AgentPay-Execution-Capability'', sh_ExecutionCapability s),
         (''X-AgentPay-Transaction-Id'', sh_Transaction s)]
      else if sh_Signature s \<noteq> [] then
        [(''X-AgentPay-Signature'', sh_Signature s), (''X-AgentPay-Timestamp'', sh_Timestamp s),
         (''X-AgentPay-Transaction-Id'', sh_Transaction s)]
      else [])"

definition upstream_request :: "ForwardRequest \<Rightarrow> ParsedURL \<Rightarrow> string \<Rightarrow> UpstreamRequest" where
  "upstream_request q u path =
     \<lparr>uq_Method = RouteMethod_wire (fr_Method q), uq_Target = u, uq_Path = path, uq_Body = fr_Body q,
      uq_Headers = (if fr_ContentType q \<noteq> [] then [(''Content-Type'', fr_ContentType q)] else [])
        @ [(''Accept'', pr_MIMEType (fr_Route q))] @ signature_headers (fr_Signature q),
      uq_Timeout = pr_UpstreamTimeoutSeconds (fr_Route q) * Second\<rparr>"

text \<open>\<open>io.ReadAll\<close> of the first \<open>n\<close> bytes of the body.\<close>

definition read_limited :: "UpstreamResponse \<Rightarrow> nat \<Rightarrow> string option" where
  "read_limited r n =
     (if n \<le> length (up_Body r) then Some (take n (up_Body r))
      else if up_ReadFails r then None else Some (up_Body r))"

definition received :: "catalog_library \<Rightarrow> forwarder \<Rightarrow> ForwardRequest \<Rightarrow> UpstreamResponse \<Rightarrow> ForwardResponse result" where
  "received lib fw q r =
     reject_if (\<not> contentTypeAllowed lib (up_ContentType r) (pr_MIMEType (fr_Route q))) ErrResponseContentType
    (case read_limited r (nat (fw_maxResponseBytes fw + 1)) of
       None \<Rightarrow> Inl ErrUpstreamUnavailable
     | Some body \<Rightarrow>
         reject_if (fw_maxResponseBytes fw < int (length body)) ErrResponseTooLarge
           (Inr \<lparr>fp_StatusCode = up_StatusCode r, fp_Body = body, fp_ContentType = up_ContentType r,
                 fp_RetrySafe = ((up_StatusCode r = 400 \<or> up_StatusCode r = 422)
                   \<and> fold_name (TrimSpace (up_RetrySafeHeader r)) = ''corrected-input'')\<rparr>))"

text \<open>\<open>remaining\<close> is the time left to the deadline of the caller, if it has one.\<close>

definition Forward :: "catalog_library \<Rightarrow> forwarder \<Rightarrow> int option \<Rightarrow> ForwardRequest \<Rightarrow> ForwardResponse result" where
  "Forward lib fw remaining q =
     rbind (authorizeTarget lib fw q) (\<lambda>(u, path).
     reject_if (1024 * 1024 < int (length (fr_Body q))) ErrRequestTooLarge
    (case fw_do fw of
       None \<Rightarrow> Inl ErrUpstreamUnavailable
     | Some send \<Rightarrow>
         (let request = upstream_request q u path
          in reject_if (case remaining of None \<Rightarrow> False | Some left \<Rightarrow> left < uq_Timeout request + 2 * Second)
               ErrUpstreamUnavailable
            (reject_if (\<not> fw_newRequest fw request) ErrRouteNotAllowed
            (case send request of
               Inl timedOut \<Rightarrow> Inl (if timedOut then ErrUpstreamTimeout else ErrUpstreamUnavailable)
             | Inr None \<Rightarrow> Inl ErrUpstreamUnavailable
             | Inr (Some r) \<Rightarrow> received lib fw q r)))))"

section \<open>The execution service\<close>

text \<open>
  The state the service works on. \<open>xw_dispatched\<close> are the requests handed to the forwarder, oldest
  first, and \<open>xw_metered\<close> the transactions reported to the usage recorder.
\<close>

record execution_world =
  xw_transactions :: TransactionRepository
  xw_evidence :: EvidenceRepository
  xw_dispatched :: "ForwardRequest list"
  xw_metered :: "ID list"

text \<open>The collaborators of one call, and what clock and identifier generator return during it.\<close>

record execution_call =
  xc_recorder :: "recorder option"
  xc_sign :: "string \<Rightarrow> SigningInput \<Rightarrow> SignatureHeaders result"
  xc_forward :: "ForwardRequest \<Rightarrow> ForwardResponse result"
  xc_metering :: bool
  xc_claimAt :: instant
  xc_doneAt :: instant
  xc_forwardingEvent :: "ID result \<times> instant"
  xc_deliveryEvent :: "ID result \<times> instant"

definition claiming ::
  "ID \<Rightarrow> u64 \<Rightarrow> instant \<Rightarrow> ('w execution_world_scheme, Transaction \<times> bool) action" where
  "claiming k v tm = (\<lambda>w. case ClaimForwarding (xw_transactions w) k v tm of
     Inl e \<Rightarrow> (Inl e, w)
   | Inr (t, won, r) \<Rightarrow> (Inr (t, won), w\<lparr>xw_transactions := r\<rparr>))"

definition updating_tx :: "Transaction \<Rightarrow> u64 \<Rightarrow> ('w execution_world_scheme, unit) action" where
  "updating_tx t v = writing (\<lambda>w. TxRepo_Update (xw_transactions w) t v) (\<lambda>r w. w\<lparr>xw_transactions := r\<rparr>)"

definition recording_event ::
  "(EvidenceRepository \<Rightarrow> EvidenceRepository result) \<Rightarrow> ('w execution_world_scheme, unit) action" where
  "recording_event f = writing (\<lambda>w. f (xw_evidence w)) (\<lambda>r w. w\<lparr>xw_evidence := r\<rparr>)"

definition dispatching ::
  "execution_call \<Rightarrow> ForwardRequest \<Rightarrow> ('w execution_world_scheme, ForwardResponse) action" where
  "dispatching c q = (\<lambda>w. (xc_forward c q, w\<lparr>xw_dispatched := xw_dispatched w @ [q]\<rparr>))"

definition metering :: "execution_call \<Rightarrow> ID \<Rightarrow> ('w execution_world_scheme, unit) action" where
  "metering c k = (\<lambda>w. (Inr (), if xc_metering c then w\<lparr>xw_metered := xw_metered w @ [k]\<rparr> else w))"

definition failBeforeDispatch ::
  "execution_call \<Rightarrow> Transaction \<Rightarrow> string \<Rightarrow> go_error \<Rightarrow> ('w execution_world_scheme, 'a) action" where
  "failBeforeDispatch c t failureCode cause =
     abind (pure (MarkFailedWithRecovery t failureCode None None True (xc_doneAt c))) (\<lambda>t'.
     abind (updating_tx t' (tx_version t)) (\<lambda>_. pure (Inl cause)))"

definition deliveryFailureCode :: "go_error \<Rightarrow> string" where
  "deliveryFailureCode e =
     (if e = ErrUpstreamTimeout then ''upstream_timeout''
      else if e = ErrResponseTooLarge then ''response_too_large''
      else if e = ErrResponseContentType then ''response_content_type''
      else ''upstream_unavailable'')"

definition failed_delivery ::
  "execution_call \<Rightarrow> recorder \<Rightarrow> Transaction \<Rightarrow> go_error \<Rightarrow> ('w execution_world_scheme, 'a) action" where
  "failed_delivery c rd claimed e =
     abind (pure (MarkFailed claimed (deliveryFailureCode e) None None (xc_doneAt c))) (\<lambda>t.
     abind (updating_tx t (tx_version claimed)) (\<lambda>_.
     abind (recording_event (\<lambda>r. RecordDelivery rd r (fst (xc_deliveryEvent c)) (snd (xc_deliveryEvent c))
       (tx_transactionID t)
       \<lparr>df_Succeeded = False, df_StatusCode = 0, df_ResponseHash = [], df_ContentType = [], df_ContentLength = 0,
        df_FailureCode = deliveryFailureCode e\<rparr>)) (\<lambda>_.
     pure (Inl e))))"

definition delivered_transaction :: "Transaction \<Rightarrow> ForwardResponse \<Rightarrow> instant \<Rightarrow> Transaction result" where
  "delivered_transaction claimed response tm =
     (let responseHash = hex_encode (Sum256 (fp_Body response))
      in if 200 \<le> fp_StatusCode response \<and> fp_StatusCode response \<le> 299
         then MarkFulfilled claimed (fp_StatusCode response) responseHash
                \<lparr>rs_ContentType = fp_ContentType response, rs_ContentLength = int (length (fp_Body response))\<rparr> tm
         else MarkFailedWithRecovery claimed ''upstream_status'' (Some (fp_StatusCode response)) (Some responseHash)
                (fp_RetrySafe response) tm)"

definition completed_delivery ::
  "execution_call \<Rightarrow> recorder \<Rightarrow> Transaction \<Rightarrow> ForwardResponse \<Rightarrow> ('w execution_world_scheme, ForwardResponse) action" where
  "completed_delivery c rd claimed response =
     (let succeeded = (200 \<le> fp_StatusCode response \<and> fp_StatusCode response \<le> 299)
      in abind (pure (delivered_transaction claimed response (xc_doneAt c))) (\<lambda>t.
         abind (updating_tx t (tx_version claimed)) (\<lambda>_.
         abind (recording_event (\<lambda>r. RecordDelivery rd r (fst (xc_deliveryEvent c)) (snd (xc_deliveryEvent c))
           (tx_transactionID t)
           \<lparr>df_Succeeded = succeeded, df_StatusCode = fp_StatusCode response,
            df_ResponseHash = hex_encode (Sum256 (fp_Body response)), df_ContentType = fp_ContentType response,
            df_ContentLength = int (length (fp_Body response)), df_FailureCode = []\<rparr>)) (\<lambda>_.
         abind (if succeeded then metering c (tx_transactionID t) else pure (Inr ())) (\<lambda>_.
         pure (Inr response))))))"

definition Proxy_Execute ::
  "catalog_library \<Rightarrow> execution_call \<Rightarrow> ExecutionRequest \<Rightarrow> ('w execution_world_scheme, ForwardResponse) action" where
  "Proxy_Execute lib c q =
     (let t = ex_Transaction q; seller = ex_Seller q; route = ex_Route q
      in guard (tx_sellerID t \<noteq> se_SellerID seller \<or> tx_routeID t \<noteq> pr_RouteID route
                \<or> pr_SellerID route \<noteq> se_SellerID seller) ErrRouteNotAllowed
        (guard (tx_recoveryRequestBodyHash t \<noteq> []
                \<and> hashRequestBody (cl_parseMediaType lib) (cl_jcs lib) (ex_Body q) (ex_ContentType q)
                    \<noteq> Inr (tx_recoveryRequestBodyHash t)) ErrRouteNotAllowed
        (abind (claiming (tx_transactionID t) (tx_version t) (xc_claimAt c)) (\<lambda>(claimed, won).
         guard (\<not> won) ErrAlreadyForwarded
        (case xc_recorder c of
           None \<Rightarrow> failBeforeDispatch c claimed ''forwarding_evidence_unavailable''
                     (Err ''forwarding evidence recorder is required'')
         | Some rd \<Rightarrow>
             attempt (recording_event (\<lambda>r. RecordProxyForwarding rd r (fst (xc_forwardingEvent c))
                 (snd (xc_forwardingEvent c)) (tx_transactionID claimed)
                 \<lparr>pf_SellerID = se_SellerID seller, pf_RouteID = pr_RouteID route,
                  pf_Method = RouteMethod_wire (ex_Method q), pf_Path = ex_Path q\<rparr>))
               (failBeforeDispatch c claimed ''forwarding_evidence_unavailable'') (\<lambda>_.
             attempt (pure (xc_sign c (se_SigningSecretRef seller)
                 \<lparr>si_TransactionID = tx_transactionID claimed, si_SellerID = tx_sellerID claimed,
                  si_RouteID = tx_routeID claimed, si_Method = ex_Method q, si_Path = ex_Path q,
                  si_Body = ex_Body q, si_PaymentFinality = tx_paymentFinality claimed\<rparr>))
               (failBeforeDispatch c claimed ''execution_authorization_unavailable'') (\<lambda>signature.
             attempt (dispatching c \<lparr>fr_Seller = seller, fr_Route = route, fr_Method = ex_Method q,
                 fr_Path = ex_Path q, fr_Body = ex_Body q, fr_ContentType = ex_ContentType q,
                 fr_Signature = signature\<rparr>)
               (failed_delivery c rd claimed) (completed_delivery c rd claimed))))))))"

section \<open>What reaches a seller\<close>

lemma updating_tx_keeps [simp]:
  "xw_dispatched (snd (updating_tx t v w)) = xw_dispatched w" "xw_evidence (snd (updating_tx t v w)) = xw_evidence w"
  by (simp_all add: updating_tx_def writing_run split: sum.split)

lemma recording_event_keeps [simp]:
  "xw_dispatched (snd (recording_event f w)) = xw_dispatched w"
  "xw_transactions (snd (recording_event f w)) = xw_transactions w"
  by (simp_all add: recording_event_def writing_run split: sum.split)

lemma metering_keeps [simp]: "xw_dispatched (snd (metering c k w)) = xw_dispatched w" "fst (metering c k w) = Inr ()"
  by (simp_all add: metering_def)

lemma failBeforeDispatch_keeps [simp]: "xw_dispatched (snd (failBeforeDispatch c t code e w)) = xw_dispatched w"
  by (simp add: failBeforeDispatch_def action_simps split: sum.split)

lemma failBeforeDispatch_error: "\<not> is_ok (fst (failBeforeDispatch c t code e w))"
  by (simp add: failBeforeDispatch_def action_simps split: sum.split)

lemma failed_delivery_keeps [simp]: "xw_dispatched (snd (failed_delivery c rd t e w)) = xw_dispatched w"
  by (simp add: failed_delivery_def action_simps split: sum.split)

lemma completed_delivery_keeps [simp]: "xw_dispatched (snd (completed_delivery c rd t response w)) = xw_dispatched w"
  by (simp add: completed_delivery_def Let_def action_simps split: sum.split)

lemma claiming_keeps [simp]: "xw_dispatched (snd (claiming k v tm w)) = xw_dispatched w"
  by (simp add: claiming_def split: sum.split prod.split)

text \<open>The transaction as the repository held it when it was claimed for the one dispatch.\<close>

definition dispatchable :: "TransactionRepository \<Rightarrow> ID \<Rightarrow> u64 \<Rightarrow> bool" where
  "dispatchable r k v \<longleftrightarrow>
     (\<exists>t. tr_transactions r k = Some t \<and> tx_version t = v \<and> tx_status t = StatusPaymentVerified
        \<and> tx_paymentFinality t = PaymentFinalityFinalized)"

lemma ClaimForwarding_dispatchable: "ClaimForwarding r k v tm = Inr (t, True, r') \<Longrightarrow> dispatchable r k v"
  by (auto simp: ClaimForwarding_def dispatchable_def split: option.split_asm if_split_asm)

text \<open>What allows a request to be sent, and what is sent for it.\<close>

definition allowed_dispatch :: "catalog_library \<Rightarrow> TransactionRepository \<Rightarrow> ExecutionRequest \<Rightarrow> bool" where
  "allowed_dispatch lib r q \<longleftrightarrow>
     (let t = ex_Transaction q
      in dispatchable r (tx_transactionID t) (tx_version t) \<and> tx_sellerID t = se_SellerID (ex_Seller q)
         \<and> tx_routeID t = pr_RouteID (ex_Route q) \<and> pr_SellerID (ex_Route q) = se_SellerID (ex_Seller q)
         \<and> (tx_recoveryRequestBodyHash t \<noteq> [] \<longrightarrow>
              hashRequestBody (cl_parseMediaType lib) (cl_jcs lib) (ex_Body q) (ex_ContentType q)
                = Inr (tx_recoveryRequestBodyHash t)))"

definition sent_for :: "ExecutionRequest \<Rightarrow> ForwardRequest \<Rightarrow> bool" where
  "sent_for q fr \<longleftrightarrow>
     fr_Seller fr = ex_Seller q \<and> fr_Route fr = ex_Route q \<and> fr_Method fr = ex_Method q \<and> fr_Path fr = ex_Path q
     \<and> fr_Body fr = ex_Body q \<and> fr_ContentType fr = ex_ContentType q"

lemma Proxy_Execute_dispatch:
  "xw_dispatched (snd (Proxy_Execute lib c q w)) = xw_dispatched w
    \<or> allowed_dispatch lib (xw_transactions w) q
      \<and> (\<exists>fr. xw_dispatched (snd (Proxy_Execute lib c q w)) = xw_dispatched w @ [fr] \<and> sent_for q fr)"
proof -
  let ?t = "ex_Transaction q"
  obtain claim u where claim: "claiming (tx_transactionID ?t) (tx_version ?t) (xc_claimAt c) w = (claim, u)"
    by (cases "claiming (tx_transactionID ?t) (tx_version ?t) (xc_claimAt c) w")
  then have kept: "xw_dispatched u = xw_dispatched w"
    using claiming_keeps [of "tx_transactionID ?t" "tx_version ?t" "xc_claimAt c" w] by simp
  have won: "dispatchable (xw_transactions w) (tx_transactionID ?t) (tx_version ?t)" if "claim = Inr (claimed, True)" for claimed
    using claim that
    by (auto simp: claiming_def split: sum.split_asm prod.split_asm intro: ClaimForwarding_dispatchable)
  show ?thesis
    unfolding Proxy_Execute_def Let_def allowed_dispatch_def sent_for_def
    using won kept
    by (auto simp: action_simps claim dispatching_def split: sum.split prod.split option.split)
qed

end
