(* ===== verification/PaidRoutes.thy ===== *)
theory PaidRoutes
  imports Proxy Approvals CatalogStore Settlement BrowserPurchase
begin

text \<open>
  Resolution of a paid request against its purchase intent: \<open>PaidRouteService\<close> of
  \<open>internal/payments/service.go\<close> over the catalog, intent and approval repositories. The state extends
  the one of the execution service, so the checkout runs both on one state.
\<close>

section \<open>Requests and state\<close>

abbreviation ErrPaidRouteMismatch :: go_error where "ErrPaidRouteMismatch \<equiv> Err ''payments.ErrPaidRouteMismatch''"
abbreviation ErrPaidIntentExpired :: go_error where "ErrPaidIntentExpired \<equiv> Err ''payments.ErrIntentExpired''"
abbreviation ErrIntentCancelled :: go_error where "ErrIntentCancelled \<equiv> Err ''payments.ErrIntentCancelled''"
abbreviation ErrApprovalRequired :: go_error where "ErrApprovalRequired \<equiv> Err ''payments.ErrApprovalRequired''"
abbreviation ErrApprovalInvalid :: go_error where "ErrApprovalInvalid \<equiv> Err ''payments.ErrApprovalInvalid''"

record checkout_world = execution_world +
  cw_catalog :: CatalogRepository
  cw_intents :: PurchaseIntentRepository
  cw_approvals :: ApprovalRepository
  cw_browser :: BrowserRepository

record PaidRouteRequest =
  pq_Slug :: string
  pq_Method :: RouteMethod
  pq_ProxyPath :: string
  pq_IntentID :: ID
  pq_BuyerID :: string
  pq_ApprovalToken :: string

record ResolvedPaidRoute =
  rv_Seller :: Seller
  rv_Route :: PaidRoute
  rv_PurchaseIntent :: PurchaseIntent
  rv_Requirements :: Requirements

text \<open>
  The service: the signer of approval tokens together with the approval repository, the commerce
  authorizer (\<open>storefront\<close>), and the public base URL without trailing slashes. The clock is read up to
  three times in a call.
\<close>

record paid_route_service =
  ps_signer :: "ApprovalTokenSigner option"
  ps_authorizer :: "(ID \<Rightarrow> (Seller \<times> PaidRoute \<times> PaymentDestination) result) option"
  ps_publicBaseURL :: string

record resolve_times =
  rt_start :: instant
  rt_approval :: instant
  rt_claim :: instant

definition trim_slashes :: "string \<Rightarrow> string" where
  "trim_slashes s = rev (dropWhile (\<lambda>c. c = CHR ''/'') (rev s))"

definition NewPaidRouteService :: "ApprovalTokenSigner option \<Rightarrow> string \<Rightarrow> paid_route_service" where
  "NewPaidRouteService signer publicBaseURL =
     \<lparr>ps_signer = signer, ps_authorizer = None, ps_publicBaseURL = trim_slashes publicBaseURL\<rparr>"

definition NewAuthorizedPaidRouteService ::
  "ApprovalTokenSigner option \<Rightarrow> (ID \<Rightarrow> (Seller \<times> PaidRoute \<times> PaymentDestination) result) option \<Rightarrow> string
     \<Rightarrow> paid_route_service" where
  "NewAuthorizedPaidRouteService signer authorizer publicBaseURL =
     (NewPaidRouteService signer publicBaseURL)\<lparr>ps_authorizer := authorizer\<rparr>"

section \<open>Checks\<close>

definition paidRouteMatches :: "PaidRouteRequest \<Rightarrow> Seller \<Rightarrow> PaidRoute \<Rightarrow> PurchaseIntent \<Rightarrow> bool" where
  "paidRouteMatches q seller route i \<longleftrightarrow>
     se_Status seller = SellerStatusActive \<and> pr_Enabled route \<and> se_SellerID seller = pr_SellerID route
     \<and> se_SellerID seller = pi_sellerID i \<and> pr_RouteID route = pi_routeID i \<and> pq_BuyerID q = pi_buyerID i
     \<and> pq_Method q = pr_Method route \<and> RouteMethod_wire (pq_Method q) = RequestMethod_wire (pi_requestMethod i)
     \<and> pq_ProxyPath q = pr_PathPattern route \<and> pq_ProxyPath q = pi_requestPath i
     \<and> pr_DisplayName route = pi_productDisplayName i \<and> pr_ProductSlug route = pi_productSlug i
     \<and> pr_Amount route = pi_amount i \<and> pr_Asset route = pi_asset i \<and> pr_Network route = pi_network i
     \<and> pr_PayTo route = pi_payTo i"

definition loading_intent :: "ID \<Rightarrow> ('a checkout_world_scheme, PurchaseIntent) action" where
  "loading_intent k = reading (\<lambda>w. IntentRepo_Get (cw_intents w) k)"

definition updating_intent :: "PurchaseIntent \<Rightarrow> u64 \<Rightarrow> ('a checkout_world_scheme, unit) action" where
  "updating_intent i v = writing (\<lambda>w. IntentRepo_Update (cw_intents w) i v) (\<lambda>r w. w\<lparr>cw_intents := r\<rparr>)"

text \<open>The result is the intent to go on with: the one given, or the one another request has executed.\<close>

definition ensureIntentCanExecute :: "PurchaseIntent \<Rightarrow> instant \<Rightarrow> ('a checkout_world_scheme, PurchaseIntent) action" where
  "ensureIntentCanExecute i now =
     (case pi_status i of
        PurchaseIntentStatusExecuted \<Rightarrow> pure (Inr i)
      | PurchaseIntentStatusCancelled \<Rightarrow> pure (Inl ErrIntentCancelled)
      | PurchaseIntentStatusExpired \<Rightarrow> pure (Inl ErrPaidIntentExpired)
      | PurchaseIntentStatusApprovalPending \<Rightarrow>
          guard (\<not> now < pi_expiresAt i) ErrPaidIntentExpired (pure (Inr i))
      | PurchaseIntentStatusReady \<Rightarrow>
          if now < pi_expiresAt i then pure (Inr i)
          else (case Intent_Expire i now of
                  Inl _ \<Rightarrow> pure (Inl ErrPaidIntentExpired)
                | Inr expired \<Rightarrow>
                    attempt (updating_intent expired (pi_version i))
                      (\<lambda>e. guard (e \<noteq> ErrConditionFailed) e
                        (abind (loading_intent (pi_intentID i)) (\<lambda>current.
                         case pi_status current of
                           PurchaseIntentStatusExecuted \<Rightarrow> pure (Inr current)
                         | PurchaseIntentStatusCancelled \<Rightarrow> pure (Inl ErrIntentCancelled)
                         | _ \<Rightarrow> pure (Inl ErrPaidIntentExpired))))
                      (\<lambda>_. pure (Inl ErrPaidIntentExpired)))
      | PurchaseIntentStatusOther _ \<Rightarrow> pure (Inl ErrPaidRouteMismatch))"

definition verifyApproval ::
  "paid_route_service \<Rightarrow> instant \<Rightarrow> string \<Rightarrow> PurchaseIntent \<Rightarrow> ('a checkout_world_scheme, unit) action" where
  "verifyApproval svc now token i =
     (case ps_signer svc of
        None \<Rightarrow> pure (Inl ErrApprovalInvalid)
      | Some signer \<Rightarrow>
          (case VerifyForIntent signer token (pi_intentID i) (pi_intentHash i) now of
             Inl _ \<Rightarrow> pure (Inl ErrApprovalInvalid)
           | Inr claims \<Rightarrow>
               attempt (reading (\<lambda>w. ApprovalRepo_Get (cw_approvals w) (ac_SessionID claims)))
                 (\<lambda>_. pure (Inl ErrApprovalInvalid))
                 (\<lambda>session.
                    guard (as_status session \<noteq> SessionStatusApproved \<or> as_intentID session \<noteq> pi_intentID i
                           \<or> as_intentHash session \<noteq> pi_intentHash i \<or> \<not> MatchesApprovalToken session token)
                      ErrApprovalInvalid (pure (Inr ())))))"

definition offer_of ::
  "paid_route_service \<Rightarrow> PaidRouteRequest \<Rightarrow> PurchaseIntent \<Rightarrow> ('a checkout_world_scheme, Seller \<times> PaidRoute) action" where
  "offer_of svc q i =
     (case ps_authorizer svc of
        Some authorize \<Rightarrow>
          abind (pure (authorize (pi_routeID i))) (\<lambda>(seller, route, destination).
          guard (pd_DestinationID destination \<noteq> pi_paymentDestinationID i \<or> pd_Address destination \<noteq> pi_payTo i)
            ErrPaidRouteMismatch (pure (Inr (seller, route))))
      | None \<Rightarrow>
          attempt (reading (\<lambda>w. ResolveSellerBySlug (cw_catalog w) (pq_Slug q)))
            (\<lambda>_. pure (Inl ErrPaidRouteMismatch))
            (\<lambda>seller. abind (reading (\<lambda>w. Catalog_GetRoute (cw_catalog w) (pi_routeID i))) (\<lambda>route.
              pure (Inr (seller, route)))))"

text \<open>Claiming a ready intent for its one purchase.\<close>

definition claim_intent :: "ID \<Rightarrow> PurchaseIntent \<Rightarrow> instant \<Rightarrow> ('a checkout_world_scheme, PurchaseIntent) action" where
  "claim_intent k i claimAt =
     (if pi_status i = PurchaseIntentStatusReady then
        abind (pure (Intent_Claim i claimAt)) (\<lambda>claimed.
        attempt (updating_intent claimed (pi_version i))
          (\<lambda>e. guard (e \<noteq> ErrConditionFailed) e
            (abind (loading_intent k) (\<lambda>current.
             guard (pi_status current \<noteq> PurchaseIntentStatusExecuted)
               (if pi_status current = PurchaseIntentStatusCancelled then ErrIntentCancelled else ErrPaidIntentExpired)
               (pure (Inr current)))))
          (\<lambda>_. pure (Inr claimed)))
      else pure (Inr i))"

definition requirements_of :: "paid_route_service \<Rightarrow> Seller \<Rightarrow> PaidRoute \<Rightarrow> PurchaseIntent \<Rightarrow> Requirements" where
  "requirements_of svc seller route i =
     \<lparr>rq_Scheme = ExactScheme, rq_Network = pi_network i, rq_Asset = pi_asset i, rq_Amount = pi_amount i,
      rq_PayTo = pi_payTo i,
      rq_ResourceURL = ps_publicBaseURL svc @ ''/pay/'' @ se_Slug seller @ pr_PathPattern route,
      rq_Description = pr_Description route, rq_MIMEType = pr_MIMEType route, rq_MaxTimeoutSeconds = 5 * 60\<rparr>"

definition Resolve_PaidRoute ::
  "paid_route_service \<Rightarrow> resolve_times \<Rightarrow> PaidRouteRequest \<Rightarrow> ('a checkout_world_scheme, ResolvedPaidRoute) action" where
  "Resolve_PaidRoute svc rt q =
     abind (loading_intent (pq_IntentID q)) (\<lambda>stored.
     abind (ensureIntentCanExecute stored (rt_start rt)) (\<lambda>i0.
     abind (offer_of svc q i0) (\<lambda>(seller, route).
     guard (\<not> paidRouteMatches q seller route i0) ErrPaidRouteMismatch
    (abind (if pi_requiresApproval i0 then
              guard (TrimSpace (pq_ApprovalToken q) = []) ErrApprovalRequired
                (verifyApproval svc (rt_approval rt) (pq_ApprovalToken q) i0)
            else pure (Inr ())) (\<lambda>_.
     abind (ensureIntentCanExecute i0 (rt_claim rt)) (\<lambda>i1.
     abind (claim_intent (pq_IntentID q) i1 (rt_claim rt)) (\<lambda>i.
     pure (Inr \<lparr>rv_Seller = seller, rv_Route = route, rv_PurchaseIntent = i,
               rv_Requirements = requirements_of svc seller route i\<rparr>))))))))"

section \<open>What a resolved request has established\<close>

definition keyed_intents :: "'a checkout_world_scheme \<Rightarrow> bool" where
  "keyed_intents w \<longleftrightarrow> (\<forall>k i. pir_intents (cw_intents w) k = Some i \<longrightarrow> pi_intentID i = k)"

definition can_execute :: "PurchaseIntent \<Rightarrow> instant \<Rightarrow> bool" where
  "can_execute i now \<longleftrightarrow>
     pi_status i = PurchaseIntentStatusExecuted
     \<or> (pi_status i = PurchaseIntentStatusReady \<or> pi_status i = PurchaseIntentStatusApprovalPending) \<and> now < pi_expiresAt i"

definition approved_for ::
  "paid_route_service \<Rightarrow> instant \<Rightarrow> string \<Rightarrow> PurchaseIntent \<Rightarrow> 'a checkout_world_scheme \<Rightarrow> bool" where
  "approved_for svc now token i w \<longleftrightarrow>
     (\<exists>signer claims session. ps_signer svc = Some signer
        \<and> VerifyForIntent signer token (pi_intentID i) (pi_intentHash i) now = Inr claims
        \<and> ApprovalRepo_Get (cw_approvals w) (ac_SessionID claims) = Inr session
        \<and> as_status session = SessionStatusApproved \<and> as_intentID session = pi_intentID i
        \<and> as_intentHash session = pi_intentHash i \<and> MatchesApprovalToken session token)"

text \<open>The intent after: claimed when it was ready, and stored as such.\<close>

definition claimed_of :: "PurchaseIntent \<Rightarrow> PurchaseIntent" where
  "claimed_of i =
     (if pi_status i = PurchaseIntentStatusReady
      then i\<lparr>pi_status := PurchaseIntentStatusExecuted, pi_version := pi_version i + 1\<rparr> else i)"

definition stored_intent :: "PurchaseIntent \<Rightarrow> 'a checkout_world_scheme \<Rightarrow> 'a checkout_world_scheme" where
  "stored_intent i w = w\<lparr>cw_intents := (cw_intents w)\<lparr>pir_intents := (pir_intents (cw_intents w))(pi_intentID i \<mapsto> i)\<rparr>\<rparr>"

lemma updating_next:
  assumes "pir_intents (cw_intents w) (pi_intentID i) = Some i" "pi_intentID j = pi_intentID i"
    "pi_version j = pi_version i + 1"
  shows "updating_intent j (pi_version i) w = (Inr (), stored_intent j w)"
  using assms by (simp add: updating_intent_def writing_run IntentRepo_Update_def stored_intent_def)

lemma Intent_Expire_next:
  assumes "Intent_Expire i now = Inr j" "pi_status i = PurchaseIntentStatusReady"
  shows "pi_intentID j = pi_intentID i" "pi_version j = pi_version i + 1"
  using assms by (auto simp: Intent_Expire_def result_simps split: if_split_asm)

lemma ensureIntentCanExecute_ok:
  assumes "pir_intents (cw_intents w) (pi_intentID i) = Some i" "ensureIntentCanExecute i now w = (Inr j, w')"
  shows "j = i \<and> w' = w \<and> can_execute i now"
proof (cases "pi_status i = PurchaseIntentStatusReady \<and> \<not> now < pi_expiresAt i")
  case True
  then show ?thesis
    using assms(2) updating_next [OF assms(1)] Intent_Expire_next
    by (cases "Intent_Expire i now") (simp_all add: ensureIntentCanExecute_def attempt_run)
next
  case False
  then show ?thesis
    using assms(2)
    by (cases "pi_status i") (auto simp: ensureIntentCanExecute_def can_execute_def guard_run split: if_split_asm)
qed

lemma ensureIntentCanExecute_error:
  assumes "pir_intents (cw_intents w) (pi_intentID i) = Some i" "ensureIntentCanExecute i now w = (Inl e, w')"
  shows "w' = w \<or> (\<exists>j. Intent_Expire i now = Inr j \<and> w' = stored_intent j w)"
proof (cases "pi_status i = PurchaseIntentStatusReady \<and> \<not> now < pi_expiresAt i")
  case True
  then show ?thesis
    using assms(2) updating_next [OF assms(1)] Intent_Expire_next
    by (cases "Intent_Expire i now") (auto simp: ensureIntentCanExecute_def attempt_run)
next
  case False
  then show ?thesis
    using assms(2)
    by (cases "pi_status i") (auto simp: ensureIntentCanExecute_def guard_run split: if_split_asm)
qed

lemma verifyApproval_run:
  "verifyApproval svc now token i w = (res, w') \<Longrightarrow> w' = w \<and> (res = Inr () \<longrightarrow> approved_for svc now token i w)"
  unfolding verifyApproval_def approved_for_def
  by (auto simp: attempt_run guard_run split: option.split_asm sum.split_asm if_split_asm)

lemma offer_of_run: "snd (offer_of svc q i w) = w"
  by (simp add: offer_of_def action_simps split: option.split sum.split prod.split)

lemma claim_intent_ok:
  assumes "pir_intents (cw_intents w) (pi_intentID i) = Some i" "claim_intent k i claimAt w = (Inr j, w')"
  shows "j = claimed_of i \<and> w' = (if pi_status i = PurchaseIntentStatusReady then stored_intent (claimed_of i) w else w)"
proof (cases "pi_status i = PurchaseIntentStatusReady")
  case True
  then have "Intent_Claim i claimAt = Inr (claimed_of i)" if "Intent_Claim i claimAt = Inr c" for c
    using that by (auto simp: Intent_Claim_def claimed_of_def result_simps)
  moreover have "updating_intent (claimed_of i) (pi_version i) w = (Inr (), stored_intent (claimed_of i) w)"
    using True by (intro updating_next [OF assms(1)]) (simp_all add: claimed_of_def)
  ultimately show ?thesis
    using assms(2) True
    by (cases "Intent_Claim i claimAt") (auto simp: claim_intent_def attempt_run)
qed (use assms(2) in \<open>auto simp: claim_intent_def claimed_of_def\<close>)

lemma Resolve_PaidRoute_ok:
  assumes keyed: "keyed_intents w" and run: "Resolve_PaidRoute svc rt q w = (Inr rv, w')"
  obtains i where "pir_intents (cw_intents w) (pq_IntentID q) = Some i"
    "paidRouteMatches q (rv_Seller rv) (rv_Route rv) i" "can_execute i (rt_start rt)" "can_execute i (rt_claim rt)"
    "pi_requiresApproval i \<longrightarrow> approved_for svc (rt_approval rt) (pq_ApprovalToken q) i w"
    "rv_PurchaseIntent rv = claimed_of i"
    "rv_Requirements rv = requirements_of svc (rv_Seller rv) (rv_Route rv) (claimed_of i)"
    "w' = (if pi_status i = PurchaseIntentStatusReady then stored_intent (claimed_of i) w else w)"
proof -
  from run obtain i where i: "IntentRepo_Get (cw_intents w) (pq_IntentID q) = Inr i"
    and rest: "abind (ensureIntentCanExecute i (rt_start rt)) (\<lambda>i0.
       abind (offer_of svc q i0) (\<lambda>(seller, route).
       guard (\<not> paidRouteMatches q seller route i0) ErrPaidRouteMismatch
      (abind (if pi_requiresApproval i0 then
                guard (TrimSpace (pq_ApprovalToken q) = []) ErrApprovalRequired
                  (verifyApproval svc (rt_approval rt) (pq_ApprovalToken q) i0)
              else pure (Inr ())) (\<lambda>_.
       abind (ensureIntentCanExecute i0 (rt_claim rt)) (\<lambda>i1.
       abind (claim_intent (pq_IntentID q) i1 (rt_claim rt)) (\<lambda>i.
       pure (Inr \<lparr>rv_Seller = seller, rv_Route = route, rv_PurchaseIntent = i,
                 rv_Requirements = requirements_of svc seller route i\<rparr>))))))) w = (Inr rv, w')"
    by (auto simp: Resolve_PaidRoute_def loading_intent_def action_ok)
  have stored: "pir_intents (cw_intents w) (pq_IntentID q) = Some i" "pir_intents (cw_intents w) (pi_intentID i) = Some i"
    using i keyed by (auto simp: IntentRepo_Get_def keyed_intents_def split: option.split_asm)
  from rest obtain seller route i2 where steps: "can_execute i (rt_start rt)" "paidRouteMatches q seller route i"
      "pi_requiresApproval i \<longrightarrow> approved_for svc (rt_approval rt) (pq_ApprovalToken q) i w"
      "can_execute i (rt_claim rt)" "claim_intent (pq_IntentID q) i (rt_claim rt) w = (Inr i2, w')"
      "rv = \<lparr>rv_Seller = seller, rv_Route = route, rv_PurchaseIntent = i2,
             rv_Requirements = requirements_of svc seller route i2\<rparr>"
    using offer_of_run [of svc q i w]
    by (auto simp: action_ok split: if_split_asm
        dest!: ensureIntentCanExecute_ok [OF stored(2)] verifyApproval_run)
  with claim_intent_ok [OF stored(2) steps(5)] stored(1) show thesis
    by (intro that [of i]) simp_all
qed

lemma claim_intent_error:
  assumes "pir_intents (cw_intents w) (pi_intentID i) = Some i" "claim_intent k i claimAt w = (Inl e, w')"
  shows "w' = w"
proof (cases "pi_status i = PurchaseIntentStatusReady")
  case True
  have "updating_intent c (pi_version i) w = (Inr (), stored_intent c w)" if "Intent_Claim i claimAt = Inr c" for c
    using that True by (intro updating_next [OF assms(1)]) (auto simp: Intent_Claim_def result_simps)
  then show ?thesis
    using assms(2) True
    by (cases "Intent_Claim i claimAt") (auto simp: claim_intent_def attempt_run)
qed (use assms(2) in \<open>auto simp: claim_intent_def\<close>)

lemma approval_step_run:
  "snd ((if pi_requiresApproval i then guard (TrimSpace token = []) ErrApprovalRequired (verifyApproval svc now token i)
    else pure (Inr ())) w) = w"
  using verifyApproval_run [of svc now token i w] by (cases "verifyApproval svc now token i w") (auto simp: guard_run)

lemma Resolve_PaidRoute_error:
  assumes keyed: "keyed_intents w" and run: "Resolve_PaidRoute svc rt q w = (Inl e, w')"
  shows "w' = w \<or> (\<exists>i j tm. pir_intents (cw_intents w) (pq_IntentID q) = Some i \<and> Intent_Expire i tm = Inr j
    \<and> w' = stored_intent j w)"
proof (cases "IntentRepo_Get (cw_intents w) (pq_IntentID q)")
  case (Inl e')
  then show ?thesis
    using run by (simp add: Resolve_PaidRoute_def loading_intent_def abind_run)
next
  case (Inr i)
  then have stored: "pir_intents (cw_intents w) (pq_IntentID q) = Some i" "pir_intents (cw_intents w) (pi_intentID i) = Some i"
    using keyed by (auto simp: IntentRepo_Get_def keyed_intents_def split: option.split_asm)
  have check: "(\<exists>j. Intent_Expire i now = Inr j \<and> u = stored_intent j w) \<or> u = w"
    if "ensureIntentCanExecute i now w = (res, u)" for now res u
    using that ensureIntentCanExecute_ok [OF stored(2)] ensureIntentCanExecute_error [OF stored(2)]
    by (cases res) blast+
  have claim: "snd (claim_intent k i tm w) = w" if "fst (claim_intent k i tm w) = Inl e'" for k tm e'
    using claim_intent_error [OF stored(2), of k tm e'] that by (cases "claim_intent k i tm w") simp
  obtain r1 w1 where first: "ensureIntentCanExecute i (rt_start rt) w = (r1, w1)"
    by (cases "ensureIntentCanExecute i (rt_start rt) w")
  show ?thesis
  proof (cases r1)
    case (Inl e1)
    then have "w' = w1"
      using run Inr first by (simp add: Resolve_PaidRoute_def loading_intent_def abind_run)
    then show ?thesis
      using check [OF first] stored(1) by blast
  next
    case (Inr i1)
    then have i1: "i1 = i" "w1 = w"
      using ensureIntentCanExecute_ok [OF stored(2)] first by auto
    obtain r2 w2 where second: "ensureIntentCanExecute i (rt_claim rt) w = (r2, w2)"
      by (cases "ensureIntentCanExecute i (rt_claim rt) w")
    have w2: "r2 = Inr i2 \<Longrightarrow> i2 = i \<and> w2 = w" for i2
      using ensureIntentCanExecute_ok [OF stored(2)] second by auto
    have "w' = w \<or> w' = w2"
      using run \<open>IntentRepo_Get (cw_intents w) (pq_IntentID q) = Inr i\<close> first Inr i1 second w2 claim
        offer_of_run [of svc q i w] approval_step_run [of i "pq_ApprovalToken q" svc "rt_approval rt" w]
      unfolding Resolve_PaidRoute_def loading_intent_def
      by (auto simp: abind_run guard_run split: sum.split_asm prod.split_asm if_split_asm)
    then show ?thesis
      using check [OF second] stored(1) by blast
  qed
qed

section \<open>Property\<close>

text \<open>
  C2: a paid request is resolved only for the purchase that was quoted and approved. When it resolves,
  the seller is active, the route enabled, and seller, route, buyer, method, path, product, amount, asset,
  network and payee are those of the stored intent; the payment requirements ask for exactly the intent's
  amount, asset, network and payee; an intent that needs approval comes with a token that verifies for it
  and belongs to a stored session approved for the same intent hash; the intent had not expired unless it
  had been executed before, and a ready intent is now stored as executed. When it does not, at most an
  expired intent was marked as such. Nothing else of the state changes.
\<close>

theorem paid_request_authorized:
  assumes "keyed_intents w" "Resolve_PaidRoute svc rt q w = (res, w')"
  shows "case res of
      Inl e \<Rightarrow> w' = w \<or> (\<exists>i j tm. pir_intents (cw_intents w) (pq_IntentID q) = Some i
        \<and> Intent_Expire i tm = Inr j \<and> w' = stored_intent j w)
    | Inr rv \<Rightarrow> \<exists>i. pir_intents (cw_intents w) (pq_IntentID q) = Some i
        \<and> se_Status (rv_Seller rv) = SellerStatusActive \<and> pr_Enabled (rv_Route rv)
        \<and> paidRouteMatches q (rv_Seller rv) (rv_Route rv) i
        \<and> rq_Amount (rv_Requirements rv) = pi_amount i \<and> rq_Asset (rv_Requirements rv) = pi_asset i
        \<and> rq_Network (rv_Requirements rv) = pi_network i \<and> rq_PayTo (rv_Requirements rv) = pi_payTo i
        \<and> (pi_requiresApproval i \<longrightarrow> approved_for svc (rt_approval rt) (pq_ApprovalToken q) i w)
        \<and> (pi_status i = PurchaseIntentStatusExecuted \<or> rt_start rt < pi_expiresAt i \<and> rt_claim rt < pi_expiresAt i)
        \<and> rv_PurchaseIntent rv = claimed_of i
        \<and> w' = (if pi_status i = PurchaseIntentStatusReady then stored_intent (claimed_of i) w else w)"
proof (cases res)
  case (Inl e)
  then show ?thesis
    using Resolve_PaidRoute_error [OF assms(1)] assms(2) by simp
next
  case (Inr rv)
  then have "Resolve_PaidRoute svc rt q w = (Inr rv, w')"
    using assms(2) by simp
  from Resolve_PaidRoute_ok [OF assms(1) this] obtain i where i: "pir_intents (cw_intents w) (pq_IntentID q) = Some i"
    "paidRouteMatches q (rv_Seller rv) (rv_Route rv) i" "can_execute i (rt_start rt)" "can_execute i (rt_claim rt)"
    "pi_requiresApproval i \<longrightarrow> approved_for svc (rt_approval rt) (pq_ApprovalToken q) i w"
    "rv_PurchaseIntent rv = claimed_of i"
    "rv_Requirements rv = requirements_of svc (rv_Seller rv) (rv_Route rv) (claimed_of i)"
    "w' = (if pi_status i = PurchaseIntentStatusReady then stored_intent (claimed_of i) w else w)" .
  have "pi_amount (claimed_of i) = pi_amount i" "pi_asset (claimed_of i) = pi_asset i"
    "pi_network (claimed_of i) = pi_network i" "pi_payTo (claimed_of i) = pi_payTo i"
    by (simp_all add: claimed_of_def)
  with Inr i show ?thesis
    by (auto simp: requirements_of_def can_execute_def paidRouteMatches_def)
qed

definition sample_paid_intent :: PurchaseIntent where
  "sample_paid_intent =
     sample_intent\<lparr>pi_sellerID := pr_SellerID sample_route, pi_routeID := pr_RouteID sample_route,
       pi_buyerID := ''agent-7'', pi_productDisplayName := pr_DisplayName sample_route,
       pi_productSlug := pr_ProductSlug sample_route, pi_paymentDestinationID := ''dst_1'',
       pi_payTo := pr_PayTo sample_route, pi_requestMethod := RequestMethodGet,
       pi_requestPath := pr_PathPattern sample_route, pi_amount := pr_Amount sample_route,
       pi_asset := pr_Asset sample_route, pi_network := pr_Network sample_route, pi_requiresApproval := False,
       pi_status := PurchaseIntentStatusReady, pi_createdAt := 1000, pi_expiresAt := 2000\<rparr>"

definition sample_paid_seller :: Seller where
  "sample_paid_seller =
     zero_seller\<lparr>se_SellerID := pr_SellerID sample_route, se_Slug := ''reports'', se_Status := SellerStatusActive\<rparr>"

definition sample_offer :: "ID \<Rightarrow> (Seller \<times> PaidRoute \<times> PaymentDestination) result" where
  "sample_offer k = Inr (sample_paid_seller, sample_route,
     \<lparr>pd_DestinationID = ''dst_1'', pd_SellerID = pr_SellerID sample_route, pd_Asset = ''USDC'',
      pd_Network = ''eip155:84532'', pd_Address = pr_PayTo sample_route, pd_Status = DestinationActive,
      pd_ChallengeHash = [], pd_ChallengeExpiresAt = None, pd_VerifiedAt = Some 5, pd_CreatedAt = 1,
      pd_UpdatedAt = 5, pd_Version = 2\<rparr>)"

definition sample_world :: checkout_world where
  "sample_world =
     \<lparr>xw_transactions = NewTransactionRepository, xw_evidence = NewEvidenceRepository, xw_dispatched = [],
      xw_metered = [], cw_catalog = NewCatalogRepository,
      cw_intents = \<lparr>pir_intents = [pi_intentID sample_paid_intent \<mapsto> sample_paid_intent]\<rparr>,
      cw_approvals = \<lparr>ar_sessions = Map.empty\<rparr>, cw_browser = no_sessions\<rparr>"

definition sample_paid_service :: paid_route_service where
  "sample_paid_service = NewAuthorizedPaidRouteService None (Some sample_offer) ''https://pay.example/''"

definition sample_paid_request :: PaidRouteRequest where
  "sample_paid_request =
     \<lparr>pq_Slug = ''reports'', pq_Method = RouteMethodGet, pq_ProxyPath = pr_PathPattern sample_route,
      pq_IntentID = pi_intentID sample_paid_intent, pq_BuyerID = ''agent-7'', pq_ApprovalToken = []\<rparr>"

definition sample_resolve_times :: resolve_times where
  "sample_resolve_times = \<lparr>rt_start = 1500, rt_approval = 1500, rt_claim = 1501\<rparr>"

lemma sample_paid_intent_simps [simp]:
  "pi_status sample_paid_intent = PurchaseIntentStatusReady" "pi_expiresAt sample_paid_intent = 2000"
  "pi_createdAt sample_paid_intent = 1000" "\<not> pi_requiresApproval sample_paid_intent"
  "pi_amount sample_paid_intent = Amount ''100''" "pi_paymentDestinationID sample_paid_intent = ''dst_1''"
  "pi_payTo sample_paid_intent = pr_PayTo sample_route"
  by (simp_all add: sample_paid_intent_def sample_route_def)

lemma sample_keyed: "keyed_intents sample_world"
  by (simp add: keyed_intents_def sample_world_def)

lemma sample_matches: "paidRouteMatches sample_paid_request sample_paid_seller sample_route sample_paid_intent"
  by (simp add: paidRouteMatches_def sample_paid_request_def sample_paid_seller_def sample_paid_intent_def sample_route_def)

text \<open>A ready intent that needs no approval resolves for a matching offer before it expires.\<close>

lemma resolves_ready:
  assumes i: "pir_intents (cw_intents w) (pi_intentID i) = Some i" "pi_status i = PurchaseIntentStatusReady"
      "\<not> pi_requiresApproval i"
    and times: "rt_start rt < pi_expiresAt i" "rt_claim rt < pi_expiresAt i" "pi_createdAt i \<le> rt_claim rt"
    and offer: "\<And>w :: 'a checkout_world_scheme. offer_of svc q i w = (Inr (seller, route), w)"
      "paidRouteMatches q seller route i"
    and k: "pq_IntentID q = pi_intentID i"
  shows "Resolve_PaidRoute svc rt q (w :: 'a checkout_world_scheme)
    = (Inr \<lparr>rv_Seller = seller, rv_Route = route, rv_PurchaseIntent = claimed_of i,
            rv_Requirements = requirements_of svc seller route (claimed_of i)\<rparr>,
       stored_intent (claimed_of i) w)"
proof -
  have "Intent_Claim i (rt_claim rt) = Inr (claimed_of i)"
    using i times by (simp add: Intent_Claim_def claimed_of_def)
  moreover have "updating_intent (claimed_of i) (pi_version i) w = (Inr (), stored_intent (claimed_of i) w)"
    using i(2) by (intro updating_next [OF i(1)]) (simp_all add: claimed_of_def)
  ultimately have claim: "claim_intent (pi_intentID i) i (rt_claim rt) w
    = (Inr (claimed_of i), stored_intent (claimed_of i) w)"
    using i(2) by (simp add: claim_intent_def attempt_run)
  have can: "ensureIntentCanExecute i t = (pure (Inr i) :: ('a checkout_world_scheme, PurchaseIntent) action)"
    if "t < pi_expiresAt i" for t
    using that i(2) by (simp add: ensureIntentCanExecute_def)
  have bind: "abind (offer_of svc q i) f w = f (seller, route) w"
    for f :: "Seller \<times> PaidRoute \<Rightarrow> ('a checkout_world_scheme, 'b) action"
    using offer(1) by (simp add: abind_run)
  show ?thesis
    using i by (simp add: Resolve_PaidRoute_def loading_intent_def abind_run [of "reading f" for f] IntentRepo_Get_def k
        can times bind guard_run offer(2)) (simp add: abind_run claim)
qed

lemma sample_resolves:
  "Resolve_PaidRoute sample_paid_service sample_resolve_times sample_paid_request sample_world
   = (Inr \<lparr>rv_Seller = sample_paid_seller, rv_Route = sample_route, rv_PurchaseIntent = claimed_of sample_paid_intent,
           rv_Requirements = requirements_of sample_paid_service sample_paid_seller sample_route (claimed_of sample_paid_intent)\<rparr>,
      stored_intent (claimed_of sample_paid_intent) sample_world)"
  by (rule resolves_ready [OF _ _ _ _ _ _ _ sample_matches])
    (simp_all add: sample_world_def sample_resolve_times_def sample_paid_request_def offer_of_def sample_paid_service_def
      NewAuthorizedPaidRouteService_def sample_offer_def guard_run abind_run)

theorem paid_request_authorized_witness:
  "\<exists>i. pir_intents (cw_intents sample_world) (pi_intentID sample_paid_intent) = Some i
     \<and> paidRouteMatches sample_paid_request sample_paid_seller sample_route i
     \<and> pi_status i = PurchaseIntentStatusReady \<and> pi_status (claimed_of i) = PurchaseIntentStatusExecuted"
  using paid_request_authorized [OF sample_keyed sample_resolves]
  by (auto simp: sample_paid_request_def sample_world_def claimed_of_def)

end
