(* ===== verification/Checkout.thy ===== *)
theory Checkout
  imports PaidRoutes JsonSchema
begin

text \<open>
  The checkout: \<open>internal/payments/checkout_service.go\<close>. One call resolves the request, loads or creates
  the transaction of its intent, records evidence, answers with a payment challenge, or verifies and
  settles the presented payment and has the seller execute the request.
\<close>

section \<open>Requests, results and collaborators\<close>

datatype CommerceOperation =
    CommerceOperationChallenge
  | CommerceOperationVerification
  | CommerceOperationSettlement
  | CommerceOperationExecution

datatype CheckoutRecovery =
    RecoveryNone
  | RecoverySignFreshAuthorization
  | RecoveryRetrySameRequest
  | RecoveryRetrySamePayment
  | RecoveryAwaitReconciliation
  | RecoveryStartNewCheckout

record CheckoutRequest =
  kq_PaidRoute :: PaidRouteRequest
  kq_PaymentProof :: string
  kq_Body :: string
  kq_ContentType :: string

record CheckoutResult =
  kr_TransactionID :: ID
  kr_Challenge :: "Challenge option"
  kr_Response :: "ForwardResponse option"
  kr_SettlementHeader :: string
  kr_RecoveryAction :: CheckoutRecovery

text \<open>
  An error that comes with a result is the second component of a successful action; \<open>Inl e\<close> is an
  error with the zero result.
\<close>

type_synonym checkout_outcome = "CheckoutResult \<times> go_error option"

abbreviation checkout_result ::
  "ID \<Rightarrow> Challenge option \<Rightarrow> ForwardResponse option \<Rightarrow> string \<Rightarrow> CheckoutRecovery \<Rightarrow> CheckoutResult" where
  "checkout_result k challenge response header act \<equiv>
     \<lparr>kr_TransactionID = k, kr_Challenge = challenge, kr_Response = response, kr_SettlementHeader = header,
      kr_RecoveryAction = act\<rparr>"

text \<open>
  The service with its optional collaborators: the entitlement check, and whether the browser purchases
  are connected. \<open>ks_equalFold\<close> is \<open>strings.EqualFold\<close>.
\<close>

record checkout_service =
  ks_library :: catalog_library
  ks_engines :: schema_engines
  ks_equalFold :: "string \<Rightarrow> string \<Rightarrow> bool"
  ks_resolver :: paid_route_service
  ks_commerce :: "(ID \<Rightarrow> CommerceOperation \<Rightarrow> unit result) option"
  ks_browser :: bool

text \<open>What one call meets: its payment adapter's answers, the recorder, the execution, and the clock.\<close>

record checkout_call =
  kc_challenge :: "Requirements \<Rightarrow> Challenge result"
  kc_verify :: "string \<Rightarrow> Requirements \<Rightarrow> VerificationResult result"
  kc_settle :: "string \<Rightarrow> Requirements \<Rightarrow> SettlementResult result"
  kc_recorder :: recorder
  kc_challengeEvent :: "ID result \<times> instant"
  kc_verificationEvent :: "ID result \<times> instant"
  kc_execution :: execution_call
  kc_resolve :: resolve_times
  kc_browserClaim :: browser_call
  kc_browserComplete :: browser_call
  kc_createdAt :: instant
  kc_verifiedAt :: instant
  kc_settledAt :: instant
  kc_retryAt :: instant

section \<open>Steps\<close>

definition paymentProofHash :: "string \<Rightarrow> SHA256Digest result" where
  "paymentProofHash proof = ParseSHA256Digest (hex_encode (Sum256 proof))"

definition isTerminalPaymentRejection :: "go_error \<Rightarrow> bool" where
  "isTerminalPaymentRejection e \<longleftrightarrow>
     e = ErrPaymentRejected \<or> e = ErrPaymentAuthorizationExpired \<or> e = ErrPaymentSignatureInvalid
     \<or> e = ErrPaymentWalletMismatch \<or> e = ErrPaymentFacilitatorRejected"

abbreviation "paymentReviewPayerMismatch \<equiv> ''settlement_payer_mismatch''"

definition firstNonEmpty :: "string list \<Rightarrow> string" where
  "firstNonEmpty vs = (case find (\<lambda>v. TrimSpace v \<noteq> []) vs of None \<Rightarrow> [] | Some v \<Rightarrow> v)"

definition transactionPurchaseChannel :: "PurchaseChannel \<Rightarrow> PurchaseChannel" where
  "transactionPurchaseChannel channel =
     (if channel = PurchaseChannelBrowser then PurchaseChannelBrowser else PurchaseChannelAgent)"

definition transactionIDForIntent :: "(string \<Rightarrow> bool) \<Rightarrow> ID \<Rightarrow> ID result" where
  "transactionIDForIntent ulid intentID =
     ParseID ulid (TransactionIDPrefix @ TrimPrefix intentID IntentIDPrefix) TransactionIDPrefix"

definition authorizeCommerce ::
  "checkout_service \<Rightarrow> ID \<Rightarrow> CommerceOperation \<Rightarrow> ('a checkout_world_scheme, unit) action" where
  "authorizeCommerce svc sellerID operation =
     pure (case ks_commerce svc of None \<Rightarrow> Inr () | Some authorize \<Rightarrow> authorize sellerID operation)"

text \<open>The browser purchases keep their own part of the state.\<close>

definition with_browser :: "(BrowserRepository, 'b) action \<Rightarrow> ('a checkout_world_scheme, 'b) action" where
  "with_browser m = (\<lambda>w. (fst (m (cw_browser w)), w\<lparr>cw_browser := snd (m (cw_browser w))\<rparr>))"

definition claimBrowserTransaction ::
  "checkout_service \<Rightarrow> checkout_call \<Rightarrow> Transaction \<Rightarrow> ('a checkout_world_scheme, unit) action" where
  "claimBrowserTransaction svc c t =
     (if tx_purchaseChannel t \<noteq> PurchaseChannelBrowser \<or> \<not> ks_browser svc then pure (Inr ())
      else abind (pure (ParsePurchaseSessionID (cl_ulid (ks_library svc)) (tx_purchaseSessionID t))) (\<lambda>sid.
           abind (with_browser (Browser_ClaimTransaction (kc_browserClaim c) sid (tx_transactionID t))) (\<lambda>_.
           pure (Inr ()))))"

definition completeBrowserPurchase ::
  "checkout_service \<Rightarrow> checkout_call \<Rightarrow> Transaction \<Rightarrow> string \<Rightarrow> ('a checkout_world_scheme, unit) action" where
  "completeBrowserPurchase svc c t payerAddress =
     (if tx_purchaseChannel t \<noteq> PurchaseChannelBrowser \<or> \<not> ks_browser svc \<or> payerAddress = [] then pure (Inr ())
      else abind (pure (ParsePurchaseSessionID (cl_ulid (ks_library svc)) (tx_purchaseSessionID t))) (\<lambda>sid.
           with_browser (Browser_Complete (kc_browserComplete c) sid (tx_network t) payerAddress (tx_transactionID t)
             (tx_updatedAt t))))"

definition checkout_params :: "ResolvedPaidRoute \<Rightarrow> ID \<Rightarrow> instant \<Rightarrow> TransactionParams" where
  "checkout_params rv k now =
     (let i = rv_PurchaseIntent rv
      in \<lparr>tp_TransactionID = k, tp_IntentID = pi_intentID i, tp_SellerID = se_SellerID (rv_Seller rv),
          tp_RouteID = pr_RouteID (rv_Route rv), tp_BuyerID = pi_buyerID i,
          tp_PurchaseSessionID = pi_purchaseSessionID i, tp_ProductDisplayName = pi_productDisplayName i,
          tp_ProductSlug = pi_productSlug i, tp_PaymentDestinationID = pi_paymentDestinationID i,
          tp_PurchaseChannel = transactionPurchaseChannel (pi_purchaseChannel i),
          tp_PaymentRail = PaymentRailX402, tp_ActivityMode = ActivityModeTest,
          tp_CheckoutExpiresAt = (if pi_expiresAt i < now + 5 * Minute then pi_expiresAt i else now + 5 * Minute),
          tp_Amount = pi_amount i, tp_Asset = pi_asset i, tp_Network = pi_network i, tp_CreatedAt = now\<rparr>)"

text \<open>The transaction of a new checkout, awaiting payment.\<close>

definition new_checkout :: "(string \<Rightarrow> bool) \<Rightarrow> ResolvedPaidRoute \<Rightarrow> ID \<Rightarrow> instant \<Rightarrow> Transaction result" where
  "new_checkout ulid rv k now =
     rbind (NewTransaction ulid (checkout_params rv k now)) (\<lambda>t.
     rbind (if pi_requiresApproval (rv_PurchaseIntent rv)
            then rbind (RequireApproval t now) (\<lambda>t1. MarkApproved t1 now) else Inr t) (\<lambda>t2.
     RequirePayment t2 now))"

definition loadOrCreateTransaction ::
  "checkout_service \<Rightarrow> ResolvedPaidRoute \<Rightarrow> instant \<Rightarrow> ('a checkout_world_scheme, Transaction) action" where
  "loadOrCreateTransaction svc rv now =
     (let ulid = cl_ulid (ks_library svc)
      in abind (pure (transactionIDForIntent ulid (pi_intentID (rv_PurchaseIntent rv)))) (\<lambda>k.
         attempt (reading (\<lambda>w. TxRepo_Get (xw_transactions w) k))
           (\<lambda>e. guard (e \<noteq> ErrNotFound) e
             (abind (pure (new_checkout ulid rv k now)) (\<lambda>t.
              attempt (writing (\<lambda>w. TxRepo_Create (xw_transactions w) t) (\<lambda>r w. w\<lparr>xw_transactions := r\<rparr>))
                (\<lambda>e. guard (e \<noteq> ErrAlreadyExists) e (reading (\<lambda>w. TxRepo_Get (xw_transactions w) k)))
                (\<lambda>_. pure (Inr t)))))
           (\<lambda>t. pure (Inr t))))"

definition executeFinalized ::
  "checkout_service \<Rightarrow> checkout_call \<Rightarrow> CheckoutRequest \<Rightarrow> ResolvedPaidRoute \<Rightarrow> Transaction \<Rightarrow> string \<Rightarrow> string
     \<Rightarrow> ('a checkout_world_scheme, checkout_outcome) action" where
  "executeFinalized svc c q rv t settlementHeader payerAddress =
     abind (completeBrowserPurchase svc c t payerAddress) (\<lambda>_.
     abind (Proxy_Execute (ks_library svc) (kc_execution c)
       \<lparr>ex_Transaction = t, ex_Seller = rv_Seller rv, ex_Route = rv_Route rv,
        ex_Method = pq_Method (kq_PaidRoute q), ex_Path = pq_ProxyPath (kq_PaidRoute q), ex_Body = kq_Body q,
        ex_ContentType = kq_ContentType q\<rparr>) (\<lambda>response.
     pure (Inr (checkout_result (tx_transactionID t) None (Some response) settlementHeader RecoveryNone, None))))"

definition retryCorrectedFulfillment ::
  "checkout_service \<Rightarrow> checkout_call \<Rightarrow> CheckoutRequest \<Rightarrow> ResolvedPaidRoute \<Rightarrow> Transaction \<Rightarrow> SHA256Digest
     \<Rightarrow> ('a checkout_world_scheme, checkout_outcome) action" where
  "retryCorrectedFulfillment svc c q rv t requestBodyHash =
     guard (TrimSpace (kq_PaymentProof q) = [] \<or> \<not> CanRetryFulfillment t) ErrPaidRouteMismatch
    (guard (paymentProofHash (kq_PaymentProof q) \<noteq> Inr (tx_paymentProofHash t)) ErrPaymentReplay
    (abind (pure (PrepareFulfillmentRetry t requestBodyHash (kc_retryAt c))) (\<lambda>prepared.
     attempt (updating_tx prepared (tx_version t))
       (\<lambda>e. pure (Inl (if e = ErrConditionFailed then ErrPaymentReplay else e)))
       (\<lambda>_. executeFinalized svc c q rv prepared [] []))))"

text \<open>The answer to a request without a payment proof.\<close>

definition challenge_or_execute ::
  "checkout_service \<Rightarrow> checkout_call \<Rightarrow> CheckoutRequest \<Rightarrow> ResolvedPaidRoute \<Rightarrow> Transaction
     \<Rightarrow> ('a checkout_world_scheme, checkout_outcome) action" where
  "challenge_or_execute svc c q rv t =
     (if tx_failureCode t = paymentReviewPayerMismatch then
        pure (Inr (checkout_result (tx_transactionID t) None None [] RecoveryAwaitReconciliation,
                   Some ErrPaymentWalletMismatch))
      else if tx_status t = StatusPaymentVerified \<and> tx_paymentFinality t = PaymentFinalityFinalized then
        executeFinalized svc c q rv t [] []
      else
        abind (authorizeCommerce svc (se_SellerID (rv_Seller rv)) CommerceOperationChallenge) (\<lambda>_.
        abind (pure (kc_challenge c (rv_Requirements rv))) (\<lambda>challenge.
        pure (Inr (checkout_result (tx_transactionID t) (Some challenge) None [] RecoveryNone, None)))))"

text \<open>A proof the adapter refused.\<close>

definition refused_proof ::
  "checkout_call \<Rightarrow> ResolvedPaidRoute \<Rightarrow> Transaction \<Rightarrow> go_error \<Rightarrow> ('a checkout_world_scheme, checkout_outcome) action" where
  "refused_proof c rv t e =
     (if isTerminalPaymentRejection e then
        abind (pure (kc_challenge c (rv_Requirements rv))) (\<lambda>challenge.
        pure (Inr (checkout_result (tx_transactionID t) (Some challenge) None [] RecoverySignFreshAuthorization,
                   Some e)))
      else if e = ErrPaymentCapabilityUnsupported then
        pure (Inr (checkout_result (tx_transactionID t) None None [] RecoverySignFreshAuthorization, Some e))
      else if IsRetryable e then
        pure (Inr (checkout_result (tx_transactionID t) None None [] RecoveryRetrySameRequest, Some e))
      else pure (Inl e))"

text \<open>The verified transaction.\<close>

definition verify_payment ::
  "checkout_call \<Rightarrow> CheckoutRequest \<Rightarrow> ResolvedPaidRoute \<Rightarrow> Transaction \<Rightarrow> SHA256Digest \<Rightarrow> VerificationResult
     \<Rightarrow> ('a checkout_world_scheme, Transaction) action" where
  "verify_payment c q rv t proofHash v =
     abind (pure (VerifyPayment t (vf_PaymentIdentifier v) proofHash (kc_verifiedAt c))) (\<lambda>verified.
     attempt (updating_tx verified (tx_version t))
       (\<lambda>e. pure (Inl (if e = ErrPaymentIdentifierConflict \<or> e = ErrConditionFailed then ErrPaymentReplay else e)))
       (\<lambda>_. pure (Inr verified)))"

text \<open>What the checkout makes of the adapter's answer: the settlement, or an error and whether the payers differ.\<close>

definition settlement_verdict ::
  "checkout_service \<Rightarrow> string \<Rightarrow> string \<Rightarrow> SettlementResult result \<Rightarrow> (go_error \<times> bool) + SettlementResult" where
  "settlement_verdict svc paymentIdentifier payerAddress answer =
     (case answer of
        Inl e \<Rightarrow> Inl (e, False)
      | Inr s \<Rightarrow>
          if \<not> st_Settled s \<or> st_PaymentIdentifier s \<noteq> paymentIdentifier then Inl (ErrPaymentRejected, False)
          else if payerAddress \<noteq> [] \<and> st_PayerAddress s \<noteq> []
                  \<and> \<not> ks_equalFold svc payerAddress (st_PayerAddress s) then Inl (ErrPaymentWalletMismatch, True)
          else Inr s)"

definition failed_settlement ::
  "checkout_call \<Rightarrow> Transaction \<Rightarrow> SettlementResult result \<Rightarrow> go_error \<Rightarrow> bool
     \<Rightarrow> ('a checkout_world_scheme, checkout_outcome) action" where
  "failed_settlement c t answer e payerMismatch =
     (if payerMismatch then
        abind (pure (RequirePaymentReview t paymentReviewPayerMismatch
          (case answer of Inl _ \<Rightarrow> [] | Inr s \<Rightarrow> st_PaymentReference s) (kc_settledAt c))) (\<lambda>reviewed.
        abind (updating_tx reviewed (tx_version t)) (\<lambda>_.
        pure (Inr (checkout_result (tx_transactionID t) None None [] RecoveryAwaitReconciliation, Some e))))
      else if isTerminalPaymentRejection e then
        abind (pure (FailPayment t ''settlement_rejected'' [] (kc_settledAt c))) (\<lambda>failed.
        abind (updating_tx failed (tx_version t)) (\<lambda>_.
        pure (Inr (checkout_result (tx_transactionID t) None None [] RecoveryStartNewCheckout, Some e))))
      else if IsRetryable e then
        pure (Inr (checkout_result (tx_transactionID t) None None [] RecoveryRetrySamePayment, Some e))
      else pure (Inl e))"

text \<open>Evidence, settlement, finalization and execution of a verified payment.\<close>

definition settle_and_execute ::
  "checkout_service \<Rightarrow> checkout_call \<Rightarrow> CheckoutRequest \<Rightarrow> ResolvedPaidRoute \<Rightarrow> Transaction \<Rightarrow> SHA256Digest \<Rightarrow> string
     \<Rightarrow> string \<Rightarrow> ('a checkout_world_scheme, checkout_outcome) action" where
  "settle_and_execute svc c q rv t proofHash paymentIdentifier payerAddress =
     abind (recording_event (\<lambda>r. RecordPaymentVerification (kc_recorder c) r (fst (kc_verificationEvent c))
       (snd (kc_verificationEvent c)) (tx_transactionID t)
       \<lparr>pv_PaymentIdentifier = paymentIdentifier, pv_PaymentProofHash = proofHash\<rparr>)) (\<lambda>_.
     abind (authorizeCommerce svc (se_SellerID (rv_Seller rv)) CommerceOperationSettlement) (\<lambda>_.
     let answer = kc_settle c (kq_PaymentProof q) (rv_Requirements rv)
     in case settlement_verdict svc paymentIdentifier payerAddress answer of
          Inl (e, payerMismatch) \<Rightarrow> failed_settlement c t answer e payerMismatch
        | Inr s \<Rightarrow>
            abind (pure (FinalizePayment t paymentIdentifier (st_PaymentReference s) (kc_settledAt c))) (\<lambda>final.
            attempt (updating_tx final (tx_version t))
              (\<lambda>e. pure (Inl (if e = ErrConditionFailed then ErrPaymentReplay else e)))
              (\<lambda>_. executeFinalized svc c q rv final (st_ResponseHeader s)
                     (firstNonEmpty [payerAddress, st_PayerAddress s])))))"

text \<open>A proof for a transaction that has been paid for before.\<close>

definition paid_before ::
  "checkout_service \<Rightarrow> checkout_call \<Rightarrow> CheckoutRequest \<Rightarrow> ResolvedPaidRoute \<Rightarrow> Transaction \<Rightarrow> SHA256Digest
     \<Rightarrow> ('a checkout_world_scheme, checkout_outcome) action \<Rightarrow> ('a checkout_world_scheme, checkout_outcome) action" where
  "paid_before svc c q rv t proofHash continue =
     guard (tx_paymentProofHash t \<noteq> proofHash) ErrPaymentReplay
    (guard (tx_status t \<noteq> StatusPaymentVerified) ErrPaymentReplay
    (if tx_paymentFinality t = PaymentFinalityFinalized then
       abind (if tx_purchaseChannel t = PurchaseChannelBrowser \<and> ks_browser svc
              then abind (pure (kc_verify c (kq_PaymentProof q) (rv_Requirements rv))) (\<lambda>v.
                   pure (Inr (vf_PayerAddress v)))
              else pure (Inr [])) (\<lambda>payerAddress.
       executeFinalized svc c q rv t [] payerAddress)
     else
       guard (tx_paymentFinality t \<noteq> PaymentFinalityConfirmed) ErrPaymentReplay
      (if tx_failureCode t = paymentReviewPayerMismatch then
         pure (Inr (checkout_result (tx_transactionID t) None None [] RecoveryAwaitReconciliation,
                    Some ErrPaymentWalletMismatch))
       else continue)))"

definition pay ::
  "checkout_service \<Rightarrow> checkout_call \<Rightarrow> CheckoutRequest \<Rightarrow> ResolvedPaidRoute \<Rightarrow> Transaction \<Rightarrow> SHA256Digest
     \<Rightarrow> ('a checkout_world_scheme, checkout_outcome) action" where
  "pay svc c q rv t proofHash =
     (let authorize = authorizeCommerce svc (se_SellerID (rv_Seller rv)) CommerceOperationVerification
      in if tx_paymentIdentifier t \<noteq> [] then
           paid_before svc c q rv t proofHash
             (abind authorize (\<lambda>_. settle_and_execute svc c q rv t proofHash (tx_paymentIdentifier t) []))
         else
           abind authorize (\<lambda>_.
           case kc_verify c (kq_PaymentProof q) (rv_Requirements rv) of
             Inl e \<Rightarrow> refused_proof c rv t e
           | Inr v \<Rightarrow>
               abind (verify_payment c q rv t proofHash v) (\<lambda>verified.
               settle_and_execute svc c q rv verified proofHash (vf_PaymentIdentifier v) (vf_PayerAddress v))))"

section \<open>The checkout\<close>

definition schema_issues :: "checkout_service \<Rightarrow> CheckoutRequest \<Rightarrow> ResolvedPaidRoute \<Rightarrow> InputValidationIssue list" where
  "schema_issues svc q rv =
     ValidateJSONAgainstSchema (ks_engines svc) (pr_InputSchema (rv_Route rv)) (kq_Body q) (kq_ContentType q)"

text \<open>\<open>RequestValidationError\<close> carries the issues; \<open>errors.Is\<close> sees its sentinel.\<close>

abbreviation ErrRequestValidation :: go_error where "ErrRequestValidation \<equiv> Err ''payments.ErrRequestValidation''"

definition corrected_retry ::
  "checkout_service \<Rightarrow> checkout_call \<Rightarrow> CheckoutRequest \<Rightarrow> ResolvedPaidRoute \<Rightarrow> SHA256Digest
     \<Rightarrow> ('a checkout_world_scheme, checkout_outcome) action" where
  "corrected_retry svc c q rv requestBodyHash =
     abind (pure (transactionIDForIntent (cl_ulid (ks_library svc)) (pi_intentID (rv_PurchaseIntent rv)))) (\<lambda>k.
     attempt (reading (\<lambda>w. TxRepo_Get (xw_transactions w) k))
       (\<lambda>_. pure (Inl ErrPaidRouteMismatch))
       (\<lambda>t. guard (\<not> CanRetryFulfillment t \<or> TrimSpace (kq_PaymentProof q) = []) ErrPaidRouteMismatch
           (guard (schema_issues svc q rv \<noteq> []) ErrRequestValidation
             (retryCorrectedFulfillment svc c q rv t requestBodyHash))))"

definition Checkout_Execute ::
  "checkout_service \<Rightarrow> checkout_call \<Rightarrow> CheckoutRequest \<Rightarrow> ('a checkout_world_scheme, checkout_outcome) action" where
  "Checkout_Execute svc c q =
     (let lib = ks_library svc
      in abind (Resolve_PaidRoute (ks_resolver svc) (kc_resolve c) (kq_PaidRoute q)) (\<lambda>rv.
         attempt (pure (hashRequestBody (cl_parseMediaType lib) (cl_jcs lib) (kq_Body q) (kq_ContentType q)))
           (\<lambda>_. pure (Inl ErrPaidRouteMismatch))
           (\<lambda>requestBodyHash.
         if requestBodyHash \<noteq> pi_requestBodyHash (rv_PurchaseIntent rv)
         then corrected_retry svc c q rv requestBodyHash
         else
           guard (schema_issues svc q rv \<noteq> []) ErrRequestValidation
          (abind (loadOrCreateTransaction svc rv (kc_createdAt c)) (\<lambda>t.
           abind (claimBrowserTransaction svc c t) (\<lambda>_.
           abind (recording_event (\<lambda>r. RecordPaymentChallenge (kc_recorder c) r (fst (kc_challengeEvent c))
             (snd (kc_challengeEvent c)) (tx_transactionID t)
             \<lparr>pc_Amount = Amount_String (rq_Amount (rv_Requirements rv)), pc_Asset = rq_Asset (rv_Requirements rv),
              pc_Network = rq_Network (rv_Requirements rv)\<rparr>)) (\<lambda>_.
           if TrimSpace (kq_PaymentProof q) = [] then challenge_or_execute svc c q rv t
           else abind (pure (paymentProofHash (kq_PaymentProof q))) (\<lambda>proofHash. pay svc c q rv t proofHash))))))))"

section \<open>What a dispatched request has behind it\<close>

text \<open>The request of the call, sent to the resolved seller and route.\<close>

definition sent_to :: "CheckoutRequest \<Rightarrow> ResolvedPaidRoute \<Rightarrow> ForwardRequest \<Rightarrow> bool" where
  "sent_to q rv fr \<longleftrightarrow>
     fr_Seller fr = rv_Seller rv \<and> fr_Route fr = rv_Route rv \<and> fr_Method fr = pq_Method (kq_PaidRoute q)
     \<and> fr_Path fr = pq_ProxyPath (kq_PaidRoute q) \<and> fr_Body fr = kq_Body q \<and> fr_ContentType fr = kq_ContentType q"

text \<open>At most one request leaves, and only under the given condition.\<close>

definition sends_only_if ::
  "bool \<Rightarrow> CheckoutRequest \<Rightarrow> ResolvedPaidRoute \<Rightarrow> 'a checkout_world_scheme \<Rightarrow> 'a checkout_world_scheme \<Rightarrow> bool" where
  "sends_only_if cond q rv w w' \<longleftrightarrow>
     xw_dispatched w' = xw_dispatched w \<or> cond \<and> (\<exists>fr. xw_dispatched w' = xw_dispatched w @ [fr] \<and> sent_to q rv fr)"

lemma sends_nothing: "xw_dispatched w' = xw_dispatched w \<Longrightarrow> sends_only_if cond q rv w w'"
  by (simp add: sends_only_if_def)

lemma sends_only_if_mono:
  "sends_only_if cond q rv w w' \<Longrightarrow> (cond \<Longrightarrow> cond') \<Longrightarrow> xw_dispatched u = xw_dispatched w \<Longrightarrow> sends_only_if cond' q rv u w'"
  by (auto simp: sends_only_if_def)

lemma completeBrowserPurchase_keeps [simp]:
  "xw_dispatched (snd (completeBrowserPurchase svc c t payer w)) = xw_dispatched w"
  "xw_transactions (snd (completeBrowserPurchase svc c t payer w)) = xw_transactions w"
  by (simp_all add: completeBrowserPurchase_def with_browser_def action_simps split: sum.split)

lemma claimBrowserTransaction_keeps [simp]:
  "xw_dispatched (snd (claimBrowserTransaction svc c t w)) = xw_dispatched w"
  "xw_transactions (snd (claimBrowserTransaction svc c t w)) = xw_transactions w"
  by (simp_all add: claimBrowserTransaction_def with_browser_def action_simps split: sum.split)

lemma authorizeCommerce_keeps [simp]: "snd (authorizeCommerce svc k op w) = w"
  by (simp add: authorizeCommerce_def)

lemma executeFinalized_sends:
  "sends_only_if (dispatchable (xw_transactions w) (tx_transactionID t) (tx_version t)) q rv w
     (snd (executeFinalized svc c q rv t hdr payer w))"
proof -
  obtain r u where complete: "completeBrowserPurchase svc c t payer w = (r, u)"
    by (cases "completeBrowserPurchase svc c t payer w")
  then have u: "xw_dispatched u = xw_dispatched w" "xw_transactions u = xw_transactions w"
    using completeBrowserPurchase_keeps [of svc c t payer w] by simp_all
  let ?x = "\<lparr>ex_Transaction = t, ex_Seller = rv_Seller rv, ex_Route = rv_Route rv,
        ex_Method = pq_Method (kq_PaidRoute q), ex_Path = pq_ProxyPath (kq_PaidRoute q), ex_Body = kq_Body q,
        ex_ContentType = kq_ContentType q\<rparr>"
  obtain r' u' where run: "Proxy_Execute (ks_library svc) (kc_execution c) ?x u = (r', u')"
    by (cases "Proxy_Execute (ks_library svc) (kc_execution c) ?x u")
  have "sends_only_if (dispatchable (xw_transactions w) (tx_transactionID t) (tx_version t)) q rv w u'"
    using Proxy_Execute_dispatch [of "ks_library svc" "kc_execution c" ?x u] u
    by (auto simp: run sends_only_if_def allowed_dispatch_def Let_def sent_for_def sent_to_def)
  then show ?thesis
    using u by (auto simp: executeFinalized_def action_simps complete run sends_nothing split: sum.split)
qed

text \<open>The adapter has settled the payment that was verified, and the payer is the verified one.\<close>

definition settled_by ::
  "checkout_service \<Rightarrow> checkout_call \<Rightarrow> CheckoutRequest \<Rightarrow> Requirements \<Rightarrow> string \<Rightarrow> string \<Rightarrow> bool" where
  "settled_by svc c q req paymentIdentifier payerAddress \<longleftrightarrow>
     (\<exists>s. kc_settle c (kq_PaymentProof q) req = Inr s \<and> st_Settled s \<and> st_PaymentIdentifier s = paymentIdentifier
        \<and> (payerAddress = [] \<or> st_PayerAddress s = [] \<or> ks_equalFold svc payerAddress (st_PayerAddress s)))"

lemma settlement_verdict_settled:
  "settlement_verdict svc k payer (kc_settle c (kq_PaymentProof q) req) = Inr s \<Longrightarrow> settled_by svc c q req k payer"
  by (auto simp: settlement_verdict_def settled_by_def split: sum.split_asm if_split_asm)

lemma failed_settlement_keeps [simp]: "xw_dispatched (snd (failed_settlement c t answer e m w)) = xw_dispatched w"
  by (simp add: failed_settlement_def action_simps split: sum.split)

text \<open>A transaction whose payment may still be settled.\<close>

definition confirmed :: "Transaction \<Rightarrow> bool" where
  "confirmed t \<longleftrightarrow> tx_status t = StatusPaymentVerified \<and> tx_paymentFinality t = PaymentFinalityConfirmed"

lemma FinalizePayment_confirmed: "FinalizePayment t k ref tm = Inr t' \<Longrightarrow> confirmed t"
  by (auto simp: FinalizePayment_def result_simps confirmed_def)

lemma VerifyPayment_required: "VerifyPayment t k h tm = Inr t' \<Longrightarrow> tx_status t = StatusPaymentRequired"
  by (cases "tx_status t") (auto simp: VerifyPayment_def result_simps transition_eq_Inr)

text \<open>The seller's entitlement allows an operation.\<close>

definition commerce_allows :: "checkout_service \<Rightarrow> ResolvedPaidRoute \<Rightarrow> CommerceOperation \<Rightarrow> bool" where
  "commerce_allows svc rv operation \<longleftrightarrow>
     (case ks_commerce svc of None \<Rightarrow> True | Some authorize \<Rightarrow> is_ok (authorize (se_SellerID (rv_Seller rv)) operation))"

lemma authorizeCommerce_allows:
  "fst (authorizeCommerce svc (se_SellerID (rv_Seller rv)) operation w) = Inr u \<Longrightarrow> commerce_allows svc rv operation"
  by (auto simp: authorizeCommerce_def commerce_allows_def split: option.split_asm)

lemma settle_and_execute_sends:
  "sends_only_if (settled_by svc c q (rv_Requirements rv) k payer \<and> confirmed t
      \<and> commerce_allows svc rv CommerceOperationSettlement) q rv w
     (snd (settle_and_execute svc c q rv t proofHash k payer w))"
  (is "sends_only_if ?cond _ _ _ _")
proof (cases "settlement_verdict svc k payer (kc_settle c (kq_PaymentProof q) (rv_Requirements rv))")
  case (Inl e)
  then show ?thesis
    by (intro sends_nothing)
      (simp add: settle_and_execute_def action_simps split: sum.split prod.split)
next
  case (Inr s)
  note settled = settlement_verdict_settled [OF Inr]
  have exec: "sends_only_if ?cond q rv w (snd (executeFinalized svc c q rv final h p u))"
    if "xw_dispatched u = xw_dispatched w" "FinalizePayment t k ref tm = Inr final"
      "commerce_allows svc rv CommerceOperationSettlement" for final h p u ref tm
    by (rule sends_only_if_mono [OF executeFinalized_sends])
      (use that settled in \<open>auto intro: FinalizePayment_confirmed\<close>)
  show ?thesis
    using Inr unfolding settle_and_execute_def Let_def
    by (simp add: action_simps split: sum.split) (auto intro: exec sends_nothing authorizeCommerce_allows)
qed

lemma refused_proof_keeps [simp]: "snd (refused_proof c rv t e w) = w"
  by (simp add: refused_proof_def action_simps split: sum.split)

lemma verify_payment_keeps [simp]: "xw_dispatched (snd (verify_payment c q rv t proofHash v w)) = xw_dispatched w"
  by (simp add: verify_payment_def action_simps split: sum.split)

text \<open>The three ways to a seller call: a payment finalized before, one settled now, or a corrected retry.\<close>

definition finalized_before :: "TransactionRepository \<Rightarrow> Transaction \<Rightarrow> bool" where
  "finalized_before r t \<longleftrightarrow>
     tx_status t = StatusPaymentVerified \<and> tx_paymentFinality t = PaymentFinalityFinalized
     \<and> dispatchable r (tx_transactionID t) (tx_version t)"

text \<open>The proof presented is the one the transaction was paid with.\<close>

definition proof_of :: "CheckoutRequest \<Rightarrow> Transaction \<Rightarrow> bool" where
  "proof_of q t \<longleftrightarrow> paymentProofHash (kq_PaymentProof q) = Inr (tx_paymentProofHash t)"

text \<open>
  The adapter has verified the proof, and then settled the payment it identified, from the payer it named.
\<close>

definition verified_and_settled ::
  "checkout_service \<Rightarrow> checkout_call \<Rightarrow> CheckoutRequest \<Rightarrow> Requirements \<Rightarrow> bool" where
  "verified_and_settled svc c q req \<longleftrightarrow>
     (\<exists>v. kc_verify c (kq_PaymentProof q) req = Inr v
        \<and> settled_by svc c q req (vf_PaymentIdentifier v) (vf_PayerAddress v))"

text \<open>
  The payment of the transaction \<open>t\<close> is settled by this call: one that awaits payment by a proof verified now,
  one whose payment is confirmed by the proof and under the identifier it was verified with. The seller's
  entitlement allows both steps.
\<close>

definition settled_now ::
  "checkout_service \<Rightarrow> checkout_call \<Rightarrow> CheckoutRequest \<Rightarrow> ResolvedPaidRoute \<Rightarrow> Transaction \<Rightarrow> bool" where
  "settled_now svc c q rv t \<longleftrightarrow>
     commerce_allows svc rv CommerceOperationVerification \<and> commerce_allows svc rv CommerceOperationSettlement
     \<and> (if tx_paymentIdentifier t = [] then
          tx_status t = StatusPaymentRequired \<and> verified_and_settled svc c q (rv_Requirements rv)
        else
          confirmed t \<and> proof_of q t \<and> tx_failureCode t \<noteq> paymentReviewPayerMismatch
          \<and> settled_by svc c q (rv_Requirements rv) (tx_paymentIdentifier t) [])"

lemma challenge_or_execute_sends:
  "sends_only_if (finalized_before (xw_transactions w) t \<and> tx_failureCode t \<noteq> paymentReviewPayerMismatch) q rv w
     (snd (challenge_or_execute svc c q rv t w))"
proof (cases "tx_failureCode t \<noteq> paymentReviewPayerMismatch \<and> tx_status t = StatusPaymentVerified
    \<and> tx_paymentFinality t = PaymentFinalityFinalized")
  case True
  then show ?thesis
    by (auto simp: challenge_or_execute_def finalized_before_def
        intro: sends_only_if_mono [OF executeFinalized_sends])
qed (auto simp: challenge_or_execute_def action_simps intro!: sends_nothing split: sum.split)

lemma paid_before_sends:
  assumes "\<And>u. tx_paymentProofHash t = proofHash \<Longrightarrow> tx_failureCode t \<noteq> paymentReviewPayerMismatch
    \<Longrightarrow> sends_only_if cond q rv u (snd (continue u))"
    and "finalized_before (xw_transactions w) t \<Longrightarrow> tx_paymentProofHash t = proofHash \<Longrightarrow> cond"
  shows "sends_only_if cond q rv w (snd (paid_before svc c q rv t proofHash continue w))"
proof (cases "tx_paymentProofHash t = proofHash \<and> tx_status t = StatusPaymentVerified")
  case True
  have exec: "sends_only_if cond q rv w (snd (executeFinalized svc c q rv t h p w))"
    if "tx_paymentFinality t = PaymentFinalityFinalized" for h p
    by (rule sends_only_if_mono [OF executeFinalized_sends])
      (use True that assms(2) in \<open>auto simp: finalized_before_def\<close>)
  show ?thesis
    using assms(1) [of w] exec
    by (auto simp: paid_before_def action_simps True intro!: sends_nothing split: sum.split)
qed (auto simp: paid_before_def action_simps intro!: sends_nothing)

lemma pay_sends:
  assumes "paymentProofHash (kq_PaymentProof q) = Inr proofHash"
  shows "sends_only_if (finalized_before (xw_transactions w) t \<and> tx_paymentProofHash t = proofHash
      \<or> settled_now svc c q rv t) q rv w
     (snd (pay svc c q rv t proofHash w))"
  (is "sends_only_if ?cond _ _ _ _")
proof -
  show ?thesis
  proof (cases "tx_paymentIdentifier t = []")
    case True
    have settle: "sends_only_if ?cond q rv w (snd (settle_and_execute svc c q rv t' proofHash
          (vf_PaymentIdentifier v) (vf_PayerAddress v) u))"
      if "xw_dispatched u = xw_dispatched w" "fst (verify_payment c q rv t proofHash v x) = Inr t'"
        "kc_verify c (kq_PaymentProof q) (rv_Requirements rv) = Inr v"
        "commerce_allows svc rv CommerceOperationVerification" for t' u v x
    proof (rule sends_only_if_mono [OF settle_and_execute_sends])
      have "tx_status t = StatusPaymentRequired"
        using that(2) by (auto simp: verify_payment_def action_simps intro: VerifyPayment_required split: sum.split_asm)
      then show ?cond if "settled_by svc c q (rv_Requirements rv) (vf_PaymentIdentifier v) (vf_PayerAddress v)
          \<and> confirmed t' \<and> commerce_allows svc rv CommerceOperationSettlement"
        using that \<open>kc_verify c (kq_PaymentProof q) (rv_Requirements rv) = Inr v\<close> True
          \<open>commerce_allows svc rv CommerceOperationVerification\<close>
        by (auto simp: settled_now_def verified_and_settled_def)
    qed (simp add: that)
    from True show ?thesis
      by (simp add: pay_def Let_def action_simps split: sum.split) (auto intro: settle sends_nothing authorizeCommerce_allows)
  next
    case False
    have cont: "sends_only_if ?cond q rv u
        (snd (abind (authorizeCommerce svc (se_SellerID (rv_Seller rv)) CommerceOperationVerification)
          (\<lambda>_. settle_and_execute svc c q rv t proofHash (tx_paymentIdentifier t) []) u))"
      if "tx_paymentProofHash t = proofHash" "tx_failureCode t \<noteq> paymentReviewPayerMismatch" for u
    proof (cases "fst (authorizeCommerce svc (se_SellerID (rv_Seller rv)) CommerceOperationVerification u)")
      case (Inl e)
      then show ?thesis
        by (simp add: abind_run sends_nothing)
    next
      case (Inr x)
      have "sends_only_if ?cond q rv u
          (snd (settle_and_execute svc c q rv t proofHash (tx_paymentIdentifier t) [] u))"
        by (rule sends_only_if_mono [OF settle_and_execute_sends])
          (use that False assms authorizeCommerce_allows [OF Inr] in \<open>simp_all add: settled_now_def proof_of_def\<close>)
      with Inr show ?thesis
        by (simp add: abind_run)
    qed
    have "sends_only_if ?cond q rv w (snd (paid_before svc c q rv t proofHash
        (abind (authorizeCommerce svc (se_SellerID (rv_Seller rv)) CommerceOperationVerification)
          (\<lambda>_. settle_and_execute svc c q rv t proofHash (tx_paymentIdentifier t) [])) w))"
      by (rule paid_before_sends [OF cont]) simp_all
    with False show ?thesis
      by (simp add: pay_def Let_def)
  qed
qed

definition keyed_transactions :: "'a checkout_world_scheme \<Rightarrow> bool" where
  "keyed_transactions w \<longleftrightarrow> (\<forall>k t. tr_transactions (xw_transactions w) k = Some t \<longrightarrow> tx_transactionID t = k)"

lemma new_checkout_awaits_payment:
  assumes "new_checkout ulid rv k now = Inr t"
  shows "tx_transactionID t = k" "tx_status t = StatusPaymentRequired" "tx_paymentIdentifier t = []"
  using assms
  by (auto simp: new_checkout_def result_simps RequirePayment_def RequireApproval_def MarkApproved_def transition_eq_Inr
      NewTransaction_def Let_def checkout_params_def split: if_split_asm)

text \<open>
  The checkout is one of the clients of the transaction repository: what it creates is a new transaction after
  one or three operations, so it is a step of \<open>clients\<close> and \<open>concurrent_forwarding\<close> speaks of it.
\<close>

definition checkout_ops :: "ResolvedPaidRoute \<Rightarrow> instant \<Rightarrow> tx_op list" where
  "checkout_ops rv now =
     (if pi_requiresApproval (rv_PurchaseIntent rv) then [OpRequireApproval now, OpMarkApproved now] else [])
     @ [OpRequirePayment now]"

lemma new_checkout_run:
  assumes "new_checkout ulid rv k now = Inr t"
  obtains t0 where "NewTransaction ulid (checkout_params rv k now) = Inr t0" "run_ops (checkout_ops rv now) t0 = Inr t"
  using assms that
  by (cases "pi_requiresApproval (rv_PurchaseIntent rv)") (auto simp: new_checkout_def checkout_ops_def rbind_eq_Inr)

lemma new_checkout_clients:
  assumes "clients ulid R S H" "new_checkout ulid rv k now = Inr t" "0 < now" "TxRepo_Create R t = Inr R'"
  shows "\<exists>t0. clients ulid R' (insert t S) (H(tx_transactionID t \<mapsto> (t0, checkout_ops rv now)))"
proof -
  obtain t0 where "NewTransaction ulid (checkout_params rv k now) = Inr t0" "run_ops (checkout_ops rv now) t0 = Inr t"
    using new_checkout_run [OF assms(2)] .
  from clients.create [OF assms(1) this(1) _ this(2) assms(4)] assms(3) show ?thesis
    by (auto simp: checkout_params_def Let_def)
qed

text \<open>A loaded transaction was stored; a created one awaits its payment.\<close>

lemma loadOrCreateTransaction_run:
  assumes keyed: "keyed_transactions w" and run: "loadOrCreateTransaction svc rv now w = (Inr t, w')"
  shows "transactionIDForIntent (cl_ulid (ks_library svc)) (pi_intentID (rv_PurchaseIntent rv)) = Inr (tx_transactionID t)"
    "xw_dispatched w' = xw_dispatched w"
    "tr_transactions (xw_transactions w) (tx_transactionID t) = Some t
      \<or> tr_transactions (xw_transactions w) (tx_transactionID t) = None \<and> tx_status t = StatusPaymentRequired
        \<and> tx_paymentIdentifier t = []"
proof -
  obtain k where k: "transactionIDForIntent (cl_ulid (ks_library svc)) (pi_intentID (rv_PurchaseIntent rv)) = Inr k"
    using run by (auto simp: loadOrCreateTransaction_def Let_def action_ok)
  have "tx_transactionID t = k \<and> xw_dispatched w' = xw_dispatched w
    \<and> (tr_transactions (xw_transactions w) k = Some t
        \<or> tr_transactions (xw_transactions w) k = None \<and> tx_status t = StatusPaymentRequired
          \<and> tx_paymentIdentifier t = [])"
  proof (cases "tr_transactions (xw_transactions w) k")
    case (Some t0)
    then show ?thesis
      using run keyed
      by (simp add: loadOrCreateTransaction_def Let_def k attempt_run TxRepo_Get_def keyed_transactions_def)
  next
    case None
    obtain n where n: "new_checkout (cl_ulid (ks_library svc)) rv k now = Inr n"
      using run None
      by (auto simp: loadOrCreateTransaction_def Let_def k attempt_run TxRepo_Get_def guard_run action_ok)
    note new = new_checkout_awaits_payment [OF n]
    then have "TxRepo_Create (xw_transactions w) n \<noteq> Inl ErrAlreadyExists"
      using None by (auto simp: TxRepo_Create_def Let_def reject_if_def)
    then show ?thesis
      using run None n new
      by (cases "TxRepo_Create (xw_transactions w) n")
        (auto simp: loadOrCreateTransaction_def Let_def k attempt_run TxRepo_Get_def guard_run writing_run)
  qed
  then show "transactionIDForIntent (cl_ulid (ks_library svc)) (pi_intentID (rv_PurchaseIntent rv)) = Inr (tx_transactionID t)"
    "xw_dispatched w' = xw_dispatched w"
    "tr_transactions (xw_transactions w) (tx_transactionID t) = Some t
      \<or> tr_transactions (xw_transactions w) (tx_transactionID t) = None \<and> tx_status t = StatusPaymentRequired
        \<and> tx_paymentIdentifier t = []"
    using k by auto
qed

lemma loadOrCreateTransaction_error: "xw_dispatched (snd (loadOrCreateTransaction svc rv now w)) = xw_dispatched w"
  by (simp add: loadOrCreateTransaction_def Let_def action_simps split: sum.split)

lemma retryCorrectedFulfillment_sends:
  "sends_only_if (CanRetryFulfillment t \<and> paymentProofHash (kq_PaymentProof q) = Inr (tx_paymentProofHash t)) q rv w
     (snd (retryCorrectedFulfillment svc c q rv t h w))"
proof (cases "CanRetryFulfillment t \<and> paymentProofHash (kq_PaymentProof q) = Inr (tx_paymentProofHash t)")
  case True
  have "sends_only_if True q rv w (snd (executeFinalized svc c q rv t' hdr p u))"
    if "xw_dispatched u = xw_dispatched w" for t' hdr p u
    by (rule sends_only_if_mono [OF executeFinalized_sends]) (simp_all add: that)
  with True show ?thesis
    unfolding retryCorrectedFulfillment_def
    by (simp add: action_simps split: sum.split) (auto intro: sends_nothing)
qed (auto simp: retryCorrectedFulfillment_def action_simps intro: sends_nothing)

text \<open>What stands behind a call of the seller for the purchase \<open>i\<close> with transaction \<open>k\<close>.\<close>

definition stored_tx :: "'a checkout_world_scheme \<Rightarrow> ID \<Rightarrow> (Transaction \<Rightarrow> bool) \<Rightarrow> bool" where
  "stored_tx w k P \<longleftrightarrow> (case tr_transactions (xw_transactions w) k of None \<Rightarrow> False | Some t \<Rightarrow> P t)"

definition paid_for ::
  "checkout_service \<Rightarrow> checkout_call \<Rightarrow> CheckoutRequest \<Rightarrow> ResolvedPaidRoute \<Rightarrow> 'a checkout_world_scheme \<Rightarrow> ID \<Rightarrow> bool" where
  "paid_for svc c q rv w k \<longleftrightarrow>
     (case tr_transactions (xw_transactions w) k of
        None \<Rightarrow> commerce_allows svc rv CommerceOperationVerification
          \<and> commerce_allows svc rv CommerceOperationSettlement
          \<and> verified_and_settled svc c q (rv_Requirements rv)
      | Some t \<Rightarrow> settled_now svc c q rv t
          \<or> tx_status t = StatusPaymentVerified \<and> tx_paymentFinality t = PaymentFinalityFinalized
            \<and> (if TrimSpace (kq_PaymentProof q) = [] then tx_failureCode t \<noteq> paymentReviewPayerMismatch
               else proof_of q t))"

definition corrected_for :: "CheckoutRequest \<Rightarrow> 'a checkout_world_scheme \<Rightarrow> ID \<Rightarrow> bool" where
  "corrected_for q w k \<longleftrightarrow> stored_tx w k (\<lambda>t. CanRetryFulfillment t \<and> proof_of q t)"

lemma corrected_retry_sends:
  "sends_only_if (schema_issues svc q rv = []
      \<and> (\<exists>k. transactionIDForIntent (cl_ulid (ks_library svc)) (pi_intentID (rv_PurchaseIntent rv)) = Inr k \<and> corrected_for q w k))
     q rv w (snd (corrected_retry svc c q rv h w))"
  (is "sends_only_if ?cond _ _ _ _")
proof -
  have "sends_only_if ?cond q rv w (snd (retryCorrectedFulfillment svc c q rv t h w))"
    if "transactionIDForIntent (cl_ulid (ks_library svc)) (pi_intentID (rv_PurchaseIntent rv)) = Inr k"
      "tr_transactions (xw_transactions w) k = Some t" "schema_issues svc q rv = []" for k t
    by (rule sends_only_if_mono [OF retryCorrectedFulfillment_sends])
      (use that in \<open>auto simp: corrected_for_def stored_tx_def proof_of_def\<close>)
  then show ?thesis
    unfolding corrected_retry_def
    by (auto simp: action_simps TxRepo_Get_def intro: sends_nothing split: sum.split option.split)
qed

text \<open>The part of the call after the request has been resolved.\<close>

definition checkout_body ::
  "checkout_service \<Rightarrow> checkout_call \<Rightarrow> CheckoutRequest \<Rightarrow> ResolvedPaidRoute \<Rightarrow> ('a checkout_world_scheme, checkout_outcome) action" where
  "checkout_body svc c q rv =
     abind (loadOrCreateTransaction svc rv (kc_createdAt c)) (\<lambda>t.
     abind (claimBrowserTransaction svc c t) (\<lambda>_.
     abind (recording_event (\<lambda>r. RecordPaymentChallenge (kc_recorder c) r (fst (kc_challengeEvent c))
       (snd (kc_challengeEvent c)) (tx_transactionID t)
       \<lparr>pc_Amount = Amount_String (rq_Amount (rv_Requirements rv)), pc_Asset = rq_Asset (rv_Requirements rv),
        pc_Network = rq_Network (rv_Requirements rv)\<rparr>)) (\<lambda>_.
     if TrimSpace (kq_PaymentProof q) = [] then challenge_or_execute svc c q rv t
     else abind (pure (paymentProofHash (kq_PaymentProof q))) (\<lambda>proofHash. pay svc c q rv t proofHash))))"

lemma checkout_body_sends:
  assumes keyed: "keyed_transactions w"
  shows "sends_only_if (\<exists>k. transactionIDForIntent (cl_ulid (ks_library svc)) (pi_intentID (rv_PurchaseIntent rv)) = Inr k
      \<and> paid_for svc c q rv w k) q rv w (snd (checkout_body svc c q rv w))"
  (is "sends_only_if ?cond _ _ _ _")
proof -
  obtain loaded u where load: "loadOrCreateTransaction svc rv (kc_createdAt c) w = (loaded, u)"
    by (cases "loadOrCreateTransaction svc rv (kc_createdAt c) w")
  show ?thesis
  proof (cases loaded)
    case (Inl e)
    then show ?thesis
      using loadOrCreateTransaction_error [of svc rv "kc_createdAt c" w] load
      by (auto simp: checkout_body_def abind_run intro: sends_nothing)
  next
    case (Inr t)
    note got = loadOrCreateTransaction_run [OF keyed load [unfolded Inr]]
    have stored: ?cond if "tx_status t = StatusPaymentVerified" "tx_paymentFinality t = PaymentFinalityFinalized"
      "if TrimSpace (kq_PaymentProof q) = [] then tx_failureCode t \<noteq> paymentReviewPayerMismatch else proof_of q t"
      using that got(1) got(3) by (auto simp: paid_for_def)
    have now: ?cond if "settled_now svc c q rv t"
      using that got(1) got(3) by (auto simp: paid_for_def settled_now_def)
    have challenge: "sends_only_if ?cond q rv w (snd (challenge_or_execute svc c q rv t v))"
      if "xw_dispatched v = xw_dispatched w" "TrimSpace (kq_PaymentProof q) = []" for v
      by (rule sends_only_if_mono [OF challenge_or_execute_sends]) (use that stored in \<open>auto simp: finalized_before_def\<close>)
    have paid: "sends_only_if ?cond q rv w (snd (pay svc c q rv t h v))"
      if "xw_dispatched v = xw_dispatched w" "paymentProofHash (kq_PaymentProof q) = Inr h"
        "TrimSpace (kq_PaymentProof q) \<noteq> []" for v h
      by (rule sends_only_if_mono [OF pay_sends [OF that(2)]])
        (use that stored now in \<open>auto simp: proof_of_def finalized_before_def\<close>)
    show ?thesis
      unfolding checkout_body_def
      using load Inr got(2)
      by (auto simp: abind_run intro: sends_nothing challenge paid split: sum.split)
  qed
qed

lemma stored_intent_keeps [simp]:
  "xw_dispatched (stored_intent i w) = xw_dispatched w" "xw_transactions (stored_intent i w) = xw_transactions w"
  by (simp_all add: stored_intent_def)

lemma Resolve_PaidRoute_keeps:
  assumes "keyed_intents w" "Resolve_PaidRoute svc rt q w = (res, u)"
  shows "xw_dispatched u = xw_dispatched w" "xw_transactions u = xw_transactions w"
proof -
  have "\<exists>i. u = w \<or> u = stored_intent i w"
  proof (cases res)
    case (Inl e)
    then show ?thesis
      using Resolve_PaidRoute_error [OF assms(1)] assms(2) by blast
  next
    case (Inr rv)
    then show ?thesis
      using Resolve_PaidRoute_ok [OF assms(1)] assms(2) by metis
  qed
  then show "xw_dispatched u = xw_dispatched w" "xw_transactions u = xw_transactions w"
    by auto
qed

lemma Checkout_Execute_resolved:
  assumes "Resolve_PaidRoute (ks_resolver svc) (kc_resolve c) (kq_PaidRoute q) w = (Inr rv, u)"
    and h: "hashRequestBody (cl_parseMediaType (ks_library svc)) (cl_jcs (ks_library svc)) (kq_Body q) (kq_ContentType q) = Inr h"
  shows "Checkout_Execute svc c q w =
    (if h \<noteq> pi_requestBodyHash (rv_PurchaseIntent rv) then corrected_retry svc c q rv h u
     else if schema_issues svc q rv \<noteq> [] then (Inl ErrRequestValidation, u) else checkout_body svc c q rv u)"
  using assms
  by (simp add: Checkout_Execute_def checkout_body_def Let_def abind_run [of _ _ w] guard_def)

section \<open>Property\<close>

section \<open>A purchase paid and delivered by one call\<close>

text \<open>A recorder with a working local signer: what it appends, it appends to a chain of its own events.\<close>

definition working_recorder :: recorder where
  "working_recorder =
     \<lparr>rd_ulid = cl_ulid sample_library, rd_jcs = Inr, rd_clone = (\<lambda>p. p),
      rd_signer = Some (Evidence.sample_signer ''key-a'')\<rparr>"

definition appendable :: "Event list \<Rightarrow> ID \<Rightarrow> instant \<Rightarrow> bool" where
  "appendable events k now \<longleftrightarrow>
     events = [] \<or> ev_TransactionID (last events) = k \<and> ev_Sequence (last events) = of_nat (length events)
       \<and> ev_CreatedAt (last events) \<le> now"

lemma working_recorder_appends:
  assumes "appendable (er_events r k) k now" "now \<noteq> 0" "validEventType et"
    and "is_ok (ParseID (cl_ulid sample_library) i EvidenceIDPrefix)"
    and "is_ok (ParseID (cl_ulid sample_library) k TransactionIDPrefix)"
  obtains e r' where
    "recorder_appendToChain working_recorder r (Inr i) now k et facts (er_events r k) = Inr r'"
    "er_events r' k = er_events r k @ [e]" "ev_EventType e = et"
    "\<forall>later\<ge>now. appendable (er_events r' k) k later"
proof -
  let ?s = "Evidence.sample_signer ''key-a''"
  let ?prev = "if er_events r k = [] then None else Some (last (er_events r k))"
  let ?p = "\<lparr>ep_EventID = i, ep_TransactionID = k, ep_Sequence = of_nat (length (er_events r k) + 1),
    ep_EventType = et, ep_ActorType = ActorSystem, ep_ActorID = [], ep_Payload = Some facts, ep_CreatedAt = now\<rparr>"
  have key: "TrimSpace ''key-a'' \<noteq> []"
    by (simp add: TrimSpace_plain plain_ends_def ascii_graph_def)
  have "is_ok (validateEventParams (cl_ulid sample_library) ?p ?prev (Some ?s))"
    using assms
    by (cases "er_events r k = []") (simp_all add: validateEventParams_def appendable_def Timestamp_Before_def)
  then obtain e where e: "Append (cl_ulid sample_library) Inr (\<lambda>p. p) ?p ?prev (Some ?s) = Inr e"
    using local_Append_ok [OF _ _ key Evidence.sample_signer_def, of Inr] by blast
  then have f: "ev_TransactionID e = k" "ev_Sequence e = of_nat (length (er_events r k) + 1)" "ev_EventType e = et"
      "ev_CreatedAt e = now" "ev_PreviousEventHash e = map_option ev_EventHash ?prev"
    by (auto simp: Append_def result_simps Let_def newUnsignedEvent_def)
  let ?r = "r\<lparr>er_events := (er_events r)(k := er_events r k @ [e])\<rparr>"
  have "EvidenceRepo_Append r e = Inr ?r"
    using f by (simp add: EvidenceRepo_Append_def Let_def)
  with e have "recorder_appendToChain working_recorder r (Inr i) now k et facts (er_events r k) = Inr ?r"
    by (simp add: recorder_appendToChain_def working_recorder_def Let_def)
  then show thesis
    by (rule that [of _ e]) (simp_all add: f appendable_def)
qed

text \<open>The intent of the purchase is for an empty body; its transaction is as the checkout creates it.\<close>

definition sample_bought :: PurchaseIntent where
  "sample_bought = sample_paid_intent\<lparr>pi_requestBodyHash := hashBytes []\<rparr>"

definition sample_shop :: checkout_world where
  "sample_shop = sample_world\<lparr>cw_intents := \<lparr>pir_intents = [pi_intentID sample_paid_intent \<mapsto> sample_bought]\<rparr>\<rparr>"

abbreviation (input) sample_txn :: ID where "sample_txn \<equiv> ''txn_01ARZ3NDEKTSV4RRFFQ69G5FAV''"

definition sample_bought_params :: TransactionParams where
  "sample_bought_params =
     \<lparr>tp_TransactionID = sample_txn, tp_IntentID = ''int_01ARZ3NDEKTSV4RRFFQ69G5FAV'',
      tp_SellerID = ''sel_01ARZ3NDEKTSV4RRFFQ69G5FAV'', tp_RouteID = ''rte_01ARZ3NDEKTSV4RRFFQ69G5FAV'',
      tp_BuyerID = ''agent-7'', tp_PurchaseSessionID = [], tp_ProductDisplayName = ''Market report'',
      tp_ProductSlug = ''market-report'', tp_PaymentDestinationID = ''dst_1'',
      tp_PurchaseChannel = PurchaseChannelAgent, tp_PaymentRail = PaymentRailX402, tp_ActivityMode = ActivityModeTest,
      tp_CheckoutExpiresAt = 2000, tp_Amount = Amount ''100'', tp_Asset = ''USDC'', tp_Network = ''eip155:84532'',
      tp_CreatedAt = 1500\<rparr>"

definition sample_awaiting :: Transaction where
  "sample_awaiting =
     \<lparr>tx_transactionID = sample_txn, tx_intentID = ''int_01ARZ3NDEKTSV4RRFFQ69G5FAV'',
      tx_sellerID = ''sel_01ARZ3NDEKTSV4RRFFQ69G5FAV'', tx_routeID = ''rte_01ARZ3NDEKTSV4RRFFQ69G5FAV'',
      tx_buyerID = ''agent-7'', tx_purchaseSessionID = [], tx_productDisplayName = ''Market report'',
      tx_productSlug = ''market-report'', tx_paymentDestinationID = ''dst_1'',
      tx_purchaseChannel = PurchaseChannelAgent, tx_paymentRail = PaymentRailX402, tx_activityMode = ActivityModeTest,
      tx_checkoutExpiresAt = 2000, tx_amount = Amount ''100'', tx_asset = ''USDC'', tx_network = ''eip155:84532'',
      tx_status = StatusPaymentRequired, tx_paymentIdentifier = [], tx_paymentProofHash = [],
      tx_paymentReference = [], tx_paymentFinality = PaymentFinalityUnset, tx_reconciledAt = None,
      tx_upstreamStatus = None, tx_responseHash = None, tx_responseSummary = None, tx_failureCode = [],
      tx_recoveryRequestBodyHash = [], tx_fulfillmentAttempts = 0, tx_retrySafe = False, tx_createdAt = 1500,
      tx_updatedAt = 1500, tx_version = 2\<rparr>"

definition sample_resolved :: ResolvedPaidRoute where
  "sample_resolved =
     \<lparr>rv_Seller = sample_paid_seller, rv_Route = sample_route, rv_PurchaseIntent = claimed_of sample_bought,
      rv_Requirements = requirements_of sample_paid_service sample_paid_seller sample_route (claimed_of sample_bought)\<rparr>"

definition sample_checkout_service :: checkout_service where
  "sample_checkout_service =
     \<lparr>ks_library = sample_library,
      ks_engines = \<lparr>se_regexp = \<lambda>_. None, se_mailAddress = \<lambda>_. None, se_absoluteURI = \<lambda>_. None\<rparr>,
      ks_equalFold = (=), ks_resolver = sample_paid_service, ks_commerce = None, ks_browser = True\<rparr>"

text \<open>The adapter knows one proof, for 100 units to the payee of the route, and settles it as payment \<open>pay-1\<close>.\<close>

definition sample_checkout_call :: checkout_call where
  "sample_checkout_call =
     \<lparr>kc_challenge = (\<lambda>r. Inr \<lparr>ch_Requirements = r, ch_Header = ''e30=''\<rparr>),
      kc_verify = (\<lambda>proof r. if proof = ''cHJvb2Y='' \<and> rq_Amount r = Amount ''100'' \<and> rq_PayTo r = pr_PayTo sample_route
         then Inr \<lparr>vf_Valid = True, vf_PaymentIdentifier = ''pay-1'', vf_PayerAddress = ''0xabc''\<rparr>
         else Inl ErrPaymentRejected),
      kc_settle = (\<lambda>proof r. if proof = ''cHJvb2Y='' \<and> rq_Amount r = Amount ''100'' \<and> rq_PayTo r = pr_PayTo sample_route
         then Inr \<lparr>st_Settled = True, st_PaymentIdentifier = ''pay-1'', st_PaymentReference = ''0xsettled'',
                   st_ResponseHeader = ''e30='', st_PayerAddress = ''0xabc''\<rparr>
         else Inl ErrPaymentRejected),
      kc_recorder = working_recorder, kc_challengeEvent = (Inr ''evt_01ARZ3NDEKTSV4RRFFQ69G5FAV'', 1500),
      kc_verificationEvent = (Inr ''evt_11ARZ3NDEKTSV4RRFFQ69G5FAV'', 1501),
      kc_execution =
        \<lparr>xc_recorder = Some working_recorder,
         xc_sign = (\<lambda>_ i. Inr \<lparr>sh_ExecutionCapability = ''cap'', sh_Signature = [], sh_Timestamp = [],
            sh_Transaction = si_TransactionID i\<rparr>),
         xc_forward = (\<lambda>_. Inl ErrUpstreamTimeout), xc_metering = False, xc_claimAt = 1503, xc_doneAt = 1504,
         xc_forwardingEvent = (Inr ''evt_21ARZ3NDEKTSV4RRFFQ69G5FAV'', 1503),
         xc_deliveryEvent = (Inr ''evt_31ARZ3NDEKTSV4RRFFQ69G5FAV'', 1504)\<rparr>,
      kc_resolve = sample_resolve_times, kc_browserClaim = sample_browser_call,
      kc_browserComplete = sample_browser_call,
      kc_createdAt = 1500, kc_verifiedAt = 1501, kc_settledAt = 1502, kc_retryAt = 1503\<rparr>"

definition sample_checkout_request :: CheckoutRequest where
  "sample_checkout_request =
     \<lparr>kq_PaidRoute = sample_paid_request, kq_PaymentProof = ''cHJvb2Y='', kq_Body = [], kq_ContentType = []\<rparr>"

lemma sample_bought_facts:
  "pi_intentID sample_bought = pi_intentID sample_paid_intent" "pi_status sample_bought = PurchaseIntentStatusReady"
  "pi_expiresAt sample_bought = 2000" "pi_createdAt sample_bought = 1000" "\<not> pi_requiresApproval sample_bought"
  "pi_paymentDestinationID sample_bought = ''dst_1''" "pi_payTo sample_bought = pr_PayTo sample_route"
  "pi_amount sample_bought = Amount ''100''" "pi_requestBodyHash sample_bought = hashBytes []"
  by (simp_all add: sample_bought_def)

lemma sample_shop_resolves:
  "Resolve_PaidRoute sample_paid_service sample_resolve_times sample_paid_request sample_shop
   = (Inr sample_resolved, stored_intent (claimed_of sample_bought) sample_shop)"
  unfolding sample_resolved_def
proof (rule resolves_ready)
  show "paidRouteMatches sample_paid_request sample_paid_seller sample_route sample_bought"
    by (simp add: paidRouteMatches_def sample_bought_def sample_paid_request_def sample_paid_seller_def
        sample_paid_intent_def sample_route_def)
qed (simp_all add: sample_bought_facts sample_shop_def sample_resolve_times_def sample_paid_request_def offer_of_def
    sample_paid_service_def NewAuthorizedPaidRouteService_def sample_offer_def guard_run abind_run)

lemma sample_bought_created:
  "rbind (NewTransaction (cl_ulid sample_library) sample_bought_params) (\<lambda>t. RequirePayment t 1500) = Inr sample_awaiting"
  by code_simp

lemma sample_new_checkout:
  "new_checkout (cl_ulid sample_library) sample_resolved sample_txn 1500 = Inr sample_awaiting"
proof -
  have "\<not> HasPrefix (TrimSpace '' agent-7 '') ''browser:''"
    by code_simp
  then have "checkout_params sample_resolved sample_txn 1500 = sample_bought_params"
    by (simp add: checkout_params_def sample_resolved_def sample_bought_params_def sample_bought_def sample_paid_intent_def
        claimed_of_def sample_intent_def purchase_intent_def sample_params_def normalizePurchaseIdentity_def Let_def
        transactionPurchaseChannel_def sample_route_def sample_paid_seller_def)
  moreover have "\<not> pi_requiresApproval (rv_PurchaseIntent sample_resolved)"
    by (simp add: sample_resolved_def claimed_of_def sample_bought_facts)
  ultimately show ?thesis
    using sample_bought_created by (simp add: new_checkout_def)
qed

definition awaiting_transactions :: TransactionRepository where
  "awaiting_transactions = \<lparr>tr_transactions = [sample_txn \<mapsto> sample_awaiting], tr_paymentIdentifiers = Map.empty\<rparr>"

lemma sample_loads:
  assumes "xw_transactions w = NewTransactionRepository"
  shows "loadOrCreateTransaction sample_checkout_service sample_resolved 1500 w
    = (Inr sample_awaiting, w\<lparr>xw_transactions := awaiting_transactions\<rparr>)"
proof -
  have "pi_intentID (rv_PurchaseIntent sample_resolved) = ''int_01ARZ3NDEKTSV4RRFFQ69G5FAV''"
    by (simp add: sample_resolved_def claimed_of_def sample_bought_def sample_paid_intent_def sample_intent_def
        purchase_intent_def sample_params_def normalizePurchaseIdentity_def Let_def)
  moreover have "transactionIDForIntent (cl_ulid sample_library) ''int_01ARZ3NDEKTSV4RRFFQ69G5FAV'' = Inr sample_txn"
    by code_simp
  moreover have "cl_ulid (ks_library sample_checkout_service) = cl_ulid sample_library"
    by (simp add: sample_checkout_service_def)
  moreover have "TxRepo_Create NewTransactionRepository sample_awaiting = Inr awaiting_transactions"
    by (simp add: TxRepo_Create_def NewTransactionRepository_def sample_awaiting_def awaiting_transactions_def)
  ultimately show ?thesis
    using assms sample_new_checkout
    by (simp add: loadOrCreateTransaction_def action_simps TxRepo_Get_def NewTransactionRepository_def)
qed

text \<open>The payment of the transaction, step by step; \<open>h\<close> is the digest of the proof.\<close>

definition sample_verified :: "SHA256Digest \<Rightarrow> Transaction" where
  "sample_verified h =
     sample_awaiting\<lparr>tx_status := StatusPaymentVerified, tx_updatedAt := 1501, tx_version := 3,
       tx_paymentIdentifier := ''pay-1'', tx_paymentProofHash := h, tx_paymentFinality := PaymentFinalityConfirmed,
       tx_reconciledAt := Some 1501\<rparr>"

definition sample_final :: "SHA256Digest \<Rightarrow> Transaction" where
  "sample_final h =
     (sample_verified h)\<lparr>tx_paymentReference := ''0xsettled'', tx_paymentFinality := PaymentFinalityFinalized,
       tx_reconciledAt := Some 1502, tx_updatedAt := 1502, tx_version := 4\<rparr>"

lemma sample_texts:
  "TrimSpace ''pay-1'' = ''pay-1''" "validatePaymentReference ''0xsettled'' True = Inr ()"
  "TrimSpace ''0xsettled'' = ''0xsettled''" "TrimSpace ''cHJvb2Y='' = ''cHJvb2Y=''"
  by code_simp+

lemma sample_verifies:
  "sha256_digest h \<Longrightarrow> VerifyPayment sample_awaiting ''pay-1'' h 1501 = Inr (sample_verified h)"
  by (simp add: VerifyPayment_def transition_def validateMutationTime_def Timestamp_Before_def sample_texts
      sample_awaiting_def sample_verified_def)

lemma sample_finalizes: "FinalizePayment (sample_verified h) ''pay-1'' ''0xsettled'' 1502 = Inr (sample_final h)"
  by (simp add: FinalizePayment_def validateMutationTime_def Timestamp_Before_def sample_texts
      sample_awaiting_def sample_verified_def sample_final_def)

definition paid_transactions :: "Transaction \<Rightarrow> TransactionRepository" where
  "paid_transactions t = \<lparr>tr_transactions = [sample_txn \<mapsto> t], tr_paymentIdentifiers = [''pay-1'' \<mapsto> sample_txn]\<rparr>"

lemma sample_updates:
  "TxRepo_Update awaiting_transactions (sample_verified h) 2 = Inr (paid_transactions (sample_verified h))"
  "TxRepo_Update (paid_transactions (sample_verified h)) (sample_final h) 3 = Inr (paid_transactions (sample_final h))"
  by (simp_all add: TxRepo_Update_def awaiting_transactions_def paid_transactions_def sample_final_def sample_verified_def
      sample_awaiting_def Let_def)

lemma sample_claims:
  "\<exists>t. ClaimForwarding (paid_transactions (sample_final h)) sample_txn 4 1503
     = Inr (t, True, paid_transactions t) \<and> tx_transactionID t = sample_txn"
  by (simp add: ClaimForwarding_def MarkForwarded_def transition_def validateMutationTime_def Timestamp_Before_def
      paid_transactions_def sample_final_def sample_verified_def sample_awaiting_def)

text \<open>Execution dispatches once it has won the claim, recorded it and signed the request.\<close>

lemma Proxy_Execute_dispatches:
  assumes "tx_sellerID t = se_SellerID seller" "tx_routeID t = pr_RouteID route" "pr_SellerID route = se_SellerID seller"
    and "tx_recoveryRequestBodyHash t = []"
    and "ClaimForwarding (xw_transactions w) (tx_transactionID t) (tx_version t) (xc_claimAt c) = Inr (claimed, True, R)"
    and "xc_recorder c = Some rd"
    and "RecordProxyForwarding rd (xw_evidence w) (fst (xc_forwardingEvent c)) (snd (xc_forwardingEvent c))
      (tx_transactionID claimed) \<lparr>pf_SellerID = se_SellerID seller, pf_RouteID = pr_RouteID route,
        pf_Method = RouteMethod_wire meth, pf_Path = path\<rparr> = Inr E"
    and "\<And>i. is_ok (xc_sign c (se_SigningSecretRef seller) i)"
  shows "\<exists>fr. xw_dispatched (snd (Proxy_Execute lib c
    \<lparr>ex_Transaction = t, ex_Seller = seller, ex_Route = route, ex_Method = meth, ex_Path = path, ex_Body = body,
     ex_ContentType = ct\<rparr> w)) = xw_dispatched w @ [fr]"
proof -
  obtain sign where "xc_sign c (se_SigningSecretRef seller)
      \<lparr>si_TransactionID = tx_transactionID claimed, si_SellerID = tx_sellerID claimed,
       si_RouteID = tx_routeID claimed, si_Method = meth, si_Path = path, si_Body = body,
       si_PaymentFinality = tx_paymentFinality claimed\<rparr> = Inr sign"
    using assms(8) [of "\<lparr>si_TransactionID = tx_transactionID claimed, si_SellerID = tx_sellerID claimed,
       si_RouteID = tx_routeID claimed, si_Method = meth, si_Path = path, si_Body = body,
       si_PaymentFinality = tx_paymentFinality claimed\<rparr>"]
    by (auto simp: is_ok_def split: sum.split_asm)
  with assms(1-7) show ?thesis
    by (simp add: Proxy_Execute_def claiming_def recording_event_def dispatching_def action_simps split: sum.split)
qed

lemma sample_execution:
  assumes "xw_transactions w = paid_transactions (sample_final h)"
    and "appendable (er_events (xw_evidence w) sample_txn) sample_txn 1503"
  shows "\<exists>fr. xw_dispatched (snd (executeFinalized sample_checkout_service sample_checkout_call sample_checkout_request
    sample_resolved (sample_final h) header payer w)) = xw_dispatched w @ [fr]"
proof -
  let ?c = "kc_execution sample_checkout_call"
  have valid: "is_ok (ParseID (cl_ulid sample_library) ''evt_21ARZ3NDEKTSV4RRFFQ69G5FAV'' EvidenceIDPrefix)"
      "is_ok (ParseID (cl_ulid sample_library) sample_txn TransactionIDPrefix)" "validEventType EventProxyForwarded"
    by code_simp+
  obtain t where t: "ClaimForwarding (paid_transactions (sample_final h)) sample_txn 4 1503
      = Inr (t, True, paid_transactions t)" "tx_transactionID t = sample_txn"
    using sample_claims by blast
  have fields: "tx_sellerID (sample_final h) = se_SellerID sample_paid_seller"
      "tx_routeID (sample_final h) = pr_RouteID sample_route" "pr_SellerID sample_route = se_SellerID sample_paid_seller"
      "tx_recoveryRequestBodyHash (sample_final h) = []" "tx_transactionID (sample_final h) = sample_txn"
      "tx_version (sample_final h) = 4" "tx_purchaseChannel (sample_final h) = PurchaseChannelAgent"
    by (simp_all add: sample_final_def sample_verified_def sample_awaiting_def sample_paid_seller_def sample_route_def)
  have call: "xc_claimAt ?c = 1503" "xc_recorder ?c = Some working_recorder"
      "xc_forwardingEvent ?c = (Inr ''evt_21ARZ3NDEKTSV4RRFFQ69G5FAV'', 1503)" "\<And>r i. is_ok (xc_sign ?c r i)"
    by (simp_all add: sample_checkout_call_def)
  have resolved: "rv_Seller sample_resolved = sample_paid_seller" "rv_Route sample_resolved = sample_route"
    by (simp_all add: sample_resolved_def)
  obtain E where E: "recorder_appendToChain working_recorder (xw_evidence w) (Inr ''evt_21ARZ3NDEKTSV4RRFFQ69G5FAV'') 1503
      sample_txn EventProxyForwarded [(''method'', JString (RouteMethod_wire (pq_Method sample_paid_request))),
        (''path'', JString (pq_ProxyPath sample_paid_request)), (''routeId'', JString (pr_RouteID sample_route)),
        (''sellerId'', JString (se_SellerID sample_paid_seller))] (er_events (xw_evidence w) sample_txn) = Inr E"
    by (rule working_recorder_appends [OF assms(2) _ valid(3,1,2)]) auto
  have "RecordProxyForwarding working_recorder (xw_evidence w) (fst (xc_forwardingEvent ?c)) (snd (xc_forwardingEvent ?c))
      (tx_transactionID t) \<lparr>pf_SellerID = se_SellerID sample_paid_seller, pf_RouteID = pr_RouteID sample_route,
        pf_Method = RouteMethod_wire (pq_Method sample_paid_request), pf_Path = pq_ProxyPath sample_paid_request\<rparr> = Inr E"
    using E by (simp add: RecordProxyForwarding_def recorder_append_def ListByTransaction_def call t(2))
  from Proxy_Execute_dispatches [where body = "[]" and ct = "[]" and lib = "ks_library sample_checkout_service",
      OF fields(1-4) _ call(2) this call(4)]
  show ?thesis
    using t(1) fields call assms(1)
    by (auto simp: executeFinalized_def completeBrowserPurchase_def action_simps resolved sample_checkout_request_def
        split: sum.split)
qed

lemma sample_pays:
  assumes "xw_transactions w = awaiting_transactions" "er_events (xw_evidence w) sample_txn = [e]"
    and "ev_EventType e = EventPaymentChallenged" "appendable [e] sample_txn 1501" "sha256_digest h"
  shows "\<exists>fr. xw_dispatched (snd (pay sample_checkout_service sample_checkout_call sample_checkout_request
    sample_resolved sample_awaiting h w)) = xw_dispatched w @ [fr]"
proof -
  have valid: "is_ok (ParseID (cl_ulid sample_library) ''evt_11ARZ3NDEKTSV4RRFFQ69G5FAV'' EvidenceIDPrefix)"
      "is_ok (ParseID (cl_ulid sample_library) sample_txn TransactionIDPrefix)" "validEventType EventPaymentVerified"
    by code_simp+
  let ?facts = "[(''paymentIdentifier'', JString ''pay-1''), (''paymentProofHash'', JString h)]"
  obtain e1 E where E: "recorder_appendToChain working_recorder (xw_evidence w) (Inr ''evt_11ARZ3NDEKTSV4RRFFQ69G5FAV'')
      1501 sample_txn EventPaymentVerified ?facts (er_events (xw_evidence w) sample_txn) = Inr E"
      "appendable (er_events E sample_txn) sample_txn 1503"
    by (rule working_recorder_appends [where r = "xw_evidence w" and now = 1501 and facts = ?facts, OF _ _ valid(3,1,2)])
      (use assms(2,4) in auto)
  have recorded: "RecordPaymentVerification working_recorder (xw_evidence w) (Inr ''evt_11ARZ3NDEKTSV4RRFFQ69G5FAV'') 1501
      sample_txn \<lparr>pv_PaymentIdentifier = ''pay-1'', pv_PaymentProofHash = h\<rparr> = Inr E"
    using E(1) assms(2,3) by (simp add: RecordPaymentVerification_def appendOnce_def ListByTransaction_def)
  have requirements: "rq_Amount (rv_Requirements sample_resolved) = Amount ''100''"
      "rq_PayTo (rv_Requirements sample_resolved) = pr_PayTo sample_route"
    by (simp_all add: sample_resolved_def requirements_of_def claimed_of_def sample_bought_facts)
  have awaiting: "tx_paymentIdentifier sample_awaiting = []" "tx_version sample_awaiting = 2"
      "tx_transactionID (sample_verified h) = sample_txn" "tx_version (sample_verified h) = 3"
    by (simp_all add: sample_awaiting_def sample_verified_def)
  have call: "kc_verifiedAt sample_checkout_call = 1501" "kc_settledAt sample_checkout_call = 1502"
      "kc_recorder sample_checkout_call = working_recorder"
      "kc_verificationEvent sample_checkout_call = (Inr ''evt_11ARZ3NDEKTSV4RRFFQ69G5FAV'', 1501)"
      "kc_verify sample_checkout_call ''cHJvb2Y='' (rv_Requirements sample_resolved)
        = Inr \<lparr>vf_Valid = True, vf_PaymentIdentifier = ''pay-1'', vf_PayerAddress = ''0xabc''\<rparr>"
      "kc_settle sample_checkout_call ''cHJvb2Y='' (rv_Requirements sample_resolved)
        = Inr \<lparr>st_Settled = True, st_PaymentIdentifier = ''pay-1'', st_PaymentReference = ''0xsettled'',
               st_ResponseHeader = ''e30='', st_PayerAddress = ''0xabc''\<rparr>"
      "ks_commerce sample_checkout_service = None" "ks_equalFold sample_checkout_service = (=)"
      "kq_PaymentProof sample_checkout_request = ''cHJvb2Y=''"
    by (simp_all add: sample_checkout_call_def requirements sample_checkout_service_def sample_checkout_request_def)
  let ?w = "w\<lparr>xw_evidence := E, xw_transactions := paid_transactions (sample_final h)\<rparr>"
  have step: "pay sample_checkout_service sample_checkout_call sample_checkout_request sample_resolved sample_awaiting h w
    = executeFinalized sample_checkout_service sample_checkout_call sample_checkout_request sample_resolved (sample_final h)
        ''e30='' (firstNonEmpty [''0xabc'', ''0xabc'']) ?w"
    using assms(1)
    by (simp add: pay_def Let_def awaiting authorizeCommerce_def call verify_payment_def abind_run attempt_run
        updating_tx_def writing_run sample_verifies [OF assms(5)] sample_updates settle_and_execute_def
        recording_event_def recorded settlement_verdict_def sample_finalizes)
  show ?thesis
    using sample_execution [of ?w h "''e30=''" "firstNonEmpty [''0xabc'', ''0xabc'']"] E(2) by (simp add: step)
qed

lemma sample_checkout_dispatches:
  "\<exists>fr. xw_dispatched (snd (Checkout_Execute sample_checkout_service sample_checkout_call sample_checkout_request
     sample_shop)) = [fr]"
proof -
  let ?u = "stored_intent (claimed_of sample_bought) sample_shop"
  have u: "xw_transactions ?u = NewTransactionRepository" "xw_evidence ?u = NewEvidenceRepository" "xw_dispatched ?u = []"
    by (simp_all add: stored_intent_def sample_shop_def sample_world_def)
  let ?v = "?u\<lparr>xw_transactions := awaiting_transactions\<rparr>"
  have svc: "ks_resolver sample_checkout_service = sample_paid_service" "kc_resolve sample_checkout_call = sample_resolve_times"
      "kq_PaidRoute sample_checkout_request = sample_paid_request" "kq_Body sample_checkout_request = []"
      "kq_ContentType sample_checkout_request = []" "kq_PaymentProof sample_checkout_request = ''cHJvb2Y=''"
      "kc_createdAt sample_checkout_call = 1500" "kc_recorder sample_checkout_call = working_recorder"
      "kc_challengeEvent sample_checkout_call = (Inr ''evt_01ARZ3NDEKTSV4RRFFQ69G5FAV'', 1500)"
    by (simp_all add: sample_checkout_service_def sample_checkout_call_def sample_checkout_request_def)
  have body: "hashRequestBody mt jcs [] [] = Inr (hashBytes [])"
      "pi_requestBodyHash (rv_PurchaseIntent sample_resolved) = hashBytes []" for mt jcs
    by (simp_all add: hashRequestBody_def sample_resolved_def claimed_of_def sample_bought_facts)
  have schema: "schema_issues sample_checkout_service sample_checkout_request sample_resolved = []"
  proof -
    have "ValidateJSONAgainstSchema \<lparr>se_regexp = \<lambda>_. None, se_mailAddress = \<lambda>_. None, se_absoluteURI = \<lambda>_. None\<rparr>
        DefaultClosedObjectSchema [] [] = []"
      by code_simp
    then show ?thesis
      by (simp add: schema_issues_def sample_checkout_service_def sample_checkout_request_def sample_resolved_def
          sample_route_def)
  qed
  have valid: "is_ok (ParseID (cl_ulid sample_library) ''evt_01ARZ3NDEKTSV4RRFFQ69G5FAV'' EvidenceIDPrefix)"
      "is_ok (ParseID (cl_ulid sample_library) sample_txn TransactionIDPrefix)" "validEventType EventPaymentChallenged"
    by code_simp+
  let ?req = "rv_Requirements sample_resolved"
  let ?facts = "[(''amount'', JString (Amount_String (rq_Amount ?req))), (''asset'', JString (rq_Asset ?req)),
    (''network'', JString (rq_Network ?req))]"
  have start: "appendable (er_events NewEvidenceRepository sample_txn) sample_txn 1500"
    by (simp add: NewEvidenceRepository_def appendable_def)
  obtain e E where E: "recorder_appendToChain working_recorder NewEvidenceRepository (Inr ''evt_01ARZ3NDEKTSV4RRFFQ69G5FAV'')
      1500 sample_txn EventPaymentChallenged ?facts (er_events NewEvidenceRepository sample_txn) = Inr E"
      "er_events E sample_txn = er_events NewEvidenceRepository sample_txn @ [e]" "ev_EventType e = EventPaymentChallenged"
      "\<forall>later\<ge>1500. appendable (er_events E sample_txn) sample_txn later"
    by (rule working_recorder_appends [where facts = ?facts, OF start _ valid(3,1,2)]) (simp, rule that)
  have recorded: "RecordPaymentChallenge working_recorder NewEvidenceRepository (Inr ''evt_01ARZ3NDEKTSV4RRFFQ69G5FAV'') 1500
      sample_txn \<lparr>pc_Amount = Amount_String (rq_Amount ?req), pc_Asset = rq_Asset ?req, pc_Network = rq_Network ?req\<rparr> = Inr E"
    using E(1) by (simp add: RecordPaymentChallenge_def appendOnce_def ListByTransaction_def NewEvidenceRepository_def)
  let ?h = "hashBytes ''cHJvb2Y=''"
  have proofHash: "paymentProofHash ''cHJvb2Y='' = Inr ?h"
    using hashBytes_digest [of "''cHJvb2Y=''"] by (simp add: paymentProofHash_def ParseSHA256Digest_def hashBytes_def)
  have awaiting: "tx_transactionID sample_awaiting = sample_txn" "tx_purchaseChannel sample_awaiting = PurchaseChannelAgent"
    by (simp_all add: sample_awaiting_def)
  have "checkout_body sample_checkout_service sample_checkout_call sample_checkout_request sample_resolved ?u
    = pay sample_checkout_service sample_checkout_call sample_checkout_request sample_resolved sample_awaiting ?h
        (?v\<lparr>xw_evidence := E\<rparr>)"
    using sample_loads [OF u(1)]
    by (simp add: checkout_body_def abind_run svc claimBrowserTransaction_def awaiting recording_event_def writing_run
        recorded u(2) sample_texts proofHash)
  then have "Checkout_Execute sample_checkout_service sample_checkout_call sample_checkout_request sample_shop
    = pay sample_checkout_service sample_checkout_call sample_checkout_request sample_resolved sample_awaiting ?h
        (?v\<lparr>xw_evidence := E\<rparr>)"
    using Checkout_Execute_resolved [of sample_checkout_service sample_checkout_call sample_checkout_request sample_shop
        sample_resolved ?u "hashBytes []"] sample_shop_resolves body schema svc by simp
  then show ?thesis
    using sample_pays [of "?v\<lparr>xw_evidence := E\<rparr>" e ?h] E u(3) by (simp add: NewEvidenceRepository_def)
qed

text \<open>
  C1: one checkout call reaches the seller at most once, and only for what was bought and paid. If a
  request leaves, it is the request of the call, sent to the seller and route that match the stored
  intent, its body satisfies the input schema, the payment was required for the intent's price and payee,
  and one of these holds. (1) Its body has the digest the intent was created for, the transaction of the
  intent is new or awaits its first payment, the seller's entitlement allows verification and settlement,
  the adapter verified the proof for these requirements, and it settled the very payment it verified, from
  no other payer. (2) The body has that digest, the payment of the stored transaction is confirmed and not
  under review, the proof presented is the one it was paid with, and the adapter settled it now under the
  identifier on record. (3) The body has that digest and the stored transaction already was verified and
  finalized, under the same proof if one is presented. (4) The body is another one, the stored transaction is
  in the one state that allows a corrected retry, and the proof presented is the one it was paid with. In
  every other case nothing is sent: a transaction that is being delivered, was delivered or failed for good
  is never sent again.
\<close>

theorem seller_called_only_when_paid:
  assumes keyed: "keyed_intents w" "keyed_transactions w" and run: "Checkout_Execute svc c q w = (res, w')"
  shows "xw_dispatched w' = xw_dispatched w
    \<or> (\<exists>rv i k fr. xw_dispatched w' = xw_dispatched w @ [fr] \<and> sent_to q rv fr
        \<and> pir_intents (cw_intents w) (pq_IntentID (kq_PaidRoute q)) = Some i
        \<and> paidRouteMatches (kq_PaidRoute q) (rv_Seller rv) (rv_Route rv) i
        \<and> transactionIDForIntent (cl_ulid (ks_library svc)) (pi_intentID i) = Inr k
        \<and> rv_Requirements rv = requirements_of (ks_resolver svc) (rv_Seller rv) (rv_Route rv) (claimed_of i)
        \<and> schema_issues svc q rv = []
        \<and> (hashRequestBody (cl_parseMediaType (ks_library svc)) (cl_jcs (ks_library svc)) (kq_Body q) (kq_ContentType q)
             = Inr (pi_requestBodyHash i) \<and> paid_for svc c q rv w k
           \<or> hashRequestBody (cl_parseMediaType (ks_library svc)) (cl_jcs (ks_library svc)) (kq_Body q) (kq_ContentType q)
             \<noteq> Inr (pi_requestBodyHash i) \<and> corrected_for q w k))"
proof -
  obtain resolved u where resolve: "Resolve_PaidRoute (ks_resolver svc) (kc_resolve c) (kq_PaidRoute q) w = (resolved, u)"
    by (cases "Resolve_PaidRoute (ks_resolver svc) (kc_resolve c) (kq_PaidRoute q) w")
  have same: "xw_dispatched u = xw_dispatched w" "xw_transactions u = xw_transactions w"
    by (rule Resolve_PaidRoute_keeps [OF keyed(1) resolve])+
  show ?thesis
  proof (cases resolved)
    case (Inl e)
    then show ?thesis
      using run resolve same by (simp add: Checkout_Execute_def Let_def abind_run)
  next
    case (Inr rv)
    from Resolve_PaidRoute_ok [OF keyed(1) resolve [unfolded Inr]] obtain i where
      i: "pir_intents (cw_intents w) (pq_IntentID (kq_PaidRoute q)) = Some i"
        "paidRouteMatches (kq_PaidRoute q) (rv_Seller rv) (rv_Route rv) i" "rv_PurchaseIntent rv = claimed_of i"
        "rv_Requirements rv = requirements_of (ks_resolver svc) (rv_Seller rv) (rv_Route rv) (claimed_of i)" .
    have ids: "pi_intentID (rv_PurchaseIntent rv) = pi_intentID i" "pi_requestBodyHash (rv_PurchaseIntent rv) = pi_requestBodyHash i"
      by (simp_all add: i(3) claimed_of_def)
    have keyed_u: "keyed_transactions u"
      using keyed(2) same(2) by (simp add: keyed_transactions_def)
    have unchanged: "paid_for svc c q rv u k = paid_for svc c q rv w k" "corrected_for q u k = corrected_for q w k" for k
      by (simp_all add: paid_for_def corrected_for_def stored_tx_def same)
    show ?thesis
    proof (cases "hashRequestBody (cl_parseMediaType (ks_library svc)) (cl_jcs (ks_library svc)) (kq_Body q) (kq_ContentType q)")
      case (Inl e)
      then show ?thesis
        using run resolve Inr same by (simp add: Checkout_Execute_def Let_def abind_run)
    next
      case (Inr h)
      note exec = Checkout_Execute_resolved [OF resolve [unfolded \<open>resolved = Inr rv\<close>] Inr]
      show ?thesis
      proof (cases "h = pi_requestBodyHash i")
        case True
        then show ?thesis
          using run exec checkout_body_sends [OF keyed_u, of svc rv c q] same Inr i ids
          by (auto simp: sends_only_if_def unchanged split: if_split_asm)
      next
        case False
        then show ?thesis
          using run exec corrected_retry_sends [of svc q rv u c h] same Inr i ids
          by (auto simp: sends_only_if_def unchanged)
      qed
    qed
  qed
qed

theorem seller_called_only_when_paid_witness:
  "\<exists>fr rv. xw_dispatched (snd (Checkout_Execute sample_checkout_service sample_checkout_call sample_checkout_request
       sample_shop)) = [fr]
     \<and> sent_to sample_checkout_request rv fr
     \<and> verified_and_settled sample_checkout_service sample_checkout_call sample_checkout_request (rv_Requirements rv)
     \<and> rq_Amount (rv_Requirements rv) = Amount ''100''"
proof -
  let ?run = "Checkout_Execute sample_checkout_service sample_checkout_call sample_checkout_request sample_shop"
  obtain fr where sent: "xw_dispatched (snd ?run) = [fr]"
    using sample_checkout_dispatches by blast
  have keyed: "keyed_intents sample_shop" "keyed_transactions sample_shop" "xw_dispatched sample_shop = []"
      "xw_transactions sample_shop = NewTransactionRepository"
    by (simp_all add: keyed_intents_def keyed_transactions_def sample_shop_def sample_world_def NewTransactionRepository_def
        sample_bought_facts)
  have stored: "pir_intents (cw_intents sample_shop) k = Some i \<Longrightarrow> i = sample_bought" for k i
    by (simp add: sample_shop_def split: if_split_asm)
  have "\<exists>rv i k. sent_to sample_checkout_request rv fr \<and> i = sample_bought
      \<and> rv_Requirements rv = requirements_of (ks_resolver sample_checkout_service) (rv_Seller rv) (rv_Route rv) (claimed_of i)
      \<and> (paid_for sample_checkout_service sample_checkout_call sample_checkout_request rv sample_shop k
         \<or> corrected_for sample_checkout_request sample_shop k)"
    using seller_called_only_when_paid [OF keyed(1,2) surjective_pairing, of sample_checkout_service sample_checkout_call
        sample_checkout_request] sent stored
    unfolding keyed(3) by fastforce
  then show ?thesis
    using sent
    by (auto simp: paid_for_def corrected_for_def stored_tx_def keyed(4) NewTransactionRepository_def requirements_of_def
        claimed_of_def sample_bought_facts)
qed

text \<open>
  A second attempt with the body the intent was created for is refused as a replay unless the transaction
  still is verified: the corrected retry is the only way back from a failed dispatch.
\<close>

lemma same_body_retry_refused:
  assumes "tx_paymentIdentifier t \<noteq> []" "tx_status t \<noteq> StatusPaymentVerified"
  shows "pay svc c q rv t proofHash w = (Inl ErrPaymentReplay, w)"
  using assms by (simp add: pay_def paid_before_def Let_def guard_def pure_def)

end
