(* ===== verification/Disputes.thy ===== *)
theory Disputes
  imports Actions AuditLog CatalogStore Text
begin

text \<open>
  Disputes and manual refunds: \<open>internal/disputes/{models,service,remediation}.go\<close> with the dispute and
  refund repositories of \<open>internal/persistence/memory\<close>, over the transaction repository. The lemmas show
  what a classification rests on and that a refund is recorded at most once for a dispute, with the
  exact terms of a transaction whose delivery had failed.
\<close>

section \<open>Disputes\<close>

abbreviation "ErrDisputeAccess \<equiv> Err ''disputes.ErrDisputeAccess''"
abbreviation "ErrRefundNotAllowed \<equiv> Err ''disputes.ErrRefundNotAllowed''"
abbreviation "ErrRemediationConflict \<equiv> Err ''disputes.ErrRemediationConflict''"
abbreviation "ErrRemediationStateConflict \<equiv> Err ''disputes.ErrRemediationStateConflict''"
abbreviation "ErrRemediationAccess \<equiv> Err ''disputes.ErrRemediationAccess''"

abbreviation "RuleVersion \<equiv> ''dispute-rules-v1''"
abbreviation maximumStatementLength :: nat where "maximumStatementLength \<equiv> 2000"

datatype DisputeReason =
    ReasonUnauthorized
  | ReasonDuplicate
  | ReasonWrongAmount
  | ReasonNotDelivered
  | ReasonQualityOrOutput
  | DisputeReasonOther string

datatype DisputeStatus =
    DisputeOpen
  | DisputeRefundRecommended
  | DisputeSellerReview
  | DisputeDenied
  | DisputeResolved

record DisputeParams =
  dp_DisputeID :: ID
  dp_TransactionID :: ID
  dp_Reason :: DisputeReason
  dp_Statement :: string
  dp_CreatedAt :: instant

text \<open>\<open>None\<close> is the nil pointer of a fact that was not recorded.\<close>

record Facts =
  fa_AuthorizationValid :: "bool option"
  fa_DuplicatePayment :: "bool option"
  fa_ExpectedAmount :: "amount option"
  fa_PaidAmount :: "amount option"
  fa_DeliverySucceeded :: "bool option"

record Dispute =
  di_DisputeID :: ID
  di_TransactionID :: ID
  di_Reason :: DisputeReason
  di_Statement :: string
  di_Status :: DisputeStatus
  di_RuleVersion :: string
  di_ClassificationCode :: string
  di_Explanation :: string
  di_CreatedAt :: instant

record CreateDisputeRequest =
  cq_TransactionID :: ID
  cq_Reason :: DisputeReason
  cq_Statement :: string

definition validReason :: "DisputeReason \<Rightarrow> bool" where
  "validReason r \<longleftrightarrow> (case r of DisputeReasonOther _ \<Rightarrow> False | _ \<Rightarrow> True)"

definition disputeParamErrors :: "(string \<Rightarrow> bool) \<Rightarrow> DisputeParams \<Rightarrow> validation_error list" where
  "disputeParamErrors ulid p =
     add_if (\<not> is_ok (ParseID ulid (dp_DisputeID p) DisputeIDPrefix))
       (NewValidationError ''disputeId'' ''format'' ''must be a dispute identifier'')
     @ add_if (\<not> is_ok (ParseID ulid (dp_TransactionID p) TransactionIDPrefix))
       (NewValidationError ''transactionId'' ''format'' ''must be a transaction identifier'')
     @ add_if (\<not> validReason (dp_Reason p))
       (NewValidationError ''reason'' ''supported'' ''must use a documented dispute reason'')
     @ add_if (maximumStatementLength < RuneCount (dp_Statement p))
       (NewValidationError ''statement'' ''length'' ''must not exceed 2000 characters'')
     @ add_if (dp_CreatedAt p = 0) (NewValidationError ''createdAt'' ''required'' ''is required'')"

definition validateDisputeParams :: "(string \<Rightarrow> bool) \<Rightarrow> DisputeParams \<Rightarrow> unit result" where
  "validateDisputeParams ulid p =
     reject_if (disputeParamErrors ulid p \<noteq> []) (ValidationErrs (disputeParamErrors ulid p)) (Inr ())"

definition insufficientEvidence :: "DisputeStatus \<times> string \<times> string" where
  "insufficientEvidence = (DisputeSellerReview, ''insufficient_evidence'',
     ''Recorded evidence is insufficient for an automatic recommendation; seller review is required.'')"

text \<open>The last case is the panic of the source.\<close>

definition classify :: "DisputeReason \<Rightarrow> Facts \<Rightarrow> (DisputeStatus \<times> string \<times> string) result" where
  "classify reason f =
     (case reason of
        ReasonUnauthorized \<Rightarrow>
          Inr (case fa_AuthorizationValid f of
                 None \<Rightarrow> insufficientEvidence
               | Some valid \<Rightarrow>
                   if \<not> valid then (DisputeRefundRecommended, ''authorization_not_valid'',
                     ''Recorded authorization evidence is not valid; a refund is recommended.'')
                   else (DisputeDenied, ''authorization_valid'',
                     ''Recorded authorization evidence is valid, so the unauthorized claim is denied.''))
      | ReasonDuplicate \<Rightarrow>
          Inr (case fa_DuplicatePayment f of
                 None \<Rightarrow> insufficientEvidence
               | Some duplicate \<Rightarrow>
                   if duplicate then (DisputeRefundRecommended, ''duplicate_payment_confirmed'',
                     ''A duplicate payment was confirmed; a refund is recommended.'')
                   else (DisputeDenied, ''duplicate_payment_not_found'',
                     ''No duplicate payment was found, so the duplicate claim is denied.''))
      | ReasonWrongAmount \<Rightarrow>
          (case (fa_ExpectedAmount f, fa_PaidAmount f) of
             (Some expected, Some actual) \<Rightarrow>
               rbind (Amount_Compare expected actual) (\<lambda>n. Inr (
                   if n \<noteq> 0
                   then (DisputeRefundRecommended, ''wrong_amount_confirmed'',
                     ''The paid amount differs from the frozen intent amount; a refund is recommended.'')
                   else (DisputeDenied, ''amount_matches_intent'',
                     ''The paid amount matches the frozen intent amount, so the wrong-amount claim is denied.'')))
           | _ \<Rightarrow> Inr insufficientEvidence)
      | ReasonNotDelivered \<Rightarrow>
          Inr (case fa_DeliverySucceeded f of
                 None \<Rightarrow> insufficientEvidence
               | Some succeeded \<Rightarrow>
                   if \<not> succeeded then (DisputeRefundRecommended, ''delivery_not_confirmed'',
                     ''Successful seller delivery was not recorded; a refund is recommended.'')
                   else (DisputeDenied, ''delivery_confirmed'',
                     ''Successful seller delivery was recorded, so the non-delivery claim is denied.''))
      | ReasonQualityOrOutput \<Rightarrow>
          Inr (DisputeSellerReview, ''quality_review_required'',
            ''Output quality requires seller review and is not judged automatically.'')
      | DisputeReasonOther _ \<Rightarrow> Inl (Panic ''validated dispute reason reached classifier''))"

definition newDispute :: "DisputeParams \<Rightarrow> DisputeStatus \<times> string \<times> string \<Rightarrow> Dispute" where
  "newDispute p c =
     \<lparr>di_DisputeID = dp_DisputeID p, di_TransactionID = dp_TransactionID p, di_Reason = dp_Reason p,
      di_Statement = TrimSpace (dp_Statement p), di_Status = fst c, di_RuleVersion = RuleVersion,
      di_ClassificationCode = fst (snd c), di_Explanation = snd (snd c), di_CreatedAt = dp_CreatedAt p\<rparr>"

definition Classify :: "(string \<Rightarrow> bool) \<Rightarrow> DisputeParams \<Rightarrow> Facts \<Rightarrow> Dispute result" where
  "Classify ulid p f =
     rbind (validateDisputeParams ulid p) (\<lambda>_.
     rbind (classify (dp_Reason p) f) (\<lambda>c. Inr (newDispute p c)))"

definition factsFromTransaction :: "Transaction \<Rightarrow> Facts" where
  "factsFromTransaction t =
     (let paid = tx_paymentIdentifier t \<noteq> [] \<and> tx_paymentProofHash t \<noteq> []
      in \<lparr>fa_AuthorizationValid = (if paid then Some True else None),
          fa_DuplicatePayment = (if paid then Some False else None),
          fa_ExpectedAmount = (if paid then Some (tx_amount t) else None),
          fa_PaidAmount = (if paid then Some (tx_amount t) else None),
          fa_DeliverySucceeded =
            (case tx_status t of StatusFulfilled \<Rightarrow> Some True | StatusFailed \<Rightarrow> Some False | _ \<Rightarrow> None)\<rparr>)"

section \<open>Refund records\<close>

record RecordManualRefundRequest =
  rm_DisputeID :: ID
  rm_SellerID :: ID
  rm_Amount :: amount
  rm_Asset :: string
  rm_Network :: string
  rm_Reference :: string
  rm_RecordedBy :: string

record ManualRefundRecord =
  mr_DisputeID :: ID
  mr_TransactionID :: ID
  mr_SellerID :: ID
  mr_Amount :: amount
  mr_Asset :: string
  mr_Network :: string
  mr_Reference :: string
  mr_RecordedBy :: string
  mr_RecordedAt :: instant
  mr_VerificationState :: string

abbreviation "RefundVerificationSellerReported \<equiv> ''seller_reported''"
abbreviation maximumRefundReferenceLength :: nat where "maximumRefundReferenceLength \<equiv> 512"
abbreviation maximumRecordedByLength :: nat where "maximumRecordedByLength \<equiv> 256"

section \<open>Repositories\<close>

type_synonym DisputeRepository = "ID \<rightharpoonup> Dispute"
type_synonym ManualRefundRecordRepository = "ID \<rightharpoonup> ManualRefundRecord"

definition Dispute_Create :: "DisputeRepository \<Rightarrow> Dispute \<Rightarrow> DisputeRepository result" where
  "Dispute_Create r d =
     reject_if (r (di_DisputeID d) \<noteq> None) ErrAlreadyExists (Inr (r(di_DisputeID d \<mapsto> d)))"

definition Dispute_Get :: "DisputeRepository \<Rightarrow> ID \<Rightarrow> Dispute result" where
  "Dispute_Get r k = (case r k of None \<Rightarrow> Inl ErrNotFound | Some d \<Rightarrow> Inr d)"

text \<open>The stored record, whether this call stored it, and the repository afterwards.\<close>

definition Refund_SaveIfAbsent ::
  "ManualRefundRecordRepository \<Rightarrow> ManualRefundRecord \<Rightarrow> ManualRefundRecord \<times> bool \<times> ManualRefundRecordRepository" where
  "Refund_SaveIfAbsent r x =
     (case r (mr_DisputeID x) of
        Some stored \<Rightarrow> (stored, False, r)
      | None \<Rightarrow> (x, True, r(mr_DisputeID x \<mapsto> x)))"

definition Refund_Get :: "ManualRefundRecordRepository \<Rightarrow> ID \<Rightarrow> ManualRefundRecord result" where
  "Refund_Get r k = (case r k of None \<Rightarrow> Inl ErrNotFound | Some x \<Rightarrow> Inr x)"

section \<open>The services\<close>

record dispute_world =
  dw_transactions :: TransactionRepository
  dw_disputes :: DisputeRepository
  dw_refunds :: ManualRefundRecordRepository
  dw_catalog :: CatalogRepository
  dw_audit :: AuditEventRepository

record dispute_call =
  dk_ulid :: "string \<Rightarrow> bool"
  dk_now :: instant
  dk_id :: "ID result"
  dk_event :: "ID result \<times> instant"
  dk_requestID :: string

definition loading_tx :: "ID \<Rightarrow> (dispute_world, Transaction) action" where
  "loading_tx k = reading (\<lambda>w. TxRepo_Get (dw_transactions w) k)"

definition storing_tx :: "Transaction \<Rightarrow> u64 \<Rightarrow> (dispute_world, unit) action" where
  "storing_tx t v = writing (\<lambda>w. TxRepo_Update (dw_transactions w) t v) (\<lambda>r w. w\<lparr>dw_transactions := r\<rparr>)"

definition dispute_authorizeSeller :: "Transaction \<Rightarrow> string \<Rightarrow> (dispute_world, unit) action" where
  "dispute_authorizeSeller t sellerSubject =
     (if sellerSubject = [] then pure (Inr ())
      else attempt (reading (\<lambda>w. Catalog_GetSeller (dw_catalog w) (tx_sellerID t)))
        (\<lambda>_. pure (Inl ErrDisputeAccess))
        (\<lambda>seller. guard (se_OwnerSubject seller \<noteq> sellerSubject) ErrDisputeAccess (pure (Inr ()))))"

definition recommending_refund :: "dispute_call \<Rightarrow> Dispute \<Rightarrow> Transaction \<Rightarrow> (dispute_world, Dispute) action" where
  "recommending_refund c d opened =
     (if di_Status d = DisputeRefundRecommended then
        abind (pure (RecommendRefund opened (dk_now c))) (\<lambda>refunded.
        abind (storing_tx refunded (tx_version opened)) (\<lambda>_. pure (Inr d)))
      else pure (Inr d))"

definition Disputes_Create ::
  "dispute_call \<Rightarrow> CreateDisputeRequest \<Rightarrow> string \<Rightarrow> (dispute_world, Dispute) action" where
  "Disputes_Create c q sellerSubject =
     abind (loading_tx (cq_TransactionID q)) (\<lambda>t.
     abind (dispute_authorizeSeller t sellerSubject) (\<lambda>_.
     abind (pure (dk_id c)) (\<lambda>k.
     abind (pure (Classify (dk_ulid c)
       \<lparr>dp_DisputeID = k, dp_TransactionID = tx_transactionID t, dp_Reason = cq_Reason q,
        dp_Statement = cq_Statement q, dp_CreatedAt = dk_now c\<rparr> (factsFromTransaction t))) (\<lambda>d.
     abind (pure (OpenDispute t (dk_now c))) (\<lambda>opened.
     abind (storing_tx opened (tx_version t)) (\<lambda>_.
     abind (writing (\<lambda>w. Dispute_Create (dw_disputes w) d) (\<lambda>r w. w\<lparr>dw_disputes := r\<rparr>)) (\<lambda>_.
     recommending_refund c d opened)))))))"

definition Disputes_Get :: "ID \<Rightarrow> (dispute_world, Dispute) action" where
  "Disputes_Get k = reading (\<lambda>w. Dispute_Get (dw_disputes w) k)"

definition GetForSeller :: "ID \<Rightarrow> string \<Rightarrow> (dispute_world, Dispute) action" where
  "GetForSeller k sellerSubject =
     abind (Disputes_Get k) (\<lambda>d.
     abind (loading_tx (di_TransactionID d)) (\<lambda>t.
     abind (dispute_authorizeSeller t sellerSubject) (\<lambda>_. pure (Inr d))))"

definition with_verification :: "ManualRefundRecord \<Rightarrow> ManualRefundRecord" where
  "with_verification x =
     (if mr_VerificationState x = [] then x\<lparr>mr_VerificationState := RefundVerificationSellerReported\<rparr> else x)"

text \<open>The reference and its author are stored trimmed, and are not blank, too long or with control characters.\<close>

definition refund_text_ok :: "string \<Rightarrow> nat \<Rightarrow> bool" where
  "refund_text_ok s maximum \<longleftrightarrow> s \<noteq> [] \<and> length s \<le> maximum \<and> \<not> has_control s"

definition refund_record :: "dispute_call \<Rightarrow> Dispute \<Rightarrow> Transaction \<Rightarrow> RecordManualRefundRequest \<Rightarrow> ManualRefundRecord" where
  "refund_record c d t q =
     \<lparr>mr_DisputeID = di_DisputeID d, mr_TransactionID = tx_transactionID t, mr_SellerID = tx_sellerID t,
      mr_Amount = tx_amount t, mr_Asset = tx_asset t, mr_Network = tx_network t,
      mr_Reference = TrimSpace (rm_Reference q), mr_RecordedBy = TrimSpace (rm_RecordedBy q),
      mr_RecordedAt = dk_now c, mr_VerificationState = RefundVerificationSellerReported\<rparr>"

definition same_refund :: "ManualRefundRecord \<Rightarrow> ManualRefundRecord \<Rightarrow> bool result" where
  "same_refund x y =
     (if mr_DisputeID x = mr_DisputeID y \<and> mr_TransactionID x = mr_TransactionID y \<and> mr_SellerID x = mr_SellerID y
      then rbind (Amount_Compare (mr_Amount x) (mr_Amount y)) (\<lambda>n.
        Inr (n = 0 \<and> mr_Asset x = mr_Asset y \<and> mr_Network x = mr_Network y
             \<and> mr_Reference x = mr_Reference y \<and> mr_RecordedBy x = mr_RecordedBy y))
      else Inr False)"

definition saving_refund :: "ManualRefundRecord \<Rightarrow> (dispute_world, ManualRefundRecord \<times> bool) action" where
  "saving_refund x = (\<lambda>w. let (stored, created, r) = Refund_SaveIfAbsent (dw_refunds w) x
                          in (Inr (stored, created), w\<lparr>dw_refunds := r\<rparr>))"

definition refund_event :: "dispute_call \<Rightarrow> ID \<Rightarrow> string \<Rightarrow> ID \<Rightarrow> (dispute_world, unit) action" where
  "refund_event c sellerID recordedBy k =
     writing (\<lambda>w. Audit_Record (dk_ulid c) (dw_audit w) (fst (dk_event c)) (snd (dk_event c)) (dk_requestID c)
       \<lparr>rr_SellerID = sellerID, rr_ActorType = ActorTypeSellerUser, rr_ActorID = recordedBy,
        rr_Action = ActionManualRefundRecorded, rr_TargetType = TargetTypeDispute, rr_TargetID = k,
        rr_Outcome = OutcomeSucceeded, rr_RequestID = [],
        rr_ChangedFields = [''amount'', ''asset'', ''network'', ''reference'']\<rparr>) (\<lambda>a w. w\<lparr>dw_audit := a\<rparr>)"

definition RecordManualRefund ::
  "dispute_call \<Rightarrow> RecordManualRefundRequest \<Rightarrow> (dispute_world, ManualRefundRecord) action" where
  "RecordManualRefund c q =
     abind (Disputes_Get (rm_DisputeID q)) (\<lambda>d.
     abind (loading_tx (di_TransactionID d)) (\<lambda>t.
     guard (rm_SellerID q = [] \<or> tx_sellerID t \<noteq> rm_SellerID q) ErrRemediationAccess
    (guard (di_Status d \<noteq> DisputeRefundRecommended) ErrRemediationStateConflict
    (guard (tx_paymentFinality t \<noteq> PaymentFinalityFinalized) ErrRefundNotAllowed
    (abind (pure (Amount_Compare (rm_Amount q) (tx_amount t))) (\<lambda>compared.
     guard (compared \<noteq> 0
            \<or> TrimSpace (rm_Asset q) \<noteq> tx_asset t \<or> TrimSpace (rm_Network q) \<noteq> tx_network t) ErrRefundNotAllowed
    (guard (\<not> refund_text_ok (TrimSpace (rm_Reference q)) maximumRefundReferenceLength
            \<or> \<not> refund_text_ok (TrimSpace (rm_RecordedBy q)) maximumRecordedByLength) ErrRefundNotAllowed
    (let x = refund_record c d t q
     in abind (saving_refund x) (\<lambda>(stored, created).
        if created then
          abind (refund_event c (rm_SellerID q) (TrimSpace (rm_RecordedBy q)) (di_DisputeID d)) (\<lambda>_. pure (Inr x))
        else
          abind (pure (same_refund (with_verification stored) x)) (\<lambda>same.
          if same then pure (Inr (with_verification stored)) else pure (Inl ErrRemediationConflict)))))))))))"

definition GetManualRefund :: "ID \<Rightarrow> ID \<Rightarrow> (dispute_world, ManualRefundRecord) action" where
  "GetManualRefund k sellerID =
     abind (Disputes_Get k) (\<lambda>d.
     abind (loading_tx (di_TransactionID d)) (\<lambda>t.
     guard (sellerID = [] \<or> tx_sellerID t \<noteq> sellerID) ErrRemediationAccess
    (abind (reading (\<lambda>w. Refund_Get (dw_refunds w) k)) (\<lambda>x. pure (Inr (with_verification x))))))"

section \<open>What a recommendation rests on\<close>

lemma Amount_Compare_same: "Amount_Compare a a = Inr n \<Longrightarrow> n = 0"
  by (auto simp: Amount_Compare_def result_simps Cmp_def)

text \<open>
  The facts are read off the transaction, so of the three reasons that could lead to a refund only
  non-delivery does, and only for a transaction that failed.
\<close>

lemma classify_refund:
  assumes "classify reason (factsFromTransaction t) = Inr c" "fst c = DisputeRefundRecommended"
  shows "reason = ReasonNotDelivered" "tx_status t = StatusFailed" "fst (snd c) = ''delivery_not_confirmed''"
  using assms Amount_Compare_same [of "tx_amount t"]
  by (auto simp: classify_def factsFromTransaction_def insufficientEvidence_def Let_def result_simps
      split: DisputeReason.split_asm if_split_asm TransactionStatus.split_asm)

lemma Classify_ok:
  assumes "Classify ulid p (factsFromTransaction t) = Inr d"
  shows "di_DisputeID d = dp_DisputeID p" "di_TransactionID d = dp_TransactionID p" "di_Reason d = dp_Reason p"
    "di_Status d = DisputeRefundRecommended \<Longrightarrow> dp_Reason p = ReasonNotDelivered \<and> tx_status t = StatusFailed"
  using assms classify_refund [of "dp_Reason p" t]
  by (auto simp: Classify_def result_simps newDispute_def)

section \<open>Refund records\<close>

text \<open>
  The rest of the program changes transactions too, and creates new ones, but never the parties and the
  price of one (\<open>apply_op_terms\<close>).
\<close>

definition terms_kept :: "TransactionRepository \<Rightarrow> TransactionRepository \<Rightarrow> bool" where
  "terms_kept r r' \<longleftrightarrow>
     (\<forall>k t. tr_transactions r k = Some t \<longrightarrow> (\<exists>t'. tr_transactions r' k = Some t' \<and> tx_terms t' = tx_terms t))
     \<and> (\<forall>k t. tr_transactions r' k = Some t \<longrightarrow> tx_transactionID t = k)"

inductive dispute_reachable :: "dispute_world \<Rightarrow> bool" where
  start: "dw_disputes w = Map.empty \<Longrightarrow> dw_refunds w = Map.empty \<Longrightarrow>
    terms_kept (dw_transactions w) (dw_transactions w) \<Longrightarrow> dispute_reachable w"
| create: "dispute_reachable w \<Longrightarrow> Disputes_Create c q subject w = (res, w') \<Longrightarrow> dispute_reachable w'"
| refund: "dispute_reachable w \<Longrightarrow> RecordManualRefund c rq w = (rres, w') \<Longrightarrow> dispute_reachable w'"
| others: "dispute_reachable w \<Longrightarrow> terms_kept (dw_transactions w) r \<Longrightarrow>
    dispute_reachable (w\<lparr>dw_transactions := r, dw_catalog := cat, dw_audit := a\<rparr>)"

definition wf_dispute :: "TransactionRepository \<Rightarrow> ID \<Rightarrow> Dispute \<Rightarrow> bool" where
  "wf_dispute r k d \<longleftrightarrow>
     di_DisputeID d = k \<and> tr_transactions r (di_TransactionID d) \<noteq> None
     \<and> (di_Status d = DisputeRefundRecommended \<longrightarrow> di_Reason d = ReasonNotDelivered)"

text \<open>The record is for the stored dispute and repeats the terms of its transaction.\<close>

definition refund_justified :: "dispute_world \<Rightarrow> ID \<Rightarrow> ManualRefundRecord \<Rightarrow> bool" where
  "refund_justified w k x \<longleftrightarrow>
     (\<exists>d t. dw_disputes w k = Some d \<and> di_Status d = DisputeRefundRecommended \<and> di_Reason d = ReasonNotDelivered
        \<and> tr_transactions (dw_transactions w) (di_TransactionID d) = Some t
        \<and> mr_DisputeID x = k \<and> mr_TransactionID x = di_TransactionID d \<and> mr_SellerID x = tx_sellerID t
        \<and> mr_Amount x = tx_amount t \<and> mr_Asset x = tx_asset t \<and> mr_Network x = tx_network t
        \<and> refund_text_ok (mr_Reference x) maximumRefundReferenceLength
        \<and> refund_text_ok (mr_RecordedBy x) maximumRecordedByLength
        \<and> mr_VerificationState x = RefundVerificationSellerReported)"

definition wf_disputes :: "dispute_world \<Rightarrow> bool" where
  "wf_disputes w \<longleftrightarrow>
     (\<forall>k t. tr_transactions (dw_transactions w) k = Some t \<longrightarrow> tx_transactionID t = k)
     \<and> (\<forall>k d. dw_disputes w k = Some d \<longrightarrow> wf_dispute (dw_transactions w) k d)
     \<and> (\<forall>k x. dw_refunds w k = Some x \<longrightarrow> refund_justified w k x)"

lemma tx_terms_fields:
  "tx_terms t' = tx_terms t \<Longrightarrow> tx_sellerID t' = tx_sellerID t \<and> tx_amount t' = tx_amount t
     \<and> tx_asset t' = tx_asset t \<and> tx_network t' = tx_network t \<and> tx_transactionID t' = tx_transactionID t"
  by (simp add: tx_terms_def)

lemma terms_kept_stored:
  "terms_kept r r' \<Longrightarrow> tr_transactions r k = Some t \<Longrightarrow> \<exists>t'. tr_transactions r' k = Some t' \<and> tx_terms t' = tx_terms t"
  by (simp add: terms_kept_def)

lemma wf_dispute_kept: "wf_dispute r k d \<Longrightarrow> terms_kept r r' \<Longrightarrow> wf_dispute r' k d"
  by (auto simp: wf_dispute_def dest!: terms_kept_stored)

lemma refund_justified_kept:
  assumes "refund_justified w k x" "terms_kept (dw_transactions w) (dw_transactions w')"
    "\<And>d. dw_disputes w k = Some d \<Longrightarrow> dw_disputes w' k = Some d"
  shows "refund_justified w' k x"
proof -
  from assms(1) obtain d' t where d: "dw_disputes w k = Some d'" "tr_transactions (dw_transactions w) (di_TransactionID d') = Some t"
    and rest: "di_Status d' = DisputeRefundRecommended \<and> di_Reason d' = ReasonNotDelivered
        \<and> mr_DisputeID x = k \<and> mr_TransactionID x = di_TransactionID d' \<and> mr_SellerID x = tx_sellerID t
        \<and> mr_Amount x = tx_amount t \<and> mr_Asset x = tx_asset t \<and> mr_Network x = tx_network t
        \<and> refund_text_ok (mr_Reference x) maximumRefundReferenceLength
        \<and> refund_text_ok (mr_RecordedBy x) maximumRecordedByLength
        \<and> mr_VerificationState x = RefundVerificationSellerReported"
    unfolding refund_justified_def by blast
  from terms_kept_stored [OF assms(2) d(2)] obtain t' where
    t': "tr_transactions (dw_transactions w') (di_TransactionID d') = Some t'" "tx_terms t' = tx_terms t"
    by blast
  show ?thesis
    unfolding refund_justified_def
    by (rule exI [of _ d'], rule exI [of _ t'])
      (use assms(3) [OF d(1)] rest t'(1) tx_terms_fields [OF t'(2)] in simp)
qed

lemma terms_keptI:
  assumes "\<And>k t. tr_transactions r k = Some t \<Longrightarrow> \<exists>t'. tr_transactions r' k = Some t' \<and> tx_terms t' = tx_terms t"
    "\<And>k t. tr_transactions r' k = Some t \<Longrightarrow> tx_transactionID t = k"
  shows "terms_kept r r'"
  using assms by (simp add: terms_kept_def)

lemma terms_kept_keyed: "terms_kept r r' \<Longrightarrow> tr_transactions r' k = Some t \<Longrightarrow> tx_transactionID t = k"
  by (simp add: terms_kept_def)

lemma terms_kept_update:
  assumes "terms_kept r r" "TxRepo_Update r t v = Inr r'" "tr_transactions r (tx_transactionID u) = Some u"
    "tx_terms t = tx_terms u"
  shows "terms_kept r r'"
proof (rule terms_keptI)
  have r': "tr_transactions r' = (tr_transactions r)(tx_transactionID t \<mapsto> t)"
    using tx_store.update_lookup [OF assms(2)] by simp
  have id: "tx_transactionID t = tx_transactionID u"
    using tx_terms_fields [OF assms(4)] by simp
  show "\<exists>t'. tr_transactions r' k = Some t' \<and> tx_terms t' = tx_terms x" if "tr_transactions r k = Some x" for k x
    using that assms(3,4) r' id by (cases "k = tx_transactionID t") auto
  show "tx_transactionID x = k" if "tr_transactions r' k = Some x" for k x
    using that r' terms_kept_keyed [OF assms(1), of k x] by (cases "k = tx_transactionID t") auto
qed

lemma terms_kept_trans:
  assumes "terms_kept r1 r2" "terms_kept r2 r3"
  shows "terms_kept r1 r3"
proof (rule terms_keptI)
  show "\<exists>t'. tr_transactions r3 k = Some t' \<and> tx_terms t' = tx_terms t" if "tr_transactions r1 k = Some t" for k t
  proof -
    from terms_kept_stored [OF assms(1) that] obtain t2 where t2: "tr_transactions r2 k = Some t2" "tx_terms t2 = tx_terms t"
      by blast
    from terms_kept_stored [OF assms(2) t2(1)] t2(2) show ?thesis
      by auto
  qed
  show "tx_transactionID t = k" if "tr_transactions r3 k = Some t" for k t
    using terms_kept_keyed [OF assms(2) that] .
qed

lemma terms_kept_refl: "terms_kept r r' \<Longrightarrow> terms_kept r' r'"
  by (simp add: terms_kept_def)

text \<open>A call that stores nothing but such changes, and one dispute as the classification made it.\<close>

definition dispute_progress :: "dispute_world \<Rightarrow> dispute_world \<Rightarrow> bool" where
  "dispute_progress w w' \<longleftrightarrow>
     terms_kept (dw_transactions w) (dw_transactions w') \<and> dw_refunds w' = dw_refunds w
     \<and> (dw_disputes w' = dw_disputes w
        \<or> (\<exists>d. dw_disputes w (di_DisputeID d) = None \<and> dw_disputes w' = (dw_disputes w)(di_DisputeID d \<mapsto> d)
              \<and> wf_dispute (dw_transactions w) (di_DisputeID d) d))"

lemma wf_disputes_progress:
  assumes "wf_disputes w" "dispute_progress w w'"
  shows "wf_disputes w'"
  unfolding wf_disputes_def
proof (intro conjI allI impI)
  have kept: "terms_kept (dw_transactions w) (dw_transactions w')"
    using assms(2) by (simp add: dispute_progress_def)
  show "tx_transactionID t = k" if "tr_transactions (dw_transactions w') k = Some t" for k t
    using kept that by (simp add: terms_kept_def)
  show "wf_dispute (dw_transactions w') k d" if "dw_disputes w' k = Some d" for k d
    using assms that wf_dispute_kept [OF _ kept]
    by (auto simp: wf_disputes_def dispute_progress_def split: if_split_asm)
  show "refund_justified w' k x" if "dw_refunds w' k = Some x" for k x
  proof (rule refund_justified_kept [OF _ kept])
    show "refund_justified w k x"
      using assms that by (simp add: wf_disputes_def dispute_progress_def)
    show "dw_disputes w' k = Some d" if "dw_disputes w k = Some d" for d
      using assms(2) that by (auto simp: dispute_progress_def)
  qed
qed

lemma dispute_authorizeSeller_keeps [simp]: "snd (dispute_authorizeSeller t s w) = w"
  by (simp add: dispute_authorizeSeller_def action_simps split: sum.split)

lemma progress_none: "terms_kept (dw_transactions w) (dw_transactions w) \<Longrightarrow> dispute_progress w w"
  by (simp add: dispute_progress_def)

lemma progress_tx: "terms_kept (dw_transactions w) r \<Longrightarrow> dispute_progress w (w\<lparr>dw_transactions := r\<rparr>)"
  by (simp add: dispute_progress_def)

lemma progress_dispute:
  assumes "terms_kept (dw_transactions w) r" "Dispute_Create (dw_disputes w) d = Inr ds"
    "wf_dispute (dw_transactions w) (di_DisputeID d) d"
  shows "dispute_progress w (w\<lparr>dw_transactions := r, dw_disputes := ds\<rparr>)"
    "dispute_progress w (w\<lparr>dw_disputes := ds, dw_transactions := r\<rparr>)"
  using assms by (auto simp: dispute_progress_def Dispute_Create_def result_simps)

lemma disputed_stored:
  assumes "terms_kept r r" "tr_transactions r k = Some t" "tx_terms u = tx_terms t" "TxRepo_Update r u v = Inr r'"
  shows "terms_kept r r'" "tr_transactions r' k = Some u"
proof -
  have k: "tx_transactionID t = k" "tx_transactionID u = k"
    using terms_kept_keyed [OF assms(1,2)] tx_terms_fields [OF assms(3)] by simp_all
  show "terms_kept r r'"
    by (rule terms_kept_update [OF assms(1,4) _ assms(3)]) (simp add: k assms(2))
  show "tr_transactions r' k = Some u"
    using tx_store.update_lookup [OF assms(4)] k by simp
qed

lemma disputed_terms: "OpenDispute t now = Inr u \<Longrightarrow> tx_terms u = tx_terms t"
  "RecommendRefund t now = Inr u \<Longrightarrow> tx_terms u = tx_terms t"
  by (auto simp: OpenDispute_def RecommendRefund_def transition_eq_Inr tx_terms_def)

lemma Disputes_Create_progress:
  assumes keyed: "terms_kept (dw_transactions w) (dw_transactions w)"
  shows "dispute_progress w (snd (Disputes_Create c q s w))"
proof (cases "tr_transactions (dw_transactions w) (cq_TransactionID q)")
  case None
  then show ?thesis
    using keyed by (simp add: Disputes_Create_def action_simps loading_tx_def TxRepo_Get_def progress_none)
next
  case (Some t)
  have opened: "terms_kept (dw_transactions w) r \<and> tr_transactions r (cq_TransactionID q) = Some u"
    if "OpenDispute t now = Inr u" "TxRepo_Update (dw_transactions w) u v = Inr r" for now u v r
    using disputed_stored [OF keyed Some disputed_terms(1) [OF that(1)] that(2)] by simp
  have refunded: "terms_kept (dw_transactions w) r'"
    if "OpenDispute t now = Inr u" "TxRepo_Update (dw_transactions w) u v = Inr r"
      "RecommendRefund u now = Inr u'" "TxRepo_Update r u' v' = Inr r'" for now u v r u' v' r'
  proof -
    note r = opened [OF that(1,2)]
    show ?thesis
      using disputed_stored [OF terms_kept_refl [OF conjunct1 [OF r]] conjunct2 [OF r] disputed_terms(2) [OF that(3)] that(4)]
        terms_kept_trans r by blast
  qed
  have wf: "wf_dispute (dw_transactions w) (di_DisputeID d) d"
    if "Classify (dk_ulid c) p (factsFromTransaction t) = Inr d" "dp_TransactionID p = tx_transactionID t" for p d
    using Classify_ok [OF that(1)] that(2) Some terms_kept_keyed [OF keyed Some] by (auto simp: wf_dispute_def)
  show ?thesis
    using Some keyed
    by (simp add: Disputes_Create_def recommending_refund_def action_simps loading_tx_def storing_tx_def TxRepo_Get_def
        split: sum.split)
      (auto intro!: progress_none progress_tx progress_dispute dest: opened refunded wf)
qed

text \<open>A refund call reads, and stores at most one new record, which is justified by what it read.\<close>

lemma RecordManualRefund_cases:
  assumes wf: "wf_disputes w" and run: "RecordManualRefund c q w = (res, w')"
  shows "dw_transactions w' = dw_transactions w \<and> dw_disputes w' = dw_disputes w
    \<and> (dw_refunds w' = dw_refunds w
         \<and> (\<forall>x. res = Inr x \<longrightarrow> (\<exists>y. dw_refunds w (rm_DisputeID q) = Some y \<and> x = with_verification y
              \<and> mr_SellerID y = rm_SellerID q))
       \<or> (\<exists>x. dw_refunds w (rm_DisputeID q) = None \<and> dw_refunds w' = (dw_refunds w)(rm_DisputeID q \<mapsto> x)
            \<and> refund_justified w (rm_DisputeID q) x \<and> mr_SellerID x = rm_SellerID q \<and> (res = Inr x \<or> \<not> is_ok res)))"
proof (cases "\<exists>d t. dw_disputes w (rm_DisputeID q) = Some d \<and> tr_transactions (dw_transactions w) (di_TransactionID d) = Some t
    \<and> tx_sellerID t = rm_SellerID q \<and> di_Status d = DisputeRefundRecommended
    \<and> Amount_Compare (rm_Amount q) (tx_amount t) = Inr 0
    \<and> TrimSpace (rm_Asset q) = tx_asset t \<and> TrimSpace (rm_Network q) = tx_network t
    \<and> refund_text_ok (TrimSpace (rm_Reference q)) maximumRefundReferenceLength
    \<and> refund_text_ok (TrimSpace (rm_RecordedBy q)) maximumRecordedByLength
    \<and> rm_SellerID q \<noteq> [] \<and> tx_paymentFinality t = PaymentFinalityFinalized")
  case False
  then show ?thesis
    using run
    by (auto simp: RecordManualRefund_def Disputes_Get_def Dispute_Get_def loading_tx_def TxRepo_Get_def action_simps Let_def
        split: option.split_asm sum.split_asm if_split_asm)
next
  case True
  then obtain d t where d: "dw_disputes w (rm_DisputeID q) = Some d"
    and t: "tr_transactions (dw_transactions w) (di_TransactionID d) = Some t"
    and ok: "tx_sellerID t = rm_SellerID q" "di_Status d = DisputeRefundRecommended"
      "Amount_Compare (rm_Amount q) (tx_amount t) = Inr 0"
      "TrimSpace (rm_Asset q) = tx_asset t" "TrimSpace (rm_Network q) = tx_network t"
      "refund_text_ok (TrimSpace (rm_Reference q)) maximumRefundReferenceLength"
      "refund_text_ok (TrimSpace (rm_RecordedBy q)) maximumRecordedByLength"
      "rm_SellerID q \<noteq> []" "tx_paymentFinality t = PaymentFinalityFinalized"
    by blast
  let ?x = "refund_record c d t q"
  have k: "di_DisputeID d = rm_DisputeID q" "di_Reason d = ReasonNotDelivered"
    using wf d ok(2) by (auto simp: wf_disputes_def wf_dispute_def)
  have id: "tx_transactionID t = di_TransactionID d"
    using wf t by (simp add: wf_disputes_def)
  have just: "refund_justified w (rm_DisputeID q) ?x"
    unfolding refund_justified_def
    by (rule exI [of _ d], rule exI [of _ t]) (simp add: d t ok k id refund_record_def)
  have reduced: "RecordManualRefund c q w =
    (let x = ?x
     in abind (saving_refund x) (\<lambda>(stored, created).
        if created then
          abind (refund_event c (rm_SellerID q) (TrimSpace (rm_RecordedBy q)) (di_DisputeID d)) (\<lambda>_. pure (Inr x))
        else
          abind (pure (same_refund (with_verification stored) x)) (\<lambda>same.
          if same then pure (Inr (with_verification stored)) else pure (Inl ErrRemediationConflict)))) w"
    using ok by (simp add: RecordManualRefund_def Disputes_Get_def Dispute_Get_def loading_tx_def TxRepo_Get_def
        abind_run d t guard_def)
  have xk: "mr_DisputeID ?x = rm_DisputeID q" "mr_SellerID ?x = rm_SellerID q"
    by (simp_all add: refund_record_def k ok)
  show ?thesis
  proof (cases "dw_refunds w (rm_DisputeID q)")
    case None
    then show ?thesis
      using run just
      by (simp add: reduced saving_refund_def Refund_SaveIfAbsent_def xk Let_def action_simps refund_event_def
          split: sum.split_asm) (auto simp: xk intro!: exI [of _ ?x])
  next
    case (Some y)
    moreover have "mr_SellerID y = rm_SellerID q" if "same_refund (with_verification y) ?x = Inr True"
      using that by (auto simp: same_refund_def with_verification_def xk split: if_split_asm)
    ultimately show ?thesis
      using run
      by (auto simp: reduced saving_refund_def Refund_SaveIfAbsent_def xk Let_def action_simps
          split: sum.split_asm if_split_asm)
  qed
qed

text \<open>A call that stores a refund or succeeds has found a recommended refund of a finalized payment.\<close>

definition refund_due :: "RecordManualRefundRequest \<Rightarrow> dispute_world \<Rightarrow> bool" where
  "refund_due q w \<longleftrightarrow>
     (\<exists>d t. dw_disputes w (rm_DisputeID q) = Some d \<and> di_Status d = DisputeRefundRecommended
        \<and> tr_transactions (dw_transactions w) (di_TransactionID d) = Some t \<and> tx_sellerID t = rm_SellerID q
        \<and> tx_paymentFinality t = PaymentFinalityFinalized)"

lemma RecordManualRefund_due:
  assumes "RecordManualRefund c q w = (res, w')" "dw_refunds w' \<noteq> dw_refunds w \<or> is_ok res"
  shows "refund_due q w"
proof (rule ccontr)
  assume "\<not> refund_due q w"
  with assms show False
    by (auto simp: RecordManualRefund_def Disputes_Get_def Dispute_Get_def loading_tx_def TxRepo_Get_def action_simps Let_def
        refund_due_def split: option.split_asm sum.split_asm if_split_asm)
qed

lemma wf_disputes_refund:
  assumes "wf_disputes w" "RecordManualRefund c q w = (res, w')"
  shows "wf_disputes w'"
  using RecordManualRefund_cases [OF assms] assms(1)
  by (auto simp: wf_disputes_def refund_justified_def split: if_split_asm)

lemma dispute_reachable_wf:
  assumes "dispute_reachable w"
  shows "wf_disputes w"
  using assms
proof induction
  case (start w)
  then show ?case
    by (simp add: wf_disputes_def terms_kept_def)
next
  case (create w c q subject res w')
  then have "terms_kept (dw_transactions w) (dw_transactions w)"
    by (simp add: wf_disputes_def terms_kept_def)
  from Disputes_Create_progress [OF this, of c q subject] create show ?case
    by (auto intro: wf_disputes_progress)
next
  case refund
  then show ?case
    by (blast intro: wf_disputes_refund)
next
  case (others w r a cat)
  then have "dispute_progress w (w\<lparr>dw_transactions := r, dw_catalog := cat, dw_audit := a\<rparr>)"
    by (simp add: dispute_progress_def)
  with others show ?case
    by (blast intro: wf_disputes_progress)
qed

section \<open>A sample dispute\<close>

definition sample_undelivered :: Transaction where
  "sample_undelivered =
     sample_tx\<lparr>tx_status := StatusFailed, tx_paymentFinality := PaymentFinalityFinalized,
       tx_sellerID := ''sel_01ARZ3NDEKTSV4RRFFQ69G5FAV'', tx_amount := Amount ''100'', tx_asset := ''USDC'',
       tx_network := ''eip155:84532'', tx_updatedAt := 1500, tx_version := 6\<rparr>"

definition sample_refunded :: Transaction where
  "sample_refunded =
     sample_undelivered\<lparr>tx_status := StatusRefundRecommended, tx_updatedAt := 2000, tx_version := 8\<rparr>"

definition sample_dispute_world :: dispute_world where
  "sample_dispute_world =
     \<lparr>dw_transactions = \<lparr>tr_transactions = [tx_transactionID sample_tx \<mapsto> sample_undelivered],
        tr_paymentIdentifiers = Map.empty\<rparr>,
      dw_disputes = Map.empty, dw_refunds = Map.empty, dw_catalog = NewCatalogRepository, dw_audit = \<lparr>aer_events = []\<rparr>\<rparr>"

definition sample_dispute_call :: dispute_call where
  "sample_dispute_call =
     \<lparr>dk_ulid = sample_audit_ulid, dk_now = 2000, dk_id = Inr ''dsp_01ARZ3NDEKTSV4RRFFQ69G5FAV'',
      dk_event = (Inr ''aud_1'', 3000), dk_requestID = ''req''\<rparr>"

definition sample_complaint :: CreateDisputeRequest where
  "sample_complaint =
     \<lparr>cq_TransactionID = tx_transactionID sample_tx, cq_Reason = ReasonNotDelivered, cq_Statement = []\<rparr>"

definition sample_dispute :: Dispute where
  "sample_dispute =
     \<lparr>di_DisputeID = ''dsp_01ARZ3NDEKTSV4RRFFQ69G5FAV'', di_TransactionID = tx_transactionID sample_tx,
      di_Reason = ReasonNotDelivered, di_Statement = [], di_Status = DisputeRefundRecommended,
      di_RuleVersion = RuleVersion, di_ClassificationCode = ''delivery_not_confirmed'',
      di_Explanation = ''Successful seller delivery was not recorded; a refund is recommended.'', di_CreatedAt = 2000\<rparr>"

definition sample_disputed_world :: dispute_world where
  "sample_disputed_world =
     sample_dispute_world\<lparr>dw_transactions := \<lparr>tr_transactions = [tx_transactionID sample_tx \<mapsto> sample_refunded],
        tr_paymentIdentifiers = Map.empty\<rparr>, dw_disputes := [di_DisputeID sample_dispute \<mapsto> sample_dispute]\<rparr>"

definition sample_refund_request :: RecordManualRefundRequest where
  "sample_refund_request =
     \<lparr>rm_DisputeID = di_DisputeID sample_dispute, rm_SellerID = ''sel_01ARZ3NDEKTSV4RRFFQ69G5FAV'',
      rm_Amount = Amount ''100'', rm_Asset = ''USDC'', rm_Network = ''eip155:84532'', rm_Reference = ''0xfeed'',
      rm_RecordedBy = ''owner''\<rparr>"

lemma sample_dispute_start: "dispute_reachable sample_dispute_world"
  by (rule dispute_reachable.start)
    (simp_all add: sample_dispute_world_def terms_kept_def sample_undelivered_def)

lemma sample_classified:
  "Classify sample_audit_ulid
     \<lparr>dp_DisputeID = ''dsp_01ARZ3NDEKTSV4RRFFQ69G5FAV'', dp_TransactionID = tx_transactionID sample_tx,
      dp_Reason = ReasonNotDelivered, dp_Statement = [], dp_CreatedAt = 2000\<rparr>
     (factsFromTransaction sample_undelivered) = Inr sample_dispute"
proof -
  have "is_ok (ParseID sample_audit_ulid ''dsp_01ARZ3NDEKTSV4RRFFQ69G5FAV'' DisputeIDPrefix)"
    "is_ok (ParseID sample_audit_ulid ''txn_01ARZ3NDEKTSV4RRFFQ69G5FAV'' TransactionIDPrefix)"
    by code_simp+
  then show ?thesis
    by (simp add: Classify_def validateDisputeParams_def disputeParamErrors_def sample_tx_fields validReason_def classify_def
        factsFromTransaction_def Let_def newDispute_def sample_dispute_def sample_undelivered_def)
qed

lemma sample_disputed:
  "Disputes_Create sample_dispute_call sample_complaint [] sample_dispute_world = (Inr sample_dispute, sample_disputed_world)"
proof -
  have status: "tx_status sample_undelivered = StatusFailed" "tx_updatedAt sample_undelivered = 1500"
    "tx_version sample_undelivered = 6" "tx_transactionID sample_undelivered = tx_transactionID sample_tx"
    "tx_paymentIdentifier sample_undelivered = []"
    by (simp_all add: sample_undelivered_def sample_tx_fields)
  then have refunded: "tx_version sample_refunded = 8" "tx_transactionID sample_refunded = tx_transactionID sample_tx"
    "tx_paymentIdentifier sample_refunded = []"
    by (simp_all add: sample_refunded_def)
  have dispute: "di_Status sample_dispute = DisputeRefundRecommended"
    by (simp add: sample_dispute_def)
  let ?open = "sample_undelivered\<lparr>tx_status := StatusDisputed, tx_updatedAt := 2000, tx_version := 7\<rparr>"
  have "OpenDispute sample_undelivered 2000 = Inr ?open"
    by (simp add: OpenDispute_def transition_eq_Inr status)
  moreover have "RecommendRefund ?open 2000 = Inr sample_refunded"
    by (simp add: RecommendRefund_def transition_eq_Inr sample_refunded_def)
  ultimately show ?thesis
    using sample_classified
    by (simp add: Disputes_Create_def recommending_refund_def action_simps loading_tx_def storing_tx_def TxRepo_Get_def
        TxRepo_Update_def Let_def dispute_authorizeSeller_def sample_complaint_def sample_dispute_call_def
        sample_dispute_world_def status refunded dispute Dispute_Create_def sample_disputed_world_def)
qed

section \<open>Properties\<close>

lemma dispute_authorizeSeller_ok:
  "dispute_authorizeSeller t subject w = (Inr u, w') \<longleftrightarrow>
     w' = w \<and> (subject \<noteq> [] \<longrightarrow> (\<exists>s. ca_sellers (dw_catalog w) (tx_sellerID t) = Some s \<and> se_OwnerSubject s = subject))"
  by (auto simp: dispute_authorizeSeller_def action_simps Catalog_GetSeller_def split: option.split)

lemma classify_recommends:
  assumes "classify ReasonNotDelivered (factsFromTransaction t) = Inr c" "tx_status t = StatusFailed"
  shows "fst c = DisputeRefundRecommended"
  using assms by (auto simp: classify_def factsFromTransaction_def Let_def)

lemma Classify_decides:
  assumes "Classify ulid p (factsFromTransaction t) = Inr d"
  shows "di_Status d = DisputeRefundRecommended \<longleftrightarrow> dp_Reason p = ReasonNotDelivered \<and> tx_status t = StatusFailed"
  using Classify_ok(4) [OF assms] assms classify_recommends
  by (auto simp: Classify_def result_simps newDispute_def)

text \<open>
  The verdict by the reason and what the transaction, fulfilled or failed, has on record: whether a payment
  is on record, and whether delivery failed.
\<close>

definition recorded_verdict :: "DisputeReason \<Rightarrow> Transaction \<Rightarrow> DisputeStatus \<times> string \<times> string" where
  "recorded_verdict reason t =
     (if reason = ReasonQualityOrOutput then
        (DisputeSellerReview, ''quality_review_required'',
         ''Output quality requires seller review and is not judged automatically.'')
      else if reason = ReasonNotDelivered \<and> tx_status t = StatusFailed then
        (DisputeRefundRecommended, ''delivery_not_confirmed'',
         ''Successful seller delivery was not recorded; a refund is recommended.'')
      else if reason = ReasonNotDelivered then
        (DisputeDenied, ''delivery_confirmed'',
         ''Successful seller delivery was recorded, so the non-delivery claim is denied.'')
      else if tx_paymentIdentifier t = [] \<or> tx_paymentProofHash t = [] then
        (DisputeSellerReview, ''insufficient_evidence'',
         ''Recorded evidence is insufficient for an automatic recommendation; seller review is required.'')
      else if reason = ReasonUnauthorized then
        (DisputeDenied, ''authorization_valid'',
         ''Recorded authorization evidence is valid, so the unauthorized claim is denied.'')
      else if reason = ReasonDuplicate then
        (DisputeDenied, ''duplicate_payment_not_found'',
         ''No duplicate payment was found, so the duplicate claim is denied.'')
      else
        (DisputeDenied, ''amount_matches_intent'',
         ''The paid amount matches the frozen intent amount, so the wrong-amount claim is denied.''))"

lemma facts_simps:
  "fa_AuthorizationValid (factsFromTransaction t) = (if tx_paymentIdentifier t = [] \<or> tx_paymentProofHash t = [] then None else Some True)"
  "fa_DuplicatePayment (factsFromTransaction t) = (if tx_paymentIdentifier t = [] \<or> tx_paymentProofHash t = [] then None else Some False)"
  "fa_ExpectedAmount (factsFromTransaction t) = (if tx_paymentIdentifier t = [] \<or> tx_paymentProofHash t = [] then None else Some (tx_amount t))"
  "fa_PaidAmount (factsFromTransaction t) = (if tx_paymentIdentifier t = [] \<or> tx_paymentProofHash t = [] then None else Some (tx_amount t))"
  "tx_status t = StatusFailed \<Longrightarrow> fa_DeliverySucceeded (factsFromTransaction t) = Some False"
  "tx_status t = StatusFulfilled \<Longrightarrow> fa_DeliverySucceeded (factsFromTransaction t) = Some True"
  by (simp_all add: factsFromTransaction_def Let_def)

lemma classify_recorded:
  assumes "classify reason (factsFromTransaction t) = Inr v" "tx_status t = StatusFulfilled \<or> tx_status t = StatusFailed"
  shows "v = recorded_verdict reason t"
proof (cases reason)
  case ReasonWrongAmount
  show ?thesis
  proof (cases "tx_paymentIdentifier t = [] \<or> tx_paymentProofHash t = []")
    case True
    with assms(1) ReasonWrongAmount show ?thesis
      by (auto simp: classify_def facts_simps recorded_verdict_def insufficientEvidence_def)
  next
    case False
    with assms(1) ReasonWrongAmount obtain n where n: "Amount_Compare (tx_amount t) (tx_amount t) = Inr n"
      by (auto simp: classify_def facts_simps rbind_eq_Inr)
    with Amount_Compare_same [OF this] assms(1) False ReasonWrongAmount show ?thesis
      by (simp add: classify_def facts_simps recorded_verdict_def)
  qed
next
  case ReasonNotDelivered
  from assms(2) show ?thesis
    using assms(1) ReasonNotDelivered by (elim disjE) (simp_all add: classify_def facts_simps recorded_verdict_def)
qed (use assms(1) in \<open>auto simp: classify_def facts_simps recorded_verdict_def insufficientEvidence_def
      split: if_split_asm\<close>)

lemma Classify_recorded:
  assumes "Classify ulid p (factsFromTransaction t) = Inr d" "tx_status t = StatusFulfilled \<or> tx_status t = StatusFailed"
  shows "validReason (dp_Reason p) \<and> d = newDispute p (recorded_verdict (dp_Reason p) t)"
  using assms(1) classify_recorded [OF _ assms(2), of "dp_Reason p"]
  by (auto simp: Classify_def validateDisputeParams_def disputeParamErrors_def result_simps)

text \<open>The dispute that a request leads to, with the verdict of the record.\<close>

definition dispute_of :: "dispute_call \<Rightarrow> CreateDisputeRequest \<Rightarrow> Transaction \<Rightarrow> ID \<Rightarrow> Dispute" where
  "dispute_of c q t k =
     \<lparr>di_DisputeID = k, di_TransactionID = cq_TransactionID q, di_Reason = cq_Reason q,
      di_Statement = TrimSpace (cq_Statement q), di_Status = fst (recorded_verdict (cq_Reason q) t),
      di_RuleVersion = ''dispute-rules-v1'', di_ClassificationCode = fst (snd (recorded_verdict (cq_Reason q) t)),
      di_Explanation = snd (snd (recorded_verdict (cq_Reason q) t)), di_CreatedAt = dk_now c\<rparr>"

lemma recommended_same: "recommending_refund c d opened w = (Inr d', w') \<Longrightarrow> d' = d"
  by (auto simp: recommending_refund_def action_ok split: if_split_asm)

lemma Disputes_Create_ok:
  assumes run: "Disputes_Create c q subject w = (Inr d, w')"
    and keyed: "terms_kept (dw_transactions w) (dw_transactions w)"
  shows "dw_disputes w (di_DisputeID d) = None \<and> dw_disputes w' = (dw_disputes w)(di_DisputeID d \<mapsto> d)
    \<and> (\<exists>t u. tr_transactions (dw_transactions w) (cq_TransactionID q) = Some t
        \<and> tr_transactions (dw_transactions w') (cq_TransactionID q) = Some u
        \<and> (tx_status t = StatusFulfilled \<or> tx_status t = StatusFailed)
        \<and> (subject \<noteq> [] \<longrightarrow> (\<exists>s. ca_sellers (dw_catalog w) (tx_sellerID t) = Some s \<and> se_OwnerSubject s = subject))
        \<and> dk_id c = Inr (di_DisputeID d) \<and> validReason (cq_Reason q) \<and> d = dispute_of c q t (di_DisputeID d)
        \<and> (di_Status d = DisputeRefundRecommended \<longleftrightarrow> cq_Reason q = ReasonNotDelivered \<and> tx_status t = StatusFailed)
        \<and> tx_status u = (if di_Status d = DisputeRefundRecommended then StatusRefundRecommended else StatusDisputed))"
proof -
  from run obtain t k d0 opened r ds where t: "tr_transactions (dw_transactions w) (cq_TransactionID q) = Some t"
    and auth: "subject \<noteq> [] \<longrightarrow> (\<exists>s. ca_sellers (dw_catalog w) (tx_sellerID t) = Some s \<and> se_OwnerSubject s = subject)"
    and d0: "Classify (dk_ulid c)
       \<lparr>dp_DisputeID = k, dp_TransactionID = tx_transactionID t, dp_Reason = cq_Reason q,
        dp_Statement = cq_Statement q, dp_CreatedAt = dk_now c\<rparr> (factsFromTransaction t) = Inr d0"
    and k: "dk_id c = Inr k"
    and opened: "OpenDispute t (dk_now c) = Inr opened" "TxRepo_Update (dw_transactions w) opened (tx_version t) = Inr r"
    and ds0: "Dispute_Create (dw_disputes w) d0 = Inr ds"
    and last0: "recommending_refund c d0 opened (w\<lparr>dw_transactions := r, dw_disputes := ds\<rparr>) = (Inr d, w')"
    by (clarsimp simp: Disputes_Create_def action_ok loading_tx_def storing_tx_def TxRepo_Get_def dispute_authorizeSeller_ok
        split: option.split_asm)
  note same = recommended_same [OF last0]
  note d = d0 [folded same] and ds = ds0 [folded same] and last = last0 [folded same]
  note stored = disputed_stored [OF keyed t disputed_terms(1) [OF opened(1)] opened(2)]
  have status: "tx_status t = StatusFulfilled \<or> tx_status t = StatusFailed" "tx_status opened = StatusDisputed"
    using opened(1) by (auto simp: OpenDispute_def transition_eq_Inr)
  have "\<exists>u. tr_transactions (dw_transactions w') (cq_TransactionID q) = Some u \<and> dw_disputes w' = ds
      \<and> tx_status u = (if di_Status d = DisputeRefundRecommended then StatusRefundRecommended else StatusDisputed)"
  proof (cases "di_Status d = DisputeRefundRecommended")
    case True
    with last obtain refunded r' where "RecommendRefund opened (dk_now c) = Inr refunded"
      "TxRepo_Update r refunded (tx_version opened) = Inr r'" "w' = w\<lparr>dw_transactions := r', dw_disputes := ds\<rparr>"
      by (auto simp: recommending_refund_def action_ok storing_tx_def)
    moreover from this disputed_stored(2) [OF terms_kept_refl [OF stored(1)] stored(2) disputed_terms(2)]
    have "tr_transactions r' (cq_TransactionID q) = Some refunded"
      by blast
    ultimately show ?thesis
      using True by (auto simp: RecommendRefund_def transition_eq_Inr)
  next
    case False
    with last stored(2) status(2) show ?thesis
      by (auto simp: recommending_refund_def action_ok)
  qed
  moreover have "validReason (cq_Reason q) \<and> d = dispute_of c q t (di_DisputeID d) \<and> dk_id c = Inr (di_DisputeID d)"
    using Classify_recorded [OF d status(1)] k terms_kept_keyed [OF keyed t]
    by (auto simp: newDispute_def dispute_of_def)
  ultimately show ?thesis
    using t auth status(1) Classify_decides [OF d] ds
    by (auto simp: Dispute_Create_def result_simps)
qed

text \<open>
  C14: a refund is on record at most once for a dispute and only when it was due. Whatever calls were
  made before, and whatever the rest of the program does to transactions, every stored refund belongs to
  a stored dispute whose classification recommended a refund, which means non-delivery was claimed; it
  names the transaction of that dispute and repeats its seller, amount, asset and network, with a
  reference and an author that are present, bounded and printable. A call stores a refund, or succeeds, only
  when the payment of the dispute's transaction is finalized; it never touches another dispute's refund nor
  changes a stored one, and a successful call returns the stored one, and only to the seller of the
  transaction.
\<close>

theorem refund_recorded_once:
  assumes "dispute_reachable w" "RecordManualRefund c q w = (res, w')"
  shows "(\<forall>k x. dw_refunds w' k = Some x \<longrightarrow> refund_justified w' k x)
    \<and> (\<forall>k x. dw_refunds w k = Some x \<longrightarrow> dw_refunds w' k = Some x)
    \<and> (\<forall>k. k \<noteq> rm_DisputeID q \<longrightarrow> dw_refunds w' k = dw_refunds w k)
    \<and> (dw_refunds w' \<noteq> dw_refunds w \<or> is_ok res \<longrightarrow>
         (\<exists>d t. dw_disputes w (rm_DisputeID q) = Some d \<and> di_Status d = DisputeRefundRecommended
            \<and> tr_transactions (dw_transactions w) (di_TransactionID d) = Some t \<and> tx_sellerID t = rm_SellerID q
            \<and> tx_paymentFinality t = PaymentFinalityFinalized))
    \<and> (\<forall>x. res = Inr x \<longrightarrow> dw_refunds w' (rm_DisputeID q) = Some x \<and> mr_SellerID x = rm_SellerID q)"
proof -
  have wf: "wf_disputes w" "wf_disputes w'"
    using dispute_reachable_wf assms dispute_reachable.refund by blast+
  have same: "with_verification y = y" if "dw_refunds w k = Some y" for k y
  proof -
    have "refund_justified w k y"
      using wf(1) that by (simp add: wf_disputes_def)
    then show ?thesis
      by (auto simp: refund_justified_def with_verification_def)
  qed
  have due: "dw_refunds w' \<noteq> dw_refunds w \<or> is_ok res \<longrightarrow> refund_due q w"
    using RecordManualRefund_due [OF assms(2)] by blast
  have justified: "\<forall>k x. dw_refunds w' k = Some x \<longrightarrow> refund_justified w' k x"
    using wf(2) by (simp add: wf_disputes_def)
  from RecordManualRefund_cases [OF wf(1) assms(2)] show ?thesis
    using justified due [unfolded refund_due_def] same by (fastforce simp: is_ok_def split: if_split_asm)
qed

theorem refund_recorded_once_witness:
  "\<exists>w'. dw_refunds w' (di_DisputeID sample_dispute)
       = Some (refund_record sample_dispute_call sample_dispute sample_refunded sample_refund_request)
     \<and> refund_justified w' (di_DisputeID sample_dispute)
         (refund_record sample_dispute_call sample_dispute sample_refunded sample_refund_request)"
proof -
  let ?x = "refund_record sample_dispute_call sample_dispute sample_refunded sample_refund_request"
  have reach: "dispute_reachable sample_disputed_world"
    by (rule dispute_reachable.create [OF sample_dispute_start sample_disputed])
  have tx: "tx_sellerID sample_refunded = ''sel_01ARZ3NDEKTSV4RRFFQ69G5FAV''" "tx_amount sample_refunded = Amount ''100''"
    "tx_asset sample_refunded = ''USDC''" "tx_network sample_refunded = ''eip155:84532''"
    "tx_paymentFinality sample_refunded = PaymentFinalityFinalized"
    by (simp_all add: sample_refunded_def sample_undelivered_def)
  have "Amount_Compare (Amount ''100'') (Amount ''100'') = Inr 0" "TrimSpace ''USDC'' = ''USDC''"
    "TrimSpace ''eip155:84532'' = ''eip155:84532''" "TrimSpace ''0xfeed'' = ''0xfeed''" "TrimSpace ''owner'' = ''owner''"
    "refund_text_ok ''0xfeed'' maximumRefundReferenceLength" "refund_text_ok ''owner'' maximumRecordedByLength"
    by code_simp+
  moreover have "is_ok (Audit_Record sample_audit_ulid \<lparr>aer_events = []\<rparr> (Inr ''aud_1'') 3000 ''req''
     \<lparr>rr_SellerID = ''sel_01ARZ3NDEKTSV4RRFFQ69G5FAV'', rr_ActorType = ActorTypeSellerUser, rr_ActorID = ''owner'',
      rr_Action = ActionManualRefundRecorded, rr_TargetType = TargetTypeDispute,
      rr_TargetID = ''dsp_01ARZ3NDEKTSV4RRFFQ69G5FAV'', rr_Outcome = OutcomeSucceeded, rr_RequestID = [],
      rr_ChangedFields = [''amount'', ''asset'', ''network'', ''reference'']\<rparr>)"
    by code_simp
  ultimately have "\<exists>w'. RecordManualRefund sample_dispute_call sample_refund_request sample_disputed_world = (Inr ?x, w')"
    by (simp add: RecordManualRefund_def Disputes_Get_def Dispute_Get_def loading_tx_def TxRepo_Get_def action_simps
        Let_def sample_disputed_world_def sample_dispute_world_def sample_refund_request_def sample_dispute_def tx
        saving_refund_def Refund_SaveIfAbsent_def refund_record_def refund_event_def sample_dispute_call_def is_ok_def
        split: sum.split sum.split_asm)
  then obtain w' where run: "RecordManualRefund sample_dispute_call sample_refund_request sample_disputed_world = (Inr ?x, w')"
    by blast
  from refund_recorded_once [OF reach run] show ?thesis
    by (auto simp: sample_refund_request_def)
qed

text \<open>
  C35: a dispute is decided by what the transaction records. A new dispute is stored under a fresh
  identifier for a transaction that was fulfilled or had failed, opened by its seller when a seller asks,
  and the transaction becomes disputed. The stored dispute is the one requested, with its transaction,
  reason, trimmed statement and time, and its status, code and explanation are the verdict of the record for
  the reason: quality goes to the seller; a claim of non-delivery leads to a recommended refund when the
  transaction failed, which then is marked so, and is denied otherwise; the three claims about the payment
  are denied when a payment is on record and go to the seller when none is. When the call fails, no stored
  dispute changes, but the transaction may already be disputed.
\<close>

theorem dispute_decided_by_record:
  assumes "dispute_reachable w" "Disputes_Create c q subject w = (res, w')"
  shows "(\<forall>k d. dw_disputes w k = Some d \<longrightarrow> dw_disputes w' k = Some d) \<and> dw_refunds w' = dw_refunds w
    \<and> (\<forall>d. res = Inr d \<longrightarrow>
        dw_disputes w (di_DisputeID d) = None \<and> dw_disputes w' = (dw_disputes w)(di_DisputeID d \<mapsto> d)
        \<and> (\<exists>t u. tr_transactions (dw_transactions w) (cq_TransactionID q) = Some t
            \<and> tr_transactions (dw_transactions w') (cq_TransactionID q) = Some u
            \<and> (tx_status t = StatusFulfilled \<or> tx_status t = StatusFailed)
            \<and> (subject \<noteq> [] \<longrightarrow> (\<exists>s. ca_sellers (dw_catalog w) (tx_sellerID t) = Some s \<and> se_OwnerSubject s = subject))
            \<and> dk_id c = Inr (di_DisputeID d) \<and> validReason (cq_Reason q) \<and> d = dispute_of c q t (di_DisputeID d)
            \<and> (di_Status d = DisputeRefundRecommended \<longleftrightarrow> cq_Reason q = ReasonNotDelivered \<and> tx_status t = StatusFailed)
            \<and> tx_status u = (if di_Status d = DisputeRefundRecommended then StatusRefundRecommended else StatusDisputed)))"
proof -
  have wf: "wf_disputes w"
    by (rule dispute_reachable_wf [OF assms(1)])
  then have keyed: "terms_kept (dw_transactions w) (dw_transactions w)"
    by (simp add: wf_disputes_def terms_kept_def)
  have progress: "dispute_progress w w'"
    using Disputes_Create_progress [OF keyed, of c q subject] assms(2) by simp
  show ?thesis
  proof (intro conjI allI impI)
    show "dw_disputes w' k = Some d" if "dw_disputes w k = Some d" for k d
      using progress that by (auto simp: dispute_progress_def)
    show "dw_refunds w' = dw_refunds w"
      using progress by (simp add: dispute_progress_def)
  next
    show "dw_disputes w (di_DisputeID d) = None" "dw_disputes w' = (dw_disputes w)(di_DisputeID d \<mapsto> d)"
      "\<exists>t u. tr_transactions (dw_transactions w) (cq_TransactionID q) = Some t
        \<and> tr_transactions (dw_transactions w') (cq_TransactionID q) = Some u
        \<and> (tx_status t = StatusFulfilled \<or> tx_status t = StatusFailed)
        \<and> (subject \<noteq> [] \<longrightarrow> (\<exists>s. ca_sellers (dw_catalog w) (tx_sellerID t) = Some s \<and> se_OwnerSubject s = subject))
        \<and> dk_id c = Inr (di_DisputeID d) \<and> validReason (cq_Reason q) \<and> d = dispute_of c q t (di_DisputeID d)
        \<and> (di_Status d = DisputeRefundRecommended \<longleftrightarrow> cq_Reason q = ReasonNotDelivered \<and> tx_status t = StatusFailed)
        \<and> tx_status u = (if di_Status d = DisputeRefundRecommended then StatusRefundRecommended else StatusDisputed)"
      if "res = Inr d" for d
      using Disputes_Create_ok [OF _ keyed] assms(2) that by blast+
  qed
qed

theorem dispute_decided_by_record_witness:
  "\<exists>u. tr_transactions (dw_transactions sample_disputed_world) (tx_transactionID sample_tx) = Some u
     \<and> tx_status u = StatusRefundRecommended \<and> dw_refunds sample_disputed_world = Map.empty"
  using dispute_decided_by_record [OF sample_dispute_start sample_disputed]
  by (auto simp: sample_dispute_def sample_complaint_def sample_dispute_world_def)

end
