(* ===== verification/Quotas.thy ===== *)
theory Quotas
  imports Billing
begin

text \<open>
  Plan quotas: \<open>internal/operations/service.go\<close> with the counters of
  \<open>internal/persistence/memory/quota_counters.go\<close> and the exchange limiter of
  \<open>project_key_exchange_limits.go\<close>. The lemmas bound every counter by the limits it was used with and
  show that it counts exactly the units that were granted.
\<close>

section \<open>Counters\<close>

datatype QuotaName = QuotaAPIRequest | QuotaMCPOperation | QuotaWebhookDelivery

fun QuotaName_wire :: "QuotaName \<Rightarrow> string" where
  "QuotaName_wire QuotaAPIRequest = ''api_request''"
| "QuotaName_wire QuotaMCPOperation = ''mcp_operation''"
| "QuotaName_wire QuotaWebhookDelivery = ''webhook_delivery''"

record CounterRequest =
  co_SellerID :: ID
  co_QuotaName :: QuotaName
  co_PeriodStart :: instant
  co_PeriodEnd :: instant
  co_Limit :: u64
  co_UpdatedAt :: instant

text \<open>The maps of the repository: an absent count is zero.\<close>

record QuotaCounterRepository =
  qr_counts :: "string \<Rightarrow> u64"
  qr_claims :: "string set"

definition NewQuotaCounterRepository :: QuotaCounterRepository where
  "NewQuotaCounterRepository = \<lparr>qr_counts = (\<lambda>_. 0), qr_claims = {}\<rparr>"

text \<open>\<open>Format("2006-01")\<close>.\<close>

definition year_month :: "instant \<Rightarrow> string" where
  "year_month t = (case civil_date (t div Second div 86400) of (y, mo, d) \<Rightarrow> pad_digits 4 y @ ''-'' @ pad_digits 2 mo)"

definition quotaCounterKey :: "CounterRequest \<Rightarrow> string" where
  "quotaCounterKey q =
     co_SellerID q @ [CHR 0x00] @ year_month (co_PeriodStart q) @ [CHR 0x00] @ QuotaName_wire (co_QuotaName q)"

definition incrementLocked :: "QuotaCounterRepository \<Rightarrow> CounterRequest \<Rightarrow> QuotaCounterRepository result" where
  "incrementLocked r q =
     (let k = quotaCounterKey q
      in reject_if (co_Limit q \<le> qr_counts r k) ErrRateLimitExceeded
           (Inr (r\<lparr>qr_counts := (qr_counts r)(k := qr_counts r k + 1)\<rparr>)))"

definition Quota_Increment :: "QuotaCounterRepository \<Rightarrow> CounterRequest \<Rightarrow> QuotaCounterRepository result" where
  "Quota_Increment r q = incrementLocked r q"

definition quota_claim :: "CounterRequest \<Rightarrow> string \<Rightarrow> string" where
  "quota_claim q source = quotaCounterKey q @ [CHR 0x00] @ source"

definition Quota_IncrementUnique ::
  "QuotaCounterRepository \<Rightarrow> CounterRequest \<Rightarrow> string \<Rightarrow> QuotaCounterRepository result" where
  "Quota_IncrementUnique r q source =
     (if quota_claim q source \<in> qr_claims r then Inr r
      else rbind (incrementLocked r q) (\<lambda>r'. Inr (r'\<lparr>qr_claims := insert (quota_claim q source) (qr_claims r')\<rparr>)))"

section \<open>The service\<close>

text \<open>The first instant of the month of \<open>t\<close> and of the month after it.\<close>

definition month_start :: "instant \<Rightarrow> instant" where
  "month_start t =
     (let days = t div Second div 86400
      in case civil_date days of (y, mo, d) \<Rightarrow> (days - (d - 1)) * 86400 * Second)"

definition month_length :: "int \<Rightarrow> int \<Rightarrow> int" where
  "month_length y mo =
     [31, if leap_year y then 29 else 28, 31, 30, 31, 30, 31, 31, 30, 31, 30, 31] ! nat (mo - 1)"

definition next_month_start :: "instant \<Rightarrow> instant" where
  "next_month_start t =
     (case civil_date (t div Second div 86400) of (y, mo, d) \<Rightarrow> month_start t + month_length y mo * 86400 * Second)"

text \<open>\<open>plan\<close> is what the plan resolver answers, \<open>now\<close> the clock.\<close>

definition activePlan :: "SellerPlanResponse result \<Rightarrow> instant \<Rightarrow> SellerPlanResponse result" where
  "activePlan plan now =
     rbind plan (\<lambda>p.
     let e = sv_Entitlement (sp_Assignment p)
     in reject_if (en_Status e \<noteq> EntitlementStatusActive \<or> \<not> Timestamp_Before now (en_AccessEndsAt e)
          \<or> en_CredentialRotationRequired e) ErrPermissionDenied (Inr p))"

definition quota_limit :: "SellerPlanResponse \<Rightarrow> QuotaName \<Rightarrow> u64" where
  "quota_limit p name =
     (let l = pl_Limits (sp_Plan p)
      in case name of
           QuotaAPIRequest \<Rightarrow> lm_APIRequestsPerMonth l
         | QuotaMCPOperation \<Rightarrow> lm_MCPOperationsPerMonth l
         | QuotaWebhookDelivery \<Rightarrow> lm_WebhookDeliveriesPerMonth l)"

definition counter_request :: "SellerPlanResponse \<Rightarrow> ID \<Rightarrow> QuotaName \<Rightarrow> instant \<Rightarrow> CounterRequest" where
  "counter_request p sellerID name now =
     \<lparr>co_SellerID = sellerID, co_QuotaName = name, co_PeriodStart = month_start now,
      co_PeriodEnd = next_month_start now, co_Limit = quota_limit p name, co_UpdatedAt = now\<rparr>"

text \<open>
  \<open>checked\<close> and \<open>now\<close> are the two readings of the clock, for the plan and for the period. An error of the
  repository is returned as it is.
\<close>

definition consume ::
  "(ID \<Rightarrow> SellerPlanResponse result) \<Rightarrow> instant \<Rightarrow> instant \<Rightarrow> QuotaCounterRepository \<Rightarrow> ID \<Rightarrow> QuotaName \<Rightarrow> string
     \<Rightarrow> QuotaCounterRepository result" where
  "consume resolver checked now r sellerID name sourceID =
     rbind (activePlan (resolver sellerID) checked) (\<lambda>p.
     let q = counter_request p sellerID name now
     in if sourceID = [] then Quota_Increment r q else Quota_IncrementUnique r q sourceID)"

definition ConsumeAPIRequest ::
  "(ID \<Rightarrow> SellerPlanResponse result) \<Rightarrow> instant \<Rightarrow> instant \<Rightarrow> QuotaCounterRepository \<Rightarrow> ID \<Rightarrow> QuotaCounterRepository result" where
  "ConsumeAPIRequest resolver checked now r sellerID = consume resolver checked now r sellerID QuotaAPIRequest []"

definition ConsumeMCPOperation ::
  "(ID \<Rightarrow> SellerPlanResponse result) \<Rightarrow> instant \<Rightarrow> instant \<Rightarrow> QuotaCounterRepository \<Rightarrow> ID \<Rightarrow> QuotaCounterRepository result" where
  "ConsumeMCPOperation resolver checked now r sellerID = consume resolver checked now r sellerID QuotaMCPOperation []"

definition ConsumeWebhookDelivery ::
  "(ID \<Rightarrow> SellerPlanResponse result) \<Rightarrow> instant \<Rightarrow> instant \<Rightarrow> QuotaCounterRepository \<Rightarrow> ID \<Rightarrow> string
     \<Rightarrow> QuotaCounterRepository result" where
  "ConsumeWebhookDelivery resolver checked now r sellerID sourceID =
     reject_if (TrimSpace sourceID = []) (validation ''sourceId'' ''required'' ''is required'')
       (consume resolver checked now r sellerID QuotaWebhookDelivery sourceID)"

definition AllowPublishedRoute ::
  "(ID \<Rightarrow> SellerPlanResponse result) \<Rightarrow> instant \<Rightarrow> ID \<Rightarrow> u64 \<Rightarrow> unit result" where
  "AllowPublishedRoute resolver now sellerID count =
     rbind (activePlan (resolver sellerID) now) (\<lambda>p.
     reject_if (lm_PublishedRoutes (pl_Limits (sp_Plan p)) \<le> count) ErrPermissionDenied (Inr ()))"

definition AllowWebhookSubscription ::
  "(ID \<Rightarrow> SellerPlanResponse result) \<Rightarrow> instant \<Rightarrow> ID \<Rightarrow> u64 \<Rightarrow> unit result" where
  "AllowWebhookSubscription resolver now sellerID count =
     rbind (activePlan (resolver sellerID) now) (\<lambda>p.
     reject_if (\<not> ft_Webhooks (pl_Features (sp_Plan p)) \<or> lm_WebhookSubscriptions (pl_Limits (sp_Plan p)) \<le> count)
       ErrPermissionDenied (Inr ()))"

section \<open>The exchange limiter\<close>

record exchangeLimitWindow =
  xl_startedAt :: instant
  xl_count :: u64

record ProjectKeyExchangeRateLimiter =
  xr_maximum :: u64
  xr_window :: int
  xr_credentials :: "ID \<Rightarrow> exchangeLimitWindow"

definition NewProjectKeyExchangeRateLimiter :: "u64 \<Rightarrow> int \<Rightarrow> ProjectKeyExchangeRateLimiter" where
  "NewProjectKeyExchangeRateLimiter maximum window =
     \<lparr>xr_maximum = maximum, xr_window = window, xr_credentials = (\<lambda>_. \<lparr>xl_startedAt = 0, xl_count = 0\<rparr>)\<rparr>"

definition AllowProjectKeyExchange ::
  "ProjectKeyExchangeRateLimiter \<Rightarrow> instant \<Rightarrow> ID \<Rightarrow> ProjectKeyExchangeRateLimiter result" where
  "AllowProjectKeyExchange l now k =
     (let w = xr_credentials l k;
          w' = (if xl_startedAt w = 0 \<or> \<not> now < xl_startedAt w + xr_window l
                then \<lparr>xl_startedAt = now, xl_count = 0\<rparr> else w)
      in reject_if (xr_maximum l = 0 \<or> xr_maximum l \<le> xl_count w') ErrRateLimitExceeded
           (Inr (l\<lparr>xr_credentials := (xr_credentials l)(k := w'\<lparr>xl_count := xl_count w' + 1\<rparr>)\<rparr>)))"

section \<open>What is counted\<close>

lemma incrementLocked_ok:
  "incrementLocked r q = Inr r' \<longleftrightarrow> qr_counts r (quotaCounterKey q) < co_Limit q
     \<and> r' = r\<lparr>qr_counts := (qr_counts r)(quotaCounterKey q := qr_counts r (quotaCounterKey q) + 1)\<rparr>"
  by (auto simp: incrementLocked_def reject_if_eq_Inr Let_def)

text \<open>A request to consume a unit, with what the plan resolver and the clock answer during it.\<close>

record quota_call =
  qc_resolver :: "ID \<Rightarrow> SellerPlanResponse result"
  qc_checked :: instant
  qc_now :: instant
  qc_seller :: ID
  qc_name :: QuotaName
  qc_source :: string

definition call_plan :: "quota_call \<Rightarrow> SellerPlanResponse result" where
  "call_plan c = activePlan (qc_resolver c (qc_seller c)) (qc_checked c)"

definition call_key :: "quota_call \<Rightarrow> string" where
  "call_key c = qc_seller c @ [CHR 0x00] @ year_month (month_start (qc_now c)) @ [CHR 0x00] @ QuotaName_wire (qc_name c)"

definition call_claim :: "quota_call \<Rightarrow> string" where
  "call_claim c = call_key c @ [CHR 0x00] @ qc_source c"

text \<open>
  One call on the repository: what it leaves, and the unit it counts, none for a refused call or for a
  source that was counted before.
\<close>

definition quota_step :: "quota_call \<Rightarrow> QuotaCounterRepository \<Rightarrow> QuotaCounterRepository \<times> (string \<times> string) list" where
  "quota_step c r =
     (case consume (qc_resolver c) (qc_checked c) (qc_now c) r (qc_seller c) (qc_name c) (qc_source c) of
        Inl _ \<Rightarrow> (r, [])
      | Inr r' \<Rightarrow> (r', if qc_source c \<noteq> [] \<and> call_claim c \<in> qr_claims r then [] else [(call_key c, qc_source c)]))"

fun quota_run :: "quota_call list \<Rightarrow> QuotaCounterRepository \<Rightarrow> QuotaCounterRepository \<times> (string \<times> string) list" where
  "quota_run [] r = (r, [])"
| "quota_run (c # cs) r = (let (r', u) = quota_step c r; (r'', us) = quota_run cs r' in (r'', u @ us))"

definition units_of :: "string \<Rightarrow> (string \<times> string) list \<Rightarrow> nat" where
  "units_of k us = length [u \<leftarrow> us. fst u = k]"

lemma units_of_simps [simp]:
  "units_of k [] = 0" "units_of k (u # us) = (if fst u = k then 1 else 0) + units_of k us"
  "units_of k (us @ vs) = units_of k us + units_of k vs"
  by (simp_all add: units_of_def)

lemma quotaCounterKey_counter_request [simp]:
  "quotaCounterKey (counter_request p (qc_seller c) (qc_name c) (qc_now c)) = call_key c"
  by (simp add: quotaCounterKey_def counter_request_def call_key_def)

lemma co_Limit_counter_request [simp]: "co_Limit (counter_request p k name now) = quota_limit p name"
  by (simp add: counter_request_def)

definition counted :: "quota_call \<Rightarrow> QuotaCounterRepository \<Rightarrow> QuotaCounterRepository" where
  "counted c r =
     r\<lparr>qr_counts := (qr_counts r)(call_key c := qr_counts r (call_key c) + 1),
       qr_claims := (if qc_source c = [] then qr_claims r else insert (call_claim c) (qr_claims r))\<rparr>"

lemma consume_ok:
  "consume (qc_resolver c) (qc_checked c) (qc_now c) r (qc_seller c) (qc_name c) (qc_source c) = Inr r' \<longleftrightarrow>
     (\<exists>p. call_plan c = Inr p \<and>
       (if qc_source c \<noteq> [] \<and> call_claim c \<in> qr_claims r then r' = r
        else qr_counts r (call_key c) < quota_limit p (qc_name c) \<and> r' = counted c r))"
  by (cases "qc_source c = []")
    (auto simp: consume_def call_plan_def Quota_Increment_def Quota_IncrementUnique_def quota_claim_def call_claim_def
      rbind_eq_Inr incrementLocked_ok Let_def counted_def)

text \<open>A step leaves everything as it is, or counts one unit below the limit of the plan in force.\<close>

lemma quota_step_cases:
  assumes "quota_step c r = (r', u)"
  obtains "r' = r" "u = []"
  | p where "call_plan c = Inr p" "qr_counts r (call_key c) < quota_limit p (qc_name c)"
      "u = [(call_key c, qc_source c)]" "qc_source c \<noteq> [] \<Longrightarrow> call_claim c \<notin> qr_claims r" "r' = counted c r"
proof (cases "consume (qc_resolver c) (qc_checked c) (qc_now c) r (qc_seller c) (qc_name c) (qc_source c)")
  case (Inl e)
  with assms that(1) show thesis by (simp add: quota_step_def)
next
  case (Inr r1)
  then obtain p where p: "call_plan c = Inr p"
      "if qc_source c \<noteq> [] \<and> call_claim c \<in> qr_claims r then r1 = r
       else qr_counts r (call_key c) < quota_limit p (qc_name c) \<and> r1 = counted c r"
    by (auto simp only: consume_ok)
  show thesis
  proof (cases "qc_source c \<noteq> [] \<and> call_claim c \<in> qr_claims r")
    case True
    with assms Inr p(2) that(1) show thesis by (simp add: quota_step_def)
  next
    case False
    with assms Inr p(2) have "r' = counted c r" "u = [(call_key c, qc_source c)]"
        "qr_counts r (call_key c) < quota_limit p (qc_name c)"
      by (simp_all add: quota_step_def split: if_split_asm)
    with that(2) [OF p(1)] False show thesis by blast
  qed
qed

text \<open>The counter of a key is the number of units counted for it, and a source is counted once.\<close>

definition quota_inv :: "QuotaCounterRepository \<Rightarrow> (string \<times> string) list \<Rightarrow> bool" where
  "quota_inv r us \<longleftrightarrow> (\<forall>k. unat (qr_counts r k) = units_of k us)
     \<and> qr_claims r = {k @ [CHR 0x00] @ s |k s. (k, s) \<in> set us \<and> s \<noteq> []}
     \<and> distinct [u \<leftarrow> us. snd u \<noteq> []]"

lemma quota_inv_new: "quota_inv NewQuotaCounterRepository []"
  by (simp add: quota_inv_def NewQuotaCounterRepository_def)

lemma quota_step_inv:
  assumes "quota_inv r us" "quota_step c r = (r', u)"
  shows "quota_inv r' (us @ u)"
  using assms(2)
proof (cases rule: quota_step_cases)
  case 1
  with assms(1) show ?thesis by simp
next
  case (2 p)
  have below: "unat (qr_counts r (call_key c)) + 1 < 2 ^ 64"
  proof -
    have "unat (quota_limit p (qc_name c)) < 2 ^ 64"
      by (rule order_less_le_trans [OF unsigned_less]) simp
    with 2(2) show ?thesis by (simp add: word_less_nat_alt)
  qed
  have "unat (qr_counts r' k) = units_of k (us @ u)" for k
    using assms(1) 2(3,5) below unat_word_ariths(1) [of "qr_counts r (call_key c)" 1]
    by (auto simp: quota_inv_def counted_def)
  moreover have "qr_claims r' = {k @ [CHR 0x00] @ s |k s. (k, s) \<in> set (us @ u) \<and> s \<noteq> []}"
    using assms(1) 2(3,5) by (auto simp: quota_inv_def counted_def call_claim_def)
  moreover have "distinct [v \<leftarrow> us @ u. snd v \<noteq> []]"
    using assms(1) 2(3,4) by (auto simp: quota_inv_def call_claim_def)
  ultimately show ?thesis
    by (simp add: quota_inv_def)
qed

text \<open>Every unit was counted for one of the calls, under an active plan and within its limit.\<close>

lemma quota_run_units:
  assumes "quota_inv r us" "quota_run cs r = (r', vs)"
  shows "quota_inv r' (us @ vs) \<and> (\<forall>v \<in> set vs. \<exists>c \<in> set cs. v = (call_key c, qc_source c) \<and> is_ok (call_plan c))"
  using assms
proof (induction cs arbitrary: r us vs)
  case (Cons c cs)
  obtain r1 u where u: "quota_step c r = (r1, u)" by fastforce
  obtain vs' where vs': "quota_run cs r1 = (r', vs')" "vs = u @ vs'"
    using Cons.prems(2) u by (auto split: prod.split_asm)
  have "quota_inv r1 (us @ u)"
    using quota_step_inv [OF Cons.prems(1) u] .
  note rest = Cons.IH [OF this vs'(1)]
  have "\<exists>c' \<in> set (c # cs). v = (call_key c', qc_source c') \<and> is_ok (call_plan c')" if "v \<in> set u" for v
    using u by (cases rule: quota_step_cases) (use that in \<open>simp_all add: is_ok_def\<close>)
  with rest vs'(2) show ?case by auto
qed simp

lemma quota_run_below:
  assumes "quota_inv r us" "quota_run cs r = (r', vs)"
    and "\<And>c p. c \<in> set cs \<Longrightarrow> call_key c = k \<Longrightarrow> call_plan c = Inr p \<Longrightarrow> quota_limit p (qc_name c) \<le> L"
    and "units_of k us \<le> unat L"
  shows "units_of k (us @ vs) \<le> unat L"
  using assms
proof (induction cs arbitrary: r us vs)
  case (Cons c cs)
  obtain r1 u where u: "quota_step c r = (r1, u)" by fastforce
  obtain vs' where vs': "quota_run cs r1 = (r', vs')" "vs = u @ vs'"
    using Cons.prems(2) u by (auto split: prod.split_asm)
  have "units_of k (us @ u) \<le> unat L"
    using u
  proof (cases rule: quota_step_cases)
    case (2 p)
    have "units_of k us < unat L" if "call_key c = k"
    proof -
      have "quota_limit p (qc_name c) \<le> L"
        using Cons.prems(3) [of c p] that 2(1) by simp
      with 2(2) that Cons.prems(1) show ?thesis
        by (auto simp: quota_inv_def word_less_nat_alt word_le_nat_alt dest: spec [of _ k])
    qed
    with 2(3) Cons.prems(4) show ?thesis by (cases "call_key c = k") simp_all
  qed (use Cons.prems(4) in simp)
  from Cons.IH [OF quota_step_inv [OF Cons.prems(1) u] vs'(1) _ this] Cons.prems(3) vs'(2) show ?case
    by simp
qed simp

text \<open>Counters of different sellers, months or quotas are different.\<close>

lemma QuotaName_wire_inject [simp]: "QuotaName_wire a = QuotaName_wire b \<longleftrightarrow> a = b"
  by (cases a; cases b) simp_all

lemma nul_not_digit: "list_all is_digit s \<Longrightarrow> CHR 0x00 \<notin> set s"
  by (auto simp: list_all_iff is_digit_def)

lemma year_month_no_nul: "CHR 0x00 \<notin> set (year_month t)"
  by (simp add: year_month_def pad_digits_def Let_def nul_not_digit split: prod.split)

lemma nul_split:
  "CHR 0x00 \<notin> set xs \<Longrightarrow> CHR 0x00 \<notin> set xs' \<Longrightarrow> xs @ CHR 0x00 # ys = xs' @ CHR 0x00 # ys' \<Longrightarrow> xs = xs' \<and> ys = ys'"
proof (induction xs arbitrary: xs')
  case Nil
  then show ?case by (cases xs') simp_all
next
  case (Cons x xs)
  then show ?case by (cases xs') auto
qed

lemma call_key_separates:
  assumes "CHR 0x00 \<notin> set (qc_seller c)" "CHR 0x00 \<notin> set (qc_seller c')" "call_key c = call_key c'"
  shows "qc_seller c = qc_seller c' \<and> qc_name c = qc_name c'
    \<and> year_month (month_start (qc_now c)) = year_month (month_start (qc_now c'))"
proof -
  have outer: "qc_seller c = qc_seller c'"
      "year_month (month_start (qc_now c)) @ CHR 0x00 # QuotaName_wire (qc_name c)
       = year_month (month_start (qc_now c')) @ CHR 0x00 # QuotaName_wire (qc_name c')"
    using nul_split [OF assms(1,2)] assms(3) by (simp_all add: call_key_def)
  then show ?thesis
    using nul_split [OF year_month_no_nul year_month_no_nul outer(2)] by simp
qed

section \<open>Properties\<close>

text \<open>
  C24: quotas bound what a seller uses and count it exactly. Whatever requests a new repository serves, the
  counter of a seller's quota in a month is the number of units that were counted for it; it never passes
  a limit that every plan in force during those requests stays within; a source is counted once in a
  month; every unit was counted for a request made while the plan was active; and two requests share a
  counter only if they are for the same seller, quota and month.
\<close>

theorem quota_never_exceeded:
  assumes "quota_run cs NewQuotaCounterRepository = (r, us)"
  shows "unat (qr_counts r k) = units_of k us
    \<and> ((\<forall>c \<in> set cs. \<forall>p. call_key c = k \<longrightarrow> call_plan c = Inr p \<longrightarrow> quota_limit p (qc_name c) \<le> L)
        \<longrightarrow> units_of k us \<le> unat L)
    \<and> distinct [u \<leftarrow> us. snd u \<noteq> []]
    \<and> (\<forall>u \<in> set us. \<exists>c \<in> set cs. u = (call_key c, qc_source c) \<and> is_ok (call_plan c))
    \<and> (\<forall>c c'. CHR 0x00 \<notin> set (qc_seller c) \<longrightarrow> CHR 0x00 \<notin> set (qc_seller c') \<longrightarrow> call_key c = call_key c' \<longrightarrow>
        qc_seller c = qc_seller c' \<and> qc_name c = qc_name c'
        \<and> year_month (month_start (qc_now c)) = year_month (month_start (qc_now c')))"
proof -
  have run: "quota_inv r us" "\<forall>u \<in> set us. \<exists>c \<in> set cs. u = (call_key c, qc_source c) \<and> is_ok (call_plan c)"
    using quota_run_units [OF quota_inv_new assms] by simp_all
  have "units_of k us \<le> unat L"
    if "\<forall>c \<in> set cs. \<forall>p. call_key c = k \<longrightarrow> call_plan c = Inr p \<longrightarrow> quota_limit p (qc_name c) \<le> L"
    using quota_run_below [OF quota_inv_new assms, of k L] that by simp
  moreover have "unat (qr_counts r k) = units_of k us" "distinct [u \<leftarrow> us. snd u \<noteq> []]"
    using run(1) by (simp_all add: quota_inv_def)
  ultimately show ?thesis
    using run(2) by (intro conjI allI impI call_key_separates) assumption+
qed

lemma quota_step_eq:
  assumes "call_plan c = Inr p" "qc_source c = []"
  shows "quota_step c r =
    (if qr_counts r (call_key c) < quota_limit p (qc_name c) then (counted c r, [(call_key c, [])]) else (r, []))"
proof (cases "consume (qc_resolver c) (qc_checked c) (qc_now c) r (qc_seller c) (qc_name c) (qc_source c)")
  case (Inl e)
  then have "\<not> qr_counts r (call_key c) < quota_limit p (qc_name c)"
    using consume_ok [of c r "counted c r"] assms by auto
  with Inl show ?thesis by (simp add: quota_step_def)
next
  case (Inr r')
  then have "qr_counts r (call_key c) < quota_limit p (qc_name c) \<and> r' = counted c r"
    using consume_ok [of c r r'] assms by auto
  with Inr assms(2) show ?thesis by (simp add: quota_step_def)
qed

definition sample_small_plan :: SellerPlanResponse where
  "sample_small_plan =
     \<lparr>sp_Assignment = sellerEntitlementView sample_entitlement 3000,
      sp_Plan = (the (planCatalogV1 PlanStarter))\<lparr>pl_Limits :=
        (pl_Limits (the (planCatalogV1 PlanStarter)))\<lparr>lm_APIRequestsPerMonth := 1\<rparr>\<rparr>\<rparr>"

definition sample_quota_call :: quota_call where
  "sample_quota_call =
     \<lparr>qc_resolver = (\<lambda>_. Inr sample_small_plan), qc_checked = 3000, qc_now = 3000,
      qc_seller = ''sel_01ARZ3NDEKTSV4RRFFQ69G5FAV'', qc_name = QuotaAPIRequest, qc_source = []\<rparr>"

lemma sample_call_plan: "call_plan sample_quota_call = Inr sample_small_plan"
  by (simp add: call_plan_def sample_quota_call_def activePlan_def sample_small_plan_def sellerEntitlementView_def
      sample_entitlement_def reconciled_params_def sample_candidate_def Timestamp_Before_def reject_if_def Let_def)

lemma sample_quota_limit: "quota_limit sample_small_plan (qc_name sample_quota_call) = 1"
  by (simp add: quota_limit_def sample_small_plan_def sample_quota_call_def Let_def)

theorem quota_never_exceeded_witness:
  "units_of (call_key sample_quota_call) (snd (quota_run [sample_quota_call, sample_quota_call] NewQuotaCounterRepository)) \<le> 1
   \<and> qr_counts (fst (quota_run [sample_quota_call, sample_quota_call] NewQuotaCounterRepository)) (call_key sample_quota_call) = 1"
proof -
  let ?c = sample_quota_call
  obtain r us where run: "quota_run [?c, ?c] NewQuotaCounterRepository = (r, us)"
    by fastforce
  have "units_of (call_key ?c) us \<le> unat (1 :: u64)"
    using quota_never_exceeded [OF run, of "call_key ?c" 1] sample_call_plan sample_quota_limit by simp
  moreover have "qr_counts r (call_key ?c) = 1"
    using run quota_step_eq [OF sample_call_plan, of "_ :: QuotaCounterRepository"]
    by (auto simp: sample_quota_limit counted_def NewQuotaCounterRepository_def
        sample_quota_call_def [THEN arg_cong, of qc_source, simplified])
  ultimately show ?thesis
    using run by simp
qed

end
