(* ===== verification/Versions.thy ===== *)
theory Versions
  imports Prelude
begin

text \<open>
  Values kept under optimistic concurrency control: the values a store ever held for one key, oldest
  first, with versions that count from one. A writer that prepared its value from an old read is
  accepted only when the version it read is the stored one, so it read the stored value.
\<close>

definition versioned :: "('a \<Rightarrow> u64) \<Rightarrow> ('a \<Rightarrow> bool) \<Rightarrow> ('a \<Rightarrow> 'a \<Rightarrow> bool) \<Rightarrow> 'a list \<Rightarrow> bool" where
  "versioned ver good nxt xs \<longleftrightarrow>
     (\<forall>i < length xs. good (xs ! i) \<and> unat (ver (xs ! i)) = i + 1)
     \<and> (\<forall>i. Suc i < length xs \<longrightarrow> nxt (xs ! i) (xs ! Suc i))"

text \<open>What a store holds when these are the values written to it.\<close>

definition latest :: "'a list \<Rightarrow> 'a option" where
  "latest xs = (if xs = [] then None else Some (last xs))"

lemma latest_simps [simp]:
  "latest [] = None" "latest (xs @ [x]) = Some x" "latest [x] = Some x"
  by (simp_all add: latest_def)

lemma latest_eq_Some: "latest xs = Some x \<longleftrightarrow> xs \<noteq> [] \<and> last xs = x"
  by (simp add: latest_def)

lemma latest_eq_None: "latest xs = None \<longleftrightarrow> xs = []"
  by (simp add: latest_def)

lemma versioned_Nil [simp]: "versioned ver good nxt []"
  by (simp add: versioned_def)

lemma versioned_good: "versioned ver good nxt xs \<Longrightarrow> x \<in> set xs \<Longrightarrow> good x"
  by (auto simp: versioned_def in_set_conv_nth)

lemma versioned_last: "versioned ver good nxt xs \<Longrightarrow> xs \<noteq> [] \<Longrightarrow> unat (ver (last xs)) = length xs"
  by (auto simp: versioned_def last_conv_nth)

lemma versioned_snoc:
  assumes "versioned ver good nxt xs" "good x" "unat (ver x) = length xs + 1" "xs \<noteq> [] \<Longrightarrow> nxt (last xs) x"
  shows "versioned ver good nxt (xs @ [x])"
proof -
  have "nxt ((xs @ [x]) ! i) ((xs @ [x]) ! Suc i)" if "Suc i < length (xs @ [x])" for i
  proof (cases "Suc i = length xs")
    case True
    then have "xs \<noteq> []" by auto
    moreover from this True have "last xs = xs ! i"
      by (simp add: last_conv_nth flip: True)
    moreover note True
    ultimately show ?thesis
      using assms(4) by (simp add: nth_append)
  next
    case False
    with that assms(1) show ?thesis
      by (auto simp: versioned_def nth_append)
  qed
  moreover have "good ((xs @ [x]) ! i) \<and> unat (ver ((xs @ [x]) ! i)) = i + 1" if "i < length (xs @ [x])" for i
    using that assms(1-3) by (cases "i = length xs") (auto simp: versioned_def nth_append)
  ultimately show ?thesis
    by (simp add: versioned_def)
qed

text \<open>The value with the stored version is the stored value.\<close>

lemma versioned_current:
  assumes "versioned ver good nxt xs" "x \<in> set xs" "ver x = ver (last xs)"
  shows "x = last xs"
proof -
  obtain i where i: "i < length xs" "x = xs ! i"
    using assms(2) by (auto simp: in_set_conv_nth)
  with assms(1,3) have "i + 1 = length xs"
    using versioned_last [OF assms(1)] by (cases xs) (auto simp: versioned_def)
  with i show ?thesis
    by (cases xs rule: rev_cases) (auto simp: nth_append)
qed

text \<open>A property every change keeps holds between any two of the values.\<close>

lemma versioned_between:
  assumes "versioned ver good nxt xs" "i \<le> j" "j < length xs"
    and "\<And>x. P x x" "\<And>x y z. P x y \<Longrightarrow> nxt y z \<Longrightarrow> P x z"
  shows "P (xs ! i) (xs ! j)"
  using assms(2,3)
proof (induction j)
  case 0
  then show ?case by (simp add: assms(4))
next
  case (Suc j)
  then show ?case
    using assms(1,5) by (cases "i = Suc j") (auto simp: assms(4) versioned_def)
qed

lemma version_succ:
  fixes v :: u64
  assumes "unat v = n" "n + 1 < 2 ^ 64"
  shows "unat (v + 1) = n + 1"
  using assms unat_word_ariths(1) [of v 1] by simp

end
