(* ===== verification/Credentials.thy ===== *)
theory Credentials
  imports Quotas Secrets AuditLog Actions Versions "HOL-Library.AList"
begin

text \<open>
  Project keys of seller integrations: \<open>internal/integrations/models.go\<close>, \<open>service.go\<close> and the repository
  \<open>internal/persistence/memory/integration_credentials.go\<close>, with the entitlements, quotas and the exchange
  limiter they are checked against. A snapshot of \<open>persistence.go\<close> is the credential itself here: both hold
  the same fields and \<open>RestoreCredential\<close> copies them without a check.
\<close>

abbreviation "ErrCredentialInvalid \<equiv> Err ''integrations.ErrCredentialInvalid''"
abbreviation "ErrCredentialExpired \<equiv> Err ''integrations.ErrCredentialExpired''"
abbreviation "ErrCredentialRevoked \<equiv> Err ''integrations.ErrCredentialRevoked''"
abbreviation "ErrScopeDenied \<equiv> Err ''integrations.ErrScopeDenied''"
abbreviation "ErrSubscriptionInactive \<equiv> Err ''integrations.ErrSubscriptionInactive''"
abbreviation "ErrExchangeAuthorizationUnavailable \<equiv> Err ''integrations.ErrExchangeAuthorizationUnavailable''"
abbreviation "ErrCredentialIssuanceUnavailable \<equiv> Err ''integrations.ErrCredentialIssuanceUnavailable''"
abbreviation "ErrRotationIdempotencyConflict \<equiv> Err ''integrations.ErrRotationIdempotencyConflict''"

text \<open>\<open>RotationRecoveryError\<close> names the successor.\<close>

abbreviation RotationRecoveryError :: "ID \<Rightarrow> go_error" where
  "RotationRecoveryError k \<equiv> Err (''integrations.RotationRecoveryError '' @ k)"

section \<open>Credentials\<close>

datatype Scope =
    ScopeRead | ScopeConfigure | ScopePublish | ScopeValidate | ScopeRotate | ScopeOther string

fun Scope_wire :: "Scope \<Rightarrow> string" where
  "Scope_wire ScopeRead = ''read''"
| "Scope_wire ScopeConfigure = ''configure''"
| "Scope_wire ScopePublish = ''publish''"
| "Scope_wire ScopeValidate = ''validate''"
| "Scope_wire ScopeRotate = ''rotate''"
| "Scope_wire (ScopeOther s) = s"

record Credential =
  ic_credentialID :: ID
  ic_sellerID :: ID
  ic_tokenHash :: string
  ic_label :: string
  ic_scopes :: "Scope list"
  ic_entitlementEpoch :: u64
  ic_expiresAt :: "instant option"
  ic_revokedAt :: "instant option"
  ic_lastUsedAt :: "instant option"
  ic_replacedByCredentialID :: "ID option"
  ic_createdAt :: instant
  ic_updatedAt :: instant
  ic_version :: u64

text \<open>The construction values are those of a credential.\<close>

type_synonym CredentialParams = Credential

definition HasScope :: "Scope list \<Rightarrow> Scope \<Rightarrow> bool" where
  "HasScope scopes required \<longleftrightarrow> required \<in> set scopes"

definition supportedScope :: "Scope \<Rightarrow> bool" where
  "supportedScope s \<longleftrightarrow> s \<in> {ScopeRead, ScopeConfigure, ScopePublish, ScopeValidate, ScopeRotate}"

text \<open>
  \<open>strconv.Quote\<close> as \<open>%q\<close> uses it; \<open>printable\<close> is \<open>strconv.IsPrint\<close> beyond ASCII, a table of the
  standard library.
\<close>

definition rune_code :: "string \<Rightarrow> nat" where
  "rune_code s =
     (case s of
        [] \<Rightarrow> 0
      | c # cs \<Rightarrow> foldl (\<lambda>n d. n * 64 + of_char d mod 64)
          (if cs = [] then of_char c else of_char c mod 2 ^ (6 - length cs)) cs)"

fun hex_fixed :: "nat \<Rightarrow> nat \<Rightarrow> string" where
  "hex_fixed 0 n = []"
| "hex_fixed (Suc w) n = hex_fixed w (n div 16) @ [hex_digit (n mod 16)]"

definition quote_ascii :: "char \<Rightarrow> string" where
  "quote_ascii c =
     (let n = of_char c :: nat
      in if c = CHR 0x22 \<or> c = CHR 0x5C then [CHR 0x5C, c]
         else if 32 \<le> n \<and> n < 127 then [c]
         else case map_of [(7 :: nat, CHR ''a''), (8, CHR ''b''), (12, CHR ''f''), (10, CHR ''n''), (13, CHR ''r''),
                           (9, CHR ''t''), (11, CHR ''v'')] n of
                Some d \<Rightarrow> [CHR 0x5C, d]
              | None \<Rightarrow> [CHR 0x5C, CHR ''x''] @ hex_fixed 2 n)"

definition quote_rune :: "(string \<Rightarrow> bool) \<Rightarrow> string \<Rightarrow> string" where
  "quote_rune printable r =
     (if length r = 1 then quote_ascii (hd r)
      else if printable r then r
      else if rune_code r < 0x10000 then [CHR 0x5C, CHR ''u''] @ hex_fixed 4 (rune_code r)
      else [CHR 0x5C, CHR ''U''] @ hex_fixed 8 (rune_code r))"

function quote_runes :: "(string \<Rightarrow> bool) \<Rightarrow> string \<Rightarrow> string" where
  "quote_runes printable s =
     (if s = [] then []
      else if utf8_len s = 0 then [CHR 0x5C, CHR ''x''] @ hex_fixed 2 (of_char (hd s)) @ quote_runes printable (tl s)
      else quote_rune printable (take (utf8_len s) s) @ quote_runes printable (drop (utf8_len s) s))"
  by pat_completeness auto
termination
  by (relation "measure (\<lambda>(_, s). length s)") auto

declare quote_runes.simps [simp del]

definition strconv_quote :: "(string \<Rightarrow> bool) \<Rightarrow> string \<Rightarrow> string" where
  "strconv_quote printable s = [CHR 0x22] @ quote_runes printable s @ [CHR 0x22]"

text \<open>The loop of \<open>validateScopes\<close>: an unsupported scope is reported and not remembered.\<close>

fun scope_errors :: "(string \<Rightarrow> bool) \<Rightarrow> Scope list \<Rightarrow> Scope list \<Rightarrow> validation_error list" where
  "scope_errors printable seen [] = []"
| "scope_errors printable seen (s # ss) =
     (if \<not> supportedScope s
      then NewValidationError ''scopes'' ''supported'' (''unsupported scope '' @ strconv_quote printable (Scope_wire s))
           # scope_errors printable seen ss
      else add_if (s \<in> set seen) (NewValidationError ''scopes'' ''unique'' ''must not contain duplicate scopes'')
           @ scope_errors printable (s # seen) ss)"

definition validateScopes :: "(string \<Rightarrow> bool) \<Rightarrow> Scope list \<Rightarrow> validation_error list" where
  "validateScopes printable scopes =
     (if scopes = [] then [NewValidationError ''scopes'' ''required'' ''must contain at least one scope'']
      else scope_errors printable [] scopes)"

abbreviation maximumCredentialLabel :: nat where "maximumCredentialLabel \<equiv> 80"

definition validateCredentialParams ::
  "(string \<Rightarrow> bool) \<Rightarrow> (string \<Rightarrow> bool) \<Rightarrow> CredentialParams \<Rightarrow> validation_error list" where
  "validateCredentialParams ulid printable p =
     add_if (\<not> is_ok (ParseID ulid (ic_credentialID p) CredentialIDPrefix))
       (NewValidationError ''credentialId'' ''format'' ''must be an integration credential identifier'')
     @ add_if (\<not> is_ok (ParseID ulid (ic_sellerID p) SellerIDPrefix))
       (NewValidationError ''sellerId'' ''format'' ''must be a seller identifier'')
     @ add_if (TrimSpace (ic_label p) = [] \<or> maximumCredentialLabel < length (TrimSpace (ic_label p)))
       (NewValidationError ''label'' ''length'' ''must contain 1-80 characters'')
     @ add_if (case hex_decode (ic_tokenHash p) of None \<Rightarrow> True | Some b \<Rightarrow> length b \<noteq> 32)
       (NewValidationError ''tokenHash'' ''format'' ''must be a SHA-256 digest'')
     @ validateScopes printable (ic_scopes p)
     @ add_if (ic_entitlementEpoch p = 0)
       (NewValidationError ''entitlementEpoch'' ''minimum'' ''must be at least one'')
     @ add_if (ic_createdAt p = 0) (NewValidationError ''createdAt'' ''required'' ''is required'')
     @ add_if (0 < ic_version p \<and> (ic_updatedAt p = 0 \<or> Timestamp_Before (ic_updatedAt p) (ic_createdAt p)))
       (NewValidationError ''updatedAt'' ''chronology'' ''must not precede creation'')
     @ add_if (case ic_expiresAt p of None \<Rightarrow> False | Some e \<Rightarrow> \<not> ic_createdAt p < e)
       (NewValidationError ''expiresAt'' ''chronology'' ''must occur after creation'')"

definition NewCredential :: "(string \<Rightarrow> bool) \<Rightarrow> (string \<Rightarrow> bool) \<Rightarrow> CredentialParams \<Rightarrow> Credential result" where
  "NewCredential ulid printable p =
     (let errors = validateCredentialParams ulid printable p
      in reject_if (errors \<noteq> []) (ValidationErrs errors)
           (Inr (p\<lparr>ic_label := TrimSpace (ic_label p),
                   ic_updatedAt := (if ic_updatedAt p = 0 then ic_createdAt p else ic_updatedAt p),
                   ic_version := (if ic_version p = 0 then 1 else ic_version p)\<rparr>)))"

definition MarkUsed :: "Credential \<Rightarrow> instant \<Rightarrow> Credential result" where
  "MarkUsed c usedAt =
     reject_if (ic_revokedAt c \<noteq> None) ErrCredentialRevoked
    (reject_if (Timestamp_Before usedAt (ic_updatedAt c))
       (validation ''lastUsedAt'' ''chronology'' ''cannot occur before the previous update'')
       (Inr (c\<lparr>ic_lastUsedAt := Some usedAt, ic_updatedAt := usedAt, ic_version := ic_version c + 1\<rparr>)))"

definition Credential_Revoke :: "Credential \<Rightarrow> instant \<Rightarrow> Credential result" where
  "Credential_Revoke c revokedAt =
     reject_if (ic_revokedAt c \<noteq> None) ErrCredentialRevoked
    (reject_if (Timestamp_Before revokedAt (ic_updatedAt c))
       (validation ''revokedAt'' ''chronology'' ''cannot occur before the previous update'')
       (Inr (c\<lparr>ic_revokedAt := Some revokedAt, ic_updatedAt := revokedAt, ic_version := ic_version c + 1\<rparr>)))"

definition Credential_Replace :: "Credential \<Rightarrow> ID \<Rightarrow> instant \<Rightarrow> Credential result" where
  "Credential_Replace c successorID replacedAt =
     reject_if (ID_Prefix successorID \<noteq> CredentialIDPrefix \<or> successorID = ic_credentialID c)
       (validation ''successorCredentialId'' ''format'' ''must identify a distinct integration credential'')
       (rbind (Credential_Revoke c replacedAt) (\<lambda>revoked.
          Inr (revoked\<lparr>ic_replacedByCredentialID := Some successorID\<rparr>)))"

section \<open>Tokens\<close>

text \<open>
  \<open>SecureTokenGenerator.NewToken\<close> on the bytes its reader supplies, and the keyed digest; the pepper
  provider answers \<open>pepper\<close>.
\<close>

definition Secure_NewToken :: "string result \<Rightarrow> string result" where
  "Secure_NewToken randomBytes = rbind randomBytes (\<lambda>b. Inr (base64_url b))"

definition Credential_Digest :: "string result \<Rightarrow> string \<Rightarrow> string result" where
  "Credential_Digest pepper rawToken =
     rbind pepper (\<lambda>p.
     reject_if (length p < 32) (Err ''credential pepper must contain at least 256 bits'')
       (Inr (hex_encode (hmac_sha256 p rawToken))))"

abbreviation minimumCredentialSecret :: nat where "minimumCredentialSecret \<equiv> 32"

definition validCredentialSecret :: "string \<Rightarrow> bool" where
  "validCredentialSecret secret \<longleftrightarrow>
     (case base64_url_decode secret of None \<Rightarrow> False | Some b \<Rightarrow> minimumCredentialSecret \<le> length b)"

definition credentialToken :: "ID \<Rightarrow> string \<Rightarrow> string" where
  "credentialToken k secret = Join [''apc2'', k, secret] ''.''"

definition parseCredentialToken :: "(string \<Rightarrow> bool) \<Rightarrow> string \<Rightarrow> ID result" where
  "parseCredentialToken ulid rawToken =
     (case split_on (CHR ''.'') rawToken of
        [version, k, secret] \<Rightarrow>
          reject_if (version \<noteq> ''apc2'' \<or> \<not> validCredentialSecret secret) ErrCredentialInvalid
            (case ParseID ulid k CredentialIDPrefix of Inl _ \<Rightarrow> Inl ErrCredentialInvalid | Inr i \<Rightarrow> Inr i)
      | _ \<Rightarrow> Inl ErrCredentialInvalid)"

lemma length_hmac [simp]: "length (hmac_sha256 k m) = 32"
  by (simp add: hmac_sha256_def Let_def)

text \<open>An issued token is read back as its key.\<close>

lemma issued_token_parses:
  assumes "CHR ''.'' \<notin> set k" "ParseID ulid k CredentialIDPrefix = Inr k" "32 \<le> length b"
  shows "parseCredentialToken ulid (credentialToken k (base64_url b)) = Inr k"
proof -
  have "split_on (CHR ''.'') (credentialToken k (base64_url b)) = [''apc2'', k, base64_url b]"
    using split_on_append [of "CHR ''.''" "''apc2''"] split_on_append [OF assms(1)]
      split_on_none [OF base64_url_no_dot, of b]
    by (simp add: credentialToken_def)
  then show ?thesis
    using assms by (simp add: parseCredentialToken_def validCredentialSecret_def base64_url_decode_encode reject_if_def)
qed

section \<open>The repository\<close>

record CredentialView =
  iv_CredentialID :: ID
  iv_SellerID :: ID
  iv_Label :: string
  iv_Scopes :: "Scope list"
  iv_ExpiresAt :: "instant option"
  iv_RevokedAt :: "instant option"
  iv_LastUsedAt :: "instant option"
  iv_ReplacedByCredentialID :: "ID option"
  iv_CreatedAt :: instant
  iv_UpdatedAt :: instant
  iv_Version :: u64

definition credentialView :: "Credential \<Rightarrow> CredentialView" where
  "credentialView c =
     \<lparr>iv_CredentialID = ic_credentialID c, iv_SellerID = ic_sellerID c, iv_Label = ic_label c, iv_Scopes = ic_scopes c,
      iv_ExpiresAt = ic_expiresAt c, iv_RevokedAt = ic_revokedAt c, iv_LastUsedAt = ic_lastUsedAt c,
      iv_ReplacedByCredentialID = ic_replacedByCredentialID c, iv_CreatedAt = ic_createdAt c,
      iv_UpdatedAt = ic_updatedAt c, iv_Version = ic_version c\<rparr>"

record CredentialRotation =
  ro_Predecessor :: CredentialView
  ro_Successor :: CredentialView
  ro_Token :: string
  ro_SecretReplayExpiresAt :: instant

record RotationReplay =
  rl_Scope :: string
  rl_Key :: string
  rl_RequestHash :: string
  rl_ProtectedResponse :: string
  rl_SuccessorCredentialID :: ID
  rl_CreatedAt :: instant
  rl_ExpiresAt :: instant

record CredentialRepository =
  cr_credentials :: "(ID \<times> Credential) list"
  cr_replays :: "string \<rightharpoonup> RotationReplay"

definition NewCredentialRepository :: CredentialRepository where
  "NewCredentialRepository = \<lparr>cr_credentials = [], cr_replays = Map.empty\<rparr>"

definition cred_at :: "CredentialRepository \<Rightarrow> ID \<rightharpoonup> Credential" where
  "cred_at r = map_of (cr_credentials r)"

definition put_credential :: "Credential \<Rightarrow> CredentialRepository \<Rightarrow> CredentialRepository" where
  "put_credential c r = r\<lparr>cr_credentials := AList.update (ic_credentialID c) c (cr_credentials r)\<rparr>"

definition Cred_Create :: "CredentialRepository \<Rightarrow> Credential \<Rightarrow> CredentialRepository result" where
  "Cred_Create r c = reject_if (cred_at r (ic_credentialID c) \<noteq> None) ErrAlreadyExists (Inr (put_credential c r))"

definition Cred_Get :: "CredentialRepository \<Rightarrow> ID \<Rightarrow> ID \<Rightarrow> Credential result" where
  "Cred_Get r sellerID k =
     (case cred_at r k of
        None \<Rightarrow> Inl ErrNotFound
      | Some c \<Rightarrow> reject_if (ic_sellerID c \<noteq> sellerID) ErrNotFound (Inr c))"

definition Cred_GetByID :: "CredentialRepository \<Rightarrow> ID \<Rightarrow> Credential result" where
  "Cred_GetByID r k = (case cred_at r k of None \<Rightarrow> Inl ErrNotFound | Some c \<Rightarrow> Inr c)"

definition Cred_ListBySeller :: "CredentialRepository \<Rightarrow> ID \<Rightarrow> Credential list" where
  "Cred_ListBySeller r sellerID =
     sort_key ic_credentialID (filter (\<lambda>c. ic_sellerID c = sellerID) (map snd (cr_credentials r)))"

text \<open>The conditions \<open>Update\<close> and \<open>Rotate\<close> share.\<close>

definition cred_writable :: "CredentialRepository \<Rightarrow> Credential \<Rightarrow> u64 \<Rightarrow> unit result" where
  "cred_writable r c expectedVersion =
     (case cred_at r (ic_credentialID c) of
        None \<Rightarrow> Inl ErrNotFound
      | Some stored \<Rightarrow>
          reject_if (ic_sellerID stored \<noteq> ic_sellerID c) ErrNotFound
         (reject_if (ic_version stored \<noteq> expectedVersion \<or> ic_version c \<noteq> expectedVersion + 1) ErrConditionFailed
            (Inr ())))"

definition Cred_Update :: "CredentialRepository \<Rightarrow> Credential \<Rightarrow> u64 \<Rightarrow> CredentialRepository result" where
  "Cred_Update r c expectedVersion = rbind (cred_writable r c expectedVersion) (\<lambda>_. Inr (put_credential c r))"

definition rotationReplayMapKey :: "string \<Rightarrow> string \<Rightarrow> string" where
  "rotationReplayMapKey scope key = scope @ [CHR 0x00] @ key"

definition Cred_Rotate ::
  "CredentialRepository \<Rightarrow> Credential \<Rightarrow> Credential \<Rightarrow> u64 \<Rightarrow> RotationReplay \<Rightarrow> CredentialRepository result" where
  "Cred_Rotate r predecessor successor expectedVersion replay =
     rbind (cred_writable r predecessor expectedVersion) (\<lambda>_.
     reject_if (cred_at r (ic_credentialID successor) \<noteq> None) ErrAlreadyExists
    (let k = rotationReplayMapKey (rl_Scope replay) (rl_Key replay)
     in reject_if (cr_replays r k \<noteq> None) ErrConditionFailed
          (let r' = put_credential successor (put_credential predecessor r)
           in Inr (r'\<lparr>cr_replays := (cr_replays r')(k \<mapsto> replay)\<rparr>))))"

definition LoadRotationReplay :: "CredentialRepository \<Rightarrow> string \<Rightarrow> string \<Rightarrow> RotationReplay option" where
  "LoadRotationReplay r scope key = cr_replays r (rotationReplayMapKey scope key)"

section \<open>The service\<close>

text \<open>
  The stores a project key is checked against: its repository, the stored entitlements behind the plan
  resolver, the exchange limiter and the quota counters.
\<close>

record credential_world =
  cw_credentials :: CredentialRepository
  cw_entitlements :: SellerEntitlementRepository
  cw_limiter :: ProjectKeyExchangeRateLimiter
  cw_quotas :: QuotaCounterRepository
  cw_audit :: AuditEventRepository

text \<open>
  What the collaborators of one call answer: the seller authorizer, the issuance authorizer (absent until
  it is set), whether the exchange collaborators are configured, the generators, the pepper provider, the
  clock (\<open>cc_clock n\<close> is its \<open>n\<close>-th reading) and the audit recorder. \<open>cc_seal\<close> and \<open>cc_open\<close> are the
  replay protector with the JSON coding of a rotation around it.
\<close>

record credential_call =
  cc_ulid :: "string \<Rightarrow> bool"
  cc_printable :: "string \<Rightarrow> bool"
  cc_authorize :: "string \<Rightarrow> ID \<Rightarrow> unit result"
  cc_issuance :: "(string \<Rightarrow> ID \<Rightarrow> unit result) option"
  cc_exchange :: bool
  cc_id :: "ID result"
  cc_random :: "string result"
  cc_pepper :: "string result"
  cc_clock :: "nat \<Rightarrow> instant"
  cc_event :: "ID result \<times> instant"
  cc_requestID :: string
  cc_seal :: "CredentialRotation \<Rightarrow> string result"
  cc_open :: "string \<Rightarrow> CredentialRotation result"

record CreateCredentialRequest =
  cq_Label :: string
  cq_Scopes :: "Scope list"
  cq_ExpiresAt :: "instant option"

record RotateCredentialRequest =
  rq_ExpectedVersion :: u64
  rq_Label :: string
  rq_Scopes :: "Scope list"
  rq_ExpiresAt :: "instant option"

record RotationIdempotency =
  ri_Key :: string
  ri_RequestBody :: string

record Principal =
  pi_SellerID :: ID
  pi_CredentialID :: ID
  pi_Scopes :: "Scope list"

record ExchangeAuthorization =
  ea_Principal :: Principal
  ea_EntitlementEpoch :: u64

definition in_credentials ::
  "(CredentialRepository \<Rightarrow> CredentialRepository result) \<Rightarrow> (credential_world, unit) action" where
  "in_credentials f = writing (\<lambda>w. f (cw_credentials w)) (\<lambda>r w. w\<lparr>cw_credentials := r\<rparr>)"

definition credential_record ::
  "credential_call \<Rightarrow> ID \<Rightarrow> AuditActorType \<Rightarrow> string \<Rightarrow> AuditAction \<Rightarrow> ID \<Rightarrow> AuditOutcome \<Rightarrow> string list
     \<Rightarrow> (credential_world, unit) action" where
  "credential_record c sellerID actorType actorID act k outcome changed =
     writing (\<lambda>w. Audit_Record (cc_ulid c) (cw_audit w) (fst (cc_event c)) (snd (cc_event c)) (cc_requestID c)
       \<lparr>rr_SellerID = sellerID, rr_ActorType = actorType, rr_ActorID = actorID, rr_Action = act,
        rr_TargetType = TargetTypeIntegrationCredential, rr_TargetID = k, rr_Outcome = outcome,
        rr_RequestID = [], rr_ChangedFields = changed\<rparr>) (\<lambda>a w. w\<lparr>cw_audit := a\<rparr>)"

text \<open>The identifier, token and digest of a new key.\<close>

definition new_token :: "credential_call \<Rightarrow> (ID \<times> string \<times> string) result" where
  "new_token c =
     rbind (cc_id c) (\<lambda>k.
     rbind (Secure_NewToken (cc_random c)) (\<lambda>secret.
     reject_if (\<not> validCredentialSecret secret) (Err ''credential token generator returned insufficient entropy'')
       (rbind (Credential_Digest (cc_pepper c) (credentialToken k secret)) (\<lambda>d.
          Inr (k, credentialToken k secret, d)))))"

definition active_until :: "SellerPlanResponse \<Rightarrow> instant \<Rightarrow> bool" where
  "active_until p now \<longleftrightarrow>
     (let e = sv_Entitlement (sp_Assignment p)
      in en_Status e = EntitlementStatusActive \<and> Timestamp_Before now (en_AccessEndsAt e))"

definition plan_epoch :: "SellerPlanResponse \<Rightarrow> u64" where
  "plan_epoch p = en_EntitlementEpoch (sv_Entitlement (sp_Assignment p))"

definition credentialIssuanceEpoch :: "credential_call \<Rightarrow> ID \<Rightarrow> instant \<Rightarrow> (credential_world, u64) action" where
  "credentialIssuanceEpoch c sellerID now =
     (if \<not> cc_exchange c then pure (Inr 1)
      else reading (\<lambda>w. rbind (ResolveSellerPlan (cw_entitlements w) (cc_clock c 1) sellerID) (\<lambda>p.
        reject_if (\<not> active_until p now) ErrSubscriptionInactive (Inr (plan_epoch p)))))"

definition fresh_credential ::
  "ID \<Rightarrow> ID \<Rightarrow> string \<Rightarrow> string \<Rightarrow> Scope list \<Rightarrow> u64 \<Rightarrow> instant option \<Rightarrow> instant \<Rightarrow> CredentialParams" where
  "fresh_credential k sellerID tokenHash label scopes epoch expiresAt createdAt =
     \<lparr>ic_credentialID = k, ic_sellerID = sellerID, ic_tokenHash = tokenHash, ic_label = label, ic_scopes = scopes,
      ic_entitlementEpoch = epoch, ic_expiresAt = expiresAt, ic_revokedAt = None, ic_lastUsedAt = None,
      ic_replacedByCredentialID = None, ic_createdAt = createdAt, ic_updatedAt = 0, ic_version = 0\<rparr>"

definition Cred_Service_Create ::
  "credential_call \<Rightarrow> string \<Rightarrow> ID \<Rightarrow> CreateCredentialRequest \<Rightarrow> (credential_world, CredentialView \<times> string) action" where
  "Cred_Service_Create c ownerSubject sellerID q =
     abind (pure (cc_authorize c ownerSubject sellerID)) (\<lambda>_.
     abind (pure (case cc_issuance c of None \<Rightarrow> Inl ErrCredentialIssuanceUnavailable | Some f \<Rightarrow> f ownerSubject sellerID)) (\<lambda>_.
     abind (pure (new_token c)) (\<lambda>(k, rawToken, tokenDigest).
     abind (credentialIssuanceEpoch c sellerID (cc_clock c 0)) (\<lambda>epoch.
     abind (pure (NewCredential (cc_ulid c) (cc_printable c)
       (fresh_credential k sellerID tokenDigest (cq_Label q) (cq_Scopes q) epoch (cq_ExpiresAt q) (cc_clock c 0)))) (\<lambda>cred.
     abind (in_credentials (\<lambda>r. Cred_Create r cred)) (\<lambda>_.
     abind (credential_record c sellerID ActorTypeSellerUser ownerSubject ActionCredentialCreated
       (ic_credentialID cred) OutcomeSucceeded [''label'', ''scopes'', ''expiresAt'']) (\<lambda>_.
     pure (Inr (credentialView cred, rawToken)))))))))"

section \<open>Rotation\<close>

abbreviation credentialRotationReplayWindow :: int where "credentialRotationReplayWindow \<equiv> 10 * Minute"

definition replayCredentialRotation ::
  "credential_call \<Rightarrow> RotationReplay \<Rightarrow> string \<Rightarrow> instant \<Rightarrow> CredentialRotation result" where
  "replayCredentialRotation c replay requestHash now =
     reject_if (rl_RequestHash replay \<noteq> requestHash) ErrRotationIdempotencyConflict
    (reject_if (\<not> now < rl_ExpiresAt replay) (RotationRecoveryError (rl_SuccessorCredentialID replay))
       (cc_open c (rl_ProtectedResponse replay)))"

definition credentialRotationReplayScope :: "string \<Rightarrow> ID \<Rightarrow> ID \<Rightarrow> string" where
  "credentialRotationReplayScope ownerSubject sellerID k =
     ownerSubject @ '':rotateIntegrationCredential:'' @ sellerID @ '':'' @ k"

text \<open>The successor takes over what the request does not set.\<close>

definition successor_params ::
  "RotateCredentialRequest \<Rightarrow> Credential \<Rightarrow> ID \<Rightarrow> ID \<Rightarrow> string \<Rightarrow> u64 \<Rightarrow> instant \<Rightarrow> CredentialParams" where
  "successor_params q predecessor k sellerID tokenDigest epoch now =
     fresh_credential k sellerID tokenDigest
       (if TrimSpace (rq_Label q) = [] then ic_label predecessor else TrimSpace (rq_Label q))
       (if rq_Scopes q = [] then ic_scopes predecessor else rq_Scopes q) epoch
       (if rq_ExpiresAt q = None then ic_expiresAt predecessor else rq_ExpiresAt q) now"

text \<open>
  Storing the rotation. A conflict looks for the replay record of a competing call once more, and every
  error of the repository is returned as it is.
\<close>

definition storing_rotation ::
  "credential_call \<Rightarrow> Credential \<Rightarrow> Credential \<Rightarrow> u64 \<Rightarrow> RotationReplay \<Rightarrow> string \<Rightarrow> ID \<Rightarrow> ID
     \<Rightarrow> CredentialRotation \<Rightarrow> (credential_world, CredentialRotation) action" where
  "storing_rotation c replaced successor expectedVersion replay ownerSubject sellerID k rotation =
     attempt (in_credentials (\<lambda>r. Cred_Rotate r replaced successor expectedVersion replay))
       (\<lambda>e. if e = ErrConditionFailed
            then reading (\<lambda>w. case LoadRotationReplay (cw_credentials w) (rl_Scope replay) (rl_Key replay) of
                   Some committed \<Rightarrow> replayCredentialRotation c committed (rl_RequestHash replay) (cc_clock c 0)
                 | None \<Rightarrow> Inl e)
            else pure (Inl e))
       (\<lambda>_. abind (credential_record c sellerID ActorTypeSellerUser ownerSubject ActionCredentialRotated
              k OutcomeSucceeded [''revokedAt'', ''replacedByCredentialId'']) (\<lambda>_. pure (Inr rotation)))"

definition rotating ::
  "credential_call \<Rightarrow> string \<Rightarrow> ID \<Rightarrow> ID \<Rightarrow> RotateCredentialRequest \<Rightarrow> string \<Rightarrow> string \<Rightarrow> Credential
     \<Rightarrow> (credential_world, CredentialRotation) action" where
  "rotating c ownerSubject sellerID k q replayKey requestHash predecessor =
     guard (ic_version predecessor \<noteq> rq_ExpectedVersion q) ErrConditionFailed
    (guard (ic_revokedAt predecessor \<noteq> None)
       (case ic_replacedByCredentialID predecessor of None \<Rightarrow> ErrCredentialRevoked | Some i \<Rightarrow> RotationRecoveryError i)
    (abind (pure (new_token c)) (\<lambda>(successorID, rawToken, tokenDigest).
     abind (credentialIssuanceEpoch c sellerID (cc_clock c 0)) (\<lambda>epoch.
     abind (pure (NewCredential (cc_ulid c) (cc_printable c)
       (successor_params q predecessor successorID sellerID tokenDigest epoch (cc_clock c 0)))) (\<lambda>successor.
     abind (pure (Credential_Replace predecessor successorID (cc_clock c 0))) (\<lambda>replaced.
     let rotation = \<lparr>ro_Predecessor = credentialView replaced, ro_Successor = credentialView successor,
           ro_Token = rawToken, ro_SecretReplayExpiresAt = Timestamp_Add (cc_clock c 0) credentialRotationReplayWindow\<rparr>
     in abind (pure (cc_seal c rotation)) (\<lambda>protected.
        storing_rotation c replaced successor (rq_ExpectedVersion q)
          \<lparr>rl_Scope = credentialRotationReplayScope ownerSubject sellerID k, rl_Key = replayKey,
           rl_RequestHash = requestHash, rl_ProtectedResponse = protected, rl_SuccessorCredentialID = successorID,
           rl_CreatedAt = cc_clock c 0, rl_ExpiresAt = ro_SecretReplayExpiresAt rotation\<rparr>
          ownerSubject sellerID k rotation)))))))"

definition Cred_Service_Rotate ::
  "credential_call \<Rightarrow> string \<Rightarrow> ID \<Rightarrow> ID \<Rightarrow> RotateCredentialRequest \<Rightarrow> RotationIdempotency
     \<Rightarrow> (credential_world, CredentialRotation) action" where
  "Cred_Service_Rotate c ownerSubject sellerID k q idempotency =
     abind (pure (cc_authorize c ownerSubject sellerID)) (\<lambda>_.
     abind (pure (ParseIdempotencyKey (ri_Key idempotency))) (\<lambda>replayKey.
     let requestHash = hex_encode (Sum256 (ri_RequestBody idempotency));
         scope = credentialRotationReplayScope ownerSubject sellerID k
     in abind (reading (\<lambda>w. Inr (LoadRotationReplay (cw_credentials w) scope replayKey))) (\<lambda>found.
        case found of
          Some replay \<Rightarrow> pure (replayCredentialRotation c replay requestHash (cc_clock c 0))
        | None \<Rightarrow>
            abind (reading (\<lambda>w. Cred_Get (cw_credentials w) sellerID k)) (\<lambda>predecessor.
            rotating c ownerSubject sellerID k q replayKey requestHash predecessor))))"

section \<open>Listing and revoking\<close>

definition Cred_Service_List :: "credential_call \<Rightarrow> string \<Rightarrow> ID \<Rightarrow> (credential_world, CredentialView list) action" where
  "Cred_Service_List c ownerSubject sellerID =
     abind (pure (cc_authorize c ownerSubject sellerID)) (\<lambda>_.
     reading (\<lambda>w. Inr (map credentialView (Cred_ListBySeller (cw_credentials w) sellerID))))"

definition Cred_Service_Revoke ::
  "credential_call \<Rightarrow> string \<Rightarrow> ID \<Rightarrow> ID \<Rightarrow> u64 \<Rightarrow> (credential_world, CredentialView) action" where
  "Cred_Service_Revoke c ownerSubject sellerID k expectedVersion =
     abind (pure (cc_authorize c ownerSubject sellerID)) (\<lambda>_.
     abind (reading (\<lambda>w. Cred_Get (cw_credentials w) sellerID k)) (\<lambda>cred.
     abind (pure (Credential_Revoke cred (cc_clock c 0))) (\<lambda>revoked.
     abind (in_credentials (\<lambda>r. Cred_Update r revoked expectedVersion)) (\<lambda>_.
     abind (credential_record c sellerID ActorTypeSellerUser ownerSubject ActionCredentialRevoked k OutcomeSucceeded
       [''revokedAt'']) (\<lambda>_.
     pure (Inr (credentialView revoked)))))))"

section \<open>Authentication\<close>

text \<open>\<open>hmac.Equal\<close> of the decoded digests, both of which must decode.\<close>

definition digests_match :: "string \<Rightarrow> string \<Rightarrow> bool" where
  "digests_match stored provided \<longleftrightarrow> hex_decode stored \<noteq> None \<and> hex_decode stored = hex_decode provided"

definition verdict_on_credential :: "credential_call \<Rightarrow> instant \<Rightarrow> string \<Rightarrow> ID \<Rightarrow> Credential \<Rightarrow> Principal result" where
  "verdict_on_credential c now rawToken k cred =
     rbind (Credential_Digest (cc_pepper c) rawToken) (\<lambda>provided.
     reject_if (\<not> digests_match (ic_tokenHash cred) provided) ErrCredentialInvalid
    (reject_if (ic_revokedAt cred \<noteq> None) ErrCredentialRevoked
    (reject_if (case ic_expiresAt cred of None \<Rightarrow> False | Some e \<Rightarrow> \<not> now < e) ErrCredentialExpired
       (Inr \<lparr>pi_SellerID = ic_sellerID cred, pi_CredentialID = k, pi_Scopes = ic_scopes cred\<rparr>))))"

text \<open>The credential that was loaded, if one was, and the verdict.\<close>

definition authenticateCredential ::
  "credential_call \<Rightarrow> instant \<Rightarrow> CredentialRepository \<Rightarrow> string \<Rightarrow> Credential option \<times> Principal result" where
  "authenticateCredential c now r rawToken =
     (case parseCredentialToken (cc_ulid c) rawToken of
        Inl _ \<Rightarrow> (None, Inl ErrCredentialInvalid)
      | Inr k \<Rightarrow>
          (case Cred_GetByID r k of
             Inl e \<Rightarrow> (None, Inl (if e = ErrNotFound then ErrCredentialInvalid else e))
           | Inr cred \<Rightarrow> (Some cred, verdict_on_credential c now rawToken k cred)))"

definition authorizeCurrentEntitlement ::
  "SellerPlanResponse result \<Rightarrow> Credential \<Rightarrow> instant \<Rightarrow> SellerPlanResponse result" where
  "authorizeCurrentEntitlement plan cred now =
     (case plan of
        Inl e \<Rightarrow> Inl (if missing_entitlement e then ErrSubscriptionInactive else e)
      | Inr p \<Rightarrow>
          reject_if (\<not> active_until p now) ErrSubscriptionInactive
         (reject_if (ic_entitlementEpoch cred = 0 \<or> ic_entitlementEpoch cred \<noteq> plan_epoch p) ErrCredentialRevoked
            (Inr p)))"

definition AuthenticateToken :: "credential_call \<Rightarrow> string \<Rightarrow> (credential_world, Principal) action" where
  "AuthenticateToken c rawToken =
     abind (reading (\<lambda>w. snd (authenticateCredential c (cc_clock c 0) (cw_credentials w) rawToken))) (\<lambda>p.
     if \<not> cc_exchange c then pure (Inr p)
     else abind (reading (\<lambda>w. Cred_Get (cw_credentials w) (pi_SellerID p) (pi_CredentialID p))) (\<lambda>cred.
          abind (reading (\<lambda>w. authorizeCurrentEntitlement
            (ResolveSellerPlan (cw_entitlements w) (cc_clock c 2) (ic_sellerID cred)) cred (cc_clock c 1))) (\<lambda>_.
          pure (Inr p))))"

definition Authenticate :: "credential_call \<Rightarrow> string \<Rightarrow> Scope \<Rightarrow> (credential_world, Principal) action" where
  "Authenticate c rawToken required =
     abind (AuthenticateToken c rawToken) (\<lambda>p.
     guard (\<not> HasScope (pi_Scopes p) required) ErrScopeDenied (pure (Inr p)))"

section \<open>The exchange\<close>

definition denyExchange :: "credential_call \<Rightarrow> Credential \<Rightarrow> go_error \<Rightarrow> (credential_world, 'a) action" where
  "denyExchange c cred denial =
     abind (credential_record c (ic_sellerID cred) ActorTypeIntegrationCredential (ic_credentialID cred)
       ActionCredentialExchangeDenied (ic_credentialID cred) OutcomeDenied [''authorization'']) (\<lambda>_.
     pure (Inl denial))"

definition supportedExchangeScope :: "Scope \<Rightarrow> bool" where
  "supportedExchangeScope s \<longleftrightarrow> s \<in> {ScopeRead, ScopeConfigure, ScopePublish, ScopeValidate}"

fun exchange_scopes :: "Scope list \<Rightarrow> Scope list \<Rightarrow> Scope list \<Rightarrow> unit result" where
  "exchange_scopes granted seen [] = Inr ()"
| "exchange_scopes granted seen (s # ss) =
     reject_if (\<not> supportedExchangeScope s) ErrScopeDenied
    (reject_if (s \<in> set seen) (validation ''scopes'' ''unique'' ''must not contain duplicate scopes'')
    (reject_if (\<not> HasScope granted s) ErrScopeDenied (exchange_scopes granted (s # seen) ss)))"

definition requested_scopes :: "Scope list \<Rightarrow> Scope list \<Rightarrow> unit result" where
  "requested_scopes granted requested =
     reject_if (requested = []) (validation ''scopes'' ''required'' ''must contain at least one scope'')
       (exchange_scopes granted [] requested)"

text \<open>The use is counted against the plan, then stored; the quota service resolves the plan itself.\<close>

definition using_credential :: "credential_call \<Rightarrow> Credential \<Rightarrow> ID \<Rightarrow> ID \<Rightarrow> (credential_world, unit) action" where
  "using_credential c cred sellerID k =
     abind (writing (\<lambda>w. ConsumeAPIRequest (ResolveSellerPlan (cw_entitlements w) (cc_clock c 4)) (cc_clock c 5)
         (cc_clock c 6) (cw_quotas w) sellerID) (\<lambda>r w. w\<lparr>cw_quotas := r\<rparr>)) (\<lambda>_.
     abind (pure (MarkUsed cred (cc_clock c 2))) (\<lambda>used.
     abind (in_credentials (\<lambda>r. Cred_Update r used (ic_version cred))) (\<lambda>_.
     credential_record c sellerID ActorTypeIntegrationCredential k ActionCredentialExchangeSucceeded k
       OutcomeSucceeded [''lastUsedAt''])))"

definition exchanging ::
  "credential_call \<Rightarrow> Credential \<Rightarrow> Principal \<Rightarrow> Scope list \<Rightarrow> (credential_world, ExchangeAuthorization) action" where
  "exchanging c cred p requested =
     attempt (pure (requested_scopes (pi_Scopes p) requested)) (denyExchange c cred) (\<lambda>_.
     attempt (reading (\<lambda>w. authorizeCurrentEntitlement
         (ResolveSellerPlan (cw_entitlements w) (cc_clock c 3) (ic_sellerID cred)) cred (cc_clock c 2)))
       (denyExchange c cred) (\<lambda>plan.
     abind (using_credential c cred (pi_SellerID p) (pi_CredentialID p)) (\<lambda>_.
     pure (Inr \<lparr>ea_Principal = p\<lparr>pi_Scopes := requested\<rparr>, ea_EntitlementEpoch = plan_epoch plan\<rparr>))))"

text \<open>A refusal of a known key is recorded.\<close>

definition exchange_after ::
  "credential_call \<Rightarrow> Scope list \<Rightarrow> Credential option \<times> Principal result \<Rightarrow> (credential_world, ExchangeAuthorization) action" where
  "exchange_after c requested loaded =
     (case snd loaded of
        Inl e \<Rightarrow>
          (case fst loaded of
             Some cred \<Rightarrow> if ic_credentialID cred \<noteq> [] then denyExchange c cred e else pure (Inl e)
           | None \<Rightarrow> pure (Inl e))
      | Inr p \<Rightarrow> exchanging c (the (fst loaded)) p requested)"

definition AuthorizeExchange ::
  "credential_call \<Rightarrow> string \<Rightarrow> Scope list \<Rightarrow> (credential_world, ExchangeAuthorization) action" where
  "AuthorizeExchange c rawToken requested =
     (case parseCredentialToken (cc_ulid c) rawToken of
        Inl _ \<Rightarrow> pure (Inl ErrCredentialInvalid)
      | Inr k \<Rightarrow>
          guard (\<not> cc_exchange c) ErrExchangeAuthorizationUnavailable
         (abind (writing (\<lambda>w. AllowProjectKeyExchange (cw_limiter w) (cc_clock c 0) k) (\<lambda>l w. w\<lparr>cw_limiter := l\<rparr>)) (\<lambda>_.
          abind (reading (\<lambda>w. Inr (authenticateCredential c (cc_clock c 1) (cw_credentials w) rawToken)))
            (exchange_after c requested))))"

section \<open>The life of a key\<close>

lemma cred_at_put [simp]: "cred_at (put_credential c r) = (cred_at r)(ic_credentialID c \<mapsto> c)"
  by (simp add: cred_at_def put_credential_def update_conv')

lemma cred_at_replays [simp]: "cred_at (cr_replays_update f r) = cred_at r"
  by (simp add: cred_at_def)

lemma NewCredential_ok:
  "NewCredential ulid printable p = Inr c \<longleftrightarrow> validateCredentialParams ulid printable p = []
     \<and> c = p\<lparr>ic_label := TrimSpace (ic_label p),
            ic_updatedAt := (if ic_updatedAt p = 0 then ic_createdAt p else ic_updatedAt p),
            ic_version := (if ic_version p = 0 then 1 else ic_version p)\<rparr>"
  by (auto simp: NewCredential_def Let_def result_simps)

lemma MarkUsed_ok:
  "MarkUsed c t = Inr c' \<longleftrightarrow> ic_revokedAt c = None \<and> ic_updatedAt c \<le> t
     \<and> c' = c\<lparr>ic_lastUsedAt := Some t, ic_updatedAt := t, ic_version := ic_version c + 1\<rparr>"
  by (auto simp: MarkUsed_def result_simps Timestamp_Before_def)

lemma Revoke_ok:
  "Credential_Revoke c t = Inr c' \<longleftrightarrow> ic_revokedAt c = None \<and> ic_updatedAt c \<le> t
     \<and> c' = c\<lparr>ic_revokedAt := Some t, ic_updatedAt := t, ic_version := ic_version c + 1\<rparr>"
  by (auto simp: Credential_Revoke_def result_simps Timestamp_Before_def)

lemma Replace_ok:
  "Credential_Replace c k t = Inr c' \<longleftrightarrow> ID_Prefix k = CredentialIDPrefix \<and> k \<noteq> ic_credentialID c
     \<and> ic_revokedAt c = None \<and> ic_updatedAt c \<le> t
     \<and> c' = c\<lparr>ic_revokedAt := Some t, ic_updatedAt := t, ic_version := ic_version c + 1,
              ic_replacedByCredentialID := Some k\<rparr>"
  by (auto simp: Credential_Replace_def result_simps Revoke_ok)

lemma Cred_Create_ok:
  "Cred_Create r c = Inr r' \<longleftrightarrow> cred_at r (ic_credentialID c) = None \<and> r' = put_credential c r"
  by (auto simp: Cred_Create_def result_simps)

lemma cred_writable_ok:
  "cred_writable r c v = Inr u \<longleftrightarrow> (\<exists>stored. cred_at r (ic_credentialID c) = Some stored
     \<and> ic_sellerID stored = ic_sellerID c \<and> ic_version stored = v \<and> ic_version c = v + 1)"
  by (auto simp: cred_writable_def result_simps split: option.split)

lemma Cred_Update_ok:
  "Cred_Update r c v = Inr r' \<longleftrightarrow> cred_writable r c v = Inr () \<and> r' = put_credential c r"
  by (auto simp: Cred_Update_def result_simps)

lemma Cred_Rotate_ok:
  "Cred_Rotate r c s v replay = Inr r' \<longleftrightarrow> cred_writable r c v = Inr () \<and> cred_at r (ic_credentialID s) = None
     \<and> cr_replays r (rotationReplayMapKey (rl_Scope replay) (rl_Key replay)) = None
     \<and> r' = cr_replays_update (\<lambda>m. m(rotationReplayMapKey (rl_Scope replay) (rl_Key replay) \<mapsto> replay))
              (put_credential s (put_credential c r))"
  by (auto simp: Cred_Rotate_def Let_def result_simps put_credential_def)

lemmas credential_ok =
  NewCredential_ok MarkUsed_ok Revoke_ok Replace_ok Cred_Create_ok Cred_Update_ok Cred_Rotate_ok

text \<open>
  Any number of callers at the same time. Each writes what it made of a key it has read at some point,
  so of any value ever stored; \<open>h\<close> records these for every key, oldest first.
\<close>

type_synonym credential_history = "ID \<Rightarrow> Credential list"

inductive credential_step ::
  "CredentialRepository \<times> credential_history \<Rightarrow> CredentialRepository \<times> credential_history \<Rightarrow> bool" where
  issue: "NewCredential ulid printable (fresh_credential k sellerID digest label scopes epoch expiresAt t) = Inr c \<Longrightarrow>
    Cred_Create r c = Inr r' \<Longrightarrow> credential_step (r, h) (r', h(k := h k @ [c]))"
| use: "old \<in> set (h k) \<Longrightarrow> MarkUsed old t = Inr c \<Longrightarrow> Cred_Update r c v = Inr r' \<Longrightarrow>
    credential_step (r, h) (r', h(k := h k @ [c]))"
| revoke: "old \<in> set (h k) \<Longrightarrow> Credential_Revoke old t = Inr c \<Longrightarrow> Cred_Update r c v = Inr r' \<Longrightarrow>
    credential_step (r, h) (r', h(k := h k @ [c]))"
| rotate: "old \<in> set (h k) \<Longrightarrow> Credential_Replace old k' t = Inr c \<Longrightarrow>
    NewCredential ulid printable (successor_params q old k' (ic_sellerID old) digest epoch t) = Inr s \<Longrightarrow>
    Cred_Rotate r c s v replay = Inr r' \<Longrightarrow>
    credential_step (r, h) (r', h(k := h k @ [c], k' := h k' @ [s]))"

text \<open>What no operation changes, and how one may change a key.\<close>

definition same_key :: "Credential \<Rightarrow> Credential \<Rightarrow> bool" where
  "same_key c c' \<longleftrightarrow> ic_credentialID c' = ic_credentialID c \<and> ic_sellerID c' = ic_sellerID c
     \<and> ic_tokenHash c' = ic_tokenHash c \<and> ic_label c' = ic_label c \<and> ic_scopes c' = ic_scopes c
     \<and> ic_entitlementEpoch c' = ic_entitlementEpoch c \<and> ic_expiresAt c' = ic_expiresAt c
     \<and> ic_createdAt c' = ic_createdAt c"

definition key_next :: "Credential \<Rightarrow> Credential \<Rightarrow> bool" where
  "key_next c c' \<longleftrightarrow> same_key c c' \<and> ic_revokedAt c = None \<and> ic_updatedAt c \<le> ic_updatedAt c'"

definition wf_key :: "ID \<Rightarrow> Credential \<Rightarrow> bool" where
  "wf_key k c \<longleftrightarrow> ic_credentialID c = k \<and> (ic_replacedByCredentialID c \<noteq> None \<longrightarrow> ic_revokedAt c \<noteq> None)
     \<and> ic_scopes c \<noteq> [] \<and> ic_entitlementEpoch c \<noteq> 0"

text \<open>The successor of a replaced key is stored, for the same seller.\<close>

definition linked_keys :: "(ID \<rightharpoonup> Credential) \<Rightarrow> bool" where
  "linked_keys m \<longleftrightarrow> (\<forall>k c k'. m k = Some c \<longrightarrow> ic_replacedByCredentialID c = Some k' \<longrightarrow>
     k' \<noteq> k \<and> (\<exists>s. m k' = Some s \<and> ic_sellerID s = ic_sellerID c))"

lemma linked_keys_put:
  assumes "linked_keys m" "\<And>old. m k = Some old \<Longrightarrow> ic_sellerID old = ic_sellerID c"
    and "\<And>k'. ic_replacedByCredentialID c = Some k' \<Longrightarrow> k' \<noteq> k \<and> (\<exists>s. m k' = Some s \<and> ic_sellerID s = ic_sellerID c)"
  shows "linked_keys (m(k \<mapsto> c))"
  unfolding linked_keys_def
proof (intro allI impI)
  fix i d k'
  assume d: "(m(k \<mapsto> c)) i = Some d" "ic_replacedByCredentialID d = Some k'"
  show "k' \<noteq> i \<and> (\<exists>s. (m(k \<mapsto> c)) k' = Some s \<and> ic_sellerID s = ic_sellerID d)"
  proof (cases "i = k")
    case True
    with d assms(3) show ?thesis by auto
  next
    case False
    with d have "m i = Some d" by simp
    with d(2) assms(1) obtain s where "k' \<noteq> i" "m k' = Some s" "ic_sellerID s = ic_sellerID d"
      unfolding linked_keys_def by blast
    with assms(2) [of s] show ?thesis by (cases "k' = k") auto
  qed
qed

definition wf_keys :: "CredentialRepository \<times> credential_history \<Rightarrow> bool" where
  "wf_keys s \<longleftrightarrow> (case s of (r, h) \<Rightarrow>
     (\<forall>k. cred_at r k = latest (h k) \<and> versioned ic_version (wf_key k) key_next (h k))
     \<and> linked_keys (cred_at r))"

lemma wf_keys_new: "wf_keys (NewCredentialRepository, \<lambda>_. [])"
  by (simp add: wf_keys_def NewCredentialRepository_def cred_at_def linked_keys_def)

lemma fresh_wf_key:
  assumes "NewCredential ulid printable (fresh_credential k sellerID digest label scopes epoch expiresAt t) = Inr c"
  shows "wf_key k c" "ic_version c = 1" "ic_sellerID c = sellerID" "ic_credentialID c = k"
    "ic_replacedByCredentialID c = None"
  using assms
  by (auto simp: NewCredential_ok fresh_credential_def wf_key_def validateCredentialParams_def validateScopes_def
      add_if_def split: if_split_asm)

text \<open>A write that is accepted was prepared from the stored value.\<close>

lemma accepted_write:
  assumes "wf_keys (r, h)" "old \<in> set (h k)" "cred_writable r c v = Inr ()" "length (h k) + 1 < 2 ^ 64"
    and "ic_credentialID c = ic_credentialID old" "ic_version c = ic_version old + 1"
  shows "cred_at r k = Some old" "old = last (h k)" "h k \<noteq> []" "unat (ic_version c) = length (h k) + 1" "wf_key k old"
proof -
  have inv: "cred_at r k = latest (h k)" "versioned ic_version (wf_key k) key_next (h k)"
    using assms(1) by (simp_all add: wf_keys_def)
  show ne: "h k \<noteq> []" using assms(2) by auto
  show wf: "wf_key k old" using versioned_good [OF inv(2) assms(2)] .
  obtain stored where "cred_at r k = Some stored" "ic_version stored + 1 = ic_version c"
    using assms(3,5) wf by (auto simp: cred_writable_ok wf_key_def)
  then have "ic_version old = ic_version (last (h k))"
    using inv(1) ne assms(6) by (simp add: latest_def)
  then show old: "old = last (h k)"
    using versioned_current [OF inv(2) assms(2)] by simp
  then show "cred_at r k = Some old"
    using inv(1) ne by (simp add: latest_def)
  show "unat (ic_version c) = length (h k) + 1"
    using version_succ [of "ic_version old" "length (h k)"] versioned_last [OF inv(2) ne] old assms(4,6) by simp
qed

lemma append_wf:
  assumes "wf_keys (r, h)" "old \<in> set (h k)" "cred_writable r c v = Inr ()" "length (h k) + 1 < 2 ^ 64"
    and "key_next old c" "ic_version c = ic_version old + 1" "wf_key k c"
  shows "versioned ic_version (wf_key k) key_next (h k @ [c])" "ic_credentialID c = k"
    "\<exists>stored. cred_at r k = Some stored \<and> ic_sellerID stored = ic_sellerID c"
proof -
  have id: "ic_credentialID c = ic_credentialID old"
    using assms(5) by (simp add: key_next_def same_key_def)
  note acc = accepted_write [OF assms(1-4) id assms(6)]
  show "versioned ic_version (wf_key k) key_next (h k @ [c])"
    using assms(1,5,7) acc by (intro versioned_snoc) (simp_all add: wf_keys_def)
  show "ic_credentialID c = k" using assms(7) by (simp add: wf_key_def)
  show "\<exists>stored. cred_at r k = Some stored \<and> ic_sellerID stored = ic_sellerID c"
    using acc(1) assms(5) by (simp add: key_next_def same_key_def)
qed

lemma update_wf_keys:
  assumes "wf_keys (r, h)" "old \<in> set (h k)" "Cred_Update r c v = Inr r'" "length (h k) + 1 < 2 ^ 64"
    and "key_next old c" "ic_version c = ic_version old + 1" "wf_key k c" "ic_replacedByCredentialID c = None"
  shows "wf_keys (r', h(k := h k @ [c]))"
proof -
  have w: "cred_writable r c v = Inr ()" "r' = put_credential c r"
    using assms(3) by (simp_all add: Cred_Update_ok)
  note app = append_wf [OF assms(1,2) w(1) assms(4-7)]
  have "cred_at r' = (cred_at r)(k \<mapsto> c)"
    using w(2) app(2) by simp
  moreover from this have "linked_keys (cred_at r')"
    using assms(1,8) app(3) linked_keys_put [of "cred_at r" k c] by (auto simp: wf_keys_def)
  ultimately show ?thesis
    using assms(1) app(1) by (simp add: wf_keys_def)
qed

lemma rotate_wf_keys:
  assumes "wf_keys (r, h)" "old \<in> set (h k)" "Cred_Rotate r c s v replay = Inr r'" "length (h k) + 1 < 2 ^ 64"
    and "key_next old c" "ic_version c = ic_version old + 1" "wf_key k c" "ic_replacedByCredentialID c = Some k'"
    and "k' \<noteq> k" "wf_key k' s" "ic_version s = 1" "ic_sellerID s = ic_sellerID c" "ic_replacedByCredentialID s = None"
  shows "wf_keys (r', h(k := h k @ [c], k' := h k' @ [s]))"
proof -
  have w: "cred_writable r c v = Inr ()" "cred_at r k' = None"
      "cred_at r' = (cred_at r)(k \<mapsto> c, k' \<mapsto> s)"
    using assms(3,7,10) by (auto simp: Cred_Rotate_ok wf_key_def)
  note app = append_wf [OF assms(1,2) w(1) assms(4-7)]
  have "h k' = []"
    using assms(1) w(2) by (simp add: wf_keys_def latest_def split: if_split_asm)
  moreover have "versioned ic_version (wf_key k') key_next [s]"
    using assms(10,11) by (simp add: versioned_def)
  moreover have "linked_keys ((cred_at r)(k' \<mapsto> s))"
    using assms(1,13) w(2) by (intro linked_keys_put) (simp_all add: wf_keys_def)
  then have "linked_keys ((cred_at r)(k' \<mapsto> s, k \<mapsto> c))"
    by (rule linked_keys_put) (use app(3) assms(8,9,12) in auto)
  then have "linked_keys (cred_at r')"
    using w(3) assms(9) by (simp add: fun_upd_twist)
  ultimately show ?thesis
    using assms(1,9) w(3) app(1) by (simp add: wf_keys_def)
qed

lemma issue_wf_keys:
  assumes "wf_keys (r, h)" "Cred_Create r c = Inr r'" "wf_key k c" "ic_version c = 1" "ic_replacedByCredentialID c = None"
  shows "wf_keys (r', h(k := h k @ [c]))"
proof -
  have w: "cred_at r k = None" "cred_at r' = (cred_at r)(k \<mapsto> c)"
    using assms(2,3) by (auto simp: Cred_Create_ok wf_key_def)
  then have "h k = []"
    using assms(1) by (simp add: wf_keys_def latest_def split: if_split_asm)
  moreover have "versioned ic_version (wf_key k) key_next [c]"
    using assms(3,4) by (simp add: versioned_def)
  moreover have "linked_keys (cred_at r')"
    using assms(1,5) w linked_keys_put [of "cred_at r" k c] by (simp add: wf_keys_def)
  ultimately show ?thesis
    using assms(1) w(2) by (simp add: wf_keys_def)
qed

lemma wf_keys_old: "wf_keys (r, h) \<Longrightarrow> old \<in> set (h k) \<Longrightarrow> wf_key k old"
  using versioned_good [of ic_version "wf_key k" key_next "h k"] by (simp add: wf_keys_def)

lemma credential_step_wf:
  assumes "credential_step (r, h) (r', h')" "wf_keys (r, h)" "\<forall>k. length (h' k) < 2 ^ 64"
  shows "wf_keys (r', h')"
  using assms(1)
proof cases
  case (issue ulid printable k sellerID digest label scopes epoch expiresAt t c)
  with fresh_wf_key [OF issue(2)] show ?thesis
    using issue_wf_keys [OF assms(2)] by simp
next
  case (use old k t c v)
  have len: "length (h k) + 1 < 2 ^ 64"
    using assms(3) [rule_format, of k] use(1) by simp
  show ?thesis unfolding use(1)
    by (rule update_wf_keys [OF assms(2) use(2,4) len])
      (use use(3) wf_keys_old [OF assms(2) use(2)] in \<open>auto simp: MarkUsed_ok key_next_def same_key_def wf_key_def\<close>)
next
  case (revoke old k t c v)
  have len: "length (h k) + 1 < 2 ^ 64"
    using assms(3) [rule_format, of k] revoke(1) by simp
  show ?thesis unfolding revoke(1)
    by (rule update_wf_keys [OF assms(2) revoke(2,4) len])
      (use revoke(3) wf_keys_old [OF assms(2) revoke(2)] in \<open>auto simp: Revoke_ok key_next_def same_key_def wf_key_def\<close>)
next
  case (rotate old k k' t c ulid printable q digest epoch s v replay)
  note old = wf_keys_old [OF assms(2) rotate(2)]
  have ne: "k' \<noteq> k"
    using rotate(3) old by (auto simp: Replace_ok wf_key_def)
  have len: "length (h k) + 1 < 2 ^ 64"
    using assms(3) [rule_format, of k] rotate(1) ne by simp
  show ?thesis unfolding rotate(1)
    by (rule rotate_wf_keys [OF assms(2) rotate(2,5) len _ _ _ _ ne])
      (use rotate(3) old fresh_wf_key [OF rotate(4)[unfolded successor_params_def]] in
        \<open>auto simp: Replace_ok key_next_def same_key_def wf_key_def\<close>)
qed

lemma credential_step_grows: "credential_step (r, h) (r', h') \<Longrightarrow> prefix (h k) (h' k)"
  by (auto elim!: credential_step.cases)

lemma credential_steps_grow: "credential_step\<^sup>*\<^sup>* s s' \<Longrightarrow> prefix (snd s k) (snd s' k)"
  by (induction rule: rtranclp_induct) (use credential_step_grows prefix_order.trans in \<open>fastforce+\<close>)

lemma credential_steps_wf:
  assumes "credential_step\<^sup>*\<^sup>* s s'" "wf_keys s" "\<forall>k. length (snd s' k) < 2 ^ 64"
  shows "wf_keys s'"
  using assms
proof (induction rule: rtranclp_induct)
  case (step y z)
  obtain ry hy rz hz where yz: "y = (ry, hy)" "z = (rz, hz)" by fastforce
  have "length (hy k) < 2 ^ 64" for k
    using prefix_length_le [OF credential_step_grows [of ry hy rz hz k]] step.hyps(2) step.prems(2) yz
    by (auto intro: le_less_trans)
  with step yz credential_step_wf [of ry hy rz hz] show ?case
    by simp
qed simp

section \<open>The service takes these steps\<close>

text \<open>Running \<open>m\<close> leaves the stored keys as they are or makes one step.\<close>

definition key_moves :: "credential_history \<Rightarrow> (credential_world, 'a) action \<Rightarrow> credential_world \<Rightarrow> bool" where
  "key_moves h m w \<longleftrightarrow> (\<exists>h'. credential_step\<^sup>=\<^sup>= (cw_credentials w, h) (cw_credentials (snd (m w)), h'))"

definition keys_stay :: "(credential_world, 'a) action \<Rightarrow> bool" where
  "keys_stay m \<longleftrightarrow> (\<forall>w. cw_credentials (snd (m w)) = cw_credentials w)"

lemma keys_stay_intros [intro]:
  "keys_stay (pure x)" "keys_stay (reading f)" "keys_stay (credential_record c s a i act k out ch)"
  "keys_stay m \<Longrightarrow> (\<And>x. keys_stay (g x)) \<Longrightarrow> keys_stay (abind m g)"
  "keys_stay m \<Longrightarrow> (\<And>e. keys_stay (b e)) \<Longrightarrow> (\<And>x. keys_stay (g x)) \<Longrightarrow> keys_stay (attempt m b g)"
  "keys_stay (denyExchange c cred e)"
  by (auto simp: keys_stay_def action_simps credential_record_def denyExchange_def split: sum.split)

lemma key_moves_stay: "keys_stay m \<Longrightarrow> key_moves h m w"
  by (auto simp: key_moves_def keys_stay_def)

lemma key_moves_abind:
  assumes "keys_stay m" "\<And>x. fst (m w) = Inr x \<Longrightarrow> key_moves h (f x) (snd (m w))"
  shows "key_moves h (abind m f) w"
  using assms by (auto simp: key_moves_def keys_stay_def abind_run split: sum.split)

lemma key_moves_attempt:
  assumes "keys_stay m" "\<And>e. fst (m w) = Inl e \<Longrightarrow> key_moves h (b e) (snd (m w))"
    "\<And>x. fst (m w) = Inr x \<Longrightarrow> key_moves h (f x) (snd (m w))"
  shows "key_moves h (attempt m b f) w"
  using assms by (auto simp: key_moves_def keys_stay_def attempt_run split: sum.split)

lemma key_moves_guard: "(\<not> b \<Longrightarrow> key_moves h m w) \<Longrightarrow> key_moves h (guard b e m) w"
  by (simp add: guard_def key_moves_stay keys_stay_intros)

lemma key_moves_pure_abind:
  "(\<And>x. m = Inr x \<Longrightarrow> key_moves h (f x) w) \<Longrightarrow> key_moves h (abind (pure m) f) w"
  by (cases m) (auto intro: key_moves_stay)

lemma key_moves_read:
  "(\<And>x. f w = Inr x \<Longrightarrow> key_moves h (g x) w) \<Longrightarrow> key_moves h (abind (reading f) g) w"
  by (rule key_moves_abind) auto

lemma key_moves_writing:
  assumes "\<And>r'. f (cw_credentials w) = Inr r' \<Longrightarrow> \<exists>h'. credential_step (cw_credentials w, h) (r', h')"
    and "\<And>x. keys_stay (g x)"
  shows "key_moves h (abind (in_credentials f) g) w"
proof (cases "f (cw_credentials w)")
  case (Inl e)
  then show ?thesis by (auto simp: key_moves_def in_credentials_def action_simps)
next
  case (Inr r')
  with assms show ?thesis
    by (force simp: key_moves_def in_credentials_def action_simps keys_stay_def)
qed

lemma key_moves_writing_attempt:
  assumes "\<And>r'. f (cw_credentials w) = Inr r' \<Longrightarrow> \<exists>h'. credential_step (cw_credentials w, h) (r', h')"
    and "\<And>e. keys_stay (b e)" "\<And>x. keys_stay (g x)"
  shows "key_moves h (attempt (in_credentials f) b g) w"
proof (cases "f (cw_credentials w)")
  case (Inl e)
  with assms(2) show ?thesis by (auto simp: key_moves_def in_credentials_def action_simps keys_stay_def)
next
  case (Inr r')
  with assms(1,3) show ?thesis
    by (force simp: key_moves_def in_credentials_def action_simps keys_stay_def)
qed

lemmas key_moves_intros = key_moves_pure_abind key_moves_read key_moves_guard

text \<open>The value a call reads is in the history.\<close>

lemma loaded_in_history:
  assumes "wf_keys (r, h)" "cred_at r k = Some c"
  shows "c \<in> set (h k)" "ic_credentialID c = k"
proof -
  have "latest (h k) = Some c"
    using assms by (simp add: wf_keys_def)
  then show "c \<in> set (h k)"
    by (auto simp: latest_eq_Some)
  then show "ic_credentialID c = k"
    using wf_keys_old [OF assms(1)] by (auto simp: wf_key_def)
qed

lemma Cred_Get_ok: "Cred_Get r sellerID k = Inr c \<longleftrightarrow> cred_at r k = Some c \<and> ic_sellerID c = sellerID"
  by (auto simp: Cred_Get_def result_simps split: option.split)

lemma key_moves_epoch:
  "(\<And>x. key_moves h (f x) w) \<Longrightarrow> key_moves h (abind (credentialIssuanceEpoch c sellerID t) f) w"
  unfolding credentialIssuanceEpoch_def by (cases "cc_exchange c") (auto intro: key_moves_read)

lemma create_moves: "key_moves h (Cred_Service_Create c owner sellerID q) w"
  unfolding Cred_Service_Create_def split_def
  by (intro key_moves_pure_abind key_moves_epoch key_moves_writing) (auto intro: issue)

lemma revoke_moves:
  assumes wf: "wf_keys (cw_credentials w, h)"
  shows "key_moves h (Cred_Service_Revoke c owner sellerID k v) w"
proof -
  have "\<exists>h'. credential_step (cw_credentials w, h) (r', h')"
    if "cred_at (cw_credentials w) k = Some old" "Credential_Revoke old t = Inr d"
      "Cred_Update (cw_credentials w) d v = Inr r'" for old t d r'
    using revoke [where h = h, OF loaded_in_history(1) [OF wf that(1)] that(2,3)] by blast
  then show ?thesis
    unfolding Cred_Service_Revoke_def
    by (intro key_moves_pure_abind key_moves_read key_moves_writing) (auto simp: Cred_Get_ok)
qed

lemma rotate_moves:
  assumes wf: "wf_keys (cw_credentials w, h)"
  shows "key_moves h (Cred_Service_Rotate c owner sellerID k q idem) w"
proof -
  have rotating: "key_moves h (rotating c owner sellerID k q key hash p) w"
    if p: "cred_at (cw_credentials w) k = Some p" "ic_sellerID p = sellerID" for key hash p
  proof -
    have "\<exists>h'. credential_step (cw_credentials w, h) (r', h')"
      if "Credential_Replace p k' t = Inr d" "NewCredential u pr (successor_params q p k' sellerID dg ep t) = Inr s"
        "Cred_Rotate (cw_credentials w) d s v rp = Inr r'" for k' t d u pr dg ep s v rp r'
      using rotate [where h = h, OF loaded_in_history(1) [OF wf p(1)] that(1) that(2)[folded p(2)] that(3)] by blast
    then show ?thesis
      unfolding rotating_def storing_rotation_def split_def Let_def
      by (intro key_moves_guard key_moves_pure_abind key_moves_epoch key_moves_writing_attempt) auto
  qed
  show ?thesis
    unfolding Cred_Service_Rotate_def Let_def
  proof (intro key_moves_pure_abind key_moves_read)
    fix found :: "RotationReplay option" and replayKey
    show "key_moves h (case found of Some replay \<Rightarrow> pure (replayCredentialRotation c replay
          (hex_encode (Sum256 (ri_RequestBody idem))) (cc_clock c 0))
        | None \<Rightarrow> abind (reading (\<lambda>w. Cred_Get (cw_credentials w) sellerID k))
            (rotating c owner sellerID k q replayKey (hex_encode (Sum256 (ri_RequestBody idem))))) w"
    proof (cases found)
      case None
      then show ?thesis
        by simp (rule key_moves_read, rule rotating, auto simp: Cred_Get_ok)
    qed (auto intro: key_moves_stay)
  qed
qed

text \<open>The key an exchange uses is stored again as it was read.\<close>

lemma authenticated_stored:
  assumes "authenticateCredential c now r token = (loaded, Inr p)"
  obtains cred where "loaded = Some cred" "parseCredentialToken (cc_ulid c) token = Inr (pi_CredentialID p)"
    "cred_at r (pi_CredentialID p) = Some cred"
    "verdict_on_credential c now token (pi_CredentialID p) cred = Inr p"
proof -
  obtain k where k: "parseCredentialToken (cc_ulid c) token = Inr k"
    using assms by (auto simp: authenticateCredential_def split: sum.split_asm)
  with assms obtain cred where "loaded = Some cred" "cred_at r k = Some cred" "verdict_on_credential c now token k cred = Inr p"
    by (auto simp: authenticateCredential_def Cred_GetByID_def split: sum.split_asm option.split_asm)
  with k that show thesis
    by (auto simp: verdict_on_credential_def result_simps)
qed

lemma exchanging_moves:
  assumes wf: "wf_keys (cw_credentials w, h)" and cred: "cred_at (cw_credentials w) k = Some cred"
  shows "key_moves h (exchanging c cred p requested) w"
proof -
  have step: "\<exists>h'. credential_step (cw_credentials w, h) (r', h')"
    if "MarkUsed cred t = Inr d" "Cred_Update (cw_credentials w) d v = Inr r'" for t d v r'
    using use [where h = h, OF loaded_in_history(1) [OF wf cred] that] by blast
  have using_moves: "key_moves h (abind (using_credential c cred s i) g) w" if "\<And>x. keys_stay (g x)" for s i g
  proof -
    have assoc: "abind (using_credential c cred s i) g = abind (writing (\<lambda>w. ConsumeAPIRequest
          (ResolveSellerPlan (cw_entitlements w) (cc_clock c 4)) (cc_clock c 5) (cc_clock c 6) (cw_quotas w) s)
          (\<lambda>r w. w\<lparr>cw_quotas := r\<rparr>)) (\<lambda>_.
        abind (pure (MarkUsed cred (cc_clock c 2))) (\<lambda>used.
        abind (in_credentials (\<lambda>r. Cred_Update r used (ic_version cred))) (\<lambda>_.
        abind (credential_record c s ActorTypeIntegrationCredential i ActionCredentialExchangeSucceeded i
          OutcomeSucceeded [''lastUsedAt'']) g)))"
      by (rule ext) (simp add: using_credential_def abind_def split: prod.split sum.split)
    have stay: "keys_stay (writing f (\<lambda>r w. w\<lparr>cw_quotas := r\<rparr>))" for f
      by (auto simp: keys_stay_def action_simps split: sum.split)
    have rest: "key_moves h (abind (pure (MarkUsed cred (cc_clock c 2))) (\<lambda>used.
        abind (in_credentials (\<lambda>r. Cred_Update r used (ic_version cred))) (\<lambda>_.
        abind (credential_record c s ActorTypeIntegrationCredential i ActionCredentialExchangeSucceeded i
          OutcomeSucceeded [''lastUsedAt'']) g))) w1" if "cw_credentials w1 = cw_credentials w" for w1
      by (intro key_moves_pure_abind key_moves_writing) (use that step \<open>\<And>x. keys_stay (g x)\<close> in auto)
    show ?thesis
      unfolding assoc by (rule key_moves_abind [OF stay], rule rest) (use stay in \<open>simp add: keys_stay_def\<close>)
  qed
  show ?thesis
    unfolding exchanging_def
    by (intro key_moves_attempt) (auto intro: key_moves_stay using_moves)
qed

lemma exchange_moves:
  assumes wf: "wf_keys (cw_credentials w, h)"
  shows "key_moves h (AuthorizeExchange c token requested) w"
proof -
  have stay: "keys_stay (writing f (\<lambda>l w. w\<lparr>cw_limiter := l\<rparr>))" for f
    by (auto simp: keys_stay_def action_simps split: sum.split)
  have rest: "key_moves h (exchange_after c requested y) w1"
    if w1: "cw_credentials w1 = cw_credentials w"
      and auth: "authenticateCredential c (cc_clock c 1) (cw_credentials w1) token = y" for w1 y
  proof (cases "snd y")
    case (Inl e)
    then show ?thesis
      by (cases "fst y") (auto simp: exchange_after_def intro!: key_moves_stay)
  next
    case (Inr p)
    with auth obtain cred where "fst y = Some cred" "cred_at (cw_credentials w1) (pi_CredentialID p) = Some cred"
      using authenticated_stored [of c "cc_clock c 1" "cw_credentials w1" token "fst y" p]
      by (metis prod.collapse)
    with Inr show ?thesis
      using exchanging_moves [of w1 h] wf w1 by (simp add: exchange_after_def)
  qed
  show ?thesis
  proof (cases "parseCredentialToken (cc_ulid c) token")
    case (Inl e)
    then show ?thesis by (auto simp: AuthorizeExchange_def intro: key_moves_stay)
  next
    case (Inr k)
    show ?thesis
      unfolding AuthorizeExchange_def Inr sum.case
    proof (rule key_moves_guard, rule key_moves_abind [OF stay], rule key_moves_read)
      fix x :: unit and y :: "Credential option \<times> Principal result"
      let ?w1 = "snd (writing (\<lambda>w. AllowProjectKeyExchange (cw_limiter w) (cc_clock c 0) k) (\<lambda>l w. w\<lparr>cw_limiter := l\<rparr>) w)"
      assume y: "(Inr (authenticateCredential c (cc_clock c 1) (cw_credentials ?w1) token)
        :: (Credential option \<times> Principal result) result) = Inr y"
      then show "key_moves h (exchange_after c requested y) ?w1"
        using rest [of ?w1 y] stay by (simp add: keys_stay_def)
    qed
  qed
qed

lemma authenticate_stays: "keys_stay (AuthenticateToken c token)"
  by (simp add: keys_stay_def AuthenticateToken_def action_simps split: sum.split)

section \<open>Properties\<close>

text \<open>
  C21: the life of a project key. However many callers issue, use, revoke and rotate keys at once, what is
  stored for a key is the last of a history whose versions count from one; its identity, seller, digest,
  label, scopes, epoch, expiry and creation never change and its times never go back; only the last
  value can be revoked, so nothing happens to a key after its revocation; and a key that was replaced is
  revoked and its successor is another stored key of the same seller.
\<close>

theorem project_key_life:
  assumes "credential_step\<^sup>*\<^sup>* (NewCredentialRepository, \<lambda>_. []) (r, h)" "\<forall>k. length (h k) < 2 ^ 64"
  shows "cred_at r k = latest (h k)
    \<and> (\<forall>i < length (h k). ic_credentialID (h k ! i) = k \<and> unat (ic_version (h k ! i)) = i + 1)
    \<and> (\<forall>i j. i \<le> j \<longrightarrow> j < length (h k) \<longrightarrow>
        same_key (h k ! i) (h k ! j) \<and> ic_updatedAt (h k ! i) \<le> ic_updatedAt (h k ! j))
    \<and> (\<forall>i. Suc i < length (h k) \<longrightarrow> ic_revokedAt (h k ! i) = None)
    \<and> (\<forall>c k'. cred_at r k = Some c \<longrightarrow> ic_replacedByCredentialID c = Some k' \<longrightarrow>
        ic_revokedAt c \<noteq> None \<and> k' \<noteq> k \<and> (\<exists>s. cred_at r k' = Some s \<and> ic_sellerID s = ic_sellerID c))"
proof -
  have wf: "wf_keys (r, h)"
    using credential_steps_wf [OF assms(1) wf_keys_new] assms(2) by simp
  then have v: "cred_at r k = latest (h k)" "versioned ic_version (wf_key k) key_next (h k)" "linked_keys (cred_at r)"
    by (simp_all add: wf_keys_def)
  have "\<forall>i < length (h k). ic_credentialID (h k ! i) = k \<and> unat (ic_version (h k ! i)) = i + 1"
    using v(2) by (simp add: versioned_def wf_key_def)
  moreover have "same_key (h k ! i) (h k ! j) \<and> ic_updatedAt (h k ! i) \<le> ic_updatedAt (h k ! j)"
    if "i \<le> j" "j < length (h k)" for i j
    by (rule versioned_between [OF v(2) that, where P = "\<lambda>x y. same_key x y \<and> ic_updatedAt x \<le> ic_updatedAt y"])
      (auto simp: key_next_def same_key_def)
  moreover have "\<forall>i. Suc i < length (h k) \<longrightarrow> ic_revokedAt (h k ! i) = None"
    using v(2) by (simp add: versioned_def key_next_def)
  moreover have "\<forall>c k'. cred_at r k = Some c \<longrightarrow> ic_replacedByCredentialID c = Some k' \<longrightarrow>
      ic_revokedAt c \<noteq> None \<and> k' \<noteq> k \<and> (\<exists>s. cred_at r k' = Some s \<and> ic_sellerID s = ic_sellerID c)"
    using v(3) wf_keys_old [OF wf loaded_in_history(1) [OF wf]] by (fastforce simp: wf_key_def linked_keys_def)
  ultimately show ?thesis
    using v(1) by blast
qed

text \<open>
  The service takes no other steps. Whatever it answers, each operation on reachable keys leaves
  them as they are or makes one step of the interleaving above; authentication only reads.
\<close>

theorem credential_service_steps:
  assumes "credential_step\<^sup>*\<^sup>* (NewCredentialRepository, \<lambda>_. []) (cw_credentials w, h)" "\<forall>k. length (h k) < 2 ^ 64"
    and "w' \<in> {snd (Cred_Service_Create c owner sellerID q w), snd (Cred_Service_Rotate c owner sellerID k rq idem w),
      snd (Cred_Service_Revoke c owner sellerID k v w), snd (AuthorizeExchange c token requested w),
      snd (AuthenticateToken c token w)}"
  shows "\<exists>h'. credential_step\<^sup>=\<^sup>= (cw_credentials w, h) (cw_credentials w', h')"
proof -
  have wf: "wf_keys (cw_credentials w, h)"
    using credential_steps_wf [OF assms(1) wf_keys_new] assms(2) by simp
  from assms(3) show ?thesis
    using create_moves [of h c owner sellerID q w] rotate_moves [OF wf, of c owner sellerID k rq idem]
      revoke_moves [OF wf, of c owner sellerID k v] exchange_moves [OF wf, of c token requested]
      key_moves_stay [OF authenticate_stays, of h c token w]
    by (auto simp: key_moves_def)
qed

text \<open>A key that cannot be used any more.\<close>

lemma revoked_refused:
  assumes "parseCredentialToken (cc_ulid c) token = Inr k" "cred_at r k = Some cred" "ic_revokedAt cred \<noteq> None"
  shows "\<not> is_ok (snd (authenticateCredential c now r token))"
  using assms
  by (auto simp: authenticateCredential_def Cred_GetByID_def verdict_on_credential_def is_ok_def result_simps
      dest!: Inr_inject split: sum.split_asm)

lemma revoked_key_is_final:
  assumes "credential_step\<^sup>*\<^sup>* s s'" "wf_keys s" "\<forall>k. length (snd s' k) < 2 ^ 64"
    and "cred_at (fst s) k = Some cred" "ic_revokedAt cred \<noteq> None"
  shows "cred_at (fst s') k = Some cred"
proof -
  obtain r h r' h' where s: "s = (r, h)" "s' = (r', h')" by fastforce
  have wf': "wf_keys (r', h')"
    using credential_steps_wf [OF assms(1-3)] s by simp
  obtain zs where h': "h' k = h k @ zs"
    using credential_steps_grow [OF assms(1), of k] s by (auto simp: prefix_def)
  have last: "h k \<noteq> []" "last (h k) = cred"
    using assms(2,4) s by (simp_all add: wf_keys_def latest_def split: if_split_asm)
  have "zs = []"
  proof (rule ccontr)
    assume "zs \<noteq> []"
    then have "Suc (length (h k) - 1) < length (h' k)"
      using h' last(1) by (cases zs) simp_all
    then have "key_next (h' k ! (length (h k) - 1)) (h' k ! Suc (length (h k) - 1))"
      using wf' by (simp add: wf_keys_def versioned_def)
    moreover have "h' k ! (length (h k) - 1) = cred"
      using h' last by (simp add: nth_append last_conv_nth)
    ultimately show False
      using assms(5) by (simp add: key_next_def)
  qed
  with h' last wf' s show ?thesis
    by (simp add: wf_keys_def latest_def)
qed

text \<open>
  C20: a revoked key stays dead. Once a key has been revoked, or replaced by its successor, then whatever
  calls follow it is stored unchanged, no token naming it authenticates or is exchanged, and the attempt
  leaves the keys as they are.
\<close>

theorem revoked_key_stays_dead:
  assumes "credential_step\<^sup>*\<^sup>* (NewCredentialRepository, \<lambda>_. []) (r, h)" "cred_at r k = Some cred"
    and "ic_revokedAt cred \<noteq> None" "credential_step\<^sup>*\<^sup>* (r, h) (cw_credentials w, h')" "\<forall>k. length (h' k) < 2 ^ 64"
    and "parseCredentialToken (cc_ulid c) token = Inr k"
  shows "cred_at (cw_credentials w) k = Some cred
    \<and> \<not> is_ok (fst (AuthenticateToken c token w))
    \<and> \<not> is_ok (fst (AuthorizeExchange c token requested w))
    \<and> cw_credentials (snd (AuthorizeExchange c token requested w)) = cw_credentials w"
proof -
  have "length (h k) < 2 ^ 64" for k
    using prefix_length_le [OF credential_steps_grow [OF assms(4), of k]] assms(5) by (auto intro: le_less_trans)
  then have wf: "wf_keys (r, h)"
    using credential_steps_wf [OF assms(1) wf_keys_new] by simp
  have stored: "cred_at (cw_credentials w) k = Some cred"
    using revoked_key_is_final [OF assms(4) wf] assms(2,3,5) by simp
  note refused = revoked_refused [OF assms(6) _ assms(3)]
  have "\<not> is_ok (fst (AuthenticateToken c token w))"
    using refused [OF stored, of "cc_clock c 0"]
    by (auto simp: AuthenticateToken_def action_simps is_ok_def split: sum.split)
  moreover have "\<not> is_ok (fst (AuthorizeExchange c token requested w)) \<and>
    cw_credentials (snd (AuthorizeExchange c token requested w)) = cw_credentials w"
  proof -
    have e: "\<exists>e. authenticateCredential c now (cw_credentials w) token = (Some cred, Inl e)" for now
      using refused [OF stored, of now] assms(6) stored
      by (auto simp: authenticateCredential_def Cred_GetByID_def is_ok_def split: sum.split sum.split_asm)
    have "\<not> is_ok (fst (exchange_after c requested (Some cred, Inl e) w1))
        \<and> cw_credentials (snd (exchange_after c requested (Some cred, Inl e) w1)) = cw_credentials w1" for e w1
      by (auto simp: exchange_after_def denyExchange_def credential_record_def action_simps is_ok_def split: sum.split)
    with e [of "cc_clock c 1"] assms(6) show ?thesis
      by (cases "AllowProjectKeyExchange (cw_limiter w) (cc_clock c 0) k")
        (auto simp: AuthorizeExchange_def abind_run guard_run writing_run is_ok_def)
  qed
  ultimately show ?thesis
    using stored by blast
qed

lemma exchange_scopes_ok:
  "exchange_scopes granted seen ss = Inr u \<longleftrightarrow>
     distinct ss \<and> set ss \<inter> set seen = {} \<and> set ss \<subseteq> set granted \<and> (\<forall>s \<in> set ss. supportedExchangeScope s)"
  by (induction ss arbitrary: seen) (auto simp: result_simps HasScope_def)

lemma using_credential_ok:
  "using_credential c cred s k w = (Inr u, w') \<Longrightarrow> \<exists>used quotas. MarkUsed cred (cc_clock c 2) = Inr used
     \<and> Cred_Update (cw_credentials w) used (ic_version cred) = Inr (cw_credentials w')
     \<and> ConsumeAPIRequest (ResolveSellerPlan (cw_entitlements w) (cc_clock c 4)) (cc_clock c 5) (cc_clock c 6)
         (cw_quotas w) s = Inr quotas \<and> cw_quotas w' = quotas \<and> cw_entitlements w' = cw_entitlements w
     \<and> cw_limiter w' = cw_limiter w"
  by (auto simp: using_credential_def action_ok in_credentials_def credential_record_def)

lemma denyExchange_fails: "denyExchange c cred e w \<noteq> (Inr x, w')"
  by (auto simp: denyExchange_def action_ok)

lemma exchanging_ok:
  assumes "exchanging c cred p requested w = (Inr a, w')"
  shows "\<exists>plan. requested_scopes (pi_Scopes p) requested = Inr ()
    \<and> authorizeCurrentEntitlement (ResolveSellerPlan (cw_entitlements w) (cc_clock c 3) (ic_sellerID cred)) cred
        (cc_clock c 2) = Inr plan
    \<and> using_credential c cred (pi_SellerID p) (pi_CredentialID p) w = (Inr (), w')
    \<and> a = \<lparr>ea_Principal = p\<lparr>pi_Scopes := requested\<rparr>, ea_EntitlementEpoch = plan_epoch plan\<rparr>"
  using assms
  by (auto simp: exchanging_def attempt_run action_ok denyExchange_fails split: sum.split_asm)

text \<open>
  C19: a project key is exchanged only by its holder, while it is good for what is asked. A successful
  exchange was asked with a token of a stored key, whose keyed digest is the stored one; the key was
  neither revoked nor expired, grants every requested scope, none of them twice and none that cannot be
  exchanged; its seller's plan is active and of the epoch the key was issued in. The exchange passed the
  limiter, was charged to the quota, and stored the use; the answer names that key, its seller, exactly
  the requested scopes and that epoch.
\<close>

theorem exchange_authorized:
  assumes "AuthorizeExchange c token requested w = (Inr a, w')"
  shows "\<exists>k cred plan d used. parseCredentialToken (cc_ulid c) token = Inr k \<and> cred_at (cw_credentials w) k = Some cred
    \<and> Credential_Digest (cc_pepper c) token = Inr d \<and> digests_match (ic_tokenHash cred) d
    \<and> ic_revokedAt cred = None \<and> (\<forall>e. ic_expiresAt cred = Some e \<longrightarrow> cc_clock c 1 < e)
    \<and> requested \<noteq> [] \<and> distinct requested \<and> set requested \<subseteq> set (ic_scopes cred) \<and> ScopeRotate \<notin> set requested
    \<and> ResolveSellerPlan (cw_entitlements w) (cc_clock c 3) (ic_sellerID cred) = Inr plan
    \<and> active_until plan (cc_clock c 2) \<and> ic_entitlementEpoch cred = plan_epoch plan \<and> plan_epoch plan \<noteq> 0
    \<and> AllowProjectKeyExchange (cw_limiter w) (cc_clock c 0) k = Inr (cw_limiter w')
    \<and> ConsumeAPIRequest (ResolveSellerPlan (cw_entitlements w) (cc_clock c 4)) (cc_clock c 5) (cc_clock c 6)
        (cw_quotas w) (ic_sellerID cred) = Inr (cw_quotas w')
    \<and> MarkUsed cred (cc_clock c 2) = Inr used \<and> cw_credentials w' = put_credential used (cw_credentials w)
    \<and> a = \<lparr>ea_Principal = \<lparr>pi_SellerID = ic_sellerID cred, pi_CredentialID = k, pi_Scopes = requested\<rparr>,
           ea_EntitlementEpoch = plan_epoch plan\<rparr>"
proof -
  from assms obtain k l where k: "parseCredentialToken (cc_ulid c) token = Inr k"
    and l: "AllowProjectKeyExchange (cw_limiter w) (cc_clock c 0) k = Inr l"
    and rest: "exchange_after c requested (authenticateCredential c (cc_clock c 1) (cw_credentials w) token)
      (w\<lparr>cw_limiter := l\<rparr>) = (Inr a, w')"
    by (auto simp: AuthorizeExchange_def action_ok split: sum.split_asm)
  obtain loaded verdict where auth: "authenticateCredential c (cc_clock c 1) (cw_credentials w) token = (loaded, verdict)"
    by fastforce
  with rest obtain p where p: "verdict = Inr p"
    by (cases verdict) (auto simp: exchange_after_def denyExchange_fails split: option.split_asm if_split_asm)
  from auth p obtain cred where cred: "loaded = Some cred" "parseCredentialToken (cc_ulid c) token = Inr (pi_CredentialID p)"
    "cred_at (cw_credentials w) (pi_CredentialID p) = Some cred"
    "verdict_on_credential c (cc_clock c 1) token (pi_CredentialID p) cred = Inr p"
    by (auto elim: authenticated_stored)
  with k have i: "pi_CredentialID p = k" by simp
  from cred(4) i have good: "\<exists>d. Credential_Digest (cc_pepper c) token = Inr d \<and> digests_match (ic_tokenHash cred) d"
      "ic_revokedAt cred = None" "\<forall>e. ic_expiresAt cred = Some e \<longrightarrow> cc_clock c 1 < e"
      "p = \<lparr>pi_SellerID = ic_sellerID cred, pi_CredentialID = k, pi_Scopes = ic_scopes cred\<rparr>"
    by (auto simp: verdict_on_credential_def result_simps split: option.split_asm)
  from rest auth p cred(1) have "exchanging c cred p requested (w\<lparr>cw_limiter := l\<rparr>) = (Inr a, w')"
    by (simp add: exchange_after_def)
  from exchanging_ok [OF this] obtain plan where
      scopes: "requested_scopes (ic_scopes cred) requested = Inr ()"
    and plan: "authorizeCurrentEntitlement (ResolveSellerPlan (cw_entitlements w) (cc_clock c 3) (ic_sellerID cred)) cred
        (cc_clock c 2) = Inr plan"
    and used: "using_credential c cred (ic_sellerID cred) k (w\<lparr>cw_limiter := l\<rparr>) = (Inr (), w')"
    and a: "a = \<lparr>ea_Principal = p\<lparr>pi_Scopes := requested\<rparr>, ea_EntitlementEpoch = plan_epoch plan\<rparr>"
    using good(4) by auto
  have "requested \<noteq> []" "distinct requested" "set requested \<subseteq> set (ic_scopes cred)" "ScopeRotate \<notin> set requested"
    using scopes by (auto simp: requested_scopes_def result_simps exchange_scopes_ok supportedExchangeScope_def)
  moreover have "ResolveSellerPlan (cw_entitlements w) (cc_clock c 3) (ic_sellerID cred) = Inr plan"
      "active_until plan (cc_clock c 2)" "ic_entitlementEpoch cred = plan_epoch plan" "plan_epoch plan \<noteq> 0"
    using plan by (auto simp: authorizeCurrentEntitlement_def result_simps split: sum.split_asm)
  ultimately show ?thesis
    using k cred(3) i good a l using_credential_ok [OF used] by (auto simp: Cred_Update_ok)
qed

section \<open>A sample run\<close>

abbreviation "sample_key_id \<equiv> ''key_01ARZ3NDEKTSV4RRFFQ69G5FAV''"
abbreviation "sample_seller_id \<equiv> ''sel_01ARZ3NDEKTSV4RRFFQ69G5FAV''"

definition sample_pepper :: string where
  "sample_pepper = replicate 32 (CHR ''p'')"

definition sample_token :: string where
  "sample_token = credentialToken sample_key_id (base64_url (replicate 32 (CHR ''s'')))"

definition sample_credential :: Credential where
  "sample_credential =
     (fresh_credential sample_key_id sample_seller_id (hex_encode (hmac_sha256 sample_pepper sample_token)) ''ci''
        [ScopeRead, ScopePublish] 1 None 1000)\<lparr>ic_updatedAt := 1000, ic_version := 1\<rparr>"

definition sample_revoked :: Credential where
  "sample_revoked = sample_credential\<lparr>ic_revokedAt := Some 4000, ic_updatedAt := 4000, ic_version := 2\<rparr>"

lemma sample_token_parts:
  "parseCredentialToken sample_audit_ulid sample_token = Inr sample_key_id"
proof -
  have "ParseID sample_audit_ulid sample_key_id CredentialIDPrefix = Inr sample_key_id"
    by code_simp
  then show ?thesis
    by (simp add: sample_token_def issued_token_parses)
qed

lemma sample_credential_issued:
  "NewCredential sample_audit_ulid (\<lambda>_. True)
     (fresh_credential sample_key_id sample_seller_id (hex_encode (hmac_sha256 sample_pepper sample_token)) ''ci''
        [ScopeRead, ScopePublish] 1 None 1000) = Inr sample_credential"
proof -
  have "is_ok (ParseID sample_audit_ulid sample_key_id CredentialIDPrefix)"
      "is_ok (ParseID sample_audit_ulid sample_seller_id SellerIDPrefix)" "TrimSpace ''ci'' = ''ci''"
    by code_simp+
  then show ?thesis
    by (simp add: NewCredential_ok validateCredentialParams_def fresh_credential_def sample_credential_def add_if_def
        validateScopes_def supportedScope_def)
qed

definition sample_keys :: CredentialRepository where
  "sample_keys = put_credential sample_credential NewCredentialRepository"

definition sample_history :: credential_history where
  "sample_history = (\<lambda>_. [])(sample_key_id := [sample_credential])"

lemma sample_issue: "credential_step (NewCredentialRepository, \<lambda>_. []) (sample_keys, sample_history)"
  using credential_step.issue [OF sample_credential_issued, of NewCredentialRepository sample_keys "\<lambda>_. []"]
  by (simp add: Cred_Create_ok cred_at_def NewCredentialRepository_def sample_keys_def sample_history_def)

lemma sample_revoke:
  "credential_step (sample_keys, sample_history)
     (put_credential sample_revoked sample_keys, sample_history(sample_key_id := [sample_credential, sample_revoked]))"
proof -
  have fields: "ic_credentialID sample_credential = sample_key_id" "ic_version sample_credential = 1"
      "ic_credentialID sample_revoked = sample_key_id" "ic_sellerID sample_revoked = ic_sellerID sample_credential"
    by (simp_all add: sample_credential_def sample_revoked_def fresh_credential_def)
  have "Credential_Revoke sample_credential 4000 = Inr sample_revoked"
    by (simp add: Revoke_ok sample_revoked_def sample_credential_def fresh_credential_def)
  moreover have "Cred_Update sample_keys sample_revoked 1 = Inr (put_credential sample_revoked sample_keys)"
    using fields by (simp add: Cred_Update_ok cred_writable_ok sample_keys_def sample_revoked_def)
  ultimately show ?thesis
    using credential_step.revoke [where h = sample_history and k = sample_key_id and old = sample_credential]
    by (fastforce simp: sample_history_def)
qed

lemma sample_steps:
  "credential_step\<^sup>*\<^sup>* (NewCredentialRepository, \<lambda>_. [])
     (put_credential sample_revoked sample_keys, sample_history(sample_key_id := [sample_credential, sample_revoked]))"
  using sample_issue sample_revoke by (rule converse_rtranclp_into_rtranclp [OF _ r_into_rtranclp])

theorem project_key_life_witness:
  "same_key sample_credential sample_revoked \<and> ic_revokedAt sample_credential = None
   \<and> cred_at (put_credential sample_revoked sample_keys) sample_key_id = Some sample_revoked"
proof -
  let ?h = "sample_history(sample_key_id := [sample_credential, sample_revoked])"
  have "\<forall>k. length (?h k) < 2 ^ 64"
    by (simp add: sample_history_def)
  note life = project_key_life [OF sample_steps this, of sample_key_id]
  from life have "\<forall>i j. i \<le> j \<longrightarrow> j < length (?h sample_key_id) \<longrightarrow>
      same_key (?h sample_key_id ! i) (?h sample_key_id ! j) \<and>
      ic_updatedAt (?h sample_key_id ! i) \<le> ic_updatedAt (?h sample_key_id ! j)"
    by blast
  from this [rule_format, of 0 1] life show ?thesis
    by (simp add: latest_def)
qed

definition sample_credential_call :: credential_call where
  "sample_credential_call =
     \<lparr>cc_ulid = sample_audit_ulid, cc_printable = (\<lambda>_. True), cc_authorize = (\<lambda>_ _. Inr ()), cc_issuance = None,
      cc_exchange = True, cc_id = Inr sample_key_id, cc_random = Inr (replicate 32 (CHR ''s'')),
      cc_pepper = Inr sample_pepper, cc_clock = (\<lambda>_. 3000), cc_event = (Inr ''aud_1'', 3000), cc_requestID = ''req'',
      cc_seal = (\<lambda>_. Inr []), cc_open = (\<lambda>_. Inl ErrNotFound)\<rparr>"

definition sample_credential_world :: "CredentialRepository \<Rightarrow> credential_world" where
  "sample_credential_world r =
     \<lparr>cw_credentials = r,
      cw_entitlements = NewSellerEntitlementRepository\<lparr>sr_entitlements := [sample_seller_id \<mapsto> sample_entitlement]\<rparr>,
      cw_limiter = NewProjectKeyExchangeRateLimiter 10 Minute, cw_quotas = NewQuotaCounterRepository,
      cw_audit = \<lparr>aer_events = []\<rparr>\<rparr>"

theorem revoked_key_stays_dead_witness:
  "\<not> is_ok (fst (AuthorizeExchange sample_credential_call sample_token [ScopeRead]
     (sample_credential_world (put_credential sample_revoked sample_keys))))"
proof -
  let ?h = "sample_history(sample_key_id := [sample_credential, sample_revoked])"
  have "\<forall>k. length (?h k) < 2 ^ 64"
    by (simp add: sample_history_def)
  moreover have "cred_at (put_credential sample_revoked sample_keys) sample_key_id = Some sample_revoked"
      "ic_revokedAt sample_revoked \<noteq> None"
    by (simp_all add: sample_revoked_def sample_credential_def fresh_credential_def)
  ultimately show ?thesis
    using revoked_key_stays_dead [OF sample_steps, of sample_key_id sample_revoked
        "sample_credential_world (put_credential sample_revoked sample_keys)" ?h sample_credential_call sample_token]
      sample_token_parts
    by (simp add: sample_credential_world_def sample_credential_call_def)
qed

lemma sample_world_reachable: "\<forall>k. length (sample_history k) < 2 ^ 64"
  by (simp add: sample_history_def)

theorem credential_service_steps_witness:
  "\<exists>h'. credential_step\<^sup>=\<^sup>= (sample_keys, sample_history)
     (cw_credentials (snd (AuthorizeExchange sample_credential_call sample_token [ScopeRead]
        (sample_credential_world sample_keys))), h')"
proof -
  let ?w = "sample_credential_world sample_keys"
  have start: "credential_step\<^sup>*\<^sup>* (NewCredentialRepository, \<lambda>_. []) (cw_credentials ?w, sample_history)"
    using sample_issue by (auto simp: sample_credential_world_def)
  show ?thesis
    using credential_service_steps [OF start sample_world_reachable,
        of "snd (AuthorizeExchange sample_credential_call sample_token [ScopeRead] ?w)" sample_credential_call
          "[]" "[]" undefined "[]" undefined undefined 0 sample_token "[ScopeRead]"]
    by (simp add: sample_credential_world_def)
qed

lemma sample_plan_resolved:
  "ResolveSellerPlan (cw_entitlements (sample_credential_world r)) 3000 sample_seller_id
     = sellerPlanResponse sample_entitlement 3000"
  by (simp add: ResolveSellerPlan_def Entitlement_Get_def sample_credential_world_def RestoreSellerEntitlement_def
      sample_valid)

lemma sample_plan_active:
  obtains p where "sellerPlanResponse sample_entitlement 3000 = Inr p" "activePlan (Inr p) 3000 = Inr p"
    "active_until p 3000" "plan_epoch p = 1" "0 < quota_limit p QuotaAPIRequest"
proof -
  have "\<exists>p. sellerPlanResponse sample_entitlement 3000 = Inr p \<and> activePlan (Inr p) 3000 = Inr p
      \<and> active_until p 3000 \<and> plan_epoch p = 1 \<and> 0 < quota_limit p QuotaAPIRequest"
    by (simp add: sellerPlanResponse_def sample_entitlement_def reconciled_params_def sample_candidate_def
        sellerEntitlementView_def activePlan_def active_until_def plan_epoch_def quota_limit_def Timestamp_Before_def
        result_simps reject_if_def Let_def)
  with that show thesis by blast
qed

lemma sample_exchange:
  obtains a w' where "AuthorizeExchange sample_credential_call sample_token [ScopeRead]
    (sample_credential_world sample_keys) = (Inr a, w')"
proof -
  let ?c = sample_credential_call
  obtain p where p: "sellerPlanResponse sample_entitlement 3000 = Inr p" "activePlan (Inr p) 3000 = Inr p"
    "active_until p 3000" "plan_epoch p = 1" "0 < quota_limit p QuotaAPIRequest"
    by (rule sample_plan_active)
  let ?pi = "\<lparr>pi_SellerID = sample_seller_id, pi_CredentialID = sample_key_id, pi_Scopes = [ScopeRead, ScopePublish]\<rparr>"
  have fields: "ic_credentialID sample_credential = sample_key_id" "ic_sellerID sample_credential = sample_seller_id"
      "ic_revokedAt sample_credential = None" "ic_expiresAt sample_credential = None" "ic_updatedAt sample_credential = 1000"
      "ic_scopes sample_credential = [ScopeRead, ScopePublish]" "ic_entitlementEpoch sample_credential = 1"
      "ic_version sample_credential = 1"
      "ic_tokenHash sample_credential = hex_encode (hmac_sha256 sample_pepper sample_token)"
    by (simp_all add: sample_credential_def fresh_credential_def)
  have stored: "cred_at sample_keys sample_key_id = Some sample_credential"
    by (simp add: sample_keys_def fields)
  have "authenticateCredential ?c 3000 sample_keys sample_token = (Some sample_credential, Inr ?pi)"
    by (simp add: authenticateCredential_def sample_credential_call_def sample_token_parts Cred_GetByID_def stored
        verdict_on_credential_def Credential_Digest_def sample_pepper_def digests_match_def fields reject_if_def rbind_def)
  moreover have "AllowProjectKeyExchange (NewProjectKeyExchangeRateLimiter 10 Minute) 3000 sample_key_id
    = Inr (the_l)" if "the_l = (NewProjectKeyExchangeRateLimiter 10 Minute)
      \<lparr>xr_credentials := (xr_credentials (NewProjectKeyExchangeRateLimiter 10 Minute))
        (sample_key_id := \<lparr>xl_startedAt = 3000, xl_count = 1\<rparr>)\<rparr>" for the_l
    by (simp add: that AllowProjectKeyExchange_def NewProjectKeyExchangeRateLimiter_def reject_if_def Let_def)
  moreover have "\<exists>q. ConsumeAPIRequest (\<lambda>k. ResolveSellerPlan (cw_entitlements (sample_credential_world sample_keys)) 3000 k)
      3000 3000 NewQuotaCounterRepository sample_seller_id = Inr q"
    using p by (simp add: ConsumeAPIRequest_def consume_def sample_plan_resolved rbind_def Quota_Increment_def
        incrementLocked_ok NewQuotaCounterRepository_def)
  moreover have "is_ok (Audit_Record sample_audit_ulid \<lparr>aer_events = []\<rparr> (Inr ''aud_1'') 3000 ''req''
    \<lparr>rr_SellerID = sample_seller_id, rr_ActorType = ActorTypeIntegrationCredential, rr_ActorID = sample_key_id,
     rr_Action = ActionCredentialExchangeSucceeded, rr_TargetType = TargetTypeIntegrationCredential,
     rr_TargetID = sample_key_id, rr_Outcome = OutcomeSucceeded, rr_RequestID = [],
     rr_ChangedFields = [''lastUsedAt'']\<rparr>)"
    by code_simp
  moreover have "authorizeCurrentEntitlement (sellerPlanResponse sample_entitlement 3000) sample_credential 3000 = Inr p"
    using p by (simp add: authorizeCurrentEntitlement_def fields reject_if_def)
  moreover have "requested_scopes [ScopeRead, ScopePublish] [ScopeRead] = Inr ()"
    by (simp add: requested_scopes_def reject_if_def supportedExchangeScope_def HasScope_def)
  moreover obtain used where used: "MarkUsed sample_credential 3000 = Inr used"
      "Cred_Update sample_keys used 1 = Inr (put_credential used sample_keys)"
    using stored by (simp add: MarkUsed_ok Cred_Update_ok cred_writable_ok fields)
  ultimately have "is_ok (fst (AuthorizeExchange ?c sample_token [ScopeRead] (sample_credential_world sample_keys)))"
    using sample_token_parts sample_plan_resolved [of sample_keys]
    by (auto simp: AuthorizeExchange_def sample_credential_call_def sample_credential_world_def action_simps
        exchange_after_def exchanging_def using_credential_def in_credentials_def credential_record_def fields is_ok_def
        split: sum.split sum.split_asm)
  then show thesis
    using that by (metis is_ok_def old.sum.simps(5) prod.collapse sum.exhaust_sel)
qed

theorem exchange_authorized_witness:
  "\<exists>a w'. AuthorizeExchange sample_credential_call sample_token [ScopeRead] (sample_credential_world sample_keys) = (Inr a, w')
     \<and> pi_Scopes (ea_Principal a) = [ScopeRead] \<and> ic_lastUsedAt (the (cred_at (cw_credentials w') sample_key_id)) = Some 3000"
proof -
  obtain a w' where run: "AuthorizeExchange sample_credential_call sample_token [ScopeRead]
    (sample_credential_world sample_keys) = (Inr a, w')"
    by (rule sample_exchange)
  from exchange_authorized [OF run] obtain k cred used where
    "parseCredentialToken (cc_ulid sample_credential_call) sample_token = Inr k"
    "cred_at (cw_credentials (sample_credential_world sample_keys)) k = Some cred"
    "MarkUsed cred 3000 = Inr used" "cw_credentials w' = put_credential used sample_keys"
    "pi_Scopes (ea_Principal a) = [ScopeRead]"
    by (auto simp: sample_credential_call_def sample_credential_world_def)
  moreover from this have "k = sample_key_id"
    using sample_token_parts by (simp add: sample_credential_call_def)
  ultimately show ?thesis
    using run by (auto simp: sample_credential_world_def sample_keys_def MarkUsed_ok sample_credential_def fresh_credential_def)
qed

end
