(* ===== verification/ConfirmationGrants.thy ===== *)
theory ConfirmationGrants
  imports Credentials CatalogStore Text
begin

text \<open>
  Single-use confirmation grants for MCP mutations: \<open>internal/authorization/confirmation_grants.go\<close> and the
  repository \<open>internal/persistence/memory/confirmation_grants.go\<close>. Not modelled: \<open>HashMutationArguments\<close>,
  which digests the decoded JSON of the arguments; a grant is bound to the digest it is given.
\<close>

abbreviation "ErrConfirmationDenied \<equiv> Err ''authorization.ErrConfirmationDenied''"
abbreviation "ErrConfirmationReplayed \<equiv> Err ''authorization.ErrConfirmationReplayed''"
abbreviation "ErrGrantSubscriptionInactive \<equiv> Err ''authorization.ErrSubscriptionInactive''"
abbreviation "ErrAuthorizationUnavailable \<equiv> Err ''authorization.ErrAuthorizationUnavailable''"

section \<open>Grants\<close>

datatype ConfirmationTool =
    ToolConfigureStorefront | ToolConfigureRoute | ToolChangeRoutePrice | ToolPublishRoute | ToolOther string

fun ConfirmationTool_wire :: "ConfirmationTool \<Rightarrow> string" where
  "ConfirmationTool_wire ToolConfigureStorefront = ''configure_storefront''"
| "ConfirmationTool_wire ToolConfigureRoute = ''configure_route''"
| "ConfirmationTool_wire ToolChangeRoutePrice = ''change_route_price''"
| "ConfirmationTool_wire ToolPublishRoute = ''publish_route''"
| "ConfirmationTool_wire (ToolOther s) = s"

datatype ConfirmationTargetType =
    ConfirmationTargetSeller | ConfirmationTargetPaidRoute | ConfirmationTargetOther string

fun ConfirmationTargetType_wire :: "ConfirmationTargetType \<Rightarrow> string" where
  "ConfirmationTargetType_wire ConfirmationTargetSeller = ''seller''"
| "ConfirmationTargetType_wire ConfirmationTargetPaidRoute = ''paid_route''"
| "ConfirmationTargetType_wire (ConfirmationTargetOther s) = s"

record CreateConfirmationGrantRequest =
  gq_CredentialID :: ID
  gq_Tool :: ConfirmationTool
  gq_TargetType :: ConfirmationTargetType
  gq_TargetID :: ID
  gq_ArgumentsSHA256 :: string
  gq_ExpectedResourceVersion :: u64
  gq_Summary :: string

record ConfirmationGrant =
  cg_ConfirmationGrantID :: ID
  cg_SellerID :: ID
  cg_CredentialID :: ID
  cg_Tool :: ConfirmationTool
  cg_TargetType :: ConfirmationTargetType
  cg_TargetID :: ID
  cg_ArgumentsSHA256 :: string
  cg_ExpectedResourceVersion :: u64
  cg_Summary :: string
  cg_TokenDigest :: string
  cg_BindingHash :: string
  cg_IssuedBySellerPrincipal :: string
  cg_IssuedAt :: instant
  cg_ExpiresAt :: instant
  cg_ConsumedAt :: "instant option"
  cg_ConsumedByIdempotencyKeyHash :: string
  cg_RevokedAt :: "instant option"
  cg_Version :: u64

record ConfirmationGrantCreated =
  gc_ConfirmationGrantID :: ID
  gc_ConfirmationGrant :: string
  gc_SellerID :: ID
  gc_CredentialID :: ID
  gc_Tool :: ConfirmationTool
  gc_TargetType :: ConfirmationTargetType
  gc_TargetID :: ID
  gc_ArgumentsSHA256 :: string
  gc_ExpectedResourceVersion :: u64
  gc_IssuedAt :: instant
  gc_ExpiresAt :: instant

record ConfirmationConsumption =
  gs_ConfirmationGrant :: string
  gs_Tool :: ConfirmationTool
  gs_TargetType :: ConfirmationTargetType
  gs_TargetID :: ID
  gs_ArgumentsSHA256 :: string
  gs_ExpectedResourceVersion :: u64
  gs_IdempotencyKey :: string

abbreviation MaximumConfirmationGrantLifetime :: int where "MaximumConfirmationGrantLifetime \<equiv> 5 * Minute"
abbreviation minimumConfirmationSummaryLength :: nat where "minimumConfirmationSummaryLength \<equiv> 10"
abbreviation maximumConfirmationSummaryLength :: nat where "maximumConfirmationSummaryLength \<equiv> 500"

abbreviation arguments_format_error :: go_error where
  "arguments_format_error \<equiv> validation ''argumentsSha256'' ''format'' ''must be a lowercase SHA-256 digest''"

definition tool_target_error :: "ID \<Rightarrow> CreateConfirmationGrantRequest \<Rightarrow> unit result" where
  "tool_target_error sellerID q =
     (case gq_Tool q of
        ToolOther _ \<Rightarrow> Inl (validation ''tool'' ''enum'' ''is not a confirmable MCP mutation'')
      | tool \<Rightarrow>
          if tool = ToolConfigureStorefront \<or> tool = ToolConfigureRoute
          then reject_if (gq_TargetType q \<noteq> ConfirmationTargetSeller \<or> gq_TargetID q \<noteq> sellerID)
                 ErrConfirmationDenied (Inr ())
          else reject_if (gq_TargetType q \<noteq> ConfirmationTargetPaidRoute \<or> ID_Prefix (gq_TargetID q) \<noteq> RouteIDPrefix)
                 ErrConfirmationDenied (Inr ()))"

definition validateConfirmationRequest :: "ID \<Rightarrow> CreateConfirmationGrantRequest \<Rightarrow> unit result" where
  "validateConfirmationRequest sellerID q =
     reject_if (ID_Prefix (gq_CredentialID q) \<noteq> CredentialIDPrefix)
       (validation ''credentialId'' ''format'' ''must identify an integration credential'')
    (reject_if (gq_ExpectedResourceVersion q = 0)
       (validation ''expectedResourceVersion'' ''minimum'' ''must be at least one'')
    (reject_if (length (gq_ArgumentsSHA256 q) \<noteq> 64) arguments_format_error
    (reject_if (hex_decode (gq_ArgumentsSHA256 q) = None \<or> gq_ArgumentsSHA256 q \<noteq> lower_text (gq_ArgumentsSHA256 q))
       arguments_format_error
    (reject_if (length (TrimSpace (gq_Summary q)) < minimumConfirmationSummaryLength
                \<or> maximumConfirmationSummaryLength < length (TrimSpace (gq_Summary q)))
       (validation ''summary'' ''length'' ''must contain 10-500 characters'')
       (tool_target_error sellerID q)))))"

definition requiredToolScope :: "ConfirmationTool \<Rightarrow> Scope" where
  "requiredToolScope tool = (if tool = ToolPublishRoute then ScopePublish else ScopeConfigure)"

definition confirmationBindingHash :: "ID \<Rightarrow> CreateConfirmationGrantRequest \<Rightarrow> string" where
  "confirmationBindingHash sellerID q =
     hex_encode (Sum256 (Join [sellerID, gq_CredentialID q, ConfirmationTool_wire (gq_Tool q),
       ConfirmationTargetType_wire (gq_TargetType q), gq_TargetID q, gq_ArgumentsSHA256 q,
       show_nat (unat (gq_ExpectedResourceVersion q))] [CHR 0x00]))"

definition confirmationGrantToken :: "ID \<Rightarrow> string \<Rightarrow> string" where
  "confirmationGrantToken k secret = ''mcg1'' @ ''.'' @ k @ ''.'' @ secret"

definition parseConfirmationGrantToken :: "(string \<Rightarrow> bool) \<Rightarrow> string \<Rightarrow> ID result" where
  "parseConfirmationGrantToken ulid raw =
     (case split_on (CHR ''.'') raw of
        [version, k, secret] \<Rightarrow>
          reject_if (version \<noteq> ''mcg1'') ErrConfirmationDenied
         (reject_if (\<not> validCredentialSecret secret) ErrConfirmationDenied
            (ParseID ulid k MCPConfirmationGrantIDPrefix))
      | _ \<Rightarrow> Inl ErrConfirmationDenied)"

section \<open>The repository\<close>

record ConfirmationGrantRepository =
  gr_grants :: "ID \<rightharpoonup> ConfirmationGrant"
  gr_bindings :: "string \<rightharpoonup> ID"

definition NewConfirmationGrantRepository :: ConfirmationGrantRepository where
  "NewConfirmationGrantRepository = \<lparr>gr_grants = Map.empty, gr_bindings = Map.empty\<rparr>"

text \<open>
  A binding always names a stored grant here: bindings are written with the grant they name and grants
  are never removed, so the zero value of a missing map entry does not occur.
\<close>

definition revoke_previous :: "ConfirmationGrantRepository \<Rightarrow> ConfirmationGrant \<Rightarrow> ID \<rightharpoonup> ConfirmationGrant" where
  "revoke_previous r g =
     (case gr_bindings r (cg_BindingHash g) of
        None \<Rightarrow> gr_grants r
      | Some previousID \<Rightarrow>
          (case gr_grants r previousID of
             None \<Rightarrow> gr_grants r
           | Some previous \<Rightarrow>
               if cg_ConsumedAt previous = None \<and> cg_RevokedAt previous = None
               then (gr_grants r)(previousID \<mapsto> previous\<lparr>cg_RevokedAt := Some (cg_IssuedAt g),
                                                    cg_Version := cg_Version previous + 1\<rparr>)
               else gr_grants r))"

definition CreateReplacing ::
  "ConfirmationGrantRepository \<Rightarrow> ConfirmationGrant \<Rightarrow> ConfirmationGrantRepository result" where
  "CreateReplacing r g =
     reject_if (gr_grants r (cg_ConfirmationGrantID g) \<noteq> None) ErrAlreadyExists
       (Inr \<lparr>gr_grants = (revoke_previous r g)(cg_ConfirmationGrantID g \<mapsto> g),
             gr_bindings = (gr_bindings r)(cg_BindingHash g \<mapsto> cg_ConfirmationGrantID g)\<rparr>)"

definition Grant_Get :: "ConfirmationGrantRepository \<Rightarrow> ID \<Rightarrow> ConfirmationGrant result" where
  "Grant_Get r k = (case gr_grants r k of None \<Rightarrow> Inl ErrNotFound | Some g \<Rightarrow> Inr g)"

definition Grant_Consume ::
  "ConfirmationGrantRepository \<Rightarrow> ConfirmationGrant \<Rightarrow> u64 \<Rightarrow> ConfirmationGrantRepository result" where
  "Grant_Consume r g expectedVersion =
     (case gr_grants r (cg_ConfirmationGrantID g) of
        None \<Rightarrow> Inl ErrNotFound
      | Some stored \<Rightarrow>
          reject_if (cg_Version stored \<noteq> expectedVersion \<or> cg_Version g \<noteq> expectedVersion + 1
              \<or> cg_ConsumedAt stored \<noteq> None \<or> cg_RevokedAt stored \<noteq> None
              \<or> (case gr_bindings r (cg_BindingHash stored) of None \<Rightarrow> [] | Some i \<Rightarrow> i) \<noteq> cg_ConfirmationGrantID stored)
            ErrConditionFailed
            (Inr (r\<lparr>gr_grants := (gr_grants r)(cg_ConfirmationGrantID g \<mapsto> g)\<rparr>)))"

section \<open>The service\<close>

record grant_world =
  gw_grants :: ConfirmationGrantRepository
  gw_credentials :: CredentialRepository
  gw_entitlements :: SellerEntitlementRepository
  gw_catalog :: CatalogRepository
  gw_audit :: AuditEventRepository

text \<open>What the collaborators of one call answer; \<open>gk_clock n\<close> is the \<open>n\<close>-th reading of the clock.\<close>

record grant_call =
  gk_ulid :: "string \<Rightarrow> bool"
  gk_authorize :: "string \<Rightarrow> ID \<Rightarrow> unit result"
  gk_id :: "ID result"
  gk_random :: "string result"
  gk_pepper :: "string result"
  gk_clock :: "nat \<Rightarrow> instant"
  gk_event :: "ID result \<times> instant"
  gk_requestID :: string

definition validateTarget :: "CatalogRepository \<Rightarrow> ID \<Rightarrow> CreateConfirmationGrantRequest \<Rightarrow> unit result" where
  "validateTarget catalog sellerID q =
     (if gq_TargetType q = ConfirmationTargetSeller
      then rbind (Catalog_GetSeller catalog sellerID) (\<lambda>seller.
        reject_if (se_SellerID seller \<noteq> sellerID \<or> se_Version seller \<noteq> gq_ExpectedResourceVersion q)
          ErrConditionFailed (Inr ()))
      else rbind (Catalog_GetRoute catalog (gq_TargetID q)) (\<lambda>route.
        reject_if (pr_SellerID route \<noteq> sellerID) ErrConfirmationDenied
       (reject_if (pr_Version route \<noteq> gq_ExpectedResourceVersion q) ErrConditionFailed (Inr ()))))"

definition credential_permits :: "Credential \<Rightarrow> ID \<Rightarrow> ConfirmationTool \<Rightarrow> instant \<Rightarrow> bool" where
  "credential_permits cred sellerID tool now \<longleftrightarrow>
     ic_sellerID cred = sellerID \<and> ic_revokedAt cred = None
     \<and> (case ic_expiresAt cred of None \<Rightarrow> True | Some e \<Rightarrow> Timestamp_Before now e)
     \<and> HasScope (ic_scopes cred) (requiredToolScope tool)"

definition grant_entitlement :: "SellerPlanResponse result \<Rightarrow> Credential \<Rightarrow> instant \<Rightarrow> unit result" where
  "grant_entitlement plan cred now =
     (case plan of
        Inl e \<Rightarrow> Inl (if missing_entitlement e then ErrGrantSubscriptionInactive else ErrAuthorizationUnavailable)
      | Inr p \<Rightarrow> reject_if (\<not> active_until p now \<or> ic_entitlementEpoch cred \<noteq> plan_epoch p)
                 ErrGrantSubscriptionInactive (Inr ()))"

text \<open>The identifier, token and digest of a new grant.\<close>

definition new_grant_token :: "grant_call \<Rightarrow> (ID \<times> string \<times> string) result" where
  "new_grant_token c =
     rbind (gk_id c) (\<lambda>k.
     rbind (Secure_NewToken (gk_random c)) (\<lambda>secret.
     reject_if (\<not> validCredentialSecret secret) (Err ''confirmation grant generator returned insufficient entropy'')
       (rbind (Credential_Digest (gk_pepper c) (confirmationGrantToken k secret)) (\<lambda>d.
          Inr (k, confirmationGrantToken k secret, d)))))"

definition new_grant ::
  "ID \<Rightarrow> ID \<Rightarrow> CreateConfirmationGrantRequest \<Rightarrow> string \<Rightarrow> string \<Rightarrow> instant \<Rightarrow> ConfirmationGrant" where
  "new_grant k sellerID q digest ownerSubject now =
     \<lparr>cg_ConfirmationGrantID = k, cg_SellerID = sellerID, cg_CredentialID = gq_CredentialID q, cg_Tool = gq_Tool q,
      cg_TargetType = gq_TargetType q, cg_TargetID = gq_TargetID q, cg_ArgumentsSHA256 = gq_ArgumentsSHA256 q,
      cg_ExpectedResourceVersion = gq_ExpectedResourceVersion q, cg_Summary = TrimSpace (gq_Summary q),
      cg_TokenDigest = digest, cg_BindingHash = confirmationBindingHash sellerID q,
      cg_IssuedBySellerPrincipal = ownerSubject, cg_IssuedAt = now,
      cg_ExpiresAt = Timestamp_Add now MaximumConfirmationGrantLifetime, cg_ConsumedAt = None,
      cg_ConsumedByIdempotencyKeyHash = [], cg_RevokedAt = None, cg_Version = 1\<rparr>"

definition grant_created :: "ConfirmationGrant \<Rightarrow> string \<Rightarrow> ConfirmationGrantCreated" where
  "grant_created g raw =
     \<lparr>gc_ConfirmationGrantID = cg_ConfirmationGrantID g, gc_ConfirmationGrant = raw, gc_SellerID = cg_SellerID g,
      gc_CredentialID = cg_CredentialID g, gc_Tool = cg_Tool g, gc_TargetType = cg_TargetType g,
      gc_TargetID = cg_TargetID g, gc_ArgumentsSHA256 = cg_ArgumentsSHA256 g,
      gc_ExpectedResourceVersion = cg_ExpectedResourceVersion g, gc_IssuedAt = cg_IssuedAt g,
      gc_ExpiresAt = cg_ExpiresAt g\<rparr>"

definition in_grants ::
  "(ConfirmationGrantRepository \<Rightarrow> ConfirmationGrantRepository result) \<Rightarrow> (grant_world, unit) action" where
  "in_grants f = writing (\<lambda>w. f (gw_grants w)) (\<lambda>r w. w\<lparr>gw_grants := r\<rparr>)"

definition grant_record ::
  "grant_call \<Rightarrow> ID \<Rightarrow> AuditActorType \<Rightarrow> string \<Rightarrow> AuditAction \<Rightarrow> ID \<Rightarrow> string list \<Rightarrow> (grant_world, unit) action" where
  "grant_record c sellerID actorType actorID act k changed =
     writing (\<lambda>w. Audit_Record (gk_ulid c) (gw_audit w) (fst (gk_event c)) (snd (gk_event c)) (gk_requestID c)
       \<lparr>rr_SellerID = sellerID, rr_ActorType = actorType, rr_ActorID = actorID, rr_Action = act,
        rr_TargetType = TargetTypeMCPConfirmationGrant, rr_TargetID = k, rr_Outcome = OutcomeSucceeded,
        rr_RequestID = [], rr_ChangedFields = changed\<rparr>) (\<lambda>a w. w\<lparr>gw_audit := a\<rparr>)"

definition Grant_Service_Create ::
  "grant_call \<Rightarrow> string \<Rightarrow> ID \<Rightarrow> CreateConfirmationGrantRequest \<Rightarrow> (grant_world, ConfirmationGrantCreated) action" where
  "Grant_Service_Create c ownerSubject sellerID q =
     abind (pure (gk_authorize c ownerSubject sellerID)) (\<lambda>_.
     abind (pure (validateConfirmationRequest sellerID q)) (\<lambda>_.
     abind (reading (\<lambda>w. validateTarget (gw_catalog w) sellerID q)) (\<lambda>_.
     abind (reading (\<lambda>w. Cred_GetByID (gw_credentials w) (gq_CredentialID q))) (\<lambda>cred.
     guard (\<not> credential_permits cred sellerID (gq_Tool q) (gk_clock c 0)) ErrConfirmationDenied
    (abind (reading (\<lambda>w. grant_entitlement (ResolveSellerPlan (gw_entitlements w) (gk_clock c 1) sellerID) cred
       (gk_clock c 0))) (\<lambda>_.
     abind (pure (new_grant_token c)) (\<lambda>(k, rawGrant, digest).
     let g = new_grant k sellerID q digest ownerSubject (gk_clock c 0)
     in abind (in_grants (\<lambda>r. CreateReplacing r g)) (\<lambda>_.
        abind (grant_record c sellerID ActorTypeSellerUser ownerSubject ActionMCPConfirmationIssued k
          [''credentialId'', ''tool'', ''targetType'', ''targetId'', ''argumentsSha256'', ''expectedResourceVersion'',
           ''expiresAt'']) (\<lambda>_.
        pure (Inr (grant_created g rawGrant)))))))))))"

definition grant_matches :: "ConfirmationGrant \<Rightarrow> Principal \<Rightarrow> ConfirmationConsumption \<Rightarrow> string \<Rightarrow> instant \<Rightarrow> bool" where
  "grant_matches g p q digest now \<longleftrightarrow>
     digest = cg_TokenDigest g \<and> cg_SellerID g = pi_SellerID p \<and> cg_CredentialID g = pi_CredentialID p
     \<and> cg_Tool g = gs_Tool q \<and> cg_TargetType g = gs_TargetType q \<and> cg_TargetID g = gs_TargetID q
     \<and> cg_ArgumentsSHA256 g = gs_ArgumentsSHA256 q \<and> cg_ExpectedResourceVersion g = gs_ExpectedResourceVersion q
     \<and> cg_RevokedAt g = None \<and> now < cg_ExpiresAt g"

definition consumption_hash :: "Principal \<Rightarrow> string \<Rightarrow> string" where
  "consumption_hash p idempotencyKey = hex_encode (Sum256 (pi_CredentialID p @ [CHR 0x00] @ idempotencyKey))"

definition consumed_grant :: "ConfirmationGrant \<Rightarrow> string \<Rightarrow> instant \<Rightarrow> ConfirmationGrant" where
  "consumed_grant g idempotencyHash now =
     g\<lparr>cg_ConsumedAt := Some now, cg_ConsumedByIdempotencyKeyHash := idempotencyHash, cg_Version := cg_Version g + 1\<rparr>"

text \<open>
  The write that consumes the grant. After a conflict the grant is read again: the same request that won
  elsewhere is a success. Errors wrapped with \<open>%w\<close> are returned as they are.
\<close>

definition consuming :: "grant_call \<Rightarrow> Principal \<Rightarrow> ID \<Rightarrow> ConfirmationGrant \<Rightarrow> string \<Rightarrow> (grant_world, unit) action" where
  "consuming c p k g idempotencyHash =
     attempt (in_grants (\<lambda>r. Grant_Consume r (consumed_grant g idempotencyHash (gk_clock c 1)) (cg_Version g)))
       (\<lambda>e. if e \<noteq> ErrConditionFailed then pure (Inl e)
            else attempt (reading (\<lambda>w. Grant_Get (gw_grants w) k))
              (\<lambda>_. pure (Inl ErrConfirmationReplayed))
              (\<lambda>s. if cg_ConsumedByIdempotencyKeyHash s = idempotencyHash then pure (Inr ())
                 else if cg_ConsumedAt s = None then pure (Inl ErrConfirmationDenied)
                 else pure (Inl ErrConfirmationReplayed)))
       (\<lambda>_. grant_record c (pi_SellerID p) ActorTypeIntegrationCredential (pi_CredentialID p)
              ActionMCPConfirmationConsumed k [''consumedAt'', ''consumedByIdempotencyKeyHash''])"

text \<open>What follows the loading of the grant.\<close>

definition deciding ::
  "grant_call \<Rightarrow> Principal \<Rightarrow> ConfirmationConsumption \<Rightarrow> ID \<Rightarrow> ConfirmationGrant \<Rightarrow> (grant_world, unit) action" where
  "deciding c p q k g =
     abind (pure (Credential_Digest (gk_pepper c) (gs_ConfirmationGrant q))) (\<lambda>digest.
     guard (\<not> grant_matches g p q digest (gk_clock c 0)) ErrConfirmationDenied
    (abind (pure (ParseIdempotencyKey (gs_IdempotencyKey q))) (\<lambda>key.
     if cg_ConsumedAt g \<noteq> None
     then pure (if cg_ConsumedByIdempotencyKeyHash g = consumption_hash p key then Inr ()
                else Inl ErrConfirmationReplayed)
     else consuming c p k g (consumption_hash p key))))"

definition Grant_Service_Consume :: "grant_call \<Rightarrow> Principal \<Rightarrow> ConfirmationConsumption \<Rightarrow> (grant_world, unit) action" where
  "Grant_Service_Consume c p q =
     (case parseConfirmationGrantToken (gk_ulid c) (gs_ConfirmationGrant q) of
        Inl _ \<Rightarrow> pure (Inl ErrConfirmationDenied)
      | Inr k \<Rightarrow>
          abind (reading (\<lambda>w. case Grant_Get (gw_grants w) k of
              Inl e \<Rightarrow> Inl (if e = ErrNotFound then ErrConfirmationDenied else e)
            | Inr g \<Rightarrow> Inr g)) (deciding c p q k))"

section \<open>The life of a grant\<close>

definition live_grant :: "ConfirmationGrant \<Rightarrow> bool" where
  "live_grant g \<longleftrightarrow> cg_ConsumedAt g = None \<and> cg_RevokedAt g = None"

text \<open>A live grant has version one; the one change it may see ends it.\<close>

definition wf_grant :: "ConfirmationGrant \<Rightarrow> bool" where
  "wf_grant g \<longleftrightarrow>
     (if live_grant g then cg_Version g = 1 \<and> cg_ConsumedByIdempotencyKeyHash g = []
      else cg_Version g = 2 \<and> (cg_ConsumedAt g = None \<longrightarrow> cg_ConsumedByIdempotencyKeyHash g = [])
           \<and> (cg_ConsumedAt g \<noteq> None \<longrightarrow> cg_RevokedAt g = None))"

definition same_grant :: "ConfirmationGrant \<Rightarrow> ConfirmationGrant \<Rightarrow> bool" where
  "same_grant g g' \<longleftrightarrow>
     g' = g\<lparr>cg_ConsumedAt := cg_ConsumedAt g', cg_ConsumedByIdempotencyKeyHash := cg_ConsumedByIdempotencyKeyHash g',
           cg_RevokedAt := cg_RevokedAt g', cg_Version := cg_Version g'\<rparr>"

lemma same_grant_fields:
  "same_grant g g' \<Longrightarrow> cg_ConfirmationGrantID g' = cg_ConfirmationGrantID g \<and> cg_SellerID g' = cg_SellerID g
     \<and> cg_CredentialID g' = cg_CredentialID g \<and> cg_Tool g' = cg_Tool g \<and> cg_TargetType g' = cg_TargetType g
     \<and> cg_TargetID g' = cg_TargetID g \<and> cg_ArgumentsSHA256 g' = cg_ArgumentsSHA256 g
     \<and> cg_ExpectedResourceVersion g' = cg_ExpectedResourceVersion g \<and> cg_BindingHash g' = cg_BindingHash g
     \<and> cg_TokenDigest g' = cg_TokenDigest g \<and> cg_ExpiresAt g' = cg_ExpiresAt g"
  by (cases g; cases g') (simp add: same_grant_def)

lemma same_grant_refl [simp]: "same_grant g g"
  by (simp add: same_grant_def)

text \<open>
  Any number of callers at the same time. A consuming call works on a grant it has read at some point;
  \<open>S\<close> holds every value ever stored.
\<close>

inductive grant_step ::
  "ConfirmationGrantRepository \<times> ConfirmationGrant set \<Rightarrow> ConfirmationGrantRepository \<times> ConfirmationGrant set \<Rightarrow> bool" where
  issue: "CreateReplacing r (new_grant k sellerID q digest ownerSubject now) = Inr r' \<Longrightarrow>
    grant_step (r, S) (r', S \<union> ran (gr_grants r'))"
| consume: "old \<in> S \<Longrightarrow> Grant_Consume r (consumed_grant old idempotencyHash now) (cg_Version old) = Inr r' \<Longrightarrow>
    grant_step (r, S) (r', S \<union> ran (gr_grants r'))"

text \<open>What was ever stored is stored still, or was live then and has come to its end.\<close>

definition grant_kept :: "ConfirmationGrantRepository \<Rightarrow> ConfirmationGrant \<Rightarrow> bool" where
  "grant_kept r g \<longleftrightarrow> (\<exists>s. gr_grants r (cg_ConfirmationGrantID g) = Some s
     \<and> (s = g \<or> live_grant g \<and> same_grant g s \<and> \<not> live_grant s))"

definition wf_grants :: "ConfirmationGrantRepository \<times> ConfirmationGrant set \<Rightarrow> bool" where
  "wf_grants s \<longleftrightarrow> (case s of (r, S) \<Rightarrow>
     (\<forall>k g. gr_grants r k = Some g \<longrightarrow> cg_ConfirmationGrantID g = k)
     \<and> ran (gr_grants r) \<subseteq> S \<and> (\<forall>g \<in> S. wf_grant g \<and> grant_kept r g)
     \<and> (\<forall>k g. gr_grants r k = Some g \<longrightarrow> live_grant g \<longrightarrow> gr_bindings r (cg_BindingHash g) = Some k))"

lemma wf_grantsD:
  assumes "wf_grants (r, S)"
  shows "gr_grants r k = Some g \<Longrightarrow> cg_ConfirmationGrantID g = k"
    "gr_grants r k = Some g \<Longrightarrow> g \<in> S" "g \<in> S \<Longrightarrow> wf_grant g" "g \<in> S \<Longrightarrow> grant_kept r g"
    "gr_grants r k = Some g \<Longrightarrow> live_grant g \<Longrightarrow> gr_bindings r (cg_BindingHash g) = Some k"
  using assms by (auto simp: wf_grants_def intro: ranI)

lemma wf_grants_new: "wf_grants (NewConfirmationGrantRepository, {})"
  by (simp add: wf_grants_def NewConfirmationGrantRepository_def)

text \<open>
  One grant ends and, perhaps, a new one is stored: the general form of a change. \<open>ended\<close> is the value
  the stored grant \<open>g\<close> is replaced with.
\<close>

lemma ended_grant:
  assumes "wf_grants (r, S)" "gr_grants r k = Some g" "live_grant g"
    and "wf_grant ended" "same_grant g ended" "\<not> live_grant ended"
    and "r' = r\<lparr>gr_grants := (gr_grants r)(k \<mapsto> ended)\<rparr>"
  shows "wf_grants (r', S \<union> ran (gr_grants r'))"
proof -
  note D = wf_grantsD [OF assms(1)]
  have id: "cg_ConfirmationGrantID g = k" "cg_ConfirmationGrantID ended = k"
    using D(1) [OF assms(2)] same_grant_fields [OF assms(5)] by simp_all
  have kept: "grant_kept r' x" if x: "x \<in> S" for x
  proof (cases "cg_ConfirmationGrantID x = k")
    case True
    then have "x = g"
      using D(4) [OF x] assms(2,3) by (auto simp: grant_kept_def)
    with True assms(3,5,6,7) show ?thesis
      by (auto simp: grant_kept_def)
  next
    case False
    with D(4) [OF x] assms(7) show ?thesis
      by (simp add: grant_kept_def)
  qed
  have stored: "x \<in> S \<or> x = ended" if "gr_grants r' i = Some x" for i x
    using that D(2) assms(7) by (auto split: if_split_asm)
  have "grant_kept r' ended"
    using assms(7) id by (simp add: grant_kept_def)
  then have "\<forall>x \<in> S \<union> ran (gr_grants r'). wf_grant x \<and> grant_kept r' x"
    using kept stored D(3) assms(4) by (auto simp: ran_def)
  moreover have "\<forall>i x. gr_grants r' i = Some x \<longrightarrow> cg_ConfirmationGrantID x = i"
    using D(1) id assms(7) by simp
  moreover have "\<forall>i x. gr_grants r' i = Some x \<longrightarrow> live_grant x \<longrightarrow> gr_bindings r' (cg_BindingHash x) = Some i"
    using D(5) assms(6,7) by simp
  ultimately show ?thesis
    by (simp add: wf_grants_def)
qed

lemma fresh_grant:
  assumes "wf_grants (r, S)" "gr_grants r (cg_ConfirmationGrantID g) = None" "wf_grant g"
    and "\<And>k x. gr_grants r k = Some x \<Longrightarrow> live_grant x \<Longrightarrow> cg_BindingHash x \<noteq> cg_BindingHash g"
    and "r' = \<lparr>gr_grants = (gr_grants r)(cg_ConfirmationGrantID g \<mapsto> g),
               gr_bindings = (gr_bindings r)(cg_BindingHash g \<mapsto> cg_ConfirmationGrantID g)\<rparr>"
  shows "wf_grants (r', S \<union> ran (gr_grants r'))"
proof -
  note D = wf_grantsD [OF assms(1)]
  have kept: "grant_kept r' x" if "x \<in> S" for x
    using D(4) [OF that] assms(2,5) by (auto simp: grant_kept_def)
  have stored: "x \<in> S \<or> x = g" if "gr_grants r' i = Some x" for i x
    using that D(2) assms(5) by (auto split: if_split_asm)
  have "grant_kept r' g"
    using assms(5) by (simp add: grant_kept_def)
  then have "\<forall>x \<in> S \<union> ran (gr_grants r'). wf_grant x \<and> grant_kept r' x"
    using kept stored D(3) assms(3) by (auto simp: ran_def)
  moreover have "\<forall>i x. gr_grants r' i = Some x \<longrightarrow> cg_ConfirmationGrantID x = i"
    using D(1) assms(5) by simp
  moreover have "\<forall>i x. gr_grants r' i = Some x \<longrightarrow> live_grant x \<longrightarrow> gr_bindings r' (cg_BindingHash x) = Some i"
    using D(5) assms(4,5) by simp
  ultimately show ?thesis
    by (simp add: wf_grants_def)
qed

text \<open>A live grant of the same binding is revoked before the new one is stored.\<close>

lemma revoked_previous:
  assumes "wf_grants (r, S)"
  shows "wf_grants (r\<lparr>gr_grants := revoke_previous r g\<rparr>, S \<union> ran (revoke_previous r g))"
    and "revoke_previous r g k = Some x \<Longrightarrow> live_grant x \<Longrightarrow> cg_BindingHash x \<noteq> cg_BindingHash g"
    and "gr_grants r i = None \<Longrightarrow> revoke_previous r g i = None"
proof -
  note D = wf_grantsD [OF assms]
  show "gr_grants r i = None \<Longrightarrow> revoke_previous r g i = None"
    by (auto simp: revoke_previous_def split: option.split)
  show "wf_grants (r\<lparr>gr_grants := revoke_previous r g\<rparr>, S \<union> ran (revoke_previous r g))"
  proof (cases "revoke_previous r g = gr_grants r")
    case True
    then show ?thesis
      using assms by (simp add: wf_grants_def Un_absorb2)
  next
    case False
    then obtain j previous where p: "gr_grants r j = Some previous" "live_grant previous"
        "revoke_previous r g = (gr_grants r)(j \<mapsto> previous\<lparr>cg_RevokedAt := Some (cg_IssuedAt g),
           cg_Version := cg_Version previous + 1\<rparr>)"
      by (auto simp: revoke_previous_def live_grant_def split: option.split_asm if_split_asm)
    have "wf_grant previous"
      using D(2,3) p(1) by blast
    with p(2) have "wf_grant (previous\<lparr>cg_RevokedAt := Some (cg_IssuedAt g), cg_Version := cg_Version previous + 1\<rparr>)"
      by (simp add: wf_grant_def live_grant_def)
    from ended_grant [OF assms p(1,2) this] p(3) show ?thesis
      by (simp add: same_grant_def live_grant_def)
  qed
  assume x: "revoke_previous r g k = Some x" "live_grant x"
  show "cg_BindingHash x \<noteq> cg_BindingHash g"
  proof
    assume same: "cg_BindingHash x = cg_BindingHash g"
    have "gr_grants r k = Some x"
      using x by (auto simp: revoke_previous_def live_grant_def split: option.split_asm if_split_asm)
    moreover from this have "gr_bindings r (cg_BindingHash g) = Some k"
      using D(5) [of k x] x(2) same by simp
    ultimately show False
      using x by (auto simp: revoke_previous_def live_grant_def dest!: arg_cong [where f = cg_RevokedAt])
  qed
qed

lemma new_grant_live [simp]: "live_grant (new_grant k sellerID q digest ownerSubject now)"
  "wf_grant (new_grant k sellerID q digest ownerSubject now)"
  by (simp_all add: live_grant_def wf_grant_def new_grant_def)

lemma issue_wf:
  assumes "wf_grants (r, S)" "CreateReplacing r g = Inr r'" "live_grant g" "wf_grant g"
  shows "wf_grants (r', S \<union> ran (gr_grants r'))"
proof -
  let ?r1 = "r\<lparr>gr_grants := revoke_previous r g\<rparr>"
  have new: "gr_grants r (cg_ConfirmationGrantID g) = None"
      "r' = \<lparr>gr_grants = (gr_grants ?r1)(cg_ConfirmationGrantID g \<mapsto> g),
             gr_bindings = (gr_bindings ?r1)(cg_BindingHash g \<mapsto> cg_ConfirmationGrantID g)\<rparr>"
    using assms(2) by (auto simp: CreateReplacing_def result_simps)
  have free: "gr_grants ?r1 (cg_ConfirmationGrantID g) = None"
    using revoked_previous(3) [OF assms(1) new(1)] by simp
  have "wf_grants (r', S \<union> ran (revoke_previous r g) \<union> ran (gr_grants r'))"
    using fresh_grant [OF revoked_previous(1) [OF assms(1)] free assms(4) _ new(2)] revoked_previous(2) [OF assms(1)]
    by simp
  moreover have "ran (revoke_previous r g) \<subseteq> ran (gr_grants r')"
    using free new(2) by (auto simp: ran_def split: if_split_asm) (metis option.distinct(1))
  ultimately show ?thesis
    by (metis Un_absorb1 Un_assoc)
qed

lemma Grant_Consume_ok:
  "Grant_Consume r g v = Inr r' \<longleftrightarrow> (\<exists>stored. gr_grants r (cg_ConfirmationGrantID g) = Some stored \<and> live_grant stored
     \<and> cg_Version stored = v \<and> cg_Version g = v + 1
     \<and> (case gr_bindings r (cg_BindingHash stored) of None \<Rightarrow> [] | Some i \<Rightarrow> i) = cg_ConfirmationGrantID stored
     \<and> r' = r\<lparr>gr_grants := (gr_grants r)(cg_ConfirmationGrantID g \<mapsto> g)\<rparr>)"
  by (auto simp: Grant_Consume_def result_simps live_grant_def split: option.split)

text \<open>A write that is accepted consumes the stored grant, which is the one that was read.\<close>

lemma accepted_consumption:
  assumes "wf_grants (r, S)" "old \<in> S" "Grant_Consume r (consumed_grant old h now) (cg_Version old) = Inr r'"
  shows "gr_grants r (cg_ConfirmationGrantID old) = Some old" "live_grant old"
    "r' = r\<lparr>gr_grants := (gr_grants r)(cg_ConfirmationGrantID old \<mapsto> consumed_grant old h now)\<rparr>"
    "wf_grant (consumed_grant old h now)"
proof -
  note D = wf_grantsD [OF assms(1)]
  obtain stored where s: "gr_grants r (cg_ConfirmationGrantID old) = Some stored" "live_grant stored"
      "r' = r\<lparr>gr_grants := (gr_grants r)(cg_ConfirmationGrantID old \<mapsto> consumed_grant old h now)\<rparr>"
    using assms(3) by (auto simp: Grant_Consume_ok consumed_grant_def)
  with D(4) [OF assms(2)] have "stored = old"
    by (auto simp: grant_kept_def)
  with s show "gr_grants r (cg_ConfirmationGrantID old) = Some old" "live_grant old"
    "r' = r\<lparr>gr_grants := (gr_grants r)(cg_ConfirmationGrantID old \<mapsto> consumed_grant old h now)\<rparr>"
    by simp_all
  then show "wf_grant (consumed_grant old h now)"
    using D(3) [OF assms(2)] by (simp add: wf_grant_def live_grant_def consumed_grant_def)
qed

lemma consumed_same [simp]: "same_grant g (consumed_grant g h now)" "\<not> live_grant (consumed_grant g h now)"
  by (simp_all add: same_grant_def consumed_grant_def live_grant_def)

lemma grant_step_wf:
  assumes "grant_step s s'" "wf_grants s"
  shows "wf_grants s'"
  using assms
proof cases
  case (issue r k sellerID q digest ownerSubject now r' S)
  with assms(2) show ?thesis
    using issue_wf [of r S "new_grant k sellerID q digest ownerSubject now" r'] by simp
next
  case (consume old S r h now r')
  then have wf: "wf_grants (r, S)"
    using assms(2) by simp
  note acc = accepted_consumption [OF wf consume(3,4)]
  show ?thesis
    unfolding consume(2) by (rule ended_grant [OF wf acc(1,2) acc(4) _ _ acc(3)]) simp_all
qed

lemma grant_steps_wf: "grant_step\<^sup>*\<^sup>* s s' \<Longrightarrow> wf_grants s \<Longrightarrow> wf_grants s'"
  by (induction rule: rtranclp_induct) (auto intro: grant_step_wf)

lemma grant_step_grows: "grant_step s s' \<Longrightarrow> snd s \<subseteq> snd s'"
  by (auto elim: grant_step.cases)

lemma grant_steps_grow: "grant_step\<^sup>*\<^sup>* s s' \<Longrightarrow> snd s \<subseteq> snd s'"
  by (induction rule: rtranclp_induct) (use grant_step_grows in blast)+

section \<open>Properties\<close>

lemma hex_encode_not_Nil: "hex_encode (Sum256 m) \<noteq> []"
  using length_Sum256 [of m] by (cases "Sum256 m") (simp_all add: hex_encode_def)

lemma consumption_hash_not_Nil [simp]: "consumption_hash p key \<noteq> []"
  by (simp add: consumption_hash_def hex_encode_not_Nil)

text \<open>The grant a successful call leaves: consumed, for its key, and the one it had read.\<close>

lemma stored_consumed:
  assumes "wf_grants (r, S)" "gr_grants r k = Some s" "cg_ConsumedByIdempotencyKeyHash s \<noteq> []"
  shows "cg_ConsumedAt s \<noteq> None" "\<not> live_grant s"
  using wf_grantsD(3) [OF assms(1) wf_grantsD(2) [OF assms(1,2)]] assms(3)
  by (auto simp: wf_grant_def live_grant_def split: if_split_asm)

lemma consuming_ok:
  assumes "wf_grants (gw_grants w, S)" "g \<in> S" "cg_ConfirmationGrantID g = k" "h \<noteq> []"
    and "consuming c p k g h w = (Inr (), w')"
  shows "\<exists>s. gr_grants (gw_grants w') k = Some s \<and> same_grant g s \<and> cg_ConsumedAt s \<noteq> None
    \<and> cg_ConsumedByIdempotencyKeyHash s = h"
    and "grant_step\<^sup>*\<^sup>* (gw_grants w, S) (gw_grants w', S \<union> ran (gr_grants (gw_grants w')))"
proof -
  note D = wf_grantsD [OF assms(1)]
  let ?outcome = "Grant_Consume (gw_grants w) (consumed_grant g h (gk_clock c 1)) (cg_Version g)"
  have "(\<exists>s. gr_grants (gw_grants w') k = Some s \<and> same_grant g s \<and> cg_ConsumedAt s \<noteq> None
        \<and> cg_ConsumedByIdempotencyKeyHash s = h)
      \<and> grant_step\<^sup>*\<^sup>* (gw_grants w, S) (gw_grants w', S \<union> ran (gr_grants (gw_grants w')))"
  proof (cases ?outcome)
    case (Inl e)
    have run: "consuming c p k g h w = (if e \<noteq> ErrConditionFailed then (Inl e, w)
        else case Grant_Get (gw_grants w) k of Inl _ \<Rightarrow> (Inl ErrConfirmationReplayed, w)
          | Inr s \<Rightarrow> if cg_ConsumedByIdempotencyKeyHash s = h then (Inr (), w)
              else if cg_ConsumedAt s = None then (Inl ErrConfirmationDenied, w)
              else (Inl ErrConfirmationReplayed, w))"
      by (cases "Grant_Get (gw_grants w) k") (simp_all add: consuming_def in_grants_def attempt_run writing_run Inl del: One_nat_def)
    have e: "e = ErrConditionFailed"
      using assms(5) run by (cases "e = ErrConditionFailed") simp_all
    obtain s where get: "Grant_Get (gw_grants w) k = Inr s"
      using assms(5) run e by (cases "Grant_Get (gw_grants w) k") simp_all
    have "cg_ConsumedByIdempotencyKeyHash s = h" "w' = w"
      using assms(5) run e get by (simp_all split: if_split_asm)
    with get have s: "gr_grants (gw_grants w) k = Some s" "cg_ConsumedByIdempotencyKeyHash s = h" "w' = w"
      by (simp_all add: Grant_Get_def split: option.split_asm)
    moreover have "same_grant g s"
      using D(4) [OF assms(2)] s(1) assms(3) by (auto simp: grant_kept_def)
    moreover have "cg_ConsumedAt s \<noteq> None"
      using stored_consumed [OF assms(1) s(1)] s(2) assms(4) by simp
    moreover have "S \<union> ran (gr_grants (gw_grants w)) = S"
      using assms(1) by (auto simp: wf_grants_def)
    ultimately show ?thesis
      using s by auto
  next
    case (Inr r')
    note acc = accepted_consumption [OF assms(1,2) Inr]
    have "gw_grants w' = r'"
      using assms(5) by (auto simp: consuming_def in_grants_def attempt_run writing_run Inr grant_record_def simp del: One_nat_def
          split: sum.split_asm)
    moreover have "gr_grants r' k = Some (consumed_grant g h (gk_clock c 1))"
      using acc(3) assms(3) by simp
    moreover have "grant_step (gw_grants w, S) (r', S \<union> ran (gr_grants r'))"
      using grant_step.consume [OF assms(2) Inr] .
    ultimately show ?thesis
      by (auto simp: consumed_grant_def same_grant_def)
  qed
  then show "\<exists>s. gr_grants (gw_grants w') k = Some s \<and> same_grant g s \<and> cg_ConsumedAt s \<noteq> None
      \<and> cg_ConsumedByIdempotencyKeyHash s = h"
    and "grant_step\<^sup>*\<^sup>* (gw_grants w, S) (gw_grants w', S \<union> ran (gr_grants (gw_grants w')))"
    by blast+
qed

lemma deciding_ok:
  assumes "wf_grants (gw_grants w, S)" "g \<in> S" "cg_ConfirmationGrantID g = k"
    and "deciding c p q k g w = (Inr (), w')"
  obtains digest key s where "Credential_Digest (gk_pepper c) (gs_ConfirmationGrant q) = Inr digest"
    "grant_matches g p q digest (gk_clock c 0)" "ParseIdempotencyKey (gs_IdempotencyKey q) = Inr key"
    "gr_grants (gw_grants w') k = Some s" "same_grant g s" "cg_ConsumedAt s \<noteq> None"
    "cg_ConsumedByIdempotencyKeyHash s = consumption_hash p key"
    "grant_step\<^sup>*\<^sup>* (gw_grants w, S) (gw_grants w', S \<union> ran (gr_grants (gw_grants w')))"
proof -
  note D = wf_grantsD [OF assms(1)]
  from assms(4) obtain digest key where d: "Credential_Digest (gk_pepper c) (gs_ConfirmationGrant q) = Inr digest"
    "grant_matches g p q digest (gk_clock c 0)" "ParseIdempotencyKey (gs_IdempotencyKey q) = Inr key"
    and rest: "(if cg_ConsumedAt g \<noteq> None
     then pure (if cg_ConsumedByIdempotencyKeyHash g = consumption_hash p key then Inr ()
                else Inl ErrConfirmationReplayed)
     else consuming c p k g (consumption_hash p key)) w = (Inr (), w')"
    by (auto simp: deciding_def action_ok)
  show thesis
  proof (cases "cg_ConsumedAt g")
    case None
    with rest have run: "consuming c p k g (consumption_hash p key) w = (Inr (), w')" by simp
    from consuming_ok [OF assms(1-3) _ run] d that show thesis
      by auto
  next
    case (Some t)
    with rest have "w' = w" "cg_ConsumedByIdempotencyKeyHash g = consumption_hash p key"
      by (auto split: if_split_asm)
    moreover have "gr_grants (gw_grants w) k = Some g"
      using D(4) [OF assms(2)] assms(3) Some by (auto simp: grant_kept_def live_grant_def)
    moreover have "S \<union> ran (gr_grants (gw_grants w)) = S"
      using assms(1) by (auto simp: wf_grants_def)
    ultimately show thesis
      using that [OF d, of g] Some by simp
  qed
qed

text \<open>
  C22: a confirmation grant is used once. Take any two calls that present a grant with the same
  identifier and both succeed, each working on a grant it read at any earlier time, with any other calls
  between them. Then both come from the same credential of the same seller, for the same tool, target,
  arguments and resource version, and with idempotency keys of the same SHA-256 digest: a grant
  authorizes one mutation, which only a retry of the same request repeats.
\<close>

theorem confirmation_grant_used_once:
  assumes "grant_step\<^sup>*\<^sup>* (NewConfirmationGrantRepository, {}) (gw_grants w, S)"
    and "g \<in> S" "cg_ConfirmationGrantID g = k" "deciding c p q k g w = (Inr (), w')"
    and "grant_step\<^sup>*\<^sup>* (gw_grants w', S \<union> ran (gr_grants (gw_grants w'))) (gw_grants v, S')"
    and "g' \<in> S'" "cg_ConfirmationGrantID g' = k" "deciding c' p' q' k g' v = (Inr (), v')"
  shows "pi_SellerID p' = pi_SellerID p \<and> pi_CredentialID p' = pi_CredentialID p
    \<and> gs_Tool q' = gs_Tool q \<and> gs_TargetType q' = gs_TargetType q \<and> gs_TargetID q' = gs_TargetID q
    \<and> gs_ArgumentsSHA256 q' = gs_ArgumentsSHA256 q \<and> gs_ExpectedResourceVersion q' = gs_ExpectedResourceVersion q
    \<and> (\<exists>key key'. ParseIdempotencyKey (gs_IdempotencyKey q) = Inr key \<and> ParseIdempotencyKey (gs_IdempotencyKey q') = Inr key'
        \<and> Sum256 (pi_CredentialID p @ [CHR 0x00] @ key) = Sum256 (pi_CredentialID p @ [CHR 0x00] @ key'))"
proof -
  have wf: "wf_grants (gw_grants w, S)"
    using grant_steps_wf [OF assms(1) wf_grants_new] .
  obtain digest key s where first: "grant_matches g p q digest (gk_clock c 0)"
      "ParseIdempotencyKey (gs_IdempotencyKey q) = Inr key" "gr_grants (gw_grants w') k = Some s" "same_grant g s"
      "cg_ConsumedAt s \<noteq> None" "cg_ConsumedByIdempotencyKeyHash s = consumption_hash p key"
      "grant_step\<^sup>*\<^sup>* (gw_grants w, S) (gw_grants w', S \<union> ran (gr_grants (gw_grants w')))"
    by (rule deciding_ok [OF wf assms(2-4)])
  have wfv: "wf_grants (gw_grants v, S')"
    using grant_steps_wf [OF assms(5)] grant_steps_wf [OF first(7) wf] by simp
  obtain digest' key' s' where second: "grant_matches g' p' q' digest' (gk_clock c' 0)"
      "ParseIdempotencyKey (gs_IdempotencyKey q') = Inr key'" "gr_grants (gw_grants v') k = Some s'" "same_grant g' s'"
      "cg_ConsumedAt s' \<noteq> None" "cg_ConsumedByIdempotencyKeyHash s' = consumption_hash p' key'"
      "grant_step\<^sup>*\<^sup>* (gw_grants v, S') (gw_grants v', S' \<union> ran (gr_grants (gw_grants v')))"
    by (rule deciding_ok [OF wfv assms(6-8)])
  let ?S2 = "S' \<union> ran (gr_grants (gw_grants v'))"
  have "wf_grants (gw_grants v', ?S2)"
    using grant_steps_wf [OF second(7) wfv] .
  moreover have "s \<in> ?S2"
    using grant_steps_grow [OF assms(5)] first(3) by (auto simp: ranI)
  moreover have "cg_ConfirmationGrantID s = k" "\<not> live_grant s"
    using same_grant_fields [OF first(4)] assms(3) first(5) by (auto simp: live_grant_def)
  ultimately have "s' = s"
    using wf_grantsD(4) [of "gw_grants v'" ?S2 s] second(3) by (auto simp: grant_kept_def)
  then show ?thesis
    using first second same_grant_fields [OF first(4)] same_grant_fields [OF second(4)]
      hex_decode_encode by (auto simp: grant_matches_def consumption_hash_def) (metis hex_decode_encode option.inject)
qed

text \<open>
  C23: a confirmation grant is issued only for what its credential may do now. On reachable grants a
  successful call was authorized for the seller; the credential is a stored, live key of that seller with
  the scope the tool needs and the epoch of the seller's active plan; the target is the seller's own and
  stood at the version the request names. The stored grant is fresh, live for five minutes and bound to
  exactly the request, and no other live grant is bound to the same mutation.
\<close>

theorem confirmation_grant_issued:
  assumes "grant_step\<^sup>*\<^sup>* (NewConfirmationGrantRepository, {}) (gw_grants w, S)"
    and "Grant_Service_Create c ownerSubject sellerID q w = (Inr a, w')"
  shows "\<exists>cred plan g. gk_authorize c ownerSubject sellerID = Inr ()
    \<and> cred_at (gw_credentials w) (gq_CredentialID q) = Some cred
    \<and> credential_permits cred sellerID (gq_Tool q) (gk_clock c 0)
    \<and> ResolveSellerPlan (gw_entitlements w) (gk_clock c 1) sellerID = Inr plan \<and> active_until plan (gk_clock c 0)
    \<and> ic_entitlementEpoch cred = plan_epoch plan
    \<and> (gq_TargetType q = ConfirmationTargetSeller \<and> (\<exists>s. ca_sellers (gw_catalog w) sellerID = Some s
           \<and> se_Version s = gq_ExpectedResourceVersion q)
       \<or> gq_TargetType q = ConfirmationTargetPaidRoute \<and> (\<exists>t. ca_routes (gw_catalog w) (gq_TargetID q) = Some t
           \<and> pr_SellerID t = sellerID \<and> pr_Version t = gq_ExpectedResourceVersion q))
    \<and> gr_grants (gw_grants w) (gc_ConfirmationGrantID a) = None
    \<and> gr_grants (gw_grants w') (gc_ConfirmationGrantID a) = Some g \<and> live_grant g
    \<and> cg_SellerID g = sellerID \<and> cg_CredentialID g = gq_CredentialID q \<and> cg_Tool g = gq_Tool q
    \<and> cg_TargetID g = gq_TargetID q \<and> cg_ArgumentsSHA256 g = gq_ArgumentsSHA256 q
    \<and> cg_ExpectedResourceVersion g = gq_ExpectedResourceVersion q \<and> cg_ExpiresAt g = gk_clock c 0 + 5 * Minute
    \<and> Credential_Digest (gk_pepper c) (gc_ConfirmationGrant a) = Inr (cg_TokenDigest g)
    \<and> (\<forall>k x. gr_grants (gw_grants w') k = Some x \<longrightarrow> live_grant x \<longrightarrow>
         cg_BindingHash x = confirmationBindingHash sellerID q \<longrightarrow> k = gc_ConfirmationGrantID a)"
proof -
  have wf: "wf_grants (gw_grants w, S)"
    using grant_steps_wf [OF assms(1) wf_grants_new] .
  from assms(2) obtain cred k raw digest r' where
      auth: "gk_authorize c ownerSubject sellerID = Inr ()" and valid: "validateConfirmationRequest sellerID q = Inr ()"
    and target: "validateTarget (gw_catalog w) sellerID q = Inr ()"
    and cred: "Cred_GetByID (gw_credentials w) (gq_CredentialID q) = Inr cred"
      "credential_permits cred sellerID (gq_Tool q) (gk_clock c 0)"
    and plan: "grant_entitlement (ResolveSellerPlan (gw_entitlements w) (gk_clock c 1) sellerID) cred (gk_clock c 0) = Inr ()"
    and tok: "new_grant_token c = Inr (k, raw, digest)"
    and r': "CreateReplacing (gw_grants w) (new_grant k sellerID q digest ownerSubject (gk_clock c 0)) = Inr r'"
    and w': "gw_grants w' = r'" and a: "a = grant_created (new_grant k sellerID q digest ownerSubject (gk_clock c 0)) raw"
    by (clarsimp simp: Grant_Service_Create_def action_ok in_grants_def grant_record_def Let_def)
  let ?g = "new_grant k sellerID q digest ownerSubject (gk_clock c 0)"
  have wf': "wf_grants (r', S \<union> ran (gr_grants r'))"
    using issue_wf [OF wf r'] by simp
  have new: "gr_grants (gw_grants w) k = None" "gr_grants r' k = Some ?g"
      "gr_bindings r' (confirmationBindingHash sellerID q) = Some k"
    using r' by (auto simp: CreateReplacing_def result_simps new_grant_def)
  have only: "i = k" if "gr_grants r' i = Some x" "live_grant x" "cg_BindingHash x = confirmationBindingHash sellerID q" for i x
    using wf_grantsD(5) [OF wf' that(1,2)] that(3) new(3) by simp
  have types: "gq_TargetType q = ConfirmationTargetSeller \<or> gq_TargetType q = ConfirmationTargetPaidRoute"
    using valid by (auto simp: validateConfirmationRequest_def tool_target_error_def result_simps
        split: ConfirmationTool.split_asm)
  have tgt: "gq_TargetType q = ConfirmationTargetSeller \<and> (\<exists>s. ca_sellers (gw_catalog w) sellerID = Some s
           \<and> se_Version s = gq_ExpectedResourceVersion q)
       \<or> gq_TargetType q = ConfirmationTargetPaidRoute \<and> (\<exists>t. ca_routes (gw_catalog w) (gq_TargetID q) = Some t
           \<and> pr_SellerID t = sellerID \<and> pr_Version t = gq_ExpectedResourceVersion q)"
    using types target by (auto simp: validateTarget_def result_simps Catalog_GetSeller_def Catalog_GetRoute_def
        split: option.split_asm)
  have stored: "cred_at (gw_credentials w) (gq_CredentialID q) = Some cred"
    using cred(1) by (auto simp: Cred_GetByID_def split: option.split_asm)
  obtain pl where pl: "ResolveSellerPlan (gw_entitlements w) (gk_clock c 1) sellerID = Inr pl"
      "active_until pl (gk_clock c 0)" "ic_entitlementEpoch cred = plan_epoch pl"
    using plan by (auto simp: grant_entitlement_def result_simps split: sum.split_asm)
  have raw: "Credential_Digest (gk_pepper c) raw = Inr digest"
    using tok by (auto simp: new_grant_token_def result_simps)
  have fields: "gc_ConfirmationGrantID a = k" "gc_ConfirmationGrant a = raw" "cg_SellerID ?g = sellerID"
    "cg_CredentialID ?g = gq_CredentialID q" "cg_Tool ?g = gq_Tool q" "cg_TargetID ?g = gq_TargetID q"
    "cg_ArgumentsSHA256 ?g = gq_ArgumentsSHA256 q" "cg_ExpectedResourceVersion ?g = gq_ExpectedResourceVersion q"
    "cg_ExpiresAt ?g = gk_clock c 0 + 5 * Minute" "cg_TokenDigest ?g = digest"
    by (simp_all add: a grant_created_def new_grant_def Timestamp_Add_def)
  have out: "gr_grants (gw_grants w) (gc_ConfirmationGrantID a) = None"
      "gr_grants (gw_grants w') (gc_ConfirmationGrantID a) = Some ?g" "live_grant ?g"
      "Credential_Digest (gk_pepper c) (gc_ConfirmationGrant a) = Inr (cg_TokenDigest ?g)"
    using new raw w' by (simp_all add: fields)
  have last: "\<forall>k x. gr_grants (gw_grants w') k = Some x \<longrightarrow> live_grant x \<longrightarrow>
      cg_BindingHash x = confirmationBindingHash sellerID q \<longrightarrow> k = gc_ConfirmationGrantID a"
    unfolding w' fields(1) using only by blast
  show ?thesis
    by (rule exI [of _ cred], rule exI [of _ pl], rule exI [of _ ?g], intro conjI)
      (fact auth stored cred(2) pl tgt out last fields)+
qed

section \<open>A sample run\<close>

abbreviation "sample_grant_id \<equiv> ''mcg_01ARZ3NDEKTSV4RRFFQ69G5FAV''"

definition sample_grant_token :: string where
  "sample_grant_token = confirmationGrantToken sample_grant_id (base64_url (replicate 32 (CHR ''s'')))"

definition sample_grant_request :: CreateConfirmationGrantRequest where
  "sample_grant_request =
     \<lparr>gq_CredentialID = sample_key_id, gq_Tool = ToolPublishRoute, gq_TargetType = ConfirmationTargetPaidRoute,
      gq_TargetID = ''rte_01ARZ3NDEKTSV4RRFFQ69G5FAV'', gq_ArgumentsSHA256 = replicate 64 (CHR ''0''),
      gq_ExpectedResourceVersion = 1, gq_Summary = ''Publish the report''\<rparr>"

definition sample_grant_call :: grant_call where
  "sample_grant_call =
     \<lparr>gk_ulid = sample_audit_ulid, gk_authorize = (\<lambda>_ _. Inr ()), gk_id = Inr sample_grant_id,
      gk_random = Inr (replicate 32 (CHR ''s'')), gk_pepper = Inr sample_pepper, gk_clock = (\<lambda>_. 3000),
      gk_event = (Inr ''aud_1'', 3000), gk_requestID = ''req''\<rparr>"

definition sample_grant :: ConfirmationGrant where
  "sample_grant = new_grant sample_grant_id sample_seller_id sample_grant_request
     (hex_encode (hmac_sha256 sample_pepper sample_grant_token)) ''owner'' 3000"

definition sample_grants :: ConfirmationGrantRepository where
  "sample_grants = \<lparr>gr_grants = [sample_grant_id \<mapsto> sample_grant],
     gr_bindings = [cg_BindingHash sample_grant \<mapsto> sample_grant_id]\<rparr>"

definition sample_grant_world :: "ConfirmationGrantRepository \<Rightarrow> grant_world" where
  "sample_grant_world r =
     \<lparr>gw_grants = r, gw_credentials = sample_keys,
      gw_entitlements = NewSellerEntitlementRepository\<lparr>sr_entitlements := [sample_seller_id \<mapsto> sample_entitlement]\<rparr>,
      gw_catalog = NewCatalogRepository\<lparr>ca_routes := [''rte_01ARZ3NDEKTSV4RRFFQ69G5FAV'' \<mapsto> sample_route]\<rparr>,
      gw_audit = \<lparr>aer_events = []\<rparr>\<rparr>"

lemma sample_grant_stored: "CreateReplacing NewConfirmationGrantRepository sample_grant = Inr sample_grants"
  by (simp add: CreateReplacing_def NewConfirmationGrantRepository_def revoke_previous_def sample_grants_def
      sample_grant_def new_grant_def reject_if_def)

lemma sample_grant_step:
  "grant_step (NewConfirmationGrantRepository, {}) (sample_grants, {sample_grant})"
  using grant_step.issue [OF sample_grant_stored [unfolded sample_grant_def], of "{}"]
  by (simp add: sample_grants_def)

lemma sample_grant_recorded:
  obtains a where "Audit_Record sample_audit_ulid \<lparr>aer_events = []\<rparr> (Inr ''aud_1'') 3000 ''req''
    \<lparr>rr_SellerID = sample_seller_id, rr_ActorType = ActorTypeSellerUser, rr_ActorID = ''owner'',
     rr_Action = ActionMCPConfirmationIssued, rr_TargetType = TargetTypeMCPConfirmationGrant,
     rr_TargetID = sample_grant_id, rr_Outcome = OutcomeSucceeded, rr_RequestID = [],
     rr_ChangedFields = [''credentialId'', ''tool'', ''targetType'', ''targetId'', ''argumentsSha256'',
       ''expectedResourceVersion'', ''expiresAt'']\<rparr> = Inr a"
proof -
  have "is_ok (Audit_Record sample_audit_ulid \<lparr>aer_events = []\<rparr> (Inr ''aud_1'') 3000 ''req''
    \<lparr>rr_SellerID = sample_seller_id, rr_ActorType = ActorTypeSellerUser, rr_ActorID = ''owner'',
     rr_Action = ActionMCPConfirmationIssued, rr_TargetType = TargetTypeMCPConfirmationGrant,
     rr_TargetID = sample_grant_id, rr_Outcome = OutcomeSucceeded, rr_RequestID = [],
     rr_ChangedFields = [''credentialId'', ''tool'', ''targetType'', ''targetId'', ''argumentsSha256'',
       ''expectedResourceVersion'', ''expiresAt'']\<rparr>)"
    by code_simp
  with that show thesis
    by (auto simp: is_ok_def split: sum.split_asm)
qed

lemma sample_grant_created:
  obtains a w' where "Grant_Service_Create sample_grant_call ''owner'' sample_seller_id sample_grant_request
    (sample_grant_world NewConfirmationGrantRepository) = (Inr a, w')"
proof -
  obtain p where p: "sellerPlanResponse sample_entitlement 3000 = Inr p" "active_until p 3000" "plan_epoch p = 1"
    using sample_plan_active by metis
  obtain a where "Audit_Record sample_audit_ulid \<lparr>aer_events = []\<rparr> (Inr ''aud_1'') 3000 ''req''
    \<lparr>rr_SellerID = sample_seller_id, rr_ActorType = ActorTypeSellerUser, rr_ActorID = ''owner'',
     rr_Action = ActionMCPConfirmationIssued, rr_TargetType = TargetTypeMCPConfirmationGrant,
     rr_TargetID = sample_grant_id, rr_Outcome = OutcomeSucceeded, rr_RequestID = [],
     rr_ChangedFields = [''credentialId'', ''tool'', ''targetType'', ''targetId'', ''argumentsSha256'',
       ''expectedResourceVersion'', ''expiresAt'']\<rparr> = Inr a"
    by (rule sample_grant_recorded)
  moreover have "validateConfirmationRequest sample_seller_id sample_grant_request = Inr ()"
    by code_simp
  moreover have "validateTarget (gw_catalog (sample_grant_world r)) sample_seller_id sample_grant_request = Inr ()" for r
    by (simp add: validateTarget_def sample_grant_request_def sample_grant_world_def Catalog_GetRoute_def
        sample_route_def rbind_def reject_if_def)
  moreover have "Cred_GetByID sample_keys sample_key_id = Inr sample_credential"
    by (simp add: Cred_GetByID_def sample_keys_def sample_credential_def fresh_credential_def)
  moreover have "credential_permits sample_credential sample_seller_id ToolPublishRoute 3000"
    by (simp add: credential_permits_def sample_credential_def fresh_credential_def HasScope_def requiredToolScope_def)
  moreover have "ResolveSellerPlan (gw_entitlements (sample_grant_world r)) 3000 sample_seller_id = Inr p" for r
    using p(1) sample_plan_resolved [of sample_keys] by (simp add: sample_grant_world_def sample_credential_world_def)
  moreover have "grant_entitlement (Inr p) sample_credential 3000 = Inr ()"
    using p by (simp add: grant_entitlement_def sample_credential_def fresh_credential_def reject_if_def)
  moreover have "new_grant_token sample_grant_call
    = Inr (sample_grant_id, sample_grant_token, hex_encode (hmac_sha256 sample_pepper sample_grant_token))"
    by (simp add: new_grant_token_def sample_grant_call_def Secure_NewToken_def validCredentialSecret_def
        base64_url_decode_encode Credential_Digest_def sample_pepper_def sample_grant_token_def rbind_def reject_if_def)
  moreover note sample_grant_stored [unfolded sample_grant_def]
  ultimately have "is_ok (fst (Grant_Service_Create sample_grant_call ''owner'' sample_seller_id sample_grant_request
    (sample_grant_world NewConfirmationGrantRepository)))"
    by (simp add: Grant_Service_Create_def action_simps in_grants_def grant_record_def Let_def is_ok_def
        sample_grant_call_def sample_grant_world_def sample_grant_request_def)
  then show thesis
    using that by (metis is_ok_def old.sum.simps(5) prod.collapse sum.exhaust_sel)
qed

theorem confirmation_grant_issued_witness:
  "\<exists>a w'. Grant_Service_Create sample_grant_call ''owner'' sample_seller_id sample_grant_request
     (sample_grant_world NewConfirmationGrantRepository) = (Inr a, w')
   \<and> (\<exists>g. gr_grants (gw_grants w') (gc_ConfirmationGrantID a) = Some g \<and> cg_ExpiresAt g = 3000 + 5 * Minute)"
proof -
  obtain a w' where run: "Grant_Service_Create sample_grant_call ''owner'' sample_seller_id sample_grant_request
    (sample_grant_world NewConfirmationGrantRepository) = (Inr a, w')"
    by (rule sample_grant_created)
  have start: "grant_step\<^sup>*\<^sup>* (NewConfirmationGrantRepository, {})
      (gw_grants (sample_grant_world NewConfirmationGrantRepository), {})"
    by (simp add: sample_grant_world_def)
  from confirmation_grant_issued [OF start run] run show ?thesis
    by (auto simp: sample_grant_call_def)
qed

definition sample_principal :: Principal where
  "sample_principal =
     \<lparr>pi_SellerID = sample_seller_id, pi_CredentialID = sample_key_id, pi_Scopes = [ScopePublish]\<rparr>"

definition sample_consumption :: ConfirmationConsumption where
  "sample_consumption =
     \<lparr>gs_ConfirmationGrant = sample_grant_token, gs_Tool = ToolPublishRoute, gs_TargetType = ConfirmationTargetPaidRoute,
      gs_TargetID = ''rte_01ARZ3NDEKTSV4RRFFQ69G5FAV'', gs_ArgumentsSHA256 = replicate 64 (CHR ''0''),
      gs_ExpectedResourceVersion = 1, gs_IdempotencyKey = ''idempotency-key-0001''\<rparr>"

lemma sample_consumed:
  obtains w' where "deciding sample_grant_call sample_principal sample_consumption sample_grant_id sample_grant
      (sample_grant_world sample_grants) = (Inr (), w')"
    "deciding sample_grant_call sample_principal sample_consumption sample_grant_id sample_grant w' = (Inr (), w')"
proof -
  have key: "ParseIdempotencyKey ''idempotency-key-0001'' = Inr ''idempotency-key-0001''"
    by code_simp
  let ?h = "consumption_hash sample_principal ''idempotency-key-0001''"
  let ?g = "consumed_grant sample_grant ?h 3000"
  let ?r = "sample_grants\<lparr>gr_grants := [sample_grant_id \<mapsto> ?g]\<rparr>"
  have matches: "grant_matches sample_grant sample_principal sample_consumption
      (hex_encode (hmac_sha256 sample_pepper sample_grant_token)) 3000" "cg_ConsumedAt sample_grant = None"
    by (simp_all add: grant_matches_def sample_grant_def new_grant_def sample_principal_def sample_consumption_def
        sample_grant_request_def Timestamp_Add_def)
  have digest: "Credential_Digest (Inr sample_pepper) sample_grant_token = Inr (hex_encode (hmac_sha256 sample_pepper sample_grant_token))"
    by (simp add: Credential_Digest_def sample_pepper_def rbind_def reject_if_def)
  have fields: "cg_ConfirmationGrantID sample_grant = sample_grant_id" "live_grant sample_grant" "cg_Version sample_grant = 1"
    by (simp_all add: sample_grant_def new_grant_def live_grant_def)
  have won: "Grant_Consume sample_grants ?g (cg_Version sample_grant) = Inr ?r"
    using fields by (simp add: Grant_Consume_ok consumed_grant_def sample_grants_def)
  have lost: "Grant_Consume ?r ?g (cg_Version sample_grant) = Inl ErrConditionFailed"
    using fields by (simp add: Grant_Consume_def consumed_grant_def reject_if_def)
  obtain a where rec: "Audit_Record sample_audit_ulid \<lparr>aer_events = []\<rparr> (Inr ''aud_1'') 3000 ''req''
    \<lparr>rr_SellerID = sample_seller_id, rr_ActorType = ActorTypeIntegrationCredential, rr_ActorID = sample_key_id,
     rr_Action = ActionMCPConfirmationConsumed, rr_TargetType = TargetTypeMCPConfirmationGrant,
     rr_TargetID = sample_grant_id, rr_Outcome = OutcomeSucceeded, rr_RequestID = [],
     rr_ChangedFields = [''consumedAt'', ''consumedByIdempotencyKeyHash'']\<rparr> = Inr a"
  proof -
    have "is_ok (Audit_Record sample_audit_ulid \<lparr>aer_events = []\<rparr> (Inr ''aud_1'') 3000 ''req''
    \<lparr>rr_SellerID = sample_seller_id, rr_ActorType = ActorTypeIntegrationCredential, rr_ActorID = sample_key_id,
     rr_Action = ActionMCPConfirmationConsumed, rr_TargetType = TargetTypeMCPConfirmationGrant,
     rr_TargetID = sample_grant_id, rr_Outcome = OutcomeSucceeded, rr_RequestID = [],
     rr_ChangedFields = [''consumedAt'', ''consumedByIdempotencyKeyHash'']\<rparr>)"
      by code_simp
    with that show thesis
      by (auto simp: is_ok_def split: sum.split_asm)
  qed
  let ?w = "sample_grant_world ?r"
  have decided: "deciding sample_grant_call sample_principal sample_consumption sample_grant_id sample_grant w
      = consuming sample_grant_call sample_principal sample_grant_id sample_grant ?h w" for w
    using key matches digest
    by (simp add: deciding_def sample_grant_call_def sample_consumption_def guard_def)
  have call: "gk_clock sample_grant_call n = 3000" "gk_ulid sample_grant_call = sample_audit_ulid"
      "gk_event sample_grant_call = (Inr ''aud_1'', 3000)" "gk_requestID sample_grant_call = ''req''" for n
    by (simp_all add: sample_grant_call_def)
  have "consuming sample_grant_call sample_principal sample_grant_id sample_grant ?h (sample_grant_world sample_grants)
      = (Inr (), ?w\<lparr>gw_audit := a\<rparr>)"
    using won rec
    by (simp add: consuming_def attempt_run in_grants_def grant_record_def writing_run call
        sample_grant_world_def sample_principal_def [THEN arg_cong, of pi_SellerID, simplified]
        sample_principal_def [THEN arg_cong, of pi_CredentialID, simplified])
  moreover have "consuming sample_grant_call sample_principal sample_grant_id sample_grant ?h (?w\<lparr>gw_audit := a\<rparr>)
      = (Inr (), ?w\<lparr>gw_audit := a\<rparr>)"
    using lost by (simp add: consuming_def attempt_run in_grants_def writing_run call sample_grant_world_def Grant_Get_def)
      (simp add: consumed_grant_def)
  ultimately show thesis
    using that decided by simp
qed

theorem confirmation_grant_used_once_witness:
  "\<exists>w'. deciding sample_grant_call sample_principal sample_consumption sample_grant_id sample_grant
       (sample_grant_world sample_grants) = (Inr (), w')
     \<and> deciding sample_grant_call sample_principal sample_consumption sample_grant_id sample_grant w' = (Inr (), w')
     \<and> pi_CredentialID sample_principal = sample_key_id
     \<and> (\<exists>key key'. ParseIdempotencyKey (gs_IdempotencyKey sample_consumption) = Inr key
          \<and> ParseIdempotencyKey (gs_IdempotencyKey sample_consumption) = Inr key'
          \<and> Sum256 (pi_CredentialID sample_principal @ [CHR 0x00] @ key) = Sum256 (pi_CredentialID sample_principal @ [CHR 0x00] @ key'))"
proof -
  obtain w' where run: "deciding sample_grant_call sample_principal sample_consumption sample_grant_id sample_grant
      (sample_grant_world sample_grants) = (Inr (), w')"
    "deciding sample_grant_call sample_principal sample_consumption sample_grant_id sample_grant w' = (Inr (), w')"
    by (rule sample_consumed)
  have start: "grant_step\<^sup>*\<^sup>* (NewConfirmationGrantRepository, {}) (gw_grants (sample_grant_world sample_grants), {sample_grant})"
    using sample_grant_step by (auto simp: sample_grant_world_def)
  have g: "sample_grant \<in> {sample_grant}" "cg_ConfirmationGrantID sample_grant = sample_grant_id"
    "sample_grant \<in> {sample_grant} \<union> ran (gr_grants (gw_grants w'))"
    by (simp_all add: sample_grant_def new_grant_def)
  from confirmation_grant_used_once [OF start g(1,2) run(1) rtranclp.rtrancl_refl g(3) g(2) run(2)] run show ?thesis
    by (intro exI [of _ w']) (simp add: sample_principal_def)
qed

end
