(* ===== verification/ProviderEvents.thy ===== *)
theory ProviderEvents
  imports Billing "HOL-Library.Multiset"
begin

text \<open>
  Billing events of the payment provider: \<open>internal/billing/{provider_events,stripe_state}.go\<close> and the
  repository \<open>internal/persistence/memory/provider_events.go\<close>. Stripe's library, which checks the signature
  and decodes the body, and Stripe's API are parameters: \<open>pk_construct\<close> and \<open>pk_fetch\<close>.
\<close>

abbreviation "ErrProviderEventNotFound \<equiv> Err ''billing.ErrProviderEventNotFound''"
abbreviation "ErrProviderEventPayloadConflict \<equiv> Err ''billing.ErrProviderEventPayloadConflict''"
abbreviation "ErrProviderEventEnvironmentMismatch \<equiv> Err ''billing.ErrProviderEventEnvironmentMismatch''"
abbreviation "ErrProviderEventQuarantined \<equiv> Err ''billing.ErrProviderEventQuarantined''"
abbreviation "ErrProviderEventAlreadyProcessing \<equiv> Err ''billing.ErrProviderEventAlreadyProcessing''"
abbreviation "ErrStripeSignatureInvalid \<equiv> Err ''billing.ErrStripeSignatureInvalid''"
abbreviation "ErrStripeSubscriptionUnavailable \<equiv> Err ''billing.ErrStripeSubscriptionUnavailable''"
abbreviation "ErrStripePriceUnmapped \<equiv> Err ''billing.ErrStripePriceUnmapped''"

section \<open>Events\<close>

datatype ProviderEventProcessingState =
    ProviderEventStateReceived
  | ProviderEventStateProcessing
  | ProviderEventStateApplied
  | ProviderEventStateFailed
  | ProviderEventStateQuarantined

datatype ProviderEventStoreResult =
    ProviderEventStoreResultInserted
  | ProviderEventStoreResultDuplicate
  | ProviderEventStoreResultConflict

record VerifiedStripeEvent =
  ve_EventID :: string
  ve_EventType :: string
  ve_Livemode :: bool
  ve_AccountID :: string
  ve_APIVersion :: string
  ve_ProviderCreatedAt :: instant
  ve_CustomerID :: string
  ve_SubscriptionID :: string
  ve_InvoiceID :: string

record SubscriptionProviderEvent =
  pe_EventID :: string
  pe_Provider :: EntitlementProvider
  pe_EventType :: string
  pe_PayloadHash :: string
  pe_ConflictPayloadHash :: string
  pe_Livemode :: bool
  pe_AccountID :: string
  pe_APIVersion :: string
  pe_ProviderCreatedAt :: instant
  pe_ReceivedAt :: instant
  pe_CustomerID :: string
  pe_SubscriptionID :: string
  pe_InvoiceID :: string
  pe_SellerID :: ID
  pe_ProcessingState :: ProviderEventProcessingState
  pe_AttemptCount :: u64
  pe_AppliedEntitlementVersion :: u64
  pe_ProcessedAt :: "instant option"

record StripeProviderEventConfig =
  sc_ExpectedLivemode :: bool
  sc_ExpectedAccountID :: string
  sc_ExpectedAPIVersion :: string

record ProviderEventIngestionResult =
  ir_Event :: SubscriptionProviderEvent
  ir_Duplicate :: bool

section \<open>The repository\<close>

record ProviderEventRepository =
  pr_events :: "string \<rightharpoonup> SubscriptionProviderEvent"

definition NewProviderEventRepository :: ProviderEventRepository where
  "NewProviderEventRepository = \<lparr>pr_events = Map.empty\<rparr>"

definition ProviderEvent_Store ::
  "ProviderEventRepository \<Rightarrow> SubscriptionProviderEvent \<Rightarrow> ProviderEventStoreResult \<times> ProviderEventRepository" where
  "ProviderEvent_Store r e =
     (case pr_events r (pe_EventID e) of
        None \<Rightarrow> (ProviderEventStoreResultInserted, r\<lparr>pr_events := (pr_events r)(pe_EventID e \<mapsto> e)\<rparr>)
      | Some s \<Rightarrow>
          if pe_PayloadHash s = pe_PayloadHash e then (ProviderEventStoreResultDuplicate, r)
          else (ProviderEventStoreResultConflict,
                r\<lparr>pr_events := (pr_events r)(pe_EventID e \<mapsto>
                  s\<lparr>pe_ProcessingState := ProviderEventStateQuarantined, pe_ConflictPayloadHash := pe_PayloadHash e\<rparr>)\<rparr>))"

definition ProviderEvent_Get :: "ProviderEventRepository \<Rightarrow> string \<Rightarrow> SubscriptionProviderEvent result" where
  "ProviderEvent_Get r k = (case pr_events r k of None \<Rightarrow> Inl ErrProviderEventNotFound | Some e \<Rightarrow> Inr e)"

text \<open>The two guards the three marking operations share.\<close>

definition marking ::
  "ProviderEventRepository \<Rightarrow> string \<Rightarrow> (SubscriptionProviderEvent \<Rightarrow> SubscriptionProviderEvent result)
   \<Rightarrow> ProviderEventRepository result" where
  "marking r k change =
     rbind (ProviderEvent_Get r k) (\<lambda>e.
     reject_if (pe_ProcessingState e = ProviderEventStateQuarantined) ErrProviderEventQuarantined
       (rbind (change e) (\<lambda>e'. Inr (r\<lparr>pr_events := (pr_events r)(k \<mapsto> e')\<rparr>))))"

definition MarkProcessing :: "ProviderEventRepository \<Rightarrow> string \<Rightarrow> ProviderEventRepository result" where
  "MarkProcessing r k =
     marking r k (\<lambda>e.
       reject_if (pe_ProcessingState e \<noteq> ProviderEventStateReceived \<and> pe_ProcessingState e \<noteq> ProviderEventStateFailed)
         ErrProviderEventAlreadyProcessing
         (Inr (e\<lparr>pe_ProcessingState := ProviderEventStateProcessing, pe_AttemptCount := pe_AttemptCount e + 1\<rparr>)))"

definition MarkFailed :: "ProviderEventRepository \<Rightarrow> string \<Rightarrow> instant \<Rightarrow> ProviderEventRepository result" where
  "MarkFailed r k failedAt =
     marking r k (\<lambda>e. Inr (e\<lparr>pe_ProcessingState := ProviderEventStateFailed, pe_ProcessedAt := Some failedAt\<rparr>))"

definition MarkApplied ::
  "ProviderEventRepository \<Rightarrow> string \<Rightarrow> ID \<Rightarrow> u64 \<Rightarrow> instant \<Rightarrow> ProviderEventRepository result" where
  "MarkApplied r k sellerID version appliedAt =
     marking r k (\<lambda>e. Inr (e\<lparr>pe_SellerID := sellerID, pe_ProcessingState := ProviderEventStateApplied,
       pe_AppliedEntitlementVersion := version, pe_ProcessedAt := Some appliedAt\<rparr>))"

section \<open>The signed body\<close>

text \<open>What Stripe's library decodes; \<open>se_Object\<close> is \<open>event.Data.Object\<close>, absent when \<open>event.Data\<close> is nil.\<close>

record StripeEvent =
  se_ID :: string
  se_Type :: string
  se_Livemode :: bool
  se_Account :: string
  se_APIVersion :: string
  se_Created :: int
  se_Object :: "(string \<rightharpoonup> json) option"

text \<open>A JSON object is decoded to a map, in which the last of several members of one name stays.\<close>

fun stripeObjectID :: "json option \<Rightarrow> string" where
  "stripeObjectID (Some (JString s)) = TrimSpace s"
| "stripeObjectID (Some (JObject members)) =
     (case map_of (rev members) ''id'' of Some (JString s) \<Rightarrow> TrimSpace s | _ \<Rightarrow> [])"
| "stripeObjectID _ = []"

definition verified_fields :: "VerifiedStripeEvent \<Rightarrow> (string \<rightharpoonup> json) \<Rightarrow> VerifiedStripeEvent" where
  "verified_fields v ob =
     (let v1 = v\<lparr>ve_CustomerID := stripeObjectID (ob ''customer''),
                 ve_SubscriptionID := stripeObjectID (ob ''subscription''),
                 ve_InvoiceID := stripeObjectID (ob ''invoice'')\<rparr>
      in if HasPrefix (ve_EventType v1) ''customer.subscription.'' then v1\<lparr>ve_SubscriptionID := stripeObjectID (ob ''id'')\<rparr>
         else if HasPrefix (ve_EventType v1) ''invoice.'' then v1\<lparr>ve_InvoiceID := stripeObjectID (ob ''id'')\<rparr>
         else v1)"

text \<open>\<open>Created\<close> counts seconds; an instant, nanoseconds.\<close>

definition StripeWebhook_Verify ::
  "(string \<Rightarrow> string \<Rightarrow> StripeEvent result) \<Rightarrow> string \<Rightarrow> string \<Rightarrow> VerifiedStripeEvent result" where
  "StripeWebhook_Verify construct payload signature =
     rbind (construct payload signature) (\<lambda>e.
       let v = \<lparr>ve_EventID = se_ID e, ve_EventType = se_Type e, ve_Livemode = se_Livemode e,
                ve_AccountID = se_Account e, ve_APIVersion = se_APIVersion e,
                ve_ProviderCreatedAt = se_Created e * 1000000000,
                ve_CustomerID = [], ve_SubscriptionID = [], ve_InvoiceID = []\<rparr>
       in Inr (case se_Object e of None \<Rightarrow> v | Some ob \<Rightarrow> verified_fields v ob))"

section \<open>The state of a subscription\<close>

datatype StripeSubscriptionStatus =
    StripeActive | StripePastDue | StripeUnpaid | StripeCanceled | StripePaused
  | StripeIncomplete | StripeIncompleteExpired | StripeTrialing | StripeStatusOther string

record StripeSubscriptionSnapshot =
  ss_SellerID :: ID
  ss_CustomerID :: string
  ss_SubscriptionID :: string
  ss_PriceID :: string
  ss_Status :: StripeSubscriptionStatus
  ss_CurrentPeriodStart :: instant
  ss_CurrentPeriodEnd :: instant
  ss_PaidThrough :: instant
  ss_LatestInvoicePaid :: bool
  ss_CancelAtPeriodEnd :: bool

fun stripeEntitlementStatus :: "StripeSubscriptionSnapshot \<Rightarrow> EntitlementStatus \<times> EntitlementStatusReason" where
  "stripeEntitlementStatus s =
     (case ss_Status s of
        StripeActive \<Rightarrow> (if ss_LatestInvoicePaid s then (EntitlementStatusActive, ReasonOther [])
                         else (EntitlementStatusActive, ReasonPaymentFailed))
      | StripePastDue \<Rightarrow> (EntitlementStatusActive, ReasonPaymentFailed)
      | StripeUnpaid \<Rightarrow> (EntitlementStatusSuspended, ReasonPaymentFailed)
      | StripeCanceled \<Rightarrow> (EntitlementStatusCancelled, ReasonCancelled)
      | StripePaused \<Rightarrow> (EntitlementStatusSuspended, ReasonAdministrative)
      | _ \<Rightarrow> (EntitlementStatusSuspended, ReasonProviderIncomplete))"

definition subscription_candidate ::
  "SubscriptionProviderEvent \<Rightarrow> StripeSubscriptionSnapshot \<Rightarrow> PlanID \<Rightarrow> EntitlementCandidate" where
  "subscription_candidate event s planID =
     \<lparr>cd_SellerID = ss_SellerID s, cd_PlanID = planID, cd_PlanVersion = currentPlanVersion,
      cd_Status = fst (stripeEntitlementStatus s), cd_BillingPeriodStart = ss_CurrentPeriodStart s,
      cd_BillingPeriodEnd = ss_CurrentPeriodEnd s, cd_AccessEndsAt = ss_PaidThrough s,
      cd_CancelAtPeriodEnd = ss_CancelAtPeriodEnd s, cd_Source = EntitlementSourceBillingProvider,
      cd_StatusReason = snd (stripeEntitlementStatus s), cd_Provider = EntitlementProviderStripe,
      cd_ProviderCustomerID = ss_CustomerID s, cd_ProviderSubscriptionID = ss_SubscriptionID s,
      cd_ProviderPriceID = ss_PriceID s, cd_LastProviderEventID = pe_EventID event\<rparr>"

definition CurrentEntitlement ::
  "(string \<Rightarrow> StripeSubscriptionSnapshot result) \<Rightarrow> (string \<rightharpoonup> PlanID) \<Rightarrow> SubscriptionProviderEvent
   \<Rightarrow> EntitlementCandidate result" where
  "CurrentEntitlement fetch pricePlans event =
     reject_if (pe_SubscriptionID event = []) ErrStripeSubscriptionUnavailable
       (rbind (fetch (pe_SubscriptionID event)) (\<lambda>s.
          case pricePlans (ss_PriceID s) of
            None \<Rightarrow> Inl ErrStripePriceUnmapped
          | Some planID \<Rightarrow> Inr (subscription_candidate event s planID)))"

section \<open>The service\<close>

abbreviation maximumEntitlementReconcileAttempts :: nat where "maximumEntitlementReconcileAttempts \<equiv> 3"

record provider_state =
  ps_events :: ProviderEventRepository
  ps_billing :: billing_state

text \<open>
  One call: what the library and the API answer, and the readings of the clock. The API is asked once in
  every attempt; \<open>pk_billing c n\<close> are the surroundings of the entitlement service in attempt \<open>n\<close>.
\<close>

record provider_call =
  pk_construct :: "string \<Rightarrow> string \<Rightarrow> StripeEvent result"
  pk_config :: StripeProviderEventConfig
  pk_pricePlans :: "string \<rightharpoonup> PlanID"
  pk_fetch :: "nat \<Rightarrow> string \<Rightarrow> StripeSubscriptionSnapshot result"
  pk_billing :: "nat \<Rightarrow> billing_call"
  pk_received :: instant
  pk_clock :: "nat \<Rightarrow> nat \<Rightarrow> instant"

definition received_event :: "provider_call \<Rightarrow> string \<Rightarrow> VerifiedStripeEvent \<Rightarrow> SubscriptionProviderEvent" where
  "received_event c rawBody v =
     \<lparr>pe_EventID = ve_EventID v, pe_Provider = EntitlementProviderStripe, pe_EventType = ve_EventType v,
      pe_PayloadHash = hex_encode (Sum256 rawBody), pe_ConflictPayloadHash = [], pe_Livemode = ve_Livemode v,
      pe_AccountID = ve_AccountID v, pe_APIVersion = ve_APIVersion v, pe_ProviderCreatedAt = ve_ProviderCreatedAt v,
      pe_ReceivedAt = pk_received c, pe_CustomerID = ve_CustomerID v, pe_SubscriptionID = ve_SubscriptionID v,
      pe_InvoiceID = ve_InvoiceID v, pe_SellerID = [], pe_ProcessingState = ProviderEventStateReceived,
      pe_AttemptCount = 0, pe_AppliedEntitlementVersion = 0, pe_ProcessedAt = None\<rparr>"

definition storing_event ::
  "SubscriptionProviderEvent \<Rightarrow> (provider_state, ProviderEventStoreResult) action" where
  "storing_event e = (\<lambda>s. let (res, r) = ProviderEvent_Store (ps_events s) e in (Inr res, s\<lparr>ps_events := r\<rparr>))"

definition Ingest ::
  "provider_call \<Rightarrow> string \<Rightarrow> string \<Rightarrow> (provider_state, ProviderEventIngestionResult) action" where
  "Ingest c rawBody signature =
     attempt (pure (StripeWebhook_Verify (pk_construct c) rawBody signature)) (\<lambda>_. pure (Inl ErrStripeSignatureInvalid))
     (\<lambda>v.
       guard (ve_Livemode v \<noteq> sc_ExpectedLivemode (pk_config c)
           \<or> ve_AccountID v \<noteq> sc_ExpectedAccountID (pk_config c)
           \<or> ve_APIVersion v \<noteq> sc_ExpectedAPIVersion (pk_config c)) ErrProviderEventEnvironmentMismatch
      (guard (TrimSpace (ve_EventID v) = [] \<or> TrimSpace (ve_EventType v) = [])
         (validation ''stripeEvent'' ''required'' ''event id and type are required'')
      (abind (storing_event (received_event c rawBody v)) (\<lambda>res.
         case res of
           ProviderEventStoreResultInserted \<Rightarrow>
             pure (Inr \<lparr>ir_Event = received_event c rawBody v, ir_Duplicate = False\<rparr>)
         | ProviderEventStoreResultDuplicate \<Rightarrow>
             abind (reading (\<lambda>s. ProviderEvent_Get (ps_events s) (ve_EventID v)))
               (\<lambda>e. pure (Inr \<lparr>ir_Event = e, ir_Duplicate = True\<rparr>))
         | ProviderEventStoreResultConflict \<Rightarrow> pure (Inl ErrProviderEventPayloadConflict)))))"

definition marked :: "(ProviderEventRepository \<Rightarrow> ProviderEventRepository result) \<Rightarrow> (provider_state, unit) action" where
  "marked mark = writing (\<lambda>s. mark (ps_events s)) (\<lambda>r s. s\<lparr>ps_events := r\<rparr>)"

text \<open>\<open>_ = MarkFailed(...); return err\<close>\<close>

definition failing :: "string \<Rightarrow> instant \<Rightarrow> go_error \<Rightarrow> (provider_state, 'a) action" where
  "failing k now e = attempt (marked (\<lambda>r. MarkFailed r k now)) (\<lambda>_. pure (Inl e)) (\<lambda>_. pure (Inl e))"

definition provider_candidate :: "EntitlementCandidate \<Rightarrow> string \<Rightarrow> EntitlementCandidate" where
  "provider_candidate d k =
     d\<lparr>cd_Source := EntitlementSourceBillingProvider, cd_Provider := EntitlementProviderStripe,
       cd_LastProviderEventID := k\<rparr>"

text \<open>
  One round of the loop; \<open>again\<close> is the next one. \<open>reconcile\<close> is the entitlement service, a parameter here
  so that what other callers do meanwhile can be part of it.
\<close>

type_synonym reconciler = "nat \<Rightarrow> EntitlementCandidate \<Rightarrow> (provider_state, SellerPlanResponse) action"

definition reconcile_candidate ::
  "reconciler \<Rightarrow> provider_call \<Rightarrow> string \<Rightarrow> nat \<Rightarrow> EntitlementCandidate
   \<Rightarrow> (provider_state, SellerPlanResponse) action \<Rightarrow> (provider_state, SellerPlanResponse) action" where
  "reconcile_candidate reconcile c k n d again =
     attempt (reconcile n d)
       (\<lambda>e. if e = ErrSellerEntitlementConflict then again else failing k (pk_clock c n 0) e)
       (\<lambda>response.
          attempt (marked (\<lambda>r. MarkApplied r k (cd_SellerID d)
              (en_Version (sv_Entitlement (sp_Assignment response))) (pk_clock c n 0)))
            (\<lambda>e. failing k (pk_clock c n 1) e) (\<lambda>_. pure (Inr response)))"

definition reconcile_attempt ::
  "reconciler \<Rightarrow> provider_call \<Rightarrow> string \<Rightarrow> SubscriptionProviderEvent \<Rightarrow> nat
   \<Rightarrow> (provider_state, SellerPlanResponse) action \<Rightarrow> (provider_state, SellerPlanResponse) action" where
  "reconcile_attempt reconcile c k event n again =
     attempt (pure (CurrentEntitlement (pk_fetch c n) (pk_pricePlans c) event))
       (\<lambda>e. failing k (pk_clock c n 0) e)
       (\<lambda>d0. let d = provider_candidate d0 (pe_EventID event) in
          attempt (reading (\<lambda>s. Entitlement_Get (bi_entitlements (ps_billing s)) (cd_SellerID d)))
            (\<lambda>e. if \<not> missing_entitlement e then failing k (pk_clock c n 0) e
                 else reconcile_candidate reconcile c k n d again)
            (\<lambda>current.
               if en_LastProviderEventID current = pe_EventID event then
                 abind (marked (\<lambda>r. MarkApplied r k (cd_SellerID d) (en_Version current) (pk_clock c n 0)))
                   (\<lambda>_. pure (sellerPlanResponse current (pk_clock c n 1)))
               else reconcile_candidate reconcile c k n d again))"

function reconcile_loop ::
  "reconciler \<Rightarrow> provider_call \<Rightarrow> string \<Rightarrow> SubscriptionProviderEvent \<Rightarrow> nat
   \<Rightarrow> (provider_state, SellerPlanResponse) action" where
  "reconcile_loop reconcile c k event n =
     (if n < maximumEntitlementReconcileAttempts
      then reconcile_attempt reconcile c k event n (reconcile_loop reconcile c k event (Suc n))
      else failing k (pk_clock c n 0) ErrSellerEntitlementConflict)"
  by pat_completeness auto
termination
  by (relation "measure (\<lambda>(_, _, _, _, n). maximumEntitlementReconcileAttempts - n)") auto

declare reconcile_loop.simps [simp del]

definition resolving :: "provider_call \<Rightarrow> ID \<Rightarrow> (provider_state, SellerPlanResponse) action" where
  "resolving c sellerID = reading (\<lambda>s. ResolveSellerPlan (bi_entitlements (ps_billing s)) (bc_now (pk_billing c 0)) sellerID)"

text \<open>
  The event is fetched under its own identifier. When another worker took it between the two calls, the
  second read decides.
\<close>

definition Reconcile_with :: "reconciler \<Rightarrow> provider_call \<Rightarrow> string \<Rightarrow> (provider_state, SellerPlanResponse) action" where
  "Reconcile_with reconcile c k =
     abind (reading (\<lambda>s. ProviderEvent_Get (ps_events s) k)) (\<lambda>event.
     guard (pe_ProcessingState event = ProviderEventStateQuarantined) ErrProviderEventQuarantined
    (if pe_ProcessingState event = ProviderEventStateApplied then resolving c (pe_SellerID event)
     else attempt (marked (\<lambda>r. MarkProcessing r k))
       (\<lambda>e. if e \<noteq> ErrProviderEventAlreadyProcessing then pure (Inl e)
            else attempt (reading (\<lambda>s. ProviderEvent_Get (ps_events s) k)) (\<lambda>_. pure (Inl e))
              (\<lambda>again. if pe_ProcessingState again = ProviderEventStateApplied
                       then resolving c (pe_SellerID again) else pure (Inl e)))
       (\<lambda>_. reconcile_loop reconcile c k event 0)))"

definition on_billing :: "(billing_state, 'a) action \<Rightarrow> (provider_state, 'a) action" where
  "on_billing m = (\<lambda>s. let (res, b) = m (ps_billing s) in (res, s\<lparr>ps_billing := b\<rparr>))"

definition Reconcile :: "provider_call \<Rightarrow> string \<Rightarrow> (provider_state, SellerPlanResponse) action" where
  "Reconcile c k = Reconcile_with (\<lambda>n d. on_billing (ReconcileEntitlement (pk_billing c n) d)) c k"

section \<open>What a run leaves behind\<close>

text \<open>A run from a state with \<open>P\<close> ends in a result and a state with \<open>Q\<close>.\<close>

definition triple :: "('s \<Rightarrow> bool) \<Rightarrow> ('s, 'a) action \<Rightarrow> ('a result \<Rightarrow> 's \<Rightarrow> bool) \<Rightarrow> bool" where
  "triple P m Q \<longleftrightarrow> (\<forall>s. P s \<longrightarrow> Q (fst (m s)) (snd (m s)))"

lemma tripleI: "(\<And>s. P s \<Longrightarrow> Q (fst (m s)) (snd (m s))) \<Longrightarrow> triple P m Q"
  by (simp add: triple_def)

lemma tripleD: "triple P m Q \<Longrightarrow> P s \<Longrightarrow> Q (fst (m s)) (snd (m s))"
  by (simp add: triple_def)

lemma triple_attempt:
  assumes "triple P m R" "\<And>e. triple (R (Inl e)) (h e) Q" "\<And>x. triple (R (Inr x)) (f x) Q"
  shows "triple P (attempt m h f) Q"
  using assms by (auto simp: triple_def attempt_run split: sum.split)

lemma triple_abind:
  assumes "triple P m R" "\<And>e s. R (Inl e) s \<Longrightarrow> Q (Inl e) s" "\<And>x. triple (R (Inr x)) (f x) Q"
  shows "triple P (abind m f) Q"
  using assms by (auto simp: triple_def abind_run split: sum.split)

lemma triple_reading: "triple P (reading f) (\<lambda>res s. P s \<and> res = f s)"
  by (simp add: triple_def)

lemma triple_pure: "(\<And>s. P s \<Longrightarrow> Q r s) \<Longrightarrow> triple P (pure r) Q"
  by (simp add: triple_def)

lemma triple_weaken: "triple P m Q \<Longrightarrow> (\<And>s. P' s \<Longrightarrow> P s) \<Longrightarrow> (\<And>r s. Q r s \<Longrightarrow> Q' r s) \<Longrightarrow> triple P' m Q'"
  by (simp add: triple_def)

lemma marking_ok:
  "marking r k change = Inr r' \<longleftrightarrow>
     (\<exists>e e'. pr_events r k = Some e \<and> pe_ProcessingState e \<noteq> ProviderEventStateQuarantined \<and> change e = Inr e'
        \<and> r' = r\<lparr>pr_events := (pr_events r)(k \<mapsto> e')\<rparr>)"
  by (auto simp: marking_def ProviderEvent_Get_def result_simps split: option.split)

lemma marking_error:
  "marking r k change = Inl err \<Longrightarrow> pr_events r k = Some e \<Longrightarrow> (\<And>err. change e \<noteq> Inl err)
   \<Longrightarrow> pe_ProcessingState e = ProviderEventStateQuarantined"
  by (cases "change e") (auto simp: marking_def ProviderEvent_Get_def reject_if_def split: if_split_asm)

text \<open>
  The event \<open>k\<close> while a worker has it, in its attempt number \<open>a\<close>, and once the worker is done: an applied
  event names a seller and a version for which \<open>Z\<close> holds.
\<close>

definition at_work :: "string \<Rightarrow> u64 \<Rightarrow> provider_state \<Rightarrow> bool" where
  "at_work k a s \<longleftrightarrow> (\<exists>e. pr_events (ps_events s) k = Some e \<and> pe_AttemptCount e = a
     \<and> (pe_ProcessingState e = ProviderEventStateProcessing \<or> pe_ProcessingState e = ProviderEventStateQuarantined))"

definition settled :: "string \<Rightarrow> u64 \<Rightarrow> (ID \<Rightarrow> u64 \<Rightarrow> billing_state \<Rightarrow> bool) \<Rightarrow> provider_state \<Rightarrow> bool" where
  "settled k a Z s \<longleftrightarrow> (\<exists>e. pr_events (ps_events s) k = Some e \<and> pe_AttemptCount e = a
     \<and> (pe_ProcessingState e = ProviderEventStateApplied \<and> Z (pe_SellerID e) (pe_AppliedEntitlementVersion e) (ps_billing s)
        \<or> pe_ProcessingState e = ProviderEventStateFailed \<or> pe_ProcessingState e = ProviderEventStateQuarantined))"

definition finished ::
  "string \<Rightarrow> u64 \<Rightarrow> (ID \<Rightarrow> u64 \<Rightarrow> billing_state \<Rightarrow> bool) \<Rightarrow> 'a result \<Rightarrow> provider_state \<Rightarrow> bool" where
  "finished k a Z res s \<longleftrightarrow> settled k a Z s
     \<and> (is_ok res \<longrightarrow> map_option pe_ProcessingState (pr_events (ps_events s) k) = Some ProviderEventStateApplied)"

lemma marked_run:
  "marked mark s = (case mark (ps_events s) of Inl e \<Rightarrow> (Inl e, s) | Inr r \<Rightarrow> (Inr (), s\<lparr>ps_events := r\<rparr>))"
  by (simp add: marked_def writing_run)

lemma failing_settles: "triple (at_work k a) (failing k now e) (finished k a Z)"
  by (rule tripleI)
    (auto simp: failing_def attempt_run marked_run at_work_def settled_def finished_def MarkFailed_def marking_def
      ProviderEvent_Get_def reject_if_def)

lemma applied_settles:
  assumes "\<And>s. P s \<Longrightarrow> at_work k a s \<and> Z x v (ps_billing s)"
  shows "triple P (marked (\<lambda>r. MarkApplied r k x v now))
     (\<lambda>res s. if is_ok res then \<forall>r :: 'b result. finished k a Z r s else at_work k a s \<and> settled k a Z s)"
  by (rule tripleI, drule assms)
    (auto simp: marked_run at_work_def settled_def finished_def MarkApplied_def marking_def
      ProviderEvent_Get_def reject_if_def)

text \<open>
  What a worker needs of the entitlement service, and of everybody who is at work meanwhile: its event
  stays its own, and a response is good for the outcome that is then recorded.
\<close>

locale entitlement_worker =
  fixes reconcile :: reconciler and k :: string and a :: u64 and I :: "billing_state \<Rightarrow> bool"
    and Z :: "ID \<Rightarrow> u64 \<Rightarrow> billing_state \<Rightarrow> bool"
  assumes serves: "triple (\<lambda>s. at_work k a s \<and> I (ps_billing s)) (reconcile n (provider_candidate d k))
      (\<lambda>res s. at_work k a s \<and> I (ps_billing s)
         \<and> (\<forall>x. res = Inr x \<longrightarrow> Z (cd_SellerID d) (en_Version (sv_Entitlement (sp_Assignment x))) (ps_billing s)))"
    and on_record: "I b \<Longrightarrow> Entitlement_Get (bi_entitlements b) x = Inr u \<Longrightarrow> en_LastProviderEventID u = k
      \<Longrightarrow> Z x (en_Version u) b"
begin

abbreviation "working s \<equiv> at_work k a s \<and> I (ps_billing s)"

lemma fails: "triple working (failing k now e) (finished k a Z)"
  by (rule triple_weaken [OF failing_settles]) simp_all

lemma candidate_settles:
  assumes "triple working again (finished k a Z)" "d = provider_candidate d0 k"
  shows "triple working (reconcile_candidate reconcile c k n d again) (finished k a Z)"
  unfolding reconcile_candidate_def assms(2)
proof (rule triple_attempt [OF serves])
  fix x
  show "triple (\<lambda>s. at_work k a s \<and> I (ps_billing s) \<and> (\<forall>y. Inr x = Inr y \<longrightarrow>
      Z (cd_SellerID d0) (en_Version (sv_Entitlement (sp_Assignment y))) (ps_billing s)))
    (attempt (marked (\<lambda>r. MarkApplied r k (cd_SellerID (provider_candidate d0 k))
        (en_Version (sv_Entitlement (sp_Assignment x))) (pk_clock c n 0)))
      (\<lambda>e. failing k (pk_clock c n 1) e) (\<lambda>_. pure (Inr x))) (finished k a Z)"
    by (rule triple_attempt [OF applied_settles [of _ k a Z]])
      (auto simp: provider_candidate_def intro!: triple_pure intro: triple_weaken [OF failing_settles])
qed (use assms(1) in \<open>auto intro!: triple_weaken [OF fails] elim: triple_weaken\<close>)

lemma attempt_settles:
  assumes "triple working again (finished k a Z)" "pe_EventID event = k"
  shows "triple working (reconcile_attempt reconcile c k event n again) (finished k a Z)"
proof -
  have cand: "triple (\<lambda>s. at_work k a s \<and> I (ps_billing s) \<and> P s)
      (reconcile_candidate reconcile c k n (provider_candidate d0 k) again) (finished k a Z)" for P d0
    by (rule triple_weaken [OF candidate_settles [OF assms(1) refl]]) simp_all
  have "triple working (let d = provider_candidate d0 k in
      attempt (reading (\<lambda>s. Entitlement_Get (bi_entitlements (ps_billing s)) (cd_SellerID d)))
        (\<lambda>e. if \<not> missing_entitlement e then failing k (pk_clock c n 0) e
             else reconcile_candidate reconcile c k n d again)
        (\<lambda>current. if en_LastProviderEventID current = k then
             abind (marked (\<lambda>r. MarkApplied r k (cd_SellerID d) (en_Version current) (pk_clock c n 0)))
               (\<lambda>_. pure (sellerPlanResponse current (pk_clock c n 1)))
           else reconcile_candidate reconcile c k n d again)) (finished k a Z)" for d0
    unfolding Let_def
  proof (rule triple_attempt [OF triple_reading])
    fix u
    have "triple (\<lambda>s. working s \<and> Inr u = Entitlement_Get (bi_entitlements (ps_billing s)) (cd_SellerID (provider_candidate d0 k)))
        (abind (marked (\<lambda>r. MarkApplied r k (cd_SellerID (provider_candidate d0 k)) (en_Version u) (pk_clock c n 0)))
           (\<lambda>_. pure (sellerPlanResponse u (pk_clock c n 1)))) (finished k a Z)" if "en_LastProviderEventID u = k"
      by (rule triple_abind [OF applied_settles [of _ k a Z]])
        (use that on_record in \<open>auto simp: finished_def intro!: triple_pure split: if_split_asm\<close>)
    then show "triple (\<lambda>s. working s \<and> Inr u = Entitlement_Get (bi_entitlements (ps_billing s)) (cd_SellerID (provider_candidate d0 k)))
        (if en_LastProviderEventID u = k then
           abind (marked (\<lambda>r. MarkApplied r k (cd_SellerID (provider_candidate d0 k)) (en_Version u) (pk_clock c n 0)))
             (\<lambda>_. pure (sellerPlanResponse u (pk_clock c n 1)))
         else reconcile_candidate reconcile c k n (provider_candidate d0 k) again) (finished k a Z)"
      by (simp add: cand)
  qed (auto intro: cand triple_weaken [OF fails])
  then show ?thesis
    unfolding reconcile_attempt_def assms(2)
    by (cases "CurrentEntitlement (pk_fetch c n) (pk_pricePlans c) event") (simp_all add: fails)
qed

lemma loop_settles:
  assumes "pe_EventID event = k"
  shows "triple working (reconcile_loop reconcile c k event n) (finished k a Z)"
proof (induction "maximumEntitlementReconcileAttempts - n" arbitrary: n)
  case 0
  then show ?case by (simp add: reconcile_loop.simps fails)
next
  case (Suc m)
  then show ?case
    by (subst reconcile_loop.simps) (auto intro!: attempt_settles assms)
qed

end

section \<open>A worker and the entitlement service\<close>

lemma effective_candidate_event [simp]:
  "cd_LastProviderEventID (effective_candidate current d now) = cd_LastProviderEventID d"
  by (auto simp: effective_candidate_def Let_def normalizeCandidateAtBoundary_def lapse_def split: option.split)

lemma wf_entitlement_event: "wf_entitlement x e \<Longrightarrow> TrimSpace (en_LastProviderEventID e) = en_LastProviderEventID e"
  by (auto simp: wf_entitlement_def NewSellerEntitlement_ok dest!: arg_cong [of _ _ en_LastProviderEventID])

definition consistent :: "billing_state \<Rightarrow> bool" where
  "consistent b \<longleftrightarrow> (\<exists>h. stored_last (bi_entitlements b) h)"

text \<open>The entitlement of a seller names the event as its last one, in the given version.\<close>

definition names_event :: "string \<Rightarrow> ID \<Rightarrow> u64 \<Rightarrow> billing_state \<Rightarrow> bool" where
  "names_event k x v b \<longleftrightarrow> (\<exists>e. sr_entitlements (bi_entitlements b) x = Some e \<and> en_Version e = v
     \<and> TrimSpace (en_LastProviderEventID e) = TrimSpace k)"

lemma consistent_reconcile: "consistent b \<Longrightarrow> consistent (snd (ReconcileEntitlement c d b))"
proof -
  assume "consistent b"
  then obtain h where h: "stored_last (bi_entitlements b) h"
    by (auto simp: consistent_def)
  from ReconcileEntitlement_step [OF this, of c d] obtain h'
    where "entitlement_step\<^sup>=\<^sup>= (bi_entitlements b, h) (bi_entitlements (snd (ReconcileEntitlement c d b)), h')"
    by blast
  with h show ?thesis
    by (auto simp: consistent_def intro: entitlement_step_keeps)
qed

lemma current_entitlement_seller:
  assumes "stored_last r h" "current_entitlement r k = Inr (Some e)"
  shows "wf_entitlement k e" "sr_entitlements r k = Some e"
proof -
  have "e \<in> set (h k)"
    using current_entitlement_stored [OF assms] by simp
  with assms(1) show wf: "wf_entitlement k e"
    by (auto simp: stored_last_def wf_history_def in_set_conv_nth)
  have "h k \<noteq> []"
    using \<open>e \<in> set (h k)\<close> by auto
  with assms(1) have "sr_entitlements r k = Some (last (h k))" "wf_entitlement k (last (h k))"
    by (auto simp: stored_last_def last_conv_nth wf_history_def)
  with assms(2) show "sr_entitlements r k = Some e"
    by (simp add: current_entitlement_def Entitlement_Get_def RestoreSellerEntitlement_def wf_entitlement_def)
qed

lemma reconciled_on_record:
  assumes "consistent b" "ReconcileEntitlement c d b = (Inr x, b')"
  shows "names_event (cd_LastProviderEventID d) (cd_SellerID d) (en_Version (sv_Entitlement (sp_Assignment x))) b'"
proof -
  from assms(2) obtain current e rec r where read: "current_entitlement (bi_entitlements b) (cd_SellerID d) = Inr current"
    and made: "ReconcileSellerEntitlement current d (bc_now c) = Inr (e, rec)"
    and stored: "Entitlement_Apply (bi_entitlements b) e rec (expected_version current) = Inr r"
    and after: "bi_entitlements b' = r" "sellerPlanResponse e (bc_now c) = Inr x"
    by (auto simp: ReconcileEntitlement_def action_ok attempt_run writing_run pure_run record_entitlement_def
        split: sum.split_asm)
  from made obtain revision where new: "NewSellerEntitlement (reconciled_params current
      (effective_candidate current d (bc_now c)) revision (bc_now c)) = Inr e"
    by (auto elim: ReconcileSellerEntitlement_ok)
  obtain h where h: "stored_last (bi_entitlements b) h"
    using assms(1) by (auto simp: consistent_def)
  have "en_SellerID u = cd_SellerID d" if "current = Some u" for u
    using current_entitlement_seller(1) [OF h read [unfolded that]] by (simp add: wf_entitlement_def)
  note seller = effective_candidate_seller [where now = "bc_now c", OF this]
  have "en_SellerID e = cd_SellerID d" "en_LastProviderEventID e = TrimSpace (cd_LastProviderEventID d)"
    using new seller by (auto simp: NewSellerEntitlement_ok reconciled_params_def)
  moreover have "sv_Entitlement (sp_Assignment x) = e"
    using after(2) by (auto simp: sellerPlanResponse_def sellerEntitlementView_def result_simps split: option.split_asm)
  moreover note Entitlement_Apply_ok(1) [OF stored]
  ultimately show ?thesis
    using after(1) by (simp add: names_event_def TrimSpace_idem)
qed

abbreviation entitlement_service :: "provider_call \<Rightarrow> reconciler" where
  "entitlement_service c \<equiv> \<lambda>n d. on_billing (ReconcileEntitlement (pk_billing c n) d)"

interpretation service: entitlement_worker "entitlement_service c" k a consistent "names_event k" for c k a
proof
  show "triple (\<lambda>s. at_work k a s \<and> consistent (ps_billing s)) (entitlement_service c n (provider_candidate d k))
      (\<lambda>res s. at_work k a s \<and> consistent (ps_billing s) \<and> (\<forall>x. res = Inr x \<longrightarrow>
         names_event k (cd_SellerID d) (en_Version (sv_Entitlement (sp_Assignment x))) (ps_billing s)))" for n d
  proof (rule tripleI)
    fix s
    assume s: "at_work k a s \<and> consistent (ps_billing s)"
    obtain res b where run: "ReconcileEntitlement (pk_billing c n) (provider_candidate d k) (ps_billing s) = (res, b)"
      by (cases "ReconcileEntitlement (pk_billing c n) (provider_candidate d k) (ps_billing s)")
    have "cd_LastProviderEventID (provider_candidate d k) = k" "cd_SellerID (provider_candidate d k) = cd_SellerID d"
      by (simp_all add: provider_candidate_def)
    then show "at_work k a (snd (entitlement_service c n (provider_candidate d k) s))
        \<and> consistent (ps_billing (snd (entitlement_service c n (provider_candidate d k) s)))
        \<and> (\<forall>x. fst (entitlement_service c n (provider_candidate d k) s) = Inr x \<longrightarrow> names_event k (cd_SellerID d)
            (en_Version (sv_Entitlement (sp_Assignment x))) (ps_billing (snd (entitlement_service c n (provider_candidate d k) s))))"
      using s run consistent_reconcile [of "ps_billing s" "pk_billing c n" "provider_candidate d k"]
        reconciled_on_record [of "ps_billing s" "pk_billing c n" "provider_candidate d k" _ b]
      by (auto simp: on_billing_def at_work_def)
  qed
next
  fix b x u
  assume b: "consistent b" and read: "Entitlement_Get (bi_entitlements b) x = Inr u" and u: "en_LastProviderEventID u = k"
  obtain h where "stored_last (bi_entitlements b) h"
    using b by (auto simp: consistent_def)
  moreover have "current_entitlement (bi_entitlements b) x = Inr (Some u)"
    using read by (simp add: current_entitlement_def)
  ultimately show "names_event k x (en_Version u) b"
    using current_entitlement_seller(2) u by (auto simp: names_event_def)
qed

text \<open>A worker that only keeps its hands off the event, or quarantines it.\<close>

definition undisturbed :: "string \<Rightarrow> provider_state \<Rightarrow> provider_state \<Rightarrow> bool" where
  "undisturbed k s s' \<longleftrightarrow>
     pr_events (ps_events s') k = pr_events (ps_events s) k
     \<or> (\<exists>e h. pr_events (ps_events s) k = Some e
          \<and> pr_events (ps_events s') k = Some (e\<lparr>pe_ProcessingState := ProviderEventStateQuarantined, pe_ConflictPayloadHash := h\<rparr>))"

lemma undisturbed_worker:
  assumes "\<And>n d s. undisturbed k s (snd (reconcile n d s))"
  shows "entitlement_worker reconcile k a (\<lambda>_. True) (\<lambda>_ _ _. True)"
proof
  fix n d
  show "triple (\<lambda>s. at_work k a s \<and> True) (reconcile n (provider_candidate d k))
      (\<lambda>res s. at_work k a s \<and> True \<and> (\<forall>x. res = Inr x \<longrightarrow> True))"
  proof (rule tripleI)
    fix s
    assume "at_work k a s \<and> True"
    then show "at_work k a (snd (reconcile n (provider_candidate d k) s)) \<and> True
        \<and> (\<forall>x. fst (reconcile n (provider_candidate d k) s) = Inr x \<longrightarrow> True)"
      using assms [of s n "provider_candidate d k"] by (auto simp: at_work_def undisturbed_def)
  qed
qed simp

lemma marked_processing:
  assumes "pr_events (ps_events s) k = Some e"
    "pe_ProcessingState e = ProviderEventStateReceived \<or> pe_ProcessingState e = ProviderEventStateFailed"
  obtains s' where "Reconcile_with reconcile c k s = reconcile_loop reconcile c k e 0 s'"
    "at_work k (pe_AttemptCount e + 1) s'" "ps_billing s' = ps_billing s"
proof
  let ?e = "e\<lparr>pe_ProcessingState := ProviderEventStateProcessing, pe_AttemptCount := pe_AttemptCount e + 1\<rparr>"
  let ?s = "s\<lparr>ps_events := (ps_events s)\<lparr>pr_events := (pr_events (ps_events s))(k \<mapsto> ?e)\<rparr>\<rparr>"
  show "Reconcile_with reconcile c k s = reconcile_loop reconcile c k e 0 ?s"
    using assms by (auto simp: Reconcile_with_def ProviderEvent_Get_def action_simps marked_def MarkProcessing_def marking_def)
  show "at_work k (pe_AttemptCount e + 1) ?s" "ps_billing ?s = ps_billing s"
    by (simp_all add: at_work_def)
qed

lemma reconcile_idle:
  assumes "pr_events (ps_events s) k = Some e"
    "pe_ProcessingState e \<noteq> ProviderEventStateReceived" "pe_ProcessingState e \<noteq> ProviderEventStateFailed"
  shows "snd (Reconcile_with reconcile c k s) = s"
  using assms
  by (auto simp: Reconcile_with_def ProviderEvent_Get_def action_simps marked_def MarkProcessing_def marking_def
      resolving_def split: sum.split)

lemma reconcile_loop_cong:
  assumes "\<And>n. n < maximumEntitlementReconcileAttempts \<Longrightarrow> reconcile n = reconcile' n"
  shows "reconcile_loop reconcile c k event n = reconcile_loop reconcile' c k event n"
proof (induction "maximumEntitlementReconcileAttempts - n" arbitrary: n)
  case 0
  then show ?case by (simp add: reconcile_loop.simps)
next
  case (Suc m)
  then have "n < maximumEntitlementReconcileAttempts"
    by simp
  then have "reconcile_candidate reconcile c k n = reconcile_candidate reconcile' c k n"
    using assms by (intro ext) (simp add: reconcile_candidate_def)
  then have "reconcile_attempt reconcile c k event n = reconcile_attempt reconcile' c k event n"
    by (intro ext) (simp only: reconcile_attempt_def)
  with Suc show ?case
    by (subst (1 2) reconcile_loop.simps) simp
qed

text \<open>
  C27: \<open>Reconcile\<close> comes to an end: an event that is received or has failed before is, when it returns,
  applied, failed or quarantined, never left in processing, and has one more attempt on its count. It asks
  Stripe and the entitlement service in three attempts at most: what either would answer later does not
  matter. This holds whatever the entitlement service does and however others interfere, as long as they
  leave the event alone or quarantine it, which is all that \<open>Store\<close> does to it.
\<close>

theorem provider_event_settles:
  assumes "pr_events (ps_events s) k = Some e" "pe_EventID e = k"
    "pe_ProcessingState e \<in> {ProviderEventStateReceived, ProviderEventStateFailed}"
    "\<And>n d t. undisturbed k t (snd (reconcile n d t))"
  shows "(\<exists>e'. pr_events (ps_events (snd (Reconcile_with reconcile c k s))) k = Some e'
      \<and> pe_ProcessingState e' \<in> {ProviderEventStateApplied, ProviderEventStateFailed, ProviderEventStateQuarantined}
      \<and> pe_AttemptCount e' = pe_AttemptCount e + 1)
    \<and> ((\<forall>n < maximumEntitlementReconcileAttempts. reconcile' n = reconcile n)
      \<longrightarrow> Reconcile_with reconcile' c k s = Reconcile_with reconcile c k s)"
proof -
  obtain s' where run: "Reconcile_with reconcile c k s = reconcile_loop reconcile c k e 0 s'"
    and "at_work k (pe_AttemptCount e + 1) s'"
    by (rule marked_processing [OF assms(1)]) (use assms(3) in auto)
  then have "settled k (pe_AttemptCount e + 1) (\<lambda>_ _ _. True) (snd (Reconcile_with reconcile c k s))"
    unfolding run using tripleD [OF entitlement_worker.loop_settles [OF undisturbed_worker [OF assms(4)] assms(2)], of _ s'] by (simp add: finished_def)
  moreover have "Reconcile_with reconcile' c k = Reconcile_with reconcile c k"
    if "\<forall>n < maximumEntitlementReconcileAttempts. reconcile' n = reconcile n"
  proof -
    have "reconcile_loop reconcile' c k event 0 = reconcile_loop reconcile c k event 0" for event
      by (rule reconcile_loop_cong) (use that in simp)
    then show ?thesis
      by (simp only: Reconcile_with_def)
  qed
  ultimately show ?thesis
    by (auto simp: settled_def)
qed

section \<open>The life of an event\<close>

text \<open>
  Events of any number of deliveries and workers. The multiset counts the workers that have an event, from
  their \<open>MarkProcessing\<close> until they have marked the outcome or were refused.
\<close>

inductive event_step ::
  "ProviderEventRepository \<times> string multiset \<Rightarrow> ProviderEventRepository \<times> string multiset \<Rightarrow> bool" where
  store: "pe_ProcessingState e = ProviderEventStateReceived \<Longrightarrow> event_step (r, H) (snd (ProviderEvent_Store r e), H)"
| begin_work: "MarkProcessing r k = Inr r' \<Longrightarrow> event_step (r, H) (r', add_mset k H)"
| fail: "k \<in># H \<Longrightarrow> MarkFailed r k now = Inr r' \<Longrightarrow> event_step (r, H) (r', H - {#k#})"
| apply_event: "k \<in># H \<Longrightarrow> MarkApplied r k x v now = Inr r' \<Longrightarrow> event_step (r, H) (r', H - {#k#})"
| refused: "k \<in># H \<Longrightarrow> MarkFailed r k now = Inl err \<Longrightarrow> event_step (r, H) (r, H - {#k#})"

definition event_identity :: "SubscriptionProviderEvent \<Rightarrow> SubscriptionProviderEvent" where
  "event_identity e =
     e\<lparr>pe_ConflictPayloadHash := [], pe_SellerID := [], pe_ProcessingState := ProviderEventStateReceived,
       pe_AttemptCount := 0, pe_AppliedEntitlementVersion := 0, pe_ProcessedAt := None\<rparr>"

definition event_outcome :: "SubscriptionProviderEvent \<Rightarrow> ID \<times> u64 \<times> instant option \<times> u64" where
  "event_outcome e = (pe_SellerID e, pe_AppliedEntitlementVersion e, pe_ProcessedAt e, pe_AttemptCount e)"

definition event_kept :: "SubscriptionProviderEvent \<Rightarrow> SubscriptionProviderEvent \<Rightarrow> bool" where
  "event_kept e e' \<longleftrightarrow>
     event_identity e' = event_identity e
     \<and> (pe_ProcessingState e = ProviderEventStateQuarantined \<longrightarrow>
          pe_ProcessingState e' = ProviderEventStateQuarantined \<and> event_outcome e' = event_outcome e)
     \<and> (pe_ProcessingState e = ProviderEventStateApplied \<longrightarrow>
          pe_ProcessingState e' \<in> {ProviderEventStateApplied, ProviderEventStateQuarantined}
          \<and> event_outcome e' = event_outcome e)"

lemma event_kept_refl [simp]: "event_kept e e"
  by (simp add: event_kept_def)

lemma event_kept_trans: "event_kept e f \<Longrightarrow> event_kept f g \<Longrightarrow> event_kept e g"
  by (auto simp: event_kept_def)

definition wf_events :: "ProviderEventRepository \<times> string multiset \<Rightarrow> bool" where
  "wf_events = (\<lambda>(r, H). \<forall>k.
     count H k \<le> 1 \<and> (\<forall>e. pr_events r k = Some e \<longrightarrow> pe_EventID e = k)
     \<and> (k \<in># H \<longrightarrow> (\<exists>e. pr_events r k = Some e
          \<and> pe_ProcessingState e \<in> {ProviderEventStateProcessing, ProviderEventStateQuarantined})))"

text \<open>A step changes one event at most, and says which.\<close>

lemma event_step_cases:
  assumes "event_step (r, H) (r', H')" "wf_events (r, H)"
  obtains "r' = r" "H' \<subseteq># H"
  | k e e' where "r' = r\<lparr>pr_events := (pr_events r)(k \<mapsto> e')\<rparr>" "pr_events r k = Some e" "event_kept e e'" "pe_EventID e' = k"
      "H' = H \<and> pe_ProcessingState e' = ProviderEventStateQuarantined
       \<or> H' = add_mset k H \<and> k \<notin># H \<and> pe_ProcessingState e' = ProviderEventStateProcessing
       \<or> k \<in># H \<and> H' = H - {#k#}"
  | e where "r' = r\<lparr>pr_events := (pr_events r)(pe_EventID e \<mapsto> e)\<rparr>" "pr_events r (pe_EventID e) = None" "H' = H"
  using assms(1)
proof cases
  case (store e)
  show ?thesis
  proof (cases "pr_events r (pe_EventID e)")
    case None
    then show ?thesis
      using store by (intro that(3) [of e]) (simp_all add: ProviderEvent_Store_def)
  next
    case (Some f)
    then have f: "pe_EventID f = pe_EventID e"
      using assms(2) by (auto simp: wf_events_def)
    show ?thesis
    proof (cases "pe_PayloadHash f = pe_PayloadHash e")
      case True
      with Some store show ?thesis
        by (intro that(1)) (simp_all add: ProviderEvent_Store_def)
    next
      case False
      with Some store f show ?thesis
        by (intro that(2) [of "pe_EventID e" "f\<lparr>pe_ProcessingState := ProviderEventStateQuarantined,
            pe_ConflictPayloadHash := pe_PayloadHash e\<rparr>" f])
          (simp_all add: ProviderEvent_Store_def event_kept_def event_identity_def event_outcome_def)
    qed
  qed
next
  case (begin_work k)
  then obtain e where e: "pr_events r k = Some e"
    "pe_ProcessingState e = ProviderEventStateReceived \<or> pe_ProcessingState e = ProviderEventStateFailed"
    "r' = r\<lparr>pr_events := (pr_events r)(k \<mapsto> e\<lparr>pe_ProcessingState := ProviderEventStateProcessing,
        pe_AttemptCount := pe_AttemptCount e + 1\<rparr>)\<rparr>"
    by (auto simp: MarkProcessing_def marking_ok result_simps)
  moreover have "pe_EventID e = k" "k \<notin># H"
    using assms(2) e(1,2) by (auto simp: wf_events_def)
  ultimately show ?thesis
    using begin_work(1)
    by (intro that(2) [OF e(3,1)]) (auto simp: event_kept_def event_identity_def)
next
  case (fail k now)
  then obtain e where e: "pr_events r k = Some e" "pe_ProcessingState e \<noteq> ProviderEventStateQuarantined"
    "r' = r\<lparr>pr_events := (pr_events r)(k \<mapsto> e\<lparr>pe_ProcessingState := ProviderEventStateFailed, pe_ProcessedAt := Some now\<rparr>)\<rparr>"
    by (auto simp: MarkFailed_def marking_ok)
  moreover have "pe_EventID e = k" "pe_ProcessingState e = ProviderEventStateProcessing"
    using assms(2) e(1,2) fail(2) by (auto simp: wf_events_def)
  ultimately show ?thesis
    using fail(1,2) by (intro that(2) [OF e(3,1)]) (simp_all add: event_kept_def event_identity_def)
next
  case (apply_event k x v now)
  then obtain e where e: "pr_events r k = Some e" "pe_ProcessingState e \<noteq> ProviderEventStateQuarantined"
    "r' = r\<lparr>pr_events := (pr_events r)(k \<mapsto> e\<lparr>pe_SellerID := x, pe_ProcessingState := ProviderEventStateApplied,
        pe_AppliedEntitlementVersion := v, pe_ProcessedAt := Some now\<rparr>)\<rparr>"
    by (auto simp: MarkApplied_def marking_ok)
  moreover have "pe_EventID e = k" "pe_ProcessingState e = ProviderEventStateProcessing"
    using assms(2) e(1,2) apply_event(2) by (auto simp: wf_events_def)
  ultimately show ?thesis
    using apply_event(1,2) by (intro that(2) [OF e(3,1)]) (simp_all add: event_kept_def event_identity_def)
next
  case (refused k)
  then show ?thesis
    using that(1) by simp
qed

lemma event_step_wf:
  assumes "event_step (r, H) (r', H')" "wf_events (r, H)"
  shows "wf_events (r', H')"
proof -
  have wf: "count H j \<le> 1" "pr_events r j = Some e \<Longrightarrow> pe_EventID e = j"
    "j \<in># H \<Longrightarrow> \<exists>e. pr_events r j = Some e
       \<and> pe_ProcessingState e \<in> {ProviderEventStateProcessing, ProviderEventStateQuarantined}" for j e
    using assms(2) by (simp_all add: wf_events_def)
  from assms show ?thesis
  proof (cases rule: event_step_cases)
    case 1
    then have "count H' j \<le> count H j" "j \<in># H' \<Longrightarrow> j \<in># H" for j
      by (simp_all add: mset_subset_eq_count mset_subset_eqD)
    moreover have "count H' j \<le> 1" for j
      using calculation(1) wf(1) order_trans by blast
    ultimately show ?thesis
      using 1(1) wf(2,3) unfolding wf_events_def by auto
  next
    case (2 k e e')
    then have "count H' j = count H j" if "j \<noteq> k" for j
      using that by auto
    then have other: "count H' j \<le> 1" "j \<in># H' \<Longrightarrow> j \<in># H" if "j \<noteq> k" for j
      using that wf(1) [of j] by (simp_all flip: count_greater_zero_iff)
    have "count H' k \<le> 1 \<and> (k \<in># H' \<longrightarrow>
        pe_ProcessingState e' \<in> {ProviderEventStateProcessing, ProviderEventStateQuarantined})"
      using 2(5) wf(1) [of k] by (auto simp: not_in_iff simp flip: count_greater_zero_iff)
    with 2(1,4) wf(2,3) other show ?thesis
      unfolding wf_events_def by (auto split: if_splits)
  next
    case (3 e)
    then have "pe_EventID e \<notin># H"
      using wf(3) [of "pe_EventID e"] by auto
    with 3 wf show ?thesis
      unfolding wf_events_def by auto
  qed
qed

lemma event_step_kept:
  assumes "event_step (r, H) (r', H')" "wf_events (r, H)" "pr_events r k = Some e"
  shows "\<exists>e'. pr_events r' k = Some e' \<and> event_kept e e'"
  using assms(1,2)
  by (cases rule: event_step_cases) (use assms(3) in auto)

lemma event_steps_keep:
  assumes "event_step\<^sup>*\<^sup>* (r, H) (r', H')" "wf_events (r, H)" "pr_events r k = Some e"
  shows "wf_events (r', H') \<and> (\<exists>e'. pr_events r' k = Some e' \<and> event_kept e e')"
  using assms(1)
proof (induction rule: rtranclp_induct2)
  case refl
  with assms(2,3) show ?case by auto
next
  case (step r1 H1 r2 H2)
  then obtain e1 where "pr_events r1 k = Some e1" "event_kept e e1" and wf: "wf_events (r1, H1)"
    by blast
  with event_step_kept [OF step(2)] event_step_wf [OF step(2)] show ?case
    by (blast intro: event_kept_trans)
qed

lemma event_steps_wf:
  assumes "event_step\<^sup>*\<^sup>* (NewProviderEventRepository, {#}) (r, H)"
  shows "wf_events (r, H)"
  using assms
proof (induction rule: rtranclp_induct2)
  case refl
  show ?case by (simp add: wf_events_def NewProviderEventRepository_def)
next
  case (step r1 H1 r2 H2)
  then show ?case by (blast intro: event_step_wf)
qed

text \<open>
  C26: an event is applied at most once. However deliveries and workers interleave, an event keeps what it
  was received with; once applied it keeps its seller, version, time and count of attempts, and a second
  body under its identifier can only quarantine it; once quarantined it stays so. At most one worker has
  an event at a time, and a worker gets it only when it is received or failed. \<open>Reconcile\<close> on an event that
  was applied or quarantined, or that a worker has, changes nothing at all.
\<close>

theorem provider_event_applied_once:
  assumes "event_step\<^sup>*\<^sup>* (NewProviderEventRepository, {#}) (r, H)" "pr_events r k = Some e"
    "event_step\<^sup>*\<^sup>* (r, H) (r', H')" "ps_events s = r'"
  shows "\<exists>e'. pr_events r' k = Some e' \<and> event_kept e e' \<and> pe_EventID e' = k \<and> count H' k \<le> 1
    \<and> (is_ok (MarkProcessing r' k) \<longrightarrow> k \<notin># H'
        \<and> pe_ProcessingState e' \<in> {ProviderEventStateReceived, ProviderEventStateFailed})
    \<and> (pe_ProcessingState e \<in> {ProviderEventStateApplied, ProviderEventStateQuarantined} \<or> k \<in># H' \<longrightarrow>
        snd (Reconcile c k s) = s)"
proof -
  note wf = event_steps_wf [OF assms(1)]
  obtain e' where e': "pr_events r' k = Some e'" "event_kept e e'" and wf': "wf_events (r', H')"
    using event_steps_keep [OF assms(3) wf assms(2)] by blast
  have k: "pe_EventID e' = k" "count H' k \<le> 1"
    "k \<in># H' \<Longrightarrow> pe_ProcessingState e' \<in> {ProviderEventStateProcessing, ProviderEventStateQuarantined}"
    using wf' e'(1) by (auto simp: wf_events_def)
  have "pe_ProcessingState e' \<in> {ProviderEventStateReceived, ProviderEventStateFailed}" if "is_ok (MarkProcessing r' k)"
    using that e'(1) by (auto simp: MarkProcessing_def marking_def ProviderEvent_Get_def reject_if_def split: if_split_asm)
  moreover from this k(3) have "k \<notin># H'" if "is_ok (MarkProcessing r' k)"
    using that by auto
  moreover have "snd (Reconcile c k s) = s"
    if "pe_ProcessingState e \<in> {ProviderEventStateApplied, ProviderEventStateQuarantined} \<or> k \<in># H'"
  proof -
    have "pe_ProcessingState e' \<noteq> ProviderEventStateReceived \<and> pe_ProcessingState e' \<noteq> ProviderEventStateFailed"
      using that e'(2) k(3) by (auto simp: event_kept_def)
    with e'(1) assms(4) show ?thesis
      by (simp add: Reconcile_def reconcile_idle)
  qed
  ultimately show ?thesis
    using e' k by auto
qed

section \<open>What an event does to the entitlements\<close>

text \<open>The entitlement lets traffic through because Stripe says so.\<close>

definition stripe_backed :: "provider_call \<Rightarrow> SubscriptionProviderEvent \<Rightarrow> ID \<Rightarrow> SellerEntitlement \<Rightarrow> bool" where
  "stripe_backed c event x e \<longleftrightarrow>
     (\<exists>n s. n < maximumEntitlementReconcileAttempts \<and> pk_fetch c n (pe_SubscriptionID event) = Inr s \<and> ss_SellerID s = x
        \<and> (ss_Status s = StripeActive \<or> ss_Status s = StripePastDue)
        \<and> en_AccessEndsAt e = ss_PaidThrough s \<and> pk_pricePlans c (ss_PriceID s) = Some (en_PlanID e))"

text \<open>
  An entitlement after the event, where \<open>r0\<close> are those before it: when it lets traffic through, Stripe
  says so, or it did before under a fraud quarantine, which an event does not touch.
\<close>

definition follows_stripe ::
  "provider_call \<Rightarrow> SubscriptionProviderEvent \<Rightarrow> SellerEntitlementRepository \<Rightarrow> ID \<Rightarrow> SellerEntitlement \<Rightarrow> bool" where
  "follows_stripe c event r0 x e \<longleftrightarrow>
     (\<forall>now. AllowsNetworkAccess e now \<longrightarrow> stripe_backed c event x e
        \<or> (\<exists>u. sr_entitlements r0 x = Some u \<and> en_StatusReason u = ReasonFraudQuarantine \<and> AllowsNetworkAccess u now))"

definition entitlements_follow ::
  "provider_call \<Rightarrow> SubscriptionProviderEvent \<Rightarrow> SellerEntitlementRepository \<Rightarrow> provider_state \<Rightarrow> bool" where
  "entitlements_follow c event r0 s \<longleftrightarrow> consistent (ps_billing s)
     \<and> (\<forall>x. sr_entitlements (bi_entitlements (ps_billing s)) x = sr_entitlements r0 x
          \<or> (\<exists>e. sr_entitlements (bi_entitlements (ps_billing s)) x = Some e \<and> follows_stripe c event r0 x e))"

lemma CurrentEntitlement_ok:
  assumes "CurrentEntitlement fetch pricePlans event = Inr d"
  obtains s planID where "fetch (pe_SubscriptionID event) = Inr s" "pricePlans (ss_PriceID s) = Some planID"
    "d = subscription_candidate event s planID"
  using assms by (auto simp: CurrentEntitlement_def result_simps split: option.split_asm)

lemma lapse_active:
  assumes "cd_Status (normalizeCandidateAtBoundary d now) = EntitlementStatusActive"
  shows "cd_Status d = EntitlementStatusActive \<and> cd_AccessEndsAt (normalizeCandidateAtBoundary d now) = cd_AccessEndsAt d
    \<and> cd_PlanID (normalizeCandidateAtBoundary d now) = cd_PlanID d"
  using assms by (auto simp: normalizeCandidateAtBoundary_def lapse_def Let_def split: if_split_asm)

text \<open>The entitlement one reconciliation with the state of the subscription makes.\<close>

lemma reconciled_follows:
  assumes made: "ReconcileSellerEntitlement current (provider_candidate d k) now = Inr (e, rec)"
    and d: "CurrentEntitlement (pk_fetch c n) (pk_pricePlans c) event = Inr d" "n < maximumEntitlementReconcileAttempts"
    and allowed: "AllowsNetworkAccess e t"
  shows "stripe_backed c event (cd_SellerID d) e
    \<or> (\<exists>u. current = Some u \<and> en_StatusReason u = ReasonFraudQuarantine \<and> AllowsNetworkAccess u t
         \<and> en_AccessEndsAt e = en_AccessEndsAt u \<and> en_PlanID e = en_PlanID u)"
proof -
  let ?d = "provider_candidate d k"
  let ?c = "effective_candidate current ?d now"
  from made obtain revision where "NewSellerEntitlement (reconciled_params current ?c revision now) = Inr e"
    by (auto elim: ReconcileSellerEntitlement_ok)
  then have e: "en_Status e = cd_Status ?c" "en_AccessEndsAt e = cd_AccessEndsAt ?c" "en_PlanID e = cd_PlanID ?c"
    by (auto simp: NewSellerEntitlement_ok reconciled_params_def)
  with allowed have active: "cd_Status ?c = EntitlementStatusActive" "t < cd_AccessEndsAt ?c"
    by (auto simp: AllowsNetworkAccess_def Timestamp_Before_def)
  have source: "cd_Source ?d = EntitlementSourceBillingProvider"
    by (simp add: provider_candidate_def)
  show ?thesis
  proof (cases "\<exists>u. current = Some u \<and> en_StatusReason u = ReasonFraudQuarantine")
    case True
    then obtain u where u: "current = Some u" "en_StatusReason u = ReasonFraudQuarantine"
      by blast
    have "en_Status u \<noteq> EntitlementStatusClosed"
      using active(1) effective_candidate_closed(1) [of u ?d now] u(1) by auto
    then have "?c = (candidateFromEntitlement u)\<lparr>cd_LastProviderEventID := cd_LastProviderEventID
        (normalizeCandidateAtBoundary ?d now)\<rparr>"
      using u source by (simp add: effective_candidate_def Let_def)
    then have "en_Status u = EntitlementStatusActive" "en_AccessEndsAt u = en_AccessEndsAt e" "en_PlanID u = en_PlanID e"
      using e active by (simp_all add: candidateFromEntitlement_def)
    with u allowed show ?thesis
      by (simp add: AllowsNetworkAccess_def)
  next
    case False
    then have c: "?c = normalizeCandidateAtBoundary ?d now"
      using active(1) by (auto simp: effective_candidate_def Let_def split: option.split_asm if_split_asm split: option.split)
    note d' = lapse_active [OF active(1) [unfolded c]]
    obtain s planID where s: "pk_fetch c n (pe_SubscriptionID event) = Inr s" "pk_pricePlans c (ss_PriceID s) = Some planID"
      "d = subscription_candidate event s planID"
      by (rule CurrentEntitlement_ok [OF d(1)])
    have "ss_Status s = StripeActive \<or> ss_Status s = StripePastDue"
      using d' s(3) by (cases "ss_Status s") (simp_all add: provider_candidate_def subscription_candidate_def)
    with s d' c d(2) e show ?thesis
      by (auto simp: stripe_backed_def provider_candidate_def subscription_candidate_def)
  qed
qed

lemma ReconcileEntitlement_effect:
  assumes "bi_entitlements (snd (ReconcileEntitlement c d b)) \<noteq> bi_entitlements b"
  obtains current e rec where "current_entitlement (bi_entitlements b) (cd_SellerID d) = Inr current"
    "ReconcileSellerEntitlement current d (bc_now c) = Inr (e, rec)"
    "Entitlement_Apply (bi_entitlements b) e rec (expected_version current)
       = Inr (bi_entitlements (snd (ReconcileEntitlement c d b)))"
proof (cases "current_entitlement (bi_entitlements b) (cd_SellerID d)")
  case (Inl err)
  with assms show ?thesis
    by (simp add: ReconcileEntitlement_def action_simps)
next
  case (Inr current)
  show ?thesis
  proof (cases "ReconcileSellerEntitlement current d (bc_now c)")
    case (Inl err)
    with assms Inr show ?thesis
      by (simp add: ReconcileEntitlement_def action_simps)
  next
    case made: (Inr made)
    obtain e rec where made': "made = (e, rec)"
      by (cases made)
    show ?thesis
    proof (cases "Entitlement_Apply (bi_entitlements b) e rec (expected_version current)")
      case (Inl err)
      with assms Inr made made' show ?thesis
        by (simp add: ReconcileEntitlement_def action_simps)
    next
      case applied: (Inr r)
      then have "bi_entitlements (snd (ReconcileEntitlement c d b)) = r"
        using Inr made made' by (simp add: ReconcileEntitlement_def action_simps split: sum.split)
      with that Inr made made' applied show ?thesis
        by simp
    qed
  qed
qed

lemma service_follows:
  assumes "CurrentEntitlement (pk_fetch c n) (pk_pricePlans c) event = Inr d" "n < maximumEntitlementReconcileAttempts"
  shows "keeps (entitlements_follow c event r0) (entitlement_service c n (provider_candidate d k))"
  unfolding keeps_def
proof (intro allI impI)
  fix s :: provider_state
  let ?b = "ps_billing s" and ?b' = "snd (ReconcileEntitlement (pk_billing c n) (provider_candidate d k) (ps_billing s))"
  assume s: "entitlements_follow c event r0 s"
  have seller: "cd_SellerID (provider_candidate d k) = cd_SellerID d"
    by (simp add: provider_candidate_def)
  have "sr_entitlements (bi_entitlements ?b') x = sr_entitlements r0 x
      \<or> (\<exists>e. sr_entitlements (bi_entitlements ?b') x = Some e \<and> follows_stripe c event r0 x e)" for x
  proof (cases "bi_entitlements ?b' = bi_entitlements ?b")
    case True
    with s show ?thesis
      by (simp add: entitlements_follow_def)
  next
    case False
    from ReconcileEntitlement_effect [OF this] obtain current e rec
      where read: "current_entitlement (bi_entitlements ?b) (cd_SellerID d) = Inr current"
        and made: "ReconcileSellerEntitlement current (provider_candidate d k) (bc_now (pk_billing c n)) = Inr (e, rec)"
        and stored: "Entitlement_Apply (bi_entitlements ?b) e rec (expected_version current) = Inr (bi_entitlements ?b')"
      using seller by metis
    obtain h where h: "stored_last (bi_entitlements ?b) h"
      using s by (auto simp: entitlements_follow_def consistent_def)
    have current: "sr_entitlements (bi_entitlements ?b) (cd_SellerID d) = Some u \<and> en_SellerID u = cd_SellerID d"
      if "current = Some u" for u
      using current_entitlement_seller [OF h read [unfolded that]] by (simp add: wf_entitlement_def)
    have new: "sr_entitlements (bi_entitlements ?b') = (sr_entitlements (bi_entitlements ?b))(cd_SellerID d \<mapsto> e)"
    proof -
      from made obtain revision where "NewSellerEntitlement (reconciled_params current (effective_candidate current
          (provider_candidate d k) (bc_now (pk_billing c n))) revision (bc_now (pk_billing c n))) = Inr e"
        by (auto elim: ReconcileSellerEntitlement_ok)
      moreover note effective_candidate_seller [of current "provider_candidate d k" "bc_now (pk_billing c n)"]
      ultimately have "en_SellerID e = cd_SellerID d"
        using current seller by (auto simp: NewSellerEntitlement_ok reconciled_params_def)
      with Entitlement_Apply_ok(1) [OF stored] show ?thesis
        by simp
    qed
    have "follows_stripe c event r0 (cd_SellerID d) e"
      unfolding follows_stripe_def
    proof (intro allI impI)
      fix t
      assume "AllowsNetworkAccess e t"
      from reconciled_follows [OF made assms this] show "stripe_backed c event (cd_SellerID d) e
        \<or> (\<exists>u. sr_entitlements r0 (cd_SellerID d) = Some u \<and> en_StatusReason u = ReasonFraudQuarantine \<and> AllowsNetworkAccess u t)"
      proof (elim disjE exE conjE)
        fix u
        assume u: "current = Some u" "en_StatusReason u = ReasonFraudQuarantine" "AllowsNetworkAccess u t"
          and same: "en_AccessEndsAt e = en_AccessEndsAt u" "en_PlanID e = en_PlanID u"
        have "sr_entitlements r0 (cd_SellerID d) = Some u \<or> follows_stripe c event r0 (cd_SellerID d) u"
          using s current [OF u(1)] by (auto simp: entitlements_follow_def dest: spec [of _ "cd_SellerID d"])
        with u same show ?thesis
          by (auto simp: follows_stripe_def stripe_backed_def)
      qed simp
    qed
    with new s show ?thesis
      by (auto simp: entitlements_follow_def)
  qed
  moreover have "consistent ?b'"
    using s consistent_reconcile by (auto simp: entitlements_follow_def)
  ultimately show "entitlements_follow c event r0 (snd (entitlement_service c n (provider_candidate d k) s))"
    by (simp add: entitlements_follow_def on_billing_def case_prod_beta)
qed

lemma follow_intros [intro]:
  "keeps (entitlements_follow c event r0) (marked mark)"
  "keeps (entitlements_follow c event r0) (failing k now e)"
proof -
  show *: "keeps (entitlements_follow c event r0) (marked mark)" for mark
    by (auto simp: keeps_def marked_run entitlements_follow_def split: sum.split)
  show "keeps (entitlements_follow c event r0) (failing k now e)"
    unfolding failing_def by (intro keeps_attempt * keeps_pure)
qed

lemma loop_follows: "keeps (entitlements_follow c event r0) (reconcile_loop (entitlement_service c) c (pe_EventID event) event n)"
proof (induction "maximumEntitlementReconcileAttempts - n" arbitrary: n)
  case 0
  then show ?case by (simp add: reconcile_loop.simps follow_intros)
next
  case (Suc m)
  then have n: "n < maximumEntitlementReconcileAttempts"
    by simp
  have again: "keeps (entitlements_follow c event r0) (reconcile_loop (entitlement_service c) c (pe_EventID event) event (Suc n))"
    using Suc by simp
  have cand: "keeps (entitlements_follow c event r0) (reconcile_candidate (entitlement_service c) c (pe_EventID event) n
      (provider_candidate d (pe_EventID event)) (reconcile_loop (entitlement_service c) c (pe_EventID event) event (Suc n)))"
    if "CurrentEntitlement (pk_fetch c n) (pk_pricePlans c) event = Inr d" for d
    unfolding reconcile_candidate_def
    by (intro keeps_attempt service_follows [OF that n] follow_intros keeps_pure) (simp add: again follow_intros)
  have "keeps (entitlements_follow c event r0) (reconcile_attempt (entitlement_service c) c (pe_EventID event) event n
      (reconcile_loop (entitlement_service c) c (pe_EventID event) event (Suc n)))"
  proof (cases "CurrentEntitlement (pk_fetch c n) (pk_pricePlans c) event")
    case (Inl e)
    then show ?thesis
      by (simp add: reconcile_attempt_def follow_intros)
  next
    case (Inr d)
    show ?thesis
      unfolding reconcile_attempt_def Inr attempt_pure Let_def
    proof (intro keeps_attempt keeps_reading)
      show "keeps (entitlements_follow c event r0) (if \<not> missing_entitlement e
          then failing (pe_EventID event) (pk_clock c n 0) e else reconcile_candidate (entitlement_service c) c
            (pe_EventID event) n (provider_candidate d (pe_EventID event))
            (reconcile_loop (entitlement_service c) c (pe_EventID event) event (Suc n)))" for e
        using cand [OF Inr] by (simp add: follow_intros)
    next
      fix u
      have "keeps (entitlements_follow c event r0) (abind (marked (\<lambda>r. MarkApplied r (pe_EventID event)
          (cd_SellerID (provider_candidate d (pe_EventID event))) (en_Version u) (pk_clock c n 0)))
          (\<lambda>_. pure (sellerPlanResponse u (pk_clock c n 1))))"
        by (intro keeps_abind follow_intros keeps_pure)
      with cand [OF Inr] show "keeps (entitlements_follow c event r0) (if en_LastProviderEventID u = pe_EventID event
          then abind (marked (\<lambda>r. MarkApplied r (pe_EventID event)
            (cd_SellerID (provider_candidate d (pe_EventID event))) (en_Version u) (pk_clock c n 0)))
            (\<lambda>_. pure (sellerPlanResponse u (pk_clock c n 1)))
          else reconcile_candidate (entitlement_service c) c (pe_EventID event) n
            (provider_candidate d (pe_EventID event))
            (reconcile_loop (entitlement_service c) c (pe_EventID event) event (Suc n)))"
        by simp
    qed
  qed
  with n show ?case
    by (subst reconcile_loop.simps) simp
qed

text \<open>
  C25: an event never grants more than Stripe reports. After \<open>Reconcile\<close> of an event to be worked on, the
  entitlements are again a consistent history; every entitlement is what it was, or it lets traffic
  through only if the subscription fetched in one of the attempts belongs to that seller, is active or past
  due, is paid up to the end of the access and is sold under the plan that is granted, or if it did so
  before under a fraud quarantine. A successful answer means the event is applied, and an applied event
  is named, in the recorded version, by the entitlement of the recorded seller.
\<close>

theorem provider_event_follows_stripe:
  assumes "consistent (ps_billing s)" "pr_events (ps_events s) k = Some e" "pe_EventID e = k"
    "pe_ProcessingState e \<in> {ProviderEventStateReceived, ProviderEventStateFailed}"
    "Reconcile c k s = (res, s')"
  shows "(\<exists>e'. pr_events (ps_events s') k = Some e'
      \<and> (is_ok res \<longrightarrow> pe_ProcessingState e' = ProviderEventStateApplied)
      \<and> (pe_ProcessingState e' = ProviderEventStateApplied \<longrightarrow>
           names_event k (pe_SellerID e') (pe_AppliedEntitlementVersion e') (ps_billing s')))
    \<and> consistent (ps_billing s')
    \<and> (\<forall>x. sr_entitlements (bi_entitlements (ps_billing s')) x = sr_entitlements (bi_entitlements (ps_billing s)) x
         \<or> (\<exists>u. sr_entitlements (bi_entitlements (ps_billing s')) x = Some u
              \<and> follows_stripe c e (bi_entitlements (ps_billing s)) x u))"
proof -
  obtain t where run: "Reconcile c k s = reconcile_loop (entitlement_service c) c k e 0 t"
    and t: "at_work k (pe_AttemptCount e + 1) t" "ps_billing t = ps_billing s"
    unfolding Reconcile_def by (rule marked_processing [OF assms(2)]) (use assms(4) in auto)
  have "finished k (pe_AttemptCount e + 1) (names_event k)
      (fst (reconcile_loop (entitlement_service c) c k e 0 t)) (snd (reconcile_loop (entitlement_service c) c k e 0 t))"
    by (rule tripleD [OF service.loop_settles [OF assms(3)]]) (use t assms(1) in simp)
  then have "finished k (pe_AttemptCount e + 1) (names_event k) res s'"
    using assms(5) run by simp
  moreover have "entitlements_follow c e (bi_entitlements (ps_billing s)) t"
    using t(2) assms(1) by (simp add: entitlements_follow_def)
  then have "entitlements_follow c e (bi_entitlements (ps_billing s)) (snd (Reconcile c k s))"
    using loop_follows [of c e "bi_entitlements (ps_billing s)" 0] by (simp add: run assms(3) keeps_def)
  ultimately show ?thesis
    using assms(5) by (auto simp: finished_def settled_def entitlements_follow_def)
qed

section \<open>A paid subscription\<close>

abbreviation sample_subscriber :: ID where "sample_subscriber \<equiv> ''sel_01ARZ3NDEKTSV4RRFFQ69G5FAV''"

definition sample_subscription :: StripeSubscriptionSnapshot where
  "sample_subscription =
     \<lparr>ss_SellerID = sample_subscriber, ss_CustomerID = ''cus_1'', ss_SubscriptionID = ''sub_1'',
      ss_PriceID = ''price_1'', ss_Status = StripeActive, ss_CurrentPeriodStart = 1000, ss_CurrentPeriodEnd = 9000,
      ss_PaidThrough = 9000, ss_LatestInvoicePaid = True, ss_CancelAtPeriodEnd = False\<rparr>"

definition sample_event :: SubscriptionProviderEvent where
  "sample_event =
     \<lparr>pe_EventID = ''evt_1'', pe_Provider = EntitlementProviderStripe, pe_EventType = ''invoice.paid'',
      pe_PayloadHash = ''h1'', pe_ConflictPayloadHash = [], pe_Livemode = False, pe_AccountID = ''acct_1'',
      pe_APIVersion = ''v1'', pe_ProviderCreatedAt = 1500, pe_ReceivedAt = 1600, pe_CustomerID = ''cus_1'',
      pe_SubscriptionID = ''sub_1'', pe_InvoiceID = ''in_1'', pe_SellerID = [],
      pe_ProcessingState = ProviderEventStateReceived, pe_AttemptCount = 0, pe_AppliedEntitlementVersion = 0,
      pe_ProcessedAt = None\<rparr>"

definition sample_events :: ProviderEventRepository where
  "sample_events = \<lparr>pr_events = [''evt_1'' \<mapsto> sample_event]\<rparr>"

definition sample_provider_state :: provider_state where
  "sample_provider_state =
     \<lparr>ps_events = sample_events,
      ps_billing = \<lparr>bi_entitlements = NewSellerEntitlementRepository, bi_audit = \<lparr>aer_events = []\<rparr>\<rparr>\<rparr>"

definition sample_billing_call :: billing_call where
  "sample_billing_call =
     \<lparr>bc_ulid = sample_audit_ulid, bc_authorize = (\<lambda>_ _. Inr ()), bc_invalidate = (\<lambda>_. Inr ()), bc_now = 2000,
      bc_event = (Inr ''aud_1'', 2000), bc_requestID = ''req''\<rparr>"

definition sample_provider_call :: provider_call where
  "sample_provider_call =
     \<lparr>pk_construct = (\<lambda>_ _. Inl ErrStripeSignatureInvalid),
      pk_config = \<lparr>sc_ExpectedLivemode = False, sc_ExpectedAccountID = ''acct_1'', sc_ExpectedAPIVersion = ''v1''\<rparr>,
      pk_pricePlans = [''price_1'' \<mapsto> PlanGrowth], pk_fetch = (\<lambda>_ _. Inr sample_subscription),
      pk_billing = (\<lambda>_. sample_billing_call), pk_received = 1600, pk_clock = (\<lambda>_ _. 2000)\<rparr>"

definition sample_backed :: SellerEntitlement where
  "sample_backed = reconciled_params None (subscription_candidate sample_event sample_subscription PlanGrowth) (revision_text 1) 2000"

lemma sample_backed_valid: "NewSellerEntitlement sample_backed = Inr sample_backed"
proof -
  have "ID_Prefix sample_subscriber = SellerIDPrefix" "TrimSpace ''cus_1'' = ''cus_1''" "TrimSpace ''sub_1'' = ''sub_1''"
    "TrimSpace ''price_1'' = ''price_1''" "TrimSpace ''evt_1'' = ''evt_1''"
    by code_simp+
  moreover note validSourceRevision_revision [of 1]
  ultimately show ?thesis
    by (simp add: NewSellerEntitlement_ok validateEntitlement_def sample_backed_def reconciled_params_def
        subscription_candidate_def sample_subscription_def sample_event_def grace_error_def graceEndForCandidate_def
        supported_plan_def validEntitlementStatus_def validEntitlementSource_def validEntitlementProvider_def
        Timestamp_Before_def)
qed

lemma sample_backed_recorded:
  obtains a where "Audit_Record sample_audit_ulid \<lparr>aer_events = []\<rparr> (Inr ''aud_1'') 2000 ''req''
    \<lparr>rr_SellerID = sample_subscriber, rr_ActorType = ActorTypeAuditSystem, rr_ActorID = ''billing-reconciliation'',
     rr_Action = ActionEntitlementChanged, rr_TargetType = TargetTypeSeller, rr_TargetID = sample_subscriber,
     rr_Outcome = OutcomeSucceeded, rr_RequestID = [],
     rr_ChangedFields = [''status'', ''accessEndsAt'', ''entitlementEpoch'', ''sourceRevision'',
       ''credentialRotationRequired'']\<rparr> = Inr a"
proof -
  have "is_ok (Audit_Record sample_audit_ulid \<lparr>aer_events = []\<rparr> (Inr ''aud_1'') 2000 ''req''
    \<lparr>rr_SellerID = sample_subscriber, rr_ActorType = ActorTypeAuditSystem, rr_ActorID = ''billing-reconciliation'',
     rr_Action = ActionEntitlementChanged, rr_TargetType = TargetTypeSeller, rr_TargetID = sample_subscriber,
     rr_Outcome = OutcomeSucceeded, rr_RequestID = [],
     rr_ChangedFields = [''status'', ''accessEndsAt'', ''entitlementEpoch'', ''sourceRevision'',
       ''credentialRotationRequired'']\<rparr>)"
    by code_simp
  with that show thesis
    by (auto simp: is_ok_def split: sum.split_asm)
qed

lemma sample_service_reconciles:
  assumes "b = \<lparr>bi_entitlements = NewSellerEntitlementRepository, bi_audit = \<lparr>aer_events = []\<rparr>\<rparr>"
  shows "\<exists>x b'. ReconcileEntitlement sample_billing_call
      (provider_candidate (subscription_candidate sample_event sample_subscription PlanGrowth) ''evt_1'') b = (Inr x, b')
    \<and> sr_entitlements (bi_entitlements b') sample_subscriber = Some sample_backed"
proof -
  obtain a where a: "Audit_Record sample_audit_ulid \<lparr>aer_events = []\<rparr> (Inr ''aud_1'') 2000 ''req''
    \<lparr>rr_SellerID = sample_subscriber, rr_ActorType = ActorTypeAuditSystem, rr_ActorID = ''billing-reconciliation'',
     rr_Action = ActionEntitlementChanged, rr_TargetType = TargetTypeSeller, rr_TargetID = sample_subscriber,
     rr_Outcome = OutcomeSucceeded, rr_RequestID = [],
     rr_ChangedFields = [''status'', ''accessEndsAt'', ''entitlementEpoch'', ''sourceRevision'',
       ''credentialRotationRequired'']\<rparr> = Inr a"
    by (rule sample_backed_recorded)
  let ?c = "subscription_candidate sample_event sample_subscription PlanGrowth"
  have c: "provider_candidate ?c ''evt_1'' = ?c"
    by (simp add: provider_candidate_def subscription_candidate_def sample_event_def)
  have "effective_candidate None ?c 2000 = ?c"
    by (simp add: effective_candidate_def Let_def normalizeCandidateAtBoundary_def lapse_def subscription_candidate_def
        sample_subscription_def Timestamp_Before_def)
  then obtain rec where made: "ReconcileSellerEntitlement None ?c 2000 = Inr (sample_backed, rec)"
    "er_SellerID rec = sample_subscriber" "er_SourceRevision rec = revision_text 1" "er_AppliedVersion rec = 1"
    using sample_backed_valid
    by (simp add: ReconcileSellerEntitlement_def Let_def nextSourceRevision_def sample_backed_def)
      (simp add: subscription_candidate_def sample_subscription_def reconciled_params_def)
  have "Entitlement_Apply NewSellerEntitlementRepository sample_backed rec 0
    = Inr \<lparr>sr_entitlements = [sample_subscriber \<mapsto> sample_backed],
           sr_reconciliations = (\<lambda>_. Map.empty)(sample_subscriber := [revision_text 1 \<mapsto> rec])\<rparr>"
    using made by (simp add: Entitlement_Apply_def Let_def NewSellerEntitlementRepository_def sample_backed_def
        reconciled_params_def subscription_candidate_def sample_subscription_def)
  moreover have "\<exists>x. sellerPlanResponse sample_backed 2000 = Inr x" "en_SellerID sample_backed = sample_subscriber"
    "cd_SellerID ?c = sample_subscriber"
    by (simp_all add: sellerPlanResponse_def sample_backed_def reconciled_params_def subscription_candidate_def
        sample_subscription_def)
  moreover have "current_entitlement NewSellerEntitlementRepository k = Inr None" for k
    by (simp add: current_entitlement_def Entitlement_Get_def NewSellerEntitlementRepository_def missing_entitlement_def)
  ultimately show ?thesis
    using a made(1) assms unfolding c
    by (auto simp: ReconcileEntitlement_def action_simps sample_billing_call_def expected_version_def record_entitlement_def)
qed

lemma sample_reconciled_event:
  obtains x s' e' where "Reconcile sample_provider_call ''evt_1'' sample_provider_state = (Inr x, s')"
    "sr_entitlements (bi_entitlements (ps_billing s')) sample_subscriber = Some sample_backed"
    "pr_events (ps_events s') ''evt_1'' = Some e'" "pe_ProcessingState e' = ProviderEventStateApplied"
proof -
  let ?b = "\<lparr>bi_entitlements = NewSellerEntitlementRepository, bi_audit = \<lparr>aer_events = []\<rparr>\<rparr>"
  from sample_service_reconciles [of ?b, OF refl] obtain x b' where run: "ReconcileEntitlement sample_billing_call
      (provider_candidate (subscription_candidate sample_event sample_subscription PlanGrowth) ''evt_1'') ?b = (Inr x, b')"
    and stored: "sr_entitlements (bi_entitlements b') sample_subscriber = Some sample_backed"
    by blast
  let ?e = "sample_event\<lparr>pe_AttemptCount := 1, pe_SellerID := sample_subscriber,
      pe_ProcessingState := ProviderEventStateApplied,
      pe_AppliedEntitlementVersion := en_Version (sv_Entitlement (sp_Assignment x)), pe_ProcessedAt := Some 2000\<rparr>"
  have event: "pe_EventID sample_event = ''evt_1''" "pe_ProcessingState sample_event = ProviderEventStateReceived"
    "pe_AttemptCount sample_event = 0"
    by (simp_all add: sample_event_def)
  have call: "pk_fetch sample_provider_call n = (\<lambda>_. Inr sample_subscription)"
    "pk_billing sample_provider_call n = sample_billing_call" "pk_clock sample_provider_call n i = 2000" for n i
    by (simp_all add: sample_provider_call_def)
  have "CurrentEntitlement (\<lambda>_. Inr sample_subscription) (pk_pricePlans sample_provider_call) sample_event
      = Inr (subscription_candidate sample_event sample_subscription PlanGrowth)"
    by (simp add: CurrentEntitlement_def sample_provider_call_def sample_subscription_def rbind_def reject_if_def
        sample_event_def)
  moreover have "Entitlement_Get NewSellerEntitlementRepository k = Inl ErrNotFound" for k
    by (simp add: Entitlement_Get_def NewSellerEntitlementRepository_def)
  moreover have "cd_SellerID (provider_candidate (subscription_candidate sample_event sample_subscription PlanGrowth) k)
      = sample_subscriber" for k
    by (simp add: provider_candidate_def subscription_candidate_def sample_subscription_def)
  ultimately have "Reconcile sample_provider_call ''evt_1'' sample_provider_state
    = (Inr x, \<lparr>ps_events = \<lparr>pr_events = [''evt_1'' \<mapsto> ?e]\<rparr>, ps_billing = b'\<rparr>)"
    using run
    by (simp add: Reconcile_def Reconcile_with_def sample_provider_state_def sample_events_def action_simps event call
        ProviderEvent_Get_def marked_run MarkProcessing_def marking_def reconcile_loop.simps [of _ _ _ _ 0]
        reconcile_attempt_def Let_def missing_entitlement_def reconcile_candidate_def on_billing_def MarkApplied_def
        del: One_nat_def)
  with that stored show thesis
    by simp
qed

lemma sample_event_stored:
  "event_step\<^sup>*\<^sup>* (NewProviderEventRepository, {#}) (sample_events, {#})"
proof -
  have "snd (ProviderEvent_Store NewProviderEventRepository sample_event) = sample_events"
    by (simp add: ProviderEvent_Store_def NewProviderEventRepository_def sample_events_def sample_event_def)
  with event_step.store [of sample_event NewProviderEventRepository "{#}"] show ?thesis
    by (simp add: r_into_rtranclp sample_event_def)
qed

lemma sample_event_in: "pr_events sample_events ''evt_1'' = Some sample_event"
  by (simp add: sample_events_def)

theorem provider_event_settles_witness:
  "\<exists>e'. pr_events (ps_events (snd (Reconcile_with (entitlement_service sample_provider_call) sample_provider_call ''evt_1''
        sample_provider_state))) ''evt_1'' = Some e'
     \<and> pe_ProcessingState e' \<in> {ProviderEventStateApplied, ProviderEventStateFailed, ProviderEventStateQuarantined}
     \<and> pe_AttemptCount e' = 1"
proof -
  have hands_off: "undisturbed ''evt_1'' t (snd (entitlement_service sample_provider_call n d t))" for n d t
    by (simp add: undisturbed_def on_billing_def case_prod_beta)
  have stored: "pr_events (ps_events sample_provider_state) ''evt_1'' = Some sample_event"
    by (simp add: sample_provider_state_def sample_event_in)
  have event: "pe_EventID sample_event = ''evt_1''" "pe_AttemptCount sample_event + 1 = 1"
    "pe_ProcessingState sample_event \<in> {ProviderEventStateReceived, ProviderEventStateFailed}"
    by (simp_all add: sample_event_def)
  show ?thesis
    by (rule conjunct1 [OF provider_event_settles [OF stored event(1,3) hands_off], unfolded event(2)])
qed

theorem provider_event_applied_once_witness:
  "\<exists>r. event_step\<^sup>*\<^sup>* (sample_events, {#}) (r, {#}) \<and> (\<exists>e'. pr_events r ''evt_1'' = Some e'
     \<and> pe_ProcessingState e' = ProviderEventStateApplied \<and> pe_PayloadHash e' = ''h1'' \<and> pe_AttemptCount e' = 1
     \<and> snd (Reconcile sample_provider_call ''evt_1'' (sample_provider_state\<lparr>ps_events := r\<rparr>))
         = sample_provider_state\<lparr>ps_events := r\<rparr>)"
proof -
  let ?e1 = "sample_event\<lparr>pe_ProcessingState := ProviderEventStateProcessing, pe_AttemptCount := 1\<rparr>"
  let ?e2 = "?e1\<lparr>pe_SellerID := sample_subscriber, pe_ProcessingState := ProviderEventStateApplied,
      pe_AppliedEntitlementVersion := 1, pe_ProcessedAt := Some 2000\<rparr>"
  let ?r1 = "\<lparr>pr_events = [''evt_1'' \<mapsto> ?e1]\<rparr>" and ?r2 = "\<lparr>pr_events = [''evt_1'' \<mapsto> ?e2]\<rparr>"
  have "MarkProcessing sample_events ''evt_1'' = Inr ?r1" "MarkApplied ?r1 ''evt_1'' sample_subscriber 1 2000 = Inr ?r2"
    by (simp_all add: MarkProcessing_def MarkApplied_def marking_def ProviderEvent_Get_def sample_events_def
        sample_event_def)
  then have "event_step (sample_events, {#}) (?r1, {#''evt_1''#})" "event_step (?r1, {#''evt_1''#}) (?r2, {#})"
    using event_step.begin_work [of sample_events "''evt_1''" ?r1 "{#}"]
      event_step.apply_event [of "''evt_1''" "{#''evt_1''#}" ?r1 sample_subscriber 1 2000 ?r2] by simp_all
  then have steps: "event_step\<^sup>*\<^sup>* (sample_events, {#}) (?r2, {#})"
    by (rule converse_rtranclp_into_rtranclp [OF _ r_into_rtranclp])
  note all = rtranclp_trans [OF sample_event_stored steps]
  have in2: "pr_events ?r2 ''evt_1'' = Some ?e2"
    by simp
  have "snd (Reconcile sample_provider_call ''evt_1'' (sample_provider_state\<lparr>ps_events := ?r2\<rparr>))
      = sample_provider_state\<lparr>ps_events := ?r2\<rparr>"
    using provider_event_applied_once [OF all in2 rtranclp.rtrancl_refl,
        of "sample_provider_state\<lparr>ps_events := ?r2\<rparr>" sample_provider_call] by simp
  with steps show ?thesis
    by (intro exI [of _ ?r2]) (simp add: sample_event_def)
qed

theorem provider_event_follows_stripe_witness:
  "\<exists>x s'. Reconcile sample_provider_call ''evt_1'' sample_provider_state = (Inr x, s')
     \<and> sr_entitlements (bi_entitlements (ps_billing s')) sample_subscriber = Some sample_backed
     \<and> AllowsNetworkAccess sample_backed 8999
     \<and> stripe_backed sample_provider_call sample_event sample_subscriber sample_backed"
proof -
  obtain x s' where run: "Reconcile sample_provider_call ''evt_1'' sample_provider_state = (Inr x, s')"
    and stored: "sr_entitlements (bi_entitlements (ps_billing s')) sample_subscriber = Some sample_backed"
    by (rule sample_reconciled_event)
  have "consistent (ps_billing sample_provider_state)"
    by (auto simp: consistent_def stored_last_def sample_provider_state_def NewSellerEntitlementRepository_def
        wf_history_def intro!: exI [of _ "\<lambda>_. []"])
  then have "follows_stripe sample_provider_call sample_event NewSellerEntitlementRepository sample_subscriber sample_backed"
    using provider_event_follows_stripe [OF _ _ _ _ run, of sample_event] stored
    by (simp add: sample_provider_state_def sample_event_in sample_event_def NewSellerEntitlementRepository_def)
      (auto dest: spec [of _ sample_subscriber])
  moreover have allowed: "AllowsNetworkAccess sample_backed 8999"
    by (simp add: AllowsNetworkAccess_def sample_backed_def reconciled_params_def subscription_candidate_def
        sample_subscription_def Timestamp_Before_def)
  ultimately show ?thesis
    using run stored by (auto simp: follows_stripe_def NewSellerEntitlementRepository_def)
qed

end
