(* ===== verification/Usage.thy ===== *)
theory Usage
  imports Billing Repositories "HOL-Library.Multiset" "HOL-Library.Product_Lexorder"
begin

text \<open>
  Usage metering and the invoice export: \<open>internal/billing/{usage_models,usage_service,usage_persistence}.go\<close>
  and the repository \<open>internal/persistence/memory/usage_meter_events.go\<close>. The order in which Go ranges over
  a map is a parameter, any permutation.
\<close>

abbreviation "ErrUsageSourceInvalid \<equiv> Err ''billing.ErrUsageSourceInvalid''"
abbreviation "ErrUsageWindowInvalid \<equiv> Err ''billing.ErrUsageWindowInvalid''"
abbreviation "ErrUsageExportTooLarge \<equiv> Err ''billing.ErrUsageExportTooLarge''"
abbreviation "ErrSellerPlanNotFound \<equiv> ErrSellerEntitlementNotFound"

section \<open>Events\<close>

datatype MeterName = MeterSuccessfulTransaction | MeterOther string

fun MeterName_wire :: "MeterName \<Rightarrow> string" where
  "MeterName_wire MeterSuccessfulTransaction = ''successful_transaction''"
| "MeterName_wire (MeterOther s) = s"

text \<open>The private struct, its parameters, its snapshot and its view have the same fields.\<close>

record UsageMeterEvent =
  um_MeterEventID :: ID
  um_SellerID :: ID
  um_MeterName :: MeterName
  um_Quantity :: u64
  um_SourceTransactionID :: ID
  um_PlanID :: PlanID
  um_PlanVersion :: u64
  um_OccurredAt :: instant

record InvoiceLineItem =
  il_MeterName :: MeterName
  il_PlanID :: PlanID
  il_PlanVersion :: u64
  il_Quantity :: u64

record InvoiceExport =
  ie_SchemaVersion :: string
  ie_SellerID :: ID
  ie_PeriodStart :: instant
  ie_PeriodEnd :: instant
  ie_GeneratedAt :: instant
  ie_LineItems :: "InvoiceLineItem list"

definition usage_errors :: "UsageMeterEvent \<Rightarrow> validation_error list" where
  "usage_errors p =
     add_if (ID_Prefix (um_MeterEventID p) \<noteq> UsageMeterEventIDPrefix)
       (NewValidationError ''meterEventId'' ''prefix'' ''must use the usage meter prefix'')
     @ add_if (ID_Prefix (um_SellerID p) \<noteq> SellerIDPrefix)
       (NewValidationError ''sellerId'' ''prefix'' ''must use the seller prefix'')
     @ add_if (um_MeterName p \<noteq> MeterSuccessfulTransaction)
       (NewValidationError ''meterName'' ''supported'' ''must use a supported meter'')
     @ add_if (um_Quantity p \<noteq> 1)
       (NewValidationError ''quantity'' ''exact'' ''successful transaction quantity must equal one'')
     @ add_if (ID_Prefix (um_SourceTransactionID p) \<noteq> TransactionIDPrefix)
       (NewValidationError ''sourceTransactionId'' ''prefix'' ''must use the transaction prefix'')
     @ add_if (\<not> supported_plan (um_PlanID p) (um_PlanVersion p))
       (NewValidationError ''plan'' ''version'' ''must reference a supported plan version'')
     @ add_if (um_OccurredAt p = 0) (NewValidationError ''occurredAt'' ''required'' ''is required'')"

definition NewUsageMeterEvent :: "UsageMeterEvent \<Rightarrow> UsageMeterEvent result" where
  "NewUsageMeterEvent p = reject_if (usage_errors p \<noteq> []) (ValidationErrs (usage_errors p)) (Inr p)"

definition RestoreUsageMeterEvent :: "UsageMeterEvent \<Rightarrow> UsageMeterEvent result" where
  "RestoreUsageMeterEvent snapshot = NewUsageMeterEvent snapshot"

section \<open>The repository\<close>

record UsageMeterEventRepository =
  ur_events :: "(string \<times> UsageMeterEvent) list"

definition NewUsageMeterEventRepository :: UsageMeterEventRepository where
  "NewUsageMeterEventRepository = \<lparr>ur_events = []\<rparr>"

definition usage_key :: "UsageMeterEvent \<Rightarrow> string" where
  "usage_key e = MeterName_wire (um_MeterName e) @ [CHR 0x00] @ um_SourceTransactionID e"

definition Usage_CreateIfAbsent ::
  "UsageMeterEventRepository \<Rightarrow> UsageMeterEvent \<Rightarrow> (UsageMeterEvent \<times> bool) result \<times> UsageMeterEventRepository" where
  "Usage_CreateIfAbsent r e =
     (case map_of (ur_events r) (usage_key e) of
        Some snapshot \<Rightarrow> (rbind (RestoreUsageMeterEvent snapshot) (\<lambda>stored. Inr (stored, False)), r)
      | None \<Rightarrow> (Inr (e, True), r\<lparr>ur_events := ur_events r @ [(usage_key e, e)]\<rparr>))"

definition in_window :: "ID \<Rightarrow> instant \<Rightarrow> instant \<Rightarrow> UsageMeterEvent \<Rightarrow> bool" where
  "in_window sellerID start finish e \<longleftrightarrow>
     \<not> (um_SellerID e \<noteq> sellerID \<or> Timestamp_Before (um_OccurredAt e) start
        \<or> \<not> Timestamp_Before (um_OccurredAt e) finish)"

fun restore_usage :: "UsageMeterEvent list \<Rightarrow> UsageMeterEvent list result" where
  "restore_usage [] = Inr []"
| "restore_usage (e # es) = rbind (RestoreUsageMeterEvent e) (\<lambda>x. rbind (restore_usage es) (\<lambda>xs. Inr (x # xs)))"

text \<open>\<open>order\<close> is the order of the iteration; \<open>sort.Slice\<close> may leave events of one time in any order.\<close>

definition ListBySellerWindow ::
  "(UsageMeterEvent list \<Rightarrow> UsageMeterEvent list) \<Rightarrow> UsageMeterEventRepository \<Rightarrow> ID \<Rightarrow> instant \<Rightarrow> instant \<Rightarrow> nat
   \<Rightarrow> UsageMeterEvent list result" where
  "ListBySellerWindow order r sellerID start finish limit =
     rbind (restore_usage (filter (in_window sellerID start finish) (order (map snd (ur_events r)))))
       (\<lambda>es. Inr (take limit (sort_key um_OccurredAt es)))"

section \<open>The service\<close>

abbreviation maximumInvoiceWindow :: int where "maximumInvoiceWindow \<equiv> 31 * 24 * Hour"
abbreviation maximumInvoiceEvents :: nat where "maximumInvoiceEvents \<equiv> 1000"

record usage_state =
  us_transactions :: TransactionRepository
  us_entitlements :: SellerEntitlementRepository
  us_usage :: UsageMeterEventRepository

record usage_call =
  uk_authorize :: "string \<Rightarrow> ID \<Rightarrow> unit result"
  uk_range :: "UsageMeterEvent list \<Rightarrow> UsageMeterEvent list"
  uk_newID :: "ID result"
  uk_now :: instant
  uk_generated :: instant

definition metered :: "Transaction \<Rightarrow> SellerPlanResponse \<Rightarrow> ID \<Rightarrow> UsageMeterEvent" where
  "metered t plan meterEventID =
     \<lparr>um_MeterEventID = meterEventID, um_SellerID = tx_sellerID t, um_MeterName = MeterSuccessfulTransaction,
      um_Quantity = 1, um_SourceTransactionID = tx_transactionID t,
      um_PlanID = en_PlanID (sv_Entitlement (sp_Assignment plan)),
      um_PlanVersion = en_PlanVersion (sv_Entitlement (sp_Assignment plan)), um_OccurredAt = tx_updatedAt t\<rparr>"

definition storing_usage :: "UsageMeterEvent \<Rightarrow> (usage_state, UsageMeterEvent) action" where
  "storing_usage e =
     (\<lambda>w. let (res, r) = Usage_CreateIfAbsent (us_usage w) e
          in (rbind res (\<lambda>(stored, _). Inr stored), w\<lparr>us_usage := r\<rparr>))"

definition RecordSuccessfulTransaction :: "usage_call \<Rightarrow> ID \<Rightarrow> (usage_state, UsageMeterEvent) action" where
  "RecordSuccessfulTransaction c k =
     abind (reading (\<lambda>w. TxRepo_Get (us_transactions w) k)) (\<lambda>t.
     guard (tx_status t \<noteq> StatusFulfilled \<or> tx_paymentFinality t \<noteq> PaymentFinalityFinalized) ErrUsageSourceInvalid
    (abind (reading (\<lambda>w. ResolveSellerPlan (us_entitlements w) (uk_now c) (tx_sellerID t))) (\<lambda>plan.
     abind (pure (uk_newID c)) (\<lambda>meterEventID.
     abind (pure (NewUsageMeterEvent (metered t plan meterEventID))) (\<lambda>e.
     storing_usage e)))))"

definition RecordSuccessfulTransactionUsage :: "usage_call \<Rightarrow> ID \<Rightarrow> (usage_state, unit) action" where
  "RecordSuccessfulTransactionUsage c k = abind (RecordSuccessfulTransaction c k) (\<lambda>_. pure (Inr ()))"

text \<open>The totals of the lines, in the order their keys first occur.\<close>

type_synonym line_key = "MeterName \<times> PlanID \<times> u64"

definition line_key :: "UsageMeterEvent \<Rightarrow> line_key" where
  "line_key e = (um_MeterName e, um_PlanID e, um_PlanVersion e)"

fun add_total :: "line_key \<Rightarrow> u64 \<Rightarrow> (line_key \<times> u64) list \<Rightarrow> (line_key \<times> u64) list" where
  "add_total k q [] = [(k, q)]"
| "add_total k q ((k', n) # ts) = (if k' = k then (k', n + q) # ts else (k', n) # add_total k q ts)"

definition totals :: "UsageMeterEvent list \<Rightarrow> (line_key \<times> u64) list" where
  "totals es = fold (\<lambda>e. add_total (line_key e) (um_Quantity e)) es []"

definition line_item :: "line_key \<times> u64 \<Rightarrow> InvoiceLineItem" where
  "line_item = (\<lambda>((meter, plan, version), quantity).
     \<lparr>il_MeterName = meter, il_PlanID = plan, il_PlanVersion = version, il_Quantity = quantity\<rparr>)"

definition line_order :: "InvoiceLineItem \<Rightarrow> string \<times> u64 \<times> string" where
  "line_order l = (PlanID_wire (il_PlanID l), il_PlanVersion l, MeterName_wire (il_MeterName l))"

definition aggregateInvoiceLineItems :: "UsageMeterEvent list \<Rightarrow> InvoiceLineItem list" where
  "aggregateInvoiceLineItems es = sort_key line_order (map line_item (totals es))"

definition ExportInvoice ::
  "usage_call \<Rightarrow> usage_state \<Rightarrow> string \<Rightarrow> ID \<Rightarrow> instant \<Rightarrow> instant \<Rightarrow> InvoiceExport result" where
  "ExportInvoice c w ownerSubject sellerID start finish =
     (case uk_authorize c ownerSubject sellerID of
        Inl _ \<Rightarrow> Inl ErrSellerPlanNotFound
      | Inr _ \<Rightarrow>
          reject_if (start = 0 \<or> finish = 0 \<or> \<not> Timestamp_Before start finish \<or> finish - start > maximumInvoiceWindow)
            ErrUsageWindowInvalid
         (rbind (ListBySellerWindow (uk_range c) (us_usage w) sellerID start finish (maximumInvoiceEvents + 1)) (\<lambda>es.
          reject_if (length es > maximumInvoiceEvents) ErrUsageExportTooLarge
            (Inr \<lparr>ie_SchemaVersion = ''1'', ie_SellerID = sellerID, ie_PeriodStart = start, ie_PeriodEnd = finish,
                  ie_GeneratedAt = uk_generated c, ie_LineItems = aggregateInvoiceLineItems es\<rparr>))))"

section \<open>One event per transaction\<close>

lemma NewUsageMeterEvent_ok: "NewUsageMeterEvent p = Inr e \<longleftrightarrow> e = p \<and> usage_errors p = []"
  by (auto simp: NewUsageMeterEvent_def result_simps)

lemma usage_errors_Nil:
  "usage_errors e = [] \<Longrightarrow> um_MeterName e = MeterSuccessfulTransaction \<and> um_Quantity e = 1"
  by (auto simp: usage_errors_def add_if_simps)

lemma usage_errors_plan: "usage_errors e = [] \<Longrightarrow> supported_plan (um_PlanID e) (um_PlanVersion e)"
  by (auto simp: usage_errors_def add_if_simps)

text \<open>Any number of callers record usage at once; each creates an event that passed the constructor.\<close>

inductive usage_step :: "UsageMeterEventRepository \<Rightarrow> UsageMeterEventRepository \<Rightarrow> bool" where
  create: "NewUsageMeterEvent e = Inr e \<Longrightarrow> usage_step r (snd (Usage_CreateIfAbsent r e))"

definition wf_usage :: "UsageMeterEventRepository \<Rightarrow> bool" where
  "wf_usage r \<longleftrightarrow> distinct (map fst (ur_events r))
     \<and> (\<forall>(k, e) \<in> set (ur_events r). k = usage_key e \<and> usage_errors e = [])"

lemma usage_step_wf: "usage_step r r' \<Longrightarrow> wf_usage r \<Longrightarrow> wf_usage r'"
  by (induction rule: usage_step.induct)
    (auto simp: Usage_CreateIfAbsent_def wf_usage_def NewUsageMeterEvent_ok map_of_eq_None_iff split: option.split)

lemma usage_step_keeps: "usage_step r r' \<Longrightarrow> map_of (ur_events r) k = Some e \<Longrightarrow> map_of (ur_events r') k = Some e"
  by (induction rule: usage_step.induct) (auto simp: Usage_CreateIfAbsent_def split: option.split)

lemma usage_steps:
  assumes "usage_step\<^sup>*\<^sup>* r r'" "wf_usage r"
  shows "wf_usage r'" "map_of (ur_events r) k = Some e \<Longrightarrow> map_of (ur_events r') k = Some e"
proof -
  have "wf_usage r' \<and> (map_of (ur_events r) k = Some e \<longrightarrow> map_of (ur_events r') k = Some e)"
    using assms by (induction rule: rtranclp_induct) (auto intro: usage_step_wf usage_step_keeps)
  then show "wf_usage r'" "map_of (ur_events r) k = Some e \<Longrightarrow> map_of (ur_events r') k = Some e"
    by auto
qed

lemma wf_usage_New [simp]: "wf_usage NewUsageMeterEventRepository"
  by (simp add: wf_usage_def NewUsageMeterEventRepository_def)

text \<open>What a successful call leaves: an event of the transaction, the one it returns.\<close>

lemma record_usage_ok:
  assumes "RecordSuccessfulTransaction c k w = (Inr e, w')" "wf_usage (us_usage w)"
  obtains t new where "tr_transactions (us_transactions w) k = Some t" "tx_status t = StatusFulfilled"
    "tx_paymentFinality t = PaymentFinalityFinalized" "NewUsageMeterEvent new = Inr new"
    "um_SourceTransactionID new = tx_transactionID t" "um_SellerID new = tx_sellerID t"
    "map_of (ur_events (us_usage w')) (usage_key new) = Some e" "usage_errors e = []" "usage_key e = usage_key new"
    "w' = w\<lparr>us_usage := snd (Usage_CreateIfAbsent (us_usage w) new)\<rparr>"
    "map_of (ur_events (us_usage w)) (usage_key new) = Some e \<and> w' = w \<or> e = new"
proof -
  from assms(1) obtain t plan i where t: "tr_transactions (us_transactions w) k = Some t" "tx_status t = StatusFulfilled"
      "tx_paymentFinality t = PaymentFinalityFinalized"
    and new: "NewUsageMeterEvent (metered t plan i) = Inr (metered t plan i)"
    and stored: "storing_usage (metered t plan i) w = (Inr e, w')"
    by (auto simp: RecordSuccessfulTransaction_def action_ok TxRepo_Get_def NewUsageMeterEvent_ok split: option.split_asm)
  have wf: "usage_key s = usage_key (metered t plan i) \<and> usage_errors s = []"
    if "map_of (ur_events (us_usage w)) (usage_key (metered t plan i)) = Some s" for s
    using map_of_SomeD [OF that] assms(2) by (auto simp: wf_usage_def)
  show thesis
  proof (cases "map_of (ur_events (us_usage w)) (usage_key (metered t plan i))")
    case None
    with stored have "e = metered t plan i" "w' = w\<lparr>us_usage := snd (Usage_CreateIfAbsent (us_usage w) (metered t plan i))\<rparr>"
      by (auto simp: storing_usage_def Usage_CreateIfAbsent_def rbind_def)
    with None t new show thesis
      by (intro that [of t "metered t plan i"])
        (simp_all add: metered_def Usage_CreateIfAbsent_def NewUsageMeterEvent_ok map_add_def)
  next
    case (Some s)
    note s = wf [OF Some]
    with stored Some have "e = s" "w' = w"
      by (auto simp: storing_usage_def Usage_CreateIfAbsent_def rbind_def RestoreUsageMeterEvent_def NewUsageMeterEvent_ok
          split: sum.split_asm)
    with Some s t new show thesis
      by (intro that [of t "metered t plan i"]) (simp_all add: metered_def Usage_CreateIfAbsent_def)
  qed
qed

text \<open>
  C28: a transaction is billed at most once. A successful recording is of a transaction that is fulfilled
  and finalized; the event that is then stored for it is one unit, of that transaction and its seller's
  supported plan, and any later successful recording of the same transaction, whatever calls came in
  between and whatever became of the plan, returns this very event and stores nothing.
\<close>

theorem transaction_metered_once:
  assumes "usage_step\<^sup>*\<^sup>* NewUsageMeterEventRepository (us_usage w)"
    "RecordSuccessfulTransaction c k w = (Inr e, w')"
    "usage_step\<^sup>*\<^sup>* (us_usage w') (us_usage v)" "RecordSuccessfulTransaction d k v = (Inr f, v')"
    "map_option tx_transactionID (tr_transactions (us_transactions w) k) = Some k"
    "map_option tx_transactionID (tr_transactions (us_transactions v) k) = Some k"
  shows "(\<exists>t. tr_transactions (us_transactions w) k = Some t \<and> tx_status t = StatusFulfilled
      \<and> tx_paymentFinality t = PaymentFinalityFinalized)
    \<and> um_SourceTransactionID e = k \<and> um_Quantity e = 1 \<and> supported_plan (um_PlanID e) (um_PlanVersion e)
    \<and> f = e \<and> v' = v \<and> usage_step\<^sup>*\<^sup>* (us_usage w) (us_usage w')"
proof -
  have wf: "wf_usage (us_usage w)"
    by (rule usage_steps(1) [OF assms(1) wf_usage_New])
  obtain t new where t: "tr_transactions (us_transactions w) k = Some t" "tx_status t = StatusFulfilled"
      "tx_paymentFinality t = PaymentFinalityFinalized"
    and new: "NewUsageMeterEvent new = Inr new" "um_SourceTransactionID new = tx_transactionID t"
    and e: "map_of (ur_events (us_usage w')) (usage_key new) = Some e" "usage_errors e = []" "usage_key e = usage_key new"
    and w': "w' = w\<lparr>us_usage := snd (Usage_CreateIfAbsent (us_usage w) new)\<rparr>"
    by (rule record_usage_ok [OF assms(2) wf])
  have step: "usage_step (us_usage w) (us_usage w')"
    using usage_step.create [OF new(1)] w' by simp
  have wf': "wf_usage (us_usage v)"
    by (rule usage_steps(1) [OF assms(3) usage_step_wf [OF step wf]])
  obtain u again where u: "tr_transactions (us_transactions v) k = Some u"
    and again: "NewUsageMeterEvent again = Inr again" "um_SourceTransactionID again = tx_transactionID u"
    and f: "map_of (ur_events (us_usage v)) (usage_key again) = Some f \<and> v' = v \<or> f = again"
      "map_of (ur_events (us_usage v')) (usage_key again) = Some f"
    and v': "v' = v\<lparr>us_usage := snd (Usage_CreateIfAbsent (us_usage v) again)\<rparr>"
    by (rule record_usage_ok [OF assms(4) wf'])
  have "um_MeterName new = MeterSuccessfulTransaction" "um_MeterName again = MeterSuccessfulTransaction"
    using new(1) again(1) by (auto simp: NewUsageMeterEvent_ok dest: usage_errors_Nil)
  then have key: "usage_key again = usage_key new"
    using assms(5,6) t u new again by (simp add: usage_key_def)
  then have in_v: "map_of (ur_events (us_usage v)) (usage_key again) = Some e"
    using usage_steps(2) [OF assms(3) usage_step_wf [OF step wf] e(1)] by simp
  have "um_SourceTransactionID e = k"
    using e(3) usage_errors_Nil [OF e(2)] \<open>um_MeterName new = _\<close> assms(5) t new(2) by (simp add: usage_key_def)
  moreover have "supported_plan (um_PlanID e) (um_PlanVersion e)"
    by (rule usage_errors_plan [OF e(2)])
  moreover have "v' = v"
    using v' in_v by (simp add: Usage_CreateIfAbsent_def)
  moreover from this have "f = e"
    using f(2) in_v by simp
  ultimately show ?thesis
    using t step usage_errors_Nil [OF e(2)] by auto
qed

section \<open>The invoice\<close>

lemma add_total_fst: "fst ` set (add_total k q ts) = insert k (fst ` set ts)"
  by (induction k q ts rule: add_total.induct) auto

lemma add_total_distinct: "distinct (map fst ts) \<Longrightarrow> distinct (map fst (add_total k q ts))"
proof (induction k q ts rule: add_total.induct)
  case (2 k q k' n ts)
  then show ?case
    using add_total_fst [of k q ts] by auto
qed simp

lemma add_total_map:
  "map_of (add_total k q ts) j = (if j = k then Some (q + (case map_of ts k of None \<Rightarrow> 0 | Some n \<Rightarrow> n)) else map_of ts j)"
  by (induction k q ts rule: add_total.induct) (auto simp: add.commute)

text \<open>The units of one line: how many of the events have its key.\<close>

definition units :: "line_key \<Rightarrow> UsageMeterEvent list \<Rightarrow> nat" where
  "units j es = length (filter (\<lambda>e. line_key e = j) es)"

lemma totals_snoc: "totals (es @ [e]) = add_total (line_key e) (um_Quantity e) (totals es)"
  by (simp add: totals_def)

lemma totals_distinct: "distinct (map fst (totals es))"
  by (induction es rule: rev_induct) (auto simp: totals_snoc intro: add_total_distinct, simp add: totals_def)

lemma totals_units:
  assumes "\<And>e. e \<in> set es \<Longrightarrow> um_Quantity e = 1"
  shows "map_of (totals es) j = (if units j es = 0 then None else Some (of_nat (units j es)))"
  using assms
proof (induction es arbitrary: j rule: rev_induct)
  case Nil
  then show ?case by (simp add: totals_def units_def)
next
  case (snoc e es)
  then have IH: "map_of (totals es) j = (if units j es = 0 then None else Some (of_nat (units j es)))" for j
    by simp
  have "um_Quantity e = 1"
    using snoc(2) by simp
  then show ?case
    by (simp add: totals_snoc add_total_map IH) (simp add: units_def)
qed

lemma restore_usage_ok: "(\<forall>e \<in> set es. usage_errors e = []) \<Longrightarrow> restore_usage es = Inr es"
  by (induction es) (simp_all add: RestoreUsageMeterEvent_def NewUsageMeterEvent_def reject_if_def rbind_def)

lemma u64_Suc: "unat (n :: u64) + 1 < 2 ^ 64 \<Longrightarrow> unat (n + 1) = Suc (unat n)"
  using unat_word_ariths(1) [of n 1] by simp

lemma add_total_sum:
  assumes "sum_list (map (\<lambda>p. unat (snd p)) ts) + 1 < 2 ^ 64"
  shows "sum_list (map (\<lambda>p. unat (snd p)) (add_total k 1 ts)) = Suc (sum_list (map (\<lambda>p. unat (snd p)) ts))"
  using assms by (induction k "1 :: u64" ts rule: add_total.induct) (auto simp: u64_Suc)

lemma totals_sum:
  assumes "\<And>e. e \<in> set es \<Longrightarrow> um_Quantity e = 1" "length es < 2 ^ 64"
  shows "sum_list (map (\<lambda>p. unat (snd p)) (totals es)) = length es"
  using assms
proof (induction es rule: rev_induct)
  case (snoc e es)
  then have "sum_list (map (\<lambda>p. unat (snd p)) (totals es)) = length es" "um_Quantity e = 1"
    by simp_all
  then show ?case
    using add_total_sum [of "totals es" "line_key e"] snoc(3) by (simp add: totals_snoc)
qed (simp add: totals_def)

definition il_key :: "InvoiceLineItem \<Rightarrow> line_key" where
  "il_key l = (il_MeterName l, il_PlanID l, il_PlanVersion l)"

lemma line_item_simps [simp]: "il_key (line_item p) = fst p" "il_Quantity (line_item p) = snd p"
  by (auto simp: il_key_def line_item_def split: prod.split)

lemma line_item_inj: "inj line_item"
  by (rule injI) (metis line_item_simps prod_eqI)

text \<open>The lines of a list of valid events, fewer than \<open>2 ^ 64\<close> of them.\<close>

lemma lines_of_events:
  assumes "\<forall>e \<in> set es. usage_errors e = []" "length es < 2 ^ 64"
  shows "distinct (map il_key (aggregateInvoiceLineItems es))"
    "l \<in> set (aggregateInvoiceLineItems es) \<Longrightarrow> unat (il_Quantity l) = units (il_key l) es \<and> 0 < units (il_key l) es"
    "j \<notin> il_key ` set (aggregateInvoiceLineItems es) \<Longrightarrow> units j es = 0"
    "(\<Sum>l\<leftarrow>aggregateInvoiceLineItems es. unat (il_Quantity l)) = length es"
proof -
  have one: "um_Quantity e = 1" if "e \<in> set es" for e
    using assms(1) that usage_errors_Nil by blast
  have keys: "mset (map il_key (aggregateInvoiceLineItems es)) = mset (map fst (totals es))"
    by (simp add: aggregateInvoiceLineItems_def image_mset.compositionality comp_def)
  then show "distinct (map il_key (aggregateInvoiceLineItems es))"
    using totals_distinct [of es] by (metis distinct_count_atmost_1 set_mset_mset)
  have small: "units j es < 2 ^ 64" for j
    unfolding units_def by (rule le_less_trans [OF length_filter_le assms(2)])
  show "unat (il_Quantity l) = units (il_key l) es \<and> 0 < units (il_key l) es"
    if "l \<in> set (aggregateInvoiceLineItems es)"
  proof -
    from that obtain j n where "(j, n) \<in> set (totals es)" and l: "l = line_item (j, n)"
      by (auto simp: aggregateInvoiceLineItems_def)
    then have "map_of (totals es) j = Some n"
      using totals_distinct map_of_eq_Some_iff by metis
    then have "n = of_nat (units j es)" "units j es \<noteq> 0"
      using totals_units [of es j] one by (auto split: if_split_asm)
    then show ?thesis
      using small [of j] by (simp add: l unat_of_nat take_bit_nat_eq_self)
  qed
  show "units j es = 0" if "j \<notin> il_key ` set (aggregateInvoiceLineItems es)"
  proof -
    from that have "map_of (totals es) j = None"
      by (auto simp: aggregateInvoiceLineItems_def image_image map_of_eq_None_iff)
    then show ?thesis
      using totals_units [of es j] one by (cases "units j es = 0") simp_all
  qed
  have "mset (map (\<lambda>l. unat (il_Quantity l)) (aggregateInvoiceLineItems es)) = mset (map (\<lambda>p. unat (snd p)) (totals es))"
    by (simp add: aggregateInvoiceLineItems_def image_mset.compositionality comp_def)
  then have "(\<Sum>l\<leftarrow>aggregateInvoiceLineItems es. unat (il_Quantity l)) = sum_list (map (\<lambda>p. unat (snd p)) (totals es))"
    by (metis sum_mset_sum_list)
  with totals_sum [of es] one assms(2) show "(\<Sum>l\<leftarrow>aggregateInvoiceLineItems es. unat (il_Quantity l)) = length es"
    by simp
qed

text \<open>The order of the events does not matter.\<close>

lemma plan_wire_inj: "supported_plan p v \<Longrightarrow> supported_plan q u \<Longrightarrow> PlanID_wire p = PlanID_wire q \<Longrightarrow> p = q"
  by (cases p; cases q) (auto simp: supported_plan_def)

lemma aggregate_permuted:
  assumes "\<forall>e \<in> set es. usage_errors e = []" "mset es = mset es'"
  shows "aggregateInvoiceLineItems es = aggregateInvoiceLineItems es'"
proof -
  have one: "um_Quantity e = 1" "um_MeterName e = MeterSuccessfulTransaction" "supported_plan (um_PlanID e) (um_PlanVersion e)"
    if "e \<in> set es" for e
    using usage_errors_Nil [OF bspec [OF assms(1) that]] usage_errors_plan [OF bspec [OF assms(1) that]] by simp_all
  have same: "set es' = set es"
    using assms(2) by (metis set_mset_mset)
  have "units j es = units j es'" for j
    unfolding units_def using assms(2) by (metis mset_filter size_mset)
  then have map: "map_of (totals es) j = map_of (totals es') j" for j
    using totals_units [of es j] totals_units [of es' j] one same by simp
  then have "map_of (totals es) = map_of (totals es')"
    by (rule ext)
  then have "set (totals es) = set (totals es')"
    by (simp only: map_of_inject_set [OF totals_distinct totals_distinct])
  then have perm: "mset (totals es) = mset (totals es')"
    using totals_distinct by (metis distinct_map set_eq_iff_mset_eq_distinct)
  have "fst ` set (totals es) \<subseteq> line_key ` set es"
  proof
    fix j
    assume "j \<in> fst ` set (totals es)"
    then have "units j es \<noteq> 0"
      using totals_units [of es j] one by (auto simp: map_of_eq_None_iff split: if_split_asm)
    then show "j \<in> line_key ` set es"
      by (auto simp: units_def filter_empty_conv)
  qed
  then have key: "supported_plan (fst (snd (fst p))) (snd (snd (fst p))) \<and> fst (fst p) = MeterSuccessfulTransaction"
    if "p \<in> set (totals es)" for p
    using that one by (fastforce simp: line_key_def)
  have "inj_on line_order (set (map line_item (totals es)))"
  proof (rule inj_onI)
    fix x y
    assume "x \<in> set (map line_item (totals es))" "y \<in> set (map line_item (totals es))" and eq: "line_order x = line_order y"
    then obtain p q where p: "p \<in> set (totals es)" "x = line_item p" and q: "q \<in> set (totals es)" "y = line_item q"
      by auto
    then have "fst p = fst q"
      using eq key [OF p(1)] key [OF q(1)] plan_wire_inj
      by (auto simp: line_order_def line_item_def split: prod.splits)
    then have "p = q"
      using p(1) q(1) totals_distinct [of es] by (metis eq_key_imp_eq_value prod_eqI surjective_pairing)
    with p q show "x = y"
      by simp
  qed
  then show ?thesis
    unfolding aggregateInvoiceLineItems_def
    using perm by (intro sort_key_inj_key_eq) (simp_all add: mset_sort)
qed

text \<open>The transactions of a seller that the window and one line of the invoice are about.\<close>

definition billed ::
  "UsageMeterEventRepository \<Rightarrow> ID \<Rightarrow> instant \<Rightarrow> instant \<Rightarrow> (line_key \<Rightarrow> bool) \<Rightarrow> ID set" where
  "billed r sellerID start finish line =
     {um_SourceTransactionID e | e. e \<in> snd ` set (ur_events r) \<and> in_window sellerID start finish e \<and> line (line_key e)}"

lemma usage_sources_distinct:
  assumes "wf_usage r"
  shows "distinct (map um_SourceTransactionID (map snd (ur_events r)))"
proof -
  have "map fst (ur_events r) = map usage_key (map snd (ur_events r))"
    using assms by (auto simp: wf_usage_def)
  then have "distinct (map usage_key (map snd (ur_events r)))"
    using assms by (metis wf_usage_def)
  moreover have "usage_key e = ''successful_transaction'' @ [CHR 0x00] @ um_SourceTransactionID e"
    if "e \<in> set (map snd (ur_events r))" for e
    using that assms usage_errors_Nil by (fastforce simp: wf_usage_def usage_key_def)
  ultimately show ?thesis
    by (auto simp: distinct_map inj_on_def)
qed

lemma billed_image:
  "billed r sellerID start finish line = um_SourceTransactionID `
     set (filter (\<lambda>e. in_window sellerID start finish e \<and> line (line_key e)) (map snd (ur_events r)))"
  by (auto simp: billed_def)

lemma billed_card:
  assumes "wf_usage r" "mset es = mset (filter (in_window sellerID start finish) (map snd (ur_events r)))"
  shows "card (billed r sellerID start finish line) = length (filter (\<lambda>e. line (line_key e)) es)"
proof -
  let ?xs = "filter (\<lambda>e. line (line_key e)) (filter (in_window sellerID start finish) (map snd (ur_events r)))"
  have "billed r sellerID start finish line = set (map um_SourceTransactionID ?xs)"
    by (auto simp: billed_def)
  moreover have "distinct (map um_SourceTransactionID ?xs)"
    using usage_sources_distinct [OF assms(1)] by (simp add: distinct_map_filter)
  ultimately have "card (billed r sellerID start finish line) = length ?xs"
    by (metis distinct_card length_map)
  also have "\<dots> = length (filter (\<lambda>e. line (line_key e)) es)"
    using assms(2) by (metis mset_filter size_mset)
  finally show ?thesis .
qed

lemma ExportInvoice_ok:
  assumes "ExportInvoice c w ownerSubject sellerID start finish = Inr invoice" "wf_usage (us_usage w)"
    "\<And>xs. mset (uk_range c xs) = mset xs"
  obtains es where "mset es = mset (filter (in_window sellerID start finish) (map snd (ur_events (us_usage w))))"
    "length es \<le> maximumInvoiceEvents" "ie_LineItems invoice = aggregateInvoiceLineItems es"
    "\<forall>e \<in> set es. usage_errors e = []"
    "is_ok (uk_authorize c ownerSubject sellerID)" "start < finish" "finish - start \<le> maximumInvoiceWindow"
proof -
  let ?xs = "filter (in_window sellerID start finish) (uk_range c (map snd (ur_events (us_usage w))))"
  have "set (uk_range c (map snd (ur_events (us_usage w)))) = set (map snd (ur_events (us_usage w)))"
    using assms(3) by (metis set_mset_mset)
  then have valid: "\<forall>e \<in> set ?xs. usage_errors e = []"
    using assms(2) by (auto simp: wf_usage_def)
  then have list: "ListBySellerWindow (uk_range c) (us_usage w) sellerID start finish (maximumInvoiceEvents + 1)
      = Inr (take (maximumInvoiceEvents + 1) (sort_key um_OccurredAt ?xs))"
    by (simp add: ListBySellerWindow_def restore_usage_ok [OF valid] rbind_def)
  let ?es = "sort_key um_OccurredAt ?xs"
  have invoice: "is_ok (uk_authorize c ownerSubject sellerID)" "start < finish" "finish - start \<le> maximumInvoiceWindow"
    "length (take (maximumInvoiceEvents + 1) ?es) \<le> maximumInvoiceEvents"
    "ie_LineItems invoice = aggregateInvoiceLineItems (take (maximumInvoiceEvents + 1) ?es)"
    using assms(1) unfolding ExportInvoice_def list
    by (auto simp: result_simps Timestamp_Before_def split: sum.split_asm)
  then have short: "length ?es \<le> maximumInvoiceEvents"
    by auto
  then have all: "take (maximumInvoiceEvents + 1) ?es = ?es"
    by simp
  show thesis
  proof (rule that)
    show "mset ?es = mset (filter (in_window sellerID start finish) (map snd (ur_events (us_usage w))))"
      using assms(3) by (simp add: mset_filter)
  qed (use invoice short valid all in simp_all)
qed

lemma ExportInvoice_order:
  assumes "ExportInvoice c w ownerSubject sellerID start finish = Inr invoice" "wf_usage (us_usage w)"
    "\<And>xs. mset (uk_range c xs) = mset xs" "\<And>xs. mset (order xs) = mset xs"
  shows "ExportInvoice (c\<lparr>uk_range := order\<rparr>) w ownerSubject sellerID start finish = Inr invoice"
proof -
  let ?xs = "\<lambda>f. filter (in_window sellerID start finish) (f (map snd (ur_events (us_usage w))))"
  have "set (f (map snd (ur_events (us_usage w)))) = set (map snd (ur_events (us_usage w)))"
    if "\<And>xs. mset (f xs) = mset xs" for f
    using that by (metis set_mset_mset)
  then have valid: "\<forall>e \<in> set (?xs f). usage_errors e = []" if "\<And>xs. mset (f xs) = mset xs" for f
    using that assms(2) by (fastforce simp: wf_usage_def)
  have list: "ListBySellerWindow f (us_usage w) sellerID start finish (maximumInvoiceEvents + 1)
      = Inr (take (maximumInvoiceEvents + 1) (sort_key um_OccurredAt (?xs f)))" if "\<And>xs. mset (f xs) = mset xs" for f
    by (simp add: ListBySellerWindow_def restore_usage_ok [OF valid [OF that]] rbind_def)
  have perm: "mset (?xs order) = mset (?xs (uk_range c))"
    using assms(3,4) by (simp add: mset_filter)
  then have len: "length (sort_key um_OccurredAt (?xs order)) = length (sort_key um_OccurredAt (?xs (uk_range c)))"
    by (metis length_sort size_mset)
  have agg: "aggregateInvoiceLineItems (sort_key um_OccurredAt (?xs order))
      = aggregateInvoiceLineItems (sort_key um_OccurredAt (?xs (uk_range c)))"
    by (rule aggregate_permuted) (use valid [OF assms(4)] perm in auto)
  have "length (?xs (uk_range c)) \<le> maximumInvoiceEvents"
    using assms(1) unfolding ExportInvoice_def list [OF assms(3)]
    by (auto simp: result_simps split: sum.split_asm if_split_asm)
  then have "take (maximumInvoiceEvents + 1) (sort_key um_OccurredAt (?xs f)) = sort_key um_OccurredAt (?xs f)"
    if "f = order \<or> f = uk_range c" for f
    using that len by auto
  then have window: "ListBySellerWindow order (us_usage w) sellerID start finish (maximumInvoiceEvents + 1)
      = Inr (sort_key um_OccurredAt (?xs order))"
    "ListBySellerWindow (uk_range c) (us_usage w) sellerID start finish (maximumInvoiceEvents + 1)
      = Inr (sort_key um_OccurredAt (?xs (uk_range c)))"
    using list [OF assms(3)] list [OF assms(4)] by simp_all
  show ?thesis
    using assms(1) agg len unfolding ExportInvoice_def window
    by (cases "uk_authorize c ownerSubject sellerID") (simp_all add: window [simplified] rbind_def)
qed

text \<open>
  C29: the invoice of a window bills every metered transaction once. It is made for an authorized owner,
  for at most 31 days, and its lines are in order, one for each plan version. A line counts exactly the
  transactions of that seller, that time and that plan; no transaction of the window is missing; the lines
  together are as many as the transactions, a thousand at most, and nothing wraps around. The order in
  which the map is ranged over does not show.
\<close>

theorem invoice_counts_transactions:
  assumes "usage_step\<^sup>*\<^sup>* NewUsageMeterEventRepository (us_usage w)"
    "\<And>xs. mset (uk_range c xs) = mset xs"
    "ExportInvoice c w ownerSubject sellerID start finish = Inr invoice"
  shows "is_ok (uk_authorize c ownerSubject sellerID) \<and> start < finish \<and> finish - start \<le> maximumInvoiceWindow
    \<and> sorted (map line_order (ie_LineItems invoice)) \<and> distinct (map il_key (ie_LineItems invoice))
    \<and> (\<forall>l \<in> set (ie_LineItems invoice). unat (il_Quantity l) = card (billed (us_usage w) sellerID start finish (\<lambda>j. j = il_key l))
        \<and> 0 < il_Quantity l)
    \<and> (\<forall>j. j \<notin> il_key ` set (ie_LineItems invoice) \<longrightarrow> billed (us_usage w) sellerID start finish (\<lambda>i. i = j) = {})
    \<and> (\<Sum>l\<leftarrow>ie_LineItems invoice. unat (il_Quantity l)) = card (billed (us_usage w) sellerID start finish (\<lambda>_. True))
    \<and> card (billed (us_usage w) sellerID start finish (\<lambda>_. True)) \<le> maximumInvoiceEvents
    \<and> (\<forall>order. (\<forall>xs. mset (order xs) = mset xs) \<longrightarrow>
        ExportInvoice (c\<lparr>uk_range := order\<rparr>) w ownerSubject sellerID start finish = Inr invoice)"
proof -
  note wf = usage_steps(1) [OF assms(1) wf_usage_New]
  obtain es where es: "mset es = mset (filter (in_window sellerID start finish) (map snd (ur_events (us_usage w))))"
    and few: "length es \<le> maximumInvoiceEvents" and lines: "ie_LineItems invoice = aggregateInvoiceLineItems es"
    and valid: "\<forall>e \<in> set es. usage_errors e = []"
    and ok: "is_ok (uk_authorize c ownerSubject sellerID)" "start < finish" "finish - start \<le> maximumInvoiceWindow"
    by (rule ExportInvoice_ok [OF assms(3) wf assms(2)])
  note card = billed_card [OF wf es]
  have "length es < 2 ^ 64"
    using few by simp
  note L = lines_of_events [OF valid this, folded lines]
  have "unat (il_Quantity l) = card (billed (us_usage w) sellerID start finish (\<lambda>j. j = il_key l)) \<and> 0 < il_Quantity l"
    if "l \<in> set (ie_LineItems invoice)" for l
    using L(2) [OF that] unat_gt_0 [of "il_Quantity l"] by (simp add: card units_def word_gt_0)
  moreover have "billed (us_usage w) sellerID start finish (\<lambda>i. i = j) = {}" if "j \<notin> il_key ` set (ie_LineItems invoice)" for j
    using L(3) [OF that] card [of "\<lambda>i. i = j"] by (simp add: units_def billed_def)
  moreover have "sorted (map line_order (ie_LineItems invoice))"
    by (simp add: lines aggregateInvoiceLineItems_def)
  moreover have "ExportInvoice (c\<lparr>uk_range := order\<rparr>) w ownerSubject sellerID start finish = Inr invoice"
    if order: "\<And>xs. mset (order xs) = mset xs" for order
    by (rule ExportInvoice_order [OF assms(3) wf assms(2) order])
  ultimately show ?thesis
    using ok L(1,4) few card [of "\<lambda>_. True"] by simp
qed

text \<open>Two transactions of one seller, under two plans.\<close>

definition sample_usage :: "string \<Rightarrow> string \<Rightarrow> PlanID \<Rightarrow> instant \<Rightarrow> UsageMeterEvent" where
  "sample_usage i k plan t =
     \<lparr>um_MeterEventID = i, um_SellerID = ''sel_01ARZ3NDEKTSV4RRFFQ69G5FAV'', um_MeterName = MeterSuccessfulTransaction,
      um_Quantity = 1, um_SourceTransactionID = k, um_PlanID = plan, um_PlanVersion = 1, um_OccurredAt = t\<rparr>"

definition sample_usage_repo :: UsageMeterEventRepository where
  "sample_usage_repo =
     \<lparr>ur_events = [(usage_key (sample_usage ''mtr_1'' ''txn_1'' PlanGrowth 2000), sample_usage ''mtr_1'' ''txn_1'' PlanGrowth 2000),
        (usage_key (sample_usage ''mtr_2'' ''txn_2'' PlanStarter 3000), sample_usage ''mtr_2'' ''txn_2'' PlanStarter 3000)]\<rparr>"

definition sample_usage_call :: usage_call where
  "sample_usage_call =
     \<lparr>uk_authorize = (\<lambda>_ _. Inr ()), uk_range = rev, uk_newID = Inr ''mtr_1'', uk_now = 3000, uk_generated = 5000\<rparr>"

lemma sample_usage_reached: "usage_step\<^sup>*\<^sup>* NewUsageMeterEventRepository sample_usage_repo"
proof -
  let ?e1 = "sample_usage ''mtr_1'' ''txn_1'' PlanGrowth 2000" and ?e2 = "sample_usage ''mtr_2'' ''txn_2'' PlanStarter 3000"
  have "NewUsageMeterEvent ?e1 = Inr ?e1" "NewUsageMeterEvent ?e2 = Inr ?e2"
    by code_simp+
  then have "usage_step NewUsageMeterEventRepository (snd (Usage_CreateIfAbsent NewUsageMeterEventRepository ?e1))"
    "usage_step (snd (Usage_CreateIfAbsent NewUsageMeterEventRepository ?e1)) (snd (Usage_CreateIfAbsent
      (snd (Usage_CreateIfAbsent NewUsageMeterEventRepository ?e1)) ?e2))"
    by (auto intro: usage_step.create)
  moreover have "snd (Usage_CreateIfAbsent (snd (Usage_CreateIfAbsent NewUsageMeterEventRepository ?e1)) ?e2)
      = sample_usage_repo"
    by (simp add: Usage_CreateIfAbsent_def NewUsageMeterEventRepository_def sample_usage_repo_def usage_key_def
        sample_usage_def)
  ultimately show ?thesis
    by (metis converse_rtranclp_into_rtranclp r_into_rtranclp)
qed

theorem invoice_counts_transactions_witness:
  "\<exists>invoice. ExportInvoice sample_usage_call
       \<lparr>us_transactions = NewTransactionRepository, us_entitlements = NewSellerEntitlementRepository,
        us_usage = sample_usage_repo\<rparr> ''owner'' ''sel_01ARZ3NDEKTSV4RRFFQ69G5FAV'' 1000 4000 = Inr invoice
     \<and> map il_PlanID (ie_LineItems invoice) = [PlanGrowth, PlanStarter]
     \<and> (\<Sum>l\<leftarrow>ie_LineItems invoice. unat (il_Quantity l)) = card {''txn_1'', ''txn_2''}"
proof -
  let ?w = "\<lparr>us_transactions = NewTransactionRepository, us_entitlements = NewSellerEntitlementRepository,
        us_usage = sample_usage_repo\<rparr>"
  let ?out = "ExportInvoice sample_usage_call ?w ''owner'' ''sel_01ARZ3NDEKTSV4RRFFQ69G5FAV'' 1000 4000"
  have "case ?out of Inl _ \<Rightarrow> False | Inr i \<Rightarrow> map il_PlanID (ie_LineItems i) = [PlanGrowth, PlanStarter]"
    by code_simp
  then obtain i where i: "?out = Inr i" "map il_PlanID (ie_LineItems i) = [PlanGrowth, PlanStarter]"
    by (auto split: sum.split_asm)
  have "mset (uk_range sample_usage_call xs) = mset xs" for xs
    by (simp add: sample_usage_call_def)
  then have "(\<Sum>l\<leftarrow>ie_LineItems i. unat (il_Quantity l))
      = card (billed sample_usage_repo ''sel_01ARZ3NDEKTSV4RRFFQ69G5FAV'' 1000 4000 (\<lambda>_. True))"
    using invoice_counts_transactions [of ?w sample_usage_call, OF _ _ i(1)] sample_usage_reached by simp
  moreover have "billed sample_usage_repo ''sel_01ARZ3NDEKTSV4RRFFQ69G5FAV'' 1000 4000 (\<lambda>_. True) = {''txn_1'', ''txn_2''}"
    by (simp add: billed_image sample_usage_repo_def sample_usage_def in_window_def Timestamp_Before_def)
  ultimately show ?thesis
    using i by auto
qed

definition sample_usage_state :: usage_state where
  "sample_usage_state =
     \<lparr>us_transactions = \<lparr>tr_transactions = [''txn_01ARZ3NDEKTSV4RRFFQ69G5FAV'' \<mapsto> sample_tx_done],
        tr_paymentIdentifiers = Map.empty\<rparr>,
      us_entitlements = NewSellerEntitlementRepository\<lparr>sr_entitlements :=
        [''sel_01ARZ3NDEKTSV4RRFFQ69G5FAV'' \<mapsto> sample_entitlement]\<rparr>,
      us_usage = NewUsageMeterEventRepository\<rparr>"

lemma sample_usage_recording:
  obtains p where "\<And>i r. ID_Prefix i = UsageMeterEventIDPrefix \<Longrightarrow>
      RecordSuccessfulTransaction (sample_usage_call\<lparr>uk_newID := Inr i\<rparr>) ''txn_01ARZ3NDEKTSV4RRFFQ69G5FAV''
        (sample_usage_state\<lparr>us_usage := r\<rparr>) = storing_usage (metered sample_tx_done p i) (sample_usage_state\<lparr>us_usage := r\<rparr>)"
    "\<And>i. ID_Prefix i = UsageMeterEventIDPrefix \<Longrightarrow> usage_errors (metered sample_tx_done p i) = []"
proof -
  have tx: "tx_status sample_tx_done = StatusFulfilled" "tx_paymentFinality sample_tx_done = PaymentFinalityFinalized"
    "tx_sellerID sample_tx_done = ''sel_01ARZ3NDEKTSV4RRFFQ69G5FAV''" "tx_updatedAt sample_tx_done = 1008"
    "tx_transactionID sample_tx_done = ''txn_01ARZ3NDEKTSV4RRFFQ69G5FAV''"
    by code_simp+
  have ids: "ID_Prefix ''sel_01ARZ3NDEKTSV4RRFFQ69G5FAV'' = SellerIDPrefix"
    "ID_Prefix ''txn_01ARZ3NDEKTSV4RRFFQ69G5FAV'' = TransactionIDPrefix"
    by code_simp+
  obtain p where p: "sellerPlanResponse sample_entitlement 3000 = Inr p"
    "sv_Entitlement (sp_Assignment p) = sample_entitlement"
    by (simp add: sellerPlanResponse_def sample_entitlement_def reconciled_params_def sample_candidate_def
        sellerEntitlementView_def)
  have "en_PlanID sample_entitlement = PlanGrowth" "en_PlanVersion sample_entitlement = 1"
    by (simp_all add: sample_entitlement_def reconciled_params_def sample_candidate_def)
  then have valid: "usage_errors (metered sample_tx_done p i) = []" if "ID_Prefix i = UsageMeterEventIDPrefix" for i
    by (simp add: usage_errors_def metered_def tx ids p that supported_plan_def)
  have "ResolveSellerPlan (us_entitlements sample_usage_state) 3000 ''sel_01ARZ3NDEKTSV4RRFFQ69G5FAV'' = Inr p"
    by (simp add: ResolveSellerPlan_def Entitlement_Get_def sample_usage_state_def RestoreSellerEntitlement_def
        sample_valid p)
  moreover have "TxRepo_Get (us_transactions sample_usage_state) ''txn_01ARZ3NDEKTSV4RRFFQ69G5FAV'' = Inr sample_tx_done"
    by (simp add: TxRepo_Get_def sample_usage_state_def)
  ultimately show thesis
    using valid by (intro that [of p])
      (simp_all add: RecordSuccessfulTransaction_def action_simps sample_usage_call_def tx NewUsageMeterEvent_def)
qed

theorem transaction_metered_once_witness:
  "\<exists>e w'. RecordSuccessfulTransaction sample_usage_call ''txn_01ARZ3NDEKTSV4RRFFQ69G5FAV'' sample_usage_state = (Inr e, w')
     \<and> um_SourceTransactionID e = ''txn_01ARZ3NDEKTSV4RRFFQ69G5FAV''
     \<and> RecordSuccessfulTransaction (sample_usage_call\<lparr>uk_newID := Inr ''mtr_2''\<rparr>) ''txn_01ARZ3NDEKTSV4RRFFQ69G5FAV'' w' = (Inr e, w')"
proof -
  let ?k = "''txn_01ARZ3NDEKTSV4RRFFQ69G5FAV''"
  obtain p where run: "\<And>i r. ID_Prefix i = UsageMeterEventIDPrefix \<Longrightarrow>
      RecordSuccessfulTransaction (sample_usage_call\<lparr>uk_newID := Inr i\<rparr>) ?k (sample_usage_state\<lparr>us_usage := r\<rparr>)
        = storing_usage (metered sample_tx_done p i) (sample_usage_state\<lparr>us_usage := r\<rparr>)"
    and valid: "\<And>i. ID_Prefix i = UsageMeterEventIDPrefix \<Longrightarrow> usage_errors (metered sample_tx_done p i) = []"
    by (rule sample_usage_recording, rule that) blast+
  let ?e = "metered sample_tx_done p ''mtr_1''"
  let ?r = "\<lparr>ur_events = [(usage_key ?e, ?e)]\<rparr>"
  let ?v = "sample_usage_state\<lparr>us_usage := ?r\<rparr>"
  have ids: "ID_Prefix ''mtr_1'' = UsageMeterEventIDPrefix" "ID_Prefix ''mtr_2'' = UsageMeterEventIDPrefix"
    by code_simp+
  have start: "sample_usage_call\<lparr>uk_newID := Inr ''mtr_1''\<rparr> = sample_usage_call"
    "sample_usage_state\<lparr>us_usage := NewUsageMeterEventRepository\<rparr> = sample_usage_state"
    by (simp_all add: sample_usage_call_def sample_usage_state_def)
  have first: "RecordSuccessfulTransaction sample_usage_call ?k sample_usage_state = (Inr ?e, ?v)"
    using run [OF ids(1), of NewUsageMeterEventRepository]
    by (simp add: start) (simp add: storing_usage_def Usage_CreateIfAbsent_def NewUsageMeterEventRepository_def
        sample_usage_state_def rbind_def)
  have "usage_key (metered sample_tx_done p ''mtr_2'') = usage_key ?e"
    by (simp add: usage_key_def metered_def)
  then have "RecordSuccessfulTransaction (sample_usage_call\<lparr>uk_newID := Inr ''mtr_2''\<rparr>) ?k ?v = (Inr ?e, ?v)"
    using valid [OF ids(1)] run [OF ids(2), of ?r]
    by (simp add: storing_usage_def Usage_CreateIfAbsent_def RestoreUsageMeterEvent_def NewUsageMeterEvent_def rbind_def)
  then obtain f v' where again: "RecordSuccessfulTransaction (sample_usage_call\<lparr>uk_newID := Inr ''mtr_2''\<rparr>) ?k ?v = (Inr f, v')"
    by blast
  have "map_option tx_transactionID (tr_transactions (us_transactions sample_usage_state) ?k) = Some ?k"
    by code_simp
  moreover have "us_transactions ?v = us_transactions sample_usage_state"
    by simp
  moreover have "usage_step\<^sup>*\<^sup>* NewUsageMeterEventRepository (us_usage sample_usage_state)"
    by (simp add: sample_usage_state_def)
  ultimately show ?thesis
    using transaction_metered_once [OF _ first rtranclp.rtrancl_refl again] first again by auto
qed

end
