(* ===== verification/SignedText.thy ===== *)
theory SignedText
  imports Payments Evidence
begin

text \<open>
  What the signatures of this system rest on: a tag written in padded base64 is read back, and the lines of
  a signed text are read off it, whatever the lines of a forged text may hold.
\<close>

section \<open>Padded base64\<close>

lemma std_val_b64: "std_val (b64_digit n) = Some (n mod 64)"
proof -
  let ?std = "''ABCDEFGHIJKLMNOPQRSTUVWXYZabcdefghijklmnopqrstuvwxyz0123456789+/''"
  have "length ?std = length [0..<64]" "distinct ?std" "n mod 64 < length [0..<64]"
    by simp_all
  from map_of_zip_nth [OF this] show ?thesis
    by (simp add: std_val_def b64_digit_def)
qed

lemma b64_digit_facts: "b64_digit n \<noteq> CHR ''=''" "b64_digit n \<noteq> CHR 0x0A" "b64_digit n \<noteq> CHR 0x0D"
proof -
  have "std_val (CHR ''='') = None" "std_val (CHR 0x0A) = None" "std_val (CHR 0x0D) = None"
    unfolding std_val_def map_of_eq_None_iff set_map [symmetric] by (simp_all add: map_fst_zip)
  then show "b64_digit n \<noteq> CHR ''=''" "b64_digit n \<noteq> CHR 0x0A" "b64_digit n \<noteq> CHR 0x0D"
    using std_val_b64 [of n] by (metis option.distinct(1))+
qed

text \<open>The padded text has the symbols of the unpadded one in another alphabet.\<close>

lemma base64_std_url:
  "\<exists>body padding. base64_std s = body @ padding \<and> padding \<in> {[], ''='', ''==''}
     \<and> list_all (\<lambda>c. \<exists>n. c = b64_digit n) body \<and> map (\<lambda>c. the (std_val c)) body = map (\<lambda>c. the (url_val c)) (base64_url s)
     \<and> length (body @ padding) mod 4 = 0"
proof (induction s rule: base64_std.induct)
  case (1 a b c s)
  obtain body padding where IH: "base64_std s = body @ padding" "padding \<in> {[], ''='', ''==''}"
    "list_all (\<lambda>c. \<exists>n. c = b64_digit n) body" "map (\<lambda>c. the (std_val c)) body = map (\<lambda>c. the (url_val c)) (base64_url s)"
    "length (body @ padding) mod 4 = 0"
    using 1 [OF refl] by (elim exE conjE) (rule that)
  let ?n = "of_char a * 65536 + of_char b * 256 + of_char c :: nat"
  let ?body = "b64_digit (?n div 262144) # b64_digit (?n div 4096) # b64_digit (?n div 64) # b64_digit ?n # body"
  have "base64_std (a # b # c # s) = ?body @ padding"
    by (simp only: base64_std.simps Let_def IH(1) append_Cons)
  moreover have "length (?body @ padding) mod 4 = 0"
    using IH(5) by (simp only: append_Cons list.size) presburger
  moreover have "map (\<lambda>c. the (std_val c)) ?body = map (\<lambda>c. the (url_val c)) (base64_url (a # b # c # s))"
    by (simp only: list.map std_val_b64 url_digit_facts option.sel IH(4) base64_url.simps Let_def quantum_def)
  moreover have "list_all (\<lambda>c. \<exists>n. c = b64_digit n) ?body"
    using IH(3) by (simp only: list.pred_inject) blast
  ultimately show ?case
    using IH(2) by (intro exI conjI)
next
  case (2 a b)
  let ?n = "of_char a * 65536 + of_char b * 256 :: nat"
  show ?case
    by (intro exI [of _ "[b64_digit (?n div 262144), b64_digit (?n div 4096), b64_digit (?n div 64)]"] exI [of _ "''=''"])
      (auto simp: Let_def std_val_b64 b64_digit_facts url_digit_facts quantum_def)
next
  case (3 a)
  let ?n = "of_char a * 65536 :: nat"
  show ?case
    by (intro exI [of _ "[b64_digit (?n div 262144), b64_digit (?n div 4096)]"] exI [of _ "''==''"])
      (auto simp: Let_def std_val_b64 b64_digit_facts url_digit_facts quantum_def)
qed simp

lemma base64_std_decode_encode: "base64_std_decode (base64_std s) = Some s"
proof -
  obtain body padding where s: "base64_std s = body @ padding" "padding \<in> {[], ''='', ''==''}"
    "list_all (\<lambda>c. \<exists>n. c = b64_digit n) body" "map (\<lambda>c. the (std_val c)) body = map (\<lambda>c. the (url_val c)) (base64_url s)"
    "length (body @ padding) mod 4 = 0"
    using base64_std_url [of s] by (elim exE conjE) (rule that)
  have body: "c \<noteq> CHR ''='' \<and> c \<noteq> CHR 0x0A \<and> c \<noteq> CHR 0x0D \<and> std_val c \<noteq> None" if "c \<in> set body" for c
  proof -
    obtain n where "c = b64_digit n"
      using s(3) \<open>c \<in> set body\<close> unfolding list_all_iff by blast
    then show ?thesis
      by (simp only: std_val_b64 b64_digit_facts option.distinct(2) simp_thms not_False_eq_True)
  qed
  then have read: "filter (\<lambda>c. c \<noteq> CHR 0x0A \<and> c \<noteq> CHR 0x0D) (body @ padding) = body @ padding"
    "takeWhile (\<lambda>c. c \<noteq> CHR ''='') (body @ padding) = body"
    "dropWhile (\<lambda>c. c \<noteq> CHR ''='') (body @ padding) = padding"
    using s(2) by (auto simp: filter_id_conv takeWhile_append2 dropWhile_append2)
  have "list_all (\<lambda>c. std_val c \<noteq> None) body" "length body mod 4 \<noteq> 1"
    using body s(2,5) by (simp add: list_all_iff, auto, presburger+)
  with s(2,5) have "list_all (\<lambda>c. std_val c \<noteq> None) body \<and> padding \<in> {[], ''='', ''==''}
      \<and> (length body + length padding) mod 4 = 0 \<and> length body mod 4 \<noteq> 1"
    by simp
  then show ?thesis
    unfolding base64_std_decode_def Let_def s(1) read s(4) quanta_base64_url by (rule if_P)
qed

lemma format_graph: "list_all ascii_graph (FormatRFC3339Nano t)"
proof -
  have digits: "list_all ascii_graph s" if "list_all is_digit s" for s
    using that by (auto simp: list_all_iff is_digit_def ascii_graph_def)
  have zeros: "list_all ascii_graph (replicate k (CHR ''0''))" for k
    by (induction k) (simp_all add: ascii_graph_def)
  have minus: "ascii_graph (CHR ''-'')"
    by (simp add: ascii_graph_def)
  have pad: "list_all ascii_graph (pad_digits w i)" for w i
    using digits [OF show_nat_digits] zeros minus by (simp add: pad_digits_def Let_def)
  have "list_all ascii_graph (fraction n)" for n
    using pad [of 9 n] unfolding fraction_def list_all_iff
    by (auto dest!: set_dropWhileD simp: ascii_graph_def)
  with pad show ?thesis
    by (simp add: FormatRFC3339Nano_def Let_def ascii_graph_def split: prod.split)
qed

lemma graph_visible: "list_all ascii_graph s \<Longrightarrow> s \<noteq> [] \<Longrightarrow> TrimSpace s \<noteq> []"
proof -
  assume "list_all ascii_graph s" "s \<noteq> []"
  then have "plain_ends s"
    by (simp add: plain_ends_def list_all_iff)
  then show ?thesis
    using \<open>s \<noteq> []\<close> by (simp add: TrimSpace_plain)
qed

lemma graph_no_newline: "list_all ascii_graph s \<Longrightarrow> CHR 0x0A \<notin> set s"
  by (auto simp: list_all_iff ascii_graph_def)

section \<open>Lines\<close>

lemma split_on_not_Nil: "split_on sep s \<noteq> []"
  by (cases s) (auto split: list.split)

lemma split_on_at: "split_on sep (x @ sep # t) = split_on sep x @ split_on sep t"
proof (induction x)
  case (Cons a x)
  then show ?case
    using split_on_not_Nil [of sep x] by (cases "split_on sep x") auto
qed simp

lemma split_on_lines: "xs \<noteq> [] \<Longrightarrow> split_on sep (Join xs [sep]) = concat (map (split_on sep) xs)"
  by (induction xs rule: induct_list012) (simp_all add: Join_Cons split_on_at)

lemma split_on_single: "length (split_on sep s) = 1 \<Longrightarrow> split_on sep s = [s]"
  using split_on_Join [of sep s] by (cases "split_on sep s") auto

text \<open>A text of as many lines that hold no line break is made of those lines only.\<close>

lemma Join_lines_inj:
  assumes "length ys = length xs" "xs \<noteq> []" "list_all (\<lambda>x. sep \<notin> set x) xs" "Join xs [sep] = Join ys [sep]"
  shows "xs = ys"
proof -
  have "ys \<noteq> []"
    using assms(1,2) by auto
  have "concat (map (split_on sep) xs) = xs"
    using assms(3) by (induction xs) (simp_all add: split_on_none)
  then have parts: "concat (map (split_on sep) ys) = xs"
    using split_on_lines [OF assms(2)] split_on_lines [OF \<open>ys \<noteq> []\<close>] assms(4) by metis
  have single: "length ys \<le> length (concat (map (split_on sep) ys))
      \<and> (length (concat (map (split_on sep) ys)) = length ys \<longrightarrow> concat (map (split_on sep) ys) = ys)" for ys
  proof (induction ys)
    case (Cons y ys)
    have one: "1 \<le> length (split_on sep y)"
      using split_on_not_Nil [of sep y] by (cases "split_on sep y") simp_all
    show ?case
    proof (cases "length (split_on sep y) = 1")
      case True
      then show ?thesis
        using Cons split_on_single [OF True] by simp
    next
      case False
      then show ?thesis
        using Cons one by simp
    qed
  qed simp
  then show ?thesis
    using parts assms(1) by metis
qed

lemma hex_no_newline: "CHR 0x0A \<notin> set (hex_encode bs)"
proof -
  have "\<not> lower_hex (CHR 0x0A)"
    by code_simp
  then show ?thesis
    using hex_encode_lower [of bs] by (auto simp: list_all_iff)
qed

end
