(* ===== verification/Webhooks.thy ===== *)
theory Webhooks
  imports AuditLog Quotas Routes SignedText
begin

text \<open>
  Webhook subscriptions, the signature of an event and the sender:
  \<open>internal/notifications/{models,service,persistence,signer,delivery_sender}.go\<close> and the repository
  \<open>internal/persistence/memory/webhook_subscriptions.go\<close>. Parameters are the packages \<open>net\<close> and \<open>net/url\<close>,
  the HTTP client, the secret store and \<open>jcs.Transform\<close>.
\<close>

abbreviation "ErrSubscriptionNotFound \<equiv> Err ''notifications.ErrSubscriptionNotFound''"
abbreviation "ErrSigningUnavailable \<equiv> Err ''notifications.ErrSigningUnavailable''"
abbreviation "ErrWebhookForbiddenTarget \<equiv> Err ''notifications.ErrWebhookForbiddenTarget''"
abbreviation "ErrWebhookRedirectForbidden \<equiv> Err ''notifications.ErrWebhookRedirectForbidden''"
abbreviation "ErrWebhookTimeout \<equiv> Err ''notifications.ErrWebhookTimeout''"
abbreviation "ErrWebhookUnavailable \<equiv> Err ''notifications.ErrWebhookUnavailable''"
abbreviation "ErrWebhookResponseTooLarge \<equiv> Err ''notifications.ErrWebhookResponseTooLarge''"

section \<open>Subscriptions\<close>

datatype HookEventType =
    HookPaymentVerified | HookFulfillmentSucceeded | HookFulfillmentFailed | HookDisputeChanged
  | HookEventOther string

fun HookEventType_wire :: "HookEventType \<Rightarrow> string" where
  "HookEventType_wire HookPaymentVerified = ''payment.verified''"
| "HookEventType_wire HookFulfillmentSucceeded = ''fulfillment.succeeded''"
| "HookEventType_wire HookFulfillmentFailed = ''fulfillment.failed''"
| "HookEventType_wire HookDisputeChanged = ''dispute.changed''"
| "HookEventType_wire (HookEventOther s) = s"

datatype SubscriptionStatus = SubscriptionStatusActive | SubscriptionStatusDisabled | SubscriptionStatusOther string

text \<open>The private struct and its snapshot have the same fields; \<open>Snapshot\<close> is the identity.\<close>

record Subscription =
  ws_SubscriptionID :: ID
  ws_SellerID :: ID
  ws_EndpointURL :: string
  ws_EventTypes :: "HookEventType list"
  ws_SecretRef :: string
  ws_Status :: SubscriptionStatus
  ws_CreatedAt :: instant
  ws_UpdatedAt :: instant
  ws_Version :: u64

record SubscriptionParams =
  wp_SubscriptionID :: ID
  wp_SellerID :: ID
  wp_EndpointURL :: string
  wp_EventTypes :: "HookEventType list"
  wp_SecretRef :: string
  wp_CreatedAt :: instant

record CreateSubscriptionRequest =
  wq_EndpointURL :: string
  wq_EventTypes :: "HookEventType list"

text \<open>The view leaves the secret reference out.\<close>

record SubscriptionView =
  wv_SubscriptionID :: ID
  wv_SellerID :: ID
  wv_EndpointURL :: string
  wv_EventTypes :: "HookEventType list"
  wv_Status :: SubscriptionStatus
  wv_CreatedAt :: instant
  wv_UpdatedAt :: instant
  wv_Version :: u64

record SubscriptionCreated =
  wc_View :: SubscriptionView
  wc_SigningSecret :: string

definition subscriptionView :: "Subscription \<Rightarrow> SubscriptionView" where
  "subscriptionView s =
     \<lparr>wv_SubscriptionID = ws_SubscriptionID s, wv_SellerID = ws_SellerID s, wv_EndpointURL = ws_EndpointURL s,
      wv_EventTypes = ws_EventTypes s, wv_Status = ws_Status s, wv_CreatedAt = ws_CreatedAt s,
      wv_UpdatedAt = ws_UpdatedAt s, wv_Version = ws_Version s\<rparr>"

definition validHookEventType :: "HookEventType \<Rightarrow> bool" where
  "validHookEventType t \<longleftrightarrow>
     t = HookPaymentVerified \<or> t = HookFulfillmentSucceeded \<or> t = HookFulfillmentFailed \<or> t = HookDisputeChanged"

text \<open>The map removes duplicates; the sort makes its order irrelevant.\<close>

definition normalizeEventTypes :: "HookEventType list \<Rightarrow> (validation_error, HookEventType list) sum" where
  "normalizeEventTypes ts =
     (if ts = [] then Inl (NewValidationError ''eventTypes'' ''required'' ''must contain at least one event'')
      else if \<not> list_all validHookEventType ts
      then Inl (NewValidationError ''eventTypes'' ''supported'' ''contains an unsupported event'')
      else Inr (sort_key HookEventType_wire (remdups ts)))"

text \<open>
  \<open>nl_unsafeIP\<close> says whether a host is an IP address that is loopback, private or link-local unicast.
  An answer of the resolver is a list of addresses, each possibly nil, with the classes of \<open>net.IP\<close>.
\<close>

record IPClass =
  ip_GlobalUnicast :: bool
  ip_Private :: bool
  ip_Loopback :: bool
  ip_LinkLocalUnicast :: bool
  ip_LinkLocalMulticast :: bool
  ip_Multicast :: bool
  ip_Unspecified :: bool

record network_library =
  nl_parseURL :: "string \<Rightarrow> ParsedURL option"
  nl_urlString :: "ParsedURL \<Rightarrow> string"
  nl_unsafeIP :: "string \<Rightarrow> bool"
  nl_jcs :: "string \<Rightarrow> string result"

definition validateWebhookEndpoint :: "network_library \<Rightarrow> string \<Rightarrow> validation_error option" where
  "validateWebhookEndpoint lib raw =
     (case nl_parseURL lib raw of
        None \<Rightarrow> Some (NewValidationError ''endpointUrl'' ''https'' ''must be a public HTTPS URL'')
      | Some u \<Rightarrow>
          if ur_Scheme u \<noteq> ''https'' \<or> ur_Hostname u = [] \<or> ur_HasUser u \<or> ur_Fragment u \<noteq> []
          then Some (NewValidationError ''endpointUrl'' ''https'' ''must be a public HTTPS URL'')
          else let host = lower_text (ur_Hostname u)
               in if host = ''localhost''
                  then Some (NewValidationError ''endpointUrl'' ''public'' ''must not target localhost'')
                  else if nl_unsafeIP lib host
                  then Some (NewValidationError ''endpointUrl'' ''public'' ''must target a public address'')
                  else None)"

definition subscription_errors :: "network_library \<Rightarrow> SubscriptionParams \<Rightarrow> validation_error list" where
  "subscription_errors lib p =
     add_if (ID_Prefix (wp_SubscriptionID p) \<noteq> WebhookSubscriptionIDPrefix)
       (NewValidationError ''subscriptionId'' ''prefix'' ''must use the webhook subscription prefix'')
     @ add_if (ID_Prefix (wp_SellerID p) \<noteq> SellerIDPrefix)
       (NewValidationError ''sellerId'' ''prefix'' ''must use the seller prefix'')
     @ (case validateWebhookEndpoint lib (TrimSpace (wp_EndpointURL p)) of None \<Rightarrow> [] | Some e \<Rightarrow> [e])
     @ (case normalizeEventTypes (wp_EventTypes p) of Inl e \<Rightarrow> [e] | Inr _ \<Rightarrow> [])
     @ add_if (TrimSpace (wp_SecretRef p) = []) (NewValidationError ''secretRef'' ''required'' ''is required'')
     @ add_if (wp_CreatedAt p = 0) (NewValidationError ''createdAt'' ''required'' ''is required'')"

definition NewSubscription :: "network_library \<Rightarrow> SubscriptionParams \<Rightarrow> Subscription result" where
  "NewSubscription lib p =
     reject_if (subscription_errors lib p \<noteq> []) (ValidationErrs (subscription_errors lib p))
       (Inr \<lparr>ws_SubscriptionID = wp_SubscriptionID p, ws_SellerID = wp_SellerID p,
             ws_EndpointURL = TrimSpace (wp_EndpointURL p),
             ws_EventTypes = (case normalizeEventTypes (wp_EventTypes p) of Inl _ \<Rightarrow> [] | Inr ts \<Rightarrow> ts),
             ws_SecretRef = TrimSpace (wp_SecretRef p), ws_Status = SubscriptionStatusActive,
             ws_CreatedAt = wp_CreatedAt p, ws_UpdatedAt = wp_CreatedAt p, ws_Version = 1\<rparr>)"

definition subscription_params :: "Subscription \<Rightarrow> SubscriptionParams" where
  "subscription_params s =
     \<lparr>wp_SubscriptionID = ws_SubscriptionID s, wp_SellerID = ws_SellerID s, wp_EndpointURL = ws_EndpointURL s,
      wp_EventTypes = ws_EventTypes s, wp_SecretRef = ws_SecretRef s, wp_CreatedAt = ws_CreatedAt s\<rparr>"

definition RestoreSubscription :: "network_library \<Rightarrow> Subscription \<Rightarrow> Subscription result" where
  "RestoreSubscription lib s =
     rbind (NewSubscription lib (subscription_params s)) (\<lambda>r.
     reject_if (ws_Status s \<noteq> SubscriptionStatusActive \<and> ws_Status s \<noteq> SubscriptionStatusDisabled)
       (validation ''status'' ''persistence'' ''stored subscription status is invalid'')
    (reject_if (ws_Version s = 0 \<or> ws_UpdatedAt s = 0)
       (validation ''version'' ''persistence'' ''stored subscription metadata is invalid'')
       (Inr (r\<lparr>ws_Status := ws_Status s, ws_UpdatedAt := ws_UpdatedAt s, ws_Version := ws_Version s\<rparr>))))"

definition Subscription_Disable :: "Subscription \<Rightarrow> instant \<Rightarrow> Subscription result" where
  "Subscription_Disable s disabledAt =
     reject_if (ws_Status s \<noteq> SubscriptionStatusActive) (validation ''status'' ''state'' ''subscription is not active'')
    (reject_if (disabledAt = 0 \<or> Timestamp_Before disabledAt (ws_UpdatedAt s))
       (validation ''disabledAt'' ''time'' ''must not precede the current subscription state'')
       (Inr (s\<lparr>ws_Status := SubscriptionStatusDisabled, ws_UpdatedAt := disabledAt, ws_Version := ws_Version s + 1\<rparr>)))"

section \<open>The subscription repository\<close>

text \<open>The map as an association list in the order of insertion.\<close>

record WebhookSubscriptionRepository =
  wr_subscriptions :: "(ID \<times> Subscription) list"

definition NewWebhookSubscriptionRepository :: WebhookSubscriptionRepository where
  "NewWebhookSubscriptionRepository = \<lparr>wr_subscriptions = []\<rparr>"

definition Sub_Create :: "WebhookSubscriptionRepository \<Rightarrow> Subscription \<Rightarrow> WebhookSubscriptionRepository result" where
  "Sub_Create r s =
     reject_if (map_of (wr_subscriptions r) (ws_SubscriptionID s) \<noteq> None) ErrAlreadyExists
       (Inr (r\<lparr>wr_subscriptions := wr_subscriptions r @ [(ws_SubscriptionID s, s)]\<rparr>))"

definition Sub_Get ::
  "network_library \<Rightarrow> WebhookSubscriptionRepository \<Rightarrow> ID \<Rightarrow> ID \<Rightarrow> Subscription result" where
  "Sub_Get lib r sellerID k =
     (case map_of (wr_subscriptions r) k of
        None \<Rightarrow> Inl ErrSubscriptionNotFound
      | Some s \<Rightarrow> reject_if (ws_SellerID s \<noteq> sellerID) ErrSubscriptionNotFound (RestoreSubscription lib s))"

definition Sub_Update ::
  "WebhookSubscriptionRepository \<Rightarrow> Subscription \<Rightarrow> u64 \<Rightarrow> WebhookSubscriptionRepository result" where
  "Sub_Update r s expectedVersion =
     (case map_of (wr_subscriptions r) (ws_SubscriptionID s) of
        None \<Rightarrow> Inl ErrConditionFailed
      | Some stored \<Rightarrow>
          reject_if (ws_Version stored \<noteq> expectedVersion) ErrConditionFailed
            (Inr (r\<lparr>wr_subscriptions := map (\<lambda>(k, t). (k, if k = ws_SubscriptionID s then s else t)) (wr_subscriptions r)\<rparr>)))"

fun restore_subscriptions :: "network_library \<Rightarrow> Subscription list \<Rightarrow> Subscription list result" where
  "restore_subscriptions lib [] = Inr []"
| "restore_subscriptions lib (s # ss) =
     rbind (RestoreSubscription lib s) (\<lambda>t. rbind (restore_subscriptions lib ss) (\<lambda>ts. Inr (t # ts)))"

definition Sub_ListBySeller ::
  "network_library \<Rightarrow> WebhookSubscriptionRepository \<Rightarrow> ID \<Rightarrow> Subscription list result" where
  "Sub_ListBySeller lib r sellerID =
     rbind (restore_subscriptions lib (filter (\<lambda>s. ws_SellerID s = sellerID) (map snd (wr_subscriptions r))))
       (\<lambda>ss. Inr (sort_key ws_SubscriptionID ss))"

section \<open>The subscription service\<close>

abbreviation minimumWebhookSecretLength :: nat where "minimumWebhookSecretLength \<equiv> 32"

text \<open>\<open>random\<close> is what the generator reads, 32 bytes.\<close>

definition NewSecret :: "string result \<Rightarrow> string result" where
  "NewSecret random = rbind random (\<lambda>bytes. Inr (base64_url bytes))"

record webhook_state =
  wh_subscriptions :: WebhookSubscriptionRepository
  wh_secrets :: "string \<rightharpoonup> string"
  wh_audit :: AuditEventRepository

text \<open>\<open>wk_allow\<close> is the optional quota enforcer, \<open>wk_putFails\<close> the failure of the secret store.\<close>

record webhook_call =
  wk_library :: network_library
  wk_ulid :: "string \<Rightarrow> bool"
  wk_authorize :: "string \<Rightarrow> ID \<Rightarrow> unit result"
  wk_allow :: "(ID \<Rightarrow> u64 \<Rightarrow> unit result) option"
  wk_newID :: "ID result"
  wk_random :: "string result"
  wk_putFails :: "go_error option"
  wk_now :: instant
  wk_event :: "ID result \<times> instant"
  wk_requestID :: string

definition webhook_record ::
  "webhook_call \<Rightarrow> string \<Rightarrow> ID \<Rightarrow> ID \<Rightarrow> AuditAction \<Rightarrow> string list \<Rightarrow> (webhook_state, unit) action" where
  "webhook_record c ownerSubject sellerID k action changed =
     writing (\<lambda>w. Audit_Record (wk_ulid c) (wh_audit w) (fst (wk_event c)) (snd (wk_event c)) (wk_requestID c)
       \<lparr>rr_SellerID = sellerID, rr_ActorType = ActorTypeSellerUser, rr_ActorID = ownerSubject, rr_Action = action,
        rr_TargetType = TargetTypeWebhookSubscription, rr_TargetID = k, rr_Outcome = OutcomeSucceeded,
        rr_RequestID = [], rr_ChangedFields = changed\<rparr>) (\<lambda>a w. w\<lparr>wh_audit := a\<rparr>)"

definition active_count :: "Subscription list \<Rightarrow> u64" where
  "active_count ss = of_nat (length (filter (\<lambda>s. ws_Status s = SubscriptionStatusActive) ss))"

definition storing_secret :: "webhook_call \<Rightarrow> string \<Rightarrow> string \<Rightarrow> (webhook_state, unit) action" where
  "storing_secret c ref secret =
     writing (\<lambda>w. case wk_putFails c of Some e \<Rightarrow> Inl e | None \<Rightarrow> Inr ((wh_secrets w)(ref \<mapsto> secret)))
       (\<lambda>m w. w\<lparr>wh_secrets := m\<rparr>)"

definition subscribing ::
  "webhook_call \<Rightarrow> string \<Rightarrow> ID \<Rightarrow> CreateSubscriptionRequest \<Rightarrow> ID \<Rightarrow> string \<Rightarrow> (webhook_state, SubscriptionCreated) action" where
  "subscribing c ownerSubject sellerID q k secret =
     (let ref = ''agentpay/webhooks/'' @ sellerID @ ''/'' @ k
      in abind (pure (NewSubscription (wk_library c)
           \<lparr>wp_SubscriptionID = k, wp_SellerID = sellerID, wp_EndpointURL = wq_EndpointURL q,
            wp_EventTypes = wq_EventTypes q, wp_SecretRef = ref, wp_CreatedAt = wk_now c\<rparr>)) (\<lambda>s.
         abind (storing_secret c ref secret) (\<lambda>_.
         abind (writing (\<lambda>w. Sub_Create (wh_subscriptions w) s) (\<lambda>r w. w\<lparr>wh_subscriptions := r\<rparr>)) (\<lambda>_.
         abind (webhook_record c ownerSubject sellerID k ActionWebhookSubscriptionCreated
             [''endpointUrl'', ''eventTypes'', ''status'']) (\<lambda>_.
         pure (Inr \<lparr>wc_View = subscriptionView s, wc_SigningSecret = secret\<rparr>))))))"

definition Webhook_Create ::
  "webhook_call \<Rightarrow> string \<Rightarrow> ID \<Rightarrow> CreateSubscriptionRequest \<Rightarrow> (webhook_state, SubscriptionCreated) action" where
  "Webhook_Create c ownerSubject sellerID q =
     abind (pure (wk_authorize c ownerSubject sellerID)) (\<lambda>_.
     abind (reading (\<lambda>w. Sub_ListBySeller (wk_library c) (wh_subscriptions w) sellerID)) (\<lambda>ss.
     abind (pure (case wk_allow c of None \<Rightarrow> Inr () | Some allow \<Rightarrow> allow sellerID (active_count ss))) (\<lambda>_.
     abind (pure (wk_newID c)) (\<lambda>k.
     abind (pure (NewSecret (wk_random c))) (\<lambda>secret.
     guard (length secret < minimumWebhookSecretLength) ErrSigningUnavailable
       (subscribing c ownerSubject sellerID q k secret))))))"

definition Webhook_List :: "webhook_call \<Rightarrow> webhook_state \<Rightarrow> string \<Rightarrow> ID \<Rightarrow> SubscriptionView list result" where
  "Webhook_List c w ownerSubject sellerID =
     rbind (wk_authorize c ownerSubject sellerID) (\<lambda>_.
     rbind (Sub_ListBySeller (wk_library c) (wh_subscriptions w) sellerID) (\<lambda>ss. Inr (map subscriptionView ss)))"

definition Webhook_Disable ::
  "webhook_call \<Rightarrow> string \<Rightarrow> ID \<Rightarrow> ID \<Rightarrow> u64 \<Rightarrow> (webhook_state, SubscriptionView) action" where
  "Webhook_Disable c ownerSubject sellerID k expectedVersion =
     abind (pure (wk_authorize c ownerSubject sellerID)) (\<lambda>_.
     guard (expectedVersion = 0) (validation ''expectedVersion'' ''required'' ''must be greater than zero'')
    (abind (reading (\<lambda>w. Sub_Get (wk_library c) (wh_subscriptions w) sellerID k)) (\<lambda>s.
     guard (ws_Version s \<noteq> expectedVersion)
       (validation ''expectedVersion'' ''stale'' ''does not match the current subscription version'')
    (abind (pure (Subscription_Disable s (wk_now c))) (\<lambda>s'.
     abind (writing (\<lambda>w. Sub_Update (wh_subscriptions w) s' (ws_Version s)) (\<lambda>r w. w\<lparr>wh_subscriptions := r\<rparr>)) (\<lambda>_.
     abind (webhook_record c ownerSubject sellerID (ws_SubscriptionID s') ActionWebhookSubscriptionDisabled [''status'']) (\<lambda>_.
     pure (Inr (subscriptionView s')))))))))"

section \<open>Signed events\<close>

text \<open>The payload is a map that may be nil; its members are in the sorted order of \<open>json.Marshal\<close>.\<close>

record WebhookEvent =
  we_SchemaVersion :: string
  we_EventID :: ID
  we_SellerID :: ID
  we_EventType :: HookEventType
  we_OccurredAt :: instant
  we_Payload :: "(string \<times> json) list option"

record HookSignatureHeaders =
  hh_EventID :: string
  hh_Timestamp :: string
  hh_Signature :: string

record SignedEvent =
  sg_Body :: string
  sg_Headers :: HookSignatureHeaders

definition event_json :: "WebhookEvent \<Rightarrow> json" where
  "event_json e =
     JObject [(''schemaVersion'', JString (we_SchemaVersion e)), (''eventId'', JString (we_EventID e)),
       (''sellerId'', JString (we_SellerID e)), (''eventType'', JString (HookEventType_wire (we_EventType e))),
       (''occurredAt'', JString (FormatRFC3339Nano (we_OccurredAt e))),
       (''payload'', case we_Payload e of None \<Rightarrow> JNull | Some members \<Rightarrow> JObject members)]"

definition CanonicalEventBody :: "network_library \<Rightarrow> WebhookEvent \<Rightarrow> string result" where
  "CanonicalEventBody lib e =
     reject_if (we_SchemaVersion e \<noteq> ''1'' \<or> ID_Prefix (we_EventID e) \<noteq> EvidenceIDPrefix
         \<or> ID_Prefix (we_SellerID e) \<noteq> SellerIDPrefix \<or> \<not> validHookEventType (we_EventType e) \<or> we_OccurredAt e = 0
         \<or> we_Payload e = None)
       (validation ''event'' ''contract'' ''must satisfy the webhook event contract'')
       (nl_jcs lib (json_encode (event_json e)))"

abbreviation newline :: string where "newline \<equiv> [CHR 0x0A]"

definition webhook_message :: "string \<Rightarrow> string \<Rightarrow> string \<Rightarrow> string" where
  "webhook_message body eventID timestamp =
     ''agentpay.webhook.v1'' @ newline @ eventID @ newline @ timestamp @ newline @ hex_encode (Sum256 body)"

definition calculateWebhookHMAC :: "string \<Rightarrow> string \<Rightarrow> string \<Rightarrow> string \<Rightarrow> string" where
  "calculateWebhookHMAC secret body eventID timestamp =
     base64_std (hmac_sha256 secret (webhook_message body eventID timestamp))"

text \<open>\<open>secret\<close> is the answer of the secret provider, \<open>now\<close> the reading of the clock.\<close>

definition Webhook_Sign ::
  "network_library \<Rightarrow> string result \<Rightarrow> instant \<Rightarrow> WebhookEvent \<Rightarrow> SignedEvent result" where
  "Webhook_Sign lib secret now e =
     (case secret of
        Inl _ \<Rightarrow> Inl ErrSigningUnavailable
      | Inr key \<Rightarrow>
          reject_if (length key < minimumWebhookSecretLength) ErrSigningUnavailable
            (rbind (CanonicalEventBody lib e) (\<lambda>body. Inr
               \<lparr>sg_Body = body,
                sg_Headers = \<lparr>hh_EventID = we_EventID e, hh_Timestamp = FormatRFC3339Nano now,
                  hh_Signature = calculateWebhookHMAC key body (we_EventID e) (FormatRFC3339Nano now)\<rparr>\<rparr>)))"

definition VerifyWebhookSignature :: "string \<Rightarrow> string \<Rightarrow> HookSignatureHeaders \<Rightarrow> bool" where
  "VerifyWebhookSignature secret body h =
     (if length secret < minimumWebhookSecretLength \<or> TrimSpace (hh_EventID h) = [] \<or> TrimSpace (hh_Timestamp h) = []
      then False
      else case base64_std_decode (calculateWebhookHMAC secret body (hh_EventID h) (hh_Timestamp h)) of
          None \<Rightarrow> False
        | Some expected \<Rightarrow> (case base64_std_decode (hh_Signature h) of None \<Rightarrow> False | Some supplied \<Rightarrow> expected = supplied))"

section \<open>The sender\<close>

record WebhookSendResult =
  sr_StatusCode :: int
  sr_ResponseBodyHash :: string

record http_request =
  hq_URL :: string
  hq_Headers :: "(string \<times> string) list"
  hq_Body :: string

text \<open>
  What the HTTP client makes of a request: an error, by its deadline or another (a refused redirect and a
  refused connection are among these), no response, or a status and a body, with whether reading fails at
  its end.
\<close>

datatype http_outcome = ClientError bool | NoResponse | HttpResponse int string bool

abbreviation maximumWebhookResponseBytes :: nat where "maximumWebhookResponseBytes \<equiv> 64 * 1024"

definition webhookAddressesArePublic :: "IPClass option list \<Rightarrow> bool" where
  "webhookAddressesArePublic addresses \<longleftrightarrow> addresses \<noteq> []
     \<and> list_all (\<lambda>a. case a of None \<Rightarrow> False
          | Some i \<Rightarrow> \<not> (\<not> ip_GlobalUnicast i \<or> ip_Private i \<or> ip_Loopback i \<or> ip_LinkLocalUnicast i
              \<or> ip_LinkLocalMulticast i \<or> ip_Multicast i \<or> ip_Unspecified i)) addresses"

definition webhook_request :: "network_library \<Rightarrow> ParsedURL \<Rightarrow> SignedEvent \<Rightarrow> http_request" where
  "webhook_request lib u e =
     \<lparr>hq_URL = nl_urlString lib u,
      hq_Headers = [(''Content-Type'', ''application/json''), (''X-AgentPay-Webhook-Id'', hh_EventID (sg_Headers e)),
        (''X-AgentPay-Webhook-Timestamp'', hh_Timestamp (sg_Headers e)),
        (''X-AgentPay-Webhook-Signature'', hh_Signature (sg_Headers e))],
      hq_Body = sg_Body e\<rparr>"

text \<open>The client reads one byte more than it accepts; a failure behind that is not seen.\<close>

fun webhook_response :: "http_outcome \<Rightarrow> WebhookSendResult result" where
  "webhook_response (ClientError deadline) = Inl (if deadline then ErrWebhookTimeout else ErrWebhookUnavailable)"
| "webhook_response NoResponse = Inl ErrWebhookUnavailable"
| "webhook_response (HttpResponse status body fails) =
     reject_if (fails \<and> length body \<le> maximumWebhookResponseBytes) ErrWebhookUnavailable
    (reject_if (length body > maximumWebhookResponseBytes) ErrWebhookResponseTooLarge
       (Inr \<lparr>sr_StatusCode = status, sr_ResponseBodyHash = hex_encode (Sum256 body)\<rparr>))"

text \<open>The state is the list of the requests handed to the client.\<close>

definition Webhook_Send ::
  "network_library \<Rightarrow> (string \<Rightarrow> IPClass option list result) \<Rightarrow> (http_request \<Rightarrow> http_outcome) option \<Rightarrow> string
   \<Rightarrow> SignedEvent \<Rightarrow> (http_request list, WebhookSendResult) action" where
  "Webhook_Send lib lookup client endpointURL e =
     (case nl_parseURL lib endpointURL of
        None \<Rightarrow> pure (Inl ErrWebhookForbiddenTarget)
      | Some u \<Rightarrow>
          guard (ur_Scheme u \<noteq> ''https'' \<or> ur_Hostname u = [] \<or> ur_HasUser u \<or> ur_Fragment u \<noteq> [])
            ErrWebhookForbiddenTarget
         (attempt (pure (lookup (ur_Hostname u))) (\<lambda>_. pure (Inl ErrWebhookForbiddenTarget)) (\<lambda>addresses.
          guard (\<not> webhookAddressesArePublic addresses) ErrWebhookForbiddenTarget
         (case client of
            None \<Rightarrow> pure (Inl ErrWebhookUnavailable)
          | Some deliver \<Rightarrow>
              guard (nl_parseURL lib (nl_urlString lib u) = None) ErrWebhookForbiddenTarget
                (\<lambda>sent. (webhook_response (deliver (webhook_request lib u e)), sent @ [webhook_request lib u e]))))))"

text \<open>The dialer resolves the name again before it connects, to the first address.\<close>

definition webhook_dial ::
  "(string \<Rightarrow> IPClass option list result) \<Rightarrow> string \<Rightarrow> IPClass result" where
  "webhook_dial lookup host =
     (case lookup host of
        Inl _ \<Rightarrow> Inl ErrWebhookForbiddenTarget
      | Inr addresses \<Rightarrow>
          reject_if (\<not> webhookAddressesArePublic addresses) ErrWebhookForbiddenTarget (Inr (the (hd addresses))))"

section \<open>Signatures\<close>

lemma webhook_message_inj:
  assumes "list_all ascii_graph eventID" "list_all ascii_graph timestamp"
  shows "webhook_message body' eventID' timestamp' = webhook_message body eventID timestamp
    \<longleftrightarrow> eventID' = eventID \<and> timestamp' = timestamp \<and> Sum256 body' = Sum256 body"
proof -
  have Join: "webhook_message b i t = Join [''agentpay.webhook.v1'', i, t, hex_encode (Sum256 b)] newline" for b i t
    by (simp add: webhook_message_def)
  have lines: "list_all (\<lambda>x. CHR 0x0A \<notin> set x) [''agentpay.webhook.v1'', eventID, timestamp, hex_encode (Sum256 body)]"
    using graph_no_newline assms by (simp add: hex_no_newline)
  have "webhook_message body' eventID' timestamp' = webhook_message body eventID timestamp
      \<longleftrightarrow> [''agentpay.webhook.v1'', eventID, timestamp, hex_encode (Sum256 body)]
        = [''agentpay.webhook.v1'', eventID', timestamp', hex_encode (Sum256 body')]"
    unfolding Join using Join_lines_inj [OF _ _ lines] by (metis length_Cons list.distinct(1) list.size(3))
  then show ?thesis
    using hex_encode_inj by auto
qed

lemma verify_iff:
  "VerifyWebhookSignature key body h \<longleftrightarrow>
     minimumWebhookSecretLength \<le> length key \<and> TrimSpace (hh_EventID h) \<noteq> [] \<and> TrimSpace (hh_Timestamp h) \<noteq> []
     \<and> base64_std_decode (hh_Signature h)
         = Some (hmac_sha256 key (webhook_message body (hh_EventID h) (hh_Timestamp h)))"
  by (auto simp: VerifyWebhookSignature_def calculateWebhookHMAC_def base64_std_decode_encode split: option.split)

lemma Webhook_Sign_Inr:
  "Webhook_Sign lib secret now e = Inr sent \<Longrightarrow>
     \<exists>key. secret = Inr key \<and> minimumWebhookSecretLength \<le> length key
     \<and> CanonicalEventBody lib e = Inr (sg_Body sent)
     \<and> sg_Headers sent = \<lparr>hh_EventID = we_EventID e, hh_Timestamp = FormatRFC3339Nano now,
         hh_Signature = base64_std (hmac_sha256 key (webhook_message (sg_Body sent) (we_EventID e) (FormatRFC3339Nano now)))\<rparr>"
  by (auto simp: Webhook_Sign_def calculateWebhookHMAC_def result_simps split: sum.splits)

lemma signed_event_verifies:
  assumes "Webhook_Sign lib (Inr key) now e = Inr sent" "list_all ascii_graph (we_EventID e)"
  shows "VerifyWebhookSignature key (sg_Body sent) (sg_Headers sent)"
proof -
  have e: "minimumWebhookSecretLength \<le> length key" "CanonicalEventBody lib e = Inr (sg_Body sent)"
    "sg_Headers sent = \<lparr>hh_EventID = we_EventID e, hh_Timestamp = FormatRFC3339Nano now,
      hh_Signature = base64_std (hmac_sha256 key (webhook_message (sg_Body sent) (we_EventID e) (FormatRFC3339Nano now)))\<rparr>"
    using Webhook_Sign_Inr [OF assms(1)] by simp_all
  from e(2) have "ID_Prefix (we_EventID e) = EvidenceIDPrefix"
    by (simp add: CanonicalEventBody_def result_simps)
  then have "we_EventID e \<noteq> []"
    by (auto simp: ID_Prefix_def find_Some_iff HasPrefix_iff split: option.splits)
  moreover have "FormatRFC3339Nano now \<noteq> []"
    by (simp add: FormatRFC3339Nano_def Let_def split: prod.split)
  ultimately have "TrimSpace (we_EventID e) \<noteq> []" "TrimSpace (FormatRFC3339Nano now) \<noteq> []"
    using graph_visible assms(2) format_graph by blast+
  then show ?thesis
    using e(1) by (simp add: e(3) verify_iff base64_std_decode_encode)
qed

text \<open>A sample library, event and key.\<close>

definition sample_hook_url :: ParsedURL where
  "sample_hook_url = \<lparr>ur_Scheme = ''https'', ur_Host = ''hooks.example.com'', ur_Hostname = ''hooks.example.com'',
     ur_HasUser = False, ur_RawQuery = [], ur_Fragment = []\<rparr>"

definition sample_hook_library :: network_library where
  "sample_hook_library =
     \<lparr>nl_parseURL = (\<lambda>s. if s = ''https://hooks.example.com'' then Some sample_hook_url else None),
      nl_urlString = (\<lambda>u. ''https://'' @ ur_Host u), nl_unsafeIP = (\<lambda>_. False), nl_jcs = Inr\<rparr>"

definition sample_hook_event :: WebhookEvent where
  "sample_hook_event =
     \<lparr>we_SchemaVersion = ''1'', we_EventID = ''evt_01ARZ3NDEKTSV4RRFFQ69G5FAV'',
      we_SellerID = ''sel_01ARZ3NDEKTSV4RRFFQ69G5FAV'', we_EventType = HookPaymentVerified, we_OccurredAt = 1000,
      we_Payload = Some [(''amount'', JString ''35'')]\<rparr>"

definition sample_hook_key :: string where
  "sample_hook_key = replicate 32 (CHR ''k'')"

lemma sample_hook_prefixes:
  "ID_Prefix ''evt_01ARZ3NDEKTSV4RRFFQ69G5FAV'' = EvidenceIDPrefix"
  "ID_Prefix ''sel_01ARZ3NDEKTSV4RRFFQ69G5FAV'' = SellerIDPrefix"
  by code_simp+

lemma sample_hook_graph: "list_all ascii_graph (we_EventID sample_hook_event)"
  by (simp add: sample_hook_event_def ascii_graph_def)

lemma sample_hook_signed: "\<exists>e. Webhook_Sign sample_hook_library (Inr sample_hook_key) now sample_hook_event = Inr e"
  by (simp add: Webhook_Sign_def CanonicalEventBody_def sample_hook_library_def sample_hook_event_def
      sample_hook_key_def sample_hook_prefixes validHookEventType_def result_simps)

text \<open>
  C40: A delivered event verifies at the seller who holds the subscription's secret, and its signature
  verifies for no other message: with the same signature, a body, event identity and timestamp are accepted
  exactly if their message has the HMAC of the signed one, and their message is the signed one only for the
  same event, the same timestamp and a body of the same digest. The identity of the signed event is printable.
\<close>

theorem webhook_signature:
  assumes "Webhook_Sign lib (Inr key) now e = Inr sent" "list_all ascii_graph (we_EventID e)"
  shows "VerifyWebhookSignature key (sg_Body sent) (sg_Headers sent)
    \<and> (\<forall>body h. hh_Signature h = hh_Signature (sg_Headers sent) \<and> VerifyWebhookSignature key body h
        \<longrightarrow> hmac_sha256 key (webhook_message body (hh_EventID h) (hh_Timestamp h))
          = hmac_sha256 key (webhook_message (sg_Body sent) (we_EventID e) (FormatRFC3339Nano now)))
    \<and> (\<forall>body eventID timestamp.
        webhook_message body eventID timestamp = webhook_message (sg_Body sent) (we_EventID e) (FormatRFC3339Nano now)
        \<longleftrightarrow> eventID = we_EventID e \<and> timestamp = FormatRFC3339Nano now \<and> Sum256 body = Sum256 (sg_Body sent))"
proof -
  have headers: "sg_Headers sent = \<lparr>hh_EventID = we_EventID e, hh_Timestamp = FormatRFC3339Nano now,
      hh_Signature = base64_std (hmac_sha256 key (webhook_message (sg_Body sent) (we_EventID e) (FormatRFC3339Nano now)))\<rparr>"
    using Webhook_Sign_Inr [OF assms(1)] by simp
  have "hmac_sha256 key (webhook_message body (hh_EventID h) (hh_Timestamp h))
      = hmac_sha256 key (webhook_message (sg_Body sent) (we_EventID e) (FormatRFC3339Nano now))"
    if "hh_Signature h = hh_Signature (sg_Headers sent)" "VerifyWebhookSignature key body h" for body h
    using that by (simp add: headers verify_iff base64_std_decode_encode)
  then show ?thesis
    using signed_event_verifies [OF assms] webhook_message_inj [OF assms(2) format_graph] by blast
qed

theorem webhook_signature_witness:
  "\<exists>sent. Webhook_Sign sample_hook_library (Inr sample_hook_key) 2000 sample_hook_event = Inr sent
     \<and> VerifyWebhookSignature sample_hook_key (sg_Body sent) (sg_Headers sent)"
proof -
  obtain sent where sent: "Webhook_Sign sample_hook_library (Inr sample_hook_key) 2000 sample_hook_event = Inr sent"
    using sample_hook_signed by blast
  with webhook_signature [OF sent sample_hook_graph] show ?thesis by blast
qed

end
