(* ===== verification/Deliveries.thy ===== *)
theory Deliveries
  imports Webhooks Versions "HOL-Library.AList"
begin

text \<open>
  Webhook deliveries: \<open>internal/notifications/{delivery_models,delivery_persistence,delivery_service}.go\<close> and the
  repository \<open>internal/persistence/memory/webhook_deliveries.go\<close>. A delivery is one event for one
  subscription. It is attempted when due, retried after growing delays while failures are temporary, ends
  delivered or as a dead letter, and a seller may schedule a dead letter again.
\<close>

abbreviation "ErrDeliveryNotFound \<equiv> Err ''notifications.ErrDeliveryNotFound''"
abbreviation "ErrDeliveryConflict \<equiv> Err ''notifications.ErrDeliveryConflict''"

section \<open>Deliveries\<close>

datatype DeliveryStatus =
    DeliveryStatusPending | DeliveryStatusRetryScheduled | DeliveryStatusDelivered | DeliveryStatusDeadLetter
  | DeliveryStatusOther string

datatype DeliveryFailureCode =
    DeliveryFailureForbiddenTarget | DeliveryFailureTimeout | DeliveryFailureUnavailable
  | DeliveryFailureResponseTooLarge | DeliveryFailureRetryableResponse | DeliveryFailurePermanentResponse
  | DeliveryFailureOther string

record DeliveryParams =
  dx_DeliveryID :: ID
  dx_SellerID :: ID
  dx_SubscriptionID :: ID
  dx_Event :: WebhookEvent
  dx_PayloadHash :: string
  dx_CreatedAt :: instant

text \<open>The private struct and its snapshot have the same fields; \<open>Snapshot\<close> is the identity.\<close>

record Delivery =
  dv_DeliveryID :: ID
  dv_SellerID :: ID
  dv_SubscriptionID :: ID
  dv_Event :: WebhookEvent
  dv_PayloadHash :: string
  dv_Status :: DeliveryStatus
  dv_AttemptCount :: u32
  dv_NextAttemptAt :: "instant option"
  dv_LastAttemptAt :: "instant option"
  dv_DeliveredAt :: "instant option"
  dv_ResponseStatusCode :: "int option"
  dv_ResponseBodyHash :: "string option"
  dv_ErrorCode :: "DeliveryFailureCode option"
  dv_CreatedAt :: instant
  dv_UpdatedAt :: instant
  dv_Version :: u64

text \<open>The view leaves the payload of the event out.\<close>

record DeliveryView =
  dw_DeliveryID :: ID
  dw_SellerID :: ID
  dw_SubscriptionID :: ID
  dw_EventID :: ID
  dw_EventType :: HookEventType
  dw_PayloadHash :: string
  dw_Status :: DeliveryStatus
  dw_AttemptCount :: u32
  dw_NextAttemptAt :: "instant option"
  dw_LastAttemptAt :: "instant option"
  dw_DeliveredAt :: "instant option"
  dw_ResponseStatusCode :: "int option"
  dw_ResponseBodyHash :: "string option"
  dw_ErrorCode :: "DeliveryFailureCode option"
  dw_CreatedAt :: instant
  dw_UpdatedAt :: instant
  dw_Version :: u64

definition deliveryView :: "Delivery \<Rightarrow> DeliveryView" where
  "deliveryView d =
     \<lparr>dw_DeliveryID = dv_DeliveryID d, dw_SellerID = dv_SellerID d, dw_SubscriptionID = dv_SubscriptionID d,
      dw_EventID = we_EventID (dv_Event d), dw_EventType = we_EventType (dv_Event d),
      dw_PayloadHash = dv_PayloadHash d, dw_Status = dv_Status d, dw_AttemptCount = dv_AttemptCount d,
      dw_NextAttemptAt = dv_NextAttemptAt d, dw_LastAttemptAt = dv_LastAttemptAt d,
      dw_DeliveredAt = dv_DeliveredAt d, dw_ResponseStatusCode = dv_ResponseStatusCode d,
      dw_ResponseBodyHash = dv_ResponseBodyHash d, dw_ErrorCode = dv_ErrorCode d,
      dw_CreatedAt = dv_CreatedAt d, dw_UpdatedAt = dv_UpdatedAt d, dw_Version = dv_Version d\<rparr>"

abbreviation maximumAutomaticDeliveryAttempts :: u32 where "maximumAutomaticDeliveryAttempts \<equiv> 5"

definition automaticRetryDelays :: "int list" where
  "automaticRetryDelays = [60 * Second, 5 * 60 * Second, 30 * 60 * Second, 2 * 3600 * Second]"

definition sha256HexPattern :: "string \<Rightarrow> bool" where
  "sha256HexPattern s \<longleftrightarrow> length s = 64 \<and> list_all lower_hex s"

definition delivery_errors :: "DeliveryParams \<Rightarrow> validation_error list" where
  "delivery_errors p =
     add_if (ID_Prefix (dx_DeliveryID p) \<noteq> WebhookDeliveryIDPrefix)
       (NewValidationError ''deliveryId'' ''prefix'' ''must use the webhook delivery prefix'')
     @ add_if (ID_Prefix (dx_SellerID p) \<noteq> SellerIDPrefix)
       (NewValidationError ''sellerId'' ''prefix'' ''must use the seller prefix'')
     @ add_if (ID_Prefix (dx_SubscriptionID p) \<noteq> WebhookSubscriptionIDPrefix)
       (NewValidationError ''subscriptionId'' ''prefix'' ''must use the webhook subscription prefix'')
     @ add_if (we_SchemaVersion (dx_Event p) \<noteq> ''1'' \<or> ID_Prefix (we_EventID (dx_Event p)) \<noteq> EvidenceIDPrefix
         \<or> we_SellerID (dx_Event p) \<noteq> dx_SellerID p \<or> \<not> validHookEventType (we_EventType (dx_Event p))
         \<or> we_OccurredAt (dx_Event p) = 0 \<or> we_Payload (dx_Event p) = None)
       (NewValidationError ''event'' ''contract'' ''must satisfy the webhook event contract'')
     @ add_if (\<not> sha256HexPattern (dx_PayloadHash p))
       (NewValidationError ''payloadHash'' ''sha256'' ''must be lowercase SHA-256 hex'')
     @ add_if (dx_CreatedAt p = 0) (NewValidationError ''createdAt'' ''required'' ''is required'')"

definition NewDelivery :: "DeliveryParams \<Rightarrow> Delivery result" where
  "NewDelivery p =
     reject_if (delivery_errors p \<noteq> []) (ValidationErrs (delivery_errors p))
       (Inr \<lparr>dv_DeliveryID = dx_DeliveryID p, dv_SellerID = dx_SellerID p, dv_SubscriptionID = dx_SubscriptionID p,
             dv_Event = dx_Event p, dv_PayloadHash = dx_PayloadHash p, dv_Status = DeliveryStatusPending,
             dv_AttemptCount = 0, dv_NextAttemptAt = Some (dx_CreatedAt p), dv_LastAttemptAt = None,
             dv_DeliveredAt = None, dv_ResponseStatusCode = None, dv_ResponseBodyHash = None, dv_ErrorCode = None,
             dv_CreatedAt = dx_CreatedAt p, dv_UpdatedAt = dx_CreatedAt p, dv_Version = 1\<rparr>)"

definition canAttempt :: "Delivery \<Rightarrow> instant \<Rightarrow> bool" where
  "canAttempt d attemptedAt \<longleftrightarrow>
     (dv_Status d = DeliveryStatusPending \<or> dv_Status d = DeliveryStatusRetryScheduled)
     \<and> (case dv_NextAttemptAt d of None \<Rightarrow> False | Some due \<Rightarrow> \<not> Timestamp_Before attemptedAt due)"

fun validDeliveryFailureCode :: "DeliveryFailureCode \<Rightarrow> bool" where
  "validDeliveryFailureCode (DeliveryFailureOther _) = False"
| "validDeliveryFailureCode _ = True"

definition optional_text :: "string \<Rightarrow> string option" where
  "optional_text s = (if s = [] then None else Some s)"

definition RecordSuccess :: "Delivery \<Rightarrow> instant \<Rightarrow> int \<Rightarrow> string \<Rightarrow> Delivery result" where
  "RecordSuccess d attemptedAt statusCode responseBodyHash =
     reject_if (\<not> canAttempt d attemptedAt \<or> statusCode < 200 \<or> statusCode \<ge> 300) ErrDeliveryConflict
    (reject_if (responseBodyHash \<noteq> [] \<and> \<not> sha256HexPattern responseBodyHash)
       (validation ''responseBodyHash'' ''sha256'' ''must be lowercase SHA-256 hex'')
       (Inr (d\<lparr>dv_AttemptCount := dv_AttemptCount d + 1, dv_Status := DeliveryStatusDelivered,
               dv_NextAttemptAt := None, dv_LastAttemptAt := Some attemptedAt, dv_DeliveredAt := Some attemptedAt,
               dv_ResponseStatusCode := Some statusCode, dv_ResponseBodyHash := optional_text responseBodyHash,
               dv_ErrorCode := None, dv_UpdatedAt := attemptedAt, dv_Version := dv_Version d + 1\<rparr>)))"

text \<open>The index of the delay is unsigned and is checked against the bounds of the slice.\<close>

definition RecordFailure ::
  "Delivery \<Rightarrow> instant \<Rightarrow> DeliveryFailureCode \<Rightarrow> int \<Rightarrow> string \<Rightarrow> Delivery result" where
  "RecordFailure d attemptedAt errorCode statusCode responseBodyHash =
     reject_if (\<not> canAttempt d attemptedAt \<or> \<not> validDeliveryFailureCode errorCode) ErrDeliveryConflict
    (reject_if (responseBodyHash \<noteq> [] \<and> \<not> sha256HexPattern responseBodyHash)
       (validation ''responseBodyHash'' ''sha256'' ''must be lowercase SHA-256 hex'')
    (let n = dv_AttemptCount d + 1;
         failed = d\<lparr>dv_AttemptCount := n, dv_LastAttemptAt := Some attemptedAt,
           dv_ResponseStatusCode := (if statusCode = 0 then None else Some statusCode),
           dv_ResponseBodyHash := optional_text responseBodyHash, dv_ErrorCode := Some errorCode,
           dv_UpdatedAt := attemptedAt, dv_Version := dv_Version d + 1\<rparr>
     in if errorCode = DeliveryFailurePermanentResponse \<or> errorCode = DeliveryFailureForbiddenTarget
           \<or> errorCode = DeliveryFailureResponseTooLarge \<or> n \<ge> maximumAutomaticDeliveryAttempts
        then Inr (failed\<lparr>dv_Status := DeliveryStatusDeadLetter, dv_NextAttemptAt := None\<rparr>)
        else if unat (n - 1) < length automaticRetryDelays
        then Inr (failed\<lparr>dv_Status := DeliveryStatusRetryScheduled,
               dv_NextAttemptAt := Some (Timestamp_Add attemptedAt (automaticRetryDelays ! unat (n - 1)))\<rparr>)
        else Inl (Panic ''index out of range'')))"

definition ScheduleRedelivery :: "Delivery \<Rightarrow> instant \<Rightarrow> Delivery result" where
  "ScheduleRedelivery d scheduledAt =
     reject_if (dv_Status d \<noteq> DeliveryStatusDeadLetter \<or> Timestamp_Before scheduledAt (dv_UpdatedAt d)) ErrDeliveryConflict
       (Inr (d\<lparr>dv_Status := DeliveryStatusPending, dv_NextAttemptAt := Some scheduledAt,
               dv_ResponseStatusCode := None, dv_ResponseBodyHash := None, dv_ErrorCode := None,
               dv_UpdatedAt := scheduledAt, dv_Version := dv_Version d + 1\<rparr>))"

fun validDeliveryStatus :: "DeliveryStatus \<Rightarrow> bool" where
  "validDeliveryStatus (DeliveryStatusOther _) = False"
| "validDeliveryStatus _ = True"

definition delivery_params :: "Delivery \<Rightarrow> DeliveryParams" where
  "delivery_params d =
     \<lparr>dx_DeliveryID = dv_DeliveryID d, dx_SellerID = dv_SellerID d, dx_SubscriptionID = dv_SubscriptionID d,
      dx_Event = dv_Event d, dx_PayloadHash = dv_PayloadHash d, dx_CreatedAt = dv_CreatedAt d\<rparr>"

definition RestoreDelivery :: "Delivery \<Rightarrow> Delivery result" where
  "RestoreDelivery s =
     rbind (NewDelivery (delivery_params s)) (\<lambda>d.
     reject_if (\<not> validDeliveryStatus (dv_Status s)
         \<or> dv_AttemptCount s > maximumAutomaticDeliveryAttempts \<and> dv_Status s \<noteq> DeliveryStatusPending
         \<or> dv_Version s = 0 \<or> dv_UpdatedAt s = 0)
       (validation ''delivery'' ''persistence'' ''stored webhook delivery is invalid'')
       (Inr (d\<lparr>dv_Status := dv_Status s, dv_AttemptCount := dv_AttemptCount s, dv_NextAttemptAt := dv_NextAttemptAt s,
               dv_LastAttemptAt := dv_LastAttemptAt s, dv_DeliveredAt := dv_DeliveredAt s,
               dv_ResponseStatusCode := dv_ResponseStatusCode s, dv_ResponseBodyHash := dv_ResponseBodyHash s,
               dv_ErrorCode := dv_ErrorCode s, dv_UpdatedAt := dv_UpdatedAt s, dv_Version := dv_Version s\<rparr>)))"

section \<open>The delivery repository\<close>

text \<open>The map of the deliveries as an association list in the order of insertion.\<close>

record WebhookDeliveryRepository =
  vr_deliveries :: "(ID \<times> Delivery) list"
  vr_identities :: "string \<rightharpoonup> ID"

definition NewWebhookDeliveryRepository :: WebhookDeliveryRepository where
  "NewWebhookDeliveryRepository = \<lparr>vr_deliveries = [], vr_identities = Map.empty\<rparr>"

definition memoryWebhookDeliveryIdentity :: "ID \<Rightarrow> ID \<Rightarrow> string" where
  "memoryWebhookDeliveryIdentity subscriptionID eventID = subscriptionID @ [CHR 0x00] @ eventID"

definition delivery_identity :: "Delivery \<Rightarrow> string" where
  "delivery_identity d = memoryWebhookDeliveryIdentity (dv_SubscriptionID d) (we_EventID (dv_Event d))"

text \<open>What a map yields for a key it does not hold.\<close>

definition zero_delivery :: Delivery where
  "zero_delivery =
     \<lparr>dv_DeliveryID = [], dv_SellerID = [], dv_SubscriptionID = [],
      dv_Event = \<lparr>we_SchemaVersion = [], we_EventID = [], we_SellerID = [], we_EventType = HookEventOther [],
        we_OccurredAt = 0, we_Payload = None\<rparr>,
      dv_PayloadHash = [], dv_Status = DeliveryStatusOther [], dv_AttemptCount = 0, dv_NextAttemptAt = None,
      dv_LastAttemptAt = None, dv_DeliveredAt = None, dv_ResponseStatusCode = None, dv_ResponseBodyHash = None,
      dv_ErrorCode = None, dv_CreatedAt = 0, dv_UpdatedAt = 0, dv_Version = 0\<rparr>"

definition stored_delivery :: "WebhookDeliveryRepository \<Rightarrow> ID \<Rightarrow> Delivery option" where
  "stored_delivery r k = map_of (vr_deliveries r) k"

definition put_delivery :: "WebhookDeliveryRepository \<Rightarrow> Delivery \<Rightarrow> WebhookDeliveryRepository" where
  "put_delivery r d = r\<lparr>vr_deliveries := AList.update (dv_DeliveryID d) d (vr_deliveries r)\<rparr>"

definition Delivery_CreateIfAbsent ::
  "WebhookDeliveryRepository \<Rightarrow> Delivery \<Rightarrow> (Delivery \<times> bool \<times> WebhookDeliveryRepository) result" where
  "Delivery_CreateIfAbsent r d =
     (case vr_identities r (delivery_identity d) of
        Some k \<Rightarrow>
          rbind (RestoreDelivery (case stored_delivery r k of None \<Rightarrow> zero_delivery | Some s \<Rightarrow> s)) (\<lambda>s. Inr (s, False, r))
      | None \<Rightarrow>
          reject_if (stored_delivery r (dv_DeliveryID d) \<noteq> None) ErrAlreadyExists
            (Inr (d, True, (put_delivery r d)
               \<lparr>vr_identities := (vr_identities r)(delivery_identity d \<mapsto> dv_DeliveryID d)\<rparr>)))"

definition Delivery_Get :: "WebhookDeliveryRepository \<Rightarrow> ID \<Rightarrow> ID \<Rightarrow> Delivery result" where
  "Delivery_Get r sellerID k =
     (case stored_delivery r k of
        None \<Rightarrow> Inl ErrDeliveryNotFound
      | Some s \<Rightarrow> reject_if (dv_SellerID s \<noteq> sellerID) ErrDeliveryNotFound (RestoreDelivery s))"

definition Delivery_Update :: "WebhookDeliveryRepository \<Rightarrow> Delivery \<Rightarrow> u64 \<Rightarrow> WebhookDeliveryRepository result" where
  "Delivery_Update r d expectedVersion =
     (case stored_delivery r (dv_DeliveryID d) of
        None \<Rightarrow> Inl ErrNotFound
      | Some stored \<Rightarrow>
          reject_if (dv_Version stored \<noteq> expectedVersion \<or> dv_Version d \<noteq> expectedVersion + 1) ErrConditionFailed
            (Inr (put_delivery r d)))"

fun restore_deliveries :: "Delivery list \<Rightarrow> Delivery list result" where
  "restore_deliveries [] = Inr []"
| "restore_deliveries (s # ss) =
     rbind (RestoreDelivery s) (\<lambda>d. rbind (restore_deliveries ss) (\<lambda>ds. Inr (d # ds)))"

text \<open>Newest first, and of deliveries created at one instant the one with the greater identifier.\<close>

definition newest_deliveries :: "Delivery list \<Rightarrow> Delivery list" where
  "newest_deliveries ds = rev (sort_key dv_CreatedAt (sort_key dv_DeliveryID ds))"

fun delivery_position :: "ID \<Rightarrow> Delivery list \<Rightarrow> nat option" where
  "delivery_position k [] = None"
| "delivery_position k (d # ds) = (if dv_DeliveryID d = k then Some 1 else map_option Suc (delivery_position k ds))"

definition memoryDeliveryPageStart :: "(string \<Rightarrow> bool) \<Rightarrow> Delivery list \<Rightarrow> string \<Rightarrow> nat result" where
  "memoryDeliveryPageStart ulid ds cursor =
     (if cursor = [] then Inr 0
      else case ParseID ulid cursor WebhookDeliveryIDPrefix of
          Inl _ \<Rightarrow> Inl (validation ''cursor'' ''format'' ''must identify a webhook delivery'')
        | Inr k \<Rightarrow>
            (case delivery_position k ds of
               None \<Rightarrow> Inl (validation ''cursor'' ''scope'' ''does not belong to this seller'')
             | Some start \<Rightarrow> Inr start))"

definition Delivery_ListBySeller ::
  "(string \<Rightarrow> bool) \<Rightarrow> WebhookDeliveryRepository \<Rightarrow> ID \<Rightarrow> nat \<Rightarrow> string \<Rightarrow> (Delivery list \<times> string option) result" where
  "Delivery_ListBySeller ulid r sellerID limit cursor =
     rbind (restore_deliveries (filter (\<lambda>d. dv_SellerID d = sellerID) (map snd (vr_deliveries r)))) (\<lambda>ds.
     let matching = newest_deliveries ds
     in rbind (memoryDeliveryPageStart ulid matching cursor) (\<lambda>start.
        let stop = min (start + limit) (length matching);
            page = take (stop - start) (drop start matching)
        in Inr (page, if stop < length matching \<and> page \<noteq> [] then Some (dv_DeliveryID (last page)) else None)))"

section \<open>The delivery service\<close>

record delivery_state =
  ns_deliveries :: WebhookDeliveryRepository
  ns_subscriptions :: WebhookSubscriptionRepository
  ns_secrets :: "string \<rightharpoonup> string"
  ns_quotas :: QuotaCounterRepository
  ns_sent :: "http_request list"

text \<open>
  \<open>nk_quota\<close> is the optional quota enforcer by its resolver of plans and its readings of the clock, two for a
  unit; \<open>nk_clock\<close> the readings of the service and then the signer; \<open>nk_newID\<close> what the generator answers in
  turn; \<open>nk_getFails\<close> a failure of the secret provider.
\<close>

record delivery_call =
  nk_library :: network_library
  nk_ulid :: "string \<Rightarrow> bool"
  nk_authorize :: "string \<Rightarrow> ID \<Rightarrow> unit result"
  nk_quota :: "((ID \<Rightarrow> SellerPlanResponse result) \<times> (nat \<Rightarrow> instant)) option"
  nk_newID :: "nat \<Rightarrow> ID result"
  nk_clock :: "nat \<Rightarrow> instant"
  nk_getFails :: "go_error option"
  nk_lookup :: "string \<Rightarrow> IPClass option list result"
  nk_client :: "(http_request \<Rightarrow> http_outcome) option"

record DeliveryPage =
  dg_Items :: "DeliveryView list"
  dg_NextCursor :: "string option"

definition subscriptionIncludesEvent :: "Subscription \<Rightarrow> HookEventType \<Rightarrow> bool" where
  "subscriptionIncludesEvent s t \<longleftrightarrow> list_ex (\<lambda>u. u = t) (ws_EventTypes s)"

definition delivery_source :: "Subscription \<Rightarrow> WebhookEvent \<Rightarrow> string" where
  "delivery_source s e = ws_SubscriptionID s @ '':'' @ we_EventID e"

definition creating :: "Delivery \<Rightarrow> (delivery_state, DeliveryView) action" where
  "creating d =
     (\<lambda>w. case Delivery_CreateIfAbsent (ns_deliveries w) d of
         Inl err \<Rightarrow> (Inl err, w)
       | Inr (stored, _, r) \<Rightarrow> (Inr (deliveryView stored), w\<lparr>ns_deliveries := r\<rparr>))"

definition enqueue_delivery ::
  "delivery_call \<Rightarrow> WebhookEvent \<Rightarrow> string \<Rightarrow> nat \<Rightarrow> Subscription \<Rightarrow> (delivery_state, DeliveryView) action" where
  "enqueue_delivery c e payloadHash n s =
     abind (case nk_quota c of
         None \<Rightarrow> pure (Inr ())
       | Some (resolver, reading_at) \<Rightarrow>
           writing (\<lambda>w. ConsumeWebhookDelivery resolver (reading_at (2 * n)) (reading_at (2 * n + 1)) (ns_quotas w)
             (we_SellerID e) (delivery_source s e)) (\<lambda>q w. w\<lparr>ns_quotas := q\<rparr>)) (\<lambda>_.
     abind (pure (nk_newID c n)) (\<lambda>k.
     abind (pure (NewDelivery
         \<lparr>dx_DeliveryID = k, dx_SellerID = we_SellerID e, dx_SubscriptionID = ws_SubscriptionID s, dx_Event = e,
          dx_PayloadHash = payloadHash, dx_CreatedAt = nk_clock c 0\<rparr>)) creating))"

fun enqueue_deliveries ::
  "delivery_call \<Rightarrow> WebhookEvent \<Rightarrow> string \<Rightarrow> nat \<Rightarrow> Subscription list \<Rightarrow> (delivery_state, DeliveryView list) action" where
  "enqueue_deliveries c e payloadHash n [] = pure (Inr [])"
| "enqueue_deliveries c e payloadHash n (s # ss) =
     (if ws_Status s \<noteq> SubscriptionStatusActive \<or> \<not> subscriptionIncludesEvent s (we_EventType e)
      then enqueue_deliveries c e payloadHash n ss
      else abind (enqueue_delivery c e payloadHash n s) (\<lambda>v.
           abind (enqueue_deliveries c e payloadHash (n + 1) ss) (\<lambda>vs. pure (Inr (v # vs)))))"

definition Delivery_Enqueue :: "delivery_call \<Rightarrow> WebhookEvent \<Rightarrow> (delivery_state, DeliveryView list) action" where
  "Delivery_Enqueue c e =
     abind (pure (CanonicalEventBody (nk_library c) e)) (\<lambda>body.
     abind (reading (\<lambda>w. Sub_ListBySeller (nk_library c) (ns_subscriptions w) (we_SellerID e))) (\<lambda>ss.
     enqueue_deliveries c e (hex_encode (Sum256 body)) 0 ss))"

fun deliveryFailureForError :: "go_error \<Rightarrow> DeliveryFailureCode" where
  "deliveryFailureForError e =
     (if e = ErrWebhookForbiddenTarget \<or> e = ErrWebhookRedirectForbidden then DeliveryFailureForbiddenTarget
      else if e = ErrWebhookTimeout then DeliveryFailureTimeout
      else if e = ErrWebhookResponseTooLarge then DeliveryFailureResponseTooLarge
      else DeliveryFailureUnavailable)"

definition retryableWebhookStatus :: "int \<Rightarrow> bool" where
  "retryableWebhookStatus statusCode \<longleftrightarrow>
     statusCode = 408 \<or> statusCode = 425 \<or> statusCode = 429 \<or> statusCode \<ge> 500"

fun recordDeliveryAttempt :: "Delivery \<Rightarrow> instant \<Rightarrow> WebhookSendResult result \<Rightarrow> Delivery result" where
  "recordDeliveryAttempt d attemptedAt (Inl sendErr) =
     RecordFailure d attemptedAt (deliveryFailureForError sendErr) 0 []"
| "recordDeliveryAttempt d attemptedAt (Inr res) =
     (if 200 \<le> sr_StatusCode res \<and> sr_StatusCode res < 300
      then RecordSuccess d attemptedAt (sr_StatusCode res) (sr_ResponseBodyHash res)
      else RecordFailure d attemptedAt
        (if retryableWebhookStatus (sr_StatusCode res) then DeliveryFailureRetryableResponse
         else DeliveryFailurePermanentResponse)
        (sr_StatusCode res) (sr_ResponseBodyHash res))"

definition secret_answer :: "delivery_call \<Rightarrow> delivery_state \<Rightarrow> string \<Rightarrow> string result" where
  "secret_answer c w ref =
     (case nk_getFails c of
        Some err \<Rightarrow> Inl err
      | None \<Rightarrow> (case ns_secrets w ref of None \<Rightarrow> Inl ErrSigningUnavailable | Some key \<Rightarrow> Inr key))"

text \<open>A failed request is an outcome that is recorded, not an error of the attempt.\<close>

definition sending ::
  "delivery_call \<Rightarrow> string \<Rightarrow> SignedEvent \<Rightarrow> (delivery_state, WebhookSendResult result) action" where
  "sending c endpointURL e =
     (\<lambda>w. case Webhook_Send (nk_library c) (nk_lookup c) (nk_client c) endpointURL e (ns_sent w) of
        (outcome, sent) \<Rightarrow> (Inr outcome, w\<lparr>ns_sent := sent\<rparr>))"

definition attempting :: "delivery_call \<Rightarrow> ID \<Rightarrow> Delivery \<Rightarrow> (delivery_state, DeliveryView) action" where
  "attempting c sellerID d =
     abind (reading (\<lambda>w. Sub_Get (nk_library c) (ns_subscriptions w) sellerID (dv_SubscriptionID d))) (\<lambda>s.
     abind (reading (\<lambda>w. Webhook_Sign (nk_library c) (secret_answer c w (ws_SecretRef s)) (nk_clock c 1) (dv_Event d))) (\<lambda>e.
     abind (sending c (ws_EndpointURL s) e) (\<lambda>outcome.
     abind (pure (recordDeliveryAttempt d (nk_clock c 0) outcome)) (\<lambda>d'.
     abind (writing (\<lambda>w. Delivery_Update (ns_deliveries w) d' (dv_Version d)) (\<lambda>r w. w\<lparr>ns_deliveries := r\<rparr>)) (\<lambda>_.
     pure (Inr (deliveryView d')))))))"

definition Delivery_Attempt :: "delivery_call \<Rightarrow> ID \<Rightarrow> ID \<Rightarrow> (delivery_state, DeliveryView) action" where
  "Delivery_Attempt c sellerID k =
     abind (reading (\<lambda>w. Delivery_Get (ns_deliveries w) sellerID k)) (\<lambda>d.
     guard (\<not> canAttempt d (nk_clock c 0)) ErrDeliveryConflict (attempting c sellerID d))"

definition Delivery_List ::
  "delivery_call \<Rightarrow> delivery_state \<Rightarrow> string \<Rightarrow> ID \<Rightarrow> int \<Rightarrow> string \<Rightarrow> DeliveryPage result" where
  "Delivery_List c w ownerSubject sellerID requested cursor =
     rbind (nk_authorize c ownerSubject sellerID) (\<lambda>_.
     let limit = if requested = 0 then 50 else requested
     in reject_if (limit < 1 \<or> limit > 100) (validation ''limit'' ''range'' ''must be between 1 and 100'')
          (rbind (Delivery_ListBySeller (nk_ulid c) (ns_deliveries w) sellerID (nat limit) (TrimSpace cursor)) (\<lambda>(ds, nextCursor).
           Inr \<lparr>dg_Items = map deliveryView ds, dg_NextCursor = nextCursor\<rparr>)))"

definition Delivery_Redeliver :: "delivery_call \<Rightarrow> string \<Rightarrow> ID \<Rightarrow> ID \<Rightarrow> (delivery_state, DeliveryView) action" where
  "Delivery_Redeliver c ownerSubject sellerID k =
     abind (pure (nk_authorize c ownerSubject sellerID)) (\<lambda>_.
     abind (reading (\<lambda>w. Delivery_Get (ns_deliveries w) sellerID k)) (\<lambda>d.
     abind (pure (ScheduleRedelivery d (nk_clock c 0))) (\<lambda>d'.
     abind (writing (\<lambda>w. Delivery_Update (ns_deliveries w) d' (dv_Version d)) (\<lambda>r w. w\<lparr>ns_deliveries := r\<rparr>)) (\<lambda>_.
     pure (Inr (deliveryView d'))))))"

section \<open>Restoring\<close>

definition readable :: "Delivery \<Rightarrow> bool" where
  "readable d \<longleftrightarrow> delivery_errors (delivery_params d) = [] \<and> validDeliveryStatus (dv_Status d)
     \<and> \<not> (dv_AttemptCount d > maximumAutomaticDeliveryAttempts \<and> dv_Status d \<noteq> DeliveryStatusPending)
     \<and> dv_Version d \<noteq> 0 \<and> dv_UpdatedAt d \<noteq> 0"

lemma RestoreDelivery_ok: "RestoreDelivery s = Inr d \<longleftrightarrow> readable s \<and> d = s"
  by (cases s) (auto simp: RestoreDelivery_def NewDelivery_def delivery_params_def readable_def result_simps)

lemma RestoreDelivery_exhausted:
  assumes "delivery_errors (delivery_params s) = []" "dv_AttemptCount s > maximumAutomaticDeliveryAttempts"
    "dv_Status s \<noteq> DeliveryStatusPending"
  shows "RestoreDelivery s = Inl (validation ''delivery'' ''persistence'' ''stored webhook delivery is invalid'')"
  using assms by (simp add: RestoreDelivery_def NewDelivery_def result_simps)

lemma stored_put [simp]:
  "stored_delivery (put_delivery r d) = (stored_delivery r)(dv_DeliveryID d \<mapsto> d)"
  "vr_identities (put_delivery r d) = vr_identities r"
  by (simp_all add: stored_delivery_def put_delivery_def update_conv' fun_eq_iff)

lemma stored_with_identities [simp]: "stored_delivery (r\<lparr>vr_identities := x\<rparr>) = stored_delivery r"
  by (simp add: stored_delivery_def fun_eq_iff)

lemma Delivery_Get_ok:
  "Delivery_Get r sellerID k = Inr d \<longleftrightarrow> stored_delivery r k = Some d \<and> dv_SellerID d = sellerID \<and> readable d"
  by (auto simp: Delivery_Get_def RestoreDelivery_ok result_simps split: option.split)

lemma Delivery_Update_ok:
  "Delivery_Update r d v = Inr r' \<longleftrightarrow>
     (\<exists>s. stored_delivery r (dv_DeliveryID d) = Some s \<and> dv_Version s = v) \<and> dv_Version d = v + 1 \<and> r' = put_delivery r d"
  by (auto simp: Delivery_Update_def result_simps split: option.split)

section \<open>The life of a delivery\<close>

text \<open>What a delivery is made from does not change.\<close>

definition same_delivery :: "Delivery \<Rightarrow> Delivery \<Rightarrow> bool" where
  "same_delivery d d' \<longleftrightarrow> delivery_params d' = delivery_params d"

text \<open>
  A change is an attempt that was due, in place of a pending or scheduled delivery and one more in the count,
  or a redelivery of a dead letter, which keeps the count.
\<close>

definition delivery_next :: "Delivery \<Rightarrow> Delivery \<Rightarrow> bool" where
  "delivery_next d d' \<longleftrightarrow> same_delivery d d' \<and> dv_UpdatedAt d \<le> dv_UpdatedAt d'
     \<and> (canAttempt d (dv_UpdatedAt d') \<and> dv_LastAttemptAt d' = Some (dv_UpdatedAt d')
          \<and> unat (dv_AttemptCount d') = unat (dv_AttemptCount d) + 1 \<and> dv_Status d' \<noteq> DeliveryStatusPending
        \<or> dv_Status d = DeliveryStatusDeadLetter \<and> dv_Status d' = DeliveryStatusPending
          \<and> dv_AttemptCount d' = dv_AttemptCount d)"

fun temporary :: "DeliveryFailureCode \<Rightarrow> bool" where
  "temporary DeliveryFailureTimeout = True"
| "temporary DeliveryFailureUnavailable = True"
| "temporary DeliveryFailureRetryableResponse = True"
| "temporary _ = False"

definition wf_delivery :: "Delivery \<Rightarrow> bool" where
  "wf_delivery d \<longleftrightarrow> delivery_errors (delivery_params d) = [] \<and> unat (dv_AttemptCount d) \<le> 6
     \<and> (case dv_Status d of
          DeliveryStatusPending \<Rightarrow> dv_NextAttemptAt d = Some (dv_UpdatedAt d) \<and> dv_ErrorCode d = None
            \<and> unat (dv_AttemptCount d) \<le> 5
        | DeliveryStatusRetryScheduled \<Rightarrow> \<exists>code. dv_ErrorCode d = Some code \<and> temporary code
            \<and> 1 \<le> unat (dv_AttemptCount d) \<and> unat (dv_AttemptCount d) \<le> 4
            \<and> dv_NextAttemptAt d = Some (dv_UpdatedAt d + automaticRetryDelays ! (unat (dv_AttemptCount d) - 1))
        | DeliveryStatusDelivered \<Rightarrow> dv_NextAttemptAt d = None \<and> dv_ErrorCode d = None
            \<and> dv_DeliveredAt d = Some (dv_UpdatedAt d)
            \<and> (\<exists>status. dv_ResponseStatusCode d = Some status \<and> 200 \<le> status \<and> status < 300)
        | DeliveryStatusDeadLetter \<Rightarrow> dv_NextAttemptAt d = None
            \<and> (\<exists>code. dv_ErrorCode d = Some code \<and> (temporary code \<longrightarrow> 5 \<le> unat (dv_AttemptCount d)))
        | DeliveryStatusOther _ \<Rightarrow> False)"

lemma canAttempt_due:
  assumes "wf_delivery d" "canAttempt d t"
  shows "dv_UpdatedAt d \<le> t" "unat (dv_AttemptCount d) \<le> 5" "delivery_errors (delivery_params d) = []"
proof -
  have "\<forall>x \<in> set automaticRetryDelays. 0 \<le> x" "length automaticRetryDelays = 4"
    by (simp_all add: automaticRetryDelays_def)
  then have "0 \<le> automaticRetryDelays ! i" if "i < 4" for i
    using that by (metis nth_mem)
  then have delay: "0 \<le> automaticRetryDelays ! (unat (dv_AttemptCount d) - 1)" if "unat (dv_AttemptCount d) \<le> 4" "1 \<le> unat (dv_AttemptCount d)"
    using that by simp
  show "dv_UpdatedAt d \<le> t"
    using assms delay by (cases "dv_Status d") (force simp: wf_delivery_def canAttempt_def Timestamp_Before_def)+
  show "unat (dv_AttemptCount d) \<le> 5" "delivery_errors (delivery_params d) = []"
    using assms by (auto simp: wf_delivery_def canAttempt_def)
qed

lemma count_succ:
  fixes n :: u32
  assumes "unat n \<le> 5"
  shows "unat (n + 1) = unat n + 1" "unat (n + 1 - 1) = unat n" "n + 1 \<ge> 5 \<longleftrightarrow> 4 \<le> unat n"
  using assms unat_word_ariths(1) [of n 1] by (simp_all add: word_le_nat_alt)

lemma RecordSuccess_wf:
  assumes "wf_delivery d" "RecordSuccess d t status hash = Inr d'"
  shows "wf_delivery d'" "delivery_next d d'" "dv_Version d' = dv_Version d + 1" "dv_UpdatedAt d' = t"
proof -
  have due: "canAttempt d t"
    using assms(2) by (simp add: RecordSuccess_def result_simps)
  note facts = canAttempt_due [OF assms(1) due]
  show "wf_delivery d'" "delivery_next d d'" "dv_Version d' = dv_Version d + 1" "dv_UpdatedAt d' = t"
    using assms(2) facts count_succ [OF facts(2)] due
    by (auto simp: RecordSuccess_def result_simps wf_delivery_def delivery_next_def same_delivery_def delivery_params_def)
qed

text \<open>The fields a recorded failure has.\<close>

definition given_up :: "Delivery \<Rightarrow> DeliveryFailureCode \<Rightarrow> bool" where
  "given_up d code \<longleftrightarrow> \<not> temporary code \<or> dv_AttemptCount d + 1 \<ge> maximumAutomaticDeliveryAttempts"

lemma valid_code_cases:
  "validDeliveryFailureCode code \<Longrightarrow> (code = DeliveryFailurePermanentResponse \<or> code = DeliveryFailureForbiddenTarget
     \<or> code = DeliveryFailureResponseTooLarge) \<longleftrightarrow> \<not> temporary code"
  by (cases code) simp_all

lemma RecordFailure_fields:
  assumes "RecordFailure d t code status hash = Inr d'"
  shows "canAttempt d t" "delivery_params d' = delivery_params d" "dv_Version d' = dv_Version d + 1"
    "dv_AttemptCount d' = dv_AttemptCount d + 1" "dv_UpdatedAt d' = t" "dv_LastAttemptAt d' = Some t"
    "dv_ErrorCode d' = Some code"
    "given_up d code \<Longrightarrow> dv_Status d' = DeliveryStatusDeadLetter \<and> dv_NextAttemptAt d' = None"
    "\<not> given_up d code \<Longrightarrow> dv_Status d' = DeliveryStatusRetryScheduled
      \<and> dv_NextAttemptAt d' = Some (t + automaticRetryDelays ! unat (dv_AttemptCount d + 1 - 1))"
proof -
  have valid: "canAttempt d t" "validDeliveryFailureCode code"
    using assms by (simp_all add: RecordFailure_def result_simps)
  show "canAttempt d t" by (rule valid)
  have "code = DeliveryFailurePermanentResponse \<or> code = DeliveryFailureForbiddenTarget
      \<or> code = DeliveryFailureResponseTooLarge \<or> dv_AttemptCount d + 1 \<ge> 5 \<longleftrightarrow> given_up d code"
    using valid_code_cases [OF valid(2)] unfolding given_up_def by blast
  note run = assms [unfolded RecordFailure_def Let_def this]
  show "delivery_params d' = delivery_params d" "dv_Version d' = dv_Version d + 1"
    "dv_AttemptCount d' = dv_AttemptCount d + 1" "dv_UpdatedAt d' = t" "dv_LastAttemptAt d' = Some t"
    "dv_ErrorCode d' = Some code"
    using run by (auto simp: result_simps delivery_params_def split: if_split_asm)
  show "dv_Status d' = DeliveryStatusDeadLetter \<and> dv_NextAttemptAt d' = None" if "given_up d code"
    using run that by (clarsimp simp: result_simps)
  show "dv_Status d' = DeliveryStatusRetryScheduled
      \<and> dv_NextAttemptAt d' = Some (t + automaticRetryDelays ! unat (dv_AttemptCount d + 1 - 1))" if "\<not> given_up d code"
    using run that by (clarsimp simp: result_simps Timestamp_Add_def split: if_split_asm)
qed

lemma RecordFailure_wf:
  assumes "wf_delivery d" "RecordFailure d t code status hash = Inr d'"
  shows "wf_delivery d'" "delivery_next d d'" "dv_Version d' = dv_Version d + 1" "dv_UpdatedAt d' = t"
proof -
  note new = RecordFailure_fields [OF assms(2)]
  note old = canAttempt_due [OF assms(1) new(1)]
  note count = count_succ [OF old(2)]
  show "dv_Version d' = dv_Version d + 1" "dv_UpdatedAt d' = t"
    by (rule new(3), rule new(5))
  have dead: "temporary code \<longrightarrow> 4 \<le> unat (dv_AttemptCount d)" if "given_up d code"
    using that count by (auto simp: given_up_def)
  have retry: "temporary code" "unat (dv_AttemptCount d) \<le> 3" if "\<not> given_up d code"
    using that count by (auto simp: given_up_def)
  show "wf_delivery d'"
    using new(2,4-7) new(8,9) dead retry old(2,3) count(1,2)
    by (cases "given_up d code") (simp_all add: wf_delivery_def)
  show "delivery_next d d'"
    using new(1,2,4-6) new(8,9) old(1) count(1)
    by (cases "given_up d code") (simp_all add: delivery_next_def same_delivery_def)
qed

text \<open>Every outcome is recorded as a success or a failure.\<close>

lemma attempt_cases:
  assumes "recordDeliveryAttempt d t outcome = Inr d'"
  shows "(\<exists>code status hash. RecordFailure d t code status hash = Inr d')
    \<or> (\<exists>status hash. RecordSuccess d t status hash = Inr d')"
proof (cases outcome)
  case (Inl e)
  with assms show ?thesis by (simp only: recordDeliveryAttempt.simps) blast
next
  case (Inr res)
  let ?ok = "200 \<le> sr_StatusCode res \<and> sr_StatusCode res < 300"
  have run: "recordDeliveryAttempt d t outcome = Inr d'" "outcome = Inr res"
    by (rule assms, rule Inr)
  show ?thesis
  proof (cases ?ok)
    case True
    have "RecordSuccess d t (sr_StatusCode res) (sr_ResponseBodyHash res) = Inr d'"
      using run by (simp only: recordDeliveryAttempt.simps if_P [OF True])
    then show ?thesis by blast
  next
    case False
    have "\<exists>code. RecordFailure d t code (sr_StatusCode res) (sr_ResponseBodyHash res) = Inr d'"
      using run by (simp only: recordDeliveryAttempt.simps if_not_P [OF False]) (rule exI)
    then show ?thesis by blast
  qed
qed

lemma attempt_wf:
  assumes "wf_delivery d" "recordDeliveryAttempt d t outcome = Inr d'"
  shows "wf_delivery d' \<and> delivery_next d d' \<and> dv_Version d' = dv_Version d + 1"
  using attempt_cases [OF assms(2)]
  by (elim disjE exE) (intro conjI; erule RecordFailure_wf [OF assms(1)] RecordSuccess_wf [OF assms(1)])+

lemma RecordSuccess_fields:
  "RecordSuccess d t status hash = Inr d' \<Longrightarrow> delivery_params d' = delivery_params d
     \<and> dv_AttemptCount d' = dv_AttemptCount d + 1 \<and> dv_Status d' = DeliveryStatusDelivered"
  by (auto simp: RecordSuccess_def result_simps delivery_params_def)

lemma attempt_fields:
  assumes "recordDeliveryAttempt d t outcome = Inr d'"
  shows "delivery_params d' = delivery_params d \<and> dv_AttemptCount d' = dv_AttemptCount d + 1
    \<and> dv_Status d' \<noteq> DeliveryStatusPending"
  using attempt_cases [OF assms]
proof (elim disjE exE)
  fix code status hash
  assume failure: "RecordFailure d t code status hash = Inr d'"
  have "dv_Status d' \<noteq> DeliveryStatusPending"
    using RecordFailure_fields(8,9) [OF failure] by (cases "given_up d code") simp_all
  then show ?thesis
    using RecordFailure_fields(2,4) [OF failure] by simp
qed (simp add: RecordSuccess_fields)

lemma redelivery_wf:
  assumes "wf_delivery d" "readable d" "ScheduleRedelivery d t = Inr d'"
  shows "wf_delivery d' \<and> delivery_next d d' \<and> dv_Version d' = dv_Version d + 1"
  using assms
  by (auto simp: ScheduleRedelivery_def result_simps wf_delivery_def delivery_next_def same_delivery_def
      delivery_params_def readable_def Timestamp_Before_def word_le_nat_alt word_less_nat_alt)

lemma new_delivery_wf: "NewDelivery p = Inr d \<Longrightarrow> wf_delivery d \<and> dv_Version d = 1"
  by (cases p) (auto simp: NewDelivery_def result_simps wf_delivery_def delivery_params_def)

section \<open>Deliveries under concurrent workers\<close>

text \<open>
  The repository with the values it ever held for a delivery, oldest first. A worker may have read any of
  them: between its read and its write the request is sent and others may write.
\<close>

inductive delivery_reachable :: "WebhookDeliveryRepository \<times> (ID \<Rightarrow> Delivery list) \<Rightarrow> bool" where
  delivery_start: "delivery_reachable (NewWebhookDeliveryRepository, \<lambda>_. [])"
| delivery_enqueued: "\<lbrakk>delivery_reachable (r, h); NewDelivery p = Inr d; Delivery_CreateIfAbsent r d = Inr (s, True, r')\<rbrakk>
    \<Longrightarrow> delivery_reachable (r', h(dv_DeliveryID d := h (dv_DeliveryID d) @ [d]))"
| delivery_attempted: "\<lbrakk>delivery_reachable (r, h); old \<in> set (h k); recordDeliveryAttempt old t outcome = Inr d;
      Delivery_Update r d (dv_Version old) = Inr r'; length (h k) + 1 < 2 ^ 64\<rbrakk>
    \<Longrightarrow> delivery_reachable (r', h(k := h k @ [d]))"
| delivery_rescheduled: "\<lbrakk>delivery_reachable (r, h); old \<in> set (h k); readable old; ScheduleRedelivery old t = Inr d;
      Delivery_Update r d (dv_Version old) = Inr r'; length (h k) + 1 < 2 ^ 64\<rbrakk>
    \<Longrightarrow> delivery_reachable (r', h(k := h k @ [d]))"

abbreviation delivery_versions :: "ID \<Rightarrow> Delivery list \<Rightarrow> bool" where
  "delivery_versions k \<equiv> versioned dv_Version (\<lambda>d. wf_delivery d \<and> dv_DeliveryID d = k) delivery_next"

definition wf_repository :: "WebhookDeliveryRepository \<Rightarrow> (ID \<Rightarrow> Delivery list) \<Rightarrow> bool" where
  "wf_repository r h \<longleftrightarrow> (\<forall>k. stored_delivery r k = latest (h k) \<and> delivery_versions k (h k))"

definition claimed :: "WebhookDeliveryRepository \<Rightarrow> bool" where
  "claimed r \<longleftrightarrow> (\<forall>k d. stored_delivery r k = Some d \<longrightarrow> vr_identities r (delivery_identity d) = Some k)
     \<and> (\<forall>i k. vr_identities r i = Some k \<longrightarrow> stored_delivery r k \<noteq> None)"

lemma same_delivery_identity:
  assumes "same_delivery d d'"
  shows "delivery_identity d' = delivery_identity d" "dv_DeliveryID d' = dv_DeliveryID d"
  using assms by (simp_all add: same_delivery_def delivery_params_def delivery_identity_def)

lemma delivery_written:
  assumes wf: "wf_repository r h" "claimed r" and old: "old \<in> set (h k)"
    and new: "wf_delivery old \<Longrightarrow> wf_delivery d \<and> delivery_next old d \<and> dv_Version d = dv_Version old + 1"
    and update: "Delivery_Update r d (dv_Version old) = Inr r'" and bound: "length (h k) + 1 < 2 ^ 64"
  shows "wf_repository r' (h(k := h k @ [d])) \<and> claimed r'"
proof -
  have hk: "stored_delivery r k = latest (h k)" "delivery_versions k (h k)"
    using wf(1) by (simp_all add: wf_repository_def)
  have "wf_delivery old" "dv_DeliveryID old = k"
    using versioned_good [OF hk(2) old] by simp_all
  with new have d: "wf_delivery d" "delivery_next old d" "dv_Version d = dv_Version old + 1" "dv_DeliveryID d = k"
    "delivery_identity d = delivery_identity old"
    using same_delivery_identity [of old d] by (auto simp: delivery_next_def)
  have u: "\<exists>s. stored_delivery r k = Some s \<and> dv_Version s = dv_Version old" "r' = put_delivery r d"
    using update d(4) by (auto simp: Delivery_Update_ok)
  then have ne: "h k \<noteq> []" "dv_Version old = dv_Version (last (h k))"
    using hk(1) by (auto simp: latest_eq_Some)
  then have last: "old = last (h k)"
    using versioned_current [OF hk(2) old] by simp
  have "unat (dv_Version d) = length (h k) + 1"
    using version_succ [of "dv_Version old" "length (h k)"] versioned_last [OF hk(2) ne(1)] last d(3) bound by simp
  then have versions: "delivery_versions k (h k @ [d])"
    using versioned_snoc [OF hk(2)] d last by simp
  have stored: "stored_delivery r k = Some old"
    using hk(1) ne(1) last by (simp add: latest_def)
  have "wf_repository r' (h(k := h k @ [d]))"
    using wf(1) versions u(2) d(4) by (simp add: wf_repository_def)
  moreover have "claimed r'"
    using wf(2) stored u(2) d(4,5) by (auto simp: claimed_def)
  ultimately show ?thesis by simp
qed

lemma delivery_created:
  assumes "wf_repository r h" "claimed r" "NewDelivery p = Inr d" "Delivery_CreateIfAbsent r d = Inr (s, True, r')"
  shows "wf_repository r' (h(dv_DeliveryID d := h (dv_DeliveryID d) @ [d])) \<and> claimed r'"
proof -
  have free: "vr_identities r (delivery_identity d) = None" "stored_delivery r (dv_DeliveryID d) = None"
    and r': "r' = (put_delivery r d)\<lparr>vr_identities := (vr_identities r)(delivery_identity d \<mapsto> dv_DeliveryID d)\<rparr>"
    using assms(4) by (auto simp: Delivery_CreateIfAbsent_def result_simps split: option.split_asm)
  have "h (dv_DeliveryID d) = []"
    using assms(1) free(2) by (metis wf_repository_def latest_eq_None)
  moreover have "delivery_versions (dv_DeliveryID d) [d]"
    using new_delivery_wf [OF assms(3)] by (simp add: versioned_def)
  ultimately have "wf_repository r' (h(dv_DeliveryID d := h (dv_DeliveryID d) @ [d]))"
    using assms(1) by (simp add: wf_repository_def r')
  moreover have "delivery_identity d' \<noteq> delivery_identity d" if "stored_delivery r k = Some d'" for k d'
    using assms(2) free(1) that unfolding claimed_def by (metis option.distinct(1))
  then have "claimed r'"
    using assms(2) by (simp add: claimed_def r')
  ultimately show ?thesis by simp
qed

lemma delivery_invariant: "delivery_reachable s \<Longrightarrow> wf_repository (fst s) (snd s) \<and> claimed (fst s)"
proof (induction rule: delivery_reachable.induct)
  case delivery_start
  show ?case
    by (simp add: wf_repository_def claimed_def NewWebhookDeliveryRepository_def stored_delivery_def)
next
  case (delivery_enqueued r h p d s r')
  then show ?case using delivery_created [of r h p d s r'] by (simp only: fst_conv snd_conv)
next
  case (delivery_attempted r h old k t outcome d r')
  then show ?case using delivery_written [of r h old k d r'] attempt_wf [of old t outcome d] by (simp only: fst_conv snd_conv)
next
  case (delivery_rescheduled r h old k t d r')
  then show ?case using delivery_written [of r h old k d r'] redelivery_wf [of old t d] by (simp only: fst_conv snd_conv)
qed

lemma delivered_last:
  assumes "delivery_versions k xs" "i < j" "j < length xs"
  shows "dv_Status (xs ! i) \<noteq> DeliveryStatusDelivered"
proof -
  have "delivery_next (xs ! i) (xs ! Suc i)"
    using assms by (simp add: versioned_def)
  then show ?thesis by (auto simp: delivery_next_def canAttempt_def)
qed

text \<open>
  C31: A delivery lives as its state machine says, whatever the interleaving of the workers that send it.
  The versions the repository held for it count from one; each is well formed: a scheduled retry has failed
  temporarily at most four times and is due the delay of that failure later, a dead letter was refused for
  good or failed five times, and there are never more than six attempts. Each version comes from the one
  before by one attempt, that was due, or by the redelivery of a dead letter; nothing follows a success. Two
  deliveries are never for the same subscription and event.
\<close>

theorem delivery_life:
  assumes "delivery_reachable (r, h)"
  shows "(\<forall>k. stored_delivery r k = latest (h k)
      \<and> versioned dv_Version (\<lambda>d. wf_delivery d \<and> dv_DeliveryID d = k) delivery_next (h k)
      \<and> (\<forall>i j. i < j \<and> j < length (h k) \<longrightarrow> dv_Status (h k ! i) \<noteq> DeliveryStatusDelivered))
    \<and> (\<forall>k k' d d'. stored_delivery r k = Some d \<and> stored_delivery r k' = Some d'
        \<and> dv_SubscriptionID d = dv_SubscriptionID d' \<and> we_EventID (dv_Event d) = we_EventID (dv_Event d') \<longrightarrow> k = k')"
proof -
  have wf: "wf_repository r h" "claimed r"
    using delivery_invariant [OF assms] by simp_all
  have "k = k'" if "stored_delivery r k = Some d" "stored_delivery r k' = Some d'"
    "dv_SubscriptionID d = dv_SubscriptionID d'" "we_EventID (dv_Event d) = we_EventID (dv_Event d')" for k k' d d'
  proof -
    have "delivery_identity d = delivery_identity d'"
      using that(3,4) by (simp add: delivery_identity_def)
    moreover have "vr_identities r (delivery_identity d) = Some k" "vr_identities r (delivery_identity d') = Some k'"
      using wf(2) that(1,2) unfolding claimed_def by blast+
    ultimately show ?thesis by simp
  qed
  then show ?thesis
    using wf(1) delivered_last unfolding wf_repository_def by blast
qed

section \<open>The service\<close>

lemma attempt_sends:
  "sending c endpointURL e w = (res, w') \<Longrightarrow>
     ns_deliveries w' = ns_deliveries w \<and> ns_subscriptions w' = ns_subscriptions w
     \<and> (\<exists>outcome. res = Inr outcome
         \<and> Webhook_Send (nk_library c) (nk_lookup c) (nk_client c) endpointURL e (ns_sent w) = (outcome, ns_sent w'))"
  by (auto simp: sending_def split: prod.split_asm)

lemma Delivery_Attempt_ok:
  assumes "Delivery_Attempt c sellerID k w = (Inr v, w')"
  shows "\<exists>d outcome d'. stored_delivery (ns_deliveries w) k = Some d \<and> dv_SellerID d = sellerID \<and> readable d
    \<and> recordDeliveryAttempt d (nk_clock c 0) outcome = Inr d' \<and> v = deliveryView d'
    \<and> Delivery_Update (ns_deliveries w) d' (dv_Version d) = Inr (ns_deliveries w')"
  using assms
  by (clarsimp simp: Delivery_Attempt_def attempting_def action_ok Delivery_Get_ok simp del: recordDeliveryAttempt.simps
      dest!: attempt_sends) blast

lemma Delivery_Redeliver_ok:
  assumes "Delivery_Redeliver c owner sellerID k w = (Inr v, w')"
  shows "\<exists>d d'. stored_delivery (ns_deliveries w) k = Some d \<and> dv_SellerID d = sellerID \<and> readable d
    \<and> ScheduleRedelivery d (nk_clock c 0) = Inr d' \<and> v = deliveryView d'
    \<and> Delivery_Update (ns_deliveries w) d' (dv_Version d) = Inr (ns_deliveries w')"
  using assms by (clarsimp simp: Delivery_Redeliver_def action_ok Delivery_Get_ok)

lemma restore_deliveries_ok: "restore_deliveries ss = Inr ds \<Longrightarrow> list_all readable ss \<and> ds = ss"
  by (induction ss arbitrary: ds) (auto simp: result_simps RestoreDelivery_ok)

lemma unreadable_list:
  assumes "stored_delivery r k = Some d" "\<not> readable d"
  shows "\<not> is_ok (Delivery_ListBySeller ulid r (dv_SellerID d) limit cursor)"
proof -
  have "d \<in> set (filter (\<lambda>x. dv_SellerID x = dv_SellerID d) (map snd (vr_deliveries r)))"
    using assms(1) by (force simp: stored_delivery_def dest: map_of_SomeD)
  then have "restore_deliveries (filter (\<lambda>x. dv_SellerID x = dv_SellerID d) (map snd (vr_deliveries r))) \<noteq> Inr ds" for ds
    using assms(2) restore_deliveries_ok [of _ ds] by (auto simp only: list_all_iff)
  then show ?thesis
    by (cases "restore_deliveries (filter (\<lambda>x. dv_SellerID x = dv_SellerID d) (map snd (vr_deliveries r)))")
      (auto simp: Delivery_ListBySeller_def)
qed

text \<open>
  C32: A dead letter that used up its five attempts is lost once it is redelivered. The service accepts the
  redelivery, and the sixth attempt is recorded whatever its outcome; but a delivery with six attempts that
  is not pending does not pass the check of stored deliveries, so that from then on the delivery cannot be
  read, attempted or redelivered, and no page of the seller's deliveries can be listed.
\<close>

theorem exhausted_redelivery_unreadable:
  assumes "stored_delivery (ns_deliveries w) k = Some d" "dv_DeliveryID d = k" "dv_AttemptCount d = 5"
    and "Delivery_Redeliver c owner sellerID k w = (Inr redelivered, w1)"
    and "Delivery_Attempt c' sellerID k w1 = (Inr attempted, w2)"
  shows "dw_Status redelivered = DeliveryStatusPending \<and> dw_AttemptCount attempted = 6
    \<and> Delivery_Get (ns_deliveries w2) sellerID k
        = Inl (validation ''delivery'' ''persistence'' ''stored webhook delivery is invalid'')
    \<and> (\<forall>c. \<not> is_ok (fst (Delivery_Attempt c sellerID k w2)))
    \<and> (\<forall>c o'. \<not> is_ok (fst (Delivery_Redeliver c o' sellerID k w2)))
    \<and> (\<forall>ulid limit cursor. \<not> is_ok (Delivery_ListBySeller ulid (ns_deliveries w2) sellerID limit cursor))"
proof -
  obtain d1 where one: "dv_SellerID d = sellerID" "readable d" "ScheduleRedelivery d (nk_clock c 0) = Inr d1"
    "redelivered = deliveryView d1" "Delivery_Update (ns_deliveries w) d1 (dv_Version d) = Inr (ns_deliveries w1)"
    using Delivery_Redeliver_ok [OF assms(4)] assms(1) by auto
  have d1: "delivery_params d1 = delivery_params d" "dv_Status d1 = DeliveryStatusPending" "dv_AttemptCount d1 = 5"
    using one(3) assms(3) by (auto simp: ScheduleRedelivery_def result_simps delivery_params_def)
  then have "dv_DeliveryID d1 = k" "stored_delivery (ns_deliveries w1) k = Some d1"
    using one(5) assms(2) by (auto simp: Delivery_Update_ok delivery_params_def)
  then obtain outcome d2 where two: "recordDeliveryAttempt d1 (nk_clock c' 0) outcome = Inr d2" "attempted = deliveryView d2"
    "Delivery_Update (ns_deliveries w1) d2 (dv_Version d1) = Inr (ns_deliveries w2)"
    using Delivery_Attempt_ok [OF assms(5)] by auto
  have d2: "delivery_params d2 = delivery_params d" "dv_AttemptCount d2 = 6" "dv_Status d2 \<noteq> DeliveryStatusPending"
    using attempt_fields [OF two(1)] d1 by simp_all
  then have same: "dv_DeliveryID d2 = k" "dv_SellerID d2 = sellerID"
    using assms(2) one(1) by (auto simp: delivery_params_def)
  then have stored: "stored_delivery (ns_deliveries w2) k = Some d2"
    using two(3) by (auto simp: Delivery_Update_ok)
  have "delivery_errors (delivery_params d2) = []"
    using one(2) d2(1) by (simp add: readable_def)
  then have get: "Delivery_Get (ns_deliveries w2) sellerID k
      = Inl (validation ''delivery'' ''persistence'' ''stored webhook delivery is invalid'')"
    using stored same(2) d2(2,3) by (simp add: Delivery_Get_def RestoreDelivery_exhausted)
  have "\<not> readable d2"
    using d2(2,3) by (simp add: readable_def)
  then have list: "\<not> is_ok (Delivery_ListBySeller ulid (ns_deliveries w2) sellerID limit cursor)" for ulid limit cursor
    using unreadable_list [OF stored] same(2) by simp
  have "\<not> is_ok (fst (Delivery_Attempt c sellerID k w2))" for c
    by (simp add: Delivery_Attempt_def abind_run get)
  moreover have "\<not> is_ok (fst (Delivery_Redeliver c o' sellerID k w2))" for c o'
    by (cases "nk_authorize c o' sellerID") (simp_all add: Delivery_Redeliver_def abind_run get)
  ultimately show ?thesis
    using get list d1(2) d2(2) one(4) two(2) by (simp add: deliveryView_def)
qed

lemma Sub_Get_ok: "Sub_Get lib r sellerID k = Inr s \<Longrightarrow> ws_SellerID s = sellerID"
  by (auto simp: Sub_Get_def RestoreSubscription_def NewSubscription_def subscription_params_def result_simps
      split: option.split_asm)

text \<open>A request leaves the sender only for a public address.\<close>

lemma Webhook_Send_requests:
  assumes "Webhook_Send lib lookup client endpointURL e sent = (outcome, sent')"
  shows "sent' = sent \<or> (\<exists>u addresses. nl_parseURL lib endpointURL = Some u \<and> ur_Scheme u = ''https'' \<and> \<not> ur_HasUser u
    \<and> lookup (ur_Hostname u) = Inr addresses \<and> webhookAddressesArePublic addresses
    \<and> sent' = sent @ [webhook_request lib u e])"
  using assms
  by (auto simp: Webhook_Send_def attempt_run guard_run split: option.split_asm sum.split_asm if_split_asm)

lemma attempting_requests:
  assumes "attempting c sellerID d w = (res, w')"
  shows "ns_sent w' = ns_sent w \<or> (\<exists>s e u addresses. Sub_Get (nk_library c) (ns_subscriptions w) sellerID (dv_SubscriptionID d) = Inr s
    \<and> Webhook_Sign (nk_library c) (secret_answer c w (ws_SecretRef s)) (nk_clock c 1) (dv_Event d) = Inr e
    \<and> nl_parseURL (nk_library c) (ws_EndpointURL s) = Some u \<and> ur_Scheme u = ''https'' \<and> \<not> ur_HasUser u
    \<and> nk_lookup c (ur_Hostname u) = Inr addresses \<and> webhookAddressesArePublic addresses
    \<and> ns_sent w' = ns_sent w @ [webhook_request (nk_library c) u e])"
proof (cases "Sub_Get (nk_library c) (ns_subscriptions w) sellerID (dv_SubscriptionID d)")
  case Inl
  with assms show ?thesis by (simp add: attempting_def abind_run)
next
  case s: (Inr s)
  show ?thesis
  proof (cases "Webhook_Sign (nk_library c) (secret_answer c w (ws_SecretRef s)) (nk_clock c 1) (dv_Event d)")
    case Inl
    with assms s show ?thesis by (simp add: attempting_def abind_run)
  next
    case e: (Inr e)
    obtain outcome sent where send: "Webhook_Send (nk_library c) (nk_lookup c) (nk_client c) (ws_EndpointURL s) e (ns_sent w)
        = (outcome, sent)"
      by fastforce
    have "ns_sent w' = sent"
      using assms s e send
      by (auto simp: attempting_def abind_run sending_def writing_run split: sum.split_asm)
    then show ?thesis
      using s e Webhook_Send_requests [OF send] by blast
  qed
qed

text \<open>
  C30: An attempt, whether it succeeds or not, makes at most one request, and only for a delivery of its
  seller that is due: to the endpoint of the delivery's subscription, which is of the same seller, over https,
  at addresses that are all public. The body is the canonical event of the delivery, its headers carry the
  event's identity, and they verify with the secret the subscription refers to.
\<close>

theorem webhook_requests:
  assumes "Delivery_Attempt c sellerID k w = (res, w')"
    and "\<forall>d. stored_delivery (ns_deliveries w) k = Some d \<longrightarrow> list_all ascii_graph (we_EventID (dv_Event d))"
  shows "ns_sent w' = ns_sent w \<or> (\<exists>d s u e key addresses.
    stored_delivery (ns_deliveries w) k = Some d \<and> dv_SellerID d = sellerID \<and> canAttempt d (nk_clock c 0)
    \<and> Sub_Get (nk_library c) (ns_subscriptions w) sellerID (dv_SubscriptionID d) = Inr s \<and> ws_SellerID s = sellerID
    \<and> nl_parseURL (nk_library c) (ws_EndpointURL s) = Some u \<and> ur_Scheme u = ''https''
    \<and> nk_lookup c (ur_Hostname u) = Inr addresses \<and> webhookAddressesArePublic addresses
    \<and> CanonicalEventBody (nk_library c) (dv_Event d) = Inr (sg_Body e)
    \<and> hh_EventID (sg_Headers e) = we_EventID (dv_Event d)
    \<and> ns_secrets w (ws_SecretRef s) = Some key \<and> VerifyWebhookSignature key (sg_Body e) (sg_Headers e)
    \<and> ns_sent w' = ns_sent w @ [webhook_request (nk_library c) u e])"
proof (cases "ns_sent w' = ns_sent w")
  case False
  then obtain d where d: "stored_delivery (ns_deliveries w) k = Some d" "dv_SellerID d = sellerID"
    "canAttempt d (nk_clock c 0)" "attempting c sellerID d w = (res, w')"
    using assms(1)
    by (auto simp: Delivery_Attempt_def abind_run guard_run Delivery_Get_ok split: sum.split_asm if_split_asm)
  obtain s e u addresses where run: "Sub_Get (nk_library c) (ns_subscriptions w) sellerID (dv_SubscriptionID d) = Inr s"
    "Webhook_Sign (nk_library c) (secret_answer c w (ws_SecretRef s)) (nk_clock c 1) (dv_Event d) = Inr e"
    "nl_parseURL (nk_library c) (ws_EndpointURL s) = Some u" "ur_Scheme u = ''https''"
    "nk_lookup c (ur_Hostname u) = Inr addresses" "webhookAddressesArePublic addresses"
    "ns_sent w' = ns_sent w @ [webhook_request (nk_library c) u e]"
    using attempting_requests [OF d(4)] False by auto
  obtain key where key: "secret_answer c w (ws_SecretRef s) = Inr key"
    "CanonicalEventBody (nk_library c) (dv_Event d) = Inr (sg_Body e)"
    "hh_EventID (sg_Headers e) = we_EventID (dv_Event d)"
    using Webhook_Sign_Inr [OF run(2)] by auto
  then have "ns_secrets w (ws_SecretRef s) = Some key"
    by (simp add: secret_answer_def split: option.split_asm)
  moreover have "VerifyWebhookSignature key (sg_Body e) (sg_Headers e)"
    using signed_event_verifies run(2) key(1) assms(2) d(1) by simp
  ultimately show ?thesis
    using d(1-3) run key(2,3) Sub_Get_ok [OF run(1)] by blast
qed simp

text \<open>Every operation of the service takes the repository along these steps.\<close>

lemma delivery_put_reachable:
  assumes "delivery_reachable (r, h)" "stored_delivery r k = Some d" "\<forall>k. length (h k) + 1 < 2 ^ 64"
    and "recordDeliveryAttempt d t outcome = Inr d' \<or> readable d \<and> ScheduleRedelivery d t = Inr d'"
    and "Delivery_Update r d' (dv_Version d) = Inr r'"
  shows "\<exists>h'. delivery_reachable (r', h')"
proof -
  have "d \<in> set (h k)"
    using delivery_invariant [OF assms(1)] assms(2) by (auto simp: wf_repository_def latest_eq_Some)
  with assms(1,3-5) show ?thesis
    using delivery_attempted delivery_rescheduled by blast
qed

lemma Delivery_Attempt_steps:
  assumes "delivery_reachable (ns_deliveries w, h)" "\<forall>k. length (h k) + 1 < 2 ^ 64"
  shows "\<exists>h'. delivery_reachable (ns_deliveries (snd (Delivery_Attempt c sellerID k w)), h')"
proof (cases "Delivery_Attempt c sellerID k w")
  case (Pair res w')
  have "ns_deliveries w' = ns_deliveries w" if "\<not> is_ok res"
  proof -
    have "ns_deliveries (snd (sending c u e w)) = ns_deliveries w" for u e w
      by (simp add: sending_def split: prod.split)
    then show ?thesis
      using that Pair
      by (auto simp: Delivery_Attempt_def attempting_def abind_run guard_run writing_run
          simp del: recordDeliveryAttempt.simps split: sum.split_asm if_split_asm)
  qed
  moreover have "\<exists>h'. delivery_reachable (ns_deliveries w', h')" if v: "res = Inr v" for v
  proof -
    obtain d outcome d' where "stored_delivery (ns_deliveries w) k = Some d"
      "recordDeliveryAttempt d (nk_clock c 0) outcome = Inr d'"
      "Delivery_Update (ns_deliveries w) d' (dv_Version d) = Inr (ns_deliveries w')"
      using Delivery_Attempt_ok [OF Pair [unfolded v]] by blast
    then show ?thesis
      using delivery_put_reachable [OF assms(1) _ assms(2)] by blast
  qed
  ultimately show ?thesis
    using assms(1) Pair by (cases res) auto
qed

lemma Delivery_Redeliver_steps:
  assumes "delivery_reachable (ns_deliveries w, h)" "\<forall>k. length (h k) + 1 < 2 ^ 64"
  shows "\<exists>h'. delivery_reachable (ns_deliveries (snd (Delivery_Redeliver c owner sellerID k w)), h')"
proof (cases "Delivery_Redeliver c owner sellerID k w")
  case (Pair res w')
  have "ns_deliveries w' = ns_deliveries w" if "\<not> is_ok res"
    using that Pair by (auto simp: Delivery_Redeliver_def abind_run writing_run split: sum.split_asm)
  moreover have "\<exists>h'. delivery_reachable (ns_deliveries w', h')" if v: "res = Inr v" for v
  proof -
    obtain d d' where "stored_delivery (ns_deliveries w) k = Some d" "readable d"
      "ScheduleRedelivery d (nk_clock c 0) = Inr d'"
      "Delivery_Update (ns_deliveries w) d' (dv_Version d) = Inr (ns_deliveries w')"
      using Delivery_Redeliver_ok [OF Pair [unfolded v]] by blast
    then show ?thesis
      using delivery_put_reachable [OF assms(1) _ assms(2)] by blast
  qed
  ultimately show ?thesis
    using assms(1) Pair by (cases res) auto
qed

lemma creating_keeps:
  "keeps (\<lambda>w. \<exists>h. delivery_reachable (ns_deliveries w, h)) (abind (pure (NewDelivery p)) creating)"
proof -
  have "\<exists>h. delivery_reachable (ns_deliveries (snd (creating d w)), h)"
    if "NewDelivery p = Inr d" "delivery_reachable (ns_deliveries w, h)" for d w h
  proof (cases "Delivery_CreateIfAbsent (ns_deliveries w) d")
    case (Inr stored)
    obtain x created r where x: "stored = (x, created, r)"
      by (cases stored) auto
    have "r = ns_deliveries w" if "\<not> created"
      using Inr that by (auto simp: x Delivery_CreateIfAbsent_def result_simps split: option.split_asm)
    then show ?thesis
      using delivery_enqueued [OF that(2,1), of x r] that(2) Inr x by (cases created) (auto simp: creating_def)
  qed (use that in \<open>auto simp: creating_def\<close>)
  then show ?thesis
    by (cases "NewDelivery p") (auto simp: keeps_def)
qed

lemma enqueue_delivery_keeps: "keeps (\<lambda>w. \<exists>h. delivery_reachable (ns_deliveries w, h)) (enqueue_delivery c e hash n s)"
proof -
  have quota: "keeps (\<lambda>w. \<exists>h. delivery_reachable (ns_deliveries w, h))
      (case nk_quota c of None \<Rightarrow> pure (Inr ())
       | Some (resolver, reading_at) \<Rightarrow>
           writing (\<lambda>w. ConsumeWebhookDelivery resolver (reading_at (2 * n)) (reading_at (2 * n + 1)) (ns_quotas w)
             (we_SellerID e) (delivery_source s e)) (\<lambda>q w. w\<lparr>ns_quotas := q\<rparr>))"
    by (auto intro!: keeps_writing split: option.split)
  show ?thesis
    unfolding enqueue_delivery_def
    by (rule keeps_abind [OF quota], rule keeps_abind [OF keeps_pure], rule creating_keeps)
qed

lemma enqueue_deliveries_keeps:
  "keeps (\<lambda>w. \<exists>h. delivery_reachable (ns_deliveries w, h)) (enqueue_deliveries c e hash n ss)"
  by (induction ss arbitrary: n) (auto intro!: keeps_abind enqueue_delivery_keeps)

lemma Delivery_Enqueue_steps:
  "delivery_reachable (ns_deliveries w, h) \<Longrightarrow> \<exists>h'. delivery_reachable (ns_deliveries (snd (Delivery_Enqueue c e w)), h')"
proof -
  have "keeps (\<lambda>w. \<exists>h. delivery_reachable (ns_deliveries w, h)) (Delivery_Enqueue c e)"
    unfolding Delivery_Enqueue_def by (intro keeps_abind keeps_pure keeps_reading enqueue_deliveries_keeps)
  then show "delivery_reachable (ns_deliveries w, h) \<Longrightarrow> ?thesis"
    unfolding keeps_def by blast
qed

section \<open>Samples\<close>

definition sample_subscription_id :: ID where "sample_subscription_id = ''whk_01ARZ3NDEKTSV4RRFFQ69G5FAV''"
definition sample_delivery_id :: ID where "sample_delivery_id = ''whd_01ARZ3NDEKTSV4RRFFQ69G5FAV''"

definition sample_subscription :: Subscription where
  "sample_subscription =
     \<lparr>ws_SubscriptionID = sample_subscription_id, ws_SellerID = we_SellerID sample_hook_event,
      ws_EndpointURL = ''https://hooks.example.com'', ws_EventTypes = [HookPaymentVerified], ws_SecretRef = ''ref'',
      ws_Status = SubscriptionStatusActive, ws_CreatedAt = 500, ws_UpdatedAt = 500, ws_Version = 1\<rparr>"

definition sample_delivery :: Delivery where
  "sample_delivery =
     \<lparr>dv_DeliveryID = sample_delivery_id, dv_SellerID = we_SellerID sample_hook_event,
      dv_SubscriptionID = sample_subscription_id, dv_Event = sample_hook_event,
      dv_PayloadHash = replicate 64 (CHR ''a''), dv_Status = DeliveryStatusPending, dv_AttemptCount = 0,
      dv_NextAttemptAt = Some 1000, dv_LastAttemptAt = None, dv_DeliveredAt = None, dv_ResponseStatusCode = None,
      dv_ResponseBodyHash = None, dv_ErrorCode = None, dv_CreatedAt = 1000, dv_UpdatedAt = 1000, dv_Version = 1\<rparr>"

definition sample_exhausted :: Delivery where
  "sample_exhausted = sample_delivery\<lparr>dv_Status := DeliveryStatusDeadLetter, dv_AttemptCount := 5,
     dv_NextAttemptAt := None, dv_LastAttemptAt := Some 2000, dv_ErrorCode := Some DeliveryFailureTimeout,
     dv_UpdatedAt := 2000, dv_Version := 6\<rparr>"

definition sample_delivery_state :: "Delivery \<Rightarrow> delivery_state" where
  "sample_delivery_state d =
     \<lparr>ns_deliveries = put_delivery NewWebhookDeliveryRepository d,
      ns_subscriptions = \<lparr>wr_subscriptions = [(sample_subscription_id, sample_subscription)]\<rparr>,
      ns_secrets = [''ref'' \<mapsto> sample_hook_key], ns_quotas = NewQuotaCounterRepository, ns_sent = []\<rparr>"

text \<open>The endpoint answers with \<open>200\<close>; \<open>reached\<close> says whether its name resolves.\<close>

definition sample_public_address :: IPClass where
  "sample_public_address = \<lparr>ip_GlobalUnicast = True, ip_Private = False, ip_Loopback = False,
     ip_LinkLocalUnicast = False, ip_LinkLocalMulticast = False, ip_Multicast = False, ip_Unspecified = False\<rparr>"

definition sample_delivery_call :: "bool \<Rightarrow> delivery_call" where
  "sample_delivery_call reached =
     \<lparr>nk_library = sample_hook_library, nk_ulid = (\<lambda>_. True), nk_authorize = (\<lambda>_ _. Inr ()), nk_quota = None,
      nk_newID = (\<lambda>_. Inr sample_delivery_id), nk_clock = (\<lambda>i. 3000), nk_getFails = None,
      nk_lookup = (\<lambda>_. if reached then Inr [Some sample_public_address] else Inr []),
      nk_client = Some (\<lambda>_. HttpResponse 200 [] False)\<rparr>"

lemma sample_delivery_valid:
  "delivery_errors (delivery_params sample_delivery) = []"
  "NewDelivery (delivery_params sample_delivery) = Inr sample_delivery"
proof -
  have "ID_Prefix sample_delivery_id = WebhookDeliveryIDPrefix" "ID_Prefix sample_subscription_id = WebhookSubscriptionIDPrefix"
    by code_simp+
  moreover have "lower_hex (CHR ''a'')"
    by code_simp
  then have "list_all lower_hex (replicate n (CHR ''a''))" for n
    by (induction n) simp_all
  ultimately show errors: "delivery_errors (delivery_params sample_delivery) = []"
    by (simp add: delivery_errors_def delivery_params_def sample_delivery_def sample_hook_event_def sample_hook_prefixes
        validHookEventType_def sha256HexPattern_def)
  then show "NewDelivery (delivery_params sample_delivery) = Inr sample_delivery"
    by (simp add: NewDelivery_def reject_if_def) (simp add: delivery_params_def sample_delivery_def)
qed

lemma sample_readable: "readable sample_delivery" "readable sample_exhausted"
proof -
  have "delivery_params sample_exhausted = delivery_params sample_delivery"
    by (simp add: sample_exhausted_def delivery_params_def)
  then show "readable sample_delivery" "readable sample_exhausted"
    using sample_delivery_valid(1) by (simp_all add: readable_def) (simp_all add: sample_delivery_def sample_exhausted_def)
qed

lemma sample_subscription_get:
  "Sub_Get sample_hook_library \<lparr>wr_subscriptions = [(sample_subscription_id, sample_subscription)]\<rparr>
     (we_SellerID sample_hook_event) sample_subscription_id = Inr sample_subscription"
proof -
  have "ID_Prefix sample_subscription_id = WebhookSubscriptionIDPrefix"
    by code_simp
  moreover have "TrimSpace ''https://hooks.example.com'' = ''https://hooks.example.com''" "TrimSpace ''ref'' = ''ref''"
    "lower_text ''hooks.example.com'' = ''hooks.example.com''"
    by code_simp+
  ultimately show ?thesis
    by (simp add: Sub_Get_def RestoreSubscription_def NewSubscription_def subscription_params_def subscription_errors_def
        sample_subscription_def sample_hook_event_def sample_hook_prefixes validateWebhookEndpoint_def
        sample_hook_library_def sample_hook_url_def normalizeEventTypes_def validHookEventType_def reject_if_def)
qed

lemma sample_signed_answer:
  "secret_answer (sample_delivery_call reached) w ''ref'' = Inr sample_hook_key" if "ns_secrets w = [''ref'' \<mapsto> sample_hook_key]"
  using that by (simp add: secret_answer_def sample_delivery_call_def)

text \<open>A due delivery of the sample state is attempted: the request is sent if the name resolves.\<close>

lemma sample_attempting:
  assumes "dv_Event d = sample_hook_event" "dv_SubscriptionID d = sample_subscription_id" "canAttempt d 3000"
    "dv_DeliveryID d = k" "stored_delivery (ns_deliveries w) k = Some d" "dv_Version d = v"
    "ns_subscriptions w = ns_subscriptions (sample_delivery_state x)" "ns_secrets w = ns_secrets (sample_delivery_state x)"
    and e: "Webhook_Sign sample_hook_library (Inr sample_hook_key) 3000 sample_hook_event = Inr e"
    and d': "recordDeliveryAttempt d 3000 (if reached then Inr \<lparr>sr_StatusCode = 200, sr_ResponseBodyHash = hex_encode (Sum256 [])\<rparr>
        else Inl ErrWebhookForbiddenTarget) = Inr d'" "dv_DeliveryID d' = k" "dv_Version d' = v + 1"
  shows "\<exists>w'. attempting (sample_delivery_call reached) (we_SellerID sample_hook_event) d w = (Inr (deliveryView d'), w')
    \<and> ns_sent w' = ns_sent w @ (if reached then [webhook_request sample_hook_library sample_hook_url e] else [])"
proof -
  have parts: "nk_library (sample_delivery_call reached) = sample_hook_library" "nk_clock (sample_delivery_call reached) i = 3000"
    "ws_SecretRef sample_subscription = ''ref''" "ws_EndpointURL sample_subscription = ''https://hooks.example.com''" for i
    by (simp_all add: sample_delivery_call_def sample_subscription_def)
  have send: "Webhook_Send sample_hook_library (nk_lookup (sample_delivery_call reached)) (nk_client (sample_delivery_call reached))
      ''https://hooks.example.com'' e (ns_sent w)
    = (if reached then Inr \<lparr>sr_StatusCode = 200, sr_ResponseBodyHash = hex_encode (Sum256 [])\<rparr> else Inl ErrWebhookForbiddenTarget,
       ns_sent w @ (if reached then [webhook_request sample_hook_library sample_hook_url e] else []))"
    by (simp add: Webhook_Send_def sample_hook_library_def sample_hook_url_def sample_delivery_call_def attempt_run guard_run
        webhookAddressesArePublic_def sample_public_address_def reject_if_def)
  have secret: "secret_answer (sample_delivery_call reached) w ''ref'' = Inr sample_hook_key"
    using assms(8) by (intro sample_signed_answer) (simp add: sample_delivery_state_def)
  have get: "Sub_Get sample_hook_library (ns_subscriptions w) (we_SellerID sample_hook_event) sample_subscription_id
      = Inr sample_subscription"
    using assms(7) sample_subscription_get by (simp add: sample_delivery_state_def)
  have "Delivery_Update (ns_deliveries w) d' v = Inr (put_delivery (ns_deliveries w) d')"
    using assms(4-6) d'(2,3) by (simp add: Delivery_Update_ok)
  then show ?thesis
    using assms(1,2,6) d'(1)
    by (simp add: attempting_def abind_run sending_def writing_run parts get secret e send split del: if_split
        del: recordDeliveryAttempt.simps)
qed

theorem exhausted_redelivery_unreadable_witness:
  "\<exists>w1 w2 redelivered attempted.
     Delivery_Redeliver (sample_delivery_call False) ''owner'' (we_SellerID sample_hook_event) sample_delivery_id
       (sample_delivery_state sample_exhausted) = (Inr redelivered, w1)
     \<and> Delivery_Attempt (sample_delivery_call False) (we_SellerID sample_hook_event) sample_delivery_id w1 = (Inr attempted, w2)
     \<and> dw_AttemptCount attempted = 6
     \<and> \<not> is_ok (Delivery_ListBySeller (\<lambda>_. True) (ns_deliveries w2) (we_SellerID sample_hook_event) 50 [])"
proof -
  let ?c = "sample_delivery_call False" and ?s = "we_SellerID sample_hook_event" and ?w = "sample_delivery_state sample_exhausted"
  have k: "dv_DeliveryID sample_exhausted = sample_delivery_id" "dv_SellerID sample_exhausted = ?s"
    "dv_SubscriptionID sample_exhausted = sample_subscription_id" "dv_Event sample_exhausted = sample_hook_event"
    "dv_AttemptCount sample_exhausted = 5" "dv_Status sample_exhausted = DeliveryStatusDeadLetter"
    "dv_UpdatedAt sample_exhausted = 2000" "dv_Version sample_exhausted = 6"
    by (simp_all add: sample_exhausted_def sample_delivery_def)
  have stored: "stored_delivery (ns_deliveries ?w) sample_delivery_id = Some sample_exhausted"
    by (simp add: sample_delivery_state_def k)
  have call: "nk_clock ?c i = 3000" "nk_authorize ?c x y = Inr ()" for i x y
    by (simp_all add: sample_delivery_call_def)
  obtain d1 where d1: "ScheduleRedelivery sample_exhausted 3000 = Inr d1" "dv_DeliveryID d1 = sample_delivery_id"
    "dv_Version d1 = 7" "readable d1" "dv_SellerID d1 = ?s" "canAttempt d1 3000" "dv_AttemptCount d1 = 5"
    "dv_Event d1 = sample_hook_event" "dv_SubscriptionID d1 = sample_subscription_id"
    using sample_readable(2) k
    by (simp add: ScheduleRedelivery_def Timestamp_Before_def reject_if_def readable_def delivery_params_def canAttempt_def)
  define w1 where "w1 = ?w\<lparr>ns_deliveries := put_delivery (ns_deliveries ?w) d1\<rparr>"
  have "Delivery_Get (ns_deliveries ?w) ?s sample_delivery_id = Inr sample_exhausted"
    using stored k sample_readable(2) by (simp add: Delivery_Get_ok)
  moreover have "Delivery_Update (ns_deliveries ?w) d1 6 = Inr (put_delivery (ns_deliveries ?w) d1)"
    using stored k d1(2,3) by (simp add: Delivery_Update_ok)
  ultimately have one: "Delivery_Redeliver ?c ''owner'' ?s sample_delivery_id ?w = (Inr (deliveryView d1), w1)"
    using d1(1) k by (simp add: Delivery_Redeliver_def abind_run writing_run w1_def call)
  obtain e where e: "Webhook_Sign sample_hook_library (Inr sample_hook_key) 3000 sample_hook_event = Inr e"
    using sample_hook_signed by blast
  obtain d2 where d2: "recordDeliveryAttempt d1 3000 (Inl ErrWebhookForbiddenTarget) = Inr d2" "dv_DeliveryID d2 = sample_delivery_id"
    "dv_Version d2 = 8"
    using d1(2,3,6,7) by (simp add: RecordFailure_def reject_if_def)
  have "Delivery_Get (ns_deliveries w1) ?s sample_delivery_id = Inr d1"
    using d1 by (simp add: w1_def Delivery_Get_ok)
  then have "Delivery_Attempt ?c ?s sample_delivery_id w1 = attempting ?c ?s d1 w1"
    using d1(6) by (simp add: Delivery_Attempt_def abind_run guard_run sample_delivery_call_def)
  moreover obtain w2 where "attempting ?c ?s d1 w1 = (Inr (deliveryView d2), w2)"
    using sample_attempting [of d1 sample_delivery_id w1 7 sample_exhausted e False d2] d1 d2 e by (auto simp: w1_def)
  ultimately have two: "Delivery_Attempt ?c ?s sample_delivery_id w1 = (Inr (deliveryView d2), w2)"
    by simp
  show ?thesis
    using one two exhausted_redelivery_unreadable [OF stored k(1,5) one two] by blast
qed

theorem webhook_requests_witness:
  "\<exists>res w' r. Delivery_Attempt (sample_delivery_call True) (we_SellerID sample_hook_event) sample_delivery_id
       (sample_delivery_state sample_delivery) = (res, w')
     \<and> ns_sent w' = [r] \<and> (\<exists>e. r = webhook_request sample_hook_library sample_hook_url e
          \<and> VerifyWebhookSignature sample_hook_key (sg_Body e) (sg_Headers e))"
proof -
  let ?c = "sample_delivery_call True" and ?s = "we_SellerID sample_hook_event" and ?w = "sample_delivery_state sample_delivery"
  have k: "dv_DeliveryID sample_delivery = sample_delivery_id" "dv_SellerID sample_delivery = ?s"
    "dv_SubscriptionID sample_delivery = sample_subscription_id" "dv_Event sample_delivery = sample_hook_event"
    "canAttempt sample_delivery 3000" "dv_Version sample_delivery = 1"
    by (simp_all add: sample_delivery_def canAttempt_def Timestamp_Before_def)
  have stored: "stored_delivery (ns_deliveries ?w) sample_delivery_id = Some sample_delivery"
    by (simp add: sample_delivery_state_def k)
  have hash: "sha256HexPattern (hex_encode (Sum256 m))" for m
    using hex_encode_lower by (simp add: sha256HexPattern_def)
  obtain e where e: "Webhook_Sign sample_hook_library (Inr sample_hook_key) 3000 sample_hook_event = Inr e"
    using sample_hook_signed by blast
  obtain d' where d': "recordDeliveryAttempt sample_delivery 3000
      (Inr \<lparr>sr_StatusCode = 200, sr_ResponseBodyHash = hex_encode (Sum256 [])\<rparr>) = Inr d'"
    "dv_DeliveryID d' = sample_delivery_id" "dv_Version d' = 2"
    using k(1,5,6) hash by (simp add: RecordSuccess_def reject_if_def)
  have "Delivery_Get (ns_deliveries ?w) ?s sample_delivery_id = Inr sample_delivery"
    using stored k sample_readable(1) by (simp add: Delivery_Get_ok)
  then have "Delivery_Attempt ?c ?s sample_delivery_id ?w = attempting ?c ?s sample_delivery ?w"
    using k(5) by (simp add: Delivery_Attempt_def abind_run guard_run sample_delivery_call_def)
  moreover obtain w' where "attempting ?c ?s sample_delivery ?w = (Inr (deliveryView d'), w')"
    "ns_sent w' = [webhook_request sample_hook_library sample_hook_url e]"
    using sample_attempting [of sample_delivery sample_delivery_id ?w 1 sample_delivery e True d'] k stored e d'
    by (auto simp: sample_delivery_state_def)
  ultimately have run: "Delivery_Attempt ?c ?s sample_delivery_id ?w = (Inr (deliveryView d'), w')"
    and sent: "ns_sent w' = [webhook_request sample_hook_library sample_hook_url e]"
    by simp_all
  have printable: "\<forall>d. stored_delivery (ns_deliveries ?w) sample_delivery_id = Some d \<longrightarrow> list_all ascii_graph (we_EventID (dv_Event d))"
    using stored k(4) sample_hook_graph by simp
  have state: "ns_sent ?w = []" "ns_secrets ?w = [''ref'' \<mapsto> sample_hook_key]"
    "ns_subscriptions ?w = \<lparr>wr_subscriptions = [(sample_subscription_id, sample_subscription)]\<rparr>"
    by (simp_all add: sample_delivery_state_def)
  have lib: "nk_library ?c = sample_hook_library" "ws_SecretRef sample_subscription = ''ref''"
    "nl_parseURL sample_hook_library (ws_EndpointURL sample_subscription) = Some sample_hook_url"
    by (simp_all add: sample_delivery_call_def sample_subscription_def sample_hook_library_def)
  from webhook_requests [OF run printable] show ?thesis
  proof (elim disjE exE conjE)
    fix d s u e' key addresses
    assume one: "stored_delivery (ns_deliveries ?w) sample_delivery_id = Some d"
      "Sub_Get (nk_library ?c) (ns_subscriptions ?w) ?s (dv_SubscriptionID d) = Inr s"
      "nl_parseURL (nk_library ?c) (ws_EndpointURL s) = Some u" "ns_secrets ?w (ws_SecretRef s) = Some key"
      "VerifyWebhookSignature key (sg_Body e') (sg_Headers e')"
      "ns_sent w' = ns_sent ?w @ [webhook_request (nk_library ?c) u e']"
    then have "s = sample_subscription"
      using sample_subscription_get stored k(3) by (simp add: lib state)
    then show ?thesis
      using one run by (auto simp: lib state)
  qed (use sent state in simp)
qed

theorem delivery_life_witness:
  "\<exists>r h d. delivery_reachable (r, h) \<and> stored_delivery r sample_delivery_id = Some d
     \<and> dv_Status d = DeliveryStatusRetryScheduled \<and> length (h sample_delivery_id) = 2
     \<and> versioned dv_Version (\<lambda>d. wf_delivery d \<and> dv_DeliveryID d = sample_delivery_id) delivery_next (h sample_delivery_id)"
proof -
  let ?k = sample_delivery_id
  have k: "dv_DeliveryID sample_delivery = ?k" "canAttempt sample_delivery 3000" "dv_Version sample_delivery = 1"
    "dv_AttemptCount sample_delivery = 0"
    by (simp_all add: sample_delivery_def canAttempt_def Timestamp_Before_def)
  have empty: "vr_identities NewWebhookDeliveryRepository i = None" "stored_delivery NewWebhookDeliveryRepository j = None" for i j
    by (simp_all add: NewWebhookDeliveryRepository_def stored_delivery_def)
  obtain r1 where r1: "Delivery_CreateIfAbsent NewWebhookDeliveryRepository sample_delivery = Inr (sample_delivery, True, r1)"
    "stored_delivery r1 ?k = Some sample_delivery"
    by (simp add: Delivery_CreateIfAbsent_def empty k)
  let ?h = "(\<lambda>_. [])(?k := [sample_delivery])"
  have one: "delivery_reachable (r1, ?h)"
    using delivery_enqueued [OF delivery_start sample_delivery_valid(2) r1(1)] k(1) by simp
  have few: "\<not> (5::u32) \<le> 1"
    by (simp add: word_le_nat_alt)
  obtain d where d: "recordDeliveryAttempt sample_delivery 3000 (Inl ErrWebhookTimeout) = Inr d"
    "dv_Status d = DeliveryStatusRetryScheduled" "dv_DeliveryID d = ?k" "dv_Version d = 2"
    using k few by (simp add: RecordFailure_def Let_def reject_if_def automaticRetryDelays_def)
  have update: "Delivery_Update r1 d (dv_Version sample_delivery) = Inr (put_delivery r1 d)"
    using r1(2) k d(3,4) by (simp add: Delivery_Update_ok)
  have two: "delivery_reachable (put_delivery r1 d, ?h(?k := ?h ?k @ [d]))"
    by (rule delivery_attempted [OF one _ d(1) update]) simp_all
  let ?h' = "?h(?k := ?h ?k @ [d])"
  have "delivery_versions ?k (?h' ?k)"
    using delivery_life [OF two] by blast
  moreover have "stored_delivery (put_delivery r1 d) ?k = Some d" "length (?h' ?k) = 2"
    using d(3) by simp_all
  ultimately show ?thesis
    using two d(2) by blast
qed

end
