(* ===== verification/SellerSDK.thy ===== *)
theory SellerSDK
  imports SignedText Proxy
begin

text \<open>
  The verification library sellers install: \<open>verification/go/{models,service,controller,execution}.go\<close>. A
  request is accepted by its HMAC or by an execution capability, at most once. The JWT library and
  \<open>strings.ToUpper\<close> are parameters.
\<close>

abbreviation "ErrInvalidSignature \<equiv> Err ''agentpayverify.ErrInvalidSignature''"
abbreviation "ErrStaleRequest \<equiv> Err ''agentpayverify.ErrStaleRequest''"
abbreviation "ErrReplay \<equiv> Err ''agentpayverify.ErrReplay''"
abbreviation "ErrInvalidExecutionCapability \<equiv> Err ''agentpayverify.ErrInvalidExecutionCapability''"
abbreviation "ErrExecutionBinding \<equiv> Err ''agentpayverify.ErrExecutionBinding''"
abbreviation "ErrExecutionKeyUnavailable \<equiv> Err ''agentpayverify.ErrExecutionKeyUnavailable''"

section \<open>Replay protection\<close>

text \<open>
  What the verifiers rely on: a store claims a key for the first caller and for no other. \<open>claim\<close> answers
  with a verdict or an error, \<open>claimed\<close> are the keys given out.
\<close>

locale replay_store =
  fixes claim :: "'s \<Rightarrow> string \<Rightarrow> instant \<Rightarrow> bool result \<times> 's"
    and claimed :: "'s \<Rightarrow> string set"
  assumes claim_fresh: "claim s k t = (Inr True, s') \<Longrightarrow> k \<notin> claimed s \<and> claimed s' = insert k (claimed s)"
    and claim_refused: "claim s k t = (r, s') \<Longrightarrow> r \<noteq> Inr True \<Longrightarrow> claimed s' = claimed s"
begin

lemma claim_refuses_claimed: "k \<in> claimed s \<Longrightarrow> fst (claim s k t) \<noteq> Inr True"
  using claim_fresh by (cases "claim s k t") auto

end

text \<open>
  A service that answers requests one after another, and the key each accepted one was accepted under.
\<close>

fun accepted_keys :: "('q \<Rightarrow> 's \<Rightarrow> string option \<times> 's) \<Rightarrow> 'q list \<Rightarrow> 's \<Rightarrow> string list \<times> 's" where
  "accepted_keys step [] s = ([], s)"
| "accepted_keys step (q # qs) s =
     (case step q s of (k, s') \<Rightarrow>
      case accepted_keys step qs s' of (ks, s'') \<Rightarrow> ((case k of None \<Rightarrow> ks | Some k \<Rightarrow> k # ks), s''))"

lemma accepted_by_step:
  "accepted_keys step qs s = (ks, s') \<Longrightarrow> k \<in> set ks \<Longrightarrow> \<exists>q \<in> set qs. \<exists>u u'. step q u = (Some k, u')"
proof (induction qs arbitrary: s ks)
  case (Cons q qs)
  obtain i s1 where one: "step q s = (i, s1)" by fastforce
  obtain ls s2 where rest: "accepted_keys step qs s1 = (ls, s2)" by fastforce
  have "k \<in> set ls \<or> i = Some k" "s2 = s'"
    using Cons.prems by (cases i, auto simp: one rest)
  then consider "k \<in> set ls" "accepted_keys step qs s1 = (ls, s')" | "step q s = (Some k, s1)"
    using one rest by auto
  then show ?case
  proof cases
    case 1
    then show ?thesis
      using Cons.IH [OF 1(2,1)] by auto
  next
    case 2
    then show ?thesis
      by (intro bexI [of _ q] exI [of _ s] exI [of _ s1]) simp_all
  qed
qed simp

text \<open>Where every acceptance claims its key, no key is accepted twice.\<close>

locale claiming_service =
  fixes step :: "'q \<Rightarrow> 's \<Rightarrow> string option \<times> 's"
    and claimed :: "'s \<Rightarrow> string set"
  assumes step_accepts: "step q s = (Some k, s') \<Longrightarrow> k \<notin> claimed s \<and> claimed s' = insert k (claimed s)"
    and step_refuses: "step q s = (None, s') \<Longrightarrow> claimed s' = claimed s"
begin

lemma accepted_once:
  "accepted_keys step qs s = (ks, s') \<Longrightarrow> distinct ks \<and> set ks \<inter> claimed s = {} \<and> claimed s' = claimed s \<union> set ks"
proof (induction qs arbitrary: s ks)
  case (Cons q qs)
  obtain k s1 where one: "step q s = (k, s1)" by fastforce
  obtain ls s2 where rest: "accepted_keys step qs s1 = (ls, s2)" by fastforce
  have s2: "s2 = s'" and ks: "ks = (case k of None \<Rightarrow> ls | Some k \<Rightarrow> k # ls)"
    using Cons.prems by (simp_all add: one rest)
  show ?case
  proof (cases k)
    case None
    then show ?thesis
      using Cons.IH [of s1 ls] rest s2 ks step_refuses [of q s s1] one by simp
  next
    case (Some i)
    then show ?thesis
      using Cons.IH [of s1 ls] rest s2 ks step_accepts [of q s i s1] one by auto
  qed
qed simp

end

record MemoryReplayStore =
  ms_transactions :: "string \<rightharpoonup> instant"

definition NewMemoryReplayStore :: MemoryReplayStore where
  "NewMemoryReplayStore = \<lparr>ms_transactions = Map.empty\<rparr>"

definition Memory_Claim :: "MemoryReplayStore \<Rightarrow> string \<Rightarrow> instant \<Rightarrow> bool result \<times> MemoryReplayStore" where
  "Memory_Claim s transactionID timestamp =
     (if ms_transactions s transactionID \<noteq> None then (Inr False, s)
      else (Inr True, s\<lparr>ms_transactions := (ms_transactions s)(transactionID \<mapsto> timestamp)\<rparr>))"

record MemoryExecutionReplayStore =
  me_jtis :: "string \<rightharpoonup> instant"

definition NewMemoryExecutionReplayStore :: MemoryExecutionReplayStore where
  "NewMemoryExecutionReplayStore = \<lparr>me_jtis = Map.empty\<rparr>"

definition ClaimExecutionJTI ::
  "MemoryExecutionReplayStore \<Rightarrow> string \<Rightarrow> instant \<Rightarrow> bool result \<times> MemoryExecutionReplayStore" where
  "ClaimExecutionJTI s jti expiresAt =
     (if me_jtis s jti \<noteq> None then (Inr False, s)
      else (Inr True, s\<lparr>me_jtis := (me_jtis s)(jti \<mapsto> expiresAt)\<rparr>))"

interpretation transactions: replay_store Memory_Claim "\<lambda>s. dom (ms_transactions s)"
  by unfold_locales (auto simp: Memory_Claim_def split: if_split_asm)

interpretation executions: replay_store ClaimExecutionJTI "\<lambda>s. dom (me_jtis s)"
  by unfold_locales (auto simp: ClaimExecutionJTI_def split: if_split_asm)

section \<open>Signed requests\<close>

text \<open>A configuration without a store is refused; \<open>sc_hasStore\<close> says whether there is one.\<close>

record sdk_config =
  sc_Secret :: string
  sc_MaximumAge :: int
  sc_MaximumBodyBytes :: int
  sc_hasStore :: bool

definition NewVerifier :: "sdk_config \<Rightarrow> sdk_config result" where
  "NewVerifier config =
     reject_if (length (sc_Secret config) < 32) (Err ''AgentPay verification secret must contain at least 32 bytes'')
    (let aged = (if sc_MaximumAge config \<le> 0 then config\<lparr>sc_MaximumAge := 5 * Minute\<rparr> else config);
         bounded = (if sc_MaximumBodyBytes aged \<le> 0 then aged\<lparr>sc_MaximumBodyBytes := 2 ^ 20\<rparr> else aged)
     in reject_if (\<not> sc_hasStore config) (Err ''AgentPay replay store is required'') (Inr bounded))"

record signed_request =
  sq_Method :: string
  sq_Path :: string
  sq_Body :: string
  sq_Signature :: string
  sq_Timestamp :: string
  sq_TransactionID :: string

definition sdk_canonical :: "(string \<Rightarrow> string) \<Rightarrow> signed_request \<Rightarrow> string" where
  "sdk_canonical upper q =
     Join [''agentpay.seller-request.v1'', sq_Timestamp q, upper (sq_Method q), sq_Path q,
           hex_encode (Sum256 (sq_Body q)), sq_TransactionID q] [CHR 0x0A]"

text \<open>\<open>Time.Sub\<close> stays within the 64 bits of a duration.\<close>

definition Duration_Sub :: "instant \<Rightarrow> instant \<Rightarrow> int" where
  "Duration_Sub t u = max (- (2 ^ 63)) (min (2 ^ 63 - 1) (t - u))"

definition sdk_Verify ::
  "sdk_config \<Rightarrow> (string \<Rightarrow> string) \<Rightarrow> instant \<Rightarrow> signed_request \<Rightarrow> (MemoryReplayStore, unit) action" where
  "sdk_Verify v upper now q =
     guard (TrimSpace (sq_TransactionID q) = []) ErrInvalidSignature
       (case parse_rfc3339 (sq_Timestamp q) of
          None \<Rightarrow> pure (Inl ErrInvalidSignature)
        | Some timestamp \<Rightarrow>
            guard (Duration_Sub now timestamp < - sc_MaximumAge v \<or> Duration_Sub now timestamp > sc_MaximumAge v) ErrStaleRequest
              (case base64_std_decode (sq_Signature q) of
                 None \<Rightarrow> pure (Inl ErrInvalidSignature)
               | Some provided \<Rightarrow>
                   guard (provided \<noteq> hmac_sha256 (sc_Secret v) (sdk_canonical upper q)) ErrInvalidSignature
                     (abind (\<lambda>s. Memory_Claim s (sq_TransactionID q) timestamp) (\<lambda>granted.
                      pure (if granted then Inr () else Inl ErrReplay)))))"

text \<open>The middleware: the answer to the caller, or the seller's handler on the body that was read.\<close>

datatype middleware_outcome = Rejected int | Served string

definition rejection_status :: "go_error \<Rightarrow> int" where
  "rejection_status e =
     (if e = ErrReplay then 409 else if e \<noteq> ErrInvalidSignature \<and> e \<noteq> ErrStaleRequest then 503 else 401)"

text \<open>\<open>fails\<close> says whether reading the body fails at its end.\<close>

definition Middleware ::
  "sdk_config \<Rightarrow> (string \<Rightarrow> string) \<Rightarrow> instant \<Rightarrow> bool \<Rightarrow> signed_request \<Rightarrow> MemoryReplayStore
     \<Rightarrow> middleware_outcome \<times> MemoryReplayStore" where
  "Middleware v upper now fails q s =
     (if fails \<or> int (length (sq_Body q)) > sc_MaximumBodyBytes v then (Rejected 401, s)
      else case sdk_Verify v upper now q s of
          (Inl e, s') \<Rightarrow> (Rejected (rejection_status e), s')
        | (Inr _, s') \<Rightarrow> (Served (sq_Body q), s'))"

section \<open>Execution capabilities\<close>

text \<open>
  \<open>golang-jwt\<close>: parsing with the options of the verifier and a function that finds the key for a header, the
  claims of a token that was accepted and whether it is valid, and the numeric dates among the claims.
\<close>

record jwt_options =
  jo_Issuer :: string
  jo_Audience :: string
  jo_Now :: instant

record jwt_header =
  jh_Algorithm :: string
  jh_Members :: "(string \<times> json) list"

record jwt_library =
  jl_parse :: "jwt_options \<Rightarrow> (jwt_header \<Rightarrow> string result) \<Rightarrow> string \<Rightarrow> ((string \<times> json) list \<times> bool) result"
  jl_date :: "(string \<times> json) list \<Rightarrow> string \<Rightarrow> instant option result"

record ExecutionConfig =
  xf_Issuer :: string
  xf_SellerID :: string
  xf_RouteID :: string
  xf_hasDependencies :: bool

record ExecutionClaims =
  xl_Issuer :: string
  xl_Audience :: string
  xl_Subject :: string
  xl_SellerID :: string
  xl_RouteID :: string
  xl_TransactionID :: string
  xl_Method :: string
  xl_Path :: string
  xl_BodySHA256 :: string
  xl_PaymentFinality :: string
  xl_JWTID :: string
  xl_IssuedAt :: instant
  xl_ExpiresAt :: instant

definition NewExecutionVerifier :: "ExecutionConfig \<Rightarrow> ExecutionConfig result" where
  "NewExecutionVerifier config =
     (let c = config\<lparr>xf_Issuer := rev (dropWhile (\<lambda>c. c = CHR ''/'') (rev (TrimSpace (xf_Issuer config)))),
                xf_SellerID := TrimSpace (xf_SellerID config), xf_RouteID := TrimSpace (xf_RouteID config)\<rparr>
      in reject_if (xf_Issuer c = [] \<or> xf_SellerID c = [] \<or> xf_RouteID c = [] \<or> \<not> xf_hasDependencies c)
           ErrInvalidExecutionCapability (Inr c))"

text \<open>\<open>resolve\<close> answers with the key of an identifier, if it has one.\<close>

definition execution_key :: "(string \<Rightarrow> string option result) \<Rightarrow> jwt_header \<Rightarrow> string result" where
  "execution_key resolve h =
     reject_if (jh_Algorithm h \<noteq> ''ES256'' \<or> map_of (jh_Members h) ''typ'' \<noteq> Some (JString ''agentpay-execution+jwt''))
       ErrInvalidExecutionCapability
    (case map_of (jh_Members h) ''kid'' of
       Some (JString keyID) \<Rightarrow>
         reject_if (TrimSpace keyID = []) ErrInvalidExecutionCapability
           (case resolve keyID of Inr (Some key) \<Rightarrow> Inr key | _ \<Rightarrow> Inl ErrExecutionKeyUnavailable)
     | _ \<Rightarrow> Inl ErrInvalidExecutionCapability)"

definition stringClaim :: "(string \<times> json) list \<Rightarrow> string \<Rightarrow> string" where
  "stringClaim claims name = (case map_of claims name of Some (JString s) \<Rightarrow> s | _ \<Rightarrow> [])"

definition execution_claims :: "(string \<times> json) list \<Rightarrow> instant \<Rightarrow> instant \<Rightarrow> ExecutionClaims" where
  "execution_claims claims issuedAt expiresAt =
     \<lparr>xl_Issuer = stringClaim claims ''iss'', xl_Audience = stringClaim claims ''aud'', xl_Subject = stringClaim claims ''sub'',
      xl_SellerID = stringClaim claims ''sellerId'', xl_RouteID = stringClaim claims ''routeId'',
      xl_TransactionID = stringClaim claims ''transactionId'', xl_Method = stringClaim claims ''method'',
      xl_Path = stringClaim claims ''path'', xl_BodySHA256 = stringClaim claims ''bodySha256'',
      xl_PaymentFinality = stringClaim claims ''paymentFinality'', xl_JWTID = stringClaim claims ''jti'',
      xl_IssuedAt = issuedAt, xl_ExpiresAt = expiresAt\<rparr>"

definition parseExecutionClaims :: "jwt_library \<Rightarrow> (string \<times> json) list \<Rightarrow> ExecutionClaims result" where
  "parseExecutionClaims lib claims =
     (case (jl_date lib claims ''iat'', jl_date lib claims ''exp'') of
        (Inr (Some issuedAt), Inr (Some expiresAt)) \<Rightarrow>
          (let p = execution_claims claims issuedAt expiresAt
           in reject_if (xl_Issuer p = [] \<or> xl_Audience p = [] \<or> xl_Subject p = [] \<or> xl_SellerID p = [] \<or> xl_RouteID p = []
                  \<or> xl_TransactionID p = [] \<or> xl_Method p = [] \<or> xl_Path p = [] \<or> length (xl_BodySHA256 p) \<noteq> 64
                  \<or> \<not> HasPrefix (xl_JWTID p) ''xec_'')
                ErrInvalidExecutionCapability (Inr p))
      | _ \<Rightarrow> Inl ErrInvalidExecutionCapability)"

definition lifetime_allowed :: "ExecutionClaims \<Rightarrow> bool" where
  "lifetime_allowed p \<longleftrightarrow> 30 * Second \<le> Duration_Sub (xl_ExpiresAt p) (xl_IssuedAt p)
     \<and> Duration_Sub (xl_ExpiresAt p) (xl_IssuedAt p) \<le> 60 * Second"

definition bound_to :: "ExecutionConfig \<Rightarrow> (string \<Rightarrow> string) \<Rightarrow> signed_request \<Rightarrow> ExecutionClaims \<Rightarrow> bool" where
  "bound_to v upper q p \<longleftrightarrow> xl_Subject p = sq_TransactionID q \<and> xl_TransactionID p = sq_TransactionID q
     \<and> xl_SellerID p = xf_SellerID v \<and> xl_RouteID p = xf_RouteID v \<and> xl_Method p = upper (sq_Method q)
     \<and> xl_Path p = sq_Path q \<and> xl_BodySHA256 p = hex_encode (Sum256 (sq_Body q)) \<and> xl_PaymentFinality p = ''finalized''"

text \<open>The token comes in place of the signature of the request.\<close>

definition Execution_Verify ::
  "jwt_library \<Rightarrow> (string \<Rightarrow> string option result) \<Rightarrow> (string \<Rightarrow> string) \<Rightarrow> ExecutionConfig \<Rightarrow> instant \<Rightarrow> signed_request
     \<Rightarrow> (MemoryExecutionReplayStore, ExecutionClaims) action" where
  "Execution_Verify lib resolve upper v now q =
     guard (sq_Signature q = [] \<or> length (sq_Signature q) > 16 * 1024 \<or> TrimSpace (sq_TransactionID q) = [])
       ErrInvalidExecutionCapability
       (case jl_parse lib \<lparr>jo_Issuer = xf_Issuer v, jo_Audience = ''urn:agentpay:seller:'' @ xf_SellerID v, jo_Now = now\<rparr>
              (execution_key resolve) (sq_Signature q) of
          Inl e \<Rightarrow> pure (Inl (if e = ErrExecutionKeyUnavailable then ErrExecutionKeyUnavailable else ErrInvalidExecutionCapability))
        | Inr (claims, valid) \<Rightarrow>
            guard (\<not> valid) ErrInvalidExecutionCapability
              (abind (pure (parseExecutionClaims lib claims)) (\<lambda>p.
               guard (\<not> lifetime_allowed p) ErrInvalidExecutionCapability
              (guard (\<not> bound_to v upper q p) ErrExecutionBinding
              (abind (\<lambda>s. ClaimExecutionJTI s (xl_JWTID p) (xl_ExpiresAt p)) (\<lambda>granted.
               pure (if granted then Inr p else Inl ErrReplay)))))))"

section \<open>Accepted once\<close>

text \<open>The verifiers as services: the key of an accepted request is its transaction, of a capability its identifier.\<close>

definition request_step :: "sdk_config \<Rightarrow> (string \<Rightarrow> string) \<Rightarrow> instant \<times> signed_request \<Rightarrow> MemoryReplayStore
    \<Rightarrow> string option \<times> MemoryReplayStore" where
  "request_step v upper c s =
     (case sdk_Verify v upper (fst c) (snd c) s of
        (Inl _, s') \<Rightarrow> (None, s')
      | (Inr _, s') \<Rightarrow> (Some (sq_TransactionID (snd c)), s'))"

definition execution_step :: "jwt_library \<Rightarrow> (string \<Rightarrow> string option result) \<Rightarrow> (string \<Rightarrow> string) \<Rightarrow> ExecutionConfig
    \<Rightarrow> instant \<times> signed_request \<Rightarrow> MemoryExecutionReplayStore \<Rightarrow> string option \<times> MemoryExecutionReplayStore" where
  "execution_step lib resolve upper v c s =
     (case Execution_Verify lib resolve upper v (fst c) (snd c) s of
        (Inl _, s') \<Rightarrow> (None, s')
      | (Inr p, s') \<Rightarrow> (Some (xl_JWTID p), s'))"

lemma claim_cases:
  "Memory_Claim s k t = (Inr (k \<notin> dom (ms_transactions s)),
     if k \<in> dom (ms_transactions s) then s else s\<lparr>ms_transactions := (ms_transactions s)(k \<mapsto> t)\<rparr>)"
  "ClaimExecutionJTI e k t = (Inr (k \<notin> dom (me_jtis e)),
     if k \<in> dom (me_jtis e) then e else e\<lparr>me_jtis := (me_jtis e)(k \<mapsto> t)\<rparr>)"
  by (auto simp: Memory_Claim_def ClaimExecutionJTI_def)

lemma sdk_Verify_ok:
  "sdk_Verify v upper now q s = (Inr u, s') \<longleftrightarrow>
     (\<exists>t. TrimSpace (sq_TransactionID q) \<noteq> [] \<and> parse_rfc3339 (sq_Timestamp q) = Some t
       \<and> \<bar>Duration_Sub now t\<bar> \<le> sc_MaximumAge v
       \<and> base64_std_decode (sq_Signature q) = Some (hmac_sha256 (sc_Secret v) (sdk_canonical upper q))
       \<and> sq_TransactionID q \<notin> dom (ms_transactions s)
       \<and> s' = s\<lparr>ms_transactions := (ms_transactions s)(sq_TransactionID q \<mapsto> t)\<rparr>)"
  by (auto simp: sdk_Verify_def action_ok claim_cases split: option.splits if_split_asm)

lemma sdk_Verify_refused:
  "sdk_Verify v upper now q s = (Inl e, s') \<Longrightarrow> s' = s"
  by (auto simp: sdk_Verify_def abind_run guard_run claim_cases split: option.splits if_split_asm)

lemma lifetime_allowed_iff:
  "lifetime_allowed p \<longleftrightarrow> 30 * Second \<le> xl_ExpiresAt p - xl_IssuedAt p \<and> xl_ExpiresAt p - xl_IssuedAt p \<le> 60 * Second"
  by (auto simp: lifetime_allowed_def Duration_Sub_def max_def min_def split: if_split_asm)

lemma Execution_Verify_ok:
  "Execution_Verify lib resolve upper v now q s = (Inr p, s') \<Longrightarrow>
     (\<exists>claims. jl_parse lib \<lparr>jo_Issuer = xf_Issuer v, jo_Audience = ''urn:agentpay:seller:'' @ xf_SellerID v, jo_Now = now\<rparr>
         (execution_key resolve) (sq_Signature q) = Inr (claims, True) \<and> parseExecutionClaims lib claims = Inr p)
     \<and> lifetime_allowed p \<and> bound_to v upper q p \<and> xl_JWTID p \<notin> dom (me_jtis s)
     \<and> s' = s\<lparr>me_jtis := (me_jtis s)(xl_JWTID p \<mapsto> xl_ExpiresAt p)\<rparr>"
  by (auto simp: Execution_Verify_def action_ok claim_cases split: sum.splits if_split_asm)

lemma Execution_Verify_refused:
  "Execution_Verify lib resolve upper v now q s = (Inl e, s') \<Longrightarrow> s' = s"
  by (auto simp: Execution_Verify_def abind_run guard_run claim_cases split: sum.splits if_split_asm)

interpretation requests: claiming_service "request_step v upper" "\<lambda>s. dom (ms_transactions s)" for v upper
  by unfold_locales
    (auto simp: request_step_def sdk_Verify_ok dest: sdk_Verify_refused split: prod.split_asm sum.split_asm)

interpretation capabilities: claiming_service "execution_step lib resolve upper v" "\<lambda>s. dom (me_jtis s)"
  for lib resolve upper v
  by unfold_locales
    (auto simp: execution_step_def dest!: Execution_Verify_ok dest: Execution_Verify_refused split: prod.split_asm sum.split_asm)

section \<open>What a seller accepts\<close>

text \<open>A forwarded request as it arrives: the headers of the signer beside what was signed.\<close>

definition forwarded :: "SigningInput \<Rightarrow> SignatureHeaders \<Rightarrow> signed_request" where
  "forwarded input h =
     \<lparr>sq_Method = RouteMethod_wire (si_Method input), sq_Path = si_Path input, sq_Body = si_Body input,
      sq_Signature = sh_Signature h, sq_Timestamp = sh_Timestamp h, sq_TransactionID = sh_Transaction h\<rparr>"

lemma HMAC_Sign_ok:
  assumes "HMAC_Sign (Some secrets) (Some t) reference input = Inr h"
  shows "\<exists>secret. secrets reference = Inr secret \<and> 32 \<le> length secret
    \<and> h = \<lparr>sh_ExecutionCapability = [], sh_Signature = calculateHMAC secret input (FormatRFC3339Nano t),
           sh_Timestamp = FormatRFC3339Nano t, sh_Transaction = si_TransactionID input\<rparr>"
  using assms by (auto simp: HMAC_Sign_def Let_def result_simps split: sum.split_asm)

lemma canonical_signing_text:
  assumes "upper (RouteMethod_wire (si_Method input)) = RouteMethod_wire (si_Method input)"
    and "sq_Method q = RouteMethod_wire (si_Method input)" "sq_Path q = si_Path input" "sq_Body q = si_Body input"
      "sq_TransactionID q = si_TransactionID input"
  shows "sdk_canonical upper q = signing_text input (sq_Timestamp q)"
  using assms by (simp add: sdk_canonical_def signing_text_def)

lemma parse_formatted: "0 \<le> t \<Longrightarrow> t < year_10000 \<Longrightarrow> parse_rfc3339 (FormatRFC3339Nano t) = Some t"
  using ParseTimestamp_Format [of t] by (simp add: ParseTimestamp_def split: option.split_asm)

lemma forwarded_verified:
  assumes "HMAC_Sign (Some secrets) (Some t) reference input = Inr h" "secrets reference = Inr (sc_Secret v)"
    and "0 \<le> t" "t < year_10000" "TrimSpace (si_TransactionID input) \<noteq> []"
    and "upper (RouteMethod_wire (si_Method input)) = RouteMethod_wire (si_Method input)"
    and "\<bar>Duration_Sub now t\<bar> \<le> sc_MaximumAge v"
    and "si_TransactionID input \<notin> dom (ms_transactions s)"
  shows "sdk_Verify v upper now (forwarded input h) s
      = (Inr (), s\<lparr>ms_transactions := (ms_transactions s)(si_TransactionID input \<mapsto> t)\<rparr>)"
proof -
  have h: "h = \<lparr>sh_ExecutionCapability = [], sh_Signature = calculateHMAC (sc_Secret v) input (FormatRFC3339Nano t),
      sh_Timestamp = FormatRFC3339Nano t, sh_Transaction = si_TransactionID input\<rparr>"
    using HMAC_Sign_ok [OF assms(1)] assms(2) by auto
  have "sdk_canonical upper (forwarded input h) = signing_text input (FormatRFC3339Nano t)"
    using canonical_signing_text [of upper input "forwarded input h"] assms(6) by (simp add: forwarded_def h)
  then have "base64_std_decode (sq_Signature (forwarded input h))
      = Some (hmac_sha256 (sc_Secret v) (sdk_canonical upper (forwarded input h)))"
    by (simp add: forwarded_def h calculateHMAC_def base64_std_decode_encode)
  moreover have "sq_TransactionID (forwarded input h) = si_TransactionID input" "sq_Timestamp (forwarded input h) = FormatRFC3339Nano t"
    by (simp_all add: forwarded_def h)
  ultimately show ?thesis
    using assms(5,7,8) parse_formatted [OF assms(3,4)] by (simp add: sdk_Verify_ok)
qed

text \<open>
  C6: What the gateway signs and forwards, the seller's verifier accepts: a request with the headers of the
  signer, the same secret and a clock that differs from the signer's by no more than the maximum age. It is
  accepted once: when the transaction has been claimed, every request that names it is refused, whatever
  its signature.
\<close>

theorem forwarded_request_accepted:
  assumes "HMAC_Sign (Some secrets) (Some t) reference input = Inr h" "secrets reference = Inr (sc_Secret v)"
    and "0 \<le> t" "t < year_10000" "TrimSpace (si_TransactionID input) \<noteq> []"
    and "upper (RouteMethod_wire (si_Method input)) = RouteMethod_wire (si_Method input)"
    and "\<bar>Duration_Sub now t\<bar> \<le> sc_MaximumAge v"
    and "si_TransactionID input \<notin> dom (ms_transactions s)"
  shows "sdk_Verify v upper now (forwarded input h) s
      = (Inr (), s\<lparr>ms_transactions := (ms_transactions s)(si_TransactionID input \<mapsto> t)\<rparr>)
    \<and> (\<forall>s' now' q. si_TransactionID input \<in> dom (ms_transactions s') \<and> sq_TransactionID q = si_TransactionID input
        \<longrightarrow> \<not> is_ok (fst (sdk_Verify v upper now' q s')) \<and> snd (sdk_Verify v upper now' q s') = s')"
proof -
  have "\<not> is_ok (fst (sdk_Verify v upper now' q s')) \<and> snd (sdk_Verify v upper now' q s') = s'"
    if "sq_TransactionID q \<in> dom (ms_transactions s')" for s' now' q
  proof (cases "sdk_Verify v upper now' q s'")
    case (Pair r s'')
    then show ?thesis
      using sdk_Verify_ok [of v upper now' q s'] sdk_Verify_refused [of v upper now' q s'] that by (cases r) auto
  qed
  then show ?thesis
    using forwarded_verified [of secrets t reference input h v upper now s, OF assms] by auto
qed

text \<open>
  C5: However many requests a seller receives, each transaction is accepted at most once, and only for a
  request within the maximum age whose signature is the HMAC of its own text; that text is the one the
  gateway signed only if the request has the timestamp, the method, the path, the transaction and the body,
  up to its digest, that were signed.
\<close>

theorem seller_requests_accepted_once:
  assumes "accepted_keys (request_step v upper) qs s = (ks, s')"
  shows "distinct ks \<and> set ks \<inter> dom (ms_transactions s) = {} \<and> dom (ms_transactions s') = dom (ms_transactions s) \<union> set ks
    \<and> (\<forall>k \<in> set ks. \<exists>now q t. (now, q) \<in> set qs \<and> sq_TransactionID q = k \<and> parse_rfc3339 (sq_Timestamp q) = Some t
        \<and> \<bar>Duration_Sub now t\<bar> \<le> sc_MaximumAge v
        \<and> base64_std_decode (sq_Signature q) = Some (hmac_sha256 (sc_Secret v) (sdk_canonical upper q))
        \<and> (\<forall>input timestamp. sdk_canonical upper q = signing_text input timestamp
            \<and> list_all (\<lambda>x. CHR 0x0A \<notin> set x) [timestamp, RouteMethod_wire (si_Method input), si_Path input, si_TransactionID input]
            \<longrightarrow> sq_Timestamp q = timestamp \<and> upper (sq_Method q) = RouteMethod_wire (si_Method input)
              \<and> sq_Path q = si_Path input \<and> k = si_TransactionID input \<and> Sum256 (sq_Body q) = Sum256 (si_Body input)))"
proof -
  have inj: "sq_Timestamp q = timestamp \<and> upper (sq_Method q) = RouteMethod_wire (si_Method input)
      \<and> sq_Path q = si_Path input \<and> sq_TransactionID q = si_TransactionID input \<and> Sum256 (sq_Body q) = Sum256 (si_Body input)"
    if "sdk_canonical upper q = signing_text input timestamp"
      "list_all (\<lambda>x. CHR 0x0A \<notin> set x) [timestamp, RouteMethod_wire (si_Method input), si_Path input, si_TransactionID input]"
    for q input timestamp
  proof -
    let ?xs = "[''agentpay.seller-request.v1'', timestamp, RouteMethod_wire (si_Method input), si_Path input,
        hex_encode (Sum256 (si_Body input)), si_TransactionID input]"
    let ?ys = "[''agentpay.seller-request.v1'', sq_Timestamp q, upper (sq_Method q), sq_Path q,
        hex_encode (Sum256 (sq_Body q)), sq_TransactionID q]"
    have "list_all (\<lambda>x. CHR 0x0A \<notin> set x) ?xs"
      using that(2) by (simp add: hex_no_newline)
    moreover have "Join ?xs [CHR 0x0A] = Join ?ys [CHR 0x0A]"
      using that(1) by (simp only: sdk_canonical_def signing_text_def)
    moreover have "length ?ys = length ?xs" "?xs \<noteq> []"
      by simp_all
    ultimately have "?xs = ?ys"
      by (intro Join_lines_inj)
    then show ?thesis
      using hex_encode_inj by auto
  qed
  have "\<exists>now q t. (now, q) \<in> set qs \<and> sq_TransactionID q = k \<and> parse_rfc3339 (sq_Timestamp q) = Some t
      \<and> \<bar>Duration_Sub now t\<bar> \<le> sc_MaximumAge v
      \<and> base64_std_decode (sq_Signature q) = Some (hmac_sha256 (sc_Secret v) (sdk_canonical upper q))
      \<and> (\<forall>input timestamp. sdk_canonical upper q = signing_text input timestamp
          \<and> list_all (\<lambda>x. CHR 0x0A \<notin> set x) [timestamp, RouteMethod_wire (si_Method input), si_Path input, si_TransactionID input]
          \<longrightarrow> sq_Timestamp q = timestamp \<and> upper (sq_Method q) = RouteMethod_wire (si_Method input)
            \<and> sq_Path q = si_Path input \<and> k = si_TransactionID input \<and> Sum256 (sq_Body q) = Sum256 (si_Body input))"
    if k: "k \<in> set ks" for k
  proof -
    obtain now q u u' where q: "(now, q) \<in> set qs" "request_step v upper (now, q) u = (Some k, u')"
      using accepted_by_step [OF assms k] by auto
    then obtain x where x: "sdk_Verify v upper now q u = (Inr x, u')" "sq_TransactionID q = k"
      by (auto simp: request_step_def split: prod.split_asm sum.split_asm)
    then obtain t where "parse_rfc3339 (sq_Timestamp q) = Some t" "\<bar>Duration_Sub now t\<bar> \<le> sc_MaximumAge v"
      "base64_std_decode (sq_Signature q) = Some (hmac_sha256 (sc_Secret v) (sdk_canonical upper q))"
      unfolding sdk_Verify_ok by (elim exE conjE) (rule that)
    with q(1) x(2) inj [of q] show ?thesis
      by (intro exI conjI allI impI; (elim conjE)?) (assumption | simp only:)+
  qed
  then show ?thesis
    using requests.accepted_once [OF assms] by (intro conjI ballI) simp_all
qed

text \<open>
  However many capabilities a seller receives, each is accepted at most once, within a lifetime of thirty to
  sixty seconds, and only for the request it was issued for: its transaction, seller, route, method, path
  and body, whose payment is final.
\<close>

theorem executions_accepted_once:
  assumes "accepted_keys (execution_step lib resolve upper v) qs s = (ks, s')"
  shows "distinct ks \<and> set ks \<inter> dom (me_jtis s) = {}
    \<and> (\<forall>k \<in> set ks. \<exists>now q p. (now, q) \<in> set qs \<and> xl_JWTID p = k \<and> bound_to v upper q p
        \<and> 30 * Second \<le> xl_ExpiresAt p - xl_IssuedAt p \<and> xl_ExpiresAt p - xl_IssuedAt p \<le> 60 * Second)"
proof -
  have "\<exists>now q p. (now, q) \<in> set qs \<and> xl_JWTID p = k \<and> bound_to v upper q p
      \<and> 30 * Second \<le> xl_ExpiresAt p - xl_IssuedAt p \<and> xl_ExpiresAt p - xl_IssuedAt p \<le> 60 * Second" if k: "k \<in> set ks" for k
  proof -
    obtain now q u u' where "(now, q) \<in> set qs" "execution_step lib resolve upper v (now, q) u = (Some k, u')"
      using accepted_by_step [OF assms k] by auto
    moreover from this obtain p where "Execution_Verify lib resolve upper v now q u = (Inr p, u')" "xl_JWTID p = k"
      by (auto simp: execution_step_def split: prod.split_asm sum.split_asm)
    moreover from this have "bound_to v upper q p" "lifetime_allowed p"
      using Execution_Verify_ok by blast+
    ultimately show ?thesis
      unfolding lifetime_allowed_iff by blast
  qed
  then show ?thesis
    using capabilities.accepted_once [OF assms] by blast
qed

section \<open>Samples\<close>

definition sample_signing_input :: SigningInput where
  "sample_signing_input =
     \<lparr>si_TransactionID = ''txn_1'', si_SellerID = ''sel_1'', si_RouteID = ''rte_1'', si_Method = RouteMethodPost,
      si_Path = ''/quote'', si_Body = ''{}'', si_PaymentFinality = PaymentFinalityFinalized\<rparr>"

definition sample_sdk :: sdk_config where
  "sample_sdk = \<lparr>sc_Secret = replicate 32 (CHR ''k''), sc_MaximumAge = 5 * Minute, sc_MaximumBodyBytes = 1000, sc_hasStore = True\<rparr>"

definition sample_headers :: SignatureHeaders where
  "sample_headers =
     \<lparr>sh_ExecutionCapability = [],
      sh_Signature = calculateHMAC (sc_Secret sample_sdk) sample_signing_input (FormatRFC3339Nano 1000),
      sh_Timestamp = FormatRFC3339Nano 1000, sh_Transaction = ''txn_1''\<rparr>"

lemma sample_request:
  "HMAC_Sign (Some (\<lambda>_. Inr (sc_Secret sample_sdk))) (Some 1000) ''ref'' sample_signing_input = Inr sample_headers"
  "TrimSpace (si_TransactionID sample_signing_input) \<noteq> []"
  "RouteMethod_wire (si_Method sample_signing_input) = ''POST''" "si_TransactionID sample_signing_input = ''txn_1''"
  "\<bar>Duration_Sub 2000 1000\<bar> \<le> sc_MaximumAge sample_sdk"
proof -
  have "TrimSpace ''ref'' = ''ref''" "TrimSpace ''txn_1'' = ''txn_1''"
    by code_simp+
  then show "HMAC_Sign (Some (\<lambda>_. Inr (sc_Secret sample_sdk))) (Some 1000) ''ref'' sample_signing_input = Inr sample_headers"
    "TrimSpace (si_TransactionID sample_signing_input) \<noteq> []"
    "RouteMethod_wire (si_Method sample_signing_input) = ''POST''" "si_TransactionID sample_signing_input = ''txn_1''"
    by (simp_all add: HMAC_Sign_def sample_signing_input_def sample_headers_def sample_sdk_def Let_def reject_if_def)
  show "\<bar>Duration_Sub 2000 1000\<bar> \<le> sc_MaximumAge sample_sdk"
    by (simp add: Duration_Sub_def sample_sdk_def)
qed

theorem forwarded_request_accepted_witness:
  "fst (sdk_Verify sample_sdk (\<lambda>s. s) 2000 (forwarded sample_signing_input sample_headers) NewMemoryReplayStore) = Inr ()"
proof -
  have "si_TransactionID sample_signing_input \<notin> dom (ms_transactions NewMemoryReplayStore)"
    by (simp add: NewMemoryReplayStore_def)
  from forwarded_request_accepted [of _ 1000 "''ref''" sample_signing_input sample_headers sample_sdk "\<lambda>s. s" 2000,
      OF sample_request(1) _ _ _ sample_request(2) _ sample_request(5) this]
  show ?thesis by simp
qed

theorem seller_requests_accepted_once_witness:
  "\<exists>s. accepted_keys (request_step sample_sdk (\<lambda>s. s))
       [(2000, forwarded sample_signing_input sample_headers), (2000, forwarded sample_signing_input sample_headers)]
       NewMemoryReplayStore = ([''txn_1''], s)
     \<and> distinct [''txn_1'']"
proof -
  let ?q = "forwarded sample_signing_input sample_headers" and ?s = NewMemoryReplayStore
  have free: "si_TransactionID sample_signing_input \<notin> dom (ms_transactions ?s)"
    by (simp add: NewMemoryReplayStore_def)
  have tx: "sq_TransactionID ?q = ''txn_1''"
    by (simp add: forwarded_def sample_headers_def)
  have one: "sdk_Verify sample_sdk (\<lambda>s. s) 2000 ?q ?s = (Inr (), ?s\<lparr>ms_transactions := (ms_transactions ?s)(''txn_1'' \<mapsto> 1000)\<rparr>)"
    using forwarded_verified [of _ 1000 "''ref''" sample_signing_input sample_headers sample_sdk "\<lambda>s. s" 2000,
        OF sample_request(1) _ _ _ sample_request(2) _ sample_request(5) free]
    by (simp add: sample_request(4))
  let ?s1 = "?s\<lparr>ms_transactions := (ms_transactions ?s)(''txn_1'' \<mapsto> 1000)\<rparr>"
  obtain e where two: "sdk_Verify sample_sdk (\<lambda>s. s) 2000 ?q ?s1 = (Inl e, ?s1)"
  proof (cases "sdk_Verify sample_sdk (\<lambda>s. s) 2000 ?q ?s1")
    case (Pair r s')
    then show ?thesis
      using sdk_Verify_ok [of sample_sdk "\<lambda>s. s" 2000 ?q ?s1] sdk_Verify_refused [of sample_sdk "\<lambda>s. s" 2000 ?q ?s1] tx that
      by (cases r) auto
  qed
  have run: "accepted_keys (request_step sample_sdk (\<lambda>s. s)) [(2000, ?q), (2000, ?q)] ?s = ([''txn_1''], ?s1)"
    by (simp add: request_step_def one two tx)
  then show ?thesis
    using seller_requests_accepted_once [OF run] by blast
qed

end
